(* ===== verification/UG_Prelude.thy ===== *)
theory UG_Prelude
  imports Main "HOL-Library.Word" "HOL-Library.Sublist"
begin

unbundle bit_operations_syntax

text \<open>
  Shared vocabulary of the development: the machine types of the C++ sources, the bridge between
  \<open>std::string\<close> (a \<^typ>\<open>string\<close>) and \<open>std::vector<std::uint8_t>\<close> (a list of 8-bit words), the
  little-endian readers, the search functions of \<open>std::string_view\<close>, and the generic lemmas on
  lists and words that several components use.

  Conventions kept by every theory: a \<open>std::size_t\<close> that is a length, an index or a capacity is a
  \<^typ>\<open>nat\<close>; a counter is a word of the width the header gives it, so that it wraps as in the
  program; a signed 64-bit time is an \<^typ>\<open>int\<close> (the C++ leaves signed overflow undefined, so the
  model agrees with every execution that has a meaning).
\<close>

type_synonym u8 = "8 word"
type_synonym u16 = "16 word"
type_synonym u32 = "32 word"
type_synonym u64 = "64 word"
type_synonym bytes = "u8 list"

text \<open>A nanosecond timestamp (\<open>ProtocolTimestampNs\<close>, \<open>ReceiverCommandTimestampNs\<close>,
  \<open>GnssTimestampNs\<close> are all \<open>std::int64_t\<close>).\<close>

type_synonym timestamp_ns = int

abbreviation int64_max :: int where
  "int64_max \<equiv> 9223372036854775807"

named_theorems framer_simps \<open>unfolding of the framers' operations\<close>
named_theorems frame_laws \<open>functional laws of the operations, one per branch\<close>

subsection \<open>Characters and bytes\<close>

definition byte_of :: "char \<Rightarrow> u8" where
  "byte_of c = word_of_nat (of_char c)"

definition char_of_byte :: "u8 \<Rightarrow> char" where
  "char_of_byte b = char_of (unat b)"

abbreviation bytes_of :: "string \<Rightarrow> bytes" where
  "bytes_of \<equiv> map byte_of"

abbreviation text_of :: "bytes \<Rightarrow> string" where
  "text_of \<equiv> map char_of_byte"

lemma of_char_nat_less: "(of_char c :: nat) < 256"
  by (metis of_char_mod_256 mod_less_divisor zero_less_numeral)

lemma unat_u8_less: "unat (b :: u8) < 256"
  using unsigned_less [of b, where 'a = nat] by simp

lemma char_of_byte_of [simp]: "char_of_byte (byte_of c) = c"
  using of_char_nat_less [of c] by (simp add: char_of_byte_def byte_of_def unat_of_nat)

lemma byte_of_char_of [simp]: "byte_of (char_of_byte b) = b"
  using unat_u8_less [of b] by (simp add: char_of_byte_def byte_of_def of_char_of)

lemma char_of_byte_inj [simp]: "char_of_byte a = char_of_byte b \<longleftrightarrow> a = b"
  by (metis byte_of_char_of)

lemma text_bytes_id [simp]: "map (char_of_byte \<circ> byte_of) s = s"
  by (simp add: map_idI)

lemma bytes_text_id [simp]: "map (byte_of \<circ> char_of_byte) bs = bs"
  by (simp add: map_idI)

lemma text_bytes [simp]: "text_of (bytes_of s) = s"
  by (induction s) simp_all

lemma bytes_text [simp]: "bytes_of (text_of bs) = bs"
  by (induction bs) simp_all

subsection \<open>Words as numbers\<close>

lemma unat_drop: "unat (drop_bit n w) = unat w div 2 ^ n"
  by (simp only: unat_drop_bit_eq) (simp add: drop_bit_eq_div)

lemma unat_u16_less: "unat (w :: u16) < 65536"
  using unsigned_less [of w, where 'a = nat] by simp

lemma unat_u32_less: "unat (w :: u32) < 4294967296"
  using unsigned_less [of w, where 'a = nat] by simp

subsection \<open>Slices of a buffer\<close>

text \<open>\<open>bslice off n xs\<close> is \<open>[xs.begin() + off, xs.begin() + off + n)\<close>, and \<open>text.substr(off, n)\<close>.\<close>

definition bslice :: "nat \<Rightarrow> nat \<Rightarrow> 'a list \<Rightarrow> 'a list" where
  "bslice off n xs = take n (drop off xs)"

lemma length_bslice [simp]: "length (bslice off n xs) = min n (length xs - off)"
  by (simp add: bslice_def min.commute)

lemma nth_bslice [simp]: "\<lbrakk>i < n; off + i < length xs\<rbrakk> \<Longrightarrow> bslice off n xs ! i = xs ! (off + i)"
  by (simp add: bslice_def)

lemma bslice_bslice:
  "a + k \<le> n \<Longrightarrow> bslice a k (bslice off n xs) = bslice (off + a) k xs"
  by (simp add: bslice_def drop_take min_def add.commute)

lemma bslice_0_length [simp]: "bslice 0 (length xs) xs = xs"
  by (simp add: bslice_def)

lemma bslice_append1: "bslice 0 (length xs) (xs @ ys) = xs"
  by (simp add: bslice_def)

lemma bslice_append2: "bslice (length xs) (length ys) (xs @ ys @ zs) = ys"
  by (simp add: bslice_def)

lemma sublist_bslice: "sublist (bslice off n xs) xs"
  unfolding bslice_def by (rule sublist_order.order_trans [OF sublist_take sublist_drop])

lemma subseq_bslice: "subseq (bslice off n xs) xs"
  by (rule sublist_imp_subseq) (rule sublist_bslice)

lemma sublist_append_right: "sublist xs ys \<Longrightarrow> sublist xs (ys @ zs)"
  unfolding sublist_def by (metis append_assoc)

text \<open>The three shapes a sync search distinguishes.\<close>

lemma buffer_cases:
  obtains "b = []" | x where "b = [x]" | "2 \<le> length b"
  by (cases b; cases "tl b") auto

subsection \<open>Little-endian integers in a buffer\<close>

text \<open>\<open>static_cast<std::size_t>(lo) | (static_cast<std::size_t>(hi) << 8)\<close>\<close>

definition le16_size :: "u8 \<Rightarrow> u8 \<Rightarrow> nat" where
  "le16_size lo hi = unat lo OR push_bit 8 (unat hi)"

lemma or_push_bit_8: "(a :: nat) < 256 \<Longrightarrow> a OR push_bit 8 b = a + 256 * b"
proof -
  assume a: "a < 256"
  then have "take_bit 8 a = a" by (simp add: take_bit_nat_eq_self)
  then have "a AND push_bit 8 b = 0"
    by (metis bit_eqI bit_and_iff bit_push_bit_iff bit_take_bit_iff not_le bit_0_eq bot_apply bot_bool_def)
  then show ?thesis by (simp add: disjunctive_add_eq_or [symmetric] push_bit_eq_mult)
qed

lemma le16_size_eq: "le16_size lo hi = unat lo + 256 * unat hi"
  by (simp only: le16_size_def or_push_bit_8 unat_u8_less)

lemma le16_size_bound: "le16_size lo hi < 65536"
  using unat_u8_less [of lo] unat_u8_less [of hi] by (simp add: le16_size_eq)

end
