(* ===== verification/Protocol_Records.thy ===== *)
theory Protocol_Records
  imports UG_Prelude
begin

text \<open>
  The data every framer and parser shares
  (\<open>gnss_protocols/include/universal_gnss_protocols/parser_status.hpp\<close>, \<open>parser_result.hpp\<close>,
  \<open>protocol_type.hpp\<close>, \<open>protocol_records.hpp\<close>, \<open>unicore_binary_records.hpp\<close>): status codes, the result of one
  \<open>PushByte\<close> or \<open>Finalize\<close>, and the record a framer delivers for each wire protocol.
\<close>

section \<open>Results\<close>

datatype ParserStatus =
    PS_kIdle
  | PS_kNeedMoreData
  | PS_kRecordReady
  | PS_kSkipped
  | PS_kInvalidData
  | PS_kTruncated
  | PS_kOverflow

record 'r ParserResult =
  pr_status :: ParserStatus
  pr_record :: "'r option"

definition DefaultResult :: "'r ParserResult" where
  "DefaultResult = \<lparr>pr_status = PS_kIdle, pr_record = None\<rparr>"

definition NeedMoreData :: "'r ParserResult" where
  "NeedMoreData = \<lparr>pr_status = PS_kNeedMoreData, pr_record = None\<rparr>"

definition RecordReady :: "'r \<Rightarrow> 'r ParserResult" where
  "RecordReady record_value = \<lparr>pr_status = PS_kRecordReady, pr_record = Some record_value\<rparr>"

definition Skipped :: "'r ParserResult" where
  "Skipped = \<lparr>pr_status = PS_kSkipped, pr_record = None\<rparr>"

definition InvalidData :: "'r ParserResult" where
  "InvalidData = \<lparr>pr_status = PS_kInvalidData, pr_record = None\<rparr>"

definition Truncated :: "'r ParserResult" where
  "Truncated = \<lparr>pr_status = PS_kTruncated, pr_record = None\<rparr>"

definition Overflow :: "'r ParserResult" where
  "Overflow = \<lparr>pr_status = PS_kOverflow, pr_record = None\<rparr>"

lemmas parser_result_defs =
  DefaultResult_def NeedMoreData_def RecordReady_def Skipped_def InvalidData_def Truncated_def
  Overflow_def

lemma pr_record_simps [simp]:
  "pr_record DefaultResult = None" "pr_record NeedMoreData = None" "pr_record Skipped = None"
  "pr_record InvalidData = None" "pr_record Truncated = None" "pr_record Overflow = None"
  "pr_record (RecordReady r) = Some r"
  by (simp_all add: parser_result_defs)

lemma pr_status_simps [simp]:
  "pr_status DefaultResult = PS_kIdle" "pr_status NeedMoreData = PS_kNeedMoreData"
  "pr_status Skipped = PS_kSkipped" "pr_status InvalidData = PS_kInvalidData"
  "pr_status Truncated = PS_kTruncated" "pr_status Overflow = PS_kOverflow"
  "pr_status (RecordReady r) = PS_kRecordReady"
  by (simp_all add: parser_result_defs)

section \<open>Records\<close>

datatype ProtocolType = PT_kUnknown | PT_kNmea | PT_kRtcm3 | PT_kUbx | PT_kUnicore

datatype ChecksumStatus = CS_kNotChecked | CS_kMissing | CS_kValid | CS_kInvalid

record NmeaSentence =
  nmea_protocol :: ProtocolType
  nmea_timestamp_ns :: "timestamp_ns option"
  nmea_leader :: char
  nmea_talker :: string
  nmea_sentence_type :: string
  nmea_payload_text :: string
  nmea_raw_bytes :: bytes
  nmea_checksum_status :: ChecksumStatus
  nmea_reported_checksum :: "u8 option"
  nmea_computed_checksum :: "u8 option"

definition NmeaSentence_default :: NmeaSentence where
  "NmeaSentence_default =
     \<lparr>nmea_protocol = PT_kNmea, nmea_timestamp_ns = None, nmea_leader = CHR ''$'', nmea_talker = [],
      nmea_sentence_type = [], nmea_payload_text = [], nmea_raw_bytes = [],
      nmea_checksum_status = CS_kMissing, nmea_reported_checksum = None,
      nmea_computed_checksum = None\<rparr>"

record RtcmFrame =
  rtcm_protocol :: ProtocolType
  rtcm_timestamp_ns :: "timestamp_ns option"
  rtcm_message_type :: u16
  rtcm_payload :: bytes
  rtcm_raw_bytes :: bytes
  rtcm_checksum_status :: ChecksumStatus
  rtcm_reported_crc24q :: u32
  rtcm_computed_crc24q :: u32

record UbxFrame =
  ubx_protocol :: ProtocolType
  ubx_timestamp_ns :: "timestamp_ns option"
  ubx_class_id :: u8
  ubx_message_id :: u8
  ubx_payload :: bytes
  ubx_raw_bytes :: bytes
  ubx_checksum_status :: ChecksumStatus
  ubx_reported_ck_a :: "u8 option"
  ubx_reported_ck_b :: "u8 option"
  ubx_computed_ck_a :: u8
  ubx_computed_ck_b :: u8

record UnicoreFrame =
  uni_protocol :: ProtocolType
  uni_timestamp_ns :: "timestamp_ns option"
  uni_sync_char :: char
  uni_message_name :: string
  uni_payload :: bytes
  uni_raw_bytes :: bytes
  uni_checksum_status :: ChecksumStatus
  uni_reported_crc32 :: u32
  uni_computed_crc32 :: u32

definition UnicoreFrame_default :: UnicoreFrame where
  "UnicoreFrame_default =
     \<lparr>uni_protocol = PT_kUnicore, uni_timestamp_ns = None, uni_sync_char = CHR ''#'',
      uni_message_name = [], uni_payload = [], uni_raw_bytes = [],
      uni_checksum_status = CS_kNotChecked, uni_reported_crc32 = 0, uni_computed_crc32 = 0\<rparr>"

record UnicoreBinaryFrame =
  unib_protocol :: ProtocolType
  unib_timestamp_ns :: "timestamp_ns option"
  unib_header_length :: u8
  unib_cpu_idle :: u8
  unib_message_id :: u16
  unib_payload_length :: u16
  unib_time_ref :: u8
  unib_time_status :: u8
  unib_week_number :: u16
  unib_milliseconds_of_week :: u32
  unib_header_version :: u32
  unib_reserved :: u8
  unib_leap_seconds :: u8
  unib_delay_ms :: u16
  unib_payload_offset :: nat
  unib_payload :: bytes
  unib_raw_bytes :: bytes
  unib_checksum_status :: ChecksumStatus
  unib_reported_crc32 :: u32
  unib_computed_crc32 :: u32

end
