(* ===== verification/Stream_Framer.thy ===== *)
theory Stream_Framer
  imports Protocol_Records
begin

text \<open>
  The interface \<open>StreamParserBase\<close> of \<open>parser_base.hpp\<close> and what its clients may rely on.  A client
  calls \<open>PushByte\<close> once per received byte (the loops of \<open>NtripClient::FeedRtcmMonitor\<close> and of
  \<open>DetectWithFramer\<close>), which \<open>feed\<close> models.  Two contracts are stated as locales: a framer neither
  invents, repeats nor reorders bytes and keeps a bounded buffer (\<open>conserving_framer\<close>), and a framer
  delivers exactly the frames of a stream of well-formed frames separated by noise
  (\<open>recognising_framer\<close>).  Each framer theory interprets both on its own operations.
\<close>

type_synonym ('s, 'r) push_byte = "'s \<Rightarrow> u8 \<Rightarrow> timestamp_ns option \<Rightarrow> 's \<times> 'r ParserResult"
type_synonym stamped = "u8 \<times> timestamp_ns option"

fun feed :: "('s, 'r) push_byte \<Rightarrow> 's \<Rightarrow> stamped list \<Rightarrow> 's \<times> 'r ParserResult list" where
  "feed push s [] = (s, [])"
| "feed push s ((b, t) # xs) =
     (let (s1, r) = push s b t; (s2, rs) = feed push s1 xs in (s2, r # rs))"

definition emitted :: "'r ParserResult list \<Rightarrow> 'r list" where
  "emitted rs = List.map_filter pr_record rs"

lemma emitted_Nil [simp]: "emitted [] = []"
  by (simp add: emitted_def)

lemma emitted_Cons: "emitted (r # rs) = (case pr_record r of None \<Rightarrow> [] | Some x \<Rightarrow> [x]) @ emitted rs"
  by (simp add: emitted_def map_filter_simps split: option.splits)

lemma emitted_append [simp]: "emitted (xs @ ys) = emitted xs @ emitted ys"
  by (induction xs) (simp_all add: emitted_Cons)

lemma emitted_replicate_NeedMoreData [simp]: "emitted (replicate n NeedMoreData) = []"
  by (induction n) (simp_all add: emitted_Cons)

lemma feed_step:
  "feed push s (x # xs) =
     (let p = push s (fst x) (snd x); q = feed push (fst p) xs in (fst q, snd p # snd q))"
  by (cases x) (simp add: case_prod_beta Let_def)

lemma feed_append:
  "feed push s (xs @ ys) =
     (let (s1, rs1) = feed push s xs; (s2, rs2) = feed push s1 ys in (s2, rs1 @ rs2))"
  by (induction xs arbitrary: s) (simp_all add: feed_step Let_def case_prod_beta del: feed.simps(2))

lemma feed_preserves:
  "(\<And>s b t. f (fst (push s b t)) = f s) \<Longrightarrow> f (fst (feed push s xs)) = f s"
  by (induction xs arbitrary: s) (simp_all add: feed_step Let_def del: feed.simps(2))

section \<open>Nothing is invented\<close>

text \<open>\<open>raw r\<close> is the wire image of a delivered record, \<open>buf s\<close> what the framer holds back.\<close>

definition raw_of :: "('r \<Rightarrow> bytes) \<Rightarrow> 'r ParserResult \<Rightarrow> bytes" where
  "raw_of raw r = (case pr_record r of None \<Rightarrow> [] | Some x \<Rightarrow> raw x)"

locale conserving_framer =
  fixes push :: "('s, 'r) push_byte"
    and buf :: "'s \<Rightarrow> bytes"
    and raw :: "'r \<Rightarrow> bytes"
    and cap :: "'s \<Rightarrow> nat"
    and invar :: "'s \<Rightarrow> bool"
  assumes push_invar: "invar s \<Longrightarrow> invar (fst (push s b t))"
    and push_cap: "invar s \<Longrightarrow> cap (fst (push s b t)) = cap s"
    and push_conserves:
      "invar s \<Longrightarrow>
         subseq (raw_of raw (snd (push s b t)) @ buf (fst (push s b t))) (buf s @ [b])"
    and buf_bounded: "invar s \<Longrightarrow> length (buf s) \<le> cap s"
begin

lemma feed_invar: "invar s \<Longrightarrow> invar (fst (feed push s xs))"
  by (induction xs arbitrary: s) (simp_all add: feed_step Let_def push_invar del: feed.simps(2))

lemma feed_cap: "invar s \<Longrightarrow> cap (fst (feed push s xs)) = cap s"
  by (induction xs arbitrary: s) (simp_all add: feed_step Let_def push_invar push_cap del: feed.simps(2))

lemma feed_conserves:
  "invar s \<Longrightarrow>
     subseq (concat (map raw (emitted (snd (feed push s xs)))) @ buf (fst (feed push s xs)))
       (buf s @ map fst xs)"
proof (induction xs arbitrary: s)
  case Nil
  then show ?case by simp
next
  case (Cons x xs)
  obtain b t where x: "x = (b, t)" by fastforce
  let ?s1 = "fst (push s b t)" and ?r = "snd (push s b t)"
  let ?rest = "concat (map raw (emitted (snd (feed push ?s1 xs)))) @ buf (fst (feed push ?s1 xs))"
  have "subseq ?rest (buf ?s1 @ map fst xs)"
    by (rule Cons.IH) (rule push_invar [OF Cons.prems])
  then have "subseq (raw_of raw ?r @ ?rest) (raw_of raw ?r @ buf ?s1 @ map fst xs)"
    by (rule list_emb_append_mono [OF subseq_order.order_refl])
  also have "subseq \<dots> ((buf s @ [b]) @ map fst xs)"
    using push_conserves [OF Cons.prems, of b t]
    by (metis append.assoc list_emb_append_mono subseq_order.order_refl)
  finally show ?case
    by (simp add: x split_beta emitted_Cons raw_of_def split: option.splits)
qed

lemma feed_accounting:
  assumes "invar s"
  shows "sum_list (map (length \<circ> raw) (emitted (snd (feed push s xs))))
           + length (buf (fst (feed push s xs))) \<le> length (buf s) + length xs"
  using list_emb_length [OF feed_conserves [OF assms, of xs]]
  by (simp add: length_concat o_def)

lemma feed_bounded: "invar s \<Longrightarrow> length (buf (fst (feed push s xs))) \<le> cap s"
  using feed_invar feed_cap buf_bounded by metis

end

section \<open>Valid records are frames of the stream\<close>

text \<open>A framer whose buffer is always the newest part of the stream, and whose valid records are records
  of well-formed frames found in it, only ever reports frames the stream really contained.\<close>

locale sound_framer = conserving_framer push buf raw cap invar
  for push :: "('s, 'r) push_byte" and buf raw cap invar +
  fixes lim :: "'s \<Rightarrow> nat"
    and valid :: "'r \<Rightarrow> bool"
    and good :: "nat \<Rightarrow> bytes \<Rightarrow> bool"
    and rec :: "bytes \<Rightarrow> timestamp_ns option \<Rightarrow> 'r"
  assumes push_lim: "lim (fst (push s b t)) = lim s"
    and push_suffix: "suffix (buf (fst (push s b t))) (buf s @ [b])"
    and push_sound: "\<lbrakk>invar s; pr_record (snd (push s b t)) = Some r; valid r\<rbrakk> \<Longrightarrow>
      \<exists>bs ts. good (lim s) bs \<and> sublist bs (buf s @ [b]) \<and> r = rec bs ts"
begin

lemma feed_sound:
  "\<lbrakk>invar s; r \<in> set (emitted (snd (feed push s xs))); valid r\<rbrakk> \<Longrightarrow>
     \<exists>bs ts. good (lim s) bs \<and> sublist bs (buf s @ map fst xs) \<and> r = rec bs ts"
proof (induction xs arbitrary: s)
  case Nil
  then show ?case by simp
next
  case (Cons x xs)
  obtain b t where x: "x = (b, t)" by fastforce
  let ?s1 = "fst (push s b t)"
  from Cons.prems(2) have "pr_record (snd (push s b t)) = Some r
      \<or> r \<in> set (emitted (snd (feed push ?s1 xs)))"
    by (auto simp: x split_beta emitted_Cons split: option.splits)
  then show ?case
  proof
    assume "pr_record (snd (push s b t)) = Some r"
    then obtain bs ts where "good (lim s) bs" "sublist bs (buf s @ [b])" "r = rec bs ts"
      using push_sound [OF Cons.prems(1) _ Cons.prems(3)] by blast
    moreover from this(2) have "sublist bs (buf s @ map fst (x # xs))"
      using sublist_append_right [of bs "buf s @ [b]" "map fst xs"] by (simp add: x)
    ultimately show ?thesis by blast
  next
    assume "r \<in> set (emitted (snd (feed push ?s1 xs)))"
    from Cons.IH [OF push_invar [OF Cons.prems(1)] this Cons.prems(3)]
    obtain bs ts where "good (lim s) bs" "sublist bs (buf ?s1 @ map fst xs)" "r = rec bs ts"
      by (auto simp: push_lim)
    moreover have "suffix (buf ?s1 @ map fst xs) (buf s @ map fst (x # xs))"
      using push_suffix [of s b t] by (auto simp: x suffix_def)
    then have "sublist (buf ?s1 @ map fst xs) (buf s @ map fst (x # xs))"
      by (rule suffix_imp_sublist)
    ultimately show ?thesis using sublist_order.order_trans by blast
  qed
qed

end

section \<open>Well-formed frames are recognised\<close>

datatype segment = Noise "stamped list" | Frame "stamped list"

primrec seg_bytes :: "segment \<Rightarrow> stamped list" where
  "seg_bytes (Noise xs) = xs"
| "seg_bytes (Frame xs) = xs"

text \<open>A segment is acceptable when its noise holds no start byte and its frame is well formed.\<close>

definition seg_ok :: "(u8 \<Rightarrow> bool) \<Rightarrow> (bytes \<Rightarrow> bool) \<Rightarrow> segment \<Rightarrow> bool" where
  "seg_ok starts good seg =
     (case seg of Noise xs \<Rightarrow> list_all (\<lambda>x. \<not> starts (fst x)) xs | Frame xs \<Rightarrow> good (map fst xs))"

definition seg_records :: "(bytes \<Rightarrow> timestamp_ns option \<Rightarrow> 'r) \<Rightarrow> segment \<Rightarrow> 'r list" where
  "seg_records rec seg =
     (case seg of Noise xs \<Rightarrow> [] | Frame xs \<Rightarrow> [rec (map fst xs) (snd (hd xs))])"

text \<open>\<open>mid s bs t k\<close>: the framer has consumed the first \<open>k\<close> bytes of the frame \<open>bs\<close>, the first of
  them received at \<open>t\<close>.\<close>

locale recognising_framer =
  fixes push :: "('s, 'r) push_byte"
    and cap :: "'s \<Rightarrow> nat"
    and idle :: "'s \<Rightarrow> bool"
    and starts :: "u8 \<Rightarrow> bool"
    and good :: "nat \<Rightarrow> bytes \<Rightarrow> bool"
    and rec :: "bytes \<Rightarrow> timestamp_ns option \<Rightarrow> 'r"
    and mid :: "'s \<Rightarrow> bytes \<Rightarrow> timestamp_ns option \<Rightarrow> nat \<Rightarrow> bool"
  assumes good_length: "good m bs \<Longrightarrow> 2 \<le> length bs"
    and push_noise: "\<lbrakk>idle s; \<not> starts b\<rbrakk> \<Longrightarrow>
      pr_record (snd (push s b t)) = None \<and> idle (fst (push s b t))
        \<and> cap (fst (push s b t)) = cap s"
    and push_first: "\<lbrakk>idle s; good (cap s) bs\<rbrakk> \<Longrightarrow>
      snd (push s (hd bs) t) = NeedMoreData \<and> mid (fst (push s (hd bs) t)) bs t 1
        \<and> cap (fst (push s (hd bs) t)) = cap s"
    and push_next: "\<lbrakk>mid s bs t k; good (cap s) bs; 1 \<le> k; Suc k < length bs\<rbrakk> \<Longrightarrow>
      snd (push s (bs ! k) u) = NeedMoreData \<and> mid (fst (push s (bs ! k) u)) bs t (Suc k)
        \<and> cap (fst (push s (bs ! k) u)) = cap s"
    and push_last: "\<lbrakk>mid s bs t k; good (cap s) bs; 1 \<le> k; Suc k = length bs\<rbrakk> \<Longrightarrow>
      snd (push s (bs ! k) u) = RecordReady (rec bs t) \<and> idle (fst (push s (bs ! k) u))
        \<and> cap (fst (push s (bs ! k) u)) = cap s"
begin

lemma feed_noise:
  "\<lbrakk>idle s; list_all (\<lambda>x. \<not> starts (fst x)) xs\<rbrakk> \<Longrightarrow>
     emitted (snd (feed push s xs)) = [] \<and> idle (fst (feed push s xs))
       \<and> cap (fst (feed push s xs)) = cap s"
proof (induction xs arbitrary: s)
  case Nil
  then show ?case by simp
next
  case (Cons x xs)
  obtain b t where x: "x = (b, t)" by fastforce
  from Cons.prems have "\<not> starts b" by (simp add: x)
  from push_noise [OF Cons.prems(1) this, of t] Cons.IH [of "fst (push s b t)"] Cons.prems(2)
  show ?case by (auto simp: x split_beta emitted_Cons)
qed

lemma feed_mid:
  "\<lbrakk>mid s bs t k; good (cap s) bs; 1 \<le> k; k < length bs; map fst xs = drop k bs\<rbrakk> \<Longrightarrow>
     snd (feed push s xs) = replicate (length bs - Suc k) NeedMoreData @ [RecordReady (rec bs t)]
       \<and> idle (fst (feed push s xs)) \<and> cap (fst (feed push s xs)) = cap s"
proof (induction xs arbitrary: s k)
  case Nil
  then show ?case by simp
next
  case (Cons x xs)
  obtain b u where x: "x = (b, u)" by fastforce
  from Cons.prems(4,5) have b: "b = bs ! k" and rest: "map fst xs = drop (Suc k) bs"
    by (simp_all add: x Cons_nth_drop_Suc [symmetric])
  show ?case
  proof (cases "Suc k < length bs")
    case True
    note step = push_next [OF Cons.prems(1,2,3) True, of u]
    from step Cons.IH [of "fst (push s b u)" "Suc k"] Cons.prems(2) True rest
    have "snd (feed push (fst (push s b u)) xs)
            = replicate (length bs - Suc (Suc k)) NeedMoreData @ [RecordReady (rec bs t)]
          \<and> idle (fst (feed push (fst (push s b u)) xs))
          \<and> cap (fst (feed push (fst (push s b u)) xs)) = cap s"
      by (simp add: b)
    moreover have "length bs - Suc k = Suc (length bs - Suc (Suc k))" using True by simp
    ultimately show ?thesis using step by (simp add: x b split_beta)
  next
    case False
    with Cons.prems(4) have last: "Suc k = length bs" by simp
    with rest have "xs = []" by simp
    with push_last [OF Cons.prems(1,2,3) last, of u] last show ?thesis
      by (simp add: x b split_beta)
  qed
qed

lemma feed_frame:
  assumes "idle s" and "good (cap s) (map fst xs)"
  shows "snd (feed push s xs)
           = replicate (length xs - 1) NeedMoreData @ [RecordReady (rec (map fst xs) (snd (hd xs)))]
         \<and> idle (fst (feed push s xs)) \<and> cap (fst (feed push s xs)) = cap s"
proof -
  let ?bs = "map fst xs"
  have len: "2 \<le> length xs" using good_length [OF assms(2)] by simp
  then obtain b t ys where xs: "xs = (b, t) # ys" by (metis length_0_conv not_numeral_le_zero surj_pair list.exhaust)
  note first = push_first [OF assms, of t]
  have hd: "hd ?bs = b" by (simp add: xs)
  have "snd (feed push (fst (push s b t)) ys)
          = replicate (length ?bs - Suc 1) NeedMoreData @ [RecordReady (rec ?bs t)]
        \<and> idle (fst (feed push (fst (push s b t)) ys))
        \<and> cap (fst (feed push (fst (push s b t)) ys)) = cap (fst (push s b t))"
    by (rule feed_mid) (use first assms(2) len in \<open>simp_all add: hd, simp_all add: xs\<close>)
  moreover have "length xs - 1 = Suc (length ?bs - Suc 1)" using len by simp
  ultimately show ?thesis using first by (simp add: hd, simp add: xs split_beta)
qed

lemma feed_segments:
  "\<lbrakk>idle s; list_all (seg_ok starts (good (cap s))) segs\<rbrakk> \<Longrightarrow>
     emitted (snd (feed push s (concat (map seg_bytes segs)))) = concat (map (seg_records rec) segs)
       \<and> idle (fst (feed push s (concat (map seg_bytes segs))))"
proof (induction segs arbitrary: s)
  case Nil
  then show ?case by simp
next
  case (Cons seg segs)
  let ?s1 = "fst (feed push s (seg_bytes seg))"
  have one: "emitted (snd (feed push s (seg_bytes seg))) = seg_records rec seg \<and> idle ?s1
               \<and> cap ?s1 = cap s"
  proof (cases seg)
    case (Noise xs)
    with Cons.prems show ?thesis
      using feed_noise [of s xs] by (simp add: seg_ok_def seg_records_def)
  next
    case (Frame xs)
    with Cons.prems show ?thesis
      using feed_frame [of s xs] by (simp add: seg_ok_def seg_records_def emitted_Cons)
  qed
  then show ?case
    using Cons.IH [of ?s1] Cons.prems(2) by (simp add: feed_append split_beta)
qed

end

end
