(* ===== verification/Ubx_Framer.thy ===== *)
theory Ubx_Framer
  imports Stream_Framer Checksums
begin

text \<open>
  \<open>UbxFrameFramer\<close> of \<open>gnss_protocols/src/ubx_framer.cpp\<close>: sync bytes B5 62, class, id, a 16-bit
  little-endian payload length, the payload and the two checksum bytes.  A complete frame whose checksum
  fails is searched for an embedded valid frame, so that a false sync inside noise does not swallow it.
\<close>

section \<open>Model\<close>

record UbxFrameFramer =
  ubf_max_frame_length :: nat
  ubf_buffer :: bytes
  ubf_byte_timestamps :: "timestamp_ns option list"
  ubf_frame_timestamp_ns :: "timestamp_ns option"
  ubf_expected_frame_size :: nat

abbreviation (input) kUbxSync1 :: u8 where "kUbxSync1 \<equiv> 0xB5"
abbreviation (input) kUbxSync2 :: u8 where "kUbxSync2 \<equiv> 0x62"
abbreviation (input) kUbxHeaderSize :: nat where "kUbxHeaderSize \<equiv> 6"
abbreviation (input) kUbxChecksumSize :: nat where "kUbxChecksumSize \<equiv> 2"

definition ubx_new :: "nat \<Rightarrow> UbxFrameFramer" where
  "ubx_new max_frame_length =
     \<lparr>ubf_max_frame_length = max_frame_length, ubf_buffer = [], ubf_byte_timestamps = [],
      ubf_frame_timestamp_ns = None, ubf_expected_frame_size = 0\<rparr>"

definition ubx_Reset :: "UbxFrameFramer \<Rightarrow> UbxFrameFramer" where
  "ubx_Reset s = s\<lparr>ubf_buffer := [], ubf_byte_timestamps := [], ubf_frame_timestamp_ns := None,
                   ubf_expected_frame_size := 0\<rparr>"

definition ubx_AppendByte :: "UbxFrameFramer \<Rightarrow> u8 \<Rightarrow> timestamp_ns option \<Rightarrow> UbxFrameFramer" where
  "ubx_AppendByte s byte ts = s\<lparr>ubf_buffer := ubf_buffer s @ [byte],
                                ubf_byte_timestamps := ubf_byte_timestamps s @ [ts]\<rparr>"

definition ubx_StartSync ::
  "UbxFrameFramer \<Rightarrow> u8 \<Rightarrow> timestamp_ns option \<Rightarrow> UbxFrameFramer \<times> UbxFrame ParserResult" where
  "ubx_StartSync s byte ts =
     (if byte \<noteq> kUbxSync1 then (s, Skipped)
      else ((ubx_AppendByte s byte ts)\<lparr>ubf_frame_timestamp_ns := ts, ubf_expected_frame_size := 0\<rparr>,
            NeedMoreData))"

definition ubx_BuildFrame :: "bytes \<Rightarrow> nat \<Rightarrow> nat \<Rightarrow> timestamp_ns option \<Rightarrow> UbxFrame" where
  "ubx_BuildFrame buffer frame_offset frame_size ts =
     (let payload_size = frame_size - kUbxHeaderSize - kUbxChecksumSize;
          reported_a = buffer ! (frame_offset + frame_size - 2);
          reported_b = buffer ! (frame_offset + frame_size - 1);
          computed = ComputeUbxChecksum
                       (bslice (frame_offset + 2) (frame_size - 2 - kUbxChecksumSize) buffer)
      in \<lparr>ubx_protocol = PT_kUbx,
          ubx_timestamp_ns = ts,
          ubx_class_id = buffer ! (frame_offset + 2),
          ubx_message_id = buffer ! (frame_offset + 3),
          ubx_payload = bslice (frame_offset + kUbxHeaderSize) payload_size buffer,
          ubx_raw_bytes = bslice frame_offset frame_size buffer,
          ubx_checksum_status =
            (if reported_a = ck_a computed \<and> reported_b = ck_b computed then CS_kValid else CS_kInvalid),
          ubx_reported_ck_a = Some reported_a,
          ubx_reported_ck_b = Some reported_b,
          ubx_computed_ck_a = ck_a computed,
          ubx_computed_ck_b = ck_b computed\<rparr>)"

text \<open>The candidate test of one iteration of the search, then the loop over \<open>frame_offset\<close>.\<close>

definition ubx_candidate :: "UbxFrameFramer \<Rightarrow> nat \<Rightarrow> UbxFrame option" where
  "ubx_candidate s frame_offset =
     (let b = ubf_buffer s in
      if b ! frame_offset \<noteq> kUbxSync1 \<or> b ! (frame_offset + 1) \<noteq> kUbxSync2 then None
      else
        let payload_size = le16_size (b ! (frame_offset + 4)) (b ! (frame_offset + 5));
            frame_size = kUbxHeaderSize + payload_size + kUbxChecksumSize in
        if frame_size > ubf_max_frame_length s \<or> frame_size > length b - frame_offset then None
        else
          let candidate = ubx_BuildFrame b frame_offset frame_size
                            (ubf_byte_timestamps s ! frame_offset) in
          if ubx_checksum_status candidate = CS_kValid then Some candidate else None)"

function ubx_find_from :: "UbxFrameFramer \<Rightarrow> nat \<Rightarrow> UbxFrame option" where
  "ubx_find_from s frame_offset =
     (if frame_offset + kUbxHeaderSize + kUbxChecksumSize \<le> length (ubf_buffer s) then
        (case ubx_candidate s frame_offset of
           Some candidate \<Rightarrow> Some candidate
         | None \<Rightarrow> ubx_find_from s (Suc frame_offset))
      else None)"
  by pat_completeness auto
termination
  by (relation "measure (\<lambda>(s, off). length (ubf_buffer s) - off)") auto

declare ubx_find_from.simps [simp del]

definition ubx_FindEmbeddedValidFrame :: "UbxFrameFramer \<Rightarrow> UbxFrame option" where
  "ubx_FindEmbeddedValidFrame s = ubx_find_from s 1"

text \<open>The sixth byte announces the frame size; the last byte completes the frame.\<close>

definition ubx_NoteHeader :: "UbxFrameFramer \<Rightarrow> UbxFrameFramer" where
  "ubx_NoteHeader s =
     (let b = ubf_buffer s in
      if length b = kUbxHeaderSize
      then s\<lparr>ubf_expected_frame_size :=
               kUbxHeaderSize + le16_size (b ! 4) (b ! 5) + kUbxChecksumSize\<rparr>
      else s)"

definition ubx_Complete :: "UbxFrameFramer \<Rightarrow> UbxFrameFramer \<times> UbxFrame ParserResult" where
  "ubx_Complete s =
     (let frame = ubx_BuildFrame (ubf_buffer s) 0 (length (ubf_buffer s)) (ubf_frame_timestamp_ns s) in
      if ubx_checksum_status frame \<noteq> CS_kValid
      then (case ubx_FindEmbeddedValidFrame s of
              Some recovered \<Rightarrow> (ubx_Reset s, RecordReady recovered)
            | None \<Rightarrow> (ubx_Reset s, RecordReady frame))
      else (ubx_Reset s, RecordReady frame))"

definition ubx_PushByte ::
  "UbxFrameFramer \<Rightarrow> u8 \<Rightarrow> timestamp_ns option \<Rightarrow> UbxFrameFramer \<times> UbxFrame ParserResult" where
  "ubx_PushByte s byte ts =
     (if ubf_buffer s = [] then ubx_StartSync s byte ts
      else if length (ubf_buffer s) = 1 then
        (if byte = kUbxSync2 then (ubx_AppendByte s byte ts, NeedMoreData)
         else if byte = kUbxSync1 then
           (s\<lparr>ubf_buffer := [byte], ubf_byte_timestamps := [ts], ubf_frame_timestamp_ns := ts\<rparr>,
            NeedMoreData)
         else (ubx_Reset s, Skipped))
      else
        let s2 = ubx_NoteHeader (ubx_AppendByte s byte ts);
            size = length (ubf_buffer s2) in
        if size = kUbxHeaderSize \<and> ubf_expected_frame_size s2 > ubf_max_frame_length s2
        then (ubx_Reset s2, Overflow)
        else if ubf_buffer s2 \<noteq> [] \<and> size > ubf_max_frame_length s2 then (ubx_Reset s2, Overflow)
        else if ubf_expected_frame_size s2 = 0 \<or> size < ubf_expected_frame_size s2
        then (s2, NeedMoreData)
        else ubx_Complete s2)"

definition ubx_Finalize :: "UbxFrameFramer \<Rightarrow> UbxFrameFramer \<times> UbxFrame ParserResult" where
  "ubx_Finalize s =
     (if ubf_buffer s = [] then (s, DefaultResult) else (ubx_Reset s, Truncated))"

definition ubx_has_buffered_data :: "UbxFrameFramer \<Rightarrow> bool" where
  "ubx_has_buffered_data s = (ubf_buffer s \<noteq> [])"

section \<open>What a valid frame is\<close>

definition ubx_good :: "nat \<Rightarrow> bytes \<Rightarrow> bool" where
  "ubx_good m bs \<longleftrightarrow>
     8 \<le> length bs \<and> bs ! 0 = kUbxSync1 \<and> bs ! 1 = kUbxSync2
     \<and> length bs = 8 + le16_size (bs ! 4) (bs ! 5) \<and> length bs \<le> m
     \<and> ValidateUbxChecksum (bslice 2 (length bs - 4) bs)
         \<lparr>ck_a = bs ! (length bs - 2), ck_b = bs ! (length bs - 1)\<rparr>"

definition ubx_record :: "bytes \<Rightarrow> timestamp_ns option \<Rightarrow> UbxFrame" where
  "ubx_record bs ts = ubx_BuildFrame bs 0 (length bs) ts"

text \<open>The state between two calls: the buffer is a prefix of a frame whose announced size is known
  from the sixth byte on.\<close>

definition ubx_inv :: "UbxFrameFramer \<Rightarrow> bool" where
  "ubx_inv s \<longleftrightarrow>
     (let b = ubf_buffer s in
      length (ubf_byte_timestamps s) = length b
      \<and> (length b < 6 \<longrightarrow> ubf_expected_frame_size s = 0 \<and> length b \<le> max 2 (ubf_max_frame_length s))
      \<and> (6 \<le> length b \<longrightarrow> ubf_expected_frame_size s = 8 + le16_size (b ! 4) (b ! 5)
            \<and> length b < ubf_expected_frame_size s
            \<and> ubf_expected_frame_size s \<le> ubf_max_frame_length s)
      \<and> (1 \<le> length b \<longrightarrow> b ! 0 = kUbxSync1) \<and> (2 \<le> length b \<longrightarrow> b ! 1 = kUbxSync2))"

definition ubx_mid :: "UbxFrameFramer \<Rightarrow> bytes \<Rightarrow> timestamp_ns option \<Rightarrow> nat \<Rightarrow> bool" where
  "ubx_mid s bs ts k \<longleftrightarrow>
     ubf_buffer s = take k bs \<and> ubf_frame_timestamp_ns s = ts
     \<and> ubf_expected_frame_size s = (if k < 6 then 0 else length bs)"

section \<open>Lemmas\<close>

lemma ubx_Reset_simps [simp]:
  "ubf_buffer (ubx_Reset s) = []" "ubf_byte_timestamps (ubx_Reset s) = []"
  "ubf_expected_frame_size (ubx_Reset s) = 0" "ubf_frame_timestamp_ns (ubx_Reset s) = None"
  "ubf_max_frame_length (ubx_Reset s) = ubf_max_frame_length s"
  by (simp_all add: ubx_Reset_def)

lemma ubx_AppendByte_simps [simp]:
  "ubf_buffer (ubx_AppendByte s b t) = ubf_buffer s @ [b]"
  "ubf_byte_timestamps (ubx_AppendByte s b t) = ubf_byte_timestamps s @ [t]"
  "ubf_expected_frame_size (ubx_AppendByte s b t) = ubf_expected_frame_size s"
  "ubf_frame_timestamp_ns (ubx_AppendByte s b t) = ubf_frame_timestamp_ns s"
  "ubf_max_frame_length (ubx_AppendByte s b t) = ubf_max_frame_length s"
  by (simp_all add: ubx_AppendByte_def)

lemma ubx_raw_BuildFrame [simp]: "ubx_raw_bytes (ubx_BuildFrame b off n t) = bslice off n b"
  by (simp add: ubx_BuildFrame_def Let_def)

lemma ubx_BuildFrame_valid_iff:
  assumes "8 \<le> n" and "off + n \<le> length b"
  shows "ubx_checksum_status (ubx_BuildFrame b off n t) = CS_kValid \<longleftrightarrow>
    ValidateUbxChecksum (bslice 2 (n - 4) (bslice off n b))
      \<lparr>ck_a = bslice off n b ! (n - 2), ck_b = bslice off n b ! (n - 1)\<rparr>"
  using assms
  by (auto simp: ubx_BuildFrame_def ValidateUbxChecksum_def Let_def bslice_bslice)

lemma ubx_BuildFrame_bslice:
  assumes "8 \<le> n" and "off + n \<le> length b"
  shows "ubx_BuildFrame b off n t = ubx_record (bslice off n b) t"
  using assms by (simp add: ubx_record_def ubx_BuildFrame_def Let_def bslice_bslice)

lemma ubx_candidate_sound:
  assumes "ubx_candidate s off = Some r" and "off + 8 \<le> length (ubf_buffer s)"
  obtains n where "off + n \<le> length (ubf_buffer s)"
    and "ubx_good (ubf_max_frame_length s) (bslice off n (ubf_buffer s))"
    and "r = ubx_record (bslice off n (ubf_buffer s)) (ubf_byte_timestamps s ! off)"
proof -
  let ?b = "ubf_buffer s"
  let ?n = "8 + le16_size (?b ! (off + 4)) (?b ! (off + 5))"
  from assms have sync: "?b ! off = kUbxSync1" "?b ! (off + 1) = kUbxSync2"
    and n: "?n \<le> ubf_max_frame_length s" "?n \<le> length ?b - off"
    and r: "r = ubx_BuildFrame ?b off ?n (ubf_byte_timestamps s ! off)"
      "ubx_checksum_status r = CS_kValid"
    by (auto simp: ubx_candidate_def Let_def split: if_splits)
  from n assms(2) have fit: "off + ?n \<le> length ?b" by simp
  moreover from fit r have "r = ubx_record (bslice off ?n ?b) (ubf_byte_timestamps s ! off)"
    by (simp add: ubx_BuildFrame_bslice)
  moreover from fit r have "ubx_good (ubf_max_frame_length s) (bslice off ?n ?b)"
    using sync n(1) ubx_BuildFrame_valid_iff [of ?n off ?b] by (simp add: ubx_good_def)
  ultimately show thesis using that by blast
qed

lemma ubx_find_from_sound:
  assumes "ubx_find_from s off = Some r"
  shows "\<exists>off' n. off \<le> off' \<and> off' + n \<le> length (ubf_buffer s)
    \<and> ubx_good (ubf_max_frame_length s) (bslice off' n (ubf_buffer s))
    \<and> r = ubx_record (bslice off' n (ubf_buffer s)) (ubf_byte_timestamps s ! off')"
  using assms
proof (induction s off rule: ubx_find_from.induct)
  case (1 s off)
  from 1(2) have fit: "off + 8 \<le> length (ubf_buffer s)"
    by (subst (asm) ubx_find_from.simps) (auto split: if_splits)
  show ?case
  proof (cases "ubx_candidate s off")
    case None
    with 1(2) fit have "ubx_find_from s (Suc off) = Some r"
      by (subst (asm) ubx_find_from.simps) simp
    with 1(1) fit None show ?thesis by (fastforce dest: Suc_leD)
  next
    case (Some r')
    with 1(2) fit have "r' = r" by (subst (asm) ubx_find_from.simps) simp
    with Some fit show ?thesis by (metis ubx_candidate_sound order_refl)
  qed
qed

lemma ubx_NoteHeader_simps [simp]:
  "ubf_buffer (ubx_NoteHeader s) = ubf_buffer s"
  "ubf_byte_timestamps (ubx_NoteHeader s) = ubf_byte_timestamps s"
  "ubf_frame_timestamp_ns (ubx_NoteHeader s) = ubf_frame_timestamp_ns s"
  "ubf_max_frame_length (ubx_NoteHeader s) = ubf_max_frame_length s"
  "ubf_expected_frame_size (ubx_NoteHeader s) =
     (if length (ubf_buffer s) = 6 then 8 + le16_size (ubf_buffer s ! 4) (ubf_buffer s ! 5)
      else ubf_expected_frame_size s)"
  by (simp_all add: ubx_NoteHeader_def Let_def)

lemma fst_ubx_Complete [simp]: "fst (ubx_Complete s) = ubx_Reset s"
  by (simp add: ubx_Complete_def Let_def split: option.split)

lemma ubx_raw_record [simp]: "ubx_raw_bytes (ubx_record bs ts) = bs"
  by (simp add: ubx_record_def)

lemma ubx_Complete_result:
  obtains r where "snd (ubx_Complete s) = RecordReady r"
    and "r = ubx_record (ubf_buffer s) (ubf_frame_timestamp_ns s)
      \<or> (\<exists>off n. off + n \<le> length (ubf_buffer s)
           \<and> ubx_good (ubf_max_frame_length s) (bslice off n (ubf_buffer s))
           \<and> r = ubx_record (bslice off n (ubf_buffer s)) (ubf_byte_timestamps s ! off))"
proof (cases "ubx_FindEmbeddedValidFrame s")
  case None
  then have "snd (ubx_Complete s) = RecordReady (ubx_record (ubf_buffer s) (ubf_frame_timestamp_ns s))"
    by (simp add: ubx_Complete_def ubx_record_def Let_def)
  then show thesis by (rule that) simp
next
  case (Some r)
  then have "ubx_find_from s 1 = Some r" by (simp add: ubx_FindEmbeddedValidFrame_def)
  note embedded = ubx_find_from_sound [OF this]
  from Some have "snd (ubx_Complete s) = RecordReady r
    \<or> snd (ubx_Complete s) = RecordReady (ubx_record (ubf_buffer s) (ubf_frame_timestamp_ns s))"
    by (simp add: ubx_Complete_def ubx_record_def Let_def)
  then show thesis using embedded that by blast
qed

subsection \<open>Invariant\<close>

lemma ubx_inv_new: "ubx_inv (ubx_new m)"
  by (simp add: ubx_inv_def ubx_new_def)

lemma ubx_inv_Reset [simp]: "ubx_inv (ubx_Reset s)"
  by (simp add: ubx_inv_def)

lemma ubx_max_frame_length_PushByte [simp]:
  "ubf_max_frame_length (fst (ubx_PushByte s b t)) = ubf_max_frame_length s"
  by (simp add: ubx_PushByte_def ubx_StartSync_def Let_def)

lemma ubx_inv_PushByte:
  assumes "ubx_inv s"
  shows "ubx_inv (fst (ubx_PushByte s b t))"
proof (cases "ubf_buffer s" rule: buffer_cases)
  case 1
  with assms show ?thesis by (auto simp: ubx_PushByte_def ubx_StartSync_def ubx_inv_def)
next
  case (2 x)
  with assms show ?thesis by (auto simp: ubx_PushByte_def ubx_inv_def Let_def)
next
  case 3
  then have "ubf_buffer s \<noteq> []" "length (ubf_buffer s) \<noteq> 1" by auto
  with assms 3 show ?thesis
    by (simp add: ubx_PushByte_def Let_def, simp add: ubx_inv_def Let_def nth_append) linarith
qed

lemma ubx_conserves_PushByte:
  "subseq (raw_of ubx_raw_bytes (snd (ubx_PushByte s b t)) @ ubf_buffer (fst (ubx_PushByte s b t)))
     (ubf_buffer s @ [b])"
proof -
  let ?s2 = "ubx_NoteHeader (ubx_AppendByte s b t)"
  have "subseq (raw_of ubx_raw_bytes (snd (ubx_Complete ?s2))) (ubf_buffer s @ [b])"
    by (rule ubx_Complete_result [of ?s2]) (auto simp: raw_of_def subseq_bslice)
  then show ?thesis
    by (auto simp: ubx_PushByte_def ubx_StartSync_def raw_of_def Let_def)
qed

subsection \<open>Soundness of a valid record\<close>

lemma ubx_record_valid_iff:
  "8 \<le> length bs \<Longrightarrow>
     ubx_checksum_status (ubx_record bs ts) = CS_kValid \<longleftrightarrow>
     ValidateUbxChecksum (bslice 2 (length bs - 4) bs)
       \<lparr>ck_a = bs ! (length bs - 2), ck_b = bs ! (length bs - 1)\<rparr>"
  using ubx_BuildFrame_valid_iff [of "length bs" 0 bs ts] by (simp add: ubx_record_def)

lemma ubx_good_valid: "ubx_good m bs \<Longrightarrow> ubx_checksum_status (ubx_record bs ts) = CS_kValid"
  unfolding ubx_good_def using ubx_record_valid_iff by blast

lemma ubx_valid_is_good:
  assumes "ubx_inv s" and "pr_record (snd (ubx_PushByte s b t)) = Some r"
    and "ubx_checksum_status r = CS_kValid"
  shows "\<exists>bs ts. ubx_good (ubf_max_frame_length s) bs \<and> sublist bs (ubf_buffer s @ [b])
           \<and> r = ubx_record bs ts"
proof -
  let ?s2 = "ubx_NoteHeader (ubx_AppendByte s b t)" and ?b = "ubf_buffer s"
  from assms(2) have two: "2 \<le> length ?b"
    by (cases ?b rule: buffer_cases)
      (auto simp: ubx_PushByte_def ubx_StartSync_def split: if_splits)
  have push: "pr_record (snd (ubx_Complete ?s2)) = Some r"
    and n: "ubf_expected_frame_size ?s2 \<noteq> 0" "ubf_expected_frame_size ?s2 \<le> length (ubf_buffer ?s2)"
      "length (ubf_buffer ?s2) \<le> ubf_max_frame_length s"
    using assms(2) two
    by (auto simp: ubx_PushByte_def Let_def split: if_splits)
  show ?thesis
  proof (rule ubx_Complete_result [of ?s2])
    fix r' assume "snd (ubx_Complete ?s2) = RecordReady r'"
      and r': "r' = ubx_record (ubf_buffer ?s2) (ubf_frame_timestamp_ns ?s2)
        \<or> (\<exists>off n. off + n \<le> length (ubf_buffer ?s2)
             \<and> ubx_good (ubf_max_frame_length ?s2) (bslice off n (ubf_buffer ?s2))
             \<and> r' = ubx_record (bslice off n (ubf_buffer ?s2)) (ubf_byte_timestamps ?s2 ! off))"
    with push have [simp]: "r' = r" by simp
    from r' show ?thesis
    proof
      assume whole: "r' = ubx_record (ubf_buffer ?s2) (ubf_frame_timestamp_ns ?s2)"
      have six: "6 \<le> length ?b" "length (?b @ [b]) = 8 + le16_size ((?b @ [b]) ! 4) ((?b @ [b]) ! 5)"
        using n assms(1) two
        by (auto simp: ubx_inv_def Let_def nth_append split: if_splits)
      have "ubx_good (ubf_max_frame_length s) (?b @ [b])"
        using assms(1,3) six n whole ubx_record_valid_iff [of "?b @ [b]"]
        by (simp add: ubx_good_def ubx_inv_def Let_def nth_append)
      with whole show ?thesis by auto
    next
      assume "\<exists>off n. off + n \<le> length (ubf_buffer ?s2)
             \<and> ubx_good (ubf_max_frame_length ?s2) (bslice off n (ubf_buffer ?s2))
             \<and> r' = ubx_record (bslice off n (ubf_buffer ?s2)) (ubf_byte_timestamps ?s2 ! off)"
      then show ?thesis by (auto intro: sublist_bslice)
    qed
  qed
qed

section \<open>The framer contracts\<close>

interpretation ubx_cons: conserving_framer ubx_PushByte ubf_buffer ubx_raw_bytes
  "\<lambda>s. max 2 (ubf_max_frame_length s)" ubx_inv
proof
  show "length (ubf_buffer s) \<le> max 2 (ubf_max_frame_length s)" if "ubx_inv s" for s
    using that by (cases "length (ubf_buffer s) < 6") (auto simp: ubx_inv_def Let_def)
qed (simp_all add: ubx_inv_PushByte ubx_conserves_PushByte)

lemma ubx_suffix_PushByte: "suffix (ubf_buffer (fst (ubx_PushByte s b t))) (ubf_buffer s @ [b])"
  by (auto simp: ubx_PushByte_def ubx_StartSync_def suffix_def Let_def)

interpretation ubx_sound: sound_framer ubx_PushByte ubf_buffer ubx_raw_bytes
  "\<lambda>s. max 2 (ubf_max_frame_length s)" ubx_inv ubf_max_frame_length "\<lambda>r. ubx_checksum_status r = CS_kValid" ubx_good ubx_record
  by unfold_locales
    (rule ubx_max_frame_length_PushByte ubx_suffix_PushByte ubx_valid_is_good; assumption)+

interpretation ubx_rec: recognising_framer ubx_PushByte ubf_max_frame_length
  "\<lambda>s. ubf_buffer s = []" "\<lambda>b. b = kUbxSync1" ubx_good ubx_record ubx_mid
proof
  fix s :: UbxFrameFramer and bs :: bytes and b :: u8 and t u :: "timestamp_ns option" and k m :: nat
  show "2 \<le> length bs" if "ubx_good m bs" using that by (simp add: ubx_good_def)
  show "pr_record (snd (ubx_PushByte s b t)) = None \<and> ubf_buffer (fst (ubx_PushByte s b t)) = []
      \<and> ubf_max_frame_length (fst (ubx_PushByte s b t)) = ubf_max_frame_length s"
    if "ubf_buffer s = []" "\<not> b = kUbxSync1"
    using that by (simp add: ubx_PushByte_def ubx_StartSync_def)
  show "snd (ubx_PushByte s (hd bs) t) = NeedMoreData \<and> ubx_mid (fst (ubx_PushByte s (hd bs) t)) bs t 1
      \<and> ubf_max_frame_length (fst (ubx_PushByte s (hd bs) t)) = ubf_max_frame_length s"
    if "ubf_buffer s = []" "ubx_good (ubf_max_frame_length s) bs"
    using that
    by (cases bs) (auto simp: ubx_PushByte_def ubx_StartSync_def ubx_mid_def ubx_good_def)
  show "snd (ubx_PushByte s (bs ! k) u) = NeedMoreData
      \<and> ubx_mid (fst (ubx_PushByte s (bs ! k) u)) bs t (Suc k)
      \<and> ubf_max_frame_length (fst (ubx_PushByte s (bs ! k) u)) = ubf_max_frame_length s"
    if "ubx_mid s bs t k" "ubx_good (ubf_max_frame_length s) bs" "1 \<le> k" "Suc k < length bs"
    using that
    by (cases "k = 1")
      (auto simp: ubx_PushByte_def ubx_mid_def ubx_good_def Let_def take_Suc_conv_app_nth
        nth_append)
  show "snd (ubx_PushByte s (bs ! k) u) = RecordReady (ubx_record bs t)
      \<and> ubf_buffer (fst (ubx_PushByte s (bs ! k) u)) = []
      \<and> ubf_max_frame_length (fst (ubx_PushByte s (bs ! k) u)) = ubf_max_frame_length s"
    if "ubx_mid s bs t k" "ubx_good (ubf_max_frame_length s) bs" "1 \<le> k" "Suc k = length bs"
  proof -
    from that have buf: "ubf_buffer s @ [bs ! k] = bs"
      by (simp add: ubx_mid_def take_Suc_conv_app_nth [symmetric])
    have valid: "ubx_checksum_status (ubx_record bs t) = CS_kValid"
      using that(2) by (rule ubx_good_valid)
    let ?s2 = "ubx_NoteHeader (ubx_AppendByte s (bs ! k) u)"
    have "ubx_Complete ?s2 = (ubx_Reset ?s2, RecordReady (ubx_record bs t))"
      using that valid buf by (simp add: ubx_Complete_def ubx_mid_def ubx_record_def Let_def)
    moreover have "ubx_PushByte s (bs ! k) u = ubx_Complete ?s2"
      using that buf
      by (auto simp: ubx_PushByte_def ubx_mid_def ubx_good_def Let_def)
    ultimately show ?thesis by simp
  qed
qed

section \<open>Properties\<close>

lemma ubx_literal: "8 \<le> m \<Longrightarrow> ubx_good m [0xB5, 0x62, 0x05, 0x01, 0x00, 0x00, 0x06, 0x17]"
  by (simp add: ubx_good_def le16_size_def bslice_def ValidateUbxChecksum_def ComputeUbxChecksum_def
      ubx_checksum_step_def Let_def)

text \<open>C1. A UBX framer with an empty buffer, fed any interleaving of well-formed frames no longer than
  its limit and of noise without the first sync byte, delivers exactly those frames, in order, each
  stamped with the time of its first byte, and is empty again.\<close>

theorem ubx_stream_framing:
  assumes "ubf_buffer s = []"
    and "list_all (seg_ok (\<lambda>b. b = kUbxSync1) (ubx_good (ubf_max_frame_length s))) segs"
  shows "emitted (snd (feed ubx_PushByte s (concat (map seg_bytes segs))))
           = concat (map (seg_records ubx_record) segs)
         \<and> ubf_buffer (fst (feed ubx_PushByte s (concat (map seg_bytes segs)))) = []"
  using ubx_rec.feed_segments [OF assms] .

theorem ubx_stream_framing_witness:
  "emitted (snd (feed ubx_PushByte (ubx_new 4096)
     (concat (map seg_bytes
       [Noise [(0x24, Some 1)],
        Frame (map (\<lambda>b. (b, Some 2)) [0xB5, 0x62, 0x05, 0x01, 0x02, 0x00, 0x06, 0x8A, 0x98, 0xC1])]))))
   = concat (map (seg_records ubx_record)
       [Noise [(0x24, Some 1)],
        Frame (map (\<lambda>b. (b, Some 2)) [0xB5, 0x62, 0x05, 0x01, 0x02, 0x00, 0x06, 0x8A, 0x98, 0xC1])])"
proof -
  have ok: "list_all (seg_ok (\<lambda>b. b = kUbxSync1) (ubx_good (ubf_max_frame_length (ubx_new 4096))))
    [Noise [(0x24, Some 1)],
     Frame (map (\<lambda>b. (b, Some 2)) [0xB5, 0x62, 0x05, 0x01, 0x02, 0x00, 0x06, 0x8A, 0x98, 0xC1])]"
    by code_simp
  have "ubf_buffer (ubx_new 4096) = []" by (simp add: ubx_new_def)
  from ubx_stream_framing [OF this ok] show ?thesis by blast
qed

text \<open>Whatever bytes a UBX framer receives, the raw bytes of the records it delivers, in order and
  followed by what it still buffers, form a subsequence of the received bytes: no byte is invented,
  repeated or moved; and the buffer never exceeds the frame limit (two sync bytes at least).\<close>

lemma ubx_no_fabrication:
  "subseq (concat (map ubx_raw_bytes (emitted (snd (feed ubx_PushByte (ubx_new m) xs))))
             @ ubf_buffer (fst (feed ubx_PushByte (ubx_new m) xs)))
     (map fst xs)
   \<and> length (ubf_buffer (fst (feed ubx_PushByte (ubx_new m) xs))) \<le> max 2 m"
  using ubx_cons.feed_conserves [OF ubx_inv_new, of m xs] ubx_cons.feed_bounded [OF ubx_inv_new, of m xs]
  by (simp add: ubx_new_def)

text \<open>A record a UBX framer delivers with a valid checksum status (directly or by the search for an
  embedded frame) is the record of a contiguous run of the received bytes that is a well-formed UBX
  frame within the limit: sync bytes, announced length and checksum all agree.\<close>

lemma ubx_valid_records_are_frames:
  assumes "r \<in> set (emitted (snd (feed ubx_PushByte (ubx_new m) xs)))"
    and "ubx_checksum_status r = CS_kValid"
  shows "\<exists>bs ts. ubx_good m bs \<and> sublist bs (map fst xs) \<and> r = ubx_record bs ts"
  using ubx_sound.feed_sound [OF ubx_inv_new assms] by (simp add: ubx_new_def)

theorem ubx_valid_records_are_frames_witness:
  "\<exists>bs ts. ubx_good 64 bs \<and> sublist bs (map fst (map (\<lambda>b. (b, None :: timestamp_ns option)) [0xB5, 0x62, 0x05, 0x01, 0x00, 0x00, 0x06, 0x17]))
     \<and> ubx_record [0xB5, 0x62, 0x05, 0x01, 0x00, 0x00, 0x06, 0x17] None = ubx_record bs ts"
proof (rule ubx_valid_records_are_frames)
  have good: "ubx_good 64 [0xB5, 0x62, 0x05, 0x01, 0x00, 0x00, 0x06, 0x17]" by (rule ubx_literal) simp
  then show "ubx_checksum_status (ubx_record [0xB5, 0x62, 0x05, 0x01, 0x00, 0x00, 0x06, 0x17] None) = CS_kValid" by (rule ubx_good_valid)
  show "ubx_record [0xB5, 0x62, 0x05, 0x01, 0x00, 0x00, 0x06, 0x17] None \<in> set (emitted (snd (feed ubx_PushByte (ubx_new 64)
      (map (\<lambda>b. (b, None)) [0xB5, 0x62, 0x05, 0x01, 0x00, 0x00, 0x06, 0x17]))))"
    using ubx_rec.feed_frame [of "ubx_new 64" "map (\<lambda>b. (b, None)) [0xB5, 0x62, 0x05, 0x01, 0x00, 0x00, 0x06, 0x17]"] good
    by (simp add: ubx_new_def emitted_Cons o_def del: feed.simps)
qed

end
