(* ===== verification/Rtcm_Framer.thy ===== *)
theory Rtcm_Framer
  imports Stream_Framer Checksums
begin

text \<open>
  \<open>RtcmFrameFramer\<close> of \<open>gnss_protocols/src/rtcm_framer.cpp\<close>: preamble D3, six zero bits and a 10-bit
  payload length, the payload and a 24-bit CRC over everything before it.  As for UBX, a frame whose CRC
  fails is searched for an embedded valid frame.
\<close>

section \<open>Model\<close>

record RtcmFrameFramer =
  rtf_max_frame_length :: nat
  rtf_buffer :: bytes
  rtf_byte_timestamps :: "timestamp_ns option list"
  rtf_frame_timestamp_ns :: "timestamp_ns option"
  rtf_expected_frame_size :: nat

abbreviation (input) kRtcmPreamble :: u8 where "kRtcmPreamble \<equiv> 0xD3"
abbreviation (input) kRtcmHeaderSize :: nat where "kRtcmHeaderSize \<equiv> 3"
abbreviation (input) kRtcmCrcSize :: nat where "kRtcmCrcSize \<equiv> 3"

definition rtcm_new :: "nat \<Rightarrow> RtcmFrameFramer" where
  "rtcm_new max_frame_length =
     \<lparr>rtf_max_frame_length = max_frame_length, rtf_buffer = [], rtf_byte_timestamps = [],
      rtf_frame_timestamp_ns = None, rtf_expected_frame_size = 0\<rparr>"

definition rtcm_Reset :: "RtcmFrameFramer \<Rightarrow> RtcmFrameFramer" where
  "rtcm_Reset s = s\<lparr>rtf_buffer := [], rtf_byte_timestamps := [], rtf_frame_timestamp_ns := None,
                    rtf_expected_frame_size := 0\<rparr>"

definition rtcm_AppendByte :: "RtcmFrameFramer \<Rightarrow> u8 \<Rightarrow> timestamp_ns option \<Rightarrow> RtcmFrameFramer" where
  "rtcm_AppendByte s byte ts = s\<lparr>rtf_buffer := rtf_buffer s @ [byte],
                                 rtf_byte_timestamps := rtf_byte_timestamps s @ [ts]\<rparr>"

definition rtcm_StartFrame ::
  "RtcmFrameFramer \<Rightarrow> u8 \<Rightarrow> timestamp_ns option \<Rightarrow> RtcmFrameFramer \<times> RtcmFrame ParserResult" where
  "rtcm_StartFrame s byte ts =
     (if byte \<noteq> kRtcmPreamble then (s, Skipped)
      else ((rtcm_AppendByte s byte ts)\<lparr>rtf_frame_timestamp_ns := ts, rtf_expected_frame_size := 0\<rparr>,
            NeedMoreData))"

text \<open>\<open>ExtractRtcmMessageType\<close> on a payload (\<open>rtcm_parser.cpp\<close>): the first twelve bits.\<close>

definition ExtractRtcmMessageType :: "bytes \<Rightarrow> u16 option" where
  "ExtractRtcmMessageType payload =
     (if length payload < 2 then None
      else Some (push_bit 4 (ucast (payload ! 0)) OR drop_bit 4 (ucast (payload ! 1))))"

definition rtcm_payload_size :: "u8 \<Rightarrow> u8 \<Rightarrow> nat" where
  "rtcm_payload_size b1 b2 = push_bit 8 (unat (b1 AND 0x03)) OR unat b2"

definition rtcm_reported_crc :: "bytes \<Rightarrow> nat \<Rightarrow> nat \<Rightarrow> u32" where
  "rtcm_reported_crc buffer frame_offset frame_size =
     push_bit 16 (ucast (buffer ! (frame_offset + frame_size - 3)))
     OR push_bit 8 (ucast (buffer ! (frame_offset + frame_size - 2)))
     OR ucast (buffer ! (frame_offset + frame_size - 1))"

definition rtcm_BuildFrame :: "bytes \<Rightarrow> nat \<Rightarrow> nat \<Rightarrow> timestamp_ns option \<Rightarrow> RtcmFrame" where
  "rtcm_BuildFrame buffer frame_offset frame_size ts =
     (let payload_size = frame_size - kRtcmHeaderSize - kRtcmCrcSize;
          payload = bslice (frame_offset + kRtcmHeaderSize) payload_size buffer;
          reported = rtcm_reported_crc buffer frame_offset frame_size;
          computed = ComputeRtcmCrc24Q (bslice frame_offset (frame_size - kRtcmCrcSize) buffer)
      in \<lparr>rtcm_protocol = PT_kRtcm3,
          rtcm_timestamp_ns = ts,
          rtcm_message_type = (case ExtractRtcmMessageType payload of Some ty \<Rightarrow> ty | None \<Rightarrow> 0),
          rtcm_payload = payload,
          rtcm_raw_bytes = bslice frame_offset frame_size buffer,
          rtcm_checksum_status = (if reported = computed then CS_kValid else CS_kInvalid),
          rtcm_reported_crc24q = reported,
          rtcm_computed_crc24q = computed\<rparr>)"

definition rtcm_candidate :: "RtcmFrameFramer \<Rightarrow> nat \<Rightarrow> RtcmFrame option" where
  "rtcm_candidate s frame_offset =
     (let b = rtf_buffer s in
      if b ! frame_offset \<noteq> kRtcmPreamble \<or> b ! (frame_offset + 1) AND 0xFC \<noteq> 0 then None
      else
        let payload_size = rtcm_payload_size (b ! (frame_offset + 1)) (b ! (frame_offset + 2));
            frame_size = kRtcmHeaderSize + payload_size + kRtcmCrcSize in
        if frame_size > rtf_max_frame_length s \<or> frame_size > length b - frame_offset then None
        else
          let candidate = rtcm_BuildFrame b frame_offset frame_size
                            (rtf_byte_timestamps s ! frame_offset) in
          if rtcm_checksum_status candidate = CS_kValid then Some candidate else None)"

function rtcm_find_from :: "RtcmFrameFramer \<Rightarrow> nat \<Rightarrow> RtcmFrame option" where
  "rtcm_find_from s frame_offset =
     (if frame_offset + kRtcmHeaderSize + kRtcmCrcSize \<le> length (rtf_buffer s) then
        (case rtcm_candidate s frame_offset of
           Some candidate \<Rightarrow> Some candidate
         | None \<Rightarrow> rtcm_find_from s (Suc frame_offset))
      else None)"
  by pat_completeness auto
termination
  by (relation "measure (\<lambda>(s, off). length (rtf_buffer s) - off)") auto

declare rtcm_find_from.simps [simp del]

definition rtcm_FindEmbeddedValidFrame :: "RtcmFrameFramer \<Rightarrow> RtcmFrame option" where
  "rtcm_FindEmbeddedValidFrame s = rtcm_find_from s 1"

definition rtcm_NoteHeader :: "RtcmFrameFramer \<Rightarrow> RtcmFrameFramer" where
  "rtcm_NoteHeader s =
     (let b = rtf_buffer s in
      if length b = kRtcmHeaderSize
      then s\<lparr>rtf_expected_frame_size :=
               kRtcmHeaderSize + rtcm_payload_size (b ! 1) (b ! 2) + kRtcmCrcSize\<rparr>
      else s)"

definition rtcm_Complete :: "RtcmFrameFramer \<Rightarrow> RtcmFrameFramer \<times> RtcmFrame ParserResult" where
  "rtcm_Complete s =
     (let frame = rtcm_BuildFrame (rtf_buffer s) 0 (length (rtf_buffer s)) (rtf_frame_timestamp_ns s) in
      if rtcm_checksum_status frame \<noteq> CS_kValid
      then (case rtcm_FindEmbeddedValidFrame s of
              Some recovered \<Rightarrow> (rtcm_Reset s, RecordReady recovered)
            | None \<Rightarrow> (rtcm_Reset s, RecordReady frame))
      else (rtcm_Reset s, RecordReady frame))"

definition rtcm_PushByte ::
  "RtcmFrameFramer \<Rightarrow> u8 \<Rightarrow> timestamp_ns option \<Rightarrow> RtcmFrameFramer \<times> RtcmFrame ParserResult" where
  "rtcm_PushByte s byte ts =
     (if rtf_buffer s = [] then rtcm_StartFrame s byte ts
      else if length (rtf_buffer s) = 1 \<and> byte AND 0xFC \<noteq> 0 then
        (if byte = kRtcmPreamble then
           (s\<lparr>rtf_buffer := [byte], rtf_byte_timestamps := [ts], rtf_frame_timestamp_ns := ts,
              rtf_expected_frame_size := 0\<rparr>, NeedMoreData)
         else (rtcm_Reset s, InvalidData))
      else
        let s2 = rtcm_NoteHeader (rtcm_AppendByte s byte ts);
            size = length (rtf_buffer s2) in
        if size = kRtcmHeaderSize \<and> rtf_expected_frame_size s2 > rtf_max_frame_length s2
        then (rtcm_Reset s2, Overflow)
        else if rtf_buffer s2 \<noteq> [] \<and> size > rtf_max_frame_length s2 then (rtcm_Reset s2, Overflow)
        else if rtf_expected_frame_size s2 = 0 \<or> size < rtf_expected_frame_size s2
        then (s2, NeedMoreData)
        else rtcm_Complete s2)"

definition rtcm_Finalize :: "RtcmFrameFramer \<Rightarrow> RtcmFrameFramer \<times> RtcmFrame ParserResult" where
  "rtcm_Finalize s =
     (if rtf_buffer s = [] then (s, DefaultResult) else (rtcm_Reset s, Truncated))"

section \<open>What a valid frame is\<close>

definition rtcm_good :: "nat \<Rightarrow> bytes \<Rightarrow> bool" where
  "rtcm_good m bs \<longleftrightarrow>
     6 \<le> length bs \<and> bs ! 0 = kRtcmPreamble \<and> bs ! 1 AND 0xFC = 0
     \<and> length bs = 6 + rtcm_payload_size (bs ! 1) (bs ! 2) \<and> length bs \<le> m
     \<and> ComputeRtcmCrc24Q (take (length bs - 3) bs) = rtcm_reported_crc bs 0 (length bs)"

definition rtcm_record :: "bytes \<Rightarrow> timestamp_ns option \<Rightarrow> RtcmFrame" where
  "rtcm_record bs ts = rtcm_BuildFrame bs 0 (length bs) ts"

definition rtcm_inv :: "RtcmFrameFramer \<Rightarrow> bool" where
  "rtcm_inv s \<longleftrightarrow>
     (let b = rtf_buffer s in
      length (rtf_byte_timestamps s) = length b
      \<and> (length b < 3 \<longrightarrow> rtf_expected_frame_size s = 0 \<and> length b \<le> max 1 (rtf_max_frame_length s))
      \<and> (3 \<le> length b \<longrightarrow> rtf_expected_frame_size s = 6 + rtcm_payload_size (b ! 1) (b ! 2)
            \<and> length b < rtf_expected_frame_size s
            \<and> rtf_expected_frame_size s \<le> rtf_max_frame_length s)
      \<and> (1 \<le> length b \<longrightarrow> b ! 0 = kRtcmPreamble) \<and> (2 \<le> length b \<longrightarrow> b ! 1 AND 0xFC = 0))"

definition rtcm_mid :: "RtcmFrameFramer \<Rightarrow> bytes \<Rightarrow> timestamp_ns option \<Rightarrow> nat \<Rightarrow> bool" where
  "rtcm_mid s bs ts k \<longleftrightarrow>
     rtf_buffer s = take k bs \<and> rtf_frame_timestamp_ns s = ts
     \<and> rtf_expected_frame_size s = (if k < 3 then 0 else length bs)"

section \<open>Lemmas\<close>

lemma rtcm_Reset_simps [simp]:
  "rtf_buffer (rtcm_Reset s) = []" "rtf_byte_timestamps (rtcm_Reset s) = []"
  "rtf_expected_frame_size (rtcm_Reset s) = 0" "rtf_frame_timestamp_ns (rtcm_Reset s) = None"
  "rtf_max_frame_length (rtcm_Reset s) = rtf_max_frame_length s"
  by (simp_all add: rtcm_Reset_def)

lemma rtcm_AppendByte_simps [simp]:
  "rtf_buffer (rtcm_AppendByte s b t) = rtf_buffer s @ [b]"
  "rtf_byte_timestamps (rtcm_AppendByte s b t) = rtf_byte_timestamps s @ [t]"
  "rtf_expected_frame_size (rtcm_AppendByte s b t) = rtf_expected_frame_size s"
  "rtf_frame_timestamp_ns (rtcm_AppendByte s b t) = rtf_frame_timestamp_ns s"
  "rtf_max_frame_length (rtcm_AppendByte s b t) = rtf_max_frame_length s"
  by (simp_all add: rtcm_AppendByte_def)

lemma rtcm_NoteHeader_simps [simp]:
  "rtf_buffer (rtcm_NoteHeader s) = rtf_buffer s"
  "rtf_byte_timestamps (rtcm_NoteHeader s) = rtf_byte_timestamps s"
  "rtf_frame_timestamp_ns (rtcm_NoteHeader s) = rtf_frame_timestamp_ns s"
  "rtf_max_frame_length (rtcm_NoteHeader s) = rtf_max_frame_length s"
  "rtf_expected_frame_size (rtcm_NoteHeader s) =
     (if length (rtf_buffer s) = 3 then 6 + rtcm_payload_size (rtf_buffer s ! 1) (rtf_buffer s ! 2)
      else rtf_expected_frame_size s)"
  by (simp_all add: rtcm_NoteHeader_def Let_def)

lemma fst_rtcm_Complete [simp]: "fst (rtcm_Complete s) = rtcm_Reset s"
  by (simp add: rtcm_Complete_def Let_def split: option.split)

lemma rtcm_raw_BuildFrame [simp]: "rtcm_raw_bytes (rtcm_BuildFrame b off n t) = bslice off n b"
  by (simp add: rtcm_BuildFrame_def Let_def)

lemma rtcm_raw_record [simp]: "rtcm_raw_bytes (rtcm_record bs ts) = bs"
  by (simp add: rtcm_record_def)

lemma rtcm_BuildFrame_bslice:
  assumes "6 \<le> n" and "off + n \<le> length b"
  shows "rtcm_BuildFrame b off n t = rtcm_record (bslice off n b) t"
  using assms by (simp add: rtcm_record_def rtcm_BuildFrame_def rtcm_reported_crc_def Let_def bslice_bslice)

lemma rtcm_record_valid_iff:
  "rtcm_checksum_status (rtcm_record bs ts) = CS_kValid \<longleftrightarrow>
     ComputeRtcmCrc24Q (take (length bs - 3) bs) = rtcm_reported_crc bs 0 (length bs)"
  by (auto simp: rtcm_record_def rtcm_BuildFrame_def bslice_def Let_def)

lemma rtcm_good_valid: "rtcm_good m bs \<Longrightarrow> rtcm_checksum_status (rtcm_record bs ts) = CS_kValid"
  unfolding rtcm_good_def rtcm_record_valid_iff by blast

lemma rtcm_candidate_sound:
  assumes "rtcm_candidate s off = Some r" and "off + 6 \<le> length (rtf_buffer s)"
  obtains n where "off + n \<le> length (rtf_buffer s)"
    and "rtcm_good (rtf_max_frame_length s) (bslice off n (rtf_buffer s))"
    and "r = rtcm_record (bslice off n (rtf_buffer s)) (rtf_byte_timestamps s ! off)"
proof -
  let ?b = "rtf_buffer s"
  let ?n = "6 + rtcm_payload_size (?b ! (off + 1)) (?b ! (off + 2))"
  from assms have sync: "?b ! off = kRtcmPreamble" "?b ! (off + 1) AND 0xFC = 0"
    and n: "?n \<le> rtf_max_frame_length s" "?n \<le> length ?b - off"
    and r: "r = rtcm_BuildFrame ?b off ?n (rtf_byte_timestamps s ! off)"
      "rtcm_checksum_status r = CS_kValid"
    by (auto simp: rtcm_candidate_def Let_def split: if_splits)
  from n assms(2) have fit: "off + ?n \<le> length ?b" by simp
  with r have rec: "r = rtcm_record (bslice off ?n ?b) (rtf_byte_timestamps s ! off)"
    by (simp add: rtcm_BuildFrame_bslice)
  moreover have "rtcm_good (rtf_max_frame_length s) (bslice off ?n ?b)"
    using sync n(1) fit r(2) rtcm_record_valid_iff [of "bslice off ?n ?b"]
    unfolding rec by (simp add: rtcm_good_def)
  ultimately show thesis using that fit by blast
qed

lemma rtcm_find_from_sound:
  assumes "rtcm_find_from s off = Some r"
  shows "\<exists>off' n. off \<le> off' \<and> off' + n \<le> length (rtf_buffer s)
    \<and> rtcm_good (rtf_max_frame_length s) (bslice off' n (rtf_buffer s))
    \<and> r = rtcm_record (bslice off' n (rtf_buffer s)) (rtf_byte_timestamps s ! off')"
  using assms
proof (induction s off rule: rtcm_find_from.induct)
  case (1 s off)
  from 1(2) have fit: "off + 6 \<le> length (rtf_buffer s)"
    by (subst (asm) rtcm_find_from.simps) (auto split: if_splits)
  show ?case
  proof (cases "rtcm_candidate s off")
    case None
    with 1(2) fit have "rtcm_find_from s (Suc off) = Some r"
      by (subst (asm) rtcm_find_from.simps) simp
    with 1(1) fit None show ?thesis by (fastforce dest: Suc_leD)
  next
    case (Some r')
    with 1(2) fit have "r' = r" by (subst (asm) rtcm_find_from.simps) simp
    with Some fit show ?thesis by (metis rtcm_candidate_sound order_refl)
  qed
qed

lemma rtcm_Complete_result:
  obtains r where "snd (rtcm_Complete s) = RecordReady r"
    and "r = rtcm_record (rtf_buffer s) (rtf_frame_timestamp_ns s)
      \<or> (\<exists>off n. off + n \<le> length (rtf_buffer s)
           \<and> rtcm_good (rtf_max_frame_length s) (bslice off n (rtf_buffer s))
           \<and> r = rtcm_record (bslice off n (rtf_buffer s)) (rtf_byte_timestamps s ! off))"
proof (cases "rtcm_FindEmbeddedValidFrame s")
  case None
  then have "snd (rtcm_Complete s) = RecordReady (rtcm_record (rtf_buffer s) (rtf_frame_timestamp_ns s))"
    by (simp add: rtcm_Complete_def rtcm_record_def Let_def)
  then show thesis by (rule that) simp
next
  case (Some r)
  then have "rtcm_find_from s 1 = Some r" by (simp add: rtcm_FindEmbeddedValidFrame_def)
  note embedded = rtcm_find_from_sound [OF this]
  from Some have "snd (rtcm_Complete s) = RecordReady r
    \<or> snd (rtcm_Complete s) = RecordReady (rtcm_record (rtf_buffer s) (rtf_frame_timestamp_ns s))"
    by (simp add: rtcm_Complete_def rtcm_record_def Let_def)
  then show thesis using embedded that by blast
qed

subsection \<open>Invariant\<close>

lemma rtcm_inv_new: "rtcm_inv (rtcm_new m)"
  by (simp add: rtcm_inv_def rtcm_new_def)

lemma rtcm_inv_Reset [simp]: "rtcm_inv (rtcm_Reset s)"
  by (simp add: rtcm_inv_def)

lemma rtcm_max_frame_length_PushByte [simp]:
  "rtf_max_frame_length (fst (rtcm_PushByte s b t)) = rtf_max_frame_length s"
  by (simp add: rtcm_PushByte_def rtcm_StartFrame_def Let_def)

lemma rtcm_inv_PushByte:
  assumes "rtcm_inv s"
  shows "rtcm_inv (fst (rtcm_PushByte s b t))"
proof (cases "rtf_buffer s" rule: buffer_cases)
  case 1
  with assms show ?thesis by (auto simp: rtcm_PushByte_def rtcm_StartFrame_def rtcm_inv_def)
next
  case (2 x)
  with assms show ?thesis by (auto simp: rtcm_PushByte_def rtcm_inv_def Let_def)
next
  case 3
  then have "rtf_buffer s \<noteq> []" "length (rtf_buffer s) \<noteq> 1" by auto
  with assms 3 show ?thesis
    by (simp add: rtcm_PushByte_def Let_def, simp add: rtcm_inv_def Let_def nth_append)
qed

lemma rtcm_conserves_PushByte:
  "subseq (raw_of rtcm_raw_bytes (snd (rtcm_PushByte s b t)) @ rtf_buffer (fst (rtcm_PushByte s b t)))
     (rtf_buffer s @ [b])"
proof -
  let ?s2 = "rtcm_NoteHeader (rtcm_AppendByte s b t)"
  have "subseq (raw_of rtcm_raw_bytes (snd (rtcm_Complete ?s2))) (rtf_buffer s @ [b])"
    by (rule rtcm_Complete_result [of ?s2]) (auto simp: raw_of_def subseq_bslice)
  then show ?thesis
    by (auto simp: rtcm_PushByte_def rtcm_StartFrame_def raw_of_def Let_def)
qed

subsection \<open>Soundness of a valid record\<close>

lemma rtcm_valid_is_good:
  assumes "rtcm_inv s" and "pr_record (snd (rtcm_PushByte s b t)) = Some r"
    and "rtcm_checksum_status r = CS_kValid"
  shows "\<exists>bs ts. rtcm_good (rtf_max_frame_length s) bs \<and> sublist bs (rtf_buffer s @ [b])
           \<and> r = rtcm_record bs ts"
proof -
  let ?s2 = "rtcm_NoteHeader (rtcm_AppendByte s b t)" and ?b = "rtf_buffer s"
  from assms(1,2) have two: "2 \<le> length ?b"
    by (cases ?b rule: buffer_cases)
      (auto simp: rtcm_PushByte_def rtcm_StartFrame_def rtcm_inv_def Let_def
        split: if_splits)
  have push: "pr_record (snd (rtcm_Complete ?s2)) = Some r"
    and n: "rtf_expected_frame_size ?s2 \<noteq> 0" "rtf_expected_frame_size ?s2 \<le> length (rtf_buffer ?s2)"
      "length (rtf_buffer ?s2) \<le> rtf_max_frame_length s"
    using assms(2) two
    by (auto simp: rtcm_PushByte_def Let_def split: if_splits)
  have three: "3 \<le> length ?b" "length (?b @ [b]) = 6 + rtcm_payload_size ((?b @ [b]) ! 1) ((?b @ [b]) ! 2)"
    using n assms(1) two by (auto simp: rtcm_inv_def Let_def nth_append split: if_splits)
  show ?thesis
  proof (rule rtcm_Complete_result [of ?s2])
    fix r' assume "snd (rtcm_Complete ?s2) = RecordReady r'"
      and r': "r' = rtcm_record (rtf_buffer ?s2) (rtf_frame_timestamp_ns ?s2)
        \<or> (\<exists>off n. off + n \<le> length (rtf_buffer ?s2)
             \<and> rtcm_good (rtf_max_frame_length ?s2) (bslice off n (rtf_buffer ?s2))
             \<and> r' = rtcm_record (bslice off n (rtf_buffer ?s2)) (rtf_byte_timestamps ?s2 ! off))"
    with push have [simp]: "r' = r" by simp
    from r' show ?thesis
    proof
      assume whole: "r' = rtcm_record (rtf_buffer ?s2) (rtf_frame_timestamp_ns ?s2)"
      have "rtcm_good (rtf_max_frame_length s) (?b @ [b])"
        using assms(1,3) three n whole rtcm_record_valid_iff [of "?b @ [b]"]
        by (simp add: rtcm_good_def rtcm_inv_def Let_def nth_append)
      with whole show ?thesis by auto
    next
      assume "\<exists>off n. off + n \<le> length (rtf_buffer ?s2)
             \<and> rtcm_good (rtf_max_frame_length ?s2) (bslice off n (rtf_buffer ?s2))
             \<and> r' = rtcm_record (bslice off n (rtf_buffer ?s2)) (rtf_byte_timestamps ?s2 ! off)"
      then show ?thesis by (auto intro: sublist_bslice)
    qed
  qed
qed

section \<open>The framer contracts\<close>

interpretation rtcm_cons: conserving_framer rtcm_PushByte rtf_buffer rtcm_raw_bytes
  "\<lambda>s. max 1 (rtf_max_frame_length s)" rtcm_inv
proof
  show "length (rtf_buffer s) \<le> max 1 (rtf_max_frame_length s)" if "rtcm_inv s" for s
    using that by (cases "length (rtf_buffer s) < 3") (auto simp: rtcm_inv_def Let_def)
qed (simp_all add: rtcm_inv_PushByte rtcm_conserves_PushByte)

lemma rtcm_suffix_PushByte: "suffix (rtf_buffer (fst (rtcm_PushByte s b t))) (rtf_buffer s @ [b])"
  by (auto simp: rtcm_PushByte_def rtcm_StartFrame_def suffix_def Let_def)

interpretation rtcm_sound: sound_framer rtcm_PushByte rtf_buffer rtcm_raw_bytes
  "\<lambda>s. max 1 (rtf_max_frame_length s)" rtcm_inv rtf_max_frame_length "\<lambda>r. rtcm_checksum_status r = CS_kValid" rtcm_good rtcm_record
  by unfold_locales
    (rule rtcm_max_frame_length_PushByte rtcm_suffix_PushByte rtcm_valid_is_good; assumption)+

interpretation rtcm_rec: recognising_framer rtcm_PushByte rtf_max_frame_length
  "\<lambda>s. rtf_buffer s = []" "\<lambda>b. b = kRtcmPreamble" rtcm_good rtcm_record rtcm_mid
proof
  fix s :: RtcmFrameFramer and bs :: bytes and b :: u8 and t u :: "timestamp_ns option" and k m :: nat
  show "2 \<le> length bs" if "rtcm_good m bs" using that by (simp add: rtcm_good_def)
  show "pr_record (snd (rtcm_PushByte s b t)) = None \<and> rtf_buffer (fst (rtcm_PushByte s b t)) = []
      \<and> rtf_max_frame_length (fst (rtcm_PushByte s b t)) = rtf_max_frame_length s"
    if "rtf_buffer s = []" "\<not> b = kRtcmPreamble"
    using that by (simp add: rtcm_PushByte_def rtcm_StartFrame_def)
  show "snd (rtcm_PushByte s (hd bs) t) = NeedMoreData \<and> rtcm_mid (fst (rtcm_PushByte s (hd bs) t)) bs t 1
      \<and> rtf_max_frame_length (fst (rtcm_PushByte s (hd bs) t)) = rtf_max_frame_length s"
    if "rtf_buffer s = []" "rtcm_good (rtf_max_frame_length s) bs"
    using that
    by (cases bs) (auto simp: rtcm_PushByte_def rtcm_StartFrame_def rtcm_mid_def rtcm_good_def)
  show "snd (rtcm_PushByte s (bs ! k) u) = NeedMoreData
      \<and> rtcm_mid (fst (rtcm_PushByte s (bs ! k) u)) bs t (Suc k)
      \<and> rtf_max_frame_length (fst (rtcm_PushByte s (bs ! k) u)) = rtf_max_frame_length s"
    if "rtcm_mid s bs t k" "rtcm_good (rtf_max_frame_length s) bs" "1 \<le> k" "Suc k < length bs"
    using that take_Suc_conv_app_nth [of 2 bs] list.size(3) [where 'a = u8]
    by (cases "bs = []"; cases "k = 1"; cases "k = 2")
      (simp_all add: rtcm_PushByte_def rtcm_mid_def rtcm_good_def Let_def take_Suc_conv_app_nth
        nth_append)
  show "snd (rtcm_PushByte s (bs ! k) u) = RecordReady (rtcm_record bs t)
      \<and> rtf_buffer (fst (rtcm_PushByte s (bs ! k) u)) = []
      \<and> rtf_max_frame_length (fst (rtcm_PushByte s (bs ! k) u)) = rtf_max_frame_length s"
    if "rtcm_mid s bs t k" "rtcm_good (rtf_max_frame_length s) bs" "1 \<le> k" "Suc k = length bs"
  proof -
    from that have buf: "rtf_buffer s @ [bs ! k] = bs"
      by (simp add: rtcm_mid_def take_Suc_conv_app_nth [symmetric])
    have valid: "rtcm_checksum_status (rtcm_record bs t) = CS_kValid"
      using that(2) by (rule rtcm_good_valid)
    let ?s2 = "rtcm_NoteHeader (rtcm_AppendByte s (bs ! k) u)"
    have "rtcm_Complete ?s2 = (rtcm_Reset ?s2, RecordReady (rtcm_record bs t))"
      using that valid buf by (simp add: rtcm_Complete_def rtcm_mid_def rtcm_record_def Let_def)
    moreover have "rtcm_PushByte s (bs ! k) u = rtcm_Complete ?s2"
      using that buf
      by (auto simp: rtcm_PushByte_def rtcm_mid_def rtcm_good_def Let_def)
    ultimately show ?thesis by simp
  qed
qed

section \<open>Properties\<close>

text \<open>The shortest frame, with an empty payload.\<close>

lemma rtcm_literal: "6 \<le> m \<Longrightarrow> rtcm_good m [0xD3, 0x00, 0x00, 0x47, 0xEA, 0x4B]"
  by (simp add: rtcm_good_def rtcm_payload_size_def rtcm_reported_crc_def crc24q_eval)

text \<open>C16. An RTCM framer with an empty buffer, fed any interleaving of well-formed RTCM 3 frames no longer
  than its limit and of noise without the preamble byte, delivers exactly those frames, in order, each
  stamped with the time of its first byte, and is empty again.\<close>

theorem rtcm_stream_framing:
  assumes "rtf_buffer s = []"
    and "list_all (seg_ok (\<lambda>b. b = kRtcmPreamble) (rtcm_good (rtf_max_frame_length s))) segs"
  shows "emitted (snd (feed rtcm_PushByte s (concat (map seg_bytes segs))))
           = concat (map (seg_records rtcm_record) segs)
         \<and> rtf_buffer (fst (feed rtcm_PushByte s (concat (map seg_bytes segs)))) = []"
  using rtcm_rec.feed_segments [OF assms] .

theorem rtcm_stream_framing_witness:
  "emitted (snd (feed rtcm_PushByte (rtcm_new 1029)
     (concat (map seg_bytes
       [Noise [(0x24, Some 1)],
        Frame (map (\<lambda>b. (b, Some 2)) [0xD3, 0x00, 0x00, 0x47, 0xEA, 0x4B])]))))
   = concat (map (seg_records rtcm_record)
       [Noise [(0x24, Some 1)],
        Frame (map (\<lambda>b. (b, Some 2)) [0xD3, 0x00, 0x00, 0x47, 0xEA, 0x4B])])"
proof -
  have ok: "list_all (seg_ok (\<lambda>b. b = kRtcmPreamble) (rtcm_good (rtf_max_frame_length (rtcm_new 1029))))
    [Noise [(0x24, Some 1)],
     Frame (map (\<lambda>b. (b, Some 2)) [0xD3, 0x00, 0x00, 0x47, 0xEA, 0x4B])]"
    by (simp add: seg_ok_def rtcm_literal rtcm_new_def)
  have "rtf_buffer (rtcm_new 1029) = []" by (simp add: rtcm_new_def)
  from rtcm_stream_framing [OF this ok] show ?thesis by blast
qed

text \<open>Whatever bytes an RTCM framer receives, the raw bytes of the records it delivers, in order and
  followed by what it still buffers, form a subsequence of the received bytes, and the buffer never
  exceeds the frame limit (one preamble byte at least).\<close>

lemma rtcm_no_fabrication:
  "subseq (concat (map rtcm_raw_bytes (emitted (snd (feed rtcm_PushByte (rtcm_new m) xs))))
             @ rtf_buffer (fst (feed rtcm_PushByte (rtcm_new m) xs)))
     (map fst xs)
   \<and> length (rtf_buffer (fst (feed rtcm_PushByte (rtcm_new m) xs))) \<le> max 1 m"
  using rtcm_cons.feed_conserves [OF rtcm_inv_new, of m xs] rtcm_cons.feed_bounded [OF rtcm_inv_new, of m xs]
  by (simp add: rtcm_new_def)

text \<open>A record a RTCM framer delivers with a valid checksum status (directly or by the search for an
  embedded frame) is the record of a contiguous run of the received bytes that is a well-formed RTCM
  frame within the limit: sync bytes, announced length and checksum all agree.\<close>

lemma rtcm_valid_records_are_frames:
  assumes "r \<in> set (emitted (snd (feed rtcm_PushByte (rtcm_new m) xs)))"
    and "rtcm_checksum_status r = CS_kValid"
  shows "\<exists>bs ts. rtcm_good m bs \<and> sublist bs (map fst xs) \<and> r = rtcm_record bs ts"
  using rtcm_sound.feed_sound [OF rtcm_inv_new assms] by (simp add: rtcm_new_def)

theorem rtcm_valid_records_are_frames_witness:
  "\<exists>bs ts. rtcm_good 64 bs \<and> sublist bs (map fst (map (\<lambda>b. (b, None :: timestamp_ns option)) [0xD3, 0x00, 0x00, 0x47, 0xEA, 0x4B]))
     \<and> rtcm_record [0xD3, 0x00, 0x00, 0x47, 0xEA, 0x4B] None = rtcm_record bs ts"
proof (rule rtcm_valid_records_are_frames)
  have good: "rtcm_good 64 [0xD3, 0x00, 0x00, 0x47, 0xEA, 0x4B]" by (rule rtcm_literal) simp
  then show "rtcm_checksum_status (rtcm_record [0xD3, 0x00, 0x00, 0x47, 0xEA, 0x4B] None) = CS_kValid" by (rule rtcm_good_valid)
  show "rtcm_record [0xD3, 0x00, 0x00, 0x47, 0xEA, 0x4B] None \<in> set (emitted (snd (feed rtcm_PushByte (rtcm_new 64)
      (map (\<lambda>b. (b, None)) [0xD3, 0x00, 0x00, 0x47, 0xEA, 0x4B]))))"
    using rtcm_rec.feed_frame [of "rtcm_new 64" "map (\<lambda>b. (b, None)) [0xD3, 0x00, 0x00, 0x47, 0xEA, 0x4B]"] good
    by (simp add: rtcm_new_def emitted_Cons o_def del: feed.simps)
qed

end
