(* ===== verification/Unicore_Binary_Framer.thy ===== *)
theory Unicore_Binary_Framer
  imports Stream_Framer Checksums
begin

text \<open>
  \<open>UnicoreBinaryFrameFramer\<close> of \<open>gnss_protocols/src/unicore_binary_framer.cpp\<close>: sync bytes AA 44 B5, a
  24-byte header whose seventh and eighth bytes hold the payload length, the payload and a CRC-32 over
  everything before it.  Unlike UBX and RTCM, a frame whose CRC fails is never delivered: only an embedded
  valid frame is.
\<close>

section \<open>Model\<close>

record UnicoreBinaryFrameFramer =
  unf_max_frame_length :: nat
  unf_buffer :: bytes
  unf_byte_timestamps :: "timestamp_ns option list"
  unf_frame_timestamp_ns :: "timestamp_ns option"
  unf_expected_frame_size :: nat

abbreviation (input) kUnicoreBinarySync1 :: u8 where "kUnicoreBinarySync1 \<equiv> 0xAA"
abbreviation (input) kUnicoreBinarySync2 :: u8 where "kUnicoreBinarySync2 \<equiv> 0x44"
abbreviation (input) kUnicoreBinarySync3 :: u8 where "kUnicoreBinarySync3 \<equiv> 0xB5"
abbreviation (input) kUnicoreBinaryHeaderSize :: nat where "kUnicoreBinaryHeaderSize \<equiv> 24"
abbreviation (input) kUnicoreBinaryCrcSize :: nat where "kUnicoreBinaryCrcSize \<equiv> 4"

text \<open>The readers take the buffer and the offset the pointer points to.\<close>

definition ReadLittleEndian16 :: "bytes \<Rightarrow> nat \<Rightarrow> u16" where
  "ReadLittleEndian16 data off = ucast (data ! off) OR push_bit 8 (ucast (data ! (off + 1)))"

definition ReadLittleEndian32 :: "bytes \<Rightarrow> nat \<Rightarrow> u32" where
  "ReadLittleEndian32 data off =
     ucast (data ! off) OR push_bit 8 (ucast (data ! (off + 1)))
     OR push_bit 16 (ucast (data ! (off + 2))) OR push_bit 24 (ucast (data ! (off + 3)))"

definition unib_new :: "nat \<Rightarrow> UnicoreBinaryFrameFramer" where
  "unib_new max_frame_length =
     \<lparr>unf_max_frame_length = max_frame_length, unf_buffer = [], unf_byte_timestamps = [],
      unf_frame_timestamp_ns = None, unf_expected_frame_size = 0\<rparr>"

definition unib_Reset :: "UnicoreBinaryFrameFramer \<Rightarrow> UnicoreBinaryFrameFramer" where
  "unib_Reset s = s\<lparr>unf_buffer := [], unf_byte_timestamps := [], unf_frame_timestamp_ns := None,
                    unf_expected_frame_size := 0\<rparr>"

definition unib_AppendByte ::
  "UnicoreBinaryFrameFramer \<Rightarrow> u8 \<Rightarrow> timestamp_ns option \<Rightarrow> UnicoreBinaryFrameFramer" where
  "unib_AppendByte s byte ts = s\<lparr>unf_buffer := unf_buffer s @ [byte],
                                 unf_byte_timestamps := unf_byte_timestamps s @ [ts]\<rparr>"

definition unib_StartSync ::
  "UnicoreBinaryFrameFramer \<Rightarrow> u8 \<Rightarrow> timestamp_ns option
     \<Rightarrow> UnicoreBinaryFrameFramer \<times> UnicoreBinaryFrame ParserResult" where
  "unib_StartSync s byte ts =
     (if byte \<noteq> kUnicoreBinarySync1 then (s, Skipped)
      else ((unib_AppendByte s byte ts)\<lparr>unf_frame_timestamp_ns := ts, unf_expected_frame_size := 0\<rparr>,
            NeedMoreData))"

text \<open>What the second and third sync byte do: the expected byte is taken, a first sync byte restarts the
  search, anything else abandons it.\<close>

definition unib_NextSync ::
  "UnicoreBinaryFrameFramer \<Rightarrow> u8 \<Rightarrow> u8 \<Rightarrow> timestamp_ns option
     \<Rightarrow> UnicoreBinaryFrameFramer \<times> UnicoreBinaryFrame ParserResult" where
  "unib_NextSync s expected byte ts =
     (if byte = expected then (unib_AppendByte s byte ts, NeedMoreData)
      else if byte = kUnicoreBinarySync1 then
        (s\<lparr>unf_buffer := [byte], unf_byte_timestamps := [ts], unf_frame_timestamp_ns := ts,
           unf_expected_frame_size := 0\<rparr>, NeedMoreData)
      else (unib_Reset s, Skipped))"

definition unib_BuildFrame ::
  "bytes \<Rightarrow> nat \<Rightarrow> nat \<Rightarrow> timestamp_ns option \<Rightarrow> UnicoreBinaryFrame" where
  "unib_BuildFrame buffer frame_offset frame_size ts =
     (let reported = ReadLittleEndian32 buffer (frame_offset + frame_size - kUnicoreBinaryCrcSize);
          computed = ComputeUnicoreBinaryCrc32
                       (bslice frame_offset (frame_size - kUnicoreBinaryCrcSize) buffer)
      in \<lparr>unib_protocol = PT_kUnicore,
          unib_timestamp_ns = ts,
          unib_header_length = 24,
          unib_cpu_idle = buffer ! (frame_offset + 3),
          unib_message_id = ReadLittleEndian16 buffer (frame_offset + 4),
          unib_payload_length = ReadLittleEndian16 buffer (frame_offset + 6),
          unib_time_ref = buffer ! (frame_offset + 8),
          unib_time_status = buffer ! (frame_offset + 9),
          unib_week_number = ReadLittleEndian16 buffer (frame_offset + 10),
          unib_milliseconds_of_week = ReadLittleEndian32 buffer (frame_offset + 12),
          unib_header_version = ReadLittleEndian32 buffer (frame_offset + 16),
          unib_reserved = buffer ! (frame_offset + 20),
          unib_leap_seconds = buffer ! (frame_offset + 21),
          unib_delay_ms = ReadLittleEndian16 buffer (frame_offset + 22),
          unib_payload_offset = kUnicoreBinaryHeaderSize,
          unib_payload = bslice (frame_offset + kUnicoreBinaryHeaderSize)
                           (frame_size - kUnicoreBinaryHeaderSize - kUnicoreBinaryCrcSize) buffer,
          unib_raw_bytes = bslice frame_offset frame_size buffer,
          unib_checksum_status = (if reported = computed then CS_kValid else CS_kInvalid),
          unib_reported_crc32 = reported,
          unib_computed_crc32 = computed\<rparr>)"

definition unib_candidate :: "UnicoreBinaryFrameFramer \<Rightarrow> nat \<Rightarrow> UnicoreBinaryFrame option" where
  "unib_candidate s frame_offset =
     (let b = unf_buffer s in
      if b ! frame_offset \<noteq> kUnicoreBinarySync1 \<or> b ! (frame_offset + 1) \<noteq> kUnicoreBinarySync2
         \<or> b ! (frame_offset + 2) \<noteq> kUnicoreBinarySync3 then None
      else
        let payload_size = unat (ReadLittleEndian16 b (frame_offset + 6));
            frame_size = kUnicoreBinaryHeaderSize + payload_size + kUnicoreBinaryCrcSize in
        if frame_size > unf_max_frame_length s \<or> frame_size > length b - frame_offset then None
        else
          let expected_crc = ReadLittleEndian32 b (frame_offset + frame_size - kUnicoreBinaryCrcSize) in
          if \<not> ValidateUnicoreBinaryCrc32
                 (bslice frame_offset (frame_size - kUnicoreBinaryCrcSize) b) expected_crc
          then None
          else Some (unib_BuildFrame b frame_offset frame_size (unf_byte_timestamps s ! frame_offset)))"

function unib_find_from :: "UnicoreBinaryFrameFramer \<Rightarrow> nat \<Rightarrow> UnicoreBinaryFrame option" where
  "unib_find_from s frame_offset =
     (if frame_offset + kUnicoreBinaryHeaderSize + kUnicoreBinaryCrcSize \<le> length (unf_buffer s) then
        (case unib_candidate s frame_offset of
           Some candidate \<Rightarrow> Some candidate
         | None \<Rightarrow> unib_find_from s (Suc frame_offset))
      else None)"
  by pat_completeness auto
termination
  by (relation "measure (\<lambda>(s, off). length (unf_buffer s) - off)") auto

declare unib_find_from.simps [simp del]

definition unib_FindEmbeddedValidFrame :: "UnicoreBinaryFrameFramer \<Rightarrow> UnicoreBinaryFrame option" where
  "unib_FindEmbeddedValidFrame s = unib_find_from s 1"

definition unib_NoteHeader :: "UnicoreBinaryFrameFramer \<Rightarrow> UnicoreBinaryFrameFramer" where
  "unib_NoteHeader s =
     (let b = unf_buffer s in
      if length b = kUnicoreBinaryHeaderSize
      then s\<lparr>unf_expected_frame_size :=
               kUnicoreBinaryHeaderSize + unat (ReadLittleEndian16 b 6) + kUnicoreBinaryCrcSize\<rparr>
      else s)"

definition unib_Complete ::
  "UnicoreBinaryFrameFramer \<Rightarrow> UnicoreBinaryFrameFramer \<times> UnicoreBinaryFrame ParserResult" where
  "unib_Complete s =
     (let b = unf_buffer s;
          expected_crc = ReadLittleEndian32 b (length b - kUnicoreBinaryCrcSize) in
      if \<not> ValidateUnicoreBinaryCrc32 (bslice 0 (length b - kUnicoreBinaryCrcSize) b) expected_crc
      then (case unib_FindEmbeddedValidFrame s of
              Some recovered \<Rightarrow> (unib_Reset s, RecordReady recovered)
            | None \<Rightarrow> (unib_Reset s, InvalidData))
      else (unib_Reset s, RecordReady (unib_BuildFrame b 0 (length b) (unf_frame_timestamp_ns s))))"

definition unib_PushByte ::
  "UnicoreBinaryFrameFramer \<Rightarrow> u8 \<Rightarrow> timestamp_ns option
     \<Rightarrow> UnicoreBinaryFrameFramer \<times> UnicoreBinaryFrame ParserResult" where
  "unib_PushByte s byte ts =
     (if unf_buffer s = [] then unib_StartSync s byte ts
      else if length (unf_buffer s) = 1 then unib_NextSync s kUnicoreBinarySync2 byte ts
      else if length (unf_buffer s) = 2 then unib_NextSync s kUnicoreBinarySync3 byte ts
      else
        let s2 = unib_NoteHeader (unib_AppendByte s byte ts);
            size = length (unf_buffer s2) in
        if size = kUnicoreBinaryHeaderSize \<and> unf_expected_frame_size s2 > unf_max_frame_length s2
        then (unib_Reset s2, Overflow)
        else if unf_buffer s2 \<noteq> [] \<and> size > unf_max_frame_length s2 then (unib_Reset s2, Overflow)
        else if unf_expected_frame_size s2 = 0 \<or> size < unf_expected_frame_size s2
        then (s2, NeedMoreData)
        else unib_Complete s2)"

definition unib_Finalize ::
  "UnicoreBinaryFrameFramer \<Rightarrow> UnicoreBinaryFrameFramer \<times> UnicoreBinaryFrame ParserResult" where
  "unib_Finalize s =
     (if unf_buffer s = [] then (s, DefaultResult) else (unib_Reset s, Truncated))"

section \<open>What a valid frame is\<close>

definition unib_good :: "nat \<Rightarrow> bytes \<Rightarrow> bool" where
  "unib_good m bs \<longleftrightarrow>
     28 \<le> length bs \<and> bs ! 0 = kUnicoreBinarySync1 \<and> bs ! 1 = kUnicoreBinarySync2
     \<and> bs ! 2 = kUnicoreBinarySync3
     \<and> length bs = 28 + unat (ReadLittleEndian16 bs 6) \<and> length bs \<le> m
     \<and> ValidateUnicoreBinaryCrc32 (take (length bs - 4) bs) (ReadLittleEndian32 bs (length bs - 4))"

definition unib_record :: "bytes \<Rightarrow> timestamp_ns option \<Rightarrow> UnicoreBinaryFrame" where
  "unib_record bs ts = unib_BuildFrame bs 0 (length bs) ts"

definition unib_inv :: "UnicoreBinaryFrameFramer \<Rightarrow> bool" where
  "unib_inv s \<longleftrightarrow>
     (let b = unf_buffer s in
      length (unf_byte_timestamps s) = length b
      \<and> (length b < 24 \<longrightarrow> unf_expected_frame_size s = 0 \<and> length b \<le> max 3 (unf_max_frame_length s))
      \<and> (24 \<le> length b \<longrightarrow> unf_expected_frame_size s = 28 + unat (ReadLittleEndian16 b 6)
            \<and> length b < unf_expected_frame_size s
            \<and> unf_expected_frame_size s \<le> unf_max_frame_length s)
      \<and> (1 \<le> length b \<longrightarrow> b ! 0 = kUnicoreBinarySync1) \<and> (2 \<le> length b \<longrightarrow> b ! 1 = kUnicoreBinarySync2)
      \<and> (3 \<le> length b \<longrightarrow> b ! 2 = kUnicoreBinarySync3))"

definition unib_mid ::
  "UnicoreBinaryFrameFramer \<Rightarrow> bytes \<Rightarrow> timestamp_ns option \<Rightarrow> nat \<Rightarrow> bool" where
  "unib_mid s bs ts k \<longleftrightarrow>
     unf_buffer s = take k bs \<and> unf_frame_timestamp_ns s = ts
     \<and> unf_expected_frame_size s = (if k < 24 then 0 else length bs)"

section \<open>Lemmas\<close>

lemma ReadLittleEndian16_append:
  "off + 1 < length xs \<Longrightarrow> ReadLittleEndian16 (xs @ ys) off = ReadLittleEndian16 xs off"
  by (simp add: ReadLittleEndian16_def nth_append)

lemma ReadLittleEndian16_take:
  "off + 1 < k \<Longrightarrow> k \<le> length xs \<Longrightarrow> ReadLittleEndian16 (take k xs) off = ReadLittleEndian16 xs off"
  by (simp add: ReadLittleEndian16_def)

lemma ReadLittleEndian_bslice:
  "off + 1 < n \<Longrightarrow> a + n \<le> length xs \<Longrightarrow>
     ReadLittleEndian16 (bslice a n xs) off = ReadLittleEndian16 xs (a + off)"
  "off + 3 < n \<Longrightarrow> a + n \<le> length xs \<Longrightarrow>
     ReadLittleEndian32 (bslice a n xs) off = ReadLittleEndian32 xs (a + off)"
  by (simp_all add: ReadLittleEndian16_def ReadLittleEndian32_def algebra_simps)

lemma unib_Reset_simps [simp]:
  "unf_buffer (unib_Reset s) = []" "unf_byte_timestamps (unib_Reset s) = []"
  "unf_expected_frame_size (unib_Reset s) = 0" "unf_frame_timestamp_ns (unib_Reset s) = None"
  "unf_max_frame_length (unib_Reset s) = unf_max_frame_length s"
  by (simp_all add: unib_Reset_def)

lemma unib_AppendByte_simps [simp]:
  "unf_buffer (unib_AppendByte s b t) = unf_buffer s @ [b]"
  "unf_byte_timestamps (unib_AppendByte s b t) = unf_byte_timestamps s @ [t]"
  "unf_expected_frame_size (unib_AppendByte s b t) = unf_expected_frame_size s"
  "unf_frame_timestamp_ns (unib_AppendByte s b t) = unf_frame_timestamp_ns s"
  "unf_max_frame_length (unib_AppendByte s b t) = unf_max_frame_length s"
  by (simp_all add: unib_AppendByte_def)

lemma unib_NoteHeader_simps [simp]:
  "unf_buffer (unib_NoteHeader s) = unf_buffer s"
  "unf_byte_timestamps (unib_NoteHeader s) = unf_byte_timestamps s"
  "unf_frame_timestamp_ns (unib_NoteHeader s) = unf_frame_timestamp_ns s"
  "unf_max_frame_length (unib_NoteHeader s) = unf_max_frame_length s"
  "unf_expected_frame_size (unib_NoteHeader s) =
     (if length (unf_buffer s) = 24 then 28 + unat (ReadLittleEndian16 (unf_buffer s) 6)
      else unf_expected_frame_size s)"
  by (simp_all add: unib_NoteHeader_def Let_def)

lemma fst_unib_Complete [simp]: "fst (unib_Complete s) = unib_Reset s"
  by (simp add: unib_Complete_def Let_def split: option.split)

lemma unib_raw_BuildFrame [simp]: "unib_raw_bytes (unib_BuildFrame b off n t) = bslice off n b"
  by (simp add: unib_BuildFrame_def Let_def)

lemma unib_raw_record [simp]: "unib_raw_bytes (unib_record bs ts) = bs"
  by (simp add: unib_record_def)

lemma unib_BuildFrame_bslice:
  assumes "28 \<le> n" and "off + n \<le> length b"
  shows "unib_BuildFrame b off n t = unib_record (bslice off n b) t"
  using assms
  by (simp add: unib_record_def unib_BuildFrame_def Let_def bslice_bslice ReadLittleEndian_bslice)

lemma unib_candidate_sound:
  assumes "unib_candidate s off = Some r" and "off + 28 \<le> length (unf_buffer s)"
  obtains n where "off + n \<le> length (unf_buffer s)"
    and "unib_good (unf_max_frame_length s) (bslice off n (unf_buffer s))"
    and "r = unib_record (bslice off n (unf_buffer s)) (unf_byte_timestamps s ! off)"
proof -
  let ?b = "unf_buffer s"
  let ?n = "28 + unat (ReadLittleEndian16 ?b (off + 6))"
  from assms have sync: "?b ! off = kUnicoreBinarySync1" "?b ! (off + 1) = kUnicoreBinarySync2"
      "?b ! (off + 2) = kUnicoreBinarySync3"
    and n: "?n \<le> unf_max_frame_length s" "?n \<le> length ?b - off"
    and r: "r = unib_BuildFrame ?b off ?n (unf_byte_timestamps s ! off)"
    and crc: "ValidateUnicoreBinaryCrc32 (bslice off (?n - 4) ?b) (ReadLittleEndian32 ?b (off + ?n - 4))"
    by (auto simp: unib_candidate_def Let_def split: if_splits)
  from n assms(2) have fit: "off + ?n \<le> length ?b" by simp
  with r have rec: "r = unib_record (bslice off ?n ?b) (unf_byte_timestamps s ! off)"
    by (simp add: unib_BuildFrame_bslice)
  moreover have "take (?n - 4) (bslice off ?n ?b) = bslice off (?n - 4) ?b"
    by (simp add: bslice_def min_def)
  with sync n(1) fit crc have "unib_good (unf_max_frame_length s) (bslice off ?n ?b)"
    by (simp add: unib_good_def ReadLittleEndian_bslice algebra_simps)
  ultimately show thesis using that fit by blast
qed

lemma unib_find_from_sound:
  assumes "unib_find_from s off = Some r"
  shows "\<exists>off' n. off \<le> off' \<and> off' + n \<le> length (unf_buffer s)
    \<and> unib_good (unf_max_frame_length s) (bslice off' n (unf_buffer s))
    \<and> r = unib_record (bslice off' n (unf_buffer s)) (unf_byte_timestamps s ! off')"
  using assms
proof (induction s off rule: unib_find_from.induct)
  case (1 s off)
  from 1(2) have fit: "off + 28 \<le> length (unf_buffer s)"
    by (subst (asm) unib_find_from.simps) (auto split: if_splits)
  show ?case
  proof (cases "unib_candidate s off")
    case None
    with 1(2) fit have "unib_find_from s (Suc off) = Some r"
      by (subst (asm) unib_find_from.simps) simp
    with 1(1) fit None show ?thesis by (fastforce dest: Suc_leD)
  next
    case (Some r')
    with 1(2) fit have "r' = r" by (subst (asm) unib_find_from.simps) simp
    with Some fit show ?thesis by (metis unib_candidate_sound order_refl)
  qed
qed

lemma unib_Complete_result:
  assumes "pr_record (snd (unib_Complete s)) = Some r"
  shows "(ValidateUnicoreBinaryCrc32 (take (length (unf_buffer s) - 4) (unf_buffer s))
            (ReadLittleEndian32 (unf_buffer s) (length (unf_buffer s) - 4))
          \<and> r = unib_record (unf_buffer s) (unf_frame_timestamp_ns s))
      \<or> (\<exists>off n. off + n \<le> length (unf_buffer s)
           \<and> unib_good (unf_max_frame_length s) (bslice off n (unf_buffer s))
           \<and> r = unib_record (bslice off n (unf_buffer s)) (unf_byte_timestamps s ! off))"
proof (cases "ValidateUnicoreBinaryCrc32 (take (length (unf_buffer s) - 4) (unf_buffer s))
            (ReadLittleEndian32 (unf_buffer s) (length (unf_buffer s) - 4))")
  case True
  with assms show ?thesis by (simp add: unib_Complete_def unib_record_def bslice_def Let_def)
next
  case False
  with assms have "unib_find_from s 1 = Some r"
    by (simp add: unib_Complete_def unib_FindEmbeddedValidFrame_def bslice_def Let_def
        split: option.splits)
  from unib_find_from_sound [OF this] show ?thesis by blast
qed

subsection \<open>Invariant\<close>

text \<open>The shapes of the buffer that the sync search distinguishes.\<close>

lemma sync_cases:
  obtains "b = []" | "length b = 1" | "length b = 2" | "3 \<le> length b"
  by (cases "length b"; cases "length b - 1"; cases "length b - 2") auto

lemma unib_PushByte_cases:
  "unf_buffer s = [] \<Longrightarrow> unib_PushByte s b t = unib_StartSync s b t"
  "length (unf_buffer s) = 1 \<Longrightarrow> unib_PushByte s b t = unib_NextSync s kUnicoreBinarySync2 b t"
  "length (unf_buffer s) = 2 \<Longrightarrow> unib_PushByte s b t = unib_NextSync s kUnicoreBinarySync3 b t"
  by (auto simp: unib_PushByte_def)

lemma unib_PushByte_long:
  assumes "3 \<le> length (unf_buffer s)"
  shows "unib_PushByte s b t =
       (let s2 = unib_NoteHeader (unib_AppendByte s b t); size = Suc (length (unf_buffer s)) in
        if size = 24 \<and> unf_expected_frame_size s2 > unf_max_frame_length s
          \<or> size > unf_max_frame_length s then (unib_Reset s2, Overflow)
        else if unf_expected_frame_size s2 = 0 \<or> size < unf_expected_frame_size s2
        then (s2, NeedMoreData)
        else unib_Complete s2)"
proof -
  have "unf_buffer s \<noteq> []" "length (unf_buffer s) \<noteq> 1" "length (unf_buffer s) \<noteq> 2"
    using assms by auto
  then show ?thesis by (simp add: unib_PushByte_def Let_def)
qed

lemma unib_inv_new: "unib_inv (unib_new m)"
  by (simp add: unib_inv_def unib_new_def)

lemma unib_inv_Reset [simp]: "unib_inv (unib_Reset s)"
  by (simp add: unib_inv_def)

lemma unib_max_frame_length_PushByte [simp]:
  "unf_max_frame_length (fst (unib_PushByte s b t)) = unf_max_frame_length s"
  by (simp add: unib_PushByte_def unib_StartSync_def unib_NextSync_def Let_def)

lemma unib_inv_PushByte:
  assumes "unib_inv s"
  shows "unib_inv (fst (unib_PushByte s b t))"
proof (cases "unf_buffer s" rule: sync_cases)
  case 1
  with assms show ?thesis by (auto simp: unib_PushByte_cases unib_StartSync_def unib_inv_def)
next
  case 2
  with assms show ?thesis
    by (auto simp: unib_PushByte_cases unib_NextSync_def unib_inv_def nth_append Let_def)
next
  case 3
  with assms show ?thesis
    by (auto simp: unib_PushByte_cases unib_NextSync_def unib_inv_def nth_append Let_def)
next
  case 4
  with assms show ?thesis
    by (simp add: unib_PushByte_long Let_def)
      (auto simp: unib_inv_def Let_def nth_append ReadLittleEndian16_append)
qed

lemma unib_conserves_PushByte:
  "subseq (raw_of unib_raw_bytes (snd (unib_PushByte s b t)) @ unf_buffer (fst (unib_PushByte s b t)))
     (unf_buffer s @ [b])"
proof -
  let ?s2 = "unib_NoteHeader (unib_AppendByte s b t)"
  have "subseq (raw_of unib_raw_bytes (snd (unib_Complete ?s2))) (unf_buffer s @ [b])"
    using unib_Complete_result [of ?s2]
    by (cases "pr_record (snd (unib_Complete ?s2))") (auto simp: raw_of_def subseq_bslice)
  then show ?thesis
    by (auto simp: unib_PushByte_def unib_StartSync_def unib_NextSync_def raw_of_def Let_def)
qed

lemma unib_suffix_PushByte: "suffix (unf_buffer (fst (unib_PushByte s b t))) (unf_buffer s @ [b])"
  by (auto simp: unib_PushByte_def unib_StartSync_def unib_NextSync_def suffix_def Let_def)

subsection \<open>Soundness of a record\<close>

lemma unib_record_is_good:
  assumes "unib_inv s" and "pr_record (snd (unib_PushByte s b t)) = Some r"
  shows "\<exists>bs ts. unib_good (unf_max_frame_length s) bs \<and> sublist bs (unf_buffer s @ [b])
           \<and> r = unib_record bs ts"
proof -
  let ?s2 = "unib_NoteHeader (unib_AppendByte s b t)" and ?b = "unf_buffer s"
  from assms(2) have long: "3 \<le> length ?b"
    by (cases ?b rule: sync_cases)
      (simp_all add: unib_PushByte_cases unib_StartSync_def unib_NextSync_def split: if_splits)
  have push: "pr_record (snd (unib_Complete ?s2)) = Some r"
    and n: "unf_expected_frame_size ?s2 \<noteq> 0" "unf_expected_frame_size ?s2 \<le> Suc (length ?b)"
      "Suc (length ?b) \<le> unf_max_frame_length s"
    using assms(2) long by (auto simp: unib_PushByte_long Let_def split: if_splits)
  have size: "24 \<le> length ?b" "length (?b @ [b]) = 28 + unat (ReadLittleEndian16 (?b @ [b]) 6)"
    using n assms(1) long
    by (auto simp: unib_inv_def Let_def ReadLittleEndian16_append split: if_splits)
  from unib_Complete_result [OF push] show ?thesis
  proof
    assume whole: "ValidateUnicoreBinaryCrc32 (take (length (unf_buffer ?s2) - 4) (unf_buffer ?s2))
            (ReadLittleEndian32 (unf_buffer ?s2) (length (unf_buffer ?s2) - 4))
          \<and> r = unib_record (unf_buffer ?s2) (unf_frame_timestamp_ns ?s2)"
    have "28 \<le> length (?b @ [b])" using size(2) by linarith
    moreover have "(?b @ [b]) ! 0 = kUnicoreBinarySync1" "(?b @ [b]) ! 1 = kUnicoreBinarySync2"
      "(?b @ [b]) ! 2 = kUnicoreBinarySync3"
      using assms(1) long by (auto simp: unib_inv_def Let_def nth_append)
    ultimately have "unib_good (unf_max_frame_length s) (?b @ [b])"
      unfolding unib_good_def using whole n(3) size(2) by simp
    with whole show ?thesis by auto
  next
    assume "\<exists>off n. off + n \<le> length (unf_buffer ?s2)
           \<and> unib_good (unf_max_frame_length ?s2) (bslice off n (unf_buffer ?s2))
           \<and> r = unib_record (bslice off n (unf_buffer ?s2)) (unf_byte_timestamps ?s2 ! off)"
    then show ?thesis by (auto intro: sublist_bslice)
  qed
qed

section \<open>The framer contracts\<close>

interpretation unib_sound: sound_framer unib_PushByte unf_buffer unib_raw_bytes
  "\<lambda>s. max 3 (unf_max_frame_length s)" unib_inv unf_max_frame_length "\<lambda>r. True" unib_good unib_record
proof
  show "length (unf_buffer s) \<le> max 3 (unf_max_frame_length s)" if "unib_inv s" for s
    using that by (cases "length (unf_buffer s) < 24") (auto simp: unib_inv_def Let_def)
  show "\<exists>bs ts. unib_good (unf_max_frame_length s) bs \<and> sublist bs (unf_buffer s @ [b])
           \<and> r = unib_record bs ts"
    if "unib_inv s" "pr_record (snd (unib_PushByte s b t)) = Some r" for s b t r
    using that by (rule unib_record_is_good)
qed (simp_all add: unib_inv_PushByte unib_conserves_PushByte unib_suffix_PushByte
       del: suffix_snoc)

lemma unib_mid_append:
  assumes "unib_mid s bs t k" and "k < length bs"
  shows "unf_buffer s @ [bs ! k] = take (Suc k) bs" and "length (unf_buffer s) = k"
  using assms by (simp_all add: unib_mid_def take_Suc_conv_app_nth)

lemma unib_push_next:
  assumes "unib_mid s bs t k" "unib_good (unf_max_frame_length s) bs" "1 \<le> k" "Suc k < length bs"
  shows "snd (unib_PushByte s (bs ! k) u) = NeedMoreData
      \<and> unib_mid (fst (unib_PushByte s (bs ! k) u)) bs t (Suc k)
      \<and> unf_max_frame_length (fst (unib_PushByte s (bs ! k) u)) = unf_max_frame_length s"
proof -
  have len: "length (unf_buffer s) = k" and app: "unf_buffer s @ [bs ! k] = take (Suc k) bs"
    using unib_mid_append [OF assms(1)] assms(4) by simp_all
  have sync: "28 \<le> length bs" "bs ! 1 = kUnicoreBinarySync2" "bs ! 2 = kUnicoreBinarySync3"
    and size: "28 + unat (ReadLittleEndian16 bs 6) = length bs" "length bs \<le> unf_max_frame_length s"
    using assms(2) unfolding unib_good_def by metis+
  consider "k = 1" | "k = 2" | "3 \<le> k" using assms(3) by linarith
  moreover have "take 23 bs @ [bs ! 23] = take 24 bs"
    using sync(1) take_Suc_conv_app_nth [of 23 bs] by simp
  moreover from this have "ReadLittleEndian16 (take 23 bs @ [bs ! 23]) 6 = ReadLittleEndian16 bs 6"
    using sync(1) by (simp add: ReadLittleEndian16_take)
  ultimately show ?thesis
  proof cases
    case 1
    then show ?thesis
      using assms(1) sync app len by (simp add: unib_PushByte_cases unib_NextSync_def unib_mid_def)
  next
    case 2
    then show ?thesis
      using assms(1) sync app len by (simp add: unib_PushByte_cases unib_NextSync_def unib_mid_def)
  next
    case 3
    then show ?thesis
      using assms(1,4) sync size app len \<open>take 23 bs @ [bs ! 23] = take 24 bs\<close>
        \<open>ReadLittleEndian16 (take 23 bs @ [bs ! 23]) 6 = ReadLittleEndian16 bs 6\<close>
      by (simp add: unib_PushByte_long unib_mid_def Let_def)
  qed
qed

lemma unib_push_last:
  assumes "unib_mid s bs t k" "unib_good (unf_max_frame_length s) bs" "1 \<le> k" "Suc k = length bs"
  shows "snd (unib_PushByte s (bs ! k) u) = RecordReady (unib_record bs t)
      \<and> unf_buffer (fst (unib_PushByte s (bs ! k) u)) = []
      \<and> unf_max_frame_length (fst (unib_PushByte s (bs ! k) u)) = unf_max_frame_length s"
proof -
  let ?s2 = "unib_NoteHeader (unib_AppendByte s (bs ! k) u)"
  have len: "length (unf_buffer s) = k" and app: "unf_buffer s @ [bs ! k] = bs"
    using unib_mid_append [OF assms(1)] assms(4) by simp_all
  have good: "28 \<le> length bs" "length bs \<le> unf_max_frame_length s"
    "ValidateUnicoreBinaryCrc32 (take (length bs - 4) bs) (ReadLittleEndian32 bs (length bs - 4))"
    using assms(2) unfolding unib_good_def by metis+
  have "unib_Complete ?s2 = (unib_Reset ?s2, RecordReady (unib_record bs t))"
    using good(3) assms(1) app by (simp add: unib_Complete_def unib_record_def unib_mid_def bslice_def Let_def)
  moreover have "unib_PushByte s (bs ! k) u = unib_Complete ?s2"
    using good assms(1,4) len by (auto simp: unib_PushByte_long unib_mid_def Let_def)
  ultimately show ?thesis by simp
qed

interpretation unib_rec: recognising_framer unib_PushByte unf_max_frame_length
  "\<lambda>s. unf_buffer s = []" "\<lambda>b. b = kUnicoreBinarySync1" unib_good unib_record unib_mid
proof
  fix s :: UnicoreBinaryFrameFramer and bs :: bytes and b :: u8 and t u :: "timestamp_ns option"
    and k m :: nat
  show "2 \<le> length bs" if "unib_good m bs" using that by (simp add: unib_good_def)
  show "pr_record (snd (unib_PushByte s b t)) = None \<and> unf_buffer (fst (unib_PushByte s b t)) = []
      \<and> unf_max_frame_length (fst (unib_PushByte s b t)) = unf_max_frame_length s"
    if "unf_buffer s = []" "\<not> b = kUnicoreBinarySync1"
    using that by (simp add: unib_PushByte_cases unib_StartSync_def)
  show "snd (unib_PushByte s (hd bs) t) = NeedMoreData \<and> unib_mid (fst (unib_PushByte s (hd bs) t)) bs t 1
      \<and> unf_max_frame_length (fst (unib_PushByte s (hd bs) t)) = unf_max_frame_length s"
    if "unf_buffer s = []" "unib_good (unf_max_frame_length s) bs"
    using that
    by (cases bs) (auto simp: unib_PushByte_cases unib_StartSync_def unib_mid_def unib_good_def)
  show "snd (unib_PushByte s (bs ! k) u) = NeedMoreData
      \<and> unib_mid (fst (unib_PushByte s (bs ! k) u)) bs t (Suc k)
      \<and> unf_max_frame_length (fst (unib_PushByte s (bs ! k) u)) = unf_max_frame_length s"
    if "unib_mid s bs t k" "unib_good (unf_max_frame_length s) bs" "1 \<le> k" "Suc k < length bs"
    by (rule unib_push_next [OF that])
  show "snd (unib_PushByte s (bs ! k) u) = RecordReady (unib_record bs t)
      \<and> unf_buffer (fst (unib_PushByte s (bs ! k) u)) = []
      \<and> unf_max_frame_length (fst (unib_PushByte s (bs ! k) u)) = unf_max_frame_length s"
    if "unib_mid s bs t k" "unib_good (unf_max_frame_length s) bs" "1 \<le> k" "Suc k = length bs"
    by (rule unib_push_last [OF that])
qed

section \<open>Properties\<close>

lemma unib_literal:
  "28 \<le> m \<Longrightarrow> unib_good m
    [0xAA, 0x44, 0xB5, 0x00, 0x00, 0x00, 0x00, 0x00, 0x00, 0x00, 0x00, 0x00, 0x00, 0x00, 0x00,
     0x00, 0x00, 0x00, 0x00, 0x00, 0x00, 0x00, 0x00, 0x00, 0x8F, 0x2D, 0xC3, 0x98]"
  by (simp add: unib_good_def ReadLittleEndian16_def ReadLittleEndian32_def
      ValidateUnicoreBinaryCrc32_def crc32_eval)

text \<open>A binary Unicore framer with an empty buffer, fed any interleaving of well-formed frames no longer
  than its limit and of noise without the first sync byte, delivers exactly those frames, in order, each
  stamped with the time of its first byte, and is empty again.\<close>

lemma unib_stream_framing:
  assumes "unf_buffer s = []"
    and "list_all (seg_ok (\<lambda>b. b = kUnicoreBinarySync1) (unib_good (unf_max_frame_length s))) segs"
  shows "emitted (snd (feed unib_PushByte s (concat (map seg_bytes segs))))
           = concat (map (seg_records unib_record) segs)
         \<and> unf_buffer (fst (feed unib_PushByte s (concat (map seg_bytes segs)))) = []"
  using unib_rec.feed_segments [OF assms] .

theorem unib_stream_framing_witness:
  "emitted (snd (feed unib_PushByte (unib_new 65536)
     (concat (map seg_bytes [Noise [(0x24, Some 1)], Frame (map (\<lambda>b. (b, Some 2))
       [0xAA, 0x44, 0xB5, 0x00, 0x00, 0x00, 0x00, 0x00, 0x00, 0x00, 0x00, 0x00, 0x00, 0x00, 0x00,
     0x00, 0x00, 0x00, 0x00, 0x00, 0x00, 0x00, 0x00, 0x00, 0x8F, 0x2D, 0xC3, 0x98])]))))
   = concat (map (seg_records unib_record) [Noise [(0x24, Some 1)], Frame (map (\<lambda>b. (b, Some 2))
       [0xAA, 0x44, 0xB5, 0x00, 0x00, 0x00, 0x00, 0x00, 0x00, 0x00, 0x00, 0x00, 0x00, 0x00, 0x00,
     0x00, 0x00, 0x00, 0x00, 0x00, 0x00, 0x00, 0x00, 0x00, 0x8F, 0x2D, 0xC3, 0x98])])"
proof -
  have ok: "list_all (seg_ok (\<lambda>b. b = kUnicoreBinarySync1)
      (unib_good (unf_max_frame_length (unib_new 65536))))
    [Noise [(0x24, Some 1)], Frame (map (\<lambda>b. (b, Some 2))
       [0xAA, 0x44, 0xB5, 0x00, 0x00, 0x00, 0x00, 0x00, 0x00, 0x00, 0x00, 0x00, 0x00, 0x00, 0x00,
     0x00, 0x00, 0x00, 0x00, 0x00, 0x00, 0x00, 0x00, 0x00, 0x8F, 0x2D, 0xC3, 0x98])]"
    using unib_literal [of 65536] by (simp add: seg_ok_def unib_new_def)
  have "unf_buffer (unib_new 65536) = []" by (simp add: unib_new_def)
  from unib_stream_framing [OF this ok] show ?thesis by blast
qed

text \<open>Every record a binary Unicore framer delivers, whatever bytes it is fed, is the record of a
  contiguous run of the received bytes that is a well-formed frame within the limit, and what it delivers
  and still holds is a subsequence of what it received: a corrupted frame is never delivered.\<close>

lemma unib_records_are_frames:
  "(\<forall>r. r \<in> set (emitted (snd (feed unib_PushByte (unib_new m) xs))) \<longrightarrow>
      (\<exists>bs ts. unib_good m bs \<and> sublist bs (map fst xs) \<and> r = unib_record bs ts))
   \<and> subseq (concat (map unib_raw_bytes (emitted (snd (feed unib_PushByte (unib_new m) xs))))
             @ unf_buffer (fst (feed unib_PushByte (unib_new m) xs)))
       (map fst xs)
   \<and> length (unf_buffer (fst (feed unib_PushByte (unib_new m) xs))) \<le> max 3 m"
proof -
  have new: "unf_buffer (unib_new m) = []" "unf_max_frame_length (unib_new m) = m"
    by (simp_all add: unib_new_def)
  show ?thesis
    using unib_sound.feed_sound [OF unib_inv_new, of _ m xs] unib_sound.feed_conserves [OF unib_inv_new, of m xs]
      unib_sound.feed_bounded [OF unib_inv_new, of m xs]
    unfolding new by simp
qed

theorem unib_records_are_frames_witness:
  "\<exists>bs ts. unib_good 64 bs \<and> sublist bs
     [0xAA, 0x44, 0xB5, 0x00, 0x00, 0x00, 0x00, 0x00, 0x00, 0x00, 0x00, 0x00, 0x00, 0x00, 0x00,
     0x00, 0x00, 0x00, 0x00, 0x00, 0x00, 0x00, 0x00, 0x00, 0x8F, 0x2D, 0xC3, 0x98]
     \<and> unib_record
     [0xAA, 0x44, 0xB5, 0x00, 0x00, 0x00, 0x00, 0x00, 0x00, 0x00, 0x00, 0x00, 0x00, 0x00, 0x00,
     0x00, 0x00, 0x00, 0x00, 0x00, 0x00, 0x00, 0x00, 0x00, 0x8F, 0x2D, 0xC3, 0x98] None
       = unib_record bs ts"
proof -
  let ?f = "[0xAA, 0x44, 0xB5, 0x00, 0x00, 0x00, 0x00, 0x00, 0x00, 0x00, 0x00, 0x00, 0x00, 0x00, 0x00,
     0x00, 0x00, 0x00, 0x00, 0x00, 0x00, 0x00, 0x00, 0x00, 0x8F, 0x2D, 0xC3, 0x98] :: bytes"
  have "unib_record ?f None \<in> set (emitted (snd (feed unib_PushByte (unib_new 64)
      (map (\<lambda>b. (b, None)) ?f))))"
    using unib_rec.feed_frame [of "unib_new 64" "map (\<lambda>b. (b, None)) ?f"] unib_literal [of 64]
    by (simp add: unib_new_def emitted_Cons o_def del: feed.simps)
  with unib_records_are_frames [of 64 "map (\<lambda>b. (b, None)) ?f"]
  have "\<exists>bs ts. unib_good 64 bs \<and> sublist bs (map fst (map (\<lambda>b. (b, None :: timestamp_ns option)) ?f))
     \<and> unib_record ?f None = unib_record bs ts" by blast
  then show ?thesis by simp
qed

end
