(* ===== verification/Cxx_Text.thy ===== *)
theory Cxx_Text
  imports UG_Prelude "HOL-Library.Sublist"
begin

text \<open>
  What the text-handling code uses of the C++ library, for the \<open>"C"\<close> locale: the character classes of
  \<open><cctype>\<close>, the searches of \<open>std::string_view\<close>, and the two helpers several source files repeat
  (\<open>TrimLineEnding\<close>, \<open>HexNibble\<close>).
\<close>

section \<open>Characters\<close>

definition char_code :: "char \<Rightarrow> nat" where
  "char_code c = of_char c"

definition c_isdigit :: "char \<Rightarrow> bool" where
  "c_isdigit c \<longleftrightarrow> 48 \<le> char_code c \<and> char_code c \<le> 57"

definition c_isupper :: "char \<Rightarrow> bool" where
  "c_isupper c \<longleftrightarrow> 65 \<le> char_code c \<and> char_code c \<le> 90"

definition c_islower :: "char \<Rightarrow> bool" where
  "c_islower c \<longleftrightarrow> 97 \<le> char_code c \<and> char_code c \<le> 122"

definition c_isxdigit :: "char \<Rightarrow> bool" where
  "c_isxdigit c \<longleftrightarrow>
     c_isdigit c \<or> 65 \<le> char_code c \<and> char_code c \<le> 70 \<or> 97 \<le> char_code c \<and> char_code c \<le> 102"

definition c_isspace :: "char \<Rightarrow> bool" where
  "c_isspace c \<longleftrightarrow> char_code c = 32 \<or> 9 \<le> char_code c \<and> char_code c \<le> 13"

definition c_toupper :: "char \<Rightarrow> char" where
  "c_toupper c = (if c_islower c then char_of (char_code c - 32) else c)"

definition c_tolower :: "char \<Rightarrow> char" where
  "c_tolower c = (if c_isupper c then char_of (char_code c + 32) else c)"

lemma char_code_char_of [simp]: "n < 256 \<Longrightarrow> char_code (char_of n) = n"
  by (simp add: char_code_def)

lemma char_code_less: "char_code c < 256"
  by (simp add: char_code_def of_char_nat_less)

lemma char_code_inject: "char_code a = char_code b \<longleftrightarrow> a = b"
  by (simp add: char_code_def)

lemma c_tolower_idem [simp]: "c_tolower (c_tolower c) = c_tolower c"
  by (auto simp: c_tolower_def c_isupper_def)

text \<open>Evaluation on literals: lower-casing sets one bit of an upper-case letter.\<close>

lemma c_tolower_Char:
  "c_tolower (Char b0 b1 b2 b3 b4 b5 b6 b7)
     = Char b0 b1 b2 b3 b4 (b5 \<or> c_isupper (Char b0 b1 b2 b3 b4 b5 b6 b7)) b6 b7"
  unfolding c_tolower_def c_isupper_def char_code_def
  by (cases b0; cases b1; cases b2; cases b3; cases b4; cases b5; cases b6; cases b7; simp add: char_of_eq_iff)

text \<open>\<open>HexNibble\<close> of \<open>nmea_checksum.cpp\<close> and \<open>unicore_framer.cpp\<close>: the value of a hexadecimal digit.\<close>

definition HexNibble :: "char \<Rightarrow> u8" where
  "HexNibble c =
     (if c_isdigit c then word_of_nat (char_code c) - word_of_nat (char_code (CHR ''0''))
      else 10 + word_of_nat (char_code (c_toupper c)) - word_of_nat (char_code (CHR ''A'')))"

section \<open>Decimal numbers\<close>

text \<open>What \<open>std::to_string\<close> and \<open>operator<<\<close> write for an unsigned integer.\<close>

function dec_nat :: "nat \<Rightarrow> string" where
  "dec_nat n =
     (if n < 10 then [char_of (48 + n)] else dec_nat (n div 10) @ [char_of (48 + n mod 10)])"
  by pat_completeness auto
termination by (relation "measure id") auto

declare dec_nat.simps [simp del]

section \<open>Searching\<close>

text \<open>\<open>view.find(c)\<close> and \<open>view.rfind(c)\<close>; \<open>None\<close> is \<open>npos\<close>.\<close>

definition find_char :: "char \<Rightarrow> string \<Rightarrow> nat option" where
  "find_char c s = (if c \<in> set s then Some (length (takeWhile (\<lambda>x. x \<noteq> c) s)) else None)"

definition rfind_char :: "char \<Rightarrow> string \<Rightarrow> nat option" where
  "rfind_char c s = map_option (\<lambda>k. length s - 1 - k) (find_char c (rev s))"

lemma find_char_append:
  "c \<notin> set xs \<Longrightarrow> find_char c (xs @ c # ys) = Some (length xs)"
  by (induction xs) (auto simp: find_char_def)

lemma find_char_None: "find_char c s = None \<longleftrightarrow> c \<notin> set s"
  by (simp add: find_char_def)

lemma find_char_less: "find_char c s = Some k \<Longrightarrow> k < length s"
  by (induction s arbitrary: k) (auto simp: find_char_def split: if_splits)

lemma rfind_char_append:
  "c \<notin> set ys \<Longrightarrow> rfind_char c (xs @ c # ys) = Some (length xs)"
  using find_char_append [of c "rev ys" "rev xs"] by (simp add: rfind_char_def)

text \<open>\<open>view.find(pattern)\<close> for a whole pattern, and the prefix test.\<close>

fun find_sub :: "string \<Rightarrow> string \<Rightarrow> nat option" where
  "find_sub pat [] = (if pat = [] then Some 0 else None)"
| "find_sub pat (c # cs) =
     (if prefix pat (c # cs) then Some 0 else map_option Suc (find_sub pat cs))"

definition StartsWith :: "string \<Rightarrow> string \<Rightarrow> bool" where
  "StartsWith s p \<longleftrightarrow> prefix p s"

lemma find_sub_Some:
  "find_sub pat s = Some k \<Longrightarrow> k \<le> length s \<and> prefix pat (drop k s)"
  by (induction s arbitrary: k) (auto split: if_splits)

lemma find_sub_None: "find_sub pat s = None \<longleftrightarrow> \<not> sublist pat s"
  by (induction s) (auto simp: sublist_Cons_right)

section \<open>Line endings\<close>

text \<open>The loop \<open>while (end > 0 && (text[end - 1] == '\r' || text[end - 1] == '\n')) --end;\<close>.\<close>

abbreviation (input) is_eol :: "char \<Rightarrow> bool" where
  "is_eol c \<equiv> c = CHR 0x0D \<or> c = CHR 0x0A"

fun trim_from :: "string \<Rightarrow> nat \<Rightarrow> nat" where
  "trim_from s 0 = 0"
| "trim_from s (Suc e) = (if is_eol (s ! e) then trim_from s e else Suc e)"

definition TrimLineEnding :: "string \<Rightarrow> nat" where
  "TrimLineEnding s = trim_from s (length s)"

lemma trim_from_le: "trim_from s e \<le> e"
  by (induction e) (simp_all add: le_SucI)

lemma TrimLineEnding_le: "TrimLineEnding s \<le> length s"
  unfolding TrimLineEnding_def by (rule trim_from_le)

lemma trim_from_append:
  "\<lbrakk>list_all is_eol ys; k \<le> length ys\<rbrakk> \<Longrightarrow>
     trim_from (xs @ ys) (length xs + k) = trim_from (xs @ ys) (length xs)"
  by (induction k) (auto simp: nth_append list_all_length)

lemma TrimLineEnding_append:
  assumes "list_all is_eol ys" and "xs = [] \<or> \<not> is_eol (last xs)"
  shows "TrimLineEnding (xs @ ys) = length xs"
proof -
  have "TrimLineEnding (xs @ ys) = trim_from (xs @ ys) (length xs)"
    using trim_from_append [OF assms(1) order_refl, of xs] by (simp add: TrimLineEnding_def)
  also have "\<dots> = length xs"
  proof (cases xs rule: rev_cases)
    case (snoc zs z)
    then show ?thesis using assms(2) by (simp add: nth_append)
  qed simp
  finally show ?thesis .
qed

end
