(* ===== verification/Nmea_Checksum.thy ===== *)
theory Nmea_Checksum
  imports Cxx_Text Protocol_Records Checksums
begin

text \<open>
  \<open>gnss_protocols/src/nmea_checksum.cpp\<close>: the XOR of the characters between the leader and \<open>*\<close>, the two
  hexadecimal digits after it, and their comparison.
\<close>

section \<open>Model\<close>

definition ComputeNmeaChecksum :: "string \<Rightarrow> u8" where
  "ComputeNmeaChecksum payload_text = foldl (\<lambda>checksum c. checksum XOR byte_of c) 0 payload_text"

text \<open>\<open>None\<close> is the return value \<open>false\<close>.\<close>

definition TryParseHexByte :: "string \<Rightarrow> u8 option" where
  "TryParseHexByte text =
     (if length text \<noteq> 2 then None
      else if \<not> c_isxdigit (text ! 0) \<or> \<not> c_isxdigit (text ! 1) then None
      else Some (push_bit 4 (HexNibble (text ! 0)) OR HexNibble (text ! 1)))"

text \<open>The status with the two out-parameters, reported and computed checksum.\<close>

definition ValidateNmeaChecksum :: "string \<Rightarrow> ChecksumStatus \<times> u8 option \<times> u8 option" where
  "ValidateNmeaChecksum frame =
     (if frame = [] \<or> hd frame \<noteq> CHR ''$'' \<and> hd frame \<noteq> CHR ''!'' then (CS_kInvalid, None, None)
      else
        let end_pos = TrimLineEnding frame in
        (case find_char (CHR ''*'') frame of
           None \<Rightarrow> (CS_kMissing, None, None)
         | Some star \<Rightarrow>
             if star + 3 > end_pos then (CS_kMissing, None, None)
             else
               (case TryParseHexByte (bslice (star + 1) 2 frame) of
                  None \<Rightarrow> (CS_kInvalid, None, None)
                | Some reported \<Rightarrow>
                    let computed = ComputeNmeaChecksum (bslice 1 (star - 1) frame) in
                    (if reported = computed then CS_kValid else CS_kInvalid,
                     Some reported, Some computed))))"

section \<open>Lemmas\<close>

text \<open>The upper-case hexadecimal digits of a byte, as receivers write them after the star.\<close>

definition hex_digit :: "nat \<Rightarrow> char" where
  "hex_digit n = char_of (if n < 10 then 48 + n else 55 + n)"

definition hex_byte :: "u8 \<Rightarrow> string" where
  "hex_byte b = [hex_digit (unat b div 16), hex_digit (unat b mod 16)]"

lemma hex_digit_code: "n < 16 \<Longrightarrow> char_code (hex_digit n) = (if n < 10 then 48 + n else 55 + n)"
  by (simp add: hex_digit_def)

lemma hex_digit_isxdigit: "n < 16 \<Longrightarrow> c_isxdigit (hex_digit n)"
  by (simp add: c_isxdigit_def c_isdigit_def hex_digit_code)

lemma hex_digit_not_eol: "n < 16 \<Longrightarrow> \<not> is_eol (hex_digit n)"
  using hex_digit_code [of n] by (auto simp: char_code_def split: if_splits)

lemma HexNibble_hex_digit: "n < 16 \<Longrightarrow> HexNibble (hex_digit n) = word_of_nat n"
proof -
  assume n: "n < 16"
  have "char_code (CHR ''0'') = 48" "char_code (CHR ''A'') = 65" by (simp_all add: char_code_def)
  with n show ?thesis
    by (simp add: HexNibble_def c_isdigit_def c_toupper_def c_islower_def hex_digit_code)
qed

lemma nibbles: "push_bit 4 (drop_bit 4 (b :: u8)) OR take_bit 4 b = b"
  by (rule bit_word_eqI)
    (auto simp: bit_or_iff bit_push_bit_iff bit_take_bit_iff bit_drop_bit_eq possible_bit_word)

lemma hex_byte_roundtrip: "TryParseHexByte (hex_byte b) = Some b"
proof -
  have "unat b div 16 < 16" "unat b mod 16 < 16" using unat_u8_less [of b] by simp_all
  moreover have "word_of_nat (unat b div 16) = drop_bit 4 b"
    using unat_u8_less [of b] by (simp only: word_unat_eq_iff unat_of_nat unat_drop) simp
  moreover have "word_of_nat (unat b mod 16) = take_bit 4 b"
    using \<open>unat b mod 16 < 16\<close>
    by (simp only: word_unat_eq_iff unat_of_nat unsigned_take_bit_eq) (simp add: take_bit_eq_mod)
  ultimately show ?thesis
    by (simp add: TryParseHexByte_def hex_byte_def hex_digit_isxdigit HexNibble_hex_digit nibbles)
qed

lemma byte_of_inject [simp]: "byte_of a = byte_of b \<longleftrightarrow> a = b"
  by (metis char_of_byte_of)

interpretation nmea_xor: running_code "\<lambda>checksum c. checksum XOR byte_of c" "\<lambda>_. True"
  by unfold_locales (simp_all add: xor_left_cancel xor_right_cancel)

text \<open>A complete sentence: leader, text without a star, the star, a checksum byte in hexadecimal, and the
  line ending.\<close>

definition nmea_line :: "char \<Rightarrow> string \<Rightarrow> u8 \<Rightarrow> string \<Rightarrow> string" where
  "nmea_line leader text checksum eol = leader # text @ CHR ''*'' # hex_byte checksum @ eol"

lemma ValidateNmeaChecksum_line:
  assumes "leader = CHR ''$'' \<or> leader = CHR ''!''" and "CHR ''*'' \<notin> set text"
    and "list_all is_eol eol" and "length cks = 2" and "\<not> is_eol (last cks)"
  shows "ValidateNmeaChecksum (leader # text @ CHR ''*'' # cks @ eol) =
    (case TryParseHexByte cks of
       None \<Rightarrow> (CS_kInvalid, None, None)
     | Some reported \<Rightarrow>
         (if reported = ComputeNmeaChecksum text then CS_kValid else CS_kInvalid,
          Some reported, Some (ComputeNmeaChecksum text)))"
proof -
  let ?f = "leader # text @ CHR ''*'' # cks @ eol"
  have "?f = (leader # text @ CHR ''*'' # cks) @ eol" by simp
  moreover from assms(4) have "cks \<noteq> []" by auto
  ultimately have trim: "TrimLineEnding ?f = length text + 4"
    using TrimLineEnding_append [OF assms(3), of "leader # text @ CHR ''*'' # cks"] assms(4,5)
    by (simp only:) simp
  have star: "find_char (CHR ''*'') ?f = Some (Suc (length text))"
    using find_char_append [of "CHR ''*''" "leader # text" "cks @ eol"] assms(1,2) by auto
  have digits: "bslice (Suc (Suc (length text))) 2 ?f = cks"
    using assms(4) by (simp add: bslice_def)
  have body: "bslice 1 (length text) ?f = text" by (simp add: bslice_def)
  show ?thesis
    using assms(1) digits body
    by (auto simp: ValidateNmeaChecksum_def trim star Let_def split: option.split)
qed

end
