(* ===== verification/Nmea_Framer.thy ===== *)
theory Nmea_Framer
  imports Stream_Framer Nmea_Checksum
begin

text \<open>
  \<open>NmeaSentenceFramer\<close> of \<open>gnss_protocols/src/nmea_framer.cpp\<close>: a sentence runs from \<open>$\<close> or \<open>!\<close> to the
  next line feed; a new leader inside a sentence abandons it and starts again.
\<close>

section \<open>Model\<close>

record NmeaSentenceFramer =
  nmf_max_frame_length :: nat
  nmf_buffer :: bytes
  nmf_frame_timestamp_ns :: "timestamp_ns option"

abbreviation (input) nmea_leader_byte :: "u8 \<Rightarrow> bool" where
  "nmea_leader_byte b \<equiv> b = 0x24 \<or> b = 0x21"

definition nmea_new :: "nat \<Rightarrow> NmeaSentenceFramer" where
  "nmea_new max_frame_length =
     \<lparr>nmf_max_frame_length = max_frame_length, nmf_buffer = [], nmf_frame_timestamp_ns = None\<rparr>"

definition nmea_Reset :: "NmeaSentenceFramer \<Rightarrow> NmeaSentenceFramer" where
  "nmea_Reset s = s\<lparr>nmf_buffer := [], nmf_frame_timestamp_ns := None\<rparr>"

text \<open>The header of the payload splits into talker and sentence type.\<close>

definition nmea_payload_text_of :: "string \<Rightarrow> string" where
  "nmea_payload_text_of frame =
     (let payload_end = (case find_char (CHR ''*'') frame of None \<Rightarrow> length frame | Some star \<Rightarrow> star) in
      if payload_end > 1 then bslice 1 (payload_end - 1) frame else [])"

definition nmea_header_of :: "string \<Rightarrow> string" where
  "nmea_header_of payload_text =
     (case find_char (CHR '','') payload_text of
        None \<Rightarrow> payload_text
      | Some comma \<Rightarrow> bslice 0 comma payload_text)"

definition nmea_BuildSentence :: "bytes \<Rightarrow> timestamp_ns option \<Rightarrow> NmeaSentence" where
  "nmea_BuildSentence buffer ts =
     (let end_pos = TrimLineEnding (text_of buffer);
          frame = take end_pos (text_of buffer);
          payload_text = nmea_payload_text_of frame;
          header = nmea_header_of payload_text;
          (status, reported, computed) = ValidateNmeaChecksum frame
      in NmeaSentence_default
          \<lparr>nmea_timestamp_ns := ts,
           nmea_leader := char_of_byte (hd buffer),
           nmea_raw_bytes := buffer,
           nmea_payload_text := payload_text,
           nmea_talker := (if payload_text \<noteq> [] \<and> length header \<ge> 5 then bslice 0 2 header else []),
           nmea_sentence_type :=
             (if payload_text = [] then [] else if length header \<ge> 5 then drop 2 header else header),
           nmea_checksum_status := status,
           nmea_reported_checksum := reported,
           nmea_computed_checksum := computed\<rparr>)"

definition nmea_PushByte ::
  "NmeaSentenceFramer \<Rightarrow> u8 \<Rightarrow> timestamp_ns option \<Rightarrow> NmeaSentenceFramer \<times> NmeaSentence ParserResult" where
  "nmea_PushByte s byte ts =
     (if nmf_buffer s = [] then
        (if \<not> nmea_leader_byte byte then (s, Skipped)
         else (s\<lparr>nmf_buffer := [byte], nmf_frame_timestamp_ns := ts\<rparr>, NeedMoreData))
      else if nmea_leader_byte byte then
        (s\<lparr>nmf_buffer := [byte], nmf_frame_timestamp_ns := ts\<rparr>, NeedMoreData)
      else
        let s1 = s\<lparr>nmf_buffer := nmf_buffer s @ [byte]\<rparr> in
        if length (nmf_buffer s1) > nmf_max_frame_length s1 then (nmea_Reset s1, Overflow)
        else if byte \<noteq> 0x0A then (s1, NeedMoreData)
        else (nmea_Reset s1, RecordReady (nmea_BuildSentence (nmf_buffer s1) (nmf_frame_timestamp_ns s1))))"

definition nmea_Finalize :: "NmeaSentenceFramer \<Rightarrow> NmeaSentenceFramer \<times> NmeaSentence ParserResult" where
  "nmea_Finalize s =
     (if nmf_buffer s = [] then (s, DefaultResult) else (nmea_Reset s, Truncated))"

section \<open>What a sentence is\<close>

definition nmea_inner :: "bytes \<Rightarrow> bool" where
  "nmea_inner bs = list_all (\<lambda>b. \<not> nmea_leader_byte b \<and> b \<noteq> 0x0A) bs"

definition nmea_good :: "nat \<Rightarrow> bytes \<Rightarrow> bool" where
  "nmea_good m bs \<longleftrightarrow>
     2 \<le> length bs \<and> length bs \<le> m \<and> nmea_leader_byte (hd bs) \<and> last bs = 0x0A
     \<and> nmea_inner (butlast (tl bs))"

definition nmea_inv :: "NmeaSentenceFramer \<Rightarrow> bool" where
  "nmea_inv s \<longleftrightarrow>
     nmf_buffer s = []
     \<or> nmea_leader_byte (hd (nmf_buffer s)) \<and> nmea_inner (tl (nmf_buffer s))
         \<and> length (nmf_buffer s) \<le> max 1 (nmf_max_frame_length s)"

definition nmea_mid :: "NmeaSentenceFramer \<Rightarrow> bytes \<Rightarrow> timestamp_ns option \<Rightarrow> nat \<Rightarrow> bool" where
  "nmea_mid s bs ts k \<longleftrightarrow> nmf_buffer s = take k bs \<and> nmf_frame_timestamp_ns s = ts"

section \<open>Lemmas\<close>

lemma nmea_Reset_simps [simp]:
  "nmf_buffer (nmea_Reset s) = []" "nmf_max_frame_length (nmea_Reset s) = nmf_max_frame_length s"
  by (simp_all add: nmea_Reset_def)

lemma nmea_raw_Build [simp]: "nmea_raw_bytes (nmea_BuildSentence bs ts) = bs"
  by (simp add: nmea_BuildSentence_def Let_def split: prod.split)

lemma nmea_inner_simps [simp]:
  "nmea_inner []" "nmea_inner (xs @ ys) \<longleftrightarrow> nmea_inner xs \<and> nmea_inner ys"
  "nmea_inner [b] \<longleftrightarrow> \<not> nmea_leader_byte b \<and> b \<noteq> 0x0A"
  by (simp_all add: nmea_inner_def)

lemma nmea_inv_new: "nmea_inv (nmea_new m)"
  by (simp add: nmea_inv_def nmea_new_def)

lemma nmea_max_PushByte [simp]:
  "nmf_max_frame_length (fst (nmea_PushByte s b t)) = nmf_max_frame_length s"
  by (simp add: nmea_PushByte_def Let_def)

lemma nmea_inv_PushByte: "nmea_inv s \<Longrightarrow> nmea_inv (fst (nmea_PushByte s b t))"
  by (cases "nmf_buffer s = []") (auto simp: nmea_PushByte_def nmea_inv_def Let_def)

lemma nmea_record_is_good:
  assumes "nmea_inv s" and "pr_record (snd (nmea_PushByte s b t)) = Some r"
  shows "nmea_good (nmf_max_frame_length s) (nmf_buffer s @ [b])
    \<and> r = nmea_BuildSentence (nmf_buffer s @ [b]) (nmf_frame_timestamp_ns s)"
proof -
  from assms(2) have "nmf_buffer s \<noteq> []" "b = 0x0A" "length (nmf_buffer s @ [b]) \<le> nmf_max_frame_length s"
    "r = nmea_BuildSentence (nmf_buffer s @ [b]) (nmf_frame_timestamp_ns s)"
    by (auto simp: nmea_PushByte_def Let_def split: if_splits)
  moreover from this(1) have "1 \<le> length (nmf_buffer s)" by (simp add: Suc_leI)
  ultimately show ?thesis
    using assms(1) by (simp add: nmea_inv_def nmea_good_def tl_append2)
qed

interpretation nmea_sound: sound_framer nmea_PushByte nmf_buffer nmea_raw_bytes
  "\<lambda>s. max 1 (nmf_max_frame_length s)" nmea_inv nmf_max_frame_length "\<lambda>r. True" nmea_good nmea_BuildSentence
proof
  show "length (nmf_buffer s) \<le> max 1 (nmf_max_frame_length s)" if "nmea_inv s" for s
    using that by (auto simp: nmea_inv_def)
  show "suffix (nmf_buffer (fst (nmea_PushByte s b t))) (nmf_buffer s @ [b])" for s b t
    by (auto simp: nmea_PushByte_def suffix_def Let_def)
  show "subseq (raw_of nmea_raw_bytes (snd (nmea_PushByte s b t)) @ nmf_buffer (fst (nmea_PushByte s b t)))
      (nmf_buffer s @ [b])" for s b t
    by (auto simp: nmea_PushByte_def raw_of_def Let_def)
  show "\<exists>bs ts. nmea_good (nmf_max_frame_length s) bs \<and> sublist bs (nmf_buffer s @ [b])
         \<and> r = nmea_BuildSentence bs ts"
    if "nmea_inv s" "pr_record (snd (nmea_PushByte s b t)) = Some r" for s b t r
    using nmea_record_is_good [OF that] by blast
qed (simp_all add: nmea_inv_PushByte)

lemma nmea_good_nth:
  assumes "nmea_good m bs" and "1 \<le> k" and "Suc k < length bs"
  shows "\<not> nmea_leader_byte (bs ! k)" and "bs ! k \<noteq> 0x0A"
proof -
  have "butlast (tl bs) ! (k - 1) = bs ! k" "k - 1 < length (butlast (tl bs))"
    using assms(2,3) by (simp_all add: nth_butlast nth_tl)
  with assms(1) show "\<not> nmea_leader_byte (bs ! k)" "bs ! k \<noteq> 0x0A"
    unfolding nmea_good_def nmea_inner_def list_all_length by metis+
qed

lemma nmea_mid_append:
  assumes "nmea_mid s bs t k" and "k < length bs" and "1 \<le> k"
  shows "nmf_buffer s @ [bs ! k] = take (Suc k) bs" and "length (nmf_buffer s) = k" and "nmf_buffer s \<noteq> []"
  using assms by (auto simp: nmea_mid_def take_Suc_conv_app_nth)

interpretation nmea_rec: recognising_framer nmea_PushByte nmf_max_frame_length
  "\<lambda>s. nmf_buffer s = []" nmea_leader_byte nmea_good nmea_BuildSentence nmea_mid
proof
  fix s :: NmeaSentenceFramer and bs :: bytes and b :: u8 and t u :: "timestamp_ns option" and k m :: nat
  show "2 \<le> length bs" if "nmea_good m bs" using that by (simp add: nmea_good_def)
  show "pr_record (snd (nmea_PushByte s b t)) = None \<and> nmf_buffer (fst (nmea_PushByte s b t)) = []
      \<and> nmf_max_frame_length (fst (nmea_PushByte s b t)) = nmf_max_frame_length s"
    if "nmf_buffer s = []" "\<not> nmea_leader_byte b"
    using that by (simp add: nmea_PushByte_def)
  show "snd (nmea_PushByte s (hd bs) t) = NeedMoreData \<and> nmea_mid (fst (nmea_PushByte s (hd bs) t)) bs t 1
      \<and> nmf_max_frame_length (fst (nmea_PushByte s (hd bs) t)) = nmf_max_frame_length s"
    if "nmf_buffer s = []" "nmea_good (nmf_max_frame_length s) bs"
    using that by (cases bs) (auto simp: nmea_PushByte_def nmea_mid_def nmea_good_def)
  show "snd (nmea_PushByte s (bs ! k) u) = NeedMoreData
      \<and> nmea_mid (fst (nmea_PushByte s (bs ! k) u)) bs t (Suc k)
      \<and> nmf_max_frame_length (fst (nmea_PushByte s (bs ! k) u)) = nmf_max_frame_length s"
    if "nmea_mid s bs t k" "nmea_good (nmf_max_frame_length s) bs" "1 \<le> k" "Suc k < length bs"
  proof -
    have "length bs \<le> nmf_max_frame_length s" using that(2) by (simp add: nmea_good_def)
    then show ?thesis
      using nmea_mid_append [OF that(1) _ that(3)] nmea_good_nth [OF that(2,3,4)] that(1,4)
      by (simp add: nmea_PushByte_def nmea_mid_def)
  qed
  show "snd (nmea_PushByte s (bs ! k) u) = RecordReady (nmea_BuildSentence bs t)
      \<and> nmf_buffer (fst (nmea_PushByte s (bs ! k) u)) = []
      \<and> nmf_max_frame_length (fst (nmea_PushByte s (bs ! k) u)) = nmf_max_frame_length s"
    if "nmea_mid s bs t k" "nmea_good (nmf_max_frame_length s) bs" "1 \<le> k" "Suc k = length bs"
  proof -
    have "bs ! k = last bs" using that(3,4) by (metis diff_Suc_1 last_conv_nth list.size(3) nat.simps(3))
    then have "bs ! k = 0x0A" "length bs \<le> nmf_max_frame_length s"
      using that(2) by (simp_all add: nmea_good_def)
    then show ?thesis
      using nmea_mid_append [OF that(1) _ that(3)] that(1,4)
      by (simp add: nmea_PushByte_def nmea_mid_def)
  qed
qed

section \<open>Sentences on the wire\<close>

definition nmea_text :: "string \<Rightarrow> bool" where
  "nmea_text text \<longleftrightarrow>
     list_all (\<lambda>c. c \<noteq> CHR ''*'' \<and> c \<noteq> CHR ''$'' \<and> c \<noteq> CHR ''!'' \<and> c \<noteq> CHR 0x0A) text"

abbreviation nmea_eol :: "string \<Rightarrow> bool" where
  "nmea_eol eol \<equiv> eol = [CHR 0x0A] \<or> eol = [CHR 0x0D, CHR 0x0A]"

lemma byte_of_literals:
  "byte_of (CHR ''$'') = 0x24" "byte_of (CHR ''!'') = 0x21" "byte_of (CHR 0x0A) = 0x0A"
  "byte_of (CHR 0x0D) = 0x0D" "byte_of (CHR ''*'') = 0x2A"
  by (simp_all add: byte_of_def)

lemma byte_of_iff:
  "byte_of c = 0x24 \<longleftrightarrow> c = CHR ''$''" "byte_of c = 0x21 \<longleftrightarrow> c = CHR ''!''"
  "byte_of c = 0x0A \<longleftrightarrow> c = CHR 0x0A"
  by (metis byte_of_inject byte_of_literals)+

lemma hex_digit_plain:
  assumes "n < 16"
  shows "hex_digit n \<noteq> CHR ''$''" "hex_digit n \<noteq> CHR ''!''" "hex_digit n \<noteq> CHR 0x0A"
    "hex_digit n \<noteq> CHR 0x0D"
  using hex_digit_code [OF assms] by (auto simp: char_code_def split: if_splits)

lemma nmea_inner_text: "nmea_text text \<Longrightarrow> nmea_inner (bytes_of text)"
  by (auto simp: nmea_text_def nmea_inner_def list_all_iff byte_of_iff)

lemma hex_byte_facts:
  "length (hex_byte k) = 2" "\<not> is_eol (last (hex_byte k))" "nmea_inner (bytes_of (hex_byte k))"
proof -
  have "unat k div 16 < 16" "unat k mod 16 < 16" using unat_u8_less [of k] by simp_all
  then show "length (hex_byte k) = 2" "\<not> is_eol (last (hex_byte k))" "nmea_inner (bytes_of (hex_byte k))"
    using hex_digit_plain by (simp_all add: hex_byte_def nmea_inner_def byte_of_iff)
qed

lemma nmea_line_good:
  assumes "leader = CHR ''$'' \<or> leader = CHR ''!''" and "nmea_text text" and "nmea_eol eol"
    and "length (nmea_line leader text k eol) \<le> m"
  shows "nmea_good m (bytes_of (nmea_line leader text k eol))"
proof -
  obtain pre where pre: "eol = pre @ [CHR 0x0A]" "nmea_inner (bytes_of pre)"
    using assms(3) by (auto simp: byte_of_literals)
  have "nmea_inner [byte_of (CHR ''*'')]" by (simp add: byte_of_literals)
  then have "nmea_inner (bytes_of (text @ CHR ''*'' # hex_byte k @ pre))"
    using nmea_inner_text [OF assms(2)] hex_byte_facts(3) [of k] pre(2)
    by (simp add: nmea_inner_def)
  moreover have "bytes_of (nmea_line leader text k eol)
      = byte_of leader # bytes_of (text @ CHR ''*'' # hex_byte k @ pre) @ [0x0A]"
    by (simp add: nmea_line_def pre(1) byte_of_literals)
  moreover have "nmea_leader_byte (byte_of leader)" using assms(1) by (auto simp: byte_of_literals)
  moreover have "length (nmea_line leader text k eol) = length (bytes_of (nmea_line leader text k eol))"
    by simp
  ultimately show ?thesis
    using assms(4) by (simp only:) (simp add: nmea_good_def butlast_append)
qed

lemma nmea_line_trim:
  assumes "nmea_eol eol"
  shows "take (TrimLineEnding (nmea_line leader text k eol)) (nmea_line leader text k eol)
    = leader # text @ CHR ''*'' # hex_byte k"
proof -
  let ?body = "leader # text @ CHR ''*'' # hex_byte k"
  have line: "nmea_line leader text k eol = ?body @ eol" by (simp add: nmea_line_def)
  have "hex_byte k \<noteq> []" by (simp add: hex_byte_def)
  then have "\<not> is_eol (last ?body)" using hex_byte_facts(2) [of k] by simp
  moreover have "list_all is_eol eol" using assms by auto
  ultimately have "TrimLineEnding (nmea_line leader text k eol) = length ?body"
    unfolding line by (intro TrimLineEnding_append) simp_all
  then show ?thesis unfolding line by simp
qed

lemma nmea_BuildSentence_line:
  fixes k ts
  assumes "leader = CHR ''$'' \<or> leader = CHR ''!''" and "nmea_text text" and "nmea_eol eol"
  defines "r \<equiv> nmea_BuildSentence (bytes_of (nmea_line leader text k eol)) ts"
  shows "nmea_payload_text r = text" and "nmea_leader r = leader" and "nmea_timestamp_ns r = ts"
    and "nmea_checksum_status r = (if k = ComputeNmeaChecksum text then CS_kValid else CS_kInvalid)"
proof -
  have star: "CHR ''*'' \<notin> set text" using assms(2) by (auto simp: nmea_text_def list_all_iff)
  have "ValidateNmeaChecksum (leader # text @ CHR ''*'' # hex_byte k) =
      (if k = ComputeNmeaChecksum text then CS_kValid else CS_kInvalid, Some k, Some (ComputeNmeaChecksum text))"
    using ValidateNmeaChecksum_line [OF assms(1) star, of "[]" "hex_byte k"] hex_byte_facts [of k]
      hex_byte_roundtrip [of k] by simp
  moreover have "nmea_payload_text_of (leader # text @ CHR ''*'' # hex_byte k) = text"
    using find_char_append [of "CHR ''*''" "leader # text"] star assms(1)
    by (auto simp: nmea_payload_text_of_def bslice_def Let_def)
  moreover have "char_of_byte (hd (bytes_of (nmea_line leader text k eol))) = leader"
    by (simp add: nmea_line_def)
  ultimately show "nmea_payload_text r = text" and "nmea_leader r = leader" and "nmea_timestamp_ns r = ts"
    and "nmea_checksum_status r = (if k = ComputeNmeaChecksum text then CS_kValid else CS_kInvalid)"
    unfolding r_def nmea_BuildSentence_def
    by (simp_all add: nmea_line_trim [OF assms(3)] NmeaSentence_default_def Let_def)
qed

section \<open>Properties\<close>

text \<open>A complete NMEA sentence (leader, text, star, checksum byte in hexadecimal, LF or CR LF) within the
  framer's limit, arriving at any moment when the framer is empty, yields exactly one record, whose text and
  leader are the sender's and whose status is valid exactly when the checksum is the XOR of the text.\<close>

lemma nmea_sentence_checked:
  assumes "nmf_buffer s = []"
    and "leader = CHR ''$'' \<or> leader = CHR ''!''" and "nmea_text body" and "nmea_eol eol"
    and "map fst xs = bytes_of (nmea_line leader body k eol)"
    and "length xs \<le> nmf_max_frame_length s"
  shows "\<exists>r. emitted (snd (feed nmea_PushByte s xs)) = [r]
    \<and> nmf_buffer (fst (feed nmea_PushByte s xs)) = []
    \<and> nmea_payload_text r = body \<and> nmea_leader r = leader \<and> nmea_timestamp_ns r = snd (hd xs)
    \<and> nmea_checksum_status r = (if k = ComputeNmeaChecksum body then CS_kValid else CS_kInvalid)"
proof -
  have "length (nmea_line leader body k eol) = length xs" using arg_cong [OF assms(5), of length] by simp
  then have "nmea_good (nmf_max_frame_length s) (map fst xs)"
    using nmea_line_good [OF assms(2,3,4)] assms(5,6) by simp
  from nmea_rec.feed_frame [OF assms(1) this]
  show ?thesis
    using nmea_BuildSentence_line [OF assms(2,3,4), of k "snd (hd xs)"]
    by (intro exI [of _ "nmea_BuildSentence (map fst xs) (snd (hd xs))"]) (simp add: emitted_Cons assms(5))
qed

theorem nmea_sentence_checked_witness:
  "\<exists>r. emitted (snd (feed nmea_PushByte (nmea_new 512)
        (map (\<lambda>b. (b, Some 7)) (bytes_of (nmea_line (CHR ''$'') ''GPTXT,A'' 0x3A [CHR 0x0D, CHR 0x0A]))))) = [r]
     \<and> nmea_payload_text r = ''GPTXT,A'' \<and> nmea_timestamp_ns r = Some 7"
proof -
  let ?xs = "map (\<lambda>b. (b, Some 7)) (bytes_of (nmea_line (CHR ''$'') ''GPTXT,A'' 0x3A [CHR 0x0D, CHR 0x0A]))"
  have "nmea_text ''GPTXT,A''" by (simp add: nmea_text_def)
  moreover have "map fst ?xs = bytes_of (nmea_line (CHR ''$'') ''GPTXT,A'' 0x3A [CHR 0x0D, CHR 0x0A])"
    by (simp add: o_def)
  moreover have "length ?xs \<le> nmf_max_frame_length (nmea_new 512)" "snd (hd ?xs) = Some 7"
    by (simp_all add: nmea_line_def hex_byte_def nmea_new_def)
  moreover have "nmf_buffer (nmea_new 512) = []" by (simp add: nmea_new_def)
  ultimately show ?thesis
    using nmea_sentence_checked [where s = "nmea_new 512" and leader = "CHR ''$''" and body = "''GPTXT,A''"
        and eol = "[CHR 0x0D, CHR 0x0A]" and xs = ?xs and k = "0x3A"]
    by metis
qed

end
