(* ===== verification/Unicore_Framer.thy ===== *)
theory Unicore_Framer
  imports Stream_Framer Checksums Cxx_Text
begin

text \<open>
  \<open>UnicoreFrameFramer\<close> of \<open>gnss_protocols/src/unicore_framer.cpp\<close>: the ASCII messages of Unicore receivers, one
  line from a sync character (\<open>#\<close>, \<open>$\<close> or \<open>%\<close>) to the next line feed.  Only \<open>#\<close> messages carry a
  checksum: eight hexadecimal digits after the last star.
\<close>

section \<open>Model\<close>

record UnicoreFrameFramer =
  uaf_max_frame_length :: nat
  uaf_buffer :: bytes
  uaf_frame_timestamp_ns :: "timestamp_ns option"

definition IsSyncByte :: "u8 \<Rightarrow> bool" where
  "IsSyncByte byte \<longleftrightarrow> byte = 0x23 \<or> byte = 0x24 \<or> byte = 0x25"

definition uni_new :: "nat \<Rightarrow> UnicoreFrameFramer" where
  "uni_new max_frame_length =
     \<lparr>uaf_max_frame_length = max_frame_length, uaf_buffer = [], uaf_frame_timestamp_ns = None\<rparr>"

definition uni_Reset :: "UnicoreFrameFramer \<Rightarrow> UnicoreFrameFramer" where
  "uni_Reset s = s\<lparr>uaf_buffer := [], uaf_frame_timestamp_ns := None\<rparr>"

text \<open>\<open>TryParseHex32\<close> with its out-parameter: the digits read so far stay in \<open>value\<close> when a character
  is not hexadecimal, and the flag says so.\<close>

fun hex32_from :: "u32 \<Rightarrow> string \<Rightarrow> bool \<times> u32" where
  "hex32_from v [] = (True, v)"
| "hex32_from v (c # cs) =
     (if \<not> c_isxdigit c then (False, v)
      else hex32_from (push_bit 4 v OR ucast (HexNibble c)) cs)"

definition TryParseHex32 :: "string \<Rightarrow> u32 \<Rightarrow> bool \<times> u32" where
  "TryParseHex32 text old_value = (if length text \<noteq> 8 then (False, old_value) else hex32_from 0 text)"

text \<open>The checksum part of \<open>BuildFrame\<close>, on the payload: status, reported and computed value.\<close>

definition uni_checksum :: "bytes \<Rightarrow> ChecksumStatus \<times> u32 \<times> u32" where
  "uni_checksum payload =
     (case rfind_char (CHR ''*'') (text_of payload) of
        None \<Rightarrow> (CS_kMissing, 0, 0)
      | Some star \<Rightarrow>
          if star + 9 \<noteq> length payload then (CS_kInvalid, 0, 0)
          else
            let (ok, reported) = TryParseHex32 (bslice (star + 1) 8 (text_of payload)) 0 in
            if \<not> ok then (CS_kInvalid, reported, 0)
            else
              let computed = ComputeUnicoreBinaryCrc32 (take star payload) in
              (if reported = computed then CS_kValid else CS_kInvalid, reported, computed))"

abbreviation (input) uni_name_end :: "char \<Rightarrow> bool" where
  "uni_name_end c \<equiv> c = CHR '','' \<or> c = CHR '';'' \<or> c = CHR ''*'' \<or> c = CHR '' ''"

definition uni_BuildFrame :: "bytes \<Rightarrow> timestamp_ns option \<Rightarrow> UnicoreFrame" where
  "uni_BuildFrame buffer ts =
     (let end_pos = TrimLineEnding (text_of buffer);
          payload = (if end_pos > 1 then bslice 1 (end_pos - 1) buffer else []);
          sync = char_of_byte (hd buffer);
          frame = UnicoreFrame_default
            \<lparr>uni_timestamp_ns := ts, uni_raw_bytes := buffer, uni_sync_char := sync,
             uni_payload := payload,
             uni_message_name := takeWhile (\<lambda>c. \<not> uni_name_end c) (text_of payload)\<rparr> in
      if sync \<noteq> CHR ''#'' then frame
      else
        let (status, reported, computed) = uni_checksum payload in
        frame\<lparr>uni_checksum_status := status, uni_reported_crc32 := reported,
              uni_computed_crc32 := computed\<rparr>)"

definition uni_PushByte ::
  "UnicoreFrameFramer \<Rightarrow> u8 \<Rightarrow> timestamp_ns option \<Rightarrow> UnicoreFrameFramer \<times> UnicoreFrame ParserResult" where
  "uni_PushByte s byte ts =
     (if uaf_buffer s = [] then
        (if \<not> IsSyncByte byte then (s, Skipped)
         else (s\<lparr>uaf_buffer := [byte], uaf_frame_timestamp_ns := ts\<rparr>, NeedMoreData))
      else
        let s1 = s\<lparr>uaf_buffer := uaf_buffer s @ [byte]\<rparr> in
        if length (uaf_buffer s1) > uaf_max_frame_length s1 then (uni_Reset s1, Overflow)
        else if byte \<noteq> 0x0A then (s1, NeedMoreData)
        else (uni_Reset s1, RecordReady (uni_BuildFrame (uaf_buffer s1) (uaf_frame_timestamp_ns s1))))"

definition uni_Finalize :: "UnicoreFrameFramer \<Rightarrow> UnicoreFrameFramer \<times> UnicoreFrame ParserResult" where
  "uni_Finalize s =
     (if uaf_buffer s = [] then (s, DefaultResult) else (uni_Reset s, Truncated))"

section \<open>What a message is\<close>

definition uni_good :: "nat \<Rightarrow> bytes \<Rightarrow> bool" where
  "uni_good m bs \<longleftrightarrow>
     2 \<le> length bs \<and> length bs \<le> m \<and> IsSyncByte (hd bs) \<and> last bs = 0x0A
     \<and> 0x0A \<notin> set (butlast bs)"

definition uni_inv :: "UnicoreFrameFramer \<Rightarrow> bool" where
  "uni_inv s \<longleftrightarrow>
     uaf_buffer s = []
     \<or> IsSyncByte (hd (uaf_buffer s)) \<and> 0x0A \<notin> set (uaf_buffer s)
         \<and> length (uaf_buffer s) \<le> max 1 (uaf_max_frame_length s)"

definition uni_mid :: "UnicoreFrameFramer \<Rightarrow> bytes \<Rightarrow> timestamp_ns option \<Rightarrow> nat \<Rightarrow> bool" where
  "uni_mid s bs ts k \<longleftrightarrow> uaf_buffer s = take k bs \<and> uaf_frame_timestamp_ns s = ts"

section \<open>Lemmas\<close>

lemma uni_Reset_simps [simp]:
  "uaf_buffer (uni_Reset s) = []" "uaf_max_frame_length (uni_Reset s) = uaf_max_frame_length s"
  by (simp_all add: uni_Reset_def)

lemma uni_raw_Build [simp]: "uni_raw_bytes (uni_BuildFrame bs ts) = bs"
  by (simp add: uni_BuildFrame_def UnicoreFrame_default_def Let_def split: prod.split)

lemma uni_inv_new: "uni_inv (uni_new m)"
  by (simp add: uni_inv_def uni_new_def)

lemma uni_max_PushByte [simp]:
  "uaf_max_frame_length (fst (uni_PushByte s b t)) = uaf_max_frame_length s"
  by (simp add: uni_PushByte_def Let_def)

lemma uni_inv_PushByte: "uni_inv s \<Longrightarrow> uni_inv (fst (uni_PushByte s b t))"
  by (cases "uaf_buffer s = []") (auto simp: uni_PushByte_def uni_inv_def IsSyncByte_def Let_def)

lemma uni_record_is_good:
  assumes "uni_inv s" and "pr_record (snd (uni_PushByte s b t)) = Some r"
  shows "uni_good (uaf_max_frame_length s) (uaf_buffer s @ [b])
    \<and> r = uni_BuildFrame (uaf_buffer s @ [b]) (uaf_frame_timestamp_ns s)"
proof -
  from assms(2) have "uaf_buffer s \<noteq> []" "b = 0x0A" "length (uaf_buffer s @ [b]) \<le> uaf_max_frame_length s"
    "r = uni_BuildFrame (uaf_buffer s @ [b]) (uaf_frame_timestamp_ns s)"
    by (auto simp: uni_PushByte_def Let_def split: if_splits)
  moreover from this(1) have "1 \<le> length (uaf_buffer s)" by (simp add: Suc_leI)
  ultimately show ?thesis
    using assms(1) by (simp add: uni_inv_def uni_good_def)
qed

interpretation uni_sound: sound_framer uni_PushByte uaf_buffer uni_raw_bytes
  "\<lambda>s. max 1 (uaf_max_frame_length s)" uni_inv uaf_max_frame_length "\<lambda>r. True" uni_good uni_BuildFrame
proof
  show "length (uaf_buffer s) \<le> max 1 (uaf_max_frame_length s)" if "uni_inv s" for s
    using that by (auto simp: uni_inv_def)
  show "suffix (uaf_buffer (fst (uni_PushByte s b t))) (uaf_buffer s @ [b])" for s b t
    by (auto simp: uni_PushByte_def suffix_def Let_def)
  show "subseq (raw_of uni_raw_bytes (snd (uni_PushByte s b t)) @ uaf_buffer (fst (uni_PushByte s b t)))
      (uaf_buffer s @ [b])" for s b t
    by (auto simp: uni_PushByte_def raw_of_def Let_def)
  show "\<exists>bs ts. uni_good (uaf_max_frame_length s) bs \<and> sublist bs (uaf_buffer s @ [b])
         \<and> r = uni_BuildFrame bs ts"
    if "uni_inv s" "pr_record (snd (uni_PushByte s b t)) = Some r" for s b t r
    using uni_record_is_good [OF that] by blast
qed (simp_all add: uni_inv_PushByte)

lemma uni_mid_append:
  assumes "uni_mid s bs t k" and "k < length bs" and "1 \<le> k"
  shows "uaf_buffer s @ [bs ! k] = take (Suc k) bs" and "length (uaf_buffer s) = k" and "uaf_buffer s \<noteq> []"
  using assms by (auto simp: uni_mid_def take_Suc_conv_app_nth)

interpretation uni_rec: recognising_framer uni_PushByte uaf_max_frame_length
  "\<lambda>s. uaf_buffer s = []" IsSyncByte uni_good uni_BuildFrame uni_mid
proof
  fix s :: UnicoreFrameFramer and bs :: bytes and b :: u8 and t u :: "timestamp_ns option" and k m :: nat
  show "2 \<le> length bs" if "uni_good m bs" using that by (simp add: uni_good_def)
  show "pr_record (snd (uni_PushByte s b t)) = None \<and> uaf_buffer (fst (uni_PushByte s b t)) = []
      \<and> uaf_max_frame_length (fst (uni_PushByte s b t)) = uaf_max_frame_length s"
    if "uaf_buffer s = []" "\<not> IsSyncByte b"
    using that by (simp add: uni_PushByte_def)
  show "snd (uni_PushByte s (hd bs) t) = NeedMoreData \<and> uni_mid (fst (uni_PushByte s (hd bs) t)) bs t 1
      \<and> uaf_max_frame_length (fst (uni_PushByte s (hd bs) t)) = uaf_max_frame_length s"
    if "uaf_buffer s = []" "uni_good (uaf_max_frame_length s) bs"
    using that by (cases bs) (auto simp: uni_PushByte_def uni_mid_def uni_good_def)
  show "snd (uni_PushByte s (bs ! k) u) = NeedMoreData
      \<and> uni_mid (fst (uni_PushByte s (bs ! k) u)) bs t (Suc k)
      \<and> uaf_max_frame_length (fst (uni_PushByte s (bs ! k) u)) = uaf_max_frame_length s"
    if "uni_mid s bs t k" "uni_good (uaf_max_frame_length s) bs" "1 \<le> k" "Suc k < length bs"
  proof -
    have "length bs \<le> uaf_max_frame_length s" using that(2) by (simp add: uni_good_def)
    moreover have "bs ! k \<in> set (butlast bs)"
      using that(4) by (metis length_butlast less_diff_conv nth_butlast nth_mem Suc_eq_plus1)
    with that(2) have "bs ! k \<noteq> 0x0A" unfolding uni_good_def by metis
    ultimately show ?thesis
      using uni_mid_append [OF that(1) _ that(3)] that(1,4)
      by (simp add: uni_PushByte_def uni_mid_def)
  qed
  show "snd (uni_PushByte s (bs ! k) u) = RecordReady (uni_BuildFrame bs t)
      \<and> uaf_buffer (fst (uni_PushByte s (bs ! k) u)) = []
      \<and> uaf_max_frame_length (fst (uni_PushByte s (bs ! k) u)) = uaf_max_frame_length s"
    if "uni_mid s bs t k" "uni_good (uaf_max_frame_length s) bs" "1 \<le> k" "Suc k = length bs"
  proof -
    have "bs ! k = last bs" using that(3,4) by (metis diff_Suc_1 last_conv_nth list.size(3) nat.simps(3))
    then have "bs ! k = 0x0A" "length bs \<le> uaf_max_frame_length s"
      using that(2) by (simp_all add: uni_good_def)
    then show ?thesis
      using uni_mid_append [OF that(1) _ that(3)] that(1,4)
      by (simp add: uni_PushByte_def uni_mid_def)
  qed
qed

subsection \<open>The checksum of a complete message\<close>

text \<open>\<open>#body*HHHHHHHH\<close>: the digits are compared with the CRC-32 of the body.\<close>

lemma uni_checksum_message:
  assumes "length digits = 8" and "CHR ''*'' \<notin> set digits"
  shows "uni_checksum (bytes_of (body @ CHR ''*'' # digits)) =
    (let (ok, reported) = TryParseHex32 digits 0;
         computed = ComputeUnicoreBinaryCrc32 (bytes_of body)
     in if \<not> ok then (CS_kInvalid, reported, 0)
        else (if reported = computed then CS_kValid else CS_kInvalid, reported, computed))"
  using rfind_char_append [OF assms(2), of body] assms(1)
  by (simp add: uni_checksum_def bslice_def Let_def split: prod.split)

section \<open>Properties\<close>

text \<open>An ASCII Unicore framer with an empty buffer, fed any interleaving of complete messages no longer
  than its limit and of noise without a sync character, delivers exactly those messages, in order.\<close>

lemma uni_stream_framing:
  assumes "uaf_buffer s = []"
    and "list_all (seg_ok IsSyncByte (uni_good (uaf_max_frame_length s))) segs"
  shows "emitted (snd (feed uni_PushByte s (concat (map seg_bytes segs))))
           = concat (map (seg_records uni_BuildFrame) segs)
         \<and> uaf_buffer (fst (feed uni_PushByte s (concat (map seg_bytes segs)))) = []"
  using uni_rec.feed_segments [OF assms] .

theorem uni_stream_framing_witness:
  "emitted (snd (feed uni_PushByte (uni_new 2048)
     (concat (map seg_bytes [Noise [(0x61, Some 1)], Frame (map (\<lambda>b. (b, Some 2)) (bytes_of (''#V;1'' @ [CHR 0x0A])))]))))
   = concat (map (seg_records uni_BuildFrame)
       [Noise [(0x61, Some 1)], Frame (map (\<lambda>b. (b, Some 2)) (bytes_of (''#V;1'' @ [CHR 0x0A])))])"
proof -
  have ok: "list_all (seg_ok IsSyncByte (uni_good (uaf_max_frame_length (uni_new 2048))))
    [Noise [(0x61, Some 1)], Frame (map (\<lambda>b. (b, Some 2)) (bytes_of (''#V;1'' @ [CHR 0x0A])))]"
    by (simp add: seg_ok_def uni_good_def IsSyncByte_def uni_new_def byte_of_def)
  have "uaf_buffer (uni_new 2048) = []" by (simp add: uni_new_def)
  from uni_stream_framing [OF this ok] show ?thesis by blast
qed

end
