(* ===== verification/Ieee_Double.thy ===== *)
theory Ieee_Double
  imports Complex_Main "HOL-Library.Log_Nat"
begin

text \<open>
  The C++ \<open>double\<close> of the sources: IEEE 754 binary64 with round-to-nearest, ties to even.  A finite
  double is the rational it denotes; the sign of zero is not kept (no modelled operation observes it).
  Arithmetic is exact rational arithmetic followed by \<open>round_double\<close>, so that every rounding of the
  program is in the model.
\<close>

section \<open>Values and rounding\<close>

datatype double = Finite rat | PosInf | NegInf | NaN

definition pow2 :: "int \<Rightarrow> rat" where
  "pow2 z = (if 0 \<le> z then 2 ^ nat z else 1 / 2 ^ nat (- z))"

text \<open>The exponent of the leading bit of a positive rational.\<close>

definition ilog2_rat :: "rat \<Rightarrow> int" where
  "ilog2_rat x =
     (let (p, q) = quotient_of x; e = bitlen p - bitlen q
      in if pow2 e \<le> x then e else e - 1)"

definition round_half_even :: "rat \<Rightarrow> int" where
  "round_half_even y =
     (let f = \<lfloor>y\<rfloor>; d = y - of_int f
      in if d < 1 / 2 then f else if 1 / 2 < d then f + 1 else if even f then f else f + 1)"

text \<open>The weight of the last significand bit: 53 bits, fewer below the smallest normal number.\<close>

definition ulp_of :: "rat \<Rightarrow> rat" where
  "ulp_of x = pow2 (max (ilog2_rat \<bar>x\<bar>) (- 1022) - 52)"

definition round_rat :: "rat \<Rightarrow> rat" where
  "round_rat x = (if x = 0 then 0 else ulp_of x * of_int (round_half_even (x / ulp_of x)))"

definition round_double :: "rat \<Rightarrow> double" where
  "round_double x =
     (let r = round_rat x
      in if 2 ^ 1024 \<le> r then PosInf else if r \<le> - (2 ^ 1024) then NegInf else Finite r)"

section \<open>Operations of the sources\<close>

definition dbl_isfinite :: "double \<Rightarrow> bool" where
  "dbl_isfinite x = (case x of Finite _ \<Rightarrow> True | _ \<Rightarrow> False)"

fun dbl_less :: "double \<Rightarrow> double \<Rightarrow> bool" where
  "dbl_less NaN _ = False"
| "dbl_less _ NaN = False"
| "dbl_less (Finite a) (Finite b) = (a < b)"
| "dbl_less NegInf y = (y \<noteq> NegInf)"
| "dbl_less _ PosInf = True"
| "dbl_less _ _ = False"

fun dbl_eq :: "double \<Rightarrow> double \<Rightarrow> bool" where
  "dbl_eq NaN _ = False"
| "dbl_eq _ NaN = False"
| "dbl_eq x y = (x = y)"

definition dbl_inf :: "bool \<Rightarrow> double" where
  "dbl_inf positive = (if positive then PosInf else NegInf)"

text \<open>Products and quotients with a positive left operand are all the sources need; an infinite factor
  keeps its sign, and zero times infinity is not a number.\<close>

fun dbl_mult :: "double \<Rightarrow> double \<Rightarrow> double" where
  "dbl_mult NaN _ = NaN"
| "dbl_mult _ NaN = NaN"
| "dbl_mult (Finite a) (Finite b) = round_double (a * b)"
| "dbl_mult (Finite a) y = (if a = 0 then NaN else dbl_inf ((0 < a) = (y = PosInf)))"
| "dbl_mult x (Finite b) = (if b = 0 then NaN else dbl_inf ((0 < b) = (x = PosInf)))"
| "dbl_mult x y = dbl_inf (x = y)"

text \<open>\<open>a / y\<close> for a finite positive \<open>a\<close> and a \<open>y\<close> the caller has checked to be positive.\<close>

definition dbl_div_pos :: "rat \<Rightarrow> double \<Rightarrow> double" where
  "dbl_div_pos a y =
     (case y of Finite b \<Rightarrow> round_double (a / b) | PosInf \<Rightarrow> Finite 0 | NegInf \<Rightarrow> Finite 0 | NaN \<Rightarrow> NaN)"

text \<open>\<open>std::ceil\<close>, and \<open>std::llround\<close> (halves away from zero) of a finite value.\<close>

fun dbl_ceil :: "double \<Rightarrow> double" where
  "dbl_ceil (Finite a) = Finite (of_int \<lceil>a\<rceil>)"
| "dbl_ceil x = x"

definition llround_rat :: "rat \<Rightarrow> int" where
  "llround_rat a = (if 0 \<le> a then \<lfloor>a + 1 / 2\<rfloor> else \<lceil>a - 1 / 2\<rceil>)"

section \<open>Rounding keeps to the right side of every integer below 2 to the 53\<close>

lemma pow2_pos [simp]: "0 < pow2 z"
  by (simp add: pow2_def)

lemma pow2_powi: "pow2 z = 2 powi z"
  by (simp add: pow2_def power_int_def power_inverse [symmetric] inverse_eq_divide power_one_over)

lemma pow2_add: "pow2 (a + b) = pow2 a * pow2 b"
  by (simp add: pow2_powi power_int_add)

lemma pow2_minus: "pow2 (- a) = 1 / pow2 a"
  by (simp add: pow2_powi power_int_minus inverse_eq_divide)

lemma pow2_mono: "a \<le> b \<Longrightarrow> pow2 a \<le> pow2 b"
  by (simp add: pow2_powi power_int_increasing)

lemma round_half_even_ge:
  assumes "of_int n \<le> y"
  shows "n \<le> round_half_even y"
proof -
  from assms have "n \<le> \<lfloor>y\<rfloor>" by (simp add: le_floor_iff)
  then show ?thesis by (simp add: round_half_even_def Let_def)
qed

lemma round_half_even_le:
  assumes "y \<le> of_int n"
  shows "round_half_even y \<le> n"
proof (cases "y = of_int n")
  case True
  then show ?thesis by (simp add: round_half_even_def Let_def)
next
  case False
  with assms have "\<lfloor>y\<rfloor> < n" by (simp add: floor_less_iff)
  then show ?thesis by (simp add: round_half_even_def Let_def)
qed

lemma ulp_of_pos [simp]: "0 < ulp_of x"
  by (simp add: ulp_of_def)

lemma ilog2_rat_le:
  assumes "0 < x"
  shows "pow2 (ilog2_rat x) \<le> x"
proof -
  obtain p q where pq: "quotient_of x = (p, q)" by fastforce
  then have q: "0 < q" and x: "x = of_int p / of_int q"
    by (simp_all add: quotient_of_denom_pos quotient_of_div)
  with assms have p: "0 < p" by (simp add: zero_less_divide_iff)
  have "2 ^ nat (bitlen p - 1) \<le> p" "q < 2 ^ nat (bitlen q)"
    using bitlen_bounds [OF p] bitlen_bounds [OF q] by auto
  then have "(2 :: rat) ^ nat (bitlen p - 1) \<le> of_int p" "of_int q \<le> (2 :: rat) ^ nat (bitlen q)"
    by (metis of_int_le_iff of_int_numeral of_int_power, metis less_imp_le of_int_le_iff of_int_numeral of_int_power)
  moreover have "1 \<le> bitlen p" "0 \<le> bitlen q"
    using p bitlen_nonneg [of q] by (simp_all add: bitlen_alt_def floorlog_ge_SucI bitlen_nonneg)
  ultimately have "pow2 (bitlen p - 1) \<le> of_int p" "of_int q \<le> pow2 (bitlen q)"
    by (simp_all add: pow2_def)
  then have "pow2 (bitlen p - 1) / pow2 (bitlen q) \<le> x"
    unfolding x using q p by (intro frac_le) simp_all
  then have "pow2 (bitlen p - bitlen q - 1) \<le> x"
    using pow2_add [of "bitlen p - 1" "- bitlen q"] by (simp add: pow2_minus algebra_simps)
  then show ?thesis by (simp add: ilog2_rat_def pq Let_def)
qed

text \<open>An integer of at most 53 bits below a positive value is still below its rounding.\<close>

lemma round_rat_ge_int:
  assumes x: "0 < x" and k: "of_int k \<le> x" and small: "k \<le> 2 ^ 53"
  shows "of_int k \<le> round_rat x"
proof -
  define e where "e = max (ilog2_rat x) (- 1022)"
  have u: "ulp_of x = pow2 (e - 52)" using x by (simp add: ulp_of_def e_def)
  have r: "round_rat x = pow2 (e - 52) * of_int (round_half_even (x / pow2 (e - 52)))"
    using x by (simp add: round_rat_def u)
  obtain n :: int where n: "of_int n \<le> x / pow2 (e - 52)" "of_int k \<le> pow2 (e - 52) * of_int n"
  proof (cases "e \<le> 52")
    case True
    let ?n = "k * 2 ^ nat (52 - e)"
    have inv: "1 / pow2 (e - 52) = 2 ^ nat (52 - e)"
      using True pow2_minus [of "e - 52"] by (simp add: pow2_def)
    have "of_int ?n = of_int k * (1 / pow2 (e - 52))" by (simp add: inv)
    then have eq: "of_int ?n = of_int k / pow2 (e - 52)" by simp
    show thesis
      by (rule that [of ?n]) (use k in \<open>simp_all only: eq divide_right_mono pow2_pos less_imp_le\<close>, simp_all add: less_imp_neq [OF pow2_pos, symmetric])
  next
    case False
    then have e: "e = ilog2_rat x" by (simp add: e_def max_def split: if_splits)
    have "pow2 52 * pow2 (e - 52) \<le> x"
      using ilog2_rat_le [OF x] pow2_add [of 52 "e - 52"] by (simp add: e)
    then have "of_int (2 ^ 52) \<le> x / pow2 (e - 52)" by (simp add: pos_le_divide_eq pow2_def)
    moreover have "of_int k \<le> pow2 (e - 52) * of_int (2 ^ 52)"
    proof -
      have "(of_int k :: rat) \<le> 2 ^ 53" using small by (metis of_int_le_iff of_int_numeral of_int_power)
      also have "\<dots> = pow2 53" by (simp add: pow2_def)
      also have "\<dots> \<le> pow2 e" using False by (intro pow2_mono) simp
      also have "\<dots> = pow2 (e - 52) * pow2 52" using pow2_add [of "e - 52" 52] by simp
      finally show ?thesis by (simp add: pow2_def)
    qed
    ultimately show thesis by (rule that)
  qed
  have "of_int n \<le> (of_int (round_half_even (x / pow2 (e - 52))) :: rat)"
    using round_half_even_ge [OF n(1)] by simp
  then have "pow2 (e - 52) * of_int n \<le> round_rat x"
    unfolding r by (intro mult_left_mono) (simp_all add: less_imp_le)
  with n(2) show ?thesis by linarith
qed

text \<open>The same from above; so integers of at most 53 bits are their own rounding.\<close>

lemma round_rat_le_int:
  assumes x: "0 < x" and k: "x \<le> of_int k" and small: "k \<le> 2 ^ 53"
  shows "round_rat x \<le> of_int k"
proof -
  define e where "e = max (ilog2_rat x) (- 1022)"
  have u: "ulp_of x = pow2 (e - 52)" using x by (simp add: ulp_of_def e_def)
  have r: "round_rat x = pow2 (e - 52) * of_int (round_half_even (x / pow2 (e - 52)))"
    using x by (simp add: round_rat_def u)
  obtain n :: int where n: "x / pow2 (e - 52) \<le> of_int n" "pow2 (e - 52) * of_int n \<le> of_int k"
  proof (cases "e \<le> 52")
    case True
    let ?n = "k * 2 ^ nat (52 - e)"
    have inv: "1 / pow2 (e - 52) = 2 ^ nat (52 - e)"
      using True pow2_minus [of "e - 52"] by (simp add: pow2_def)
    have "of_int ?n = of_int k * (1 / pow2 (e - 52))" by (simp add: inv)
    then have eq: "of_int ?n = of_int k / pow2 (e - 52)" by simp
    show thesis
      by (rule that [of ?n]) (use k in \<open>simp_all only: eq divide_right_mono pow2_pos less_imp_le\<close>, simp_all add: less_imp_neq [OF pow2_pos, symmetric])
  next
    case False
    then have e: "e = ilog2_rat x" by (simp add: e_def max_def split: if_splits)
    have le: "pow2 e \<le> x" using ilog2_rat_le [OF x] by (simp add: e)
    have "(of_int k :: rat) \<le> 2 ^ 53" using small by (metis of_int_le_iff of_int_numeral of_int_power)
    then have top: "of_int k \<le> pow2 53" by (simp add: pow2_def)
    have "pow2 53 \<le> pow2 e" using False by (intro pow2_mono) simp
    with le top k have eq: "x = pow2 e" "of_int k = pow2 e" by linarith+
    have half: "pow2 e = pow2 (e - 52) * pow2 52" using pow2_add [of "e - 52" 52] by simp
    have pos: "0 < pow2 (e - 52)" by simp
    have "x / pow2 (e - 52) = of_int (2 ^ 52)" using pos unfolding eq(1) half by (simp add: pow2_def)
    moreover have "pow2 (e - 52) * of_int (2 ^ 52) = of_int k" unfolding eq(2) half by (simp add: pow2_def)
    ultimately show thesis by (intro that [of "2 ^ 52"]) simp_all
  qed
  have "(of_int (round_half_even (x / pow2 (e - 52))) :: rat) \<le> of_int n"
    using round_half_even_le [OF n(1)] by simp
  then have "round_rat x \<le> pow2 (e - 52) * of_int n"
    unfolding r by (intro mult_left_mono) (simp_all add: less_imp_le)
  with n(2) show ?thesis by linarith
qed

lemma round_rat_int: "\<lbrakk>0 \<le> k; k \<le> 2 ^ 53\<rbrakk> \<Longrightarrow> round_rat (of_int k) = of_int k"
  using round_rat_ge_int [of "of_int k" k] round_rat_le_int [of "of_int k" k]
  by (cases "k = 0") (simp_all add: round_rat_def)

lemma round_double_int:
  assumes "0 \<le> k" and "k \<le> 2 ^ 53"
  shows "round_double (of_int k) = Finite (of_int k)"
proof -
  have "(of_int k :: rat) \<le> of_int (2 ^ 53)" using assms(2) by (simp only: of_int_le_iff)
  also have "\<dots> < 2 ^ 1024" by simp
  finally have "of_int k < (2 :: rat) ^ 1024" .
  moreover have "- (2 ^ 1024) < (of_int k :: rat)"
    using assms(1) by (meson less_le_trans neg_less_0_iff_less of_int_0_le_iff zero_less_numeral zero_less_power)
  ultimately show ?thesis using assms by (simp add: round_double_def round_rat_int)
qed

end
