(* ===== verification/Ubx_Cfg_Builder.thy ===== *)
theory Ubx_Cfg_Builder
  imports Ubx_Framer Ieee_Double
begin

text \<open>
  The encoder of UBX configuration messages, \<open>gnss_protocols/src/ubx_cfg_builder.cpp\<close>: CFG-VALSET and
  CFG-VALGET payloads, their framing, and the helpers that set one item.  Every overload pair of the source
  (initializer list, vector) has the same body and one definition here.
\<close>

section \<open>Model\<close>

datatype UbxCfgLayer = Layer_kRam | Layer_kBbr | Layer_kFlash | Layer_kDefault

datatype UbxCfgTransaction = Txn_kNone | Txn_kStart | Txn_kOngoing | Txn_kApply

datatype UbxCfgValueType =
  VT_kBoolean | VT_kU1 | VT_kU2 | VT_kU4 | VT_kI1 | VT_kI2 | VT_kI4

datatype UbxCfgBuilderStatus = CB_kOk | CB_kInvalidArgument | CB_kSizeMismatch | CB_kTooManyItems

datatype UbxCfgConstellation = Con_kGps | Con_kGalileo | Con_kBeiDou | Con_kGlonass

fun layer_code :: "UbxCfgLayer \<Rightarrow> u8" where
  "layer_code Layer_kRam = 0"
| "layer_code Layer_kBbr = 1"
| "layer_code Layer_kFlash = 2"
| "layer_code Layer_kDefault = 7"

fun transaction_code :: "UbxCfgTransaction \<Rightarrow> u8" where
  "transaction_code Txn_kNone = 0"
| "transaction_code Txn_kStart = 1"
| "transaction_code Txn_kOngoing = 2"
| "transaction_code Txn_kApply = 3"

record UbxCfgValue =
  cv_type :: UbxCfgValueType
  cv_raw_value :: u64

record UbxCfgKeyValue =
  kv_key_id :: u32
  kv_value :: UbxCfgValue

record UbxCfgBuilderResult =
  cb_status :: UbxCfgBuilderStatus
  cb_payload :: bytes
  cb_frame :: bytes
  cb_error_message :: string

abbreviation (input) kUbxClassCfg :: u8 where "kUbxClassCfg \<equiv> 0x06"
abbreviation (input) kUbxIdCfgValset :: u8 where "kUbxIdCfgValset \<equiv> 0x8A"
abbreviation (input) kUbxIdCfgValget :: u8 where "kUbxIdCfgValget \<equiv> 0x8B"
abbreviation (input) kMaxCfgItemsPerMessage :: nat where "kMaxCfgItemsPerMessage \<equiv> 64"

fun EncodedValueSize :: "UbxCfgValueType \<Rightarrow> nat" where
  "EncodedValueSize VT_kBoolean = 1"
| "EncodedValueSize VT_kU1 = 1"
| "EncodedValueSize VT_kI1 = 1"
| "EncodedValueSize VT_kU2 = 2"
| "EncodedValueSize VT_kI2 = 2"
| "EncodedValueSize VT_kU4 = 4"
| "EncodedValueSize VT_kI4 = 4"

definition KeySizeCode :: "u32 \<Rightarrow> u8" where
  "KeySizeCode key_id = ucast (drop_bit 28 key_id AND 0x07)"

definition DoesValueTypeMatchKey :: "u32 \<Rightarrow> UbxCfgValueType \<Rightarrow> bool" where
  "DoesValueTypeMatchKey key_id ty =
     (let size_code = KeySizeCode key_id in
      case ty of
        VT_kBoolean \<Rightarrow> size_code = 0x01
      | VT_kU1 \<Rightarrow> size_code = 0x02
      | VT_kI1 \<Rightarrow> size_code = 0x02
      | VT_kU2 \<Rightarrow> size_code = 0x03
      | VT_kI2 \<Rightarrow> size_code = 0x03
      | VT_kU4 \<Rightarrow> size_code = 0x04
      | VT_kI4 \<Rightarrow> size_code = 0x04)"

definition AppendLeU2 :: "bytes \<Rightarrow> u16 \<Rightarrow> bytes" where
  "AppendLeU2 bs value = bs @ [ucast (value AND 0xFF), ucast (drop_bit 8 value AND 0xFF)]"

definition AppendLeU4 :: "bytes \<Rightarrow> u32 \<Rightarrow> bytes" where
  "AppendLeU4 bs value =
     bs @ [ucast (value AND 0xFF), ucast (drop_bit 8 value AND 0xFF),
           ucast (drop_bit 16 value AND 0xFF), ucast (drop_bit 24 value AND 0xFF)]"

definition AppendValue :: "bytes \<Rightarrow> UbxCfgValue \<Rightarrow> bytes" where
  "AppendValue bs value =
     (case cv_type value of
        VT_kBoolean \<Rightarrow> bs @ [ucast (cv_raw_value value AND 0xFF)]
      | VT_kU1 \<Rightarrow> bs @ [ucast (cv_raw_value value AND 0xFF)]
      | VT_kI1 \<Rightarrow> bs @ [ucast (cv_raw_value value AND 0xFF)]
      | VT_kU2 \<Rightarrow> AppendLeU2 bs (ucast (cv_raw_value value AND 0xFFFF))
      | VT_kI2 \<Rightarrow> AppendLeU2 bs (ucast (cv_raw_value value AND 0xFFFF))
      | VT_kU4 \<Rightarrow> AppendLeU4 bs (ucast (cv_raw_value value AND 0xFFFFFFFF))
      | VT_kI4 \<Rightarrow> AppendLeU4 bs (ucast (cv_raw_value value AND 0xFFFFFFFF)))"

definition BuildValsetLayerMask :: "UbxCfgLayer list \<Rightarrow> u8" where
  "BuildValsetLayerMask layers =
     foldl (\<lambda>m layer.
       case layer of
         Layer_kRam \<Rightarrow> m OR push_bit 0 1
       | Layer_kBbr \<Rightarrow> m OR push_bit 1 1
       | Layer_kFlash \<Rightarrow> m OR push_bit 2 1
       | Layer_kDefault \<Rightarrow> m) 0 layers"

definition MakeError :: "UbxCfgBuilderStatus \<Rightarrow> string \<Rightarrow> UbxCfgBuilderResult" where
  "MakeError status message =
     \<lparr>cb_status = status, cb_payload = [], cb_frame = [], cb_error_message = message\<rparr>"

definition BuildUbxFrame :: "u8 \<Rightarrow> u8 \<Rightarrow> bytes \<Rightarrow> bytes" where
  "BuildUbxFrame message_class message_id payload =
     (let frame0 = [0xB5, 0x62, message_class, message_id];
          frame1 = AppendLeU2 frame0 (word_of_nat (length payload)) @ payload;
          checksum = ComputeUbxChecksum (drop 2 frame1)
      in frame1 @ [ck_a checksum, ck_b checksum])"

definition MakeFrameResult :: "bytes \<Rightarrow> u8 \<Rightarrow> UbxCfgBuilderResult" where
  "MakeFrameResult payload message_id =
     \<lparr>cb_status = CB_kOk, cb_payload = payload,
      cb_frame = BuildUbxFrame kUbxClassCfg message_id payload, cb_error_message = []\<rparr>"

fun ConstellationEnableKey :: "UbxCfgConstellation \<Rightarrow> u32" where
  "ConstellationEnableKey Con_kGps = 0x1031001F"
| "ConstellationEnableKey Con_kGalileo = 0x10310021"
| "ConstellationEnableKey Con_kBeiDou = 0x10310022"
| "ConstellationEnableKey Con_kGlonass = 0x10310025"

text \<open>The constructors \<open>UbxCfgValue::Boolean\<close>, \<open>U1\<close>, \<open>U2\<close>, \<open>U4\<close>, \<open>I1\<close>, \<open>I2\<close>, \<open>I4\<close>; a signed
  argument is its bit pattern, as the source's cast to the unsigned type makes it.\<close>

definition Cfg_Boolean :: "bool \<Rightarrow> UbxCfgValue" where
  "Cfg_Boolean value = \<lparr>cv_type = VT_kBoolean, cv_raw_value = (if value then 1 else 0)\<rparr>"
definition Cfg_U1 :: "u8 \<Rightarrow> UbxCfgValue" where
  "Cfg_U1 value = \<lparr>cv_type = VT_kU1, cv_raw_value = ucast value\<rparr>"
definition Cfg_U2 :: "u16 \<Rightarrow> UbxCfgValue" where
  "Cfg_U2 value = \<lparr>cv_type = VT_kU2, cv_raw_value = ucast value\<rparr>"
definition Cfg_U4 :: "u32 \<Rightarrow> UbxCfgValue" where
  "Cfg_U4 value = \<lparr>cv_type = VT_kU4, cv_raw_value = ucast value\<rparr>"
definition Cfg_I1 :: "u8 \<Rightarrow> UbxCfgValue" where
  "Cfg_I1 value = \<lparr>cv_type = VT_kI1, cv_raw_value = ucast value\<rparr>"
definition Cfg_I2 :: "u16 \<Rightarrow> UbxCfgValue" where
  "Cfg_I2 value = \<lparr>cv_type = VT_kI2, cv_raw_value = ucast value\<rparr>"
definition Cfg_I4 :: "u32 \<Rightarrow> UbxCfgValue" where
  "Cfg_I4 value = \<lparr>cv_type = VT_kI4, cv_raw_value = ucast value\<rparr>"

text \<open>The loop over the key/value pairs; \<open>None\<close> is its early return on a size mismatch.\<close>

fun append_items :: "bytes \<Rightarrow> UbxCfgKeyValue list \<Rightarrow> bytes option" where
  "append_items payload [] = Some payload"
| "append_items payload (kv # kvs) =
     (if \<not> DoesValueTypeMatchKey (kv_key_id kv) (cv_type (kv_value kv)) then None
      else append_items (AppendValue (AppendLeU4 payload (kv_key_id kv)) (kv_value kv)) kvs)"

definition BuildUbxCfgValsetFrame ::
  "UbxCfgLayer list \<Rightarrow> UbxCfgKeyValue list \<Rightarrow> UbxCfgTransaction \<Rightarrow> UbxCfgBuilderResult" where
  "BuildUbxCfgValsetFrame layers key_values transaction =
     (if length key_values > kMaxCfgItemsPerMessage
      then MakeError CB_kTooManyItems ''too many key/value pairs''
      else
        let layer_mask = BuildValsetLayerMask layers in
        if layer_mask = 0
        then MakeError CB_kInvalidArgument ''at least one VALSET layer is required''
        else
          (case append_items [0x01, layer_mask, transaction_code transaction, 0x00] key_values of
             None \<Rightarrow> MakeError CB_kSizeMismatch ''key/value type size mismatch''
           | Some payload \<Rightarrow> MakeFrameResult payload kUbxIdCfgValset))"

definition BuildUbxCfgValsetFrame1 ::
  "UbxCfgLayer list \<Rightarrow> UbxCfgKeyValue \<Rightarrow> UbxCfgTransaction \<Rightarrow> UbxCfgBuilderResult" where
  "BuildUbxCfgValsetFrame1 layers key_value transaction =
     BuildUbxCfgValsetFrame layers [key_value] transaction"

definition BuildUbxCfgValgetFrame :: "UbxCfgLayer \<Rightarrow> u32 list \<Rightarrow> u16 \<Rightarrow> UbxCfgBuilderResult" where
  "BuildUbxCfgValgetFrame layer keys position =
     (if keys = [] then MakeError CB_kInvalidArgument ''at least one key is required''
      else if length keys > kMaxCfgItemsPerMessage then MakeError CB_kTooManyItems ''too many keys''
      else
        let payload = AppendLeU2 [0x00, layer_code layer] position in
        MakeFrameResult (foldl AppendLeU4 payload keys) kUbxIdCfgValget)"

definition BuildUbxCfgValgetFrame1 :: "UbxCfgLayer \<Rightarrow> u32 \<Rightarrow> u16 \<Rightarrow> UbxCfgBuilderResult" where
  "BuildUbxCfgValgetFrame1 layer key position = BuildUbxCfgValgetFrame layer [key] position"

definition BuildEnableMessageRateFrame ::
  "u32 \<Rightarrow> u8 \<Rightarrow> UbxCfgLayer list \<Rightarrow> UbxCfgTransaction \<Rightarrow> UbxCfgBuilderResult" where
  "BuildEnableMessageRateFrame message_rate_key rate layers transaction =
     BuildUbxCfgValsetFrame1 layers \<lparr>kv_key_id = message_rate_key, kv_value = Cfg_U1 rate\<rparr> transaction"

definition BuildDisableMessageFrame ::
  "u32 \<Rightarrow> UbxCfgLayer list \<Rightarrow> UbxCfgTransaction \<Rightarrow> UbxCfgBuilderResult" where
  "BuildDisableMessageFrame message_rate_key layers transaction =
     BuildEnableMessageRateFrame message_rate_key 0 layers transaction"

definition BuildUart1BaudrateFrame ::
  "u32 \<Rightarrow> UbxCfgLayer list \<Rightarrow> UbxCfgTransaction \<Rightarrow> UbxCfgBuilderResult" where
  "BuildUart1BaudrateFrame baud_rate layers transaction =
     (if baud_rate = 0 then MakeError CB_kInvalidArgument ''baud rate must be non-zero''
      else BuildUbxCfgValsetFrame1 layers
             \<lparr>kv_key_id = 0x40520001, kv_value = Cfg_U4 baud_rate\<rparr> transaction)"

definition BuildUart2BaudrateFrame ::
  "u32 \<Rightarrow> UbxCfgLayer list \<Rightarrow> UbxCfgTransaction \<Rightarrow> UbxCfgBuilderResult" where
  "BuildUart2BaudrateFrame baud_rate layers transaction =
     (if baud_rate = 0 then MakeError CB_kInvalidArgument ''baud rate must be non-zero''
      else BuildUbxCfgValsetFrame1 layers
             \<lparr>kv_key_id = 0x40530001, kv_value = Cfg_U4 baud_rate\<rparr> transaction)"

text \<open>The last test of the source refuses a period that is zero after the cast; the last branch of the
  \<open>case\<close> here, a period that is not finite, is excluded by the range test before it except for a NaN,
  which a positive rate does not produce.\<close>

definition BuildRateHzFrame ::
  "double \<Rightarrow> UbxCfgLayer list \<Rightarrow> UbxCfgTransaction \<Rightarrow> UbxCfgBuilderResult" where
  "BuildRateHzFrame rate_hz layers transaction =
     (if \<not> dbl_less (Finite 0) rate_hz then MakeError CB_kInvalidArgument ''rate must be positive''
      else
        let period_ms = dbl_div_pos 1000 rate_hz in
        if dbl_less period_ms (Finite 1) \<or> dbl_less (Finite 65535) period_ms
        then MakeError CB_kInvalidArgument ''rate is out of supported range''
        else
          (case period_ms of
             Finite p \<Rightarrow>
               (let meas_period_ms = (word_of_int (llround_rat p) :: u16) in
                if meas_period_ms = 0
                then MakeError CB_kInvalidArgument ''rate produced an invalid period''
                else BuildUbxCfgValsetFrame1 layers
                       \<lparr>kv_key_id = 0x30210001, kv_value = Cfg_U2 meas_period_ms\<rparr> transaction)
           | _ \<Rightarrow> MakeError CB_kInvalidArgument ''rate produced an invalid period''))"

definition BuildEnableConstellationFrame ::
  "UbxCfgConstellation \<Rightarrow> bool \<Rightarrow> UbxCfgLayer list \<Rightarrow> UbxCfgTransaction \<Rightarrow> UbxCfgBuilderResult" where
  "BuildEnableConstellationFrame constellation enabled layers transaction =
     (let key = ConstellationEnableKey constellation in
      if key = 0 then MakeError CB_kInvalidArgument ''unsupported constellation''
      else BuildUbxCfgValsetFrame1 layers
             \<lparr>kv_key_id = key, kv_value = Cfg_Boolean enabled\<rparr> transaction)"

section \<open>Little-endian encoding\<close>

primrec le_nat :: "bytes \<Rightarrow> nat" where
  "le_nat [] = 0"
| "le_nat (b # bs) = unat b + 256 * le_nat bs"

lemma unat_low_byte:
  fixes w :: "'a :: len word"
  assumes "8 \<le> LENGTH('a)"
  shows "unat (ucast (w AND 0xFF) :: u8) = unat w mod 256"
proof -
  have "(0xFF :: 'a word) = mask 8" by (simp add: mask_eq_exp_minus_1)
  then have "w AND 0xFF = take_bit 8 w" by (simp only: take_bit_eq_mask)
  then show ?thesis
    by (simp only: unsigned_ucast_eq unsigned_take_bit_eq) (simp add: take_bit_eq_mod)
qed

text \<open>Four base-256 digits and a quotient make up a number.\<close>

lemma base256_4:
  fixes w :: nat
  shows "w mod 256 + 256 * (w div 256 mod 256 + 256 * (w div 65536 mod 256
           + 256 * (w div 16777216))) = w"
proof -
  define a where "a = w div 256"
  define b where "b = a div 256"
  define c where "c = b div 256"
  have "w div 65536 = b" "w div 16777216 = c"
    by (simp_all add: a_def b_def c_def div_mult2_eq [symmetric])
  moreover have "w = w mod 256 + 256 * a" "a = a mod 256 + 256 * b" "b = b mod 256 + 256 * c"
    unfolding a_def b_def c_def by (rule mod_mult_div_eq [symmetric])+
  ultimately show ?thesis unfolding a_def [symmetric] by presburger
qed

lemma le_nat_AppendLeU2: "le_nat (AppendLeU2 [] w) = unat w"
  using base256_4 [of "unat w"] unat_u16_less [of w]
  by (simp add: AppendLeU2_def unat_low_byte unat_drop)

lemma le_nat_AppendLeU4: "le_nat (AppendLeU4 [] w) = unat w"
  using base256_4 [of "unat w"] unat_u32_less [of w]
  by (simp add: AppendLeU4_def unat_low_byte unat_drop)

lemma AppendLeU2_append: "AppendLeU2 bs w = bs @ AppendLeU2 [] w"
  by (simp add: AppendLeU2_def)

lemma AppendLeU4_append: "AppendLeU4 bs w = bs @ AppendLeU4 [] w"
  by (simp add: AppendLeU4_def)

lemma AppendValue_append: "AppendValue bs v = bs @ AppendValue [] v"
  by (simp add: AppendValue_def AppendLeU2_def AppendLeU4_def split: UbxCfgValueType.split)

lemma length_AppendLe [simp]: "length (AppendLeU2 [] v) = 2" "length (AppendLeU4 [] w) = 4"
  by (simp_all add: AppendLeU2_def AppendLeU4_def)

lemma length_AppendValue [simp]: "length (AppendValue [] v) = EncodedValueSize (cv_type v)"
  by (simp add: AppendValue_def AppendLeU2_def AppendLeU4_def split: UbxCfgValueType.split)

lemma unat_truncate_u16: "unat (ucast (v AND 0xFFFF) :: u16) = unat (v :: u64) mod 65536"
proof -
  have "(0xFFFF :: u64) = mask 16" by (simp add: mask_eq_exp_minus_1)
  then have "v AND 0xFFFF = take_bit 16 v" by (simp only: take_bit_eq_mask)
  then show ?thesis
    by (simp only: unsigned_ucast_eq unsigned_take_bit_eq) (simp add: take_bit_eq_mod)
qed

lemma unat_truncate_u32: "unat (ucast (v AND 0xFFFFFFFF) :: u32) = unat (v :: u64) mod 4294967296"
proof -
  have "(0xFFFFFFFF :: u64) = mask 32" by (simp add: mask_eq_exp_minus_1)
  then have "v AND 0xFFFFFFFF = take_bit 32 v" by (simp only: take_bit_eq_mask)
  then show ?thesis
    by (simp only: unsigned_ucast_eq unsigned_take_bit_eq) (simp add: take_bit_eq_mod)
qed

lemma le_nat_AppendValue:
  "le_nat (AppendValue [] v) = unat (cv_raw_value v) mod 256 ^ EncodedValueSize (cv_type v)"
  by (cases "cv_type v")
    (simp_all add: AppendValue_def le_nat_AppendLeU2 le_nat_AppendLeU4 unat_truncate_u16
      unat_truncate_u32 unat_low_byte)

section \<open>The frames the builder makes\<close>

lemma BuildUbxFrame_eq:
  "BuildUbxFrame c i payload =
     (let body = [c, i] @ AppendLeU2 [] (word_of_nat (length payload)) @ payload;
          k = ComputeUbxChecksum body
      in [0xB5, 0x62] @ body @ [ck_a k, ck_b k])"
  by (simp add: BuildUbxFrame_def AppendLeU2_def Let_def)

lemma length_BuildUbxFrame [simp]: "length (BuildUbxFrame c i payload) = 8 + length payload"
  by (simp add: BuildUbxFrame_eq Let_def)

lemma BuildUbxFrame_good:
  assumes "length payload < 65536" and "8 + length payload \<le> m"
  shows "ubx_good m (BuildUbxFrame c i payload)"
proof -
  let ?lo = "ucast (word_of_nat (length payload) AND (0xFF :: u16)) :: u8"
    and ?hi = "ucast (drop_bit 8 (word_of_nat (length payload)) AND (0xFF :: u16)) :: u8"
  define k where "k = ComputeUbxChecksum ([c, i, ?lo, ?hi] @ payload)"
  have frame: "BuildUbxFrame c i payload = [0xB5, 0x62, c, i, ?lo, ?hi] @ payload @ [ck_a k, ck_b k]"
    by (simp add: BuildUbxFrame_eq AppendLeU2_def k_def Let_def)
  have "le16_size ?lo ?hi = le_nat (AppendLeU2 [] (word_of_nat (length payload)))"
    by (simp add: le16_size_eq AppendLeU2_def)
  with assms(1) have size: "le16_size ?lo ?hi = length payload"
    by (simp add: le_nat_AppendLeU2 unat_of_nat)
  have body: "bslice 2 (4 + length payload) (BuildUbxFrame c i payload) = [c, i, ?lo, ?hi] @ payload"
    unfolding frame by (simp add: bslice_def numeral_eq_Suc)
  have tail: "BuildUbxFrame c i payload ! (6 + length payload) = ck_a k"
    "BuildUbxFrame c i payload ! (7 + length payload) = ck_b k"
    unfolding frame by (simp_all add: nth_append nth_Cons')
  have head: "BuildUbxFrame c i payload ! 0 = 0xB5" "BuildUbxFrame c i payload ! 1 = 0x62"
    "BuildUbxFrame c i payload ! 4 = ?lo" "BuildUbxFrame c i payload ! 5 = ?hi"
    unfolding frame by simp_all
  show ?thesis
    using assms(2) unfolding ubx_good_def head size
    by (simp add: body tail ValidateUbxChecksum_def k_def Let_def)
qed

lemma ubx_record_BuildUbxFrame:
  "ubx_class_id (ubx_record (BuildUbxFrame c i payload) ts) = c"
  "ubx_message_id (ubx_record (BuildUbxFrame c i payload) ts) = i"
  "ubx_payload (ubx_record (BuildUbxFrame c i payload) ts) = payload"
  by (simp_all add: ubx_record_def ubx_BuildFrame_def BuildUbxFrame_eq AppendLeU2_def bslice_def Let_def)

lemma append_items_length:
  "append_items p kvs = Some q \<Longrightarrow> length q \<le> length p + 8 * length kvs"
proof (induction p kvs rule: append_items.induct)
  case (2 p kv kvs)
  have "EncodedValueSize (cv_type (kv_value kv)) \<le> 4" by (cases "cv_type (kv_value kv)") simp_all
  with 2 show ?case
    by (auto simp: AppendValue_append [of "_ @ _"] AppendLeU4_append [of p] split: if_splits)
qed simp

lemma foldl_AppendLeU4_length: "length (foldl AppendLeU4 p keys) = length p + 4 * length keys"
  by (induction keys arbitrary: p) (simp_all add: AppendLeU4_def)

lemma ValsetFrame_ok:
  assumes "cb_status (BuildUbxCfgValsetFrame layers kvs txn) = CB_kOk"
  obtains payload where "append_items [0x01, BuildValsetLayerMask layers, transaction_code txn, 0x00] kvs
      = Some payload"
    and "BuildUbxCfgValsetFrame layers kvs txn = MakeFrameResult payload 0x8A"
    and "length payload \<le> 516"
proof -
  from assms obtain payload
    where items: "append_items [0x01, BuildValsetLayerMask layers, transaction_code txn, 0x00] kvs
      = Some payload" and "BuildUbxCfgValsetFrame layers kvs txn = MakeFrameResult payload 0x8A"
      and "length kvs \<le> 64"
    by (auto simp: BuildUbxCfgValsetFrame_def MakeError_def Let_def split: if_splits option.splits)
  moreover from append_items_length [OF items] \<open>length kvs \<le> 64\<close> have "length payload \<le> 516" by simp
  ultimately show thesis using that by blast
qed

section \<open>Decoding the items of a VALSET payload\<close>

text \<open>The receiver's reading of the items: a 32-bit key, whose bits 28 to 30 announce the size of the
  value that follows.  \<open>None\<close> when the bytes are not a sequence of items.\<close>

definition value_size :: "nat \<Rightarrow> nat option" where
  "value_size code =
     (if code = 1 \<or> code = 2 then Some 1 else if code = 3 then Some 2
      else if code = 4 then Some 4 else None)"

function decode_items :: "bytes \<Rightarrow> (nat \<times> nat) list option" where
  "decode_items bs =
     (if bs = [] then Some []
      else if length bs < 4 then None
      else
        let key = le_nat (take 4 bs) in
        case value_size (key div 2 ^ 28 mod 8) of
          None \<Rightarrow> None
        | Some n \<Rightarrow>
            if length bs < 4 + n then None
            else map_option (Cons (key, le_nat (take n (drop 4 bs)))) (decode_items (drop (4 + n) bs)))"
  by pat_completeness auto
termination
  by (relation "measure length") auto

declare decode_items.simps [simp del]

definition item_of :: "UbxCfgKeyValue \<Rightarrow> nat \<times> nat" where
  "item_of kv = (unat (kv_key_id kv),
     unat (cv_raw_value (kv_value kv)) mod 256 ^ EncodedValueSize (cv_type (kv_value kv)))"

lemma unat_KeySizeCode: "unat (KeySizeCode key) = unat key div 2 ^ 28 mod 8"
proof -
  have "(0x07 :: u32) = mask 3" by (simp add: mask_eq_exp_minus_1)
  then have "drop_bit 28 key AND 0x07 = take_bit 3 (drop_bit 28 key)" by (simp only: take_bit_eq_mask)
  then have "unat (KeySizeCode key) = take_bit 8 (take_bit 3 (unat (drop_bit 28 key)))"
    by (simp only: KeySizeCode_def unsigned_ucast_eq unsigned_take_bit_eq) simp
  then show ?thesis by (simp add: unat_drop take_bit_eq_mod)
qed

lemma value_size_key:
  assumes "DoesValueTypeMatchKey key ty"
  shows "value_size (unat key div 2 ^ 28 mod 8) = Some (EncodedValueSize ty)"
  using assms unfolding unat_KeySizeCode [symmetric]
  by (cases ty) (auto simp: DoesValueTypeMatchKey_def value_size_def)

lemma AppendLeU4_not_Nil [simp]: "AppendLeU4 bs w \<noteq> []"
  by (simp add: AppendLeU4_def)

lemma decode_items_Cons:
  assumes "DoesValueTypeMatchKey (kv_key_id kv) (cv_type (kv_value kv))"
  shows "decode_items (AppendLeU4 [] (kv_key_id kv) @ AppendValue [] (kv_value kv) @ rest)
           = map_option (Cons (item_of kv)) (decode_items rest)"
  using value_size_key [OF assms]
  by (subst decode_items.simps)
    (simp add: le_nat_AppendLeU4 le_nat_AppendValue item_of_def Let_def)

lemma append_items_decode:
  "append_items p kvs = Some q \<Longrightarrow>
     \<exists>tail. q = p @ tail \<and> decode_items tail = Some (map item_of kvs)"
proof (induction p kvs rule: append_items.induct)
  case (1 p)
  then show ?case by (simp add: decode_items.simps [of "[]"])
next
  case (2 p kv kvs)
  then have match: "DoesValueTypeMatchKey (kv_key_id kv) (cv_type (kv_value kv))"
    by (simp split: if_splits)
  with 2 obtain tail where "q = AppendValue (AppendLeU4 p (kv_key_id kv)) (kv_value kv) @ tail"
    and "decode_items tail = Some (map item_of kvs)" by auto
  with match show ?case
    by (intro exI [of _ "AppendLeU4 [] (kv_key_id kv) @ AppendValue [] (kv_value kv) @ tail"])
      (simp add: decode_items_Cons AppendValue_append [of "_ @ _"] AppendLeU4_append [of p])
qed

lemma append_items_None_iff:
  "append_items p kvs = None
     \<longleftrightarrow> (\<exists>kv \<in> set kvs. \<not> DoesValueTypeMatchKey (kv_key_id kv) (cv_type (kv_value kv)))"
  by (induction p kvs rule: append_items.induct) auto

lemma layer_mask_eq_0:
  "BuildValsetLayerMask layers = 0 \<longleftrightarrow> set layers \<subseteq> {Layer_kDefault}"
proof -
  have "(foldl (\<lambda>m layer. case layer of Layer_kRam \<Rightarrow> m OR push_bit 0 1 | Layer_kBbr \<Rightarrow> m OR push_bit 1 1
      | Layer_kFlash \<Rightarrow> m OR push_bit 2 1 | Layer_kDefault \<Rightarrow> m) (m0 :: u8) layers = 0)
    = (m0 = 0 \<and> set layers \<subseteq> {Layer_kDefault})" for m0
    by (induction layers arbitrary: m0) (auto simp: or_eq_0_iff split: UbxCfgLayer.split)
  then show ?thesis by (simp add: BuildValsetLayerMask_def)
qed

section \<open>Properties\<close>

text \<open>C25. A VALSET request is encoded exactly when it has at most 64 items, names at least one writable
  layer, and every value has the size its key announces; the payload then starts with version, layer mask,
  transaction and a reserved zero, and decoding the rest gives back the requested keys and values (to the
  width of their type), in order.\<close>

theorem valset_roundtrip:
  "if length kvs \<le> 64 \<and> \<not> set layers \<subseteq> {Layer_kDefault}
       \<and> list_all (\<lambda>kv. DoesValueTypeMatchKey (kv_key_id kv) (cv_type (kv_value kv))) kvs
   then cb_status (BuildUbxCfgValsetFrame layers kvs txn) = CB_kOk
     \<and> take 4 (cb_payload (BuildUbxCfgValsetFrame layers kvs txn))
         = [0x01, BuildValsetLayerMask layers, transaction_code txn, 0x00]
     \<and> decode_items (drop 4 (cb_payload (BuildUbxCfgValsetFrame layers kvs txn))) = Some (map item_of kvs)
   else cb_status (BuildUbxCfgValsetFrame layers kvs txn) \<noteq> CB_kOk
     \<and> cb_frame (BuildUbxCfgValsetFrame layers kvs txn) = []"
proof (cases "append_items [0x01, BuildValsetLayerMask layers, transaction_code txn, 0x00] kvs")
  case None
  moreover from None have "\<not> list_all (\<lambda>kv. DoesValueTypeMatchKey (kv_key_id kv) (cv_type (kv_value kv))) kvs"
    by (auto simp: append_items_None_iff list_all_iff)
  ultimately show ?thesis
    by (simp add: BuildUbxCfgValsetFrame_def MakeError_def Let_def)
next
  case (Some payload)
  from append_items_decode [OF Some] obtain tail
    where "payload = [0x01, BuildValsetLayerMask layers, transaction_code txn, 0x00] @ tail"
      and "decode_items tail = Some (map item_of kvs)" by blast
  moreover from Some have "list_all (\<lambda>kv. DoesValueTypeMatchKey (kv_key_id kv) (cv_type (kv_value kv))) kvs"
    using append_items_None_iff [of "[0x01, BuildValsetLayerMask layers, transaction_code txn, 0x00]" kvs]
    by (auto simp: list_all_iff)
  ultimately show ?thesis using Some
    by (simp add: BuildUbxCfgValsetFrame_def MakeError_def MakeFrameResult_def layer_mask_eq_0 Let_def)
qed

text \<open>Every VALSET frame the builder accepts is recognised by a default UBX framer: feeding its bytes to
  an empty framer with the 4096-byte limit delivers one record, valid, of class 06 and id 8A, carrying the
  built payload.\<close>

lemma valset_frame_is_framed:
  assumes "cb_status (BuildUbxCfgValsetFrame layers kvs txn) = CB_kOk"
    and "map fst xs = cb_frame (BuildUbxCfgValsetFrame layers kvs txn)"
  shows "\<exists>r. emitted (snd (feed ubx_PushByte (ubx_new 4096) xs)) = [r]
    \<and> ubx_checksum_status r = CS_kValid \<and> ubx_class_id r = 0x06 \<and> ubx_message_id r = 0x8A
    \<and> ubx_payload r = cb_payload (BuildUbxCfgValsetFrame layers kvs txn)
    \<and> ubx_raw_bytes r = map fst xs"
proof (rule ValsetFrame_ok [OF assms(1)])
  fix payload assume built: "BuildUbxCfgValsetFrame layers kvs txn = MakeFrameResult payload 0x8A"
    and len: "length payload \<le> 516"
  let ?bs = "BuildUbxFrame 0x06 0x8A payload"
  from built assms(2) have bs: "map fst xs = ?bs" by (simp add: MakeFrameResult_def)
  from len have good: "ubx_good 4096 ?bs" by (intro BuildUbxFrame_good) simp_all
  then have "emitted (snd (feed ubx_PushByte (ubx_new 4096) xs)) = [ubx_record ?bs (snd (hd xs))]"
    using ubx_rec.feed_frame [of "ubx_new 4096" xs]
    by (simp add: bs, simp add: ubx_new_def emitted_Cons)
  then show ?thesis
    using ubx_good_valid [OF good] built bs
    by (simp add: ubx_record_BuildUbxFrame MakeFrameResult_def)
qed

theorem valset_frame_is_framed_witness:
  "\<exists>r. emitted (snd (feed ubx_PushByte (ubx_new 4096)
          (map (\<lambda>b. (b, None)) (cb_frame (BuildUbxCfgValsetFrame [Layer_kRam]
             [\<lparr>kv_key_id = 0x20910007, kv_value = Cfg_U1 1\<rparr>] Txn_kNone))))) = [r]
     \<and> ubx_message_id r = 0x8A"
proof -
  let ?f = "BuildUbxCfgValsetFrame [Layer_kRam] [\<lparr>kv_key_id = 0x20910007, kv_value = Cfg_U1 1\<rparr>] Txn_kNone"
  have "cb_status ?f = CB_kOk" by code_simp
  moreover have "map fst (map (\<lambda>b. (b, None :: timestamp_ns option)) (cb_frame ?f)) = cb_frame ?f"
    by (simp add: o_def)
  ultimately show ?thesis using valset_frame_is_framed by blast
qed

text \<open>A measurement rate is either refused or encoded exactly: whenever the rounded period
  \<open>1000 / rate\<close> lies in 1 to 65535 ms the 16-bit item holds its nearest integer without truncation, so the
  source's last check (a zero period) can never fire.\<close>

lemma rate_period_exact:
  "case dbl_div_pos 1000 (Finite q) of
     Finite p \<Rightarrow>
       if 0 < q \<and> 1 \<le> p \<and> p \<le> 65535
       then BuildRateHzFrame (Finite q) layers txn =
              BuildUbxCfgValsetFrame layers
                [\<lparr>kv_key_id = 0x30210001, kv_value = Cfg_U2 (word_of_int (llround_rat p))\<rparr>] txn
            \<and> uint (word_of_int (llround_rat p) :: u16) = llround_rat p \<and> 1 \<le> llround_rat p
       else cb_status (BuildRateHzFrame (Finite q) layers txn) = CB_kInvalidArgument
   | _ \<Rightarrow> cb_status (BuildRateHzFrame (Finite q) layers txn) = CB_kInvalidArgument"
proof -
  have range: "1 \<le> llround_rat p \<and> llround_rat p \<le> 65535" if "1 \<le> p" "p \<le> 65535" for p
    using that by (auto simp: llround_rat_def le_floor_iff floor_le_iff)
  have exact: "uint (word_of_int (llround_rat p) :: u16) = llround_rat p" if "1 \<le> p" "p \<le> 65535" for p
    using range [OF that] by (simp add: uint_word_of_int)
  have nonzero: "(word_of_int (llround_rat p) :: u16) \<noteq> 0" if "1 \<le> p" "p \<le> 65535" for p
    using exact [OF that] range [OF that] by auto
  show ?thesis
    using range exact nonzero
    by (auto simp: BuildRateHzFrame_def BuildUbxCfgValsetFrame1_def MakeError_def Let_def not_less
        split: double.split)
qed

end
