(* ===== verification/Transport.thy ===== *)
theory Transport
  imports UG_Prelude
begin

text \<open>
  The transport layer's vocabulary (\<open>transport_status.hpp\<close>, \<open>transport_error.hpp\<close>, \<open>transport_metrics.hpp\<close>,
  \<open>byte_stream.hpp\<close>), the contract of a byte sink its clients rely on, and the in-memory streams of
  \<open>gnss_transport/src/memory_stream.cpp\<close>, which provide it.  A C pointer to \<open>n\<close> bytes is a
  \<open>bytes option\<close>: \<open>None\<close> is the null pointer.
\<close>

section \<open>Status, errors, metrics\<close>

datatype TransportStatus = TS_kOk | TS_kEndOfStream | TS_kClosed | TS_kError

datatype TransportError =
    TE_kNone | TE_kClosed | TE_kInvalidArgument | TE_kOverflow | TE_kConnectFailure | TE_kTimeout
  | TE_kReadFailure | TE_kWriteFailure | TE_kUnsupported | TE_kUnknown | TE_kTlsHandshakeFailure
  | TE_kTlsVerificationFailure

definition IsTransportReady :: "TransportStatus \<Rightarrow> bool" where
  "IsTransportReady status \<longleftrightarrow> status = TS_kOk"

definition IsTransportTerminal :: "TransportStatus \<Rightarrow> bool" where
  "IsTransportTerminal status \<longleftrightarrow>
     status = TS_kEndOfStream \<or> status = TS_kClosed \<or> status = TS_kError"

record TransportMetrics =
  tm_bytes_read :: u64
  tm_bytes_written :: u64
  tm_read_errors :: u64
  tm_write_errors :: u64
  tm_reconnect_count :: u32
  tm_last_error :: TransportError

definition TransportMetrics_default :: TransportMetrics where
  "TransportMetrics_default =
     \<lparr>tm_bytes_read = 0, tm_bytes_written = 0, tm_read_errors = 0, tm_write_errors = 0,
      tm_reconnect_count = 0, tm_last_error = TE_kNone\<rparr>"

definition NoteReadBytes :: "TransportMetrics \<Rightarrow> nat \<Rightarrow> TransportMetrics" where
  "NoteReadBytes m byte_count = m\<lparr>tm_bytes_read := tm_bytes_read m + word_of_nat byte_count\<rparr>"

definition NoteWrittenBytes :: "TransportMetrics \<Rightarrow> nat \<Rightarrow> TransportMetrics" where
  "NoteWrittenBytes m byte_count = m\<lparr>tm_bytes_written := tm_bytes_written m + word_of_nat byte_count\<rparr>"

definition NoteReadError :: "TransportMetrics \<Rightarrow> TransportError \<Rightarrow> TransportMetrics" where
  "NoteReadError m error = m\<lparr>tm_read_errors := tm_read_errors m + 1, tm_last_error := error\<rparr>"

definition NoteWriteError :: "TransportMetrics \<Rightarrow> TransportError \<Rightarrow> TransportMetrics" where
  "NoteWriteError m error = m\<lparr>tm_write_errors := tm_write_errors m + 1, tm_last_error := error\<rparr>"

definition NoteReconnect :: "TransportMetrics \<Rightarrow> TransportMetrics" where
  "NoteReconnect m = m\<lparr>tm_reconnect_count := tm_reconnect_count m + 1\<rparr>"

definition ClearLastTransportError :: "TransportMetrics \<Rightarrow> TransportMetrics" where
  "ClearLastTransportError m = m\<lparr>tm_last_error := TE_kNone\<rparr>"

record ReadResult =
  rr_bytes_read :: nat
  rr_status :: TransportStatus
  rr_error :: TransportError

record WriteResult =
  wr_bytes_written :: nat
  wr_status :: TransportStatus
  wr_error :: TransportError

section \<open>The contract of a sink\<close>

text \<open>\<open>put k bs\<close> offers the bytes \<open>bs\<close> to the sink \<open>k\<close>; what \<open>sent\<close> shows is everything that has
  left through it.  A sink accepts a prefix of what it is offered and reports its length.\<close>

locale byte_sink =
  fixes put :: "'k \<Rightarrow> bytes \<Rightarrow> 'k \<times> WriteResult"
    and sent :: "'k \<Rightarrow> bytes"
  assumes put_bound: "wr_bytes_written (snd (put k bs)) \<le> length bs"
    and put_sent: "sent (fst (put k bs)) = sent k @ take (wr_bytes_written (snd (put k bs))) bs"

section \<open>In-memory streams\<close>

record MemoryByteSource =
  ms_input :: bytes
  ms_read_offset :: nat
  ms_open :: bool
  ms_next_read_error :: TransportError
  ms_metrics :: TransportMetrics

definition MemoryByteSource_new :: "bytes \<Rightarrow> MemoryByteSource" where
  "MemoryByteSource_new input =
     \<lparr>ms_input = input, ms_read_offset = 0, ms_open = True, ms_next_read_error = TE_kNone,
      ms_metrics = TransportMetrics_default\<rparr>"

text \<open>\<open>Read\<close> on a destination that is null or not, of the given capacity: the new state, the result and the
  bytes copied.\<close>

definition MemoryByteSource_Read ::
  "MemoryByteSource \<Rightarrow> bool \<Rightarrow> nat \<Rightarrow> MemoryByteSource \<times> ReadResult \<times> bytes" where
  "MemoryByteSource_Read s destination_is_null capacity =
     (if \<not> ms_open s then
        (s\<lparr>ms_metrics := NoteReadError (ms_metrics s) TE_kClosed\<rparr>,
         \<lparr>rr_bytes_read = 0, rr_status = TS_kClosed, rr_error = TE_kClosed\<rparr>, [])
      else if ms_next_read_error s \<noteq> TE_kNone then
        let error = ms_next_read_error s in
        (s\<lparr>ms_next_read_error := TE_kNone, ms_metrics := NoteReadError (ms_metrics s) error\<rparr>,
         \<lparr>rr_bytes_read = 0, rr_status = TS_kError, rr_error = error\<rparr>, [])
      else if capacity = 0 then (s, \<lparr>rr_bytes_read = 0, rr_status = TS_kOk, rr_error = TE_kNone\<rparr>, [])
      else if destination_is_null then
        (s\<lparr>ms_metrics := NoteReadError (ms_metrics s) TE_kInvalidArgument\<rparr>,
         \<lparr>rr_bytes_read = 0, rr_status = TS_kError, rr_error = TE_kInvalidArgument\<rparr>, [])
      else if ms_read_offset s \<ge> length (ms_input s) then
        (s, \<lparr>rr_bytes_read = 0, rr_status = TS_kEndOfStream, rr_error = TE_kNone\<rparr>, [])
      else
        let available = length (ms_input s) - ms_read_offset s;
            bytes_to_copy = min capacity available in
        (s\<lparr>ms_read_offset := ms_read_offset s + bytes_to_copy,
           ms_metrics := NoteReadBytes (ms_metrics s) bytes_to_copy\<rparr>,
         \<lparr>rr_bytes_read = bytes_to_copy, rr_status = TS_kOk, rr_error = TE_kNone\<rparr>,
         bslice (ms_read_offset s) bytes_to_copy (ms_input s)))"

definition MemoryByteSource_Close :: "MemoryByteSource \<Rightarrow> MemoryByteSource" where
  "MemoryByteSource_Close s = s\<lparr>ms_open := False\<rparr>"

definition MemoryByteSource_Reset :: "MemoryByteSource \<Rightarrow> bytes \<Rightarrow> MemoryByteSource" where
  "MemoryByteSource_Reset s input =
     \<lparr>ms_input = input, ms_read_offset = 0, ms_open = True, ms_next_read_error = TE_kNone,
      ms_metrics = TransportMetrics_default\<rparr>"

definition MemoryByteSource_InjectNextReadError ::
  "MemoryByteSource \<Rightarrow> TransportError \<Rightarrow> MemoryByteSource" where
  "MemoryByteSource_InjectNextReadError s error = s\<lparr>ms_next_read_error := error\<rparr>"

definition MemoryByteSource_remaining_bytes :: "MemoryByteSource \<Rightarrow> nat" where
  "MemoryByteSource_remaining_bytes s =
     (if ms_read_offset s < length (ms_input s) then length (ms_input s) - ms_read_offset s else 0)"

record MemoryByteSink =
  mk_output :: bytes
  mk_open :: bool
  mk_next_write_error :: TransportError
  mk_metrics :: TransportMetrics

definition MemoryByteSink_new :: MemoryByteSink where
  "MemoryByteSink_new =
     \<lparr>mk_output = [], mk_open = True, mk_next_write_error = TE_kNone,
      mk_metrics = TransportMetrics_default\<rparr>"

definition MemoryByteSink_Write ::
  "MemoryByteSink \<Rightarrow> bytes option \<Rightarrow> nat \<Rightarrow> MemoryByteSink \<times> WriteResult" where
  "MemoryByteSink_Write s data count =
     (if \<not> mk_open s then
        (s\<lparr>mk_metrics := NoteWriteError (mk_metrics s) TE_kClosed\<rparr>,
         \<lparr>wr_bytes_written = 0, wr_status = TS_kClosed, wr_error = TE_kClosed\<rparr>)
      else if mk_next_write_error s \<noteq> TE_kNone then
        let error = mk_next_write_error s in
        (s\<lparr>mk_next_write_error := TE_kNone, mk_metrics := NoteWriteError (mk_metrics s) error\<rparr>,
         \<lparr>wr_bytes_written = 0, wr_status = TS_kError, wr_error = error\<rparr>)
      else if count = 0 then (s, \<lparr>wr_bytes_written = 0, wr_status = TS_kOk, wr_error = TE_kNone\<rparr>)
      else
        (case data of
           None \<Rightarrow>
             (s\<lparr>mk_metrics := NoteWriteError (mk_metrics s) TE_kInvalidArgument\<rparr>,
              \<lparr>wr_bytes_written = 0, wr_status = TS_kError, wr_error = TE_kInvalidArgument\<rparr>)
         | Some bs \<Rightarrow>
             (s\<lparr>mk_output := mk_output s @ take count bs,
                mk_metrics := NoteWrittenBytes (mk_metrics s) count\<rparr>,
              \<lparr>wr_bytes_written = count, wr_status = TS_kOk, wr_error = TE_kNone\<rparr>)))"

definition MemoryByteSink_Close :: "MemoryByteSink \<Rightarrow> MemoryByteSink" where
  "MemoryByteSink_Close s = s\<lparr>mk_open := False\<rparr>"

definition MemoryByteSink_Clear :: "MemoryByteSink \<Rightarrow> MemoryByteSink" where
  "MemoryByteSink_Clear s = MemoryByteSink_new"

definition MemoryByteSink_InjectNextWriteError ::
  "MemoryByteSink \<Rightarrow> TransportError \<Rightarrow> MemoryByteSink" where
  "MemoryByteSink_InjectNextWriteError s error = s\<lparr>mk_next_write_error := error\<rparr>"

text \<open>A whole buffer offered to the sink, as every client of the interface does.\<close>

definition mem_write :: "MemoryByteSink \<Rightarrow> bytes \<Rightarrow> MemoryByteSink \<times> WriteResult" where
  "mem_write s bs = MemoryByteSink_Write s (Some bs) (length bs)"

interpretation mem: byte_sink mem_write mk_output
  by unfold_locales (auto simp: mem_write_def MemoryByteSink_Write_def Let_def)

text \<open>\<open>MemoryByteDuplex\<close> keeps one open flag and one set of metrics for both directions; its reads and
  writes are those of the two streams on the shared fields.\<close>

record MemoryByteDuplex =
  md_input :: bytes
  md_output :: bytes
  md_read_offset :: nat
  md_open :: bool
  md_next_read_error :: TransportError
  md_next_write_error :: TransportError
  md_metrics :: TransportMetrics

definition md_source :: "MemoryByteDuplex \<Rightarrow> MemoryByteSource" where
  "md_source d =
     \<lparr>ms_input = md_input d, ms_read_offset = md_read_offset d, ms_open = md_open d,
      ms_next_read_error = md_next_read_error d, ms_metrics = md_metrics d\<rparr>"

definition md_sink :: "MemoryByteDuplex \<Rightarrow> MemoryByteSink" where
  "md_sink d =
     \<lparr>mk_output = md_output d, mk_open = md_open d, mk_next_write_error = md_next_write_error d,
      mk_metrics = md_metrics d\<rparr>"

definition MemoryByteDuplex_Read ::
  "MemoryByteDuplex \<Rightarrow> bool \<Rightarrow> nat \<Rightarrow> MemoryByteDuplex \<times> ReadResult \<times> bytes" where
  "MemoryByteDuplex_Read d destination_is_null capacity =
     (let (s, r, bs) = MemoryByteSource_Read (md_source d) destination_is_null capacity in
      (d\<lparr>md_read_offset := ms_read_offset s, md_next_read_error := ms_next_read_error s,
         md_metrics := ms_metrics s\<rparr>, r, bs))"

definition MemoryByteDuplex_Write ::
  "MemoryByteDuplex \<Rightarrow> bytes option \<Rightarrow> nat \<Rightarrow> MemoryByteDuplex \<times> WriteResult" where
  "MemoryByteDuplex_Write d data count =
     (let (s, r) = MemoryByteSink_Write (md_sink d) data count in
      (d\<lparr>md_output := mk_output s, md_next_write_error := mk_next_write_error s,
         md_metrics := mk_metrics s\<rparr>, r))"

definition MemoryByteDuplex_Close :: "MemoryByteDuplex \<Rightarrow> MemoryByteDuplex" where
  "MemoryByteDuplex_Close d = d\<lparr>md_open := False\<rparr>"

definition MemoryByteDuplex_Reset :: "MemoryByteDuplex \<Rightarrow> bytes \<Rightarrow> MemoryByteDuplex" where
  "MemoryByteDuplex_Reset d input =
     \<lparr>md_input = input, md_output = [], md_read_offset = 0, md_open = True,
      md_next_read_error = TE_kNone, md_next_write_error = TE_kNone,
      md_metrics = TransportMetrics_default\<rparr>"

definition duplex_write :: "MemoryByteDuplex \<Rightarrow> bytes \<Rightarrow> MemoryByteDuplex \<times> WriteResult" where
  "duplex_write d bs = MemoryByteDuplex_Write d (Some bs) (length bs)"

interpretation duplex: byte_sink duplex_write md_output
  by unfold_locales
    (auto simp: duplex_write_def MemoryByteDuplex_Write_def MemoryByteSink_Write_def md_sink_def Let_def)

section \<open>Reading a source to its end\<close>

text \<open>Successive reads of the given capacities, and the bytes they deliver.\<close>

fun read_all :: "MemoryByteSource \<Rightarrow> nat list \<Rightarrow> MemoryByteSource \<times> bytes" where
  "read_all s [] = (s, [])"
| "read_all s (c # cs) =
     (let (s1, r, bs) = MemoryByteSource_Read s False c; (s2, rest) = read_all s1 cs
      in (s2, bs @ rest))"

definition ms_remaining :: "MemoryByteSource \<Rightarrow> bytes" where
  "ms_remaining s = drop (ms_read_offset s) (ms_input s)"

lemma Read_remaining:
  "snd (snd (MemoryByteSource_Read s n c)) @ ms_remaining (fst (MemoryByteSource_Read s n c))
     = ms_remaining s"
proof -
  have "take k (drop off xs) @ drop (off + k) xs = drop off xs" for k off and xs :: bytes
    by (metis append_take_drop_id drop_drop add.commute)
  then show ?thesis
    by (simp add: MemoryByteSource_Read_def ms_remaining_def bslice_def Let_def)
qed

lemma Read_count:
  "rr_bytes_read (fst (snd (MemoryByteSource_Read s n c))) = length (snd (snd (MemoryByteSource_Read s n c)))
   \<and> length (snd (snd (MemoryByteSource_Read s n c))) \<le> c"
  by (simp add: MemoryByteSource_Read_def bslice_def Let_def min_def)

lemma length_ms_remaining: "length (ms_remaining s) = MemoryByteSource_remaining_bytes s"
  by (simp add: ms_remaining_def MemoryByteSource_remaining_bytes_def)

lemma read_all_remaining:
  "snd (read_all s cs) @ ms_remaining (fst (read_all s cs)) = ms_remaining s"
  by (induction cs arbitrary: s) (auto simp: split_beta Let_def Read_remaining)

end
