(* ===== verification/Ring_Buffer.thy ===== *)
theory Ring_Buffer
  imports UG_Prelude
begin

text \<open>
  \<open>ByteRingBuffer<Capacity>\<close> of \<open>gnss_transport/include/universal_gnss_transport/ring_buffer.hpp\<close>: a circular
  byte queue over a fixed array, with a counter of rejected bytes.  Its contract is that of a bounded
  FIFO queue, stated as a locale over the abstraction to a list.
\<close>

section \<open>Model\<close>

record ByteRingBuffer =
  rb_storage :: bytes
  rb_head :: nat
  rb_tail :: nat
  rb_size :: nat
  rb_overflow_count :: u64

text \<open>The template parameter is the length of the array.\<close>

definition rb_capacity :: "ByteRingBuffer \<Rightarrow> nat" where
  "rb_capacity s = length (rb_storage s)"

definition rb_new :: "nat \<Rightarrow> ByteRingBuffer" where
  "rb_new capacity =
     \<lparr>rb_storage = replicate capacity 0, rb_head = 0, rb_tail = 0, rb_size = 0, rb_overflow_count = 0\<rparr>"

definition rb_empty :: "ByteRingBuffer \<Rightarrow> bool" where
  "rb_empty s = (rb_size s = 0)"

definition rb_full :: "ByteRingBuffer \<Rightarrow> bool" where
  "rb_full s = (rb_size s = rb_capacity s)"

definition rb_Push :: "ByteRingBuffer \<Rightarrow> u8 \<Rightarrow> ByteRingBuffer \<times> bool" where
  "rb_Push s byte =
     (if rb_full s then (s\<lparr>rb_overflow_count := rb_overflow_count s + 1\<rparr>, False)
      else (s\<lparr>rb_storage := (rb_storage s)[rb_tail s := byte],
              rb_tail := (rb_tail s + 1) mod rb_capacity s,
              rb_size := rb_size s + 1\<rparr>, True))"

text \<open>\<open>Push(data, count)\<close>; \<open>None\<close> is a null pointer.\<close>

fun rb_push_loop :: "ByteRingBuffer \<Rightarrow> bytes \<Rightarrow> nat \<Rightarrow> ByteRingBuffer \<times> nat" where
  "rb_push_loop s [] pushed = (s, pushed)"
| "rb_push_loop s (b # bs) pushed =
     (let (s1, ok) = rb_Push s b in rb_push_loop s1 bs (if ok then pushed + 1 else pushed))"

definition rb_PushMany :: "ByteRingBuffer \<Rightarrow> bytes option \<Rightarrow> nat \<Rightarrow> ByteRingBuffer \<times> nat" where
  "rb_PushMany s data count =
     (case data of None \<Rightarrow> (s, 0) | Some bs \<Rightarrow> rb_push_loop s (take count bs) 0)"

definition rb_Pop :: "ByteRingBuffer \<Rightarrow> ByteRingBuffer \<times> u8 option" where
  "rb_Pop s =
     (if rb_empty s then (s, None)
      else (s\<lparr>rb_head := (rb_head s + 1) mod rb_capacity s, rb_size := rb_size s - 1\<rparr>,
            Some (rb_storage s ! rb_head s)))"

text \<open>\<open>Pop(destination, max_count)\<close>: the bytes written to the destination.\<close>

fun rb_pop_loop :: "ByteRingBuffer \<Rightarrow> nat \<Rightarrow> ByteRingBuffer \<times> bytes" where
  "rb_pop_loop s 0 = (s, [])"
| "rb_pop_loop s (Suc n) =
     (case rb_Pop s of
        (s1, None) \<Rightarrow> (s1, [])
      | (s1, Some b) \<Rightarrow> (let (s2, bs) = rb_pop_loop s1 n in (s2, b # bs)))"

definition rb_PopMany :: "ByteRingBuffer \<Rightarrow> bool \<Rightarrow> nat \<Rightarrow> ByteRingBuffer \<times> bytes" where
  "rb_PopMany s destination_is_null max_count =
     (if destination_is_null then (s, []) else rb_pop_loop s max_count)"

definition rb_Clear :: "ByteRingBuffer \<Rightarrow> ByteRingBuffer" where
  "rb_Clear s = s\<lparr>rb_head := 0, rb_tail := 0, rb_size := 0, rb_overflow_count := 0\<rparr>"

section \<open>The queue it represents\<close>

definition rb_list :: "ByteRingBuffer \<Rightarrow> bytes" where
  "rb_list s = map (\<lambda>i. rb_storage s ! ((rb_head s + i) mod rb_capacity s)) [0..<rb_size s]"

definition rb_inv :: "ByteRingBuffer \<Rightarrow> bool" where
  "rb_inv s \<longleftrightarrow>
     0 < rb_capacity s \<and> rb_head s < rb_capacity s \<and> rb_size s \<le> rb_capacity s
     \<and> rb_tail s = (rb_head s + rb_size s) mod rb_capacity s"

text \<open>The calls of a client and what they answer.\<close>

datatype fifo_call = CallPush u8 | CallPushMany bytes | CallPop | CallPopMany nat | CallClear

datatype fifo_answer = Pushed bool | PushedCount nat | Popped "u8 option" | PoppedBytes bytes | Cleared

fun rb_call :: "fifo_call \<Rightarrow> ByteRingBuffer \<Rightarrow> ByteRingBuffer \<times> fifo_answer" where
  "rb_call (CallPush b) s = (let (s1, ok) = rb_Push s b in (s1, Pushed ok))"
| "rb_call (CallPushMany bs) s = (let (s1, count) = rb_PushMany s (Some bs) (length bs) in (s1, PushedCount count))"
| "rb_call CallPop s = (let (s1, b) = rb_Pop s in (s1, Popped b))"
| "rb_call (CallPopMany n) s = (let (s1, bs) = rb_PopMany s False n in (s1, PoppedBytes bs))"
| "rb_call CallClear s = (rb_Clear s, Cleared)"

text \<open>The specification: a queue of at most \<open>capacity\<close> bytes that refuses the others and counts them.  Every answer is
  determined.\<close>

fun queue_call :: "nat \<Rightarrow> fifo_call \<Rightarrow> bytes \<times> u64 \<Rightarrow> (bytes \<times> u64) \<times> fifo_answer" where
  "queue_call capacity (CallPush b) (q, refused) =
     (if length q < capacity then ((q @ [b], refused), Pushed True) else ((q, refused + 1), Pushed False))"
| "queue_call capacity (CallPushMany bs) (q, refused) =
     (let room = capacity - length q in
      ((q @ take room bs, refused + of_nat (length bs - room)), PushedCount (min room (length bs))))"
| "queue_call capacity CallPop (q, refused) =
     (case q of [] \<Rightarrow> (([], refused), Popped None) | b # bs \<Rightarrow> ((bs, refused), Popped (Some b)))"
| "queue_call capacity (CallPopMany n) (q, refused) = ((drop n q, refused), PoppedBytes (take n q))"
| "queue_call capacity CallClear (q, refused) = (([], 0), Cleared)"

fun run_calls :: "('op \<Rightarrow> 's \<Rightarrow> 's \<times> 'answer) \<Rightarrow> 's \<Rightarrow> 'op list \<Rightarrow> 's \<times> 'answer list" where
  "run_calls f s [] = (s, [])"
| "run_calls f s (op # ops) = (let (s1, answer) = f op s; (s2, answers) = run_calls f s1 ops in (s2, answer # answers))"

text \<open>The contract of a bounded queue: every call does to the queue represented what the specification does, and answers
  the same.\<close>

locale bounded_fifo =
  fixes call :: "fifo_call \<Rightarrow> 's \<Rightarrow> 's \<times> fifo_answer"
    and queue :: "'s \<Rightarrow> bytes"
    and refused :: "'s \<Rightarrow> u64"
    and cap :: "'s \<Rightarrow> nat"
    and invar :: "'s \<Rightarrow> bool"
  assumes call_invar: "invar s \<Longrightarrow> invar (fst (call op s)) \<and> cap (fst (call op s)) = cap s"
    and call_queue: "invar s \<Longrightarrow>
      queue_call (cap s) op (queue s, refused s)
        = ((queue (fst (call op s)), refused (fst (call op s))), snd (call op s))"
    and queue_bounded: "invar s \<Longrightarrow> length (queue s) \<le> cap s"

context bounded_fifo begin

lemma run_refines:
  "invar s \<Longrightarrow>
     run_calls (queue_call (cap s)) (queue s, refused s) ops
       = ((queue (fst (run_calls call s ops)), refused (fst (run_calls call s ops))), snd (run_calls call s ops))
     \<and> invar (fst (run_calls call s ops)) \<and> cap (fst (run_calls call s ops)) = cap s"
proof (induction ops arbitrary: s)
  case (Cons op ops)
  from call_invar [OF Cons.prems, of op] Cons.IH [of "fst (call op s)"] call_queue [OF Cons.prems, of op] show ?case
    by (simp add: split_beta Let_def)
qed simp

end

section \<open>The ring buffer is a bounded FIFO queue\<close>

lemma length_rb_list [simp]: "length (rb_list s) = rb_size s"
  by (simp add: rb_list_def)

lemma mod_below:
  "\<lbrakk>h < c; i \<le> c\<rbrakk> \<Longrightarrow> (h + i) mod c = (if h + i < c then h + i else h + i - (c :: nat))"
  by (auto simp: mod_if not_less)

lemma slot_distinct:
  "\<lbrakk>h < c; i < j; j < c\<rbrakk> \<Longrightarrow> (h + i) mod c \<noteq> (h + j) mod (c :: nat)"
  using mod_below [of h c i] mod_below [of h c j] by (auto split: if_splits)

lemma rb_inv_new: "0 < capacity \<Longrightarrow> rb_inv (rb_new capacity)"
  by (simp add: rb_inv_def rb_new_def rb_capacity_def)

lemma rb_list_new: "rb_list (rb_new capacity) = []"
  by (simp add: rb_list_def rb_new_def)

lemma rb_inv_Push: "rb_inv s \<Longrightarrow> rb_inv (fst (rb_Push s b)) \<and> rb_capacity (fst (rb_Push s b)) = rb_capacity s"
  by (auto simp: rb_Push_def rb_inv_def rb_full_def rb_capacity_def mod_Suc_eq)

lemma rb_list_Push:
  assumes "rb_inv s"
  shows "if length (rb_list s) < rb_capacity s
         then rb_list (fst (rb_Push s b)) = rb_list s @ [b] \<and> snd (rb_Push s b)
         else rb_list (fst (rb_Push s b)) = rb_list s \<and> \<not> snd (rb_Push s b)"
proof (cases "rb_size s < rb_capacity s")
  case True
  let ?c = "rb_capacity s"
  have old: "(rb_storage s)[rb_tail s := b] ! ((rb_head s + i) mod ?c) = rb_storage s ! ((rb_head s + i) mod ?c)"
    if "i < rb_size s" for i
    using assms that True slot_distinct [of "rb_head s" ?c i "rb_size s"] by (simp add: rb_inv_def)
  have new: "(rb_storage s)[rb_tail s := b] ! ((rb_head s + rb_size s) mod ?c) = b"
    using assms by (simp add: rb_inv_def rb_capacity_def)
  show ?thesis
    using True old new
    by (simp add: rb_Push_def rb_full_def, simp add: rb_list_def rb_capacity_def)
next
  case False
  with assms show ?thesis by (simp add: rb_Push_def rb_full_def rb_inv_def rb_list_def rb_capacity_def)
qed

lemma rb_inv_Pop: "rb_inv s \<Longrightarrow> rb_inv (fst (rb_Pop s)) \<and> rb_capacity (fst (rb_Pop s)) = rb_capacity s"
proof (cases "rb_size s")
  case (Suc n)
  then show "rb_inv s \<Longrightarrow> ?thesis"
    by (auto simp: rb_Pop_def rb_inv_def rb_empty_def rb_capacity_def mod_simps)
qed (simp add: rb_Pop_def rb_empty_def)

lemma map_upt_Suc: "map f [0..<Suc n] = f 0 # map (\<lambda>i. f (Suc i)) [0..<n]"
  by (simp add: upt_conv_Cons map_Suc_upt [symmetric] o_def del: upt_Suc)

lemma rb_list_Pop:
  assumes "rb_inv s"
  shows "case rb_list s of
           [] \<Rightarrow> snd (rb_Pop s) = None \<and> rb_list (fst (rb_Pop s)) = []
         | b # bs \<Rightarrow> snd (rb_Pop s) = Some b \<and> rb_list (fst (rb_Pop s)) = bs"
proof (cases "rb_size s")
  case 0
  then show ?thesis by (simp add: rb_Pop_def rb_empty_def rb_list_def)
next
  case (Suc n)
  let ?c = "rb_capacity s"
  have "((rb_head s + 1) mod ?c + i) mod ?c = (rb_head s + Suc i) mod ?c" for i
    by (simp add: mod_simps)
  moreover have "rb_head s mod ?c = rb_head s" using assms by (simp add: rb_inv_def)
  ultimately show ?thesis
    using Suc by (simp add: rb_Pop_def rb_empty_def rb_list_def map_upt_Suc rb_capacity_def del: upt_Suc)
qed

text \<open>The bulk operations are the iterated single ones.\<close>

lemma rb_push_loop_list:
  "rb_inv s \<Longrightarrow>
     rb_inv (fst (rb_push_loop s bs k))
     \<and> rb_capacity (fst (rb_push_loop s bs k)) = rb_capacity s
     \<and> rb_list (fst (rb_push_loop s bs k)) = rb_list s @ take (rb_capacity s - rb_size s) bs
     \<and> snd (rb_push_loop s bs k) = k + min (length bs) (rb_capacity s - rb_size s)
     \<and> rb_overflow_count (fst (rb_push_loop s bs k))
       = rb_overflow_count s + of_nat (length bs - (rb_capacity s - rb_size s))"
proof (induction bs arbitrary: s k)
  case Nil
  then show ?case by simp
next
  case (Cons b bs)
  let ?s1 = "fst (rb_Push s b)"
  note inv1 = rb_inv_Push [OF Cons.prems, of b]
  have size: "rb_size ?s1 = length (rb_list ?s1)" by simp
  show ?case
  proof (cases "rb_size s < rb_capacity s")
    case True
    then have grown: "rb_list ?s1 = rb_list s @ [b]" "snd (rb_Push s b)"
      using rb_list_Push [OF Cons.prems, of b] by simp_all
    moreover have "rb_overflow_count ?s1 = rb_overflow_count s" using True by (simp add: rb_Push_def rb_full_def)
    moreover from grown(1) have "rb_size ?s1 = Suc (rb_size s)" unfolding size by simp
    moreover obtain d where "rb_capacity s - rb_size s = Suc d" using True by (metis Suc_diff_Suc)
    moreover from this have "rb_capacity s - Suc (rb_size s) = d" by simp
    ultimately show ?thesis
      using Cons.IH [of ?s1 "Suc k"] inv1 by (simp add: split_beta Let_def)
  next
    case False
    then have grown: "rb_list ?s1 = rb_list s" "\<not> snd (rb_Push s b)"
      using rb_list_Push [OF Cons.prems, of b] by simp_all
    moreover have "rb_overflow_count ?s1 = rb_overflow_count s + 1"
      using False Cons.prems by (simp add: rb_Push_def rb_full_def rb_inv_def)
    moreover from grown(1) have "rb_size ?s1 = rb_size s" unfolding size by simp
    ultimately show ?thesis
      using Cons.IH [of ?s1 k] inv1 False by (simp add: split_beta Let_def)
  qed
qed

lemma rb_pop_loop_list:
  "rb_inv s \<Longrightarrow>
     snd (rb_pop_loop s n) = take n (rb_list s)
     \<and> rb_list (fst (rb_pop_loop s n)) = drop n (rb_list s)
     \<and> rb_inv (fst (rb_pop_loop s n)) \<and> rb_capacity (fst (rb_pop_loop s n)) = rb_capacity s
     \<and> rb_overflow_count (fst (rb_pop_loop s n)) = rb_overflow_count s"
proof (induction n arbitrary: s)
  case 0
  then show ?case by simp
next
  case (Suc n)
  obtain s1 r where pop: "rb_Pop s = (s1, r)" by fastforce
  have "rb_overflow_count s1 = rb_overflow_count s" using pop by (auto simp: rb_Pop_def split: if_splits)
  then show ?case
    using Suc.IH [of s1] rb_inv_Pop [OF Suc.prems] rb_list_Pop [OF Suc.prems] Suc.prems
    by (cases "rb_list s") (auto simp: pop Let_def split_beta)
qed

lemma rb_Clear_empty:
  "rb_inv s \<Longrightarrow> rb_inv (rb_Clear s) \<and> rb_capacity (rb_Clear s) = rb_capacity s \<and> rb_list (rb_Clear s) = []
     \<and> rb_overflow_count (rb_Clear s) = 0"
  by (simp add: rb_Clear_def rb_inv_def rb_capacity_def rb_list_def)

lemma rb_call_inv: "rb_inv s \<Longrightarrow> rb_inv (fst (rb_call op s)) \<and> rb_capacity (fst (rb_call op s)) = rb_capacity s"
  using rb_push_loop_list rb_pop_loop_list rb_inv_Push rb_inv_Pop rb_Clear_empty
  by (cases op) (simp_all add: split_beta Let_def rb_PushMany_def rb_PopMany_def)

lemma rb_call_queue:
  assumes "rb_inv s"
  shows "queue_call (rb_capacity s) op (rb_list s, rb_overflow_count s)
    = ((rb_list (fst (rb_call op s)), rb_overflow_count (fst (rb_call op s))), snd (rb_call op s))"
proof (cases op)
  case (CallPush b)
  have "rb_overflow_count (fst (rb_Push s b)) = (if rb_size s < rb_capacity s then rb_overflow_count s else rb_overflow_count s + 1)"
    using assms by (auto simp: rb_Push_def rb_full_def rb_inv_def)
  with CallPush rb_list_Push [OF assms, of b] show ?thesis by (simp add: split_beta Let_def split: if_splits)
next
  case (CallPushMany bs)
  with rb_push_loop_list [OF assms, of bs 0] show ?thesis
    by (simp add: rb_PushMany_def split_beta Let_def min.commute)
next
  case CallPop
  have "rb_overflow_count (fst (rb_Pop s)) = rb_overflow_count s" by (simp add: rb_Pop_def)
  with CallPop rb_list_Pop [OF assms] show ?thesis by (auto simp: split_beta Let_def split: list.splits)
next
  case (CallPopMany n)
  with rb_pop_loop_list [OF assms, of n] show ?thesis by (simp add: rb_PopMany_def split_beta Let_def)
next
  case CallClear
  with rb_Clear_empty [OF assms] show ?thesis by simp
qed

interpretation ring: bounded_fifo rb_call rb_list rb_overflow_count rb_capacity rb_inv
  by unfold_locales (rule rb_call_inv, assumption, rule rb_call_queue, assumption, simp add: rb_inv_def)

section \<open>Properties\<close>

text \<open>C27. A ring buffer of any positive capacity refines a bounded FIFO queue.  Whatever is called on a new buffer, in
  whatever order - single and bulk pushes and pops, and clearing - every answer is the one of the queue: a byte is
  accepted exactly when fewer than \<open>capacity\<close> are held, a pop returns the oldest byte and nothing only from an empty
  queue, and the bulk calls take and give exactly as many bytes as there is room for and held.  The buffer then holds
  the bytes of the queue, reports its size, its emptiness and its fullness, and has counted the bytes refused since the
  last clearing.\<close>

theorem ring_buffer_fifo:
  assumes "0 < capacity"
  shows "let (s, answers) = run_calls rb_call (rb_new capacity) ops;
             ((q, refused), expected) = run_calls (queue_call capacity) ([], 0) ops in
         answers = expected \<and> rb_list s = q \<and> rb_overflow_count s = refused
         \<and> rb_size s = length q \<and> rb_empty s = (q = []) \<and> rb_full s = (length q = capacity) \<and> length q \<le> capacity"
proof -
  let ?s = "fst (run_calls rb_call (rb_new capacity) ops)"
  have new: "rb_capacity (rb_new capacity) = capacity" "rb_overflow_count (rb_new capacity) = 0"
    by (simp_all add: rb_new_def rb_capacity_def)
  note run = ring.run_refines [OF rb_inv_new [OF assms], of ops, unfolded new rb_list_new]
  have "rb_empty ?s = (rb_list ?s = [])" "rb_full ?s = (length (rb_list ?s) = capacity)"
    using run by (simp_all add: rb_empty_def rb_full_def flip: length_0_conv)
  moreover have "length (rb_list ?s) \<le> capacity" using run ring.queue_bounded [of ?s] by simp
  ultimately show ?thesis using run by (simp add: split_beta Let_def)
qed

theorem ring_buffer_fifo_witness:
  "snd (run_calls rb_call (rb_new 2) [CallPush 1, CallPushMany [2, 3, 4], CallPop, CallPush 5, CallPopMany 3, CallPop])
   = [Pushed True, PushedCount 1, Popped (Some 1), Pushed True, PoppedBytes [2, 5], Popped None]"
  using ring_buffer_fifo [of 2 "[CallPush 1, CallPushMany [2, 3, 4], CallPop, CallPush 5, CallPopMany 3, CallPop]"]
  by (simp add: split_beta Let_def)

end
