(* ===== verification/Rtcm_Frame_Writer.thy ===== *)
theory Rtcm_Frame_Writer
  imports Transport
begin

text \<open>
  \<open>RtcmFrameWriter\<close> of \<open>gnss_transport/src/rtcm_frame_writer.cpp\<close>: a bounded FIFO of complete RTCM frames
  written to a sink that may accept any part of what it is offered.  The sink is a parameter
  (\<open>put\<close>, \<open>is_open\<close>); what the writer promises rests on the contract \<open>byte_sink\<close>.
\<close>

section \<open>Model\<close>

record WriterFrame =
  wf_data :: bytes
  wf_message_type :: u16

record PendingFrame =
  pf_frame :: WriterFrame
  pf_offset :: nat

datatype FlushResult = FR_kDrained | FR_kBlocked | FR_kFailed

record FlushOutcome =
  fo_result :: FlushResult
  fo_bytes_written :: nat
  fo_frames_written :: nat
  fo_last_message_type :: "u16 option"
  fo_status :: TransportStatus
  fo_error :: TransportError

definition FlushOutcome_default :: FlushOutcome where
  "FlushOutcome_default =
     \<lparr>fo_result = FR_kDrained, fo_bytes_written = 0, fo_frames_written = 0,
      fo_last_message_type = None, fo_status = TS_kOk, fo_error = TE_kNone\<rparr>"

lemma FlushOutcome_default_simps [simp]:
  "fo_result FlushOutcome_default = FR_kDrained" "fo_bytes_written FlushOutcome_default = 0"
  "fo_frames_written FlushOutcome_default = 0"
  by (simp_all add: FlushOutcome_default_def)

record RtcmFrameWriter =
  rw_capacity :: nat
  rw_pending :: "PendingFrame list"

definition writer_new :: "nat \<Rightarrow> RtcmFrameWriter" where
  "writer_new capacity = \<lparr>rw_capacity = capacity, rw_pending = []\<rparr>"

definition writer_Enqueue :: "RtcmFrameWriter \<Rightarrow> WriterFrame \<Rightarrow> RtcmFrameWriter \<times> bool" where
  "writer_Enqueue w frame =
     (if wf_data frame = [] \<or> length (rw_pending w) \<ge> rw_capacity w then (w, False)
      else (w\<lparr>rw_pending := rw_pending w @ [\<lparr>pf_frame = frame, pf_offset = 0\<rparr>]\<rparr>, True))"

definition writer_Abandon :: "RtcmFrameWriter \<Rightarrow> RtcmFrameWriter" where
  "writer_Abandon w = w\<lparr>rw_pending := []\<rparr>"

definition pf_remaining :: "PendingFrame \<Rightarrow> nat" where
  "pf_remaining p = length (wf_data (pf_frame p)) - pf_offset p"

text \<open>One iteration of the loop on the head of the queue: either the loop goes on with a shorter work list
  (\<open>Inl\<close>) or it returns (\<open>Inr\<close>, the queue it leaves and the outcome).\<close>

definition flush_step ::
  "('k \<Rightarrow> bytes \<Rightarrow> 'k \<times> WriteResult) \<Rightarrow> 'k \<Rightarrow> PendingFrame \<Rightarrow> PendingFrame list \<Rightarrow> FlushOutcome
     \<Rightarrow> 'k \<times> (PendingFrame list \<times> FlushOutcome, PendingFrame list \<times> FlushOutcome) sum" where
  "flush_step put k p rest outcome =
     (let remaining = pf_remaining p;
          (k1, w) = put k (drop (pf_offset p) (wf_data (pf_frame p)));
          accepted = min (wr_bytes_written w) remaining;
          p1 = p\<lparr>pf_offset := pf_offset p + accepted\<rparr>;
          o1 = outcome\<lparr>fo_bytes_written := fo_bytes_written outcome + accepted\<rparr> in
      if wr_bytes_written w > remaining \<or> wr_status w \<noteq> TS_kOk then
        (k1, Inr ([], o1\<lparr>fo_result := FR_kFailed, fo_status := wr_status w,
                        fo_error := (if wr_bytes_written w > remaining then TE_kWriteFailure
                                     else wr_error w)\<rparr>))
      else if pf_offset p1 = length (wf_data (pf_frame p1)) then
        (k1, Inl (rest, o1\<lparr>fo_last_message_type := Some (wf_message_type (pf_frame p1)),
                          fo_frames_written := fo_frames_written o1 + 1\<rparr>))
      else if accepted = 0 then (k1, Inr (p1 # rest, o1\<lparr>fo_result := FR_kBlocked\<rparr>))
      else (k1, Inl (p1 # rest, o1)))"

definition flush_measure :: "PendingFrame list \<Rightarrow> nat" where
  "flush_measure ps = sum_list (map (\<lambda>p. Suc (pf_remaining p)) ps)"

lemma flush_step_decreases:
  "flush_step put k p rest outcome = (k1, Inl (ps, o1)) \<Longrightarrow> flush_measure ps < flush_measure (p # rest)"
  by (auto simp: flush_step_def flush_measure_def pf_remaining_def Let_def split: prod.splits if_splits)

function flush_loop ::
  "('k \<Rightarrow> bytes \<Rightarrow> 'k \<times> WriteResult) \<Rightarrow> 'k \<Rightarrow> PendingFrame list \<Rightarrow> FlushOutcome
     \<Rightarrow> 'k \<times> PendingFrame list \<times> FlushOutcome" where
  "flush_loop put k [] outcome = (k, [], outcome)"
| "flush_loop put k (p # rest) outcome =
     (case flush_step put k p rest outcome of
        (k1, Inl (ps, o1)) \<Rightarrow> flush_loop put k1 ps o1
      | (k1, Inr (ps, o1)) \<Rightarrow> (k1, ps, o1))"
  by pat_completeness auto
termination
  by (relation "measure (\<lambda>(put, k, ps, outcome). flush_measure ps)")
    (auto dest: flush_step_decreases [OF sym])

definition writer_Flush ::
  "('k \<Rightarrow> bool) \<Rightarrow> ('k \<Rightarrow> bytes \<Rightarrow> 'k \<times> WriteResult) \<Rightarrow> 'k \<Rightarrow> RtcmFrameWriter
     \<Rightarrow> 'k \<times> RtcmFrameWriter \<times> FlushOutcome" where
  "writer_Flush is_open put k w =
     (if rw_pending w = [] then (k, w, FlushOutcome_default)
      else if \<not> is_open k then
        (k, writer_Abandon w,
         FlushOutcome_default\<lparr>fo_result := FR_kFailed, fo_status := TS_kClosed, fo_error := TE_kClosed\<rparr>)
      else
        let (k1, ps, outcome) = flush_loop put k (rw_pending w) FlushOutcome_default in
        (k1, w\<lparr>rw_pending := ps\<rparr>, outcome))"

section \<open>Invariant and conservation\<close>

definition pf_ok :: "PendingFrame \<Rightarrow> bool" where
  "pf_ok p \<longleftrightarrow> pf_offset p < length (wf_data (pf_frame p))"

text \<open>The queue never exceeds its capacity, and no queued frame is complete.\<close>

definition writer_inv :: "RtcmFrameWriter \<Rightarrow> bool" where
  "writer_inv w \<longleftrightarrow> length (rw_pending w) \<le> rw_capacity w \<and> list_all pf_ok (rw_pending w)"

definition pf_rest :: "PendingFrame \<Rightarrow> bytes" where
  "pf_rest p = drop (pf_offset p) (wf_data (pf_frame p))"

definition pending_bytes :: "PendingFrame list \<Rightarrow> bytes" where
  "pending_bytes ps = concat (map pf_rest ps)"

lemma length_pf_rest [simp]: "length (pf_rest p) = pf_remaining p"
  by (simp add: pf_rest_def pf_remaining_def)

lemma writer_inv_new: "writer_inv (writer_new c)"
  by (simp add: writer_inv_def writer_new_def)

lemma writer_inv_Enqueue: "writer_inv w \<Longrightarrow> writer_inv (fst (writer_Enqueue w f))"
  by (simp add: writer_inv_def writer_Enqueue_def pf_ok_def)

lemma pending_Enqueue:
  "pending_bytes (rw_pending (fst (writer_Enqueue w f)))
     = pending_bytes (rw_pending w) @ (if snd (writer_Enqueue w f) then wf_data f else [])"
  by (simp add: writer_Enqueue_def pending_bytes_def pf_rest_def)

context byte_sink begin

text \<open>What one iteration does: the bytes leave the front of the queue for the sink, none lost, unless the
  write failed.\<close>

lemma flush_step_conserves:
  assumes "list_all pf_ok (p # rest)"
  shows "case flush_step put k p rest outcome of
      (k1, Inl (ps, o1)) \<Rightarrow>
        sent k1 @ pending_bytes ps = sent k @ pending_bytes (p # rest) \<and> list_all pf_ok ps
        \<and> length ps \<le> length (p # rest)
        \<and> fo_bytes_written o1 + length (sent k) = fo_bytes_written outcome + length (sent k1)
        \<and> fo_result o1 = fo_result outcome \<and> fo_frames_written o1 + length ps = fo_frames_written outcome + length (p # rest)
    | (k1, Inr (ps, o1)) \<Rightarrow>
        (\<exists>lost. sent k1 @ pending_bytes ps @ lost = sent k @ pending_bytes (p # rest)
           \<and> (fo_result o1 = FR_kFailed \<and> ps = [] \<or> fo_result o1 = FR_kBlocked \<and> lost = []))
        \<and> list_all pf_ok ps \<and> length ps \<le> length (p # rest)
        \<and> fo_bytes_written o1 + length (sent k) = fo_bytes_written outcome + length (sent k1)
        \<and> (fo_result o1 = FR_kBlocked \<longrightarrow>
             fo_frames_written o1 + length ps = fo_frames_written outcome + length (p # rest))"
proof -
  obtain k1 w where put: "put k (pf_rest p) = (k1, w)" by fastforce
  let ?n = "wr_bytes_written w"
  have n: "?n \<le> pf_remaining p" using put_bound [of k "pf_rest p"] by (simp add: put)
  have k1: "sent k1 = sent k @ take ?n (pf_rest p)" using put_sent [of k "pf_rest p"] by (simp add: put)
  have rest: "pf_rest (p\<lparr>pf_offset := pf_offset p + ?n\<rparr>) = drop ?n (pf_rest p)"
    by (simp add: pf_rest_def add.commute)
  have split: "take ?n (pf_rest p) @ drop ?n (pf_rest p) @ xs = pf_rest p @ xs" for xs by simp
  have off: "pf_offset p + ?n \<le> length (wf_data (pf_frame p))"
    using n assms by (auto simp: pf_remaining_def pf_ok_def)
  have all: "?n = pf_remaining p" if "pf_offset p + ?n = length (wf_data (pf_frame p))"
    using that by (simp add: pf_remaining_def)
  show ?thesis
    using assms n k1 off all put [unfolded pf_rest_def]
    by (auto simp: flush_step_def Let_def min_absorb1 pending_bytes_def rest pf_ok_def
        intro!: exI [of _ "drop ?n (pf_rest p) @ concat (map pf_rest rest)"])
qed

lemma flush_loop_conserves:
  "list_all pf_ok ps \<Longrightarrow> fo_result outcome = FR_kDrained \<Longrightarrow>
   case flush_loop put k ps outcome of (k1, ps1, o1) \<Rightarrow>
     (\<exists>lost. sent k1 @ pending_bytes ps1 @ lost = sent k @ pending_bytes ps
        \<and> (fo_result o1 = FR_kFailed \<and> ps1 = [] \<or> fo_result o1 \<noteq> FR_kFailed \<and> lost = []))
     \<and> list_all pf_ok ps1 \<and> length ps1 \<le> length ps
     \<and> fo_bytes_written o1 + length (sent k) = fo_bytes_written outcome + length (sent k1)
     \<and> (fo_result o1 = FR_kDrained \<longrightarrow> ps1 = [])
     \<and> (fo_result o1 \<noteq> FR_kFailed \<longrightarrow>
          fo_frames_written o1 + length ps1 = fo_frames_written outcome + length ps)"
proof (induction "flush_measure ps" arbitrary: k ps outcome rule: less_induct)
  case less
  show ?case
  proof (cases ps)
    case Nil
    with less.prems show ?thesis by simp
  next
    case (Cons p rest)
    obtain k1 r where step: "flush_step put k p rest outcome = (k1, r)" by fastforce
    note one = flush_step_conserves [of p rest k outcome, unfolded step]
    show ?thesis
    proof (cases r)
      case (Inl a)
      obtain ps1 o1 where a: "a = (ps1, o1)" by fastforce
      with one less.prems Cons Inl step show ?thesis
        using less.hyps [of ps1 o1 k1] flush_step_decreases [of put k p rest outcome k1 ps1 o1]
        by (fastforce simp: split_beta)
    next
      case (Inr a)
      with one less.prems Cons step show ?thesis by (cases a) auto
    qed
  qed
qed

end


text \<open>A history of enqueues and flushes: the final sink and writer, the frames accepted and the outcomes.\<close>

datatype writer_op = WEnqueue WriterFrame | WFlush

fun writer_run ::
  "('k \<Rightarrow> bool) \<Rightarrow> ('k \<Rightarrow> bytes \<Rightarrow> 'k \<times> WriteResult) \<Rightarrow> 'k \<Rightarrow> RtcmFrameWriter \<Rightarrow> writer_op list
     \<Rightarrow> 'k \<times> RtcmFrameWriter \<times> WriterFrame list \<times> FlushOutcome list" where
  "writer_run is_open put k w [] = (k, w, [], [])"
| "writer_run is_open put k w (WEnqueue f # ops) =
     (let (w1, ok) = writer_Enqueue w f; (k2, w2, fs, os) = writer_run is_open put k w1 ops
      in (k2, w2, (if ok then [f] else []) @ fs, os))"
| "writer_run is_open put k w (WFlush # ops) =
     (let (k1, w1, o1) = writer_Flush is_open put k w; (k2, w2, fs, os) = writer_run is_open put k1 w1 ops
      in (k2, w2, fs, o1 # os))"

context byte_sink begin

lemma flush_conserves:
  assumes "writer_inv w"
  shows "case writer_Flush is_open put k w of (k1, w1, o1) \<Rightarrow>
     (\<exists>lost. sent k1 @ pending_bytes (rw_pending w1) @ lost = sent k @ pending_bytes (rw_pending w)
        \<and> (fo_result o1 = FR_kFailed \<and> rw_pending w1 = [] \<or> fo_result o1 \<noteq> FR_kFailed \<and> lost = []))
     \<and> writer_inv w1 \<and> rw_capacity w1 = rw_capacity w
     \<and> fo_bytes_written o1 + length (sent k) = length (sent k1)
     \<and> (fo_result o1 = FR_kDrained \<longrightarrow> rw_pending w1 = [])
     \<and> (fo_result o1 \<noteq> FR_kFailed \<longrightarrow> fo_frames_written o1 + length (rw_pending w1) = length (rw_pending w))"
proof -
  obtain k1 ps o1 where loop: "flush_loop put k (rw_pending w) FlushOutcome_default = (k1, ps, o1)"
    by (metis prod_cases3)
  have "list_all pf_ok (rw_pending w)" using assms by (simp add: writer_inv_def)
  note flushed = flush_loop_conserves [OF this, of FlushOutcome_default k, unfolded loop]
  consider "rw_pending w = []" | "rw_pending w \<noteq> []" "\<not> is_open k" | "rw_pending w \<noteq> []" "is_open k"
    by blast
  then show ?thesis
  proof cases
    case 3
    with flushed assms show ?thesis by (auto simp: writer_Flush_def loop writer_inv_def)
  qed (use assms in \<open>auto simp: writer_Flush_def writer_Abandon_def writer_inv_def pending_bytes_def\<close>)
qed

lemma run_conserves:
  "writer_inv w \<Longrightarrow>
   case writer_run is_open put k w ops of (k1, w1, fs, os) \<Rightarrow>
     list_all (\<lambda>o1. fo_result o1 \<noteq> FR_kFailed) os \<longrightarrow>
       sent k1 @ pending_bytes (rw_pending w1)
         = sent k @ pending_bytes (rw_pending w) @ concat (map wf_data fs)
       \<and> length (rw_pending w1) \<le> rw_capacity w"
proof (induction ops arbitrary: k w)
  case Nil
  then show ?case by (simp add: writer_inv_def)
next
  case (Cons op ops)
  show ?case
  proof (cases op)
    case (WEnqueue f)
    have "rw_capacity (fst (writer_Enqueue w f)) = rw_capacity w" by (simp add: writer_Enqueue_def)
    then show ?thesis
      using Cons.IH [of "fst (writer_Enqueue w f)" k] writer_inv_Enqueue [OF Cons.prems, of f]
        pending_Enqueue [of w f]
      by (auto simp: WEnqueue split_beta)
  next
    case WFlush
    obtain k1 w1 o1 where f: "writer_Flush is_open put k w = (k1, w1, o1)" by (metis prod_cases3)
    show ?thesis
      using Cons.IH [of w1 k1] flush_conserves [OF Cons.prems, where is_open = is_open and k = k]
      by (auto simp: WFlush f split_beta)
  qed
qed

end

section \<open>Properties\<close>

text \<open>C24. Over any sink that accepts prefixes of what it is offered, and any history of enqueues and flushes
  none of which failed, what has left the sink followed by what the writer still holds is the concatenation
  of the accepted frames, whole and in order; and the writer never holds more frames than its capacity.\<close>

theorem writer_stream_is_frames:
  assumes "byte_sink put sent" and "sent k = []"
    and "writer_run is_open put k (writer_new c) ops = (k1, w1, fs, os)"
    and "list_all (\<lambda>o1. fo_result o1 \<noteq> FR_kFailed) os"
  shows "sent k1 @ pending_bytes (rw_pending w1) = concat (map wf_data fs)
       \<and> length (rw_pending w1) \<le> c"
  using byte_sink.run_conserves [OF assms(1) writer_inv_new [of c], where is_open = is_open and k = k and ops = ops] assms(2-4)
  by (simp add: writer_new_def pending_bytes_def)

theorem writer_stream_is_frames_witness:
  "\<exists>k1 w1 fs os. writer_run mk_open mem_write MemoryByteSink_new (writer_new 2)
       [WEnqueue \<lparr>wf_data = [1, 2], wf_message_type = 5\<rparr>, WFlush,
        WEnqueue \<lparr>wf_data = [3], wf_message_type = 6\<rparr>] = (k1, w1, fs, os)
     \<and> mk_output k1 @ pending_bytes (rw_pending w1) = concat (map wf_data fs)
     \<and> mk_output k1 = [1, 2]"
proof -
  let ?r = "writer_run mk_open mem_write MemoryByteSink_new (writer_new 2)
       [WEnqueue \<lparr>wf_data = [1, 2], wf_message_type = 5\<rparr>, WFlush,
        WEnqueue \<lparr>wf_data = [3], wf_message_type = 6\<rparr>]"
  obtain k1 w1 fs os where r: "?r = (k1, w1, fs, os)" by (metis prod_cases4)
  have "mk_output (fst ?r) = [1, 2]" by code_simp
  moreover have "list_all (\<lambda>o1. fo_result o1 \<noteq> FR_kFailed) (snd (snd (snd ?r)))" by code_simp
  moreover have "mk_output MemoryByteSink_new = []" by (simp add: MemoryByteSink_new_def)
  ultimately show ?thesis
    using writer_stream_is_frames [OF mem.byte_sink_axioms _ r] r by auto
qed

text \<open>A flush, from any state with the invariant and over any such sink, returns; it reports exactly the
  bytes that left and the frames that completed; on failure it abandons everything queued, having sent a
  prefix of it; otherwise nothing is lost, and the result \<open>kDrained\<close> means the queue is empty.\<close>

lemma writer_flush_outcome:
  assumes "byte_sink put sent" and "writer_inv w"
    and "writer_Flush is_open put k w = (k1, w1, o1)"
  shows "(\<exists>lost. sent k1 @ pending_bytes (rw_pending w1) @ lost = sent k @ pending_bytes (rw_pending w)
            \<and> (lost \<noteq> [] \<longrightarrow> fo_result o1 = FR_kFailed))
       \<and> (fo_result o1 = FR_kFailed \<longrightarrow> rw_pending w1 = [])
       \<and> (fo_result o1 = FR_kDrained \<longrightarrow> rw_pending w1 = [])
       \<and> writer_inv w1
       \<and> fo_bytes_written o1 + length (sent k) = length (sent k1)
       \<and> (fo_result o1 \<noteq> FR_kFailed \<longrightarrow>
            fo_frames_written o1 + length (rw_pending w1) = length (rw_pending w))"
  using byte_sink.flush_conserves [OF assms(1,2), where is_open = is_open and k = k] assms(3) by auto

theorem writer_flush_outcome_witness:
  "fo_bytes_written (snd (snd (writer_Flush mk_open mem_write MemoryByteSink_new
     (fst (writer_Enqueue (writer_new 2) \<lparr>wf_data = [1, 2], wf_message_type = 5\<rparr>))))) = 2"
proof -
  let ?w = "fst (writer_Enqueue (writer_new 2) \<lparr>wf_data = [1, 2], wf_message_type = 5\<rparr>)"
  obtain k1 w1 o1 where f: "writer_Flush mk_open mem_write MemoryByteSink_new ?w = (k1, w1, o1)"
    by (metis prod_cases3)
  have "writer_inv ?w" by (rule writer_inv_Enqueue) (rule writer_inv_new)
  from writer_flush_outcome [OF mem.byte_sink_axioms this f]
  have "fo_bytes_written o1 + length (mk_output MemoryByteSink_new) = length (mk_output k1)" by blast
  moreover have "mk_output (fst (writer_Flush mk_open mem_write MemoryByteSink_new ?w)) = [1, 2]"
    by code_simp
  ultimately show ?thesis unfolding f by (simp add: MemoryByteSink_new_def)
qed

end
