(* ===== verification/Receiver_Command.thy ===== *)
theory Receiver_Command
  imports Protocol_Records Cxx_Text
begin

text \<open>
  Commands to a receiver, the responses to them and the transaction that ties one to the other
  (\<open>receiver_command.hpp\<close>, \<open>receiver_command_response.hpp\<close>, \<open>receiver_command_transaction.hpp\<close> of
  \<open>gnss_driver\<close>), and the mapping between UBX frames and commands
  (\<open>ubx_command_response_mapper.cpp\<close>).
\<close>

section \<open>Commands\<close>

datatype ReceiverVendor = RV_kUnknown | RV_kGeneric | RV_kUblox | RV_kUnicore | RV_kQuectel

datatype ReceiverCommandKind =
    CK_kUnknown | CK_kApplyConfigProfile | CK_kSetProtocolOutputs | CK_kQuery | CK_kRawBinary
  | CK_kRawText | CK_kReset

datatype ReceiverCommandPayloadKind = PK_kNone | PK_kBinary | PK_kText

datatype ReceiverResponseKind =
    RK_kNone | RK_kAck | RK_kNack | RK_kBinaryPayload | RK_kTextPayload | RK_kStateUpdate

datatype ReceiverCommandSafetyLevel = SL_kRuntime | SL_kPersistent | SL_kFactoryReset

datatype ReceiverCommandFailurePolicy = FP_kAbortOnFailure | FP_kContinueOnFailure

record ReceiverTargetSelector =
  rts_vendor :: ReceiverVendor
  rts_family :: string
  rts_model :: string
  rts_profile_id :: string

record ReceiverCommandRetryPolicy =
  rp_timeout_ms :: u32
  rp_max_retries :: u8

record ReceiverCommandPayload =
  rcp_kind :: ReceiverCommandPayloadKind
  rcp_binary :: bytes
  rcp_text :: string

record ReceiverCommand =
  rc_kind :: ReceiverCommandKind
  rc_target :: ReceiverTargetSelector
  rc_expected_response :: ReceiverResponseKind
  rc_retry_policy :: ReceiverCommandRetryPolicy
  rc_safety_level :: ReceiverCommandSafetyLevel
  rc_failure_policy :: ReceiverCommandFailurePolicy
  rc_explicit_safety_confirmation :: bool
  rc_payload :: ReceiverCommandPayload

definition ReceiverCommandPayload_default :: ReceiverCommandPayload where
  "ReceiverCommandPayload_default = \<lparr>rcp_kind = PK_kNone, rcp_binary = [], rcp_text = []\<rparr>"

definition ReceiverCommand_default :: ReceiverCommand where
  "ReceiverCommand_default =
     \<lparr>rc_kind = CK_kUnknown,
      rc_target = \<lparr>rts_vendor = RV_kUnknown, rts_family = [], rts_model = [], rts_profile_id = []\<rparr>,
      rc_expected_response = RK_kAck,
      rc_retry_policy = \<lparr>rp_timeout_ms = 500, rp_max_retries = 0\<rparr>,
      rc_safety_level = SL_kRuntime, rc_failure_policy = FP_kAbortOnFailure,
      rc_explicit_safety_confirmation = False, rc_payload = ReceiverCommandPayload_default\<rparr>"

definition RequiresExplicitSafetyConfirmation :: "ReceiverCommandSafetyLevel \<Rightarrow> bool" where
  "RequiresExplicitSafetyConfirmation safety_level \<longleftrightarrow>
     safety_level = SL_kPersistent \<or> safety_level = SL_kFactoryReset"

definition HasSafeDispatchApproval :: "ReceiverCommand \<Rightarrow> bool" where
  "HasSafeDispatchApproval command \<longleftrightarrow>
     \<not> RequiresExplicitSafetyConfirmation (rc_safety_level command)
     \<or> rc_explicit_safety_confirmation command"

definition IsRequiredCommand :: "ReceiverCommand \<Rightarrow> bool" where
  "IsRequiredCommand command \<longleftrightarrow> rc_failure_policy command = FP_kAbortOnFailure"

definition SetBinaryPayload :: "ReceiverCommand \<Rightarrow> bytes \<Rightarrow> ReceiverCommand" where
  "SetBinaryPayload command payload =
     command\<lparr>rc_payload := \<lparr>rcp_kind = PK_kBinary, rcp_binary = payload, rcp_text = []\<rparr>\<rparr>"

definition SetTextPayload :: "ReceiverCommand \<Rightarrow> string \<Rightarrow> ReceiverCommand" where
  "SetTextPayload command payload =
     command\<lparr>rc_payload := \<lparr>rcp_kind = PK_kText, rcp_binary = [], rcp_text = payload\<rparr>\<rparr>"

definition ClearPayload :: "ReceiverCommand \<Rightarrow> ReceiverCommand" where
  "ClearPayload command = command\<lparr>rc_payload := ReceiverCommandPayload_default\<rparr>"

section \<open>Responses\<close>

datatype ReceiverCommandResponseKind =
    CR_kNone | CR_kAck | CR_kNak | CR_kTextOk | CR_kTextError | CR_kTimeout

record ReceiverCommandResponse =
  rsp_kind :: ReceiverCommandResponseKind
  rsp_timestamp_ns :: "timestamp_ns option"
  rsp_capture_generation :: "u64 option"
  rsp_message :: string

definition ReceiverCommandResponse_default :: ReceiverCommandResponse where
  "ReceiverCommandResponse_default =
     \<lparr>rsp_kind = CR_kNone, rsp_timestamp_ns = None, rsp_capture_generation = None, rsp_message = []\<rparr>"

definition IsPositiveReceiverCommandResponseKind :: "ReceiverCommandResponseKind \<Rightarrow> bool" where
  "IsPositiveReceiverCommandResponseKind kind \<longleftrightarrow> kind = CR_kAck \<or> kind = CR_kTextOk"

definition IsNegativeReceiverCommandResponseKind :: "ReceiverCommandResponseKind \<Rightarrow> bool" where
  "IsNegativeReceiverCommandResponseKind kind \<longleftrightarrow>
     kind = CR_kNak \<or> kind = CR_kTextError \<or> kind = CR_kTimeout"

section \<open>Transactions\<close>

datatype ReceiverCommandTransactionState =
    XS_kPending | XS_kSent | XS_kAcknowledged | XS_kRejected | XS_kTimedOut | XS_kFailed

record ReceiverCommandTransaction =
  tx_transaction_id :: u64
  tx_command :: ReceiverCommand
  tx_state :: ReceiverCommandTransactionState
  tx_response :: ReceiverCommandResponse
  tx_created_timestamp_ns :: "timestamp_ns option"
  tx_sent_timestamp_ns :: "timestamp_ns option"
  tx_completed_timestamp_ns :: "timestamp_ns option"
  tx_attempt_count :: u32

definition mark_sent ::
  "ReceiverCommandTransaction \<Rightarrow> timestamp_ns option \<Rightarrow> ReceiverCommandTransaction" where
  "mark_sent t timestamp_ns =
     t\<lparr>tx_state := XS_kSent, tx_attempt_count := tx_attempt_count t + 1,
       tx_sent_timestamp_ns := timestamp_ns, tx_completed_timestamp_ns := None,
       tx_response := ReceiverCommandResponse_default\<rparr>"

definition mark_ack ::
  "ReceiverCommandTransaction \<Rightarrow> timestamp_ns option \<Rightarrow> ReceiverCommandResponseKind
     \<Rightarrow> ReceiverCommandTransaction" where
  "mark_ack t timestamp_ns response_kind =
     t\<lparr>tx_state := XS_kAcknowledged,
       tx_response := (tx_response t)
         \<lparr>rsp_kind := (if IsPositiveReceiverCommandResponseKind response_kind then response_kind else CR_kAck),
          rsp_timestamp_ns := timestamp_ns\<rparr>,
       tx_completed_timestamp_ns := timestamp_ns\<rparr>"

definition mark_nak ::
  "ReceiverCommandTransaction \<Rightarrow> timestamp_ns option \<Rightarrow> ReceiverCommandResponseKind
     \<Rightarrow> ReceiverCommandTransaction" where
  "mark_nak t timestamp_ns response_kind =
     t\<lparr>tx_state := XS_kRejected,
       tx_response := (tx_response t)
         \<lparr>rsp_kind := (if response_kind = CR_kTextError then CR_kTextError else CR_kNak),
          rsp_timestamp_ns := timestamp_ns\<rparr>,
       tx_completed_timestamp_ns := timestamp_ns\<rparr>"

definition mark_timeout ::
  "ReceiverCommandTransaction \<Rightarrow> timestamp_ns option \<Rightarrow> ReceiverCommandTransaction" where
  "mark_timeout t timestamp_ns =
     t\<lparr>tx_state := XS_kTimedOut,
       tx_response := (tx_response t)\<lparr>rsp_kind := CR_kTimeout, rsp_timestamp_ns := timestamp_ns\<rparr>,
       tx_completed_timestamp_ns := timestamp_ns\<rparr>"

definition can_retry :: "ReceiverCommandTransaction \<Rightarrow> bool" where
  "can_retry t =
     (if tx_state t \<noteq> XS_kTimedOut \<and> tx_state t \<noteq> XS_kFailed then False
      else 0 < tx_attempt_count t
           \<and> tx_attempt_count t \<le> ucast (rp_max_retries (rc_retry_policy (tx_command t))))"

definition reset_for_retry :: "ReceiverCommandTransaction \<Rightarrow> ReceiverCommandTransaction" where
  "reset_for_retry t =
     (if \<not> can_retry t then t
      else t\<lparr>tx_state := XS_kPending, tx_response := ReceiverCommandResponse_default,
             tx_sent_timestamp_ns := None, tx_completed_timestamp_ns := None\<rparr>)"

definition IsReceiverCommandTransactionTerminal :: "ReceiverCommandTransactionState \<Rightarrow> bool" where
  "IsReceiverCommandTransactionTerminal state \<longleftrightarrow>
     state = XS_kAcknowledged \<or> state = XS_kRejected \<or> state = XS_kTimedOut \<or> state = XS_kFailed"

lemma tx_mark_simps [simp]:
  "tx_state (mark_sent t ts) = XS_kSent" "tx_command (mark_sent t ts) = tx_command t"
  "tx_state (mark_ack t ts k) = XS_kAcknowledged" "tx_command (mark_ack t ts k) = tx_command t"
  "tx_state (mark_nak t ts k) = XS_kRejected" "tx_command (mark_nak t ts k) = tx_command t"
  "tx_state (mark_timeout t ts) = XS_kTimedOut" "tx_command (mark_timeout t ts) = tx_command t"
  "tx_sent_timestamp_ns (mark_sent t ts) = ts"
  by (simp_all add: mark_sent_def mark_ack_def mark_nak_def mark_timeout_def)

section \<open>UBX commands and acknowledgements\<close>

record UbxMessageIdentity =
  umi_class_id :: u8
  umi_message_id :: u8

datatype UbxAckMessageKind = UA_kNak | UA_kAck

record UbxAckRecord =
  uar_timestamp_ns :: "timestamp_ns option"
  uar_kind :: UbxAckMessageKind
  uar_target_class_id :: u8
  uar_target_message_id :: u8

definition kHexDigits :: string where
  "kHexDigits = ''0123456789ABCDEF''"

definition HexByte :: "u8 \<Rightarrow> string" where
  "HexByte value =
     ''0x'' @ [kHexDigits ! unat (drop_bit 4 value AND 0x0F), kHexDigits ! unat (value AND 0x0F)]"

definition BuildAckMessage :: "UbxAckRecord \<Rightarrow> string" where
  "BuildAckMessage r =
     (if uar_kind r = UA_kAck then ''UBX ACK-ACK for '' else ''UBX ACK-NAK for '')
     @ HexByte (uar_target_class_id r) @ ''/'' @ HexByte (uar_target_message_id r)"

definition TryGetUbxCommandMessageIdentity :: "ReceiverCommand \<Rightarrow> UbxMessageIdentity option" where
  "TryGetUbxCommandMessageIdentity command =
     (if rcp_kind (rc_payload command) \<noteq> PK_kBinary then None
      else
        let bs = rcp_binary (rc_payload command) in
        if length bs < 8 \<or> bs ! 0 \<noteq> 0xB5 \<or> bs ! 1 \<noteq> 0x62 then None
        else if length bs \<noteq> 8 + le16_size (bs ! 4) (bs ! 5) then None
        else Some \<lparr>umi_class_id = bs ! 2, umi_message_id = bs ! 3\<rparr>)"

definition MapUbxAckRecordToReceiverCommandResponse :: "UbxAckRecord \<Rightarrow> ReceiverCommandResponse" where
  "MapUbxAckRecordToReceiverCommandResponse r =
     ReceiverCommandResponse_default
       \<lparr>rsp_kind := (if uar_kind r = UA_kAck then CR_kAck else CR_kNak),
        rsp_timestamp_ns := uar_timestamp_ns r, rsp_message := BuildAckMessage r\<rparr>"

definition DoesUbxAckRecordMatchCommand :: "UbxAckRecord \<Rightarrow> ReceiverCommand \<Rightarrow> bool" where
  "DoesUbxAckRecordMatchCommand r command =
     (case TryGetUbxCommandMessageIdentity command of
        None \<Rightarrow> False
      | Some identity \<Rightarrow>
          umi_class_id identity = uar_target_class_id r
          \<and> umi_message_id identity = uar_target_message_id r)"

end
