(* ===== verification/Command_Dispatcher.thy ===== *)
theory Command_Dispatcher
  imports Receiver_Command Transport
begin

text \<open>
  \<open>ReceiverCommandDispatcher\<close> of \<open>gnss_driver/src/receiver_command_dispatcher.cpp\<close>: the safety gate and the
  loop that writes a command's payload to the sink until all of it is taken, an error is reported or a
  write makes no progress.  The sink is the parameter \<open>put\<close>.
\<close>

section \<open>Model\<close>

datatype DispatchStatus = DS_kSent | DS_kRejectedSafety | DS_kRejectedInvalid | DS_kWriteError

record DispatchResult =
  dr_status :: DispatchStatus
  dr_bytes_written :: nat
  dr_transport_status :: TransportStatus
  dr_transport_error :: TransportError
  dr_error_message :: string

definition DispatchResult_default :: DispatchResult where
  "DispatchResult_default =
     \<lparr>dr_status = DS_kRejectedInvalid, dr_bytes_written = 0, dr_transport_status = TS_kOk,
      dr_transport_error = TE_kNone, dr_error_message = []\<rparr>"

record DispatcherMetrics =
  dm_commands_attempted :: u64
  dm_commands_sent :: u64
  dm_commands_rejected_safety :: u64
  dm_commands_rejected_invalid :: u64
  dm_bytes_written :: u64
  dm_write_errors :: u64

definition DispatcherMetrics_default :: DispatcherMetrics where
  "DispatcherMetrics_default =
     \<lparr>dm_commands_attempted = 0, dm_commands_sent = 0, dm_commands_rejected_safety = 0,
      dm_commands_rejected_invalid = 0, dm_bytes_written = 0, dm_write_errors = 0\<rparr>"

record ReceiverCommandDispatcher =
  rcd_allow_empty_payload_dispatch :: bool
  rcd_metrics :: DispatcherMetrics

definition dispatcher_new :: "bool \<Rightarrow> ReceiverCommandDispatcher" where
  "dispatcher_new allow_empty =
     \<lparr>rcd_allow_empty_payload_dispatch = allow_empty, rcd_metrics = DispatcherMetrics_default\<rparr>"

definition GetPayloadView :: "ReceiverCommandPayload \<Rightarrow> bytes" where
  "GetPayloadView payload =
     (case rcp_kind payload of
        PK_kNone \<Rightarrow> []
      | PK_kBinary \<Rightarrow> rcp_binary payload
      | PK_kText \<Rightarrow> bytes_of (rcp_text payload))"

definition MakeRejectedResult :: "DispatchStatus \<Rightarrow> string \<Rightarrow> DispatchResult" where
  "MakeRejectedResult status message =
     DispatchResult_default\<lparr>dr_status := status, dr_error_message := message\<rparr>"

text \<open>The write loop; \<open>rest\<close> is the payload from \<open>offset\<close> on.\<close>

function write_loop ::
  "('k \<Rightarrow> bytes \<Rightarrow> 'k \<times> WriteResult) \<Rightarrow> 'k \<Rightarrow> bytes \<Rightarrow> DispatchResult \<Rightarrow> 'k \<times> DispatchResult" where
  "write_loop put k rest r =
     (if rest = [] then (k, r)
      else
        let kw = put k rest; w = snd kw;
            r1 = r\<lparr>dr_transport_status := wr_status w, dr_transport_error := wr_error w,
                   dr_bytes_written := dr_bytes_written r + wr_bytes_written w\<rparr> in
        if wr_status w \<noteq> TS_kOk then
          (fst kw, r1\<lparr>dr_status := DS_kWriteError, dr_error_message := ''transport write failed''\<rparr>)
        else if wr_bytes_written w = 0 then
          (fst kw, r1\<lparr>dr_status := DS_kWriteError, dr_transport_status := TS_kError,
                      dr_transport_error := TE_kWriteFailure,
                      dr_error_message := ''transport write made no progress''\<rparr>)
        else write_loop put (fst kw) (drop (wr_bytes_written w) rest) r1)"
  by pat_completeness auto
termination
  by (relation "measure (\<lambda>(put, k, rest, r). length rest)") (auto simp: Let_def)

declare write_loop.simps [simp del]

definition Dispatch ::
  "('k \<Rightarrow> bytes \<Rightarrow> 'k \<times> WriteResult) \<Rightarrow> 'k \<Rightarrow> ReceiverCommandDispatcher \<Rightarrow> ReceiverCommand
     \<Rightarrow> 'k \<times> ReceiverCommandDispatcher \<times> DispatchResult" where
  "Dispatch put k d command =
     (let m = (rcd_metrics d)\<lparr>dm_commands_attempted := dm_commands_attempted (rcd_metrics d) + 1\<rparr> in
      if rc_kind command = CK_kUnknown then
        (k, d\<lparr>rcd_metrics := m\<lparr>dm_commands_rejected_invalid := dm_commands_rejected_invalid m + 1\<rparr>\<rparr>,
         MakeRejectedResult DS_kRejectedInvalid ''receiver command kind must be set before dispatch'')
      else if \<not> HasSafeDispatchApproval command then
        (k, d\<lparr>rcd_metrics := m\<lparr>dm_commands_rejected_safety := dm_commands_rejected_safety m + 1\<rparr>\<rparr>,
         MakeRejectedResult DS_kRejectedSafety ''receiver command requires explicit safety confirmation'')
      else
        let payload = GetPayloadView (rc_payload command) in
        if payload = [] \<and> \<not> rcd_allow_empty_payload_dispatch d then
          (k, d\<lparr>rcd_metrics := m\<lparr>dm_commands_rejected_invalid := dm_commands_rejected_invalid m + 1\<rparr>\<rparr>,
           MakeRejectedResult DS_kRejectedInvalid ''receiver command payload is empty'')
        else
          let (k1, r) = write_loop put k payload (DispatchResult_default\<lparr>dr_status := DS_kSent\<rparr>);
              m1 = m\<lparr>dm_bytes_written := dm_bytes_written m + word_of_nat (dr_bytes_written r)\<rparr> in
          if dr_status r = DS_kWriteError then
            (k1, d\<lparr>rcd_metrics := m1\<lparr>dm_write_errors := dm_write_errors m1 + 1\<rparr>\<rparr>, r)
          else
            (k1, d\<lparr>rcd_metrics := m1\<lparr>dm_commands_sent := dm_commands_sent m1 + 1\<rparr>\<rparr>,
             r\<lparr>dr_error_message := []\<rparr>))"

definition dispatcher_ResetMetrics :: "ReceiverCommandDispatcher \<Rightarrow> ReceiverCommandDispatcher" where
  "dispatcher_ResetMetrics d = d\<lparr>rcd_metrics := DispatcherMetrics_default\<rparr>"

section \<open>Lemmas\<close>

lemma write_loop_status:
  "dr_status r = DS_kSent \<Longrightarrow>
     dr_status (snd (write_loop put k rest r)) = DS_kSent
     \<or> dr_status (snd (write_loop put k rest r)) = DS_kWriteError"
proof (induction put k rest r rule: write_loop.induct)
  case (1 put k rest r)
  then show ?case by (subst (1 2) write_loop.simps) (simp add: Let_def)
qed

lemma write_loop_Nil [simp]: "write_loop put k [] r = (k, r)"
  by (simp add: write_loop.simps)

context byte_sink begin

lemma write_loop_sent:
  "dr_status r = DS_kSent \<Longrightarrow>
     \<exists>n. dr_bytes_written (snd (write_loop put k rest r)) = dr_bytes_written r + n
       \<and> n \<le> length rest
       \<and> sent (fst (write_loop put k rest r)) = sent k @ take n rest
       \<and> (dr_status (snd (write_loop put k rest r)) = DS_kSent \<longrightarrow> n = length rest)"
proof (induction "length rest" arbitrary: k rest r rule: less_induct)
  case less
  let ?w = "snd (put k rest)" and ?k1 = "fst (put k rest)"
  let ?n = "wr_bytes_written ?w"
  let ?r1 = "r\<lparr>dr_transport_status := wr_status ?w, dr_transport_error := wr_error ?w,
                   dr_bytes_written := dr_bytes_written r + ?n\<rparr>"
  have step: "?n \<le> length rest" "sent ?k1 = sent k @ take ?n rest"
    using put_bound put_sent by blast+
  consider "rest = []" | "rest \<noteq> []" "wr_status ?w \<noteq> TS_kOk" | "rest \<noteq> []" "wr_status ?w = TS_kOk" "?n = 0"
    | "rest \<noteq> []" "wr_status ?w = TS_kOk" "?n \<noteq> 0" by blast
  then show ?case
  proof cases
    case 4
    then have loop: "write_loop put k rest r = write_loop put ?k1 (drop ?n rest) ?r1"
      by (simp add: write_loop.simps [of put k rest] Let_def)
    have "length (drop ?n rest) < length rest" "dr_status ?r1 = DS_kSent" using 4 less.prems by auto
    from less.hyps [OF this] obtain n where n:
      "dr_bytes_written (snd (write_loop put ?k1 (drop ?n rest) ?r1)) = dr_bytes_written ?r1 + n"
      "n \<le> length (drop ?n rest)"
      "sent (fst (write_loop put ?k1 (drop ?n rest) ?r1)) = sent ?k1 @ take n (drop ?n rest)"
      "dr_status (snd (write_loop put ?k1 (drop ?n rest) ?r1)) = DS_kSent \<longrightarrow> n = length (drop ?n rest)"
      by blast
    moreover have "take (?n + n) rest = take ?n rest @ take n (drop ?n rest)" by (rule take_add)
    ultimately show ?thesis
      using step by (intro exI [of _ "?n + n"]) (auto simp: loop)
  qed (use step less.prems in \<open>auto simp: write_loop.simps [of put k rest] Let_def\<close>)
qed

lemma Dispatch_sent:
  "let (k1, d1, r) = Dispatch put k d command; payload = GetPayloadView (rc_payload command) in
     dr_bytes_written r \<le> length payload \<and> sent k1 = sent k @ take (dr_bytes_written r) payload
     \<and> (dr_status r = DS_kSent \<longrightarrow> dr_bytes_written r = length payload)"
proof -
  let ?payload = "GetPayloadView (rc_payload command)"
  let ?r0 = "DispatchResult_default\<lparr>dr_status := DS_kSent\<rparr>"
  have "dr_status ?r0 = DS_kSent" "dr_bytes_written ?r0 = 0" by (simp_all add: DispatchResult_default_def)
  with write_loop_sent [of ?r0 k ?payload] write_loop_status [of ?r0 put k ?payload] show ?thesis
    by (auto simp: Dispatch_def MakeRejectedResult_def DispatchResult_default_def Let_def split_beta)
qed

end

lemma Dispatch_rejected:
  assumes "Dispatch put k d command = (k1, d1, r)"
    and "rc_kind command = CK_kUnknown \<or> \<not> HasSafeDispatchApproval command
         \<or> GetPayloadView (rc_payload command) = [] \<and> \<not> rcd_allow_empty_payload_dispatch d"
  shows "k1 = k \<and> dr_bytes_written r = 0
         \<and> (dr_status r = DS_kRejectedSafety \<or> dr_status r = DS_kRejectedInvalid)"
  using assms by (auto simp: Dispatch_def MakeRejectedResult_def DispatchResult_default_def Let_def split: if_splits)

lemma Dispatch_sent_accepted:
  assumes "Dispatch put k d command = (k1, d1, r)" and "dr_status r = DS_kSent"
  shows "rc_kind command \<noteq> CK_kUnknown \<and> HasSafeDispatchApproval command"
  using assms by (auto simp: Dispatch_def MakeRejectedResult_def Let_def split: if_splits)

text \<open>Every attempt is counted in exactly one of the four outcomes (modulo the counters' width).\<close>

definition dispatcher_balanced :: "ReceiverCommandDispatcher \<Rightarrow> bool" where
  "dispatcher_balanced d \<longleftrightarrow>
     (let m = rcd_metrics d in
      dm_commands_attempted m = dm_commands_sent m + dm_commands_rejected_safety m
        + dm_commands_rejected_invalid m + dm_write_errors m)"

lemma Dispatch_balanced:
  "dispatcher_balanced d \<Longrightarrow> dispatcher_balanced (fst (snd (Dispatch put k d command)))"
  by (simp add: Dispatch_def dispatcher_balanced_def Let_def split_beta)

lemma Dispatch_config [simp]:
  "rcd_allow_empty_payload_dispatch (fst (snd (Dispatch put k d command))) = rcd_allow_empty_payload_dispatch d"
  by (simp add: Dispatch_def Let_def split_beta)

section \<open>Properties\<close>

text \<open>Over any sink that accepts prefixes of what it is offered, dispatching a command returns, and what
  reaches the sink is exactly the prefix of the payload the result reports; the status \<open>kSent\<close> means the
  whole payload.  A command without a kind, without the safety confirmation its level demands, or with a
  forbidden empty payload leaves the sink untouched.\<close>

lemma dispatch_writes_exactly:
  assumes "byte_sink put sent" and "Dispatch put k d command = (k1, d1, r)"
  defines "payload \<equiv> GetPayloadView (rc_payload command)"
  shows "sent k1 = sent k @ take (dr_bytes_written r) payload
       \<and> dr_bytes_written r \<le> length payload
       \<and> (dr_status r = DS_kSent \<longrightarrow>
            dr_bytes_written r = length payload
            \<and> rc_kind command \<noteq> CK_kUnknown \<and> HasSafeDispatchApproval command)
       \<and> (rc_kind command = CK_kUnknown \<or> \<not> HasSafeDispatchApproval command
            \<or> payload = [] \<and> \<not> rcd_allow_empty_payload_dispatch d
          \<longrightarrow> k1 = k \<and> dr_bytes_written r = 0)"
  using byte_sink.Dispatch_sent [OF assms(1), of k d command] Dispatch_rejected [OF assms(2)]
    Dispatch_sent_accepted [OF assms(2)] assms(2)
  by (auto simp: payload_def Let_def)

theorem dispatch_writes_exactly_witness:
  "mk_output (fst (Dispatch mem_write MemoryByteSink_new (dispatcher_new False)
     (SetTextPayload (ReceiverCommand_default\<lparr>rc_kind := CK_kRawText\<rparr>) ''AB''))) = [0x41, 0x42]"
proof -
  let ?c = "SetTextPayload (ReceiverCommand_default\<lparr>rc_kind := CK_kRawText\<rparr>) ''AB''"
  obtain k1 d1 r where d: "Dispatch mem_write MemoryByteSink_new (dispatcher_new False) ?c = (k1, d1, r)"
    by (metis prod_cases3)
  have "dr_status (snd (snd (Dispatch mem_write MemoryByteSink_new (dispatcher_new False) ?c))) = DS_kSent"
    by code_simp
  with d have "dr_status r = DS_kSent" by simp
  with dispatch_writes_exactly [OF mem.byte_sink_axioms d] have "mk_output k1 = [0x41, 0x42]"
    by (simp add: MemoryByteSink_new_def GetPayloadView_def SetTextPayload_def byte_of_def)
  then show ?thesis unfolding d by simp
qed

end
