(* ===== verification/Transaction_Engine.thy ===== *)
theory Transaction_Engine
  imports Command_Dispatcher
begin

text \<open>
  \<open>ReceiverCommandTransactionEngine\<close> of \<open>gnss_driver/src/receiver_command_transaction_engine.cpp\<close>: one
  command in flight at a time, responses matched against it, and the quarantine of the session after a
  timeout or a partial write, which nothing lifts.
\<close>

section \<open>Model\<close>

datatype EngineStepStatus =
    ES_kIdle | ES_kDispatched | ES_kBusy | ES_kDispatchFailed | ES_kAcknowledged | ES_kRejected
  | ES_kResponseUnmatched | ES_kTimedOut | ES_kRetryDispatched | ES_kRetryUnavailable
  | ES_kNoCurrentTransaction | ES_kNotTimedOut | ES_kSessionIndeterminate

record EngineStepResult =
  er_status :: EngineStepStatus
  er_response_matched :: bool
  er_dispatch_result :: "DispatchResult option"
  er_error_message :: string

definition EngineStepResult_default :: EngineStepResult where
  "EngineStepResult_default =
     \<lparr>er_status = ES_kIdle, er_response_matched = False, er_dispatch_result = None, er_error_message = []\<rparr>"

text \<open>\<open>ReceiverCommandResponseMatchMetadata\<close> is its only field, the optional UBX target.\<close>

type_synonym MatchMetadata = "UbxMessageIdentity option"

record EngineConfig =
  ec_allow_empty_payload_dispatch :: bool
  ec_verify_response_metadata :: bool

record EngineMetrics =
  em_transactions_created :: u64
  em_commands_dispatched :: u64
  em_responses_accepted :: u64
  em_responses_unmatched :: u64
  em_transactions_acknowledged :: u64
  em_transactions_rejected :: u64
  em_transactions_timed_out :: u64
  em_dispatch_failures :: u64
  em_sessions_quarantined :: u64

definition EngineMetrics_default :: EngineMetrics where
  "EngineMetrics_default =
     \<lparr>em_transactions_created = 0, em_commands_dispatched = 0, em_responses_accepted = 0,
      em_responses_unmatched = 0, em_transactions_acknowledged = 0, em_transactions_rejected = 0,
      em_transactions_timed_out = 0, em_dispatch_failures = 0, em_sessions_quarantined = 0\<rparr>"

record Engine =
  en_dispatcher :: ReceiverCommandDispatcher
  en_config :: EngineConfig
  en_metrics :: EngineMetrics
  en_current_transaction :: "ReceiverCommandTransaction option"
  en_completed_transaction :: "ReceiverCommandTransaction option"
  en_session_indeterminate :: bool
  en_next_transaction_id :: u64

definition engine_new :: "EngineConfig \<Rightarrow> Engine" where
  "engine_new config =
     \<lparr>en_dispatcher = dispatcher_new (ec_allow_empty_payload_dispatch config), en_config = config,
      en_metrics = EngineMetrics_default, en_current_transaction = None, en_completed_transaction = None,
      en_session_indeterminate = False, en_next_transaction_id = 1\<rparr>"

definition MakeStepResult :: "EngineStepStatus \<Rightarrow> string \<Rightarrow> EngineStepResult" where
  "MakeStepResult status error_message =
     EngineStepResult_default\<lparr>er_status := status, er_error_message := error_message\<rparr>"

definition HasTimedOutAt :: "ReceiverCommandTransaction \<Rightarrow> timestamp_ns \<Rightarrow> bool" where
  "HasTimedOutAt t now_timestamp_ns =
     (case tx_sent_timestamp_ns t of
        None \<Rightarrow> False
      | Some sent_ns \<Rightarrow>
          now_timestamp_ns
            \<ge> sent_ns + uint (rp_timeout_ms (rc_retry_policy (tx_command t))) * 1000000)"

definition QuarantineSession :: "Engine \<Rightarrow> Engine" where
  "QuarantineSession s =
     (if \<not> en_session_indeterminate s then
        s\<lparr>en_session_indeterminate := True,
          en_metrics := (en_metrics s)
            \<lparr>em_sessions_quarantined := em_sessions_quarantined (en_metrics s) + 1\<rparr>\<rparr>
      else s)"

definition MarkFailed ::
  "ReceiverCommandTransaction \<Rightarrow> DispatchResult \<Rightarrow> timestamp_ns option \<Rightarrow> ReceiverCommandTransaction" where
  "MarkFailed t dispatch_result timestamp_ns =
     t\<lparr>tx_state := XS_kFailed,
       tx_response := ReceiverCommandResponse_default
         \<lparr>rsp_message := dr_error_message dispatch_result, rsp_timestamp_ns := timestamp_ns\<rparr>,
       tx_completed_timestamp_ns := timestamp_ns\<rparr>"

definition CanApplyResponseKind :: "ReceiverCommandResponseKind \<Rightarrow> bool" where
  "CanApplyResponseKind kind \<longleftrightarrow>
     kind = CR_kAck \<or> kind = CR_kNak \<or> kind = CR_kTextOk \<or> kind = CR_kTextError"

definition ResponseMatchesCurrent :: "Engine \<Rightarrow> MatchMetadata \<Rightarrow> bool" where
  "ResponseMatchesCurrent s match_metadata =
     (case match_metadata of
        None \<Rightarrow> True
      | Some target \<Rightarrow>
          if \<not> ec_verify_response_metadata (en_config s) then True
          else
            (case en_current_transaction s of
               None \<Rightarrow> False
             | Some t \<Rightarrow>
                 (case TryGetUbxCommandMessageIdentity (tx_command t) of
                    None \<Rightarrow> True
                  | Some identity \<Rightarrow>
                      umi_class_id identity = umi_class_id target
                      \<and> umi_message_id identity = umi_message_id target)))"

definition StartTransaction ::
  "('k \<Rightarrow> bytes \<Rightarrow> 'k \<times> WriteResult) \<Rightarrow> 'k \<Rightarrow> Engine \<Rightarrow> ReceiverCommand \<Rightarrow> timestamp_ns option
     \<Rightarrow> 'k \<times> Engine \<times> EngineStepResult" where
  "StartTransaction put k s command ts =
     (if en_session_indeterminate s then
        (k, s, MakeStepResult ES_kSessionIndeterminate
                 ''receiver session is indeterminate after a dispatched command'')
      else if en_current_transaction s \<noteq> None then
        (k, s, MakeStepResult ES_kBusy ''transaction engine already holds an active transaction slot'')
      else
        let t = \<lparr>tx_transaction_id = en_next_transaction_id s, tx_command = command,
                 tx_state = XS_kPending, tx_response = ReceiverCommandResponse_default,
                 tx_created_timestamp_ns = ts, tx_sent_timestamp_ns = None,
                 tx_completed_timestamp_ns = None, tx_attempt_count = 0\<rparr>;
            m = (en_metrics s)\<lparr>em_transactions_created := em_transactions_created (en_metrics s) + 1\<rparr>;
            (k1, d1, dispatch_result) = Dispatch put k (en_dispatcher s) command;
            s1 = s\<lparr>en_next_transaction_id := en_next_transaction_id s + 1, en_metrics := m,
                   en_dispatcher := d1\<rparr>;
            result = EngineStepResult_default\<lparr>er_dispatch_result := Some dispatch_result\<rparr> in
        if dr_status dispatch_result \<noteq> DS_kSent then
          let s2 = s1\<lparr>en_completed_transaction := Some (MarkFailed t dispatch_result ts)\<rparr>;
              s3 = (if dr_bytes_written dispatch_result > 0 then QuarantineSession s2 else s2);
              s4 = s3\<lparr>en_metrics := (en_metrics s3)
                       \<lparr>em_dispatch_failures := em_dispatch_failures (en_metrics s3) + 1\<rparr>\<rparr> in
          (k1, s4, result\<lparr>er_status := ES_kDispatchFailed,
                          er_error_message := dr_error_message dispatch_result\<rparr>)
        else
          let t1 = mark_sent t ts;
              s2 = s1\<lparr>en_metrics := m\<lparr>em_commands_dispatched := em_commands_dispatched m + 1\<rparr>\<rparr> in
          if rc_expected_response command = RK_kNone then
            (k1, s2\<lparr>en_completed_transaction := Some (mark_ack t1 ts CR_kAck),
                    en_metrics := (en_metrics s2)
                      \<lparr>em_transactions_acknowledged := em_transactions_acknowledged (en_metrics s2) + 1\<rparr>\<rparr>,
             result\<lparr>er_status := ES_kAcknowledged\<rparr>)
          else
            (k1, s2\<lparr>en_current_transaction := Some t1\<rparr>, result\<lparr>er_status := ES_kDispatched\<rparr>))"

text \<open>The common ending of the refusals of \<open>ApplyResponse\<close>.\<close>

definition unmatched :: "Engine \<Rightarrow> string \<Rightarrow> Engine \<times> EngineStepResult" where
  "unmatched s message =
     (s\<lparr>en_metrics := (en_metrics s)\<lparr>em_responses_unmatched := em_responses_unmatched (en_metrics s) + 1\<rparr>\<rparr>,
      MakeStepResult ES_kResponseUnmatched message)"

definition engine_ApplyResponse ::
  "Engine \<Rightarrow> ReceiverCommandResponse \<Rightarrow> MatchMetadata \<Rightarrow> Engine \<times> EngineStepResult" where
  "engine_ApplyResponse s response match_metadata =
     (if en_session_indeterminate s then
        unmatched s ''receiver session is indeterminate; response is not eligible''
      else
        (case en_current_transaction s of
           None \<Rightarrow> unmatched s ''no current transaction is awaiting a response''
         | Some t \<Rightarrow>
             if tx_state t \<noteq> XS_kSent then
               unmatched s ''current transaction is not awaiting a response''
             else if \<not> CanApplyResponseKind (rsp_kind response) then
               unmatched s ''response kind is not applicable to the transaction engine''
             else if \<not> ResponseMatchesCurrent s match_metadata then
               unmatched s ''response metadata does not match the current command''
             else
               let result = EngineStepResult_default\<lparr>er_response_matched := True\<rparr>;
                   m = (en_metrics s)\<lparr>em_responses_accepted := em_responses_accepted (en_metrics s) + 1\<rparr> in
               if IsPositiveReceiverCommandResponseKind (rsp_kind response) then
                 let t1 = mark_ack t (rsp_timestamp_ns response) (rsp_kind response);
                     t2 = t1\<lparr>tx_response := (tx_response t1)\<lparr>rsp_message := rsp_message response\<rparr>\<rparr> in
                 (s\<lparr>en_metrics := m\<lparr>em_transactions_acknowledged := em_transactions_acknowledged m + 1\<rparr>,
                    en_completed_transaction := Some t2, en_current_transaction := None\<rparr>,
                  result\<lparr>er_status := ES_kAcknowledged\<rparr>)
               else
                 let t1 = mark_nak t (rsp_timestamp_ns response) (rsp_kind response);
                     t2 = t1\<lparr>tx_response := (tx_response t1)\<lparr>rsp_message := rsp_message response\<rparr>\<rparr> in
                 (s\<lparr>en_metrics := m\<lparr>em_transactions_rejected := em_transactions_rejected m + 1\<rparr>,
                    en_completed_transaction := Some t2, en_current_transaction := None\<rparr>,
                  result\<lparr>er_status := ES_kRejected\<rparr>)))"

definition engine_MarkTimeout :: "Engine \<Rightarrow> timestamp_ns option \<Rightarrow> Engine \<times> EngineStepResult" where
  "engine_MarkTimeout s ts =
     (case en_current_transaction s of
        None \<Rightarrow> (s, MakeStepResult ES_kNoCurrentTransaction ''no current transaction is available to time out'')
      | Some t \<Rightarrow>
          if tx_state t \<noteq> XS_kSent then
            (s, MakeStepResult ES_kNotTimedOut ''current transaction is not in a sent state'')
          else
            (QuarantineSession
               (s\<lparr>en_current_transaction := Some (mark_timeout t ts),
                  en_metrics := (en_metrics s)
                    \<lparr>em_transactions_timed_out := em_transactions_timed_out (en_metrics s) + 1\<rparr>\<rparr>),
             MakeStepResult ES_kTimedOut []))"

definition engine_CheckTimeout :: "Engine \<Rightarrow> timestamp_ns \<Rightarrow> Engine \<times> EngineStepResult" where
  "engine_CheckTimeout s now_timestamp_ns =
     (if en_session_indeterminate s then
        (s, MakeStepResult ES_kSessionIndeterminate
              ''receiver session is indeterminate after a dispatched command'')
      else
        (case en_current_transaction s of
           None \<Rightarrow> (s, MakeStepResult ES_kNoCurrentTransaction
                          ''no current transaction is available for timeout checks'')
         | Some t \<Rightarrow>
             if tx_state t \<noteq> XS_kSent \<or> \<not> HasTimedOutAt t now_timestamp_ns then
               (s, MakeStepResult ES_kNotTimedOut [])
             else engine_MarkTimeout s (Some now_timestamp_ns)))"

definition RetryPending ::
  "('k \<Rightarrow> bytes \<Rightarrow> 'k \<times> WriteResult) \<Rightarrow> 'k \<Rightarrow> Engine \<Rightarrow> timestamp_ns option
     \<Rightarrow> 'k \<times> Engine \<times> EngineStepResult" where
  "RetryPending put k s ts =
     (if en_session_indeterminate s then
        (k, s, MakeStepResult ES_kSessionIndeterminate
                 ''receiver session is indeterminate after a dispatched command'')
      else
        (case en_current_transaction s of
           None \<Rightarrow> (k, s, MakeStepResult ES_kNoCurrentTransaction
                             ''no current transaction is available to retry'')
         | Some t \<Rightarrow>
             if \<not> can_retry t then
               (k, s, MakeStepResult ES_kRetryUnavailable ''current transaction is not retryable'')
             else
               let t1 = reset_for_retry t;
                   (k1, d1, dispatch_result) = Dispatch put k (en_dispatcher s) (tx_command t1);
                   s1 = s\<lparr>en_dispatcher := d1\<rparr>;
                   result = EngineStepResult_default\<lparr>er_dispatch_result := Some dispatch_result\<rparr> in
               if dr_status dispatch_result \<noteq> DS_kSent then
                 (k1, s1\<lparr>en_current_transaction := Some (MarkFailed t1 dispatch_result ts),
                         en_metrics := (en_metrics s1)
                           \<lparr>em_dispatch_failures := em_dispatch_failures (en_metrics s1) + 1\<rparr>\<rparr>,
                  result\<lparr>er_status := ES_kDispatchFailed,
                         er_error_message := dr_error_message dispatch_result\<rparr>)
               else
                 (k1, s1\<lparr>en_current_transaction := Some (mark_sent t1 ts),
                         en_metrics := (en_metrics s1)
                           \<lparr>em_commands_dispatched := em_commands_dispatched (en_metrics s1) + 1\<rparr>\<rparr>,
                  result\<lparr>er_status := ES_kRetryDispatched\<rparr>)))"

definition engine_Reset :: "Engine \<Rightarrow> Engine" where
  "engine_Reset s =
     (if en_session_indeterminate s then s
      else
        case en_current_transaction s of
          Some t \<Rightarrow>
            if tx_state t = XS_kSent then QuarantineSession s
            else s\<lparr>en_dispatcher := dispatcher_ResetMetrics (en_dispatcher s),
                   en_metrics := EngineMetrics_default, en_current_transaction := None,
                   en_completed_transaction := None, en_session_indeterminate := False,
                   en_next_transaction_id := 1\<rparr>
        | None \<Rightarrow> s\<lparr>en_dispatcher := dispatcher_ResetMetrics (en_dispatcher s),
                   en_metrics := EngineMetrics_default, en_current_transaction := None,
                   en_completed_transaction := None, en_session_indeterminate := False,
                   en_next_transaction_id := 1\<rparr>)"

section \<open>The engine as a transition system\<close>

datatype engine_op =
    EO_Start ReceiverCommand "timestamp_ns option"
  | EO_Response ReceiverCommandResponse MatchMetadata
  | EO_MarkTimeout "timestamp_ns option"
  | EO_CheckTimeout timestamp_ns
  | EO_Retry "timestamp_ns option"
  | EO_Reset

definition engine_exec ::
  "('k \<Rightarrow> bytes \<Rightarrow> 'k \<times> WriteResult) \<Rightarrow> 'k \<Rightarrow> Engine \<Rightarrow> engine_op \<Rightarrow> 'k \<times> Engine \<times> EngineStepResult" where
  "engine_exec put k s oper =
     (case oper of
        EO_Start command ts \<Rightarrow> StartTransaction put k s command ts
      | EO_Response response md \<Rightarrow> (k, engine_ApplyResponse s response md)
      | EO_MarkTimeout ts \<Rightarrow> (k, engine_MarkTimeout s ts)
      | EO_CheckTimeout now \<Rightarrow> (k, engine_CheckTimeout s now)
      | EO_Retry ts \<Rightarrow> RetryPending put k s ts
      | EO_Reset \<Rightarrow> (k, engine_Reset s, EngineStepResult_default))"

inductive engine_reach ::
  "('k \<Rightarrow> bytes \<Rightarrow> 'k \<times> WriteResult) \<Rightarrow> EngineConfig \<Rightarrow> 'k \<Rightarrow> 'k \<Rightarrow> Engine \<Rightarrow> bool"
  for put :: "'k \<Rightarrow> bytes \<Rightarrow> 'k \<times> WriteResult" and config :: EngineConfig and k0 :: 'k where
  start: "engine_reach put config k0 k0 (engine_new config)"
| step: "\<lbrakk>engine_reach put config k0 k s; engine_exec put k s oper = (k1, s1, r)\<rbrakk> \<Longrightarrow>
     engine_reach put config k0 k1 s1"

inductive_cases engine_reachE: "engine_reach put config k0 k s"

section \<open>Invariant\<close>

definition in_flight :: "Engine \<Rightarrow> bool" where
  "in_flight s \<longleftrightarrow> (\<exists>t. en_current_transaction s = Some t \<and> tx_state t = XS_kSent)"

text \<open>A determinate session holds nothing but a transaction in flight; a quarantined one at most a
  transaction that was in flight; and the counters account for every transaction.\<close>

definition engine_slot_ok :: "Engine \<Rightarrow> bool" where
  "engine_slot_ok s \<longleftrightarrow>
     (case en_current_transaction s of
        None \<Rightarrow> True
      | Some t \<Rightarrow> rc_expected_response (tx_command t) \<noteq> RK_kNone
          \<and> (tx_state t = XS_kSent \<or> en_session_indeterminate s \<and> tx_state t = XS_kTimedOut))"

definition engine_counts_ok :: "Engine \<Rightarrow> bool" where
  "engine_counts_ok s \<longleftrightarrow>
     (let m = en_metrics s; d = rcd_metrics (en_dispatcher s) in
      em_sessions_quarantined m = (if en_session_indeterminate s then 1 else 0)
      \<and> em_transactions_created m = em_commands_dispatched m + em_dispatch_failures m
      \<and> em_commands_dispatched m
          = em_transactions_acknowledged m + em_transactions_rejected m + em_transactions_timed_out m
            + (if in_flight s then 1 else 0)
      \<and> dm_commands_attempted d = em_transactions_created m
      \<and> dm_commands_sent d = em_commands_dispatched m)"

definition engine_inv :: "Engine \<Rightarrow> bool" where
  "engine_inv s \<longleftrightarrow> engine_slot_ok s \<and> engine_counts_ok s \<and> dispatcher_balanced (en_dispatcher s)"

lemma Quarantine_simps [simp]:
  "en_session_indeterminate (QuarantineSession s)"
  "en_current_transaction (QuarantineSession s) = en_current_transaction s"
  "en_completed_transaction (QuarantineSession s) = en_completed_transaction s"
  "en_dispatcher (QuarantineSession s) = en_dispatcher s"
  "en_config (QuarantineSession s) = en_config s"
  by (simp_all add: QuarantineSession_def)

lemma Quarantine_metrics:
  "en_metrics (QuarantineSession s) = (if en_session_indeterminate s then en_metrics s
     else (en_metrics s)\<lparr>em_sessions_quarantined := em_sessions_quarantined (en_metrics s) + 1\<rparr>)"
  by (simp add: QuarantineSession_def)

lemma Dispatch_counts:
  assumes "Dispatch put k d command = (k1, d1, r)"
  shows "dm_commands_attempted (rcd_metrics d1) = dm_commands_attempted (rcd_metrics d) + 1"
    and "dm_commands_sent (rcd_metrics d1)
           = dm_commands_sent (rcd_metrics d) + (if dr_status r = DS_kSent then 1 else 0)"
proof -
  have r0: "dr_status (DispatchResult_default\<lparr>dr_status := DS_kSent\<rparr>) = DS_kSent" by simp
  note loop = write_loop_status [OF r0, of put k "GetPayloadView (rc_payload command)"]
  show "dm_commands_attempted (rcd_metrics d1) = dm_commands_attempted (rcd_metrics d) + 1"
    using assms by (auto simp: Dispatch_def Let_def split_beta split: if_splits)
  show "dm_commands_sent (rcd_metrics d1)
           = dm_commands_sent (rcd_metrics d) + (if dr_status r = DS_kSent then 1 else 0)"
    using assms loop
    by (auto simp: Dispatch_def MakeRejectedResult_def Let_def split_beta split: if_splits)
qed

lemma MakeStepResult_simps [simp]:
  "er_status (MakeStepResult st msg) = st" "er_response_matched (MakeStepResult st msg) = False"
  by (simp_all add: MakeStepResult_def EngineStepResult_default_def)

lemma EngineStepResult_default_simps [simp]:
  "er_status EngineStepResult_default = ES_kIdle" "er_response_matched EngineStepResult_default = False"
  "er_dispatch_result EngineStepResult_default = None"
  by (simp_all add: EngineStepResult_default_def)

lemma unmatched_simps [simp]:
  "er_status (snd (unmatched s msg)) = ES_kResponseUnmatched"
  "er_response_matched (snd (unmatched s msg)) = False"
  "en_session_indeterminate (fst (unmatched s msg)) = en_session_indeterminate s"
  "en_current_transaction (fst (unmatched s msg)) = en_current_transaction s"
  "en_completed_transaction (fst (unmatched s msg)) = en_completed_transaction s"
  "en_dispatcher (fst (unmatched s msg)) = en_dispatcher s"
  "en_config (fst (unmatched s msg)) = en_config s"
  by (simp_all add: unmatched_def)

lemma engine_inv_new: "engine_inv (engine_new config)"
  by (simp add: engine_inv_def engine_slot_ok_def engine_counts_ok_def in_flight_def engine_new_def
      EngineMetrics_default_def dispatcher_new_def DispatcherMetrics_default_def dispatcher_balanced_def)

lemma engine_inv_unmatched: "engine_inv s \<Longrightarrow> engine_inv (fst (unmatched s msg))"
  by (cases "en_current_transaction s")
    (auto simp: engine_inv_def engine_slot_ok_def engine_counts_ok_def in_flight_def unmatched_def Let_def)

lemma engine_inv_Start:
  assumes "engine_inv s"
  shows "engine_inv (fst (snd (StartTransaction put k s command ts)))"
proof (cases "en_session_indeterminate s \<or> en_current_transaction s \<noteq> None")
  case True
  with assms show ?thesis by (auto simp: StartTransaction_def)
next
  case False
  obtain k1 d1 r where d: "Dispatch put k (en_dispatcher s) command = (k1, d1, r)" by (metis prod_cases3)
  have bal: "dispatcher_balanced d1"
    using Dispatch_balanced [of "en_dispatcher s" put k command] assms by (simp add: d engine_inv_def)
  show ?thesis
    using assms False bal Dispatch_counts [OF d]
    by (auto simp: StartTransaction_def d engine_inv_def engine_slot_ok_def engine_counts_ok_def in_flight_def
        Quarantine_metrics Let_def)
qed

lemma engine_inv_ApplyResponse:
  assumes "engine_inv s"
  shows "engine_inv (fst (engine_ApplyResponse s response md))"
proof (cases "en_session_indeterminate s")
  case True
  with assms show ?thesis by (simp add: engine_ApplyResponse_def engine_inv_unmatched)
next
  case False
  with assms show ?thesis
    by (auto simp: engine_ApplyResponse_def engine_inv_unmatched Let_def split: option.split)
      (auto simp: engine_inv_def engine_slot_ok_def engine_counts_ok_def in_flight_def Let_def)
qed

lemma engine_inv_MarkTimeout:
  assumes "engine_inv s"
  shows "engine_inv (fst (engine_MarkTimeout s ts))"
  using assms
  by (auto simp: engine_MarkTimeout_def engine_inv_def engine_slot_ok_def engine_counts_ok_def in_flight_def
      Quarantine_metrics Let_def split: option.split)

lemma engine_inv_CheckTimeout: "engine_inv s \<Longrightarrow> engine_inv (fst (engine_CheckTimeout s now))"
  by (auto simp: engine_CheckTimeout_def engine_inv_MarkTimeout split: option.split)

text \<open>The retry never gets past its guards: a transaction is only ever marked timed out together with the
  quarantine, and a failed dispatch does not stay in the slot.\<close>

lemma RetryPending_idle:
  assumes "engine_slot_ok s"
  shows "\<exists>r. RetryPending put k s ts = (k, s, r)
    \<and> er_status r \<in> {ES_kSessionIndeterminate, ES_kNoCurrentTransaction, ES_kRetryUnavailable}"
  using assms by (auto simp: RetryPending_def engine_slot_ok_def can_retry_def split: option.splits)

lemma engine_inv_Retry: "engine_inv s \<Longrightarrow> engine_inv (fst (snd (RetryPending put k s ts)))"
  using RetryPending_idle [of s put k ts] by (auto simp: engine_inv_def)

lemma engine_inv_Reset: "engine_inv s \<Longrightarrow> engine_inv (engine_Reset s)"
  by (auto simp: engine_Reset_def engine_inv_def engine_slot_ok_def engine_counts_ok_def in_flight_def
      Quarantine_metrics EngineMetrics_default_def dispatcher_ResetMetrics_def DispatcherMetrics_default_def
      dispatcher_balanced_def Let_def split: option.splits)

lemma engine_inv_exec: "engine_inv s \<Longrightarrow> engine_inv (fst (snd (engine_exec put k s oper)))"
  by (cases oper)
    (simp_all add: engine_exec_def engine_inv_Start engine_inv_ApplyResponse engine_inv_MarkTimeout
      engine_inv_CheckTimeout engine_inv_Retry engine_inv_Reset)

lemma engine_reach_inv: "engine_reach put config k0 k s \<Longrightarrow> engine_inv s"
proof (induction rule: engine_reach.induct)
  case start
  show ?case by (rule engine_inv_new)
next
  case (step k s oper k1 s1 r)
  with engine_inv_exec [of s put k oper] show ?case by simp
qed

section \<open>The outcomes of the two main operations\<close>

lemma ApplyResponse_cases:
  assumes "engine_ApplyResponse s response md = (s1, r)"
  shows "if \<not> en_session_indeterminate s \<and> in_flight s \<and> CanApplyResponseKind (rsp_kind response)
            \<and> ResponseMatchesCurrent s md
         then er_response_matched r \<and> en_current_transaction s1 = None
            \<and> (\<exists>t. en_completed_transaction s1 = Some t \<and> rsp_message (tx_response t) = rsp_message response
                 \<and> rsp_kind (tx_response t) = rsp_kind response
                 \<and> tx_command t = tx_command (the (en_current_transaction s))
                 \<and> (if IsPositiveReceiverCommandResponseKind (rsp_kind response)
                    then tx_state t = XS_kAcknowledged \<and> er_status r = ES_kAcknowledged
                    else tx_state t = XS_kRejected \<and> er_status r = ES_kRejected))
         else \<not> er_response_matched r \<and> er_status r = ES_kResponseUnmatched
            \<and> s1 = s\<lparr>en_metrics := (en_metrics s)
                 \<lparr>em_responses_unmatched := em_responses_unmatched (en_metrics s) + 1\<rparr>\<rparr>"
proof -
  have kinds: "IsPositiveReceiverCommandResponseKind (rsp_kind response)
      \<or> rsp_kind response = CR_kNak \<or> rsp_kind response = CR_kTextError"
    if "CanApplyResponseKind (rsp_kind response)"
    using that by (auto simp: CanApplyResponseKind_def IsPositiveReceiverCommandResponseKind_def)
  consider "en_session_indeterminate s" | "en_current_transaction s = None"
    | t where "\<not> en_session_indeterminate s" "en_current_transaction s = Some t" by auto
  then show ?thesis
  proof cases
    case 3
    then show ?thesis
      using assms kinds
      by (auto simp: engine_ApplyResponse_def in_flight_def unmatched_def Let_def mark_ack_def mark_nak_def
          split: if_splits)
  qed (use assms in \<open>auto simp: engine_ApplyResponse_def in_flight_def unmatched_def split: if_splits\<close>)
qed

lemma StartTransaction_cases:
  assumes "byte_sink put sent" and "StartTransaction put k s command ts = (k1, s1, r)"
  defines "payload \<equiv> GetPayloadView (rc_payload command)"
  shows "if en_session_indeterminate s \<or> en_current_transaction s \<noteq> None
         then k1 = k \<and> s1 = s \<and> er_dispatch_result r = None
           \<and> er_status r = (if en_session_indeterminate s then ES_kSessionIndeterminate else ES_kBusy)
         else (\<exists>d. er_dispatch_result r = Some d
                \<and> dr_bytes_written d \<le> length payload \<and> sent k1 = sent k @ take (dr_bytes_written d) payload
                \<and> (if er_status r = ES_kDispatchFailed
                   then dr_status d \<noteq> DS_kSent \<and> en_current_transaction s1 = None
                     \<and> en_session_indeterminate s1 = (0 < dr_bytes_written d)
                   else dr_status d = DS_kSent \<and> dr_bytes_written d = length payload
                     \<and> HasSafeDispatchApproval command \<and> \<not> en_session_indeterminate s1
                     \<and> (if rc_expected_response command = RK_kNone
                        then er_status r = ES_kAcknowledged \<and> en_current_transaction s1 = None
                        else er_status r = ES_kDispatched \<and> in_flight s1
                          \<and> tx_command (the (en_current_transaction s1)) = command)))"
proof (cases "en_session_indeterminate s \<or> en_current_transaction s \<noteq> None")
  case True
  with assms(2) show ?thesis by (auto simp: StartTransaction_def MakeStepResult_def EngineStepResult_default_def split: if_splits)
next
  case False
  obtain k2 d1 dr where d: "Dispatch put k (en_dispatcher s) command = (k2, d1, dr)" by (metis prod_cases3)
  note facts = byte_sink.Dispatch_sent [OF assms(1), of k "en_dispatcher s" command, unfolded d, simplified Let_def, simplified]
    Dispatch_sent_accepted [OF d]
  show ?thesis
  proof (cases "dr_status dr = DS_kSent")
    case True
    with False facts assms(2) show ?thesis
      by (auto simp: StartTransaction_def d payload_def in_flight_def Let_def split: if_splits)
  next
    case NotSent: False
    with False facts assms(2) show ?thesis
      by (auto simp: StartTransaction_def d payload_def Let_def split: if_splits)
  qed
qed

section \<open>Properties\<close>

text \<open>A concrete run, over the in-memory sink: a text command is dispatched, then times out.\<close>

definition demo_config :: EngineConfig where
  "demo_config = \<lparr>ec_allow_empty_payload_dispatch = False, ec_verify_response_metadata = True\<rparr>"

definition demo_command :: ReceiverCommand where
  "demo_command =
     SetTextPayload (ReceiverCommand_default\<lparr>rc_kind := CK_kRawText,
        rc_retry_policy := \<lparr>rp_timeout_ms = 500, rp_max_retries = 3\<rparr>\<rparr>) ''AB''"

definition demo_sent :: "MemoryByteSink \<times> Engine \<times> EngineStepResult" where
  "demo_sent = engine_exec mem_write MemoryByteSink_new (engine_new demo_config) (EO_Start demo_command (Some 0))"

definition demo_timeout :: "MemoryByteSink \<times> Engine \<times> EngineStepResult" where
  "demo_timeout = engine_exec mem_write (fst demo_sent) (fst (snd demo_sent)) (EO_CheckTimeout 500000000)"

lemma demo_sent_reach:
  "engine_reach mem_write demo_config MemoryByteSink_new (fst demo_sent) (fst (snd demo_sent))"
  by (rule engine_reach.step [OF engine_reach.start, of _ _ _ "EO_Start demo_command (Some 0)"
        "fst demo_sent" "fst (snd demo_sent)" "snd (snd demo_sent)"]) (simp add: demo_sent_def)

lemma demo_timeout_reach:
  "engine_reach mem_write demo_config MemoryByteSink_new (fst demo_timeout) (fst (snd demo_timeout))"
  by (rule engine_reach.step [OF demo_sent_reach, of "EO_CheckTimeout 500000000"
        "fst demo_timeout" "fst (snd demo_timeout)" "snd (snd demo_timeout)"]) (simp add: demo_timeout_def)

lemma demo_facts:
  "er_status (snd (snd demo_sent)) = ES_kDispatched" "mk_output (fst demo_sent) = [0x41, 0x42]"
  "er_status (snd (snd demo_timeout)) = ES_kTimedOut" "en_session_indeterminate (fst (snd demo_timeout))"
  by code_simp+

text \<open>C7. In every reachable state of the transaction engine the slot holds nothing but a command in flight
  (or, once quarantined, one that timed out), the session was quarantined at most once, and the counters
  balance: every transaction created was dispatched or failed to, every dispatched one was acknowledged,
  rejected, timed out or is the one in flight, and the dispatcher's counters agree.\<close>

theorem engine_accounts_for_every_transaction:
  assumes "engine_reach put config k0 k s"
  shows "engine_slot_ok s \<and> engine_counts_ok s \<and> dispatcher_balanced (en_dispatcher s)"
  using engine_reach_inv [OF assms] by (simp add: engine_inv_def)

theorem engine_accounts_for_every_transaction_witness:
  "engine_slot_ok (fst (snd demo_timeout)) \<and> engine_counts_ok (fst (snd demo_timeout))"
  using engine_accounts_for_every_transaction [OF demo_timeout_reach] by blast

text \<open>C9. A quarantined session stays quarantined under every operation, \<open>Reset\<close> included: no byte is written,
  no response is accepted, no transaction completes.\<close>

theorem engine_quarantine_is_final:
  assumes "engine_reach put config k0 k s" and "en_session_indeterminate s"
    and "engine_exec put k s oper = (k1, s1, r)"
  shows "k1 = k \<and> en_session_indeterminate s1 \<and> en_completed_transaction s1 = en_completed_transaction s
    \<and> \<not> er_response_matched r
    \<and> er_status r \<notin> {ES_kDispatched, ES_kAcknowledged, ES_kRejected, ES_kRetryDispatched}"
  using assms(2,3)
  by (cases oper)
    (auto simp: engine_exec_def StartTransaction_def engine_ApplyResponse_def engine_MarkTimeout_def
      engine_CheckTimeout_def RetryPending_def engine_Reset_def unmatched_def split: option.splits if_splits)

theorem engine_quarantine_is_final_witness:
  "mk_output (fst (engine_exec mem_write (fst demo_timeout) (fst (snd demo_timeout)) (EO_Retry None))) = [0x41, 0x42]"
proof -
  let ?x = "engine_exec mem_write (fst demo_timeout) (fst (snd demo_timeout)) (EO_Retry None)"
  have "?x = (fst ?x, fst (snd ?x), snd (snd ?x))" by simp
  from engine_quarantine_is_final [OF demo_timeout_reach demo_facts(4) this]
  have "fst ?x = fst demo_timeout" by blast
  moreover have "fst demo_timeout = fst demo_sent" by (simp add: demo_timeout_def engine_exec_def)
  ultimately show ?thesis by (simp add: demo_facts(2))
qed

text \<open>In no reachable state does \<open>RetryPending\<close> dispatch anything: it changes neither the sink nor the
  engine, whatever retry budget the command carries.\<close>

lemma engine_never_retries:
  assumes "engine_reach put config k0 k s"
  shows "\<exists>r. RetryPending put k s ts = (k, s, r)
    \<and> er_status r \<in> {ES_kSessionIndeterminate, ES_kNoCurrentTransaction, ES_kRetryUnavailable}"
  using RetryPending_idle engine_reach_inv [OF assms] by (auto simp: engine_inv_def)

theorem engine_never_retries_witness:
  "fst (RetryPending mem_write (fst demo_timeout) (fst (snd demo_timeout)) None) = fst demo_timeout"
  using engine_never_retries [OF demo_timeout_reach, of None] by auto

text \<open>A response is matched exactly when the session is determinate, a command is in flight, the kind is
  an acknowledgement, a rejection or their text forms, and, where the identity of both is known and checked,
  the UBX class and id agree; then the transaction completes as acknowledged or rejected by the kind and the
  slot is free, otherwise only the counter of unmatched responses changes.\<close>

lemma engine_response_matching:
  assumes "engine_ApplyResponse s response md = (s1, r)"
  shows "if \<not> en_session_indeterminate s \<and> in_flight s \<and> CanApplyResponseKind (rsp_kind response)
            \<and> ResponseMatchesCurrent s md
         then er_response_matched r \<and> en_current_transaction s1 = None
            \<and> (\<exists>t. en_completed_transaction s1 = Some t \<and> rsp_message (tx_response t) = rsp_message response
                 \<and> rsp_kind (tx_response t) = rsp_kind response
                 \<and> tx_command t = tx_command (the (en_current_transaction s))
                 \<and> (if IsPositiveReceiverCommandResponseKind (rsp_kind response)
                    then tx_state t = XS_kAcknowledged \<and> er_status r = ES_kAcknowledged
                    else tx_state t = XS_kRejected \<and> er_status r = ES_kRejected))
         else \<not> er_response_matched r \<and> er_status r = ES_kResponseUnmatched
            \<and> s1 = s\<lparr>en_metrics := (en_metrics s)
                 \<lparr>em_responses_unmatched := em_responses_unmatched (en_metrics s) + 1\<rparr>\<rparr>"
  using ApplyResponse_cases [OF assms(1)] .

theorem engine_response_matching_witness:
  "\<exists>s1 r. engine_ApplyResponse (fst (snd demo_sent)) (ReceiverCommandResponse_default\<lparr>rsp_kind := CR_kTextOk\<rparr>) None
        = (s1, r) \<and> er_response_matched r \<and> er_status r = ES_kAcknowledged"
proof -
  let ?rsp = "ReceiverCommandResponse_default\<lparr>rsp_kind := CR_kTextOk\<rparr>"
  obtain s1 r where a: "engine_ApplyResponse (fst (snd demo_sent)) ?rsp None = (s1, r)" by fastforce
  have "\<not> en_session_indeterminate (fst (snd demo_sent))"
    "map_option tx_state (en_current_transaction (fst (snd demo_sent))) = Some XS_kSent" by code_simp+
  moreover from this(2) have "in_flight (fst (snd demo_sent))" by (auto simp: in_flight_def)
  ultimately show ?thesis
    using engine_response_matching [OF a] a
    by (simp add: CanApplyResponseKind_def ResponseMatchesCurrent_def IsPositiveReceiverCommandResponseKind_def)
      metis
qed

text \<open>C8. Starting a transaction over any sink that accepts prefixes: a quarantined session or an occupied slot
  leaves the sink and the engine untouched and reports no dispatch; otherwise the result carries a dispatch result, and
  what reaches the sink is exactly the prefix of the payload of the length it reports.  When the dispatch failed the slot
  stays free and the session is quarantined exactly when that length is not zero; otherwise the whole payload was written
  and reported, and the engine holds the command in flight, unless it expects no response.\<close>

theorem engine_start_transaction:
  assumes "byte_sink put sent" and "StartTransaction put k s command ts = (k1, s1, r)"
  defines "payload \<equiv> GetPayloadView (rc_payload command)"
  shows "if en_session_indeterminate s \<or> en_current_transaction s \<noteq> None
         then k1 = k \<and> s1 = s \<and> er_dispatch_result r = None
           \<and> er_status r = (if en_session_indeterminate s then ES_kSessionIndeterminate else ES_kBusy)
         else (\<exists>d. er_dispatch_result r = Some d
                \<and> dr_bytes_written d \<le> length payload \<and> sent k1 = sent k @ take (dr_bytes_written d) payload
                \<and> (if er_status r = ES_kDispatchFailed
                   then dr_status d \<noteq> DS_kSent \<and> en_current_transaction s1 = None
                     \<and> en_session_indeterminate s1 = (0 < dr_bytes_written d)
                   else dr_status d = DS_kSent \<and> dr_bytes_written d = length payload
                     \<and> HasSafeDispatchApproval command \<and> \<not> en_session_indeterminate s1
                     \<and> (if rc_expected_response command = RK_kNone
                        then er_status r = ES_kAcknowledged \<and> en_current_transaction s1 = None
                        else er_status r = ES_kDispatched \<and> in_flight s1
                          \<and> tx_command (the (en_current_transaction s1)) = command)))"
  using StartTransaction_cases [OF assms(1,2)] unfolding payload_def .

theorem engine_start_transaction_witness:
  "\<exists>d. er_dispatch_result (snd (snd demo_sent)) = Some d \<and> dr_bytes_written d \<le> 2
     \<and> mk_output (fst demo_sent) = take (dr_bytes_written d) [0x41, 0x42]"
proof -
  have "StartTransaction mem_write MemoryByteSink_new (engine_new demo_config) demo_command (Some 0)
      = (fst demo_sent, fst (snd demo_sent), snd (snd demo_sent))"
    by (simp add: demo_sent_def engine_exec_def)
  from engine_start_transaction [OF mem.byte_sink_axioms this]
  show ?thesis
    by (simp add: engine_new_def MemoryByteSink_new_def demo_command_def SetTextPayload_def
        GetPayloadView_def byte_of_def numeral_2_eq_2) blast
qed

end
