(* ===== verification/Config_Application.thy ===== *)
theory Config_Application
  imports Transaction_Engine
begin

text \<open>
  \<open>ReceiverConfigApplication\<close> of \<open>gnss_driver/src/receiver_config_application.cpp\<close>: applies a list of
  commands one after the other through the transaction engine, deciding after each failure whether to go on.
\<close>

section \<open>Model\<close>

datatype ApplicationState =
  AS_kIdle | AS_kRunning | AS_kWaitingForResponse | AS_kCompleted | AS_kFailed

record ApplicationConfig =
  ac_transaction_engine :: EngineConfig
  ac_continue_on_error :: bool

record ApplicationMetrics =
  am_commands_total :: u64
  am_commands_started :: u64
  am_commands_completed :: u64
  am_commands_failed :: u64
  am_required_commands_failed :: u64
  am_optional_commands_failed :: u64
  am_commands_retried :: u64
  am_responses_applied :: u64
  am_timeouts_seen :: u64

definition ApplicationMetrics_default :: ApplicationMetrics where
  "ApplicationMetrics_default =
     \<lparr>am_commands_total = 0, am_commands_started = 0, am_commands_completed = 0, am_commands_failed = 0,
      am_required_commands_failed = 0, am_optional_commands_failed = 0, am_commands_retried = 0,
      am_responses_applied = 0, am_timeouts_seen = 0\<rparr>"

record ApplicationResult =
  ar_state :: ApplicationState
  ar_command_index :: nat
  ar_command_started :: bool
  ar_command_finished :: bool
  ar_command_succeeded :: bool
  ar_command_failed :: bool
  ar_command_required :: bool
  ar_failure_ignored :: bool
  ar_advanced_to_next_command :: bool
  ar_response_applied :: bool
  ar_retry_dispatched :: bool
  ar_receiver_state_indeterminate :: bool
  ar_error_message :: string
  ar_engine_result :: "EngineStepResult option"

record Application =
  ap_engine :: Engine
  ap_config :: ApplicationConfig
  ap_metrics :: ApplicationMetrics
  ap_commands :: "ReceiverCommand list"
  ap_state :: ApplicationState
  ap_current_index :: nat

definition app_new :: "ApplicationConfig \<Rightarrow> Application" where
  "app_new config =
     \<lparr>ap_engine = engine_new (ac_transaction_engine config), ap_config = config,
      ap_metrics = ApplicationMetrics_default, ap_commands = [], ap_state = AS_kIdle, ap_current_index = 0\<rparr>"

definition current_command :: "Application \<Rightarrow> ReceiverCommand option" where
  "current_command a =
     (if ap_current_index a \<ge> length (ap_commands a) then None
      else Some (ap_commands a ! ap_current_index a))"

definition BuildResult :: "Application \<Rightarrow> ApplicationResult" where
  "BuildResult a =
     \<lparr>ar_state = ap_state a, ar_command_index = ap_current_index a, ar_command_started = False,
      ar_command_finished = False, ar_command_succeeded = False, ar_command_failed = False,
      ar_command_required = True, ar_failure_ignored = False, ar_advanced_to_next_command = False,
      ar_response_applied = False, ar_retry_dispatched = False,
      ar_receiver_state_indeterminate = en_session_indeterminate (ap_engine a),
      ar_error_message = [], ar_engine_result = None\<rparr>"

text \<open>\<open>CompleteCurrentCommand\<close>: the counters, then the decision to continue, then the result.\<close>

definition count_completion :: "ApplicationMetrics \<Rightarrow> bool \<Rightarrow> bool \<Rightarrow> ApplicationMetrics" where
  "count_completion m succeeded required =
     (if succeeded then m\<lparr>am_commands_completed := am_commands_completed m + 1\<rparr>
      else
        let m1 = m\<lparr>am_commands_failed := am_commands_failed m + 1\<rparr> in
        if required then m1\<lparr>am_required_commands_failed := am_required_commands_failed m1 + 1\<rparr>
        else m1\<lparr>am_optional_commands_failed := am_optional_commands_failed m1 + 1\<rparr>)"

definition command_required :: "Application \<Rightarrow> bool" where
  "command_required a = (case current_command a of None \<Rightarrow> True | Some c \<Rightarrow> IsRequiredCommand c)"

definition should_continue :: "Application \<Rightarrow> bool \<Rightarrow> bool \<Rightarrow> bool" where
  "should_continue a succeeded allow_continuation \<longleftrightarrow>
     \<not> en_session_indeterminate (ap_engine a)
     \<and> (succeeded
        \<or> allow_continuation \<and> (ac_continue_on_error (ap_config a) \<or> \<not> command_required a))"

definition has_more_commands :: "Application \<Rightarrow> bool" where
  "has_more_commands a \<longleftrightarrow> ap_current_index a + 1 < length (ap_commands a)"

definition CompleteCurrentCommand ::
  "Application \<Rightarrow> EngineStepResult \<Rightarrow> bool \<Rightarrow> bool \<Rightarrow> string \<Rightarrow> string \<Rightarrow> bool
     \<Rightarrow> Application \<times> ApplicationResult" where
  "CompleteCurrentCommand a engine_result succeeded response_applied fallback_error_message error_message
       allow_continuation =
     (let m = count_completion (ap_metrics a) succeeded (command_required a);
          go_on = should_continue a succeeded allow_continuation;
          more = has_more_commands a;
          a1 = (if go_on
                then a\<lparr>ap_metrics := m, ap_current_index := ap_current_index a + 1,
                       ap_state := (if more then AS_kRunning else AS_kCompleted)\<rparr>
                else a\<lparr>ap_metrics := m, ap_state := AS_kFailed\<rparr>);
          message = (if error_message = []
                     then (if er_error_message engine_result = [] then fallback_error_message
                           else er_error_message engine_result)
                     else error_message)
      in (a1, (BuildResult a1)
             \<lparr>ar_command_finished := True, ar_command_succeeded := succeeded,
              ar_command_failed := \<not> succeeded, ar_command_required := command_required a,
              ar_failure_ignored := (\<not> succeeded \<and> go_on), ar_advanced_to_next_command := (go_on \<and> more),
              ar_response_applied := response_applied,
              ar_receiver_state_indeterminate := en_session_indeterminate (ap_engine a),
              ar_engine_result := Some engine_result, ar_error_message := message\<rparr>))"

definition HandleCommandFailure ::
  "Application \<Rightarrow> EngineStepResult \<Rightarrow> bool \<Rightarrow> string \<Rightarrow> string \<Rightarrow> Application \<times> ApplicationResult" where
  "HandleCommandFailure a engine_result response_applied fallback_error_message error_message =
     CompleteCurrentCommand a engine_result False response_applied fallback_error_message error_message True"

definition HandleTimeoutResult ::
  "Application \<Rightarrow> EngineStepResult \<Rightarrow> Application \<times> ApplicationResult" where
  "HandleTimeoutResult a timeout_result =
     (if er_status timeout_result \<noteq> ES_kTimedOut then
        (a, (BuildResult a)\<lparr>ar_engine_result := Some timeout_result,
                           ar_error_message := er_error_message timeout_result\<rparr>)
      else
        CompleteCurrentCommand
          (a\<lparr>ap_metrics := (ap_metrics a)\<lparr>am_timeouts_seen := am_timeouts_seen (ap_metrics a) + 1\<rparr>\<rparr>)
          timeout_result False False
          ''configuration command timed out after dispatch; receiver session is indeterminate'' [] False)"

definition ResetRunState :: "Application \<Rightarrow> Application" where
  "ResetRunState a =
     a\<lparr>ap_engine := engine_Reset (ap_engine a), ap_metrics := ApplicationMetrics_default,
       ap_commands := [], ap_state := AS_kIdle, ap_current_index := 0\<rparr>"

text \<open>The answer to a call the state does not allow.\<close>

definition refusal :: "Application \<Rightarrow> EngineStepStatus \<Rightarrow> string \<Rightarrow> ApplicationResult" where
  "refusal a status message =
     (BuildResult a)\<lparr>ar_error_message := message, ar_engine_result := Some (MakeStepResult status message)\<rparr>"

definition app_Step ::
  "('k \<Rightarrow> bytes \<Rightarrow> 'k \<times> WriteResult) \<Rightarrow> 'k \<Rightarrow> Application \<Rightarrow> timestamp_ns option
     \<Rightarrow> 'k \<times> Application \<times> ApplicationResult" where
  "app_Step put k a ts =
     (case ap_state a of
        AS_kIdle \<Rightarrow> (k, a, refusal a ES_kIdle ''configuration application is idle'')
      | AS_kWaitingForResponse \<Rightarrow>
          (k, a, refusal a ES_kBusy ''configuration application is waiting for a response'')
      | AS_kCompleted \<Rightarrow> (k, a, BuildResult a)
      | AS_kFailed \<Rightarrow> (k, a, BuildResult a)
      | AS_kRunning \<Rightarrow>
          if ap_current_index a \<ge> length (ap_commands a) then
            let a1 = a\<lparr>ap_state := AS_kCompleted\<rparr> in (k, a1, BuildResult a1)
          else
            let (k1, e1, engine_result) =
                  StartTransaction put k (ap_engine a) (ap_commands a ! ap_current_index a) ts;
                a1 = a\<lparr>ap_engine := e1, ap_metrics := (ap_metrics a)
                         \<lparr>am_commands_started := am_commands_started (ap_metrics a) + 1\<rparr>\<rparr> in
            if er_status engine_result = ES_kAcknowledged then
              let (a2, r) = CompleteCurrentCommand a1 engine_result True False
                              ''configuration command completed without a response'' [] True in
              (k1, a2, r\<lparr>ar_command_started := True\<rparr>)
            else if er_status engine_result \<noteq> ES_kDispatched then
              let (a2, r) = HandleCommandFailure a1 engine_result False
                              ''failed to dispatch configuration command'' [] in
              (k1, a2, r\<lparr>ar_command_started := True\<rparr>)
            else
              let a2 = a1\<lparr>ap_state := AS_kWaitingForResponse\<rparr> in
              (k1, a2, (BuildResult a2)\<lparr>ar_command_started := True, ar_engine_result := Some engine_result\<rparr>))"

definition app_Start ::
  "('k \<Rightarrow> bytes \<Rightarrow> 'k \<times> WriteResult) \<Rightarrow> 'k \<Rightarrow> Application \<Rightarrow> ReceiverCommand list \<Rightarrow> timestamp_ns option
     \<Rightarrow> 'k \<times> Application \<times> ApplicationResult" where
  "app_Start put k a commands ts =
     (if ap_state a = AS_kRunning \<or> ap_state a = AS_kWaitingForResponse then
        (k, a, refusal a ES_kBusy ''configuration application is already active'')
      else
        let a0 = ResetRunState a;
            a1 = a0\<lparr>ap_commands := commands,
                    ap_metrics := (ap_metrics a0)\<lparr>am_commands_total := word_of_nat (length commands)\<rparr>\<rparr> in
        if commands = [] then
          let a2 = a1\<lparr>ap_state := AS_kCompleted\<rparr> in (k, a2, BuildResult a2)
        else app_Step put k (a1\<lparr>ap_state := AS_kRunning\<rparr>) ts)"

definition app_ApplyResponse ::
  "Application \<Rightarrow> ReceiverCommandResponse \<Rightarrow> MatchMetadata \<Rightarrow> Application \<times> ApplicationResult" where
  "app_ApplyResponse a response match_metadata =
     (let (e1, engine_result) = engine_ApplyResponse (ap_engine a) response match_metadata;
          a1 = a\<lparr>ap_engine := e1\<rparr> in
      if er_status engine_result = ES_kResponseUnmatched
         \<or> er_status engine_result \<noteq> ES_kAcknowledged \<and> er_status engine_result \<noteq> ES_kRejected then
        (a1, (BuildResult a1)\<lparr>ar_engine_result := Some engine_result,
                             ar_error_message := er_error_message engine_result\<rparr>)
      else
        let a2 = a1\<lparr>ap_metrics := (ap_metrics a1)
                      \<lparr>am_responses_applied := am_responses_applied (ap_metrics a1) + 1\<rparr>\<rparr> in
        if er_status engine_result = ES_kAcknowledged then
          CompleteCurrentCommand a2 engine_result True True
            ''configuration command completed successfully'' [] True
        else
          HandleCommandFailure a2 engine_result True ''configuration command was rejected''
            (case en_completed_transaction e1 of None \<Rightarrow> [] | Some t \<Rightarrow> rsp_message (tx_response t)))"

definition app_MarkTimeout :: "Application \<Rightarrow> timestamp_ns option \<Rightarrow> Application \<times> ApplicationResult" where
  "app_MarkTimeout a ts =
     (let (e1, r) = engine_MarkTimeout (ap_engine a) ts in HandleTimeoutResult (a\<lparr>ap_engine := e1\<rparr>) r)"

definition app_CheckTimeout :: "Application \<Rightarrow> timestamp_ns \<Rightarrow> Application \<times> ApplicationResult" where
  "app_CheckTimeout a now =
     (let (e1, r) = engine_CheckTimeout (ap_engine a) now in HandleTimeoutResult (a\<lparr>ap_engine := e1\<rparr>) r)"

definition app_Reset :: "Application \<Rightarrow> Application" where
  "app_Reset a = ResetRunState a"

section \<open>One run of the application\<close>

datatype app_op =
    AO_Step "timestamp_ns option"
  | AO_Response ReceiverCommandResponse MatchMetadata
  | AO_MarkTimeout "timestamp_ns option"
  | AO_CheckTimeout timestamp_ns

definition app_exec ::
  "('k \<Rightarrow> bytes \<Rightarrow> 'k \<times> WriteResult) \<Rightarrow> 'k \<Rightarrow> Application \<Rightarrow> app_op \<Rightarrow> 'k \<times> Application \<times> ApplicationResult" where
  "app_exec put k a oper =
     (case oper of
        AO_Step ts \<Rightarrow> app_Step put k a ts
      | AO_Response response md \<Rightarrow> (k, app_ApplyResponse a response md)
      | AO_MarkTimeout ts \<Rightarrow> (k, app_MarkTimeout a ts)
      | AO_CheckTimeout now \<Rightarrow> (k, app_CheckTimeout a now))"

text \<open>The states of a run: \<open>Start\<close> on a new application, then any sequence of the other calls.\<close>

inductive app_run ::
  "('k \<Rightarrow> bytes \<Rightarrow> 'k \<times> WriteResult) \<Rightarrow> ApplicationConfig \<Rightarrow> ReceiverCommand list \<Rightarrow> 'k \<Rightarrow> 'k \<Rightarrow> Application \<Rightarrow> bool"
  for put :: "'k \<Rightarrow> bytes \<Rightarrow> 'k \<times> WriteResult" and config :: ApplicationConfig
    and cs :: "ReceiverCommand list" and k0 :: 'k where
  run_start: "app_Start put k0 (app_new config) cs ts = (k, a, r) \<Longrightarrow> app_run put config cs k0 k a"
| run_step: "\<lbrakk>app_run put config cs k0 k a; app_exec put k a oper = (k1, a1, r)\<rbrakk> \<Longrightarrow>
     app_run put config cs k0 k1 a1"

definition payload_of :: "ReceiverCommand \<Rightarrow> bytes" where
  "payload_of c = GetPayloadView (rc_payload c)"

abbreviation payloads_of :: "ReceiverCommand list \<Rightarrow> bytes" where
  "payloads_of cs \<equiv> concat (map payload_of cs)"

text \<open>No failure is to be tolerated: every command is required and the configuration does not continue.\<close>

definition strict :: "ApplicationConfig \<Rightarrow> ReceiverCommand list \<Rightarrow> bool" where
  "strict config cs \<longleftrightarrow> \<not> ac_continue_on_error config \<and> list_all IsRequiredCommand cs"

text \<open>What has been written in a given state: whole payloads of commands of the list, in order, then the
  part of the current command the state allows.\<close>

definition app_tail_ok :: "ReceiverCommand list \<Rightarrow> Application \<Rightarrow> bytes \<Rightarrow> bool" where
  "app_tail_ok cs a tail \<longleftrightarrow>
     (case ap_state a of
        AS_kIdle \<Rightarrow> False
      | AS_kRunning \<Rightarrow> tail = [] \<and> ap_current_index a < length cs
          \<and> en_current_transaction (ap_engine a) = None \<and> \<not> en_session_indeterminate (ap_engine a)
      | AS_kWaitingForResponse \<Rightarrow> ap_current_index a < length cs
          \<and> tail = payload_of (cs ! ap_current_index a) \<and> in_flight (ap_engine a)
      | AS_kCompleted \<Rightarrow> tail = [] \<and> ap_current_index a = length cs \<and> \<not> in_flight (ap_engine a)
      | AS_kFailed \<Rightarrow> ap_current_index a < length cs
          \<and> prefix tail (payload_of (cs ! ap_current_index a)) \<and> \<not> in_flight (ap_engine a)
          \<and> (tail = [] \<or> tail = payload_of (cs ! ap_current_index a) \<or> en_session_indeterminate (ap_engine a)))"

text \<open>Which of the commands before the current one have been written: only a command whose failure is tolerated may be
  left out, and each is counted once, as completed or, when left out, as failed.\<close>

definition chosen :: "(ReceiverCommand \<times> bool) list \<Rightarrow> ReceiverCommand list" where
  "chosen marked = map fst (filter snd marked)"

definition tolerated :: "ApplicationConfig \<Rightarrow> ReceiverCommand \<Rightarrow> bool" where
  "tolerated config c \<longleftrightarrow> ac_continue_on_error config \<or> \<not> IsRequiredCommand c"

definition failures_split :: "ApplicationMetrics \<Rightarrow> bool" where
  "failures_split m \<longleftrightarrow> am_commands_failed m = am_required_commands_failed m + am_optional_commands_failed m"

definition account_ok :: "ApplicationConfig \<Rightarrow> ReceiverCommand list \<Rightarrow> Application \<Rightarrow> bool list \<Rightarrow> bool" where
  "account_ok config cs a written \<longleftrightarrow>
     length written = ap_current_index a \<and> list_all (\<lambda>(c, w). w \<or> tolerated config c) (zip cs written)
     \<and> failures_split (ap_metrics a)
     \<and> (\<exists>completed failed. am_commands_completed (ap_metrics a) = of_nat completed
          \<and> am_commands_failed (ap_metrics a) = of_nat failed
          \<and> completed + failed = ap_current_index a + (if ap_state a = AS_kFailed then 1 else 0)
          \<and> length (filter Not written) \<le> failed)"

definition app_run_ok ::
  "('k \<Rightarrow> bytes) \<Rightarrow> ApplicationConfig \<Rightarrow> ReceiverCommand list \<Rightarrow> bytes \<Rightarrow> 'k \<Rightarrow> Application \<Rightarrow> bool" where
  "app_run_ok sent config cs base k a \<longleftrightarrow>
     ap_commands a = cs \<and> ap_config a = config
     \<and> (\<exists>written tail. account_ok config cs a written \<and> app_tail_ok cs a tail
          \<and> sent k = base @ payloads_of (chosen (zip cs written)) @ tail)"

lemma zip_snoc: "length ws < length cs \<Longrightarrow> zip cs (ws @ [w]) = zip cs ws @ [(cs ! length ws, w)]"
proof (induction ws arbitrary: cs)
  case Nil
  then show ?case by (cases cs) simp_all
next
  case (Cons v ws)
  then show ?case by (cases cs) simp_all
qed

lemma chosen_subseq: "subseq (chosen (zip cs written)) (take (length written) cs)"
proof (induction cs arbitrary: written)
  case (Cons c cs)
  then show ?case by (cases written) (auto simp: chosen_def)
qed (simp add: chosen_def)

lemma strict_chosen:
  assumes "strict config cs" and "list_all (\<lambda>(c, w). w \<or> tolerated config c) (zip cs written)"
  shows "chosen (zip cs written) = take (length written) cs"
  using assms
proof (induction cs arbitrary: written)
  case (Cons c cs)
  then show ?case by (cases written) (auto simp: chosen_def strict_def tolerated_def)
qed (simp add: chosen_def)

lemma chosen_all: "\<lbrakk>length written = length cs; filter Not written = []\<rbrakk> \<Longrightarrow> chosen (zip cs written) = cs"
proof (induction cs arbitrary: written)
  case (Cons c cs)
  then show ?case by (cases written) (auto simp: chosen_def split: if_splits)
qed (simp add: chosen_def)

lemma CompleteCurrentCommand_fields:
  "ap_commands (fst (CompleteCurrentCommand a er ok ra fb em al)) = ap_commands a"
  "ap_config (fst (CompleteCurrentCommand a er ok ra fb em al)) = ap_config a"
  "ap_engine (fst (CompleteCurrentCommand a er ok ra fb em al)) = ap_engine a"
  "ap_current_index (fst (CompleteCurrentCommand a er ok ra fb em al)) =
     (if should_continue a ok al then Suc (ap_current_index a) else ap_current_index a)"
  "ap_state (fst (CompleteCurrentCommand a er ok ra fb em al)) =
     (if should_continue a ok al then if has_more_commands a then AS_kRunning else AS_kCompleted
      else AS_kFailed)"
  "am_commands_completed (ap_metrics (fst (CompleteCurrentCommand a er ok ra fb em al))) =
     am_commands_completed (ap_metrics a) + of_bool ok"
  "am_commands_failed (ap_metrics (fst (CompleteCurrentCommand a er ok ra fb em al))) =
     am_commands_failed (ap_metrics a) + of_bool (\<not> ok)"
  "am_required_commands_failed (ap_metrics (fst (CompleteCurrentCommand a er ok ra fb em al))) =
     am_required_commands_failed (ap_metrics a) + of_bool (\<not> ok \<and> command_required a)"
  "am_optional_commands_failed (ap_metrics (fst (CompleteCurrentCommand a er ok ra fb em al))) =
     am_optional_commands_failed (ap_metrics a) + of_bool (\<not> ok \<and> \<not> command_required a)"
  by (simp_all add: CompleteCurrentCommand_def count_completion_def Let_def)

lemma should_continue_tolerated:
  "\<lbrakk>should_continue a False al; ap_current_index a < length (ap_commands a)\<rbrakk>
   \<Longrightarrow> tolerated (ap_config a) (ap_commands a ! ap_current_index a)"
  by (auto simp: should_continue_def tolerated_def command_required_def current_command_def)

text \<open>Completing the current command keeps the account, provided the slot is free again and what was
  written of the command is either nothing, or all of it, or the run stops here.\<close>

lemma complete_keeps_account:
  assumes idx: "ap_current_index a < length cs" and cmds: "ap_commands a = cs" "ap_config a = config"
    and account: "account_ok config cs a written" "ap_state a \<noteq> AS_kFailed"
    and sent: "sent k = base @ payloads_of (chosen (zip cs written)) @ tail"
      "prefix tail (payload_of (cs ! ap_current_index a))"
      "tail = [] \<or> tail = payload_of (cs ! ap_current_index a) \<or> en_session_indeterminate (ap_engine a)"
    and slot: "\<not> in_flight (ap_engine a)"
    and go: "should_continue a ok al \<Longrightarrow> en_current_transaction (ap_engine a) = None
      \<and> (tail = payload_of (cs ! ap_current_index a) \<or> \<not> ok \<and> tail = [])"
  shows "app_run_ok sent config cs base k (fst (CompleteCurrentCommand a er ok ra fb em al))"
proof -
  let ?i = "ap_current_index a"
  let ?a1 = "fst (CompleteCurrentCommand a er ok ra fb em al)"
  from account obtain completed failed where len: "length written = ?i"
    and tol: "list_all (\<lambda>(c, w). w \<or> tolerated config c) (zip cs written)"
    and counts: "am_commands_completed (ap_metrics a) = of_nat completed" "am_commands_failed (ap_metrics a) = of_nat failed"
      "completed + failed = ?i" "length (filter Not written) \<le> failed"
    and split: "failures_split (ap_metrics a)"
    by (auto simp: account_ok_def)
  have split1: "failures_split (ap_metrics ?a1)"
    using split by (simp add: failures_split_def CompleteCurrentCommand_fields)
  have counts1: "am_commands_completed (ap_metrics ?a1) = of_nat (completed + of_bool ok)"
    "am_commands_failed (ap_metrics ?a1) = of_nat (failed + of_bool (\<not> ok))"
    using counts(1,2) by (simp_all add: CompleteCurrentCommand_fields)
  show ?thesis
  proof (cases "should_continue a ok al")
    case False
    have "account_ok config cs ?a1 written"
      unfolding account_ok_def
    proof (intro conjI exI)
      show "completed + of_bool ok + (failed + of_bool (\<not> ok)) = ap_current_index ?a1 + (if ap_state ?a1 = AS_kFailed then 1 else 0)"
        using False counts(3) by (simp add: CompleteCurrentCommand_fields)
    qed (use False len tol counts(4) counts1 split1 in \<open>simp_all add: CompleteCurrentCommand_fields\<close>)
    moreover have "app_tail_ok cs ?a1 tail"
      using False idx sent(2,3) slot by (simp add: app_tail_ok_def CompleteCurrentCommand_fields)
    ultimately show ?thesis
      using cmds sent(1) unfolding app_run_ok_def by (auto simp: CompleteCurrentCommand_fields)
  next
    case True
    have det: "\<not> en_session_indeterminate (ap_engine a)" using True by (simp add: should_continue_def)
    have last: "\<not> has_more_commands a \<Longrightarrow> Suc ?i = length cs" using idx cmds by (simp add: has_more_commands_def)
    have more: "has_more_commands a \<Longrightarrow> Suc ?i < length cs" using cmds by (simp add: has_more_commands_def)
    have tail: "app_tail_ok cs ?a1 []"
      using True go [OF True] det last more slot
      by (auto simp: app_tail_ok_def CompleteCurrentCommand_fields in_flight_def)
    define w where "w \<longleftrightarrow> tail = payload_of (cs ! ?i)"
    from go [OF True] have w: "w \<or> \<not> ok \<and> tail = []" by (auto simp: w_def)
    have "w \<Longrightarrow> tail = payload_of (cs ! ?i)" by (simp add: w_def)
    have zip: "zip cs (written @ [w]) = zip cs written @ [(cs ! ?i, w)]" using zip_snoc [of written cs w] idx len by simp
    have state: "ap_state ?a1 \<noteq> AS_kFailed" using True by (simp add: CompleteCurrentCommand_fields)
    have "w \<or> tolerated config (cs ! ?i)"
      using w True should_continue_tolerated [of a al] idx cmds by auto
    have "account_ok config cs ?a1 (written @ [w])"
      unfolding account_ok_def
    proof (intro conjI exI)
      show "completed + of_bool ok + (failed + of_bool (\<not> ok)) = ap_current_index ?a1 + (if ap_state ?a1 = AS_kFailed then 1 else 0)"
        using True counts(3) state by (simp add: CompleteCurrentCommand_fields)
    qed (use True len tol counts(4) counts1 split1 zip \<open>w \<or> tolerated config (cs ! ?i)\<close> w in
        \<open>auto simp: CompleteCurrentCommand_fields\<close>)
    moreover have "sent k = base @ payloads_of (chosen (zip cs (written @ [w]))) @ []"
      using sent(1) w \<open>w \<Longrightarrow> tail = payload_of (cs ! ?i)\<close> by (auto simp: zip chosen_def)
    ultimately show ?thesis
      using tail cmds unfolding app_run_ok_def by (fastforce simp: CompleteCurrentCommand_fields)
  qed
qed

lemma app_Step_not_running:
  assumes "ap_state a \<noteq> AS_kRunning"
  shows "fst (app_Step put k a ts) = k \<and> fst (snd (app_Step put k a ts)) = a"
  using assms by (cases "ap_state a") (simp_all add: app_Step_def)

lemma app_run_ok_Step:
  assumes "byte_sink put sent" and "app_run_ok sent config cs base k a"
  shows "app_run_ok sent config cs base (fst (app_Step put k a ts)) (fst (snd (app_Step put k a ts)))"
proof (cases "ap_state a = AS_kRunning")
  case False
  with assms(2) app_Step_not_running [of a put k ts] show ?thesis by simp
next
  case True
  let ?i = "ap_current_index a"
  from assms(2) True obtain ws where cmds: "ap_commands a = cs" "ap_config a = config"
    and account: "account_ok config cs a ws"
    and written: "sent k = base @ payloads_of (chosen (zip cs ws))"
    and idx: "?i < length cs" and free: "en_current_transaction (ap_engine a) = None"
      "\<not> en_session_indeterminate (ap_engine a)"
    by (auto simp: app_run_ok_def app_tail_ok_def)
  obtain k1 e1 er where st: "StartTransaction put k (ap_engine a) (cs ! ?i) ts = (k1, e1, er)"
    by (metis prod_cases3)
  define a1 where "a1 = a\<lparr>ap_engine := e1, ap_metrics := (ap_metrics a)
                         \<lparr>am_commands_started := am_commands_started (ap_metrics a) + 1\<rparr>\<rparr>"
  have a1: "ap_commands a1 = cs" "ap_config a1 = config" "ap_engine a1 = e1" "ap_current_index a1 = ?i"
    "ap_state a1 = AS_kRunning" "account_ok config cs a1 ws"
    using cmds account True by (simp_all add: a1_def account_ok_def failures_split_def [of "_ \<lparr>am_commands_started := _\<rparr>"]
        failures_split_def [symmetric])
  from StartTransaction_cases [OF assms(1) st] free obtain n
    where n: "n \<le> length (payload_of (cs ! ?i))"
      and sent1: "sent k1 = base @ payloads_of (chosen (zip cs ws)) @ take n (payload_of (cs ! ?i))"
      and outcome: "er_status er = ES_kDispatchFailed \<and> en_current_transaction e1 = None
             \<and> en_session_indeterminate e1 = (0 < n)
           \<or> n = length (payload_of (cs ! ?i)) \<and>
             (if rc_expected_response (cs ! ?i) = RK_kNone
              then er_status er = ES_kAcknowledged \<and> en_current_transaction e1 = None
              else er_status er = ES_kDispatched \<and> in_flight e1)"
    by (fastforce simp: payload_of_def written split: if_splits)
  have complete: "app_run_ok sent config cs base k1 (fst (CompleteCurrentCommand a1 er ok False fb [] True))"
    if "en_current_transaction e1 = None"
      "n = length (payload_of (cs ! ?i)) \<or> \<not> ok \<and> (en_session_indeterminate e1 \<or> n = 0)" for ok fb
    by (rule complete_keeps_account [where written = ws and tail = "take n (payload_of (cs ! ?i))"])
      (use idx a1 sent1 that in
        \<open>auto simp: take_is_prefix should_continue_def in_flight_def\<close>)
  consider "er_status er = ES_kDispatchFailed" | "er_status er = ES_kAcknowledged"
    | "er_status er = ES_kDispatched" using outcome by (auto split: if_splits)
  then show ?thesis
  proof cases
    case 1
    then have "app_run_ok sent config cs base k1 (fst (CompleteCurrentCommand a1 er False False
        ''failed to dispatch configuration command'' [] True))"
      using outcome by (intro complete) (auto split: if_splits)
    with 1 True idx cmds st show ?thesis
      by (simp add: app_Step_def HandleCommandFailure_def a1_def split_beta Let_def)
  next
    case 2
    then have "app_run_ok sent config cs base k1 (fst (CompleteCurrentCommand a1 er True False
        ''configuration command completed without a response'' [] True))"
      using outcome by (intro complete) (auto split: if_splits)
    with 2 True idx cmds st show ?thesis by (simp add: app_Step_def a1_def split_beta Let_def)
  next
    case 3
    then have "fst (snd (app_Step put k a ts)) = a1\<lparr>ap_state := AS_kWaitingForResponse\<rparr>"
      "fst (app_Step put k a ts) = k1"
      using True idx cmds st by (simp_all add: app_Step_def a1_def split_beta Let_def)
    moreover have "in_flight e1" "n = length (payload_of (cs ! ?i))"
      using 3 outcome by (auto split: if_splits)
    ultimately show ?thesis
      using idx a1 sent1 unfolding app_run_ok_def
      by (intro conjI exI [of _ ws] exI [of _ "payload_of (cs ! ?i)"]) (simp_all add: app_tail_ok_def account_ok_def)
  qed
qed

lemma app_run_ok_waiting:
  assumes "app_run_ok sent config cs base k a" and "in_flight (ap_engine a)"
  shows "ap_state a = AS_kWaitingForResponse"
  using assms by (cases "ap_state a") (auto simp: app_run_ok_def app_tail_ok_def in_flight_def)

lemma app_run_ok_engine:
  assumes "app_run_ok sent config cs base k a"
    and "ap_commands a1 = ap_commands a" "ap_config a1 = ap_config a" "ap_state a1 = ap_state a"
      "ap_current_index a1 = ap_current_index a" "ap_metrics a1 = ap_metrics a"
    and "en_current_transaction (ap_engine a1) = en_current_transaction (ap_engine a)"
      "en_session_indeterminate (ap_engine a1) = en_session_indeterminate (ap_engine a)"
  shows "app_run_ok sent config cs base k a1"
proof -
  have "app_tail_ok cs a1 tail = app_tail_ok cs a tail" for tail
    using assms(4-8) by (cases "ap_state a") (simp_all add: app_tail_ok_def in_flight_def)
  with assms(1-6) show ?thesis by (simp add: app_run_ok_def account_ok_def)
qed

text \<open>A command that was in flight ends: its whole payload had been written.\<close>

lemma finish_in_flight:
  assumes "app_run_ok sent config cs base k a" and "in_flight (ap_engine a)"
    and "ap_commands a1 = ap_commands a" "ap_config a1 = ap_config a"
      "ap_current_index a1 = ap_current_index a" "ap_state a1 = ap_state a"
      "am_commands_completed (ap_metrics a1) = am_commands_completed (ap_metrics a)"
      "am_commands_failed (ap_metrics a1) = am_commands_failed (ap_metrics a)"
      "am_required_commands_failed (ap_metrics a1) = am_required_commands_failed (ap_metrics a)"
      "am_optional_commands_failed (ap_metrics a1) = am_optional_commands_failed (ap_metrics a)"
    and "\<not> in_flight (ap_engine a1)"
    and "should_continue a1 ok al \<Longrightarrow> en_current_transaction (ap_engine a1) = None"
  shows "app_run_ok sent config cs base k (fst (CompleteCurrentCommand a1 er ok ra fb em al))"
proof -
  note waiting = app_run_ok_waiting [OF assms(1,2)]
  with assms(1) obtain ws
    where "ap_commands a = cs" "ap_config a = config" "ap_current_index a < length cs"
      and "account_ok config cs a ws"
      and "sent k = base @ payloads_of (chosen (zip cs ws)) @ payload_of (cs ! ap_current_index a)"
    by (auto simp: app_run_ok_def app_tail_ok_def)
  moreover have "failures_split (ap_metrics a1) = failures_split (ap_metrics a)"
    using assms(8-10) by (simp add: failures_split_def)
  ultimately show ?thesis
    using assms(3-8,11,12) waiting
    by (intro complete_keeps_account [where written = ws and tail = "payload_of (cs ! ap_current_index a)"])
      (simp_all add: account_ok_def)
qed

lemma app_run_ok_ApplyResponse:
  assumes "app_run_ok sent config cs base k a"
  shows "app_run_ok sent config cs base k (fst (app_ApplyResponse a response md))"
proof -
  obtain e1 er where e: "engine_ApplyResponse (ap_engine a) response md = (e1, er)" by fastforce
  note outcome = ApplyResponse_cases [OF e]
  show ?thesis
  proof (cases "er_response_matched er")
    case False
    with outcome have "er_status er = ES_kResponseUnmatched"
      "en_current_transaction e1 = en_current_transaction (ap_engine a)"
      "en_session_indeterminate e1 = en_session_indeterminate (ap_engine a)"
      by (auto split: if_splits)
    then show ?thesis
      using assms by (intro app_run_ok_engine [OF assms]) (simp_all add: app_ApplyResponse_def e Let_def)
  next
    case True
    with outcome have flight: "in_flight (ap_engine a)" and slot: "en_current_transaction e1 = None"
      and status: "er_status er = ES_kAcknowledged \<or> er_status er = ES_kRejected"
      by (auto split: if_splits)
    from status show ?thesis
      by (auto simp: app_ApplyResponse_def HandleCommandFailure_def e Let_def in_flight_def slot
          intro!: finish_in_flight [OF assms flight])
  qed
qed

lemma app_run_ok_timeout:
  assumes "app_run_ok sent config cs base k a"
    and "er_status r = ES_kTimedOut \<Longrightarrow>
      in_flight (ap_engine a) \<and> \<not> in_flight e1 \<and> en_session_indeterminate e1"
    and "er_status r \<noteq> ES_kTimedOut \<Longrightarrow> e1 = ap_engine a"
  shows "app_run_ok sent config cs base k (fst (HandleTimeoutResult (a\<lparr>ap_engine := e1\<rparr>) r))"
proof (cases "er_status r = ES_kTimedOut")
  case True
  with assms(2) have flight: "in_flight (ap_engine a)" by simp
  from True assms(2) show ?thesis
    by (auto simp: HandleTimeoutResult_def should_continue_def intro!: finish_in_flight [OF assms(1) flight])
next
  case False
  with assms(1,3) show ?thesis by (simp add: HandleTimeoutResult_def)
qed

lemma engine_MarkTimeout_facts:
  "er_status (snd (engine_MarkTimeout s ts)) = ES_kTimedOut \<Longrightarrow>
     in_flight s \<and> \<not> in_flight (fst (engine_MarkTimeout s ts))
     \<and> en_session_indeterminate (fst (engine_MarkTimeout s ts))"
  "er_status (snd (engine_MarkTimeout s ts)) \<noteq> ES_kTimedOut \<Longrightarrow> fst (engine_MarkTimeout s ts) = s"
  by (auto simp: engine_MarkTimeout_def in_flight_def split: option.splits if_splits)

lemma engine_CheckTimeout_facts:
  "er_status (snd (engine_CheckTimeout s now)) = ES_kTimedOut \<Longrightarrow>
     in_flight s \<and> \<not> in_flight (fst (engine_CheckTimeout s now))
     \<and> en_session_indeterminate (fst (engine_CheckTimeout s now))"
  "er_status (snd (engine_CheckTimeout s now)) \<noteq> ES_kTimedOut \<Longrightarrow> fst (engine_CheckTimeout s now) = s"
  using engine_MarkTimeout_facts [of s "Some now"]
  by (auto simp: engine_CheckTimeout_def split: option.splits if_splits)

lemma app_run_ok_exec:
  assumes "byte_sink put sent" and "app_run_ok sent config cs base k a"
  shows "app_run_ok sent config cs base (fst (app_exec put k a oper)) (fst (snd (app_exec put k a oper)))"
proof (cases oper)
  case (AO_Step ts)
  with app_run_ok_Step [OF assms] show ?thesis by (simp add: app_exec_def)
next
  case (AO_Response response md)
  with app_run_ok_ApplyResponse [OF assms(2)] show ?thesis by (simp add: app_exec_def)
next
  case (AO_MarkTimeout ts)
  with app_run_ok_timeout [OF assms(2) engine_MarkTimeout_facts] show ?thesis
    by (simp add: app_exec_def app_MarkTimeout_def split_beta)
next
  case (AO_CheckTimeout now)
  with app_run_ok_timeout [OF assms(2) engine_CheckTimeout_facts] show ?thesis
    by (simp add: app_exec_def app_CheckTimeout_def split_beta)
qed

lemma app_run_ok_Start:
  assumes "byte_sink put sent"
  shows "app_run_ok sent config cs (sent k0) (fst (app_Start put k0 (app_new config) cs ts))
    (fst (snd (app_Start put k0 (app_new config) cs ts)))"
proof (cases "cs = []")
  case True
  then show ?thesis
    by (simp add: app_Start_def app_new_def ResetRunState_def app_run_ok_def app_tail_ok_def in_flight_def account_ok_def failures_split_def
        engine_new_def engine_Reset_def ApplicationMetrics_default_def chosen_def Let_def)
next
  case False
  let ?a = "(ResetRunState (app_new config))\<lparr>ap_commands := cs,
      ap_metrics := (ap_metrics (ResetRunState (app_new config)))\<lparr>am_commands_total := word_of_nat (length cs)\<rparr>,
      ap_state := AS_kRunning\<rparr>"
  have "app_run_ok sent config cs (sent k0) k0 ?a"
    using False
    by (simp add: app_new_def ResetRunState_def app_run_ok_def app_tail_ok_def engine_new_def engine_Reset_def
        account_ok_def failures_split_def ApplicationMetrics_default_def chosen_def)
  from app_run_ok_Step [OF assms this, of ts] False show ?thesis
    by (simp add: app_Start_def app_new_def Let_def)
qed

lemma app_run_account:
  assumes "byte_sink put sent" and "app_run put config cs k0 k a"
  shows "app_run_ok sent config cs (sent k0) k a"
  using assms(2)
proof (induction rule: app_run.induct)
  case (run_start ts k a r)
  with app_run_ok_Start [OF assms(1), of config cs k0 ts] show ?case by simp
next
  case (run_step k a oper k1 a1 r)
  with app_run_ok_exec [OF assms(1), of config cs "sent k0" k a oper] show ?case by simp
qed

section \<open>Properties\<close>

text \<open>A concrete run over the in-memory sink: a command without a response, then one that is rejected.\<close>

definition demo_app_config :: ApplicationConfig where
  "demo_app_config = \<lparr>ac_transaction_engine = demo_config, ac_continue_on_error = False\<rparr>"

definition demo_commands :: "ReceiverCommand list" where
  "demo_commands = [demo_command\<lparr>rc_expected_response := RK_kNone\<rparr>, demo_command]"

definition demo_started :: "MemoryByteSink \<times> Application \<times> ApplicationResult" where
  "demo_started = app_Start mem_write MemoryByteSink_new (app_new demo_app_config) demo_commands (Some 0)"

definition demo_waiting :: "MemoryByteSink \<times> Application \<times> ApplicationResult" where
  "demo_waiting = app_exec mem_write (fst demo_started) (fst (snd demo_started)) (AO_Step (Some 1))"

definition demo_done :: "MemoryByteSink \<times> Application \<times> ApplicationResult" where
  "demo_done = app_exec mem_write (fst demo_waiting) (fst (snd demo_waiting))
     (AO_Response (ReceiverCommandResponse_default\<lparr>rsp_kind := CR_kTextOk\<rparr>) None)"

definition demo_failed :: "MemoryByteSink \<times> Application \<times> ApplicationResult" where
  "demo_failed = app_exec mem_write (fst demo_waiting) (fst (snd demo_waiting)) (AO_MarkTimeout None)"

lemma demo_run:
  "app_run mem_write demo_app_config demo_commands MemoryByteSink_new (fst demo_waiting) (fst (snd demo_waiting))"
  "app_run mem_write demo_app_config demo_commands MemoryByteSink_new (fst demo_done) (fst (snd demo_done))"
  "app_run mem_write demo_app_config demo_commands MemoryByteSink_new (fst demo_failed) (fst (snd demo_failed))"
proof -
  have "app_run mem_write demo_app_config demo_commands MemoryByteSink_new (fst demo_started) (fst (snd demo_started))"
    by (rule run_start [of _ _ _ _ "Some 0" _ _ "snd (snd demo_started)"]) (simp add: demo_started_def)
  then show waiting: "app_run mem_write demo_app_config demo_commands MemoryByteSink_new (fst demo_waiting) (fst (snd demo_waiting))"
    by (rule run_step [of _ _ _ _ _ _ "AO_Step (Some 1)" _ _ "snd (snd demo_waiting)"]) (simp add: demo_waiting_def)
  show "app_run mem_write demo_app_config demo_commands MemoryByteSink_new (fst demo_done) (fst (snd demo_done))"
    by (rule run_step [OF waiting, of _ _ _ "snd (snd demo_done)"]) (simp add: demo_done_def)
  show "app_run mem_write demo_app_config demo_commands MemoryByteSink_new (fst demo_failed) (fst (snd demo_failed))"
    by (rule run_step [OF waiting, of _ _ _ "snd (snd demo_failed)"]) (simp add: demo_failed_def)
qed

lemma demo_states:
  "ap_state (fst (snd demo_done)) = AS_kCompleted" "ap_state (fst (snd demo_failed)) = AS_kFailed"
  "payloads_of demo_commands = [0x41, 0x42, 0x41, 0x42]"
  by code_simp+

text \<open>C10. At every moment of a run that applies a list of commands over a sink accepting prefixes, what has been
  written is the whole payloads of the commands before the current one, in the order of the list, then a part of the
  payload of the current one.  Of the commands before the current one only those may be missing whose failure is
  tolerated (a command that is not required, or any when the configuration continues on errors); each of these commands
  is counted once, as completed or as failed, and those missing are among the failed.  The part of the current payload is
  empty while running and complete while its response is awaited; a failed run has written none of it, or all, or has
  quarantined the session; and a completed run has gone through the whole list and written nothing else, so that it has
  written the whole list when no failure is tolerated.\<close>

theorem config_commands_in_order:
  assumes "byte_sink put sent" and "app_run put config cs k0 k a"
  shows "\<exists>written tail completed failed.
      sent k = sent k0 @ payloads_of (chosen (zip cs written)) @ tail
      \<and> length written = ap_current_index a
      \<and> list_all (\<lambda>(c, w). w \<or> tolerated config c) (zip cs written)
      \<and> am_commands_completed (ap_metrics a) = of_nat completed \<and> am_commands_failed (ap_metrics a) = of_nat failed
      \<and> completed + failed = ap_current_index a + (if ap_state a = AS_kFailed then 1 else 0)
      \<and> length (filter Not written) \<le> failed
      \<and> (case ap_state a of
           AS_kIdle \<Rightarrow> False
         | AS_kRunning \<Rightarrow> tail = [] \<and> ap_current_index a < length cs
         | AS_kWaitingForResponse \<Rightarrow> ap_current_index a < length cs \<and> tail = payload_of (cs ! ap_current_index a)
         | AS_kCompleted \<Rightarrow> tail = [] \<and> ap_current_index a = length cs
             \<and> (strict config cs \<longrightarrow> sent k = sent k0 @ payloads_of cs)
         | AS_kFailed \<Rightarrow> ap_current_index a < length cs \<and> prefix tail (payload_of (cs ! ap_current_index a))
             \<and> (tail = [] \<or> tail = payload_of (cs ! ap_current_index a) \<or> en_session_indeterminate (ap_engine a)))"
proof -
  from app_run_account [OF assms] obtain written tail where account: "account_ok config cs a written"
    and tail: "app_tail_ok cs a tail" and sent: "sent k = sent k0 @ payloads_of (chosen (zip cs written)) @ tail"
    by (auto simp: app_run_ok_def)
  from account obtain completed failed where counts: "am_commands_completed (ap_metrics a) = of_nat completed"
    "am_commands_failed (ap_metrics a) = of_nat failed" "length (filter Not written) \<le> failed"
    "completed + failed = ap_current_index a + (if ap_state a = AS_kFailed then 1 else 0)"
    by (auto simp: account_ok_def)
  have "strict config cs \<Longrightarrow> chosen (zip cs written) = take (ap_current_index a) cs"
    using account strict_chosen by (auto simp: account_ok_def)
  with account tail sent counts show ?thesis
    by (intro exI [of _ written] exI [of _ tail] exI [of _ completed] exI [of _ failed])
      (cases "ap_state a"; simp add: app_tail_ok_def account_ok_def)
qed

theorem config_commands_in_order_witness:
  "mk_output (fst demo_done) = [0x41, 0x42, 0x41, 0x42]"
proof -
  have "strict demo_app_config demo_commands"
    by (simp add: strict_def demo_app_config_def demo_commands_def demo_command_def SetTextPayload_def
        IsRequiredCommand_def ReceiverCommand_default_def)
  with config_commands_in_order [OF mem.byte_sink_axioms demo_run(2)] demo_states(1)
  have "mk_output (fst demo_done) = mk_output MemoryByteSink_new @ payloads_of demo_commands" by auto
  then show ?thesis unfolding demo_states(3) by (simp add: MemoryByteSink_new_def)
qed

text \<open>A failed run stays failed: no later step, response or timeout check writes a byte, moves to another
  command or changes the state.\<close>

lemma config_failure_stops:
  assumes "byte_sink put sent" and "app_run put config cs k0 k a" and "ap_state a = AS_kFailed"
    and "app_exec put k a oper = (k1, a1, r)"
  shows "k1 = k \<and> ap_state a1 = AS_kFailed \<and> ap_current_index a1 = ap_current_index a
    \<and> ap_commands a1 = ap_commands a \<and> ap_metrics a1 = ap_metrics a"
proof -
  have idle: "\<not> in_flight (ap_engine a)"
    using app_run_account [OF assms(1,2)] assms(3) by (auto simp: app_run_ok_def app_tail_ok_def)
  show ?thesis
  proof (cases oper)
    case (AO_Step ts)
    with assms(3,4) app_Step_not_running [of a put k ts] show ?thesis by (simp add: app_exec_def)
  next
    case (AO_Response response md)
    obtain e1 er where e: "engine_ApplyResponse (ap_engine a) response md = (e1, er)" by fastforce
    from ApplyResponse_cases [OF e] idle have "er_status er = ES_kResponseUnmatched"
      by (auto split: if_splits)
    with AO_Response e assms(3,4) show ?thesis by (auto simp: app_exec_def app_ApplyResponse_def Let_def)
  next
    case (AO_MarkTimeout ts)
    with assms(3,4) idle engine_MarkTimeout_facts [of "ap_engine a" ts] show ?thesis
      by (auto simp: app_exec_def app_MarkTimeout_def HandleTimeoutResult_def split_beta split: if_splits)
  next
    case (AO_CheckTimeout now)
    with assms(3,4) idle engine_CheckTimeout_facts [of "ap_engine a" now] show ?thesis
      by (auto simp: app_exec_def app_CheckTimeout_def HandleTimeoutResult_def split_beta split: if_splits)
  qed
qed

theorem config_failure_stops_witness:
  "ap_state (fst (snd (app_exec mem_write (fst demo_failed) (fst (snd demo_failed)) (AO_Step None)))) = AS_kFailed"
proof -
  let ?x = "app_exec mem_write (fst demo_failed) (fst (snd demo_failed)) (AO_Step None)"
  have "?x = (fst ?x, fst (snd ?x), snd (snd ?x))" by simp
  from config_failure_stops [OF mem.byte_sink_axioms demo_run(3) demo_states(2) this] show ?thesis by blast
qed

end
