(* ===== verification/Response_Routers.thy ===== *)
theory Response_Routers
  imports Ubx_Cfg_Builder Receiver_Command Cxx_Text
begin

text \<open>
  The two components that turn a receiver's answers into \<open>ReceiverCommandResponse\<close>s:
  \<open>UbloxResponseRouter\<close> (gnss_driver/src/ublox_response_router.cpp, with \<open>ParseUbxAck\<close> of
  gnss_protocols/src/ubx_parser.cpp), which reads UBX frames, and \<open>UnicoreResponseRouter\<close>
  (gnss_driver/src/unicore_response_router.cpp), which reassembles and classifies text lines.
  Both queue what they recognise; the contract of that queue is the locale \<open>response_router\<close>.
\<close>

section \<open>The contract of a router\<close>

text \<open>\<open>classify x\<close> are the responses an input is worth; \<open>pending\<close> is the queue.\<close>

locale response_router =
  fixes process :: "'s \<Rightarrow> 'x \<Rightarrow> 's"
    and take_one :: "'s \<Rightarrow> 's \<times> 'r option"
    and pending :: "'s \<Rightarrow> 'r list"
    and classify :: "'x \<Rightarrow> 'r list"
  assumes pending_process: "pending (process s x) = pending s @ classify x"
    and take_one_empty: "pending s = [] \<Longrightarrow> take_one s = (s, None)"
    and take_one_cons: "pending s = r # rs \<Longrightarrow> snd (take_one s) = Some r \<and> pending (fst (take_one s)) = rs"
begin

text \<open>Inputs (\<open>Inl\<close>) and removals (\<open>Inr\<close>) in any order: the final state and the responses removed.\<close>

fun route :: "'s \<Rightarrow> ('x + unit) list \<Rightarrow> 's \<times> 'r list" where
  "route s [] = (s, [])"
| "route s (Inl x # ops) = route (process s x) ops"
| "route s (Inr _ # ops) =
     (case take_one s of (s1, out) \<Rightarrow> case route s1 ops of (s2, rs) \<Rightarrow> (s2, (case out of None \<Rightarrow> rs | Some r \<Rightarrow> r # rs)))"

lemma route_fifo:
  "snd (route s ops) @ pending (fst (route s ops))
     = pending s @ concat (map (case_sum classify (\<lambda>_. [])) ops)"
proof (induction s ops rule: route.induct)
  case (1 s)
  then show ?case by simp
next
  case (2 s x ops)
  then show ?case by (simp add: pending_process)
next
  case (3 s u ops)
  show ?case
  proof (cases "pending s")
    case Nil
    with 3 show ?thesis by (simp add: take_one_empty split_beta)
  next
    case (Cons r rs)
    from take_one_cons [OF this] obtain s1 where s1: "take_one s = (s1, Some r)" "pending s1 = rs"
      by (cases "take_one s") auto
    with 3 [OF s1(1) [symmetric]] Cons show ?thesis by (simp add: split_beta)
  qed
qed

end

section \<open>\<open>ParseUbxAck\<close>\<close>

definition ParseUbxAck :: "UbxFrame \<Rightarrow> UbxAckRecord ParserResult" where
  "ParseUbxAck frame =
     (if ubx_class_id frame \<noteq> 0x05 \<or> ubx_message_id frame \<noteq> 0x00 \<and> ubx_message_id frame \<noteq> 0x01 then Skipped
      else if ubx_checksum_status frame \<noteq> CS_kValid then InvalidData
      else if length (ubx_payload frame) \<noteq> 2 then InvalidData
      else RecordReady
        \<lparr>uar_timestamp_ns = ubx_timestamp_ns frame,
         uar_kind = (if ubx_message_id frame = 0x01 then UA_kAck else UA_kNak),
         uar_target_class_id = ubx_payload frame ! 0,
         uar_target_message_id = ubx_payload frame ! 1\<rparr>)"

section \<open>The u-blox router\<close>

record UbloxRoutedResponse =
  urr_response :: ReceiverCommandResponse
  urr_ubx_target :: "UbxMessageIdentity option"

record UbloxRouterMetrics =
  urm_frames_seen :: u64
  urm_ack_frames_seen :: u64
  urm_nak_frames_seen :: u64
  urm_responses_generated :: u64
  urm_ignored_frames :: u64
  urm_malformed_frames :: u64

definition UbloxRouterMetrics_default :: UbloxRouterMetrics where
  "UbloxRouterMetrics_default =
     \<lparr>urm_frames_seen = 0, urm_ack_frames_seen = 0, urm_nak_frames_seen = 0,
      urm_responses_generated = 0, urm_ignored_frames = 0, urm_malformed_frames = 0\<rparr>"

record UbloxResponseRouter =
  ubr_queued_responses :: "UbloxRoutedResponse list"
  ubr_metrics :: UbloxRouterMetrics

definition ubr_new :: UbloxResponseRouter where
  "ubr_new = \<lparr>ubr_queued_responses = [], ubr_metrics = UbloxRouterMetrics_default\<rparr>"

definition routed_response :: "UbxAckRecord \<Rightarrow> u64 option \<Rightarrow> UbloxRoutedResponse" where
  "routed_response r capture_generation =
     \<lparr>urr_response = (MapUbxAckRecordToReceiverCommandResponse r)
        \<lparr>rsp_capture_generation := capture_generation\<rparr>,
      urr_ubx_target = Some \<lparr>umi_class_id = uar_target_class_id r,
                             umi_message_id = uar_target_message_id r\<rparr>\<rparr>"

definition ProcessUbxFrame ::
  "UbloxResponseRouter \<Rightarrow> UbxFrame \<Rightarrow> u64 option \<Rightarrow> UbloxResponseRouter \<times> bool" where
  "ProcessUbxFrame s frame capture_generation =
     (let m = (ubr_metrics s)\<lparr>urm_frames_seen := urm_frames_seen (ubr_metrics s) + 1\<rparr>;
          parsed = ParseUbxAck frame in
      case (pr_status parsed = PS_kRecordReady, pr_record parsed) of
        (True, Some r) \<Rightarrow>
          let m1 = (if uar_kind r = UA_kAck
                    then m\<lparr>urm_ack_frames_seen := urm_ack_frames_seen m + 1\<rparr>
                    else m\<lparr>urm_nak_frames_seen := urm_nak_frames_seen m + 1\<rparr>) in
          (s\<lparr>ubr_queued_responses := ubr_queued_responses s @ [routed_response r capture_generation],
             ubr_metrics := m1\<lparr>urm_responses_generated := urm_responses_generated m1 + 1\<rparr>\<rparr>, True)
      | _ \<Rightarrow>
          if pr_status parsed = PS_kInvalidData \<or> pr_status parsed = PS_kOverflow
             \<or> pr_status parsed = PS_kTruncated
          then (s\<lparr>ubr_metrics := m\<lparr>urm_malformed_frames := urm_malformed_frames m + 1\<rparr>\<rparr>, False)
          else (s\<lparr>ubr_metrics := m\<lparr>urm_ignored_frames := urm_ignored_frames m + 1\<rparr>\<rparr>, False))"

definition ubr_TryGetResponse :: "UbloxResponseRouter \<Rightarrow> UbloxRoutedResponse option" where
  "ubr_TryGetResponse s =
     (case ubr_queued_responses s of [] \<Rightarrow> None | r # _ \<Rightarrow> Some r)"

definition ubr_PopResponse :: "UbloxResponseRouter \<Rightarrow> UbloxResponseRouter \<times> UbloxRoutedResponse option" where
  "ubr_PopResponse s =
     (case ubr_queued_responses s of
        [] \<Rightarrow> (s, None)
      | r # rs \<Rightarrow> (s\<lparr>ubr_queued_responses := rs\<rparr>, Some r))"

definition ubr_Reset :: "UbloxResponseRouter \<Rightarrow> UbloxResponseRouter" where
  "ubr_Reset s = s\<lparr>ubr_queued_responses := [], ubr_metrics := UbloxRouterMetrics_default\<rparr>"

text \<open>What a frame is worth: the response of its acknowledgement, if it is one.\<close>

definition ubx_responses :: "UbxFrame \<times> u64 option \<Rightarrow> UbloxRoutedResponse list" where
  "ubx_responses x =
     (case pr_record (ParseUbxAck (fst x)) of None \<Rightarrow> [] | Some r \<Rightarrow> [routed_response r (snd x)])"

definition ubr_step :: "UbloxResponseRouter \<Rightarrow> UbxFrame \<times> u64 option \<Rightarrow> UbloxResponseRouter" where
  "ubr_step s x = fst (ProcessUbxFrame s (fst x) (snd x))"

lemma ParseUbxAck_range: "ParseUbxAck frame \<in> insert Skipped (insert InvalidData (range RecordReady))"
  by (simp add: ParseUbxAck_def)

lemma ParseUbxAck_cases:
  obtains (ack) r where "ParseUbxAck frame = RecordReady r"
  | (skip) "ParseUbxAck frame = Skipped"
  | (bad) "ParseUbxAck frame = InvalidData"
  using ParseUbxAck_range [of frame] by blast

interpretation ubr: response_router ubr_step ubr_PopResponse ubr_queued_responses ubx_responses
proof
  show "ubr_queued_responses (ubr_step s x) = ubr_queued_responses s @ ubx_responses x" for s x
    by (cases "fst x" rule: ParseUbxAck_cases)
      (simp_all add: ubr_step_def ProcessUbxFrame_def ubx_responses_def Let_def)
qed (auto simp: ubr_PopResponse_def)

text \<open>Every frame seen is counted once more: as a response, as malformed, or as ignored.\<close>

definition ubr_balanced :: "UbloxResponseRouter \<Rightarrow> bool" where
  "ubr_balanced s \<longleftrightarrow>
     urm_frames_seen (ubr_metrics s)
       = urm_responses_generated (ubr_metrics s) + urm_ignored_frames (ubr_metrics s)
         + urm_malformed_frames (ubr_metrics s)
     \<and> urm_responses_generated (ubr_metrics s)
       = urm_ack_frames_seen (ubr_metrics s) + urm_nak_frames_seen (ubr_metrics s)"

lemma ubr_balanced_new: "ubr_balanced ubr_new"
  by (simp add: ubr_balanced_def ubr_new_def UbloxRouterMetrics_default_def)

lemma ubr_balanced_step: "ubr_balanced s \<Longrightarrow> ubr_balanced (ubr_step s x)"
  by (cases "fst x" rule: ParseUbxAck_cases)
    (auto simp: ubr_step_def ProcessUbxFrame_def ubr_balanced_def Let_def algebra_simps)

lemma ubr_balanced_pop: "ubr_balanced s \<Longrightarrow> ubr_balanced (fst (ubr_PopResponse s))"
  by (auto simp: ubr_PopResponse_def ubr_balanced_def split: list.split)

lemma ubr_balanced_route: "ubr_balanced s \<Longrightarrow> ubr_balanced (fst (ubr.route s ops))"
proof (induction s ops rule: ubr.route.induct)
  case (3 s u ops)
  obtain s1 out where "ubr_PopResponse s = (s1, out)" by fastforce
  with 3 ubr_balanced_pop [OF 3(2)] show ?case by (simp add: split_beta)
qed (simp_all add: ubr_balanced_step)

section \<open>The Unicore router: classification of a line\<close>

definition kIgnoredTelemetryPrefixes :: "string list" where
  "kIgnoredTelemetryPrefixes =
     [''#BESTNAVA'', ''#BESTNAVB'', ''#PVTSLNA'', ''#PVTSLNB'', ''#RTKSTATUSA'', ''#RTKSTATUSB'',
      ''#RTCMSTATUSA'', ''#RTCMSTATUSB'', ''#BESTSATA'', ''#BESTSATB'', ''#SATSINFOA'', ''#SATSINFOB'',
      ''#AGCA'', ''#AGCB'', ''#HWSTATUSA'', ''#HWSTATUSB'', ''#JAMSTATUSA'', ''#JAMSTATUSB'',
      ''#FREQJAMSTATUSA'', ''#FREQJAMSTATUSB'', ''#OBSVMCMPA'', ''#OBSVMCMPB'']"

definition kIgnoredNmeaPrefixes :: "string list" where
  "kIgnoredNmeaPrefixes =
     [''$GPGGA'', ''$GNGGA'', ''$GPGSV'', ''$GLGSV'', ''$GAGSV'', ''$GBGSV'', ''$GPGST'', ''$GNGST'',
      ''$GNHPR'', ''$GPHPR'', ''$GNHPR2'', ''$GPHPR2'']"

definition kNegativeResponseHints :: "string list" where
  "kNegativeResponseHints =
     [''unsupported'', ''parsing failed'', ''grammar error'',
      ''response can'' @ [CHR 0x27] @ ''t found device'', ''response cant found device'']"

definition ToLowerAscii :: "string \<Rightarrow> string" where
  "ToLowerAscii s = map c_tolower s"

text \<open>The lambda \<open>update_best\<close> of \<open>TrimLeadingResponseNoise\<close>.\<close>

definition update_best :: "nat option \<Rightarrow> nat option \<Rightarrow> nat option" where
  "update_best best pos =
     (case pos of
        None \<Rightarrow> best
      | Some p \<Rightarrow>
          if p = 0 then best
          else (case best of None \<Rightarrow> Some p | Some b \<Rightarrow> if p < b then Some p else best))"

definition TrimLeadingResponseNoise :: "string \<Rightarrow> string" where
  "TrimLeadingResponseNoise line =
     (let b1 = update_best None (find_sub ''$command,'' line);
          b2 = update_best b1 (find_sub ''<OK'' line);
          b3 = update_best b2 (find_sub ''#VERSIONA'' line);
          lower = ToLowerAscii line;
          b4 = foldl (\<lambda>b hint. update_best b (find_sub hint lower)) b3 kNegativeResponseHints in
      case b4 of None \<Rightarrow> line | Some p \<Rightarrow> drop p line)"

definition IsPrintableAsciiText :: "string \<Rightarrow> bool" where
  "IsPrintableAsciiText s \<longleftrightarrow>
     list_all (\<lambda>c. c = CHR 0x09 \<or> \<not> (char_code c < 0x20 \<or> char_code c > 0x7E)) s"

definition MatchesOkResponse :: "string \<Rightarrow> bool" where
  "MatchesOkResponse line \<longleftrightarrow>
     line = ''<OK'' \<or> StartsWith line ''<OK '' \<or> StartsWith line ''<OK,''"

definition MatchesCommandAcceptedResponse :: "string \<Rightarrow> bool" where
  "MatchesCommandAcceptedResponse line \<longleftrightarrow>
     StartsWith line ''$command,'' \<and> find_sub '',response: ok'' (ToLowerAscii line) \<noteq> None"

definition MatchesVersionResponse :: "string \<Rightarrow> bool" where
  "MatchesVersionResponse line \<longleftrightarrow> StartsWith line ''#VERSIONA''"

definition MatchesNegativeResponse :: "string \<Rightarrow> bool" where
  "MatchesNegativeResponse line \<longleftrightarrow>
     list_ex (\<lambda>hint. find_sub hint (ToLowerAscii line) \<noteq> None) kNegativeResponseHints"

definition IsIgnoredTelemetryLine :: "string \<Rightarrow> bool" where
  "IsIgnoredTelemetryLine line \<longleftrightarrow>
     list_ex (StartsWith line) kIgnoredTelemetryPrefixes \<or> list_ex (StartsWith line) kIgnoredNmeaPrefixes"

definition BuildResponse ::
  "ReceiverCommandResponseKind \<Rightarrow> timestamp_ns option \<Rightarrow> u64 option \<Rightarrow> string \<Rightarrow> ReceiverCommandResponse" where
  "BuildResponse kind timestamp_ns capture_generation message =
     \<lparr>rsp_kind = kind, rsp_timestamp_ns = timestamp_ns, rsp_capture_generation = capture_generation,
      rsp_message = message\<rparr>"

section \<open>The Unicore router: lines and bytes\<close>

record UnicoreRouterMetrics =
  unm_lines_seen :: u64
  unm_ok_responses_seen :: u64
  unm_error_responses_seen :: u64
  unm_responses_generated :: u64
  unm_ignored_lines :: u64
  unm_malformed_lines :: u64

definition UnicoreRouterMetrics_default :: UnicoreRouterMetrics where
  "UnicoreRouterMetrics_default =
     \<lparr>unm_lines_seen = 0, unm_ok_responses_seen = 0, unm_error_responses_seen = 0,
      unm_responses_generated = 0, unm_ignored_lines = 0, unm_malformed_lines = 0\<rparr>"

record UnicoreResponseRouter =
  unr_queued_responses :: "ReceiverCommandResponse list"
  unr_buffered_line :: string
  unr_line_timestamp_ns :: "timestamp_ns option"
  unr_line_capture_generation :: "u64 option"
  unr_metrics :: UnicoreRouterMetrics

definition unr_new :: UnicoreResponseRouter where
  "unr_new =
     \<lparr>unr_queued_responses = [], unr_buffered_line = [], unr_line_timestamp_ns = None,
      unr_line_capture_generation = None, unr_metrics = UnicoreRouterMetrics_default\<rparr>"

definition normalized_line :: "string \<Rightarrow> string" where
  "normalized_line line = TrimLeadingResponseNoise (take (TrimLineEnding line) line)"

definition ProcessLine ::
  "UnicoreResponseRouter \<Rightarrow> string \<Rightarrow> timestamp_ns option \<Rightarrow> u64 option \<Rightarrow> UnicoreResponseRouter \<times> bool" where
  "ProcessLine s line ts capture_generation =
     (let m = (unr_metrics s)\<lparr>unm_lines_seen := unm_lines_seen (unr_metrics s) + 1\<rparr>;
          normalized = normalized_line line in
      if normalized = [] \<or> \<not> IsPrintableAsciiText normalized then
        (s\<lparr>unr_metrics := m\<lparr>unm_malformed_lines := unm_malformed_lines m + 1\<rparr>\<rparr>, False)
      else if MatchesNegativeResponse normalized then
        (s\<lparr>unr_queued_responses :=
             unr_queued_responses s @ [BuildResponse CR_kTextError ts capture_generation normalized],
           unr_metrics := m\<lparr>unm_error_responses_seen := unm_error_responses_seen m + 1,
                            unm_responses_generated := unm_responses_generated m + 1\<rparr>\<rparr>, True)
      else if MatchesOkResponse normalized \<or> MatchesCommandAcceptedResponse normalized
              \<or> MatchesVersionResponse normalized then
        (s\<lparr>unr_queued_responses :=
             unr_queued_responses s @ [BuildResponse CR_kTextOk ts capture_generation normalized],
           unr_metrics := m\<lparr>unm_ok_responses_seen := unm_ok_responses_seen m + 1,
                            unm_responses_generated := unm_responses_generated m + 1\<rparr>\<rparr>, True)
      else if StartsWith normalized ''$command,'' \<or> StartsWith normalized ''<'' then
        (s\<lparr>unr_metrics := m\<lparr>unm_malformed_lines := unm_malformed_lines m + 1\<rparr>\<rparr>, False)
      else if IsIgnoredTelemetryLine normalized \<or> StartsWith normalized ''#'' then
        (s\<lparr>unr_metrics := m\<lparr>unm_ignored_lines := unm_ignored_lines m + 1\<rparr>\<rparr>, False)
      else (s\<lparr>unr_metrics := m\<lparr>unm_ignored_lines := unm_ignored_lines m + 1\<rparr>\<rparr>, False))"

text \<open>The body of the loop of \<open>FeedBytes\<close>, and the loop.\<close>

definition unr_char ::
  "timestamp_ns option \<Rightarrow> u64 option \<Rightarrow> UnicoreResponseRouter \<Rightarrow> char \<Rightarrow> UnicoreResponseRouter" where
  "unr_char ts capture_generation s c =
     (let s1 = (if unr_buffered_line s = [] \<and> c \<noteq> CHR 0x0A
                then s\<lparr>unr_line_timestamp_ns := ts, unr_line_capture_generation := capture_generation\<rparr>
                else s) in
      if c = CHR 0x0A then
        let line_timestamp = (if unr_line_timestamp_ns s1 \<noteq> None then unr_line_timestamp_ns s1 else ts);
            line_capture_generation =
              (if unr_line_capture_generation s1 \<noteq> None then unr_line_capture_generation s1
               else capture_generation) in
        (fst (ProcessLine s1 (unr_buffered_line s1) line_timestamp line_capture_generation))
          \<lparr>unr_buffered_line := [], unr_line_timestamp_ns := None, unr_line_capture_generation := None\<rparr>
      else s1\<lparr>unr_buffered_line := unr_buffered_line s1 @ [c]\<rparr>)"

definition FeedBytes ::
  "UnicoreResponseRouter \<Rightarrow> string \<Rightarrow> timestamp_ns option \<Rightarrow> u64 option \<Rightarrow> UnicoreResponseRouter" where
  "FeedBytes s data ts capture_generation = foldl (unr_char ts capture_generation) s data"

definition unr_TryGetResponse :: "UnicoreResponseRouter \<Rightarrow> ReceiverCommandResponse option" where
  "unr_TryGetResponse s =
     (case unr_queued_responses s of [] \<Rightarrow> None | r # _ \<Rightarrow> Some r)"

definition unr_PopResponse :: "UnicoreResponseRouter \<Rightarrow> UnicoreResponseRouter \<times> ReceiverCommandResponse option" where
  "unr_PopResponse s =
     (case unr_queued_responses s of
        [] \<Rightarrow> (s, None)
      | r # rs \<Rightarrow> (s\<lparr>unr_queued_responses := rs\<rparr>, Some r))"

definition unr_Reset :: "UnicoreResponseRouter \<Rightarrow> UnicoreResponseRouter" where
  "unr_Reset s =
     s\<lparr>unr_queued_responses := [], unr_buffered_line := [], unr_line_timestamp_ns := None,
       unr_line_capture_generation := None, unr_metrics := UnicoreRouterMetrics_default\<rparr>"

section \<open>The Unicore router is a router of lines\<close>

text \<open>What a line is worth: a rejection if it carries one of the negative hints, a confirmation if it has
  one of the three positive forms, nothing otherwise.\<close>

definition text_responses :: "string \<times> timestamp_ns option \<times> u64 option \<Rightarrow> ReceiverCommandResponse list" where
  "text_responses x =
     (let n = normalized_line (fst x) in
      if n = [] \<or> \<not> IsPrintableAsciiText n then []
      else if MatchesNegativeResponse n then [BuildResponse CR_kTextError (fst (snd x)) (snd (snd x)) n]
      else if MatchesOkResponse n \<or> MatchesCommandAcceptedResponse n \<or> MatchesVersionResponse n
      then [BuildResponse CR_kTextOk (fst (snd x)) (snd (snd x)) n]
      else [])"

definition unr_step :: "UnicoreResponseRouter \<Rightarrow> string \<times> timestamp_ns option \<times> u64 option \<Rightarrow> UnicoreResponseRouter" where
  "unr_step s x = fst (ProcessLine s (fst x) (fst (snd x)) (snd (snd x)))"

lemma ProcessLine_queue:
  "unr_queued_responses (fst (ProcessLine s line ts g)) = unr_queued_responses s @ text_responses (line, ts, g)"
  unfolding ProcessLine_def text_responses_def Let_def by simp

lemma ProcessLine_frame:
  "unr_buffered_line (fst (ProcessLine s line ts g)) = unr_buffered_line s"
  "unr_line_timestamp_ns (fst (ProcessLine s line ts g)) = unr_line_timestamp_ns s"
  "unr_line_capture_generation (fst (ProcessLine s line ts g)) = unr_line_capture_generation s"
  unfolding ProcessLine_def Let_def by simp_all

interpretation unr: response_router unr_step unr_PopResponse unr_queued_responses text_responses
  by unfold_locales (auto simp: unr_step_def ProcessLine_queue unr_PopResponse_def)

definition unr_balanced :: "UnicoreResponseRouter \<Rightarrow> bool" where
  "unr_balanced s \<longleftrightarrow>
     unm_lines_seen (unr_metrics s)
       = unm_responses_generated (unr_metrics s) + unm_ignored_lines (unr_metrics s)
         + unm_malformed_lines (unr_metrics s)
     \<and> unm_responses_generated (unr_metrics s)
       = unm_ok_responses_seen (unr_metrics s) + unm_error_responses_seen (unr_metrics s)"

lemma unr_balanced_new: "unr_balanced unr_new"
  by (simp add: unr_balanced_def unr_new_def UnicoreRouterMetrics_default_def)

lemma unr_balanced_ProcessLine: "unr_balanced s \<Longrightarrow> unr_balanced (fst (ProcessLine s line ts g))"
  unfolding ProcessLine_def unr_balanced_def Let_def by (simp add: algebra_simps)

lemma unr_balanced_char: "unr_balanced s \<Longrightarrow> unr_balanced (unr_char ts g s c)"
  using unr_balanced_ProcessLine [of s]
  by (simp add: unr_char_def unr_balanced_def Let_def)

section \<open>Reassembly of lines\<close>

text \<open>Characters stamped with the time and capture generation of the chunk that brought them.\<close>

type_synonym stamped_char = "char \<times> timestamp_ns option \<times> u64 option"

definition unr_feed :: "UnicoreResponseRouter \<Rightarrow> stamped_char list \<Rightarrow> UnicoreResponseRouter" where
  "unr_feed s xs = foldl (\<lambda>s x. unr_char (fst (snd x)) (snd (snd x)) s (fst x)) s xs"

definition stamp_chunk :: "string \<times> timestamp_ns option \<times> u64 option \<Rightarrow> stamped_char list" where
  "stamp_chunk chunk = map (\<lambda>c. (c, snd chunk)) (fst chunk)"

definition feed_chunks ::
  "UnicoreResponseRouter \<Rightarrow> (string \<times> timestamp_ns option \<times> u64 option) list \<Rightarrow> UnicoreResponseRouter" where
  "feed_chunks s chunks = foldl (\<lambda>s chunk. FeedBytes s (fst chunk) (fst (snd chunk)) (snd (snd chunk))) s chunks"

lemma unr_feed_Nil [simp]: "unr_feed s [] = s"
  by (simp add: unr_feed_def)

lemma unr_feed_Cons: "unr_feed s (x # xs) = unr_feed (unr_char (fst (snd x)) (snd (snd x)) s (fst x)) xs"
  by (simp add: unr_feed_def)

lemma unr_feed_append: "unr_feed s (xs @ ys) = unr_feed (unr_feed s xs) ys"
  by (simp add: unr_feed_def)

lemma FeedBytes_stamp: "FeedBytes s data ts g = unr_feed s (stamp_chunk (data, ts, g))"
  by (induction data arbitrary: s) (simp_all add: FeedBytes_def unr_feed_def stamp_chunk_def)

lemma feed_chunks_flat: "feed_chunks s chunks = unr_feed s (concat (map stamp_chunk chunks))"
  by (induction chunks arbitrary: s)
    (simp_all add: feed_chunks_def FeedBytes_stamp unr_feed_append)

text \<open>A line is the characters before its line feed and the line feed itself; its stamp is that of its
  first character, field by field, where there is one.\<close>

type_synonym stamped_line = "stamped_char list \<times> stamped_char"

abbreviation no_newline :: "stamped_char list \<Rightarrow> bool" where
  "no_newline xs \<equiv> list_all (\<lambda>x. fst x \<noteq> CHR 0x0A) xs"

definition line_ok :: "stamped_line \<Rightarrow> bool" where
  "line_ok l \<longleftrightarrow> no_newline (fst l) \<and> fst (snd l) = CHR 0x0A"

definition line_bytes :: "stamped_line \<Rightarrow> stamped_char list" where
  "line_bytes l = fst l @ [snd l]"

definition or_else :: "'a option \<Rightarrow> 'a option \<Rightarrow> 'a option" where
  "or_else a b = (case a of None \<Rightarrow> b | Some _ \<Rightarrow> a)"

definition line_input :: "stamped_line \<Rightarrow> string \<times> timestamp_ns option \<times> u64 option" where
  "line_input l =
     (let nl = snd (snd l) in
      (map fst (fst l),
       (case fst l of [] \<Rightarrow> nl
        | x # _ \<Rightarrow> (or_else (fst (snd x)) (fst nl), or_else (snd (snd x)) (snd nl)))))"

definition unr_idle :: "UnicoreResponseRouter \<Rightarrow> bool" where
  "unr_idle s \<longleftrightarrow>
     unr_buffered_line s = [] \<and> unr_line_timestamp_ns s = None \<and> unr_line_capture_generation s = None"

lemma unr_feed_partial:
  "\<lbrakk>no_newline xs; unr_buffered_line s \<noteq> []\<rbrakk> \<Longrightarrow>
     unr_feed s xs = s\<lparr>unr_buffered_line := unr_buffered_line s @ map fst xs\<rparr>"
proof (induction xs arbitrary: s)
  case Nil
  then show ?case by simp
next
  case (Cons x xs)
  let ?s1 = "s\<lparr>unr_buffered_line := unr_buffered_line s @ [fst x]\<rparr>"
  from Cons.prems have "unr_feed s (x # xs) = unr_feed ?s1 xs"
    by (simp add: unr_feed_def unr_char_def)
  with Cons.IH [of ?s1] Cons.prems show ?case by simp
qed

lemma unr_feed_start:
  "\<lbrakk>no_newline (x # xs); unr_buffered_line s = []\<rbrakk> \<Longrightarrow>
     unr_feed s (x # xs)
       = s\<lparr>unr_line_timestamp_ns := fst (snd x), unr_line_capture_generation := snd (snd x),
           unr_buffered_line := map fst (x # xs)\<rparr>"
  using unr_feed_partial [of xs "s\<lparr>unr_line_timestamp_ns := fst (snd x),
      unr_line_capture_generation := snd (snd x), unr_buffered_line := [fst x]\<rparr>"]
  by (simp add: unr_feed_Cons unr_char_def)

text \<open>\<open>ProcessLine\<close> changes the queue and the counters only.\<close>

definition line_metrics :: "string \<Rightarrow> UnicoreRouterMetrics \<Rightarrow> UnicoreRouterMetrics" where
  "line_metrics line m =
     unr_metrics (fst (ProcessLine (unr_new\<lparr>unr_metrics := m\<rparr>) line None None))"

lemma ProcessLine_eq:
  "fst (ProcessLine s line ts g)
     = s\<lparr>unr_queued_responses := unr_queued_responses s @ text_responses (line, ts, g),
         unr_metrics := line_metrics line (unr_metrics s)\<rparr>"
  unfolding line_metrics_def ProcessLine_def text_responses_def Let_def by simp

lemma unr_newline:
  "unr_char ts g s (CHR 0x0A)
     = (fst (ProcessLine s (unr_buffered_line s) (or_else (unr_line_timestamp_ns s) ts)
               (or_else (unr_line_capture_generation s) g)))
         \<lparr>unr_buffered_line := [], unr_line_timestamp_ns := None, unr_line_capture_generation := None\<rparr>"
  unfolding unr_char_def Let_def or_else_def by (simp split: option.split)

lemma unr_feed_line:
  assumes "line_ok l" and "unr_idle s"
  shows "unr_feed s (line_bytes l) = unr_step s (line_input l)"
proof -
  obtain body ts g where l: "l = (body, CHR 0x0A, ts, g)" and plain: "no_newline body"
    using assms(1) by (cases l) (auto simp: line_ok_def)
  have idle: "unr_buffered_line s = []" "unr_line_timestamp_ns s = None"
    "unr_line_capture_generation s = None"
    using assms(2) by (simp_all add: unr_idle_def)
  show ?thesis
  proof (cases body)
    case Nil
    with idle show ?thesis
      by (cases s) (simp add: l line_bytes_def unr_feed_Cons unr_newline unr_step_def line_input_def
          ProcessLine_eq or_else_def)
  next
    case (Cons x xs)
    have "unr_feed s (line_bytes l) = unr_char ts g (unr_feed s (x # xs)) (CHR 0x0A)"
      using unr_feed_append [of s "x # xs" "[(CHR 0x0A, ts, g)]"]
      by (simp add: l line_bytes_def Cons unr_feed_Cons [of _ _ "[]"])
    with plain idle show ?thesis
      by (cases s) (simp add: Cons l unr_feed_start unr_newline unr_step_def line_input_def ProcessLine_eq Let_def)
  qed
qed

lemma unr_step_idle: "unr_idle s \<Longrightarrow> unr_idle (unr_step s x)"
  by (simp add: unr_idle_def unr_step_def ProcessLine_frame)

lemma unr_feed_lines:
  "\<lbrakk>list_all line_ok ls; unr_idle s\<rbrakk> \<Longrightarrow>
     unr_feed s (concat (map line_bytes ls)) = foldl unr_step s (map line_input ls)
     \<and> unr_idle (foldl unr_step s (map line_input ls))"
proof (induction ls arbitrary: s)
  case Nil
  then show ?case by simp
next
  case (Cons l ls)
  with Cons.IH [of "unr_step s (line_input l)"] show ?case
    by (simp add: unr_feed_append unr_feed_line unr_step_idle)
qed

lemma foldl_unr_step:
  "unr_queued_responses (foldl unr_step s xs) = unr_queued_responses s @ concat (map text_responses xs)
   \<and> (unr_balanced s \<longrightarrow> unr_balanced (foldl unr_step s xs))"
proof (induction xs arbitrary: s)
  case (Cons x xs)
  show ?case
    using Cons.IH [of "unr_step s x"] unr_balanced_ProcessLine [of s]
    by (simp add: unr_step_def ProcessLine_queue)
qed simp

text \<open>The counters of a list of lines: each line once, by what it is.\<close>

definition malformed_line :: "string \<Rightarrow> bool" where
  "malformed_line line \<longleftrightarrow>
     (let n = normalized_line line in
      n = [] \<or> \<not> IsPrintableAsciiText n
      \<or> \<not> MatchesNegativeResponse n \<and> \<not> MatchesOkResponse n \<and> \<not> MatchesCommandAcceptedResponse n
        \<and> \<not> MatchesVersionResponse n \<and> (StartsWith n ''$command,'' \<or> StartsWith n ''<''))"

definition of_kind :: "ReceiverCommandResponseKind \<Rightarrow> ReceiverCommandResponse list \<Rightarrow> ReceiverCommandResponse list" where
  "of_kind kind rs = filter (\<lambda>r. rsp_kind r = kind) rs"

definition line_counts :: "(string \<times> timestamp_ns option \<times> u64 option) list \<Rightarrow> UnicoreRouterMetrics" where
  "line_counts xs =
     (let responses = concat (map text_responses xs) in
      \<lparr>unm_lines_seen = of_nat (length xs),
       unm_ok_responses_seen = of_nat (length (of_kind CR_kTextOk responses)),
       unm_error_responses_seen = of_nat (length (of_kind CR_kTextError responses)),
       unm_responses_generated = of_nat (length responses),
       unm_ignored_lines = of_nat (length (filter (\<lambda>x. text_responses x = [] \<and> \<not> malformed_line (fst x)) xs)),
       unm_malformed_lines = of_nat (length (filter (\<lambda>x. malformed_line (fst x)) xs))\<rparr>)"

lemma of_kind_simps [simp]:
  "of_kind k [] = []" "of_kind k (r # rs) = (if rsp_kind r = k then r # of_kind k rs else of_kind k rs)"
  "of_kind k (rs @ rs1) = of_kind k rs @ of_kind k rs1"
  by (simp_all add: of_kind_def)

lemma unr_step_metrics:
  "unr_metrics (unr_step s x) =
     (let m = unr_metrics s; responses = text_responses x in
      \<lparr>unm_lines_seen = unm_lines_seen m + 1,
       unm_ok_responses_seen = unm_ok_responses_seen m + of_nat (length (of_kind CR_kTextOk responses)),
       unm_error_responses_seen = unm_error_responses_seen m + of_nat (length (of_kind CR_kTextError responses)),
       unm_responses_generated = unm_responses_generated m + of_nat (length responses),
       unm_ignored_lines = unm_ignored_lines m + of_bool (responses = [] \<and> \<not> malformed_line (fst x)),
       unm_malformed_lines = unm_malformed_lines m + of_bool (malformed_line (fst x))\<rparr>)"
proof -
  define n where "n = normalized_line (fst x)"
  define ok where "ok \<longleftrightarrow> MatchesOkResponse n \<or> MatchesCommandAcceptedResponse n \<or> MatchesVersionResponse n"
  define odd where "odd \<longleftrightarrow> StartsWith n ''$command,'' \<or> StartsWith n ''<''"
  define bad where "bad \<longleftrightarrow> n = [] \<or> \<not> IsPrintableAsciiText n"
  have malformed: "malformed_line (fst x) \<longleftrightarrow> bad \<or> \<not> MatchesNegativeResponse n \<and> \<not> ok \<and> odd"
    by (auto simp: malformed_line_def n_def bad_def ok_def odd_def Let_def)
  have responses: "text_responses x =
      (if bad then [] else if MatchesNegativeResponse n then [BuildResponse CR_kTextError (fst (snd x)) (snd (snd x)) n]
       else if ok then [BuildResponse CR_kTextOk (fst (snd x)) (snd (snd x)) n] else [])"
    by (simp only: text_responses_def n_def bad_def ok_def Let_def)
  have step: "unr_metrics (unr_step s x) =
      (let m = (unr_metrics s)\<lparr>unm_lines_seen := unm_lines_seen (unr_metrics s) + 1\<rparr> in
       if bad then m\<lparr>unm_malformed_lines := unm_malformed_lines m + 1\<rparr>
       else if MatchesNegativeResponse n then
         m\<lparr>unm_error_responses_seen := unm_error_responses_seen m + 1, unm_responses_generated := unm_responses_generated m + 1\<rparr>
       else if ok then
         m\<lparr>unm_ok_responses_seen := unm_ok_responses_seen m + 1, unm_responses_generated := unm_responses_generated m + 1\<rparr>
       else if odd then m\<lparr>unm_malformed_lines := unm_malformed_lines m + 1\<rparr>
       else m\<lparr>unm_ignored_lines := unm_ignored_lines m + 1\<rparr>)"
    by (simp add: unr_step_def ProcessLine_def n_def bad_def ok_def odd_def Let_def)
  show ?thesis
    unfolding step malformed responses Let_def
    by (cases bad; cases "MatchesNegativeResponse n"; cases ok; cases odd; simp add: BuildResponse_def)
qed

lemma line_counts_step:
  assumes "unr_metrics s = line_counts xs"
  shows "unr_metrics (unr_step s x) = line_counts (xs @ [x])"
  unfolding unr_step_metrics assms Let_def by (simp add: line_counts_def Let_def)

lemma foldl_unr_counts: "unr_metrics (foldl unr_step unr_new xs) = line_counts xs"
proof (induction xs rule: rev_induct)
  case Nil
  show ?case by (simp add: unr_new_def UnicoreRouterMetrics_default_def line_counts_def)
next
  case (snoc x xs)
  then show ?case by (simp add: line_counts_step)
qed

lemma unr_feed_tail:
  "\<lbrakk>no_newline xs; unr_buffered_line s = []\<rbrakk> \<Longrightarrow>
     unr_queued_responses (unr_feed s xs) = unr_queued_responses s
     \<and> unr_buffered_line (unr_feed s xs) = map fst xs \<and> unr_metrics (unr_feed s xs) = unr_metrics s"
  by (cases xs) (simp_all add: unr_feed_start)

text \<open>Evaluation on literals.\<close>

lemmas text_line_eval =
  text_responses_def normalized_line_def TrimLineEnding_def TrimLeadingResponseNoise_def update_best_def
  kNegativeResponseHints_def ToLowerAscii_def c_tolower_Char c_isupper_def char_code_def
  IsPrintableAsciiText_def MatchesNegativeResponse_def MatchesOkResponse_def
  MatchesCommandAcceptedResponse_def MatchesVersionResponse_def StartsWith_def BuildResponse_def

section \<open>Properties\<close>

text \<open>C26. The text router reassembles lines whatever the chunking: however the bytes of complete lines and
  an unfinished one are cut into chunks, the responses queued are those of the lines, in order, each with
  the timestamp and capture generation of the chunk its line began in; the unfinished line stays buffered;
  and every line, blank or not, is counted exactly once as seen and once as a confirmation, a rejection, malformed or
  ignored, by its text (the counters are 64-bit words, so modulo \<open>2 ^ 64\<close>).\<close>

theorem text_router_reassembles_lines:
  assumes "list_all line_ok ls" and "no_newline tail"
    and "concat (map stamp_chunk chunks) = concat (map line_bytes ls) @ tail"
  shows "unr_queued_responses (feed_chunks unr_new chunks) = concat (map (text_responses \<circ> line_input) ls)
    \<and> unr_buffered_line (feed_chunks unr_new chunks) = map fst tail
    \<and> unr_metrics (feed_chunks unr_new chunks) = line_counts (map line_input ls)
    \<and> unr_balanced (feed_chunks unr_new chunks)"
proof -
  let ?s = "foldl unr_step unr_new (map line_input ls)"
  have new: "unr_idle unr_new" by (simp add: unr_idle_def unr_new_def)
  from unr_feed_lines [OF assms(1) new]
  have "feed_chunks unr_new chunks = unr_feed ?s tail" "unr_buffered_line ?s = []"
    by (simp_all add: feed_chunks_flat assms(3) unr_feed_append unr_idle_def)
  then show ?thesis
    using unr_feed_tail [OF assms(2), of ?s] foldl_unr_step [of unr_new "map line_input ls"] unr_balanced_new
      foldl_unr_counts [of "map line_input ls"]
    by (simp add: unr_balanced_def unr_new_def map_concat [symmetric] comp_def)
qed

text \<open>Three chunks cut in the middle of lines: a confirmation, a telemetry line, a rejection.\<close>

theorem text_router_reassembles_lines_witness:
  "map rsp_kind (unr_queued_responses (feed_chunks unr_new
       [(''<O'', Some 1, None), (''K'' @ [CHR 0x0D, CHR 0x0A] @ ''#AGCA,1'' @ [CHR 0x0A, CHR 0x0A] @ ''par'', Some 2, None),
        (''SING FAILED'' @ [CHR 0x0A] @ ''x'', Some 3, None)])) = [CR_kTextOk, CR_kTextError]"
proof -
  let ?st = "\<lambda>t::timestamp_ns. \<lambda>c. (c, Some t, None :: u64 option)"
  let ?nl = "\<lambda>t. ?st t (CHR 0x0A)"
  let ?ls = "[(map (?st 1) ''<O'' @ map (?st 2) (''K'' @ [CHR 0x0D]), ?nl 2), (map (?st 2) ''#AGCA,1'', ?nl 2),
     ([], ?nl 2), (map (?st 2) ''par'' @ map (?st 3) ''SING FAILED'', ?nl 3)]"
  let ?chunks = "[(''<O'', Some 1, None),
     (''K'' @ [CHR 0x0D, CHR 0x0A] @ ''#AGCA,1'' @ [CHR 0x0A, CHR 0x0A] @ ''par'', Some 2, None),
     (''SING FAILED'' @ [CHR 0x0A] @ ''x'', Some 3, None)]
       :: (string \<times> timestamp_ns option \<times> u64 option) list"
  have ok: "list_all line_ok ?ls" by (simp add: line_ok_def)
  have tail: "no_newline [?st 3 (CHR ''x'')]" by simp
  have cut: "concat (map stamp_chunk ?chunks) = concat (map line_bytes ?ls) @ [?st 3 (CHR ''x'')]"
    by (simp add: stamp_chunk_def line_bytes_def)
  have lines: "map rsp_kind (text_responses ([CHR ''<'', CHR ''O'', CHR ''K'', CHR 0x0D], t, g)) = [CR_kTextOk]"
    "map rsp_kind (text_responses (''#AGCA,1'', t, g)) = []" "map rsp_kind (text_responses ([], t, g)) = []"
    "map rsp_kind (text_responses (''parSING FAILED'', t, g)) = [CR_kTextError]" for t g
    by (simp_all add: text_line_eval)
  have "map rsp_kind (concat (map (text_responses \<circ> line_input) ?ls)) = [CR_kTextOk, CR_kTextError]"
    by (simp add: line_input_def or_else_def lines)
  with conjunct1 [OF text_router_reassembles_lines [OF ok tail cut]] show ?thesis by (simp only:)
qed

end
