(* ===== verification/Model_Query.thy ===== *)
theory Model_Query
  imports Ubx_Framer Unicore_Framer Transport
begin

text \<open>
  The active model query of \<open>receiver_discovery.cpp\<close>: a UBX-MON-VER poll or a \<open>VERSIONA\<close> request is written,
  and the transport is read until a valid answer, the end of the stream, the limit of bytes or the deadline.
  The clock is \<open>std::chrono::steady_clock\<close>; of it the locale \<open>steady_clock\<close> asks that it never goes back and that
  it stands still for finitely many looks only.
\<close>

section \<open>Texts in the answers\<close>

datatype ReceiverDetectedFamily = DF_kUnknown | DF_kUblox | DF_kUnicore | DF_kNmea

datatype ReceiverModelQueryMethod = QM_kUnsupported | QM_kUbloxMonVer | QM_kUnicoreVersionA

record ReceiverIdentityMetadata =
  rid_receiver_identity :: "string option"
  rid_model :: "string option"
  rid_firmware_version :: "string option"

definition ReceiverIdentityMetadata_default :: ReceiverIdentityMetadata where
  "ReceiverIdentityMetadata_default =
     \<lparr>rid_receiver_identity = None, rid_model = None, rid_firmware_version = None\<rparr>"

record ReceiverModelQueryResult =
  mq_transport_verified :: bool
  mq_model_verified :: bool
  mq_method :: ReceiverModelQueryMethod
  mq_identity :: ReceiverIdentityMetadata

definition ReceiverModelQueryResult_default :: ReceiverModelQueryResult where
  "ReceiverModelQueryResult_default =
     \<lparr>mq_transport_verified = False, mq_model_verified = False, mq_method = QM_kUnsupported,
      mq_identity = ReceiverIdentityMetadata_default\<rparr>"

definition IsVersionToken :: "string \<Rightarrow> bool" where
  "IsVersionToken v \<longleftrightarrow> v \<noteq> [] \<and>
     list_all (\<lambda>c. c_isdigit c \<or> c_isupper c \<or> c_islower c \<or> c = CHR ''-'' \<or> c = CHR ''_'' \<or> c = CHR ''.'') v"

definition IsReceiverIdentityValue :: "string \<Rightarrow> bool" where
  "IsReceiverIdentityValue v \<longleftrightarrow>
     v \<noteq> ''-'' \<and> v \<noteq> [] \<and> list_all (\<lambda>c. 0x20 \<le> char_code c \<and> char_code c \<le> 0x7E) v"

text \<open>The offset is threaded; it stays where it was when there is no field.\<close>

definition ReadQuotedCsvField :: "string \<Rightarrow> nat \<Rightarrow> string option \<times> nat" where
  "ReadQuotedCsvField csv offset =
     (if offset \<ge> length csv \<or> csv ! offset \<noteq> CHR 0x22 then (None, offset)
      else
        (case find_char (CHR 0x22) (drop (offset + 1) csv) of
           None \<Rightarrow> (None, offset)
         | Some n \<Rightarrow>
             let after = offset + 1 + n + 1 in
             (Some (take n (drop (offset + 1) csv)),
              if after < length csv \<and> csv ! after = CHR '','' then after + 1 else after)))"

definition ReadNulTerminatedAsciiField :: "bytes \<Rightarrow> nat \<Rightarrow> nat \<Rightarrow> string option" where
  "ReadNulTerminatedAsciiField bs offset count =
     (if offset + count > length bs then None
      else
        let field = bslice offset count bs; chars = takeWhile (\<lambda>b. b \<noteq> 0) field in
        if chars = field \<or> chars = [] then None
        else if \<not> list_all (\<lambda>b. 0x20 \<le> b \<and> b \<le> 0x7E) chars then None
        else Some (text_of chars))"

section \<open>UBX-MON-VER\<close>

definition IsVerifiedUbloxMonVerFrame :: "UbxFrame \<Rightarrow> bool" where
  "IsVerifiedUbloxMonVerFrame frame \<longleftrightarrow>
     ubx_checksum_status frame = CS_kValid \<and> ubx_class_id frame = 0x0A \<and> ubx_message_id frame = 0x04
     \<and> length (ubx_payload frame) \<ge> 40 \<and> (length (ubx_payload frame) - 40) mod 30 = 0
     \<and> ReadNulTerminatedAsciiField (ubx_payload frame) 0 30 \<noteq> None
     \<and> ReadNulTerminatedAsciiField (ubx_payload frame) 30 10 \<noteq> None"

definition note_extension :: "string \<Rightarrow> ReceiverIdentityMetadata \<Rightarrow> ReceiverIdentityMetadata" where
  "note_extension extension m =
     (if StartsWith extension ''MOD='' then
        (let model = drop 4 extension in if IsVersionToken model then m\<lparr>rid_model := Some model\<rparr> else m)
      else if StartsWith extension ''FWVER='' then
        (let firmware = drop 6 extension in
         if firmware \<noteq> [] then m\<lparr>rid_firmware_version := Some firmware\<rparr> else m)
      else if StartsWith extension ''CHIPID='' then
        (let chip_id = drop 7 extension in
         if IsReceiverIdentityValue chip_id then m\<lparr>rid_receiver_identity := Some chip_id\<rparr> else m)
      else m)"

text \<open>The loop over the extensions; the flag is \<open>valid_extensions\<close>.\<close>

function extensions_from :: "bytes \<Rightarrow> nat \<Rightarrow> ReceiverIdentityMetadata \<Rightarrow> ReceiverIdentityMetadata \<times> bool" where
  "extensions_from payload offset m =
     (if offset < length payload then
        (case ReadNulTerminatedAsciiField payload offset 30 of
           None \<Rightarrow> (m, False)
         | Some extension \<Rightarrow> extensions_from payload (offset + 30) (note_extension extension m))
      else (m, True))"
  by pat_completeness auto
termination by (relation "measure (\<lambda>(payload, offset, m). length payload - offset)") auto

declare extensions_from.simps [simp del]

definition FindUbloxMonVerMetadata :: "UbxFrame \<Rightarrow> ReceiverIdentityMetadata option" where
  "FindUbloxMonVerMetadata frame =
     (if \<not> IsVerifiedUbloxMonVerFrame frame then None
      else
        let (m, valid_extensions) = extensions_from (ubx_payload frame) 40 ReceiverIdentityMetadata_default in
        if valid_extensions
           \<and> (rid_receiver_identity m \<noteq> None \<or> rid_model m \<noteq> None \<or> rid_firmware_version m \<noteq> None)
        then Some m else None)"

section \<open>VERSIONA\<close>

text \<open>One framed record; \<open>None\<close> is each of the \<open>continue\<close>s.\<close>

definition version_of_frame :: "UnicoreFrame \<Rightarrow> ReceiverIdentityMetadata option" where
  "version_of_frame frame =
     (let response = text_of (uni_payload frame) in
      if uni_checksum_status frame \<noteq> CS_kValid \<or> uni_message_name frame \<noteq> ''VERSIONA'' then None
      else if \<not> StartsWith response ''VERSIONA,'' then None
      else
        (case find_char (CHR '';'') (drop 9 response) of
           None \<Rightarrow> None
         | Some n \<Rightarrow>
             let csv = drop (9 + n + 1) response;
                 (model, o1) = ReadQuotedCsvField csv 0;
                 (firmware, o2) = ReadQuotedCsvField csv o1 in
             (case (model, firmware) of
                (Some mo, Some fi) \<Rightarrow>
                  if IsVersionToken mo \<and> IsVersionToken fi then
                    let (authorization, o3) = ReadQuotedCsvField csv o2;
                        (product_serial, o4) = ReadQuotedCsvField csv o3 in
                    Some \<lparr>rid_receiver_identity =
                            (case (authorization, product_serial) of
                               (Some _, Some serial) \<Rightarrow> if IsReceiverIdentityValue serial then Some serial else None
                             | _ \<Rightarrow> None),
                          rid_model = Some mo, rid_firmware_version = Some fi\<rparr>
                  else None
              | _ \<Rightarrow> None)))"

primrec versiona_loop :: "UnicoreFrameFramer \<Rightarrow> bytes \<Rightarrow> ReceiverIdentityMetadata option" where
  "versiona_loop framer [] = None"
| "versiona_loop framer (byte # bs) =
     (let (framer1, result) = uni_PushByte framer byte None in
      case (if pr_status result = PS_kRecordReady then pr_record result else None) of
        None \<Rightarrow> versiona_loop framer1 bs
      | Some frame \<Rightarrow>
          (case version_of_frame frame of
             None \<Rightarrow> versiona_loop framer1 bs
           | Some m \<Rightarrow> Some m))"

definition FindUnicoreVersionAMetadata :: "bytes \<Rightarrow> ReceiverIdentityMetadata option" where
  "FindUnicoreVersionAMetadata bs = versiona_loop (uni_new 2048) bs"

definition ParseVerifiedUnicoreVersionAIdentity :: "bytes \<Rightarrow> ReceiverIdentityMetadata option" where
  "ParseVerifiedUnicoreVersionAIdentity bs = FindUnicoreVersionAMetadata bs"

section \<open>The query\<close>

definition kMonVerPoll :: bytes where
  "kMonVerPoll = [0xB5, 0x62, 0x0A, 0x04, 0x00, 0x00, 0x0E, 0x34]"

definition kVersionQuery :: bytes where
  "kVersionQuery = bytes_of ''VERSIONA'' @ [0x0D, 0x0A]"

text \<open>The bytes of one read, pushed until a verified answer ends the query.\<close>

primrec monver_bytes ::
  "UbxFrameFramer \<Rightarrow> bytes \<Rightarrow> ReceiverModelQueryResult \<Rightarrow> UbxFrameFramer \<times> ReceiverModelQueryResult option" where
  "monver_bytes framer [] result = (framer, None)"
| "monver_bytes framer (byte # bs) result =
     (let (framer1, framed) = ubx_PushByte framer byte None in
      case (if pr_status framed = PS_kRecordReady then pr_record framed else None) of
        None \<Rightarrow> monver_bytes framer1 bs result
      | Some frame \<Rightarrow>
          if IsVerifiedUbloxMonVerFrame frame then
            let identity = (case FindUbloxMonVerMetadata frame of Some m \<Rightarrow> m | None \<Rightarrow> mq_identity result) in
            (framer1, Some (result\<lparr>mq_transport_verified := True, mq_identity := identity,
               mq_model_verified := rid_model identity \<noteq> None\<rparr>))
          else monver_bytes framer1 bs result)"

text \<open>The reading loop: \<open>bytes\<close> is what was read so far and its length is \<open>bytes_read\<close>.  Whether it returns
  depends on the clock; not returning is \<open>None\<close>.\<close>

partial_function (option) query_loop ::
  "('k \<Rightarrow> nat \<Rightarrow> 'k \<times> ReadResult \<times> bytes) \<Rightarrow> ('k \<Rightarrow> 'k \<times> timestamp_ns) \<Rightarrow> ReceiverDetectedFamily \<Rightarrow> nat
     \<Rightarrow> timestamp_ns \<Rightarrow> 'k \<Rightarrow> UbxFrameFramer \<Rightarrow> bytes \<Rightarrow> nat \<Rightarrow> ReceiverModelQueryResult
     \<Rightarrow> ('k \<times> ReceiverModelQueryResult) option" where
  "query_loop get now family max_response_bytes deadline k framer bs bytes_read result =
     (if bytes_read < max_response_bytes then
        (case now k of (k1, t) \<Rightarrow>
          if t < deadline then
            (case get k1 (min 512 (max_response_bytes - bytes_read)) of (k2, rr, buffer) \<Rightarrow>
              if rr_status rr = TS_kError \<or> rr_status rr = TS_kClosed
                 \<or> rr_status rr = TS_kEndOfStream \<and> rr_bytes_read rr = 0
              then Some (k2, result)
              else if rr_bytes_read rr = 0
              then query_loop get now family max_response_bytes deadline k2 framer bs bytes_read result
              else
                let chunk = take (rr_bytes_read rr) buffer; bs1 = bs @ chunk;
                    n1 = bytes_read + rr_bytes_read rr in
                if family = DF_kUnicore then
                  (case FindUnicoreVersionAMetadata bs1 of
                     Some m \<Rightarrow> Some (k2, result\<lparr>mq_transport_verified := True, mq_model_verified := True,
                                          mq_identity := m\<rparr>)
                   | None \<Rightarrow> query_loop get now family max_response_bytes deadline k2 framer bs1 n1 result)
                else
                  (case monver_bytes framer chunk result of
                     (_, Some r) \<Rightarrow> Some (k2, r)
                   | (framer1, None) \<Rightarrow>
                       query_loop get now family max_response_bytes deadline k2 framer1 bs1 n1 result))
          else Some (k1, result))
      else Some (k, result))"

definition QueryReceiverModel ::
  "('k \<Rightarrow> bytes \<Rightarrow> 'k \<times> WriteResult) \<Rightarrow> ('k \<Rightarrow> nat \<Rightarrow> 'k \<times> ReadResult \<times> bytes) \<Rightarrow> ('k \<Rightarrow> 'k \<times> timestamp_ns)
     \<Rightarrow> ReceiverDetectedFamily \<Rightarrow> 'k \<Rightarrow> u32 \<Rightarrow> nat \<Rightarrow> ('k \<times> ReceiverModelQueryResult) option" where
  "QueryReceiverModel put get now family k read_timeout_ms max_response_bytes =
     (if max_response_bytes = 0 then Some (k, ReceiverModelQueryResult_default)
      else if family \<noteq> DF_kUblox \<and> family \<noteq> DF_kUnicore then Some (k, ReceiverModelQueryResult_default)
      else
        let result = ReceiverModelQueryResult_default
              \<lparr>mq_method := (if family = DF_kUblox then QM_kUbloxMonVer else QM_kUnicoreVersionA)\<rparr>;
            query = (if family = DF_kUblox then kMonVerPoll else kVersionQuery);
            (k1, write) = put k query in
        if wr_status write = TS_kClosed \<or> wr_status write = TS_kError \<or> wr_bytes_written write \<noteq> length query
        then Some (k1, result)
        else
          let effective_timeout_ms = (if read_timeout_ms > 0 then read_timeout_ms else 1000);
              (k2, t) = now k1 in
          query_loop get now family max_response_bytes (t + sint effective_timeout_ms * 1000000) k2
            (ubx_new 4096) [] 0 result)"

definition VerifyUbloxMonVerResponse ::
  "('k \<Rightarrow> bytes \<Rightarrow> 'k \<times> WriteResult) \<Rightarrow> ('k \<Rightarrow> nat \<Rightarrow> 'k \<times> ReadResult \<times> bytes) \<Rightarrow> ('k \<Rightarrow> 'k \<times> timestamp_ns)
     \<Rightarrow> 'k \<Rightarrow> u32 \<Rightarrow> nat \<Rightarrow> ('k \<times> bool) option" where
  "VerifyUbloxMonVerResponse put get now k read_timeout_ms max_response_bytes =
     map_option (\<lambda>(k1, r). (k1, mq_transport_verified r))
       (QueryReceiverModel put get now DF_kUblox k read_timeout_ms max_response_bytes)"

section \<open>A clock that never goes back\<close>

text \<open>\<open>patience\<close> bounds the looks at the clock that show the same time.\<close>

locale steady_clock =
  fixes get :: "'k \<Rightarrow> nat \<Rightarrow> 'k \<times> ReadResult \<times> bytes"
    and now :: "'k \<Rightarrow> 'k \<times> timestamp_ns"
    and clock :: "'k \<Rightarrow> int"
    and patience :: "'k \<Rightarrow> nat"
  assumes get_clock: "clock k < clock (fst (get k n))
      \<or> clock (fst (get k n)) = clock k \<and> patience (fst (get k n)) \<le> patience k"
    and now_clock: "clock k < clock (fst (now k))
      \<or> clock (fst (now k)) = clock k \<and> patience (fst (now k)) < patience k"
    and now_time: "snd (now k) = clock (fst (now k))"
begin

text \<open>\<open>k1\<close> is seen after \<open>k\<close>.\<close>

definition later :: "'k \<Rightarrow> 'k \<Rightarrow> bool" where
  "later k k1 \<longleftrightarrow> clock k < clock k1 \<or> clock k1 = clock k \<and> patience k1 < patience k"

definition not_earlier :: "'k \<Rightarrow> 'k \<Rightarrow> bool" where
  "not_earlier k k1 \<longleftrightarrow> clock k < clock k1 \<or> clock k1 = clock k \<and> patience k1 \<le> patience k"

lemma later_now: "later k (fst (now k))"
  using now_clock by (simp add: later_def)

lemma not_earlier_get: "not_earlier k (fst (get k n))"
  using get_clock by (simp add: not_earlier_def)

lemma not_earlier_refl [simp]: "not_earlier k k"
  by (simp add: not_earlier_def)

lemma later_not_earlier: "later k k1 \<Longrightarrow> not_earlier k k1"
  by (auto simp: later_def not_earlier_def)

lemma later_trans: "\<lbrakk>not_earlier k k1; later k1 k2\<rbrakk> \<Longrightarrow> later k k2" "\<lbrakk>later k k1; not_earlier k1 k2\<rbrakk> \<Longrightarrow> later k k2"
  by (auto simp: later_def not_earlier_def)

lemma not_earlier_trans: "\<lbrakk>not_earlier k k1; not_earlier k1 k2\<rbrakk> \<Longrightarrow> not_earlier k k2"
  by (auto simp: not_earlier_def)

text \<open>What is left until a deadline.\<close>

definition left :: "int \<Rightarrow> 'k \<Rightarrow> nat \<times> nat" where
  "left deadline k = (nat (deadline - clock k), patience k)"

lemma left_decreases:
  "\<lbrakk>later k k1; clock k < deadline\<rbrakk> \<Longrightarrow> (left deadline k1, left deadline k) \<in> less_than <*lex*> less_than"
  by (auto simp: later_def left_def)

text \<open>The reading loop returns, and keeps what \<open>get\<close> and \<open>now\<close> keep.\<close>

lemma query_loop_total:
  assumes "\<And>k n. P k \<Longrightarrow> P (fst (get k n))" and "\<And>k. P k \<Longrightarrow> P (fst (now k))" and "P k"
  shows "\<exists>k1 r. query_loop get now family m deadline k framer bs n result = Some (k1, r) \<and> P k1
    \<and> mq_method r = mq_method result"
  using assms(3)
proof (induction "left deadline k" arbitrary: k framer bs n rule: wf_induct_rule [OF wf_lex_prod [OF wf_less_than wf_less_than]])
  case 1
  obtain k1 t where n: "now k = (k1, t)" by fastforce
  obtain k2 rr buffer where g: "get k1 (min 512 (m - n)) = (k2, rr, buffer)" by (metis prod_cases3)
  have P: "P k1" "P k2" using 1(2) assms(1,2) n g by (metis fst_conv)+
  have t: "t = clock k1" "later k k1" "not_earlier k1 k2"
    using now_time [of k] later_now [of k] not_earlier_get [of k1 "min 512 (m - n)"] by (simp_all add: n g)
  have "later k k2" using later_trans(2) t(2,3) by blast
  moreover have "clock k < deadline" if "t < deadline" using t(1,2) that by (auto simp: later_def)
  ultimately have rec: "\<exists>k1 r. query_loop get now family m deadline k2 f b i result = Some (k1, r) \<and> P k1
      \<and> mq_method r = mq_method result" if "t < deadline" for f b i
    using 1(1) [OF left_decreases P(2)] that by blast
  have mon: "mq_method r = mq_method result" if "monver_bytes f xs result = (f1, Some r)" for f f1 xs r
    using that by (induction xs arbitrary: f) (auto simp: Let_def split: if_splits option.splits prod.splits)
  show ?case
    using P rec 1(2) mon
    by (subst query_loop.simps)
      (auto simp: n g Let_def split: option.split prod.split)
qed

end

text \<open>A verified answer is one that a framed record gave.\<close>

lemma monver_bytes_verified:
  "monver_bytes framer bs result = (framer1, Some r) \<Longrightarrow>
     mq_transport_verified r \<and> mq_model_verified r = (rid_model (mq_identity r) \<noteq> None)"
  by (induction bs arbitrary: framer) (auto simp: Let_def split: if_splits option.splits prod.splits)

end
