(* ===== verification/Config_Apply.thy ===== *)
theory Config_Apply
  imports Config_Application Response_Routers Model_Query
begin

text \<open>
  The live part of \<open>ExecuteConfigApply\<close> (gnss_tools/src/config_apply.cpp): the loop that drives a
  \<open>ReceiverConfigApplication\<close> over a duplex transport, frames and routes what the receiver answers, and
  lets a response through only when its capture began after the dispatch of the command in flight
  (\<open>ResponseCausalityFence\<close>), and the check of the active transport that follows a success on a u-blox
  receiver (\<open>FinalizeSuccessfulUbloxActiveBaudVerification\<close>).  The transport and the clock are parameters: \<open>put\<close> writes, \<open>get\<close> reads up to a
  number of bytes, \<open>now\<close> reads the clock, all three on one state.  Of the plan and of the result the model
  has the fields this part reads or writes; the receiver identity that the code keeps in \<open>result.plan\<close> is a
  field of the result here.
\<close>

section \<open>Data\<close>

datatype ConfigApplyStatus =
    CA_kOk | CA_kPartialSuccess | CA_kInvalidArgument | CA_kUnsupportedReceiver | CA_kUnsupportedVendor
  | CA_kUnsupportedProfile | CA_kBuildError | CA_kSafetyRejected | CA_kTransportUnavailable | CA_kReadFailed
  | CA_kDispatchFailed | CA_kRejected | CA_kTimedOut | CA_kApplicationFailed

fun ConfigApplyStatus_ToString :: "ConfigApplyStatus \<Rightarrow> string" where
  "ConfigApplyStatus_ToString CA_kOk = ''ok''"
| "ConfigApplyStatus_ToString CA_kPartialSuccess = ''partial_success''"
| "ConfigApplyStatus_ToString CA_kInvalidArgument = ''invalid_argument''"
| "ConfigApplyStatus_ToString CA_kUnsupportedReceiver = ''unsupported_receiver''"
| "ConfigApplyStatus_ToString CA_kUnsupportedVendor = ''unsupported_vendor''"
| "ConfigApplyStatus_ToString CA_kUnsupportedProfile = ''unsupported_profile''"
| "ConfigApplyStatus_ToString CA_kBuildError = ''build_error''"
| "ConfigApplyStatus_ToString CA_kSafetyRejected = ''safety_rejected''"
| "ConfigApplyStatus_ToString CA_kTransportUnavailable = ''transport_unavailable''"
| "ConfigApplyStatus_ToString CA_kReadFailed = ''read_failed''"
| "ConfigApplyStatus_ToString CA_kDispatchFailed = ''dispatch_failed''"
| "ConfigApplyStatus_ToString CA_kRejected = ''rejected''"
| "ConfigApplyStatus_ToString CA_kTimedOut = ''timed_out''"
| "ConfigApplyStatus_ToString CA_kApplicationFailed = ''application_failed''"

record ConfigPlanCommand =
  pc_command :: ReceiverCommand
  pc_description :: string

record ConfigPlan =
  plan_vendor :: string
  plan_commands :: "ConfigPlanCommand list"

record ApplyOptions =
  opt_confirm :: bool
  opt_timeout_ms :: u32

record ExecutionSummary =
  es_commands_total :: u64
  es_commands_completed :: u64
  es_commands_failed :: u64
  es_required_commands_failed :: u64
  es_optional_commands_failed :: u64
  es_commands_retried :: u64
  es_responses_applied :: u64
  es_final_status :: string

definition ExecutionSummary_default :: ExecutionSummary where
  "ExecutionSummary_default =
     \<lparr>es_commands_total = 0, es_commands_completed = 0, es_commands_failed = 0,
      es_required_commands_failed = 0, es_optional_commands_failed = 0, es_commands_retried = 0,
      es_responses_applied = 0, es_final_status = []\<rparr>"

record ApplyResult =
  res_status :: ConfigApplyStatus
  res_receiver_state_indeterminate :: bool
  res_current_transport_baud_rate :: u32
  res_active_verified_baud :: "u32 option"
  res_model_verified :: bool
  res_model_query_method :: ReceiverModelQueryMethod
  res_current_baud_verified :: bool
  res_plan_identity :: ReceiverIdentityMetadata
  res_execution_summary :: ExecutionSummary
  res_progress_log :: "string list"
  res_error_message :: string

definition ApplyResult_default :: ApplyResult where
  "ApplyResult_default =
     \<lparr>res_status = CA_kOk, res_receiver_state_indeterminate = False,
      res_current_transport_baud_rate = 0, res_active_verified_baud = None, res_model_verified = False,
      res_model_query_method = QM_kUnsupported, res_current_baud_verified = False,
      res_plan_identity = ReceiverIdentityMetadata_default,
      res_execution_summary = ExecutionSummary_default, res_progress_log = [], res_error_message = []\<rparr>"

section \<open>Commands, progress and outcome\<close>

definition executable_command :: "ApplyOptions \<Rightarrow> ReceiverCommand \<Rightarrow> ReceiverCommand" where
  "executable_command options command =
     (let c1 = command\<lparr>rc_retry_policy := (rc_retry_policy command)\<lparr>rp_timeout_ms := opt_timeout_ms options\<rparr>\<rparr> in
      if rc_safety_level command = SL_kPersistent \<or> rc_safety_level command = SL_kFactoryReset
      then c1\<lparr>rc_explicit_safety_confirmation := opt_confirm options\<rparr>
      else c1)"

definition BuildExecutableCommands :: "ConfigPlan \<Rightarrow> ApplyOptions \<Rightarrow> ReceiverCommand list" where
  "BuildExecutableCommands plan options =
     map (\<lambda>pc. executable_command options (pc_command pc)) (plan_commands plan)"

definition IsSuccessfulApplyStatus :: "ConfigApplyStatus \<Rightarrow> bool" where
  "IsSuccessfulApplyStatus status \<longleftrightarrow> status = CA_kOk \<or> status = CA_kPartialSuccess"

definition SuccessfulCompletionStatus :: "ApplicationMetrics \<Rightarrow> ConfigApplyStatus" where
  "SuccessfulCompletionStatus m =
     (if am_required_commands_failed m > 0 then CA_kApplicationFailed
      else if am_optional_commands_failed m > 0 then CA_kPartialSuccess
      else CA_kOk)"

definition push_progress :: "ApplyResult \<Rightarrow> string \<Rightarrow> ApplyResult" where
  "push_progress r line = r\<lparr>res_progress_log := res_progress_log r @ [line]\<rparr>"

definition MakeCommandProgressPrefix :: "nat \<Rightarrow> nat \<Rightarrow> string \<Rightarrow> string" where
  "MakeCommandProgressPrefix index count action =
     ''Command '' @ dec_nat index @ ''/'' @ dec_nat count @ '': '' @ action"

definition NoteApplicationProgress :: "ApplyResult \<Rightarrow> ConfigPlan \<Rightarrow> ApplicationResult \<Rightarrow> ApplyResult" where
  "NoteApplicationProgress result plan ar =
     (let count = length (plan_commands plan);
          display_index = (if ar_command_index ar < count then ar_command_index ar + 1 else count);
          describe = (\<lambda>i. pc_description (plan_commands plan ! i));
          r1 = (if ar_command_started ar \<and> ar_command_index ar < count
                then push_progress result (MakeCommandProgressPrefix display_index count ''dispatching''
                       @ '' - '' @ describe (ar_command_index ar))
                else result);
          r2 = (if ar_retry_dispatched ar \<and> ar_command_index ar < count
                then push_progress r1 (MakeCommandProgressPrefix display_index count ''retrying''
                       @ '' - '' @ describe (ar_command_index ar))
                else r1) in
      if ar_command_finished ar then
        let i0 = (if ar_advanced_to_next_command ar \<and> ar_command_index ar > 0 then ar_command_index ar - 1
                  else if ar_state ar = AS_kCompleted \<and> count > 0 then count - 1
                  else ar_command_index ar);
            plan_index = (if i0 \<ge> count then (if count > 0 then count - 1 else 0) else i0);
            suffix = (if ar_error_message ar \<noteq> [] then '': '' @ ar_error_message ar
                      else (case ar_engine_result ar of
                              None \<Rightarrow> []
                            | Some er \<Rightarrow> if er_error_message er \<noteq> [] then '': '' @ er_error_message er else []));
            action = (if ar_command_failed ar then
                        (if ar_failure_ignored ar then
                           (if ar_command_required ar then ''failed (continuing)''
                            else ''failed (optional, continuing)'')
                         else ''failed'')
                      else ''completed'') in
        push_progress r2 (MakeCommandProgressPrefix (plan_index + 1) count action
          @ '' - '' @ describe plan_index @ suffix)
      else r2)"

definition MapApplicationFailureStatus :: "ApplicationResult \<Rightarrow> ConfigApplyStatus" where
  "MapApplicationFailureStatus ar =
     (case ar_engine_result ar of
        None \<Rightarrow> CA_kApplicationFailed
      | Some er \<Rightarrow>
          (case er_status er of
             ES_kDispatchFailed \<Rightarrow> CA_kDispatchFailed
           | ES_kRejected \<Rightarrow> CA_kRejected
           | ES_kTimedOut \<Rightarrow> CA_kTimedOut
           | ES_kRetryUnavailable \<Rightarrow> CA_kTimedOut
           | _ \<Rightarrow> CA_kApplicationFailed))"

definition set_final_status :: "ApplyResult \<Rightarrow> ApplyResult" where
  "set_final_status r =
     r\<lparr>res_execution_summary := (res_execution_summary r)
         \<lparr>es_final_status := ConfigApplyStatus_ToString (res_status r)\<rparr>\<rparr>"

definition FinalizeIfApplicationStopped ::
  "ApplyResult \<Rightarrow> Application \<Rightarrow> ApplicationResult \<Rightarrow> ApplyResult \<times> bool" where
  "FinalizeIfApplicationStopped result a ar =
     (if ap_state a = AS_kCompleted then
        let r1 = set_final_status (result\<lparr>res_status := SuccessfulCompletionStatus (ap_metrics a)\<rparr>) in
        (r1\<lparr>res_error_message := (if res_status r1 = CA_kPartialSuccess
              then ''one or more optional commands failed during apply'' else [])\<rparr>, True)
      else if ap_state a = AS_kFailed then
        let r1 = set_final_status (result\<lparr>res_status := MapApplicationFailureStatus ar\<rparr>);
            failure = (if ar_error_message ar \<noteq> [] then ar_error_message ar
                       else (case ar_engine_result ar of
                               Some er \<Rightarrow> er_error_message er
                             | None \<Rightarrow> ''configuration apply failed''));
            indeterminate = (res_receiver_state_indeterminate r1 \<or> ar_receiver_state_indeterminate ar
                             \<or> en_session_indeterminate (ap_engine a));
            r2 = r1\<lparr>res_receiver_state_indeterminate := indeterminate,
                    res_error_message :=
                      (if indeterminate
                       then ''receiver state indeterminate: command may have been applied; '' @ failure
                       else failure)\<rparr> in
        ((if indeterminate
          then push_progress r2 (''Receiver state indeterminate: a dispatched command may have been applied; ''
                 @ ''further configuration is quarantined'')
          else r2), True)
      else (result, False))"

definition UpdateExecutionSummary :: "ApplyResult \<Rightarrow> Application \<Rightarrow> ApplyResult" where
  "UpdateExecutionSummary r a =
     (let m = ap_metrics a in
      r\<lparr>res_execution_summary := (res_execution_summary r)
          \<lparr>es_commands_total := am_commands_total m, es_commands_completed := am_commands_completed m,
           es_commands_failed := am_commands_failed m,
           es_required_commands_failed := am_required_commands_failed m,
           es_optional_commands_failed := am_optional_commands_failed m,
           es_commands_retried := am_commands_retried m,
           es_responses_applied := am_responses_applied m\<rparr>\<rparr>)"

definition kIndeterminatePrefix :: string where
  "kIndeterminatePrefix = ''receiver state indeterminate: command may have been applied; ''"

text \<open>\<open>MarkReceiverStateIndeterminate(result, result.error_message)\<close>.\<close>

definition MarkReceiverStateIndeterminate :: "ApplyResult \<Rightarrow> ApplyResult" where
  "MarkReceiverStateIndeterminate r =
     (let already = res_receiver_state_indeterminate r;
          r1 = r\<lparr>res_receiver_state_indeterminate := True,
                 res_error_message := (if StartsWith (res_error_message r) kIndeterminatePrefix
                                       then res_error_message r
                                       else kIndeterminatePrefix @ res_error_message r)\<rparr> in
      if already then r1
      else push_progress r1 (''Receiver state indeterminate: a dispatched command may have been applied; ''
             @ ''further configuration is quarantined''))"

section \<open>The causality fence\<close>

record ResponseCausalityFence =
  fc_last_capture_generation :: u64
  fc_minimum_eligible_capture_generation :: u64

definition fence_new :: ResponseCausalityFence where
  "fence_new = \<lparr>fc_last_capture_generation = 0, fc_minimum_eligible_capture_generation = 0\<rparr>"

definition BeginCapture :: "ResponseCausalityFence \<Rightarrow> ResponseCausalityFence \<times> u64" where
  "BeginCapture f =
     (let g = fc_last_capture_generation f + 1 in (f\<lparr>fc_last_capture_generation := g\<rparr>, g))"

definition NoteDispatch :: "ResponseCausalityFence \<Rightarrow> ApplicationResult \<Rightarrow> ResponseCausalityFence" where
  "NoteDispatch f ar =
     (case ar_engine_result ar of
        None \<Rightarrow> f
      | Some er \<Rightarrow>
          if er_status er = ES_kDispatched \<or> er_status er = ES_kRetryDispatched
          then f\<lparr>fc_minimum_eligible_capture_generation := fc_last_capture_generation f\<rparr>
          else f)"

definition IsEligible :: "ResponseCausalityFence \<Rightarrow> ReceiverCommandResponse \<Rightarrow> bool" where
  "IsEligible f response \<longleftrightarrow>
     (case rsp_capture_generation response of
        None \<Rightarrow> False
      | Some g \<Rightarrow> g > fc_minimum_eligible_capture_generation f)"

section \<open>The state of the loop\<close>

record Apply =
  ay_application :: Application
  ay_ubx_framer :: UbxFrameFramer
  ay_ublox_router :: UbloxResponseRouter
  ay_unicore_router :: UnicoreResponseRouter
  ay_fence :: ResponseCausalityFence
  ay_ubx_frame_capture_generation :: "u64 option"
  ay_result :: ApplyResult

text \<open>A result of the application: progress, then the outcome if it stopped.\<close>

definition note_and_finalize :: "ConfigPlan \<Rightarrow> ApplicationResult \<Rightarrow> Apply \<Rightarrow> Apply \<times> bool" where
  "note_and_finalize plan ar s =
     (let (r, stopped) = FinalizeIfApplicationStopped (NoteApplicationProgress (ay_result s) plan ar)
                           (ay_application s) ar in
      (s\<lparr>ay_result := r\<rparr>, stopped))"

definition log_line :: "string \<Rightarrow> Apply \<Rightarrow> Apply" where
  "log_line line s = s\<lparr>ay_result := push_progress (ay_result s) line\<rparr>"

definition update_summary :: "Apply \<Rightarrow> Apply" where
  "update_summary s = s\<lparr>ay_result := UpdateExecutionSummary (ay_result s) (ay_application s)\<rparr>"

function ApplyQueuedUbloxResponses :: "ConfigPlan \<Rightarrow> Apply \<Rightarrow> Apply \<times> bool" where
  "ApplyQueuedUbloxResponses plan s =
     (if ap_state (ay_application s) = AS_kWaitingForResponse then
        (case ubr_queued_responses (ay_ublox_router s) of
           [] \<Rightarrow> (s, False)
         | routed # _ \<Rightarrow>
             let s1 = s\<lparr>ay_ublox_router := fst (ubr_PopResponse (ay_ublox_router s))\<rparr> in
             if \<not> IsEligible (ay_fence s1) (urr_response routed) then
               ApplyQueuedUbloxResponses plan
                 (log_line ''Discarded u-blox response captured before the current command dispatch'' s1)
             else
               let (a1, ar) = app_ApplyResponse (ay_application s1) (urr_response routed) (urr_ubx_target routed);
                   (s2, stopped) = note_and_finalize plan ar (s1\<lparr>ay_application := a1\<rparr>) in
               if stopped then (s2, True) else ApplyQueuedUbloxResponses plan s2)
      else (s, False))"
  by pat_completeness auto
termination
  by (relation "measure (\<lambda>(plan, s). length (ubr_queued_responses (ay_ublox_router s)))")
    (auto simp: ubr_PopResponse_def log_line_def note_and_finalize_def split_beta)

declare ApplyQueuedUbloxResponses.simps [simp del]

function ApplyQueuedUnicoreResponses :: "ConfigPlan \<Rightarrow> Apply \<Rightarrow> Apply \<times> bool" where
  "ApplyQueuedUnicoreResponses plan s =
     (if ap_state (ay_application s) = AS_kWaitingForResponse then
        (case unr_queued_responses (ay_unicore_router s) of
           [] \<Rightarrow> (s, False)
         | response # _ \<Rightarrow>
             let s1 = s\<lparr>ay_unicore_router := fst (unr_PopResponse (ay_unicore_router s))\<rparr> in
             if \<not> IsEligible (ay_fence s1) response then
               ApplyQueuedUnicoreResponses plan
                 (log_line ''Discarded Unicore response captured before the current command dispatch'' s1)
             else
               let (a1, ar) = app_ApplyResponse (ay_application s1) response None;
                   (s2, stopped) = note_and_finalize plan ar (s1\<lparr>ay_application := a1\<rparr>) in
               if stopped then (s2, True) else ApplyQueuedUnicoreResponses plan s2)
      else (s, False))"
  by pat_completeness auto
termination
  by (relation "measure (\<lambda>(plan, s). length (unr_queued_responses (ay_unicore_router s)))")
    (auto simp: unr_PopResponse_def log_line_def note_and_finalize_def split_beta)

declare ApplyQueuedUnicoreResponses.simps [simp del]

text \<open>\<open>ProcessUbloxBytes\<close>: the body of its loop up to the routing of a framed record, and the loop.\<close>

definition capture_byte :: "Apply \<Rightarrow> u8 \<Rightarrow> timestamp_ns \<Rightarrow> Apply \<times> UbxFrame option" where
  "capture_byte s byte ts =
     (let had_buffered_data = ubx_has_buffered_data (ay_ubx_framer s);
          (framer, framed) = ubx_PushByte (ay_ubx_framer s) byte (Some ts);
          s1 = s\<lparr>ay_ubx_framer := framer\<rparr>;
          s2 = (if \<not> had_buffered_data \<and> ubx_has_buffered_data framer then
                  let (f, g) = BeginCapture (ay_fence s1) in
                  s1\<lparr>ay_fence := f, ay_ubx_frame_capture_generation := Some g\<rparr>
                else s1) in
      (s2, if pr_status framed = PS_kRecordReady then pr_record framed else None))"

definition route_frame :: "Apply \<Rightarrow> UbxFrame \<Rightarrow> Apply" where
  "route_frame s frame =
     (let (f, g) = (case ay_ubx_frame_capture_generation s of
                      Some g \<Rightarrow> (ay_fence s, Some g)
                    | None \<Rightarrow> (case BeginCapture (ay_fence s) of (f, g) \<Rightarrow> (f, Some g))) in
      s\<lparr>ay_fence := f, ay_ublox_router := fst (ProcessUbxFrame (ay_ublox_router s) frame g),
        ay_ubx_frame_capture_generation := None\<rparr>)"

fun ProcessUbloxBytes :: "ConfigPlan \<Rightarrow> Apply \<Rightarrow> bytes \<Rightarrow> timestamp_ns \<Rightarrow> Apply \<times> bool" where
  "ProcessUbloxBytes plan s [] ts = (s, False)"
| "ProcessUbloxBytes plan s (byte # bs) ts =
     (case capture_byte s byte ts of
        (s1, None) \<Rightarrow> ProcessUbloxBytes plan s1 bs ts
      | (s1, Some frame) \<Rightarrow>
          (case ApplyQueuedUbloxResponses plan (route_frame s1 frame) of
             (s2, stopped) \<Rightarrow> if stopped then (s2, True) else ProcessUbloxBytes plan s2 bs ts))"

definition ProcessUnicoreBytes :: "ConfigPlan \<Rightarrow> Apply \<Rightarrow> bytes \<Rightarrow> timestamp_ns \<Rightarrow> Apply \<times> bool" where
  "ProcessUnicoreBytes plan s bs ts =
     (let (f, g) = BeginCapture (ay_fence s) in
      ApplyQueuedUnicoreResponses plan
        (s\<lparr>ay_fence := f,
           ay_unicore_router := FeedBytes (ay_unicore_router s) (text_of bs) (Some ts) (Some g)\<rparr>))"

section \<open>The loop of \<open>ExecuteConfigApply\<close>\<close>

text \<open>The dispatch part of an iteration: \<open>Step\<close>, the fence, the progress, the summary, the outcome.\<close>

definition apply_step ::
  "('k \<Rightarrow> bytes \<Rightarrow> 'k \<times> WriteResult) \<Rightarrow> ConfigPlan \<Rightarrow> 'k \<Rightarrow> Apply \<Rightarrow> timestamp_ns \<Rightarrow> 'k \<times> Apply \<times> bool" where
  "apply_step put plan k s t =
     (let (k1, a1, ar) = app_Step put k (ay_application s) (Some t);
          s1 = s\<lparr>ay_application := a1, ay_fence := NoteDispatch (ay_fence s) ar,
                 ay_result := NoteApplicationProgress (ay_result s) plan ar\<rparr>;
          s2 = update_summary s1;
          (r, stopped) = FinalizeIfApplicationStopped (ay_result s2) a1 ar in
      (k1, s2\<lparr>ay_result := r\<rparr>, stopped))"

definition apply_timeout :: "ConfigPlan \<Rightarrow> Apply \<Rightarrow> timestamp_ns \<Rightarrow> Apply \<times> bool" where
  "apply_timeout plan s t =
     (let (a1, ar) = app_CheckTimeout (ay_application s) t;
          s1 = update_summary (s\<lparr>ay_application := a1,
                 ay_result := NoteApplicationProgress (ay_result s) plan ar\<rparr>);
          (r, stopped) = FinalizeIfApplicationStopped (ay_result s1) a1 ar in
      (s1\<lparr>ay_result := r\<rparr>, stopped))"

definition apply_queued :: "ConfigPlan \<Rightarrow> Apply \<Rightarrow> Apply \<times> bool" where
  "apply_queued plan s =
     (if plan_vendor plan = ''ublox'' then ApplyQueuedUbloxResponses plan s
      else if plan_vendor plan = ''unicore'' then ApplyQueuedUnicoreResponses plan s
      else (s, False))"

definition apply_bytes :: "ConfigPlan \<Rightarrow> Apply \<Rightarrow> bytes \<Rightarrow> timestamp_ns \<Rightarrow> Apply \<times> bool" where
  "apply_bytes plan s bs t =
     (if plan_vendor plan = ''ublox'' then ProcessUbloxBytes plan s bs t
      else ProcessUnicoreBytes plan s bs t)"

definition read_failed :: "Apply \<Rightarrow> Apply" where
  "read_failed s =
     (let r1 = MarkReceiverStateIndeterminate
                 ((ay_result s)\<lparr>res_status := CA_kReadFailed,
                    res_error_message := ''transport read failed while waiting for a response''\<rparr>) in
      update_summary
        (s\<lparr>ay_result := push_progress (set_final_status r1) ''Read failed while waiting for receiver response''\<rparr>))"

text \<open>What was read, if anything.\<close>

definition apply_received ::
  "('k \<Rightarrow> 'k \<times> timestamp_ns) \<Rightarrow> ConfigPlan \<Rightarrow> 'k \<Rightarrow> Apply \<Rightarrow> ReadResult \<Rightarrow> bytes \<Rightarrow> 'k \<times> Apply \<times> bool" where
  "apply_received now plan k s rr bs =
     (if rr_bytes_read rr > 0 then
        let (k1, t) = now k;
            (s1, stopped) = apply_bytes plan s (take (rr_bytes_read rr) bs) t in
        (k1, update_summary s1, stopped)
      else (k, s, False))"

text \<open>The part of an iteration that waits: queued responses, one read, the timeout check.  The last component
  tells whether the loop goes on.\<close>

definition apply_wait ::
  "('k \<Rightarrow> nat \<Rightarrow> 'k \<times> ReadResult \<times> bytes) \<Rightarrow> ('k \<Rightarrow> 'k \<times> timestamp_ns) \<Rightarrow> ConfigPlan \<Rightarrow> 'k \<Rightarrow> Apply
     \<Rightarrow> 'k \<times> Apply \<times> bool" where
  "apply_wait get now plan k s =
     (let (s1, stopped1) = apply_queued plan s in
      if stopped1 then (k, update_summary s1, False)
      else
        let (k1, rr, bs) = get k 256 in
        if rr_status rr = TS_kError \<or> rr_status rr = TS_kClosed then (k1, read_failed s1, False)
        else
          let (k2, s2, stopped2) = apply_received now plan k1 s1 rr bs in
          if stopped2 then (k2, s2, False)
          else
            let (k3, t) = now k2; (s3, stopped3) = apply_timeout plan s2 t in
            (k3, s3, \<not> stopped3))"

definition apply_iteration ::
  "('k \<Rightarrow> bytes \<Rightarrow> 'k \<times> WriteResult) \<Rightarrow> ('k \<Rightarrow> nat \<Rightarrow> 'k \<times> ReadResult \<times> bytes) \<Rightarrow> ('k \<Rightarrow> 'k \<times> timestamp_ns)
     \<Rightarrow> ConfigPlan \<Rightarrow> 'k \<Rightarrow> Apply \<Rightarrow> 'k \<times> Apply \<times> bool" where
  "apply_iteration put get now plan k s =
     (let (k1, s1, stopped) =
            (if ap_state (ay_application s) = AS_kRunning then
               case now k of (k', t) \<Rightarrow> apply_step put plan k' s t
             else (k, s, False)) in
      if stopped then (k1, s1, False)
      else if ap_state (ay_application s1) \<noteq> AS_kWaitingForResponse then (k1, s1, True)
      else apply_wait get now plan k1 s1)"

text \<open>The loop may run for ever if the clock stands still for ever; not returning is \<open>None\<close>.\<close>

partial_function (option) apply_loop ::
  "('k \<Rightarrow> bytes \<Rightarrow> 'k \<times> WriteResult) \<Rightarrow> ('k \<Rightarrow> nat \<Rightarrow> 'k \<times> ReadResult \<times> bytes) \<Rightarrow> ('k \<Rightarrow> 'k \<times> timestamp_ns)
     \<Rightarrow> ConfigPlan \<Rightarrow> 'k \<Rightarrow> Apply \<Rightarrow> ('k \<times> Apply) option" where
  "apply_loop put get now plan k s =
     (if ap_state (ay_application s) = AS_kRunning \<or> ap_state (ay_application s) = AS_kWaitingForResponse then
        (case apply_iteration put get now plan k s of
           (k1, s1, go_on) \<Rightarrow> if go_on then apply_loop put get now plan k1 s1 else Some (k1, s1))
      else Some (k, s))"

definition ApplicationConfig_default :: ApplicationConfig where
  "ApplicationConfig_default =
     \<lparr>ac_transaction_engine = \<lparr>ec_allow_empty_payload_dispatch = False, ec_verify_response_metadata = True\<rparr>,
      ac_continue_on_error = False\<rparr>"

text \<open>\<open>Start\<close> and what surrounds it; the last component tells whether the loop is skipped.\<close>

definition apply_start ::
  "('k \<Rightarrow> bytes \<Rightarrow> 'k \<times> WriteResult) \<Rightarrow> ('k \<Rightarrow> 'k \<times> timestamp_ns) \<Rightarrow> ConfigPlan \<Rightarrow> ApplyOptions \<Rightarrow> ApplyResult \<Rightarrow> 'k
     \<Rightarrow> 'k \<times> Apply \<times> bool" where
  "apply_start put now plan options result k =
     (let (k1, t) = now k;
          (k2, a, ar) = app_Start put k1 (app_new ApplicationConfig_default)
                          (BuildExecutableCommands plan options) (Some t);
          r1 = UpdateExecutionSummary (NoteApplicationProgress result plan ar) a;
          (r2, stopped) = FinalizeIfApplicationStopped r1 a ar in
      (k2, \<lparr>ay_application = a, ay_ubx_framer = ubx_new 4096, ay_ublox_router = ubr_new,
            ay_unicore_router = unr_new, ay_fence = NoteDispatch fence_new ar,
            ay_ubx_frame_capture_generation = None,
            ay_result = (if stopped then UpdateExecutionSummary r2 a else r2)\<rparr>, stopped))"

definition apply_finish :: "Apply \<Rightarrow> Apply" where
  "apply_finish s =
     (if es_final_status (res_execution_summary (ay_result s)) = [] then
        let a = ay_application s;
            r1 = set_final_status ((UpdateExecutionSummary (ay_result s) a)
                   \<lparr>res_status := (if ap_state a = AS_kCompleted then SuccessfulCompletionStatus (ap_metrics a)
                                  else CA_kApplicationFailed)\<rparr>) in
        s\<lparr>ay_result := (if res_status r1 = CA_kPartialSuccess \<and> res_error_message r1 = []
             then r1\<lparr>res_error_message := ''one or more optional commands failed during apply''\<rparr> else r1)\<rparr>
      else s)"

text \<open>After a success: the baud rate that is known to be active, and on a u-blox receiver the check of the
  transport by a model query with the default limit of 4096 bytes.\<close>

definition note_identity :: "ReceiverIdentityMetadata \<Rightarrow> ReceiverIdentityMetadata \<Rightarrow> ReceiverIdentityMetadata" where
  "note_identity found old =
     \<lparr>rid_receiver_identity = (if rid_receiver_identity found \<noteq> None then rid_receiver_identity found
                               else rid_receiver_identity old),
      rid_model = (if rid_model found \<noteq> None then rid_model found else rid_model old),
      rid_firmware_version = (if rid_firmware_version found \<noteq> None then rid_firmware_version found
                              else rid_firmware_version old)\<rparr>"

definition note_model_query :: "ReceiverModelQueryResult \<Rightarrow> ApplyResult \<Rightarrow> ApplyResult" where
  "note_model_query mq r =
     (let r1 = r\<lparr>res_model_verified := mq_model_verified mq, res_model_query_method := mq_method mq,
                res_current_baud_verified := mq_transport_verified mq\<rparr> in
      if mq_transport_verified mq then
        push_progress (r1\<lparr>res_plan_identity := (if mq_model_verified mq
                                then note_identity (mq_identity mq) (res_plan_identity r1)
                                else res_plan_identity r1),
                         res_active_verified_baud := Some (res_current_transport_baud_rate r1)\<rparr>)
          (''Verified active u-blox transport with a UBX-MON-VER response at ''
             @ dec_nat (unat (res_current_transport_baud_rate r1)) @ '' bps'')
      else
        push_progress (r1\<lparr>res_active_verified_baud := None\<rparr>)
          ''Could not verify active u-blox transport with a UBX-MON-VER response'')"

definition FinalizeSuccessfulUbloxActiveBaudVerification ::
  "('k \<Rightarrow> bytes \<Rightarrow> 'k \<times> WriteResult) \<Rightarrow> ('k \<Rightarrow> nat \<Rightarrow> 'k \<times> ReadResult \<times> bytes) \<Rightarrow> ('k \<Rightarrow> 'k \<times> timestamp_ns)
     \<Rightarrow> ConfigPlan \<Rightarrow> ApplyOptions \<Rightarrow> ApplyResult \<Rightarrow> 'k \<Rightarrow> ('k \<times> ApplyResult) option" where
  "FinalizeSuccessfulUbloxActiveBaudVerification put get now plan options r k =
     (if \<not> IsSuccessfulApplyStatus (res_status r) \<or> plan_vendor plan \<noteq> ''ublox'' then Some (k, r)
      else map_option (\<lambda>(k1, mq). (k1, note_model_query mq r))
             (QueryReceiverModel put get now DF_kUblox k (opt_timeout_ms options) 4096))"

definition note_active_baud :: "ApplyResult \<Rightarrow> ApplyResult" where
  "note_active_baud r =
     (if IsSuccessfulApplyStatus (res_status r) \<and> res_current_baud_verified r
      then r\<lparr>res_active_verified_baud := Some (res_current_transport_baud_rate r)\<rparr> else r)"

definition apply_verify ::
  "('k \<Rightarrow> bytes \<Rightarrow> 'k \<times> WriteResult) \<Rightarrow> ('k \<Rightarrow> nat \<Rightarrow> 'k \<times> ReadResult \<times> bytes) \<Rightarrow> ('k \<Rightarrow> 'k \<times> timestamp_ns)
     \<Rightarrow> ConfigPlan \<Rightarrow> ApplyOptions \<Rightarrow> 'k \<Rightarrow> Apply \<Rightarrow> ('k \<times> Apply) option" where
  "apply_verify put get now plan options k s =
     map_option (\<lambda>(k1, r). (k1, s\<lparr>ay_result := r\<rparr>))
       (FinalizeSuccessfulUbloxActiveBaudVerification put get now plan options
          (note_active_baud (ay_result s)) k)"

text \<open>From the construction of the application to the end of \<open>ExecuteConfigApply\<close>.\<close>

definition execute_apply ::
  "('k \<Rightarrow> bytes \<Rightarrow> 'k \<times> WriteResult) \<Rightarrow> ('k \<Rightarrow> nat \<Rightarrow> 'k \<times> ReadResult \<times> bytes) \<Rightarrow> ('k \<Rightarrow> 'k \<times> timestamp_ns)
     \<Rightarrow> ConfigPlan \<Rightarrow> ApplyOptions \<Rightarrow> ApplyResult \<Rightarrow> 'k \<Rightarrow> ('k \<times> Apply) option" where
  "execute_apply put get now plan options result k =
     (case apply_start put now plan options result k of
        (k1, s1, stopped) \<Rightarrow>
          if stopped then apply_verify put get now plan options k1 s1
          else
            (case apply_loop put get now plan k1 s1 of
               None \<Rightarrow> None
             | Some (k2, s2) \<Rightarrow> apply_verify put get now plan options k2 (apply_finish s2)))"

section \<open>Rules for the two queue loops\<close>

text \<open>Noting a result changes the result only; the loop stops exactly when the application has stopped.\<close>

lemma note_and_finalize_frame:
  "ay_ubx_framer (fst (note_and_finalize plan ar s)) = ay_ubx_framer s"
  "ay_ublox_router (fst (note_and_finalize plan ar s)) = ay_ublox_router s"
  "ay_unicore_router (fst (note_and_finalize plan ar s)) = ay_unicore_router s"
  "ay_fence (fst (note_and_finalize plan ar s)) = ay_fence s"
  "ay_ubx_frame_capture_generation (fst (note_and_finalize plan ar s)) = ay_ubx_frame_capture_generation s"
  "ay_application (fst (note_and_finalize plan ar s)) = ay_application s"
  by (simp_all add: note_and_finalize_def split_beta)

lemma ubr_Pop_queue: "ubr_queued_responses (fst (ubr_PopResponse q)) = tl (ubr_queued_responses q)"
  by (cases "ubr_queued_responses q") (simp_all add: ubr_PopResponse_def)

lemma unr_Pop_queue: "unr_queued_responses (fst (unr_PopResponse q)) = tl (unr_queued_responses q)"
  by (cases "unr_queued_responses q") (simp_all add: unr_PopResponse_def)

text \<open>\<open>loop_post I Q\<close>: what holds when a loop ended by itself, and when it was stopped.\<close>

definition loop_post :: "(Apply \<Rightarrow> bool) \<Rightarrow> (Apply \<Rightarrow> bool) \<Rightarrow> Apply \<times> bool \<Rightarrow> bool" where
  "loop_post I Q r \<longleftrightarrow> (if snd r then Q (fst r) else I (fst r))"

lemma ApplyQueuedUblox_rule:
  assumes "I s"
    and discard: "\<And>s routed rest. \<lbrakk>I s; ubr_queued_responses (ay_ublox_router s) = routed # rest;
        \<not> IsEligible (ay_fence s) (urr_response routed)\<rbrakk> \<Longrightarrow>
      I (log_line ''Discarded u-blox response captured before the current command dispatch''
           (s\<lparr>ay_ublox_router := fst (ubr_PopResponse (ay_ublox_router s))\<rparr>))"
    and hit: "\<And>s routed rest a1 ar. \<lbrakk>I s; ubr_queued_responses (ay_ublox_router s) = routed # rest;
        ap_state (ay_application s) = AS_kWaitingForResponse;
        IsEligible (ay_fence s) (urr_response routed);
        app_ApplyResponse (ay_application s) (urr_response routed) (urr_ubx_target routed) = (a1, ar)\<rbrakk> \<Longrightarrow>
      loop_post I Q (note_and_finalize plan ar
           (s\<lparr>ay_ublox_router := fst (ubr_PopResponse (ay_ublox_router s)), ay_application := a1\<rparr>))"
  shows "loop_post I Q (ApplyQueuedUbloxResponses plan s)"
  using assms(1)
proof (induction "length (ubr_queued_responses (ay_ublox_router s))" arbitrary: s rule: less_induct)
  case less
  let ?s1 = "s\<lparr>ay_ublox_router := fst (ubr_PopResponse (ay_ublox_router s))\<rparr>"
  show ?case
  proof (cases "ap_state (ay_application s) = AS_kWaitingForResponse
      \<and> ubr_queued_responses (ay_ublox_router s) \<noteq> []")
    case False
    with less.prems show ?thesis
      by (subst ApplyQueuedUbloxResponses.simps) (auto simp: loop_post_def split: list.split)
  next
    case True
    then obtain routed rest where q: "ubr_queued_responses (ay_ublox_router s) = routed # rest"
      by (cases "ubr_queued_responses (ay_ublox_router s)") auto
    obtain a1 ar where a1: "app_ApplyResponse (ay_application s) (urr_response routed) (urr_ubx_target routed)
        = (a1, ar)" by fastforce
    obtain s2 stopped where s2: "note_and_finalize plan ar (?s1\<lparr>ay_application := a1\<rparr>) = (s2, stopped)"
      by fastforce
    have shorter: "length (ubr_queued_responses (ay_ublox_router s2)) < length (ubr_queued_responses (ay_ublox_router s))"
      using note_and_finalize_frame(2) [of plan ar "?s1\<lparr>ay_application := a1\<rparr>"] by (simp add: s2 ubr_Pop_queue q)
    show ?thesis
    proof (cases "IsEligible (ay_fence s) (urr_response routed)")
      case el: True
      have "if stopped then Q s2 else I s2"
        using hit [OF less.prems q _ el a1] True s2 by (simp add: loop_post_def split: if_split_asm)
      with less.hyps [OF shorter] show ?thesis
        using True el q
        by (subst ApplyQueuedUbloxResponses.simps) (simp add: a1 s2 loop_post_def split: if_split_asm)
    next
      case False
      with discard [OF less.prems q False] less.hyps [of "log_line _ ?s1"] show ?thesis
        using True q by (subst ApplyQueuedUbloxResponses.simps) (simp add: log_line_def ubr_Pop_queue)
    qed
  qed
qed

lemma ApplyQueuedUnicore_rule:
  assumes "I s"
    and discard: "\<And>s response rest. \<lbrakk>I s; unr_queued_responses (ay_unicore_router s) = response # rest;
        \<not> IsEligible (ay_fence s) response\<rbrakk> \<Longrightarrow>
      I (log_line ''Discarded Unicore response captured before the current command dispatch''
           (s\<lparr>ay_unicore_router := fst (unr_PopResponse (ay_unicore_router s))\<rparr>))"
    and hit: "\<And>s response rest a1 ar. \<lbrakk>I s; unr_queued_responses (ay_unicore_router s) = response # rest;
        ap_state (ay_application s) = AS_kWaitingForResponse;
        IsEligible (ay_fence s) response;
        app_ApplyResponse (ay_application s) response None = (a1, ar)\<rbrakk> \<Longrightarrow>
      loop_post I Q (note_and_finalize plan ar
           (s\<lparr>ay_unicore_router := fst (unr_PopResponse (ay_unicore_router s)), ay_application := a1\<rparr>))"
  shows "loop_post I Q (ApplyQueuedUnicoreResponses plan s)"
  using assms(1)
proof (induction "length (unr_queued_responses (ay_unicore_router s))" arbitrary: s rule: less_induct)
  case less
  let ?s1 = "s\<lparr>ay_unicore_router := fst (unr_PopResponse (ay_unicore_router s))\<rparr>"
  show ?case
  proof (cases "ap_state (ay_application s) = AS_kWaitingForResponse
      \<and> unr_queued_responses (ay_unicore_router s) \<noteq> []")
    case False
    with less.prems show ?thesis
      by (subst ApplyQueuedUnicoreResponses.simps) (auto simp: loop_post_def split: list.split)
  next
    case True
    then obtain response rest where q: "unr_queued_responses (ay_unicore_router s) = response # rest"
      by (cases "unr_queued_responses (ay_unicore_router s)") auto
    obtain a1 ar where a1: "app_ApplyResponse (ay_application s) response None
        = (a1, ar)" by fastforce
    obtain s2 stopped where s2: "note_and_finalize plan ar (?s1\<lparr>ay_application := a1\<rparr>) = (s2, stopped)"
      by fastforce
    have shorter: "length (unr_queued_responses (ay_unicore_router s2)) < length (unr_queued_responses (ay_unicore_router s))"
      using note_and_finalize_frame(3) [of plan ar "?s1\<lparr>ay_application := a1\<rparr>"] by (simp add: s2 unr_Pop_queue q)
    show ?thesis
    proof (cases "IsEligible (ay_fence s) response")
      case el: True
      have "if stopped then Q s2 else I s2"
        using hit [OF less.prems q _ el a1] True s2 by (simp add: loop_post_def split: if_split_asm)
      with less.hyps [OF shorter] show ?thesis
        using True el q
        by (subst ApplyQueuedUnicoreResponses.simps) (simp add: a1 s2 loop_post_def split: if_split_asm)
    next
      case False
      with discard [OF less.prems q False] less.hyps [of "log_line _ ?s1"] show ?thesis
        using True q by (subst ApplyQueuedUnicoreResponses.simps) (simp add: log_line_def unr_Pop_queue)
    qed
  qed
qed

end
