(* ===== verification/Apply_Causality.thy ===== *)
theory Apply_Causality
  imports Config_Apply
begin

text \<open>
  The fence at work: a response is let through to the command in flight only if its capture began after the
  dispatch of that command.  For the u-blox path this is proved down to the bytes: a response that was applied
  is that of a well-formed acknowledgement frame for the command, every byte of which was received after the
  dispatch.
\<close>

section \<open>The waiting part of the loop as a transition system\<close>

text \<open>What happens between two dispatches: received bytes, the queue, the timeout check.\<close>

datatype wait_event = WE_Bytes bytes timestamp_ns | WE_Queued | WE_Timeout timestamp_ns

primrec event_bytes :: "wait_event \<Rightarrow> bytes" where
  "event_bytes (WE_Bytes bs t) = bs"
| "event_bytes WE_Queued = []"
| "event_bytes (WE_Timeout t) = []"

definition wait_step :: "ConfigPlan \<Rightarrow> Apply \<Rightarrow> wait_event \<Rightarrow> Apply" where
  "wait_step plan s ev =
     (case ev of
        WE_Bytes bs t \<Rightarrow> update_summary (fst (ProcessUbloxBytes plan s bs t))
      | WE_Queued \<Rightarrow> fst (ApplyQueuedUbloxResponses plan s)
      | WE_Timeout t \<Rightarrow> fst (apply_timeout plan s t))"

definition wait_run :: "ConfigPlan \<Rightarrow> Apply \<Rightarrow> wait_event list \<Rightarrow> Apply" where
  "wait_run plan s evs = foldl (wait_step plan) s evs"

abbreviation last_capture :: "Apply \<Rightarrow> u64" where
  "last_capture s \<equiv> fc_last_capture_generation (ay_fence s)"

text \<open>The states of the loop; the counter of captures does not run over its 64 bits.\<close>

inductive apply_reach ::
  "('k \<Rightarrow> bytes \<Rightarrow> 'k \<times> WriteResult) \<Rightarrow> ('k \<Rightarrow> 'k \<times> timestamp_ns) \<Rightarrow> ConfigPlan \<Rightarrow> ApplyOptions \<Rightarrow> ApplyResult
     \<Rightarrow> Apply \<Rightarrow> bool"
  for put :: "'k \<Rightarrow> bytes \<Rightarrow> 'k \<times> WriteResult" and now :: "'k \<Rightarrow> 'k \<times> timestamp_ns"
    and plan :: ConfigPlan and options :: ApplyOptions and result :: ApplyResult where
  reach_start: "apply_start put now plan options result k = (k1, s, stopped) \<Longrightarrow>
    apply_reach put now plan options result s"
| reach_step: "\<lbrakk>apply_reach put now plan options result s; apply_step put plan k s t = (k1, s1, stopped)\<rbrakk> \<Longrightarrow>
    apply_reach put now plan options result s1"
| reach_event: "\<lbrakk>apply_reach put now plan options result s;
      unat (last_capture s) + length (event_bytes ev) < 2 ^ 64\<rbrakk> \<Longrightarrow>
    apply_reach put now plan options result (wait_step plan s ev)"

text \<open>The moments right after the dispatch of a command whose response is awaited.\<close>

inductive just_dispatched ::
  "('k \<Rightarrow> bytes \<Rightarrow> 'k \<times> WriteResult) \<Rightarrow> ('k \<Rightarrow> 'k \<times> timestamp_ns) \<Rightarrow> ConfigPlan \<Rightarrow> ApplyOptions \<Rightarrow> ApplyResult
     \<Rightarrow> Apply \<Rightarrow> bool"
  for put :: "'k \<Rightarrow> bytes \<Rightarrow> 'k \<times> WriteResult" and now :: "'k \<Rightarrow> 'k \<times> timestamp_ns"
    and plan :: ConfigPlan and options :: ApplyOptions and result :: ApplyResult where
  dispatched_start: "\<lbrakk>apply_start put now plan options result k = (k1, s, stopped);
      ap_state (ay_application s) = AS_kWaitingForResponse\<rbrakk> \<Longrightarrow>
    just_dispatched put now plan options result s"
| dispatched_step: "\<lbrakk>apply_reach put now plan options result s; ap_state (ay_application s) = AS_kRunning;
      apply_step put plan k s t = (k1, s1, stopped); ap_state (ay_application s1) = AS_kWaitingForResponse\<rbrakk> \<Longrightarrow>
    just_dispatched put now plan options result s1"

section \<open>Captured responses\<close>

text \<open>The evidence for a routed response: a well-formed frame within the received bytes that it acknowledges.\<close>

definition evidence :: "bytes \<Rightarrow> UbloxRoutedResponse \<Rightarrow> bool" where
  "evidence seen routed \<longleftrightarrow>
     (\<exists>bs ts r g. ubx_good 4096 bs \<and> sublist bs seen \<and> ParseUbxAck (ubx_record bs ts) = RecordReady r
        \<and> routed = routed_response r g)"

lemma evidence_append: "evidence seen routed \<Longrightarrow> evidence (seen @ xs) routed"
  unfolding evidence_def by (blast intro: sublist_append_right)

text \<open>Since generation \<open>g0\<close> the bytes \<open>seen\<close> were received: whatever carries a later generation comes from them.\<close>

definition capture_inv :: "u64 \<Rightarrow> bytes \<Rightarrow> Apply \<Rightarrow> bool" where
  "capture_inv g0 seen s \<longleftrightarrow>
     unat g0 \<le> unat (last_capture s) \<and> unat (last_capture s) \<le> unat g0 + length seen
     \<and> (\<forall>routed \<in> set (ubr_queued_responses (ay_ublox_router s)).
          \<exists>g. rsp_capture_generation (urr_response routed) = Some g \<and> g \<le> last_capture s
            \<and> (g > g0 \<longrightarrow> evidence seen routed))
     \<and> (ubf_buffer (ay_ubx_framer s) \<noteq> [] \<longrightarrow>
          (\<exists>g. ay_ubx_frame_capture_generation s = Some g \<and> g \<le> last_capture s
             \<and> (g > g0 \<longrightarrow> suffix (ubf_buffer (ay_ubx_framer s)) seen)))
     \<and> ubx_inv (ay_ubx_framer s) \<and> ubf_max_frame_length (ay_ubx_framer s) = 4096"

lemma capture_inv_restart: "capture_inv g0 seen s \<Longrightarrow> capture_inv (last_capture s) [] s"
  unfolding capture_inv_def by (auto simp: not_less[symmetric] dest: leD)

lemma unat_Suc_no_wrap: "unat (x :: u64) + 1 < 2 ^ 64 \<Longrightarrow> unat (x + 1) = unat x + 1"
  by (subst unat_plus_if') simp

lemma word_le_unat: "(x :: u64) \<le> y \<longleftrightarrow> unat x \<le> unat y"
  by (rule word_le_nat_alt)

lemma word_less_unat: "(x :: u64) < y \<longleftrightarrow> unat x < unat y"
  by (rule word_less_nat_alt)

text \<open>One byte, before anything is routed.\<close>

lemma capture_byte_facts:
  assumes "capture_byte s b t = (s1, out)"
  shows "ay_ubx_framer s1 = fst (ubx_PushByte (ay_ubx_framer s) b (Some t))"
    and "ay_application s1 = ay_application s" and "ay_ublox_router s1 = ay_ublox_router s"
    and "ay_fence s1 = (if ubf_buffer (ay_ubx_framer s) = [] \<and> ubf_buffer (ay_ubx_framer s1) \<noteq> []
           then fst (BeginCapture (ay_fence s)) else ay_fence s)"
    and "ay_ubx_frame_capture_generation s1 =
           (if ubf_buffer (ay_ubx_framer s) = [] \<and> ubf_buffer (ay_ubx_framer s1) \<noteq> []
            then Some (last_capture s + 1) else ay_ubx_frame_capture_generation s)"
    and "out = Some r \<Longrightarrow> pr_record (snd (ubx_PushByte (ay_ubx_framer s) b (Some t))) = Some r"
  using assms
  by (auto simp: capture_byte_def BeginCapture_def ubx_has_buffered_data_def Let_def split_beta split: if_splits)

lemma ubx_first_byte:
  assumes "ubf_buffer f = []"
  shows "pr_record (snd (ubx_PushByte f b t)) = None"
    and "ubf_buffer (fst (ubx_PushByte f b t)) \<in> {[], [b]}"
  using assms by (auto simp: ubx_PushByte_def ubx_StartSync_def)

lemma ubx_Complete_empties: "ubf_buffer (fst (ubx_Complete s)) = []"
  by (simp add: ubx_Complete_def Let_def split: option.split)

lemma ubx_record_empties:
  "pr_record (snd (ubx_PushByte f b t)) = Some r \<Longrightarrow> ubf_buffer (fst (ubx_PushByte f b t)) = []"
  unfolding ubx_PushByte_def Let_def
  by (simp add: ubx_StartSync_def ubx_Complete_empties split: if_split_asm)

lemma capture_inv_byte:
  assumes inv: "capture_inv g0 seen s" and step: "capture_byte s b t = (s1, out)"
    and room: "unat (last_capture s) + 1 < 2 ^ 64"
  shows "capture_inv g0 (seen @ [b]) s1"
proof -
  let ?f = "ay_ubx_framer s" and ?f1 = "ay_ubx_framer s1"
  note facts = capture_byte_facts [OF step]
  have f1: "?f1 = fst (ubx_PushByte ?f b (Some t))" by (rule facts(1))
  have sub: "suffix (ubf_buffer ?f1) (ubf_buffer ?f @ [b])" unfolding f1 by (rule ubx_suffix_PushByte)
  have frames: "ubx_inv ?f1 \<and> ubf_max_frame_length ?f1 = 4096"
    using inv by (simp add: f1 capture_inv_def ubx_inv_PushByte ubx_max_frame_length_PushByte)
  show ?thesis
  proof (cases "ubf_buffer ?f = [] \<and> ubf_buffer ?f1 \<noteq> []")
    case True
    then have buf: "ubf_buffer ?f1 = [b]" using ubx_first_byte(2) [of ?f b "Some t"] by (auto simp: f1)
    have last: "last_capture s1 = last_capture s + 1" using True by (simp add: facts(4) BeginCapture_def Let_def)
    have up: "unat (last_capture s1) = unat (last_capture s) + 1"
      unfolding last using room by (rule unat_Suc_no_wrap)
    show ?thesis
      using inv frames up True buf
      by (auto simp: capture_inv_def facts(3,5) last [symmetric] word_le_unat word_less_unat evidence_append)
  next
    case False
    then have same: "ay_fence s1 = ay_fence s"
      "ay_ubx_frame_capture_generation s1 = ay_ubx_frame_capture_generation s" using facts(4,5) by auto
    have "suffix (ubf_buffer ?f1) (seen @ [b])" if "suffix (ubf_buffer ?f) seen"
      using sub that by (meson suffix_order.trans same_suffix_suffix suffix_append)
    then show ?thesis
      using inv frames False
      by (auto simp: capture_inv_def facts(3) same evidence_append)
  qed
qed

text \<open>Routing a framed record.\<close>

lemma ProcessUbxFrame_queue:
  "ubr_queued_responses (fst (ProcessUbxFrame q frame g)) = ubr_queued_responses q @ ubx_responses (frame, g)"
  using ubr.pending_process [of q "(frame, g)"] by (simp add: ubr_step_def)

lemma rsp_capture_routed [simp]: "rsp_capture_generation (urr_response (routed_response r g)) = g"
  by (simp add: routed_response_def)

lemma ParseUbxAck_valid: "pr_record (ParseUbxAck frame) = Some r \<Longrightarrow> ubx_checksum_status frame = CS_kValid"
  by (simp add: ParseUbxAck_def split: if_split_asm)

lemma capture_inv_route:
  assumes inv: "capture_inv g0 seen s" and step: "capture_byte s b t = (s1, Some frame)"
    and room: "unat (last_capture s) + 1 < 2 ^ 64"
  shows "capture_inv g0 (seen @ [b]) (route_frame s1 frame)"
proof -
  let ?f = "ay_ubx_framer s"
  note facts = capture_byte_facts [OF step]
  have rec: "pr_record (snd (ubx_PushByte ?f b (Some t))) = Some frame" by (rule facts(6)) simp
  then have some: "ubf_buffer ?f \<noteq> []" using ubx_first_byte(1) [of ?f b "Some t"] by auto
  from inv some obtain g where g: "ay_ubx_frame_capture_generation s = Some g" "g \<le> last_capture s"
    "g > g0 \<Longrightarrow> suffix (ubf_buffer ?f) seen"
    by (auto simp: capture_inv_def)
  have gen: "ay_ubx_frame_capture_generation s1 = Some g" "ay_fence s1 = ay_fence s"
    using some facts(4,5) g by auto
  have proof_of: "evidence (seen @ [b]) routed"
    if "routed \<in> set (ubx_responses (frame, Some g))" "g > g0" for routed
  proof -
    from that(1) obtain r where r: "pr_record (ParseUbxAck frame) = Some r" "routed = routed_response r (Some g)"
      by (cases "pr_record (ParseUbxAck frame)") (auto simp: ubx_responses_def)
    then have ack: "ParseUbxAck frame = RecordReady r"
      by (cases frame rule: ParseUbxAck_cases) auto
    from ParseUbxAck_valid [OF r(1)] ubx_sound.push_sound [OF _ rec] inv
    obtain bs ts where "ubx_good 4096 bs" "sublist bs (ubf_buffer ?f @ [b])" "frame = ubx_record bs ts"
      by (auto simp: capture_inv_def)
    moreover from g(3) [OF that(2)] have "sublist (ubf_buffer ?f @ [b]) (seen @ [b])"
      by (auto simp: suffix_def sublist_append_leftI)
    ultimately show ?thesis
      using ack r(2) unfolding evidence_def by (blast intro: sublist_order.order.trans)
  qed
  from capture_inv_byte [OF inv step room] have inv1: "capture_inv g0 (seen @ [b]) s1" .
  have "ubf_buffer (ay_ubx_framer s1) = []"
    using rec some by (auto simp: facts(1) ubx_record_empties)
  moreover have gens: "rsp_capture_generation (urr_response routed) = Some g"
    if "routed \<in> set (ubx_responses (frame, Some g))" for routed
    using that by (auto simp: ubx_responses_def split: option.splits)
  ultimately show ?thesis
    using inv1 proof_of g(2)
    by (auto simp: capture_inv_def route_frame_def gen ProcessUbxFrame_queue)
qed

section \<open>What the queue may do to the command in flight\<close>

text \<open>\<open>quiet t n a\<close>: the application still waits for the answer to the transaction \<open>t\<close>, or has given the session
  up; it has applied \<open>n\<close> responses so far.\<close>

definition quiet :: "ReceiverCommandTransaction \<Rightarrow> u64 \<Rightarrow> Application \<Rightarrow> bool" where
  "quiet t n a \<longleftrightarrow>
     am_responses_applied (ap_metrics a) = n
     \<and> ec_verify_response_metadata (en_config (ap_engine a))
     \<and> (en_current_transaction (ap_engine a) = Some t \<or> en_session_indeterminate (ap_engine a))"

definition answers :: "ReceiverCommandTransaction \<Rightarrow> MatchMetadata \<Rightarrow> bool" where
  "answers t target \<longleftrightarrow>
     (case (target, TryGetUbxCommandMessageIdentity (tx_command t)) of
        (Some x, Some identity) \<Rightarrow>
          umi_class_id identity = umi_class_id x \<and> umi_message_id identity = umi_message_id x
      | _ \<Rightarrow> True)"

lemma CompleteCurrentCommand_responses:
  "am_responses_applied (ap_metrics (fst (CompleteCurrentCommand a er ok ra fb em al)))
     = am_responses_applied (ap_metrics a)"
  by (simp add: CompleteCurrentCommand_def count_completion_def Let_def)

lemma quiet_ApplyResponse:
  assumes "quiet t n a" and "\<not> answers t md"
  shows "quiet t n (fst (app_ApplyResponse a response md))"
proof -
  obtain e1 er where e: "engine_ApplyResponse (ap_engine a) response md = (e1, er)" by fastforce
  have "\<not> (\<not> en_session_indeterminate (ap_engine a) \<and> ResponseMatchesCurrent (ap_engine a) md)"
    using assms by (auto simp: quiet_def answers_def ResponseMatchesCurrent_def split: option.splits)
  with ApplyResponse_cases [OF e] have "er_status er = ES_kResponseUnmatched"
    "e1 = (ap_engine a)\<lparr>en_metrics := (en_metrics (ap_engine a))
       \<lparr>em_responses_unmatched := em_responses_unmatched (en_metrics (ap_engine a)) + 1\<rparr>\<rparr>"
    by (auto split: if_split_asm)
  with assms(1) show ?thesis by (simp add: app_ApplyResponse_def e quiet_def Let_def)
qed

lemma quiet_CheckTimeout:
  assumes "quiet t n a"
  shows "quiet t n (fst (app_CheckTimeout a now))"
proof -
  obtain e1 er where e: "engine_CheckTimeout (ap_engine a) now = (e1, er)" by fastforce
  have "en_config e1 = en_config (ap_engine a)"
    using arg_cong [OF e, of fst]
    by (auto simp: engine_CheckTimeout_def engine_MarkTimeout_def split: option.splits if_split_asm)
  moreover have "er_status er = ES_kTimedOut \<Longrightarrow> en_session_indeterminate e1"
    "er_status er \<noteq> ES_kTimedOut \<Longrightarrow> e1 = ap_engine a"
    using engine_CheckTimeout_facts [of "ap_engine a" now] by (simp_all add: e)
  ultimately show ?thesis using assms
    by (auto simp: app_CheckTimeout_def e HandleTimeoutResult_def quiet_def CompleteCurrentCommand_responses
        CompleteCurrentCommand_fields)
qed

text \<open>The loop over the queue, as an invariant rule.\<close>

lemma ApplyQueuedUblox_invariant:
  assumes "I s"
    and "\<And>s routed rest. \<lbrakk>I s; ubr_queued_responses (ay_ublox_router s) = routed # rest;
        \<not> IsEligible (ay_fence s) (urr_response routed)\<rbrakk> \<Longrightarrow>
      I (log_line ''Discarded u-blox response captured before the current command dispatch''
           (s\<lparr>ay_ublox_router := fst (ubr_PopResponse (ay_ublox_router s))\<rparr>))"
    and "\<And>s routed rest a1 ar. \<lbrakk>I s; ubr_queued_responses (ay_ublox_router s) = routed # rest;
        ap_state (ay_application s) = AS_kWaitingForResponse;
        IsEligible (ay_fence s) (urr_response routed);
        app_ApplyResponse (ay_application s) (urr_response routed) (urr_ubx_target routed) = (a1, ar)\<rbrakk> \<Longrightarrow>
      I (fst (note_and_finalize plan ar
           (s\<lparr>ay_ublox_router := fst (ubr_PopResponse (ay_ublox_router s)), ay_application := a1\<rparr>)))"
  shows "I (fst (ApplyQueuedUbloxResponses plan s))"
proof -
  have "loop_post I I (ApplyQueuedUbloxResponses plan s)"
    by (rule ApplyQueuedUblox_rule [where I = I and Q = I]) (use assms in \<open>auto simp: loop_post_def\<close>)
  then show ?thesis by (simp add: loop_post_def)
qed

lemma ApplyQueuedUblox_frame:
  "ay_ubx_framer (fst (ApplyQueuedUbloxResponses plan s)) = ay_ubx_framer s
   \<and> ay_fence (fst (ApplyQueuedUbloxResponses plan s)) = ay_fence s
   \<and> ay_ubx_frame_capture_generation (fst (ApplyQueuedUbloxResponses plan s)) = ay_ubx_frame_capture_generation s
   \<and> set (ubr_queued_responses (ay_ublox_router (fst (ApplyQueuedUbloxResponses plan s))))
       \<subseteq> set (ubr_queued_responses (ay_ublox_router s))"
  by (rule ApplyQueuedUblox_invariant [where I = "\<lambda>s'. ay_ubx_framer s' = ay_ubx_framer s
        \<and> ay_fence s' = ay_fence s \<and> ay_ubx_frame_capture_generation s' = ay_ubx_frame_capture_generation s
        \<and> set (ubr_queued_responses (ay_ublox_router s')) \<subseteq> set (ubr_queued_responses (ay_ublox_router s))"])
    (auto simp: note_and_finalize_frame log_line_def ubr_Pop_queue)

lemma capture_inv_ApplyQueued:
  "capture_inv g0 seen s \<Longrightarrow> capture_inv g0 seen (fst (ApplyQueuedUbloxResponses plan s))"
  using ApplyQueuedUblox_frame [of plan s] by (auto simp: capture_inv_def)

text \<open>Either the queue held an eligible answer to the command in flight, or the application stays quiet.\<close>

lemma ApplyQueued_cases:
  assumes "quiet t n (ay_application s)"
  shows "quiet t n (ay_application (fst (ApplyQueuedUbloxResponses plan s)))
     \<or> (\<exists>routed \<in> set (ubr_queued_responses (ay_ublox_router s)).
          IsEligible (ay_fence s) (urr_response routed) \<and> answers t (urr_ubx_target routed))"
proof (rule disjCI)
  assume none: "\<not> (\<exists>routed \<in> set (ubr_queued_responses (ay_ublox_router s)).
          IsEligible (ay_fence s) (urr_response routed) \<and> answers t (urr_ubx_target routed))"
  let ?I = "\<lambda>s' :: Apply. quiet t n (ay_application s') \<and> ay_fence s' = ay_fence s
      \<and> set (ubr_queued_responses (ay_ublox_router s')) \<subseteq> set (ubr_queued_responses (ay_ublox_router s))"
  have "?I (fst (ApplyQueuedUbloxResponses plan s))"
  proof (rule ApplyQueuedUblox_invariant [where I = ?I])
    fix s' :: Apply and routed rest a1 ar
    assume I: "?I s'" and q: "ubr_queued_responses (ay_ublox_router s') = routed # rest"
      and el: "IsEligible (ay_fence s') (urr_response routed)"
      and a1: "app_ApplyResponse (ay_application s') (urr_response routed) (urr_ubx_target routed) = (a1, ar)"
    from I q el none have "\<not> answers t (urr_ubx_target routed)" by auto
    with quiet_ApplyResponse [of t n "ay_application s'" "urr_ubx_target routed" "urr_response routed"] I a1
    have "quiet t n a1" by simp
    with I q show "?I (fst (note_and_finalize plan ar
           (s'\<lparr>ay_ublox_router := fst (ubr_PopResponse (ay_ublox_router s')), ay_application := a1\<rparr>)))"
      by (auto simp: note_and_finalize_frame ubr_Pop_queue)
  qed (use assms in \<open>auto simp: log_line_def ubr_Pop_queue\<close>)
  then show "quiet t n (ay_application (fst (ApplyQueuedUbloxResponses plan s)))" ..
qed

section \<open>The dispatch\<close>

text \<open>The configuration of the engine never changes; every response is matched against its metadata.\<close>

lemma StartTransaction_config: "en_config (fst (snd (StartTransaction put k e c ts))) = en_config e"
  by (simp add: StartTransaction_def QuarantineSession_def Let_def split_beta)

lemma StartTransaction_dispatched:
  "er_status (snd (snd (StartTransaction put k e c ts))) = ES_kDispatched \<Longrightarrow>
     in_flight (fst (snd (StartTransaction put k e c ts)))
     \<and> \<not> en_session_indeterminate (fst (snd (StartTransaction put k e c ts)))"
  by (auto simp: StartTransaction_def MakeStepResult_def mark_sent_def in_flight_def Let_def split_beta
      split: if_split_asm)

lemma app_Step_config: "en_config (ap_engine (fst (snd (app_Step put k a ts)))) = en_config (ap_engine a)"
  by (cases "ap_state a")
    (simp_all add: app_Step_def HandleCommandFailure_def CompleteCurrentCommand_fields StartTransaction_config
      split_beta Let_def)

lemma app_Step_waiting:
  assumes "ap_state a = AS_kRunning" and "app_Step put k a ts = (k1, a1, r)"
    and "ap_state a1 = AS_kWaitingForResponse"
  shows "(\<exists>er. ar_engine_result r = Some er \<and> er_status er = ES_kDispatched)
    \<and> in_flight (ap_engine a1) \<and> \<not> en_session_indeterminate (ap_engine a1)"
proof -
  let ?st = "StartTransaction put k (ap_engine a) (ap_commands a ! ap_current_index a) ts"
  have complete: "ap_state (fst (CompleteCurrentCommand b er ok ra fb em al)) \<noteq> AS_kWaitingForResponse"
    for b er ok ra fb em al by (simp add: CompleteCurrentCommand_fields)
  show ?thesis
    using assms StartTransaction_dispatched [of put k "ap_engine a" "ap_commands a ! ap_current_index a" ts]
      complete
    by (auto simp: app_Step_def HandleCommandFailure_def BuildResult_def Let_def split_beta split: if_split_asm)
qed

lemma app_ApplyResponse_config:
  "en_config (ap_engine (fst (app_ApplyResponse a response md))) = en_config (ap_engine a)"
proof -
  have "en_config (fst (engine_ApplyResponse (ap_engine a) response md)) = en_config (ap_engine a)"
    by (simp add: engine_ApplyResponse_def unmatched_def Let_def split: option.split)
  then show ?thesis
    by (simp add: app_ApplyResponse_def HandleCommandFailure_def CompleteCurrentCommand_fields Let_def split_beta)
qed

lemma app_CheckTimeout_config:
  "en_config (ap_engine (fst (app_CheckTimeout a now))) = en_config (ap_engine a)"
proof -
  have "en_config (fst (engine_CheckTimeout (ap_engine a) now)) = en_config (ap_engine a)"
    by (simp add: engine_CheckTimeout_def engine_MarkTimeout_def Let_def split: option.split)
  then show ?thesis
    by (simp add: app_CheckTimeout_def HandleTimeoutResult_def CompleteCurrentCommand_fields split_beta)
qed

section \<open>The states of the loop\<close>

definition loop_inv :: "Apply \<Rightarrow> bool" where
  "loop_inv s \<longleftrightarrow> capture_inv (last_capture s) [] s \<and> ec_verify_response_metadata (en_config (ap_engine (ay_application s)))"

lemma apply_step_fields:
  assumes "apply_step put plan k s t = (k1, s1, stopped)"
  shows "ay_application s1 = fst (snd (app_Step put k (ay_application s) (Some t)))"
    and "ay_fence s1 = NoteDispatch (ay_fence s) (snd (snd (app_Step put k (ay_application s) (Some t))))"
    and "ay_ubx_framer s1 = ay_ubx_framer s" and "ay_ublox_router s1 = ay_ublox_router s"
    and "ay_ubx_frame_capture_generation s1 = ay_ubx_frame_capture_generation s"
  using assms by (auto simp: apply_step_def update_summary_def Let_def split_beta)

lemma apply_start_fields:
  assumes "apply_start put now plan options result k = (k1, s, stopped)"
  defines "r \<equiv> app_Start put (fst (now k)) (app_new ApplicationConfig_default)
      (BuildExecutableCommands plan options) (Some (snd (now k)))"
  shows "ay_application s = fst (snd r)" and "ay_fence s = NoteDispatch fence_new (snd (snd r))"
    and "ay_ubx_framer s = ubx_new 4096" and "ay_ublox_router s = ubr_new"
    and "ay_ubx_frame_capture_generation s = None"
  using assms by (auto simp: apply_start_def Let_def split_beta)

lemma apply_timeout_fields:
  "ay_application (fst (apply_timeout plan s t)) = fst (app_CheckTimeout (ay_application s) t)"
  "ay_fence (fst (apply_timeout plan s t)) = ay_fence s"
  "ay_ubx_framer (fst (apply_timeout plan s t)) = ay_ubx_framer s"
  "ay_ublox_router (fst (apply_timeout plan s t)) = ay_ublox_router s"
  "ay_ubx_frame_capture_generation (fst (apply_timeout plan s t)) = ay_ubx_frame_capture_generation s"
  by (simp_all add: apply_timeout_def update_summary_def Let_def split_beta)

lemma NoteDispatch_last [simp]: "fc_last_capture_generation (NoteDispatch f r) = fc_last_capture_generation f"
  by (simp add: NoteDispatch_def split: option.split)

lemma NoteDispatch_dispatched:
  "\<lbrakk>ar_engine_result r = Some er; er_status er = ES_kDispatched\<rbrakk> \<Longrightarrow>
     fc_minimum_eligible_capture_generation (NoteDispatch f r) = fc_last_capture_generation f"
  by (simp add: NoteDispatch_def)

lemma capture_inv_cong:
  "\<lbrakk>last_capture s1 = last_capture s; ay_ubx_framer s1 = ay_ubx_framer s; ay_ublox_router s1 = ay_ublox_router s;
    ay_ubx_frame_capture_generation s1 = ay_ubx_frame_capture_generation s\<rbrakk> \<Longrightarrow>
   capture_inv g0 seen s1 = capture_inv g0 seen s"
  by (simp add: capture_inv_def)

lemma capture_inv_new:
  "\<lbrakk>last_capture s = 0; ay_ubx_framer s = ubx_new 4096; ay_ublox_router s = ubr_new\<rbrakk> \<Longrightarrow> capture_inv 0 [] s"
  by (simp add: capture_inv_def ubx_new_def ubr_new_def ubx_inv_def)

text \<open>The last capture moves by at most one per byte; nothing else of the fence moves.\<close>

abbreviation threshold :: "Apply \<Rightarrow> u64" where
  "threshold s \<equiv> fc_minimum_eligible_capture_generation (ay_fence s)"

lemma capture_byte_fence:
  assumes "capture_byte s b t = (s1, out)" and "unat (last_capture s) + 1 < 2 ^ 64"
  shows "threshold s1 = threshold s" and "unat (last_capture s1) \<le> unat (last_capture s) + 1"
  using assms(2)
  by (simp_all add: capture_byte_facts(4) [OF assms(1)] BeginCapture_def Let_def unat_Suc_no_wrap)

lemma route_frame_facts:
  assumes inv: "capture_inv g0 seen s" and step: "capture_byte s b t = (s1, Some frame)"
  shows "ay_application (route_frame s1 frame) = ay_application s"
    and "ay_fence (route_frame s1 frame) = ay_fence s"
    and "ubf_buffer (ay_ubx_framer (route_frame s1 frame)) = []"
proof -
  let ?f = "ay_ubx_framer s"
  note facts = capture_byte_facts [OF step]
  have rec: "pr_record (snd (ubx_PushByte ?f b (Some t))) = Some frame" by (rule facts(6)) simp
  then have some: "ubf_buffer ?f \<noteq> []" using ubx_first_byte(1) [of ?f b "Some t"] by auto
  with inv facts(4,5) obtain g where "ay_ubx_frame_capture_generation s1 = Some g" "ay_fence s1 = ay_fence s"
    by (auto simp: capture_inv_def)
  then show "ay_application (route_frame s1 frame) = ay_application s"
    and "ay_fence (route_frame s1 frame) = ay_fence s"
    and "ubf_buffer (ay_ubx_framer (route_frame s1 frame)) = []"
    using rec some facts(1,2) by (simp_all add: route_frame_def ubx_record_empties)
qed

lemma capture_inv_idle:
  "\<lbrakk>capture_inv g0 seen s; ubf_buffer (ay_ubx_framer s) = []\<rbrakk> \<Longrightarrow> capture_inv g0 (seen @ xs) s"
  by (auto simp: capture_inv_def evidence_append)

definition config_of :: "Apply \<Rightarrow> EngineConfig" where
  "config_of s = en_config (ap_engine (ay_application s))"

lemma config_of_ApplyQueued: "config_of (fst (ApplyQueuedUbloxResponses plan s)) = config_of s"
proof (rule ApplyQueuedUblox_invariant [where I = "\<lambda>s'. config_of s' = config_of s"])
  fix s' :: Apply and routed rest a1 ar
  assume "config_of s' = config_of s"
    and "app_ApplyResponse (ay_application s') (urr_response routed) (urr_ubx_target routed) = (a1, ar)"
  with app_ApplyResponse_config [of "ay_application s'" "urr_response routed" "urr_ubx_target routed"]
  show "config_of (fst (note_and_finalize plan ar
      (s'\<lparr>ay_ublox_router := fst (ubr_PopResponse (ay_ublox_router s')), ay_application := a1\<rparr>))) = config_of s"
    by (simp add: config_of_def note_and_finalize_frame)
qed (simp_all add: config_of_def log_line_def)

text \<open>The queue after a routed frame: the answer it let through was captured within \<open>seen\<close>.\<close>

lemma ApplyQueued_evidence:
  assumes "capture_inv g0 seen s" and "threshold s = g0" and "quiet t n (ay_application s)"
  shows "quiet t n (ay_application (fst (ApplyQueuedUbloxResponses plan s)))
    \<or> (\<exists>routed. evidence seen routed \<and> answers t (urr_ubx_target routed))"
  using ApplyQueued_cases [OF assms(3), of plan] assms(1,2)
  by (fastforce simp: capture_inv_def IsEligible_def split: option.splits)

text \<open>What a stretch of waiting does, from a state with the invariant.\<close>

definition waited :: "u64 \<Rightarrow> bytes \<Rightarrow> bytes \<Rightarrow> ReceiverCommandTransaction \<Rightarrow> u64 \<Rightarrow> Apply \<Rightarrow> Apply \<Rightarrow> bool" where
  "waited g0 seen bs t n s s1 \<longleftrightarrow>
     capture_inv g0 (seen @ bs) s1 \<and> unat (last_capture s1) \<le> unat (last_capture s) + length bs
     \<and> threshold s1 = threshold s \<and> config_of s1 = config_of s
     \<and> (threshold s = g0 \<and> quiet t n (ay_application s) \<longrightarrow>
          quiet t n (ay_application s1)
          \<or> (\<exists>routed. evidence (seen @ bs) routed \<and> answers t (urr_ubx_target routed)))"

lemma waited_trans:
  assumes "waited g0 seen bs t n s s1" and "waited g0 (seen @ bs) cs t n s1 s2"
  shows "waited g0 seen (bs @ cs) t n s s2"
  using assms unfolding waited_def by (fastforce simp flip: append_assoc intro: evidence_append)

lemma waited_capture:
  assumes "capture_inv g0 seen s" and "capture_byte s b ts = (s1, None)"
    and "unat (last_capture s) + 1 < 2 ^ 64"
  shows "waited g0 seen [b] t n s s1"
  using capture_inv_byte [OF assms] capture_byte_fence [OF assms(2,3)] capture_byte_facts(2) [OF assms(2)]
  by (simp add: waited_def config_of_def)

lemma waited_route:
  assumes "capture_inv g0 seen s" and "capture_byte s b ts = (s1, Some frame)"
    and "unat (last_capture s) + 1 < 2 ^ 64"
  shows "waited g0 seen [b] t n s (fst (ApplyQueuedUbloxResponses plan (route_frame s1 frame)))"
proof -
  note facts = route_frame_facts [OF assms(1,2)]
  note inv = capture_inv_route [OF assms]
  show ?thesis
    using capture_inv_ApplyQueued [OF inv] ApplyQueuedUblox_frame [of plan "route_frame s1 frame"]
      config_of_ApplyQueued [of plan "route_frame s1 frame"] ApplyQueued_evidence [OF inv, of t n plan]
    by (simp add: waited_def facts config_of_def)
qed

lemma waited_bytes:
  assumes "capture_inv g0 seen s" and "unat (last_capture s) + length bs < 2 ^ 64"
  shows "waited g0 seen bs t n s (fst (ProcessUbloxBytes plan s bs ts))"
  using assms
proof (induction bs arbitrary: seen s)
  case Nil
  then show ?case by (simp add: waited_def)
next
  case (Cons b bs)
  have room: "unat (last_capture s) + 1 < 2 ^ 64" using Cons.prems(2) by simp
  obtain s1 out where cap: "capture_byte s b ts = (s1, out)" by fastforce
  have rest: "waited g0 seen (b # bs) t n s (fst (ProcessUbloxBytes plan s2 bs ts))"
    if "waited g0 seen [b] t n s s2" for s2
    using waited_trans [OF that Cons.IH] that Cons.prems(2) by (simp add: waited_def)
  show ?case
  proof (cases out)
    case None
    with cap waited_capture [OF Cons.prems(1) _ room, of b ts s1 t n] rest show ?thesis by simp
  next
    case (Some frame)
    let ?q = "ApplyQueuedUbloxResponses plan (route_frame s1 frame)"
    note route = waited_route [OF Cons.prems(1) cap [unfolded Some] room, of t n plan]
    have "waited g0 (seen @ [b]) bs t n (fst ?q) (fst ?q)"
      using route ApplyQueuedUblox_frame [of plan "route_frame s1 frame"]
        route_frame_facts(3) [OF Cons.prems(1) cap [unfolded Some]]
      by (auto simp: waited_def intro: capture_inv_idle [of g0 "seen @ [b]", simplified])
    with waited_trans [OF route] rest [OF route] cap Some show ?thesis
      by (auto simp: split_beta)
  qed
qed

lemma waited_step:
  assumes "capture_inv g0 seen s" and "unat (last_capture s) + length (event_bytes ev) < 2 ^ 64"
  shows "waited g0 seen (event_bytes ev) t n s (wait_step plan s ev)"
proof (cases ev)
  case (WE_Bytes bs ts)
  with waited_bytes [OF assms(1), of bs t n plan ts] assms(2) show ?thesis
    by (simp add: wait_step_def waited_def update_summary_def config_of_def capture_inv_def)
next
  case WE_Queued
  then show ?thesis
    using capture_inv_ApplyQueued [OF assms(1)] ApplyQueuedUblox_frame [of plan s]
      config_of_ApplyQueued [of plan s] ApplyQueued_evidence [OF assms(1), of t n plan]
    by (simp add: wait_step_def waited_def)
next
  case (WE_Timeout now)
  then show ?thesis
    using assms(1) quiet_CheckTimeout [of t n "ay_application s" now] app_CheckTimeout_config [of "ay_application s" now]
      capture_inv_cong [of "fst (apply_timeout plan s now)" s g0 seen]
    by (simp add: wait_step_def waited_def apply_timeout_fields config_of_def)
qed

lemma waited_run:
  assumes "capture_inv g0 seen s"
    and "unat (last_capture s) + length (concat (map event_bytes evs)) < 2 ^ 64"
  shows "waited g0 seen (concat (map event_bytes evs)) t n s (wait_run plan s evs)"
  using assms
proof (induction evs arbitrary: seen s)
  case Nil
  then show ?case by (simp add: waited_def wait_run_def)
next
  case (Cons ev evs)
  from Cons.prems have step: "waited g0 seen (event_bytes ev) t n s (wait_step plan s ev)"
    by (intro waited_step) simp_all
  with waited_trans [OF step Cons.IH] Cons.prems(2) show ?case
    by (simp add: waited_def wait_run_def)
qed

lemma loop_inv_start:
  assumes "apply_start put now plan options result k = (k1, s, stopped)"
  shows "loop_inv s"
proof -
  note f = apply_start_fields [OF assms]
  have last: "last_capture s = 0" by (simp add: f(2) fence_new_def)
  have "en_config (ap_engine (ay_application s)) = ac_transaction_engine ApplicationConfig_default"
    by (simp add: f(1) app_Start_def ResetRunState_def app_new_def engine_new_def engine_Reset_def app_Step_config
        Let_def)
  with capture_inv_new [OF last f(3,4)] show ?thesis
    by (simp add: loop_inv_def last ApplicationConfig_default_def)
qed

lemma loop_inv_step:
  assumes "loop_inv s" and "apply_step put plan k s t = (k1, s1, stopped)"
  shows "loop_inv s1"
proof -
  note f = apply_step_fields [OF assms(2)]
  have last: "last_capture s1 = last_capture s" by (simp add: f(2))
  show ?thesis
    using assms(1) capture_inv_cong [OF last f(3,4,5)] by (simp add: loop_inv_def last f(1) app_Step_config)
qed

lemma loop_inv_reach: "apply_reach put now plan options result s \<Longrightarrow> loop_inv s"
proof (induction rule: apply_reach.induct)
  case (reach_start k k1 s stopped)
  then show ?case by (rule loop_inv_start)
next
  case (reach_step s k t k1 s1 stopped)
  then show ?case by (blast intro: loop_inv_step)
next
  case (reach_event s ev)
  from reach_event waited_step [of "last_capture s" "[]" s ev undefined undefined plan] show ?case
    by (auto simp: loop_inv_def waited_def config_of_def dest: capture_inv_restart)
qed

text \<open>Right after a dispatch, everything captured so far is behind the fence.\<close>

lemma just_dispatched_facts:
  assumes "just_dispatched put now plan options result s"
  shows "capture_inv (last_capture s) [] s \<and> threshold s = last_capture s
    \<and> ap_state (ay_application s) = AS_kWaitingForResponse
    \<and> in_flight (ap_engine (ay_application s)) \<and> \<not> en_session_indeterminate (ap_engine (ay_application s))
    \<and> ec_verify_response_metadata (en_config (ap_engine (ay_application s)))"
  using assms
proof cases
  case (dispatched_start k k1 stopped)
  note f = apply_start_fields [OF this(1)]
  let ?cs = "BuildExecutableCommands plan options"
  let ?a = "(ResetRunState (app_new ApplicationConfig_default))\<lparr>ap_commands := ?cs, ap_metrics :=
      (ap_metrics (ResetRunState (app_new ApplicationConfig_default)))\<lparr>am_commands_total := word_of_nat (length ?cs)\<rparr>,
      ap_state := AS_kRunning\<rparr>"
  have some: "?cs \<noteq> []"
    using dispatched_start(2) by (auto simp: f(1) app_Start_def app_new_def Let_def)
  then have start: "app_Start put (fst (now k)) (app_new ApplicationConfig_default) ?cs (Some (snd (now k)))
      = app_Step put (fst (now k)) ?a (Some (snd (now k)))"
    by (simp add: app_Start_def app_new_def Let_def)
  obtain k2 a2 r where st: "app_Step put (fst (now k)) ?a (Some (snd (now k))) = (k2, a2, r)" by (metis prod_cases3)
  from app_Step_waiting [OF _ st] dispatched_start(2) have
    "\<exists>er. ar_engine_result r = Some er \<and> er_status er = ES_kDispatched"
    "in_flight (ap_engine a2)" "\<not> en_session_indeterminate (ap_engine a2)"
    by (auto simp: f(1) start st)
  then show ?thesis
    using loop_inv_start [OF dispatched_start(1)] dispatched_start(2)
    by (auto simp: loop_inv_def f(1,2) start st NoteDispatch_dispatched)
next
  case (dispatched_step s0 k t k1 stopped)
  note f = apply_step_fields [OF this(3)]
  obtain k2 a2 r where st: "app_Step put k (ay_application s0) (Some t) = (k2, a2, r)" by (metis prod_cases3)
  from app_Step_waiting [OF dispatched_step(2) st] dispatched_step(4) have
    "\<exists>er. ar_engine_result r = Some er \<and> er_status er = ES_kDispatched"
    "in_flight (ap_engine a2)" "\<not> en_session_indeterminate (ap_engine a2)"
    by (auto simp: f(1) st)
  then show ?thesis
    using loop_inv_step [OF loop_inv_reach [OF dispatched_step(1)] dispatched_step(3)] dispatched_step(4)
    by (auto simp: loop_inv_def f(1,2) st NoteDispatch_dispatched)
qed

section \<open>An acknowledgement that arrives\<close>

text \<open>One byte of \<open>ProcessUbloxBytes\<close>.\<close>

definition byte_step :: "ConfigPlan \<Rightarrow> Apply \<Rightarrow> u8 \<Rightarrow> timestamp_ns \<Rightarrow> Apply \<times> bool" where
  "byte_step plan s b ts =
     (case capture_byte s b ts of
        (s1, None) \<Rightarrow> (s1, False)
      | (s1, Some frame) \<Rightarrow> ApplyQueuedUbloxResponses plan (route_frame s1 frame))"

lemma ProcessUbloxBytes_step:
  "ProcessUbloxBytes plan s (b # bs) ts =
     (if snd (byte_step plan s b ts) then (fst (byte_step plan s b ts), True)
      else ProcessUbloxBytes plan (fst (byte_step plan s b ts)) bs ts)"
  by (simp add: byte_step_def split_beta split: option.split)

text \<open>A byte of noise, and the first, a middle and the last byte of a well-formed frame.\<close>

lemma capture_noise:
  assumes "ubf_buffer (ay_ubx_framer s) = []" and "b \<noteq> kUbxSync1"
  obtains f where "capture_byte s b ts = (s\<lparr>ay_ubx_framer := f\<rparr>, None)" and "ubf_buffer f = []"
    and "ubf_max_frame_length f = ubf_max_frame_length (ay_ubx_framer s)"
proof -
  obtain f r where push: "ubx_PushByte (ay_ubx_framer s) b (Some ts) = (f, r)" by fastforce
  from ubx_rec.push_noise [OF assms, of "Some ts"] push that [of f] assms(1) show thesis
    by (simp add: capture_byte_def ubx_has_buffered_data_def)
qed

lemma capture_first:
  assumes "ubf_buffer (ay_ubx_framer s) = []" and "ubx_good (ubf_max_frame_length (ay_ubx_framer s)) bs"
  obtains f where "capture_byte s (bs ! 0) ts
      = (s\<lparr>ay_ubx_framer := f, ay_fence := fst (BeginCapture (ay_fence s)),
           ay_ubx_frame_capture_generation := Some (last_capture s + 1)\<rparr>, None)"
    and "ubx_mid f bs (Some ts) 1" and "ubf_max_frame_length f = ubf_max_frame_length (ay_ubx_framer s)"
proof -
  from ubx_rec.good_length [OF assms(2)] have len: "2 \<le> length bs" .
  then have hd: "bs ! 0 = hd bs" by (cases bs) simp_all
  obtain f r where push: "ubx_PushByte (ay_ubx_framer s) (hd bs) (Some ts) = (f, r)" by fastforce
  from ubx_rec.push_first [OF assms, of "Some ts"] push
  have f: "r = NeedMoreData" "ubx_mid f bs (Some ts) 1"
    "ubf_max_frame_length f = ubf_max_frame_length (ay_ubx_framer s)" by simp_all
  then have "ubf_buffer f \<noteq> []" using len by (auto simp: ubx_mid_def)
  with f push assms(1) that [of f] show thesis
    by (simp add: capture_byte_def hd ubx_has_buffered_data_def BeginCapture_def Let_def)
qed

lemma capture_next:
  assumes "ubx_mid (ay_ubx_framer s) bs t k" and "ubx_good (ubf_max_frame_length (ay_ubx_framer s)) bs"
    and "1 \<le> k" and "Suc k < length bs"
  obtains f where "capture_byte s (bs ! k) ts = (s\<lparr>ay_ubx_framer := f\<rparr>, None)" and "ubx_mid f bs t (Suc k)"
    and "ubf_max_frame_length f = ubf_max_frame_length (ay_ubx_framer s)"
proof -
  have buffered: "ubx_has_buffered_data (ay_ubx_framer s)"
    using assms by (auto simp: ubx_mid_def ubx_has_buffered_data_def)
  obtain f r where push: "ubx_PushByte (ay_ubx_framer s) (bs ! k) (Some ts) = (f, r)" by fastforce
  from ubx_rec.push_next [OF assms, of "Some ts"] push that [of f] buffered show thesis
    by (simp add: capture_byte_def)
qed

lemma capture_last:
  assumes "ubx_mid (ay_ubx_framer s) bs t k" and "ubx_good (ubf_max_frame_length (ay_ubx_framer s)) bs"
    and "1 \<le> k" and "Suc k = length bs"
  obtains f where "capture_byte s (bs ! k) ts = (s\<lparr>ay_ubx_framer := f\<rparr>, Some (ubx_record bs t))"
    and "ubf_buffer f = []" and "ubf_max_frame_length f = ubf_max_frame_length (ay_ubx_framer s)"
proof -
  have buffered: "ubx_has_buffered_data (ay_ubx_framer s)"
    using assms by (auto simp: ubx_mid_def ubx_has_buffered_data_def)
  obtain f r where push: "ubx_PushByte (ay_ubx_framer s) (bs ! k) (Some ts) = (f, r)" by fastforce
  from ubx_rec.push_last [OF assms, of "Some ts"] push that [of f] buffered show thesis
    by (simp add: capture_byte_def)
qed

text \<open>The application waits for the answer to \<open>t\<close> and has applied \<open>n\<close> responses.\<close>

definition still :: "ReceiverCommandTransaction \<Rightarrow> u64 \<Rightarrow> Application \<Rightarrow> bool" where
  "still t n a \<longleftrightarrow> ap_state a = AS_kWaitingForResponse \<and> en_current_transaction (ap_engine a) = Some t
     \<and> in_flight (ap_engine a) \<and> \<not> en_session_indeterminate (ap_engine a)
     \<and> ec_verify_response_metadata (en_config (ap_engine a)) \<and> am_responses_applied (ap_metrics a) = n"

lemma still_ApplyResponse:
  assumes "still t n a" and "\<not> answers t md"
  shows "still t n (fst (app_ApplyResponse a response md))"
proof -
  obtain e1 er where e: "engine_ApplyResponse (ap_engine a) response md = (e1, er)" by fastforce
  have "\<not> (\<not> en_session_indeterminate (ap_engine a) \<and> ResponseMatchesCurrent (ap_engine a) md)"
    using assms by (auto simp: still_def answers_def ResponseMatchesCurrent_def split: option.splits)
  with ApplyResponse_cases [OF e] have "er_status er = ES_kResponseUnmatched"
    "e1 = (ap_engine a)\<lparr>en_metrics := (en_metrics (ap_engine a))
       \<lparr>em_responses_unmatched := em_responses_unmatched (en_metrics (ap_engine a)) + 1\<rparr>\<rparr>"
    by (auto split: if_split_asm)
  with assms(1) show ?thesis by (auto simp: app_ApplyResponse_def e still_def in_flight_def Let_def)
qed

text \<open>A queued response that will not be applied: captured before the dispatch, or for another command.\<close>

definition harmless :: "ReceiverCommandTransaction \<Rightarrow> ResponseCausalityFence \<Rightarrow> UbloxRoutedResponse \<Rightarrow> bool" where
  "harmless t f routed \<longleftrightarrow> \<not> IsEligible f (urr_response routed) \<or> \<not> answers t (urr_ubx_target routed)"

lemma harmless_BeginCapture [simp]: "harmless t (fst (BeginCapture f)) routed = harmless t f routed"
  by (auto simp: harmless_def IsEligible_def BeginCapture_def Let_def split: option.split)

lemma note_and_finalize_waiting:
  "ap_state (ay_application s) = AS_kWaitingForResponse \<Longrightarrow> snd (note_and_finalize plan ar s) = False"
  by (simp add: note_and_finalize_def FinalizeIfApplicationStopped_def)

lemma ApplyQueued_harmless:
  assumes "still t n (ay_application s)" and "\<forall>routed \<in> set (ubr_queued_responses (ay_ublox_router s)). harmless t (ay_fence s) routed"
  shows "snd (ApplyQueuedUbloxResponses plan s) = False \<and> still t n (ay_application (fst (ApplyQueuedUbloxResponses plan s)))"
proof -
  let ?I = "\<lambda>s' :: Apply. still t n (ay_application s') \<and> ay_fence s' = ay_fence s
      \<and> (\<forall>routed \<in> set (ubr_queued_responses (ay_ublox_router s')). harmless t (ay_fence s) routed)"
  have "loop_post ?I (\<lambda>_. False) (ApplyQueuedUbloxResponses plan s)"
  proof (rule ApplyQueuedUblox_rule)
    fix s' :: Apply and routed rest a1 ar
    let ?s1 = "s'\<lparr>ay_ublox_router := fst (ubr_PopResponse (ay_ublox_router s')), ay_application := a1\<rparr>"
    assume I: "?I s'" and q: "ubr_queued_responses (ay_ublox_router s') = routed # rest"
      and el: "IsEligible (ay_fence s') (urr_response routed)"
      and a1: "app_ApplyResponse (ay_application s') (urr_response routed) (urr_ubx_target routed) = (a1, ar)"
    from I q el have "\<not> answers t (urr_ubx_target routed)" by (auto simp: harmless_def)
    with still_ApplyResponse [of t n "ay_application s'" "urr_ubx_target routed" "urr_response routed"] I a1
    have st: "still t n a1" by simp
    then have "snd (note_and_finalize plan ar ?s1) = False"
      by (intro note_and_finalize_waiting) (simp add: still_def)
    with st I q show "loop_post ?I (\<lambda>_. False) (note_and_finalize plan ar ?s1)"
      by (simp add: loop_post_def note_and_finalize_frame ubr_Pop_queue)
  qed (use assms in \<open>auto simp: log_line_def ubr_Pop_queue\<close>)
  then show ?thesis by (simp add: loop_post_def split: if_split_asm)
qed

text \<open>What may come before the answer: noise without a first sync byte, and well-formed frames that do not answer
  the command.\<close>

definition acknowledges :: "ReceiverCommandTransaction \<Rightarrow> bytes \<Rightarrow> bool" where
  "acknowledges t bs \<longleftrightarrow>
     (case pr_record (ParseUbxAck (ubx_record bs None)) of
        None \<Rightarrow> False | Some r \<Rightarrow> answers t (urr_ubx_target (routed_response r None)))"

definition passes :: "ReceiverCommandTransaction \<Rightarrow> bytes \<Rightarrow> bool" where
  "passes t p \<longleftrightarrow> kUbxSync1 \<notin> set p \<or> ubx_good 4096 p \<and> \<not> acknowledges t p"

lemma ParseUbxAck_timestamp:
  "pr_record (ParseUbxAck (ubx_record bs ts)) =
     map_option (\<lambda>r. r\<lparr>uar_timestamp_ns := ts\<rparr>) (pr_record (ParseUbxAck (ubx_record bs None)))"
  by (simp add: ParseUbxAck_def ubx_record_def ubx_BuildFrame_def Let_def)

lemma ubx_responses_answer:
  assumes "routed \<in> set (ubx_responses (ubx_record bs ts, g))"
  shows "rsp_capture_generation (urr_response routed) = g
    \<and> answers t (urr_ubx_target routed) = acknowledges t bs"
  using assms
  by (cases "pr_record (ParseUbxAck (ubx_record bs None))")
    (simp_all add: ubx_responses_def ParseUbxAck_timestamp [of bs ts] acknowledges_def routed_response_def)

text \<open>The transaction has ended, acknowledged or rejected.\<close>

definition finished :: "ReceiverCommandTransaction \<Rightarrow> u64 \<Rightarrow> bool \<Rightarrow> Application \<Rightarrow> bool" where
  "finished t n positive a \<longleftrightarrow>
     am_responses_applied (ap_metrics a) = n + 1 \<and> en_current_transaction (ap_engine a) = None
     \<and> (\<exists>t1. en_completed_transaction (ap_engine a) = Some t1 \<and> tx_command t1 = tx_command t
          \<and> tx_state t1 = (if positive then XS_kAcknowledged else XS_kRejected))
     \<and> ap_state a \<noteq> AS_kWaitingForResponse"

lemma app_ApplyResponse_matching:
  assumes "in_flight (ap_engine a)" and "\<not> en_session_indeterminate (ap_engine a)"
    and "CanApplyResponseKind (rsp_kind response)" and "ResponseMatchesCurrent (ap_engine a) md"
  shows "let a1 = fst (app_ApplyResponse a response md) in
      en_current_transaction (ap_engine a1) = None
      \<and> am_responses_applied (ap_metrics a1) = am_responses_applied (ap_metrics a) + 1
      \<and> (\<exists>t. en_completed_transaction (ap_engine a1) = Some t
           \<and> tx_command t = tx_command (the (en_current_transaction (ap_engine a)))
           \<and> tx_state t = (if IsPositiveReceiverCommandResponseKind (rsp_kind response)
                         then XS_kAcknowledged else XS_kRejected))
      \<and> ap_state a1 \<noteq> AS_kWaitingForResponse"
proof -
  obtain e1 er where e: "engine_ApplyResponse (ap_engine a) response md = (e1, er)" by fastforce
  note outcome = ApplyResponse_cases [OF e]
  show ?thesis
    using outcome assms
    by (auto simp: app_ApplyResponse_def e HandleCommandFailure_def CompleteCurrentCommand_fields
        CompleteCurrentCommand_responses Let_def split_beta split: if_split_asm)
qed

lemma ApplyQueued_answer:
  assumes "still t n (ay_application s)"
    and "ubr_queued_responses (ay_ublox_router s) = qs @ [routed]"
    and "\<forall>x \<in> set qs. harmless t (ay_fence s) x"
    and "IsEligible (ay_fence s) (urr_response routed)" and "answers t (urr_ubx_target routed)"
    and "CanApplyResponseKind (rsp_kind (urr_response routed))"
  shows "finished t n (IsPositiveReceiverCommandResponseKind (rsp_kind (urr_response routed)))
    (ay_application (fst (ApplyQueuedUbloxResponses plan s)))"
  using assms
proof (induction qs arbitrary: s)
  case Nil
  let ?a = "ay_application s"
  obtain a1 ar where a1: "app_ApplyResponse ?a (urr_response routed) (urr_ubx_target routed) = (a1, ar)" by fastforce
  let ?s1 = "s\<lparr>ay_ublox_router := fst (ubr_PopResponse (ay_ublox_router s)), ay_application := a1\<rparr>"
  obtain s2 stopped where s2: "note_and_finalize plan ar ?s1 = (s2, stopped)" by fastforce
  have app: "ay_application s2 = a1" using note_and_finalize_frame [of plan ar ?s1] by (simp add: s2)
  have "ResponseMatchesCurrent (ap_engine ?a) (urr_ubx_target routed)"
    using Nil.prems(1,5) by (auto simp: still_def ResponseMatchesCurrent_def answers_def split: option.splits)
  from app_ApplyResponse_matching [OF _ _ Nil.prems(6) this] Nil.prems(1) a1
  have fin: "finished t n (IsPositiveReceiverCommandResponseKind (rsp_kind (urr_response routed))) a1"
    by (auto simp: finished_def still_def Let_def)
  then have idle: "ApplyQueuedUbloxResponses plan s2 = (s2, False)"
    by (subst ApplyQueuedUbloxResponses.simps) (simp add: app finished_def)
  show ?case
    using Nil.prems fin
    by (subst ApplyQueuedUbloxResponses.simps) (simp add: a1 s2 app idle still_def)
next
  case (Cons x qs)
  let ?s0 = "s\<lparr>ay_ublox_router := fst (ubr_PopResponse (ay_ublox_router s))\<rparr>"
  have wait: "ap_state (ay_application s) = AS_kWaitingForResponse" using Cons.prems(1) by (simp add: still_def)
  show ?case
  proof (cases "IsEligible (ay_fence s) (urr_response x)")
    case False
    from Cons.IH [of "log_line ''Discarded u-blox response captured before the current command dispatch'' ?s0"]
      Cons.prems False wait show ?thesis
      by (subst ApplyQueuedUbloxResponses.simps) (simp add: log_line_def ubr_Pop_queue)
  next
    case True
    obtain a1 ar where a1: "app_ApplyResponse (ay_application s) (urr_response x) (urr_ubx_target x) = (a1, ar)"
      by fastforce
    have "\<not> answers t (urr_ubx_target x)" using Cons.prems(3) True by (simp add: harmless_def)
    with still_ApplyResponse [OF Cons.prems(1)] a1 have st: "still t n a1" by (metis fst_conv)
    let ?s1 = "?s0\<lparr>ay_application := a1\<rparr>"
    obtain s2 stopped where s2: "note_and_finalize plan ar ?s1 = (s2, stopped)" by fastforce
    have "\<not> stopped" using note_and_finalize_waiting [of ?s1 plan ar] st by (simp add: s2 still_def)
    with Cons.IH [of s2] note_and_finalize_frame [of plan ar ?s1] Cons.prems st True wait show ?thesis
      by (subst ApplyQueuedUbloxResponses.simps) (simp add: a1 s2 ubr_Pop_queue)
  qed
qed

text \<open>The bytes \<open>xs\<close> are still to come, the answer \<open>bs\<close> at their end: between two frames, within another frame,
  within the answer, or behind it.\<close>

definition before_answer :: "ReceiverCommandTransaction \<Rightarrow> u64 \<Rightarrow> bytes \<Rightarrow> Apply \<Rightarrow> bytes \<Rightarrow> bool" where
  "before_answer t g0 bs s xs \<longleftrightarrow>
     ubf_buffer (ay_ubx_framer s) = [] \<and> (\<exists>ps. xs = concat ps @ bs \<and> list_all (passes t) ps)
     \<or> (\<exists>p k ts g ps. ubx_mid (ay_ubx_framer s) p ts k \<and> ubx_good 4096 p \<and> 1 \<le> k \<and> k < length p
          \<and> ay_ubx_frame_capture_generation s = Some g \<and> (g \<le> g0 \<or> \<not> acknowledges t p)
          \<and> xs = drop k p @ concat ps @ bs \<and> list_all (passes t) ps)
     \<or> (\<exists>k ts g. ubx_mid (ay_ubx_framer s) bs ts k \<and> 1 \<le> k \<and> k < length bs
          \<and> ay_ubx_frame_capture_generation s = Some g \<and> g0 < g \<and> xs = drop k bs)"

definition expecting :: "ReceiverCommandTransaction \<Rightarrow> u64 \<Rightarrow> u64 \<Rightarrow> bytes \<Rightarrow> Apply \<Rightarrow> bytes \<Rightarrow> bool" where
  "expecting t n g0 bs s xs \<longleftrightarrow>
     still t n (ay_application s) \<and> threshold s = g0 \<and> g0 \<le> last_capture s
     \<and> unat (last_capture s) + length xs < 2 ^ 64
     \<and> (\<forall>routed \<in> set (ubr_queued_responses (ay_ublox_router s)). harmless t (ay_fence s) routed)
     \<and> ubf_max_frame_length (ay_ubx_framer s) = 4096 \<and> before_answer t g0 bs s xs"

text \<open>A frame is routed: its response is queued with the generation of its capture.\<close>

lemma route_frame_queue:
  assumes "ay_ubx_frame_capture_generation s = Some g"
  shows "ay_application (route_frame s frame) = ay_application s" "ay_fence (route_frame s frame) = ay_fence s"
    "ay_ubx_framer (route_frame s frame) = ay_ubx_framer s"
    "ubr_queued_responses (ay_ublox_router (route_frame s frame))
       = ubr_queued_responses (ay_ublox_router s) @ ubx_responses (frame, Some g)"
  using assms by (simp_all add: route_frame_def ProcessUbxFrame_queue)

lemma answer_responses:
  assumes "acknowledges t bs" and "pr_record (ParseUbxAck (ubx_record bs None)) = Some r"
  obtains routed where "ubx_responses (ubx_record bs ts, g) = [routed]"
    and "rsp_capture_generation (urr_response routed) = g" and "answers t (urr_ubx_target routed)"
    and "CanApplyResponseKind (rsp_kind (urr_response routed))"
    and "IsPositiveReceiverCommandResponseKind (rsp_kind (urr_response routed)) = (uar_kind r = UA_kAck)"
  using assms
  by (intro that [of "routed_response (r\<lparr>uar_timestamp_ns := ts\<rparr>) g"])
    (simp_all add: ubx_responses_def ParseUbxAck_timestamp [of bs ts] acknowledges_def routed_response_def
      MapUbxAckRecordToReceiverCommandResponse_def CanApplyResponseKind_def IsPositiveReceiverCommandResponseKind_def)

text \<open>A byte before the last one of the answer keeps the application waiting.\<close>

lemma before_answer_mid:
  assumes "1 \<le> k" and "k < length p" and "x # xs = drop k p @ ys"
  shows "x = p ! k" and "xs = drop (Suc k) p @ ys"
  using assms by (simp_all add: Cons_nth_drop_Suc [symmetric])

lemma before_answer_frame:
  assumes "ubx_mid (ay_ubx_framer s) p ts k" and "ubx_good 4096 p" and "1 \<le> k" and "k < length p"
    and "ay_ubx_frame_capture_generation s = Some g" and "g \<le> g0 \<or> \<not> acknowledges t p"
    and "list_all (passes t) ps"
  shows "before_answer t g0 bs s (drop k p @ concat ps @ bs)"
  using assms unfolding before_answer_def by blast

lemma first_piece:
  assumes "x # xs = concat ps @ bs" and "list_all (passes t) ps"
  shows "bs = x # xs \<or> (\<exists>q ps'. passes t (x # q) \<and> list_all (passes t) ps' \<and> xs = q @ concat ps' @ bs)"
  using assms
proof (induction ps)
  case Nil
  then show ?case by simp
next
  case (Cons p ps)
  show ?case
  proof (cases p)
    case Nil
    with Cons show ?thesis by simp
  next
    case (Cons y q)
    with Cons.prems show ?thesis by (intro disjI2 exI [of _ q] exI [of _ ps]) simp
  qed
qed

lemma expecting_waiting:
  assumes "expecting t n g0 bs s (x # xs)" and "xs \<noteq> []" and "ubx_good 4096 bs"
  shows "snd (byte_step plan s x ts) = False \<and> expecting t n g0 bs (fst (byte_step plan s x ts)) xs"
proof -
  let ?f = "ay_ubx_framer s"
  have st: "still t n (ay_application s)" and g0: "threshold s = g0" "g0 \<le> last_capture s"
    and room: "unat (last_capture s) + 1 + length xs < 2 ^ 64"
    and queue: "\<forall>routed \<in> set (ubr_queued_responses (ay_ublox_router s)). harmless t (ay_fence s) routed"
    and max: "ubf_max_frame_length ?f = 4096" and pos: "before_answer t g0 bs s (x # xs)"
    using assms(1) by (simp_all add: expecting_def)
  have goal: ?thesis if "capture_byte s x ts = (s\<lparr>ay_ubx_framer := f\<rparr>, None)" "ubf_max_frame_length f = 4096"
    "before_answer t g0 bs (s\<lparr>ay_ubx_framer := f\<rparr>) xs" for f
    using that st g0 room queue by (simp add: byte_step_def expecting_def)
  have middle: "\<exists>f. capture_byte s x ts = (s\<lparr>ay_ubx_framer := f\<rparr>, None) \<and> ubx_mid f p u (Suc k)
      \<and> ubf_max_frame_length f = 4096"
    if "ubx_mid ?f p u k" "ubx_good 4096 p" "1 \<le> k" "Suc k < length p" "x = p ! k" for p u k
    using capture_next [of s p u k ts] that max by (metis (no_types))
  have start: ?thesis if onset: "ubf_buffer ?f = []" "ubx_good 4096 p" "x = p ! 0"
    "p = bs \<and> xs = drop 1 p \<or> (\<exists>ps. xs = drop 1 p @ concat ps @ bs \<and> list_all (passes t) ps \<and> \<not> acknowledges t p)" for p
  proof -
    obtain f where f: "capture_byte s x ts = (s\<lparr>ay_ubx_framer := f, ay_fence := fst (BeginCapture (ay_fence s)),
           ay_ubx_frame_capture_generation := Some (last_capture s + 1)\<rparr>, None)"
      and mid: "ubx_mid f p (Some ts) 1" "ubf_max_frame_length f = 4096"
      using capture_first [of s p ts] onset(1-3) max by metis
    have up: "unat (last_capture s + 1) = unat (last_capture s) + 1" using room by (intro unat_Suc_no_wrap) simp
    have later: "g0 < last_capture s + 1" "g0 \<le> last_capture s + 1"
      using g0(2) by (simp_all add: word_less_unat word_le_unat up)
    have long: "1 < length p" using onset(2) by (simp add: ubx_good_def)
    have "before_answer t g0 bs (s\<lparr>ay_ubx_framer := f, ay_fence := fst (BeginCapture (ay_fence s)),
           ay_ubx_frame_capture_generation := Some (last_capture s + 1)\<rparr>) xs"
      using onset(4)
    proof
      assume "p = bs \<and> xs = drop 1 p"
      with mid later long show ?thesis by (auto simp: before_answer_def intro!: disjI2 exI [of _ 1])
    next
      assume "\<exists>ps. xs = drop 1 p @ concat ps @ bs \<and> list_all (passes t) ps \<and> \<not> acknowledges t p"
      then obtain ps where ps: "xs = drop 1 p @ concat ps @ bs" "list_all (passes t) ps" "\<not> acknowledges t p" by blast
      show ?thesis
        unfolding ps(1)
        by (rule before_answer_frame [where ts = "Some ts" and g = "last_capture s + 1"])
          (use mid long onset(2) ps in simp_all)
    qed
    moreover have "threshold (s\<lparr>ay_fence := fst (BeginCapture (ay_fence s))\<rparr>) = g0"
      "last_capture (s\<lparr>ay_fence := fst (BeginCapture (ay_fence s))\<rparr>) = last_capture s + 1"
      using g0(1) by (simp_all add: BeginCapture_def Let_def)
    ultimately show ?thesis
      using f mid st later room queue up by (simp add: byte_step_def expecting_def)
  qed
  from pos consider
      (idle) ps where "ubf_buffer ?f = []" "x # xs = concat ps @ bs" "list_all (passes t) ps"
    | (frame) p k u g ps where "ubx_mid ?f p u k" "ubx_good 4096 p" "1 \<le> k" "k < length p"
        "ay_ubx_frame_capture_generation s = Some g" "g \<le> g0 \<or> \<not> acknowledges t p"
        "x # xs = drop k p @ concat ps @ bs" "list_all (passes t) ps"
    | (answer) k u g where "ubx_mid ?f bs u k" "1 \<le> k" "k < length bs"
        "ay_ubx_frame_capture_generation s = Some g" "g0 < g" "x # xs = drop k bs"
    by (auto simp: before_answer_def)
  then show ?thesis
  proof cases
    case idle
    from first_piece [OF idle(2,3)] show ?thesis
    proof
      assume eq: "bs = x # xs"
      show ?thesis by (rule start [OF idle(1) assms(3)]) (simp_all add: eq)
    next
      assume "\<exists>q ps'. passes t (x # q) \<and> list_all (passes t) ps' \<and> xs = q @ concat ps' @ bs"
      then obtain q ps' where q: "passes t (x # q)" "list_all (passes t) ps'" "xs = q @ concat ps' @ bs" by blast
      define p where "p = x # q"
      with q have p: "p \<noteq> []" "passes t p" "list_all (passes t) ps'" "x = p ! 0" "xs = drop 1 p @ concat ps' @ bs"
        by simp_all
      show ?thesis
      proof (cases "kUbxSync1 \<in> set p")
        case True
        with p have "ubx_good 4096 p" "\<not> acknowledges t p" by (simp_all add: passes_def)
        with start [of p] idle(1) p show ?thesis by blast
      next
        case False
        then have "x \<noteq> kUbxSync1" using p(1,4) by (auto simp: in_set_conv_nth)
        then obtain f where f: "capture_byte s x ts = (s\<lparr>ay_ubx_framer := f\<rparr>, None)" "ubf_buffer f = []"
          "ubf_max_frame_length f = 4096" using capture_noise [OF idle(1), of x ts] max by metis
        have "passes t (drop 1 p)" using False by (auto simp: passes_def dest: in_set_dropD)
        then have "before_answer t g0 bs (s\<lparr>ay_ubx_framer := f\<rparr>) xs"
          using f(2) p(3,5) by (auto simp: before_answer_def intro!: disjI1 exI [of _ "drop 1 p # ps'"])
        with goal [OF f(1,3)] show ?thesis .
      qed
    qed
  next
    case frame
    note x = before_answer_mid [OF frame(3,4,7)]
    show ?thesis
    proof (cases "Suc k < length p")
      case True
      with middle [OF frame(1-3) True x(1)] obtain f where f: "capture_byte s x ts = (s\<lparr>ay_ubx_framer := f\<rparr>, None)"
        "ubx_mid f p u (Suc k)" "ubf_max_frame_length f = 4096" by blast
      then have "before_answer t g0 bs (s\<lparr>ay_ubx_framer := f\<rparr>) xs"
        unfolding x(2) by (intro before_answer_frame [where ts = u and g = g]) (use frame True in simp_all)
      with goal f(1,3) show ?thesis by blast
    next
      case False
      then have last: "Suc k = length p" using frame(4) by simp
      with capture_last [OF frame(1), of ts] frame(2,3) max x(1) obtain f where
        f: "capture_byte s x ts = (s\<lparr>ay_ubx_framer := f\<rparr>, Some (ubx_record p u))" "ubf_buffer f = []"
          "ubf_max_frame_length f = 4096" by metis
      let ?s1 = "route_frame (s\<lparr>ay_ubx_framer := f\<rparr>) (ubx_record p u)"
      have gen: "ay_ubx_frame_capture_generation (s\<lparr>ay_ubx_framer := f\<rparr>) = Some g" using frame(5) by simp
      note routed = route_frame_queue [OF gen, of "ubx_record p u"]
      have "harmless t (ay_fence s) y" if "y \<in> set (ubx_responses (ubx_record p u, Some g))" for y
        using ubx_responses_answer [OF that, of t] frame(6) g0(1) by (auto simp: harmless_def IsEligible_def)
      then have safe: "\<forall>y \<in> set (ubr_queued_responses (ay_ublox_router ?s1)). harmless t (ay_fence ?s1) y"
        using queue by (auto simp: routed)
      have "still t n (ay_application ?s1)" using st by (simp add: routed)
      note quiet = ApplyQueued_harmless [OF this safe, of plan]
      have step: "byte_step plan s x ts = ApplyQueuedUbloxResponses plan ?s1" by (simp add: byte_step_def f(1))
      have "before_answer t g0 bs (fst (ApplyQueuedUbloxResponses plan ?s1)) xs"
        using ApplyQueuedUblox_frame [of plan ?s1] f(2) x(2) last frame(8)
        by (auto simp: before_answer_def routed)
      then show ?thesis
        using quiet ApplyQueuedUblox_frame [of plan ?s1] safe f(3) g0 room
        unfolding step by (auto simp: expecting_def routed)
    qed
  next
    case answer
    have eq: "x # xs = drop k bs @ []" using answer(6) by simp
    note x = before_answer_mid [OF answer(2,3) eq]
    have "Suc k < length bs" using x(2) assms(2) by auto
    with middle [OF answer(1) assms(3) answer(2) _ x(1)] obtain f where
      f: "capture_byte s x ts = (s\<lparr>ay_ubx_framer := f\<rparr>, None)"
      "ubx_mid f bs u (Suc k)" "ubf_max_frame_length f = 4096" by blast
    then have "before_answer t g0 bs (s\<lparr>ay_ubx_framer := f\<rparr>) xs"
      using answer(4,5) x(2) \<open>Suc k < length bs\<close> unfolding before_answer_def
      by (intro disjI2 exI [of _ "Suc k"] exI [of _ u] exI [of _ g]) simp
    with goal f(1,3) show ?thesis by blast
  qed
qed

lemma finished_byte:
  assumes "finished t n positive (ay_application s)"
  shows "finished t n positive (ay_application (fst (byte_step plan s b ts)))"
proof -
  have queue: "ay_application (fst (ApplyQueuedUbloxResponses plan s')) = ay_application s'"
    if "finished t n positive (ay_application s')" for s'
    using that by (subst ApplyQueuedUbloxResponses.simps) (simp add: finished_def)
  have app: "ay_application (fst (capture_byte s b ts)) = ay_application s"
    "ay_application (route_frame s' frame) = ay_application s'" for s' frame
    by (simp_all add: capture_byte_def route_frame_def BeginCapture_def Let_def split_beta)
  show ?thesis
    using assms queue [of "route_frame (fst (capture_byte s b ts)) _"] app
    by (auto simp: byte_step_def split_beta split: option.split)
qed

lemma expecting_last:
  assumes "expecting t n g0 bs s [x]" and "ubx_good 4096 bs" and "acknowledges t bs"
    and "pr_record (ParseUbxAck (ubx_record bs None)) = Some r"
  shows "finished t n (uar_kind r = UA_kAck) (ay_application (fst (byte_step plan s x ts)))"
proof -
  let ?f = "ay_ubx_framer s"
  have st: "still t n (ay_application s)" and g0: "threshold s = g0"
    and queue: "\<forall>routed \<in> set (ubr_queued_responses (ay_ublox_router s)). harmless t (ay_fence s) routed"
    and max: "ubf_max_frame_length ?f = 4096" and pos: "before_answer t g0 bs s [x]"
    using assms(1) by (simp_all add: expecting_def)
  have long: "2 \<le> length bs" using assms(2) by (simp add: ubx_good_def)
  from pos obtain k u g where k: "ubx_mid ?f bs u k" "1 \<le> k" "k < length bs" "[x] = drop k bs"
    and g: "ay_ubx_frame_capture_generation s = Some g" "g0 < g"
  proof -
    have short: "length (ys @ bs) \<noteq> 1" for ys using long by simp
    have "[x] \<noteq> concat ps @ bs" "[x] \<noteq> drop i p @ concat ps @ bs" for ps i p
      using short [of "concat ps"] short [of "drop i p @ concat ps"] by (metis append_assoc length_Cons list.size(3) One_nat_def)+
    with pos that show thesis by (auto simp: before_answer_def)
  qed
  have last: "Suc k = length bs" using arg_cong [OF k(4), of length] k(3) by simp
  have x: "x = bs ! k" using k(3,4) by (simp add: Cons_nth_drop_Suc [symmetric])
  from capture_last [OF k(1), of ts] assms(2) k(2) last max x obtain f where
    f: "capture_byte s x ts = (s\<lparr>ay_ubx_framer := f\<rparr>, Some (ubx_record bs u))" by metis
  let ?s1 = "route_frame (s\<lparr>ay_ubx_framer := f\<rparr>) (ubx_record bs u)"
  have gen: "ay_ubx_frame_capture_generation (s\<lparr>ay_ubx_framer := f\<rparr>) = Some g" using g(1) by simp
  note routed = route_frame_queue [OF gen, of "ubx_record bs u"]
  obtain y where y: "ubx_responses (ubx_record bs u, Some g) = [y]"
    "rsp_capture_generation (urr_response y) = Some g" "answers t (urr_ubx_target y)"
    "CanApplyResponseKind (rsp_kind (urr_response y))"
    "IsPositiveReceiverCommandResponseKind (rsp_kind (urr_response y)) = (uar_kind r = UA_kAck)"
    by (rule answer_responses [OF assms(3,4)])
  have "IsEligible (ay_fence ?s1) (urr_response y)" using y(2) g(2) g0 by (simp add: IsEligible_def routed)
  from ApplyQueued_answer [OF _ _ _ this y(3,4), of n "ubr_queued_responses (ay_ublox_router s)" plan] st queue y(1,5)
  show ?thesis by (simp add: byte_step_def f routed)
qed

text \<open>\<open>awaits\<close>: the bytes \<open>xs\<close> are to come, or the answer has come.\<close>

definition awaits :: "ReceiverCommandTransaction \<Rightarrow> u64 \<Rightarrow> u64 \<Rightarrow> bytes \<Rightarrow> bool \<Rightarrow> Apply \<Rightarrow> bytes \<Rightarrow> bool" where
  "awaits t n g0 bs positive s xs \<longleftrightarrow>
     (if xs = [] then finished t n positive (ay_application s) else expecting t n g0 bs s xs)"

lemma awaits_summary: "awaits t n g0 bs positive (update_summary s) xs = awaits t n g0 bs positive s xs"
  unfolding awaits_def expecting_def before_answer_def update_summary_def by simp

lemma awaits_bytes:
  assumes "awaits t n g0 bs positive s xs" and "ubx_good 4096 bs" and "acknowledges t bs"
    and "pr_record (ParseUbxAck (ubx_record bs None)) = Some r" and "positive = (uar_kind r = UA_kAck)"
    and "prefix xs cs \<or> prefix cs xs"
  shows "awaits t n g0 bs positive (fst (ProcessUbloxBytes plan s cs ts)) (drop (length cs) xs)"
  using assms(1,6)
proof (induction cs arbitrary: s xs)
  case Nil
  then show ?case by simp
next
  case (Cons c cs)
  let ?s1 = "fst (byte_step plan s c ts)"
  have step: "awaits t n g0 bs positive ?s1 (drop 1 xs)
      \<and> (snd (byte_step plan s c ts) \<longrightarrow> drop 1 xs = [])"
  proof (cases xs)
    case Nil
    with Cons.prems(1) finished_byte show ?thesis by (simp add: awaits_def)
  next
    case (Cons y ys)
    with Cons.prems have y: "y = c" and ex: "expecting t n g0 bs s (c # ys)" by (auto simp: awaits_def)
    show ?thesis
    proof (cases "ys = []")
      case True
      with expecting_last [OF _ assms(2-4)] ex assms(5) Cons show ?thesis by (simp add: awaits_def)
    next
      case False
      with expecting_waiting [OF ex False assms(2)] Cons show ?thesis by (simp add: awaits_def)
    qed
  qed
  have "prefix (drop 1 xs) cs \<or> prefix cs (drop 1 xs)"
    using Cons.prems(2) by (cases xs) auto
  with step Cons.IH [of ?s1 "drop 1 xs"] have
    "awaits t n g0 bs positive (fst (ProcessUbloxBytes plan ?s1 cs ts)) (drop (length (c # cs)) xs)" by simp
  moreover have "drop (length (c # cs)) xs = []" if "drop 1 xs = []" using that by simp
  ultimately show ?case
    using step unfolding ProcessUbloxBytes_step by (auto simp: awaits_def)
qed

lemma awaits_step:
  assumes "awaits t n g0 bs positive s xs" and "ubx_good 4096 bs" and "acknowledges t bs"
    and "pr_record (ParseUbxAck (ubx_record bs None)) = Some r" and "positive = (uar_kind r = UA_kAck)"
    and "prefix xs (event_bytes ev) \<or> prefix (event_bytes ev) xs"
    and "\<And>now. ev = WE_Timeout now \<Longrightarrow> \<not> HasTimedOutAt t now"
  shows "awaits t n g0 bs positive (wait_step plan s ev) (drop (length (event_bytes ev)) xs)"
proof (cases ev)
  case (WE_Bytes cs u)
  with awaits_bytes [OF assms(1-5), of cs plan u] assms(6) show ?thesis
    by (simp only: wait_step_def wait_event.case event_bytes.simps awaits_summary)
next
  case WE_Queued
  show ?thesis
  proof (cases "xs = []")
    case True
    with assms(1) have fin: "finished t n positive (ay_application s)" by (simp add: awaits_def)
    then have "ApplyQueuedUbloxResponses plan s = (s, False)"
      by (subst ApplyQueuedUbloxResponses.simps) (simp add: finished_def)
    with fin True WE_Queued show ?thesis by (simp add: wait_step_def awaits_def)
  next
    case False
    with assms(1) have ex: "expecting t n g0 bs s xs" by (simp add: awaits_def)
    with ApplyQueued_harmless [of t n s plan] ApplyQueuedUblox_frame [of plan s] False WE_Queued show ?thesis
      by (auto simp: wait_step_def awaits_def expecting_def before_answer_def)
  qed
next
  case (WE_Timeout now)
  then have same: "ay_application (wait_step plan s ev) = fst (app_CheckTimeout (ay_application s) now)"
    "ay_fence (wait_step plan s ev) = ay_fence s" "ay_ubx_framer (wait_step plan s ev) = ay_ubx_framer s"
    "ay_ublox_router (wait_step plan s ev) = ay_ublox_router s"
    "ay_ubx_frame_capture_generation (wait_step plan s ev) = ay_ubx_frame_capture_generation s"
    by (simp_all add: wait_step_def apply_timeout_fields)
  have "fst (app_CheckTimeout (ay_application s) now) = ay_application s"
    if "en_current_transaction (ap_engine (ay_application s)) \<in> {None, Some t}"
    using that assms(7) [OF WE_Timeout]
    by (auto simp: app_CheckTimeout_def engine_CheckTimeout_def HandleTimeoutResult_def MakeStepResult_def
        EngineStepResult_default_def split: option.splits)
  with assms(1) WE_Timeout same show ?thesis
    by (auto simp: awaits_def expecting_def before_answer_def finished_def still_def split: if_splits)
qed

lemma awaits_run:
  assumes "awaits t n g0 bs positive s xs" and "ubx_good 4096 bs" and "acknowledges t bs"
    and "pr_record (ParseUbxAck (ubx_record bs None)) = Some r" and "positive = (uar_kind r = UA_kAck)"
    and "concat (map event_bytes evs) = xs @ rest"
    and "\<And>now. WE_Timeout now \<in> set evs \<Longrightarrow> \<not> HasTimedOutAt t now"
  shows "finished t n positive (ay_application (wait_run plan s evs))"
  using assms(1,6,7)
proof (induction evs arbitrary: s xs rest)
  case Nil
  then show ?case by (simp add: wait_run_def awaits_def)
next
  case (Cons ev evs)
  let ?e = "event_bytes ev"
  have split: "?e @ concat (map event_bytes evs) = xs @ rest" using Cons.prems(2) by simp
  then have "prefix xs ?e \<or> prefix ?e xs" by (metis prefixI prefix_same_cases)
  from awaits_step [OF Cons.prems(1) assms(2-5) this, of plan] Cons.prems(3)
  have "awaits t n g0 bs positive (wait_step plan s ev) (drop (length ?e) xs)" by simp
  moreover have "concat (map event_bytes evs) = drop (length ?e) xs @ drop (length ?e - length xs) rest"
    using arg_cong [OF split, of "drop (length ?e)"] by simp
  ultimately show ?case
    using Cons.IH [of "wait_step plan s ev" "drop (length ?e) xs"] Cons.prems(3) by (simp add: wait_run_def)
qed

text \<open>After a dispatch nothing that is queued or half received can be taken for the answer.\<close>

lemma answered:
  assumes "just_dispatched put now plan options result s"
    and "en_current_transaction (ap_engine (ay_application s)) = Some t"
    and "unat (last_capture s) + length (concat (map event_bytes evs)) < 2 ^ 64"
    and "ubf_buffer (ay_ubx_framer s) @ concat (map event_bytes evs) = begun @ concat ps @ bs @ rest"
    and "if ubf_buffer (ay_ubx_framer s) = [] then begun = []
      else ubx_good 4096 begun \<and> strict_prefix (ubf_buffer (ay_ubx_framer s)) begun"
    and "list_all (passes t) ps" and "ubx_good 4096 bs" and "acknowledges t bs"
    and "pr_record (ParseUbxAck (ubx_record bs None)) = Some r"
    and "\<And>now. WE_Timeout now \<in> set evs \<Longrightarrow> \<not> HasTimedOutAt t now"
  shows "finished t (am_responses_applied (ap_metrics (ay_application s))) (uar_kind r = UA_kAck)
    (ay_application (wait_run plan s evs))"
proof (rule awaits_run [OF _ assms(7-9) refl _ assms(10)])
  let ?f = "ay_ubx_framer s" and ?g0 = "last_capture s"
  let ?k = "length (ubf_buffer ?f)"
  let ?xs = "drop ?k begun @ concat ps @ bs"
  note inv = just_dispatched_facts [OF assms(1)]
  have pre: "prefix (ubf_buffer ?f) begun" using assms(5) by (auto simp: strict_prefix_def split: if_splits)
  then have buf: "begun = ubf_buffer ?f @ drop ?k begun" by (metis append_eq_conv_conj prefix_def)
  show out: "concat (map event_bytes evs) = ?xs @ rest"
    using assms(4) by (subst (asm) buf) simp
  have frames: "ubx_inv ?f" "ubf_max_frame_length ?f = 4096" using inv by (simp_all add: capture_inv_def)
  have nonempty: "?xs \<noteq> []" using assms(7) by (auto simp: ubx_good_def)
  have "before_answer t ?g0 bs s ?xs"
  proof (cases "ubf_buffer ?f = []")
    case True
    with assms(5,6) show ?thesis by (auto simp: before_answer_def)
  next
    case False
    with assms(5) have begun: "ubx_good 4096 begun" "strict_prefix (ubf_buffer ?f) begun" by auto
    from False inv obtain g where g: "ay_ubx_frame_capture_generation s = Some g" "g \<le> ?g0"
      by (auto simp: capture_inv_def)
    have k: "1 \<le> ?k" "?k < length begun" using False begun(2) by (auto simp: prefix_length_less Suc_le_eq)
    have take: "ubf_buffer ?f = take ?k begun" using buf by (metis append_eq_conv_conj)
    have "ubx_mid ?f begun (ubf_frame_timestamp_ns ?f) ?k"
    proof -
      have "ubf_expected_frame_size ?f = length begun" if "6 \<le> ?k"
      proof -
        have "ubf_buffer ?f ! 4 = begun ! 4" "ubf_buffer ?f ! 5 = begun ! 5"
          using that by (subst take, simp)+
        with that frames(1) begun(1) show ?thesis by (auto simp: ubx_inv_def ubx_good_def Let_def)
      qed
      moreover have "ubf_expected_frame_size ?f = 0" if "?k < 6"
        using that frames(1) by (auto simp: ubx_inv_def Let_def)
      ultimately show ?thesis using take by (auto simp: ubx_mid_def)
    qed
    from before_answer_frame [OF this begun(1) k g(1) disjI1 [OF g(2)] assms(6)] show ?thesis .
  qed
  moreover have "still t (am_responses_applied (ap_metrics (ay_application s))) (ay_application s)"
    using inv assms(2) by (simp add: still_def)
  moreover have "\<forall>routed \<in> set (ubr_queued_responses (ay_ublox_router s)). harmless t (ay_fence s) routed"
    using inv by (fastforce simp: capture_inv_def harmless_def IsEligible_def)
  moreover have "unat ?g0 + length ?xs < 2 ^ 64" using assms(3) out by simp
  ultimately show "awaits t (am_responses_applied (ap_metrics (ay_application s))) ?g0 bs (uar_kind r = UA_kAck) s ?xs"
    using inv frames(2) nonempty unfolding awaits_def expecting_def by auto
qed

section \<open>Properties\<close>

text \<open>A concrete run: a VALSET request is dispatched and acknowledged.\<close>

definition demo_plan :: ConfigPlan where
  "demo_plan = \<lparr>plan_vendor = ''ublox'', plan_commands =
     [\<lparr>pc_command = SetBinaryPayload (ReceiverCommand_default\<lparr>rc_kind := CK_kApplyConfigProfile,
         rc_expected_response := RK_kAck\<rparr>) [0xB5, 0x62, 0x06, 0x8A, 0x00, 0x00, 0x90, 0xB6],
       pc_description = ''valset''\<rparr>]\<rparr>"

definition demo_options :: ApplyOptions where
  "demo_options = \<lparr>opt_confirm = False, opt_timeout_ms = 100\<rparr>"

definition demo_begun :: "MemoryByteSink \<times> Apply \<times> bool" where
  "demo_begun = apply_start mem_write (\<lambda>k. (k, 0)) demo_plan demo_options ApplyResult_default MemoryByteSink_new"

definition demo_ack :: bytes where
  "demo_ack = [0xB5, 0x62, 0x05, 0x01, 0x02, 0x00, 0x06, 0x8A, 0x98, 0xC1]"

lemma demo_begun_split:
  "apply_start mem_write (\<lambda>k. (k, 0)) demo_plan demo_options ApplyResult_default MemoryByteSink_new
     = (fst demo_begun, fst (snd demo_begun), snd (snd demo_begun))"
  by (simp add: demo_begun_def)

lemma demo_application:
  "ay_application (fst (snd demo_begun)) = fst (snd (app_Start mem_write MemoryByteSink_new
     (app_new ApplicationConfig_default) (BuildExecutableCommands demo_plan demo_options) (Some 0)))"
  using apply_start_fields(1) [OF demo_begun_split] by simp

lemma demo_begun_dispatched: "just_dispatched mem_write (\<lambda>k. (k, 0)) demo_plan demo_options ApplyResult_default
    (fst (snd demo_begun))"
proof (rule dispatched_start [OF demo_begun_split])
  show "ap_state (ay_application (fst (snd demo_begun))) = AS_kWaitingForResponse"
    unfolding demo_application by code_simp
qed

lemma demo_begun_facts:
  "ubf_buffer (ay_ubx_framer (fst (snd demo_begun))) = []"
  "ubr_queued_responses (ay_ublox_router (fst (snd demo_begun))) = []"
  "last_capture (fst (snd demo_begun)) = 0"
  by (simp_all add: apply_start_fields [OF demo_begun_split] ubx_new_def ubr_new_def fence_new_def)

lemma demo_ack_facts:
  "ubx_good 4096 demo_ack"
  "pr_record (ParseUbxAck (ubx_record demo_ack None)) = Some \<lparr>uar_timestamp_ns = None, uar_kind = UA_kAck,
     uar_target_class_id = 0x06, uar_target_message_id = 0x8A\<rparr>"
  by code_simp+

lemma demo_transaction:
  obtains t where "en_current_transaction (ap_engine (ay_application (fst (snd demo_begun)))) = Some t"
    and "answers t (Some \<lparr>umi_class_id = 0x06, umi_message_id = 0x8A\<rparr>)"
    and "\<not> answers t (Some \<lparr>umi_class_id = 0x06, umi_message_id = 0x01\<rparr>)"
    and "tx_sent_timestamp_ns t = Some 0" and "rp_timeout_ms (rc_retry_policy (tx_command t)) = 100"
proof -
  have "(case en_current_transaction (ap_engine (ay_application (fst (snd demo_begun)))) of
      None \<Rightarrow> False | Some t \<Rightarrow> answers t (Some \<lparr>umi_class_id = 0x06, umi_message_id = 0x8A\<rparr>)
        \<and> \<not> answers t (Some \<lparr>umi_class_id = 0x06, umi_message_id = 0x01\<rparr>)
        \<and> tx_sent_timestamp_ns t = Some 0 \<and> rp_timeout_ms (rc_retry_policy (tx_command t)) = 100)"
    unfolding demo_application by code_simp
  then show thesis using that by (auto split: option.splits)
qed

lemma demo_acknowledged:
  "am_responses_applied (ap_metrics (ay_application (wait_run demo_plan (fst (snd demo_begun)) [WE_Bytes demo_ack 5])))
     = am_responses_applied (ap_metrics (ay_application (fst (snd demo_begun)))) + 1"
proof -
  obtain t where t: "en_current_transaction (ap_engine (ay_application (fst (snd demo_begun)))) = Some t"
    "answers t (Some \<lparr>umi_class_id = 0x06, umi_message_id = 0x8A\<rparr>)" by (rule demo_transaction)
  have room: "unat (last_capture (fst (snd demo_begun))) + length (concat (map event_bytes [WE_Bytes demo_ack 5])) < 2 ^ 64"
    by (simp add: demo_begun_facts demo_ack_def)
  have "acknowledges t demo_ack" using demo_ack_facts t(2) by (simp add: acknowledges_def routed_response_def)
  with answered [OF demo_begun_dispatched t(1) room, of "[]" "[]" demo_ack "[]"] demo_ack_facts
  show ?thesis by (simp add: demo_begun_facts finished_def)
qed


text \<open>C12. No stale acknowledgement: after a u-blox command was dispatched, whatever is received and however it is
  cut into reads, a response is applied only if the bytes received since that dispatch contain, contiguously, a
  well-formed UBX frame that parses as an ACK or NAK and that answers the command in flight.  Bytes received
  before the dispatch, an unfinished frame among them, never contribute.\<close>

theorem ublox_response_causality:
  assumes "just_dispatched put now plan options result s"
    and "unat (last_capture s) + length (concat (map event_bytes evs)) < 2 ^ 64"
    and "am_responses_applied (ap_metrics (ay_application (wait_run plan s evs)))
      \<noteq> am_responses_applied (ap_metrics (ay_application s))"
  shows "\<exists>bs ts r g t. ubx_good 4096 bs \<and> sublist bs (concat (map event_bytes evs))
    \<and> ParseUbxAck (ubx_record bs ts) = RecordReady r
    \<and> en_current_transaction (ap_engine (ay_application s)) = Some t
    \<and> answers t (urr_ubx_target (routed_response r g))"
proof -
  from just_dispatched_facts [OF assms(1)] obtain t where inv: "capture_inv (last_capture s) [] s"
    and start: "threshold s = last_capture s" "en_current_transaction (ap_engine (ay_application s)) = Some t"
      "ec_verify_response_metadata (en_config (ap_engine (ay_application s)))" by (auto simp: in_flight_def)
  let ?n = "am_responses_applied (ap_metrics (ay_application s))"
  have "quiet t ?n (ay_application s)" using start by (simp add: quiet_def)
  with waited_run [OF inv assms(2), of t ?n plan] start(1) assms(3)
  show ?thesis using start(2) by (fastforce simp: waited_def quiet_def evidence_def)
qed

theorem ublox_response_causality_witness:
  "\<exists>bs. ubx_good 4096 bs \<and> sublist bs demo_ack"
proof -
  let ?s = "fst (snd demo_begun)" and ?evs = "[WE_Bytes demo_ack 5]"
  have room: "unat (last_capture ?s) + length (concat (map event_bytes ?evs)) < 2 ^ 64"
    by (simp add: demo_begun_facts demo_ack_def)
  have "am_responses_applied (ap_metrics (ay_application (wait_run demo_plan ?s ?evs)))
      \<noteq> am_responses_applied (ap_metrics (ay_application ?s))"
    by (simp add: demo_acknowledged)
  from ublox_response_causality [OF demo_begun_dispatched room this] show ?thesis by auto
qed

text \<open>C13. An acknowledgement that arrives is not missed.  After a dispatch, let the received bytes, following what the
  framer had buffered of an unfinished frame, be the rest of that frame (whatever it is, a stale acknowledgement
  included), then any interleaving of well-formed frames that do not answer the command and of noise without the first
  sync byte, then a well-formed ACK or NAK frame for the command in flight, then anything.  However these bytes are cut
  into reads, with queue passes and timeout checks that are not due in between, and whatever was queued before, the slot
  of the transaction is freed, the transaction is completed as acknowledged or rejected, and one response is counted.\<close>

theorem ublox_answer_completes:
  assumes "just_dispatched put now plan options result s"
    and "en_current_transaction (ap_engine (ay_application s)) = Some t"
    and "unat (last_capture s) + length (concat (map event_bytes evs)) < 2 ^ 64"
    and "ubf_buffer (ay_ubx_framer s) @ concat (map event_bytes evs) = begun @ concat ps @ bs @ rest"
    and "if ubf_buffer (ay_ubx_framer s) = [] then begun = []
      else ubx_good 4096 begun \<and> strict_prefix (ubf_buffer (ay_ubx_framer s)) begun"
    and "list_all (passes t) ps" and "ubx_good 4096 bs" and "acknowledges t bs"
    and "pr_record (ParseUbxAck (ubx_record bs None)) = Some r"
    and "\<And>now. WE_Timeout now \<in> set evs \<Longrightarrow> \<not> HasTimedOutAt t now"
  shows "let a = ay_application (wait_run plan s evs) in
    am_responses_applied (ap_metrics a) = am_responses_applied (ap_metrics (ay_application s)) + 1
    \<and> en_current_transaction (ap_engine a) = None
    \<and> (\<exists>t1. en_completed_transaction (ap_engine a) = Some t1 \<and> tx_command t1 = tx_command t
         \<and> tx_state t1 = (if uar_kind r = UA_kAck then XS_kAcknowledged else XS_kRejected))"
  using answered [OF assms] by (simp add: finished_def Let_def)

text \<open>The witness: a telemetry frame and a byte of noise, then the acknowledgement, cut in the middle of both frames.\<close>

theorem ublox_answer_completes_witness:
  "en_current_transaction (ap_engine (ay_application (wait_run demo_plan (fst (snd demo_begun))
     [WE_Bytes [0xB5, 0x62, 0x05, 0x00] 4, WE_Queued, WE_Timeout 4,
      WE_Bytes [0x02, 0x00, 0x06, 0x01, 0x0E, 0x33, 0x24, 0xB5, 0x62] 5, WE_Timeout 5,
      WE_Bytes [0x05, 0x01, 0x02, 0x00, 0x06, 0x8A, 0x98, 0xC1, 0xB5] 6]))) = None"
proof -
  let ?s = "fst (snd demo_begun)" and ?other = "[0xB5, 0x62, 0x05, 0x00, 0x02, 0x00, 0x06, 0x01, 0x0E, 0x33] :: bytes"
  let ?evs = "[WE_Bytes [0xB5, 0x62, 0x05, 0x00] 4, WE_Queued, WE_Timeout 4,
      WE_Bytes [0x02, 0x00, 0x06, 0x01, 0x0E, 0x33, 0x24, 0xB5, 0x62] 5, WE_Timeout 5,
      WE_Bytes [0x05, 0x01, 0x02, 0x00, 0x06, 0x8A, 0x98, 0xC1, 0xB5] 6]"
  obtain t where t: "en_current_transaction (ap_engine (ay_application ?s)) = Some t"
    "answers t (Some \<lparr>umi_class_id = 0x06, umi_message_id = 0x8A\<rparr>)"
    "\<not> answers t (Some \<lparr>umi_class_id = 0x06, umi_message_id = 0x01\<rparr>)"
    "tx_sent_timestamp_ns t = Some 0" "rp_timeout_ms (rc_retry_policy (tx_command t)) = 100"
    by (rule demo_transaction)
  have room: "unat (last_capture ?s) + length (concat (map event_bytes ?evs)) < 2 ^ 64"
    by (simp add: demo_begun_facts)
  have other: "ubx_good 4096 ?other"
    "pr_record (ParseUbxAck (ubx_record ?other None)) = Some \<lparr>uar_timestamp_ns = None, uar_kind = UA_kNak,
       uar_target_class_id = 0x06, uar_target_message_id = 0x01\<rparr>" by code_simp+
  have "list_all (passes t) [?other, [0x24]]"
    using other t(3) by (simp add: passes_def acknowledges_def routed_response_def)
  moreover have "acknowledges t demo_ack" using demo_ack_facts t(2) by (simp add: acknowledges_def routed_response_def)
  moreover have "ubf_buffer (ay_ubx_framer ?s) @ concat (map event_bytes ?evs) = [] @ concat [?other, [0x24]] @ demo_ack @ [0xB5]"
    by (simp add: demo_begun_facts demo_ack_def)
  moreover have "\<not> HasTimedOutAt t now" if "WE_Timeout now \<in> set ?evs" for now
    using that t(4,5) by (auto simp: HasTimedOutAt_def)
  ultimately show ?thesis
    using ublox_answer_completes [OF demo_begun_dispatched t(1) room, of "[]" "[?other, [0x24]]" demo_ack "[0xB5]"]
      demo_ack_facts demo_begun_facts(1) by (simp add: Let_def)
qed

end
