(* ===== verification/Apply_Loop.thy ===== *)
theory Apply_Loop
  imports Config_Apply
begin

text \<open>
  \<open>ExecuteConfigApply\<close> as a whole, from the start of the application to the check of the active transport: over
  any duplex transport and any clock that never goes back and does not stand still for ever, it returns, and a
  successful status means that the application completed and what was written is the commands of the plan, followed
  on a u-blox receiver by the UBX-MON-VER poll.  The transport and the clock are the locale \<open>clocked_duplex\<close>,
  interpreted on \<open>MemoryByteDuplex\<close> with a coarse clock.
\<close>

section \<open>What the waiting part may do to the application\<close>

text \<open>Nothing, or the command in flight ends: the next one comes, or the run stops.\<close>

definition advances :: "Application \<Rightarrow> Application \<Rightarrow> bool" where
  "advances a a1 \<longleftrightarrow>
     ap_state a1 = ap_state a \<and> ap_current_index a1 = ap_current_index a
       \<and> en_current_transaction (ap_engine a1) = en_current_transaction (ap_engine a)
       \<and> en_session_indeterminate (ap_engine a1) = en_session_indeterminate (ap_engine a)
     \<or> ap_state a = AS_kWaitingForResponse
       \<and> (ap_state a1 = AS_kFailed
          \<or> ap_current_index a1 = Suc (ap_current_index a) \<and> ap_state a1 \<in> {AS_kRunning, AS_kCompleted})"

lemma advances_refl [simp]: "advances a a"
  by (simp add: advances_def)

lemma advances_trans: "\<lbrakk>advances a b; advances b c\<rbrakk> \<Longrightarrow> advances a c"
  by (auto simp: advances_def)

lemma advances_complete:
  assumes "ap_state a = AS_kWaitingForResponse" and "ap_current_index a1 = ap_current_index a"
  shows "advances a (fst (CompleteCurrentCommand a1 er ok ra fb em al))"
  using assms by (simp add: advances_def CompleteCurrentCommand_fields)

lemma advances_ApplyResponse:
  assumes "app_run_ok sent config cs base k a"
  shows "advances a (fst (app_ApplyResponse a response md))"
proof -
  obtain e1 er where e: "engine_ApplyResponse (ap_engine a) response md = (e1, er)" by fastforce
  note outcome = ApplyResponse_cases [OF e]
  show ?thesis
  proof (cases "er_response_matched er")
    case False
    with outcome have "er_status er = ES_kResponseUnmatched"
      "en_current_transaction e1 = en_current_transaction (ap_engine a)"
      "en_session_indeterminate e1 = en_session_indeterminate (ap_engine a)" by (auto split: if_splits)
    then show ?thesis by (simp add: app_ApplyResponse_def e advances_def Let_def)
  next
    case True
    with outcome have "in_flight (ap_engine a)"
      and status: "er_status er = ES_kAcknowledged \<or> er_status er = ES_kRejected"
      by (auto split: if_splits)
    with app_run_ok_waiting [OF assms] have "ap_state a = AS_kWaitingForResponse" by blast
    with status show ?thesis
      by (auto simp: app_ApplyResponse_def HandleCommandFailure_def e Let_def intro!: advances_complete)
  qed
qed

lemma advances_CheckTimeout:
  assumes "app_run_ok sent config cs base k a"
  shows "advances a (fst (app_CheckTimeout a now))"
proof -
  obtain e1 er where e: "engine_CheckTimeout (ap_engine a) now = (e1, er)" by fastforce
  from engine_CheckTimeout_facts [of "ap_engine a" now] e have
    timed: "er_status er = ES_kTimedOut \<Longrightarrow> in_flight (ap_engine a)"
    and same: "er_status er \<noteq> ES_kTimedOut \<Longrightarrow> e1 = ap_engine a" by simp_all
  show ?thesis
  proof (cases "er_status er = ES_kTimedOut")
    case True
    with app_run_ok_waiting [OF assms] timed have "ap_state a = AS_kWaitingForResponse" by blast
    with True show ?thesis
      by (auto simp: app_CheckTimeout_def e HandleTimeoutResult_def intro!: advances_complete)
  next
    case False
    with same show ?thesis by (simp add: app_CheckTimeout_def e HandleTimeoutResult_def)
  qed
qed

text \<open>An application that still waits after a timeout check waits for something that is not due.\<close>

definition due :: "Application \<Rightarrow> int option" where
  "due a = (case en_current_transaction (ap_engine a) of
      None \<Rightarrow> None
    | Some t \<Rightarrow> map_option (\<lambda>u. u + uint (rp_timeout_ms (rc_retry_policy (tx_command t))) * 1000000)
                 (tx_sent_timestamp_ns t))"

text \<open>While a response is awaited the session is determinate and its deadline is known.\<close>

definition awaiting :: "Application \<Rightarrow> bool" where
  "awaiting a \<longleftrightarrow> in_flight (ap_engine a) \<and> \<not> en_session_indeterminate (ap_engine a) \<and> due a \<noteq> None"

lemma CheckTimeout_not_due:
  assumes "awaiting a" and "ap_state (fst (app_CheckTimeout a now)) = AS_kWaitingForResponse"
  shows "now < the (due a)"
proof (rule ccontr)
  assume "\<not> now < the (due a)"
  with assms(1) have "er_status (snd (engine_CheckTimeout (ap_engine a) now)) = ES_kTimedOut"
    by (auto simp: awaiting_def engine_CheckTimeout_def engine_MarkTimeout_def HasTimedOutAt_def due_def
        in_flight_def MakeStepResult_def EngineStepResult_default_def split: option.splits)
  with assms(2) show False
    by (auto simp: app_CheckTimeout_def HandleTimeoutResult_def CompleteCurrentCommand_fields split_beta
        split: if_split_asm)
qed

lemma awaiting_same:
  "\<lbrakk>advances a a1; ap_state a1 = AS_kWaitingForResponse; awaiting a\<rbrakk> \<Longrightarrow>
     awaiting a1 \<and> due a1 = due a \<and> ap_current_index a1 = ap_current_index a"
  by (auto simp: advances_def awaiting_def due_def in_flight_def)

text \<open>A step from the running state dispatches, completes or fails.\<close>

lemma StartTransaction_awaiting:
  assumes "er_status (snd (snd (StartTransaction put k e c (Some ts)))) = ES_kDispatched"
  shows "\<exists>t. en_current_transaction (fst (snd (StartTransaction put k e c (Some ts)))) = Some t
    \<and> tx_state t = XS_kSent \<and> tx_sent_timestamp_ns t = Some ts
    \<and> \<not> en_session_indeterminate (fst (snd (StartTransaction put k e c (Some ts))))"
  using assms
  by (auto simp: StartTransaction_def MakeStepResult_def mark_sent_def Let_def split_beta
      split: if_split_asm)

lemma app_Step_running:
  fixes put :: "'k \<Rightarrow> bytes \<Rightarrow> 'k \<times> WriteResult" and ts :: timestamp_ns and k1 :: 'k
  assumes "app_run_ok sent config cs base k a" and "ap_state a = AS_kRunning"
  defines "a1 \<equiv> fst (snd (app_Step put k1 a (Some ts)))"
  shows "ap_state a1 = AS_kWaitingForResponse \<and> ap_current_index a1 = ap_current_index a \<and> awaiting a1
    \<or> ap_current_index a1 = Suc (ap_current_index a) \<and> ap_state a1 \<in> {AS_kRunning, AS_kCompleted}
    \<or> ap_state a1 = AS_kFailed"
proof -
  from assms(1,2) have idx: "\<not> length (ap_commands a) \<le> ap_current_index a"
    by (auto simp: app_run_ok_def app_tail_ok_def)
  obtain k2 e1 er where st: "StartTransaction put k1 (ap_engine a) (ap_commands a ! ap_current_index a) (Some ts)
      = (k2, e1, er)" by (metis prod_cases3)
  show ?thesis
  proof (cases "er_status er = ES_kDispatched")
    case True
    with StartTransaction_awaiting [of put k1 "ap_engine a" "ap_commands a ! ap_current_index a" ts] st
    obtain t where t: "en_current_transaction e1 = Some t" "tx_state t = XS_kSent" "tx_sent_timestamp_ns t = Some ts"
      "\<not> en_session_indeterminate e1" by auto
    then have "ap_state a1 = AS_kWaitingForResponse" "ap_current_index a1 = ap_current_index a" "ap_engine a1 = e1"
      using True assms(2) idx st by (simp_all add: a1_def app_Step_def Let_def)
    with t show ?thesis by (simp add: awaiting_def in_flight_def due_def)
  next
    case False
    with assms(2) idx st show ?thesis
      by (auto simp: a1_def app_Step_def HandleCommandFailure_def CompleteCurrentCommand_fields Let_def split_beta)
  qed
qed

section \<open>The outcome\<close>

definition open_result :: "Apply \<Rightarrow> bool" where
  "open_result s \<longleftrightarrow> es_final_status (res_execution_summary (ay_result s)) = []"

definition closed_result :: "Apply \<Rightarrow> bool" where
  "closed_result s \<longleftrightarrow>
     es_final_status (res_execution_summary (ay_result s)) \<noteq> []
     \<and> (IsSuccessfulApplyStatus (res_status (ay_result s)) \<longrightarrow> ap_state (ay_application s) = AS_kCompleted
          \<and> res_status (ay_result s) = SuccessfulCompletionStatus (ap_metrics (ay_application s)))
     \<and> (res_status (ay_result s) = CA_kReadFailed
          \<or> ap_state (ay_application s) = AS_kFailed \<and> en_session_indeterminate (ap_engine (ay_application s))
        \<longrightarrow> res_receiver_state_indeterminate (ay_result s)
          \<and> prefix kIndeterminatePrefix (res_error_message (ay_result s)))"

lemma ToString_nonempty [simp]: "ConfigApplyStatus_ToString st \<noteq> []"
  by (cases st) simp_all

lemma MapApplicationFailureStatus_fails [simp]: "\<not> IsSuccessfulApplyStatus (MapApplicationFailureStatus ar)"
  by (simp add: MapApplicationFailureStatus_def IsSuccessfulApplyStatus_def split: option.split EngineStepStatus.split)

lemma MapApplicationFailureStatus_reads [simp]: "MapApplicationFailureStatus ar \<noteq> CA_kReadFailed"
  by (simp add: MapApplicationFailureStatus_def split: option.split EngineStepStatus.split)

lemma SuccessfulCompletionStatus_reads [simp]: "SuccessfulCompletionStatus m \<noteq> CA_kReadFailed"
  by (simp add: SuccessfulCompletionStatus_def)

lemma push_progress_simps [simp]:
  "res_execution_summary (push_progress r l) = res_execution_summary r"
  "res_status (push_progress r l) = res_status r"
  "res_receiver_state_indeterminate (push_progress r l) = res_receiver_state_indeterminate r"
  "res_error_message (push_progress r l) = res_error_message r"
  by (simp_all add: push_progress_def)

lemma NoteApplicationProgress_simps [simp]:
  "res_execution_summary (NoteApplicationProgress r plan ar) = res_execution_summary r"
  "res_status (NoteApplicationProgress r plan ar) = res_status r"
  by (simp_all add: NoteApplicationProgress_def Let_def)

lemma UpdateExecutionSummary_simps [simp]:
  "es_final_status (res_execution_summary (UpdateExecutionSummary r a)) = es_final_status (res_execution_summary r)"
  "res_status (UpdateExecutionSummary r a) = res_status r"
  "res_receiver_state_indeterminate (UpdateExecutionSummary r a) = res_receiver_state_indeterminate r"
  "res_error_message (UpdateExecutionSummary r a) = res_error_message r"
  by (simp_all add: UpdateExecutionSummary_def Let_def)

lemma FinalizeIfApplicationStopped_outcome:
  assumes "FinalizeIfApplicationStopped result a ar = (r, stopped)"
  shows "if stopped
    then es_final_status (res_execution_summary r) \<noteq> []
      \<and> (IsSuccessfulApplyStatus (res_status r) \<longrightarrow> ap_state a = AS_kCompleted
           \<and> res_status r = SuccessfulCompletionStatus (ap_metrics a))
      \<and> res_status r \<noteq> CA_kReadFailed
      \<and> (ap_state a = AS_kFailed \<and> en_session_indeterminate (ap_engine a)
          \<longrightarrow> res_receiver_state_indeterminate r \<and> prefix kIndeterminatePrefix (res_error_message r))
    else r = result \<and> ap_state a \<noteq> AS_kCompleted \<and> ap_state a \<noteq> AS_kFailed"
  using assms
  by (auto simp: FinalizeIfApplicationStopped_def set_final_status_def kIndeterminatePrefix_def Let_def
      split: if_splits)

lemma update_summary_simps [simp]:
  "ay_application (update_summary s) = ay_application s"
  "open_result (update_summary s) = open_result s" "closed_result (update_summary s) = closed_result s"
  by (simp_all add: update_summary_def open_result_def closed_result_def)

lemma note_and_finalize_outcome:
  assumes "open_result s"
  shows "loop_post open_result closed_result (note_and_finalize plan ar s)"
proof -
  obtain r stopped where f: "FinalizeIfApplicationStopped (NoteApplicationProgress (ay_result s) plan ar)
      (ay_application s) ar = (r, stopped)" by fastforce
  from FinalizeIfApplicationStopped_outcome [OF f] assms show ?thesis
    by (auto simp: note_and_finalize_def f loop_post_def open_result_def closed_result_def split: if_split_asm)
qed

section \<open>The waiting part of an iteration\<close>

definition loop_ok :: "('k \<Rightarrow> bytes) \<Rightarrow> ReceiverCommand list \<Rightarrow> bytes \<Rightarrow> 'k \<Rightarrow> Apply \<Rightarrow> bool" where
  "loop_ok sent cs base k s \<longleftrightarrow>
     app_run_ok sent ApplicationConfig_default cs base k (ay_application s)
     \<and> (ap_state (ay_application s) = AS_kWaitingForResponse \<longrightarrow> awaiting (ay_application s))"

definition waits :: "('k \<Rightarrow> bytes) \<Rightarrow> ReceiverCommand list \<Rightarrow> bytes \<Rightarrow> 'k \<Rightarrow> Application \<Rightarrow> Apply \<Rightarrow> bool" where
  "waits sent cs base k a s \<longleftrightarrow> loop_ok sent cs base k s \<and> advances a (ay_application s)"

lemma loop_ok_sent: "\<lbrakk>loop_ok sent cs base k s; sent k1 = sent k\<rbrakk> \<Longrightarrow> loop_ok sent cs base k1 s"
  by (simp add: loop_ok_def app_run_ok_def)

lemma waits_sent: "\<lbrakk>waits sent cs base k a s; sent k1 = sent k\<rbrakk> \<Longrightarrow> waits sent cs base k1 a s"
  by (auto simp: waits_def intro: loop_ok_sent)

lemma waits_application:
  assumes "waits sent cs base k a s" and "app_run_ok sent ApplicationConfig_default cs base k (ay_application s1)"
    and "advances (ay_application s) (ay_application s1)"
  shows "waits sent cs base k a s1"
  using assms advances_trans awaiting_same unfolding waits_def loop_ok_def
  by (metis ApplicationState.distinct advances_def)

lemma waits_cong: "\<lbrakk>waits sent cs base k a s; ay_application s1 = ay_application s\<rbrakk> \<Longrightarrow> waits sent cs base k a s1"
  by (simp add: waits_def loop_ok_def)

lemma waits_response:
  assumes "waits sent cs base k a s" and "app_ApplyResponse (ay_application s) response md = (a1, ar)"
    and "ay_application s1 = a1"
  shows "waits sent cs base k a s1"
proof (rule waits_application [OF assms(1)])
  have ok: "app_run_ok sent ApplicationConfig_default cs base k (ay_application s)"
    using assms(1) by (simp add: waits_def loop_ok_def)
  show "app_run_ok sent ApplicationConfig_default cs base k (ay_application s1)"
    using app_run_ok_ApplyResponse [OF ok, of response md] assms(2,3) by simp
  show "advances (ay_application s) (ay_application s1)"
    using advances_ApplyResponse [OF ok, of response md] assms(2,3) by simp
qed

text \<open>Both readings of a loop: it goes on with an open result, or it stopped with a closed one.\<close>

abbreviation waiting_post where
  "waiting_post sent cs base k a \<equiv>
     loop_post (\<lambda>s. waits sent cs base k a s \<and> open_result s) (\<lambda>s. waits sent cs base k a s \<and> closed_result s)"

lemma note_and_finalize_post:
  assumes "waits sent cs base k a s" and "open_result s"
    and "app_ApplyResponse (ay_application s) response md = (a1, ar)"
    and "ay_application s1 = a1" and "ay_result s1 = ay_result s"
  shows "waiting_post sent cs base k a (note_and_finalize plan ar s1)"
proof -
  have "open_result s1" using assms(2,5) by (simp add: open_result_def)
  from note_and_finalize_outcome [OF this, of plan ar] waits_response [OF assms(1,3)]
    note_and_finalize_frame(6) [of plan ar s1] assms(4)
  show ?thesis by (auto simp: loop_post_def)
qed

lemma ApplyQueuedUblox_post:
  assumes "waits sent cs base k a s" and "open_result s"
  shows "waiting_post sent cs base k a (ApplyQueuedUbloxResponses plan s)"
proof (rule ApplyQueuedUblox_rule)
  fix s' routed rest a1 ar
  assume "waits sent cs base k a s' \<and> open_result s'"
    and "app_ApplyResponse (ay_application s') (urr_response routed) (urr_ubx_target routed) = (a1, ar)"
  then show "waiting_post sent cs base k a (note_and_finalize plan ar
      (s'\<lparr>ay_ublox_router := fst (ubr_PopResponse (ay_ublox_router s')), ay_application := a1\<rparr>))"
    by (intro note_and_finalize_post) simp_all
qed (use assms in \<open>auto simp: log_line_def open_result_def intro: waits_cong\<close>)

lemma ApplyQueuedUnicore_post:
  assumes "waits sent cs base k a s" and "open_result s"
  shows "waiting_post sent cs base k a (ApplyQueuedUnicoreResponses plan s)"
proof (rule ApplyQueuedUnicore_rule)
  fix s' response rest a1 ar
  assume "waits sent cs base k a s' \<and> open_result s'"
    and "app_ApplyResponse (ay_application s') response None = (a1, ar)"
  then show "waiting_post sent cs base k a (note_and_finalize plan ar
      (s'\<lparr>ay_unicore_router := fst (unr_PopResponse (ay_unicore_router s')), ay_application := a1\<rparr>))"
    by (intro note_and_finalize_post) simp_all
qed (use assms in \<open>auto simp: log_line_def open_result_def intro: waits_cong\<close>)

lemma capture_route_frame:
  "ay_application (fst (capture_byte s b t)) = ay_application s" "ay_result (fst (capture_byte s b t)) = ay_result s"
  "ay_application (route_frame s frame) = ay_application s" "ay_result (route_frame s frame) = ay_result s"
  by (simp_all add: capture_byte_def route_frame_def BeginCapture_def Let_def split_beta)

lemma ProcessUbloxBytes_post:
  assumes "waits sent cs base k a s" and "open_result s"
  shows "waiting_post sent cs base k a (ProcessUbloxBytes plan s bs t)"
  using assms
proof (induction bs arbitrary: s)
  case Nil
  then show ?case by (simp add: loop_post_def)
next
  case (Cons b bs)
  obtain s1 out where cap: "capture_byte s b t = (s1, out)" by fastforce
  have s1: "waits sent cs base k a s1" "open_result s1"
    using capture_route_frame(1,2) [of s b t] Cons.prems by (auto simp: cap open_result_def intro: waits_cong)
  show ?case
  proof (cases out)
    case None
    with cap Cons.IH [OF s1] show ?thesis by simp
  next
    case (Some frame)
    have "waits sent cs base k a (route_frame s1 frame)" "open_result (route_frame s1 frame)"
      using capture_route_frame(3,4) [of s1 frame] s1 by (auto simp: open_result_def intro: waits_cong)
    from ApplyQueuedUblox_post [OF this, of plan] cap Some Cons.IH show ?thesis
      by (auto simp: loop_post_def split: prod.split)
  qed
qed

lemma apply_queued_post:
  "\<lbrakk>waits sent cs base k a s; open_result s\<rbrakk> \<Longrightarrow> waiting_post sent cs base k a (apply_queued plan s)"
  by (auto simp: apply_queued_def loop_post_def
      dest: ApplyQueuedUblox_post [where plan = plan] ApplyQueuedUnicore_post [where plan = plan])

lemma apply_bytes_post:
  assumes "waits sent cs base k a s" and "open_result s"
  shows "waiting_post sent cs base k a (apply_bytes plan s bs t)"
proof (cases "plan_vendor plan = ''ublox''")
  case True
  with ProcessUbloxBytes_post [OF assms] show ?thesis by (simp add: apply_bytes_def)
next
  case False
  let ?s1 = "s\<lparr>ay_fence := fst (BeginCapture (ay_fence s)), ay_unicore_router :=
      FeedBytes (ay_unicore_router s) (text_of bs) (Some t) (Some (snd (BeginCapture (ay_fence s))))\<rparr>"
  have "waits sent cs base k a ?s1" "open_result ?s1"
    using assms by (auto simp: open_result_def intro: waits_cong)
  from ApplyQueuedUnicore_post [OF this, of plan] False show ?thesis
    by (simp add: apply_bytes_def ProcessUnicoreBytes_def split_beta)
qed

text \<open>The timeout check: an awaited response is not due yet, or the loop stops.\<close>

lemma apply_timeout_post:
  assumes "waits sent cs base k a s" and "open_result s"
  shows "waiting_post sent cs base k a (apply_timeout plan s t)"
    and "ap_state (ay_application (fst (apply_timeout plan s t))) = AS_kWaitingForResponse \<Longrightarrow>
      t < the (due (ay_application (fst (apply_timeout plan s t))))"
    and "snd (apply_timeout plan s t) = (ap_state (ay_application (fst (apply_timeout plan s t))) \<in> {AS_kCompleted, AS_kFailed})"
proof -
  obtain a1 ar where a1: "app_CheckTimeout (ay_application s) t = (a1, ar)" by fastforce
  have ok: "app_run_ok sent ApplicationConfig_default cs base k (ay_application s)"
    using assms(1) by (simp add: waits_def loop_ok_def)
  note adv = advances_CheckTimeout [OF ok, of t, unfolded a1, simplified]
  let ?s1 = "update_summary (s\<lparr>ay_application := a1, ay_result := NoteApplicationProgress (ay_result s) plan ar\<rparr>)"
  obtain r stopped where fin: "FinalizeIfApplicationStopped (ay_result ?s1) a1 ar = (r, stopped)" by fastforce
  have res: "apply_timeout plan s t = (?s1\<lparr>ay_result := r\<rparr>, stopped)"
    by (simp add: apply_timeout_def a1 fin Let_def)
  have ok1: "app_run_ok sent ApplicationConfig_default cs base k a1"
    using app_run_ok_timeout [OF ok engine_CheckTimeout_facts] a1
    by (simp add: app_CheckTimeout_def split_beta) (metis fst_conv)
  have w: "waits sent cs base k a (?s1\<lparr>ay_result := r\<rparr>)"
    by (rule waits_application [OF assms(1)]) (simp_all add: ok1 adv)
  have open1: "open_result ?s1"
    unfolding update_summary_simps using assms(2) by (simp add: open_result_def)
  note out = FinalizeIfApplicationStopped_outcome [OF fin]
  show "waiting_post sent cs base k a (apply_timeout plan s t)"
    using w out open1 by (auto simp: res loop_post_def open_result_def closed_result_def split: if_split_asm)
  show "snd (apply_timeout plan s t) = (ap_state (ay_application (fst (apply_timeout plan s t))) \<in> {AS_kCompleted, AS_kFailed})"
    using fin by (auto simp: res FinalizeIfApplicationStopped_def Let_def split: if_split_asm)
  show "t < the (due (ay_application (fst (apply_timeout plan s t))))"
    if "ap_state (ay_application (fst (apply_timeout plan s t))) = AS_kWaitingForResponse"
  proof -
    from that have wait: "ap_state a1 = AS_kWaitingForResponse" by (simp add: res)
    with adv have "ap_state (ay_application s) = AS_kWaitingForResponse" by (auto simp: advances_def)
    with assms(1) have aw: "awaiting (ay_application s)" by (simp add: waits_def loop_ok_def)
    from CheckTimeout_not_due [OF aw, of t] wait awaiting_same [OF adv wait aw] a1 show ?thesis
      by (simp add: res)
  qed
qed

lemma app_Start_running:
  assumes "cs \<noteq> []"
  shows "\<exists>a0. ap_state a0 = AS_kRunning \<and> app_run_ok sent config cs (sent k) k a0
    \<and> app_Start put k (app_new config) cs ts = app_Step put k a0 ts"
proof -
  let ?a = "(ResetRunState (app_new config))\<lparr>ap_commands := cs,
      ap_metrics := (ap_metrics (ResetRunState (app_new config)))\<lparr>am_commands_total := word_of_nat (length cs)\<rparr>,
      ap_state := AS_kRunning\<rparr>"
  have "app_run_ok sent config cs (sent k) k ?a"
    using assms
    by (simp add: app_new_def ResetRunState_def app_run_ok_def app_tail_ok_def engine_new_def engine_Reset_def
        account_ok_def failures_split_def ApplicationMetrics_default_def chosen_def)
  moreover have "app_Start put k (app_new config) cs ts = app_Step put k ?a ts"
    using assms by (simp add: app_Start_def app_new_def Let_def)
  ultimately show ?thesis by (intro exI [of _ ?a]) simp
qed

text \<open>What is said about the baud rate after a success.\<close>

definition baud_reported :: "ConfigPlan \<Rightarrow> ApplyResult \<Rightarrow> bool" where
  "baud_reported plan r \<longleftrightarrow>
     (if plan_vendor plan = ''ublox''
      then res_model_query_method r = QM_kUbloxMonVer
        \<and> res_active_verified_baud r
            = (if res_current_baud_verified r then Some (res_current_transport_baud_rate r) else None)
      else res_current_baud_verified r \<longrightarrow>
        res_active_verified_baud r = Some (res_current_transport_baud_rate r))"

lemma note_active_baud_simps [simp]:
  "res_status (note_active_baud r) = res_status r"
  "res_execution_summary (note_active_baud r) = res_execution_summary r"
  "res_receiver_state_indeterminate (note_active_baud r) = res_receiver_state_indeterminate r"
  "res_error_message (note_active_baud r) = res_error_message r"
  by (simp_all add: note_active_baud_def)

lemma note_model_query_simps [simp]:
  "res_status (note_model_query mq r) = res_status r"
  "res_execution_summary (note_model_query mq r) = res_execution_summary r"
  "res_receiver_state_indeterminate (note_model_query mq r) = res_receiver_state_indeterminate r"
  "res_error_message (note_model_query mq r) = res_error_message r"
  by (simp_all add: note_model_query_def Let_def)

section \<open>The environment, and the loop as a whole\<close>

text \<open>A duplex transport with a clock: reading and looking at the clock write nothing, and the clock never goes
  back and shows the same time a bounded number of times.\<close>

locale clocked_duplex = byte_sink put sent + steady_clock get now clock patience
  for put :: "'k \<Rightarrow> bytes \<Rightarrow> 'k \<times> WriteResult" and sent :: "'k \<Rightarrow> bytes"
    and get :: "'k \<Rightarrow> nat \<Rightarrow> 'k \<times> ReadResult \<times> bytes" and now :: "'k \<Rightarrow> 'k \<times> timestamp_ns"
    and clock :: "'k \<Rightarrow> int" and patience :: "'k \<Rightarrow> nat" +
  assumes get_sent: "sent (fst (get k n)) = sent k"
    and now_sent: "sent (fst (now k)) = sent k"
begin

text \<open>One iteration that waits: it stops with an outcome, or the clock has advanced and nothing is due.\<close>

lemma apply_wait_post:
  assumes "loop_ok sent cs base k s" and "open_result s" and "apply_wait get now plan k s = (k1, s1, go_on)"
  shows "waits sent cs base k1 (ay_application s) s1 \<and> sent k1 = sent k
    \<and> (if go_on then open_result s1 \<and> later k k1
         \<and> ap_state (ay_application s1) \<notin> {AS_kCompleted, AS_kFailed}
         \<and> (ap_state (ay_application s1) = AS_kWaitingForResponse \<longrightarrow> clock k1 < the (due (ay_application s1)))
       else closed_result s1)"
proof -
  let ?a = "ay_application s"
  have w0: "waits sent cs base k ?a s" using assms(1) by (simp add: waits_def)
  obtain s2 st2 where q: "apply_queued plan s = (s2, st2)" by fastforce
  note post2 = apply_queued_post [OF w0 assms(2), of plan, unfolded q loop_post_def fst_conv snd_conv]
  obtain k2 rr bs where g: "get k 256 = (k2, rr, bs)" by (metis prod_cases3)
  have k2: "sent k2 = sent k" "not_earlier k k2"
    using get_sent [of k 256] not_earlier_get [of k 256] by (simp_all add: g)
  show ?thesis
  proof (cases "st2 \<or> rr_status rr = TS_kError \<or> rr_status rr = TS_kClosed")
    case True
    have "waits sent cs base k2 ?a (read_failed s2)" "closed_result (read_failed s2)" if "\<not> st2"
    proof -
      have same: "ay_application (read_failed s2) = ay_application s2"
        by (simp add: read_failed_def Let_def)
      from post2 that k2(1) have "waits sent cs base k2 ?a s2" by (auto intro: waits_sent)
      then show "waits sent cs base k2 ?a (read_failed s2)" using same by (rule waits_cong)
      show "closed_result (read_failed s2)"
        unfolding read_failed_def Let_def update_summary_simps
        by (simp add: closed_result_def set_final_status_def MarkReceiverStateIndeterminate_def
            IsSuccessfulApplyStatus_def StartsWith_def Let_def)
    qed
    moreover have "waits sent cs base k ?a (update_summary s2)" "closed_result (update_summary s2)" if st2
      using post2 that by (auto intro: waits_cong)
    ultimately show ?thesis
      using True assms(3) q g k2 by (auto simp: apply_wait_def split: if_split_asm)
  next
    case False
    with post2 have s2: "waits sent cs base k2 ?a s2" "open_result s2" using k2(1) by (auto intro: waits_sent)
    obtain k3 s3 st3 where r3: "apply_received now plan k2 s2 rr bs = (k3, s3, st3)" by (metis prod_cases3)
    have post3: "waits sent cs base k3 ?a s3 \<and> (if st3 then closed_result s3 else open_result s3)"
      and k3: "sent k3 = sent k2" "not_earlier k2 k3"
      using apply_bytes_post [OF s2, of plan "take (rr_bytes_read rr) bs" "snd (now k2)"] s2 r3
        now_sent [of k2] later_not_earlier [OF later_now [of k2]]
      by (auto simp: apply_received_def loop_post_def split_beta split: if_split_asm intro: waits_sent waits_cong)
    obtain k4 t where n4: "now k3 = (k4, t)" by fastforce
    have k4: "sent k4 = sent k3" "later k k4" "t = clock k4"
      using now_sent [of k3] later_trans(1) [OF not_earlier_trans [OF k2(2) k3(2)] later_now] now_time [of k3]
      by (simp_all add: n4)
    have run: "apply_wait get now plan k s = (if st3 then (k3, s3, False)
        else (k4, fst (apply_timeout plan s3 t), \<not> snd (apply_timeout plan s3 t)))"
      using False by (simp add: apply_wait_def q g r3 n4 split_beta)
    show ?thesis
    proof (cases st3)
      case True
      with run assms(3) post3 k3 k2 show ?thesis by simp
    next
      case False
      with post3 have s3: "waits sent cs base k4 ?a s3" "open_result s3"
        using k4(1) by (auto intro: waits_sent)
      note out = apply_timeout_post [OF s3, of plan t]
      from run assms(3) False out k2 k3 k4 show ?thesis
        by (auto simp: loop_post_def split: if_split_asm)
    qed
  qed
qed

lemma apply_step_post:
  assumes "loop_ok sent cs base k s" and "open_result s" and "ap_state (ay_application s) = AS_kRunning"
    and "apply_step put plan k s t = (k1, s1, stopped)"
  shows "loop_ok sent cs base k1 s1
    \<and> (if stopped then closed_result s1
       else open_result s1 \<and> ap_state (ay_application s1) \<notin> {AS_kCompleted, AS_kFailed}
         \<and> (ap_state (ay_application s1) = AS_kWaitingForResponse
              \<and> ap_current_index (ay_application s1) = ap_current_index (ay_application s)
            \<or> ap_state (ay_application s1) = AS_kRunning
              \<and> ap_current_index (ay_application s1) = Suc (ap_current_index (ay_application s))))"
proof -
  let ?a = "ay_application s"
  obtain k2 a1 ar where st: "app_Step put k ?a (Some t) = (k2, a1, ar)" by (metis prod_cases3)
  have ok: "app_run_ok sent ApplicationConfig_default cs base k ?a" using assms(1) by (simp add: loop_ok_def)
  have ok1: "app_run_ok sent ApplicationConfig_default cs base k2 a1"
    using app_run_ok_Step [OF byte_sink_axioms ok, of "Some t"] by (simp add: st)
  note run = app_Step_running [OF ok assms(3), of put k t, unfolded st fst_conv snd_conv]
  let ?s1 = "update_summary (s\<lparr>ay_application := a1, ay_fence := NoteDispatch (ay_fence s) ar,
                 ay_result := NoteApplicationProgress (ay_result s) plan ar\<rparr>)"
  obtain r st1 where fin: "FinalizeIfApplicationStopped (ay_result ?s1) a1 ar = (r, st1)" by fastforce
  have res: "k1 = k2" "s1 = ?s1\<lparr>ay_result := r\<rparr>" "stopped = st1"
    using assms(4) by (simp_all add: apply_step_def st fin Let_def)
  have open1: "open_result ?s1"
    unfolding update_summary_simps using assms(2) by (simp add: open_result_def)
  have app: "ay_application s1 = a1" by (simp add: res)
  note out = FinalizeIfApplicationStopped_outcome [OF fin]
  have "loop_ok sent cs base k1 s1" using ok1 run by (auto simp: loop_ok_def app res(1))
  with out open1 run app show ?thesis
    by (auto simp: res(3) open_result_def closed_result_def res(2) split: if_split_asm)
qed

definition remaining :: "ReceiverCommand list \<Rightarrow> 'k \<Rightarrow> Apply \<Rightarrow> nat \<times> nat \<times> nat" where
  "remaining cs k s =
     (2 * (length cs - ap_current_index (ay_application s))
        + (if ap_state (ay_application s) = AS_kRunning then 1 else 0),
      left (the (due (ay_application s))) k)"

lemma loop_ok_index:
  "\<lbrakk>loop_ok sent cs base k s; ap_state (ay_application s) \<notin> {AS_kCompleted, AS_kFailed}\<rbrakk> \<Longrightarrow>
     ap_current_index (ay_application s) < length cs
     \<and> ap_state (ay_application s) \<in> {AS_kRunning, AS_kWaitingForResponse}"
  by (cases "ap_state (ay_application s)") (auto simp: loop_ok_def app_run_ok_def app_tail_ok_def)

abbreviation lower :: "((nat \<times> nat \<times> nat) \<times> nat \<times> nat \<times> nat) set" where
  "lower \<equiv> less_than <*lex*> less_than <*lex*> less_than"

lemma wf_lower: "wf lower"
  by (intro wf_lex_prod wf_less_than)

lemma lower_trans: "\<lbrakk>(x, y) \<in> lower; (y, z) \<in> lower\<rbrakk> \<Longrightarrow> (x, z) \<in> lower"
  by (auto simp: lex_prod_def)

lemma lower_fst: "fst x < fst y \<Longrightarrow> (x, y) \<in> lower"
  by (cases x; cases y) simp

lemma wait_decreases:
  assumes "loop_ok sent cs base k s" and "ap_state (ay_application s) = AS_kWaitingForResponse"
    and "waits sent cs base k1 (ay_application s) s1" and "later k k1"
    and "ap_state (ay_application s1) \<notin> {AS_kCompleted, AS_kFailed}"
    and "ap_state (ay_application s1) = AS_kWaitingForResponse \<longrightarrow> clock k1 < the (due (ay_application s1))"
  shows "(remaining cs k1 s1, remaining cs k s) \<in> lower"
proof (cases "ap_state (ay_application s1) = AS_kWaitingForResponse")
  case True
  have "awaiting (ay_application s)" using assms(1,2) by (simp add: loop_ok_def)
  with awaiting_same True assms(3) have "due (ay_application s1) = due (ay_application s)"
    "ap_current_index (ay_application s1) = ap_current_index (ay_application s)" by (auto simp: waits_def)
  moreover have "clock k < the (due (ay_application s1))" using True assms(4,6) by (auto simp: later_def)
  ultimately show ?thesis using True assms(2) left_decreases [OF assms(4)] by (simp add: remaining_def)
next
  case False
  with assms(2,3,5) have "ap_current_index (ay_application s1) = Suc (ap_current_index (ay_application s))"
    by (auto simp: waits_def advances_def)
  moreover have "ap_current_index (ay_application s) < length cs" using loop_ok_index [OF assms(1)] assms(2) by simp
  ultimately have "fst (remaining cs k1 s1) < fst (remaining cs k s)"
    using assms(2) unfolding remaining_def fst_conv by (simp; linarith)
  then show ?thesis by (rule lower_fst)
qed

lemma apply_iteration_post:
  assumes "loop_ok sent cs base k s" and "open_result s"
    and "ap_state (ay_application s) \<in> {AS_kRunning, AS_kWaitingForResponse}"
    and "apply_iteration put get now plan k s = (k1, s1, go_on)"
  shows "loop_ok sent cs base k1 s1
    \<and> (if go_on then open_result s1 \<and> ap_state (ay_application s1) \<notin> {AS_kCompleted, AS_kFailed}
         \<and> (remaining cs k1 s1, remaining cs k s) \<in> lower
       else closed_result s1)"
proof (cases "ap_state (ay_application s) = AS_kRunning")
  case False
  with assms(3) have wait: "ap_state (ay_application s) = AS_kWaitingForResponse" by simp
  with assms(4) have "apply_wait get now plan k s = (k1, s1, go_on)" by (simp add: apply_iteration_def)
  from apply_wait_post [OF assms(1,2) this] wait_decreases [OF assms(1) wait, of k1 s1] show ?thesis
    by (simp add: waits_def split: if_splits)
next
  case True
  obtain k2 t where n: "now k = (k2, t)" by fastforce
  obtain k3 s3 st3 where step: "apply_step put plan k2 s t = (k3, s3, st3)" by (metis prod_cases3)
  have "loop_ok sent cs base k2 s" using assms(1) now_sent [of k] by (simp add: n loop_ok_sent)
  note post = apply_step_post [OF this assms(2) True step]
  have idx: "ap_current_index (ay_application s) < length cs" using loop_ok_index [OF assms(1)] True by simp
  show ?thesis
  proof (cases "st3 \<or> ap_state (ay_application s3) \<noteq> AS_kWaitingForResponse")
    case stop: True
    with assms(4) True n step have "k1 = k3" "s1 = s3" "go_on = (\<not> st3)"
      by (auto simp: apply_iteration_def split: if_split_asm)
    with post stop True idx show ?thesis by (auto simp: remaining_def split: if_split_asm)
  next
    case wait: False
    with post have s3: "loop_ok sent cs base k3 s3" "open_result s3"
      "ap_current_index (ay_application s3) = ap_current_index (ay_application s)" by auto
    have run: "apply_wait get now plan k3 s3 = (k1, s1, go_on)"
      using assms(4) True n step wait by (simp add: apply_iteration_def)
    have "(remaining cs k3 s3, remaining cs k s) \<in> lower"
      using True wait s3(3) by (simp add: remaining_def)
    with apply_wait_post [OF s3(1,2) run] wait_decreases [OF s3(1), of k1 s1] wait show ?thesis
      by (auto simp: waits_def split: if_splits intro: lower_trans)
  qed
qed

lemma apply_loop_total:
  assumes "loop_ok sent cs base k s" and "open_result s"
    and "ap_state (ay_application s) \<notin> {AS_kCompleted, AS_kFailed}"
  shows "\<exists>k1 s1. apply_loop put get now plan k s = Some (k1, s1) \<and> loop_ok sent cs base k1 s1
    \<and> closed_result s1"
  using assms
proof (induction "remaining cs k s" arbitrary: k s rule: wf_induct_rule [OF wf_lower])
  case 1
  obtain k1 s1 go_on where it: "apply_iteration put get now plan k s = (k1, s1, go_on)" by (metis prod_cases3)
  have "ap_state (ay_application s) \<in> {AS_kRunning, AS_kWaitingForResponse}"
    using loop_ok_index [OF 1(2,4)] by blast
  from apply_iteration_post [OF 1(2,3) this it] 1(1) [of k1 s1] this it show ?case
    by (subst apply_loop.simps) (auto split: if_splits)
qed

text \<open>From the start to the result.\<close>

lemma apply_start_post:
  assumes "es_final_status (res_execution_summary result) = []"
    and "apply_start put now plan options result k = (k1, s, stopped)"
  shows "loop_ok sent (BuildExecutableCommands plan options) (sent k) k1 s
    \<and> (if stopped then closed_result s
       else open_result s \<and> ap_state (ay_application s) \<notin> {AS_kCompleted, AS_kFailed})"
proof -
  let ?cs = "BuildExecutableCommands plan options"
  obtain k0 t where n: "now k = (k0, t)" by fastforce
  have k0: "sent k0 = sent k" using now_sent [of k] by (simp add: n)
  obtain k2 a ar where st: "app_Start put k0 (app_new ApplicationConfig_default) ?cs (Some t) = (k2, a, ar)"
    by (metis prod_cases3)
  have ok: "app_run_ok sent ApplicationConfig_default ?cs (sent k) k2 a"
    using app_run_ok_Start [OF byte_sink_axioms, of ApplicationConfig_default ?cs k0 "Some t"] k0 by (simp add: st)
  have wait: "awaiting a" if "ap_state a = AS_kWaitingForResponse"
  proof (cases "?cs = []")
    case True
    with st that show ?thesis by (auto simp: app_Start_def app_new_def Let_def)
  next
    case False
    from app_Start_running [OF False, of sent ApplicationConfig_default k0 put "Some t"] obtain a0 where a0: "ap_state a0 = AS_kRunning"
      "app_run_ok sent ApplicationConfig_default ?cs (sent k0) k0 a0"
      "app_Start put k0 (app_new ApplicationConfig_default) ?cs (Some t) = app_Step put k0 a0 (Some t)" by blast
    with st have "app_Step put k0 a0 (Some t) = (k2, a, ar)" by simp
    with app_Step_running [OF a0(2,1), of put k0 t] that show ?thesis by auto
  qed
  obtain r st1 where fin: "FinalizeIfApplicationStopped
      (UpdateExecutionSummary (NoteApplicationProgress result plan ar) a) a ar = (r, st1)" by fastforce
  note out = FinalizeIfApplicationStopped_outcome [OF fin]
  have "k1 = k2" "stopped = st1" "ay_application s = a"
    "ay_result s = (if st1 then UpdateExecutionSummary r a else r)"
    using assms(2) by (auto simp: apply_start_def n st fin Let_def)
  with ok wait out assms(1) show ?thesis
    by (auto simp: loop_ok_def open_result_def closed_result_def split: if_split_asm)
qed

text \<open>After the loop there is nothing left to do.\<close>

lemma apply_finish_closed: "closed_result s \<Longrightarrow> apply_finish s = s"
  by (simp add: apply_finish_def closed_result_def)

text \<open>The check of the active transport: it writes at most the poll, and says what it found.\<close>

lemma QueryReceiverModel_ublox:
  "\<exists>k1 mq n. QueryReceiverModel put get now DF_kUblox k timeout 4096 = Some (k1, mq)
    \<and> mq_method mq = QM_kUbloxMonVer \<and> sent k1 = sent k @ take n kMonVerPoll
    \<and> (mq_transport_verified mq \<longrightarrow> n = length kMonVerPoll)"
proof -
  let ?result = "ReceiverModelQueryResult_default\<lparr>mq_method := QM_kUbloxMonVer\<rparr>"
  obtain k1 wr where w: "put k kMonVerPoll = (k1, wr)" by fastforce
  have k1: "sent k1 = sent k @ take (wr_bytes_written wr) kMonVerPoll"
    using put_sent [of k kMonVerPoll] by (simp add: w)
  obtain k2 t where n: "now k1 = (k2, t)" by fastforce
  have k2: "sent k2 = sent k1" using now_sent [of k1] by (simp add: n)
  obtain k3 r where run: "query_loop get now DF_kUblox 4096
      (t + sint (if timeout > 0 then timeout else 1000) * 1000000) k2 (ubx_new 4096) [] 0 ?result = Some (k3, r)"
    and k3: "sent k3 = sent k1" "mq_method r = QM_kUbloxMonVer"
    using query_loop_total [where P = "\<lambda>k. sent k = sent k1" and result = ?result, OF _ _ k2] get_sent now_sent
    by (simp, metis)
  show ?thesis
  proof (cases "wr_status wr = TS_kClosed \<or> wr_status wr = TS_kError
      \<or> wr_bytes_written wr \<noteq> length kMonVerPoll")
    case True
    with k1 w show ?thesis
      by (intro exI [of _ k1] exI [of _ ?result] exI [of _ "wr_bytes_written wr"])
        (simp add: QueryReceiverModel_def ReceiverModelQueryResult_default_def)
  next
    case False
    with k1 w n run k3 show ?thesis
      by (intro exI [of _ k3] exI [of _ r] exI [of _ "length kMonVerPoll"])
        (simp add: QueryReceiverModel_def)
  qed
qed

lemma apply_verify_post:
  assumes "closed_result s"
  shows "\<exists>k1 s1 n. apply_verify put get now plan options k s = Some (k1, s1) \<and> closed_result s1
    \<and> ay_application s1 = ay_application s \<and> res_status (ay_result s1) = res_status (ay_result s)
    \<and> sent k1 = sent k @ take n kMonVerPoll
    \<and> (\<not> (IsSuccessfulApplyStatus (res_status (ay_result s1)) \<and> plan_vendor plan = ''ublox'') \<longrightarrow> n = 0)
    \<and> (IsSuccessfulApplyStatus (res_status (ay_result s1)) \<longrightarrow> baud_reported plan (ay_result s1)
         \<and> (plan_vendor plan = ''ublox'' \<and> res_current_baud_verified (ay_result s1) \<longrightarrow> n = length kMonVerPoll))"
proof (cases "IsSuccessfulApplyStatus (res_status (ay_result s)) \<and> plan_vendor plan = ''ublox''")
  case False
  then have run: "apply_verify put get now plan options k s = Some (k, s\<lparr>ay_result := note_active_baud (ay_result s)\<rparr>)"
    by (auto simp: apply_verify_def FinalizeSuccessfulUbloxActiveBaudVerification_def)
  from assms False show ?thesis
    unfolding run
    by (intro exI [of _ k] exI [of _ "s\<lparr>ay_result := note_active_baud (ay_result s)\<rparr>"] exI [of _ 0])
      (auto simp: closed_result_def baud_reported_def note_active_baud_def)
next
  case True
  obtain k1 mq n where q: "QueryReceiverModel put get now DF_kUblox k (opt_timeout_ms options) 4096 = Some (k1, mq)"
    and mq: "mq_method mq = QM_kUbloxMonVer" "sent k1 = sent k @ take n kMonVerPoll"
      "mq_transport_verified mq \<longrightarrow> n = length kMonVerPoll"
    using QueryReceiverModel_ublox by blast
  let ?s1 = "s\<lparr>ay_result := note_model_query mq (note_active_baud (ay_result s))\<rparr>"
  have run: "apply_verify put get now plan options k s = Some (k1, ?s1)"
    using True by (simp add: apply_verify_def FinalizeSuccessfulUbloxActiveBaudVerification_def q)
  have "closed_result ?s1" using assms by (simp add: closed_result_def)
  moreover have "baud_reported plan (ay_result ?s1)"
    "res_current_baud_verified (ay_result ?s1) = mq_transport_verified mq"
    using True mq(1) by (simp_all add: baud_reported_def note_model_query_def push_progress_def Let_def)
  ultimately show ?thesis
    using True mq unfolding run by (intro exI [of _ k1] exI [of _ ?s1] exI [of _ n]) simp
qed

lemma execute_apply_total:
  assumes "es_final_status (res_execution_summary result) = []"
  shows "\<exists>k0 k1 s n. execute_apply put get now plan options result k = Some (k1, s) \<and> closed_result s
    \<and> app_run_ok sent ApplicationConfig_default (BuildExecutableCommands plan options) (sent k) k0 (ay_application s)
    \<and> sent k1 = sent k0 @ take n kMonVerPoll
    \<and> (\<not> (IsSuccessfulApplyStatus (res_status (ay_result s)) \<and> plan_vendor plan = ''ublox'') \<longrightarrow> n = 0)
    \<and> (IsSuccessfulApplyStatus (res_status (ay_result s)) \<longrightarrow> baud_reported plan (ay_result s)
         \<and> (plan_vendor plan = ''ublox'' \<and> res_current_baud_verified (ay_result s) \<longrightarrow> n = length kMonVerPoll))"
proof -
  let ?cs = "BuildExecutableCommands plan options"
  obtain k1 s stopped where st: "apply_start put now plan options result k = (k1, s, stopped)" by (metis prod_cases3)
  note start = apply_start_post [OF assms st]
  obtain k2 s2 where run: "execute_apply put get now plan options result k = apply_verify put get now plan options k2 s2"
    and ok: "loop_ok sent ?cs (sent k) k2 s2" "closed_result s2"
  proof (cases stopped)
    case True
    with start st that [of k1 s] show ?thesis by (simp add: execute_apply_def)
  next
    case False
    with start apply_loop_total [of ?cs "sent k" k1 s plan] obtain k2 s2 where
      loop: "apply_loop put get now plan k1 s = Some (k2, s2)"
      and ok: "loop_ok sent ?cs (sent k) k2 s2" "closed_result s2" by auto
    from that [of k2 s2] apply_finish_closed [OF ok(2)] ok False st loop show ?thesis
      by (simp add: execute_apply_def)
  qed
  have app: "app_run_ok sent ApplicationConfig_default ?cs (sent k) k2 (ay_application s2)"
    using ok(1) by (simp add: loop_ok_def)
  from apply_verify_post [OF ok(2), of plan options k2] obtain k3 s3 n where
    "apply_verify put get now plan options k2 s2 = Some (k3, s3)" "closed_result s3"
    "ay_application s3 = ay_application s2" "res_status (ay_result s3) = res_status (ay_result s2)"
    "sent k3 = sent k2 @ take n kMonVerPoll"
    "\<not> (IsSuccessfulApplyStatus (res_status (ay_result s3)) \<and> plan_vendor plan = ''ublox'') \<longrightarrow> n = 0"
    "IsSuccessfulApplyStatus (res_status (ay_result s3)) \<longrightarrow> baud_reported plan (ay_result s3)
       \<and> (plan_vendor plan = ''ublox'' \<and> res_current_baud_verified (ay_result s3) \<longrightarrow> n = length kMonVerPoll)"
    by blast
  with run app show ?thesis
    by (intro exI [of _ k2] exI [of _ k3] exI [of _ s3] exI [of _ n]) simp
qed

lemma execute_apply_outcome:
  assumes "es_final_status (res_execution_summary result) = []"
    and "execute_apply put get now plan options result k = Some (k1, s)"
  obtains k0 n where "closed_result s"
    "app_run_ok sent ApplicationConfig_default (BuildExecutableCommands plan options) (sent k) k0 (ay_application s)"
    "sent k1 = sent k0 @ take n kMonVerPoll"
    "\<not> (IsSuccessfulApplyStatus (res_status (ay_result s)) \<and> plan_vendor plan = ''ublox'') \<Longrightarrow> n = 0"
    "IsSuccessfulApplyStatus (res_status (ay_result s)) \<Longrightarrow> baud_reported plan (ay_result s)"
    "\<lbrakk>IsSuccessfulApplyStatus (res_status (ay_result s)); plan_vendor plan = ''ublox'';
       res_current_baud_verified (ay_result s)\<rbrakk> \<Longrightarrow> n = length kMonVerPoll"
proof -
  from execute_apply_total [OF assms(1), of plan options k] obtain k0 k2 s2 n where
    run: "execute_apply put get now plan options result k = Some (k2, s2)"
    and rest: "closed_result s2"
      "app_run_ok sent ApplicationConfig_default (BuildExecutableCommands plan options) (sent k) k0 (ay_application s2)"
      "sent k2 = sent k0 @ take n kMonVerPoll"
      "\<not> (IsSuccessfulApplyStatus (res_status (ay_result s2)) \<and> plan_vendor plan = ''ublox'') \<longrightarrow> n = 0"
      "IsSuccessfulApplyStatus (res_status (ay_result s2)) \<longrightarrow> baud_reported plan (ay_result s2)
         \<and> (plan_vendor plan = ''ublox'' \<and> res_current_baud_verified (ay_result s2) \<longrightarrow> n = length kMonVerPoll)"
    by blast
  from run assms(2) have "k2 = k1" "s2 = s" by simp_all
  with rest that [of k0 n] show thesis by blast
qed

end

section \<open>The in-memory duplex with a coarse clock\<close>

text \<open>A clock that advances at every fourth look only: the state carries the time and the looks left at it.\<close>

type_synonym clocked_memory = "MemoryByteDuplex \<times> int \<times> nat"

definition coarse_put :: "clocked_memory \<Rightarrow> bytes \<Rightarrow> clocked_memory \<times> WriteResult" where
  "coarse_put k bs = (case duplex_write (fst k) bs of (d, r) \<Rightarrow> ((d, snd k), r))"

definition coarse_get :: "clocked_memory \<Rightarrow> nat \<Rightarrow> clocked_memory \<times> ReadResult \<times> bytes" where
  "coarse_get k n = (case MemoryByteDuplex_Read (fst k) False n of (d, r) \<Rightarrow> ((d, snd k), r))"

definition coarse_now :: "int \<Rightarrow> clocked_memory \<Rightarrow> clocked_memory \<times> timestamp_ns" where
  "coarse_now step k =
     (case k of (d, t, looks) \<Rightarrow>
        if looks = 0 then ((d, t + step, 3), t + step) else ((d, t, looks - 1), t))"

abbreviation coarse_sent :: "clocked_memory \<Rightarrow> bytes" where
  "coarse_sent k \<equiv> md_output (fst k)"

lemma clocked_memory:
  assumes "0 < step"
  shows "clocked_duplex coarse_put coarse_sent coarse_get (coarse_now step) (fst \<circ> snd) (snd \<circ> snd)"
proof
  fix k :: clocked_memory and bs n
  show "wr_bytes_written (snd (coarse_put k bs)) \<le> length bs"
    using duplex.put_bound [of "fst k" bs] by (simp add: coarse_put_def split_beta)
  show "coarse_sent (fst (coarse_put k bs)) = coarse_sent k @ take (wr_bytes_written (snd (coarse_put k bs))) bs"
    using duplex.put_sent [of "fst k" bs] by (simp add: coarse_put_def split_beta)
qed (use assms in \<open>simp_all add: coarse_get_def coarse_now_def MemoryByteDuplex_Read_def split_beta Let_def\<close>)

interpretation memory_clock: clocked_duplex coarse_put coarse_sent coarse_get "coarse_now 1000000000"
    "fst \<circ> snd" "snd \<circ> snd"
  by (rule clocked_memory) simp

section \<open>Properties\<close>

text \<open>A demonstration: a text command over an in-memory duplex that holds one answer.\<close>

definition demo_duplex :: "bytes \<Rightarrow> MemoryByteDuplex" where
  "demo_duplex input =
     \<lparr>md_input = input, md_output = [], md_read_offset = 0, md_open = True, md_next_read_error = TE_kNone,
      md_next_write_error = TE_kNone, md_metrics = TransportMetrics_default\<rparr>"

definition demo_text_plan :: ConfigPlan where
  "demo_text_plan = \<lparr>plan_vendor = ''unicore'', plan_commands =
     [\<lparr>pc_command = demo_command, pc_description = ''first''\<rparr>]\<rparr>"

definition demo_apply_options :: ApplyOptions where
  "demo_apply_options = \<lparr>opt_confirm = False, opt_timeout_ms = 1000\<rparr>"

lemma apply_start_completed:
  assumes "app_Start put (fst (now k)) (app_new ApplicationConfig_default) (BuildExecutableCommands plan options)
      (Some (snd (now k))) = (k1, a, ar)"
    and "ap_state a = AS_kCompleted" and "plan_vendor plan \<noteq> ''ublox''"
  shows "\<exists>s. execute_apply put get now plan options result k = Some (k1, s)
    \<and> res_status (ay_result s) = SuccessfulCompletionStatus (ap_metrics a)"
  using assms
  by (simp add: execute_apply_def apply_start_def FinalizeIfApplicationStopped_def set_final_status_def
      apply_verify_def FinalizeSuccessfulUbloxActiveBaudVerification_def Let_def split_beta)

definition demo_silent_plan :: ConfigPlan where
  "demo_silent_plan = \<lparr>plan_vendor = ''unicore'', plan_commands =
     [\<lparr>pc_command = demo_command\<lparr>rc_expected_response := RK_kNone\<rparr>, pc_description = ''only''\<rparr>]\<rparr>"

text \<open>A completed run without a failure has written every command.\<close>

lemma completed_ok_chosen:
  assumes "account_ok config cs a written" and "ap_current_index a = length cs" and "ap_state a = AS_kCompleted"
    and "SuccessfulCompletionStatus (ap_metrics a) = CA_kOk" and "length cs < 2 ^ 64"
  shows "chosen (zip cs written) = cs"
proof (rule chosen_all)
  from assms(1-3) obtain completed failed where count: "am_commands_failed (ap_metrics a) = of_nat failed"
    "completed + failed = length cs" "length (filter Not written) \<le> failed"
    and split: "failures_split (ap_metrics a)" and len: "length written = length cs"
    by (auto simp: account_ok_def)
  from assms(4) have "am_required_commands_failed (ap_metrics a) = 0" "am_optional_commands_failed (ap_metrics a) = 0"
    by (auto simp: SuccessfulCompletionStatus_def word_gt_0 split: if_splits)
  with split count(1) have "(of_nat failed :: u64) = 0" by (simp add: failures_split_def)
  then have "(2 :: nat) ^ 64 dvd failed" by (simp add: word_of_nat_eq_0_iff)
  with count(2) assms(5) have "failed = 0" by (auto dest: dvd_imp_le)
  with count(3) show "filter Not written = []" by simp
  from len show "length written = length cs" .
qed

text \<open>C14. Applying a configuration returns: over any duplex transport that accepts prefixes of what it is
  given, and any clock that never goes back and shows each time a bounded number of times, the rest of
  \<open>ExecuteConfigApply\<close> from the start of the application on terminates, whatever the receiver answers, the reading
  loop of the transport check after a success included, and sets a final status.\<close>

theorem config_apply_returns:
  assumes "clocked_duplex put sent get now clock patience"
    and "es_final_status (res_execution_summary result) = []"
  shows "\<exists>k1 s. execute_apply put get now plan options result k = Some (k1, s)
    \<and> es_final_status (res_execution_summary (ay_result s)) \<noteq> []"
  using clocked_duplex.execute_apply_total [OF assms, of plan options k] by (auto simp: closed_result_def)

theorem config_apply_returns_witness:
  "\<exists>k1 s. execute_apply coarse_put coarse_get (coarse_now 1000000000) demo_text_plan demo_apply_options
     ApplyResult_default (demo_duplex [0x3C, 0x4F, 0x4B, 0x0A], 0, 0) = Some (k1, s)
    \<and> es_final_status (res_execution_summary (ay_result s)) \<noteq> []"
  by (rule config_apply_returns [OF memory_clock.clocked_duplex_axioms])
    (simp add: ApplyResult_default_def ExecutionSummary_default_def)

text \<open>C15. A success that is reported is real: when the apply ends with the status ok or partial success, the
  application completed, and what was written to the receiver is the payloads of the commands of the plan, whole and
  in order, then on a u-blox receiver a prefix of the UBX-MON-VER poll of the transport check (all of it when the
  check succeeded) and nothing else.  Only commands that are not required may be missing, and none is when the status
  is ok.  The active baud rate is then reported as verified on a u-blox receiver exactly when that check succeeded,
  and is the current baud rate.\<close>

theorem config_apply_success:
  assumes "clocked_duplex put sent get now clock patience"
    and "es_final_status (res_execution_summary result) = []"
    and "execute_apply put get now plan options result k = Some (k1, s)"
    and "IsSuccessfulApplyStatus (res_status (ay_result s))"
    and "length (BuildExecutableCommands plan options) < 2 ^ 64"
  shows "ap_state (ay_application s) = AS_kCompleted
    \<and> (\<exists>written n.
         sent k1 = sent k @ payloads_of (chosen (zip (BuildExecutableCommands plan options) written)) @ take n kMonVerPoll
       \<and> length written = length (BuildExecutableCommands plan options)
       \<and> list_all (\<lambda>(c, w). w \<or> \<not> IsRequiredCommand c) (zip (BuildExecutableCommands plan options) written)
       \<and> (res_status (ay_result s) = CA_kOk \<longrightarrow>
            chosen (zip (BuildExecutableCommands plan options) written) = BuildExecutableCommands plan options)
       \<and> (plan_vendor plan \<noteq> ''ublox'' \<longrightarrow> n = 0)
       \<and> (plan_vendor plan = ''ublox'' \<longrightarrow>
            res_active_verified_baud (ay_result s)
              = (if res_current_baud_verified (ay_result s)
                 then Some (res_current_transport_baud_rate (ay_result s)) else None)
          \<and> (res_current_baud_verified (ay_result s) \<longrightarrow> n = length kMonVerPoll)))"
proof -
  let ?cs = "BuildExecutableCommands plan options" and ?a = "ay_application s"
  obtain k0 n where closed: "closed_result s"
    and ok: "app_run_ok sent ApplicationConfig_default ?cs (sent k) k0 ?a"
    and poll: "sent k1 = sent k0 @ take n kMonVerPoll" "plan_vendor plan \<noteq> ''ublox'' \<Longrightarrow> n = 0"
    and baud: "baud_reported plan (ay_result s)"
      "\<lbrakk>plan_vendor plan = ''ublox''; res_current_baud_verified (ay_result s)\<rbrakk> \<Longrightarrow> n = length kMonVerPoll"
    by (rule clocked_duplex.execute_apply_outcome [OF assms(1-3)]) (use assms(4) in simp)
  from closed assms(4) have completed: "ap_state ?a = AS_kCompleted"
    "res_status (ay_result s) = SuccessfulCompletionStatus (ap_metrics ?a)" by (simp_all add: closed_result_def)
  from ok completed(1) obtain written where w: "account_ok ApplicationConfig_default ?cs ?a written"
    "sent k0 = sent k @ payloads_of (chosen (zip ?cs written))" "ap_current_index ?a = length ?cs"
    by (auto simp: app_run_ok_def app_tail_ok_def)
  have all: "chosen (zip ?cs written) = ?cs" if "res_status (ay_result s) = CA_kOk"
    using completed_ok_chosen [OF w(1,3) completed(1)] completed(2) that assms(5) by simp
  from w(1,3) have "length written = length ?cs"
    "list_all (\<lambda>(c, w). w \<or> \<not> IsRequiredCommand c) (zip ?cs written)"
    by (simp_all add: account_ok_def tolerated_def ApplicationConfig_default_def)
  with w(2) all baud poll completed(1) show ?thesis
    by (intro conjI exI [of _ written] exI [of _ n]) (simp_all add: baud_reported_def)
qed

theorem config_apply_success_witness:
  "\<exists>k1 s. execute_apply coarse_put coarse_get (coarse_now 1000000000) demo_silent_plan demo_apply_options
     ApplyResult_default (demo_duplex [], 0, 0) = Some (k1, s)
    \<and> coarse_sent k1 = payloads_of (BuildExecutableCommands demo_silent_plan demo_apply_options)"
proof -
  let ?k = "(demo_duplex [], 0, 0)"
  let ?run = "app_Start coarse_put (fst (coarse_now 1000000000 ?k)) (app_new ApplicationConfig_default)
      (BuildExecutableCommands demo_silent_plan demo_apply_options) (Some (snd (coarse_now 1000000000 ?k)))"
  have run: "?run = (fst ?run, fst (snd ?run), snd (snd ?run))" by simp
  have "ap_state (fst (snd ?run)) = AS_kCompleted" by code_simp
  moreover have "plan_vendor demo_silent_plan \<noteq> ''ublox''" by (simp add: demo_silent_plan_def)
  ultimately obtain k1 s where
    ex: "execute_apply coarse_put coarse_get (coarse_now 1000000000) demo_silent_plan demo_apply_options
        ApplyResult_default ?k = Some (k1, s)"
    and "res_status (ay_result s) = SuccessfulCompletionStatus (ap_metrics (fst (snd ?run)))"
    using apply_start_completed [where put = coarse_put and now = "coarse_now 1000000000" and k = ?k, OF run] by blast
  moreover have "SuccessfulCompletionStatus (ap_metrics (fst (snd ?run))) = CA_kOk" by code_simp
  ultimately have st: "res_status (ay_result s) = CA_kOk" by simp
  then have "IsSuccessfulApplyStatus (res_status (ay_result s))" by (simp add: IsSuccessfulApplyStatus_def)
  from config_apply_success [OF memory_clock.clocked_duplex_axioms _ ex this] ex st show ?thesis
    by (auto simp: ApplyResult_default_def ExecutionSummary_default_def demo_duplex_def demo_silent_plan_def
        BuildExecutableCommands_def)
qed

text \<open>An interrupted run is reported as such: when reading failed, or the application failed in a quarantined
  session (a command timed out or was cut short), the result says that the receiver's state is indeterminate,
  in its flag and at the head of its message; and a failed run that does not say so wrote whole commands only.\<close>

lemma config_apply_indeterminate_reported:
  assumes "clocked_duplex put sent get now clock patience"
    and "es_final_status (res_execution_summary result) = []"
    and "execute_apply put get now plan options result k = Some (k1, s)"
  shows "(res_status (ay_result s) = CA_kReadFailed
       \<or> ap_state (ay_application s) = AS_kFailed \<and> en_session_indeterminate (ap_engine (ay_application s))
     \<longrightarrow> res_receiver_state_indeterminate (ay_result s)
       \<and> prefix kIndeterminatePrefix (res_error_message (ay_result s)))
   \<and> (\<not> IsSuccessfulApplyStatus (res_status (ay_result s)) \<and> \<not> res_receiver_state_indeterminate (ay_result s) \<longrightarrow>
       (\<exists>ds. subseq ds (BuildExecutableCommands plan options) \<and> sent k1 = sent k @ payloads_of ds))"
proof -
  let ?cs = "BuildExecutableCommands plan options" and ?a = "ay_application s"
  obtain k0 n where closed: "closed_result s"
    and ok: "app_run_ok sent ApplicationConfig_default ?cs (sent k) k0 ?a"
    and poll: "sent k1 = sent k0 @ take n kMonVerPoll"
      "\<not> (IsSuccessfulApplyStatus (res_status (ay_result s)) \<and> plan_vendor plan = ''ublox'') \<Longrightarrow> n = 0"
    by (rule clocked_duplex.execute_apply_outcome [OF assms]) blast
  have same: "sent k1 = sent k0" if "\<not> IsSuccessfulApplyStatus (res_status (ay_result s))"
    using poll that by simp
  from ok obtain written tail where w: "length written = ap_current_index ?a" and tail: "app_tail_ok ?cs ?a tail"
    and out: "sent k0 = sent k @ payloads_of (chosen (zip ?cs written)) @ tail"
    by (auto simp: app_run_ok_def account_ok_def)
  define ds where "ds = chosen (zip ?cs written)"
  have ds: "subseq ds (take (ap_current_index ?a) ?cs)"
    using chosen_subseq [of ?cs written] w by (simp add: ds_def)
  have sub: "subseq xs ?cs" if "subseq xs (take n ?cs)" for xs n
    using that prefix_imp_subseq [OF take_is_prefix] by (rule subseq_order.order_trans)
  note pre = sub [OF ds]
  have "\<exists>ds. subseq ds ?cs \<and> sent k1 = sent k @ payloads_of ds"
    if "\<not> IsSuccessfulApplyStatus (res_status (ay_result s))" "\<not> res_receiver_state_indeterminate (ay_result s)"
  proof -
    have "\<not> (ap_state ?a = AS_kFailed \<and> en_session_indeterminate (ap_engine ?a))"
      using that closed by (auto simp: closed_result_def)
    with tail have "tail = [] \<or> ap_current_index ?a < length ?cs \<and> tail = payload_of (?cs ! ap_current_index ?a)"
      by (cases "ap_state ?a") (auto simp: app_tail_ok_def)
    then show ?thesis
    proof
      assume "tail = []"
      with pre out same that show ?thesis by (auto simp: ds_def)
    next
      assume last: "ap_current_index ?a < length ?cs \<and> tail = payload_of (?cs ! ap_current_index ?a)"
      have "subseq (ds @ [?cs ! ap_current_index ?a]) (take (Suc (ap_current_index ?a)) ?cs)"
        using last ds by (simp add: take_Suc_conv_app_nth list_emb_append_mono)
      then have "subseq (ds @ [?cs ! ap_current_index ?a]) ?cs" by (rule sub)
      with out last same that show ?thesis by (intro exI [of _ "ds @ [?cs ! ap_current_index ?a]"]) (simp add: ds_def)
    qed
  qed
  with closed show ?thesis by (auto simp: closed_result_def)
qed

theorem config_apply_indeterminate_reported_witness:
  "\<exists>k1 s. execute_apply coarse_put coarse_get (coarse_now 1000000000) demo_text_plan demo_apply_options
      ApplyResult_default (demo_duplex [], 0, 0) = Some (k1, s)
    \<and> (\<not> IsSuccessfulApplyStatus (res_status (ay_result s)) \<and> \<not> res_receiver_state_indeterminate (ay_result s) \<longrightarrow>
        (\<exists>ds. subseq ds (BuildExecutableCommands demo_text_plan demo_apply_options) \<and> coarse_sent k1 = payloads_of ds))"
proof -
  have res: "es_final_status (res_execution_summary ApplyResult_default) = []"
    by (simp add: ApplyResult_default_def ExecutionSummary_default_def)
  from memory_clock.execute_apply_total [OF res] obtain k1 s where ex:
    "execute_apply coarse_put coarse_get (coarse_now 1000000000) demo_text_plan demo_apply_options ApplyResult_default
      (demo_duplex [], 0, 0) = Some (k1, s)" by blast
  from config_apply_indeterminate_reported [OF memory_clock.clocked_duplex_axioms res ex] ex show ?thesis
    by (auto simp: demo_duplex_def)
qed

end
