(* ===== verification/Ntrip_Request.thy ===== *)
theory Ntrip_Request
  imports Ieee_Double Cxx_Text
begin

text \<open>
  The NTRIP configuration and the request built from it (gnss_ntrip: ntrip_config.hpp, ntrip_request.cpp):
  the identity of a source, the Basic authorization value with its Base64 encoding, and the GET request of
  both protocol versions.
\<close>

section \<open>Configuration\<close>

datatype NtripVersion = NV_kV1 | NV_kV2

record NtripReconnectPolicy =
  rpol_enabled :: bool
  rpol_initial_delay_ms :: u32
  rpol_max_delay_ms :: u32
  rpol_multiplier :: double
  rpol_jitter_enabled :: bool
  rpol_max_attempts :: "u32 option"
  rpol_reset_after_success :: bool

record NtripSourceIdentity =
  src_host :: string
  src_port :: u16
  src_mountpoint :: string

record NtripConfig =
  nc_host :: string
  nc_port :: u16
  nc_mountpoint :: string
  nc_username :: string
  nc_password :: string
  nc_user_agent :: string
  nc_version :: NtripVersion
  nc_tls_enabled :: bool
  nc_tls_verify_peer :: bool
  nc_tls_ca_file :: string
  nc_tls_client_certificate_file :: string
  nc_tls_client_private_key_file :: string
  nc_send_gga :: bool
  nc_gga_interval_s :: u32
  nc_first_rtcm_frame_timeout_ms :: u32
  nc_rtcm_frame_timeout_ms :: u32
  nc_operational_min_valid_rtcm_frames :: u32
  nc_reconnect_policy :: NtripReconnectPolicy

section \<open>Base64\<close>

definition kAlphabet :: string where
  "kAlphabet = ''ABCDEFGHIJKLMNOPQRSTUVWXYZabcdefghijklmnopqrstuvwxyz0123456789+/''"

definition char_u32 :: "char \<Rightarrow> u32" where
  "char_u32 c = word_of_nat (char_code c)"

definition sextet :: "u32 \<Rightarrow> nat \<Rightarrow> char" where
  "sextet chunk shift = kAlphabet ! unat (drop_bit shift chunk AND 0x3F)"

fun Base64Encode :: "string \<Rightarrow> string" where
  "Base64Encode (a # b # c # rest) =
     (let chunk = push_bit 16 (char_u32 a) OR push_bit 8 (char_u32 b) OR char_u32 c in
      [sextet chunk 18, sextet chunk 12, sextet chunk 6, sextet chunk 0] @ Base64Encode rest)"
| "Base64Encode [a] =
     (let chunk = push_bit 16 (char_u32 a) in [sextet chunk 18, sextet chunk 12, CHR ''='', CHR ''=''])"
| "Base64Encode [a, b] =
     (let chunk = push_bit 16 (char_u32 a) OR push_bit 8 (char_u32 b) in
      [sextet chunk 18, sextet chunk 12, sextet chunk 6, CHR ''=''])"
| "Base64Encode [] = []"

section \<open>The source and the request\<close>

definition kDefaultNtripUserAgent :: string where
  "kDefaultNtripUserAgent = ''universal-gnss''"

definition ResolveUserAgent :: "string \<Rightarrow> string" where
  "ResolveUserAgent user_agent = (if user_agent = [] then kDefaultNtripUserAgent else user_agent)"

definition NormalizeHost :: "string \<Rightarrow> string" where
  "NormalizeHost host = map c_tolower host"

definition NormalizeMountpointPath :: "string \<Rightarrow> string" where
  "NormalizeMountpointPath mountpoint =
     (let rest = dropWhile (\<lambda>c. c = CHR ''/'') mountpoint in
      if rest = [] then ''/'' else ''/'' @ rest)"

definition BuildNtripSourceIdentity :: "NtripConfig \<Rightarrow> NtripSourceIdentity" where
  "BuildNtripSourceIdentity config =
     \<lparr>src_host = NormalizeHost (nc_host config), src_port = nc_port config,
      src_mountpoint = NormalizeMountpointPath (nc_mountpoint config)\<rparr>"

definition BuildBasicAuthorizationValue :: "string \<Rightarrow> string \<Rightarrow> string" where
  "BuildBasicAuthorizationValue username password =
     (if username = [] \<and> password = [] then []
      else ''Basic '' @ Base64Encode (username @ '':'' @ password))"

abbreviation (input) crlf :: string where
  "crlf \<equiv> [CHR 0x0D, CHR 0x0A]"

definition BuildAuthorizationHeader :: "string \<Rightarrow> string \<Rightarrow> string" where
  "BuildAuthorizationHeader username password =
     (let v = BuildBasicAuthorizationValue username password in
      if v = [] then [] else ''Authorization: '' @ v @ crlf)"

record NtripRequest =
  nr_mountpoint_path :: string
  nr_request_text :: string
  nr_includes_authorization :: bool
  nr_includes_ntrip_version_header :: bool

definition NtripRequest_default :: NtripRequest where
  "NtripRequest_default =
     \<lparr>nr_mountpoint_path = [], nr_request_text = [], nr_includes_authorization = False,
      nr_includes_ntrip_version_header = False\<rparr>"

definition BuildNtripGetRequest :: "NtripConfig \<Rightarrow> NtripRequest" where
  "BuildNtripGetRequest config =
     (let path = NormalizeMountpointPath (nc_mountpoint config);
          v2 = (nc_version config = NV_kV2) in
      \<lparr>nr_mountpoint_path = path,
       nr_request_text =
         ''GET '' @ path @ '' '' @ (if nc_version config = NV_kV1 then ''HTTP/1.0'' @ crlf else ''HTTP/1.1'' @ crlf)
         @ (if v2 then ''Host: '' @ nc_host config @ '':'' @ dec_nat (unat (nc_port config)) @ crlf else [])
         @ ''User-Agent: NTRIP '' @ ResolveUserAgent (nc_user_agent config) @ crlf
         @ ''Accept: */*'' @ crlf @ ''Connection: close'' @ crlf
         @ (if v2 then ''Ntrip-Version: Ntrip/2.0'' @ crlf else [])
         @ BuildAuthorizationHeader (nc_username config) (nc_password config) @ crlf,
       nr_includes_authorization = (\<not> (nc_username config = [] \<and> nc_password config = [])),
       nr_includes_ntrip_version_header = v2\<rparr>)"

section \<open>A reader of Base64 and of header lines\<close>

text \<open>What a caster does with the value: four characters at a time, back to at most three.\<close>

definition b64_value :: "char \<Rightarrow> nat option" where
  "b64_value c = find_char c kAlphabet"

fun Base64Decode :: "string \<Rightarrow> string option" where
  "Base64Decode (p # q # r # s # rest) =
     (case (b64_value p, b64_value q) of
        (Some w, Some x) \<Rightarrow>
          let a = char_of (w * 4 + x div 16) in
          if r = CHR ''='' \<and> s = CHR ''='' \<and> rest = [] then Some [a]
          else
            (case b64_value r of
               None \<Rightarrow> None
             | Some y \<Rightarrow>
                 let b = char_of (x mod 16 * 16 + y div 4) in
                 if s = CHR ''='' \<and> rest = [] then Some [a, b]
                 else
                   (case b64_value s of
                      None \<Rightarrow> None
                    | Some z \<Rightarrow> map_option (\<lambda>cs. a # b # char_of (y mod 4 * 64 + z) # cs) (Base64Decode rest)))
      | _ \<Rightarrow> None)"
| "Base64Decode [] = Some []"
| "Base64Decode _ = None"

lemma length_kAlphabet: "length kAlphabet = 64"
  by (simp add: kAlphabet_def)

lemma distinct_kAlphabet: "distinct kAlphabet"
  by (simp add: kAlphabet_def)

lemma kAlphabet_plain: "c \<in> set kAlphabet \<Longrightarrow> c \<notin> set crlf \<and> c \<noteq> CHR ''=''"
  by (auto simp: kAlphabet_def)

lemma find_char_nth:
  "\<lbrakk>distinct xs; n < length xs\<rbrakk> \<Longrightarrow> find_char (xs ! n) xs = Some n"
proof (induction xs arbitrary: n)
  case Nil
  then show ?case by simp
next
  case (Cons a xs)
  then show ?case by (cases n) (auto simp: find_char_def)
qed

lemma b64_value_nth: "n < 64 \<Longrightarrow> b64_value (kAlphabet ! n) = Some n"
  unfolding b64_value_def using find_char_nth [OF distinct_kAlphabet] by (simp add: length_kAlphabet)

lemma unat_char_u32: "unat (char_u32 c) = char_code c"
  using char_code_less [of c] by (simp add: char_u32_def unat_of_nat)

lemma unat_chunk:
  "unat (push_bit 16 (char_u32 a) OR push_bit 8 (char_u32 b) OR char_u32 c)
     = char_code a * 65536 + char_code b * 256 + char_code c"
proof -
  have a: "char_code a < 256" and b: "char_code b < 256" and c: "char_code c < 256"
    by (rule char_code_less)+
  have or8: "push_bit 8 n OR m = m + 256 * n" if "m < 256" for n m :: nat
    using or_push_bit_8 [OF that, of n] by (simp add: or.commute)
  have ab: "push_bit 16 (char_code a) OR push_bit 8 (char_code b) = push_bit 8 (char_code b + 256 * char_code a)"
  proof -
    have "push_bit 16 (char_code a) = push_bit 8 (push_bit 8 (char_code a))" by simp
    then show ?thesis by (simp only: push_bit_or [symmetric] or8 [OF b])
  qed
  have small: "push_bit 16 (char_code a) < 2 ^ 32" "push_bit 8 (char_code b) < 2 ^ 32"
    using a b by (simp_all add: push_bit_eq_mult)
  have "unat (push_bit 16 (char_u32 a) OR push_bit 8 (char_u32 b) OR char_u32 c)
      = (push_bit 16 (char_code a) OR push_bit 8 (char_code b)) OR char_code c"
    using small
    by (simp add: unsigned_or_eq unsigned_push_bit_eq unat_char_u32 take_bit_nat_eq_self or.assoc)
  also have "\<dots> = char_code a * 65536 + char_code b * 256 + char_code c"
    unfolding ab or8 [OF c] by simp
  finally show ?thesis .
qed

lemma nat_and_63: "(n :: nat) AND 63 = n mod 64"
  using take_bit_eq_mask [of 6 n] by (simp add: mask_eq_exp_minus_1 take_bit_eq_mod)

lemma unat_sextet: "unat (drop_bit n w AND 0x3F :: u32) = unat w div 2 ^ n mod 64"
  by (simp add: unsigned_and_eq unat_drop nat_and_63)

lemma b64_sextet: "b64_value (sextet w n) = Some (unat w div 2 ^ n mod 64)"
  by (simp add: sextet_def unat_sextet b64_value_nth)

lemma sextet_plain: "sextet w n \<in> set kAlphabet"
  by (simp add: sextet_def unat_sextet length_kAlphabet)

lemma sextet_not_pad [simp]: "sextet w n \<noteq> CHR ''=''"
  using sextet_plain kAlphabet_plain by blast

lemma char_of_char_code [simp]: "char_of (char_code c) = c"
  by (simp add: char_code_def)

lemma mod_64_unique: "\<lbrakk>x = y + 64 * z; y < 64\<rbrakk> \<Longrightarrow> x mod 64 = (y :: nat)"
  by simp

lemma regroup: "b = r + 16 * q \<Longrightarrow> a * 1024 + b * 4 + z = r * 4 + z + 64 * (a * 16 + q)" for b :: nat
  by simp

text \<open>The four sextets of three octets.\<close>

lemma sextets_of_octets:
  fixes a b c :: nat
  assumes "a < 256" and "b < 256" and "c < 256"
  defines "n \<equiv> a * 65536 + b * 256 + c"
  shows "n div 262144 mod 64 = a div 4" and "n div 4096 mod 64 = a mod 4 * 16 + b div 16"
    and "n div 64 mod 64 = b mod 16 * 4 + c div 64" and "n mod 64 = c mod 64"
proof -
  have "n div 256 = a * 256 + b" "n div 65536 = a"
    using assms(2,3) by (simp_all add: n_def)
  then have d: "n div 262144 = a div 4" "n div 4096 = (a * 256 + b) div 16"
    using div_mult2_eq [of n 65536 4] div_mult2_eq [of n 256 16] by simp_all
  show "n div 262144 mod 64 = a div 4" using assms(1) by (simp add: d(1))
  have "(a * 256 + b) div 16 = a * 16 + b div 16" using div_mult_self3 [of 16 "a * 16" b] by (simp add: algebra_simps)
  also have "\<dots> mod 64 = a mod 4 * 16 + b div 16"
  proof -
    have "a * 16 + b div 16 = a mod 4 * 16 + b div 16 + 64 * (a div 4)"
      using mod_div_mult_eq [of a 4] by linarith
    moreover have "a mod 4 * 16 + b div 16 < 64"
      using assms(2) mod_less_divisor [of 4 a] less_mult_imp_div_less [of b 16 16] by linarith
    ultimately show ?thesis by (rule mod_64_unique)
  qed
  finally show "n div 4096 mod 64 = a mod 4 * 16 + b div 16" by (simp add: d(2))
  have "n div 64 = a * 1024 + b * 4 + c div 64"
    using div_mult_self3 [of 64 "a * 1024 + b * 4" c] by (simp add: n_def algebra_simps)
  also have "\<dots> mod 64 = b mod 16 * 4 + c div 64"
  proof -
    have "a * 1024 + b * 4 + c div 64 = b mod 16 * 4 + c div 64 + 64 * (a * 16 + b div 16)"
      by (rule regroup) simp
    moreover have "b mod 16 * 4 + c div 64 < 64"
      using assms(3) mod_less_divisor [of 16 b] less_mult_imp_div_less [of c 4 64] by linarith
    ultimately show ?thesis by (rule mod_64_unique)
  qed
  finally show "n div 64 mod 64 = b mod 16 * 4 + c div 64" .
  have "n = c + 64 * (a * 1024 + b * 4)" by (simp add: n_def)
  then show "n mod 64 = c mod 64" by (simp only: mod_mult_self2)
qed

lemmas sextet_values = sextets_of_octets [OF char_code_less char_code_less char_code_less]

lemma octet_parts [simp]:
  "char_code c div 16 div 16 = 0" "char_code c div 16 mod 16 = char_code c div 16"
  "char_code c div 64 div 4 = 0" "char_code c div 64 mod 4 = char_code c div 64"
  using less_mult_imp_div_less [of "char_code c" 16 16] less_mult_imp_div_less [of "char_code c" 4 64]
    char_code_less [of c] by simp_all

lemma char_code_null: "char_code (CHR 0x00) = 0" "char_u32 (CHR 0x00) = 0"
  by (simp_all add: char_code_def char_u32_def)

lemmas unat_chunk_one = unat_chunk [where b = "CHR 0x00" and c = "CHR 0x00", unfolded char_code_null, simplified]
lemmas unat_chunk_two = unat_chunk [where c = "CHR 0x00", unfolded char_code_null, simplified]
lemmas sextet_values_one = sextet_values [of _ "CHR 0x00" "CHR 0x00", unfolded char_code_null, simplified]
lemmas sextet_values_two = sextet_values [of _ _ "CHR 0x00", unfolded char_code_null, simplified]

lemma Base64_roundtrip: "Base64Decode (Base64Encode s) = Some s"
proof (induction s rule: Base64Encode.induct)
  case (1 a b c rest)
  then show ?case
    by (simp add: b64_sextet unat_chunk sextet_values Let_def del: Base64Encode.simps(2-))
next
  case (2 a)
  show ?case by (simp add: b64_sextet unat_chunk_one sextet_values_one Let_def)
next
  case (3 a b)
  show ?case by (simp add: b64_sextet unat_chunk_two sextet_values_two Let_def)
next
  case 4
  then show ?case by simp
qed

section \<open>Header lines\<close>

text \<open>The lines of a request head: cut at every CRLF; the last component is what follows the last one.\<close>

fun split_crlf :: "string \<Rightarrow> string list" where
  "split_crlf [] = [[]]"
| "split_crlf (c # cs) =
     (if prefix crlf (c # cs) then [] # split_crlf (tl cs)
      else (case split_crlf cs of [] \<Rightarrow> [[c]] | l # ls \<Rightarrow> (c # l) # ls))"

declare split_crlf.simps [simp del]

definition plain :: "string \<Rightarrow> bool" where
  "plain s \<longleftrightarrow> CHR 0x0D \<notin> set s \<and> CHR 0x0A \<notin> set s"

definition head_text :: "string list \<Rightarrow> string" where
  "head_text ls = concat (map (\<lambda>l. l @ crlf) ls)"

lemma plain_simps [simp]:
  "plain []" "plain (c # s) \<longleftrightarrow> c \<noteq> CHR 0x0D \<and> c \<noteq> CHR 0x0A \<and> plain s"
  "plain (xs @ ys) \<longleftrightarrow> plain xs \<and> plain ys"
  by (auto simp: plain_def)

lemma split_crlf_line: "plain l \<Longrightarrow> split_crlf (l @ crlf @ rest) = l # split_crlf rest"
  by (induction l) (auto simp: split_crlf.simps split: list.split)

lemma split_head_text: "list_all plain ls \<Longrightarrow> split_crlf (head_text ls) = ls @ [[]]"
proof (induction ls)
  case Nil
  then show ?case by (simp add: head_text_def split_crlf.simps)
next
  case (Cons l ls)
  then show ?case using split_crlf_line [of l "head_text ls"] by (simp add: head_text_def)
qed

lemma plain_Base64: "plain (Base64Encode s)"
proof -
  have "c \<in> set kAlphabet \<or> c = CHR ''=''" if "c \<in> set (Base64Encode s)" for c
    using that by (induction s rule: Base64Encode.induct) (auto simp: Let_def sextet_plain)
  then show ?thesis using kAlphabet_plain by (fastforce simp: plain_def)
qed

lemma plain_dec_nat: "plain (dec_nat n)"
proof (induction n rule: dec_nat.induct)
  case (1 n)
  have "plain [char_of (48 + k)]" if "k < 10" for k :: nat
  proof -
    from that have code: "char_code (char_of (48 + k)) = 48 + k" by simp
    have "char_code (CHR 0x0D) = 13" "char_code (CHR 0x0A) = 10" by (simp_all add: char_code_def)
    with code have "char_of (48 + k) \<noteq> CHR 0x0D" "char_of (48 + k) \<noteq> CHR 0x0A" by auto
    then show ?thesis by simp
  qed
  then show ?case using 1 by (subst dec_nat.simps) (simp add: Let_def)
qed

lemma plain_mountpoint:
  assumes "plain m"
  shows "plain (NormalizeMountpointPath m)"
proof -
  have "set (dropWhile (\<lambda>c. c = CHR ''/'') m) \<subseteq> set m" by (meson set_dropWhileD subsetI)
  with assms have "plain (dropWhile (\<lambda>c. c = CHR ''/'') m)" unfolding plain_def by blast
  then show ?thesis by (simp add: NormalizeMountpointPath_def Let_def)
qed

section \<open>Properties\<close>

definition request_lines :: "NtripConfig \<Rightarrow> string list" where
  "request_lines c =
      [''GET '' @ NormalizeMountpointPath (nc_mountpoint c)
         @ (if nc_version c = NV_kV1 then '' HTTP/1.0'' else '' HTTP/1.1'')]
      @ (if nc_version c = NV_kV2 then [''Host: '' @ nc_host c @ '':'' @ dec_nat (unat (nc_port c))] else [])
      @ [''User-Agent: NTRIP '' @ ResolveUserAgent (nc_user_agent c), ''Accept: */*'', ''Connection: close'']
      @ (if nc_version c = NV_kV2 then [''Ntrip-Version: Ntrip/2.0''] else [])
      @ (if nc_username c = [] \<and> nc_password c = [] then []
         else [''Authorization: Basic '' @ Base64Encode (nc_username c @ '':'' @ nc_password c)])
      @ [[]]"

lemma request_text_lines: "nr_request_text (BuildNtripGetRequest c) = head_text (request_lines c)"
  by (cases "nc_version c")
    (simp_all add: BuildNtripGetRequest_def request_lines_def head_text_def BuildAuthorizationHeader_def
      BuildBasicAuthorizationValue_def Let_def)

text \<open>The request a caster reads is the one that was meant: if host, mountpoint and user agent contain no
  line break, the text splits at its CRLFs into exactly the request line, the headers of the protocol version, the
  authorization header (when there are credentials) and the empty line that ends the head, whatever bytes the
  credentials contain; and decoding the authorization value gives back user name and password.\<close>

lemma ntrip_request_lines:
  assumes "plain (nc_host c)" and "plain (nc_mountpoint c)" and "plain (nc_user_agent c)"
  shows "split_crlf (nr_request_text (BuildNtripGetRequest c)) = request_lines c @ [[]]
    \<and> Base64Decode (Base64Encode (nc_username c @ '':'' @ nc_password c)) = Some (nc_username c @ '':'' @ nc_password c)"
proof -
  have "list_all plain (request_lines c)"
    using assms
    by (simp add: request_lines_def plain_mountpoint plain_Base64 plain_dec_nat ResolveUserAgent_def
        kDefaultNtripUserAgent_def)
  then show ?thesis by (simp only: request_text_lines split_head_text Base64_roundtrip)
qed

definition demo_ntrip_config :: NtripConfig where
  "demo_ntrip_config =
     \<lparr>nc_host = ''caster.example'', nc_port = 2101, nc_mountpoint = ''/BASE'', nc_username = ''user'',
      nc_password = [CHR 0x0D, CHR 0x0A, CHR ''p''], nc_user_agent = [], nc_version = NV_kV1,
      nc_tls_enabled = False, nc_tls_verify_peer = True, nc_tls_ca_file = [], nc_tls_client_certificate_file = [],
      nc_tls_client_private_key_file = [], nc_send_gga = False, nc_gga_interval_s = 10,
      nc_first_rtcm_frame_timeout_ms = 30000, nc_rtcm_frame_timeout_ms = 30000,
      nc_operational_min_valid_rtcm_frames = 2,
      nc_reconnect_policy = \<lparr>rpol_enabled = True, rpol_initial_delay_ms = 1000, rpol_max_delay_ms = 30000,
        rpol_multiplier = Finite 2, rpol_jitter_enabled = False, rpol_max_attempts = None,
        rpol_reset_after_success = True\<rparr>\<rparr>"

theorem ntrip_request_lines_witness:
  "length (split_crlf (nr_request_text (BuildNtripGetRequest demo_ntrip_config))) = 7"
proof -
  have "plain (nc_host demo_ntrip_config)" "plain (nc_mountpoint demo_ntrip_config)"
    "plain (nc_user_agent demo_ntrip_config)" by (simp_all add: demo_ntrip_config_def)
  from ntrip_request_lines [OF this] show ?thesis by (simp add: request_lines_def demo_ntrip_config_def)
qed

end
