(* ===== verification/Ntrip_Orchestrator.thy ===== *)
theory Ntrip_Orchestrator
  imports Ntrip_Request
begin

text \<open>
  \<open>NtripCasterOrchestrator\<close> (gnss_ntrip/src/ntrip_caster_orchestrator.cpp): the choice of the active source
  among an ordered list of casters with distinct identities.
\<close>

section \<open>Model\<close>

datatype OrchestratorError = OE_kNone | OE_kEmptyCasterSet | OE_kDuplicateSource

record OrchestratorMetrics =
  om_selections :: u64
  om_failovers :: u64

record CasterOrchestrator =
  co_casters :: "NtripConfig list"
  co_active_index :: "nat option"
  co_active_incarnation :: u64
  co_metrics :: OrchestratorMetrics

definition orchestrator_new :: CasterOrchestrator where
  "orchestrator_new =
     \<lparr>co_casters = [], co_active_index = None, co_active_incarnation = 0,
      co_metrics = \<lparr>om_selections = 0, om_failovers = 0\<rparr>\<rparr>"

definition ClearActiveSource :: "CasterOrchestrator \<Rightarrow> CasterOrchestrator" where
  "ClearActiveSource s = s\<lparr>co_active_index := None\<rparr>"

text \<open>The nested loops of \<open>set_casters\<close>: every entry against those before it.\<close>

fun has_duplicate_source :: "NtripSourceIdentity list \<Rightarrow> NtripConfig list \<Rightarrow> bool" where
  "has_duplicate_source seen [] = False"
| "has_duplicate_source seen (c # cs) =
     (BuildNtripSourceIdentity c \<in> set seen \<or> has_duplicate_source (seen @ [BuildNtripSourceIdentity c]) cs)"

definition set_casters :: "CasterOrchestrator \<Rightarrow> NtripConfig list \<Rightarrow> CasterOrchestrator \<times> OrchestratorError" where
  "set_casters s casters =
     (let s1 = (ClearActiveSource s)\<lparr>co_casters := []\<rparr> in
      if casters = [] then (s1, OE_kEmptyCasterSet)
      else if has_duplicate_source [] casters then (s1, OE_kDuplicateSource)
      else (s1\<lparr>co_casters := casters\<rparr>, OE_kNone))"

definition SelectIndex :: "CasterOrchestrator \<Rightarrow> nat \<Rightarrow> bool \<Rightarrow> CasterOrchestrator \<times> OrchestratorError" where
  "SelectIndex s index is_failover =
     (if co_casters s = [] then (ClearActiveSource s, OE_kEmptyCasterSet)
      else
        let m = (co_metrics s)\<lparr>om_selections := om_selections (co_metrics s) + 1\<rparr> in
        (s\<lparr>co_active_index := Some index, co_active_incarnation := co_active_incarnation s + 1,
           co_metrics := (if is_failover then m\<lparr>om_failovers := om_failovers m + 1\<rparr> else m)\<rparr>, OE_kNone))"

definition SelectInitial :: "CasterOrchestrator \<Rightarrow> CasterOrchestrator \<times> OrchestratorError" where
  "SelectInitial s = SelectIndex s 0 False"

definition Failover :: "CasterOrchestrator \<Rightarrow> CasterOrchestrator \<times> OrchestratorError" where
  "Failover s =
     (case co_active_index s of
        None \<Rightarrow> SelectInitial s
      | Some i \<Rightarrow> SelectIndex s ((i + 1) mod length (co_casters s)) True)"

definition ReselectActive :: "CasterOrchestrator \<Rightarrow> CasterOrchestrator \<times> OrchestratorError" where
  "ReselectActive s =
     (case co_active_index s of None \<Rightarrow> SelectInitial s | Some i \<Rightarrow> SelectIndex s i False)"

definition active_config :: "CasterOrchestrator \<Rightarrow> NtripConfig option" where
  "active_config s = map_option (\<lambda>i. co_casters s ! i) (co_active_index s)"

definition active_source_identity :: "CasterOrchestrator \<Rightarrow> NtripSourceIdentity option" where
  "active_source_identity s = map_option BuildNtripSourceIdentity (active_config s)"

section \<open>Reachable states\<close>

datatype orchestrator_op = OO_Set "NtripConfig list" | OO_Initial | OO_Failover | OO_Reselect

definition orchestrator_exec :: "CasterOrchestrator \<Rightarrow> orchestrator_op \<Rightarrow> CasterOrchestrator \<times> OrchestratorError" where
  "orchestrator_exec s oper =
     (case oper of OO_Set cs \<Rightarrow> set_casters s cs | OO_Initial \<Rightarrow> SelectInitial s
      | OO_Failover \<Rightarrow> Failover s | OO_Reselect \<Rightarrow> ReselectActive s)"

inductive orchestrator_reach :: "CasterOrchestrator \<Rightarrow> bool" where
  "orchestrator_reach orchestrator_new"
| "orchestrator_reach s \<Longrightarrow> orchestrator_reach (fst (orchestrator_exec s oper))"

definition orchestrator_ok :: "CasterOrchestrator \<Rightarrow> bool" where
  "orchestrator_ok s \<longleftrightarrow>
     (\<forall>i. co_active_index s = Some i \<longrightarrow> i < length (co_casters s))
     \<and> distinct (map BuildNtripSourceIdentity (co_casters s))
     \<and> om_selections (co_metrics s) = co_active_incarnation s"

lemma has_duplicate_source_iff:
  "has_duplicate_source seen cs \<longleftrightarrow>
     \<not> distinct (map BuildNtripSourceIdentity cs) \<or> set (map BuildNtripSourceIdentity cs) \<inter> set seen \<noteq> {}"
  by (induction seen cs rule: has_duplicate_source.induct) auto

lemma orchestrator_ok_exec: "orchestrator_ok s \<Longrightarrow> orchestrator_ok (fst (orchestrator_exec s oper))"
  by (cases oper)
    (auto simp: orchestrator_exec_def orchestrator_ok_def set_casters_def SelectInitial_def Failover_def
      ReselectActive_def SelectIndex_def ClearActiveSource_def has_duplicate_source_iff Let_def split: option.split)

lemma orchestrator_reach_ok: "orchestrator_reach s \<Longrightarrow> orchestrator_ok s"
proof (induction rule: orchestrator_reach.induct)
  case 1
  show ?case by (simp add: orchestrator_ok_def orchestrator_new_def)
qed (rule orchestrator_ok_exec)

section \<open>Going round\<close>

lemma Failover_steps:
  assumes "co_casters s \<noteq> []" and "co_active_index s = Some i" and "i < length (co_casters s)"
  shows "co_casters (((fst \<circ> Failover) ^^ k) s) = co_casters s
    \<and> co_active_index (((fst \<circ> Failover) ^^ k) s) = Some ((i + k) mod length (co_casters s))
    \<and> co_active_incarnation (((fst \<circ> Failover) ^^ k) s) = co_active_incarnation s + word_of_nat k"
  using assms
  by (induction k) (simp_all add: Failover_def SelectIndex_def mod_Suc_eq Let_def)

section \<open>Properties\<close>

text \<open>Failover goes round the configured sources: in any reachable state with an active source, the next
  failovers make each of the sources active in turn, in configured order from the active one, every time with a
  new incarnation; as many failovers as there are sources lead back to the first, and every source is reached
  by fewer.  The active index is always that of a configured source, and no two sources are the same.\<close>

lemma failover_visits_all:
  assumes "orchestrator_reach s" and "co_active_index s = Some i"
  shows "i < length (co_casters s) \<and> distinct (map BuildNtripSourceIdentity (co_casters s))
    \<and> (\<forall>k. active_config (((fst \<circ> Failover) ^^ k) s) = Some (co_casters s ! ((i + k) mod length (co_casters s)))
         \<and> co_active_incarnation (((fst \<circ> Failover) ^^ k) s) = co_active_incarnation s + word_of_nat k)
    \<and> (\<forall>c \<in> set (co_casters s). \<exists>k < length (co_casters s). active_config (((fst \<circ> Failover) ^^ k) s) = Some c)"
proof -
  let ?n = "length (co_casters s)"
  have ok: "i < ?n" "distinct (map BuildNtripSourceIdentity (co_casters s))"
    using orchestrator_reach_ok [OF assms(1)] assms(2) by (simp_all add: orchestrator_ok_def)
  have some: "co_casters s \<noteq> []" using ok(1) by (metis list.size(3) not_less_zero)
  note steps = Failover_steps [OF some assms(2) ok(1)]
  have config: "active_config (((fst \<circ> Failover) ^^ k) s) = Some (co_casters s ! ((i + k) mod ?n))" for k
    using steps [of k] by (simp add: active_config_def)
  have "\<exists>k < ?n. active_config (((fst \<circ> Failover) ^^ k) s) = Some c" if "c \<in> set (co_casters s)" for c
  proof -
    from that obtain j where j: "j < ?n" "co_casters s ! j = c" by (auto simp: in_set_conv_nth)
    let ?k = "(j + ?n - i) mod ?n"
    have "(i + ?k) mod ?n = (i + (j + ?n - i)) mod ?n" by (rule mod_add_right_eq)
    also have "i + (j + ?n - i) = j + ?n" using ok(1) by simp
    finally have "(i + ?k) mod ?n = j" using j(1) by simp
    moreover have "?k < ?n" using some by (intro mod_less_divisor) simp
    ultimately show ?thesis using config [of ?k] j(2) by auto
  qed
  with ok config steps show ?thesis by blast
qed

definition demo_casters :: "NtripConfig list" where
  "demo_casters = [demo_ntrip_config, demo_ntrip_config\<lparr>nc_port := 2102\<rparr>, demo_ntrip_config\<lparr>nc_port := 2103\<rparr>]"

theorem failover_visits_all_witness:
  "\<exists>k1 k2. k1 < 3 \<and> k2 < 3
    \<and> active_config (((fst \<circ> Failover) ^^ k1) (fst (SelectInitial (fst (set_casters orchestrator_new demo_casters)))))
        = Some (demo_ntrip_config\<lparr>nc_port := 2102\<rparr>)
    \<and> active_config (((fst \<circ> Failover) ^^ k2) (fst (SelectInitial (fst (set_casters orchestrator_new demo_casters)))))
        = Some (demo_ntrip_config\<lparr>nc_port := 2103\<rparr>)"
proof -
  let ?s1 = "fst (orchestrator_exec orchestrator_new (OO_Set demo_casters))"
  let ?s = "fst (orchestrator_exec ?s1 OO_Initial)"
  have reach: "orchestrator_reach ?s" by (intro orchestrator_reach.intros)
  have set: "?s1 = orchestrator_new\<lparr>co_casters := demo_casters\<rparr>"
    by (simp add: orchestrator_exec_def set_casters_def ClearActiveSource_def orchestrator_new_def
        demo_casters_def demo_ntrip_config_def BuildNtripSourceIdentity_def Let_def)
  have facts: "co_active_index ?s = Some 0" "co_casters ?s = demo_casters"
    unfolding set by (simp_all add: orchestrator_exec_def SelectInitial_def SelectIndex_def demo_casters_def Let_def)
  have len: "length demo_casters = 3" by (simp add: demo_casters_def)
  have exec: "?s = fst (SelectInitial (fst (set_casters orchestrator_new demo_casters)))"
    by (simp only: orchestrator_exec_def orchestrator_op.case)
  from failover_visits_all [OF reach facts(1)]
  have "\<forall>c \<in> set demo_casters. \<exists>k < 3. active_config (((fst \<circ> Failover) ^^ k) ?s) = Some c"
    unfolding facts(2) len by blast
  moreover have "demo_ntrip_config\<lparr>nc_port := 2102\<rparr> \<in> set demo_casters" "demo_ntrip_config\<lparr>nc_port := 2103\<rparr> \<in> set demo_casters"
    by (simp_all add: demo_casters_def)
  ultimately show ?thesis unfolding exec by blast
qed

end
