(* ===== verification/Ntrip_Reconnect.thy ===== *)
theory Ntrip_Reconnect
  imports Ntrip_Request
begin

text \<open>
  \<open>NtripReconnectPolicy\<close> (gnss_ntrip/src/ntrip_reconnect_policy.cpp): the exponential backoff between
  connection attempts.  The conversion of a double to \<open>std::uint64_t\<close> is undefined for a NaN, which a NaN
  multiplier would produce; the model returns \<open>None\<close> there.
\<close>

section \<open>State\<close>

record NtripReconnectState =
  rs_attempt_count :: u32
  rs_next_attempt_time_ns :: "timestamp_ns option"
  rs_last_failure_time_ns :: "timestamp_ns option"
  rs_last_success_time_ns :: "timestamp_ns option"
  rs_current_delay_ms :: u32
  rs_exhausted :: bool

definition NtripReconnectState_default :: NtripReconnectState where
  "NtripReconnectState_default =
     \<lparr>rs_attempt_count = 0, rs_next_attempt_time_ns = None, rs_last_failure_time_ns = None,
      rs_last_success_time_ns = None, rs_current_delay_ms = 0, rs_exhausted = False\<rparr>"

record NtripReconnectDecision =
  rd_scheduled :: bool
  rd_can_attempt :: bool
  rd_should_reconnect :: bool
  rd_attempt_count :: u32
  rd_current_delay_ms :: u32
  rd_exhausted :: bool
  rd_next_attempt_time_ns :: "timestamp_ns option"

section \<open>Operations\<close>

definition ClampDelayMs :: "NtripReconnectPolicy \<Rightarrow> u64 \<Rightarrow> u32" where
  "ClampDelayMs policy delay_ms = ucast (min delay_ms (ucast (rpol_max_delay_ms policy)))"

definition EffectiveInitialDelayMs :: "NtripReconnectPolicy \<Rightarrow> u32" where
  "EffectiveInitialDelayMs policy = ClampDelayMs policy (ucast (rpol_initial_delay_ms policy))"

text \<open>\<open>static_cast<std::uint64_t>\<close> of a double at most \<open>2 ^ 32\<close>.\<close>

fun dbl_to_u64 :: "double \<Rightarrow> u64 option" where
  "dbl_to_u64 (Finite a) = (if - 1 < a \<and> a < 2 ^ 64 then Some (word_of_int \<lfloor>a\<rfloor>) else None)"
| "dbl_to_u64 _ = None"

definition ComputeNextDelayMs :: "NtripReconnectPolicy \<Rightarrow> NtripReconnectState \<Rightarrow> u32 option" where
  "ComputeNextDelayMs policy s =
     (if rs_current_delay_ms s = 0 then Some (EffectiveInitialDelayMs policy)
      else
        let safe_multiplier = (if dbl_less (rpol_multiplier policy) (Finite 1) then Finite 1 else rpol_multiplier policy);
            scaled = dbl_ceil (dbl_mult (Finite (of_int (uint (rs_current_delay_ms s)))) safe_multiplier) in
        map_option (ClampDelayMs policy)
          (if dbl_less (Finite 4294967295) scaled then Some 4294967295 else dbl_to_u64 scaled))"

definition ComputeNextAttemptTimeNs :: "timestamp_ns \<Rightarrow> u32 \<Rightarrow> timestamp_ns" where
  "ComputeNextAttemptTimeNs now delay_ms =
     (if delay_ms = 0 then now
      else if now \<ge> int64_max - uint delay_ms * 1000000 then int64_max
      else now + uint delay_ms * 1000000)"

definition CanAttempt :: "NtripReconnectPolicy \<Rightarrow> NtripReconnectState \<Rightarrow> bool" where
  "CanAttempt policy s \<longleftrightarrow>
     rpol_enabled policy \<and> \<not> rs_exhausted s
     \<and> (case rpol_max_attempts policy of None \<Rightarrow> True | Some m \<Rightarrow> rs_attempt_count s < m)"

definition ShouldReconnect :: "NtripReconnectPolicy \<Rightarrow> NtripReconnectState \<Rightarrow> timestamp_ns \<Rightarrow> bool" where
  "ShouldReconnect policy s now \<longleftrightarrow>
     rpol_enabled policy \<and> (case rs_next_attempt_time_ns s of None \<Rightarrow> False | Some t \<Rightarrow> now \<ge> t)"

definition BuildDecision ::
  "NtripReconnectPolicy \<Rightarrow> NtripReconnectState \<Rightarrow> bool \<Rightarrow> timestamp_ns \<Rightarrow> NtripReconnectDecision" where
  "BuildDecision policy s scheduled now =
     \<lparr>rd_scheduled = scheduled, rd_can_attempt = CanAttempt policy s,
      rd_should_reconnect = ShouldReconnect policy s now, rd_attempt_count = rs_attempt_count s,
      rd_current_delay_ms = rs_current_delay_ms s, rd_exhausted = rs_exhausted s,
      rd_next_attempt_time_ns = rs_next_attempt_time_ns s\<rparr>"

definition attempts_exhausted :: "NtripReconnectPolicy \<Rightarrow> NtripReconnectState \<Rightarrow> bool" where
  "attempts_exhausted policy s \<longleftrightarrow>
     (case rpol_max_attempts policy of None \<Rightarrow> False | Some m \<Rightarrow> rs_attempt_count s \<ge> m)"

definition OnFailure ::
  "NtripReconnectPolicy \<Rightarrow> NtripReconnectState \<Rightarrow> timestamp_ns
     \<Rightarrow> (NtripReconnectState \<times> NtripReconnectDecision) option" where
  "OnFailure policy s now =
     (let s1 = s\<lparr>rs_last_failure_time_ns := Some now\<rparr> in
      if \<not> rpol_enabled policy then
        let s2 = s1\<lparr>rs_exhausted := False, rs_next_attempt_time_ns := None\<rparr> in
        Some (s2, BuildDecision policy s2 False now)
      else if \<not> CanAttempt policy s1 then
        let s2 = s1\<lparr>rs_exhausted := attempts_exhausted policy s1, rs_next_attempt_time_ns := None\<rparr> in
        Some (s2, BuildDecision policy s2 False now)
      else
        (case ComputeNextDelayMs policy s1 of
           None \<Rightarrow> None
         | Some d \<Rightarrow>
             let s2 = s1\<lparr>rs_current_delay_ms := d, rs_attempt_count := rs_attempt_count s1 + 1\<rparr>;
                 s3 = s2\<lparr>rs_exhausted := attempts_exhausted policy s2,
                         rs_next_attempt_time_ns := Some (ComputeNextAttemptTimeNs now d)\<rparr> in
             Some (s3, BuildDecision policy s3 True now)))"

definition OnSuccess :: "NtripReconnectPolicy \<Rightarrow> NtripReconnectState \<Rightarrow> timestamp_ns \<Rightarrow> NtripReconnectState" where
  "OnSuccess policy s now =
     (if rpol_reset_after_success policy
      then NtripReconnectState_default\<lparr>rs_last_success_time_ns := Some now\<rparr>
      else s\<lparr>rs_last_success_time_ns := Some now, rs_exhausted := False, rs_next_attempt_time_ns := None\<rparr>)"

section \<open>Sequences of outcomes\<close>

text \<open>Failures (\<open>Inl\<close>) and successes (\<open>Inr\<close>) of connection attempts.\<close>

fun outcomes ::
  "NtripReconnectPolicy \<Rightarrow> NtripReconnectState \<Rightarrow> (timestamp_ns + timestamp_ns) list \<Rightarrow> NtripReconnectState option" where
  "outcomes policy s [] = Some s"
| "outcomes policy s (Inl t # xs) =
     (case OnFailure policy s t of None \<Rightarrow> None | Some (s1, _) \<Rightarrow> outcomes policy s1 xs)"
| "outcomes policy s (Inr t # xs) = outcomes policy (OnSuccess policy s t) xs"

definition reconnect_inv :: "NtripReconnectPolicy \<Rightarrow> NtripReconnectState \<Rightarrow> bool" where
  "reconnect_inv policy s \<longleftrightarrow>
     rs_current_delay_ms s \<le> rpol_max_delay_ms policy
     \<and> (\<forall>m. rpol_max_attempts policy = Some m \<longrightarrow> rs_attempt_count s \<le> m)
     \<and> (rs_exhausted s \<longrightarrow> attempts_exhausted policy s)
     \<and> (\<forall>t. rs_next_attempt_time_ns s = Some t \<longrightarrow>
          (\<exists>f. rs_last_failure_time_ns s = Some f \<and> t = ComputeNextAttemptTimeNs f (rs_current_delay_ms s)))"

lemma unat_ucast_u64: "unat (ucast (w :: u32) :: u64) = unat w"
  using unat_u32_less [of w] by (simp add: unsigned_ucast_eq take_bit_nat_eq_self)

lemma unat_ucast_u32: "unat (w :: u64) < 4294967296 \<Longrightarrow> unat (ucast w :: u32) = unat w"
  by (simp add: unsigned_ucast_eq take_bit_nat_eq_self)

lemma unat_min: "unat (min a b) = min (unat a) (unat b)"
  by (simp add: min_def word_le_nat_alt)

lemma unat_ClampDelayMs: "unat (ClampDelayMs policy w) = min (unat w) (unat (rpol_max_delay_ms policy))"
proof -
  have "unat (min w (ucast (rpol_max_delay_ms policy))) = min (unat w) (unat (rpol_max_delay_ms policy))"
    by (simp only: unat_min unat_ucast_u64)
  moreover have "min (unat w) (unat (rpol_max_delay_ms policy)) < 4294967296"
    using unat_u32_less [of "rpol_max_delay_ms policy"] by simp
  ultimately show ?thesis unfolding ClampDelayMs_def by (simp only: unat_ucast_u32)
qed

lemma ClampDelayMs_le: "ClampDelayMs policy w \<le> rpol_max_delay_ms policy"
  by (simp add: word_le_nat_alt unat_ClampDelayMs)

lemma ComputeNextDelayMs_le: "ComputeNextDelayMs policy s = Some d \<Longrightarrow> d \<le> rpol_max_delay_ms policy"
  by (auto simp: ComputeNextDelayMs_def EffectiveInitialDelayMs_def ClampDelayMs_le Let_def split: if_splits)

lemma OnFailure_inv:
  assumes "reconnect_inv policy s" and "OnFailure policy s now = Some (s1, d)"
  shows "reconnect_inv policy s1"
proof -
  have inc: "rs_attempt_count s + 1 \<le> m" if "rs_attempt_count s < m" for m
    using that by (simp add: inc_le)
  show ?thesis
    using assms inc
    by (auto simp: OnFailure_def reconnect_inv_def CanAttempt_def attempts_exhausted_def ComputeNextDelayMs_le Let_def
        split: if_splits option.splits)
qed

lemma OnSuccess_inv: "reconnect_inv policy s \<Longrightarrow> reconnect_inv policy (OnSuccess policy s now)"
  by (simp add: OnSuccess_def reconnect_inv_def NtripReconnectState_default_def)

lemma outcomes_inv:
  "\<lbrakk>reconnect_inv policy s; outcomes policy s xs = Some s1\<rbrakk> \<Longrightarrow> reconnect_inv policy s1"
  by (induction policy s xs rule: outcomes.induct)
    (auto split: option.splits dest: OnFailure_inv OnSuccess_inv)

text \<open>With a multiplier that is a number, nothing is undefined.\<close>

lemma ceil_at_least:
  assumes "of_int k \<le> (r :: rat)"
  shows "(of_int k :: rat) \<le> of_int \<lceil>r\<rceil>"
  using assms by (meson le_of_int_ceiling order_trans)

lemma scaled_delay:
  assumes "0 < k" and "k \<le> 4294967295" and "m \<noteq> NaN" and "\<not> dbl_less m (Finite 1)"
  shows "(\<exists>n. dbl_ceil (dbl_mult (Finite (of_int k)) m) = Finite (of_int n) \<and> k \<le> n)
    \<or> dbl_ceil (dbl_mult (Finite (of_int k)) m) = PosInf"
proof (cases m)
  case (Finite b)
  with assms(4) have b: "1 \<le> b" by simp
  have x: "of_int k \<le> of_int k * b" using b assms(1) by simp
  have small: "k \<le> 2 ^ 53" using assms(2) by simp
  have ge: "of_int k \<le> round_rat (of_int k * b)"
    by (rule round_rat_ge_int) (use assms(1) b x small in simp_all)
  then have "\<not> round_rat (of_int k * b) \<le> - (2 ^ 1024)"
    using assms(1) by (meson le_less_trans less_le_not_le neg_less_0_iff_less of_int_0_less_iff order_trans zero_less_numeral zero_less_power)
  with ge Finite show ?thesis
    by (auto simp: round_double_def Let_def le_ceiling_iff intro!: exI [of _ "\<lceil>round_rat (of_int k * b)\<rceil>"])
qed (use assms in \<open>auto simp: dbl_inf_def\<close>)

text \<open>The bounded delay, once the scaled one is known.\<close>

definition bounded_delay :: "double \<Rightarrow> u64 option" where
  "bounded_delay scaled = (if dbl_less (Finite 4294967295) scaled then Some 4294967295 else dbl_to_u64 scaled)"

lemma bounded_delay_int:
  assumes "0 \<le> n"
  shows "\<exists>w. bounded_delay (Finite (of_int n)) = Some w \<and> unat w = min (nat n) 4294967295"
proof (cases "4294967295 < n")
  case True
  then have "(4294967295 :: rat) < of_int n" by (metis of_int_less_iff of_int_numeral)
  with True show ?thesis by (simp add: bounded_delay_def)
next
  case False
  then have "\<not> (4294967295 :: rat) < of_int n" by (metis of_int_less_iff of_int_numeral)
  moreover have "- 1 < (of_int n :: rat)" using assms by (metis less_le_trans neg_less_0_iff_less of_int_0_le_iff zero_less_one)
  moreover have "(of_int n :: rat) < 2 ^ 64" using calculation(1) by simp
  moreover have "unat (word_of_int n :: u64) = nat n"
    using assms False by (simp add: unat_eq_nat_uint uint_word_of_int)
  ultimately show ?thesis using False by (simp add: bounded_delay_def)
qed

text \<open>The current delay as an integer.\<close>

definition delay_int :: "NtripReconnectState \<Rightarrow> int" where
  "delay_int s = uint (rs_current_delay_ms s)"

lemma delay_int_facts:
  "delay_int s \<le> 4294967295" "nat (delay_int s) = unat (rs_current_delay_ms s)"
  "rs_current_delay_ms s \<noteq> 0 \<Longrightarrow> 0 < delay_int s"
proof -
  have eq: "delay_int s = int (unat (rs_current_delay_ms s))" by (simp only: delay_int_def uint_nat)
  then show "delay_int s \<le> 4294967295" "nat (delay_int s) = unat (rs_current_delay_ms s)"
    using unat_u32_less [of "rs_current_delay_ms s"] by linarith+
  show "0 < delay_int s" if "rs_current_delay_ms s \<noteq> 0"
    using that unat_gt_0 [of "rs_current_delay_ms s"] unfolding eq by linarith
qed

lemma ComputeNextDelayMs_scaled:
  assumes "rs_current_delay_ms s \<noteq> 0"
  shows "ComputeNextDelayMs policy s = map_option (ClampDelayMs policy) (bounded_delay (dbl_ceil
      (dbl_mult (Finite (of_int (delay_int s)))
        (if dbl_less (rpol_multiplier policy) (Finite 1) then Finite 1 else rpol_multiplier policy))))"
  unfolding ComputeNextDelayMs_def bounded_delay_def delay_int_def Let_def using assms by (simp only: if_False)

lemma ComputeNextDelayMs_total:
  assumes "rpol_multiplier policy \<noteq> NaN"
  shows "\<exists>d. ComputeNextDelayMs policy s = Some d
    \<and> min (unat (rs_current_delay_ms s)) (unat (rpol_max_delay_ms policy)) \<le> unat d"
proof (cases "rs_current_delay_ms s = 0")
  case True
  then show ?thesis by (simp add: ComputeNextDelayMs_def)
next
  case False
  let ?m = "if dbl_less (rpol_multiplier policy) (Finite 1) then Finite 1 else rpol_multiplier policy"
  let ?x = "dbl_ceil (dbl_mult (Finite (of_int (delay_int s))) ?m)"
  have m: "?m \<noteq> NaN" "\<not> dbl_less ?m (Finite 1)" using assms by auto
  from scaled_delay [OF delay_int_facts(3) [OF False] delay_int_facts(1) m]
  have "\<exists>w. bounded_delay ?x = Some w \<and> nat (delay_int s) \<le> unat w"
  proof
    assume "\<exists>n. ?x = Finite (of_int n) \<and> delay_int s \<le> n"
    then obtain n where n: "?x = Finite (of_int n)" "delay_int s \<le> n" by blast
    then have "0 \<le> n" using delay_int_facts(3) [OF False] by linarith
    from bounded_delay_int [OF this] n delay_int_facts(1) [of s] show ?thesis by fastforce
  next
    assume "?x = PosInf"
    then show ?thesis using delay_int_facts(1) [of s] by (simp add: bounded_delay_def)
  qed
  then show ?thesis
    by (auto simp: ComputeNextDelayMs_scaled [OF False] unat_ClampDelayMs delay_int_facts(2))
qed

text \<open>Doubling is exact.\<close>

lemma ComputeNextDelayMs_double:
  assumes "rpol_multiplier policy = Finite 2"
  shows "\<exists>d. ComputeNextDelayMs policy s = Some d
    \<and> unat d = (if rs_current_delay_ms s = 0 then min (unat (rpol_initial_delay_ms policy)) (unat (rpol_max_delay_ms policy))
                else min (2 * unat (rs_current_delay_ms s)) (unat (rpol_max_delay_ms policy)))"
proof (cases "rs_current_delay_ms s = 0")
  case True
  then show ?thesis
    by (simp add: ComputeNextDelayMs_def EffectiveInitialDelayMs_def unat_ClampDelayMs unat_ucast_u64)
next
  case False
  define k where "k = delay_int s"
  have k: "0 < k" "k \<le> 4294967295" "nat k = unat (rs_current_delay_ms s)"
    using delay_int_facts False by (simp_all add: k_def)
  have "dbl_mult (Finite (of_int k)) (Finite 2) = round_double (of_int (k * 2))" by simp
  also have "\<dots> = Finite (of_int (k * 2))"
    by (rule round_double_int) (use k in simp_all)
  finally have "dbl_mult (Finite (of_int k)) (Finite 2) = Finite (of_int (k * 2))" .
  then have scaled: "dbl_ceil (dbl_mult (Finite (of_int k)) (Finite 2)) = Finite (of_int (k * 2))"
    by (simp only: dbl_ceil.simps ceiling_of_int)
  have two: "\<not> dbl_less (Finite 2) (Finite 1)" by simp
  obtain w where w: "bounded_delay (Finite (of_int (k * 2))) = Some w" "unat w = min (nat (k * 2)) 4294967295"
    using bounded_delay_int [of "k * 2"] k(1) by auto
  have "ComputeNextDelayMs policy s = Some (ClampDelayMs policy w)"
    unfolding ComputeNextDelayMs_scaled [OF False] assms k_def [symmetric] if_not_P [OF two] scaled w(1) by simp
  moreover have "unat (rpol_max_delay_ms policy) \<le> 4294967295" using unat_u32_less [of "rpol_max_delay_ms policy"] by simp
  moreover have "nat (k * 2) = 2 * unat (rs_current_delay_ms s)" using k(1,3) by (simp add: nat_mult_distrib)
  ultimately show ?thesis using False w(2) by (simp add: unat_ClampDelayMs)
qed

section \<open>Runs of failures\<close>

lemma outcomes_append:
  "outcomes policy s (xs @ ys) = (case outcomes policy s xs of None \<Rightarrow> None | Some s1 \<Rightarrow> outcomes policy s1 ys)"
  by (induction policy s xs rule: outcomes.induct) (simp_all split: option.split)

definition backoff :: "NtripReconnectPolicy \<Rightarrow> nat \<Rightarrow> nat" where
  "backoff policy n = min (unat (rpol_max_delay_ms policy)) (unat (rpol_initial_delay_ms policy) * 2 ^ n)"

definition failed_times :: "NtripReconnectPolicy \<Rightarrow> nat \<Rightarrow> NtripReconnectState \<Rightarrow> bool" where
  "failed_times policy n s \<longleftrightarrow>
     rs_attempt_count s = word_of_nat n \<and> rs_exhausted s = (n \<noteq> 0 \<and> attempts_exhausted policy s)
     \<and> unat (rs_current_delay_ms s) = (case n of 0 \<Rightarrow> 0 | Suc k \<Rightarrow> backoff policy k)"

definition may_fail :: "NtripReconnectPolicy \<Rightarrow> nat \<Rightarrow> bool" where
  "may_fail policy n \<longleftrightarrow> (case rpol_max_attempts policy of None \<Rightarrow> True | Some m \<Rightarrow> n < unat m)"

lemma backoff_Suc:
  "min (2 * backoff policy n) (unat (rpol_max_delay_ms policy)) = backoff policy (Suc n)"
  by (simp add: backoff_def min_def)

lemma backoff_next:
  assumes "rpol_multiplier policy = Finite 2" and "failed_times policy n s"
  shows "\<exists>d. ComputeNextDelayMs policy s = Some d \<and> unat d = backoff policy n"
proof -
  obtain d where d: "ComputeNextDelayMs policy s = Some d"
    "unat d = (if rs_current_delay_ms s = 0 then min (unat (rpol_initial_delay_ms policy)) (unat (rpol_max_delay_ms policy))
                else min (2 * unat (rs_current_delay_ms s)) (unat (rpol_max_delay_ms policy)))"
    using ComputeNextDelayMs_double [OF assms(1)] by blast
  show ?thesis
  proof (cases n)
    case 0
    with assms(2) have "rs_current_delay_ms s = 0" by (simp add: failed_times_def unat_0_iff [symmetric])
    with d 0 show ?thesis by (simp add: backoff_def)
  next
    case (Suc k)
    with assms(2) have cur: "unat (rs_current_delay_ms s) = backoff policy k" by (simp add: failed_times_def)
    show ?thesis
    proof (cases "rs_current_delay_ms s = 0")
      case True
      with cur have "backoff policy k = 0" by simp
      then have "unat (rpol_max_delay_ms policy) = 0 \<or> unat (rpol_initial_delay_ms policy) = 0"
        by (auto simp: backoff_def min_def split: if_splits)
      with d True Suc show ?thesis by (auto simp: backoff_def)
    next
      case False
      with d cur Suc backoff_Suc [of policy k] show ?thesis by simp
    qed
  qed
qed

lemma attempts_exhausted_failed [simp]:
  "attempts_exhausted policy (s\<lparr>rs_last_failure_time_ns := x\<rparr>) = attempts_exhausted policy s"
  "attempts_exhausted policy (s\<lparr>rs_exhausted := e\<rparr>) = attempts_exhausted policy s"
  "attempts_exhausted policy (s\<lparr>rs_next_attempt_time_ns := x\<rparr>) = attempts_exhausted policy s"
  by (simp_all add: attempts_exhausted_def split: option.split)

lemma OnFailure_scheduled:
  assumes "rpol_enabled policy" and "rpol_multiplier policy = Finite 2" and "failed_times policy n s"
    and "may_fail policy n"
  shows "\<exists>s1 d. OnFailure policy s now = Some (s1, d) \<and> failed_times policy (Suc n) s1 \<and> rd_scheduled d
    \<and> rs_next_attempt_time_ns s1 = Some (ComputeNextAttemptTimeNs now (rs_current_delay_ms s1))"
proof -
  let ?s1 = "s\<lparr>rs_last_failure_time_ns := Some now\<rparr>"
  have s1: "failed_times policy n ?s1" using assms(3) by (simp add: failed_times_def)
  obtain d where d: "ComputeNextDelayMs policy ?s1 = Some d" "unat d = backoff policy n"
    using backoff_next [OF assms(2) s1] by blast
  have "rs_attempt_count s < m" if "rpol_max_attempts policy = Some m" for m
    using that assms(3,4) unat_u32_less [of m]
    by (auto simp: failed_times_def may_fail_def word_less_nat_alt unat_of_nat)
  then have can: "CanAttempt policy ?s1"
    using assms(1,3) by (auto simp: CanAttempt_def failed_times_def attempts_exhausted_def split: option.split)
  from assms(1,3) can d show ?thesis
    by (simp add: OnFailure_def failed_times_def BuildDecision_def Let_def add.commute)
qed

lemma failures_exact:
  assumes "rpol_enabled policy" and "rpol_multiplier policy = Finite 2"
    and "\<forall>m. rpol_max_attempts policy = Some m \<longrightarrow> length ts \<le> unat m"
  shows "\<exists>s. outcomes policy NtripReconnectState_default (map Inl ts) = Some s \<and> failed_times policy (length ts) s
    \<and> (ts \<noteq> [] \<longrightarrow> rs_next_attempt_time_ns s = Some (ComputeNextAttemptTimeNs (last ts) (rs_current_delay_ms s)))"
  using assms(3)
proof (induction ts rule: rev_induct)
  case Nil
  show ?case by (simp add: failed_times_def NtripReconnectState_default_def)
next
  case (snoc t ts)
  then obtain s where s: "outcomes policy NtripReconnectState_default (map Inl ts) = Some s" "failed_times policy (length ts) s"
    by fastforce
  have "may_fail policy (length ts)" using snoc.prems by (auto simp: may_fail_def split: option.split)
  from OnFailure_scheduled [OF assms(1,2) s(2) this, of t] s(1) show ?case
    by (auto simp: outcomes_append)
qed

section \<open>Properties\<close>

text \<open>The backoff is the doubling sequence: with the default multiplier of two, as many failures in a row as the
  policy allows leave the delay at the smaller of the maximum and the initial delay doubled once for each failure
  after the first, as computed in exact arithmetic although the code goes through doubles, and the next attempt
  is due that long after the last failure.\<close>

lemma reconnect_backoff_exact:
  assumes "rpol_enabled policy" and "rpol_multiplier policy = Finite 2"
    and "\<forall>m. rpol_max_attempts policy = Some m \<longrightarrow> length ts \<le> unat m" and "ts \<noteq> []"
  shows "\<exists>s. outcomes policy NtripReconnectState_default (map Inl ts) = Some s
    \<and> unat (rs_current_delay_ms s)
        = min (unat (rpol_max_delay_ms policy)) (unat (rpol_initial_delay_ms policy) * 2 ^ (length ts - 1))
    \<and> rs_next_attempt_time_ns s = Some (ComputeNextAttemptTimeNs (last ts) (rs_current_delay_ms s))"
proof -
  from assms(4) obtain n where n: "length ts = Suc n" by (cases ts) simp_all
  from failures_exact [OF assms(1-3)] assms(4) show ?thesis
    by (auto simp: failed_times_def n backoff_def)
qed

theorem reconnect_backoff_exact_witness:
  "\<exists>s. outcomes (nc_reconnect_policy demo_ntrip_config) NtripReconnectState_default (map Inl [5, 6, 7]) = Some s
     \<and> unat (rs_current_delay_ms s) = 4000"
proof -
  let ?p = "nc_reconnect_policy demo_ntrip_config"
  have "rpol_enabled ?p" "rpol_multiplier ?p = Finite 2"
    "\<forall>m. rpol_max_attempts ?p = Some m \<longrightarrow> length [5, 6, 7 :: timestamp_ns] \<le> unat m"
    by (simp_all add: demo_ntrip_config_def)
  from reconnect_backoff_exact [OF this] obtain s where
    "outcomes ?p NtripReconnectState_default (map Inl [5, 6, 7]) = Some s"
    "unat (rs_current_delay_ms s) = min (unat (rpol_max_delay_ms ?p)) (unat (rpol_initial_delay_ms ?p) * 2 ^ 2)" by auto
  moreover have "min (unat (rpol_max_delay_ms ?p)) (unat (rpol_initial_delay_ms ?p) * 2 ^ 2) = 4000"
    by (simp add: demo_ntrip_config_def)
  ultimately show ?thesis by (simp only:) blast
qed

text \<open>Whatever the sequence of failures and successes and whatever the multiplier (as long as it is a number),
  the policy is well defined, the delay never exceeds its maximum, the attempts never exceed their limit,
  a policy that gave up had really used them all, and the next attempt is never due before the failure that
  scheduled it nor more than the delay after it.\<close>

lemma reconnect_bounded:
  assumes "rpol_multiplier policy \<noteq> NaN"
  shows "\<exists>s. outcomes policy NtripReconnectState_default xs = Some s
    \<and> rs_current_delay_ms s \<le> rpol_max_delay_ms policy
    \<and> (\<forall>m. rpol_max_attempts policy = Some m \<longrightarrow> rs_attempt_count s \<le> m)
    \<and> (rs_exhausted s \<longrightarrow> (\<exists>m. rpol_max_attempts policy = Some m \<and> rs_attempt_count s = m))
    \<and> (\<forall>t. rs_next_attempt_time_ns s = Some t \<longrightarrow>
         (\<exists>f. rs_last_failure_time_ns s = Some f
            \<and> (f \<le> int64_max \<longrightarrow> f \<le> t \<and> t \<le> f + uint (rs_current_delay_ms s) * 1000000)))"
proof -
  have step: "\<exists>r. OnFailure policy s t = Some r" for s t
  proof -
    obtain d where "ComputeNextDelayMs policy (s\<lparr>rs_last_failure_time_ns := Some t\<rparr>) = Some d"
      using ComputeNextDelayMs_total [OF assms] by blast
    then show ?thesis by (simp add: OnFailure_def Let_def)
  qed
  have total: "\<exists>s1. outcomes policy s xs = Some s1" for s
  proof (induction xs arbitrary: s)
    case (Cons x xs)
    show ?case
    proof (cases x)
      case (Inl t)
      with step [of s t] Cons.IH show ?thesis by auto
    qed (simp add: Cons.IH)
  qed simp
  have init: "reconnect_inv policy NtripReconnectState_default"
    by (simp add: reconnect_inv_def NtripReconnectState_default_def)
  from total obtain s where s: "outcomes policy NtripReconnectState_default xs = Some s" by blast
  from outcomes_inv [OF init s] have inv: "reconnect_inv policy s" .
  have due: "f \<le> ComputeNextAttemptTimeNs f d \<and> ComputeNextAttemptTimeNs f d \<le> f + uint d * 1000000"
    if "f \<le> int64_max" for f d
    using that by (auto simp: ComputeNextAttemptTimeNs_def)
  from inv s show ?thesis
    by (auto simp: reconnect_inv_def attempts_exhausted_def due split: option.splits intro!: exI [of _ s])
qed

theorem reconnect_bounded_witness:
  "\<exists>s. outcomes (nc_reconnect_policy demo_ntrip_config) NtripReconnectState_default [Inl 5, Inr 6, Inl 7] = Some s"
proof -
  have "rpol_multiplier (nc_reconnect_policy demo_ntrip_config) \<noteq> NaN" by (simp add: demo_ntrip_config_def)
  from reconnect_bounded [OF this] show ?thesis by blast
qed

end
