(* ===== verification/Ntrip_Client.thy ===== *)
theory Ntrip_Client
  imports Ntrip_Reconnect Rtcm_Framer Transport
begin

text \<open>
  \<open>NtripClient\<close> (gnss_ntrip/src/ntrip_client.cpp, ntrip_metrics.hpp): the connection to a caster.  It sends
  the GET request, recognises the end of the response head in whatever pieces it arrives, passes the correction
  bytes behind it on, feeds them to the RTCM framer, and watches that valid frames keep coming.

  The TCP transport is a record of operations (its socket calls are outside the repository); every sample of
  \<open>std::chrono::steady_clock\<close> within a call is an argument.  The correction monitor and the estimator of the
  correction age observe the frames and are read by nothing here, so they are left out, and so is the sending
  of GGA sentences.
\<close>

section \<open>Errors and metrics\<close>

datatype NtripClientError =
    NE_kNone | NE_kConfiguration | NE_kAuthentication | NE_kHttp | NE_kProtocol | NE_kTimeout
  | NE_kDisconnected | NE_kUnknown

datatype NtripGgaSendError = NG_kGenerationFailed | NG_kDisconnected | NG_kTimeout | NG_kWriteFailure

record NtripConnectionMetrics =
  nm_bytes_received :: u64
  nm_bytes_sent :: u64
  nm_rtcm_frames_seen :: u64
  nm_rtcm_frames_received :: u64
  nm_invalid_rtcm_frames :: u64
  nm_gga_sent_count :: u64
  nm_gga_send_errors :: u64
  nm_last_rtcm_message_type :: "u16 option"
  nm_last_correction_age_s :: "double option"
  nm_last_gga_sent_timestamp_ns :: "timestamp_ns option"
  nm_last_gga_error :: "NtripGgaSendError option"
  nm_connected :: bool
  nm_request_sent :: bool
  nm_response_received :: bool
  nm_reconnect_count :: u32
  nm_last_error :: NtripClientError

definition NtripConnectionMetrics_default :: NtripConnectionMetrics where
  "NtripConnectionMetrics_default =
     \<lparr>nm_bytes_received = 0, nm_bytes_sent = 0, nm_rtcm_frames_seen = 0, nm_rtcm_frames_received = 0,
      nm_invalid_rtcm_frames = 0, nm_gga_sent_count = 0, nm_gga_send_errors = 0,
      nm_last_rtcm_message_type = None, nm_last_correction_age_s = None, nm_last_gga_sent_timestamp_ns = None,
      nm_last_gga_error = None, nm_connected = False, nm_request_sent = False, nm_response_received = False,
      nm_reconnect_count = 0, nm_last_error = NE_kNone\<rparr>"

definition NoteReceivedBytes :: "NtripConnectionMetrics \<Rightarrow> nat \<Rightarrow> NtripConnectionMetrics" where
  "NoteReceivedBytes m byte_count = m\<lparr>nm_bytes_received := nm_bytes_received m + word_of_nat byte_count\<rparr>"

definition NoteSentBytes :: "NtripConnectionMetrics \<Rightarrow> nat \<Rightarrow> NtripConnectionMetrics" where
  "NoteSentBytes m byte_count = m\<lparr>nm_bytes_sent := nm_bytes_sent m + word_of_nat byte_count\<rparr>"

definition NoteRtcmFrame :: "NtripConnectionMetrics \<Rightarrow> u16 option \<Rightarrow> bool \<Rightarrow> NtripConnectionMetrics" where
  "NoteRtcmFrame m message_type valid_frame =
     (let m1 = m\<lparr>nm_rtcm_frames_seen := nm_rtcm_frames_seen m + 1\<rparr> in
      if valid_frame
      then m1\<lparr>nm_rtcm_frames_received := nm_rtcm_frames_received m1 + 1, nm_last_rtcm_message_type := message_type\<rparr>
      else m1\<lparr>nm_invalid_rtcm_frames := nm_invalid_rtcm_frames m1 + 1\<rparr>)"

definition MarkConnected :: "NtripConnectionMetrics \<Rightarrow> NtripConnectionMetrics" where
  "MarkConnected m = m\<lparr>nm_connected := True\<rparr>"

definition MarkRequestSent :: "NtripConnectionMetrics \<Rightarrow> NtripConnectionMetrics" where
  "MarkRequestSent m = m\<lparr>nm_request_sent := True\<rparr>"

definition MarkResponseReceived :: "NtripConnectionMetrics \<Rightarrow> NtripConnectionMetrics" where
  "MarkResponseReceived m = m\<lparr>nm_response_received := True\<rparr>"

definition MarkDisconnected :: "NtripConnectionMetrics \<Rightarrow> NtripClientError \<Rightarrow> NtripConnectionMetrics" where
  "MarkDisconnected m error = m\<lparr>nm_connected := False, nm_last_error := error\<rparr>"

definition ntrip_NoteReconnect :: "NtripConnectionMetrics \<Rightarrow> NtripConnectionMetrics" where
  "ntrip_NoteReconnect m = m\<lparr>nm_reconnect_count := nm_reconnect_count m + 1\<rparr>"

definition ClearLastError :: "NtripConnectionMetrics \<Rightarrow> NtripConnectionMetrics" where
  "ClearLastError m = m\<lparr>nm_last_error := NE_kNone\<rparr>"

section \<open>The response head\<close>

abbreviation (input) kMaxResponseHeaderBytes :: nat where "kMaxResponseHeaderBytes \<equiv> 8192"

definition HasExactNtripStatusCode :: "string \<Rightarrow> string \<Rightarrow> bool" where
  "HasExactNtripStatusCode status_line protocol_prefix \<longleftrightarrow>
     StartsWith status_line protocol_prefix
     \<and> (let code_start = length protocol_prefix; code_end = code_start + 3 in
        length status_line \<ge> code_end \<and> bslice code_start 3 status_line = ''200''
        \<and> (length status_line = code_end \<or> status_line ! code_end = CHR '' ''))"

definition IsAcceptedNtripStatusLine :: "string \<Rightarrow> bool" where
  "IsAcceptedNtripStatusLine status_line \<longleftrightarrow>
     HasExactNtripStatusCode status_line ''ICY '' \<or> HasExactNtripStatusCode status_line ''HTTP/1.0 ''
     \<or> HasExactNtripStatusCode status_line ''HTTP/1.1 ''"

text \<open>Both searches give the offset of the terminator and its length.\<close>

definition FindResponseHeaderTerminator :: "string \<Rightarrow> (nat \<times> nat) option" where
  "FindResponseHeaderTerminator response_bytes =
     (case find_sub (crlf @ crlf) response_bytes of
        Some k \<Rightarrow> Some (k, 4)
      | None \<Rightarrow> map_option (\<lambda>k. (k, 2)) (find_sub [CHR 0x0A, CHR 0x0A] response_bytes))"

definition icy_payload_char :: "char \<Rightarrow> bool" where
  "icy_payload_char c \<longleftrightarrow>
     char_code c = 0xD3 \<or> char_code c \<ge> 0x80 \<or> char_code c < 0x20 \<and> c \<noteq> CHR 0x0D \<and> c \<noteq> CHR 0x0A"

definition FindLegacyIcyPayloadStart :: "string \<Rightarrow> (nat \<times> nat) option" where
  "FindLegacyIcyPayloadStart response_bytes =
     (if \<not> StartsWith response_bytes ''ICY '' then None
      else
        (case (case find_sub crlf response_bytes of
                 Some k \<Rightarrow> Some (k, 2)
               | None \<Rightarrow> map_option (\<lambda>k. (k, 1)) (find_char (CHR 0x0A) response_bytes)) of
           None \<Rightarrow> None
         | Some (line_end, terminator_size) \<Rightarrow>
             if \<not> IsAcceptedNtripStatusLine (take line_end response_bytes) then Some (line_end, terminator_size)
             else
               let payload_offset = line_end + terminator_size in
               if payload_offset \<ge> length response_bytes then None
               else if list_ex icy_payload_char (drop payload_offset response_bytes)
               then Some (line_end, terminator_size)
               else None))"

definition ExtractStatusLine :: "string \<Rightarrow> string" where
  "ExtractStatusLine header =
     (case find_sub crlf header of
        Some k \<Rightarrow> take k header
      | None \<Rightarrow> (case find_char (CHR 0x0A) header of Some k \<Rightarrow> take k header | None \<Rightarrow> header))"

definition IsRecognizedNtripStatusLine :: "string \<Rightarrow> bool" where
  "IsRecognizedNtripStatusLine status_line \<longleftrightarrow>
     StartsWith status_line ''ICY '' \<or> StartsWith status_line ''HTTP/1.0 '' \<or> StartsWith status_line ''HTTP/1.1 ''"

definition ParseNtripResponseStatus :: "string \<Rightarrow> NtripClientError" where
  "ParseNtripResponseStatus header =
     (let status_line = ExtractStatusLine header in
      if status_line = [] then NE_kProtocol
      else if IsAcceptedNtripStatusLine status_line then NE_kNone
      else if IsRecognizedNtripStatusLine status_line then NE_kHttp else NE_kProtocol)"

definition MapTransportError :: "TransportError \<Rightarrow> NtripClientError" where
  "MapTransportError error =
     (case error of
        TE_kNone \<Rightarrow> NE_kNone
      | TE_kInvalidArgument \<Rightarrow> NE_kConfiguration
      | TE_kTimeout \<Rightarrow> NE_kTimeout
      | TE_kClosed \<Rightarrow> NE_kDisconnected
      | TE_kConnectFailure \<Rightarrow> NE_kDisconnected
      | TE_kReadFailure \<Rightarrow> NE_kDisconnected
      | TE_kWriteFailure \<Rightarrow> NE_kDisconnected
      | _ \<Rightarrow> NE_kUnknown)"

section \<open>The client\<close>

datatype NtripClientState = NS_kDisconnected | NS_kConnecting | NS_kConnected | NS_kStreaming | NS_kFailed

record NtripClientReadResult =
  crr_bytes_read :: nat
  crr_transport_status :: TransportStatus
  crr_transport_error :: TransportError
  crr_client_error :: NtripClientError

definition NtripClientReadResult_default :: NtripClientReadResult where
  "NtripClientReadResult_default =
     \<lparr>crr_bytes_read = 0, crr_transport_status = TS_kOk, crr_transport_error = TE_kNone, crr_client_error = NE_kNone\<rparr>"

record NtripCorrectionFlowState =
  cf_response_accepted :: bool
  cf_response_accepted_timestamp_ns :: "timestamp_ns option"
  cf_valid_rtcm_frames :: u64
  cf_first_valid_rtcm_frame_timestamp_ns :: "timestamp_ns option"
  cf_last_valid_rtcm_frame_timestamp_ns :: "timestamp_ns option"
  cf_operational :: bool

definition NtripCorrectionFlowState_default :: NtripCorrectionFlowState where
  "NtripCorrectionFlowState_default =
     \<lparr>cf_response_accepted = False, cf_response_accepted_timestamp_ns = None, cf_valid_rtcm_frames = 0,
      cf_first_valid_rtcm_frame_timestamp_ns = None, cf_last_valid_rtcm_frame_timestamp_ns = None,
      cf_operational = False\<rparr>"

text \<open>The configuration of the transport, but for its cancellation callback, and its operations on a state
  \<open>'k\<close>.  A read gives the bytes placed in the buffer.\<close>

record TcpClientConfig =
  tc_host :: string
  tc_port :: u16
  tc_connect_timeout_ms :: u32
  tc_read_timeout_ms :: u32
  tc_write_timeout_ms :: u32
  tc_nonblocking :: bool
  tc_tcp_nodelay :: bool
  tc_tls_enabled :: bool
  tc_tls_verify_peer :: bool
  tc_tls_server_name :: string
  tc_tls_ca_file :: string
  tc_tls_client_certificate_file :: string
  tc_tls_client_private_key_file :: string

record 'k tcp_ops =
  tcp_open :: "'k \<Rightarrow> TcpClientConfig \<Rightarrow> 'k \<times> TransportError"
  tcp_adopt :: "'k \<Rightarrow> int \<Rightarrow> TcpClientConfig \<Rightarrow> 'k \<times> TransportError"
  tcp_close :: "'k \<Rightarrow> 'k"
  tcp_is_open :: "'k \<Rightarrow> bool"
  tcp_read :: "'k \<Rightarrow> nat \<Rightarrow> 'k \<times> ReadResult \<times> bytes"
  tcp_write :: "'k \<Rightarrow> bytes \<Rightarrow> 'k \<times> WriteResult"

record 'k NtripClient =
  ntc_config :: NtripConfig
  ntc_source_identity :: NtripSourceIdentity
  ntc_tcp_config :: TcpClientConfig
  ntc_transport :: 'k
  ntc_state :: NtripClientState
  ntc_request :: NtripRequest
  ntc_response_buffer :: string
  ntc_response_header :: string
  ntc_metrics :: NtripConnectionMetrics
  ntc_reconnect_state :: NtripReconnectState
  ntc_correction_flow_state :: NtripCorrectionFlowState
  ntc_response_accepted_steady_time :: "int option"
  ntc_last_valid_rtcm_frame_steady_time :: "int option"
  ntc_rtcm_framer :: RtcmFrameFramer

text \<open>The constructor; the framer's default limit is that of its declaration, 1029 bytes.\<close>

definition NtripClient_new :: "NtripConfig \<Rightarrow> TcpClientConfig \<Rightarrow> 'k \<Rightarrow> 'k NtripClient" where
  "NtripClient_new config tcp_config transport =
     \<lparr>ntc_config = config, ntc_source_identity = BuildNtripSourceIdentity config, ntc_tcp_config = tcp_config,
      ntc_transport = transport, ntc_state = NS_kDisconnected, ntc_request = NtripRequest_default,
      ntc_response_buffer = [], ntc_response_header = [], ntc_metrics = NtripConnectionMetrics_default,
      ntc_reconnect_state = NtripReconnectState_default,
      ntc_correction_flow_state = NtripCorrectionFlowState_default, ntc_response_accepted_steady_time = None,
      ntc_last_valid_rtcm_frame_steady_time = None, ntc_rtcm_framer = rtcm_new 1029\<rparr>"

section \<open>Operations\<close>

definition HasSteadyElapsed :: "int option \<Rightarrow> u32 \<Rightarrow> int \<Rightarrow> bool" where
  "HasSteadyElapsed start_time timeout_ms now \<longleftrightarrow>
     timeout_ms \<noteq> 0 \<and> (case start_time of None \<Rightarrow> False | Some t \<Rightarrow> now - t \<ge> uint timeout_ms * 1000000)"

definition ShouldTrackReconnectFailure :: "NtripClientState \<Rightarrow> NtripClientError \<Rightarrow> bool" where
  "ShouldTrackReconnectFailure state error \<longleftrightarrow>
     \<not> (state = NS_kDisconnected \<or> state = NS_kFailed) \<and> error \<noteq> NE_kNone \<and> error \<noteq> NE_kConfiguration"

text \<open>\<open>None\<close> stands for the undefined conversion of \<open>ComputeNextDelayMs\<close>.\<close>

definition RecordReconnectFailure :: "'k NtripClient \<Rightarrow> timestamp_ns option \<Rightarrow> 'k NtripClient option" where
  "RecordReconnectFailure c timestamp_ns =
     (case OnFailure (nc_reconnect_policy (ntc_config c)) (ntc_reconnect_state c)
             (case timestamp_ns of None \<Rightarrow> 0 | Some t \<Rightarrow> t) of
        None \<Rightarrow> None
      | Some (rs, decision) \<Rightarrow>
          let c1 = c\<lparr>ntc_reconnect_state := rs\<rparr> in
          Some (if rd_scheduled decision then c1\<lparr>ntc_metrics := ntrip_NoteReconnect (ntc_metrics c1)\<rparr> else c1))"

definition RecordReconnectSuccess :: "'k NtripClient \<Rightarrow> timestamp_ns option \<Rightarrow> 'k NtripClient" where
  "RecordReconnectSuccess c timestamp_ns =
     (let policy = nc_reconnect_policy (ntc_config c); rs = ntc_reconnect_state c in
      c\<lparr>ntc_reconnect_state :=
          (case timestamp_ns of
             None \<Rightarrow> if rpol_reset_after_success policy then NtripReconnectState_default
                     else rs\<lparr>rs_next_attempt_time_ns := None\<rparr>
           | Some t \<Rightarrow> OnSuccess policy rs t)\<rparr>)"

definition FailWith ::
  "'k tcp_ops \<Rightarrow> 'k NtripClient \<Rightarrow> NtripClientError \<Rightarrow> timestamp_ns option \<Rightarrow> 'k NtripClient option" where
  "FailWith ops c error timestamp_ns =
     map_option
       (\<lambda>c1. c1\<lparr>ntc_transport := tcp_close ops (ntc_transport c1), ntc_state := NS_kFailed,
              ntc_metrics := MarkDisconnected (ntc_metrics c1) error\<rparr>)
       (if ShouldTrackReconnectFailure (ntc_state c) error then RecordReconnectFailure c timestamp_ns else Some c)"

text \<open>\<open>ResetSessionState\<close> and \<open>ResetSourceState\<close> differ only in how much of the correction monitor they reset.\<close>

definition ResetSessionState :: "'k NtripClient \<Rightarrow> 'k NtripClient" where
  "ResetSessionState c =
     c\<lparr>ntc_request := NtripRequest_default, ntc_response_buffer := [], ntc_response_header := [],
       ntc_rtcm_framer := rtcm_Reset (ntc_rtcm_framer c),
       ntc_correction_flow_state := NtripCorrectionFlowState_default, ntc_response_accepted_steady_time := None,
       ntc_last_valid_rtcm_frame_steady_time := None\<rparr>"

definition ResetSourceState :: "'k NtripClient \<Rightarrow> 'k NtripClient" where
  "ResetSourceState c =
     c\<lparr>ntc_request := NtripRequest_default, ntc_response_buffer := [], ntc_response_header := [],
       ntc_rtcm_framer := rtcm_Reset (ntc_rtcm_framer c),
       ntc_correction_flow_state := NtripCorrectionFlowState_default, ntc_response_accepted_steady_time := None,
       ntc_last_valid_rtcm_frame_steady_time := None\<rparr>"

definition ResetSessionMetrics :: "'k NtripClient \<Rightarrow> 'k NtripClient" where
  "ResetSessionMetrics c =
     c\<lparr>ntc_metrics := NtripConnectionMetrics_default\<lparr>nm_reconnect_count := nm_reconnect_count (ntc_metrics c)\<rparr>\<rparr>"

definition client_set_config :: "'k tcp_ops \<Rightarrow> 'k NtripClient \<Rightarrow> NtripConfig \<Rightarrow> 'k NtripClient" where
  "client_set_config ops c config =
     (let new_source_identity = BuildNtripSourceIdentity config;
          source_changed = (new_source_identity \<noteq> ntc_source_identity c);
          c1 = c\<lparr>ntc_config := config, ntc_source_identity := new_source_identity\<rparr> in
      if source_changed then
        let c2 = c1\<lparr>ntc_transport := tcp_close ops (ntc_transport c1), ntc_state := NS_kDisconnected,
                    ntc_reconnect_state := NtripReconnectState_default\<rparr>;
            c3 = ResetSessionMetrics (ResetSourceState c2) in
        c3\<lparr>ntc_metrics := MarkDisconnected (ntc_metrics c3) NE_kNone\<rparr>
      else c1)"

text \<open>The common beginning of \<open>Connect\<close> and \<open>AdoptConnectedSocket\<close>, and their common end.\<close>

definition begin_connection :: "'k tcp_ops \<Rightarrow> 'k NtripClient \<Rightarrow> 'k NtripClient" where
  "begin_connection ops c =
     (let c1 = c\<lparr>ntc_transport := tcp_close ops (ntc_transport c)\<rparr>;
          identity = BuildNtripSourceIdentity (ntc_config c1) in
      ResetSessionMetrics
        (if identity \<noteq> ntc_source_identity c1
         then ResetSourceState
                (c1\<lparr>ntc_source_identity := identity, ntc_reconnect_state := NtripReconnectState_default\<rparr>)
         else ResetSessionState c1))"

definition finish_connection ::
  "'k tcp_ops \<Rightarrow> 'k NtripClient \<Rightarrow> 'k \<Rightarrow> TransportError \<Rightarrow> timestamp_ns option
     \<Rightarrow> ('k NtripClient \<times> NtripClientError) option" where
  "finish_connection ops c k error timestamp_ns =
     (let c1 = c\<lparr>ntc_state := NS_kConnecting, ntc_transport := k\<rparr> in
      if error \<noteq> TE_kNone
      then map_option (\<lambda>c2. (c2, MapTransportError error)) (FailWith ops c1 (MapTransportError error) timestamp_ns)
      else Some (c1\<lparr>ntc_state := NS_kConnected, ntc_metrics := ClearLastError (MarkConnected (ntc_metrics c1))\<rparr>,
                 NE_kNone))"

definition transport_config_of :: "'k NtripClient \<Rightarrow> TcpClientConfig" where
  "transport_config_of c =
     (let config = ntc_config c in
      (ntc_tcp_config c)
        \<lparr>tc_host := nc_host config, tc_port := nc_port config, tc_tls_enabled := nc_tls_enabled config,
         tc_tls_verify_peer := nc_tls_verify_peer config, tc_tls_ca_file := nc_tls_ca_file config,
         tc_tls_client_certificate_file := nc_tls_client_certificate_file config,
         tc_tls_client_private_key_file := nc_tls_client_private_key_file config\<rparr>)"

definition client_Connect ::
  "'k tcp_ops \<Rightarrow> 'k NtripClient \<Rightarrow> timestamp_ns option \<Rightarrow> ('k NtripClient \<times> NtripClientError) option" where
  "client_Connect ops c timestamp_ns =
     (let transport_config = transport_config_of c; c1 = begin_connection ops c in
      if tc_host transport_config = [] \<or> tc_port transport_config = 0
      then map_option (\<lambda>c2. (c2, NE_kConfiguration)) (FailWith ops c1 NE_kConfiguration timestamp_ns)
      else
        let (k, error) = tcp_open ops (ntc_transport c1) transport_config in
        finish_connection ops c1 k error timestamp_ns)"

definition AdoptConnectedSocket ::
  "'k tcp_ops \<Rightarrow> 'k NtripClient \<Rightarrow> int \<Rightarrow> ('k NtripClient \<times> NtripClientError) option" where
  "AdoptConnectedSocket ops c fd =
     (let c1 = begin_connection ops c; (k, error) = tcp_adopt ops (ntc_transport c1) fd (ntc_tcp_config c1) in
      finish_connection ops c1 k error None)"

definition Disconnect :: "'k tcp_ops \<Rightarrow> 'k NtripClient \<Rightarrow> NtripClientError \<Rightarrow> 'k NtripClient" where
  "Disconnect ops c error =
     c\<lparr>ntc_transport := tcp_close ops (ntc_transport c), ntc_state := NS_kDisconnected,
       ntc_metrics := MarkDisconnected (ntc_metrics c) error\<rparr>"

text \<open>The write loop of \<open>SendRequest\<close> on what is left of the request.  A write that accepts nothing ends it; one
  that claims more than it was offered would end the C++ loop too.\<close>

function send_remaining ::
  "'k tcp_ops \<Rightarrow> 'k NtripClient \<Rightarrow> bytes \<Rightarrow> timestamp_ns option \<Rightarrow> ('k NtripClient \<times> NtripClientError) option" where
  "send_remaining ops c rest timestamp_ns =
     (if rest = [] then Some (c\<lparr>ntc_metrics := MarkRequestSent (ntc_metrics c)\<rparr>, NE_kNone)
      else
        let (k, write_result) = tcp_write ops (ntc_transport c) rest; c1 = c\<lparr>ntc_transport := k\<rparr> in
        if wr_status write_result \<noteq> TS_kOk then
          map_option (\<lambda>c2. (c2, MapTransportError (wr_error write_result)))
            (FailWith ops c1 (MapTransportError (wr_error write_result)) timestamp_ns)
        else if wr_bytes_written write_result = 0 then
          map_option (\<lambda>c2. (c2, NE_kTimeout)) (FailWith ops c1 NE_kTimeout timestamp_ns)
        else
          send_remaining ops (c1\<lparr>ntc_metrics := NoteSentBytes (ntc_metrics c1) (wr_bytes_written write_result)\<rparr>)
            (drop (wr_bytes_written write_result) rest) timestamp_ns)"
  by pat_completeness auto
termination by (relation "measure (\<lambda>(ops, c, rest, t). length rest)") auto

declare send_remaining.simps [simp del]

definition SendRequest ::
  "'k tcp_ops \<Rightarrow> 'k NtripClient \<Rightarrow> timestamp_ns option \<Rightarrow> ('k NtripClient \<times> NtripClientError) option" where
  "SendRequest ops c timestamp_ns =
     (if \<not> tcp_is_open ops (ntc_transport c) \<or> ntc_state c = NS_kDisconnected
      then map_option (\<lambda>c1. (c1, NE_kDisconnected)) (FailWith ops c NE_kDisconnected timestamp_ns)
      else if ntc_state c = NS_kFailed then Some (c, nm_last_error (ntc_metrics c))
      else if nm_request_sent (ntc_metrics c) then Some (c, NE_kNone)
      else
        let c1 = c\<lparr>ntc_request := BuildNtripGetRequest (ntc_config c)\<rparr> in
        send_remaining ops c1 (bytes_of (nr_request_text (ntc_request c1))) timestamp_ns)"

subsection \<open>Receiving\<close>

definition note_parsed ::
  "NtripConnectionMetrics \<Rightarrow> RtcmFrame ParserResult \<Rightarrow> NtripConnectionMetrics \<times> nat \<times> RtcmFrame list" where
  "note_parsed m parsed =
     (case pr_status parsed of
        PS_kIdle \<Rightarrow> (m, 0, [])
      | PS_kNeedMoreData \<Rightarrow> (m, 0, [])
      | PS_kSkipped \<Rightarrow> (m, 0, [])
      | PS_kRecordReady \<Rightarrow>
          (case pr_record parsed of
             None \<Rightarrow> (NoteRtcmFrame m None False, 1, [])
           | Some frame \<Rightarrow>
               let valid_frame = (rtcm_checksum_status frame = CS_kValid) in
               (NoteRtcmFrame m (Some (rtcm_message_type frame)) valid_frame, 1, if valid_frame then [frame] else []))
      | _ \<Rightarrow> (NoteRtcmFrame m None False, 1, []))"

text \<open>The number of frames seen, which no caller uses, and the frames appended to \<open>observed_frames\<close>.\<close>

fun FeedRtcmMonitor ::
  "'k NtripClient \<Rightarrow> bytes \<Rightarrow> timestamp_ns option \<Rightarrow> 'k NtripClient \<times> nat \<times> RtcmFrame list" where
  "FeedRtcmMonitor c [] ts = (c, 0, [])"
| "FeedRtcmMonitor c (b # bs) ts =
     (let (framer, parsed) = rtcm_PushByte (ntc_rtcm_framer c) b ts;
          (m, n, observed) = note_parsed (ntc_metrics c) parsed;
          (c1, n1, observed1) = FeedRtcmMonitor (c\<lparr>ntc_rtcm_framer := framer, ntc_metrics := m\<rparr>) bs ts in
      (c1, n + n1, observed @ observed1))"

definition operational_threshold :: "NtripConfig \<Rightarrow> u64" where
  "operational_threshold config = max 1 (ucast (nc_operational_min_valid_rtcm_frames config))"

definition NoteCorrectionFlowProgress ::
  "'k NtripClient \<Rightarrow> u64 \<Rightarrow> timestamp_ns option \<Rightarrow> int \<Rightarrow> 'k NtripClient" where
  "NoteCorrectionFlowProgress c valid_frame_count timestamp_ns steady_now =
     (if valid_frame_count = 0 then c
      else
        let flow = ntc_correction_flow_state c;
            frames = (if cf_valid_rtcm_frames flow > - 1 - valid_frame_count then - 1
                      else cf_valid_rtcm_frames flow + valid_frame_count);
            flow1 = flow\<lparr>cf_valid_rtcm_frames := frames\<rparr>;
            flow2 = (if timestamp_ns \<noteq> None
                     then flow1\<lparr>cf_first_valid_rtcm_frame_timestamp_ns :=
                                  (case cf_first_valid_rtcm_frame_timestamp_ns flow1 of
                                     None \<Rightarrow> timestamp_ns | Some t \<Rightarrow> Some t),
                                cf_last_valid_rtcm_frame_timestamp_ns := timestamp_ns\<rparr>
                     else flow1);
            c1 = c\<lparr>ntc_correction_flow_state := flow2,
                   ntc_last_valid_rtcm_frame_steady_time := Some steady_now\<rparr> in
        if \<not> cf_operational flow2 \<and> cf_valid_rtcm_frames flow2 \<ge> operational_threshold (ntc_config c1)
        then RecordReconnectSuccess (c1\<lparr>ntc_correction_flow_state := flow2\<lparr>cf_operational := True\<rparr>\<rparr>) timestamp_ns
        else c1)"

definition IsCorrectionFlowing :: "'k NtripClient \<Rightarrow> int \<Rightarrow> bool" where
  "IsCorrectionFlowing c steady_now \<longleftrightarrow>
     cf_valid_rtcm_frames (ntc_correction_flow_state c) \<noteq> 0
     \<and> (nc_rtcm_frame_timeout_ms (ntc_config c) = 0
        \<or> \<not> HasSteadyElapsed (ntc_last_valid_rtcm_frame_steady_time c) (nc_rtcm_frame_timeout_ms (ntc_config c)) steady_now)"

definition correction_flow_timed_out :: "'k NtripClient \<Rightarrow> int \<Rightarrow> bool" where
  "correction_flow_timed_out c steady_now \<longleftrightarrow>
     ntc_state c = NS_kStreaming \<and> cf_response_accepted (ntc_correction_flow_state c)
     \<and> (if cf_valid_rtcm_frames (ntc_correction_flow_state c) > 0
        then HasSteadyElapsed (ntc_last_valid_rtcm_frame_steady_time c) (nc_rtcm_frame_timeout_ms (ntc_config c)) steady_now
        else HasSteadyElapsed (ntc_response_accepted_steady_time c) (nc_first_rtcm_frame_timeout_ms (ntc_config c)) steady_now)"

text \<open>The samples of the steady clock in one \<open>Read\<close>: at the timeout check, when the response is accepted, and
  when valid frames are noted.\<close>

record steady_samples =
  st_check :: int
  st_accepted :: int
  st_progress :: int

text \<open>Passing correction bytes on: to the framer, and their frames to the flow state.\<close>

definition deliver ::
  "'k NtripClient \<Rightarrow> bytes \<Rightarrow> timestamp_ns option \<Rightarrow> int \<Rightarrow> 'k NtripClient \<times> RtcmFrame list" where
  "deliver c payload timestamp_ns steady_now =
     (let valid_frames_before = nm_rtcm_frames_received (ntc_metrics c);
          (c1, _, observed) = FeedRtcmMonitor c payload timestamp_ns in
      (NoteCorrectionFlowProgress c1 (nm_rtcm_frames_received (ntc_metrics c1) - valid_frames_before) timestamp_ns
         steady_now,
       observed))"

definition accept_response :: "'k NtripClient \<Rightarrow> timestamp_ns option \<Rightarrow> steady_samples \<Rightarrow> 'k NtripClient" where
  "accept_response c timestamp_ns steady =
     c\<lparr>ntc_metrics := MarkResponseReceived (ntc_metrics c), ntc_state := NS_kStreaming,
       ntc_correction_flow_state :=
         (ntc_correction_flow_state c)\<lparr>cf_response_accepted := True,
            cf_response_accepted_timestamp_ns := timestamp_ns\<rparr>,
       ntc_response_accepted_steady_time := Some (st_accepted steady)\<rparr>"

definition HandleResponseBytes ::
  "'k NtripClient \<Rightarrow> bytes \<Rightarrow> nat \<Rightarrow> timestamp_ns option \<Rightarrow> steady_samples
     \<Rightarrow> 'k NtripClient \<times> NtripClientError \<times> bytes \<times> RtcmFrame list" where
  "HandleResponseBytes c data capacity timestamp_ns steady =
     (let buffer = ntc_response_buffer c @ text_of data;
          c1 = c\<lparr>ntc_response_buffer := buffer\<rparr>;
          header_terminator = FindResponseHeaderTerminator buffer;
          effective_terminator =
            (if header_terminator \<noteq> None then header_terminator else FindLegacyIcyPayloadStart buffer) in
      (case effective_terminator of
         None \<Rightarrow> (c1, if length buffer > kMaxResponseHeaderBytes then NE_kProtocol else NE_kNone, [], [])
       | Some (offset, terminator_size) \<Rightarrow>
           let header_size = offset + terminator_size;
               header_text = take header_size buffer;
               header_error = ParseNtripResponseStatus header_text;
               c2 = c1\<lparr>ntc_response_header := header_text\<rparr> in
           if header_error \<noteq> NE_kNone then (c2, header_error, [], [])
           else
             let c3 = accept_response c2 timestamp_ns steady;
                 payload = bytes_of (take capacity (drop header_size buffer));
                 (c4, observed) =
                   (if payload \<noteq> [] then deliver c3 payload timestamp_ns (st_progress steady) else (c3, [])) in
             (c4\<lparr>ntc_response_buffer := []\<rparr>, NE_kNone, payload, observed)))"

text \<open>\<open>Read\<close> gives the result, the bytes written to the destination and the frames observed.\<close>

type_synonym 'k client_read = "'k NtripClient \<times> NtripClientReadResult \<times> bytes \<times> RtcmFrame list"

definition client_Read ::
  "'k tcp_ops \<Rightarrow> 'k NtripClient \<Rightarrow> bool \<Rightarrow> nat \<Rightarrow> timestamp_ns option \<Rightarrow> steady_samples \<Rightarrow> 'k client_read option" where
  "client_Read ops c destination_is_null capacity timestamp_ns steady =
     (let result = NtripClientReadResult_default in
      if capacity = 0 then Some (c, result, [], [])
      else if destination_is_null then
        Some (c, result\<lparr>crr_transport_status := TS_kError, crr_transport_error := TE_kInvalidArgument,
                        crr_client_error := NE_kConfiguration\<rparr>, [], [])
      else if \<not> tcp_is_open ops (ntc_transport c) \<or> ntc_state c = NS_kDisconnected then
        Some (c, result\<lparr>crr_transport_status := TS_kClosed, crr_transport_error := TE_kClosed,
                        crr_client_error := NE_kDisconnected\<rparr>, [], [])
      else if ntc_state c = NS_kFailed then
        Some (c, result\<lparr>crr_transport_status := TS_kError, crr_transport_error := TE_kUnknown,
                        crr_client_error := nm_last_error (ntc_metrics c)\<rparr>, [], [])
      else if \<not> nm_request_sent (ntc_metrics c) then
        Some (c, result\<lparr>crr_transport_status := TS_kError, crr_transport_error := TE_kInvalidArgument,
                        crr_client_error := NE_kProtocol\<rparr>, [], [])
      else if correction_flow_timed_out c (st_check steady) then
        map_option
          (\<lambda>c1. (c1, result\<lparr>crr_transport_status := TS_kError, crr_transport_error := TE_kTimeout,
                            crr_client_error := NE_kTimeout\<rparr>, [], []))
          (FailWith ops c NE_kTimeout timestamp_ns)
      else
        let (k, read_result, data) = tcp_read ops (ntc_transport c) capacity;
            c1 = c\<lparr>ntc_transport := k\<rparr>;
            r1 = result\<lparr>crr_transport_status := rr_status read_result, crr_transport_error := rr_error read_result\<rparr> in
        if rr_bytes_read read_result = 0 then
          if rr_status read_result = TS_kOk then Some (c1, r1, [], [])
          else
            let error = (if rr_status read_result = TS_kEndOfStream \<or> rr_status read_result = TS_kClosed
                         then NE_kDisconnected else MapTransportError (rr_error read_result)) in
            map_option (\<lambda>c2. (c2, r1\<lparr>crr_client_error := error\<rparr>, [], [])) (FailWith ops c1 error timestamp_ns)
        else
          let c2 = c1\<lparr>ntc_metrics := NoteReceivedBytes (ntc_metrics c1) (rr_bytes_read read_result)\<rparr> in
          if ntc_state c2 = NS_kStreaming then
            let (c3, observed) = deliver c2 data timestamp_ns (st_progress steady) in
            Some (c3, r1\<lparr>crr_bytes_read := rr_bytes_read read_result\<rparr>, data, observed)
          else
            let (c3, error, payload, observed) = HandleResponseBytes c2 data capacity timestamp_ns steady;
                r2 = r1\<lparr>crr_client_error := error, crr_bytes_read := length payload\<rparr> in
            if error \<noteq> NE_kNone then map_option (\<lambda>c4. (c4, r2, payload, observed)) (FailWith ops c3 error timestamp_ns)
            else Some (c3, r2, payload, observed))"

end
