(* ===== verification/Ntrip_Delivery.thy ===== *)
theory Ntrip_Delivery
  imports Ntrip_Client
begin

text \<open>
  What a reader of \<open>NtripClient::Read\<close> gets: behind a complete response head, exactly the bytes of the
  payload, whatever the sizes of the reads, and the valid frames of the RTCM framer over them.  The transport is
  the locale \<open>tcp_link\<close>, interpreted on \<open>MemoryByteDuplex\<close>.
\<close>

section \<open>The frames of a read are those of the framer\<close>

lemma rtcm_PushByte_status:
  "pr_record (snd (rtcm_PushByte s b t)) = (if pr_status (snd (rtcm_PushByte s b t)) = PS_kRecordReady
     then Some (the (pr_record (snd (rtcm_PushByte s b t)))) else None)"
  by (auto simp: rtcm_PushByte_def rtcm_StartFrame_def rtcm_Complete_def Let_def split: option.split)

text \<open>The metrics of the link itself, which no frame changes.\<close>

definition link_metrics :: "NtripConnectionMetrics \<Rightarrow> bool \<times> bool \<times> bool \<times> NtripClientError" where
  "link_metrics m = (nm_connected m, nm_request_sent m, nm_response_received m, nm_last_error m)"

lemma NoteRtcmFrame_received [simp]:
  "nm_rtcm_frames_received (NoteRtcmFrame m t v) = nm_rtcm_frames_received m + (if v then 1 else 0)"
  "link_metrics (NoteRtcmFrame m t v) = link_metrics m"
  by (simp_all add: NoteRtcmFrame_def link_metrics_def Let_def)

abbreviation valid_frames :: "RtcmFrame list \<Rightarrow> RtcmFrame list" where
  "valid_frames \<equiv> filter (\<lambda>f. rtcm_checksum_status f = CS_kValid)"

definition stamp :: "timestamp_ns option \<Rightarrow> bytes \<Rightarrow> stamped list" where
  "stamp ts bs = map (\<lambda>b. (b, ts)) bs"

lemma note_parsed_frames:
  assumes "pr_record r = (if pr_status r = PS_kRecordReady then Some (the (pr_record r)) else None)"
    and "note_parsed m r = (m1, n, obs)"
  shows "obs = valid_frames (emitted [r])
    \<and> nm_rtcm_frames_received m1 = nm_rtcm_frames_received m + word_of_nat (length obs)
    \<and> link_metrics m1 = link_metrics m"
  using assms
  by (cases "pr_status r"; cases "pr_record r")
    (auto simp: note_parsed_def emitted_Cons Let_def split: if_splits)

text \<open>\<open>FeedRtcmMonitor\<close> touches the framer and the metrics only.\<close>

lemma FeedRtcmMonitor_frames:
  "FeedRtcmMonitor c bs ts = (c1, n, obs) \<Longrightarrow>
     (\<exists>m. c1 = c\<lparr>ntc_rtcm_framer := fst (feed rtcm_PushByte (ntc_rtcm_framer c) (stamp ts bs)), ntc_metrics := m\<rparr>
       \<and> nm_rtcm_frames_received m = nm_rtcm_frames_received (ntc_metrics c) + word_of_nat (length obs)
       \<and> link_metrics m = link_metrics (ntc_metrics c))
     \<and> obs = valid_frames (emitted (snd (feed rtcm_PushByte (ntc_rtcm_framer c) (stamp ts bs))))"
proof (induction bs arbitrary: c c1 n obs)
  case Nil
  then show ?case by (auto simp: stamp_def intro!: exI [of _ "ntc_metrics c"])
next
  case (Cons b bs)
  obtain f r where push: "rtcm_PushByte (ntc_rtcm_framer c) b ts = (f, r)" by fastforce
  obtain m n1 obs1 where np: "note_parsed (ntc_metrics c) r = (m, n1, obs1)" by (metis prod_cases3)
  let ?c = "c\<lparr>ntc_rtcm_framer := f, ntc_metrics := m\<rparr>"
  obtain c2 n2 obs2 where rest: "FeedRtcmMonitor ?c bs ts = (c2, n2, obs2)" by (metis prod_cases3)
  from Cons.prems have eqs: "c1 = c2" "obs = obs1 @ obs2" by (simp_all add: push np rest)
  from note_parsed_frames [OF rtcm_PushByte_status [of "ntc_rtcm_framer c" b ts, unfolded push snd_conv] np]
  have step: "obs1 = valid_frames (emitted [r])"
    "nm_rtcm_frames_received m = nm_rtcm_frames_received (ntc_metrics c) + word_of_nat (length obs1)"
    "link_metrics m = link_metrics (ntc_metrics c)"
    by blast+
  from Cons.IH [OF rest] obtain m2 where ih:
    "c2 = ?c\<lparr>ntc_rtcm_framer := fst (feed rtcm_PushByte f (stamp ts bs)), ntc_metrics := m2\<rparr>"
    "nm_rtcm_frames_received m2 = nm_rtcm_frames_received m + word_of_nat (length obs2)"
    "link_metrics m2 = link_metrics m"
    "obs2 = valid_frames (emitted (snd (feed rtcm_PushByte f (stamp ts bs))))" by auto
  have feed: "feed rtcm_PushByte (ntc_rtcm_framer c) (stamp ts (b # bs))
      = (fst (feed rtcm_PushByte f (stamp ts bs)), r # snd (feed rtcm_PushByte f (stamp ts bs)))"
    by (simp add: stamp_def push split_beta)
  have em: "emitted (r # snd (feed rtcm_PushByte f (stamp ts bs)))
      = emitted [r] @ emitted (snd (feed rtcm_PushByte f (stamp ts bs)))"
    by (simp add: emitted_Cons)
  have "obs = valid_frames (emitted (snd (feed rtcm_PushByte (ntc_rtcm_framer c) (stamp ts (b # bs)))))"
    unfolding feed eqs step(1) ih(4) snd_conv em by (simp only: filter_append)
  moreover have "c1 = c\<lparr>ntc_rtcm_framer := fst (feed rtcm_PushByte (ntc_rtcm_framer c) (stamp ts (b # bs))), ntc_metrics := m2\<rparr>"
    unfolding feed eqs ih(1) by simp
  moreover have "nm_rtcm_frames_received m2 = nm_rtcm_frames_received (ntc_metrics c) + word_of_nat (length obs)"
    by (simp add: ih(2) step(2) eqs)
  moreover have "link_metrics m2 = link_metrics (ntc_metrics c)" by (simp only: ih(3) step(3))
  ultimately show ?case by blast
qed

section \<open>What each step leaves alone\<close>

lemma RecordReconnectSuccess_simps [simp]:
  "ntc_transport (RecordReconnectSuccess c t) = ntc_transport c"
  "ntc_state (RecordReconnectSuccess c t) = ntc_state c"
  "ntc_config (RecordReconnectSuccess c t) = ntc_config c"
  "ntc_response_buffer (RecordReconnectSuccess c t) = ntc_response_buffer c"
  "ntc_response_header (RecordReconnectSuccess c t) = ntc_response_header c"
  "ntc_metrics (RecordReconnectSuccess c t) = ntc_metrics c"
  "ntc_rtcm_framer (RecordReconnectSuccess c t) = ntc_rtcm_framer c"
  "ntc_correction_flow_state (RecordReconnectSuccess c t) = ntc_correction_flow_state c"
  by (simp_all add: RecordReconnectSuccess_def Let_def)

lemma NoteCorrectionFlowProgress_simps [simp]:
  "ntc_transport (NoteCorrectionFlowProgress c n t now) = ntc_transport c"
  "ntc_state (NoteCorrectionFlowProgress c n t now) = ntc_state c"
  "ntc_config (NoteCorrectionFlowProgress c n t now) = ntc_config c"
  "ntc_response_buffer (NoteCorrectionFlowProgress c n t now) = ntc_response_buffer c"
  "ntc_response_header (NoteCorrectionFlowProgress c n t now) = ntc_response_header c"
  "ntc_metrics (NoteCorrectionFlowProgress c n t now) = ntc_metrics c"
  "ntc_rtcm_framer (NoteCorrectionFlowProgress c n t now) = ntc_rtcm_framer c"
  by (simp_all add: NoteCorrectionFlowProgress_def Let_def)

text \<open>Delivered bytes are what the framer is fed.\<close>

lemma deliver_facts:
  assumes "deliver c payload ts now = (c1, obs)"
  shows "ntc_transport c1 = ntc_transport c" "ntc_state c1 = ntc_state c" "ntc_config c1 = ntc_config c"
    "ntc_response_buffer c1 = ntc_response_buffer c" "ntc_response_header c1 = ntc_response_header c"
    "link_metrics (ntc_metrics c1) = link_metrics (ntc_metrics c)"
    "ntc_rtcm_framer c1 = fst (feed rtcm_PushByte (ntc_rtcm_framer c) (stamp ts payload))"
    "obs = valid_frames (emitted (snd (feed rtcm_PushByte (ntc_rtcm_framer c) (stamp ts payload))))"
proof -
  obtain c2 n obs2 where fm: "FeedRtcmMonitor c payload ts = (c2, n, obs2)" by (metis prod_cases3)
  from FeedRtcmMonitor_frames [OF fm] assms
  show "ntc_transport c1 = ntc_transport c" "ntc_state c1 = ntc_state c" "ntc_config c1 = ntc_config c"
    "ntc_response_buffer c1 = ntc_response_buffer c" "ntc_response_header c1 = ntc_response_header c"
    "link_metrics (ntc_metrics c1) = link_metrics (ntc_metrics c)"
    "ntc_rtcm_framer c1 = fst (feed rtcm_PushByte (ntc_rtcm_framer c) (stamp ts payload))"
    "obs = valid_frames (emitted (snd (feed rtcm_PushByte (ntc_rtcm_framer c) (stamp ts payload))))"
    by (auto simp: deliver_def fm Let_def)
qed

text \<open>A failure closes the transport, and is always recorded when the backoff is defined.\<close>

lemma OnFailure_total: "rpol_multiplier policy \<noteq> NaN \<Longrightarrow> \<exists>r. OnFailure policy s t = Some r"
  using ComputeNextDelayMs_total [of policy "s\<lparr>rs_last_failure_time_ns := Some t\<rparr>"]
  by (auto simp: OnFailure_def Let_def)

lemma FailWith_facts:
  assumes "FailWith ops c error ts = Some c1"
  shows "ntc_state c1 = NS_kFailed" "ntc_config c1 = ntc_config c" "ntc_rtcm_framer c1 = ntc_rtcm_framer c"
    "ntc_transport c1 = tcp_close ops (ntc_transport c)" "nm_last_error (ntc_metrics c1) = error"
    "ntc_response_header c1 = ntc_response_header c" "ntc_correction_flow_state c1 = ntc_correction_flow_state c"
    "nm_request_sent (ntc_metrics c1) = nm_request_sent (ntc_metrics c)"
    "nm_connected (ntc_metrics c1) = False"
  using assms
  by (auto simp: FailWith_def RecordReconnectFailure_def MarkDisconnected_def ntrip_NoteReconnect_def Let_def
      split: if_splits option.splits)

lemma FailWith_total:
  assumes "rpol_multiplier (nc_reconnect_policy (ntc_config c)) \<noteq> NaN"
  shows "\<exists>c1. FailWith ops c error ts = Some c1"
  using OnFailure_total [OF assms, of "ntc_reconnect_state c" "case ts of None \<Rightarrow> 0 | Some t \<Rightarrow> t"]
  by (auto simp: FailWith_def RecordReconnectFailure_def Let_def split: option.split)

section \<open>The head of a response\<close>

text \<open>A complete head: it ends with its first empty line, it holds printable characters and line ends only, its
  status line has no bare line feed and is accepted, and it is at most 8192 characters long.\<close>

definition header_char :: "char \<Rightarrow> bool" where
  "header_char c \<longleftrightarrow> \<not> icy_payload_char c"

definition response_head :: "string \<Rightarrow> bool" where
  "response_head h \<longleftrightarrow>
     find_sub (crlf @ crlf) h = Some (length h - 4) \<and> find_sub [CHR 0x0A, CHR 0x0A] h = None
     \<and> list_all header_char h \<and> CHR 0x0A \<notin> set (ExtractStatusLine h)
     \<and> IsAcceptedNtripStatusLine (ExtractStatusLine h) \<and> length h \<le> kMaxResponseHeaderBytes"

lemma find_sub_bound: "find_sub pat s = Some k \<Longrightarrow> k + length pat \<le> length s"
  using find_sub_Some [of pat s k] by (auto dest: prefix_length_le)

lemma find_sub_append: "find_sub pat xs = Some k \<Longrightarrow> find_sub pat (xs @ ys) = Some k"
proof (induction xs arbitrary: k)
  case Nil
  then show ?case by (cases ys) (auto split: if_splits)
next
  case (Cons x xs)
  show ?case
  proof (cases "prefix pat (x # xs)")
    case True
    then have "prefix pat (x # (xs @ ys))" by (metis append_Cons prefix_append)
    with True Cons.prems show ?thesis by simp
  next
    case False
    with Cons.prems obtain z where z: "find_sub pat xs = Some z" "k = Suc z" by auto
    from find_sub_bound [OF z(1)] have "\<not> prefix pat ((x # xs) @ ys)"
      using False by (metis (no_types) prefix_length_prefix prefix_def le_add2 le_trans length_Cons le_SucI)
    with z Cons.IH show ?thesis by simp
  qed
qed

lemma head_first_line:
  assumes "response_head h"
  obtains A rest where "h = (A @ crlf) @ rest" and "CHR 0x0A \<notin> set A"
proof -
  from assms have "sublist (crlf @ crlf) h"
    using find_sub_None [of "crlf @ crlf" h] by (simp add: response_head_def)
  then have "sublist crlf h" by (auto simp: sublist_def)
  then obtain k where k: "find_sub crlf h = Some k" using find_sub_None [of crlf h] by (cases "find_sub crlf h") auto
  from find_sub_Some [OF k] obtain rest where "drop k h = crlf @ rest" by (auto simp: prefix_def)
  then have "h = (take k h @ crlf) @ rest" by (metis append.assoc append_take_drop_id)
  moreover have "CHR 0x0A \<notin> set (take k h)" using assms k by (simp add: response_head_def ExtractStatusLine_def)
  ultimately show ?thesis by (rule that)
qed

lemma accepted_nonempty: "IsAcceptedNtripStatusLine l \<Longrightarrow> l \<noteq> []"
  by (auto simp: IsAcceptedNtripStatusLine_def HasExactNtripStatusCode_def StartsWith_def)

text \<open>While the head is incomplete, no terminator is seen.\<close>

lemma head_incomplete:
  assumes h: "response_head h" and "h = p @ q" and "q \<noteq> []"
  shows "FindResponseHeaderTerminator p = None" "FindLegacyIcyPayloadStart p = None"
proof -
  have no4: "find_sub (crlf @ crlf) p = None"
  proof (rule ccontr)
    assume "find_sub (crlf @ crlf) p \<noteq> None"
    then obtain k where k: "find_sub (crlf @ crlf) p = Some k" by blast
    from find_sub_append [OF k, of q] h assms(2) have "k = length h - 4" by (simp add: response_head_def)
    with find_sub_bound [OF k] assms(2,3) show False by (cases q) auto
  qed
  have no2: "find_sub [CHR 0x0A, CHR 0x0A] p = None"
    using find_sub_append [of "[CHR 0x0A, CHR 0x0A]" p _ q] h assms(2)
    by (cases "find_sub [CHR 0x0A, CHR 0x0A] p") (auto simp: response_head_def)
  show "FindResponseHeaderTerminator p = None" using no4 no2 by (simp add: FindResponseHeaderTerminator_def)
  have chars: "list_all header_char p" using h assms(2) by (simp add: response_head_def)
  have lf: "CHR 0x0A \<notin> set (ExtractStatusLine h)" and acc: "IsAcceptedNtripStatusLine (ExtractStatusLine h)"
    using h by (simp_all add: response_head_def)
  show "FindLegacyIcyPayloadStart p = None"
  proof (cases "find_sub crlf p")
    case (Some k)
    have "take k p = ExtractStatusLine h"
      using find_sub_append [OF Some, of q] find_sub_bound [OF Some] assms(2) by (simp add: ExtractStatusLine_def)
    with acc have line: "IsAcceptedNtripStatusLine (take k p)" by simp
    have "\<not> list_ex icy_payload_char (drop (k + 2) p)"
      using chars by (auto simp: list_ex_iff list_all_iff header_char_def dest: in_set_dropD)
    with line Some show ?thesis by (simp add: FindLegacyIcyPayloadStart_def Let_def)
  next
    case None
    have "CHR 0x0A \<notin> set p"
    proof
      assume mem: "CHR 0x0A \<in> set p"
      obtain A rest where split: "h = (A @ crlf) @ rest" and no: "CHR 0x0A \<notin> set A"
        using head_first_line [OF h] by blast
      from split assms(2) have "p @ q = (A @ crlf) @ rest" by simp
      then obtain us where us: "p = (A @ crlf) @ us \<or> p @ us = A @ crlf"
        unfolding append_eq_append_conv2 by blast
      show False
      proof (cases "us = [] \<or> p = (A @ crlf) @ us")
        case True
        with us have "p = (A @ crlf) @ us" by auto
        then have "sublist crlf p" by (auto simp: sublist_def)
        with None find_sub_None show False by blast
      next
        case False
        then obtain vs v where "us = vs @ [v]" by (metis rev_exhaust)
        with us False have "(p @ vs) @ [v] = (A @ [CHR 0x0D]) @ [CHR 0x0A]" by simp
        then have "p @ vs = A @ [CHR 0x0D]" by (simp only: append1_eq_conv)
        from arg_cong [OF this, of set] have "set p \<subseteq> set (A @ [CHR 0x0D])" by (metis Un_upper1 set_append)
        with mem no show False by auto
      qed
    qed
    with None show ?thesis by (simp add: FindLegacyIcyPayloadStart_def find_char_None [THEN iffD2])
  qed
qed

text \<open>Once it is complete, it is recognised as the head, whatever follows it.\<close>

lemma head_complete:
  assumes h: "response_head h"
  shows "FindResponseHeaderTerminator (h @ q) = Some (length h - 4, 4)" and "length h - 4 + 4 = length h"
    and "ParseNtripResponseStatus h = NE_kNone"
proof -
  from h have at: "find_sub (crlf @ crlf) h = Some (length h - 4)" by (simp add: response_head_def)
  from find_sub_append [OF at] show "FindResponseHeaderTerminator (h @ q) = Some (length h - 4, 4)"
    by (simp add: FindResponseHeaderTerminator_def)
  from find_sub_bound [OF at] show "length h - 4 + 4 = length h" by simp
  from h show "ParseNtripResponseStatus h = NE_kNone"
    by (auto simp: ParseNtripResponseStatus_def response_head_def Let_def dest: accepted_nonempty)
qed

section \<open>The transport\<close>

text \<open>\<open>wire k\<close> is what is still to be read.  A read takes a prefix of it, as long as the count it reports and
  no longer than the buffer; a closed transport is not open.\<close>

locale tcp_link =
  fixes ops :: "'k tcp_ops"
    and wire :: "'k \<Rightarrow> bytes"
  assumes close_closed: "\<not> tcp_is_open ops (tcp_close ops k)"
    and read_law: "\<lbrakk>tcp_is_open ops k; tcp_read ops k n = (k1, rr, bs)\<rbrakk> \<Longrightarrow>
      rr_bytes_read rr = length bs \<and> length bs \<le> n \<and> wire k = bs @ wire k1
      \<and> (rr_status rr = TS_kOk \<or> bs \<noteq> [] \<longrightarrow> tcp_is_open ops k1)"
begin

text \<open>Where a client stands after \<open>out\<close> was delivered: inside the head, behind it, or stopped.\<close>

definition receiving :: "string \<Rightarrow> bytes \<Rightarrow> 'k NtripClient \<Rightarrow> bytes \<Rightarrow> bool" where
  "receiving h payload c out \<longleftrightarrow>
     (if tcp_is_open ops (ntc_transport c) then
        ntc_state c = NS_kConnected \<and> out = [] \<and> length (ntc_response_buffer c) < length h
          \<and> ntc_response_buffer c @ text_of (wire (ntc_transport c)) = h @ text_of payload
        \<or> ntc_state c = NS_kStreaming \<and> ntc_response_header c = h \<and> out @ wire (ntc_transport c) = payload
      else ntc_state c = NS_kFailed \<and> prefix out payload)"

text \<open>What a read adds: the bytes, and the frames of the framer over them.\<close>

definition reads_on ::
  "'k NtripClient \<Rightarrow> 'k NtripClient \<Rightarrow> timestamp_ns option \<Rightarrow> bytes \<Rightarrow> RtcmFrame list \<Rightarrow> bool" where
  "reads_on c c1 ts bs obs \<longleftrightarrow>
     ntc_config c1 = ntc_config c
     \<and> ntc_rtcm_framer c1 = fst (feed rtcm_PushByte (ntc_rtcm_framer c) (stamp ts bs))
     \<and> obs = valid_frames (emitted (snd (feed rtcm_PushByte (ntc_rtcm_framer c) (stamp ts bs))))"

lemma reads_on_same: "ntc_config c1 = ntc_config c \<Longrightarrow> ntc_rtcm_framer c1 = ntc_rtcm_framer c \<Longrightarrow> reads_on c c1 ts [] []"
  by (simp add: reads_on_def stamp_def)

lemma receiving_failed:
  assumes "FailWith ops c error ts = Some c1" and "prefix out payload"
  shows "receiving h payload c1 out"
  using assms close_closed by (simp add: receiving_def FailWith_facts)

lemma receiving_prefix: "receiving h payload c out \<Longrightarrow> prefix out payload"
  by (auto simp: receiving_def split: if_splits)

text \<open>Bytes that arrive inside the head.\<close>

lemma handle_head:
  assumes h: "response_head h" and cap: "length data \<le> capacity" "data \<noteq> []"
    and buffer: "length (ntc_response_buffer c) < length h"
      "ntc_response_buffer c @ text_of (data @ rest) = h @ text_of payload"
    and run: "HandleResponseBytes c data capacity ts steady = (c1, error, bs, obs)"
  shows "error = NE_kNone \<and> ntc_transport c1 = ntc_transport c \<and> reads_on c c1 ts bs obs
    \<and> (ntc_state c1 = ntc_state c \<and> bs = [] \<and> length (ntc_response_buffer c1) < length h
         \<and> ntc_response_buffer c1 @ text_of rest = h @ text_of payload
       \<or> ntc_state c1 = NS_kStreaming \<and> ntc_response_header c1 = h \<and> bs @ rest = payload)"
proof -
  define b where b: "b = ntc_response_buffer c @ text_of data"
  from buffer(2) have eq: "b @ text_of rest = h @ text_of payload" by (simp add: b)
  show ?thesis
  proof (cases "length b < length h")
    case True
    from eq obtain q where "h = b @ q" "q \<noteq> []"
      using True by (auto simp: append_eq_append_conv2)
    note none = head_incomplete [OF h this]
    have "length b \<le> 8192" using True h by (simp add: response_head_def)
    with run none have "c1 = c\<lparr>ntc_response_buffer := b\<rparr>" "error = NE_kNone" "bs = []" "obs = []"
      unfolding HandleResponseBytes_def b [symmetric] by (simp_all add: Let_def)
    with True eq show ?thesis by (simp add: reads_on_same)
  next
    case False
    from eq False obtain q where q: "b = h @ q" "q @ text_of rest = text_of payload"
      by (auto simp: append_eq_append_conv2)
    have "length q \<le> length data" using arg_cong [OF q(1), of length] buffer(1) by (simp add: b)
    with cap(1) have q_all: "take capacity q = q" by simp
    have bytes_q: "bytes_of q @ rest = payload"
      using arg_cong [OF q(2), of bytes_of] by simp
    define c3 where "c3 = accept_response (c\<lparr>ntc_response_buffer := h @ q, ntc_response_header := h\<rparr>) ts steady"
    have c3: "ntc_transport c3 = ntc_transport c" "ntc_state c3 = NS_kStreaming" "ntc_response_header c3 = h"
      "ntc_config c3 = ntc_config c" "ntc_rtcm_framer c3 = ntc_rtcm_framer c"
      by (simp_all add: c3_def accept_response_def)
    obtain c4 obs4 where d: "(if bytes_of q \<noteq> [] then deliver c3 (bytes_of q) ts (st_progress steady) else (c3, [])) = (c4, obs4)"
      by fastforce
    have res: "c1 = c4\<lparr>ntc_response_buffer := []\<rparr>" "error = NE_kNone" "bs = bytes_of q" "obs = obs4"
      using run d unfolding HandleResponseBytes_def b [symmetric]
      by (simp_all add: head_complete [OF h] q_all q(1) c3_def [symmetric] Let_def)
    have "ntc_transport c4 = ntc_transport c \<and> ntc_state c4 = NS_kStreaming \<and> ntc_response_header c4 = h \<and> reads_on c c4 ts bs obs"
    proof (cases "bytes_of q = []")
      case True
      with d have "c4 = c3" "obs4 = []" by (simp_all split: if_splits)
      with True res show ?thesis by (simp add: c3 reads_on_def stamp_def)
    next
      case False
      with d have "deliver c3 (bytes_of q) ts (st_progress steady) = (c4, obs4)" by (simp split: if_splits)
      from deliver_facts [OF this] show ?thesis unfolding res reads_on_def by (simp add: c3)
    qed
    with bytes_q show ?thesis by (simp add: res reads_on_def)
  qed
qed

text \<open>One call of \<open>Read\<close>.\<close>

lemma client_Read_step:
  assumes h: "response_head h" and recv: "receiving h payload c out"
    and finite: "rpol_multiplier (nc_reconnect_policy (ntc_config c)) \<noteq> NaN"
  shows "\<exists>c1 r bs obs. client_Read ops c False capacity ts steady = Some (c1, r, bs, obs)
    \<and> receiving h payload c1 (out @ bs) \<and> reads_on c c1 ts bs obs"
proof -
  let ?res = NtripClientReadResult_default
  have pre: "prefix out payload" by (rule receiving_prefix [OF recv])
  have quiet: "receiving h payload c (out @ []) \<and> reads_on c c ts [] []" using recv by (simp add: reads_on_same)
  have failed: "receiving h payload c2 (out @ []) \<and> reads_on c c2 ts [] []"
    if "FailWith ops c1 error ts = Some c2" "ntc_config c1 = ntc_config c" "ntc_rtcm_framer c1 = ntc_rtcm_framer c"
    for c1 c2 error
    using receiving_failed [OF that(1) pre] FailWith_facts(2,3) [OF that(1)] that(2,3)
    by (simp add: reads_on_same)
  have fails: "\<exists>c2. FailWith ops c1 error ts = Some c2" if "ntc_config c1 = ntc_config c" for c1 error
    by (rule FailWith_total) (simp add: that finite)
  obtain k rr data where rd: "tcp_read ops (ntc_transport c) capacity = (k, rr, data)" by (metis prod_cases3)
  define early where "early \<longleftrightarrow> capacity = 0 \<or> \<not> tcp_is_open ops (ntc_transport c) \<or> ntc_state c = NS_kDisconnected
    \<or> ntc_state c = NS_kFailed \<or> \<not> nm_request_sent (ntc_metrics c)"
  show ?thesis
  proof (cases "early \<or> correction_flow_timed_out c (st_check steady)")
    case True
    show ?thesis
    proof (cases early)
      case True
      then have "\<exists>r. client_Read ops c False capacity ts steady = Some (c, r, [], [])"
        by (auto simp: client_Read_def early_def Let_def)
      with quiet show ?thesis by blast
    next
      case False
      with \<open>early \<or> _\<close> have "\<exists>r. client_Read ops c False capacity ts steady
          = map_option (\<lambda>c1. (c1, r, [], [])) (FailWith ops c NE_kTimeout ts)"
        by (auto simp: client_Read_def early_def Let_def)
      with failed [of c NE_kTimeout] fails [of c NE_kTimeout] show ?thesis by fastforce
    qed
  next
    case False
    then have go: "capacity \<noteq> 0" "tcp_is_open ops (ntc_transport c)" "ntc_state c \<noteq> NS_kDisconnected"
      "ntc_state c \<noteq> NS_kFailed" "nm_request_sent (ntc_metrics c)" "\<not> correction_flow_timed_out c (st_check steady)"
      by (auto simp: early_def)
    note law = read_law [OF go(2) rd]
    let ?c1 = "c\<lparr>ntc_transport := k\<rparr>"
    show ?thesis
    proof (cases "data = []")
      case True
      show ?thesis
      proof (cases "rr_status rr = TS_kOk")
        case ok: True
        with True law go have "\<exists>r. client_Read ops c False capacity ts steady = Some (?c1, r, [], [])"
          by (auto simp: client_Read_def rd Let_def)
        moreover have "receiving h payload ?c1 (out @ [])"
          using recv law True ok go by (simp add: receiving_def)
        moreover have "reads_on c ?c1 ts [] []" by (simp add: reads_on_same)
        ultimately show ?thesis by blast
      next
        case err: False
        with True law go have "\<exists>r error. client_Read ops c False capacity ts steady
            = map_option (\<lambda>c2. (c2, r, [], [])) (FailWith ops ?c1 error ts)"
          by (auto simp: client_Read_def rd Let_def)
        then obtain r error where run: "client_Read ops c False capacity ts steady
            = map_option (\<lambda>c2. (c2, r, [], [])) (FailWith ops ?c1 error ts)" by blast
        obtain c2 where "FailWith ops ?c1 error ts = Some c2" using fails [of ?c1 error] by auto
        with run failed [of ?c1 error c2] show ?thesis by auto
      qed
    next
      case some: False
      then have n: "rr_bytes_read rr \<noteq> 0" "tcp_is_open ops k" "wire (ntc_transport c) = data @ wire k"
        "length data \<le> capacity" using law by auto
      define c2 where "c2 = ?c1\<lparr>ntc_metrics := NoteReceivedBytes (ntc_metrics c) (rr_bytes_read rr)\<rparr>"
      have c2: "ntc_transport c2 = k" "ntc_state c2 = ntc_state c" "ntc_config c2 = ntc_config c"
        "ntc_rtcm_framer c2 = ntc_rtcm_framer c" "ntc_response_buffer c2 = ntc_response_buffer c"
        "ntc_response_header c2 = ntc_response_header c"
        by (simp_all add: c2_def)
      show ?thesis
      proof (cases "ntc_state c = NS_kStreaming")
        case True
        obtain c3 obs where d: "deliver c2 data ts (st_progress steady) = (c3, obs)" by fastforce
        have "\<exists>r. client_Read ops c False capacity ts steady = Some (c3, r, data, obs)"
          using go n True d by (auto simp: client_Read_def rd c2_def Let_def)
        moreover have "receiving h payload c3 (out @ data)"
          using recv True go n deliver_facts [OF d] c2 by (simp add: receiving_def)
        moreover have "reads_on c c3 ts data obs" using deliver_facts [OF d] c2 by (simp add: reads_on_def)
        ultimately show ?thesis by blast
      next
        case False
        with recv go have inside: "ntc_state c = NS_kConnected" "out = []" "length (ntc_response_buffer c2) < length h"
          "ntc_response_buffer c2 @ text_of (data @ wire k) = h @ text_of payload"
          by (auto simp: receiving_def c2 n(3))
        obtain c3 error bs obs where hd: "HandleResponseBytes c2 data capacity ts steady = (c3, error, bs, obs)"
          by (metis prod_cases4)
        from handle_head [OF h n(4) some inside(3,4) hd] have
          ok: "error = NE_kNone" "ntc_transport c3 = k" "reads_on c2 c3 ts bs obs" and
          phase: "ntc_state c3 = NS_kConnected \<and> bs = [] \<and> length (ntc_response_buffer c3) < length h
              \<and> ntc_response_buffer c3 @ text_of (wire k) = h @ text_of payload
            \<or> ntc_state c3 = NS_kStreaming \<and> ntc_response_header c3 = h \<and> bs @ wire k = payload"
          by (simp_all add: c2 inside(1))
        have "\<exists>r. client_Read ops c False capacity ts steady = Some (c3, r, bs, obs)"
          using go n False hd ok(1) by (auto simp: client_Read_def rd c2_def Let_def)
        moreover have "receiving h payload c3 (out @ bs)" using phase ok(2) n(2) inside(2) by (simp add: receiving_def)
        moreover have "reads_on c c3 ts bs obs" using ok(3) c2 by (simp add: reads_on_def)
        ultimately show ?thesis by blast
      qed
    qed
  qed
qed

end

section \<open>Sequences of reads\<close>

type_synonym read_call = "nat \<times> timestamp_ns option \<times> steady_samples"

text \<open>The bytes and the frames of all calls, in order.\<close>

fun read_calls ::
  "'k tcp_ops \<Rightarrow> 'k NtripClient \<Rightarrow> read_call list \<Rightarrow> ('k NtripClient \<times> bytes \<times> RtcmFrame list) option" where
  "read_calls ops c [] = Some (c, [], [])"
| "read_calls ops c ((capacity, ts, steady) # calls) =
     (case client_Read ops c False capacity ts steady of
        None \<Rightarrow> None
      | Some (c1, r, bs, obs) \<Rightarrow>
          map_option (\<lambda>(c2, out, frames). (c2, bs @ out, obs @ frames)) (read_calls ops c1 calls))"

definition framed :: "RtcmFrameFramer \<Rightarrow> bytes \<Rightarrow> RtcmFrame list \<Rightarrow> bool" where
  "framed f out frames \<longleftrightarrow>
     (\<exists>stamps. map fst stamps = out \<and> frames = valid_frames (emitted (snd (feed rtcm_PushByte f stamps))))"

context tcp_link
begin

lemma read_calls_receiving:
  assumes h: "response_head h"
  shows "\<lbrakk>receiving h payload c out; rpol_multiplier (nc_reconnect_policy (ntc_config c)) \<noteq> NaN\<rbrakk> \<Longrightarrow>
    \<exists>c1 bs frames. read_calls ops c calls = Some (c1, bs, frames) \<and> receiving h payload c1 (out @ bs)
      \<and> framed (ntc_rtcm_framer c) bs frames"
proof (induction calls arbitrary: c out)
  case Nil
  then show ?case by (auto simp: framed_def intro!: exI [of _ "[]"])
next
  case (Cons call calls)
  obtain capacity ts steady where call: "call = (capacity, ts, steady)" by (metis prod_cases3)
  from client_Read_step [OF h Cons.prems, of capacity ts steady] obtain c1 r bs obs where
    one: "client_Read ops c False capacity ts steady = Some (c1, r, bs, obs)" "receiving h payload c1 (out @ bs)"
      "reads_on c c1 ts bs obs" by blast
  then have "rpol_multiplier (nc_reconnect_policy (ntc_config c1)) \<noteq> NaN" using Cons.prems(2) by (simp add: reads_on_def)
  from Cons.IH [OF one(2) this] obtain c2 bs2 frames where
    rest: "read_calls ops c1 calls = Some (c2, bs2, frames)" "receiving h payload c2 ((out @ bs) @ bs2)"
      "framed (ntc_rtcm_framer c1) bs2 frames" by blast
  from rest(3) obtain stamps where st: "map fst stamps = bs2"
    "frames = valid_frames (emitted (snd (feed rtcm_PushByte (ntc_rtcm_framer c1) stamps)))"
    by (auto simp: framed_def)
  have "framed (ntc_rtcm_framer c) (bs @ bs2) (obs @ frames)"
    unfolding framed_def
  proof (intro exI conjI)
    show "map fst (stamp ts bs @ stamps) = bs @ bs2" by (simp add: st(1) stamp_def o_def)
    show "obs @ frames = valid_frames (emitted (snd (feed rtcm_PushByte (ntc_rtcm_framer c) (stamp ts bs @ stamps))))"
      using one(3) st(2) by (simp add: reads_on_def feed_append split_beta)
  qed
  with one rest show ?case by (simp add: call)
qed

end

section \<open>The in-memory link\<close>

definition memory_tcp :: "MemoryByteDuplex tcp_ops" where
  "memory_tcp =
     \<lparr>tcp_open = (\<lambda>d config. (d\<lparr>md_open := True\<rparr>, TE_kNone)),
      tcp_adopt = (\<lambda>d fd config. (d\<lparr>md_open := True\<rparr>, TE_kNone)),
      tcp_close = MemoryByteDuplex_Close, tcp_is_open = md_open,
      tcp_read = (\<lambda>d n. MemoryByteDuplex_Read d False n), tcp_write = duplex_write\<rparr>"

definition memory_wire :: "MemoryByteDuplex \<Rightarrow> bytes" where
  "memory_wire d = drop (md_read_offset d) (md_input d)"

interpretation memory_link: tcp_link memory_tcp memory_wire
proof
  fix k k1 :: MemoryByteDuplex and n rr bs
  show "\<not> tcp_is_open memory_tcp (tcp_close memory_tcp k)"
    by (simp add: memory_tcp_def MemoryByteDuplex_Close_def)
  assume "tcp_is_open memory_tcp k" and "tcp_read memory_tcp k n = (k1, rr, bs)"
  then show "rr_bytes_read rr = length bs \<and> length bs \<le> n \<and> memory_wire k = bs @ memory_wire k1
      \<and> (rr_status rr = TS_kOk \<or> bs \<noteq> [] \<longrightarrow> tcp_is_open memory_tcp k1)"
    by (auto simp: memory_tcp_def memory_wire_def MemoryByteDuplex_Read_def MemoryByteSource_Read_def md_source_def
        bslice_def Let_def split: if_splits)
      (metis append_take_drop_id drop_drop add.commute)+
qed

section \<open>Properties\<close>

text \<open>C28. The correction stream gets through the client unchanged, however the network cuts it: a connected
  client that has seen nothing yet, before which lie a complete accepted response head and a payload, delivers
  over any sequence of reads of any sizes exactly the bytes of the payload, in order, without the head.  Every
  call returns; while the client streams, what it has delivered and what is still to be read make up the payload
  and the recorded response header is the head; it never delivers anything before the head is complete; if it
  fails (a timeout, a closed or broken link), it stopped at a prefix of the payload.  The observed frames are the
  valid ones the RTCM framer finds in the delivered bytes.\<close>

theorem ntrip_payload_delivery:
  assumes "tcp_link ops wire" and "response_head h"
    and "tcp_is_open ops (ntc_transport c)" and "ntc_state c = NS_kConnected" and "ntc_response_buffer c = []"
    and "wire (ntc_transport c) = bytes_of h @ payload"
    and "rpol_multiplier (nc_reconnect_policy (ntc_config c)) \<noteq> NaN"
  shows "\<exists>c1 out frames. read_calls ops c calls = Some (c1, out, frames)
    \<and> ntc_state c1 \<in> {NS_kConnected, NS_kStreaming, NS_kFailed}
    \<and> prefix out payload \<and> framed (ntc_rtcm_framer c) out frames
    \<and> (ntc_state c1 = NS_kConnected \<longrightarrow> out = [] \<and> length (ntc_response_buffer c1) < length h)
    \<and> (ntc_state c1 = NS_kStreaming \<longrightarrow>
         out @ wire (ntc_transport c1) = payload \<and> ntc_response_header c1 = h \<and> tcp_is_open ops (ntc_transport c1))"
proof -
  have "h \<noteq> []" using assms(2) by (auto simp: response_head_def)
  then have "tcp_link.receiving ops wire h payload c []"
    using assms(3-6) by (simp add: tcp_link.receiving_def [OF assms(1)])
  from tcp_link.read_calls_receiving [OF assms(1,2) this assms(7), of calls] obtain c1 out frames where
    run: "read_calls ops c calls = Some (c1, out, frames)" and recv: "tcp_link.receiving ops wire h payload c1 ([] @ out)"
    and framed: "framed (ntc_rtcm_framer c) out frames" by blast
  from tcp_link.receiving_prefix [OF assms(1) recv] have "prefix out payload" by simp
  with run recv framed show ?thesis
    by (auto simp: tcp_link.receiving_def [OF assms(1)] split: if_splits)
qed

definition demo_head :: string where
  "demo_head = ''HTTP/1.1 200 OK'' @ crlf @ ''Content-Type: gnss/data'' @ crlf @ crlf"

definition demo_tcp_config :: TcpClientConfig where
  "demo_tcp_config =
     \<lparr>tc_host = [], tc_port = 0, tc_connect_timeout_ms = 0, tc_read_timeout_ms = 0, tc_write_timeout_ms = 0,
      tc_nonblocking = False, tc_tcp_nodelay = False, tc_tls_enabled = False, tc_tls_verify_peer = True,
      tc_tls_server_name = [], tc_tls_ca_file = [], tc_tls_client_certificate_file = [],
      tc_tls_client_private_key_file = []\<rparr>"

definition demo_client :: "bytes \<Rightarrow> MemoryByteDuplex NtripClient" where
  "demo_client input =
     (NtripClient_new demo_ntrip_config demo_tcp_config 
        \<lparr>md_input = input, md_output = [], md_read_offset = 0, md_open = True, md_next_read_error = TE_kNone,
         md_next_write_error = TE_kNone, md_metrics = TransportMetrics_default\<rparr>)
       \<lparr>ntc_state := NS_kConnected,
        ntc_metrics := MarkRequestSent (MarkConnected NtripConnectionMetrics_default)\<rparr>"

lemma demo_head_ok: "response_head demo_head"
  by (simp add: response_head_def demo_head_def ExtractStatusLine_def IsAcceptedNtripStatusLine_def
      HasExactNtripStatusCode_def StartsWith_def header_char_def icy_payload_char_def char_code_def bslice_def)

theorem ntrip_payload_delivery_witness:
  "\<forall>calls. \<exists>c1 out frames. read_calls memory_tcp (demo_client (bytes_of demo_head @ [0xD3, 0x00, 0x00, 0x47, 0xEA, 0x4B])) calls
       = Some (c1, out, frames)
     \<and> prefix out [0xD3, 0x00, 0x00, 0x47, 0xEA, 0x4B]"
proof
  fix calls
  let ?c = "demo_client (bytes_of demo_head @ [0xD3, 0x00, 0x00, 0x47, 0xEA, 0x4B])"
  have "tcp_is_open memory_tcp (ntc_transport ?c)" "ntc_state ?c = NS_kConnected" "ntc_response_buffer ?c = []"
    "memory_wire (ntc_transport ?c) = bytes_of demo_head @ [0xD3, 0x00, 0x00, 0x47, 0xEA, 0x4B]"
    "rpol_multiplier (nc_reconnect_policy (ntc_config ?c)) \<noteq> NaN"
    by (simp_all add: demo_client_def NtripClient_new_def memory_tcp_def memory_wire_def
        demo_ntrip_config_def)
  from ntrip_payload_delivery [OF memory_link.tcp_link_axioms demo_head_ok this, of calls]
  show "\<exists>c1 out frames. read_calls memory_tcp ?c calls = Some (c1, out, frames)
      \<and> prefix out [0xD3, 0x00, 0x00, 0x47, 0xEA, 0x4B]" by blast
qed







end
