(* ===== verification/Ntrip_Session.thy ===== *)
theory Ntrip_Session
  imports Ntrip_Delivery
begin

text \<open>
  The states of \<open>NtripClient\<close> over any sequence of its operations: what a state promises about the transport, the
  response and the flow of corrections, and what moves the backoff of the reconnection.
\<close>

section \<open>Reachable clients\<close>

inductive ntrip_reach :: "'k tcp_ops \<Rightarrow> 'k NtripClient \<Rightarrow> bool" for ops where
  new: "\<not> tcp_is_open ops k \<Longrightarrow> ntrip_reach ops (NtripClient_new config tcp_config k)"
| set_config: "ntrip_reach ops c \<Longrightarrow> ntrip_reach ops (client_set_config ops c config)"
| connect: "ntrip_reach ops c \<Longrightarrow> client_Connect ops c ts = Some (c1, e) \<Longrightarrow> ntrip_reach ops c1"
| adopt: "ntrip_reach ops c \<Longrightarrow> AdoptConnectedSocket ops c fd = Some (c1, e) \<Longrightarrow> ntrip_reach ops c1"
| disconnect: "ntrip_reach ops c \<Longrightarrow> ntrip_reach ops (Disconnect ops c error)"
| send: "ntrip_reach ops c \<Longrightarrow> SendRequest ops c ts = Some (c1, e) \<Longrightarrow> ntrip_reach ops c1"
| read: "ntrip_reach ops c \<Longrightarrow> client_Read ops c nul capacity ts steady = Some (c1, r, bs, obs) \<Longrightarrow> ntrip_reach ops c1"
| feed: "ntrip_reach ops c \<Longrightarrow> FeedRtcmMonitor c bs ts = (c1, n, obs) \<Longrightarrow> ntrip_reach ops c1"

definition flow_wf :: "NtripCorrectionFlowState \<Rightarrow> bool" where
  "flow_wf flow \<longleftrightarrow>
     (\<not> cf_response_accepted flow \<longrightarrow> cf_valid_rtcm_frames flow = 0)
     \<and> (cf_operational flow \<longrightarrow> cf_valid_rtcm_frames flow \<noteq> 0)"

definition client_wf :: "'k tcp_ops \<Rightarrow> 'k NtripClient \<Rightarrow> bool" where
  "client_wf ops c \<longleftrightarrow>
     (let state = ntc_state c; m = ntc_metrics c; flow = ntc_correction_flow_state c in
      state \<noteq> NS_kConnecting
      \<and> (state \<in> {NS_kDisconnected, NS_kFailed} \<longrightarrow> \<not> tcp_is_open ops (ntc_transport c))
      \<and> nm_connected m = (state \<in> {NS_kConnected, NS_kStreaming})
      \<and> (nm_connected m \<longrightarrow> nm_last_error m = NE_kNone)
      \<and> (state = NS_kStreaming \<longrightarrow> nm_request_sent m \<and> nm_response_received m \<and> cf_response_accepted flow)
      \<and> (state = NS_kConnected \<longrightarrow> \<not> cf_response_accepted flow)
      \<and> flow_wf flow)"

section \<open>The operations keep it\<close>

lemma link_metrics_eq:
  "link_metrics m = link_metrics m' \<longleftrightarrow>
     nm_connected m = nm_connected m' \<and> nm_request_sent m = nm_request_sent m'
     \<and> nm_response_received m = nm_response_received m' \<and> nm_last_error m = nm_last_error m'"
  by (auto simp: link_metrics_def)

lemma client_wf_cong:
  "\<lbrakk>ntc_state c1 = ntc_state c; tcp_is_open ops (ntc_transport c1) = tcp_is_open ops (ntc_transport c);
    ntc_correction_flow_state c1 = ntc_correction_flow_state c;
    link_metrics (ntc_metrics c1) = link_metrics (ntc_metrics c)\<rbrakk> \<Longrightarrow> client_wf ops c1 = client_wf ops c"
  by (simp add: client_wf_def link_metrics_eq Let_def)

lemma FeedRtcmMonitor_wf: "FeedRtcmMonitor c bs ts = (c1, n, obs) \<Longrightarrow> client_wf ops c1 = client_wf ops c"
proof -
  assume "FeedRtcmMonitor c bs ts = (c1, n, obs)"
  from FeedRtcmMonitor_frames [OF this] obtain f m where
    "c1 = c\<lparr>ntc_rtcm_framer := f, ntc_metrics := m\<rparr>" "link_metrics m = link_metrics (ntc_metrics c)" by blast
  then show ?thesis by (intro client_wf_cong) simp_all
qed

text \<open>What noting frames does to the flow state.\<close>

lemma flow_progress:
  fixes c :: "'k NtripClient" and count :: u64 and ts now
  defines "flow \<equiv> ntc_correction_flow_state c"
    and "flow1 \<equiv> ntc_correction_flow_state (NoteCorrectionFlowProgress c count ts now)"
  shows "cf_response_accepted flow1 = cf_response_accepted flow"
    and "cf_valid_rtcm_frames flow1 = (if cf_valid_rtcm_frames flow > - 1 - count then - 1 else cf_valid_rtcm_frames flow + count)"
    and "cf_operational flow1 \<longleftrightarrow> cf_operational flow
      \<or> count \<noteq> 0 \<and> operational_threshold (ntc_config c) \<le> cf_valid_rtcm_frames flow1"
    and "ntc_reconnect_state (NoteCorrectionFlowProgress c count ts now) \<noteq> ntc_reconnect_state c \<Longrightarrow>
      \<not> cf_operational flow \<and> cf_operational flow1"
  by (auto simp: flow_def flow1_def NoteCorrectionFlowProgress_def Let_def split: option.split if_split_asm)

lemma threshold_positive: "operational_threshold config \<le> n \<Longrightarrow> n \<noteq> 0"
  by (auto simp: operational_threshold_def max_def split: if_splits)

lemma saturating_add_nonzero:
  "(f :: u64) \<noteq> 0 \<or> n \<noteq> 0 \<Longrightarrow> (if f > - 1 - n then - 1 else f + n) \<noteq> 0"
proof (cases "f > - 1 - n")
  case False
  then have "f \<le> - 1 - n" by simp
  then have "unat f \<le> unat (- 1 - n)" by (simp only: word_le_nat_alt)
  also have "unat (- 1 - n) = unat (- 1 :: u64) - unat n" by (rule unat_sub) simp
  finally have "unat f + unat n < 2 ^ LENGTH(64)"
    using unsigned_less [of n, where 'a = nat] by (simp add: unsigned_minus_1_eq_mask mask_eq_exp_minus_1)
  then have "unat (f + n) = unat f + unat n" by (simp only: unat_word_ariths mod_less)
  moreover assume "f \<noteq> 0 \<or> n \<noteq> 0"
  ultimately have "unat (f + n) \<noteq> 0" by (metis add_is_0 unat_eq_zero)
  then have "f + n \<noteq> 0" by (metis unat_0)
  with False show ?thesis by simp
qed simp

lemma deliver_flow:
  assumes "deliver c payload ts now = (c1, obs)"
    and "cf_response_accepted (ntc_correction_flow_state c)" and "flow_wf (ntc_correction_flow_state c)"
  shows "cf_response_accepted (ntc_correction_flow_state c1)" and "flow_wf (ntc_correction_flow_state c1)"
    and "ntc_reconnect_state c1 \<noteq> ntc_reconnect_state c \<Longrightarrow>
      \<not> cf_operational (ntc_correction_flow_state c) \<and> cf_operational (ntc_correction_flow_state c1)
      \<and> operational_threshold (ntc_config c) \<le> cf_valid_rtcm_frames (ntc_correction_flow_state c1)"
proof -
  obtain c2 n obs2 where fm: "FeedRtcmMonitor c payload ts = (c2, n, obs2)" by (metis prod_cases3)
  obtain m where c2: "c2 = c\<lparr>ntc_rtcm_framer := fst (feed rtcm_PushByte (ntc_rtcm_framer c) (stamp ts payload)), ntc_metrics := m\<rparr>"
    using FeedRtcmMonitor_frames [OF fm] by blast
  define count where "count = nm_rtcm_frames_received (ntc_metrics c2) - nm_rtcm_frames_received (ntc_metrics c)"
  have c1: "c1 = NoteCorrectionFlowProgress c2 count ts now"
    using assms(1) by (simp add: deliver_def fm count_def Let_def)
  have c2s: "ntc_correction_flow_state c2 = ntc_correction_flow_state c" "ntc_config c2 = ntc_config c"
    "ntc_reconnect_state c2 = ntc_reconnect_state c" by (simp_all add: c2)
  note p = flow_progress [of c2 count ts now, folded c1, unfolded c2s]
  show "cf_response_accepted (ntc_correction_flow_state c1)" using p(1) assms(2) by simp
  then show "flow_wf (ntc_correction_flow_state c1)"
    using p(2,3) assms(3) saturating_add_nonzero [of "cf_valid_rtcm_frames (ntc_correction_flow_state c)" count]
      threshold_positive by (auto simp: flow_wf_def)
  show "\<not> cf_operational (ntc_correction_flow_state c) \<and> cf_operational (ntc_correction_flow_state c1)
      \<and> operational_threshold (ntc_config c) \<le> cf_valid_rtcm_frames (ntc_correction_flow_state c1)"
    if "ntc_reconnect_state c1 \<noteq> ntc_reconnect_state c"
    using p(3,4) that by blast
qed

lemma FailWith_wf:
  assumes "\<And>k. \<not> tcp_is_open ops (tcp_close ops k)" and "FailWith ops c error ts = Some c1"
    and "flow_wf (ntc_correction_flow_state c)"
  shows "client_wf ops c1"
  using assms FailWith_facts [OF assms(2)] by (simp add: client_wf_def Let_def)

lemma client_wf_flow: "client_wf ops c \<Longrightarrow> flow_wf (ntc_correction_flow_state c)"
  by (simp add: client_wf_def Let_def)

lemma deliver_wf:
  assumes "deliver c payload ts now = (c1, obs)" and "client_wf ops c" and "ntc_state c = NS_kStreaming"
  shows "client_wf ops c1"
proof -
  from assms(2,3) have acc: "cf_response_accepted (ntc_correction_flow_state c)"
    and flow: "flow_wf (ntc_correction_flow_state c)" by (simp_all add: client_wf_def Let_def)
  note d = deliver_facts [OF assms(1)] and f = deliver_flow [OF assms(1) acc flow]
  show ?thesis
    using assms(2,3) d(1,2,6) f(1,2) by (simp add: client_wf_def link_metrics_eq Let_def)
qed

text \<open>The outcomes of handling response bytes.\<close>

lemma HandleResponseBytes_cases:
  assumes "HandleResponseBytes c data capacity ts steady = (c1, error, bs, obs)"
  obtains buffer header where "c1 = c\<lparr>ntc_response_buffer := buffer, ntc_response_header := header\<rparr>" and "bs = []"
  | buffer header c2 where "error = NE_kNone"
      and "c2 = accept_response (c\<lparr>ntc_response_buffer := buffer, ntc_response_header := header\<rparr>) ts steady"
      and "c1 = c2\<lparr>ntc_response_buffer := []\<rparr> \<or>
           (\<exists>c3 payload. deliver c2 payload ts (st_progress steady) = (c3, obs) \<and> c1 = c3\<lparr>ntc_response_buffer := []\<rparr>)"
proof -
  define b where "b = ntc_response_buffer c @ text_of data"
  define t where "t = (if FindResponseHeaderTerminator b \<noteq> None then FindResponseHeaderTerminator b
      else FindLegacyIcyPayloadStart b)"
  show ?thesis
  proof (cases t)
    case None
    with assms have "c1 = c\<lparr>ntc_response_buffer := b\<rparr>" "bs = []"
      unfolding HandleResponseBytes_def b_def [symmetric] Let_def t_def [symmetric] by simp_all
    then show ?thesis by (intro that(1) [where buffer = b and header = "ntc_response_header c"]) simp_all
  next
    case (Some on)
    obtain off n where on: "on = (off, n)" by fastforce
    let ?h = "take (off + n) b"
    show ?thesis
    proof (cases "ParseNtripResponseStatus ?h = NE_kNone")
      case False
      with assms Some have "c1 = c\<lparr>ntc_response_buffer := b, ntc_response_header := ?h\<rparr>" "bs = []"
        unfolding HandleResponseBytes_def b_def [symmetric] Let_def t_def [symmetric] by (simp_all add: on)
      then show ?thesis by (rule that(1))
    next
      case True
      define c2 where "c2 = accept_response (c\<lparr>ntc_response_buffer := b, ntc_response_header := ?h\<rparr>) ts steady"
      define p where "p = bytes_of (take capacity (drop (off + n) b))"
      obtain c3 obs3 where d: "(if p \<noteq> [] then deliver c2 p ts (st_progress steady) else (c2, [])) = (c3, obs3)"
        by fastforce
      from assms Some True have
        "(case (if p \<noteq> [] then deliver c2 p ts (st_progress steady) else (c2, [])) of (c4, observed) \<Rightarrow>
            (c4\<lparr>ntc_response_buffer := []\<rparr>, NE_kNone, p, observed)) = (c1, error, bs, obs)"
        unfolding HandleResponseBytes_def b_def [symmetric] Let_def t_def [symmetric] c2_def p_def by (simp add: on)
      then have r: "c1 = c3\<lparr>ntc_response_buffer := []\<rparr>" "error = NE_kNone" "obs = obs3"
        unfolding d by simp_all
      show ?thesis
        by (rule that(2) [OF r(2) c2_def]) (use d r in \<open>auto split: if_splits\<close>)
    qed
  qed
qed

lemma accept_response_wf:
  assumes "client_wf ops c" and "ntc_state c = NS_kConnected" and "nm_request_sent (ntc_metrics c)"
  shows "client_wf ops (accept_response c ts steady)"
  using assms by (auto simp: client_wf_def accept_response_def MarkResponseReceived_def flow_wf_def Let_def)

lemma HandleResponseBytes_wf:
  assumes run: "HandleResponseBytes c data capacity ts steady = (c1, error, bs, obs)"
    and wf: "client_wf ops c" "ntc_state c = NS_kConnected" "nm_request_sent (ntc_metrics c)"
  shows "client_wf ops c1"
proof -
  have buffers: "client_wf ops (d\<lparr>ntc_response_buffer := b\<rparr>) = client_wf ops d"
    "client_wf ops (d\<lparr>ntc_response_header := b\<rparr>) = client_wf ops d" for d b
    by (simp_all add: client_wf_def)
  from run show ?thesis
  proof (cases rule: HandleResponseBytes_cases)
    case 1
    with wf(1) show ?thesis by (simp add: client_wf_def)
  next
    case (2 buffer header c2)
    have c2: "client_wf ops c2" "ntc_state c2 = NS_kStreaming"
      unfolding 2(2) using wf
      by (intro accept_response_wf; simp add: client_wf_def) (simp add: accept_response_def)
    from 2(3) show ?thesis
    proof
      assume "\<exists>c3 payload. deliver c2 payload ts (st_progress steady) = (c3, obs) \<and> c1 = c3\<lparr>ntc_response_buffer := []\<rparr>"
      then show ?thesis using deliver_wf c2 buffers(1) by blast
    qed (simp add: c2 buffers)
  qed
qed

text \<open>The outcomes of a read: nothing happens, it fails, nothing has arrived, or bytes of the stream or of the
  response have.\<close>

definition received :: "'k NtripClient \<Rightarrow> 'k \<Rightarrow> nat \<Rightarrow> 'k NtripClient" where
  "received c k n = c\<lparr>ntc_transport := k, ntc_metrics := NoteReceivedBytes (ntc_metrics c) n\<rparr>"

lemma client_Read_cases:
  assumes "client_Read ops c nul capacity ts steady = Some (c1, r, bs, obs)"
  obtains (same) "c1 = c"
  | (failed) k error where "FailWith ops (c\<lparr>ntc_transport := k\<rparr>) error ts = Some c1"
  | (quiet) k where "c1 = c\<lparr>ntc_transport := k\<rparr>" and "ntc_state c \<noteq> NS_kDisconnected" and "ntc_state c \<noteq> NS_kFailed"
  | (stream) k n data where "ntc_state c = NS_kStreaming" and "deliver (received c k n) data ts (st_progress steady) = (c1, obs)"
  | (head) k n data c3 error where "ntc_state c \<notin> {NS_kDisconnected, NS_kFailed, NS_kStreaming}"
      and "nm_request_sent (ntc_metrics c)"
      and "HandleResponseBytes (received c k n) data capacity ts steady = (c3, error, bs, obs)"
      and "error = NE_kNone \<and> c1 = c3 \<or> error \<noteq> NE_kNone \<and> FailWith ops c3 error ts = Some c1"
proof -
  obtain k rr data where rd: "tcp_read ops (ntc_transport c) capacity = (k, rr, data)" by (metis prod_cases3)
  have keep: "c\<lparr>ntc_transport := ntc_transport c\<rparr> = c" by simp
  show ?thesis
  proof (cases "capacity = 0 \<or> nul \<or> \<not> tcp_is_open ops (ntc_transport c) \<or> ntc_state c = NS_kDisconnected
      \<or> ntc_state c = NS_kFailed \<or> \<not> nm_request_sent (ntc_metrics c)")
    case True
    with assms have "c1 = c" by (auto simp: client_Read_def Let_def split: if_splits)
    then show ?thesis by (rule same)
  next
    case False
    then have go: "capacity \<noteq> 0" "\<not> nul" "tcp_is_open ops (ntc_transport c)" "ntc_state c \<noteq> NS_kDisconnected"
      "ntc_state c \<noteq> NS_kFailed" "nm_request_sent (ntc_metrics c)" by auto
    let ?c2 = "received c k (rr_bytes_read rr)"
    consider "correction_flow_timed_out c (st_check steady)"
      | "\<not> correction_flow_timed_out c (st_check steady)" "rr_bytes_read rr = 0"
      | "\<not> correction_flow_timed_out c (st_check steady)" "rr_bytes_read rr \<noteq> 0" "ntc_state c = NS_kStreaming"
      | "\<not> correction_flow_timed_out c (st_check steady)" "rr_bytes_read rr \<noteq> 0" "ntc_state c \<noteq> NS_kStreaming"
      by blast
    then show ?thesis
    proof cases
      case 1
      with assms go have "FailWith ops c NE_kTimeout ts = Some c1" by (auto simp: client_Read_def Let_def)
      then show ?thesis using failed [of "ntc_transport c"] by (simp only: keep)
    next
      case 2
      with assms go have "c1 = c\<lparr>ntc_transport := k\<rparr> \<or> (\<exists>error. FailWith ops (c\<lparr>ntc_transport := k\<rparr>) error ts = Some c1)"
        by (auto simp: client_Read_def rd Let_def split: if_splits)
      then show ?thesis using quiet [OF _ go(4,5)] failed by blast
    next
      case 3
      obtain c3 obs3 where d: "deliver ?c2 data ts (st_progress steady) = (c3, obs3)" by fastforce
      with assms go 3 have "c1 = c3" "obs = obs3" by (simp_all add: client_Read_def rd received_def Let_def)
      with d show ?thesis using stream [OF 3(3)] by blast
    next
      case 4
      obtain c3 error bs3 obs3 where hd: "HandleResponseBytes ?c2 data capacity ts steady = (c3, error, bs3, obs3)"
        by (metis prod_cases4)
      with assms go 4 have out: "error = NE_kNone \<and> c1 = c3 \<or> error \<noteq> NE_kNone \<and> FailWith ops c3 error ts = Some c1"
        "bs = bs3" "obs = obs3"
        by (auto simp: client_Read_def rd received_def Let_def split: if_splits)
      have "ntc_state c \<notin> {NS_kDisconnected, NS_kFailed, NS_kStreaming}" using go 4 by simp
      then show ?thesis by (rule head) (use go hd out in simp_all)
    qed
  qed
qed

lemma received_simps [simp]:
  "ntc_state (received c k n) = ntc_state c" "ntc_config (received c k n) = ntc_config c"
  "ntc_correction_flow_state (received c k n) = ntc_correction_flow_state c"
  "ntc_reconnect_state (received c k n) = ntc_reconnect_state c"
  "nm_request_sent (ntc_metrics (received c k n)) = nm_request_sent (ntc_metrics c)"
  by (simp_all add: received_def NoteReceivedBytes_def)

lemma received_wf:
  "\<lbrakk>client_wf ops c; ntc_state c \<noteq> NS_kDisconnected; ntc_state c \<noteq> NS_kFailed\<rbrakk> \<Longrightarrow> client_wf ops (received c k n)"
  by (auto simp: received_def client_wf_def NoteReceivedBytes_def Let_def)

lemma client_Read_wf:
  assumes closes: "\<And>k. \<not> tcp_is_open ops (tcp_close ops k)" and wf: "client_wf ops c"
    and run: "client_Read ops c nul capacity ts steady = Some (c1, r, bs, obs)"
  shows "client_wf ops c1"
  using run
proof (cases rule: client_Read_cases)
  case same
  with wf show ?thesis by simp
next
  case (failed k error)
  from FailWith_wf [OF closes this] client_wf_flow [OF wf] show ?thesis by simp
next
  case (quiet k)
  with wf show ?thesis by (auto simp: client_wf_def Let_def)
next
  case (stream k n data)
  with received_wf [OF wf, of k n] show ?thesis using deliver_wf [OF stream(2)] by simp
next
  case (head k n data c3 error)
  with wf have con: "ntc_state (received c k n) = NS_kConnected"
    by (cases "ntc_state c") (simp_all add: client_wf_def Let_def)
  have "client_wf ops c3"
    using HandleResponseBytes_wf [OF head(3) received_wf [OF wf] con] head(1,2) by simp
  then show ?thesis using head(4) FailWith_wf [OF closes] client_wf_flow by blast
qed

lemma send_remaining_cases:
  assumes "send_remaining ops c rest ts = Some (c1, e)"
  obtains "rest = []" and "c1 = c\<lparr>ntc_metrics := MarkRequestSent (ntc_metrics c)\<rparr>" and "e = NE_kNone"
  | k where "rest \<noteq> []" and "FailWith ops (c\<lparr>ntc_transport := k\<rparr>) e ts = Some c1"
  | k n where "rest \<noteq> []" and "n \<noteq> 0"
      and "send_remaining ops (c\<lparr>ntc_transport := k, ntc_metrics := NoteSentBytes (ntc_metrics c) n\<rparr>) (drop n rest) ts
        = Some (c1, e)"
proof (cases "rest = []")
  case True
  with assms show ?thesis by (subst (asm) send_remaining.simps) (simp add: that(1))
next
  case False
  obtain k wr where w: "tcp_write ops (ntc_transport c) rest = (k, wr)" by fastforce
  from assms False show ?thesis
    by (subst (asm) send_remaining.simps)
      (auto simp: w Let_def split: if_splits intro: that(2,3))
qed

lemma send_remaining_wf:
  assumes closes: "\<And>k. \<not> tcp_is_open ops (tcp_close ops k)"
  shows "\<lbrakk>send_remaining ops c rest ts = Some (c1, e); client_wf ops c;
      ntc_state c \<in> {NS_kConnected, NS_kStreaming}\<rbrakk> \<Longrightarrow> client_wf ops c1"
proof (induction rest arbitrary: c rule: length_induct)
  case (1 rest)
  from 1(2) show ?case
  proof (cases rule: send_remaining_cases)
    case 1
    with \<open>client_wf ops c\<close> show ?thesis by (simp add: client_wf_def MarkRequestSent_def Let_def)
  next
    case (2 k)
    have "flow_wf (ntc_correction_flow_state (c\<lparr>ntc_transport := k\<rparr>))"
      using client_wf_flow [OF \<open>client_wf ops c\<close>] by simp
    from FailWith_wf [OF closes 2(2) this] show ?thesis .
  next
    case (3 k n)
    have "length (drop n rest) < length rest" using 3(1,2) by (cases rest) auto
    moreover have "client_wf ops (c\<lparr>ntc_transport := k, ntc_metrics := NoteSentBytes (ntc_metrics c) n\<rparr>)"
      using 1(3,4) by (auto simp: client_wf_def NoteSentBytes_def Let_def)
    moreover have "ntc_state (c\<lparr>ntc_transport := k, ntc_metrics := NoteSentBytes (ntc_metrics c) n\<rparr>)
        \<in> {NS_kConnected, NS_kStreaming}" using 1(4) by simp
    ultimately show ?thesis using 1(1) 3(3) by blast
  qed
qed

lemma SendRequest_wf:
  assumes closes: "\<And>k. \<not> tcp_is_open ops (tcp_close ops k)" and wf: "client_wf ops c"
    and run: "SendRequest ops c ts = Some (c1, e)"
  shows "client_wf ops c1"
proof (cases "\<not> tcp_is_open ops (ntc_transport c) \<or> ntc_state c = NS_kDisconnected")
  case True
  with run have "FailWith ops c NE_kDisconnected ts = Some c1" by (auto simp: SendRequest_def)
  from FailWith_wf [OF closes this client_wf_flow [OF wf]] show ?thesis .
next
  case False
  let ?c = "c\<lparr>ntc_request := BuildNtripGetRequest (ntc_config c)\<rparr>"
  have "client_wf ops ?c" using wf by (simp add: client_wf_def)
  moreover have "ntc_state c \<noteq> NS_kFailed \<Longrightarrow> ntc_state ?c \<in> {NS_kConnected, NS_kStreaming}"
    using wf False by (cases "ntc_state c") (simp_all add: client_wf_def Let_def)
  ultimately show ?thesis
    using run False wf send_remaining_wf [OF closes, where c = ?c] by (auto simp: SendRequest_def Let_def split: if_splits)
qed

lemma finish_connection_wf:
  assumes closes: "\<And>k. \<not> tcp_is_open ops (tcp_close ops k)"
    and flow: "ntc_correction_flow_state c = NtripCorrectionFlowState_default"
    and run: "finish_connection ops c k error ts = Some (c1, e)"
  shows "client_wf ops c1"
proof (cases "error = TE_kNone")
  case True
  with run have "c1 = c\<lparr>ntc_state := NS_kConnected, ntc_transport := k, ntc_metrics := ClearLastError (MarkConnected (ntc_metrics c))\<rparr>"
    by (auto simp: finish_connection_def Let_def)
  then show ?thesis
    by (simp add: client_wf_def flow flow_wf_def NtripCorrectionFlowState_default_def ClearLastError_def
        MarkConnected_def Let_def)
next
  case False
  let ?c = "c\<lparr>ntc_state := NS_kConnecting, ntc_transport := k\<rparr>"
  from run False obtain er where "FailWith ops ?c er ts = Some c1" by (auto simp: finish_connection_def Let_def)
  from FailWith_wf [OF closes this] show ?thesis
    by (simp add: flow flow_wf_def NtripCorrectionFlowState_default_def)
qed

lemma begin_connection_flow: "ntc_correction_flow_state (begin_connection ops c) = NtripCorrectionFlowState_default"
  by (simp add: begin_connection_def ResetSessionMetrics_def ResetSourceState_def ResetSessionState_def Let_def)

lemma ntrip_reach_wf:
  assumes closes: "\<And>k. \<not> tcp_is_open ops (tcp_close ops k)"
  shows "ntrip_reach ops c \<Longrightarrow> client_wf ops c"
proof (induction rule: ntrip_reach.induct)
  case (new k config tcp_config)
  then show ?case
    by (simp add: client_wf_def NtripClient_new_def flow_wf_def NtripCorrectionFlowState_default_def
        NtripConnectionMetrics_default_def Let_def)
next
  case (set_config c config)
  then show ?case
    using closes
    by (simp add: client_set_config_def client_wf_def ResetSessionMetrics_def ResetSourceState_def flow_wf_def
        NtripCorrectionFlowState_default_def MarkDisconnected_def NtripConnectionMetrics_default_def Let_def)
next
  case (connect c ts c1 e)
  obtain k error where "tcp_open ops (ntc_transport (begin_connection ops c)) (transport_config_of c) = (k, error)" by fastforce
  with connect.hyps(2) have "FailWith ops (begin_connection ops c) NE_kConfiguration ts = Some c1
      \<or> finish_connection ops (begin_connection ops c) k error ts = Some (c1, e)"
    by (auto simp: client_Connect_def Let_def split: if_splits)
  then show ?case
    using finish_connection_wf [OF closes begin_connection_flow] FailWith_wf [OF closes]
    by (auto simp: begin_connection_flow flow_wf_def NtripCorrectionFlowState_default_def)
next
  case (adopt c fd c1 e)
  then show ?case
    using finish_connection_wf [OF closes begin_connection_flow]
    by (auto simp: AdoptConnectedSocket_def Let_def split: prod.splits)
next
  case (disconnect c error)
  then show ?case
    using closes by (simp add: Disconnect_def client_wf_def MarkDisconnected_def Let_def)
next
  case (send c ts c1 e)
  then show ?case using SendRequest_wf [OF closes] by blast
next
  case (read c nul capacity ts steady c1 r bs obs)
  then show ?case using client_Read_wf [OF closes] by blast
next
  case (feed c bs ts c1 n obs)
  then show ?case using FeedRtcmMonitor_wf by blast
qed

section \<open>What moves the backoff\<close>

lemma FailWith_backoff:
  assumes "FailWith ops c error ts = Some c1" and "ntc_reconnect_state c1 \<noteq> ntc_reconnect_state c"
  shows "\<exists>d. OnFailure (nc_reconnect_policy (ntc_config c)) (ntc_reconnect_state c)
      (case ts of None \<Rightarrow> 0 | Some t \<Rightarrow> t) = Some (ntc_reconnect_state c1, d)"
  using assms
  by (auto simp: FailWith_def RecordReconnectFailure_def Let_def split: if_splits option.splits)

lemma HandleResponseBytes_backoff:
  assumes run: "HandleResponseBytes c data capacity ts steady = (c1, error, bs, obs)"
    and flow: "flow_wf (ntc_correction_flow_state c)"
  shows "ntc_config c1 = ntc_config c"
    and "ntc_reconnect_state c1 \<noteq> ntc_reconnect_state c \<Longrightarrow>
      error = NE_kNone \<and> \<not> cf_operational (ntc_correction_flow_state c)
      \<and> cf_operational (ntc_correction_flow_state c1)
      \<and> operational_threshold (ntc_config c) \<le> cf_valid_rtcm_frames (ntc_correction_flow_state c1)"
proof -
  have "ntc_config c1 = ntc_config c \<and> (ntc_reconnect_state c1 \<noteq> ntc_reconnect_state c \<longrightarrow>
      error = NE_kNone \<and> \<not> cf_operational (ntc_correction_flow_state c)
      \<and> cf_operational (ntc_correction_flow_state c1)
      \<and> operational_threshold (ntc_config c) \<le> cf_valid_rtcm_frames (ntc_correction_flow_state c1))"
    using run
  proof (cases rule: HandleResponseBytes_cases)
    case (2 buffer header c2)
    have c2: "ntc_config c2 = ntc_config c" "ntc_reconnect_state c2 = ntc_reconnect_state c"
      "cf_operational (ntc_correction_flow_state c2) = cf_operational (ntc_correction_flow_state c)"
      "cf_response_accepted (ntc_correction_flow_state c2)" "flow_wf (ntc_correction_flow_state c2)"
      using flow by (simp_all add: 2(2) accept_response_def flow_wf_def)
    from 2(3) show ?thesis
    proof
      assume "\<exists>c3 payload. deliver c2 payload ts (st_progress steady) = (c3, obs) \<and> c1 = c3\<lparr>ntc_response_buffer := []\<rparr>"
      then obtain c3 payload where d: "deliver c2 payload ts (st_progress steady) = (c3, obs)"
        and c1: "c1 = c3\<lparr>ntc_response_buffer := []\<rparr>" by blast
      from deliver_facts(3) [OF d] deliver_flow(3) [OF d c2(4,5)] show ?thesis by (simp add: c1 c2 2(1))
    qed (simp add: c2)
  qed simp
  then show "ntc_config c1 = ntc_config c" and "ntc_reconnect_state c1 \<noteq> ntc_reconnect_state c \<Longrightarrow>
      error = NE_kNone \<and> \<not> cf_operational (ntc_correction_flow_state c)
      \<and> cf_operational (ntc_correction_flow_state c1)
      \<and> operational_threshold (ntc_config c) \<le> cf_valid_rtcm_frames (ntc_correction_flow_state c1)" by blast+
qed

section \<open>Properties\<close>

text \<open>C29. The client is well formed after any sequence of configuration changes, connections, disconnections,
  requests and reads, whatever the transport does: it never rests in the connecting state; a disconnected or failed
  client has closed its transport, so a read gives nothing but a closed link and a request is refused as
  disconnected; the metrics say connected exactly in the connected and streaming states, without an error; a
  streaming client has sent its request and accepted a response, a connected one has not accepted any; and
  corrections count as operational only after a valid frame of an accepted response.\<close>

theorem ntrip_client_states:
  assumes "tcp_link ops wire" and "ntrip_reach ops c"
  shows "ntc_state c \<noteq> NS_kConnecting
    \<and> nm_connected (ntc_metrics c) = (ntc_state c \<in> {NS_kConnected, NS_kStreaming})
    \<and> (nm_connected (ntc_metrics c) \<longrightarrow> nm_last_error (ntc_metrics c) = NE_kNone)
    \<and> (ntc_state c = NS_kStreaming \<longrightarrow> nm_request_sent (ntc_metrics c) \<and> nm_response_received (ntc_metrics c)
         \<and> cf_response_accepted (ntc_correction_flow_state c))
    \<and> (ntc_state c = NS_kConnected \<longrightarrow> \<not> cf_response_accepted (ntc_correction_flow_state c))
    \<and> (cf_operational (ntc_correction_flow_state c) \<longrightarrow> cf_response_accepted (ntc_correction_flow_state c)
         \<and> 0 < cf_valid_rtcm_frames (ntc_correction_flow_state c))
    \<and> (ntc_state c \<in> {NS_kDisconnected, NS_kFailed} \<longrightarrow>
         \<not> tcp_is_open ops (ntc_transport c)
         \<and> (0 < capacity \<longrightarrow> client_Read ops c False capacity ts steady =
              Some (c, \<lparr>crr_bytes_read = 0, crr_transport_status = TS_kClosed, crr_transport_error = TE_kClosed,
                       crr_client_error = NE_kDisconnected\<rparr>, [], []))
         \<and> map_option snd (SendRequest ops c ts) = Some NE_kDisconnected)"
proof -
  have "client_wf ops c" using ntrip_reach_wf tcp_link.close_closed [OF assms(1)] assms(2) by blast
  then have wf: "ntc_state c \<noteq> NS_kConnecting"
    "ntc_state c \<in> {NS_kDisconnected, NS_kFailed} \<Longrightarrow> \<not> tcp_is_open ops (ntc_transport c)"
    "nm_connected (ntc_metrics c) = (ntc_state c \<in> {NS_kConnected, NS_kStreaming})"
    "nm_connected (ntc_metrics c) \<Longrightarrow> nm_last_error (ntc_metrics c) = NE_kNone"
    "ntc_state c = NS_kStreaming \<Longrightarrow> nm_request_sent (ntc_metrics c) \<and> nm_response_received (ntc_metrics c)
         \<and> cf_response_accepted (ntc_correction_flow_state c)"
    "ntc_state c = NS_kConnected \<Longrightarrow> \<not> cf_response_accepted (ntc_correction_flow_state c)"
    "flow_wf (ntc_correction_flow_state c)"
    unfolding client_wf_def Let_def by blast+
  have stopped: "client_Read ops c False capacity ts steady =
        Some (c, \<lparr>crr_bytes_read = 0, crr_transport_status = TS_kClosed, crr_transport_error = TE_kClosed,
                 crr_client_error = NE_kDisconnected\<rparr>, [], [])" if "0 < capacity" "\<not> tcp_is_open ops (ntc_transport c)"
    using that by (simp add: client_Read_def NtripClientReadResult_default_def)
  have refused: "map_option snd (SendRequest ops c ts) = Some NE_kDisconnected"
    if "ntc_state c \<in> {NS_kDisconnected, NS_kFailed}"
    using that wf(2) by (auto simp: SendRequest_def FailWith_def ShouldTrackReconnectFailure_def option.map_comp o_def)
  from wf stopped refused show ?thesis by (auto simp: flow_wf_def word_gt_0)
qed

text \<open>Only delivered corrections reset the backoff: a read moves the reconnection state of a reachable client
  in two ways.  It fails, and the state advances by one failure of the policy; or the client becomes operational
  in that read, its count of valid RTCM frames having reached the configured minimum (one at least).  An accepted
  response alone never shortens the next delay.\<close>

lemma ntrip_backoff_reset:
  assumes "tcp_link ops wire" and "ntrip_reach ops c"
    and "client_Read ops c nul capacity ts steady = Some (c1, r, bs, obs)"
    and "ntc_reconnect_state c1 \<noteq> ntc_reconnect_state c"
  shows "(ntc_state c1 = NS_kFailed
      \<and> (\<exists>d. OnFailure (nc_reconnect_policy (ntc_config c)) (ntc_reconnect_state c)
             (case ts of None \<Rightarrow> 0 | Some t \<Rightarrow> t) = Some (ntc_reconnect_state c1, d)))
    \<or> (\<not> cf_operational (ntc_correction_flow_state c) \<and> cf_operational (ntc_correction_flow_state c1)
      \<and> max 1 (ucast (nc_operational_min_valid_rtcm_frames (ntc_config c)))
          \<le> cf_valid_rtcm_frames (ntc_correction_flow_state c1))"
proof -
  have wf: "client_wf ops c" using ntrip_reach_wf tcp_link.close_closed [OF assms(1)] assms(2) by blast
  note flow = client_wf_flow [OF wf]
  from assms(3) show ?thesis
  proof (cases rule: client_Read_cases)
    case (failed k error)
    from FailWith_facts(1) [OF this] FailWith_backoff [OF this] assms(4) show ?thesis by simp
  next
    case (stream k n data)
    have "cf_response_accepted (ntc_correction_flow_state (received c k n))"
      using wf stream(1) by (simp add: client_wf_def Let_def)
    from deliver_flow(3) [OF stream(2) this] flow assms(4) show ?thesis
      unfolding operational_threshold_def by simp
  next
    case (head k n data c3 error)
    have "flow_wf (ntc_correction_flow_state (received c k n))" using flow by simp
    note h = HandleResponseBytes_backoff [OF head(3) this, unfolded operational_threshold_def received_simps]
    from head(4) show ?thesis
    proof
      assume "error = NE_kNone \<and> c1 = c3"
      with h(2) assms(4) show ?thesis by blast
    next
      assume fail: "error \<noteq> NE_kNone \<and> FailWith ops c3 error ts = Some c1"
      with h(2) have same: "ntc_reconnect_state c3 = ntc_reconnect_state c" by blast
      from fail FailWith_facts(1) [of ops c3 error ts c1] FailWith_backoff [of ops c3 error ts c1] assms(4)
      show ?thesis by (simp add: same h(1))
    qed
  qed (use assms(4) in simp_all)
qed

text \<open>A client that fails in its first read: the memory link it was given is at its end.\<close>

definition demo_session :: "bytes \<Rightarrow> MemoryByteDuplex NtripClient" where
  "demo_session input =
     NtripClient_new demo_ntrip_config demo_tcp_config
       \<lparr>md_input = input, md_output = [], md_read_offset = 0, md_open = False, md_next_read_error = TE_kNone,
        md_next_write_error = TE_kNone, md_metrics = TransportMetrics_default\<rparr>"

definition demo_steady :: steady_samples where
  "demo_steady = \<lparr>st_check = 0, st_accepted = 1, st_progress = 2\<rparr>"

theorem ntrip_client_states_witness:
  "ntc_state (demo_session [0x49]) = NS_kDisconnected
    \<and> client_Read memory_tcp (demo_session [0x49]) False 64 None demo_steady =
         Some (demo_session [0x49], \<lparr>crr_bytes_read = 0, crr_transport_status = TS_kClosed,
           crr_transport_error = TE_kClosed, crr_client_error = NE_kDisconnected\<rparr>, [], [])"
proof -
  have "ntrip_reach memory_tcp (demo_session [0x49])"
    unfolding demo_session_def by (rule ntrip_reach.new) (simp add: memory_tcp_def)
  from ntrip_client_states [OF memory_link.tcp_link_axioms this, of 64 None demo_steady]
  show ?thesis by (simp add: demo_session_def NtripClient_new_def)
qed

text \<open>It connects, sends its request and reads: the read is its first failure.\<close>

lemma memory_send_remaining:
  assumes "md_open (ntc_transport c)" and "md_next_write_error (ntc_transport c) = TE_kNone" and "rest \<noteq> []"
  shows "\<exists>c1. send_remaining memory_tcp c rest ts = Some (c1, NE_kNone) \<and> nm_request_sent (ntc_metrics c1)
    \<and> ntc_state c1 = ntc_state c \<and> ntc_config c1 = ntc_config c \<and> ntc_reconnect_state c1 = ntc_reconnect_state c
    \<and> ntc_correction_flow_state c1 = ntc_correction_flow_state c
    \<and> md_open (ntc_transport c1) \<and> md_input (ntc_transport c1) = md_input (ntc_transport c)
    \<and> md_read_offset (ntc_transport c1) = md_read_offset (ntc_transport c)
    \<and> md_next_read_error (ntc_transport c1) = md_next_read_error (ntc_transport c)"
  using assms
  by (subst send_remaining.simps, subst send_remaining.simps)
    (simp add: memory_tcp_def duplex_write_def MemoryByteDuplex_Write_def MemoryByteSink_Write_def md_sink_def
      MarkRequestSent_def NoteSentBytes_def Let_def)

lemma demo_connected:
  obtains c where "ntrip_reach memory_tcp c" and "ntc_state c = NS_kConnected" and "nm_request_sent (ntc_metrics c)"
    and "ntc_config c = demo_ntrip_config" and "ntc_reconnect_state c = NtripReconnectState_default"
    and "ntc_correction_flow_state c = NtripCorrectionFlowState_default"
    and "MemoryByteDuplex_Read (ntc_transport c) False 64
      = (ntc_transport c, \<lparr>rr_bytes_read = 0, rr_status = TS_kEndOfStream, rr_error = TE_kNone\<rparr>, [])"
    and "md_open (ntc_transport c)"
proof -
  let ?c0 = "demo_session []"
  have reach0: "ntrip_reach memory_tcp ?c0"
    unfolding demo_session_def by (rule ntrip_reach.new) (simp add: memory_tcp_def)
  have "nc_host demo_ntrip_config \<noteq> []" "nc_port demo_ntrip_config \<noteq> 0" by (simp_all add: demo_ntrip_config_def)
  then obtain c1 where c1: "client_Connect memory_tcp ?c0 None = Some (c1, NE_kNone)" "ntc_state c1 = NS_kConnected"
    "\<not> nm_request_sent (ntc_metrics c1)" "ntc_config c1 = demo_ntrip_config"
    "ntc_reconnect_state c1 = NtripReconnectState_default" "ntc_correction_flow_state c1 = NtripCorrectionFlowState_default"
    "md_open (ntc_transport c1)" "md_next_write_error (ntc_transport c1) = TE_kNone" "md_input (ntc_transport c1) = []"
    "md_read_offset (ntc_transport c1) = 0" "md_next_read_error (ntc_transport c1) = TE_kNone"
    by (simp add: client_Connect_def begin_connection_def finish_connection_def transport_config_of_def demo_session_def
        NtripClient_new_def memory_tcp_def MemoryByteDuplex_Close_def ResetSessionMetrics_def ResetSessionState_def
        ClearLastError_def MarkConnected_def NtripConnectionMetrics_default_def Let_def)
  from reach0 c1(1) have reach1: "ntrip_reach memory_tcp c1" by (rule ntrip_reach.connect)
  let ?c1 = "c1\<lparr>ntc_request := BuildNtripGetRequest (ntc_config c1)\<rparr>"
  have "bytes_of (nr_request_text (ntc_request ?c1)) \<noteq> []"
    by (simp add: BuildNtripGetRequest_def Let_def)
  from memory_send_remaining [of ?c1 _ None, OF _ _ this] c1 obtain c2 where
    send: "send_remaining memory_tcp ?c1 (bytes_of (nr_request_text (ntc_request ?c1))) None = Some (c2, NE_kNone)"
    and c2: "nm_request_sent (ntc_metrics c2)" "ntc_state c2 = NS_kConnected" "ntc_config c2 = demo_ntrip_config"
      "ntc_reconnect_state c2 = NtripReconnectState_default"
      "ntc_correction_flow_state c2 = NtripCorrectionFlowState_default"
      "md_open (ntc_transport c2)" "md_input (ntc_transport c2) = []"
      "md_read_offset (ntc_transport c2) = 0" "md_next_read_error (ntc_transport c2) = TE_kNone"
    by auto
  have "SendRequest memory_tcp c1 None = Some (c2, NE_kNone)"
    using send c1 by (simp add: SendRequest_def memory_tcp_def)
  from ntrip_reach.send [OF reach1 this] c2 show ?thesis
    by (intro that [of c2]) (simp_all add: MemoryByteDuplex_Read_def MemoryByteSource_Read_def md_source_def)
qed

theorem ntrip_backoff_reset_witness:
  "\<exists>c c1 r. ntrip_reach memory_tcp c \<and> client_Read memory_tcp c False 64 None demo_steady = Some (c1, r, [], [])
     \<and> ntc_state c1 = NS_kFailed
     \<and> (\<exists>d. OnFailure (nc_reconnect_policy demo_ntrip_config) NtripReconnectState_default 0
          = Some (ntc_reconnect_state c1, d))"
proof -
  obtain c where c: "ntrip_reach memory_tcp c" "ntc_state c = NS_kConnected" "nm_request_sent (ntc_metrics c)"
    "ntc_config c = demo_ntrip_config" "ntc_reconnect_state c = NtripReconnectState_default"
    "ntc_correction_flow_state c = NtripCorrectionFlowState_default"
    "MemoryByteDuplex_Read (ntc_transport c) False 64
      = (ntc_transport c, \<lparr>rr_bytes_read = 0, rr_status = TS_kEndOfStream, rr_error = TE_kNone\<rparr>, [])"
    "md_open (ntc_transport c)" by (rule demo_connected)
  obtain s d where fail: "OnFailure (nc_reconnect_policy demo_ntrip_config) NtripReconnectState_default 0 = Some (s, d)"
    using OnFailure_total [of "nc_reconnect_policy demo_ntrip_config"] by (fastforce simp: demo_ntrip_config_def)
  then have changed: "s \<noteq> NtripReconnectState_default"
    by (auto simp: OnFailure_def NtripReconnectState_default_def Let_def split: if_splits option.splits)
  have "\<exists>c1. FailWith memory_tcp c NE_kDisconnected None = Some c1 \<and> ntc_reconnect_state c1 = s"
    using c fail by (auto simp: FailWith_def ShouldTrackReconnectFailure_def RecordReconnectFailure_def Let_def)
  then obtain c1 where c1: "FailWith memory_tcp c NE_kDisconnected None = Some c1" "ntc_reconnect_state c1 = s" by blast
  have "\<exists>r. client_Read memory_tcp c False 64 None demo_steady = Some (c1, r, [], [])"
    using c c1(1)
    by (simp add: client_Read_def correction_flow_timed_out_def memory_tcp_def Let_def)
  then obtain r where run: "client_Read memory_tcp c False 64 None demo_steady = Some (c1, r, [], [])" by blast
  have "ntc_reconnect_state c1 \<noteq> ntc_reconnect_state c" using c1(2) changed c(5) by simp
  from ntrip_backoff_reset [OF memory_link.tcp_link_axioms c(1) run this] have "ntc_state c1 = NS_kFailed"
  proof
    assume "\<not> cf_operational (ntc_correction_flow_state c) \<and> cf_operational (ntc_correction_flow_state c1)
      \<and> max 1 (ucast (nc_operational_min_valid_rtcm_frames (ntc_config c))) \<le> cf_valid_rtcm_frames (ntc_correction_flow_state c1)"
    with FailWith_facts(7) [OF c1(1)] show ?thesis by auto
  qed simp
  with c(1) run fail c1(2) show ?thesis by blast
qed

end
