(* ===== verification/Mavlink_Rtcm.thy ===== *)
theory Mavlink_Rtcm
  imports UG_Prelude "HOL-Library.Multiset"
begin

text \<open>
  \<open>MavlinkRtcmEncoder\<close> (gnss_mavros/src/mavlink_rtcm_encoder.cpp): an RTCM frame cut into at most four
  GPS_RTCM_DATA fragments of 180 bytes, with a five-bit sequence number shared by the fragments of a frame.
\<close>

section \<open>Model\<close>

abbreviation (input) kPayloadCapacity :: nat where "kPayloadCapacity \<equiv> 180"
abbreviation (input) kMaxFragments :: nat where "kMaxFragments \<equiv> 4"
abbreviation (input) kMaxFrameSize :: nat where "kMaxFrameSize \<equiv> 720"

record MavlinkRtcmFragment =
  mf_flags :: u8
  mf_len :: u8
  mf_data :: bytes

definition MavlinkRtcmFragment_default :: MavlinkRtcmFragment where
  "MavlinkRtcmFragment_default = \<lparr>mf_flags = 0, mf_len = 0, mf_data = replicate kPayloadCapacity 0\<rparr>"

datatype MavlinkRtcmEncodeStatus = ME_kOk | ME_kEmptyFrame | ME_kFrameTooLarge

record MavlinkRtcmEncodeResult =
  me_status :: MavlinkRtcmEncodeStatus
  me_fragments :: "MavlinkRtcmFragment list"

text \<open>\<open>std::copy_n\<close> into the front of the fixed array.\<close>

definition copy_front :: "bytes \<Rightarrow> bytes \<Rightarrow> bytes" where
  "copy_front src dst = src @ drop (length src) dst"

text \<open>The loop over \<open>fragment_id\<close>, from a given number on.\<close>

function encode_fragments :: "u8 \<Rightarrow> nat \<Rightarrow> bytes \<Rightarrow> MavlinkRtcmFragment list" where
  "encode_fragments sequence_bits fragment_id current =
     (if fragment_id < kMaxFragments \<and> current \<noteq> [] then
        let len = min (length current) kPayloadCapacity in
        \<lparr>mf_flags = (0x01 OR push_bit 1 (word_of_nat fragment_id)) OR sequence_bits,
         mf_len = word_of_nat len,
         mf_data = copy_front (take len current) (mf_data MavlinkRtcmFragment_default)\<rparr>
        # encode_fragments sequence_bits (Suc fragment_id) (drop len current)
      else [])"
  by pat_completeness auto
termination by (relation "measure (\<lambda>(b, i, c). 4 - i)") auto

declare encode_fragments.simps [simp del]

text \<open>The sequence counter is an atomic unsigned int: \<open>fetch_add\<close> returns the old value.\<close>

definition Encode :: "u32 \<Rightarrow> bytes \<Rightarrow> u32 \<times> MavlinkRtcmEncodeResult" where
  "Encode sequence frame =
     (if frame = [] then (sequence, \<lparr>me_status = ME_kEmptyFrame, me_fragments = []\<rparr>)
      else if length frame > kMaxFrameSize then (sequence, \<lparr>me_status = ME_kFrameTooLarge, me_fragments = []\<rparr>)
      else
        let sequence_bits = push_bit 3 (ucast (sequence AND 0x1F)) in
        (sequence + 1,
         \<lparr>me_status = ME_kOk,
          me_fragments =
            (if length frame \<le> kPayloadCapacity then
               [\<lparr>mf_flags = sequence_bits, mf_len = word_of_nat (length frame),
                 mf_data = copy_front frame (mf_data MavlinkRtcmFragment_default)\<rparr>]
             else encode_fragments sequence_bits 0 frame)\<rparr>))"

section \<open>The receiving side\<close>

text \<open>What the autopilot reads off a fragment, and the frame of the fragments of one sequence number: a lone
  unfragmented message, or the fragments put in the order of their numbers.\<close>

definition is_fragment :: "MavlinkRtcmFragment \<Rightarrow> bool" where
  "is_fragment f \<longleftrightarrow> mf_flags f AND 0x01 \<noteq> 0"

definition fragment_number :: "MavlinkRtcmFragment \<Rightarrow> nat" where
  "fragment_number f = unat (drop_bit 1 (mf_flags f) AND 0x03)"

definition sequence_number :: "MavlinkRtcmFragment \<Rightarrow> nat" where
  "sequence_number f = unat (drop_bit 3 (mf_flags f))"

definition fragment_payload :: "MavlinkRtcmFragment \<Rightarrow> bytes" where
  "fragment_payload f = take (unat (mf_len f)) (mf_data f)"

definition reassemble :: "MavlinkRtcmFragment list \<Rightarrow> bytes" where
  "reassemble fs = concat (map fragment_payload (sort_key fragment_number fs))"

section \<open>Lemmas\<close>

lemma fragment_payload_copy:
  assumes "length src \<le> 180"
  shows "fragment_payload \<lparr>mf_flags = fl, mf_len = word_of_nat (length src),
      mf_data = copy_front src (mf_data MavlinkRtcmFragment_default)\<rparr> = src"
proof -
  have "unat (word_of_nat (length src) :: u8) = length src"
    using assms by (simp add: unat_of_nat)
  then show ?thesis by (simp add: fragment_payload_def copy_front_def)
qed

text \<open>The three fields of the flags byte do not overlap.\<close>

lemma sequence_bits_take: "(ucast (s AND 0x1F :: u32) :: u8) = take_bit 5 (ucast s)"
proof -
  have "s AND 0x1F = take_bit 5 s" by (simp add: take_bit_eq_mask mask_eq_exp_minus_1)
  then show ?thesis by (intro bit_word_eqI) (auto simp: bit_simps)
qed

lemma bit_fragment_bits:
  "i < 4 \<Longrightarrow> bit (word_of_nat i :: u8) n \<longleftrightarrow> n < 2 \<and> bit i n"
proof -
  assume "i < 4"
  then have "i = take_bit 2 i" by (simp add: take_bit_eq_mod)
  then have "bit i n \<Longrightarrow> n < 2" by (metis bit_take_bit_iff)
  then show ?thesis by (auto simp: bit_simps)
qed

lemma flags_fields:
  fixes w :: u8 and i :: nat
  assumes "i < 4"
  defines "fl \<equiv> (0x01 OR push_bit 1 (word_of_nat i)) OR push_bit 3 (take_bit 5 w)"
  shows "fl AND 0x01 = 1" and "drop_bit 1 fl AND 0x03 = word_of_nat i" and "drop_bit 3 fl = take_bit 5 w"
proof -
  have fl: "bit fl n \<longleftrightarrow> (if n = 0 then True else if n < 3 then bit i (n - 1) else n < 8 \<and> bit w (n - 3))" for n
    unfolding fl_def bit_or_iff bit_push_bit_iff bit_fragment_bits [OF assms(1)] bit_take_bit_iff bit_1_iff
    by auto
  have one: "bit (1 :: u8) n \<longleftrightarrow> n = 0" for n by (simp add: bit_1_iff)
  show "fl AND 0x01 = 1" by (intro bit_word_eqI) (auto simp: bit_and_iff fl one)
  have three: "bit (0x03 :: u8) n \<longleftrightarrow> n < 2" for n
  proof -
    have "bit (mask 2 :: u8) n \<longleftrightarrow> n < 2" unfolding bit_mask_iff by auto
    then show ?thesis by (simp add: mask_eq_exp_minus_1)
  qed
  show "drop_bit 1 fl AND 0x03 = word_of_nat i"
    by (rule bit_word_eqI) (simp only: bit_and_iff bit_drop_bit_eq o_apply fl three bit_fragment_bits [OF assms(1)], auto)
  show "drop_bit 3 fl = take_bit 5 w"
    by (intro bit_word_eqI) (auto simp: bit_drop_bit_eq fl bit_take_bit_iff)
qed

text \<open>What a fragment of the loop carries.\<close>

definition fragment_at :: "u8 \<Rightarrow> nat \<Rightarrow> bytes \<Rightarrow> MavlinkRtcmFragment" where
  "fragment_at sequence_bits i chunk =
     \<lparr>mf_flags = (0x01 OR push_bit 1 (word_of_nat i)) OR sequence_bits, mf_len = word_of_nat (length chunk),
      mf_data = copy_front chunk (mf_data MavlinkRtcmFragment_default)\<rparr>"

lemma copy_front_length: "length src \<le> length dst \<Longrightarrow> length (copy_front src dst) = length dst"
  by (simp add: copy_front_def)

lemma fragment_at_fields:
  assumes "i < 4" and "length chunk \<le> 180"
  shows "fragment_payload (fragment_at (push_bit 3 (take_bit 5 w)) i chunk) = chunk"
    and "fragment_number (fragment_at (push_bit 3 (take_bit 5 w)) i chunk) = i"
    and "sequence_number (fragment_at (push_bit 3 (take_bit 5 w)) i chunk) = unat (take_bit 5 w)"
    and "is_fragment (fragment_at (push_bit 3 (take_bit 5 w)) i chunk)"
    and "unat (mf_len (fragment_at (push_bit 3 (take_bit 5 w)) i chunk)) = length chunk"
    and "length (mf_data (fragment_at (push_bit 3 (take_bit 5 w)) i chunk)) = 180"
  using assms flags_fields [OF assms(1), of w]
  by (simp_all add: fragment_payload_copy fragment_number_def sequence_number_def is_fragment_def fragment_at_def
      copy_front_def MavlinkRtcmFragment_default_def fragment_payload_def unat_of_nat)

lemma encode_fragments_step:
  "i < 4 \<Longrightarrow> current \<noteq> [] \<Longrightarrow>
   encode_fragments b i current = fragment_at b i (take 180 current) # encode_fragments b (Suc i) (drop 180 current)"
  by (subst encode_fragments.simps) (simp add: fragment_at_def Let_def min_def)

lemma encode_fragments_end: "encode_fragments b i [] = []"
  by (subst encode_fragments.simps) simp

lemma encode_fragments_spec:
  fixes w :: u8
  assumes "length current \<le> (4 - i) * 180"
  defines "b \<equiv> push_bit 3 (take_bit 5 w)"
  shows "concat (map fragment_payload (encode_fragments b i current)) = current
    \<and> map fragment_number (encode_fragments b i current) = [i ..< i + (length current + 179) div 180]
    \<and> (\<forall>f \<in> set (encode_fragments b i current). is_fragment f \<and> sequence_number f = unat (take_bit 5 w)
         \<and> length (mf_data f) = 180 \<and> 0 < unat (mf_len f) \<and> unat (mf_len f) \<le> 180)"
  using assms(1)
proof (induction "4 - i" arbitrary: i current)
  case 0
  then show ?case by (simp add: encode_fragments_end)
next
  case (Suc n)
  show ?case
  proof (cases "current = []")
    case False
    have i: "i < 4" using Suc.hyps(2) by simp
    have "length (drop 180 current) \<le> (4 - Suc i) * 180" using Suc.prems Suc.hyps(2) by (simp add: algebra_simps)
    moreover have "n = 4 - Suc i" using Suc.hyps(2) by simp
    ultimately have rest: "concat (map fragment_payload (encode_fragments b (Suc i) (drop 180 current))) = drop 180 current
      \<and> map fragment_number (encode_fragments b (Suc i) (drop 180 current))
          = [Suc i ..< Suc i + (length (drop 180 current) + 179) div 180]
      \<and> (\<forall>f \<in> set (encode_fragments b (Suc i) (drop 180 current)). is_fragment f
           \<and> sequence_number f = unat (take_bit 5 w) \<and> length (mf_data f) = 180 \<and> 0 < unat (mf_len f)
           \<and> unat (mf_len f) \<le> 180)"
      using Suc.hyps(1) by blast
    have count: "(length current + 179) div 180 = Suc ((length (drop 180 current) + 179) div 180)"
      using False by (cases "length current \<le> 180") (auto simp: Suc_le_eq le_div_geq)
    have fields: "fragment_payload (fragment_at b i (take 180 current)) = take 180 current"
      "fragment_number (fragment_at b i (take 180 current)) = i"
      "sequence_number (fragment_at b i (take 180 current)) = unat (take_bit 5 w)"
      "is_fragment (fragment_at b i (take 180 current))"
      "unat (mf_len (fragment_at b i (take 180 current))) = min (length current) 180"
      "length (mf_data (fragment_at b i (take 180 current))) = 180"
      unfolding b_def using fragment_at_fields [OF i, of "take 180 current" w] by (simp_all add: min_def)
    show ?thesis
      unfolding encode_fragments_step [OF i False] count
      using rest fields False by (auto simp: upt_conv_Cons min_def)
  qed (simp add: encode_fragments_end)
qed

lemma reassemble_any_order:
  assumes "distinct (map fragment_number fs)" and "sorted (map fragment_number fs)" and "mset gs = mset fs"
  shows "reassemble gs = concat (map fragment_payload fs)"
proof -
  have "distinct (map fragment_number gs)"
    using assms(1,3) by (metis distinct_map mset_eq_setD mset_eq_imp_distinct_iff)
  then have one: "filter (\<lambda>x. fragment_number k = fragment_number x) hs = [k]"
    if "k \<in> set hs" "distinct (map fragment_number hs)" for k hs
    using that by (induction hs) (auto simp: filter_empty_conv image_iff)
  have "sort_key fragment_number gs = fs"
  proof (rule properties_for_sort_key)
    show "mset fs = mset gs" using assms(3) by simp
    show "filter (\<lambda>x. fragment_number k = fragment_number x) fs = filter (\<lambda>x. fragment_number k = fragment_number x) gs"
      if "k \<in> set fs" for k
      using that one assms(1) \<open>distinct (map fragment_number gs)\<close> mset_eq_setD [OF assms(3)] by simp
    show "sorted (map fragment_number fs)" by (rule assms(2))
  qed
  then show ?thesis by (simp add: reassemble_def)
qed

section \<open>Properties\<close>

text \<open>C32. A frame survives its MAVLink fragmentation: every frame of 1 to 720 bytes is accepted, and its
  fragments, received in any order, put together in the order of their fragment numbers give the frame back.
  There are as few fragments as the capacity of 180 bytes allows, each carries at least one and at most 180
  bytes in a full array, all carry the low five bits of the sequence counter as their sequence number, and the
  fragmentation bit is set exactly when the frame needs more than one fragment.  Any other frame is refused with
  no fragment and leaves the sequence counter alone; an accepted one advances it by one.\<close>

theorem mavlink_rtcm_roundtrip:
  "case Encode sequence frame of (next_sequence, res) \<Rightarrow>
     (me_status res = ME_kOk) = (0 < length frame \<and> length frame \<le> 720)
     \<and> next_sequence = (if me_status res = ME_kOk then sequence + 1 else sequence)
     \<and> length (me_fragments res) = (if me_status res = ME_kOk then (length frame + 179) div 180 else 0)
     \<and> (\<forall>gs. mset gs = mset (me_fragments res) \<longrightarrow>
          reassemble gs = (if me_status res = ME_kOk then frame else []))
     \<and> (\<forall>f \<in> set (me_fragments res).
          is_fragment f = (180 < length frame) \<and> sequence_number f = unat sequence mod 32
          \<and> length (mf_data f) = 180 \<and> 0 < unat (mf_len f) \<and> unat (mf_len f) \<le> 180)"
proof -
  let ?w = "ucast sequence :: u8"
  have seq: "unat (take_bit 5 ?w) = unat sequence mod 32"
    unfolding unsigned_take_bit_eq unsigned_ucast_eq by (simp add: take_bit_eq_mod mod_mod_cancel)
  consider (refused) "frame = [] \<or> 720 < length frame" | (single) "frame \<noteq> []" "length frame \<le> 180"
    | (many) "180 < length frame" "length frame \<le> 720" by fastforce
  then show ?thesis
  proof cases
    case refused
    then show ?thesis by (auto simp: Encode_def reassemble_def)
  next
    case single
    define f where "f = \<lparr>mf_flags = push_bit 3 (take_bit 5 ?w), mf_len = word_of_nat (length frame),
        mf_data = copy_front frame (mf_data MavlinkRtcmFragment_default)\<rparr>"
    have enc: "Encode sequence frame = (sequence + 1, \<lparr>me_status = ME_kOk, me_fragments = [f]\<rparr>)"
      using single unfolding Encode_def sequence_bits_take f_def by (simp add: Let_def)
    have "drop_bit 3 (push_bit 3 (take_bit 5 ?w)) = take_bit 5 ?w"
      by (intro bit_word_eqI) (auto simp: bit_drop_bit_eq bit_push_bit_iff bit_take_bit_iff)
    moreover have "push_bit 3 (take_bit 5 ?w) AND 1 = 0"
      by (intro bit_word_eqI) (auto simp: bit_and_iff bit_push_bit_iff bit_1_iff)
    ultimately have fields: "\<not> is_fragment f" "sequence_number f = unat sequence mod 32" "length (mf_data f) = 180"
      "unat (mf_len f) = length frame" "fragment_payload f = frame"
      using single seq fragment_payload_copy
      by (simp_all add: f_def is_fragment_def sequence_number_def copy_front_def MavlinkRtcmFragment_default_def
          unat_of_nat)
    have count: "(length frame + 179) div 180 = 1" using single by (cases frame) (auto simp: div_nat_eqI)
    show ?thesis using single fields by (auto simp: enc reassemble_def count)
  next
    case many
    let ?fs = "encode_fragments (push_bit 3 (take_bit 5 ?w)) 0 frame"
    have enc: "Encode sequence frame = (sequence + 1, \<lparr>me_status = ME_kOk, me_fragments = ?fs\<rparr>)"
      using many unfolding Encode_def sequence_bits_take by (auto simp: Let_def)
    have spec: "concat (map fragment_payload ?fs) = frame"
      "map fragment_number ?fs = [0 ..< (length frame + 179) div 180]"
      "\<forall>f \<in> set ?fs. is_fragment f \<and> sequence_number f = unat sequence mod 32
         \<and> length (mf_data f) = 180 \<and> 0 < unat (mf_len f) \<and> unat (mf_len f) \<le> 180"
      using encode_fragments_spec [of frame 0 ?w] many seq by simp_all
    have "length ?fs = (length frame + 179) div 180"
      using arg_cong [OF spec(2), of length] by simp
    moreover have "reassemble gs = frame" if "mset gs = mset ?fs" for gs
      using reassemble_any_order [OF _ _ that] spec(1,2) by simp
    ultimately show ?thesis using many spec(3) by (auto simp: enc)
  qed
qed

text \<open>A frame of 400 bytes, its three fragments arriving backwards.\<close>

theorem mavlink_rtcm_roundtrip_witness:
  "let frame = map word_of_nat [0..<400]; res = snd (Encode 37 frame) in
     me_status res = ME_kOk \<and> length (me_fragments res) = 3 \<and> reassemble (rev (me_fragments res)) = frame
     \<and> (\<forall>f \<in> set (me_fragments res). is_fragment f \<and> sequence_number f = 5)"
  using mavlink_rtcm_roundtrip [of "map word_of_nat [0..<400]" 37]
  by (simp add: Let_def case_prod_beta)

end
