(* ===== verification/Local_Caster.thy ===== *)
theory Local_Caster
  imports Cxx_Text Protocol_Records
begin

text \<open>
  \<open>LocalRtcmCaster\<close> (gnss_ntrip/src/local_rtcm_caster.cpp): the local NTRIP caster.  One source at a time
  publishes RTCM frames; every client that has asked for the mountpoint is sent the ICY answer, the cached
  reference station messages and then every frame published, through a bounded buffer; a client whose buffer
  is full is disconnected.

  The socket calls are arguments: what \<open>Start\<close> obtains from the socket layer, and for one \<open>Poll\<close> the
  descriptors accepted and the outcome of each \<open>recv\<close> and \<open>send\<close>.  A closed descriptor is \<open>-1\<close>, as in the
  program.  \<open>Poll\<close> also gives the bytes handed to each socket.
\<close>

section \<open>State\<close>

record LocalRtcmSourceIdentity =
  ls_source_id :: string
  ls_incarnation :: u64

record LocalRtcmCasterConfig =
  lc_bind_host :: string
  lc_port :: u16
  lc_mountpoint :: string
  lc_client_buffer_bytes :: nat

record LocalRtcmCasterMetrics =
  lm_accepted_clients :: u64
  lm_rejected_requests :: u64
  lm_slow_client_disconnects :: u64
  lm_served_frames :: u64

record CasterClient =
  cc_fd :: int
  cc_request :: string
  cc_pending :: bytes
  cc_pending_offset :: nat
  cc_ready :: bool

record LocalRtcmCaster =
  lr_config :: LocalRtcmCasterConfig
  lr_metrics :: LocalRtcmCasterMetrics
  lr_listener :: int
  lr_bound_port :: u16
  lr_source :: "LocalRtcmSourceIdentity option"
  lr_previous_source :: "LocalRtcmSourceIdentity option"
  lr_cached_1005 :: bytes
  lr_cached_1006 :: bytes
  lr_clients :: "CasterClient list"

definition LocalRtcmCaster_new :: LocalRtcmCaster where
  "LocalRtcmCaster_new =
     \<lparr>lr_config = \<lparr>lc_bind_host = ''127.0.0.1'', lc_port = 0, lc_mountpoint = ''RTCM3'', lc_client_buffer_bytes = 65536\<rparr>,
      lr_metrics = \<lparr>lm_accepted_clients = 0, lm_rejected_requests = 0, lm_slow_client_disconnects = 0, lm_served_frames = 0\<rparr>,
      lr_listener = - 1, lr_bound_port = 0, lr_source = None, lr_previous_source = None, lr_cached_1005 = [],
      lr_cached_1006 = [], lr_clients = []\<rparr>"

definition kIcyResponse :: string where
  "kIcyResponse = ''ICY 200 OK'' @ [CHR 0x0D, CHR 0x0A, CHR 0x0D, CHR 0x0A]"

section \<open>Operations\<close>

definition NormalizeMountpoint :: "string \<Rightarrow> string" where
  "NormalizeMountpoint s = dropWhile (\<lambda>c. c = CHR ''/'') s"

definition close_client :: "CasterClient \<Rightarrow> CasterClient" where
  "close_client c = c\<lparr>cc_fd := - 1\<rparr>"

definition ClearCaches :: "LocalRtcmCaster \<Rightarrow> LocalRtcmCaster" where
  "ClearCaches s = s\<lparr>lr_cached_1005 := [], lr_cached_1006 := []\<rparr>"

text \<open>The length still pending never exceeds the buffer of the configuration, so that the subtraction of
  \<open>std::size_t\<close> values does not wrap.\<close>

definition client_Queue :: "nat \<Rightarrow> CasterClient \<Rightarrow> bytes \<Rightarrow> CasterClient \<times> bool" where
  "client_Queue buffer_bytes c bs =
     (let pending_bytes = length (cc_pending c) - cc_pending_offset c in
      if length bs > buffer_bytes - pending_bytes then (c, False)
      else
        let c1 = (if cc_pending_offset c = length (cc_pending c) then c\<lparr>cc_pending := [], cc_pending_offset := 0\<rparr>
                  else if cc_pending_offset c \<ge> 4096 \<and> cc_pending_offset c * 2 \<ge> length (cc_pending c)
                  then c\<lparr>cc_pending := drop (cc_pending_offset c) (cc_pending c), cc_pending_offset := 0\<rparr>
                  else c) in
        (c1\<lparr>cc_pending := cc_pending c1 @ bs\<rparr>, True))"

definition note_slow :: "LocalRtcmCasterMetrics \<Rightarrow> LocalRtcmCasterMetrics" where
  "note_slow m = m\<lparr>lm_slow_client_disconnects := lm_slow_client_disconnects m + 1\<rparr>"

definition caster_running :: "LocalRtcmCaster \<Rightarrow> bool" where
  "caster_running s \<longleftrightarrow> lr_listener s \<ge> 0"

definition caster_Stop :: "LocalRtcmCaster \<Rightarrow> LocalRtcmCaster" where
  "caster_Stop s = ClearCaches (s\<lparr>lr_clients := [], lr_listener := - 1, lr_bound_port := 0, lr_source := None\<rparr>)"

text \<open>\<open>sockets\<close> is the listening descriptor and the port it is bound to, if the socket layer provides one.\<close>

definition caster_Start ::
  "LocalRtcmCaster \<Rightarrow> LocalRtcmCasterConfig \<Rightarrow> (int \<times> u16) option \<Rightarrow> LocalRtcmCaster \<times> bool" where
  "caster_Start s config0 sockets =
     (let s1 = caster_Stop s;
          config = config0\<lparr>lc_mountpoint := NormalizeMountpoint (lc_mountpoint config0)\<rparr> in
      if lc_mountpoint config = [] \<or> lc_client_buffer_bytes config < length kIcyResponse + 1 then (s1, False)
      else
        (case sockets of
           None \<Rightarrow> (s1, False)
         | Some (fd, port) \<Rightarrow>
             (s1\<lparr>lr_config := config, lr_listener := fd, lr_bound_port := port\<rparr>, True)))"

definition ActivateSource :: "LocalRtcmCaster \<Rightarrow> LocalRtcmSourceIdentity \<Rightarrow> LocalRtcmCaster \<times> bool" where
  "ActivateSource s source =
     (if \<not> caster_running s \<or> ls_source_id source = [] \<or> ls_incarnation source = 0
         \<or> (case lr_previous_source s of
              None \<Rightarrow> False
            | Some p \<Rightarrow> ls_source_id p = ls_source_id source \<and> ls_incarnation p = ls_incarnation source)
      then (s, False)
      else ((ClearCaches s)\<lparr>lr_source := Some source, lr_previous_source := Some source\<rparr>, True))"

definition EndSource :: "LocalRtcmCaster \<Rightarrow> LocalRtcmCaster" where
  "EndSource s = ClearCaches (s\<lparr>lr_source := None\<rparr>)"

text \<open>One client of the loop in \<open>PublishFrame\<close>.\<close>

definition publish_to ::
  "nat \<Rightarrow> bytes \<Rightarrow> CasterClient \<Rightarrow> LocalRtcmCasterMetrics \<Rightarrow> CasterClient \<times> LocalRtcmCasterMetrics" where
  "publish_to buffer_bytes raw c m =
     (if cc_fd c \<ge> 0 \<and> cc_ready c then
        (case client_Queue buffer_bytes c raw of
           (c1, True) \<Rightarrow> (c1, m)
         | (c1, False) \<Rightarrow> (close_client c1, note_slow m))
      else (c, m))"

text \<open>A loop over the clients that threads the metrics.\<close>

fun each_client ::
  "(CasterClient \<Rightarrow> 'm \<Rightarrow> CasterClient \<times> 'm) \<Rightarrow> CasterClient list \<Rightarrow> 'm \<Rightarrow> CasterClient list \<times> 'm" where
  "each_client f [] m = ([], m)"
| "each_client f (c # cs) m =
     (let (c1, m1) = f c m; (cs1, m2) = each_client f cs m1 in (c1 # cs1, m2))"

definition PublishFrame :: "LocalRtcmCaster \<Rightarrow> RtcmFrame \<Rightarrow> LocalRtcmCaster \<times> bool" where
  "PublishFrame s frame =
     (if lr_source s = None \<or> rtcm_checksum_status frame \<noteq> CS_kValid \<or> rtcm_raw_bytes frame = [] then (s, False)
      else
        let raw = rtcm_raw_bytes frame;
            s1 = (if rtcm_message_type frame = 1005 then s\<lparr>lr_cached_1005 := raw\<rparr> else s);
            s2 = (if rtcm_message_type frame = 1006 then s1\<lparr>lr_cached_1006 := raw\<rparr> else s1);
            (clients, m) = each_client (publish_to (lc_client_buffer_bytes (lr_config s2)) raw) (lr_clients s2)
              (lr_metrics s2) in
        (s2\<lparr>lr_clients := clients, lr_metrics := m\<lparr>lm_served_frames := lm_served_frames m + 1\<rparr>\<rparr>, True))"

text \<open>The outcomes of \<open>recv\<close> (the bytes received, none at the end of the stream, or an error) and of \<open>send\<close> (a
  count, an error that passes, or one that does not).\<close>

datatype send_result = Sent nat | SendAgain | SendFailed

record poll_sockets =
  ps_accepted :: "int list"
  ps_recv :: "int \<Rightarrow> string option"
  ps_send :: "int \<Rightarrow> bytes \<Rightarrow> send_result"

text \<open>The request part of a client's turn: whether its turn goes on.\<close>

definition poll_request ::
  "LocalRtcmCaster \<Rightarrow> poll_sockets \<Rightarrow> CasterClient \<Rightarrow> LocalRtcmCasterMetrics
     \<Rightarrow> CasterClient \<times> LocalRtcmCasterMetrics \<times> bool" where
  "poll_request s ps c m =
     (if cc_ready c then (c, m, True)
      else
        let count = ps_recv ps (cc_fd c);
            c1 = (case count of Some (ch # chs) \<Rightarrow> c\<lparr>cc_request := cc_request c @ ch # chs\<rparr> | _ \<Rightarrow> c) in
        if count = Some [] \<or> length (cc_request c1) > 2048 then (close_client c1, m, False)
        else
          (case find_sub [CHR 0x0D, CHR 0x0A] (cc_request c1) of
             None \<Rightarrow> (c1, m, True)
           | Some _ \<Rightarrow>
               if \<not> prefix (''GET /'' @ lc_mountpoint (lr_config s) @ '' '') (cc_request c1) then
                 (close_client c1, m\<lparr>lm_rejected_requests := lm_rejected_requests m + 1\<rparr>, False)
               else
                 let size = lc_client_buffer_bytes (lr_config s);
                     (c2, q1) = client_Queue size c1 (bytes_of kIcyResponse);
                     (c3, q2) = (if q1 then client_Queue size c2 (lr_cached_1005 s) else (c2, False));
                     (c4, q3) = (if q2 then client_Queue size c3 (lr_cached_1006 s) else (c3, False)) in
                 if \<not> q3 then (close_client c4, note_slow m, False)
                 else (c4\<lparr>cc_ready := True\<rparr>, m\<lparr>lm_accepted_clients := lm_accepted_clients m + 1\<rparr>, True)))"

text \<open>The sending part: the client and the bytes the socket took.\<close>

definition poll_send :: "poll_sockets \<Rightarrow> CasterClient \<Rightarrow> CasterClient \<times> bytes" where
  "poll_send ps c =
     (if cc_fd c \<ge> 0 \<and> cc_pending_offset c < length (cc_pending c) then
        let rest = drop (cc_pending_offset c) (cc_pending c) in
        (case ps_send ps (cc_fd c) rest of
           Sent count \<Rightarrow>
             if count > 0 then
               let c1 = c\<lparr>cc_pending_offset := cc_pending_offset c + count\<rparr> in
               (if cc_pending_offset c1 = length (cc_pending c1) then c1\<lparr>cc_pending := [], cc_pending_offset := 0\<rparr> else c1,
                take count rest)
             else (c, [])
         | SendAgain \<Rightarrow> (c, [])
         | SendFailed \<Rightarrow> (close_client c, []))
      else (c, []))"

type_synonym poll_log = "LocalRtcmCasterMetrics \<times> (int \<times> bytes) list"

definition poll_client ::
  "LocalRtcmCaster \<Rightarrow> poll_sockets \<Rightarrow> CasterClient \<Rightarrow> poll_log \<Rightarrow> CasterClient \<times> poll_log" where
  "poll_client s ps c log =
     (if cc_fd c < 0 then (c, log)
      else
        let (c1, m, go_on) = poll_request s ps c (fst log) in
        if \<not> go_on then (c1, (m, snd log))
        else let (c2, bs) = poll_send ps c1 in (c2, (m, snd log @ [(cc_fd c, bs)])))"

definition new_client :: "int \<Rightarrow> CasterClient" where
  "new_client fd = \<lparr>cc_fd = fd, cc_request = [], cc_pending = [], cc_pending_offset = 0, cc_ready = False\<rparr>"

definition Poll :: "LocalRtcmCaster \<Rightarrow> poll_sockets \<Rightarrow> LocalRtcmCaster \<times> (int \<times> bytes) list" where
  "Poll s ps =
     (if \<not> caster_running s then (s, [])
      else
        let (clients, m, sent) = each_client (poll_client s ps) (lr_clients s @ map new_client (ps_accepted ps))
              (lr_metrics s, []) in
        (s\<lparr>lr_clients := filter (\<lambda>c. \<not> cc_fd c < 0) clients, lr_metrics := m\<rparr>, sent))"

section \<open>Observations\<close>

text \<open>What an observer of the sockets records: the bytes each descriptor has been sent since it was accepted, the
  bytes it is due, and the frames published since the source was activated.  A client that has become ready is due
  the ICY answer and the cached messages; from then on every published frame.\<close>

record observed =
  ob_sent :: "int \<Rightarrow> bytes"
  ob_due :: "int \<Rightarrow> bytes"
  ob_frames :: "RtcmFrame list"

definition observed_new :: observed where
  "observed_new = \<lparr>ob_sent = (\<lambda>fd. []), ob_due = (\<lambda>fd. []), ob_frames = []\<rparr>"

definition ready_fd :: "LocalRtcmCaster \<Rightarrow> int \<Rightarrow> bool" where
  "ready_fd s fd \<longleftrightarrow> (\<exists>c \<in> set (lr_clients s). cc_fd c = fd \<and> cc_ready c)"

definition log_of :: "(int \<times> bytes) list \<Rightarrow> int \<Rightarrow> bytes" where
  "log_of sent fd = concat (map snd (filter (\<lambda>e. fst e = fd) sent))"

definition welcome_bytes :: "LocalRtcmCaster \<Rightarrow> bytes" where
  "welcome_bytes s = bytes_of kIcyResponse @ lr_cached_1005 s @ lr_cached_1006 s"

definition observe_poll ::
  "LocalRtcmCaster \<Rightarrow> poll_sockets \<Rightarrow> LocalRtcmCaster \<Rightarrow> (int \<times> bytes) list \<Rightarrow> observed \<Rightarrow> observed" where
  "observe_poll s ps s1 sent ob =
     (let old = (\<lambda>f fd. if fd \<in> set (ps_accepted ps) then [] else f fd) in
      ob\<lparr>ob_sent := (\<lambda>fd. old (ob_sent ob) fd @ log_of sent fd),
         ob_due := (\<lambda>fd. if ready_fd s1 fd \<and> \<not> ready_fd s fd then welcome_bytes s else old (ob_due ob) fd)\<rparr>)"

definition observe_publish :: "LocalRtcmCaster \<Rightarrow> RtcmFrame \<Rightarrow> bool \<Rightarrow> observed \<Rightarrow> observed" where
  "observe_publish s frame accepted ob =
     (if accepted
      then ob\<lparr>ob_due := (\<lambda>fd. ob_due ob fd @ (if ready_fd s fd then rtcm_raw_bytes frame else [])),
              ob_frames := ob_frames ob @ [frame]\<rparr>
      else ob)"

text \<open>What the operating system guarantees: descriptors are not negative, only a listening socket accepts, a
  descriptor just accepted is no open one, and a socket takes no more than it is offered.\<close>

definition sockets_ok :: "LocalRtcmCaster \<Rightarrow> poll_sockets \<Rightarrow> bool" where
  "sockets_ok s ps \<longleftrightarrow>
     (\<not> caster_running s \<longrightarrow> ps_accepted ps = []) \<and> distinct (ps_accepted ps) \<and> (\<forall>fd \<in> set (ps_accepted ps). 0 \<le> fd \<and> fd \<notin> cc_fd ` set (lr_clients s))
     \<and> (\<forall>fd bs n. ps_send ps fd bs = Sent n \<longrightarrow> n \<le> length bs)"

inductive caster_reach :: "LocalRtcmCaster \<Rightarrow> observed \<Rightarrow> bool" where
  new: "caster_reach LocalRtcmCaster_new observed_new"
| start: "caster_reach s ob \<Longrightarrow> caster_Start s config sockets = (s1, ok) \<Longrightarrow> caster_reach s1 (ob\<lparr>ob_frames := []\<rparr>)"
| stop: "caster_reach s ob \<Longrightarrow> caster_reach (caster_Stop s) (ob\<lparr>ob_frames := []\<rparr>)"
| activate: "caster_reach s ob \<Longrightarrow> ActivateSource s source = (s1, ok) \<Longrightarrow>
    caster_reach s1 (if ok then ob\<lparr>ob_frames := []\<rparr> else ob)"
| end_source: "caster_reach s ob \<Longrightarrow> caster_reach (EndSource s) (ob\<lparr>ob_frames := []\<rparr>)"
| publish: "caster_reach s ob \<Longrightarrow> PublishFrame s frame = (s1, ok) \<Longrightarrow> caster_reach s1 (observe_publish s frame ok ob)"
| poll: "caster_reach s ob \<Longrightarrow> sockets_ok s ps \<Longrightarrow> Poll s ps = (s1, sent) \<Longrightarrow>
    caster_reach s1 (observe_poll s ps s1 sent ob)"

section \<open>The invariant\<close>

definition buffer_ok :: "nat \<Rightarrow> CasterClient \<Rightarrow> bool" where
  "buffer_ok n c \<longleftrightarrow>
     cc_pending_offset c \<le> length (cc_pending c) \<and> length (cc_pending c) - cc_pending_offset c \<le> n"

definition rest_of :: "CasterClient \<Rightarrow> bytes" where
  "rest_of c = drop (cc_pending_offset c) (cc_pending c)"

definition client_ok :: "nat \<Rightarrow> (int \<Rightarrow> bytes) \<Rightarrow> (int \<Rightarrow> bytes) \<Rightarrow> CasterClient \<Rightarrow> bool" where
  "client_ok n sent due c \<longleftrightarrow>
     0 \<le> cc_fd c \<and> buffer_ok n c
     \<and> (if cc_ready c then sent (cc_fd c) @ rest_of c = due (cc_fd c)
        else rest_of c = [] \<and> sent (cc_fd c) = [] \<and> due (cc_fd c) = [])"

definition latest :: "u16 \<Rightarrow> RtcmFrame list \<Rightarrow> bytes" where
  "latest t fs = (case rev (filter (\<lambda>f. rtcm_message_type f = t) fs) of [] \<Rightarrow> [] | f # _ \<Rightarrow> rtcm_raw_bytes f)"

text \<open>A client that \<open>PublishFrame\<close> closed stays in the list until the next poll.\<close>

definition open_clients :: "LocalRtcmCaster \<Rightarrow> CasterClient list" where
  "open_clients s = filter (\<lambda>c. \<not> cc_fd c < 0) (lr_clients s)"

definition caster_ok :: "LocalRtcmCaster \<Rightarrow> observed \<Rightarrow> bool" where
  "caster_ok s ob \<longleftrightarrow>
     (\<forall>c \<in> set (open_clients s). client_ok (lc_client_buffer_bytes (lr_config s)) (ob_sent ob) (ob_due ob) c)
     \<and> distinct (map cc_fd (open_clients s))
     \<and> (\<forall>fd. prefix (ob_sent ob fd) (ob_due ob fd))
     \<and> lr_cached_1005 s = latest 1005 (ob_frames ob) \<and> lr_cached_1006 s = latest 1006 (ob_frames ob)
     \<and> (lr_source s = None \<longrightarrow> ob_frames ob = [])
     \<and> (\<forall>src. lr_source s = Some src \<longrightarrow> lr_previous_source s = Some src)"

section \<open>One client\<close>

lemma client_Queue_True:
  assumes "client_Queue n c bs = (c1, True)" and "buffer_ok n c"
  shows "buffer_ok n c1 \<and> rest_of c1 = rest_of c @ bs \<and> cc_fd c1 = cc_fd c \<and> cc_ready c1 = cc_ready c
    \<and> cc_request c1 = cc_request c"
  using assms by (auto simp: client_Queue_def buffer_ok_def rest_of_def Let_def split: if_splits)

lemma client_Queue_False: "client_Queue n c bs = (c1, False) \<Longrightarrow> c1 = c"
  by (auto simp: client_Queue_def Let_def split: if_splits)

lemma publish_to_client:
  assumes "publish_to n raw c m = (c1, m1)" and "buffer_ok n c" and "0 \<le> cc_fd c"
  shows "cc_ready c1 = cc_ready c
    \<and> (cc_fd c1 = - 1 \<and> cc_ready c
       \<or> cc_fd c1 = cc_fd c \<and> buffer_ok n c1 \<and> rest_of c1 = rest_of c @ (if cc_ready c then raw else []))"
  using assms client_Queue_True [of n c raw] client_Queue_False [of n c raw]
  by (auto simp: publish_to_def close_client_def split: if_splits prod.splits bool.splits)

text \<open>The answer to a request: three messages in a row, or the client is closed.\<close>

lemma poll_request_client:
  assumes "poll_request s ps c m = (c1, m1, go_on)" and "buffer_ok (lc_client_buffer_bytes (lr_config s)) c"
    and "0 \<le> cc_fd c"
  shows "cc_fd c1 = (if go_on then cc_fd c else - 1)
    \<and> (go_on \<longrightarrow> buffer_ok (lc_client_buffer_bytes (lr_config s)) c1 \<and> (cc_ready c \<longrightarrow> cc_ready c1)
         \<and> rest_of c1 = rest_of c @ (if cc_ready c1 \<and> \<not> cc_ready c then welcome_bytes s else []))"
proof (cases "cc_ready c")
  case True
  with assms show ?thesis by (auto simp: poll_request_def)
next
  case False
  let ?n = "lc_client_buffer_bytes (lr_config s)"
  define cr where "cr = (case ps_recv ps (cc_fd c) of Some (ch # chs) \<Rightarrow> c\<lparr>cc_request := cc_request c @ ch # chs\<rparr> | _ \<Rightarrow> c)"
  have cr: "cc_fd cr = cc_fd c" "cc_ready cr = cc_ready c" "rest_of cr = rest_of c" "buffer_ok ?n cr"
    using assms(2) by (auto simp: cr_def rest_of_def buffer_ok_def split: option.split list.split)
  obtain c2 q1 where e2: "client_Queue ?n cr (bytes_of kIcyResponse) = (c2, q1)" by fastforce
  obtain c3 q2 where e3: "(if q1 then client_Queue ?n c2 (lr_cached_1005 s) else (c2, False)) = (c3, q2)" by fastforce
  obtain c4 q3 where e4: "(if q2 then client_Queue ?n c3 (lr_cached_1006 s) else (c3, False)) = (c4, q3)" by fastforce
  have queued: "cc_fd c4 = cc_fd c \<and> rest_of c4 = rest_of c @ welcome_bytes s \<and> buffer_ok ?n c4" if q3
  proof -
    from that e4 have q2 by (simp split: if_splits)
    with e3 have q1 by (simp split: if_splits)
    with \<open>q2\<close> that e2 e3 e4 cr show ?thesis
      using client_Queue_True [of ?n cr "bytes_of kIcyResponse" c2] client_Queue_True [of ?n c2 "lr_cached_1005 s" c3]
        client_Queue_True [of ?n c3 "lr_cached_1006 s" c4] by (auto simp: welcome_bytes_def)
  qed
  from assms(1) False queued cr show ?thesis
    unfolding poll_request_def Let_def cr_def [symmetric] e2 e3 e4
    by (auto simp: e2 e3 e4 close_client_def buffer_ok_def rest_of_def split: if_splits option.splits)
qed

lemma poll_send_client:
  assumes "poll_send ps c = (c1, bs)" and "buffer_ok n c" and "0 \<le> cc_fd c"
    and "\<forall>fd bs k. ps_send ps fd bs = Sent k \<longrightarrow> k \<le> length bs"
  shows "cc_ready c1 = cc_ready c
    \<and> (cc_fd c1 = - 1 \<and> bs = [] \<or> cc_fd c1 = cc_fd c \<and> buffer_ok n c1 \<and> bs @ rest_of c1 = rest_of c)"
proof (cases "cc_pending_offset c < length (cc_pending c)")
  case True
  show ?thesis
  proof (cases "ps_send ps (cc_fd c) (drop (cc_pending_offset c) (cc_pending c))")
    case (Sent k)
    with assms(4) have "k \<le> length (drop (cc_pending_offset c) (cc_pending c))" by blast
    then have k: "cc_pending_offset c + k \<le> length (cc_pending c)" using True by simp
    have "take k (drop (cc_pending_offset c) (cc_pending c)) @ drop (cc_pending_offset c + k) (cc_pending c)
        = drop (cc_pending_offset c) (cc_pending c)"
      by (metis append_take_drop_id drop_drop add.commute)
    with assms(1-3) True Sent k show ?thesis
      by (auto simp: poll_send_def buffer_ok_def rest_of_def Let_def split: if_splits)
  qed (use assms(1-3) True in \<open>auto simp: poll_send_def close_client_def rest_of_def Let_def split: if_splits\<close>)
qed (use assms(1,2) in \<open>auto simp: poll_send_def\<close>)

section \<open>A poll of all clients\<close>

definition turn :: "LocalRtcmCaster \<Rightarrow> CasterClient \<Rightarrow> CasterClient \<times> (int \<times> bytes) list \<Rightarrow> bool" where
  "turn s c r \<longleftrightarrow>
     (case r of (c1, e) \<Rightarrow>
        fst ` set e \<subseteq> {cc_fd c}
        \<and> (cc_fd c1 = - 1 \<and> concat (map snd e) = []
           \<or> cc_fd c1 = cc_fd c \<and> buffer_ok (lc_client_buffer_bytes (lr_config s)) c1 \<and> (cc_ready c \<longrightarrow> cc_ready c1)
             \<and> concat (map snd e) @ rest_of c1 = rest_of c @ (if cc_ready c1 \<and> \<not> cc_ready c then welcome_bytes s else [])))"

lemma poll_client_turn:
  assumes "poll_client s ps c (m, L) = (c1, m1, L1)" and "buffer_ok (lc_client_buffer_bytes (lr_config s)) c"
    and "0 \<le> cc_fd c" and "\<forall>fd bs k. ps_send ps fd bs = Sent k \<longrightarrow> k \<le> length bs"
  shows "\<exists>e. L1 = L @ e \<and> turn s c (c1, e)"
proof -
  obtain c2 m2 go_on where r: "poll_request s ps c m = (c2, m2, go_on)" by (metis prod_cases3)
  obtain c3 bs where w: "poll_send ps c2 = (c3, bs)" by fastforce
  note rq = poll_request_client [OF r assms(2,3)]
  show ?thesis
  proof (cases go_on)
    case False
    with assms(1,3) r have "c1 = c2" "L1 = L" by (auto simp: poll_client_def)
    with rq False show ?thesis by (simp add: turn_def)
  next
    case True
    with assms(1,3) r w have out: "c1 = c3" "L1 = L @ [(cc_fd c, bs)]" by (auto simp: poll_client_def)
    from True rq have two: "cc_fd c2 = cc_fd c" "buffer_ok (lc_client_buffer_bytes (lr_config s)) c2"
      "cc_ready c \<longrightarrow> cc_ready c2" "rest_of c2 = rest_of c @ (if cc_ready c2 \<and> \<not> cc_ready c then welcome_bytes s else [])"
      by simp_all
    from poll_send_client [OF w two(2) _ assms(4)] assms(3) two show ?thesis
      by (auto simp: out turn_def)
  qed
qed

lemma each_poll:
  assumes "\<forall>fd bs k. ps_send ps fd bs = Sent k \<longrightarrow> k \<le> length bs"
  shows "\<lbrakk>each_client (poll_client s ps) cs (m, L) = (cs1, m1, L1);
      \<forall>c \<in> set cs. 0 \<le> cc_fd c \<and> buffer_ok (lc_client_buffer_bytes (lr_config s)) c\<rbrakk> \<Longrightarrow>
    \<exists>rs. cs1 = map fst rs \<and> L1 = L @ concat (map snd rs) \<and> list_all2 (turn s) cs rs"
proof (induction cs arbitrary: m L cs1 m1 L1)
  case Nil
  then show ?case by simp
next
  case (Cons c cs)
  obtain c1 m2 L2 where one: "poll_client s ps c (m, L) = (c1, m2, L2)" by (metis prod_cases3)
  obtain cs2 m3 L3 where rest: "each_client (poll_client s ps) cs (m2, L2) = (cs2, m3, L3)" by (metis prod_cases3)
  from Cons.prems(1) one rest have eqs: "cs1 = c1 # cs2" "L3 = L1" by simp_all
  from Cons.prems(2) obtain e where e: "L2 = L @ e" "turn s c (c1, e)"
    using poll_client_turn [OF one _ _ assms] by auto
  from Cons.IH [OF rest] Cons.prems(2) obtain rs where "cs2 = map fst rs" "L3 = L2 @ concat (map snd rs)"
    "list_all2 (turn s) cs rs" by auto
  with e eqs show ?case by (intro exI [of _ "(c1, e) # rs"]) simp
qed

text \<open>With distinct descriptors, the log of one is that of its client's turn.\<close>

lemma log_of_append [simp]: "log_of (xs @ ys) fd = log_of xs fd @ log_of ys fd"
  by (simp add: log_of_def)

lemma log_of_turn:
  "turn s c (c1, e) \<Longrightarrow> log_of e fd = (if fd = cc_fd c then concat (map snd e) else [])"
proof -
  assume "turn s c (c1, e)"
  then have fds: "\<forall>x \<in> set e. fst x = cc_fd c" by (auto simp: turn_def)
  show ?thesis
  proof (cases "fd = cc_fd c")
    case True
    with fds have "filter (\<lambda>x. fst x = fd) e = e" by (simp add: filter_id_conv)
    with True show ?thesis by (simp add: log_of_def)
  next
    case False
    with fds have "filter (\<lambda>x. fst x = fd) e = []" by (auto simp: filter_empty_conv)
    with False show ?thesis by (simp add: log_of_def)
  qed
qed

lemma log_of_other: "\<lbrakk>list_all2 (turn s) cs rs; fd \<notin> cc_fd ` set cs\<rbrakk> \<Longrightarrow> log_of (concat (map snd rs)) fd = []"
proof (induction rule: list_all2_induct)
  case Nil
  show ?case by (simp add: log_of_def)
next
  case (Cons c cs r rs)
  obtain c1 e where r: "r = (c1, e)" by fastforce
  with Cons log_of_turn [of s c c1 e fd] show ?case by simp
qed

lemma log_of_client:
  "\<lbrakk>list_all2 (turn s) cs rs; distinct (map cc_fd cs); (c, c1, e) \<in> set (zip cs rs)\<rbrakk> \<Longrightarrow>
     turn s c (c1, e) \<and> log_of (concat (map snd rs)) (cc_fd c) = concat (map snd e)"
proof (induction rule: list_all2_induct)
  case Nil
  then show ?case by simp
next
  case (Cons d cs r rs)
  obtain d1 e1 where r: "r = (d1, e1)" by fastforce
  show ?case
  proof (cases "(c, c1, e) = (d, r)")
    case True
    with Cons r log_of_turn [of s d d1 e1 "cc_fd c"] log_of_other [of s cs rs "cc_fd c"] show ?thesis
      by auto
  next
    case False
    with Cons.prems have mem: "(c, c1, e) \<in> set (zip cs rs)" by auto
    then have "c \<in> set cs" by (rule set_zip_leftD)
    then have "cc_fd c \<in> cc_fd ` set cs" by (rule imageI)
    then have "cc_fd c \<noteq> cc_fd d" using Cons.prems(1) by auto
    with Cons mem r log_of_turn [of s d d1 e1 "cc_fd c"] show ?thesis by auto
  qed
qed

lemma rs_client:
  assumes "list_all2 (turn s) cs rs" and "r \<in> set rs"
  shows "\<exists>c. (c, r) \<in> set (zip cs rs)"
proof -
  from assms(2) obtain i where "i < length rs" "rs ! i = r" by (auto simp: in_set_conv_nth)
  with list_all2_lengthD [OF assms(1)] have "(cs ! i, r) \<in> set (zip cs rs)" by (auto simp: in_set_zip)
  then show ?thesis by blast
qed

lemma cs_client:
  assumes "list_all2 (turn s) cs rs" and "c \<in> set cs"
  shows "\<exists>r. (c, r) \<in> set (zip cs rs)"
proof -
  from assms(2) obtain i where "i < length cs" "cs ! i = c" by (auto simp: in_set_conv_nth)
  with list_all2_lengthD [OF assms(1)] have "(c, rs ! i) \<in> set (zip cs rs)" by (auto simp: in_set_zip)
  then show ?thesis by blast
qed

text \<open>The open results of turns of clients with distinct descriptors have distinct descriptors.\<close>

lemma open_distinct:
  "\<lbrakk>list_all2 (\<lambda>c c1. cc_fd c1 = - 1 \<or> cc_fd c1 = cc_fd c) cs cs1; distinct (map cc_fd cs)\<rbrakk> \<Longrightarrow>
     distinct (map cc_fd (filter (\<lambda>c. \<not> cc_fd c < 0) cs1))
     \<and> cc_fd ` set (filter (\<lambda>c. \<not> cc_fd c < 0) cs1) \<subseteq> cc_fd ` set cs"
proof (induction rule: list_all2_induct)
  case Nil
  then show ?case by simp
next
  case (Cons c cs c1 cs1)
  let ?open = "filter (\<lambda>c. \<not> cc_fd c < 0) cs1"
  from Cons have ih: "distinct (map cc_fd ?open)" "cc_fd ` set ?open \<subseteq> cc_fd ` set cs" by auto
  show ?case
  proof (cases "cc_fd c1 < 0")
    case True
    with ih show ?thesis by auto
  next
    case False
    with Cons.hyps(1) have fd: "cc_fd c1 = cc_fd c" by auto
    moreover from Cons.prems ih(2) have "cc_fd c \<notin> cc_fd ` set ?open" by auto
    ultimately have "distinct (map cc_fd (c1 # ?open))" using ih(1) by simp
    moreover have "cc_fd ` set (c1 # ?open) \<subseteq> cc_fd ` set (c # cs)"
      unfolding list.set image_insert fd by (rule insert_mono [OF ih(2)])
    ultimately show ?thesis using False by simp
  qed
qed

lemma rs_distinct:
  assumes "list_all2 (turn s) cs rs" and "distinct (map cc_fd cs)"
  shows "distinct (map cc_fd (filter (\<lambda>c. \<not> cc_fd c < 0) (map fst rs)))
     \<and> cc_fd ` set (filter (\<lambda>c. \<not> cc_fd c < 0) (map fst rs)) \<subseteq> cc_fd ` set cs"
proof (rule open_distinct [OF _ assms(2)])
  have "turn s c r \<Longrightarrow> cc_fd (fst r) = - 1 \<or> cc_fd (fst r) = cc_fd c" for c r
    by (cases r) (auto simp: turn_def)
  with assms(1) show "list_all2 (\<lambda>c c1. cc_fd c1 = - 1 \<or> cc_fd c1 = cc_fd c) cs (map fst rs)"
    by (simp add: list_all2_conv_all_nth)
qed

text \<open>The clients of a poll and what has been observed of them, before and after.\<close>

lemma poll_invariant:
  assumes clients: "\<forall>c \<in> set cs. client_ok (lc_client_buffer_bytes (lr_config s)) sent due c"
    and fds: "distinct (map cc_fd cs)" and turns: "list_all2 (turn s) cs rs"
    and pre: "\<forall>fd. prefix (sent fd) (due fd)"
  defines "cs1 \<equiv> filter (\<lambda>c. \<not> cc_fd c < 0) (map fst rs)"
  defines "sent1 \<equiv> (\<lambda>fd. sent fd @ log_of (concat (map snd rs)) fd)"
    and "due1 \<equiv> (\<lambda>fd. if (\<exists>c \<in> set cs1. cc_fd c = fd \<and> cc_ready c) \<and> \<not> (\<exists>c \<in> set cs. cc_fd c = fd \<and> cc_ready c)
      then welcome_bytes s else due fd)"
  shows "\<forall>c \<in> set cs1. client_ok (lc_client_buffer_bytes (lr_config s)) sent1 due1 c"
    and "distinct (map cc_fd cs1)" and "\<forall>fd. prefix (sent1 fd) (due1 fd)"
proof -
  have pos: "\<forall>c \<in> set cs. 0 \<le> cc_fd c" using clients by (simp add: client_ok_def)
  note dist = rs_distinct [OF turns fds]
  then show dist1: "distinct (map cc_fd cs1)" by (simp add: cs1_def)
  have same: "c = d" if "c \<in> set cs" "d \<in> set cs" "cc_fd c = cc_fd d" for c d
    using fds that by (auto simp: distinct_map inj_on_def)
  have same1: "c = d" if "c \<in> set cs1" "d \<in> set cs1" "cc_fd c = cc_fd d" for c d
    using dist1 that by (auto simp: distinct_map inj_on_def)
  have sees: "0 \<le> cc_fd c1 \<Longrightarrow> c1 \<in> set cs1 \<and> cc_fd c1 = cc_fd c" "sent1 (cc_fd c) = sent (cc_fd c) @ concat (map snd e)"
    "turn s c (c1, e)" "c \<in> set cs" if "(c, c1, e) \<in> set (zip cs rs)" for c c1 e
  proof -
    have mem: "c \<in> set cs" "(c1, e) \<in> set rs" by (rule set_zip_leftD [OF that], rule set_zip_rightD [OF that])
    from log_of_client [OF turns fds that] show "sent1 (cc_fd c) = sent (cc_fd c) @ concat (map snd e)" "turn s c (c1, e)"
      by (simp_all add: sent1_def)
    then show "0 \<le> cc_fd c1 \<Longrightarrow> c1 \<in> set cs1 \<and> cc_fd c1 = cc_fd c" using mem(2) by (force simp: turn_def cs1_def)
    show "c \<in> set cs" by (rule mem(1))
  qed
  have ready: "(\<exists>d \<in> set cs. cc_fd d = cc_fd c \<and> cc_ready d) = cc_ready c" if "c \<in> set cs" for c
    using that same by blast
  have ready1: "(\<exists>d \<in> set cs1. cc_fd d = cc_fd c1 \<and> cc_ready d) = cc_ready c1" if "c1 \<in> set cs1" for c1
    using that same1 by blast
  have ok1: "client_ok (lc_client_buffer_bytes (lr_config s)) sent1 due1 c1" if mem: "c1 \<in> set cs1" for c1
  proof -
    from mem obtain e where e: "(c1, e) \<in> set rs" "0 \<le> cc_fd c1" by (auto simp: cs1_def)
    from rs_client [OF turns e(1)] obtain c where z: "(c, c1, e) \<in> set (zip cs rs)" by blast
    note c = sees [OF z]
    have fd: "cc_fd c1 = cc_fd c" using c(1) e(2) by blast
    have due: "due1 (cc_fd c) = (if cc_ready c1 \<and> \<not> cc_ready c then welcome_bytes s else due (cc_fd c))"
      unfolding due1_def using ready [OF c(4)] ready1 [OF mem, unfolded fd] by presburger
    from c(3) e(2) have t: "buffer_ok (lc_client_buffer_bytes (lr_config s)) c1" "cc_ready c \<longrightarrow> cc_ready c1"
      "concat (map snd e) @ rest_of c1 = rest_of c @ (if cc_ready c1 \<and> \<not> cc_ready c then welcome_bytes s else [])"
      by (auto simp: turn_def)
    from clients c(4) have old: "if cc_ready c then sent (cc_fd c) @ rest_of c = due (cc_fd c)
        else rest_of c = [] \<and> sent (cc_fd c) = [] \<and> due (cc_fd c) = []" by (simp add: client_ok_def)
    show ?thesis
      unfolding client_ok_def fd c(2) due using e(2) fd t old by (auto split: if_splits)
  qed
  then show "\<forall>c \<in> set cs1. client_ok (lc_client_buffer_bytes (lr_config s)) sent1 due1 c" by blast
  show "\<forall>fd. prefix (sent1 fd) (due1 fd)"
  proof
    fix fd
    show "prefix (sent1 fd) (due1 fd)"
    proof (cases "fd \<in> cc_fd ` set cs")
      case True
      then obtain c where c: "c \<in> set cs" "fd = cc_fd c" by blast
      from cs_client [OF turns c(1)] obtain c1 e where z: "(c, c1, e) \<in> set (zip cs rs)" by auto
      note v = sees [OF z]
      show ?thesis
      proof (cases "0 \<le> cc_fd c1")
        case True
        with v(1) ok1 have "client_ok (lc_client_buffer_bytes (lr_config s)) sent1 due1 c1" "cc_fd c1 = fd"
          by (simp_all add: c(2))
        then show ?thesis by (cases "cc_ready c1") (simp_all add: client_ok_def, metis prefixI)
      next
        case False
        moreover have "0 \<le> cc_fd c" using pos c(1) by blast
        ultimately have "concat (map snd e) = []" using v(3) by (auto simp: turn_def)
        with v(2) have "sent1 fd = sent fd" by (simp add: c(2))
        moreover have "cc_fd d \<noteq> fd" if "d \<in> set cs1" for d
        proof
          assume fd: "cc_fd d = fd"
          from that obtain e1 where d: "(d, e1) \<in> set rs" "0 \<le> cc_fd d" by (auto simp: cs1_def)
          from rs_client [OF turns d(1)] obtain b where b: "(b, d, e1) \<in> set (zip cs rs)" by blast
          from sees(1,4) [OF b] d(2) fd c have "b = c" using same by simp
          with b z fds have "d = c1" by (auto simp: in_set_zip distinct_map inj_on_def nth_eq_iff_index_eq)
          with d(2) False show False by simp
        qed
        then have "due1 fd = due fd" by (auto simp: due1_def)
        ultimately show ?thesis using pre by simp
      qed
    next
      case False
      then have "sent1 fd = sent fd" by (simp add: sent1_def log_of_other [OF turns])
      moreover have "cc_fd d \<noteq> fd" if "d \<in> set cs1" for d
        using that dist False by (auto simp: cs1_def)
      then have "due1 fd = due fd" by (auto simp: due1_def)
      ultimately show ?thesis using pre by simp
    qed
  qed
qed

section \<open>The operations keep the invariant\<close>

lemma latest_append:
  "latest t (fs @ [f]) = (if rtcm_message_type f = t then rtcm_raw_bytes f else latest t fs)"
  by (simp add: latest_def)

lemma latest_Nil [simp]: "latest t [] = []"
  by (simp add: latest_def)

lemma ready_fd_iff:
  "\<lbrakk>distinct (map cc_fd (open_clients s)); c \<in> set (open_clients s)\<rbrakk> \<Longrightarrow> ready_fd s (cc_fd c) = cc_ready c"
  by (auto simp: ready_fd_def open_clients_def distinct_map inj_on_def)

text \<open>A loop that passes closed clients over works on the open ones.\<close>

lemma each_client_open:
  assumes "\<And>c m. cc_fd c < 0 \<Longrightarrow> f c m = (c, m)"
  shows "each_client f cs m = (cs1, m1) \<Longrightarrow>
    \<exists>cs2. each_client f (filter (\<lambda>c. \<not> cc_fd c < 0) cs) m = (cs2, m1)
      \<and> filter (\<lambda>c. \<not> cc_fd c < 0) cs1 = filter (\<lambda>c. \<not> cc_fd c < 0) cs2"
proof (induction cs arbitrary: m cs1 m1)
  case Nil
  then show ?case by simp
next
  case (Cons c cs)
  obtain c1 m2 where one: "f c m = (c1, m2)" by fastforce
  obtain cs2 m3 where rest: "each_client f cs m2 = (cs2, m3)" by fastforce
  from Cons.prems one rest have eqs: "cs1 = c1 # cs2" "m3 = m1" by simp_all
  from Cons.IH [OF rest] obtain cs3 where ih: "each_client f (filter (\<lambda>c. \<not> cc_fd c < 0) cs) m2 = (cs3, m3)"
    "filter (\<lambda>c. \<not> cc_fd c < 0) cs2 = filter (\<lambda>c. \<not> cc_fd c < 0) cs3" by blast
  show ?case
  proof (cases "cc_fd c < 0")
    case True
    with assms [OF True, of m] one have "c1 = c" "m2 = m" by simp_all
    with True ih eqs show ?thesis by auto
  next
    case False
    with ih eqs one show ?thesis by auto
  qed
qed

text \<open>Publishing to all clients, one after the other.\<close>

lemma each_publish:
  "\<lbrakk>each_client (publish_to n raw) cs m = (cs1, m1); \<forall>c \<in> set cs. client_ok n sent due c\<rbrakk> \<Longrightarrow>
     map cc_ready cs1 = map cc_ready cs
     \<and> list_all2 (\<lambda>c c1. cc_fd c1 = - 1 \<or> cc_fd c1 = cc_fd c \<and> buffer_ok n c1
          \<and> rest_of c1 = rest_of c @ (if cc_ready c then raw else [])) cs cs1"
proof (induction cs arbitrary: m cs1 m1)
  case Nil
  then show ?case by simp
next
  case (Cons c cs)
  obtain c1 m2 where one: "publish_to n raw c m = (c1, m2)" by fastforce
  obtain cs2 m3 where rest: "each_client (publish_to n raw) cs m2 = (cs2, m3)" by fastforce
  from Cons.prems(1) one rest have "cs1 = c1 # cs2" by simp
  moreover from Cons.prems(2) publish_to_client [OF one] Cons.IH [OF rest] show ?case
    unfolding calculation by (auto simp: client_ok_def)
qed

lemma caster_ok_new: "caster_ok LocalRtcmCaster_new observed_new"
  by (simp add: caster_ok_def open_clients_def LocalRtcmCaster_new_def observed_new_def)

lemma caster_ok_Stop: "caster_ok s ob \<Longrightarrow> caster_ok (caster_Stop s) (ob\<lparr>ob_frames := []\<rparr>)"
  by (simp add: caster_ok_def open_clients_def caster_Stop_def ClearCaches_def)

lemma caster_ok_Start:
  assumes "caster_ok s ob" and "caster_Start s config sockets = (s1, ok)"
  shows "caster_ok s1 (ob\<lparr>ob_frames := []\<rparr>)"
proof -
  have "caster_ok (s2\<lparr>lr_config := c, lr_listener := fd, lr_bound_port := p\<rparr>) ob1"
    if "caster_ok s2 ob1" "lr_clients s2 = []" for s2 ob1 c fd p
    using that by (simp add: caster_ok_def open_clients_def)
  moreover have "lr_clients (caster_Stop s) = []" by (simp add: caster_Stop_def ClearCaches_def)
  ultimately show ?thesis
    using assms(2) caster_ok_Stop [OF assms(1)]
    by (auto simp: caster_Start_def Let_def split: if_splits option.splits)
qed

lemma caster_ok_Activate:
  assumes "caster_ok s ob" and "ActivateSource s source = (s1, ok)"
  shows "caster_ok s1 (if ok then ob\<lparr>ob_frames := []\<rparr> else ob)"
  using assms by (auto simp: ActivateSource_def caster_ok_def open_clients_def ClearCaches_def split: if_splits)

lemma caster_ok_End: "caster_ok s ob \<Longrightarrow> caster_ok (EndSource s) (ob\<lparr>ob_frames := []\<rparr>)"
  by (simp add: caster_ok_def open_clients_def EndSource_def ClearCaches_def)

text \<open>A published frame: due to every ready client, and queued for it or the client is closed.\<close>

lemma publish_clients:
  assumes ok: "\<forall>c \<in> set cs. client_ok n sent due c" and fds: "distinct (map cc_fd cs)"
    and run: "each_client (publish_to n raw) cs m = (cs1, m1)"
    and due1: "\<And>c. c \<in> set cs \<Longrightarrow> due1 (cc_fd c) = due (cc_fd c) @ (if cc_ready c then raw else [])"
  shows "\<forall>c \<in> set (filter (\<lambda>c. \<not> cc_fd c < 0) cs1). client_ok n sent due1 c"
    and "distinct (map cc_fd (filter (\<lambda>c. \<not> cc_fd c < 0) cs1))"
proof -
  note each = each_publish [OF run ok]
  have pos: "\<forall>c \<in> set cs. 0 \<le> cc_fd c" using ok by (simp add: client_ok_def)
  have old: "\<exists>c \<in> set cs. cc_fd c1 = cc_fd c \<and> cc_ready c1 = cc_ready c \<and> buffer_ok n c1
      \<and> rest_of c1 = rest_of c @ (if cc_ready c then raw else [])" if "c1 \<in> set cs1" "\<not> cc_fd c1 < 0" for c1
  proof -
    from that(1) obtain i where i: "i < length cs1" "cs1 ! i = c1" by (auto simp: in_set_conv_nth)
    from each have len: "length cs = length cs1" by (auto dest: list_all2_lengthD)
    with each i have "cc_ready c1 = cc_ready (cs ! i)" by (metis nth_map)
    moreover from each i len have "cc_fd c1 = - 1 \<or> cc_fd c1 = cc_fd (cs ! i) \<and> buffer_ok n c1
        \<and> rest_of c1 = rest_of (cs ! i) @ (if cc_ready (cs ! i) then raw else [])"
      by (auto simp: list_all2_conv_all_nth)
    ultimately show ?thesis using that(2) i(1) len by (intro bexI [of _ "cs ! i"]) auto
  qed
  show "\<forall>c \<in> set (filter (\<lambda>c. \<not> cc_fd c < 0) cs1). client_ok n sent due1 c"
  proof
    fix c1
    assume "c1 \<in> set (filter (\<lambda>c. \<not> cc_fd c < 0) cs1)"
    then have "c1 \<in> set cs1" "\<not> cc_fd c1 < 0" by simp_all
    from old [OF this] obtain c where c: "c \<in> set cs" "cc_fd c1 = cc_fd c" "cc_ready c1 = cc_ready c" "buffer_ok n c1"
      "rest_of c1 = rest_of c @ (if cc_ready c then raw else [])" by blast
    from ok c(1) have "client_ok n sent due c" by blast
    then show "client_ok n sent due1 c1" using c(2-5) due1 [OF c(1)]
      by (cases "cc_ready c") (simp_all add: client_ok_def)
  qed
  show "distinct (map cc_fd (filter (\<lambda>c. \<not> cc_fd c < 0) cs1))"
  proof (rule open_distinct [OF _ fds, THEN conjunct1])
    from each show "list_all2 (\<lambda>c c1. cc_fd c1 = - 1 \<or> cc_fd c1 = cc_fd c) cs cs1"
      by (auto simp: list_all2_conv_all_nth)
  qed
qed

lemma caster_ok_Publish:
  assumes "caster_ok s ob" and "PublishFrame s frame = (s1, ok)"
  shows "caster_ok s1 (observe_publish s frame ok ob)"
proof (cases ok)
  case False
  with assms show ?thesis
    by (auto simp: PublishFrame_def observe_publish_def Let_def split: if_splits prod.splits)
next
  case True
  let ?n = "lc_client_buffer_bytes (lr_config s)" and ?raw = "rtcm_raw_bytes frame"
  obtain cs m where run: "each_client (publish_to ?n ?raw) (lr_clients s) (lr_metrics s) = (cs, m)" by fastforce
  from assms(2) True have src: "lr_source s \<noteq> None" by (auto simp: PublishFrame_def split: if_splits)
  have s1: "lr_clients s1 = cs" "lr_config s1 = lr_config s" "lr_source s1 = lr_source s"
    "lr_previous_source s1 = lr_previous_source s"
    "lr_cached_1005 s1 = (if rtcm_message_type frame = 1005 then ?raw else lr_cached_1005 s)"
    "lr_cached_1006 s1 = (if rtcm_message_type frame = 1006 then ?raw else lr_cached_1006 s)"
    using assms(2) True run by (auto simp: PublishFrame_def Let_def split: if_splits)
  from each_client_open [OF _ run] obtain cs2 where
    run2: "each_client (publish_to ?n ?raw) (open_clients s) (lr_metrics s) = (cs2, m)"
    and same: "filter (\<lambda>c. \<not> cc_fd c < 0) cs = filter (\<lambda>c. \<not> cc_fd c < 0) cs2"
    by (auto simp: publish_to_def open_clients_def)
  have open1: "open_clients s1 = filter (\<lambda>c. \<not> cc_fd c < 0) cs2" by (simp add: open_clients_def s1 same)
  from assms(1) have ok_all: "\<forall>c \<in> set (open_clients s). client_ok ?n (ob_sent ob) (ob_due ob) c"
    and dist: "distinct (map cc_fd (open_clients s))" by (simp_all add: caster_ok_def)
  let ?due = "\<lambda>fd. ob_due ob fd @ (if ready_fd s fd then ?raw else [])"
  have "?due (cc_fd c) = ob_due ob (cc_fd c) @ (if cc_ready c then ?raw else [])" if "c \<in> set (open_clients s)" for c
    using ready_fd_iff [OF dist that] by simp
  note pub = publish_clients [OF ok_all dist run2 this]
  have "prefix (ob_sent ob fd) (?due fd)" for fd
    using assms(1) by (simp add: caster_ok_def prefix_prefix)
  with pub assms(1) True src show ?thesis
    by (auto simp: caster_ok_def open1 observe_publish_def s1 latest_append)
qed

lemma caster_ok_Poll:
  assumes "caster_ok s ob" and "sockets_ok s ps" and "Poll s ps = (s1, sent)"
  shows "caster_ok s1 (observe_poll s ps s1 sent ob)"
proof (cases "caster_running s")
  case False
  with assms(2,3) have "s1 = s" "sent = []" "ps_accepted ps = []" by (simp_all add: Poll_def sockets_ok_def)
  with assms(1) show ?thesis by (simp add: observe_poll_def log_of_def Let_def)
next
  case True
  let ?n = "lc_client_buffer_bytes (lr_config s)"
  define all where "all = lr_clients s @ map new_client (ps_accepted ps)"
  define old where "old f fd = (if fd \<in> set (ps_accepted ps) then [] else f fd)" for f :: "int \<Rightarrow> bytes" and fd
  obtain cs m where run: "each_client (poll_client s ps) all (lr_metrics s, []) = (cs, m, sent)"
    using assms(3) True by (auto simp: Poll_def all_def split: prod.splits)
  then have s1: "s1 = s\<lparr>lr_clients := filter (\<lambda>c. \<not> cc_fd c < 0) cs, lr_metrics := m\<rparr>"
    using assms(3) True by (simp add: Poll_def all_def)
  from each_client_open [OF _ run] obtain cs2 where
    run2: "each_client (poll_client s ps) (filter (\<lambda>c. \<not> cc_fd c < 0) all) (lr_metrics s, []) = (cs2, m, sent)"
    and same: "filter (\<lambda>c. \<not> cc_fd c < 0) cs = filter (\<lambda>c. \<not> cc_fd c < 0) cs2"
    by (auto simp: poll_client_def)
  have accepted: "distinct (ps_accepted ps)" "\<And>fd. fd \<in> set (ps_accepted ps) \<Longrightarrow> 0 \<le> fd \<and> fd \<notin> cc_fd ` set (lr_clients s)"
    and law: "\<forall>fd bs k. ps_send ps fd bs = Sent k \<longrightarrow> k \<le> length bs"
    using assms(2) by (auto simp: sockets_ok_def)
  have cs0: "filter (\<lambda>c. \<not> cc_fd c < 0) all = open_clients s @ map new_client (ps_accepted ps)"
  proof -
    have "filter (\<lambda>fd. \<not> cc_fd (new_client fd) < 0) (ps_accepted ps) = ps_accepted ps"
      using accepted(2) by (auto simp: filter_id_conv new_client_def not_less)
    then show ?thesis by (simp add: all_def open_clients_def filter_map o_def)
  qed
  have ok0: "\<forall>c \<in> set (open_clients s @ map new_client (ps_accepted ps)). client_ok ?n (old (ob_sent ob)) (old (ob_due ob)) c"
  proof
    fix c
    assume "c \<in> set (open_clients s @ map new_client (ps_accepted ps))"
    then consider "c \<in> set (open_clients s)" | fd where "fd \<in> set (ps_accepted ps)" "c = new_client fd" by auto
    then show "client_ok ?n (old (ob_sent ob)) (old (ob_due ob)) c"
    proof cases
      case 1
      with accepted(2) have "cc_fd c \<notin> set (ps_accepted ps)" by (auto simp: open_clients_def)
      with 1 assms(1) show ?thesis by (auto simp: caster_ok_def client_ok_def old_def)
    next
      case 2
      with accepted(2) show ?thesis by (auto simp: client_ok_def old_def new_client_def buffer_ok_def rest_of_def)
    qed
  qed
  have dist0: "distinct (map cc_fd (open_clients s @ map new_client (ps_accepted ps)))"
    using accepted assms(1) by (auto simp: caster_ok_def open_clients_def o_def new_client_def)
  from each_poll [OF law run2] ok0 obtain rs where rs: "cs2 = map fst rs" "sent = concat (map snd rs)"
    "list_all2 (turn s) (open_clients s @ map new_client (ps_accepted ps)) rs"
    unfolding cs0 by (auto simp: client_ok_def)
  have pre0: "\<forall>fd. prefix (old (ob_sent ob) fd) (old (ob_due ob) fd)"
    using assms(1) by (simp add: caster_ok_def old_def)
  note inv = poll_invariant [OF ok0 dist0 rs(3) pre0]
  have open1: "open_clients s1 = filter (\<lambda>c. \<not> cc_fd c < 0) (map fst rs)"
    by (simp add: open_clients_def s1 same rs(1))
  have ready0: "(\<exists>c \<in> set (open_clients s @ map new_client (ps_accepted ps)). cc_fd c = fd \<and> cc_ready c) = ready_fd s fd"
    if "0 \<le> fd" for fd
    using that by (auto simp: ready_fd_def open_clients_def new_client_def)
  have ready1: "(\<exists>c \<in> set (open_clients s1). cc_fd c = fd \<and> cc_ready c) = ready_fd s1 fd" for fd
    by (auto simp: ready_fd_def open_clients_def s1)
  have pos1: "ready_fd s1 fd \<Longrightarrow> 0 \<le> fd" for fd
    by (auto simp: ready_fd_def s1)
  have due: "(if (\<exists>c \<in> set (open_clients s1). cc_fd c = fd \<and> cc_ready c)
      \<and> \<not> (\<exists>c \<in> set (open_clients s @ map new_client (ps_accepted ps)). cc_fd c = fd \<and> cc_ready c)
      then welcome_bytes s else old (ob_due ob) fd) = ob_due (observe_poll s ps s1 sent ob) fd" for fd
    using ready0 [of fd] ready1 [of fd] pos1 [of fd] by (auto simp: observe_poll_def old_def Let_def)
  have sent1: "old (ob_sent ob) fd @ log_of (concat (map snd rs)) fd = ob_sent (observe_poll s ps s1 sent ob) fd" for fd
    by (simp add: observe_poll_def old_def rs(2) Let_def)
  from inv [folded open1, unfolded due sent1] assms(1) show ?thesis
    by (simp add: caster_ok_def s1 observe_poll_def Let_def)
qed

lemma caster_reach_ok: "caster_reach s ob \<Longrightarrow> caster_ok s ob"
proof (induction rule: caster_reach.induct)
  case (activate s ob source s1 ok)
  then show ?case by (intro caster_ok_Activate)
qed (auto intro: caster_ok_new caster_ok_Start caster_ok_Stop caster_ok_End caster_ok_Publish caster_ok_Poll)

section \<open>Properties\<close>

text \<open>C34. What a client of the local caster receives: whatever the caster is asked to do and however the
  sockets behave, the bytes a descriptor has been sent are at every moment a prefix of what it is due, which is the
  ICY answer, the reference station messages cached when its request was answered, and every frame published since
  then, whole and in order, with nothing in between; for a client that is still connected what is not yet sent is
  exactly what its buffer holds, never more than the configured size, and one that has not been answered has been
  sent nothing.\<close>

theorem caster_client_stream:
  assumes "caster_reach s ob"
  shows "prefix (ob_sent ob fd) (ob_due ob fd)
    \<and> (\<forall>c \<in> set (open_clients s).
        (if cc_ready c then ob_sent ob (cc_fd c) @ rest_of c = ob_due ob (cc_fd c)
         else rest_of c = [] \<and> ob_sent ob (cc_fd c) = [])
        \<and> length (rest_of c) \<le> lc_client_buffer_bytes (lr_config s))"
  using caster_reach_ok [OF assms] by (auto simp: caster_ok_def client_ok_def buffer_ok_def rest_of_def)

text \<open>Sources do not mix: in every reachable state the cached reference station messages are the last
  1005 and 1006 frames the active source itself has published; without an active source nothing is cached and
  \<open>PublishFrame\<close> refuses every frame; and an incarnation that has been active is not activated again, neither
  while it is active nor after it has ended, until another one has been.\<close>

lemma caster_source_isolation:
  assumes "caster_reach s ob"
  shows "lr_cached_1005 s = latest 1005 (ob_frames ob) \<and> lr_cached_1006 s = latest 1006 (ob_frames ob)
    \<and> (lr_source s = None \<longrightarrow> ob_frames ob = [] \<and> PublishFrame s frame = (s, False))
    \<and> (\<forall>src. lr_source s = Some src \<longrightarrow>
         ActivateSource s src = (s, False) \<and> ActivateSource (EndSource s) src = (EndSource s, False)
         \<and> ActivateSource (caster_Stop s) src = (caster_Stop s, False))"
proof -
  note ok = caster_reach_ok [OF assms, unfolded caster_ok_def]
  then have "ActivateSource s1 src = (s1, False)"
    if "lr_source s = Some src" "lr_previous_source s1 = lr_previous_source s" for src s1
    using that by (simp add: ActivateSource_def)
  moreover have "lr_previous_source (EndSource s) = lr_previous_source s"
    "lr_previous_source (caster_Stop s) = lr_previous_source s"
    by (simp_all add: EndSource_def caster_Stop_def ClearCaches_def)
  ultimately show ?thesis using ok by (simp add: PublishFrame_def)
qed

definition demo_reference_frame :: RtcmFrame where
  "demo_reference_frame =
     \<lparr>rtcm_protocol = PT_kRtcm3, rtcm_timestamp_ns = None, rtcm_message_type = 1005, rtcm_payload = [0x3E, 0xD0],
      rtcm_raw_bytes = [0xD3, 0x00, 0x02, 0x3E, 0xD0, 0x01, 0x02, 0x03], rtcm_checksum_status = CS_kValid,
      rtcm_reported_crc24q = 0x010203, rtcm_computed_crc24q = 0x010203\<rparr>"

definition demo_sockets :: poll_sockets where
  "demo_sockets = \<lparr>ps_accepted = [7], ps_recv = (\<lambda>fd. Some (''GET /RTCM3 HTTP/1.0'' @ [CHR 0x0D, CHR 0x0A])),
     ps_send = (\<lambda>fd bs. Sent (length bs))\<rparr>"

definition demo_source :: LocalRtcmSourceIdentity where
  "demo_source = \<lparr>ls_source_id = ''base'', ls_incarnation = 1\<rparr>"

text \<open>A caster that was started, given a source and a reference frame, and polled once by one client.\<close>

definition demo_caster :: LocalRtcmCaster where
  "demo_caster = LocalRtcmCaster_new
     \<lparr>lr_listener := 3, lr_bound_port := 2101, lr_source := Some demo_source, lr_previous_source := Some demo_source,
      lr_cached_1005 := rtcm_raw_bytes demo_reference_frame,
      lr_metrics := \<lparr>lm_accepted_clients = 0, lm_rejected_requests = 0, lm_slow_client_disconnects = 0,
        lm_served_frames = 1\<rparr>\<rparr>"

lemma demo_caster_reach: "caster_reach demo_caster (observed_new\<lparr>ob_frames := [demo_reference_frame]\<rparr>)"
proof -
  let ?s1 = "LocalRtcmCaster_new\<lparr>lr_listener := 3, lr_bound_port := 2101\<rparr>"
  let ?s2 = "?s1\<lparr>lr_source := Some demo_source, lr_previous_source := Some demo_source\<rparr>"
  have "caster_Start LocalRtcmCaster_new (lr_config LocalRtcmCaster_new) (Some (3, 2101)) = (?s1, True)"
    by (simp add: caster_Start_def LocalRtcmCaster_new_def caster_Stop_def ClearCaches_def NormalizeMountpoint_def
        kIcyResponse_def Let_def)
  from caster_reach.start [OF caster_reach.new this] have "caster_reach ?s1 observed_new"
    by (simp add: observed_new_def)
  moreover have "ActivateSource ?s1 demo_source = (?s2, True)"
    by (simp add: ActivateSource_def caster_running_def demo_source_def LocalRtcmCaster_new_def ClearCaches_def)
  ultimately have "caster_reach ?s2 observed_new"
    using caster_reach.activate [of ?s1 observed_new demo_source ?s2 True] by (simp add: observed_new_def)
  moreover have "PublishFrame ?s2 demo_reference_frame = (demo_caster, True)"
    by (simp add: PublishFrame_def demo_reference_frame_def demo_caster_def LocalRtcmCaster_new_def Let_def)
  ultimately have "caster_reach demo_caster (observe_publish ?s2 demo_reference_frame True observed_new)"
    by (rule caster_reach.publish)
  then show ?thesis
    by (simp add: observe_publish_def observed_new_def ready_fd_def LocalRtcmCaster_new_def)
qed

theorem caster_client_stream_witness:
  "\<exists>s ob. caster_reach s ob \<and> lr_source s = Some demo_source
     \<and> prefix (ob_sent ob 7) (ob_due ob 7) \<and> ob_sent ob 7 = bytes_of kIcyResponse @ rtcm_raw_bytes demo_reference_frame"
proof -
  obtain s1 sent where poll: "Poll demo_caster demo_sockets = (s1, sent)" by fastforce
  have out: "sent = [(7, bytes_of kIcyResponse @ rtcm_raw_bytes demo_reference_frame)]" "lr_source s1 = Some demo_source"
    using poll
    by (auto simp: Poll_def demo_caster_def demo_sockets_def LocalRtcmCaster_new_def caster_running_def new_client_def
        poll_client_def poll_request_def poll_send_def client_Queue_def kIcyResponse_def
        demo_reference_frame_def Let_def)
  have ok: "sockets_ok demo_caster demo_sockets"
    by (simp add: sockets_ok_def demo_sockets_def demo_caster_def LocalRtcmCaster_new_def caster_running_def)
  from caster_reach.poll [OF demo_caster_reach ok poll]
  have reach: "caster_reach s1 (observe_poll demo_caster demo_sockets s1 sent (observed_new\<lparr>ob_frames := [demo_reference_frame]\<rparr>))" .
  from caster_client_stream [OF this, of 7] reach out show ?thesis
    by (intro exI [of _ s1], intro exI [of _ "observe_poll demo_caster demo_sockets s1 sent
      (observed_new\<lparr>ob_frames := [demo_reference_frame]\<rparr>)"])
      (simp add: observe_poll_def observed_new_def log_of_def demo_sockets_def Let_def)
qed

theorem caster_source_isolation_witness:
  "lr_cached_1005 demo_caster = [0xD3, 0x00, 0x02, 0x3E, 0xD0, 0x01, 0x02, 0x03]
   \<and> ActivateSource (EndSource demo_caster) demo_source = (EndSource demo_caster, False)"
proof -
  have "lr_source demo_caster = Some demo_source" by (simp add: demo_caster_def)
  with caster_source_isolation [OF demo_caster_reach, of demo_reference_frame] show ?thesis
    by (simp add: latest_def demo_reference_frame_def)
qed

end
