(* ===== verification/Rtcm_Parser.thy ===== *)
theory Rtcm_Parser
  imports Rtcm_Framer Ieee_Double
begin

text \<open>
  The RTCM 3 message parsers (gnss_protocols/src/rtcm_parser.cpp, rtcm_records.hpp): the big-endian bit reader,
  the classification of message types, and the parsers of the station reference point (1005, 1006), the antenna
  descriptor (1007, 1008), the GLONASS code-phase biases (1230) and the header of the MSM observations.

  A read whose result the program drops unused still moves the offset; a read that fails does not.  Products with
  a scale are IEEE products of \<open>Ieee_Double\<close>.
\<close>

section \<open>Records\<close>

datatype RtcmConstellation =
    RC_kUnknown | RC_kGps | RC_kGlonass | RC_kGalileo | RC_kSbas | RC_kQzss | RC_kBeiDou | RC_kNavIc

record RtcmMessageInfo =
  mi_message_type :: u16
  mi_is_station_arp :: bool
  mi_is_antenna_descriptor :: bool
  mi_is_glonass_bias :: bool
  mi_is_msm :: bool
  mi_msm_constellation :: RtcmConstellation
  mi_msm_variant :: u8

record RtcmBaseStationArpRecord =
  arp_message_type :: u16
  arp_station_id :: u16
  arp_itrf_year :: u8
  arp_gps_indicator :: bool
  arp_glonass_indicator :: bool
  arp_galileo_indicator :: bool
  arp_reference_station_indicator :: bool
  arp_ecef_x_m :: double
  arp_ecef_y_m :: double
  arp_ecef_z_m :: double
  arp_antenna_height_m :: "double option"
  arp_single_receiver_oscillator_indicator :: bool
  arp_quarter_cycle_indicator :: u8

record RtcmAntennaDescriptorRecord =
  ad_message_type :: u16
  ad_station_id :: u16
  ad_antenna_descriptor :: string
  ad_antenna_setup_id :: u8
  ad_antenna_serial_number :: "string option"

record RtcmGlonassCodePhaseBiasRecord =
  gb_message_type :: u16
  gb_station_id :: u16
  gb_code_phase_bias_indicator :: bool
  gb_signal_mask :: u8
  gb_has_any_bias_values :: bool
  gb_valid :: bool
  gb_l1_ca_bias_m :: "double option"
  gb_l1_p_bias_m :: "double option"
  gb_l2_ca_bias_m :: "double option"
  gb_l2_p_bias_m :: "double option"

record RtcmMsmSummaryRecord =
  ms_message_type :: u16
  ms_station_id :: u16
  ms_constellation :: RtcmConstellation
  ms_msm_variant :: u8
  ms_multiple_message :: bool
  ms_issue_of_data_station :: u8
  ms_session_transmission_time :: u8
  ms_clock_steering_indicator :: u8
  ms_external_clock_indicator :: u8
  ms_divergence_free_smoothing :: bool
  ms_smoothing_interval :: u8
  ms_satellite_count :: u8
  ms_signal_count :: u8
  ms_cell_count :: u16

section \<open>The bit reader\<close>

definition kRtcmArpCoordinateScaleM :: double where
  "kRtcmArpCoordinateScaleM = round_double (1 / 10000)"

definition kRtcmGlonassCodePhaseBiasScaleM :: double where
  "kRtcmGlonassCodePhaseBiasScaleM = round_double (2 / 100)"

definition read_bit_step :: "bytes \<Rightarrow> nat \<Rightarrow> u64 \<Rightarrow> nat \<Rightarrow> u64" where
  "read_bit_step payload bit_offset value i =
     (let absolute_bit = bit_offset + i;
          byte_index = absolute_bit div 8;
          bit_index = 7 - absolute_bit mod 8;
          b = drop_bit bit_index (payload ! byte_index) AND 0x01 in
      push_bit 1 value OR ucast b)"

definition ReadRtcmUnsignedBits :: "bytes \<Rightarrow> nat \<Rightarrow> nat \<Rightarrow> u64 option" where
  "ReadRtcmUnsignedBits payload bit_offset bit_count =
     (if bit_count = 0 \<or> bit_count > 64 then None
      else if bit_offset + bit_count > length payload * 8 then None
      else Some (foldl (read_bit_step payload bit_offset) 0 [0..<bit_count]))"

text \<open>The result is an \<open>std::int64_t\<close>, read with \<open>sint\<close>.\<close>

definition ReadRtcmSignedBits :: "bytes \<Rightarrow> nat \<Rightarrow> nat \<Rightarrow> u64 option" where
  "ReadRtcmSignedBits payload bit_offset bit_count =
     (if bit_count = 0 \<or> bit_count \<ge> 64 then None
      else
        (case ReadRtcmUnsignedBits payload bit_offset bit_count of
           None \<Rightarrow> None
         | Some raw_value \<Rightarrow>
             let sign_mask = push_bit (bit_count - 1) 1 in
             Some (if raw_value AND sign_mask \<noteq> 0 then raw_value OR push_bit bit_count (NOT 0) else raw_value)))"

lemma drop_bit_less: "v \<noteq> 0 \<Longrightarrow> unat (drop_bit (Suc 0) v :: u64) < unat v"
  by (simp add: unat_drop unat_gt_0)

function count_set_bits_loop :: "u64 \<Rightarrow> u8 \<Rightarrow> u8" where
  "count_set_bits_loop value count =
     (if value = 0 then count else count_set_bits_loop (drop_bit 1 value) (count + ucast (value AND 0x01)))"
  by auto
termination
  by (relation "measure (\<lambda>(v, c). unat v)") (simp_all add: drop_bit_less)

declare count_set_bits_loop.simps [simp del]

definition CountSetBits :: "u64 \<Rightarrow> u8" where
  "CountSetBits value = count_set_bits_loop value 0"

fun count_range_loop :: "bytes \<Rightarrow> nat \<Rightarrow> nat list \<Rightarrow> u16 \<Rightarrow> u16 option" where
  "count_range_loop payload bit_offset [] count = Some count"
| "count_range_loop payload bit_offset (index # rest) count =
     (case ReadRtcmUnsignedBits payload (bit_offset + index) 1 of
        None \<Rightarrow> None
      | Some b \<Rightarrow> count_range_loop payload bit_offset rest (count + (if b \<noteq> 0 then 1 else 0)))"

definition CountSetBitsInRange :: "bytes \<Rightarrow> nat \<Rightarrow> nat \<Rightarrow> u16 option" where
  "CountSetBitsInRange payload bit_offset bit_count =
     (if bit_offset + bit_count > length payload * 8 then None
      else count_range_loop payload bit_offset [0..<bit_count] 0)"

definition ComputeRtcmMsmBodyBits :: "u8 \<Rightarrow> nat \<Rightarrow> nat \<Rightarrow> nat option" where
  "ComputeRtcmMsmBodyBits msm_variant satellite_count cell_count =
     (if msm_variant = 1 then Some (satellite_count * 10 + cell_count * 15)
      else if msm_variant = 2 then Some (satellite_count * 10 + cell_count * 27)
      else if msm_variant = 3 then Some (satellite_count * 10 + cell_count * 42)
      else if msm_variant = 4 then Some (satellite_count * 18 + cell_count * 48)
      else if msm_variant = 5 then Some (satellite_count * 36 + cell_count * 63)
      else if msm_variant = 6 then Some (satellite_count * 18 + cell_count * 65)
      else if msm_variant = 7 then Some (satellite_count * 36 + cell_count * 80)
      else None)"

section \<open>Message types\<close>

definition IsRtcmMsmVariant :: "u16 \<Rightarrow> bool" where
  "IsRtcmMsmVariant message_type \<longleftrightarrow> (let v = message_type mod 10 in 1 \<le> v \<and> v \<le> 7)"

definition frame_ExtractRtcmMessageType :: "RtcmFrame \<Rightarrow> u16 option" where
  "frame_ExtractRtcmMessageType frame =
     (if rtcm_protocol frame \<noteq> PT_kRtcm3 \<or> rtcm_checksum_status frame \<noteq> CS_kValid then None
      else ExtractRtcmMessageType (rtcm_payload frame))"

definition IsRtcmStationArpMessage :: "u16 \<Rightarrow> bool" where
  "IsRtcmStationArpMessage message_type \<longleftrightarrow> message_type = 1005 \<or> message_type = 1006"

definition IsRtcmAntennaDescriptorMessage :: "u16 \<Rightarrow> bool" where
  "IsRtcmAntennaDescriptorMessage message_type \<longleftrightarrow> message_type = 1007 \<or> message_type = 1008"

definition IsRtcmGlonassBiasMessage :: "u16 \<Rightarrow> bool" where
  "IsRtcmGlonassBiasMessage message_type \<longleftrightarrow> message_type = 1230"

definition GetRtcmMsmConstellation :: "u16 \<Rightarrow> RtcmConstellation" where
  "GetRtcmMsmConstellation message_type =
     (if \<not> IsRtcmMsmVariant message_type then RC_kUnknown
      else
        let d = message_type div 10 in
        if d = 107 then RC_kGps
        else if d = 108 then RC_kGlonass
        else if d = 109 then RC_kGalileo
        else if d = 110 then RC_kSbas
        else if d = 111 then RC_kQzss
        else if d = 112 then RC_kBeiDou
        else if d = 113 then RC_kNavIc
        else RC_kUnknown)"

definition IsRtcmMsmMessage :: "u16 \<Rightarrow> bool" where
  "IsRtcmMsmMessage message_type \<longleftrightarrow> GetRtcmMsmConstellation message_type \<noteq> RC_kUnknown"

definition GetRtcmMsmVariant :: "u16 \<Rightarrow> u8" where
  "GetRtcmMsmVariant message_type =
     (if \<not> IsRtcmMsmVariant message_type then 0 else ucast (message_type mod 10))"

definition ParseRtcmMessageInfo :: "RtcmFrame \<Rightarrow> RtcmMessageInfo ParserResult" where
  "ParseRtcmMessageInfo frame =
     (case frame_ExtractRtcmMessageType frame of
        None \<Rightarrow> InvalidData
      | Some t \<Rightarrow>
          RecordReady
            \<lparr>mi_message_type = t,
             mi_is_station_arp = IsRtcmStationArpMessage t,
             mi_is_antenna_descriptor = IsRtcmAntennaDescriptorMessage t,
             mi_is_glonass_bias = IsRtcmGlonassBiasMessage t,
             mi_is_msm = GetRtcmMsmConstellation t \<noteq> RC_kUnknown,
             mi_msm_constellation = GetRtcmMsmConstellation t,
             mi_msm_variant = GetRtcmMsmVariant t\<rparr>)"

section \<open>Parsers\<close>

text \<open>The lambdas \<open>read_u\<close> and \<open>read_s\<close>: the value, and the offset after it.\<close>

definition read_u :: "bytes \<Rightarrow> nat \<Rightarrow> nat \<Rightarrow> u64 option \<times> nat" where
  "read_u payload bit_offset bit_count =
     (case ReadRtcmUnsignedBits payload bit_offset bit_count of
        None \<Rightarrow> (None, bit_offset)
      | Some v \<Rightarrow> (Some v, bit_offset + bit_count))"

definition read_s :: "bytes \<Rightarrow> nat \<Rightarrow> nat \<Rightarrow> u64 option \<times> nat" where
  "read_s payload bit_offset bit_count =
     (case ReadRtcmSignedBits payload bit_offset bit_count of
        None \<Rightarrow> (None, bit_offset)
      | Some v \<Rightarrow> (Some v, bit_offset + bit_count))"

definition scaled :: "u64 \<Rightarrow> double \<Rightarrow> double" where
  "scaled v scale = dbl_mult (round_double (of_int (sint v))) scale"

definition ParseRtcmBaseStationArp :: "RtcmFrame \<Rightarrow> RtcmBaseStationArpRecord ParserResult" where
  "ParseRtcmBaseStationArp frame =
     (case frame_ExtractRtcmMessageType frame of
        None \<Rightarrow> InvalidData
      | Some message_type \<Rightarrow>
          if \<not> IsRtcmStationArpMessage message_type then InvalidData
          else
            let p = rtcm_payload frame;
                required_bits = (if message_type = 1006 then 168 else 152) in
            if length p * 8 < required_bits then InvalidData
            else
              let (parsed_message_type, o1) = read_u p 0 12;
                  (station_id, o2) = read_u p o1 12;
                  (itrf_year, o3) = read_u p o2 6;
                  (gps, o4) = read_u p o3 1;
                  (glonass, o5) = read_u p o4 1;
                  (galileo, o6) = read_u p o5 1;
                  (reference, o7) = read_u p o6 1;
                  (ecef_x, o8) = read_s p o7 38;
                  (oscillator, o9) = read_u p o8 1;
                  (reserved_b, o10) = read_u p o9 1;
                  (ecef_y, o11) = read_s p o10 38;
                  (quarter, o12) = read_u p o11 2;
                  (ecef_z, o13) = read_s p o12 38 in
              if parsed_message_type = None \<or> station_id = None \<or> itrf_year = None \<or> gps = None \<or> glonass = None
                 \<or> galileo = None \<or> reference = None \<or> ecef_x = None \<or> oscillator = None \<or> ecef_y = None
                 \<or> quarter = None \<or> ecef_z = None
              then InvalidData
              else
                let r = \<lparr>arp_message_type = ucast (the parsed_message_type),
                         arp_station_id = ucast (the station_id),
                         arp_itrf_year = ucast (the itrf_year),
                         arp_gps_indicator = the gps \<noteq> 0,
                         arp_glonass_indicator = the glonass \<noteq> 0,
                         arp_galileo_indicator = the galileo \<noteq> 0,
                         arp_reference_station_indicator = the reference \<noteq> 0,
                         arp_ecef_x_m = scaled (the ecef_x) kRtcmArpCoordinateScaleM,
                         arp_ecef_y_m = scaled (the ecef_y) kRtcmArpCoordinateScaleM,
                         arp_ecef_z_m = scaled (the ecef_z) kRtcmArpCoordinateScaleM,
                         arp_antenna_height_m = None,
                         arp_single_receiver_oscillator_indicator = the oscillator \<noteq> 0,
                         arp_quarter_cycle_indicator = ucast (the quarter)\<rparr> in
                if message_type = 1006 then
                  (case read_u p o13 16 of
                     (None, _) \<Rightarrow> InvalidData
                   | (Some h, _) \<Rightarrow>
                       RecordReady (r\<lparr>arp_antenna_height_m :=
                         Some (dbl_mult (round_double (of_int (uint h))) kRtcmArpCoordinateScaleM)\<rparr>))
                else RecordReady r)"

fun read_text_loop :: "bytes \<Rightarrow> nat \<Rightarrow> nat \<Rightarrow> string \<Rightarrow> string option \<times> nat" where
  "read_text_loop payload 0 bit_offset value = (Some value, bit_offset)"
| "read_text_loop payload (Suc n) bit_offset value =
     (case read_u payload bit_offset 8 of
        (None, o1) \<Rightarrow> (None, o1)
      | (Some c, o1) \<Rightarrow> read_text_loop payload n o1 (value @ [char_of_byte (ucast c)]))"

definition read_text :: "bytes \<Rightarrow> nat \<Rightarrow> u8 \<Rightarrow> string option \<times> nat" where
  "read_text payload bit_offset len =
     (if len > 31 then (None, bit_offset) else read_text_loop payload (unat len) bit_offset [])"

definition ParseRtcmAntennaDescriptor :: "RtcmFrame \<Rightarrow> RtcmAntennaDescriptorRecord ParserResult" where
  "ParseRtcmAntennaDescriptor frame =
     (case frame_ExtractRtcmMessageType frame of
        None \<Rightarrow> InvalidData
      | Some message_type \<Rightarrow>
          if \<not> IsRtcmAntennaDescriptorMessage message_type then InvalidData
          else
            let p = rtcm_payload frame;
                (parsed_message_type, o1) = read_u p 0 12;
                (station_id, o2) = read_u p o1 12;
                (descriptor_length, o3) = read_u p o2 8 in
            if parsed_message_type = None \<or> station_id = None \<or> descriptor_length = None then InvalidData
            else
              let (descriptor, o4) = read_text p o3 (ucast (the descriptor_length));
                  (setup_id, o5) = read_u p o4 8 in
              if descriptor = None \<or> setup_id = None then InvalidData
              else
                let r = \<lparr>ad_message_type = ucast (the parsed_message_type),
                         ad_station_id = ucast (the station_id),
                         ad_antenna_descriptor = the descriptor,
                         ad_antenna_setup_id = ucast (the setup_id),
                         ad_antenna_serial_number = None\<rparr> in
                if message_type = 1008 then
                  (case read_u p o5 8 of
                     (None, _) \<Rightarrow> InvalidData
                   | (Some serial_length, o6) \<Rightarrow>
                       (case read_text p o6 (ucast serial_length) of
                          (None, _) \<Rightarrow> InvalidData
                        | (Some serial, _) \<Rightarrow> RecordReady (r\<lparr>ad_antenna_serial_number := Some serial\<rparr>)))
                else RecordReady r)"

text \<open>\<open>read_optional_bias\<close>: whether the parser goes on, the value and the offset.\<close>

definition read_optional_bias :: "bytes \<Rightarrow> nat \<Rightarrow> bool \<Rightarrow> bool \<times> double option \<times> nat" where
  "read_optional_bias payload bit_offset present =
     (if \<not> present then (True, None, bit_offset)
      else
        (case read_s payload bit_offset 16 of
           (None, o1) \<Rightarrow> (False, None, o1)
         | (Some raw_bias, o1) \<Rightarrow> (True, Some (scaled raw_bias kRtcmGlonassCodePhaseBiasScaleM), o1)))"

definition ParseRtcmGlonassCodePhaseBias :: "RtcmFrame \<Rightarrow> RtcmGlonassCodePhaseBiasRecord ParserResult" where
  "ParseRtcmGlonassCodePhaseBias frame =
     (case frame_ExtractRtcmMessageType frame of
        None \<Rightarrow> InvalidData
      | Some message_type \<Rightarrow>
          if \<not> IsRtcmGlonassBiasMessage message_type then InvalidData
          else if length (rtcm_payload frame) * 8 < 32 then InvalidData
          else
            let p = rtcm_payload frame;
                (parsed_message_type, o1) = read_u p 0 12;
                (station_id, o2) = read_u p o1 12;
                (indicator, o3) = read_u p o2 1;
                (reserved, o4) = read_u p o3 3;
                (l1_ca, o5) = read_u p o4 1;
                (l1_p, o6) = read_u p o5 1;
                (l2_ca, o7) = read_u p o6 1;
                (l2_p, o8) = read_u p o7 1 in
            if parsed_message_type = None \<or> station_id = None \<or> indicator = None \<or> l1_ca = None \<or> l1_p = None
               \<or> l2_ca = None \<or> l2_p = None
            then InvalidData
            else
              let has1 = the l1_ca \<noteq> 0; has2 = the l1_p \<noteq> 0; has3 = the l2_ca \<noteq> 0; has4 = the l2_p \<noteq> 0;
                  (go1, b1, p1) = read_optional_bias p o8 has1;
                  (go2, b2, p2) = (if go1 then read_optional_bias p p1 has2 else (False, None, p1));
                  (go3, b3, p3) = (if go2 then read_optional_bias p p2 has3 else (False, None, p2));
                  (go4, b4, p4) = (if go3 then read_optional_bias p p3 has4 else (False, None, p3)) in
              if \<not> go4 then InvalidData
              else
                let has_any = b1 \<noteq> None \<or> b2 \<noteq> None \<or> b3 \<noteq> None \<or> b4 \<noteq> None in
                RecordReady
                  \<lparr>gb_message_type = ucast (the parsed_message_type),
                   gb_station_id = ucast (the station_id),
                   gb_code_phase_bias_indicator = the indicator \<noteq> 0,
                   gb_signal_mask = (if has1 then 0x01 else 0) OR (if has2 then 0x02 else 0)
                     OR (if has3 then 0x04 else 0) OR (if has4 then 0x08 else 0),
                   gb_has_any_bias_values = has_any,
                   gb_valid = (the indicator \<noteq> 0 \<and> has_any),
                   gb_l1_ca_bias_m = b1, gb_l1_p_bias_m = b2, gb_l2_ca_bias_m = b3, gb_l2_p_bias_m = b4\<rparr>)"

definition ParseRtcmMsmSummary :: "RtcmFrame \<Rightarrow> RtcmMsmSummaryRecord ParserResult" where
  "ParseRtcmMsmSummary frame =
     (case frame_ExtractRtcmMessageType frame of
        None \<Rightarrow> InvalidData
      | Some message_type \<Rightarrow>
          if \<not> IsRtcmMsmMessage message_type then InvalidData
          else if length (rtcm_payload frame) * 8 < 169 then InvalidData
          else
            let p = rtcm_payload frame;
                (parsed_message_type, o1) = read_u p 0 12;
                (station_id, o2) = read_u p o1 12;
                (epoch_time, o3) = read_u p o2 30;
                (multiple_message, o4) = read_u p o3 1;
                (issue_of_data_station, o5) = read_u p o4 3;
                (session_time, o6) = read_u p o5 7;
                (clock_steering, o7) = read_u p o6 2;
                (external_clock, o8) = read_u p o7 2;
                (smoothing, o9) = read_u p o8 1;
                (smoothing_interval, o10) = read_u p o9 3;
                (satellite_mask, o11) = read_u p o10 64;
                (signal_mask, o12) = read_u p o11 32 in
            if parsed_message_type = None \<or> station_id = None \<or> multiple_message = None
               \<or> issue_of_data_station = None \<or> session_time = None \<or> clock_steering = None
               \<or> external_clock = None \<or> smoothing = None \<or> smoothing_interval = None
               \<or> satellite_mask = None \<or> signal_mask = None
            then InvalidData
            else
              let satellite_count = CountSetBits (the satellite_mask);
                  signal_count = CountSetBits (the signal_mask);
                  cell_mask_bits = unat satellite_count * unat signal_count in
              if cell_mask_bits > 64 then InvalidData
              else
                (case CountSetBitsInRange p o12 cell_mask_bits of
                   None \<Rightarrow> InvalidData
                 | Some cell_count \<Rightarrow>
                     let t = (ucast (the parsed_message_type) :: u16);
                         msm_variant = GetRtcmMsmVariant t in
                     (case ComputeRtcmMsmBodyBits msm_variant (unat satellite_count) (unat cell_count) of
                        None \<Rightarrow> InvalidData
                      | Some body_bits \<Rightarrow>
                          if o12 + cell_mask_bits + body_bits > length p * 8 then InvalidData
                          else
                            RecordReady
                              \<lparr>ms_message_type = t,
                               ms_station_id = ucast (the station_id),
                               ms_constellation = GetRtcmMsmConstellation t,
                               ms_msm_variant = msm_variant,
                               ms_multiple_message = the multiple_message \<noteq> 0,
                               ms_issue_of_data_station = ucast (the issue_of_data_station),
                               ms_session_transmission_time = ucast (the session_time),
                               ms_clock_steering_indicator = ucast (the clock_steering),
                               ms_external_clock_indicator = ucast (the external_clock),
                               ms_divergence_free_smoothing = the smoothing \<noteq> 0,
                               ms_smoothing_interval = ucast (the smoothing_interval),
                               ms_satellite_count = satellite_count,
                               ms_signal_count = signal_count,
                               ms_cell_count = cell_count\<rparr>)))"

section \<open>Payloads as bit sequences\<close>

text \<open>The bits of a payload, most significant first, and the number a bit sequence denotes.\<close>

definition byte_bits :: "u8 \<Rightarrow> bool list" where
  "byte_bits b = map (\<lambda>k. bit b (7 - k)) [0..<8]"

definition payload_bits :: "bytes \<Rightarrow> bool list" where
  "payload_bits p = concat (map byte_bits p)"

definition bits_value :: "bool list \<Rightarrow> nat" where
  "bits_value bs = foldl (\<lambda>v b. 2 * v + of_bool b) 0 bs"

text \<open>The \<open>n\<close> bits of a field that holds \<open>v\<close>.\<close>

fun put :: "nat \<Rightarrow> nat \<Rightarrow> bool list" where
  "put 0 v = []"
| "put (Suc n) v = put n (v div 2) @ [odd v]"

lemma put_numeral: "put (numeral k) v = put (pred_numeral k) (v div 2) @ [odd v]"
  by (simp add: numeral_eq_Suc)

lemma length_byte_bits [simp]: "length (byte_bits b) = 8"
  by (simp add: byte_bits_def)

lemma length_payload_bits [simp]: "length (payload_bits p) = 8 * length p"
  by (induction p) (simp_all add: payload_bits_def)

lemma length_put [simp]: "length (put n v) = n"
  by (induction n arbitrary: v) simp_all

lemma nth_payload_bits:
  "i < 8 * length p \<Longrightarrow> payload_bits p ! i = bit (p ! (i div 8)) (7 - i mod 8)"
proof (induction p arbitrary: i)
  case Nil
  then show ?case by simp
next
  case (Cons b p)
  have step: "payload_bits (b # p) = byte_bits b @ payload_bits p" by (simp add: payload_bits_def)
  show ?case
  proof (cases "i < 8")
    case True
    then show ?thesis by (simp add: step nth_append byte_bits_def)
  next
    case False
    then have "i div 8 = Suc ((i - 8) div 8)" "i mod 8 = (i - 8) mod 8"
      by (simp_all add: le_div_geq le_mod_geq)
    with False Cons show ?thesis by (simp add: step nth_append)
  qed
qed

lemma bits_value_Nil [simp]: "bits_value [] = 0"
  by (simp add: bits_value_def)

lemma bits_value_snoc [simp]: "bits_value (bs @ [b]) = 2 * bits_value bs + of_bool b"
  by (simp add: bits_value_def)

lemma bits_value_less: "bits_value bs < 2 ^ length bs"
  by (induction bs rule: rev_induct) (auto split: bool.splits simp: of_bool_def)

lemma bits_value_put: "v < 2 ^ n \<Longrightarrow> bits_value (put n v) = v"
proof (induction n arbitrary: v)
  case 0
  then show ?case by simp
next
  case (Suc n)
  then have "v div 2 < 2 ^ n" by simp
  from Suc.IH [OF this] show ?case by simp
qed

lemma read_bit_step_value:
  assumes "bit_offset + i < 8 * length p" and "unat v < 2 ^ i" and "i < 64"
  shows "unat (read_bit_step p bit_offset v i) = 2 * unat v + of_bool (payload_bits p ! (bit_offset + i))"
proof -
  let ?b = "payload_bits p ! (bit_offset + i)"
  have one: "(drop_bit k (x :: u8) AND 1) = of_bool (bit x k)" for k x
    by (simp add: and_one_eq mod_2_eq_odd bit_iff_odd_drop_bit)
  have "read_bit_step p bit_offset v i = push_bit 1 v OR of_bool ?b"
    using assms(1) by (simp add: read_bit_step_def Let_def one nth_payload_bits)
  also have "\<dots> = 2 * v + of_bool ?b"
    by (cases ?b) (simp_all add: push_bit_eq_mult or_one_eq mult.commute)
  finally have eq: "read_bit_step p bit_offset v i = 2 * v + of_bool ?b" .
  have "2 * 2 ^ i \<le> (2 :: nat) ^ 64"
    using assms(3) power_increasing [of "Suc i" 64 "2 :: nat"] by simp
  with assms(2) have "2 * unat v + of_bool ?b < 2 ^ 64" by (cases ?b) simp_all
  moreover have "read_bit_step p bit_offset v i = of_nat (2 * unat v + of_bool ?b)"
    by (simp add: eq)
  ultimately show ?thesis by (simp only: unsigned_of_nat) (simp add: take_bit_nat_eq_self)
qed

lemma bslice_Suc: "off + n < length xs \<Longrightarrow> bslice off (Suc n) xs = bslice off n xs @ [xs ! (off + n)]"
  by (simp add: bslice_def take_Suc_conv_app_nth)

lemma read_bits_value:
  "\<lbrakk>bit_offset + n \<le> 8 * length p; n \<le> 64\<rbrakk> \<Longrightarrow>
     unat (foldl (read_bit_step p bit_offset) 0 [0..<n]) = bits_value (bslice bit_offset n (payload_bits p))"
proof (induction n)
  case 0
  then show ?case by (simp add: bslice_def)
next
  case (Suc n)
  let ?v = "foldl (read_bit_step p bit_offset) 0 [0..<n]"
  from Suc have ih: "unat ?v = bits_value (bslice bit_offset n (payload_bits p))" by simp
  have "unat ?v < 2 ^ n"
    using bits_value_less [of "bslice bit_offset n (payload_bits p)"] Suc.prems by (simp add: ih)
  with Suc.prems show ?case
    by (simp add: read_bit_step_value ih bslice_Suc)
qed

text \<open>The bit reader reads the number its field denotes.\<close>

lemma ReadRtcmUnsignedBits_eq:
  "ReadRtcmUnsignedBits p off n =
     (if n = 0 \<or> 64 < n \<or> 8 * length p < off + n then None
      else Some (word_of_nat (bits_value (bslice off n (payload_bits p)))))"
proof (cases "n = 0 \<or> 64 < n \<or> 8 * length p < off + n")
  case True
  then show ?thesis by (auto simp: ReadRtcmUnsignedBits_def)
next
  case False
  then have "unat (foldl (read_bit_step p off) 0 [0..<n]) = bits_value (bslice off n (payload_bits p))"
    by (intro read_bits_value) simp_all
  then have "foldl (read_bit_step p off) 0 [0..<n] = word_of_nat (bits_value (bslice off n (payload_bits p)))"
    by (metis of_nat_unat ucast_id)
  with False show ?thesis by (simp add: ReadRtcmUnsignedBits_def)
qed

text \<open>Reading a field.\<close>

lemma ReadRtcmUnsignedBits_put:
  assumes "bslice off n (payload_bits p) = put n v" and "off + n \<le> 8 * length p" and "v < 2 ^ n" and "0 < n" and "n \<le> 64"
  shows "ReadRtcmUnsignedBits p off n = Some (word_of_nat v)"
  using assms by (simp add: ReadRtcmUnsignedBits_eq bits_value_put)

text \<open>The signed reader reads two's complement.\<close>

lemma unat_word_bit: "unat (v :: u64) < 2 ^ Suc m \<Longrightarrow> bit v m \<longleftrightarrow> 2 ^ m \<le> unat v"
proof -
  assume less: "unat v < 2 ^ Suc m"
  have "bit v m = bit (unat v) m" by (simp add: bit_unsigned_iff)
  also have "\<dots> = odd (unat v div 2 ^ m)" by (simp add: bit_iff_odd)
  also have "\<dots> \<longleftrightarrow> 2 ^ m \<le> unat v"
  proof (cases "2 ^ m \<le> unat v")
    case True
    with less have "unat v div 2 ^ m = 1" by (intro div_nat_eqI) simp_all
    with True show ?thesis by simp
  qed simp
  finally show ?thesis .
qed

lemma sint_of_int64: "\<lbrakk>- (2 ^ 63) \<le> k; k < 2 ^ 63\<rbrakk> \<Longrightarrow> sint (word_of_int k :: u64) = k"
  by (simp add: signed_of_int signed_take_bit_int_eq_self)

lemma sint_extend:
  fixes v :: u64
  assumes "unat v < 2 ^ Suc m" and "m < 63"
  shows "sint (if v AND push_bit m 1 \<noteq> 0 then v OR push_bit (Suc m) (NOT 0) else v)
    = (if 2 ^ m \<le> unat v then int (unat v) - 2 ^ Suc m else int (unat v))"
proof -
  have neg: "v AND push_bit m 1 \<noteq> 0 \<longleftrightarrow> 2 ^ m \<le> unat v"
    using unat_word_bit [OF assms(1)] by (simp add: and_exp_eq_0_iff_not_bit)
  have pow: "(2 :: int) ^ Suc m \<le> 2 ^ 63" using assms(2) by (intro power_increasing) simp_all
  have v: "v = word_of_int (int (unat v))" by simp
  have k: "int (unat v) < 2 ^ Suc m" using assms(1) by (simp only: of_nat_less_numeral_power_cancel_iff)
  show ?thesis
  proof (cases "2 ^ m \<le> unat v")
    case False
    have "int (unat v) < 2 ^ 63" using k pow by linarith
    moreover have "- (2 ^ 63) \<le> int (unat v)" by (rule order_trans [of _ 0]) simp_all
    ultimately have "sint (word_of_int (int (unat v)) :: u64) = int (unat v)" by (intro sint_of_int64)
    then have "sint v = int (unat v)" by (simp only: v [symmetric])
    with False neg show ?thesis by (simp del: of_nat_unat)
  next
    case True
    have "v AND push_bit (Suc m) (NOT 0) = 0"
    proof (rule bit_eqI)
      fix k
      have "\<not> bit v k" if "Suc m \<le> k"
      proof -
        have "unat v < 2 ^ k"
          using assms(1) power_increasing [OF that, of "2 :: nat"] by (rule order_less_le_trans) simp
        then have "\<not> bit (unat v) k" by (simp add: bit_iff_odd)
        then show ?thesis by (simp add: bit_unsigned_iff)
      qed
      then show "bit (v AND push_bit (Suc m) (NOT 0)) k = bit (0 :: u64) k"
        by (auto simp only: bit_simps bit_0_eq bot_apply bot_bool_def)
    qed
    then have "v OR push_bit (Suc m) (NOT 0) = v + push_bit (Suc m) (NOT 0)" by (rule disjunctive_add_eq_or [symmetric])
    also have "\<dots> = word_of_int (int (unat v) - 2 ^ Suc m)"
      by (simp add: push_bit_eq_mult)
    finally have eq: "v OR push_bit (Suc m) (NOT 0) = word_of_int (int (unat v) - 2 ^ Suc m)" .
    have "- (2 ^ 63) \<le> int (unat v) - 2 ^ Suc m" "int (unat v) - 2 ^ Suc m < 2 ^ 63"
      using k pow by linarith+
    then have "sint (word_of_int (int (unat v) - 2 ^ Suc m) :: u64) = int (unat v) - 2 ^ Suc m"
      by (rule sint_of_int64)
    with True neg eq show ?thesis by simp
  qed
qed

lemma ReadRtcmSignedBits_put:
  assumes "bslice off n (payload_bits p) = put n (nat (x mod 2 ^ n))" and "off + n \<le> 8 * length p" and "0 < n" and "n < 64"
    and "- (2 ^ (n - 1)) \<le> x" and "x < 2 ^ (n - 1)"
  shows "ReadRtcmSignedBits p off n = Some (word_of_int x) \<and> sint (word_of_int x :: u64) = x"
proof -
  obtain m where m: "n = Suc m" using assms(3) by (cases n) simp_all
  define v :: u64 where "v = word_of_nat (nat (x mod 2 ^ n))"
  have small: "nat (x mod 2 ^ n) < 2 ^ n" by (simp add: nat_less_iff)
  also have "(2 :: nat) ^ n \<le> 2 ^ 64" using assms(4) by (intro power_increasing) simp_all
  finally have "nat (x mod 2 ^ n) < 2 ^ 64" .
  then have v: "unat v = nat (x mod 2 ^ n)"
    by (simp only: v_def unsigned_of_nat) (simp add: take_bit_nat_eq_self)
  have read: "ReadRtcmUnsignedBits p off n = Some v"
    unfolding v_def using assms(1-4) small by (intro ReadRtcmUnsignedBits_put) simp_all
  have val: "int (unat v) = x mod 2 ^ n" unfolding v by simp
  have x: "x mod 2 ^ n = (if 0 \<le> x then x else x + 2 ^ n)"
  proof (cases "0 \<le> x")
    case True
    moreover have "(0 :: int) < 2 ^ m" by simp
    then have "x < 2 ^ n" using assms(6) unfolding m power_Suc diff_Suc_1 by linarith
    ultimately show ?thesis by simp
  next
    case False
    then have "(x + 2 ^ n) mod 2 ^ n = x + 2 ^ n" using assms(5) by (intro mod_pos_pos_trivial) (simp_all add: m)
    with False show ?thesis by simp
  qed
  have ge: "2 ^ m \<le> unat v \<longleftrightarrow> x < 0"
  proof -
    have "2 ^ m \<le> unat v \<longleftrightarrow> (2 :: int) ^ m \<le> int (unat v)" by (simp only: numeral_power_le_of_nat_cancel_iff)
    also have "\<dots> \<longleftrightarrow> 2 ^ m \<le> (if 0 \<le> x then x else x + 2 ^ n)" unfolding val by (simp only: x)
    also have "\<dots> \<longleftrightarrow> x < 0" using assms(5,6) by (simp add: m)
    finally show ?thesis .
  qed
  have "unat v < 2 ^ Suc m" unfolding v m [symmetric] by (rule small)
  from sint_extend [OF this] assms(4) val x ge
  have "sint (if v AND push_bit (n - 1) 1 \<noteq> 0 then v OR push_bit n (NOT 0) else v) = x"
    by (simp only: m diff_Suc_1 Suc_less_eq) (simp split: if_splits)
  moreover have "ReadRtcmSignedBits p off n = Some (if v AND push_bit (n - 1) 1 \<noteq> 0 then v OR push_bit n (NOT 0) else v)"
    using assms(3,4) by (simp only: ReadRtcmSignedBits_def read Let_def) simp
  ultimately show ?thesis by (metis of_int_sint scast_id)
qed

lemma read_u_put:
  assumes "bslice off n (payload_bits p) = put n v" and "off + n \<le> 8 * length p" and "v < 2 ^ n" and "0 < n" and "n \<le> 64"
    and "off1 = off + n"
  shows "read_u p off n = (Some (word_of_nat v), off1)"
  using assms by (simp add: read_u_def ReadRtcmUnsignedBits_put)

lemma read_s_put:
  assumes "bslice off n (payload_bits p) = put n (nat (x mod 2 ^ n))" and "off + n \<le> 8 * length p" and "0 < n" and "n < 64"
    and "- (2 ^ (n - 1)) \<le> x" and "x < 2 ^ (n - 1)" and "off1 = off + n"
  shows "read_s p off n = (Some (word_of_int x), off1)"
  using assms by (simp add: read_s_def ReadRtcmSignedBits_put)

text \<open>The message type is the first field.\<close>

lemma put_eq_map: "put n v = map (\<lambda>k. bit v (n - Suc k)) [0..<n]"
proof (induction n arbitrary: v)
  case 0
  then show ?case by simp
next
  case (Suc n)
  have "map (\<lambda>k. bit (v div 2) (n - Suc k)) [0..<n] = map (\<lambda>k. bit v (Suc n - Suc k)) [0..<n]"
    by (rule map_cong) (auto simp: bit_Suc [symmetric] Suc_diff_Suc)
  with Suc show ?case by (simp add: bit_0)
qed

lemma byte_bits_put: "byte_bits b = put 8 (unat b)"
  by (simp add: byte_bits_def put_eq_map bit_unsigned_iff del: upt_Suc)

lemma take_put: "k \<le> n \<Longrightarrow> take k (put n v) = put k (v div 2 ^ (n - k))"
proof (induction n arbitrary: v)
  case 0
  then show ?case by simp
next
  case (Suc n)
  show ?case
  proof (cases "k = Suc n")
    case True
    then show ?thesis by simp
  next
    case False
    with Suc.prems have "k \<le> n" by simp
    with Suc.IH show ?thesis by (simp add: Suc_diff_le div_mult2_eq)
  qed
qed

lemma bits_value_append: "bits_value (xs @ ys) = bits_value xs * 2 ^ length ys + bits_value ys"
proof (induction ys rule: rev_induct)
  case Nil
  then show ?case by simp
next
  case (snoc y ys)
  have "bits_value (xs @ ys @ [y]) = bits_value ((xs @ ys) @ [y])" by simp
  then show ?case unfolding bits_value_snoc snoc by (simp add: algebra_simps)
qed

lemma payload_bits_Cons: "payload_bits (b # p) = put 8 (unat b) @ payload_bits p"
  by (simp add: payload_bits_def byte_bits_put)

lemma unat_less_256: "unat (b :: u8) < 2 ^ 8"
  using unat_u8_less [of b] by simp

lemma or_push_bit: "(a :: nat) < 2 ^ n \<Longrightarrow> push_bit n b OR a = 2 ^ n * b + a"
proof -
  assume "a < 2 ^ n"
  then have "take_bit n a = a" by (simp add: take_bit_nat_eq_self)
  then have small: "bit a k \<Longrightarrow> k < n" for k by (metis bit_take_bit_iff)
  have "push_bit n b AND a = 0" by (intro bit_eqI) (auto simp: bit_and_iff bit_push_bit_iff dest!: small)
  then show ?thesis by (simp add: disjunctive_add_eq_or [symmetric] push_bit_eq_mult)
qed

lemma ExtractRtcmMessageType_eq:
  "ExtractRtcmMessageType p =
     (if length p < 2 then None else Some (word_of_nat (bits_value (take 12 (payload_bits p)))))"
proof (cases "length p < 2")
  case True
  then show ?thesis by (simp add: ExtractRtcmMessageType_def)
next
  case False
  then obtain b0 b1 q where p: "p = b0 # b1 # q" by (cases p; cases "tl p") auto
  have val: "bits_value (take 12 (payload_bits p)) = unat b0 * 16 + unat b1 div 16"
    using unat_less_256 [of b0] unat_less_256 [of b1]
    by (simp add: p payload_bits_Cons take_put bits_value_append bits_value_put)
  have "unat (push_bit 4 (ucast b0) OR drop_bit 4 (ucast b1) :: u16) = unat b0 * 16 + unat b1 div 16"
  proof -
    have b: "unat b0 < 256" "unat b1 < 256" by (rule unat_u8_less)+
    then have "unat (ucast b0 :: u16) = unat b0" "unat (ucast b1 :: u16) = unat b1"
      by (simp_all add: unsigned_ucast_eq take_bit_nat_eq_self)
    moreover have "unat (push_bit 4 w :: u16) = push_bit 4 (unat w)" if "unat w < 256" for w :: u16
      using that by (simp only: unsigned_push_bit_eq) (simp add: take_bit_nat_eq_self push_bit_eq_mult)
    ultimately have "unat (push_bit 4 (ucast b0) OR drop_bit 4 (ucast b1) :: u16) = push_bit 4 (unat b0) OR unat b1 div 16"
      using b by (simp add: unsigned_or_eq unat_drop)
    also have "\<dots> = 2 ^ 4 * unat b0 + unat b1 div 16" using b(2) by (intro or_push_bit) simp
    finally show ?thesis by simp
  qed
  then have "(push_bit 4 (ucast b0) OR drop_bit 4 (ucast b1) :: u16) = word_of_nat (unat b0 * 16 + unat b1 div 16)"
    by (metis of_nat_unat ucast_id)
  then show ?thesis using False by (simp add: ExtractRtcmMessageType_def val) (simp add: p)
qed

section \<open>Station reference points\<close>

text \<open>The contents of a 1005 or 1006 message, and its layout on the wire.\<close>

record arp_message =
  am_antenna_height :: "nat option"
  am_station_id :: nat
  am_itrf_year :: nat
  am_gps :: bool
  am_glonass :: bool
  am_galileo :: bool
  am_reference :: bool
  am_ecef_x :: int
  am_oscillator :: bool
  am_reserved :: bool
  am_ecef_y :: int
  am_quarter :: nat
  am_ecef_z :: int

definition coordinate_ok :: "int \<Rightarrow> bool" where
  "coordinate_ok x \<longleftrightarrow> - (2 ^ 37) \<le> x \<and> x < 2 ^ 37"

definition arp_ok :: "arp_message \<Rightarrow> bool" where
  "arp_ok m \<longleftrightarrow> am_station_id m < 2 ^ 12 \<and> am_itrf_year m < 2 ^ 6 \<and> am_quarter m < 2 ^ 2
     \<and> coordinate_ok (am_ecef_x m) \<and> coordinate_ok (am_ecef_y m) \<and> coordinate_ok (am_ecef_z m)
     \<and> (case am_antenna_height m of None \<Rightarrow> True | Some h \<Rightarrow> h < 2 ^ 16)"

definition put_coordinate :: "int \<Rightarrow> bool list" where
  "put_coordinate x = put 38 (nat (x mod 2 ^ 38))"

definition arp_type :: "arp_message \<Rightarrow> nat" where
  "arp_type m = (if am_antenna_height m = None then 1005 else 1006)"

definition arp_bits :: "arp_message \<Rightarrow> bool list" where
  "arp_bits m =
     put 12 (arp_type m) @ put 12 (am_station_id m) @ put 6 (am_itrf_year m)
     @ put 1 (of_bool (am_gps m)) @ put 1 (of_bool (am_glonass m)) @ put 1 (of_bool (am_galileo m))
     @ put 1 (of_bool (am_reference m)) @ put_coordinate (am_ecef_x m) @ put 1 (of_bool (am_oscillator m))
     @ put 1 (of_bool (am_reserved m)) @ put_coordinate (am_ecef_y m) @ put 2 (am_quarter m)
     @ put_coordinate (am_ecef_z m) @ (case am_antenna_height m of None \<Rightarrow> [] | Some h \<Rightarrow> put 16 h)"

definition metres :: "int \<Rightarrow> double" where
  "metres x = dbl_mult (round_double (of_int x)) kRtcmArpCoordinateScaleM"

definition arp_record :: "arp_message \<Rightarrow> RtcmBaseStationArpRecord" where
  "arp_record m =
     \<lparr>arp_message_type = word_of_nat (arp_type m), arp_station_id = word_of_nat (am_station_id m),
      arp_itrf_year = word_of_nat (am_itrf_year m), arp_gps_indicator = am_gps m, arp_glonass_indicator = am_glonass m,
      arp_galileo_indicator = am_galileo m, arp_reference_station_indicator = am_reference m,
      arp_ecef_x_m = metres (am_ecef_x m), arp_ecef_y_m = metres (am_ecef_y m), arp_ecef_z_m = metres (am_ecef_z m),
      arp_antenna_height_m = map_option (\<lambda>h. metres (int h)) (am_antenna_height m),
      arp_single_receiver_oscillator_indicator = am_oscillator m,
      arp_quarter_cycle_indicator = word_of_nat (am_quarter m)\<rparr>"

lemma ucast_word_of_nat: "LENGTH('b :: len) \<le> LENGTH('a :: len) \<Longrightarrow> ucast (word_of_nat v :: 'a word) = (word_of_nat v :: 'b word)"
  by (rule bit_word_eqI) (simp add: bit_simps)

lemma scaled_metres: "coordinate_ok x \<Longrightarrow> scaled (word_of_int x) kRtcmArpCoordinateScaleM = metres x"
proof -
  assume "coordinate_ok x"
  then have "sint (word_of_int x :: u64) = x" by (intro sint_of_int64) (simp_all add: coordinate_ok_def)
  then show ?thesis by (simp add: scaled_def metres_def)
qed

lemma frame_type_of_bits:
  assumes "rtcm_protocol frame = PT_kRtcm3" and "rtcm_checksum_status frame = CS_kValid"
    and "payload_bits (rtcm_payload frame) = put 12 t @ post" and "t < 2 ^ 12"
  shows "frame_ExtractRtcmMessageType frame = Some (word_of_nat t)"
proof -
  have "12 \<le> 8 * length (rtcm_payload frame)" using arg_cong [OF assms(3), of length] by simp
  then have "\<not> length (rtcm_payload frame) < 2" by simp
  with assms show ?thesis by (simp add: frame_ExtractRtcmMessageType_def ExtractRtcmMessageType_eq bits_value_put)
qed

lemma arp_parse:
  assumes "rtcm_protocol frame = PT_kRtcm3" and "rtcm_checksum_status frame = CS_kValid" and ok: "arp_ok m"
    and bits: "payload_bits (rtcm_payload frame) = arp_bits m @ post"
  shows "ParseRtcmBaseStationArp frame = RecordReady (arp_record m)"
proof -
  let ?p = "rtcm_payload frame"
  note layout = bits arp_bits_def put_coordinate_def bslice_def
  have len: "length (arp_bits m) \<le> 8 * length ?p" using arg_cong [OF bits, of length] by simp
  then have len: "152 \<le> 8 * length ?p" "am_antenna_height m \<noteq> None \<Longrightarrow> 168 \<le> 8 * length ?p"
    by (auto simp: arp_bits_def put_coordinate_def)
  have t: "arp_type m < 2 ^ 12" by (simp add: arp_type_def)
  have type: "frame_ExtractRtcmMessageType frame = Some (word_of_nat (arp_type m))"
    using assms(1,2) bits t by (intro frame_type_of_bits) (simp_all add: arp_bits_def)
  have reads: "read_u ?p 0 12 = (Some (word_of_nat (arp_type m)), 12)"
    "read_u ?p 12 12 = (Some (word_of_nat (am_station_id m)), 24)"
    "read_u ?p 24 6 = (Some (word_of_nat (am_itrf_year m)), 30)"
    "read_u ?p 30 1 = (Some (word_of_nat (of_bool (am_gps m))), 31)"
    "read_u ?p 31 1 = (Some (word_of_nat (of_bool (am_glonass m))), 32)"
    "read_u ?p 32 1 = (Some (word_of_nat (of_bool (am_galileo m))), 33)"
    "read_u ?p 33 1 = (Some (word_of_nat (of_bool (am_reference m))), 34)"
    "read_u ?p 72 1 = (Some (word_of_nat (of_bool (am_oscillator m))), 73)"
    "read_u ?p 73 1 = (Some (word_of_nat (of_bool (am_reserved m))), 74)"
    "read_u ?p 112 2 = (Some (word_of_nat (am_quarter m)), 114)"
    using ok len(1) t by (intro read_u_put; simp add: layout arp_ok_def)+
  have signed: "read_s ?p 34 38 = (Some (word_of_int (am_ecef_x m)), 72)"
    "read_s ?p 74 38 = (Some (word_of_int (am_ecef_y m)), 112)"
    "read_s ?p 114 38 = (Some (word_of_int (am_ecef_z m)), 152)"
    using ok len(1) by (intro read_s_put; simp add: layout arp_ok_def coordinate_ok_def)+
  have scale: "scaled (word_of_int (am_ecef_x m)) kRtcmArpCoordinateScaleM = metres (am_ecef_x m)"
    "scaled (word_of_int (am_ecef_y m)) kRtcmArpCoordinateScaleM = metres (am_ecef_y m)"
    "scaled (word_of_int (am_ecef_z m)) kRtcmArpCoordinateScaleM = metres (am_ecef_z m)"
    using ok by (simp_all add: arp_ok_def scaled_metres)
  note parse = ParseRtcmBaseStationArp_def type IsRtcmStationArpMessage_def arp_record_def reads [unfolded One_nat_def] signed scale Let_def
    ucast_word_of_nat
  show ?thesis
  proof (cases "am_antenna_height m")
    case None
    with len(1) show ?thesis by (simp add: parse arp_type_def)
  next
    case (Some h)
    with len(2) have "168 \<le> 8 * length ?p" by simp
    moreover from Some ok have h: "h < 2 ^ 16" by (simp add: arp_ok_def)
    ultimately have "read_u ?p 152 16 = (Some (word_of_nat h), 168)"
      using Some by (intro read_u_put; simp add: layout)
    moreover have "uint (word_of_nat h :: u64) = int h"
      using h by (simp add: unsigned_of_nat take_bit_nat_eq_self)
    ultimately show ?thesis using Some len(2) by (simp add: parse arp_type_def metres_def)
  qed
qed

section \<open>Antenna descriptors\<close>

record antenna_message =
  an_station_id :: nat
  an_descriptor :: string
  an_setup_id :: nat
  an_serial :: "string option"

definition antenna_ok :: "antenna_message \<Rightarrow> bool" where
  "antenna_ok m \<longleftrightarrow> an_station_id m < 2 ^ 12 \<and> length (an_descriptor m) \<le> 31 \<and> an_setup_id m < 2 ^ 8
     \<and> (case an_serial m of None \<Rightarrow> True | Some s \<Rightarrow> length s \<le> 31)"

definition text_bits :: "string \<Rightarrow> bool list" where
  "text_bits s = put 8 (length s) @ payload_bits (bytes_of s)"

definition antenna_type :: "antenna_message \<Rightarrow> nat" where
  "antenna_type m = (if an_serial m = None then 1007 else 1008)"

definition antenna_bits :: "antenna_message \<Rightarrow> bool list" where
  "antenna_bits m =
     put 12 (antenna_type m) @ put 12 (an_station_id m) @ text_bits (an_descriptor m) @ put 8 (an_setup_id m)
     @ (case an_serial m of None \<Rightarrow> [] | Some s \<Rightarrow> text_bits s)"

definition antenna_record :: "antenna_message \<Rightarrow> RtcmAntennaDescriptorRecord" where
  "antenna_record m =
     \<lparr>ad_message_type = word_of_nat (antenna_type m), ad_station_id = word_of_nat (an_station_id m),
      ad_antenna_descriptor = an_descriptor m, ad_antenna_setup_id = word_of_nat (an_setup_id m),
      ad_antenna_serial_number = an_serial m\<rparr>"

lemma read_text_loop_put:
  "\<lbrakk>bslice off (8 * length s) (payload_bits p) = payload_bits (bytes_of s); off + 8 * length s \<le> 8 * length p\<rbrakk> \<Longrightarrow>
     read_text_loop p (length s) off acc = (Some (acc @ s), off + 8 * length s)"
proof (induction s arbitrary: off acc)
  case Nil
  then show ?case by simp
next
  case (Cons c s)
  let ?bits = "payload_bits p"
  have split: "bslice off (8 + 8 * length s) ?bits = put 8 (unat (byte_of c)) @ payload_bits (bytes_of s)"
    using Cons.prems(1) by (simp add: payload_bits_Cons)
  have first: "bslice off 8 ?bits = put 8 (unat (byte_of c))"
    using arg_cong [OF split, of "take 8"] by (simp add: bslice_def min_def)
  have rest: "bslice (off + 8) (8 * length s) ?bits = payload_bits (bytes_of s)"
    using arg_cong [OF split, of "drop 8"] by (simp add: bslice_def drop_take add.commute)
  have "read_u p off 8 = (Some (word_of_nat (unat (byte_of c))), off + 8)"
    using first Cons.prems(2) unat_less_256 [of "byte_of c"] by (intro read_u_put) simp_all
  moreover have "ucast (ucast (byte_of c) :: u64) = byte_of c"
    by (rule bit_word_eqI) (simp add: bit_simps)
  ultimately show ?case using Cons.IH [OF rest] Cons.prems(2) by (simp add: ucast_word_of_nat)
qed

lemma read_text_put:
  assumes "bslice off (8 * length s) (payload_bits p) = payload_bits (bytes_of s)" and "off + 8 * length s \<le> 8 * length p"
    and "length s \<le> 31" and "off1 = off + 8 * length s"
  shows "read_text p off (ucast (word_of_nat (length s) :: u64)) = (Some s, off1)"
proof -
  have len: "unat (word_of_nat (length s) :: u8) = length s"
    using assms(3) by (simp add: unsigned_of_nat take_bit_nat_eq_self)
  then have "\<not> (31 :: u8) < word_of_nat (length s)"
    using assms(3) by (simp add: word_less_nat_alt)
  with assms len show ?thesis by (simp add: read_text_def ucast_word_of_nat read_text_loop_put)
qed

lemma antenna_parse:
  assumes "rtcm_protocol frame = PT_kRtcm3" and "rtcm_checksum_status frame = CS_kValid" and ok: "antenna_ok m"
    and bits: "payload_bits (rtcm_payload frame) = antenna_bits m @ post"
  shows "ParseRtcmAntennaDescriptor frame = RecordReady (antenna_record m)"
proof -
  let ?p = "rtcm_payload frame" and ?k = "length (an_descriptor m)"
  note layout = bits antenna_bits_def text_bits_def bslice_def
  have "length (antenna_bits m) \<le> 8 * length ?p" using arg_cong [OF bits, of length] by simp
  then have len: "40 + 8 * ?k \<le> 8 * length ?p"
    "\<And>s. an_serial m = Some s \<Longrightarrow> 48 + 8 * ?k + 8 * length s \<le> 8 * length ?p"
    by (auto simp: antenna_bits_def text_bits_def)
  have t: "antenna_type m < 2 ^ 12" by (simp add: antenna_type_def)
  have type: "frame_ExtractRtcmMessageType frame = Some (word_of_nat (antenna_type m))"
    using assms(1,2) bits t by (intro frame_type_of_bits) (simp_all add: antenna_bits_def)
  have reads: "read_u ?p 0 12 = (Some (word_of_nat (antenna_type m)), 12)"
    "read_u ?p 12 12 = (Some (word_of_nat (an_station_id m)), 24)"
    "read_u ?p 24 8 = (Some (word_of_nat ?k), 32)"
    "read_text ?p 32 (ucast (word_of_nat ?k :: u64)) = (Some (an_descriptor m), 32 + 8 * ?k)"
    "read_u ?p (32 + 8 * ?k) 8 = (Some (word_of_nat (an_setup_id m)), 40 + 8 * ?k)"
    using ok len(1) t by (intro read_u_put read_text_put; simp add: layout antenna_ok_def)+
  note parse = ParseRtcmAntennaDescriptor_def type IsRtcmAntennaDescriptorMessage_def antenna_record_def Let_def
  show ?thesis
  proof (cases "an_serial m")
    case None
    then show ?thesis by (simp add: parse reads antenna_type_def) (simp add: ucast_word_of_nat)
  next
    case (Some s)
    from Some ok have s: "length s \<le> 31" by (simp add: antenna_ok_def)
    have "read_u ?p (40 + 8 * ?k) 8 = (Some (word_of_nat (length s)), 48 + 8 * ?k)"
      "read_text ?p (48 + 8 * ?k) (ucast (word_of_nat (length s) :: u64)) = (Some s, 48 + 8 * ?k + 8 * length s)"
      using Some s len(2) [OF Some] by (intro read_u_put read_text_put; simp add: layout)+
    with Some show ?thesis by (simp add: parse reads antenna_type_def) (simp add: ucast_word_of_nat)
  qed
qed

section \<open>MSM headers\<close>

definition ones :: "bool list \<Rightarrow> nat" where
  "ones bs = length (filter id bs)"

lemma ones_snoc [simp]: "ones (bs @ [b]) = ones bs + of_bool b"
  by (simp add: ones_def)

lemma ones_le: "ones bs \<le> length bs"
  by (simp add: ones_def)

lemma bits_value_zero: "bits_value bs = 0 \<Longrightarrow> ones bs = 0"
proof (induction bs rule: rev_induct)
  case Nil
  show ?case by (simp add: ones_def)
next
  case (snoc b bs)
  then show ?case by simp
qed

lemma word_of_bits_snoc:
  assumes "length bs < 64"
  shows "drop_bit 1 (word_of_nat (bits_value (bs @ [b])) :: u64) = word_of_nat (bits_value bs)"
    and "(word_of_nat (bits_value (bs @ [b])) :: u64) AND 1 = of_bool b"
    and "(word_of_nat (bits_value (bs @ [b])) :: u64) = 0 \<longleftrightarrow> bits_value (bs @ [b]) = 0"
proof -
  have less: "bits_value xs < 2 ^ 64" if "length xs \<le> 64" for xs
    using bits_value_less [of xs] power_increasing [OF that, of "2 :: nat"] by simp
  have v: "unat (word_of_nat (bits_value xs) :: u64) = bits_value xs" if "length xs \<le> 64" for xs
    using less [OF that] by (simp only: unsigned_of_nat) (simp add: take_bit_nat_eq_self)
  have "unat (word_of_nat (bits_value (bs @ [b])) :: u64) = bits_value (bs @ [b])" using assms by (intro v) simp
  then have "unat (drop_bit 1 (word_of_nat (bits_value (bs @ [b])) :: u64)) = bits_value bs"
    by (simp only: unat_drop) simp
  then show "drop_bit 1 (word_of_nat (bits_value (bs @ [b])) :: u64) = word_of_nat (bits_value bs)"
    by (metis of_nat_unat ucast_id)
  show "(word_of_nat (bits_value (bs @ [b])) :: u64) AND 1 = of_bool b"
    by (simp add: and_one_eq mod_2_eq_odd)
  show "(word_of_nat (bits_value (bs @ [b])) :: u64) = 0 \<longleftrightarrow> bits_value (bs @ [b]) = 0"
    using v [of "bs @ [b]"] assms by (metis Suc_leI length_append_singleton unat_eq_zero)
qed

lemma count_set_bits_loop_ones:
  "length bs \<le> 64 \<Longrightarrow> count_set_bits_loop (word_of_nat (bits_value bs)) c = c + word_of_nat (ones bs)"
proof (induction bs arbitrary: c rule: rev_induct)
  case Nil
  show ?case by (simp add: count_set_bits_loop.simps ones_def)
next
  case (snoc b bs)
  then have len: "length bs < 64" by simp
  note w = word_of_bits_snoc [OF len, of b]
  show ?case
  proof (cases "bits_value (bs @ [b]) = 0")
    case True
    with bits_value_zero have "ones (bs @ [b]) = 0" by blast
    with True w(3) show ?thesis by (simp add: count_set_bits_loop.simps)
  next
    case False
    with w have "count_set_bits_loop (word_of_nat (bits_value (bs @ [b]))) c
        = count_set_bits_loop (word_of_nat (bits_value bs)) (c + ucast (of_bool b :: u64))"
      by (simp only: count_set_bits_loop.simps [of "word_of_nat (bits_value (bs @ [b]))"]) simp
    also have "\<dots> = c + ucast (of_bool b :: u64) + word_of_nat (ones bs)" using len by (intro snoc.IH) simp
    finally show ?thesis by (cases b) simp_all
  qed
qed

lemma CountSetBits_ones:
  assumes "length bs \<le> 64"
  shows "unat (CountSetBits (word_of_nat (bits_value bs))) = ones bs"
proof -
  have "ones bs < 2 ^ 8" using ones_le [of bs] assms by simp
  with assms show ?thesis
    by (simp add: CountSetBits_def count_set_bits_loop_ones unsigned_of_nat take_bit_nat_eq_self)
qed

lemma count_range_loop_append:
  "count_range_loop p off (xs @ ys) c =
     (case count_range_loop p off xs c of None \<Rightarrow> None | Some c1 \<Rightarrow> count_range_loop p off ys c1)"
  by (induction xs arbitrary: c) (auto split: option.split)

lemma count_range_loop_ones:
  "off + n \<le> 8 * length p \<Longrightarrow>
     count_range_loop p off [0..<n] c = Some (c + word_of_nat (ones (bslice off n (payload_bits p))))"
proof (induction n)
  case 0
  show ?case by (simp add: bslice_def ones_def)
next
  case (Suc n)
  then have "bslice (off + n) 1 (payload_bits p) = [payload_bits p ! (off + n)]"
    by (simp add: bslice_def take_Suc_conv_app_nth)
  then have "ReadRtcmUnsignedBits p (off + n) 1 = Some (of_bool (payload_bits p ! (off + n)))"
    using Suc.prems by (simp add: ReadRtcmUnsignedBits_eq bits_value_def)
  with Suc show ?case by (simp add: count_range_loop_append bslice_Suc)
qed

lemma CountSetBitsInRange_ones:
  assumes "CountSetBitsInRange p off n = Some c" and "n \<le> 64"
  shows "off + n \<le> 8 * length p \<and> unat c = ones (bslice off n (payload_bits p))"
proof -
  have "ones (bslice off n (payload_bits p)) \<le> n"
    by (rule order_trans [OF ones_le]) simp
  then have small: "ones (bslice off n (payload_bits p)) < 2 ^ 16" using assms(2) by simp
  from assms(1) have fits: "off + n \<le> 8 * length p" by (simp add: CountSetBitsInRange_def split: if_splits)
  with assms(1) have "c = word_of_nat (ones (bslice off n (payload_bits p)))"
    by (simp add: CountSetBitsInRange_def count_range_loop_ones)
  with small fits show ?thesis by (simp add: unsigned_of_nat take_bit_nat_eq_self)
qed

text \<open>A read inside the payload.\<close>

lemma read_u_eq:
  "\<lbrakk>off + n \<le> 8 * length p; 0 < n; n \<le> 64\<rbrakk> \<Longrightarrow>
     read_u p off n = (Some (word_of_nat (bits_value (bslice off n (payload_bits p)))), off + n)"
  by (simp add: read_u_def ReadRtcmUnsignedBits_eq)

lemma CountSetBitsInRange_eq:
  "CountSetBitsInRange p off n =
     (if 8 * length p < off + n then None else Some (word_of_nat (ones (bslice off n (payload_bits p)))))"
  by (simp add: CountSetBitsInRange_def count_range_loop_ones)

text \<open>The masks of an MSM header, as bits of the payload.\<close>

definition satellite_mask_bits :: "bytes \<Rightarrow> bool list" where
  "satellite_mask_bits p = bslice 73 64 (payload_bits p)"

definition signal_mask_bits :: "bytes \<Rightarrow> bool list" where
  "signal_mask_bits p = bslice 137 32 (payload_bits p)"

definition cell_mask_bits :: "bytes \<Rightarrow> bool list" where
  "cell_mask_bits p = bslice 169 (ones (satellite_mask_bits p) * ones (signal_mask_bits p)) (payload_bits p)"

text \<open>The body an MSM message of a variant announces fits behind its masks.\<close>

definition msm_fits :: "u16 \<Rightarrow> bytes \<Rightarrow> bool" where
  "msm_fits t p \<longleftrightarrow>
     (let cells = ones (satellite_mask_bits p) * ones (signal_mask_bits p) in
      169 \<le> 8 * length p \<and> cells \<le> 64 \<and> 169 + cells \<le> 8 * length p
      \<and> (\<exists>body. ComputeRtcmMsmBodyBits (GetRtcmMsmVariant t) (ones (satellite_mask_bits p)) (ones (cell_mask_bits p))
             = Some body
           \<and> 169 + cells + body \<le> 8 * length p))"

lemma msm_parse:
  assumes type: "frame_ExtractRtcmMessageType frame = Some t" and msm: "IsRtcmMsmMessage t"
    and long: "169 \<le> 8 * length (rtcm_payload frame)"
  shows "pr_record (ParseRtcmMsmSummary frame) =
     (if msm_fits t (rtcm_payload frame)
      then Some \<lparr>ms_message_type = t,
              ms_station_id = word_of_nat (bits_value (bslice 12 12 (payload_bits (rtcm_payload frame)))),
              ms_constellation = GetRtcmMsmConstellation t, ms_msm_variant = GetRtcmMsmVariant t,
              ms_multiple_message = bits_value (bslice 54 1 (payload_bits (rtcm_payload frame))) \<noteq> 0,
              ms_issue_of_data_station = word_of_nat (bits_value (bslice 55 3 (payload_bits (rtcm_payload frame)))),
              ms_session_transmission_time = word_of_nat (bits_value (bslice 58 7 (payload_bits (rtcm_payload frame)))),
              ms_clock_steering_indicator = word_of_nat (bits_value (bslice 65 2 (payload_bits (rtcm_payload frame)))),
              ms_external_clock_indicator = word_of_nat (bits_value (bslice 67 2 (payload_bits (rtcm_payload frame)))),
              ms_divergence_free_smoothing = bits_value (bslice 69 1 (payload_bits (rtcm_payload frame))) \<noteq> 0,
              ms_smoothing_interval = word_of_nat (bits_value (bslice 70 3 (payload_bits (rtcm_payload frame)))),
              ms_satellite_count = word_of_nat (ones (satellite_mask_bits (rtcm_payload frame))),
              ms_signal_count = word_of_nat (ones (signal_mask_bits (rtcm_payload frame))),
              ms_cell_count = word_of_nat (ones (cell_mask_bits (rtcm_payload frame)))\<rparr>
      else None)"
proof -
  let ?p = "rtcm_payload frame" and ?bits = "payload_bits (rtcm_payload frame)"
  have reads: "read_u ?p 0 12 = (Some (word_of_nat (bits_value (bslice 0 12 ?bits))), 12)"
    "read_u ?p 12 12 = (Some (word_of_nat (bits_value (bslice 12 12 ?bits))), 24)"
    "read_u ?p 24 30 = (Some (word_of_nat (bits_value (bslice 24 30 ?bits))), 54)"
    "read_u ?p 54 1 = (Some (word_of_nat (bits_value (bslice 54 1 ?bits))), 55)"
    "read_u ?p 55 3 = (Some (word_of_nat (bits_value (bslice 55 3 ?bits))), 58)"
    "read_u ?p 58 7 = (Some (word_of_nat (bits_value (bslice 58 7 ?bits))), 65)"
    "read_u ?p 65 2 = (Some (word_of_nat (bits_value (bslice 65 2 ?bits))), 67)"
    "read_u ?p 67 2 = (Some (word_of_nat (bits_value (bslice 67 2 ?bits))), 69)"
    "read_u ?p 69 1 = (Some (word_of_nat (bits_value (bslice 69 1 ?bits))), 70)"
    "read_u ?p 70 3 = (Some (word_of_nat (bits_value (bslice 70 3 ?bits))), 73)"
    "read_u ?p 73 64 = (Some (word_of_nat (bits_value (satellite_mask_bits ?p))), 137)"
    "read_u ?p 137 32 = (Some (word_of_nat (bits_value (signal_mask_bits ?p))), 169)"
    using long by (simp_all add: read_u_eq satellite_mask_bits_def signal_mask_bits_def)
  let ?sat = "CountSetBits (word_of_nat (bits_value (satellite_mask_bits ?p)))"
    and ?sig = "CountSetBits (word_of_nat (bits_value (signal_mask_bits ?p)))"
  have counts: "unat ?sat = ones (satellite_mask_bits ?p)" "unat ?sig = ones (signal_mask_bits ?p)"
    by (intro CountSetBits_ones; simp add: satellite_mask_bits_def signal_mask_bits_def)+
  then have words: "?sat = word_of_nat (ones (satellite_mask_bits ?p))" "?sig = word_of_nat (ones (signal_mask_bits ?p))"
    by (metis of_nat_unat ucast_id)+
  have cells: "unat (word_of_nat (ones (cell_mask_bits ?p)) :: u16) = ones (cell_mask_bits ?p)"
    if "ones (satellite_mask_bits ?p) * ones (signal_mask_bits ?p) \<le> 64"
  proof -
    have "ones (cell_mask_bits ?p) \<le> 64"
      by (rule order_trans [OF ones_le]) (use that in \<open>simp add: cell_mask_bits_def\<close>)
    then show ?thesis by (simp add: unsigned_of_nat take_bit_nat_eq_self)
  qed
  have bit: "(word_of_nat (bits_value (bslice k 1 ?bits)) :: u64) \<noteq> 0 \<longleftrightarrow> bits_value (bslice k 1 ?bits) \<noteq> 0" for k
  proof -
    have "bits_value (bslice k 1 ?bits) < 2 ^ 1"
      by (rule less_le_trans [OF bits_value_less]) (rule power_increasing, simp_all)
    then show ?thesis by (auto simp: less_Suc_eq numeral_2_eq_2)
  qed
  have t: "word_of_nat (bits_value (bslice 0 12 ?bits)) = t"
    using type by (simp add: frame_ExtractRtcmMessageType_def ExtractRtcmMessageType_eq bslice_def split: if_splits)
  have wide: "CountSetBitsInRange ?p 169 (ones (satellite_mask_bits ?p) * ones (signal_mask_bits ?p))
    = (if 8 * length ?p < 169 + ones (satellite_mask_bits ?p) * ones (signal_mask_bits ?p) then None
       else Some (word_of_nat (ones (cell_mask_bits ?p))))"
    by (simp add: CountSetBitsInRange_eq cell_mask_bits_def)
  have un: "unat (word_of_nat (ones (satellite_mask_bits ?p)) :: u8) = ones (satellite_mask_bits ?p)"
    "unat (word_of_nat (ones (signal_mask_bits ?p)) :: u8) = ones (signal_mask_bits ?p)"
    using counts unfolding words by simp_all
  show ?thesis
    unfolding ParseRtcmMsmSummary_def Let_def type option.case reads prod.case option.sel words un
    using cells
    by (simp add: long msm ucast_word_of_nat t wide bit [unfolded One_nat_def] msm_fits_def Let_def split: option.split)
qed

section \<open>Properties\<close>

text \<open>A station reference point is decoded bit for bit: whenever a checked RTCM frame carries a payload
  whose bits, most significant first, begin with the fields of a 1005 or 1006 message, each at its width and the
  coordinates in two's complement, the parser returns exactly these fields, with the coordinates and the antenna
  height scaled by the double 0.0001; bytes after the message do not matter.\<close>

lemma rtcm_arp_roundtrip:
  assumes "rtcm_protocol frame = PT_kRtcm3" and "rtcm_checksum_status frame = CS_kValid" and "arp_ok m"
    and "prefix (arp_bits m) (payload_bits (rtcm_payload frame))"
  shows "ParseRtcmBaseStationArp frame = RecordReady (arp_record m)"
  using assms arp_parse by (auto simp: prefix_def)

definition demo_rtcm_frame :: "bytes \<Rightarrow> RtcmFrame" where
  "demo_rtcm_frame payload =
     \<lparr>rtcm_protocol = PT_kRtcm3, rtcm_timestamp_ns = None, rtcm_message_type = 0, rtcm_payload = payload,
      rtcm_raw_bytes = [], rtcm_checksum_status = CS_kValid, rtcm_reported_crc24q = 0, rtcm_computed_crc24q = 0\<rparr>"

definition demo_arp :: arp_message where
  "demo_arp =
     \<lparr>am_antenna_height = None, am_station_id = 2003, am_itrf_year = 0, am_gps = True, am_glonass = True,
      am_galileo = False, am_reference = False, am_ecef_x = 41000000000, am_oscillator = False, am_reserved = False,
      am_ecef_y = - 5000000000, am_quarter = 0, am_ecef_z = 48000000001\<rparr>"

definition demo_arp_payload :: bytes where
  "demo_arp_payload =
     [0x3E, 0xD7, 0xD3, 0x03, 0x09, 0x8B, 0xCA, 0x5A, 0x00, 0x3E, 0xD5, 0xFA, 0x0E, 0x00, 0x0B, 0x2D, 0x05, 0xE0, 0x01]"

theorem rtcm_arp_roundtrip_witness:
  "ParseRtcmBaseStationArp (demo_rtcm_frame demo_arp_payload) = RecordReady (arp_record demo_arp)"
proof (rule rtcm_arp_roundtrip)
  show "prefix (arp_bits demo_arp) (payload_bits (rtcm_payload (demo_rtcm_frame demo_arp_payload)))"
    by (simp add: demo_rtcm_frame_def demo_arp_payload_def payload_bits_def byte_bits_put arp_bits_def arp_type_def
        put_coordinate_def demo_arp_def put_numeral)
qed (simp_all add: demo_rtcm_frame_def arp_ok_def demo_arp_def coordinate_ok_def)

text \<open>An antenna descriptor is decoded as it was encoded: whenever a checked RTCM frame carries the bits of a
  1007 or 1008 message, with texts of at most 31 characters, the parser returns its station, its texts and its setup
  identifier.\<close>

lemma rtcm_antenna_roundtrip:
  assumes "rtcm_protocol frame = PT_kRtcm3" and "rtcm_checksum_status frame = CS_kValid" and "antenna_ok m"
    and "prefix (antenna_bits m) (payload_bits (rtcm_payload frame))"
  shows "ParseRtcmAntennaDescriptor frame = RecordReady (antenna_record m)"
  using assms antenna_parse by (auto simp: prefix_def)

definition demo_antenna :: antenna_message where
  "demo_antenna = \<lparr>an_station_id = 9, an_descriptor = ''ADV'', an_setup_id = 1, an_serial = None\<rparr>"

theorem rtcm_antenna_roundtrip_witness:
  "ParseRtcmAntennaDescriptor (demo_rtcm_frame [0x3E, 0xF0, 0x09, 0x03, 0x41, 0x44, 0x56, 0x01])
   = RecordReady (antenna_record demo_antenna)"
proof (rule rtcm_antenna_roundtrip)
  show "prefix (antenna_bits demo_antenna) (payload_bits (rtcm_payload (demo_rtcm_frame [0x3E, 0xF0, 0x09, 0x03, 0x41, 0x44, 0x56, 0x01])))"
    by (simp add: demo_rtcm_frame_def payload_bits_def byte_bits_put antenna_bits_def antenna_type_def text_bits_def
        demo_antenna_def put_numeral byte_of_def)
qed (simp_all add: demo_rtcm_frame_def antenna_ok_def demo_antenna_def)

text \<open>C36. The MSM parser accepts exactly the messages whose announced contents fit: a checked frame of type
  \<open>t\<close> is summarised if and only if \<open>t\<close> is an MSM type, the satellite and the signal mask announce at most 64 cells,
  and the header, the cell mask and the body that the variant prescribes for so many satellites and cells lie within
  the payload; the numbers of satellites, signals and cells reported are then the numbers of bits set in the three
  masks, never cut off by their widths.\<close>

theorem rtcm_msm_summary_exact:
  assumes "frame_ExtractRtcmMessageType frame = Some t"
  shows "(pr_record (ParseRtcmMsmSummary frame) \<noteq> None \<longleftrightarrow> IsRtcmMsmMessage t \<and> msm_fits t (rtcm_payload frame))
    \<and> (\<forall>r. pr_record (ParseRtcmMsmSummary frame) = Some r \<longrightarrow>
         ms_message_type r = t \<and> unat (ms_satellite_count r) = ones (satellite_mask_bits (rtcm_payload frame))
         \<and> unat (ms_signal_count r) = ones (signal_mask_bits (rtcm_payload frame))
         \<and> unat (ms_cell_count r) = ones (cell_mask_bits (rtcm_payload frame)))"
proof (cases "IsRtcmMsmMessage t \<and> 169 \<le> 8 * length (rtcm_payload frame)")
  case False
  then have "pr_record (ParseRtcmMsmSummary frame) = None"
    using assms by (auto simp: ParseRtcmMsmSummary_def)
  with False show ?thesis by (auto simp: msm_fits_def Let_def)
next
  case True
  have small: "ones (satellite_mask_bits p) \<le> 64" "ones (signal_mask_bits p) \<le> 32" for p
    by (rule order_trans [OF ones_le], simp add: satellite_mask_bits_def signal_mask_bits_def)+
  have "ones (cell_mask_bits (rtcm_payload frame)) \<le> 64" if "msm_fits t (rtcm_payload frame)"
    by (rule order_trans [OF ones_le]) (use that in \<open>simp add: cell_mask_bits_def msm_fits_def Let_def min.coboundedI1\<close>)
  with True small [of "rtcm_payload frame"] msm_parse [OF assms] show ?thesis
    by (auto simp: unsigned_of_nat take_bit_nat_eq_self split: if_splits)
qed

definition demo_msm_payload :: bytes where
  "demo_msm_payload =
     [0x43, 0x20, 0x05, 0x00, 0x00, 0x0F, 0xA0, 0x00, 0x00, 0x44, 0x00, 0x00, 0x00, 0x00, 0x00, 0x00, 0x00, 0x20, 0x20, 0x00, 0x00, 0x58] @ replicate 23 0"

theorem rtcm_msm_summary_exact_witness:
  "\<exists>r. pr_record (ParseRtcmMsmSummary (demo_rtcm_frame demo_msm_payload)) = Some r
     \<and> unat (ms_satellite_count r) = 2 \<and> unat (ms_signal_count r) = 2 \<and> unat (ms_cell_count r) = 3"
proof -
  have bits: "payload_bits demo_msm_payload =
      put 12 1074 @ put 12 5 @ put 30 1000 @ put 19 0 @ put 64 (2 ^ 63 + 2 ^ 59) @ put 32 (2 ^ 30 + 2 ^ 22) @ put 4 11
      @ replicate 187 False"
    by (simp add: demo_msm_payload_def payload_bits_def byte_bits_put put_numeral) (simp add: numeral_eq_Suc)
  have type: "frame_ExtractRtcmMessageType (demo_rtcm_frame demo_msm_payload) = Some 1074"
    by (simp add: demo_rtcm_frame_def frame_ExtractRtcmMessageType_def ExtractRtcmMessageType_def demo_msm_payload_def)
  have masks: "ones (satellite_mask_bits demo_msm_payload) = 2" "ones (signal_mask_bits demo_msm_payload) = 2"
    by (simp_all add: satellite_mask_bits_def signal_mask_bits_def bits bslice_def ones_def put_numeral)
  then have cells: "ones (cell_mask_bits demo_msm_payload) = 3"
    by (simp add: cell_mask_bits_def bits bslice_def ones_def put_numeral)
  have "length demo_msm_payload = 45" by (simp add: demo_msm_payload_def)
  then have "msm_fits 1074 demo_msm_payload"
    by (simp add: msm_fits_def masks cells Let_def ComputeRtcmMsmBodyBits_def GetRtcmMsmVariant_def IsRtcmMsmVariant_def)
  moreover have "IsRtcmMsmMessage 1074"
    by (simp add: IsRtcmMsmMessage_def GetRtcmMsmConstellation_def IsRtcmMsmVariant_def)
  ultimately show ?thesis
    using rtcm_msm_summary_exact [OF type] masks cells by (auto simp: demo_rtcm_frame_def)
qed

end
