(* ===== verification/Session_Runner.thy ===== *)
theory Session_Runner
  imports Transport
begin

text \<open>
  \<open>ReceiverSessionRunner\<close> (gnss_driver/src/receiver_session_runner.cpp): reads a byte source chunk by chunk into a
  receiver session.  The session and the source are arguments: a session is a record of the four functions the
  runner calls, the source a read function as in \<open>MemoryByteSource_Read\<close>; the receipt timestamp is the value the
  configured provider (or the steady clock) gives for the step.
\<close>

section \<open>Model\<close>

record ReceiverSessionRunnerConfig =
  rc_read_chunk_size :: nat
  rc_finalize_session_on_end_of_stream :: bool
  rc_finalize_session_on_closed :: bool
  rc_finalize_session_on_error :: bool

record ReceiverSessionRunnerMetrics =
  rm_bytes_read :: u64
  rm_chunks_read :: u64
  rm_eof_seen :: bool
  rm_read_errors :: u64
  rm_runtime_updates_observed :: u64
  rm_last_status :: TransportStatus
  rm_last_error :: TransportError

definition ReceiverSessionRunnerMetrics_default :: ReceiverSessionRunnerMetrics where
  "ReceiverSessionRunnerMetrics_default =
     \<lparr>rm_bytes_read = 0, rm_chunks_read = 0, rm_eof_seen = False, rm_read_errors = 0, rm_runtime_updates_observed = 0,
      rm_last_status = TS_kOk, rm_last_error = TE_kNone\<rparr>"

datatype ReceiverSessionRunnerStepResult = SR_kData | SR_kIdle | SR_kTerminal

record 's session_ops =
  so_FeedBytes :: "'s \<Rightarrow> bytes \<Rightarrow> timestamp_ns \<Rightarrow> 's"
  so_Finalize :: "'s \<Rightarrow> 's"
  so_runtime_updates :: "'s \<Rightarrow> u64"

record ('k, 's) ReceiverSessionRunner =
  rn_source :: 'k
  rn_session :: 's
  rn_config :: ReceiverSessionRunnerConfig
  rn_metrics :: ReceiverSessionRunnerMetrics

definition NormalizeReadChunkSize :: "nat \<Rightarrow> nat" where
  "NormalizeReadChunkSize configured_size = max configured_size 1"

definition runner_new :: "'k \<Rightarrow> 's \<Rightarrow> ReceiverSessionRunnerConfig \<Rightarrow> ('k, 's) ReceiverSessionRunner" where
  "runner_new source session config =
     \<lparr>rn_source = source, rn_session = session,
      rn_config = config\<lparr>rc_read_chunk_size := NormalizeReadChunkSize (rc_read_chunk_size config)\<rparr>,
      rn_metrics = ReceiverSessionRunnerMetrics_default\<rparr>"

definition NoteRuntimeUpdateDelta :: "u64 \<Rightarrow> u64 \<Rightarrow> ReceiverSessionRunnerMetrics \<Rightarrow> ReceiverSessionRunnerMetrics" where
  "NoteRuntimeUpdateDelta after before m =
     (if after > before
      then m\<lparr>rm_runtime_updates_observed := rm_runtime_updates_observed m + (after - before)\<rparr> else m)"

definition FinalizeSessionForTerminalStatus ::
  "'s session_ops \<Rightarrow> TransportStatus \<Rightarrow> ('k, 's) ReceiverSessionRunner \<Rightarrow> ('k, 's) ReceiverSessionRunner" where
  "FinalizeSessionForTerminalStatus ops status r =
     (if status = TS_kEndOfStream \<and> rc_finalize_session_on_end_of_stream (rn_config r)
         \<or> status = TS_kClosed \<and> rc_finalize_session_on_closed (rn_config r)
         \<or> status = TS_kError \<and> rc_finalize_session_on_error (rn_config r)
      then
        let s1 = so_Finalize ops (rn_session r) in
        r\<lparr>rn_session := s1,
          rn_metrics := NoteRuntimeUpdateDelta (so_runtime_updates ops s1) (so_runtime_updates ops (rn_session r))
            (rn_metrics r)\<rparr>
      else r)"

definition StepOnceWithResult ::
  "('k \<Rightarrow> nat \<Rightarrow> 'k \<times> ReadResult \<times> bytes) \<Rightarrow> 's session_ops \<Rightarrow> ('k, 's) ReceiverSessionRunner \<Rightarrow> timestamp_ns
     \<Rightarrow> ('k, 's) ReceiverSessionRunner \<times> ReceiverSessionRunnerStepResult" where
  "StepOnceWithResult get ops r receipt_timestamp_ns =
     (let (k1, result, buffer) = get (rn_source r) (rc_read_chunk_size (rn_config r));
          m1 = (rn_metrics r)\<lparr>rm_last_status := rr_status result, rm_last_error := rr_error result\<rparr>;
          r1 = r\<lparr>rn_source := k1, rn_metrics := m1\<rparr> in
      if rr_status result = TS_kOk then
        if rr_bytes_read result = 0 then (r1, SR_kIdle)
        else
          let m2 = m1\<lparr>rm_chunks_read := rm_chunks_read m1 + 1, rm_bytes_read := rm_bytes_read m1 + of_nat (rr_bytes_read result)\<rparr>;
              s1 = so_FeedBytes ops (rn_session r) (take (rr_bytes_read result) buffer) receipt_timestamp_ns in
          (r1\<lparr>rn_session := s1,
              rn_metrics := NoteRuntimeUpdateDelta (so_runtime_updates ops s1) (so_runtime_updates ops (rn_session r)) m2\<rparr>,
           SR_kData)
      else
        let m2 = (if rr_status result = TS_kEndOfStream then m1\<lparr>rm_eof_seen := True\<rparr>
                  else if rr_status result = TS_kError then m1\<lparr>rm_read_errors := rm_read_errors m1 + 1\<rparr>
                  else m1) in
        (FinalizeSessionForTerminalStatus ops (rr_status result) (r1\<lparr>rn_metrics := m2\<rparr>), SR_kTerminal))"

definition StepOnce ::
  "('k \<Rightarrow> nat \<Rightarrow> 'k \<times> ReadResult \<times> bytes) \<Rightarrow> 's session_ops \<Rightarrow> ('k, 's) ReceiverSessionRunner \<Rightarrow> timestamp_ns
     \<Rightarrow> ('k, 's) ReceiverSessionRunner \<times> bool" where
  "StepOnce get ops r t = (let (r1, result) = StepOnceWithResult get ops r t in (r1, result = SR_kData))"

text \<open>The loop may run for ever; the timestamps of its steps are those of \<open>clock\<close>.\<close>

partial_function (option) RunUntilEof ::
  "('k \<Rightarrow> nat \<Rightarrow> 'k \<times> ReadResult \<times> bytes) \<Rightarrow> 's session_ops \<Rightarrow> (nat \<Rightarrow> timestamp_ns) \<Rightarrow> nat
     \<Rightarrow> ('k, 's) ReceiverSessionRunner \<Rightarrow> ('k, 's) ReceiverSessionRunner option" where
  "RunUntilEof get ops clock i r =
     (let (r1, go_on) = StepOnce get ops r (clock i) in
      if go_on then RunUntilEof get ops clock (i + 1) r1 else Some r1)"

section \<open>Running a memory source to its end\<close>

definition mem_get :: "MemoryByteSource \<Rightarrow> nat \<Rightarrow> MemoryByteSource \<times> ReadResult \<times> bytes" where
  "mem_get s n = MemoryByteSource_Read s False n"

definition ms_rest :: "MemoryByteSource \<Rightarrow> bytes" where
  "ms_rest s = drop (ms_read_offset s) (ms_input s)"

text \<open>The session after it was fed the chunks in order.\<close>

fun feed_reads :: "'s session_ops \<Rightarrow> (nat \<Rightarrow> timestamp_ns) \<Rightarrow> nat \<Rightarrow> 's \<Rightarrow> bytes list \<Rightarrow> 's" where
  "feed_reads ops clock i s [] = s"
| "feed_reads ops clock i s (c # cs) = feed_reads ops clock (i + 1) (so_FeedBytes ops s c (clock i)) cs"

text \<open>The input cut into chunks of \<open>n\<close> bytes, the last possibly shorter.\<close>

function chunks_of :: "nat \<Rightarrow> bytes \<Rightarrow> bytes list" where
  "chunks_of n bs = (if bs = [] \<or> n = 0 then [] else take n bs # chunks_of n (drop n bs))"
  by auto
termination by (relation "measure (\<lambda>(n, bs). length bs)") simp_all

declare chunks_of.simps [simp del]

lemma mem_step_data:
  assumes "ms_open s" and "ms_next_read_error s = TE_kNone" and "ms_rest s \<noteq> []" and "0 < n"
  shows "\<exists>s1 c. mem_get s n = (s1, \<lparr>rr_bytes_read = length c, rr_status = TS_kOk, rr_error = TE_kNone\<rparr>, c)
    \<and> c = take n (ms_rest s) \<and> c \<noteq> []
    \<and> ms_rest s1 = drop n (ms_rest s) \<and> ms_open s1 \<and> ms_next_read_error s1 = TE_kNone"
proof -
  from assms(3) have off: "ms_read_offset s < length (ms_input s)" by (simp add: ms_rest_def)
  then show ?thesis
    using assms
    by (auto simp: mem_get_def MemoryByteSource_Read_def Let_def ms_rest_def bslice_def min_def not_le add.commute)
qed

lemma mem_step_end:
  assumes "ms_open s" and "ms_next_read_error s = TE_kNone" and "ms_rest s = []" and "0 < n"
  shows "mem_get s n = (s, \<lparr>rr_bytes_read = 0, rr_status = TS_kEndOfStream, rr_error = TE_kNone\<rparr>, [])"
  using assms by (simp add: mem_get_def MemoryByteSource_Read_def Let_def ms_rest_def)

lemma RunUntilEof_memory:
  assumes "ms_open (rn_source r)" and "ms_next_read_error (rn_source r) = TE_kNone"
    and "0 < rc_read_chunk_size (rn_config r)"
  shows "\<exists>r1. RunUntilEof mem_get ops clock i r = Some r1
    \<and> (let cs = chunks_of (rc_read_chunk_size (rn_config r)) (ms_rest (rn_source r));
           s1 = feed_reads ops clock i (rn_session r) cs in
        rn_session r1 = (if rc_finalize_session_on_end_of_stream (rn_config r) then so_Finalize ops s1 else s1)
        \<and> rm_bytes_read (rn_metrics r1) = rm_bytes_read (rn_metrics r) + of_nat (length (ms_rest (rn_source r)))
        \<and> rm_chunks_read (rn_metrics r1) = rm_chunks_read (rn_metrics r) + of_nat (length cs)
        \<and> rm_eof_seen (rn_metrics r1))"
  using assms
proof (induction "length (ms_rest (rn_source r))" arbitrary: r i rule: less_induct)
  case less
  let ?n = "rc_read_chunk_size (rn_config r)"
  show ?case
  proof (cases "ms_rest (rn_source r) = []")
    case True
    from mem_step_end [OF less.prems(1,2) True less.prems(3)] True show ?thesis
      by (subst RunUntilEof.simps)
        (simp add: StepOnce_def StepOnceWithResult_def FinalizeSessionForTerminalStatus_def Let_def
          NoteRuntimeUpdateDelta_def chunks_of.simps)
  next
    case False
    from mem_step_data [OF less.prems(1,2) False less.prems(3)] obtain s1 c where
      get: "mem_get (rn_source r) ?n = (s1, \<lparr>rr_bytes_read = length c, rr_status = TS_kOk, rr_error = TE_kNone\<rparr>, c)"
      and c: "c = take ?n (ms_rest (rn_source r))" "c \<noteq> []"
      and s1: "ms_rest s1 = drop ?n (ms_rest (rn_source r))" "ms_open s1" "ms_next_read_error s1 = TE_kNone" by blast
    obtain r1 where step: "StepOnceWithResult mem_get ops r (clock i) = (r1, SR_kData)"
      and r1: "rn_source r1 = s1" "rn_config r1 = rn_config r"
      "rn_session r1 = so_FeedBytes ops (rn_session r) c (clock i)"
      "rm_bytes_read (rn_metrics r1) = rm_bytes_read (rn_metrics r) + of_nat (length c)"
      "rm_chunks_read (rn_metrics r1) = rm_chunks_read (rn_metrics r) + 1"
      using c(2) by (auto simp: StepOnceWithResult_def get Let_def NoteRuntimeUpdateDelta_def)
    have "length (ms_rest (rn_source r1)) < length (ms_rest (rn_source r))"
      using False less.prems(3) by (simp add: r1 s1)
    from less.hyps [OF this, of "i + 1"] less.prems(3) obtain r2 where
      "RunUntilEof mem_get ops clock (i + 1) r1 = Some r2"
      "let cs = chunks_of ?n (ms_rest s1); s2 = feed_reads ops clock (i + 1) (rn_session r1) cs in
        rn_session r2 = (if rc_finalize_session_on_end_of_stream (rn_config r) then so_Finalize ops s2 else s2)
        \<and> rm_bytes_read (rn_metrics r2) = rm_bytes_read (rn_metrics r1) + of_nat (length (ms_rest s1))
        \<and> rm_chunks_read (rn_metrics r2) = rm_chunks_read (rn_metrics r1) + of_nat (length cs)
        \<and> rm_eof_seen (rn_metrics r2)"
      using s1 by (auto simp: r1)
    moreover have "chunks_of ?n (ms_rest (rn_source r)) = c # chunks_of ?n (ms_rest s1)"
      using False less.prems(3) by (simp add: chunks_of.simps [of ?n "ms_rest (rn_source r)"] s1 c)
    moreover have "length (ms_rest (rn_source r)) = length c + length (ms_rest s1)" by (simp add: c s1)
    moreover have "RunUntilEof mem_get ops clock i r = RunUntilEof mem_get ops clock (i + 1) r1"
      by (subst RunUntilEof.simps) (simp add: StepOnce_def step)
    ultimately show ?thesis
      by (intro exI [of _ r2]) (simp add: r1 Let_def)
  qed
qed

lemma concat_chunks_of: "0 < n \<Longrightarrow> concat (chunks_of n bs) = bs \<and> (\<forall>c \<in> set (chunks_of n bs). c \<noteq> [] \<and> length c \<le> n)"
proof (induction n bs rule: chunks_of.induct)
  case (1 n bs)
  then show ?case by (cases "bs = []") (simp_all add: chunks_of.simps [of n bs] chunks_of.simps [of n "[]"])
qed

end
