(* ===== verification/Receiver_Supervisor.thy ===== *)
theory Receiver_Supervisor
  imports Session_Runner Rtcm_Frame_Writer Ntrip_Client
begin

text \<open>
  \<open>ReceiverSupervisor\<close> (gnss_runtime/src/receiver_supervisor.cpp): a receiver worker that opens, reads and reopens
  the receiver's transport, an NTRIP worker that forwards correction frames to the link that is active, and the
  thread that calls \<open>Start\<close> and \<open>Stop\<close>.

  Every critical section of the three mutexes is a definition on the state it protects; \<open>sup_reach\<close> runs the three
  threads, one section or one call at a time, in any order.  The transport, its factory and the receiver session are
  arguments.  \<open>Close\<close> is called without the writer's mutex, so a flush may lose its transport between any two writes:
  the sink a flush sees counts the writes after which that happens.  What \<open>RunNtrip\<close> does with its client decides
  only when it forwards, flushes and publishes the client's state; here it may do so at any time.
\<close>

section \<open>State\<close>

datatype ReceiverSupervisorLifecycle = SL_kStopped | SL_kStarting | SL_kConnected | SL_kReconnecting | SL_kStopping

record ('rs, 'sm) ReceiverSupervisorSnapshot =
  sn_lifecycle :: ReceiverSupervisorLifecycle
  sn_connected :: bool
  sn_reconnect_attempt_count :: u64
  sn_session_incarnation :: u64
  sn_runtime_state :: "'rs option"
  sn_session_metrics :: "'sm option"
  sn_runner_metrics :: "ReceiverSessionRunnerMetrics option"
  sn_last_terminal_error :: string
  sn_ntrip_enabled :: bool
  sn_ntrip_state :: NtripClientState
  sn_ntrip_metrics :: NtripConnectionMetrics
  sn_ntrip_correction_flow :: NtripCorrectionFlowState
  sn_ntrip_reconnect :: NtripReconnectState
  sn_forwarding_active :: bool
  sn_rtcm_forward_queue_depth :: nat
  sn_rtcm_forward_queue_overflows :: u64
  sn_rtcm_forwarded_frames :: u64
  sn_rtcm_forwarded_bytes :: u64
  sn_ntrip_last_error :: string

definition Snapshot_default :: "('rs, 'sm) ReceiverSupervisorSnapshot" where
  "Snapshot_default =
     \<lparr>sn_lifecycle = SL_kStopped, sn_connected = False, sn_reconnect_attempt_count = 0, sn_session_incarnation = 0,
      sn_runtime_state = None, sn_session_metrics = None, sn_runner_metrics = None, sn_last_terminal_error = [],
      sn_ntrip_enabled = False, sn_ntrip_state = NS_kDisconnected, sn_ntrip_metrics = NtripConnectionMetrics_default,
      sn_ntrip_correction_flow = NtripCorrectionFlowState_default, sn_ntrip_reconnect = NtripReconnectState_default,
      sn_forwarding_active = False, sn_rtcm_forward_queue_depth = 0, sn_rtcm_forward_queue_overflows = 0,
      sn_rtcm_forwarded_frames = 0, sn_rtcm_forwarded_bytes = 0, sn_ntrip_last_error = []\<rparr>"

record 'k ReceiverLink =
  rl_transport :: 'k
  rl_writer :: RtcmFrameWriter
  rl_incarnation :: u64

text \<open>What the supervisor is given: the transport's operations, the session's, and the backoff of its configuration
  in milliseconds.\<close>

record ('k, 's, 'rs, 'sm) supervisor_env =
  se_put :: "'k \<Rightarrow> bytes \<Rightarrow> 'k \<times> WriteResult"
  se_get :: "'k \<Rightarrow> nat \<Rightarrow> 'k \<times> ReadResult \<times> bytes"
  se_is_open :: "'k \<Rightarrow> bool"
  se_close :: "'k \<Rightarrow> 'k"
  se_session :: 's
  se_ops :: "'s session_ops"
  se_session_metrics :: "'s \<Rightarrow> 'sm"
  se_current_state :: "'s \<Rightarrow> 'rs"
  se_runner_config :: ReceiverSessionRunnerConfig
  se_initial_backoff :: int
  se_maximum_backoff :: int

text \<open>The constructor's normalisation of the configured backoff.\<close>

definition normalize_backoff ::
  "('k, 's, 'rs, 'sm) supervisor_env \<Rightarrow> ('k, 's, 'rs, 'sm) supervisor_env" where
  "normalize_backoff env =
     (let initial = max (se_initial_backoff env) 1 in
      env\<lparr>se_initial_backoff := initial, se_maximum_backoff := max (se_maximum_backoff env) initial\<rparr>)"

text \<open>Where the threads are.  A link is named by its place in the list of links published so far.\<close>

datatype ('k, 's) run_pc =
    R_Off
  | R_Open int
  | R_Factory int
  | R_Publish "('k, 's) ReceiverSessionRunner" u64
  | R_Loop nat "('k, 's) ReceiverSessionRunner"
  | R_Read nat "('k, 's) ReceiverSessionRunner"
  | R_Update nat "('k, 's) ReceiverSessionRunner" ReceiverSessionRunnerStepResult
  | R_Idle nat "('k, 's) ReceiverSessionRunner"
  | R_Leave nat "('k, 's) ReceiverSessionRunner" bool
  | R_Close nat "('k, 's) ReceiverSessionRunner" bool
  | R_Retire nat "('k, 's) ReceiverSessionRunner" bool
  | R_Abandon nat "('k, 's) ReceiverSessionRunner" bool
  | R_Retired "('k, 's) ReceiverSessionRunner" bool
  | R_Wait int
  | R_Final
  | R_Done

datatype ntrip_pc =
    N_Off
  | N_Run
  | N_Forward nat RtcmFrame
  | N_ForwardReport bool nat nat nat
  | N_Flush nat
  | N_FlushReport nat nat nat
  | N_Done

datatype stop_pc = C_Idle | C_Detach | C_Note "nat option" | C_Close nat | C_Abandon nat | C_Join

record ('k, 's, 'rs, 'sm) Supervisor =
  sv_stopping :: bool
  sv_snapshot :: "('rs, 'sm) ReceiverSupervisorSnapshot"
  sv_active :: "nat option"
  sv_links :: "'k ReceiverLink list"
  sv_run :: "('k, 's) run_pc"
  sv_ntrip :: ntrip_pc
  sv_stop :: stop_pc

definition Supervisor_new :: "('k, 's, 'rs, 'sm) Supervisor" where
  "Supervisor_new =
     \<lparr>sv_stopping = False, sv_snapshot = Snapshot_default, sv_active = None, sv_links = [], sv_run = R_Off,
      sv_ntrip = N_Off, sv_stop = C_Idle\<rparr>"

section \<open>Sections of the status mutex\<close>

definition status_name :: "TransportStatus \<Rightarrow> string" where
  "status_name status =
     (case status of
        TS_kOk \<Rightarrow> ''ok''
      | TS_kEndOfStream \<Rightarrow> ''end_of_stream''
      | TS_kClosed \<Rightarrow> ''closed''
      | TS_kError \<Rightarrow> ''error'')"

definition error_name :: "TransportError \<Rightarrow> string" where
  "error_name error =
     (case error of
        TE_kNone \<Rightarrow> ''none''
      | TE_kClosed \<Rightarrow> ''closed''
      | TE_kInvalidArgument \<Rightarrow> ''invalid_argument''
      | TE_kOverflow \<Rightarrow> ''overflow''
      | TE_kConnectFailure \<Rightarrow> ''connect_failure''
      | TE_kTimeout \<Rightarrow> ''timeout''
      | TE_kReadFailure \<Rightarrow> ''read_failure''
      | TE_kWriteFailure \<Rightarrow> ''write_failure''
      | TE_kUnsupported \<Rightarrow> ''unsupported''
      | TE_kUnknown \<Rightarrow> ''unknown''
      | TE_kTlsHandshakeFailure \<Rightarrow> ''tls_handshake_failure''
      | TE_kTlsVerificationFailure \<Rightarrow> ''tls_verification_failure'')"

definition client_error_name :: "NtripClientError \<Rightarrow> string" where
  "client_error_name error =
     (case error of
        NE_kNone \<Rightarrow> ''none''
      | NE_kConfiguration \<Rightarrow> ''configuration''
      | NE_kAuthentication \<Rightarrow> ''authentication''
      | NE_kHttp \<Rightarrow> ''http''
      | NE_kProtocol \<Rightarrow> ''protocol''
      | NE_kTimeout \<Rightarrow> ''timeout''
      | NE_kDisconnected \<Rightarrow> ''disconnected''
      | NE_kUnknown \<Rightarrow> ''unknown'')"

definition DescribeTerminalRead :: "ReceiverSessionRunnerMetrics \<Rightarrow> string" where
  "DescribeTerminalRead m = ''read:'' @ status_name (rm_last_status m) @ '':'' @ error_name (rm_last_error m)"

type_synonym ('rs, 'sm) snapshot = "('rs, 'sm) ReceiverSupervisorSnapshot"

definition note_started :: "('rs, 'sm) snapshot" where
  "note_started = Snapshot_default\<lparr>sn_lifecycle := SL_kStarting\<rparr>"

definition note_stopping :: "('rs, 'sm) snapshot \<Rightarrow> ('rs, 'sm) snapshot" where
  "note_stopping sn =
     (if sn_lifecycle sn \<noteq> SL_kStopped then sn\<lparr>sn_lifecycle := SL_kStopping\<rparr> else sn)
       \<lparr>sn_forwarding_active := False, sn_rtcm_forward_queue_depth := 0\<rparr>"

definition note_open_failed :: "('rs, 'sm) snapshot \<Rightarrow> ('rs, 'sm) snapshot" where
  "note_open_failed sn =
     sn\<lparr>sn_lifecycle := SL_kReconnecting, sn_connected := False, sn_runtime_state := None,
        sn_last_terminal_error := ''open:failed'',
        sn_reconnect_attempt_count := sn_reconnect_attempt_count sn + 1\<rparr>"

definition note_connected ::
  "'sm \<Rightarrow> ReceiverSessionRunnerMetrics \<Rightarrow> ('rs, 'sm) snapshot \<Rightarrow> ('rs, 'sm) snapshot" where
  "note_connected session_metrics runner_metrics sn =
     sn\<lparr>sn_session_incarnation := sn_session_incarnation sn + 1, sn_lifecycle := SL_kConnected, sn_connected := True,
        sn_runtime_state := None, sn_session_metrics := Some session_metrics, sn_runner_metrics := Some runner_metrics,
        sn_last_terminal_error := []\<rparr>"

definition Update ::
  "('k, 's, 'rs, 'sm) supervisor_env \<Rightarrow> ('k, 's) ReceiverSessionRunner \<Rightarrow> ('rs, 'sm) snapshot \<Rightarrow> ('rs, 'sm) snapshot" where
  "Update env r sn =
     (let session = rn_session r;
          sn1 = sn\<lparr>sn_session_metrics := Some (se_session_metrics env session), sn_runner_metrics := Some (rn_metrics r)\<rparr> in
      if so_runtime_updates (se_ops env) session \<noteq> 0
      then sn1\<lparr>sn_runtime_state := Some (se_current_state env session)\<rparr> else sn1)"

definition note_reconnecting ::
  "ReceiverSessionRunnerMetrics \<Rightarrow> ('rs, 'sm) snapshot \<Rightarrow> ('rs, 'sm) snapshot" where
  "note_reconnecting m sn =
     sn\<lparr>sn_lifecycle := SL_kReconnecting, sn_connected := False, sn_runtime_state := None,
        sn_last_terminal_error := DescribeTerminalRead m,
        sn_reconnect_attempt_count := sn_reconnect_attempt_count sn + 1,
        sn_forwarding_active := False, sn_rtcm_forward_queue_depth := 0\<rparr>"

definition note_final :: "('rs, 'sm) snapshot \<Rightarrow> ('rs, 'sm) snapshot" where
  "note_final sn =
     sn\<lparr>sn_lifecycle := SL_kStopped, sn_connected := False, sn_runtime_state := None, sn_forwarding_active := False,
        sn_rtcm_forward_queue_depth := 0\<rparr>"

definition UpdateNtrip :: "'c NtripClient \<Rightarrow> ('rs, 'sm) snapshot \<Rightarrow> ('rs, 'sm) snapshot" where
  "UpdateNtrip client sn =
     sn\<lparr>sn_ntrip_enabled := True, sn_ntrip_state := ntc_state client, sn_ntrip_metrics := ntc_metrics client,
        sn_ntrip_correction_flow := ntc_correction_flow_state client, sn_ntrip_reconnect := ntc_reconnect_state client,
        sn_ntrip_last_error := client_error_name (nm_last_error (ntc_metrics client))\<rparr>"

definition report_forward :: "bool \<Rightarrow> nat \<Rightarrow> nat \<Rightarrow> nat \<Rightarrow> ('rs, 'sm) snapshot \<Rightarrow> ('rs, 'sm) snapshot" where
  "report_forward overflow queue_depth bytes frames sn =
     (let sn1 = sn\<lparr>sn_rtcm_forward_queue_depth := queue_depth\<rparr> in
      if overflow then sn1\<lparr>sn_rtcm_forward_queue_overflows := sn_rtcm_forward_queue_overflows sn1 + 1\<rparr>
      else
        let sn2 = sn1\<lparr>sn_rtcm_forwarded_bytes := sn_rtcm_forwarded_bytes sn1 + word_of_nat bytes,
                      sn_rtcm_forwarded_frames := sn_rtcm_forwarded_frames sn1 + word_of_nat frames\<rparr> in
        if frames \<noteq> 0 then sn2\<lparr>sn_forwarding_active := True\<rparr> else sn2)"

definition report_flush :: "nat \<Rightarrow> nat \<Rightarrow> nat \<Rightarrow> ('rs, 'sm) snapshot \<Rightarrow> ('rs, 'sm) snapshot" where
  "report_flush queue_depth bytes frames sn =
     (let sn1 = sn\<lparr>sn_rtcm_forward_queue_depth := queue_depth,
                   sn_rtcm_forwarded_bytes := sn_rtcm_forwarded_bytes sn + word_of_nat bytes,
                   sn_rtcm_forwarded_frames := sn_rtcm_forwarded_frames sn + word_of_nat frames\<rparr> in
      if frames \<noteq> 0 then sn1\<lparr>sn_forwarding_active := True\<rparr> else sn1)"

section \<open>Sections of a link's writer mutex\<close>

text \<open>The sink of a flush: another thread may close the transport after a number of writes.\<close>

definition racing_put ::
  "('k, 's, 'rs, 'sm) supervisor_env \<Rightarrow> 'k \<times> nat option \<Rightarrow> bytes \<Rightarrow> ('k \<times> nat option) \<times> WriteResult" where
  "racing_put env kn bs =
     (let (k, n) = kn;
          k1 = (if n = Some 0 then se_close env k else k);
          (k2, w) = se_put env k1 bs in
      ((k2, map_option (\<lambda>i. i - 1) n), w))"

definition racing_open :: "('k, 's, 'rs, 'sm) supervisor_env \<Rightarrow> 'k \<times> nat option \<Rightarrow> bool" where
  "racing_open env kn = (case kn of (k, n) \<Rightarrow> se_is_open env k \<and> n \<noteq> Some 0)"

text \<open>The part of \<open>ForwardRtcm\<close> and \<open>FlushPendingRtcm\<close> that flushes: the link and the outcome's bytes and frames.\<close>

definition flush_link ::
  "('k, 's, 'rs, 'sm) supervisor_env \<Rightarrow> nat option \<Rightarrow> 'k ReceiverLink \<Rightarrow> 'k ReceiverLink \<times> nat \<times> nat" where
  "flush_link env n link =
     (let ((k, _), w, outcome) =
            writer_Flush (racing_open env) (racing_put env) (rl_transport link, n) (rl_writer link) in
      (link\<lparr>rl_writer := w,
            rl_transport := (if fo_result outcome = FR_kFailed then se_close env k else k)\<rparr>,
       fo_bytes_written outcome, fo_frames_written outcome))"

datatype forward_result = F_Return | F_Overflow nat | F_Flushed nat nat nat

definition forward_link ::
  "('k, 's, 'rs, 'sm) supervisor_env \<Rightarrow> nat option \<Rightarrow> RtcmFrame \<Rightarrow> 'k ReceiverLink \<Rightarrow> 'k ReceiverLink \<times> forward_result" where
  "forward_link env n frame link =
     (if \<not> se_is_open env (rl_transport link) then (link, F_Return)
      else
        (case writer_Enqueue (rl_writer link) \<lparr>wf_data = rtcm_raw_bytes frame, wf_message_type = rtcm_message_type frame\<rparr> of
           (w, False) \<Rightarrow> (link\<lparr>rl_writer := w\<rparr>, F_Overflow (length (rw_pending w)))
         | (w, True) \<Rightarrow>
             let (link1, bytes, frames) = flush_link env n (link\<lparr>rl_writer := w\<rparr>) in
             (link1, F_Flushed (length (rw_pending (rl_writer link1))) bytes frames)))"

definition flush_pending_link ::
  "('k, 's, 'rs, 'sm) supervisor_env \<Rightarrow> nat option \<Rightarrow> 'k ReceiverLink \<Rightarrow> 'k ReceiverLink \<times> forward_result" where
  "flush_pending_link env n link =
     (if rw_pending (rl_writer link) = [] \<or> \<not> se_is_open env (rl_transport link) then (link, F_Return)
      else
        let (link1, bytes, frames) = flush_link env n link in
        (link1, F_Flushed (length (rw_pending (rl_writer link1))) bytes frames))"

section \<open>The threads\<close>

text \<open>What a step may show: nothing, a new start, or a frame taken into a link's queue.\<close>

datatype step_label = L_Tau | L_Start | L_Accept nat RtcmFrame

text \<open>\<open>Run\<close>: the loop check, the factory, the connected section, publication, the read loop with its updates and idle
  waits, and the retirement of the link; \<open>Wait\<close> returns false exactly when \<open>stopping_\<close> is set.\<close>

definition next_delay :: "('k, 's, 'rs, 'sm) supervisor_env \<Rightarrow> int \<Rightarrow> int" where
  "next_delay env delay = min (se_maximum_backoff env) (delay * 2)"

definition runner_step ::
  "('k, 's, 'rs, 'sm) supervisor_env \<Rightarrow> 'k \<Rightarrow> ('k, 's) ReceiverSessionRunner \<Rightarrow> timestamp_ns
     \<Rightarrow> 'k \<times> ('k, 's) ReceiverSessionRunner \<times> ReceiverSessionRunnerStepResult" where
  "runner_step env k r t =
     (let (r1, result) = StepOnceWithResult (se_get env) (se_ops env) (r\<lparr>rn_source := k\<rparr>) t in
      (rn_source r1, r1, result))"

definition after_update :: "nat \<Rightarrow> ('k, 's) ReceiverSessionRunner \<Rightarrow> ReceiverSessionRunnerStepResult \<Rightarrow> ('k, 's) run_pc" where
  "after_update l r result =
     (case result of
        SR_kTerminal \<Rightarrow> R_Leave l r True
      | SR_kIdle \<Rightarrow> R_Idle l r
      | SR_kData \<Rightarrow> R_Loop l r)"

definition new_link :: "('k, 's) ReceiverSessionRunner \<Rightarrow> u64 \<Rightarrow> 'k ReceiverLink" where
  "new_link r incarnation = \<lparr>rl_transport = rn_source r, rl_writer = writer_new 50, rl_incarnation = incarnation\<rparr>"

type_synonym ('k, 's, 'rs, 'sm) supervisor = "('k, 's, 'rs, 'sm) Supervisor"

definition set_transport :: "nat \<Rightarrow> 'k \<Rightarrow> 'k ReceiverLink list \<Rightarrow> 'k ReceiverLink list" where
  "set_transport l k links = links[l := (links ! l)\<lparr>rl_transport := k\<rparr>]"

definition close_link ::
  "('k, 's, 'rs, 'sm) supervisor_env \<Rightarrow> nat \<Rightarrow> 'k ReceiverLink list \<Rightarrow> 'k ReceiverLink list" where
  "close_link env l links = set_transport l (se_close env (rl_transport (links ! l))) links"

definition abandon_link :: "nat \<Rightarrow> 'k ReceiverLink list \<Rightarrow> 'k ReceiverLink list" where
  "abandon_link l links = links[l := (links ! l)\<lparr>rl_writer := writer_Abandon (rl_writer (links ! l))\<rparr>]"

inductive run_step ::
  "('k, 's, 'rs, 'sm) supervisor_env \<Rightarrow> ('k \<Rightarrow> bytes) \<Rightarrow> ('k, 's, 'rs, 'sm) supervisor \<Rightarrow> ('k, 's, 'rs, 'sm) supervisor \<Rightarrow> bool"
  for env :: "('k, 's, 'rs, 'sm) supervisor_env" and sent :: "'k \<Rightarrow> bytes" where
  loop_head: "sv_run s = R_Open d \<Longrightarrow>
    run_step env sent s (s\<lparr>sv_run := (if sv_stopping s then R_Final else R_Factory d)\<rparr>)"
| open_failed: "sv_run s = R_Factory d \<Longrightarrow>
    run_step env sent s (s\<lparr>sv_run := R_Wait d, sv_snapshot := note_open_failed (sv_snapshot s)\<rparr>)"
| opened: "sv_run s = R_Factory d \<Longrightarrow> se_is_open env k \<Longrightarrow> sent k = [] \<Longrightarrow> r = runner_new k (se_session env) (se_runner_config env) \<Longrightarrow>
    run_step env sent s (s\<lparr>sv_run := R_Publish r (sn_session_incarnation (sv_snapshot s) + 1),
      sv_snapshot := note_connected (se_session_metrics env (se_session env)) (rn_metrics r) (sv_snapshot s)\<rparr>)"
| publish: "sv_run s = R_Publish r i \<Longrightarrow>
    run_step env sent s (s\<lparr>sv_run := R_Loop (length (sv_links s)) r, sv_links := sv_links s @ [new_link r i],
      sv_active := Some (length (sv_links s))\<rparr>)"
| loop_check: "sv_run s = R_Loop l r \<Longrightarrow>
    run_step env sent s (s\<lparr>sv_run := (if sv_stopping s then R_Leave l r False else R_Read l r)\<rparr>)"
| read: "sv_run s = R_Read l r \<Longrightarrow> runner_step env (rl_transport (sv_links s ! l)) r t = (k1, r1, result) \<Longrightarrow>
    run_step env sent s (s\<lparr>sv_run := R_Update l r1 result, sv_links := set_transport l k1 (sv_links s)\<rparr>)"
| update: "sv_run s = R_Update l r result \<Longrightarrow>
    run_step env sent s (s\<lparr>sv_run := after_update l r result, sv_snapshot := Update env r (sv_snapshot s)\<rparr>)"
| idle: "sv_run s = R_Idle l r \<Longrightarrow>
    run_step env sent s (s\<lparr>sv_run := (if sv_stopping s then R_Leave l r False else R_Loop l r)\<rparr>)"
| leave: "sv_run s = R_Leave l r terminal \<Longrightarrow>
    run_step env sent s (s\<lparr>sv_run := R_Close l r terminal, sv_snapshot := Update env r (sv_snapshot s)\<rparr>)"
| close: "sv_run s = R_Close l r terminal \<Longrightarrow>
    run_step env sent s (s\<lparr>sv_run := R_Retire l r terminal, sv_links := close_link env l (sv_links s)\<rparr>)"
| retire: "sv_run s = R_Retire l r terminal \<Longrightarrow>
    run_step env sent s (s\<lparr>sv_run := R_Abandon l r terminal,
      sv_active := (if sv_active s = Some l then None else sv_active s)\<rparr>)"
| abandon: "sv_run s = R_Abandon l r terminal \<Longrightarrow>
    run_step env sent s (s\<lparr>sv_run := R_Retired r terminal, sv_links := abandon_link l (sv_links s)\<rparr>)"
| leave_loop: "sv_run s = R_Retired r terminal \<Longrightarrow> sv_stopping s \<or> \<not> terminal \<Longrightarrow>
    run_step env sent s (s\<lparr>sv_run := R_Final\<rparr>)"
| reconnect: "sv_run s = R_Retired r True \<Longrightarrow> \<not> sv_stopping s \<Longrightarrow>
    run_step env sent s (s\<lparr>sv_run := R_Wait (se_initial_backoff env),
      sv_snapshot := note_reconnecting (rn_metrics r) (sv_snapshot s)\<rparr>)"
| wait: "sv_run s = R_Wait d \<Longrightarrow>
    run_step env sent s (s\<lparr>sv_run := (if sv_stopping s then R_Final else R_Open (next_delay env d))\<rparr>)"
| final: "sv_run s = R_Final \<Longrightarrow>
    run_step env sent s (s\<lparr>sv_run := R_Done, sv_snapshot := note_final (sv_snapshot s)\<rparr>)"

text \<open>\<open>ForwardRtcm\<close> and \<open>FlushPendingRtcm\<close>, three sections each, and the publication of the client's state.\<close>

definition forward_report :: "forward_result \<Rightarrow> ntrip_pc" where
  "forward_report result =
     (case result of
        F_Return \<Rightarrow> N_Run
      | F_Overflow depth \<Rightarrow> N_ForwardReport True depth 0 0
      | F_Flushed depth bytes frames \<Rightarrow> N_ForwardReport False depth bytes frames)"

definition flush_report :: "forward_result \<Rightarrow> ntrip_pc" where
  "flush_report result =
     (case result of
        F_Flushed depth bytes frames \<Rightarrow> N_FlushReport depth bytes frames
      | _ \<Rightarrow> N_Run)"

definition accept_label :: "nat \<Rightarrow> RtcmFrame \<Rightarrow> forward_result \<Rightarrow> step_label" where
  "accept_label l frame result = (case result of F_Flushed _ _ _ \<Rightarrow> L_Accept l frame | _ \<Rightarrow> L_Tau)"

inductive ntrip_step ::
  "('k, 's, 'rs, 'sm) supervisor_env \<Rightarrow> ('k, 's, 'rs, 'sm) supervisor \<Rightarrow> step_label \<Rightarrow> ('k, 's, 'rs, 'sm) supervisor \<Rightarrow> bool"
  for env :: "('k, 's, 'rs, 'sm) supervisor_env" where
  forward: "sv_ntrip s = N_Run \<Longrightarrow>
    ntrip_step env s L_Tau (s\<lparr>sv_ntrip := (case sv_active s of None \<Rightarrow> N_Run | Some l \<Rightarrow> N_Forward l frame)\<rparr>)"
| forward_write: "sv_ntrip s = N_Forward l frame \<Longrightarrow> forward_link env n frame (sv_links s ! l) = (link, result) \<Longrightarrow>
    ntrip_step env s (accept_label l frame result) (s\<lparr>sv_ntrip := forward_report result, sv_links := (sv_links s)[l := link]\<rparr>)"
| forward_note: "sv_ntrip s = N_ForwardReport overflow depth bytes frames \<Longrightarrow>
    ntrip_step env s L_Tau (s\<lparr>sv_ntrip := N_Run, sv_snapshot := report_forward overflow depth bytes frames (sv_snapshot s)\<rparr>)"
| flush: "sv_ntrip s = N_Run \<Longrightarrow>
    ntrip_step env s L_Tau (s\<lparr>sv_ntrip := (case sv_active s of None \<Rightarrow> N_Run | Some l \<Rightarrow> N_Flush l)\<rparr>)"
| flush_write: "sv_ntrip s = N_Flush l \<Longrightarrow> flush_pending_link env n (sv_links s ! l) = (link, result) \<Longrightarrow>
    ntrip_step env s L_Tau (s\<lparr>sv_ntrip := flush_report result, sv_links := (sv_links s)[l := link]\<rparr>)"
| flush_note: "sv_ntrip s = N_FlushReport depth bytes frames \<Longrightarrow>
    ntrip_step env s L_Tau (s\<lparr>sv_ntrip := N_Run, sv_snapshot := report_flush depth bytes frames (sv_snapshot s)\<rparr>)"
| client_state: "sv_ntrip s = N_Run \<Longrightarrow>
    ntrip_step env s L_Tau (s\<lparr>sv_snapshot := UpdateNtrip (client :: unit NtripClient) (sv_snapshot s)\<rparr>)"
| leave: "sv_ntrip s = N_Run \<Longrightarrow> sv_stopping s \<Longrightarrow> ntrip_step env s L_Tau (s\<lparr>sv_ntrip := N_Done\<rparr>)"

text \<open>\<open>Start\<close>, refused while a worker is joinable, and \<open>Stop\<close>.  The links of an earlier run are gone once both
  workers are joined.\<close>

inductive control_step ::
  "('k, 's, 'rs, 'sm) supervisor_env \<Rightarrow> ('k, 's, 'rs, 'sm) supervisor \<Rightarrow> step_label \<Rightarrow> ('k, 's, 'rs, 'sm) supervisor \<Rightarrow> bool"
  for env :: "('k, 's, 'rs, 'sm) supervisor_env" where
  start: "sv_stop s = C_Idle \<Longrightarrow> sv_run s = R_Off \<Longrightarrow> sv_ntrip s = N_Off \<Longrightarrow>
    control_step env s L_Start (s\<lparr>sv_stopping := False, sv_snapshot := note_started, sv_links := [],
      sv_run := R_Open (se_initial_backoff env), sv_ntrip := (if with_ntrip then N_Run else N_Off)\<rparr>)"
| stop: "sv_stop s = C_Idle \<Longrightarrow> control_step env s L_Tau (s\<lparr>sv_stopping := True, sv_stop := C_Detach\<rparr>)"
| detach: "sv_stop s = C_Detach \<Longrightarrow>
    control_step env s L_Tau (s\<lparr>sv_active := None, sv_stop := C_Note (sv_active s)\<rparr>)"
| note_stop: "sv_stop s = C_Note link \<Longrightarrow>
    control_step env s L_Tau (s\<lparr>sv_snapshot := note_stopping (sv_snapshot s),
      sv_stop := (case link of None \<Rightarrow> C_Join | Some l \<Rightarrow> C_Close l)\<rparr>)"
| close: "sv_stop s = C_Close l \<Longrightarrow>
    control_step env s L_Tau (s\<lparr>sv_links := close_link env l (sv_links s), sv_stop := C_Abandon l\<rparr>)"
| abandon: "sv_stop s = C_Abandon l \<Longrightarrow>
    control_step env s L_Tau (s\<lparr>sv_links := abandon_link l (sv_links s), sv_stop := C_Join\<rparr>)"
| join: "sv_stop s = C_Join \<Longrightarrow> sv_run s \<in> {R_Off, R_Done} \<Longrightarrow> sv_ntrip s \<in> {N_Off, N_Done} \<Longrightarrow>
    control_step env s L_Tau (s\<lparr>sv_run := R_Off, sv_ntrip := N_Off, sv_stop := C_Idle\<rparr>)"

text \<open>The three threads, in any order; beside the state, the frames taken into each link's queue.\<close>

definition observe :: "step_label \<Rightarrow> (nat \<Rightarrow> RtcmFrame list) \<Rightarrow> nat \<Rightarrow> RtcmFrame list" where
  "observe label taken =
     (case label of
        L_Tau \<Rightarrow> taken
      | L_Start \<Rightarrow> (\<lambda>l. [])
      | L_Accept l frame \<Rightarrow> taken(l := taken l @ [frame]))"

inductive sup_reach ::
  "('k, 's, 'rs, 'sm) supervisor_env \<Rightarrow> ('k \<Rightarrow> bytes) \<Rightarrow> ('k, 's, 'rs, 'sm) supervisor \<Rightarrow> (nat \<Rightarrow> RtcmFrame list) \<Rightarrow> bool"
  for env :: "('k, 's, 'rs, 'sm) supervisor_env" and sent :: "'k \<Rightarrow> bytes" where
  new: "sup_reach env sent Supervisor_new (\<lambda>l. [])"
| run: "sup_reach env sent s taken \<Longrightarrow> run_step env sent s s1 \<Longrightarrow> sup_reach env sent s1 taken"
| ntrip: "sup_reach env sent s taken \<Longrightarrow> ntrip_step env s label s1 \<Longrightarrow> sup_reach env sent s1 (observe label taken)"
| control: "sup_reach env sent s taken \<Longrightarrow> control_step env s label s1 \<Longrightarrow> sup_reach env sent s1 (observe label taken)"

end
