(* ===== verification/Supervisor_Safety.thy ===== *)
theory Supervisor_Safety
  imports Receiver_Supervisor
begin

text \<open>
  The receiver supervisor keeps its promises whatever the order of its threads: the correction bytes of every link are
  whole frames, a link that is given up is closed and empty, and the status after the worker has ended.  The transport
  is the locale \<open>supervised_transport\<close>, interpreted on \<open>MemoryByteDuplex\<close>.
\<close>

section \<open>The interface of the transport\<close>

text \<open>What the supervisor needs of a transport: it is a sink, reading sends nothing, closing sends nothing, and what
  is closed stays closed.\<close>

locale supervised_transport = byte_sink put sent
  for put :: "'k \<Rightarrow> bytes \<Rightarrow> 'k \<times> WriteResult" and sent :: "'k \<Rightarrow> bytes" +
  fixes env :: "('k, 's, 'rs, 'sm) supervisor_env"
  assumes env_put: "se_put env = put"
    and get_sent: "sent (fst (se_get env k n)) = sent k"
    and get_closed: "\<not> se_is_open env k \<Longrightarrow> \<not> se_is_open env (fst (se_get env k n))"
    and close_sent: "sent (se_close env k) = sent k"
    and close_closed: "\<not> se_is_open env (se_close env k)"
begin

lemma racing_sink: "byte_sink (racing_put env) (\<lambda>(k, n). sent k)"
proof
  fix kn :: "'k \<times> nat option" and bs
  obtain k n where kn: "kn = (k, n)" by fastforce
  let ?k1 = "if n = Some 0 then se_close env k else k"
  obtain k2 w where put: "put ?k1 bs = (k2, w)" by fastforce
  have r: "racing_put env kn bs = ((k2, map_option (\<lambda>i. i - 1) n), w)"
    using put by (auto simp: racing_put_def kn env_put Let_def split: if_splits)
  show "wr_bytes_written (snd (racing_put env kn bs)) \<le> length bs"
    using put_bound [of ?k1 bs] by (simp add: r put)
  show "(case fst (racing_put env kn bs) of (k, n) \<Rightarrow> sent k)
      = (case kn of (k, n) \<Rightarrow> sent k) @ take (wr_bytes_written (snd (racing_put env kn bs))) bs"
    using put_sent [of ?k1 bs] unfolding r by (auto simp: put kn close_sent split: if_splits)
qed

end

sublocale supervised_transport \<subseteq> race: byte_sink "racing_put env" "\<lambda>(k, n). sent k"
  by (rule racing_sink)

section \<open>Links\<close>

text \<open>The frames of a link as bytes, and what holds of a link all the time: what it has sent is a prefix of the frames
  taken, whole and in order; while the transport is open the rest is in the queue.\<close>

definition frames_bytes :: "RtcmFrame list \<Rightarrow> bytes" where
  "frames_bytes fs = concat (map rtcm_raw_bytes fs)"

lemma frames_bytes_snoc [simp]: "frames_bytes (fs @ [f]) = frames_bytes fs @ rtcm_raw_bytes f"
  by (simp add: frames_bytes_def)

definition link_ok :: "('k, 's, 'rs, 'sm) supervisor_env \<Rightarrow> ('k \<Rightarrow> bytes) \<Rightarrow> 'k ReceiverLink \<Rightarrow> RtcmFrame list \<Rightarrow> bool" where
  "link_ok env sent link fs \<longleftrightarrow>
     writer_inv (rl_writer link) \<and> rw_capacity (rl_writer link) = 50
     \<and> prefix (sent (rl_transport link)) (frames_bytes fs)
     \<and> (se_is_open env (rl_transport link) \<longrightarrow>
          sent (rl_transport link) @ pending_bytes (rw_pending (rl_writer link)) = frames_bytes fs)"

definition retired :: "('k, 's, 'rs, 'sm) supervisor_env \<Rightarrow> 'k ReceiverLink \<Rightarrow> bool" where
  "retired env link \<longleftrightarrow> \<not> se_is_open env (rl_transport link) \<and> rw_pending (rl_writer link) = []"

context supervised_transport begin

lemma flush_link_ok:
  assumes "writer_inv (rl_writer link)" and "rw_capacity (rl_writer link) = 50"
    and "sent (rl_transport link) @ pending_bytes (rw_pending (rl_writer link)) = frames_bytes fs"
    and "flush_link env n link = (link1, bytes, frames)"
  shows "link_ok env sent link1 fs \<and> length (sent (rl_transport link1)) = length (sent (rl_transport link)) + bytes"
proof -
  obtain k m w outcome where f: "writer_Flush (racing_open env) (racing_put env) (rl_transport link, n) (rl_writer link)
      = ((k, m), w, outcome)" by (metis prod_cases3 surj_pair)
  from race.flush_conserves [OF assms(1), where is_open = "racing_open env" and k = "(rl_transport link, n)", unfolded f] obtain lost where
    lost: "sent k @ pending_bytes (rw_pending w) @ lost = frames_bytes fs"
    "fo_result outcome = FR_kFailed \<and> rw_pending w = [] \<or> fo_result outcome \<noteq> FR_kFailed \<and> lost = []"
    and w: "writer_inv w" "rw_capacity w = 50" "fo_bytes_written outcome + length (sent (rl_transport link)) = length (sent k)"
    using assms(2,3) by auto
  have link1: "link1 = link\<lparr>rl_writer := w, rl_transport := (if fo_result outcome = FR_kFailed then se_close env k else k)\<rparr>"
    "bytes = fo_bytes_written outcome"
    using assms(4) by (auto simp: flush_link_def f)
  have "prefix (sent k) (frames_bytes fs)" using lost(1) by (metis prefixI)
  with lost w show ?thesis by (auto simp: link_ok_def link1 close_sent close_closed)
qed

lemma forward_link_ok:
  assumes "link_ok env sent link fs" and "forward_link env n frame link = (link1, result)"
  shows "link_ok env sent link1 (case result of F_Flushed _ _ _ \<Rightarrow> fs @ [frame] | _ \<Rightarrow> fs)
    \<and> length (sent (rl_transport link1)) = length (sent (rl_transport link))
        + (case result of F_Flushed _ bytes _ \<Rightarrow> bytes | _ \<Rightarrow> 0)
    \<and> (\<not> se_is_open env (rl_transport link) \<longrightarrow> link1 = link \<and> result = F_Return)"
proof (cases "se_is_open env (rl_transport link)")
  case False
  with assms show ?thesis by (auto simp: forward_link_def)
next
  case True
  let ?f = "\<lparr>wf_data = rtcm_raw_bytes frame, wf_message_type = rtcm_message_type frame\<rparr>"
  obtain w ok where q: "writer_Enqueue (rl_writer link) ?f = (w, ok)" by fastforce
  from assms(1) have inv: "writer_inv (rl_writer link)" "rw_capacity (rl_writer link) = 50"
    "sent (rl_transport link) @ pending_bytes (rw_pending (rl_writer link)) = frames_bytes fs"
    using True by (simp_all add: link_ok_def)
  have w: "writer_inv w" "rw_capacity w = 50"
    "pending_bytes (rw_pending w) = pending_bytes (rw_pending (rl_writer link)) @ (if ok then rtcm_raw_bytes frame else [])"
    using writer_inv_Enqueue [OF inv(1), of ?f] pending_Enqueue [of "rl_writer link" ?f] q inv(2)
    by (auto simp: writer_Enqueue_def split: if_splits)
  show ?thesis
  proof (cases ok)
    case False
    with q True assms(2) have "link1 = link\<lparr>rl_writer := w\<rparr>" "result = F_Overflow (length (rw_pending w))"
      by (auto simp: forward_link_def)
    with w inv assms(1) False True show ?thesis by (simp add: link_ok_def)
  next
    case ok: True
    obtain link2 bytes frames where fl: "flush_link env n (link\<lparr>rl_writer := w\<rparr>) = (link2, bytes, frames)"
      by (metis prod_cases3)
    with q True assms(2) ok have "link1 = link2" "result = F_Flushed (length (rw_pending (rl_writer link2))) bytes frames"
      by (auto simp: forward_link_def)
    moreover have "sent (rl_transport link) @ pending_bytes (rw_pending w) = frames_bytes (fs @ [frame])"
      using w(3) inv(3) ok by simp
    ultimately show ?thesis
      using flush_link_ok [of "link\<lparr>rl_writer := w\<rparr>" "fs @ [frame]" n link2 bytes frames] w fl True by simp
  qed
qed

lemma flush_pending_link_ok:
  assumes "link_ok env sent link fs" and "flush_pending_link env n link = (link1, result)"
  shows "link_ok env sent link1 fs
    \<and> length (sent (rl_transport link1)) = length (sent (rl_transport link))
        + (case result of F_Flushed _ bytes _ \<Rightarrow> bytes | _ \<Rightarrow> 0)
    \<and> (\<not> se_is_open env (rl_transport link) \<longrightarrow> link1 = link \<and> result = F_Return)"
proof (cases "rw_pending (rl_writer link) = [] \<or> \<not> se_is_open env (rl_transport link)")
  case True
  with assms show ?thesis by (auto simp: flush_pending_link_def)
next
  case False
  obtain link2 bytes frames where fl: "flush_link env n link = (link2, bytes, frames)" by (metis prod_cases3)
  with False assms(2) have "link1 = link2" "result = F_Flushed (length (rw_pending (rl_writer link2))) bytes frames"
    by (auto simp: flush_pending_link_def)
  with flush_link_ok [of link fs n link2 bytes frames] assms(1) fl False show ?thesis by (simp add: link_ok_def)
qed

end

section \<open>The invariant\<close>

text \<open>The link the receiver worker has in hand, and whether it may still be the active one or is closed already.\<close>

fun held :: "('k, 's) run_pc \<Rightarrow> nat option" where
  "held (R_Loop l r) = Some l"
| "held (R_Read l r) = Some l"
| "held (R_Update l r result) = Some l"
| "held (R_Idle l r) = Some l"
| "held (R_Leave l r terminal) = Some l"
| "held (R_Close l r terminal) = Some l"
| "held (R_Retire l r terminal) = Some l"
| "held (R_Abandon l r terminal) = Some l"
| "held _ = None"

fun attached :: "('k, 's) run_pc \<Rightarrow> nat option" where
  "attached (R_Abandon l r terminal) = None"
| "attached pc = held pc"

fun down :: "('k, 's) run_pc \<Rightarrow> nat option" where
  "down (R_Retire l r terminal) = Some l"
| "down (R_Abandon l r terminal) = Some l"
| "down _ = None"

fun stop_link :: "stop_pc \<Rightarrow> nat option" where
  "stop_link (C_Note link) = link"
| "stop_link (C_Close l) = Some l"
| "stop_link (C_Abandon l) = Some l"
| "stop_link _ = None"

fun ntrip_link :: "ntrip_pc \<Rightarrow> nat option" where
  "ntrip_link (N_Forward l frame) = Some l"
| "ntrip_link (N_Flush l) = Some l"
| "ntrip_link _ = None"

fun bytes_in_flight :: "ntrip_pc \<Rightarrow> nat" where
  "bytes_in_flight (N_ForwardReport overflow depth bytes frames) = (if overflow then 0 else bytes)"
| "bytes_in_flight (N_FlushReport depth bytes frames) = bytes"
| "bytes_in_flight _ = 0"

definition links_ok ::
  "('k, 's, 'rs, 'sm) supervisor_env \<Rightarrow> ('k \<Rightarrow> bytes) \<Rightarrow> 'k ReceiverLink list \<Rightarrow> (nat \<Rightarrow> RtcmFrame list) \<Rightarrow> bool" where
  "links_ok env sent links taken \<longleftrightarrow>
     (\<forall>l. if l < length links then link_ok env sent (links ! l) (taken l) else taken l = [])"

definition places_ok ::
  "('k, 's, 'rs, 'sm) supervisor_env \<Rightarrow> 'k ReceiverLink list \<Rightarrow> nat option \<Rightarrow> ('k, 's) run_pc \<Rightarrow> ntrip_pc \<Rightarrow> stop_pc \<Rightarrow> bool" where
  "places_ok env links active run ntrip stop \<longleftrightarrow>
     (\<forall>l. active = Some l \<longrightarrow> attached run = Some l)
     \<and> (\<forall>l. held run = Some l \<longrightarrow> Suc l = length links)
     \<and> (\<forall>l < length links. held run \<noteq> Some l \<longrightarrow> retired env (links ! l))
     \<and> (\<forall>l. down run = Some l \<longrightarrow> \<not> se_is_open env (rl_transport (links ! l)))
     \<and> (\<forall>l. stop_link stop = Some l \<longrightarrow> l < length links)
     \<and> (\<forall>l. stop = C_Abandon l \<longrightarrow> \<not> se_is_open env (rl_transport (links ! l)))
     \<and> (\<forall>l. ntrip_link ntrip = Some l \<longrightarrow> l < length links)"

definition total_sent :: "('k \<Rightarrow> bytes) \<Rightarrow> 'k ReceiverLink list \<Rightarrow> nat" where
  "total_sent sent links = sum_list (map (\<lambda>link. length (sent (rl_transport link))) links)"

definition status_ok :: "('k \<Rightarrow> bytes) \<Rightarrow> ('k, 's, 'rs, 'sm) supervisor \<Rightarrow> bool" where
  "status_ok sent s \<longleftrightarrow>
     (sv_run s \<in> {R_Off, R_Done} \<longrightarrow>
        sn_lifecycle (sv_snapshot s) = SL_kStopped \<and> \<not> sn_connected (sv_snapshot s)
        \<and> sn_runtime_state (sv_snapshot s) = None)
     \<and> (\<forall>r i. sv_run s = R_Publish r i \<longrightarrow> sent (rn_source r) = [])
     \<and> sn_rtcm_forwarded_bytes (sv_snapshot s) + word_of_nat (bytes_in_flight (sv_ntrip s))
         = word_of_nat (total_sent sent (sv_links s))"

definition sup_ok ::
  "('k, 's, 'rs, 'sm) supervisor_env \<Rightarrow> ('k \<Rightarrow> bytes) \<Rightarrow> ('k, 's, 'rs, 'sm) supervisor \<Rightarrow> (nat \<Rightarrow> RtcmFrame list) \<Rightarrow> bool" where
  "sup_ok env sent s taken \<longleftrightarrow>
     links_ok env sent (sv_links s) taken
     \<and> places_ok env (sv_links s) (sv_active s) (sv_run s) (sv_ntrip s) (sv_stop s)
     \<and> status_ok sent s"

text \<open>A change of one link that opens nothing and fills no queue of a closed link.\<close>

definition evolves :: "('k, 's, 'rs, 'sm) supervisor_env \<Rightarrow> 'k ReceiverLink \<Rightarrow> 'k ReceiverLink \<Rightarrow> bool" where
  "evolves env link link1 \<longleftrightarrow>
     (\<not> se_is_open env (rl_transport link) \<longrightarrow>
        \<not> se_is_open env (rl_transport link1)
        \<and> (rw_pending (rl_writer link) = [] \<longrightarrow> rw_pending (rl_writer link1) = []))"

lemma links_ok_update:
  assumes "links_ok env sent links taken" and "link_ok env sent link (taken1 l)" and "l < length links"
    and "\<And>j. j \<noteq> l \<Longrightarrow> taken1 j = taken j"
  shows "links_ok env sent (links[l := link]) taken1"
  using assms by (auto simp: links_ok_def nth_list_update)

lemma retired_evolves: "\<lbrakk>retired env link; evolves env link link1\<rbrakk> \<Longrightarrow> retired env link1"
  by (simp add: retired_def evolves_def)

lemma places_ok_update:
  assumes "places_ok env links active run ntrip stop" and "evolves env (links ! l) link"
  shows "places_ok env (links[l := link]) active run ntrip stop"
proof (cases "l < length links")
  case True
  have upd: "links[l := link] ! j = (if j = l then link else links ! j)" for j
    using True by (auto simp: nth_list_update)
  with assms retired_evolves [of env "links ! l" link] show ?thesis
    by (auto simp: places_ok_def evolves_def)
next
  case False
  with assms(1) show ?thesis by (simp add: not_less list_update_beyond)
qed

lemma total_sent_update:
  "l < length links \<Longrightarrow> length (sent (rl_transport link)) = length (sent (rl_transport (links ! l))) + n \<Longrightarrow>
     total_sent sent (links[l := link]) = total_sent sent links + n"
proof -
  assume l: "l < length links" and n: "length (sent (rl_transport link)) = length (sent (rl_transport (links ! l))) + n"
  let ?f = "\<lambda>link. length (sent (rl_transport link))"
  have "?f (links ! l) \<le> sum_list (map ?f links)" using l by (intro member_le_sum_list) auto
  moreover have "sum_list ((map ?f links)[l := ?f link]) = sum_list (map ?f links) + ?f link - map ?f links ! l"
    using l by (intro sum_list_update) simp
  ultimately show ?thesis using l n by (simp add: total_sent_def map_update)
qed

context supervised_transport begin

lemma set_transport_ok:
  assumes "link_ok env sent link fs" and "sent k = sent (rl_transport link)"
    and "\<not> se_is_open env (rl_transport link) \<Longrightarrow> \<not> se_is_open env k"
  shows "link_ok env sent (link\<lparr>rl_transport := k\<rparr>) fs \<and> evolves env link (link\<lparr>rl_transport := k\<rparr>)"
  using assms by (auto simp: link_ok_def evolves_def)

lemma abandon_ok:
  assumes "link_ok env sent link fs" and "\<not> se_is_open env (rl_transport link)"
  shows "link_ok env sent (link\<lparr>rl_writer := writer_Abandon (rl_writer link)\<rparr>) fs
    \<and> evolves env link (link\<lparr>rl_writer := writer_Abandon (rl_writer link)\<rparr>)
    \<and> retired env (link\<lparr>rl_writer := writer_Abandon (rl_writer link)\<rparr>)"
  using assms by (auto simp: link_ok_def evolves_def retired_def writer_Abandon_def writer_inv_def)

lemma runner_step_transport:
  "runner_step env k r t = (k1, r1, result) \<Longrightarrow>
     sent k1 = sent k \<and> (\<not> se_is_open env k \<longrightarrow> \<not> se_is_open env k1)"
proof -
  assume "runner_step env k r t = (k1, r1, result)"
  then have "k1 = fst (se_get env k (rc_read_chunk_size (rn_config r)))"
    by (auto simp: runner_step_def StepOnceWithResult_def FinalizeSessionForTerminalStatus_def Let_def
        split: prod.splits if_splits)
  then show ?thesis using get_sent get_closed by simp
qed

text \<open>One link changes its transport, or its whole state, in a state with the invariant.\<close>

lemma sup_ok_transport:
  assumes "sup_ok env sent s taken" and "l < length (sv_links s)" and "sent k = sent (rl_transport (sv_links s ! l))"
    and "\<not> se_is_open env (rl_transport (sv_links s ! l)) \<Longrightarrow> \<not> se_is_open env k"
  shows "sup_ok env sent (s\<lparr>sv_links := set_transport l k (sv_links s)\<rparr>) taken"
proof -
  have "link_ok env sent (sv_links s ! l) (taken l)" using assms(1,2) by (simp add: sup_ok_def links_ok_def)
  from set_transport_ok [OF this assms(3,4)] assms(1-3) show ?thesis
    using total_sent_update [of l "sv_links s" sent "(sv_links s ! l)\<lparr>rl_transport := k\<rparr>" 0]
    by (auto simp: sup_ok_def set_transport_def status_ok_def intro: links_ok_update places_ok_update)
qed

lemma sup_ok_close:
  "\<lbrakk>sup_ok env sent s taken; l < length (sv_links s)\<rbrakk> \<Longrightarrow>
     sup_ok env sent (s\<lparr>sv_links := close_link env l (sv_links s)\<rparr>) taken
     \<and> \<not> se_is_open env (rl_transport (close_link env l (sv_links s) ! l))"
  unfolding close_link_def using sup_ok_transport [of s taken l "se_close env (rl_transport (sv_links s ! l))"]
  by (simp add: close_sent close_closed set_transport_def)

lemma sup_ok_abandon:
  assumes "sup_ok env sent s taken" and "l < length (sv_links s)" and "\<not> se_is_open env (rl_transport (sv_links s ! l))"
  shows "sup_ok env sent (s\<lparr>sv_links := abandon_link l (sv_links s)\<rparr>) taken
    \<and> retired env (abandon_link l (sv_links s) ! l)"
proof -
  have "link_ok env sent (sv_links s ! l) (taken l)" using assms(1,2) by (simp add: sup_ok_def links_ok_def)
  from abandon_ok [OF this assms(3)] assms(1,2) show ?thesis
    using total_sent_update [of l "sv_links s" sent "(sv_links s ! l)\<lparr>rl_writer := writer_Abandon (rl_writer (sv_links s ! l))\<rparr>" 0]
    by (auto simp: sup_ok_def abandon_link_def status_ok_def intro: links_ok_update places_ok_update)
qed

end

section \<open>Every step keeps the invariant\<close>

context supervised_transport begin

lemma run_step_ok:
  assumes "run_step env sent s s1" and "sup_ok env sent s taken"
  shows "sup_ok env sent s1 taken"
  using assms
proof (induction rule: run_step.induct)
  case (loop_head s d)
  then show ?case by (auto simp: sup_ok_def places_ok_def status_ok_def)
next
  case (open_failed s d)
  then show ?case by (auto simp: sup_ok_def places_ok_def status_ok_def note_open_failed_def)
next
  case (opened s d k r)
  then show ?case by (auto simp: sup_ok_def places_ok_def status_ok_def note_connected_def runner_new_def)
next
  case (publish s r i)
  then have "link_ok env sent (new_link r i) (taken (length (sv_links s)))"
    by (auto simp: sup_ok_def links_ok_def status_ok_def link_ok_def new_link_def writer_inv_new)
      (simp_all add: writer_new_def pending_bytes_def frames_bytes_def)
  with publish show ?case
    by (auto simp: sup_ok_def links_ok_def places_ok_def status_ok_def total_sent_def new_link_def nth_append less_Suc_eq)
next
  case (loop_check s l r)
  then show ?case by (auto simp: sup_ok_def places_ok_def status_ok_def)
next
  case (read s l r t k1 r1 result)
  then have l: "l < length (sv_links s)" by (auto simp: sup_ok_def places_ok_def)
  from sup_ok_transport [OF read.prems l, of k1] runner_step_transport [OF read.hyps(2)] read.hyps(1)
  show ?case by (auto simp: sup_ok_def places_ok_def status_ok_def)
next
  case (update s l r result)
  then show ?case by (cases result) (auto simp: sup_ok_def places_ok_def status_ok_def Update_def after_update_def Let_def)
next
  case (idle s l r)
  then show ?case by (auto simp: sup_ok_def places_ok_def status_ok_def)
next
  case (leave s l r terminal)
  then show ?case by (auto simp: sup_ok_def places_ok_def status_ok_def Update_def Let_def)
next
  case (close s l r terminal)
  then have l: "l < length (sv_links s)" by (auto simp: sup_ok_def places_ok_def)
  from sup_ok_close [OF close.prems l] close.hyps show ?case by (auto simp: sup_ok_def places_ok_def status_ok_def)
next
  case (retire s l r terminal)
  then show ?case by (cases "sv_active s") (auto simp: sup_ok_def places_ok_def status_ok_def)
next
  case (abandon s l r terminal)
  then have l: "l < length (sv_links s)" "\<not> se_is_open env (rl_transport (sv_links s ! l))"
    by (auto simp: sup_ok_def places_ok_def)
  from sup_ok_abandon [OF abandon.prems l] abandon.hyps show ?case
    by (auto simp: sup_ok_def places_ok_def status_ok_def)
next
  case (leave_loop s r terminal)
  then show ?case by (auto simp: sup_ok_def places_ok_def status_ok_def)
next
  case (reconnect s r)
  then show ?case by (auto simp: sup_ok_def places_ok_def status_ok_def note_reconnecting_def)
next
  case (wait s d)
  then show ?case by (auto simp: sup_ok_def places_ok_def status_ok_def)
next
  case (final s)
  then show ?case by (auto simp: sup_ok_def places_ok_def status_ok_def note_final_def)
qed

lemma attached_held: "attached pc = Some l \<Longrightarrow> held pc = Some l"
  by (cases pc) simp_all

lemma active_link: "\<lbrakk>sup_ok env sent s taken; sv_active s = Some l\<rbrakk> \<Longrightarrow> l < length (sv_links s)"
  by (auto simp: sup_ok_def places_ok_def dest: attached_held)

text \<open>A section of the NTRIP worker on one link.\<close>

lemma sup_ok_link:
  assumes "sup_ok env sent s taken" and "l < length (sv_links s)" and "link_ok env sent link (taken1 l)"
    and "\<And>j. j \<noteq> l \<Longrightarrow> taken1 j = taken j" and "bytes_in_flight (sv_ntrip s) = 0" and "ntrip_link pc = None"
    and "length (sent (rl_transport link)) = length (sent (rl_transport (sv_links s ! l))) + bytes_in_flight pc"
    and "\<not> se_is_open env (rl_transport (sv_links s ! l)) \<Longrightarrow> link = sv_links s ! l"
  shows "sup_ok env sent (s\<lparr>sv_ntrip := pc, sv_links := (sv_links s)[l := link]\<rparr>) taken1"
proof -
  have "evolves env (sv_links s ! l) link" using assms(8) by (auto simp: evolves_def)
  from assms(1) have "places_ok env (sv_links s) (sv_active s) (sv_run s) (sv_ntrip s) (sv_stop s)" by (simp add: sup_ok_def)
  from places_ok_update [OF this \<open>evolves _ _ _\<close>] assms(6)
  have "places_ok env ((sv_links s)[l := link]) (sv_active s) (sv_run s) pc (sv_stop s)" by (simp add: places_ok_def)
  moreover have "links_ok env sent ((sv_links s)[l := link]) taken1"
    using assms(1-4) by (intro links_ok_update) (simp_all add: sup_ok_def)
  moreover from total_sent_update [OF assms(2,7)]
  have "total_sent sent ((sv_links s)[l := link]) = total_sent sent (sv_links s) + bytes_in_flight pc" .
  ultimately show ?thesis using assms(1,5) by (simp add: sup_ok_def status_ok_def)
qed

lemma ntrip_step_ok:
  assumes "ntrip_step env s label s1" and "sup_ok env sent s taken"
  shows "sup_ok env sent s1 (observe label taken)"
  using assms
proof (induction rule: ntrip_step.induct)
  case (forward s frame)
  note l = active_link [OF forward.prems]
  from forward show ?case
    by (cases "sv_active s") (use l in \<open>auto simp: sup_ok_def places_ok_def status_ok_def observe_def\<close>)
next
  case (forward_write s l frame n link result)
  then have l: "l < length (sv_links s)" by (auto simp: sup_ok_def places_ok_def)
  with forward_write.prems have "link_ok env sent (sv_links s ! l) (taken l)" by (simp add: sup_ok_def links_ok_def)
  from forward_link_ok [OF this forward_write.hyps(2)] show ?case
    using forward_write.hyps(1)
    by (intro sup_ok_link [OF forward_write.prems l])
      (auto simp: observe_def accept_label_def forward_report_def split: forward_result.splits)
next
  case (forward_note s overflow depth bytes frames)
  then show ?case
    by (auto simp: sup_ok_def places_ok_def status_ok_def observe_def report_forward_def Let_def algebra_simps)
next
  case (flush s)
  note l = active_link [OF flush.prems]
  from flush show ?case
    by (cases "sv_active s") (use l in \<open>auto simp: sup_ok_def places_ok_def status_ok_def observe_def\<close>)
next
  case (flush_write s l n link result)
  then have l: "l < length (sv_links s)" by (auto simp: sup_ok_def places_ok_def)
  with flush_write.prems have "link_ok env sent (sv_links s ! l) (taken l)" by (simp add: sup_ok_def links_ok_def)
  from flush_pending_link_ok [OF this flush_write.hyps(2)] show ?case
    using flush_write.hyps(1)
    by (intro sup_ok_link [OF flush_write.prems l])
      (auto simp: observe_def flush_report_def split: forward_result.splits)
next
  case (flush_note s depth bytes frames)
  then show ?case
    by (auto simp: sup_ok_def places_ok_def status_ok_def observe_def report_flush_def Let_def algebra_simps)
next
  case (client_state s client)
  then show ?case by (auto simp: sup_ok_def places_ok_def status_ok_def observe_def UpdateNtrip_def)
next
  case (leave s)
  then show ?case by (auto simp: sup_ok_def places_ok_def status_ok_def observe_def)
qed

lemma control_step_ok:
  assumes "control_step env s label s1" and "sup_ok env sent s taken"
  shows "sup_ok env sent s1 (observe label taken)"
  using assms
proof (induction rule: control_step.induct)
  case (start s with_ntrip)
  then show ?case
    by (auto simp: sup_ok_def links_ok_def places_ok_def status_ok_def observe_def note_started_def Snapshot_default_def
        total_sent_def)
next
  case (stop s)
  then show ?case by (auto simp: sup_ok_def places_ok_def status_ok_def observe_def)
next
  case (detach s)
  note l = active_link [OF detach.prems]
  from detach show ?case using l by (auto simp: sup_ok_def places_ok_def status_ok_def observe_def)
next
  case (note_stop s link)
  then show ?case
    by (auto simp: sup_ok_def places_ok_def status_ok_def observe_def note_stopping_def split: option.split)
next
  case (close s l)
  then have l: "l < length (sv_links s)" by (auto simp: sup_ok_def places_ok_def)
  from sup_ok_close [OF close.prems l] close.hyps show ?case
    by (auto simp: sup_ok_def places_ok_def status_ok_def observe_def)
next
  case (abandon s l)
  then have l: "l < length (sv_links s)" "\<not> se_is_open env (rl_transport (sv_links s ! l))"
    by (auto simp: sup_ok_def places_ok_def)
  from sup_ok_abandon [OF abandon.prems l] abandon.hyps show ?case
    by (auto simp: sup_ok_def places_ok_def status_ok_def observe_def)
next
  case (join s)
  then show ?case by (auto simp: sup_ok_def places_ok_def status_ok_def observe_def)
qed

lemma sup_reach_ok: "sup_reach env sent s taken \<Longrightarrow> sup_ok env sent s taken"
proof (induction rule: sup_reach.induct)
  case new
  show ?case
    by (simp add: sup_ok_def links_ok_def places_ok_def status_ok_def Supervisor_new_def Snapshot_default_def total_sent_def)
qed (auto intro: run_step_ok ntrip_step_ok control_step_ok)

end

section \<open>The in-memory transport provides it\<close>

text \<open>A supervisor over in-memory transports; its session records the bytes it is fed.\<close>

definition memory_env :: "(MemoryByteDuplex, bytes, unit, nat) supervisor_env" where
  "memory_env =
     \<lparr>se_put = duplex_write, se_get = (\<lambda>d n. MemoryByteDuplex_Read d False n), se_is_open = md_open,
      se_close = MemoryByteDuplex_Close, se_session = [],
      se_ops = \<lparr>so_FeedBytes = (\<lambda>s bs t. s @ bs), so_Finalize = id, so_runtime_updates = (\<lambda>s. 0)\<rparr>,
      se_session_metrics = length, se_current_state = (\<lambda>s. ()),
      se_runner_config = \<lparr>rc_read_chunk_size = 512, rc_finalize_session_on_end_of_stream = True,
        rc_finalize_session_on_closed = True, rc_finalize_session_on_error = False\<rparr>,
      se_initial_backoff = 100, se_maximum_backoff = 5000\<rparr>"

interpretation memory_supervised: supervised_transport duplex_write md_output memory_env
proof
  fix k :: MemoryByteDuplex and n
  obtain s r bs where "MemoryByteSource_Read (md_source k) False n = (s, r, bs)" by (metis prod_cases3)
  then show "md_output (fst (se_get memory_env k n)) = md_output k"
    "\<not> se_is_open memory_env k \<Longrightarrow> \<not> se_is_open memory_env (fst (se_get memory_env k n))"
    by (simp_all add: memory_env_def MemoryByteDuplex_Read_def)
qed (simp_all add: memory_env_def MemoryByteDuplex_Close_def)

end
