(* ===== verification/Supervisor_Properties.thy ===== *)
theory Supervisor_Properties
  imports Supervisor_Safety
begin

text \<open>The properties of the receiver supervisor, with runs over in-memory transports as witnesses.\<close>

section \<open>A run over an in-memory transport\<close>

text \<open>A correction frame, the link it goes to, and the run in which \<open>Stop\<close> overtakes the report of the frame.\<close>

definition demo_frame :: RtcmFrame where
  "demo_frame =
     \<lparr>rtcm_protocol = PT_kRtcm3, rtcm_timestamp_ns = None, rtcm_message_type = 1005, rtcm_payload = [],
      rtcm_raw_bytes = [0xD3, 0, 0, 0x47, 0xEA, 0x4B], rtcm_checksum_status = CS_kValid, rtcm_reported_crc24q = 0,
      rtcm_computed_crc24q = 0\<rparr>"

definition demo_link_duplex :: MemoryByteDuplex where
  "demo_link_duplex = \<lparr>md_input = [], md_output = [], md_read_offset = 0, md_open = True, md_next_read_error = TE_kNone,
      md_next_write_error = TE_kNone, md_metrics = TransportMetrics_default\<rparr>"

definition demo_runner :: "(MemoryByteDuplex, bytes) ReceiverSessionRunner" where
  "demo_runner = runner_new demo_link_duplex [] (se_runner_config memory_env)"

definition demo_link_sent :: "MemoryByteDuplex ReceiverLink" where
  "demo_link_sent = fst (forward_link memory_env None demo_frame (new_link demo_runner 1))"

lemma demo_forward:
  "forward_link memory_env None demo_frame (new_link demo_runner 1) = (demo_link_sent, F_Flushed 0 6 1)"
  "md_output (rl_transport demo_link_sent) = rtcm_raw_bytes demo_frame" "md_open (rl_transport demo_link_sent)"
  "rw_pending (rl_writer demo_link_sent) = []"
  by (simp_all add: demo_link_sent_def forward_link_def flush_link_def new_link_def demo_runner_def runner_new_def
      demo_link_duplex_def memory_env_def writer_new_def writer_Enqueue_def writer_Flush_def
      flush_step_def racing_open_def racing_put_def duplex_write_def MemoryByteDuplex_Write_def
      MemoryByteSink_Write_def md_sink_def pf_remaining_def demo_frame_def Let_def)

definition demo_forwarded :: "(MemoryByteDuplex, bytes, unit, nat) supervisor" where
  "demo_forwarded =
     \<lparr>sv_stopping = False, sv_snapshot = note_connected 0 ReceiverSessionRunnerMetrics_default note_started,
      sv_active = Some 0, sv_links = [demo_link_sent], sv_run = R_Loop 0 demo_runner,
      sv_ntrip = N_ForwardReport False 0 6 1, sv_stop = C_Idle\<rparr>"

text \<open>Started, opened, published, and one frame forwarded whose report is still to come.\<close>

lemma demo_forwarded_reached:
  "sup_reach memory_env md_output demo_forwarded ((\<lambda>l. [])(0 := [demo_frame]))"
proof -
  let ?reach = "sup_reach memory_env md_output"
  let ?s0 = "Supervisor_new :: (MemoryByteDuplex, bytes, unit, nat) supervisor"
  let ?s1 = "?s0\<lparr>sv_stopping := False, sv_snapshot := note_started, sv_links := [],
    sv_run := R_Open (se_initial_backoff memory_env), sv_ntrip := N_Run\<rparr>"
  let ?s2 = "?s1\<lparr>sv_run := R_Factory (se_initial_backoff memory_env)\<rparr>"
  let ?s3 = "?s2\<lparr>sv_run := R_Publish demo_runner 1,
    sv_snapshot := note_connected 0 ReceiverSessionRunnerMetrics_default note_started\<rparr>"
  let ?s4 = "?s3\<lparr>sv_run := R_Loop 0 demo_runner, sv_links := [new_link demo_runner 1], sv_active := Some 0\<rparr>"
  let ?s5 = "?s4\<lparr>sv_ntrip := N_Forward 0 demo_frame\<rparr>"
  have "?reach ?s1 (\<lambda>l. [])"
    using sup_reach.control [OF sup_reach.new control_step.start [where s = ?s0 and with_ntrip = True]]
    by (simp add: Supervisor_new_def observe_def)
  from sup_reach.run [OF this run_step.loop_head] have "?reach ?s2 (\<lambda>l. [])" by (simp add: Supervisor_new_def)
  from sup_reach.run [OF this run_step.opened [where k = demo_link_duplex and r = demo_runner]]
  have "?reach ?s3 (\<lambda>l. [])"
    by (simp add: Supervisor_new_def demo_runner_def demo_link_duplex_def memory_env_def
        runner_new_def note_started_def Snapshot_default_def)
  from sup_reach.run [OF this run_step.publish] have "?reach ?s4 (\<lambda>l. [])" by (simp add: Supervisor_new_def)
  from sup_reach.ntrip [OF this ntrip_step.forward [where frame = demo_frame]]
  have "?reach ?s5 (\<lambda>l. [])" by (simp add: Supervisor_new_def observe_def)
  from sup_reach.ntrip [OF this ntrip_step.forward_write [where l = 0 and frame = demo_frame and n = None
      and link = demo_link_sent and result = "F_Flushed 0 6 1"]]
  have "?reach (?s5\<lparr>sv_ntrip := N_ForwardReport False 0 6 1, sv_links := [demo_link_sent]\<rparr>) ((\<lambda>l. [])(0 := [demo_frame]))"
    by (simp add: Supervisor_new_def observe_def demo_forward accept_label_def forward_report_def)
  then show ?thesis by (simp add: Supervisor_new_def demo_forwarded_def)
qed

text \<open>\<open>Stop\<close> up to its join, then the receiver worker to its end, then the report, the end of the NTRIP worker and the
  join.\<close>

lemma demo_stale_reached:
  "\<exists>s taken. sup_reach memory_env md_output s taken
    \<and> sv_stop s = C_Idle \<and> sv_run s = R_Off \<and> sv_ntrip s = N_Off \<and> sv_active s = None
    \<and> sn_lifecycle (sv_snapshot s) = SL_kStopped \<and> sn_forwarding_active (sv_snapshot s)"
proof -
  let ?reach = "\<lambda>s. sup_reach memory_env md_output s ((\<lambda>l. [])(0 := [demo_frame]))"
  note defs = demo_forwarded_def observe_def
  let ?links = "abandon_link 0 (close_link memory_env 0 [demo_link_sent])"
  let ?links1 = "abandon_link 0 (close_link memory_env 0 ?links)"
  let ?sn1 = "note_stopping (sv_snapshot demo_forwarded)"
  let ?sn2 = "note_final (Update memory_env demo_runner ?sn1)"
  let ?s1 = "demo_forwarded\<lparr>sv_stopping := True, sv_stop := C_Join, sv_active := None, sv_snapshot := ?sn1, sv_links := ?links\<rparr>"
  let ?s2 = "?s1\<lparr>sv_run := R_Done, sv_snapshot := ?sn2, sv_links := ?links1\<rparr>"
  let ?s3 = "?s2\<lparr>sv_ntrip := N_Done, sv_snapshot := report_forward False 0 6 1 ?sn2\<rparr>"
  have "?reach ?s1"
    using sup_reach.control [OF sup_reach.control [OF sup_reach.control [OF sup_reach.control [OF sup_reach.control
      [OF demo_forwarded_reached control_step.stop] control_step.detach] control_step.note_stop [where link = "Some 0"]]
      control_step.close [where l = 0]] control_step.abandon [where l = 0]]
    by (simp add: defs)
  from sup_reach.run [OF sup_reach.run [OF sup_reach.run [OF sup_reach.run [OF sup_reach.run [OF sup_reach.run
    [OF sup_reach.run [OF this run_step.loop_check [where l = 0 and r = demo_runner]]
    run_step.leave [where l = 0 and r = demo_runner and terminal = False]]
    run_step.close [where l = 0 and r = demo_runner and terminal = False]]
    run_step.retire [where l = 0 and r = demo_runner and terminal = False]]
    run_step.abandon [where l = 0 and r = demo_runner and terminal = False]]
    run_step.leave_loop [where r = demo_runner and terminal = False]] run_step.final]
  have "?reach ?s2" by (simp add: defs)
  from sup_reach.ntrip [OF sup_reach.ntrip [OF this ntrip_step.forward_note [where overflow = False and depth = 0
    and bytes = 6 and frames = 1]] ntrip_step.leave]
  have "?reach ?s3" by (simp add: defs)
  from sup_reach.control [OF this control_step.join] show ?thesis
    by (intro exI conjI) (assumption | simp add: defs report_forward_def note_final_def Let_def)+
qed

section \<open>Properties\<close>

text \<open>C3. The correction bytes of every receiver link are whole frames.  Whatever the order in which the receiver
  worker, the NTRIP worker and \<open>Stop\<close> run, and wherever a transport is closed under a flush: the bytes a link's
  transport has been sent are a prefix of the frames taken for that link, whole and in order; while the transport is
  open the rest is queued, at most 50 frames; and the forwarded byte counter of the status, with what the NTRIP worker
  has still to report, is the number of bytes sent over all links of this run, modulo 2 to the 64.\<close>

theorem supervisor_correction_streams:
  assumes "supervised_transport put sent env" and "sup_reach env sent s taken"
  shows "(\<forall>l < length (sv_links s).
       prefix (sent (rl_transport (sv_links s ! l))) (frames_bytes (taken l))
       \<and> length (rw_pending (rl_writer (sv_links s ! l))) \<le> 50
       \<and> (se_is_open env (rl_transport (sv_links s ! l)) \<longrightarrow>
            sent (rl_transport (sv_links s ! l)) @ pending_bytes (rw_pending (rl_writer (sv_links s ! l)))
              = frames_bytes (taken l)))
    \<and> sn_rtcm_forwarded_bytes (sv_snapshot s) + word_of_nat (bytes_in_flight (sv_ntrip s))
        = word_of_nat (total_sent sent (sv_links s))"
proof -
  note ok = supervised_transport.sup_reach_ok [OF assms, unfolded sup_ok_def]
  have "link_ok env sent (sv_links s ! l) (taken l)" if "l < length (sv_links s)" for l
    using ok that by (simp add: links_ok_def)
  moreover from this have "length (rw_pending (rl_writer (sv_links s ! l))) \<le> 50" if "l < length (sv_links s)" for l
    using that by (metis link_ok_def writer_inv_def)
  ultimately show ?thesis using ok by (simp add: link_ok_def status_ok_def)
qed

theorem supervisor_correction_streams_witness:
  "prefix (md_output (rl_transport (sv_links demo_forwarded ! 0))) (frames_bytes [demo_frame])
    \<and> sn_rtcm_forwarded_bytes (sv_snapshot demo_forwarded) + 6 = word_of_nat (total_sent md_output (sv_links demo_forwarded))"
  using supervisor_correction_streams [OF memory_supervised.supervised_transport_axioms demo_forwarded_reached]
  by (simp add: demo_forwarded_def)

text \<open>C23. What the supervisor gives up it retires.  In every reachable state the active link is the last one published
  and in the receiver worker's hand; every link that is not is closed and has an empty queue; and once the receiver
  worker has ended, no link is active, all links are retired, and the status says stopped, not connected and without a
  runtime state, whatever the other threads still do.\<close>

theorem supervisor_retires_links:
  assumes "supervised_transport put sent env" and "sup_reach env sent s taken"
  shows "(\<forall>l. sv_active s = Some l \<longrightarrow> held (sv_run s) = Some l \<and> Suc l = length (sv_links s))
    \<and> (\<forall>l < length (sv_links s). held (sv_run s) \<noteq> Some l \<longrightarrow> retired env (sv_links s ! l))
    \<and> (sv_run s \<in> {R_Off, R_Done} \<longrightarrow>
         sv_active s = None \<and> (\<forall>link \<in> set (sv_links s). retired env link)
         \<and> sn_lifecycle (sv_snapshot s) = SL_kStopped \<and> \<not> sn_connected (sv_snapshot s)
         \<and> sn_runtime_state (sv_snapshot s) = None)"
proof -
  note ok = supervised_transport.sup_reach_ok [OF assms, unfolded sup_ok_def places_ok_def status_ok_def]
  have "sv_active s = None" if "sv_run s \<in> {R_Off, R_Done}"
    using ok that by (cases "sv_active s") auto
  moreover have "\<forall>link \<in> set (sv_links s). retired env link" if "sv_run s \<in> {R_Off, R_Done}"
  proof
    fix link
    assume "link \<in> set (sv_links s)"
    then obtain l where "l < length (sv_links s)" "sv_links s ! l = link" by (auto simp: in_set_conv_nth)
    moreover have "held (sv_run s) = None" using that by auto
    ultimately show "retired env link" using ok by auto
  qed
  moreover have "held (sv_run s) = Some l" if "attached (sv_run s) = Some l" for l
    using that by (cases "sv_run s") simp_all
  ultimately show ?thesis using ok by blast
qed

theorem supervisor_retires_links_witness:
  "held (sv_run demo_forwarded) = Some 0 \<and> Suc 0 = length (sv_links demo_forwarded)"
  using supervisor_retires_links [OF memory_supervised.supervised_transport_axioms demo_forwarded_reached]
  by (simp add: demo_forwarded_def)

text \<open>The position of the receiver worker on its way out.\<close>

fun run_rank :: "('k, 's) run_pc \<Rightarrow> nat" where
  "run_rank R_Off = 0"
| "run_rank R_Done = 0"
| "run_rank R_Final = 1"
| "run_rank (R_Open d) = 2"
| "run_rank (R_Wait d) = 3"
| "run_rank (R_Retired r terminal) = 4"
| "run_rank (R_Abandon l r terminal) = 5"
| "run_rank (R_Retire l r terminal) = 6"
| "run_rank (R_Close l r terminal) = 7"
| "run_rank (R_Leave l r terminal) = 8"
| "run_rank (R_Loop l r) = 9"
| "run_rank (R_Idle l r) = 9"
| "run_rank (R_Update l r result) = 10"
| "run_rank (R_Read l r) = 11"
| "run_rank (R_Publish r i) = 12"
| "run_rank (R_Factory d) = 13"

text \<open>C37. \<open>Stop\<close> ends the receiver worker: once \<open>stopping_\<close> is set, the worker can always take its next step until
  it is done, and every step it takes brings it nearer to its end, so that at most thirteen of its steps remain
  wherever it was: it opens no further transport and reads at most once more.\<close>

theorem supervisor_stop_ends_worker:
  assumes "sv_stopping s"
  shows "(run_step env sent s s1 \<longrightarrow> run_rank (sv_run s1) < run_rank (sv_run s) \<and> sv_stopping s1)
    \<and> (sv_run s \<notin> {R_Off, R_Done} \<longrightarrow> (\<exists>s1. run_step env sent s s1))
    \<and> run_rank (sv_run s) \<le> 13"
proof (intro conjI impI)
  assume "run_step env sent s s1"
  then show "run_rank (sv_run s1) < run_rank (sv_run s)"
    by (cases rule: run_step.cases) (use assms in \<open>auto simp: after_update_def split: ReceiverSessionRunnerStepResult.split\<close>)
  from \<open>run_step env sent s s1\<close> show "sv_stopping s1" using assms by (cases rule: run_step.cases) auto
next
  assume "sv_run s \<notin> {R_Off, R_Done}"
  then show "\<exists>s1. run_step env sent s s1"
  proof (cases "sv_run s")
    case (R_Read l r)
    obtain k1 r1 result where "runner_step env (rl_transport (sv_links s ! l)) r 0 = (k1, r1, result)" by (metis prod_cases3)
    with R_Read show ?thesis by (blast intro: run_step.read)
  next
    case (R_Retired r terminal)
    with assms show ?thesis by (blast intro: run_step.leave_loop)
  qed (auto intro: run_step.intros)
next
  show "run_rank (sv_run s) \<le> 13" by (cases "sv_run s") simp_all
qed

theorem supervisor_stop_ends_worker_witness:
  "\<exists>s1. run_step memory_env md_output (demo_forwarded\<lparr>sv_stopping := True\<rparr>) s1"
  using supervisor_stop_ends_worker [of "demo_forwarded\<lparr>sv_stopping := True\<rparr>" memory_env md_output]
  by (simp add: demo_forwarded_def)

text \<open>C39. A stopped supervisor may say that it forwards.  \<open>ForwardRtcm\<close> updates the status after its link's mutex is
  released and does not look at \<open>stopping_\<close> or at the link again: there is a run that ends with \<open>Stop\<close> returned, both
  workers joined and the lifecycle stopped, and with \<open>forwarding_active\<close> true.\<close>

theorem supervisor_stale_forwarding:
  "\<exists>s taken. sup_reach memory_env md_output s taken
    \<and> sv_stop s = C_Idle \<and> sv_run s = R_Off \<and> sv_ntrip s = N_Off \<and> sv_active s = None
    \<and> sn_lifecycle (sv_snapshot s) = SL_kStopped \<and> sn_forwarding_active (sv_snapshot s)"
  by (rule demo_stale_reached)

end
