(* ===== verification/Runtime_State.thy ===== *)
theory Runtime_State
  imports Protocol_Records Ieee_Double
begin

text \<open>
  The runtime state every parser, driver and consumer of the stack shares (gnss_core/include/universal_gnss/:
  gnss_types.hpp, gnss_capabilities.hpp, gnss_runtime_state.hpp), and the discipline of its flags.

  A C++ \<open>float\<close> is a value of the type \<open>double\<close> of \<open>Ieee_Double\<close>, rounded by \<open>round_float\<close>.  A reference to one
  optional field is a pair of the field's selector and its update function.
\<close>

section \<open>Single precision\<close>

type_synonym float32 = double

definition float_ulp_of :: "rat \<Rightarrow> rat" where
  "float_ulp_of x = pow2 (max (ilog2_rat \<bar>x\<bar>) (- 126) - 23)"

definition round_float :: "rat \<Rightarrow> float32" where
  "round_float x =
     (let r = (if x = 0 then 0 else float_ulp_of x * of_int (round_half_even (x / float_ulp_of x)))
      in if 2 ^ 128 \<le> r then PosInf else if r \<le> - (2 ^ 128) then NegInf else Finite r)"

text \<open>The arithmetic on finite operands the parsers use: conversion, product and quotient.\<close>

definition float_of :: "double \<Rightarrow> float32" where
  "float_of x = (case x of Finite a \<Rightarrow> round_float a | _ \<Rightarrow> x)"

fun float_mult :: "float32 \<Rightarrow> float32 \<Rightarrow> float32" where
  "float_mult (Finite a) (Finite b) = round_float (a * b)"
| "float_mult x y = dbl_mult x y"

text \<open>A quotient by a positive finite divisor.\<close>

fun float_div :: "float32 \<Rightarrow> rat \<Rightarrow> float32" where
  "float_div (Finite a) b = round_float (a / b)"
| "float_div x b = x"

text \<open>A quotient, the divisor not zero.\<close>

definition float_quotient :: "float32 \<Rightarrow> float32 \<Rightarrow> float32" where
  "float_quotient x y =
     (case (x, y) of
        (Finite a, Finite b) \<Rightarrow> round_float (a / b)
      | (NaN, _) \<Rightarrow> NaN
      | (_, NaN) \<Rightarrow> NaN
      | (Finite a, _) \<Rightarrow> Finite 0
      | (_, Finite b) \<Rightarrow> dbl_inf ((x = PosInf) = (0 < b))
      | _ \<Rightarrow> NaN)"

section \<open>Types\<close>

record GnssUtcDate =
  ud_year :: u16
  ud_month :: u8
  ud_day :: u8

record GnssUtcTime =
  ut_hour :: u8
  ut_minute :: u8
  ut_second :: u8
  ut_nanosecond :: "32 word"

datatype GnssFixType =
    FT_kUnknown | FT_kNoFix | FT_kFix | FT_kRtkFloat | FT_kRtkFixed | FT_kDeadReckoning | FT_k2dFix | FT_k3dFix | FT_kDgps

datatype GnssRtkMode = RM_kUnknown | RM_kNone | RM_kFloat | RM_kFixed

datatype GnssBaselineSolutionStatus =
    BS_kUnknown | BS_kComputed | BS_kNotSolved | BS_kInsufficientObservations | BS_kNoConvergence | BS_kOutOfTolerance
  | BS_kCovarianceTraceExceeded | BS_kNotConfigured

section \<open>Capabilities\<close>

type_synonym flags = u32

datatype GnssCapability =
    GC_kRtkMode | GC_kHorizontalAccuracy | GC_kVerticalAccuracy | GC_kHdop | GC_kVdop | GC_kSatellitesUsed |
    GC_kSatellitesVisible | GC_kSatellitesTracked | GC_kMeanCn0 | GC_kMaxCn0 | GC_kCorrectionAge | GC_kHeading |
    GC_kDualAntennaHeading | GC_kInterferenceState | GC_kJammingState | GC_kHeadingAccuracy |
    GC_kDifferentialCorrections | GC_kCorrectionsActive | GC_kDualAntennaBaseline | GC_kBaselineAzimuth |
    GC_kBaselinePitch | GC_kBaselineLength | GC_kBaselineSolutionStatus | GC_kSpeedOverGround | GC_kCourseOverGround |
    GC_kUtcDate | GC_kUtcTime

fun cap_bit :: "GnssCapability \<Rightarrow> nat" where
  "cap_bit GC_kRtkMode = 0"
| "cap_bit GC_kHorizontalAccuracy = 1"
| "cap_bit GC_kVerticalAccuracy = 2"
| "cap_bit GC_kHdop = 3"
| "cap_bit GC_kVdop = 4"
| "cap_bit GC_kSatellitesUsed = 5"
| "cap_bit GC_kSatellitesVisible = 6"
| "cap_bit GC_kSatellitesTracked = 7"
| "cap_bit GC_kMeanCn0 = 8"
| "cap_bit GC_kMaxCn0 = 9"
| "cap_bit GC_kCorrectionAge = 10"
| "cap_bit GC_kHeading = 11"
| "cap_bit GC_kDualAntennaHeading = 12"
| "cap_bit GC_kInterferenceState = 13"
| "cap_bit GC_kJammingState = 14"
| "cap_bit GC_kHeadingAccuracy = 15"
| "cap_bit GC_kDifferentialCorrections = 16"
| "cap_bit GC_kCorrectionsActive = 17"
| "cap_bit GC_kDualAntennaBaseline = 18"
| "cap_bit GC_kBaselineAzimuth = 19"
| "cap_bit GC_kBaselinePitch = 20"
| "cap_bit GC_kBaselineLength = 21"
| "cap_bit GC_kBaselineSolutionStatus = 22"
| "cap_bit GC_kSpeedOverGround = 23"
| "cap_bit GC_kCourseOverGround = 24"
| "cap_bit GC_kUtcDate = 25"
| "cap_bit GC_kUtcTime = 26"

definition ToFlag :: "GnssCapability \<Rightarrow> flags" where
  "ToFlag capability = push_bit (cap_bit capability) 1"

definition HasCapabilityFlag :: "flags \<Rightarrow> GnssCapability \<Rightarrow> bool" where
  "HasCapabilityFlag flags capability \<longleftrightarrow> flags AND ToFlag capability \<noteq> 0"

definition SetCapabilityFlag :: "flags \<Rightarrow> GnssCapability \<Rightarrow> flags" where
  "SetCapabilityFlag flags capability = flags OR ToFlag capability"

definition ClearCapabilityFlag :: "flags \<Rightarrow> GnssCapability \<Rightarrow> flags" where
  "ClearCapabilityFlag flags capability = flags AND NOT (ToFlag capability)"

datatype GnssDirectValue = DV_kLatitude | DV_kLongitude | DV_kAltitude

fun direct_flag :: "GnssDirectValue \<Rightarrow> u8" where
  "direct_flag DV_kLatitude = 1"
| "direct_flag DV_kLongitude = 2"
| "direct_flag DV_kAltitude = 4"

definition HasDirectValueFlag :: "u8 \<Rightarrow> GnssDirectValue \<Rightarrow> bool" where
  "HasDirectValueFlag flags direct \<longleftrightarrow> flags AND direct_flag direct \<noteq> 0"

definition SetDirectValueFlag :: "u8 \<Rightarrow> GnssDirectValue \<Rightarrow> u8" where
  "SetDirectValueFlag flags direct = flags OR direct_flag direct"

section \<open>The state\<close>

record GnssRuntimeState =
  rs_timestamp_ns :: "timestamp_ns option"
  rs_fix_valid :: bool
  rs_fix_type :: GnssFixType
  rs_latitude_deg :: "double option"
  rs_longitude_deg :: "double option"
  rs_altitude_m :: "double option"
  rs_rtk_mode :: "GnssRtkMode option"
  rs_horizontal_accuracy_m :: "float32 option"
  rs_vertical_accuracy_m :: "float32 option"
  rs_hdop :: "float32 option"
  rs_vdop :: "float32 option"
  rs_satellites_used :: "u16 option"
  rs_satellites_visible :: "u16 option"
  rs_satellites_tracked :: "u16 option"
  rs_mean_cn0_db_hz :: "float32 option"
  rs_max_cn0_db_hz :: "float32 option"
  rs_correction_age_s :: "float32 option"
  rs_utc_date :: "GnssUtcDate option"
  rs_utc_time :: "GnssUtcTime option"
  rs_speed_over_ground_m_s :: "float32 option"
  rs_course_over_ground_deg :: "float32 option"
  rs_heading_deg :: "float32 option"
  rs_heading_accuracy_deg :: "float32 option"
  rs_differential_corrections :: "bool option"
  rs_corrections_active :: "bool option"
  rs_dual_antenna_heading :: "bool option"
  rs_dual_antenna_baseline :: "bool option"
  rs_baseline_azimuth_deg :: "float32 option"
  rs_baseline_pitch_deg :: "float32 option"
  rs_baseline_length_m :: "float32 option"
  rs_baseline_solution_status :: "GnssBaselineSolutionStatus option"
  rs_interference_detected :: "bool option"
  rs_jamming_detected :: "bool option"
  rs_capability_flags :: flags
  rs_value_flags :: flags
  rs_clear_value_flags :: flags
  rs_clear_direct_value_flags :: u8

definition RuntimeState_default :: GnssRuntimeState where
  "RuntimeState_default =
     \<lparr>rs_timestamp_ns = None, rs_fix_valid = False, rs_fix_type = FT_kUnknown, rs_latitude_deg = None,
     rs_longitude_deg = None, rs_altitude_m = None, rs_rtk_mode = None, rs_horizontal_accuracy_m = None,
     rs_vertical_accuracy_m = None, rs_hdop = None, rs_vdop = None, rs_satellites_used = None,
     rs_satellites_visible = None, rs_satellites_tracked = None, rs_mean_cn0_db_hz = None, rs_max_cn0_db_hz = None,
     rs_correction_age_s = None, rs_utc_date = None, rs_utc_time = None, rs_speed_over_ground_m_s = None,
     rs_course_over_ground_deg = None, rs_heading_deg = None, rs_heading_accuracy_deg = None,
     rs_differential_corrections = None, rs_corrections_active = None, rs_dual_antenna_heading = None,
     rs_dual_antenna_baseline = None, rs_baseline_azimuth_deg = None, rs_baseline_pitch_deg = None,
     rs_baseline_length_m = None, rs_baseline_solution_status = None, rs_interference_detected = None,
     rs_jamming_detected = None, rs_capability_flags = 0, rs_value_flags = 0, rs_clear_value_flags = 0,
     rs_clear_direct_value_flags = 0\<rparr>"

definition HasCapability :: "GnssRuntimeState \<Rightarrow> GnssCapability \<Rightarrow> bool" where
  "HasCapability s capability = HasCapabilityFlag (rs_capability_flags s) capability"

definition SetCapability :: "GnssCapability \<Rightarrow> GnssRuntimeState \<Rightarrow> GnssRuntimeState" where
  "SetCapability capability s = s\<lparr>rs_capability_flags := SetCapabilityFlag (rs_capability_flags s) capability\<rparr>"

definition ClearCapability :: "GnssCapability \<Rightarrow> GnssRuntimeState \<Rightarrow> GnssRuntimeState" where
  "ClearCapability capability s =
     s\<lparr>rs_capability_flags := ClearCapabilityFlag (rs_capability_flags s) capability,
       rs_value_flags := ClearCapabilityFlag (rs_value_flags s) capability,
       rs_clear_value_flags := ClearCapabilityFlag (rs_clear_value_flags s) capability\<rparr>"

definition HasValueAvailable :: "GnssRuntimeState \<Rightarrow> GnssCapability \<Rightarrow> bool" where
  "HasValueAvailable s capability = HasCapabilityFlag (rs_value_flags s) capability"

definition SetValueAvailable :: "GnssCapability \<Rightarrow> GnssRuntimeState \<Rightarrow> GnssRuntimeState" where
  "SetValueAvailable capability s =
     (if \<not> HasCapability s capability then s
      else s\<lparr>rs_clear_value_flags := ClearCapabilityFlag (rs_clear_value_flags s) capability,
             rs_value_flags := SetCapabilityFlag (rs_value_flags s) capability\<rparr>)"

definition ClearValueAvailable :: "GnssCapability \<Rightarrow> GnssRuntimeState \<Rightarrow> GnssRuntimeState" where
  "ClearValueAvailable capability s = s\<lparr>rs_value_flags := ClearCapabilityFlag (rs_value_flags s) capability\<rparr>"

definition HasValidCapabilityValueInvariant :: "GnssRuntimeState \<Rightarrow> bool" where
  "HasValidCapabilityValueInvariant s \<longleftrightarrow>
     rs_value_flags s AND NOT (rs_capability_flags s) = 0
     \<and> rs_clear_value_flags s AND NOT (rs_capability_flags s) = 0
     \<and> rs_value_flags s AND rs_clear_value_flags s = 0"

text \<open>The templates take the field by reference: here its update function.\<close>

type_synonym 'a field_update = "('a option \<Rightarrow> 'a option) \<Rightarrow> GnssRuntimeState \<Rightarrow> GnssRuntimeState"

definition SetOptionalValue :: "GnssCapability \<Rightarrow> 'a field_update \<Rightarrow> 'a \<Rightarrow> GnssRuntimeState \<Rightarrow> GnssRuntimeState" where
  "SetOptionalValue capability field v s =
     (if \<not> HasCapability s capability then s else SetValueAvailable capability (field (\<lambda>_. Some v) s))"

definition ClearOptionalValue :: "GnssCapability \<Rightarrow> 'a field_update \<Rightarrow> GnssRuntimeState \<Rightarrow> GnssRuntimeState" where
  "ClearOptionalValue capability field s =
     (let s1 = ClearValueAvailable capability (field (\<lambda>_. None) s) in
      if HasCapability s1 capability
      then s1\<lparr>rs_clear_value_flags := SetCapabilityFlag (rs_clear_value_flags s1) capability\<rparr> else s1)"

definition OmitOptionalValue :: "GnssCapability \<Rightarrow> 'a field_update \<Rightarrow> GnssRuntimeState \<Rightarrow> GnssRuntimeState" where
  "OmitOptionalValue capability field s =
     (let s1 = ClearValueAvailable capability (field (\<lambda>_. None) s) in
      s1\<lparr>rs_clear_value_flags := ClearCapabilityFlag (rs_clear_value_flags s1) capability\<rparr>)"

definition ClearDirectValue :: "GnssDirectValue \<Rightarrow> double field_update \<Rightarrow> GnssRuntimeState \<Rightarrow> GnssRuntimeState" where
  "ClearDirectValue kind field s =
     (let s1 = field (\<lambda>_. None) s in
      s1\<lparr>rs_clear_direct_value_flags := SetDirectValueFlag (rs_clear_direct_value_flags s1) kind\<rparr>)"

definition ClearPositionValues :: "GnssRuntimeState \<Rightarrow> GnssRuntimeState" where
  "ClearPositionValues s =
     ClearDirectValue DV_kAltitude rs_altitude_m_update
       (ClearDirectValue DV_kLongitude rs_longitude_deg_update
         (ClearDirectValue DV_kLatitude rs_latitude_deg_update s))"

text \<open>Which field belongs to a capability, in the order of \<open>ComputeValueFlagsFromFields\<close>.\<close>

fun field_present :: "GnssRuntimeState \<Rightarrow> GnssCapability \<Rightarrow> bool" where
  "field_present s GC_kRtkMode = (rs_rtk_mode s \<noteq> None)"
| "field_present s GC_kHorizontalAccuracy = (rs_horizontal_accuracy_m s \<noteq> None)"
| "field_present s GC_kVerticalAccuracy = (rs_vertical_accuracy_m s \<noteq> None)"
| "field_present s GC_kHdop = (rs_hdop s \<noteq> None)"
| "field_present s GC_kVdop = (rs_vdop s \<noteq> None)"
| "field_present s GC_kSatellitesUsed = (rs_satellites_used s \<noteq> None)"
| "field_present s GC_kSatellitesVisible = (rs_satellites_visible s \<noteq> None)"
| "field_present s GC_kSatellitesTracked = (rs_satellites_tracked s \<noteq> None)"
| "field_present s GC_kMeanCn0 = (rs_mean_cn0_db_hz s \<noteq> None)"
| "field_present s GC_kMaxCn0 = (rs_max_cn0_db_hz s \<noteq> None)"
| "field_present s GC_kCorrectionAge = (rs_correction_age_s s \<noteq> None)"
| "field_present s GC_kUtcDate = (rs_utc_date s \<noteq> None)"
| "field_present s GC_kUtcTime = (rs_utc_time s \<noteq> None)"
| "field_present s GC_kSpeedOverGround = (rs_speed_over_ground_m_s s \<noteq> None)"
| "field_present s GC_kCourseOverGround = (rs_course_over_ground_deg s \<noteq> None)"
| "field_present s GC_kHeading = (rs_heading_deg s \<noteq> None)"
| "field_present s GC_kHeadingAccuracy = (rs_heading_accuracy_deg s \<noteq> None)"
| "field_present s GC_kDifferentialCorrections = (rs_differential_corrections s \<noteq> None)"
| "field_present s GC_kCorrectionsActive = (rs_corrections_active s \<noteq> None)"
| "field_present s GC_kDualAntennaHeading = (rs_dual_antenna_heading s \<noteq> None)"
| "field_present s GC_kDualAntennaBaseline = (rs_dual_antenna_baseline s \<noteq> None)"
| "field_present s GC_kBaselineAzimuth = (rs_baseline_azimuth_deg s \<noteq> None)"
| "field_present s GC_kBaselinePitch = (rs_baseline_pitch_deg s \<noteq> None)"
| "field_present s GC_kBaselineLength = (rs_baseline_length_m s \<noteq> None)"
| "field_present s GC_kBaselineSolutionStatus = (rs_baseline_solution_status s \<noteq> None)"
| "field_present s GC_kInterferenceState = (rs_interference_detected s \<noteq> None)"
| "field_present s GC_kJammingState = (rs_jamming_detected s \<noteq> None)"

definition field_order :: "GnssCapability list" where
  "field_order =
     [GC_kRtkMode, GC_kHorizontalAccuracy, GC_kVerticalAccuracy, GC_kHdop, GC_kVdop, GC_kSatellitesUsed,
     GC_kSatellitesVisible, GC_kSatellitesTracked, GC_kMeanCn0, GC_kMaxCn0, GC_kCorrectionAge, GC_kUtcDate,
     GC_kUtcTime, GC_kSpeedOverGround, GC_kCourseOverGround, GC_kHeading, GC_kHeadingAccuracy,
     GC_kDifferentialCorrections, GC_kCorrectionsActive, GC_kDualAntennaHeading, GC_kDualAntennaBaseline,
     GC_kBaselineAzimuth, GC_kBaselinePitch, GC_kBaselineLength, GC_kBaselineSolutionStatus, GC_kInterferenceState,
     GC_kJammingState]"

definition ComputeValueFlagsFromFields :: "GnssRuntimeState \<Rightarrow> flags" where
  "ComputeValueFlagsFromFields s =
     foldl (\<lambda>flags c. if HasCapability s c \<and> field_present s c then SetCapabilityFlag flags c else flags) 0 field_order"

definition RefreshValueFlagsFromFields :: "GnssRuntimeState \<Rightarrow> GnssRuntimeState" where
  "RefreshValueFlagsFromFields s =
     (let flags = ComputeValueFlagsFromFields s in
      s\<lparr>rs_value_flags := flags, rs_clear_value_flags := rs_clear_value_flags s AND NOT flags\<rparr>)"

section \<open>Flags as sets of capabilities\<close>

lemma cap_bit_inj [simp]: "cap_bit c = cap_bit d \<longleftrightarrow> c = d"
  by (cases c; cases d) simp_all

lemma cap_bit_less [simp]: "cap_bit c < 32"
  by (cases c) simp_all

lemma bit_ToFlag [simp]: "bit (ToFlag c) (cap_bit d) \<longleftrightarrow> c = d"
  by (auto simp: ToFlag_def bit_simps)

lemma bit_ToFlag_iff: "bit (ToFlag c) n \<longleftrightarrow> n = cap_bit c"
  by (auto simp: ToFlag_def bit_simps)

lemma HasCapabilityFlag_bit: "HasCapabilityFlag flags c \<longleftrightarrow> bit flags (cap_bit c)"
proof -
  have "flags AND ToFlag c = (if bit flags (cap_bit c) then ToFlag c else 0)"
    by (rule bit_word_eqI) (auto simp: bit_simps bit_ToFlag_iff)
  moreover have "ToFlag c \<noteq> 0"
    using bit_ToFlag [of c c] by (metis bit_0_eq bot_apply bot_bool_def)
  ultimately show ?thesis by (simp add: HasCapabilityFlag_def)
qed

lemma HasCapabilityFlag_simps [simp]:
  "HasCapabilityFlag (SetCapabilityFlag flags c) d \<longleftrightarrow> c = d \<or> HasCapabilityFlag flags d"
  "HasCapabilityFlag (ClearCapabilityFlag flags c) d \<longleftrightarrow> c \<noteq> d \<and> HasCapabilityFlag flags d"
  "HasCapabilityFlag (flags AND flags1) d \<longleftrightarrow> HasCapabilityFlag flags d \<and> HasCapabilityFlag flags1 d"
  "HasCapabilityFlag (flags OR flags1) d \<longleftrightarrow> HasCapabilityFlag flags d \<or> HasCapabilityFlag flags1 d"
  "HasCapabilityFlag (NOT flags) d \<longleftrightarrow> \<not> HasCapabilityFlag flags d"
  "\<not> HasCapabilityFlag 0 d"
  by (auto simp: HasCapabilityFlag_bit SetCapabilityFlag_def ClearCapabilityFlag_def bit_simps)

end
