(* ===== verification/Ubx_Parser.thy ===== *)
theory Ubx_Parser
  imports Runtime_State
begin

text \<open>
  The UBX message parsers
  (gnss_protocols/src/ubx_parser.cpp, ubx_records.hpp).

  Signed integers are words read with \<open>sint\<close>; the fixed-size arrays of the records are lists of the used entries.
\<close>

section \<open>Records\<close>

text \<open>The byte is cast to the enumeration, so it may hold a value without a name.\<close>

datatype UbxNavPvtFixType =
    UF_kNoFix | UF_kDeadReckoningOnly | UF_k2D | UF_k3D | UF_kGnssDeadReckoningCombined | UF_kTimeOnly | UF_other u8

definition fix_type_of_byte :: "u8 \<Rightarrow> UbxNavPvtFixType" where
  "fix_type_of_byte b =
     (if b = 0 then UF_kNoFix else if b = 1 then UF_kDeadReckoningOnly else if b = 2 then UF_k2D
      else if b = 3 then UF_k3D else if b = 4 then UF_kGnssDeadReckoningCombined else if b = 5 then UF_kTimeOnly
      else UF_other b)"

datatype UbxCarrierSolutionStatus = UC_kNone | UC_kFloat | UC_kFixed

datatype UbxRxmRtcmMessageUse = UM_kUnknown | UM_kNotUsed | UM_kUsed

record UbxRxmRtcmRecord =
  rx_timestamp_ns :: "timestamp_ns option"
  rx_version :: u8
  rx_flags :: u8
  rx_crc_failed :: bool
  rx_crc_ok :: bool
  rx_message_use :: UbxRxmRtcmMessageUse
  rx_message_used :: bool
  rx_message_use_known :: bool
  rx_sub_type :: u16
  rx_ref_station_id :: u16
  rx_message_type :: u16

record UbxNavStatusRecord =
  ns_timestamp_ns :: "timestamp_ns option"
  ns_i_tow_ms :: u32
  ns_gps_fix :: UbxNavPvtFixType
  ns_flags :: u8
  ns_fix_stat :: u8
  ns_flags2 :: u8
  ns_ttff_ms :: u32
  ns_msss_ms :: u32
  ns_gnss_fix_ok :: bool
  ns_differential_solution :: bool
  ns_carrier_solution_valid :: bool
  ns_carrier_solution :: UbxCarrierSolutionStatus

record UbxNavPvtRecord =
  np_timestamp_ns :: "timestamp_ns option"
  np_i_tow_ms :: u32
  np_year :: u16
  np_month :: u8
  np_day :: u8
  np_hour :: u8
  np_minute :: u8
  np_second :: u8
  np_nano_ns :: u32
  np_valid_date :: bool
  np_valid_time :: bool
  np_fully_resolved_time :: bool
  np_fix_type :: UbxNavPvtFixType
  np_flags :: u8
  np_flags2 :: u8
  np_flags3 :: u16
  np_gnss_fix_ok :: bool
  np_differential_solution :: bool
  np_heading_vehicle_valid :: bool
  np_invalid_llh :: bool
  np_carrier_solution :: UbxCarrierSolutionStatus
  np_num_sv :: u8
  np_longitude_deg :: double
  np_latitude_deg :: double
  np_height_ellipsoid_m :: double
  np_height_msl_m :: double
  np_horizontal_accuracy_m :: float32
  np_vertical_accuracy_m :: float32
  np_vel_north_mm_s :: u32
  np_vel_east_mm_s :: u32
  np_vel_down_mm_s :: u32
  np_ground_speed_mm_s :: u32
  np_course_over_ground_deg :: float32
  np_heading_vehicle_deg :: float32
  np_heading_accuracy_deg :: float32

record UbxNavDopRecord =
  nd_timestamp_ns :: "timestamp_ns option"
  nd_i_tow_ms :: u32
  nd_g_dop :: float32
  nd_p_dop :: float32
  nd_t_dop :: float32
  nd_v_dop :: float32
  nd_h_dop :: float32
  nd_n_dop :: float32
  nd_e_dop :: float32

record UbxNavSatSatellite =
  sat_gnss_id :: u8
  sat_sv_id :: u8
  sat_cno_db_hz :: u8
  sat_elevation_deg :: u8
  sat_azimuth_deg :: u16
  sat_quality_indicator :: u8
  sat_used_in_navigation :: bool
  sat_healthy :: "bool option"

record UbxNavSatRecord =
  nsat_timestamp_ns :: "timestamp_ns option"
  nsat_i_tow_ms :: u32
  nsat_version :: u8
  nsat_num_svs :: u8
  nsat_satellites :: "UbxNavSatSatellite list"
  nsat_used_satellite_count :: u8

datatype UbxMonRfJammingState = JS_kUnknown | JS_kOk | JS_kWarning | JS_kCritical

datatype UbxMonHwLayout = HL_kClassic | HL_kReserved

datatype UbxAntennaStatus = AS_kInit | AS_kDontKnow | AS_kOk | AS_kShort | AS_kOpen

datatype UbxAntennaPower = AP_kOff | AP_kOn | AP_kDontKnow

record UbxMonHwRecord =
  hw_timestamp_ns :: "timestamp_ns option"
  hw_layout :: UbxMonHwLayout
  hw_payload_size :: nat
  hw_noise_per_ms :: "u16 option"
  hw_agc_count :: "u16 option"
  hw_antenna_status :: "UbxAntennaStatus option"
  hw_antenna_power :: "UbxAntennaPower option"
  hw_flags :: "u8 option"
  hw_jamming_state :: UbxMonRfJammingState
  hw_cw_suppression :: "u8 option"
  hw_rtc_calibrated :: bool
  hw_safe_boot :: bool
  hw_xtal_absent :: bool

definition UbxMonHwRecord_default :: UbxMonHwRecord where
  "UbxMonHwRecord_default =
     \<lparr>hw_timestamp_ns = None, hw_layout = HL_kClassic, hw_payload_size = 0, hw_noise_per_ms = None, hw_agc_count = None,
      hw_antenna_status = None, hw_antenna_power = None, hw_flags = None, hw_jamming_state = JS_kUnknown,
      hw_cw_suppression = None, hw_rtc_calibrated = False, hw_safe_boot = False, hw_xtal_absent = False\<rparr>"

record UbxMonHw2Record =
  hw2_timestamp_ns :: "timestamp_ns option"
  hw2_ofs_i :: u8
  hw2_mag_i :: u8
  hw2_ofs_q :: u8
  hw2_mag_q :: u8
  hw2_cfg_source :: u8
  hw2_low_level_configuration :: u32
  hw2_post_status :: u32

record UbxMonRfBlock =
  rb_block_id :: u8
  rb_flags :: u8
  rb_jamming_state :: UbxMonRfJammingState
  rb_antenna_status :: u8
  rb_antenna_power :: u8
  rb_post_status :: u32
  rb_noise_per_ms :: u16
  rb_agc_count :: u16
  rb_cw_suppression :: u8

record UbxMonRfRecord =
  rf_timestamp_ns :: "timestamp_ns option"
  rf_version :: u8
  rf_block_count :: u8
  rf_blocks :: "UbxMonRfBlock list"

section \<open>Fields\<close>

definition ReadLeU2 :: "bytes \<Rightarrow> nat \<Rightarrow> u16" where
  "ReadLeU2 payload offset = ucast (payload ! offset) OR push_bit 8 (ucast (payload ! (offset + 1)))"

definition ReadLeU4 :: "bytes \<Rightarrow> nat \<Rightarrow> u32" where
  "ReadLeU4 payload offset =
     ucast (payload ! offset) OR push_bit 8 (ucast (payload ! (offset + 1)))
       OR push_bit 16 (ucast (payload ! (offset + 2))) OR push_bit 24 (ucast (payload ! (offset + 3)))"

definition ScaleMillimetersToMeters :: "int \<Rightarrow> float32" where
  "ScaleMillimetersToMeters millimeters = float_div (round_float (of_int millimeters)) 1000"

definition ScaleMillimetersToMetersDouble :: "u32 \<Rightarrow> double" where
  "ScaleMillimetersToMetersDouble millimeters = round_double (of_int (sint millimeters) / 1000)"

definition ScaleHeading1e5ToDegrees :: "u32 \<Rightarrow> float32" where
  "ScaleHeading1e5ToDegrees scaled_heading =
     float_mult (round_float (of_int (sint scaled_heading))) (round_float (1 / 100000))"

definition ScaleDop1e2ToUnit :: "u16 \<Rightarrow> float32" where
  "ScaleDop1e2ToUnit scaled_dop = float_mult (round_float (of_int (uint scaled_dop))) (round_float (1 / 100))"

definition DecodeCarrierSolution :: "u8 \<Rightarrow> UbxCarrierSolutionStatus" where
  "DecodeCarrierSolution flags =
     (let v = drop_bit 6 (flags AND 0xC0) in if v = 1 then UC_kFloat else if v = 2 then UC_kFixed else UC_kNone)"

definition DecodeNavSatHealth :: "u32 \<Rightarrow> bool option" where
  "DecodeNavSatHealth flags =
     (let v = drop_bit 4 (flags AND 0x30) in if v = 1 then Some True else if v = 2 then Some False else None)"

definition DecodeMonRfJammingState :: "u8 \<Rightarrow> UbxMonRfJammingState" where
  "DecodeMonRfJammingState flags =
     (let v = flags AND 0x03 in
      if v = 1 then JS_kOk else if v = 2 then JS_kWarning else if v = 3 then JS_kCritical else JS_kUnknown)"

definition DecodeAntennaStatus :: "u8 \<Rightarrow> UbxAntennaStatus option" where
  "DecodeAntennaStatus raw =
     (if raw = 0 then Some AS_kInit else if raw = 1 then Some AS_kDontKnow else if raw = 2 then Some AS_kOk
      else if raw = 3 then Some AS_kShort else if raw = 4 then Some AS_kOpen else None)"

definition DecodeAntennaPower :: "u8 \<Rightarrow> UbxAntennaPower option" where
  "DecodeAntennaPower raw =
     (if raw = 0 then Some AP_kOff else if raw = 1 then Some AP_kOn else if raw = 2 then Some AP_kDontKnow else None)"

definition DecodeMonHwJammingState :: "u8 \<Rightarrow> UbxMonRfJammingState" where
  "DecodeMonHwJammingState flags = DecodeMonRfJammingState (drop_bit 2 (flags AND 0x0C))"

definition DecodeRxmRtcmMessageUse :: "u8 \<Rightarrow> UbxRxmRtcmMessageUse" where
  "DecodeRxmRtcmMessageUse flags =
     (let v = drop_bit 1 (flags AND 0x06) in if v = 1 then UM_kNotUsed else if v = 2 then UM_kUsed else UM_kUnknown)"

section \<open>Parsers\<close>

text \<open>The guard every parser starts with: the message is skipped, invalid, or its payload is parsed.\<close>

definition guarded :: "(u8 \<Rightarrow> u8 \<Rightarrow> bool) \<Rightarrow> UbxFrame \<Rightarrow> (bytes \<Rightarrow> 'r ParserResult) \<Rightarrow> 'r ParserResult" where
  "guarded is_message frame parse =
     (if \<not> is_message (ubx_class_id frame) (ubx_message_id frame) then Skipped
      else if ubx_checksum_status frame \<noteq> CS_kValid then InvalidData
      else parse (ubx_payload frame))"

definition ParseUbxRxmRtcm :: "UbxFrame \<Rightarrow> UbxRxmRtcmRecord ParserResult" where
  "ParseUbxRxmRtcm frame = guarded (\<lambda>c m. c = 0x02 \<and> m = 0x32) frame (\<lambda>payload.
     if length payload \<noteq> 8 then InvalidData
     else if payload ! 0 \<noteq> 0x02 then InvalidData
     else
       let flags = payload ! 1;
           crc_failed = (flags AND 1 \<noteq> 0);
           use = DecodeRxmRtcmMessageUse flags in
       RecordReady
         \<lparr>rx_timestamp_ns = ubx_timestamp_ns frame, rx_version = payload ! 0, rx_flags = flags, rx_crc_failed = crc_failed,
          rx_crc_ok = (\<not> crc_failed), rx_message_use = use, rx_message_used = (use = UM_kUsed),
          rx_message_use_known = (use \<noteq> UM_kUnknown), rx_sub_type = ReadLeU2 payload 2,
          rx_ref_station_id = ReadLeU2 payload 4, rx_message_type = ReadLeU2 payload 6\<rparr>)"

definition ParseUbxNavStatus :: "UbxFrame \<Rightarrow> UbxNavStatusRecord ParserResult" where
  "ParseUbxNavStatus frame = guarded (\<lambda>c m. c = 0x01 \<and> m = 0x03) frame (\<lambda>payload.
     if length payload \<noteq> 16 then InvalidData
     else RecordReady
       \<lparr>ns_timestamp_ns = ubx_timestamp_ns frame, ns_i_tow_ms = ReadLeU4 payload 0,
        ns_gps_fix = fix_type_of_byte (payload ! 4), ns_flags = payload ! 5, ns_fix_stat = payload ! 6,
        ns_flags2 = payload ! 7, ns_ttff_ms = ReadLeU4 payload 8, ns_msss_ms = ReadLeU4 payload 12,
        ns_gnss_fix_ok = (payload ! 5 AND 1 \<noteq> 0), ns_differential_solution = (payload ! 5 AND 2 \<noteq> 0),
        ns_carrier_solution_valid = (payload ! 6 AND 2 \<noteq> 0),
        ns_carrier_solution = DecodeCarrierSolution (payload ! 7)\<rparr>)"

definition ParseUbxNavPvt :: "UbxFrame \<Rightarrow> UbxNavPvtRecord ParserResult" where
  "ParseUbxNavPvt frame = guarded (\<lambda>c m. c = 0x01 \<and> m = 0x07) frame (\<lambda>payload.
     if length payload \<noteq> 92 then InvalidData
     else
       let valid = payload ! 11;
           flags = payload ! 21;
           flags3 = ReadLeU2 payload 78 in
       RecordReady
         \<lparr>np_timestamp_ns = ubx_timestamp_ns frame, np_i_tow_ms = ReadLeU4 payload 0, np_year = ReadLeU2 payload 4,
          np_month = payload ! 6, np_day = payload ! 7, np_hour = payload ! 8, np_minute = payload ! 9,
          np_second = payload ! 10, np_nano_ns = ReadLeU4 payload 16, np_valid_date = (valid AND 1 \<noteq> 0),
          np_valid_time = (valid AND 2 \<noteq> 0), np_fully_resolved_time = (valid AND 4 \<noteq> 0),
          np_fix_type = fix_type_of_byte (payload ! 20), np_flags = flags, np_flags2 = payload ! 22,
          np_flags3 = flags3, np_gnss_fix_ok = (flags AND 1 \<noteq> 0), np_differential_solution = (flags AND 2 \<noteq> 0),
          np_heading_vehicle_valid = (flags AND 0x20 \<noteq> 0), np_invalid_llh = (flags3 AND 1 \<noteq> 0),
          np_carrier_solution = DecodeCarrierSolution flags, np_num_sv = payload ! 23,
          np_longitude_deg = dbl_mult (Finite (of_int (sint (ReadLeU4 payload 24)))) (round_double (1 / 10000000)),
          np_latitude_deg = dbl_mult (Finite (of_int (sint (ReadLeU4 payload 28)))) (round_double (1 / 10000000)),
          np_height_ellipsoid_m = ScaleMillimetersToMetersDouble (ReadLeU4 payload 32),
          np_height_msl_m = ScaleMillimetersToMetersDouble (ReadLeU4 payload 36),
          np_horizontal_accuracy_m = ScaleMillimetersToMeters (uint (ReadLeU4 payload 40)),
          np_vertical_accuracy_m = ScaleMillimetersToMeters (uint (ReadLeU4 payload 44)),
          np_vel_north_mm_s = ReadLeU4 payload 48, np_vel_east_mm_s = ReadLeU4 payload 52,
          np_vel_down_mm_s = ReadLeU4 payload 56, np_ground_speed_mm_s = ReadLeU4 payload 60,
          np_course_over_ground_deg = ScaleHeading1e5ToDegrees (ReadLeU4 payload 64),
          np_heading_vehicle_deg = ScaleHeading1e5ToDegrees (ReadLeU4 payload 84),
          np_heading_accuracy_deg =
            float_mult (round_float (of_int (uint (ReadLeU4 payload 72)))) (round_float (1 / 100000))\<rparr>)"

definition ParseUbxNavDop :: "UbxFrame \<Rightarrow> UbxNavDopRecord ParserResult" where
  "ParseUbxNavDop frame = guarded (\<lambda>c m. c = 0x01 \<and> m = 0x04) frame (\<lambda>payload.
     if length payload \<noteq> 18 then InvalidData
     else RecordReady
       \<lparr>nd_timestamp_ns = ubx_timestamp_ns frame, nd_i_tow_ms = ReadLeU4 payload 0,
        nd_g_dop = ScaleDop1e2ToUnit (ReadLeU2 payload 4), nd_p_dop = ScaleDop1e2ToUnit (ReadLeU2 payload 6),
        nd_t_dop = ScaleDop1e2ToUnit (ReadLeU2 payload 8), nd_v_dop = ScaleDop1e2ToUnit (ReadLeU2 payload 10),
        nd_h_dop = ScaleDop1e2ToUnit (ReadLeU2 payload 12), nd_n_dop = ScaleDop1e2ToUnit (ReadLeU2 payload 14),
        nd_e_dop = ScaleDop1e2ToUnit (ReadLeU2 payload 16)\<rparr>)"

definition nav_sat_satellite :: "bytes \<Rightarrow> nat \<Rightarrow> UbxNavSatSatellite" where
  "nav_sat_satellite payload index =
     (let offset = 8 + index * 12;
          flags = ReadLeU4 payload (offset + 8) in
      \<lparr>sat_gnss_id = payload ! offset, sat_sv_id = payload ! (offset + 1), sat_cno_db_hz = payload ! (offset + 2),
       sat_elevation_deg = payload ! (offset + 3), sat_azimuth_deg = ReadLeU2 payload (offset + 4),
       sat_quality_indicator = ucast (flags AND 0x07), sat_used_in_navigation = (flags AND 0x08 \<noteq> 0),
       sat_healthy = DecodeNavSatHealth flags\<rparr>)"

definition nav_sat_step :: "bytes \<Rightarrow> UbxNavSatRecord \<Rightarrow> nat \<Rightarrow> UbxNavSatRecord" where
  "nav_sat_step payload record index =
     (let satellite = nav_sat_satellite payload index;
          record1 = record\<lparr>nsat_satellites := nsat_satellites record @ [satellite]\<rparr> in
      if sat_used_in_navigation satellite \<and> nsat_used_satellite_count record1 < nsat_num_svs record1
      then record1\<lparr>nsat_used_satellite_count := nsat_used_satellite_count record1 + 1\<rparr> else record1)"

definition ParseUbxNavSat :: "UbxFrame \<Rightarrow> UbxNavSatRecord ParserResult" where
  "ParseUbxNavSat frame = guarded (\<lambda>c m. c = 0x01 \<and> m = 0x35) frame (\<lambda>payload.
     if length payload < 8 then InvalidData
     else
       let version = payload ! 4;
           num_svs = payload ! 5 in
       if version \<noteq> 0x01 then InvalidData
       else if length payload \<noteq> 8 + unat num_svs * 12 then InvalidData
       else if unat num_svs > 64 then Overflow
       else RecordReady
         (foldl (nav_sat_step payload)
           \<lparr>nsat_timestamp_ns = ubx_timestamp_ns frame, nsat_i_tow_ms = ReadLeU4 payload 0, nsat_version = version,
            nsat_num_svs = num_svs, nsat_satellites = [], nsat_used_satellite_count = 0\<rparr> [0..<unat num_svs]))"

definition ParseUbxMonHw :: "UbxFrame \<Rightarrow> UbxMonHwRecord ParserResult" where
  "ParseUbxMonHw frame = guarded (\<lambda>c m. c = 0x0A \<and> m = 0x09) frame (\<lambda>payload.
     if length payload \<noteq> 60 \<and> length payload \<noteq> 56 then InvalidData
     else
       let record = UbxMonHwRecord_default\<lparr>hw_timestamp_ns := ubx_timestamp_ns frame, hw_payload_size := length payload\<rparr> in
       if length payload = 56 then RecordReady (record\<lparr>hw_layout := HL_kReserved\<rparr>)
       else
         let flags = payload ! 22 in
         RecordReady
           (record\<lparr>hw_layout := HL_kClassic, hw_noise_per_ms := Some (ReadLeU2 payload 16),
              hw_agc_count := Some (ReadLeU2 payload 18), hw_antenna_status := DecodeAntennaStatus (payload ! 20),
              hw_antenna_power := DecodeAntennaPower (payload ! 21), hw_flags := Some flags,
              hw_jamming_state := DecodeMonHwJammingState flags, hw_rtc_calibrated := (flags AND 1 \<noteq> 0),
              hw_safe_boot := (flags AND 2 \<noteq> 0), hw_xtal_absent := (flags AND 0x10 \<noteq> 0),
              hw_cw_suppression := Some (payload ! 45)\<rparr>))"

definition ParseUbxMonHw2 :: "UbxFrame \<Rightarrow> UbxMonHw2Record ParserResult" where
  "ParseUbxMonHw2 frame = guarded (\<lambda>c m. c = 0x0A \<and> m = 0x0B) frame (\<lambda>payload.
     if length payload \<noteq> 28 then InvalidData
     else RecordReady
       \<lparr>hw2_timestamp_ns = ubx_timestamp_ns frame, hw2_ofs_i = payload ! 0, hw2_mag_i = payload ! 1,
        hw2_ofs_q = payload ! 2, hw2_mag_q = payload ! 3, hw2_cfg_source = payload ! 4,
        hw2_low_level_configuration = ReadLeU4 payload 8, hw2_post_status = ReadLeU4 payload 20\<rparr>)"

definition mon_rf_block :: "bytes \<Rightarrow> nat \<Rightarrow> UbxMonRfBlock" where
  "mon_rf_block payload index =
     (let offset = 4 + index * 24 in
      \<lparr>rb_block_id = payload ! offset, rb_flags = payload ! (offset + 1),
       rb_jamming_state = DecodeMonRfJammingState (payload ! (offset + 1)), rb_antenna_status = payload ! (offset + 2),
       rb_antenna_power = payload ! (offset + 3), rb_post_status = ReadLeU4 payload (offset + 4),
       rb_noise_per_ms = ReadLeU2 payload (offset + 12), rb_agc_count = ReadLeU2 payload (offset + 14),
       rb_cw_suppression = payload ! (offset + 16)\<rparr>)"

definition ParseUbxMonRf :: "UbxFrame \<Rightarrow> UbxMonRfRecord ParserResult" where
  "ParseUbxMonRf frame = guarded (\<lambda>c m. c = 0x0A \<and> m = 0x38) frame (\<lambda>payload.
     if length payload < 4 then InvalidData
     else
       let version = payload ! 0;
           block_count = payload ! 1 in
       if version \<noteq> 0x00 then InvalidData
       else if length payload \<noteq> 4 + unat block_count * 24 then InvalidData
       else if unat block_count > 8 then Overflow
       else RecordReady
         \<lparr>rf_timestamp_ns = ubx_timestamp_ns frame, rf_version = version, rf_block_count = block_count,
          rf_blocks = map (mon_rf_block payload) [0..<unat block_count]\<rparr>)"

end
