(* ===== verification/Runtime_Aggregator.thy ===== *)
theory Runtime_Aggregator
  imports Runtime_State
begin

text \<open>
  \<open>GnssRuntimeAggregator\<close> (gnss_core/include/universal_gnss/gnss_runtime_aggregator.hpp): partial observations of many
  messages merged into one runtime state, field by field, by the timestamps of the updates.

  Abstractly every field is a cell, a version and a value, and an update is a request to it; the merge applies each
  request to its cell, and for dated updates the cells do not depend on the order in which the updates come.
\<close>

section \<open>Model\<close>

datatype FieldSlot =
    FS_kFix | FS_kLatitude | FS_kLongitude | FS_kAltitude | FS_kRtkMode | FS_kHorizontalAccuracy |
    FS_kVerticalAccuracy | FS_kHdop | FS_kVdop | FS_kSatellitesUsed | FS_kSatellitesVisible | FS_kSatellitesTracked |
    FS_kMeanCn0 | FS_kMaxCn0 | FS_kCorrectionAge | FS_kUtcDate | FS_kUtcTime | FS_kSpeedOverGround |
    FS_kCourseOverGround | FS_kHeading | FS_kHeadingAccuracy | FS_kDifferentialCorrections | FS_kCorrectionsActive |
    FS_kDualAntennaHeading | FS_kDualAntennaBaseline | FS_kBaselineAzimuth | FS_kBaselinePitch | FS_kBaselineLength |
    FS_kBaselineSolutionStatus | FS_kInterferenceState | FS_kJammingState

record FieldVersion =
  fv_seen :: bool
  fv_timestamp_ns :: "timestamp_ns option"

definition FieldVersion_default :: FieldVersion where
  "FieldVersion_default = \<lparr>fv_seen = False, fv_timestamp_ns = None\<rparr>"

record GnssRuntimeAggregator =
  ag_state :: GnssRuntimeState
  ag_versions :: "FieldSlot \<Rightarrow> FieldVersion"

definition aggregator_new :: GnssRuntimeAggregator where
  "aggregator_new = \<lparr>ag_state = RuntimeState_default, ag_versions = (\<lambda>_. FieldVersion_default)\<rparr>"

definition aggregator_Reset :: "GnssRuntimeAggregator \<Rightarrow> GnssRuntimeAggregator" where
  "aggregator_Reset a = a\<lparr>ag_state := RuntimeState_default, ag_versions := (\<lambda>_. FieldVersion_default)\<rparr>"

definition ShouldApply :: "(FieldSlot \<Rightarrow> FieldVersion) \<Rightarrow> FieldSlot \<Rightarrow> timestamp_ns option \<Rightarrow> bool" where
  "ShouldApply versions slot update_timestamp =
     (let current = versions slot in
      if \<not> fv_seen current then True
      else
        (case (update_timestamp, fv_timestamp_ns current) of
           (Some new_time, Some old_time) \<Rightarrow> new_time \<ge> old_time
         | _ \<Rightarrow> True))"

definition MarkApplied ::
  "FieldSlot \<Rightarrow> timestamp_ns option \<Rightarrow> (FieldSlot \<Rightarrow> FieldVersion) \<Rightarrow> FieldSlot \<Rightarrow> FieldVersion" where
  "MarkApplied slot update_timestamp versions =
     versions(slot := \<lparr>fv_seen = True, fv_timestamp_ns = update_timestamp\<rparr>)"

definition MergeFix :: "GnssRuntimeState \<Rightarrow> GnssRuntimeAggregator \<Rightarrow> GnssRuntimeAggregator \<times> bool" where
  "MergeFix update a =
     (let state = ag_state a in
      if rs_fix_type update = FT_kUnknown \<or> \<not> ShouldApply (ag_versions a) FS_kFix (rs_timestamp_ns update)
      then (a, False)
      else
        let dimension_only = rs_fix_type update = FT_k2dFix \<or> rs_fix_type update = FT_k3dFix;
            explicit_class = rs_fix_type state = FT_kDgps \<or> rs_fix_type state = FT_kRtkFloat
              \<or> rs_fix_type state = FT_kRtkFixed;
            rtk_authority = HasValueAvailable update GC_kRtkMode in
        if dimension_only \<and> explicit_class \<and> \<not> rtk_authority then (a, False)
        else
          (a\<lparr>ag_state := state\<lparr>rs_fix_valid := rs_fix_valid update, rs_fix_type := rs_fix_type update\<rparr>,
             ag_versions := MarkApplied FS_kFix (rs_timestamp_ns update) (ag_versions a)\<rparr>, True))"

text \<open>The two templates return whether they applied, the target and the versions.\<close>

definition MergeDirectField ::
  "GnssRuntimeState \<Rightarrow> FieldSlot \<Rightarrow> GnssDirectValue \<Rightarrow> 'a option \<Rightarrow> 'a option \<Rightarrow> (FieldSlot \<Rightarrow> FieldVersion)
     \<Rightarrow> bool \<times> 'a option \<times> (FieldSlot \<Rightarrow> FieldVersion)" where
  "MergeDirectField update slot direct source target versions =
     (let set_requested = source \<noteq> None;
          clear_requested = \<not> set_requested \<and> HasDirectValueFlag (rs_clear_direct_value_flags update) direct in
      if (\<not> set_requested \<and> \<not> clear_requested) \<or> \<not> ShouldApply versions slot (rs_timestamp_ns update)
      then (False, target, versions)
      else (True, if set_requested then source else None, MarkApplied slot (rs_timestamp_ns update) versions))"

definition MergeCapabilityField ::
  "timestamp_ns option \<Rightarrow> flags \<Rightarrow> flags \<Rightarrow> GnssCapability \<Rightarrow> FieldSlot \<Rightarrow> 'a option \<Rightarrow> 'a option
     \<Rightarrow> (FieldSlot \<Rightarrow> FieldVersion) \<Rightarrow> bool \<times> 'a option \<times> (FieldSlot \<Rightarrow> FieldVersion)" where
  "MergeCapabilityField update_timestamp set_flags clear_flags capability slot source target versions =
     (let set_requested = source \<noteq> None \<and> HasCapabilityFlag set_flags capability;
          clear_requested = \<not> set_requested \<and> HasCapabilityFlag clear_flags capability in
      if (\<not> set_requested \<and> \<not> clear_requested) \<or> \<not> ShouldApply versions slot update_timestamp
      then (False, target, versions)
      else (True, if set_requested then source else None, MarkApplied slot update_timestamp versions))"

text \<open>A call of a template on one field of the state, as \<open>Merge\<close> makes it; \<open>applied\<close> is accumulated.\<close>

type_synonym merging = "GnssRuntimeAggregator \<times> bool"

definition merge_direct ::
  "GnssDirectValue \<Rightarrow> FieldSlot \<Rightarrow> (GnssRuntimeState \<Rightarrow> 'a option) \<Rightarrow> 'a field_update \<Rightarrow> GnssRuntimeState \<Rightarrow> merging \<Rightarrow> merging" where
  "merge_direct direct slot field field_update update m =
     (let a = fst m;
          r = MergeDirectField update slot direct (field update) (field (ag_state a)) (ag_versions a) in
      (a\<lparr>ag_state := field_update (\<lambda>_. fst (snd r)) (ag_state a), ag_versions := snd (snd r)\<rparr>, fst r \<or> snd m))"

definition merge_capability ::
  "GnssCapability \<Rightarrow> FieldSlot \<Rightarrow> (GnssRuntimeState \<Rightarrow> 'a option) \<Rightarrow> 'a field_update \<Rightarrow> GnssRuntimeState \<Rightarrow> merging \<Rightarrow> merging" where
  "merge_capability capability slot field field_update update m =
     (let a = fst m;
          r = MergeCapabilityField (rs_timestamp_ns update)
                (rs_value_flags update AND rs_capability_flags update)
                (rs_clear_value_flags update AND rs_capability_flags update)
                capability slot (field update) (field (ag_state a)) (ag_versions a) in
      (a\<lparr>ag_state := field_update (\<lambda>_. fst (snd r)) (ag_state a), ag_versions := snd (snd r)\<rparr>, fst r \<or> snd m))"

definition merge_capabilities :: "GnssRuntimeState \<Rightarrow> GnssRuntimeAggregator \<Rightarrow> merging" where
  "merge_capabilities update a =
     (let merged = rs_capability_flags (ag_state a) OR rs_capability_flags update in
      if merged \<noteq> rs_capability_flags (ag_state a)
      then (a\<lparr>ag_state := (ag_state a)\<lparr>rs_capability_flags := merged\<rparr>\<rparr>, True) else (a, False))"

definition merge_fields :: "GnssRuntimeState \<Rightarrow> merging \<Rightarrow> merging" where
  "merge_fields update m =
     fold (\<lambda>f. f update)
       [merge_direct DV_kLatitude FS_kLatitude rs_latitude_deg rs_latitude_deg_update,
        merge_direct DV_kLongitude FS_kLongitude rs_longitude_deg rs_longitude_deg_update,
        merge_direct DV_kAltitude FS_kAltitude rs_altitude_m rs_altitude_m_update,
        merge_capability GC_kRtkMode FS_kRtkMode rs_rtk_mode rs_rtk_mode_update,
        merge_capability GC_kHorizontalAccuracy FS_kHorizontalAccuracy rs_horizontal_accuracy_m rs_horizontal_accuracy_m_update,
        merge_capability GC_kVerticalAccuracy FS_kVerticalAccuracy rs_vertical_accuracy_m rs_vertical_accuracy_m_update,
        merge_capability GC_kHdop FS_kHdop rs_hdop rs_hdop_update,
        merge_capability GC_kVdop FS_kVdop rs_vdop rs_vdop_update,
        merge_capability GC_kSatellitesUsed FS_kSatellitesUsed rs_satellites_used rs_satellites_used_update,
        merge_capability GC_kSatellitesVisible FS_kSatellitesVisible rs_satellites_visible rs_satellites_visible_update,
        merge_capability GC_kSatellitesTracked FS_kSatellitesTracked rs_satellites_tracked rs_satellites_tracked_update,
        merge_capability GC_kMeanCn0 FS_kMeanCn0 rs_mean_cn0_db_hz rs_mean_cn0_db_hz_update,
        merge_capability GC_kMaxCn0 FS_kMaxCn0 rs_max_cn0_db_hz rs_max_cn0_db_hz_update,
        merge_capability GC_kCorrectionAge FS_kCorrectionAge rs_correction_age_s rs_correction_age_s_update,
        merge_capability GC_kUtcDate FS_kUtcDate rs_utc_date rs_utc_date_update,
        merge_capability GC_kUtcTime FS_kUtcTime rs_utc_time rs_utc_time_update,
        merge_capability GC_kSpeedOverGround FS_kSpeedOverGround rs_speed_over_ground_m_s rs_speed_over_ground_m_s_update,
        merge_capability GC_kCourseOverGround FS_kCourseOverGround rs_course_over_ground_deg rs_course_over_ground_deg_update,
        merge_capability GC_kHeading FS_kHeading rs_heading_deg rs_heading_deg_update,
        merge_capability GC_kHeadingAccuracy FS_kHeadingAccuracy rs_heading_accuracy_deg rs_heading_accuracy_deg_update,
        merge_capability GC_kDifferentialCorrections FS_kDifferentialCorrections rs_differential_corrections rs_differential_corrections_update,
        merge_capability GC_kCorrectionsActive FS_kCorrectionsActive rs_corrections_active rs_corrections_active_update,
        merge_capability GC_kDualAntennaHeading FS_kDualAntennaHeading rs_dual_antenna_heading rs_dual_antenna_heading_update,
        merge_capability GC_kDualAntennaBaseline FS_kDualAntennaBaseline rs_dual_antenna_baseline rs_dual_antenna_baseline_update,
        merge_capability GC_kBaselineAzimuth FS_kBaselineAzimuth rs_baseline_azimuth_deg rs_baseline_azimuth_deg_update,
        merge_capability GC_kBaselinePitch FS_kBaselinePitch rs_baseline_pitch_deg rs_baseline_pitch_deg_update,
        merge_capability GC_kBaselineLength FS_kBaselineLength rs_baseline_length_m rs_baseline_length_m_update,
        merge_capability GC_kBaselineSolutionStatus FS_kBaselineSolutionStatus rs_baseline_solution_status rs_baseline_solution_status_update,
        merge_capability GC_kInterferenceState FS_kInterferenceState rs_interference_detected rs_interference_detected_update,
        merge_capability GC_kJammingState FS_kJammingState rs_jamming_detected rs_jamming_detected_update] m"

definition Merge :: "GnssRuntimeState \<Rightarrow> GnssRuntimeAggregator \<Rightarrow> GnssRuntimeAggregator \<times> bool" where
  "Merge update a =
     (let (a1, applied1) = merge_capabilities update a;
          (a2, applied2) = MergeFix update a1;
          (a3, applied) = merge_fields update (a2, applied2 \<or> applied1);
          state = ag_state a3;
          state1 = (if applied \<and> rs_timestamp_ns update \<noteq> None
                       \<and> (rs_timestamp_ns state = None \<or> the (rs_timestamp_ns update) \<ge> the (rs_timestamp_ns state))
                    then state\<lparr>rs_timestamp_ns := rs_timestamp_ns update\<rparr> else state) in
      (a3\<lparr>ag_state := RefreshValueFlagsFromFields state1\<rparr>, applied))"

section \<open>Fields as cells\<close>

text \<open>The values of all fields in one type, the field of a slot, and what an update asks of it: nothing, or a new
  content.\<close>

datatype field_value =
    FV_fix bool GnssFixType
  | FV_rtk_mode GnssRtkMode
  | FV_float float32
  | FV_count u16
  | FV_date GnssUtcDate
  | FV_time GnssUtcTime
  | FV_bool bool
  | FV_baseline GnssBaselineSolutionStatus

fun slot_value :: "GnssRuntimeState \<Rightarrow> FieldSlot \<Rightarrow> field_value option" where
  "slot_value s FS_kFix = Some (FV_fix (rs_fix_valid s) (rs_fix_type s))"
| "slot_value s FS_kLatitude = map_option FV_float (rs_latitude_deg s)"
| "slot_value s FS_kLongitude = map_option FV_float (rs_longitude_deg s)"
| "slot_value s FS_kAltitude = map_option FV_float (rs_altitude_m s)"
| "slot_value s FS_kRtkMode = map_option FV_rtk_mode (rs_rtk_mode s)"
| "slot_value s FS_kHorizontalAccuracy = map_option FV_float (rs_horizontal_accuracy_m s)"
| "slot_value s FS_kVerticalAccuracy = map_option FV_float (rs_vertical_accuracy_m s)"
| "slot_value s FS_kHdop = map_option FV_float (rs_hdop s)"
| "slot_value s FS_kVdop = map_option FV_float (rs_vdop s)"
| "slot_value s FS_kSatellitesUsed = map_option FV_count (rs_satellites_used s)"
| "slot_value s FS_kSatellitesVisible = map_option FV_count (rs_satellites_visible s)"
| "slot_value s FS_kSatellitesTracked = map_option FV_count (rs_satellites_tracked s)"
| "slot_value s FS_kMeanCn0 = map_option FV_float (rs_mean_cn0_db_hz s)"
| "slot_value s FS_kMaxCn0 = map_option FV_float (rs_max_cn0_db_hz s)"
| "slot_value s FS_kCorrectionAge = map_option FV_float (rs_correction_age_s s)"
| "slot_value s FS_kUtcDate = map_option FV_date (rs_utc_date s)"
| "slot_value s FS_kUtcTime = map_option FV_time (rs_utc_time s)"
| "slot_value s FS_kSpeedOverGround = map_option FV_float (rs_speed_over_ground_m_s s)"
| "slot_value s FS_kCourseOverGround = map_option FV_float (rs_course_over_ground_deg s)"
| "slot_value s FS_kHeading = map_option FV_float (rs_heading_deg s)"
| "slot_value s FS_kHeadingAccuracy = map_option FV_float (rs_heading_accuracy_deg s)"
| "slot_value s FS_kDifferentialCorrections = map_option FV_bool (rs_differential_corrections s)"
| "slot_value s FS_kCorrectionsActive = map_option FV_bool (rs_corrections_active s)"
| "slot_value s FS_kDualAntennaHeading = map_option FV_bool (rs_dual_antenna_heading s)"
| "slot_value s FS_kDualAntennaBaseline = map_option FV_bool (rs_dual_antenna_baseline s)"
| "slot_value s FS_kBaselineAzimuth = map_option FV_float (rs_baseline_azimuth_deg s)"
| "slot_value s FS_kBaselinePitch = map_option FV_float (rs_baseline_pitch_deg s)"
| "slot_value s FS_kBaselineLength = map_option FV_float (rs_baseline_length_m s)"
| "slot_value s FS_kBaselineSolutionStatus = map_option FV_baseline (rs_baseline_solution_status s)"
| "slot_value s FS_kInterferenceState = map_option FV_bool (rs_interference_detected s)"
| "slot_value s FS_kJammingState = map_option FV_bool (rs_jamming_detected s)"

datatype slot_kind = SK_fix | SK_direct GnssDirectValue | SK_capability GnssCapability

fun kind_of_slot :: "FieldSlot \<Rightarrow> slot_kind" where
  "kind_of_slot FS_kFix = SK_fix"
| "kind_of_slot FS_kLatitude = SK_direct DV_kLatitude"
| "kind_of_slot FS_kLongitude = SK_direct DV_kLongitude"
| "kind_of_slot FS_kAltitude = SK_direct DV_kAltitude"
| "kind_of_slot FS_kRtkMode = SK_capability GC_kRtkMode"
| "kind_of_slot FS_kHorizontalAccuracy = SK_capability GC_kHorizontalAccuracy"
| "kind_of_slot FS_kVerticalAccuracy = SK_capability GC_kVerticalAccuracy"
| "kind_of_slot FS_kHdop = SK_capability GC_kHdop"
| "kind_of_slot FS_kVdop = SK_capability GC_kVdop"
| "kind_of_slot FS_kSatellitesUsed = SK_capability GC_kSatellitesUsed"
| "kind_of_slot FS_kSatellitesVisible = SK_capability GC_kSatellitesVisible"
| "kind_of_slot FS_kSatellitesTracked = SK_capability GC_kSatellitesTracked"
| "kind_of_slot FS_kMeanCn0 = SK_capability GC_kMeanCn0"
| "kind_of_slot FS_kMaxCn0 = SK_capability GC_kMaxCn0"
| "kind_of_slot FS_kCorrectionAge = SK_capability GC_kCorrectionAge"
| "kind_of_slot FS_kUtcDate = SK_capability GC_kUtcDate"
| "kind_of_slot FS_kUtcTime = SK_capability GC_kUtcTime"
| "kind_of_slot FS_kSpeedOverGround = SK_capability GC_kSpeedOverGround"
| "kind_of_slot FS_kCourseOverGround = SK_capability GC_kCourseOverGround"
| "kind_of_slot FS_kHeading = SK_capability GC_kHeading"
| "kind_of_slot FS_kHeadingAccuracy = SK_capability GC_kHeadingAccuracy"
| "kind_of_slot FS_kDifferentialCorrections = SK_capability GC_kDifferentialCorrections"
| "kind_of_slot FS_kCorrectionsActive = SK_capability GC_kCorrectionsActive"
| "kind_of_slot FS_kDualAntennaHeading = SK_capability GC_kDualAntennaHeading"
| "kind_of_slot FS_kDualAntennaBaseline = SK_capability GC_kDualAntennaBaseline"
| "kind_of_slot FS_kBaselineAzimuth = SK_capability GC_kBaselineAzimuth"
| "kind_of_slot FS_kBaselinePitch = SK_capability GC_kBaselinePitch"
| "kind_of_slot FS_kBaselineLength = SK_capability GC_kBaselineLength"
| "kind_of_slot FS_kBaselineSolutionStatus = SK_capability GC_kBaselineSolutionStatus"
| "kind_of_slot FS_kInterferenceState = SK_capability GC_kInterferenceState"
| "kind_of_slot FS_kJammingState = SK_capability GC_kJammingState"

definition ask :: "'v option \<Rightarrow> bool \<Rightarrow> bool \<Rightarrow> 'v option option" where
  "ask source settable clearable =
     (if source \<noteq> None \<and> settable then Some source else if clearable then Some None else None)"

definition requested :: "GnssRuntimeState \<Rightarrow> FieldSlot \<Rightarrow> field_value option option" where
  "requested update slot =
     (case kind_of_slot slot of
        SK_fix \<Rightarrow> None
      | SK_direct direct \<Rightarrow>
          ask (slot_value update slot) True (HasDirectValueFlag (rs_clear_direct_value_flags update) direct)
      | SK_capability capability \<Rightarrow>
          ask (slot_value update slot)
            (HasCapabilityFlag (rs_value_flags update AND rs_capability_flags update) capability)
            (HasCapabilityFlag (rs_clear_value_flags update AND rs_capability_flags update) capability))"

type_synonym cell = "FieldVersion \<times> field_value option"

definition cell :: "GnssRuntimeAggregator \<Rightarrow> FieldSlot \<Rightarrow> cell" where
  "cell a slot = (ag_versions a slot, slot_value (ag_state a) slot)"

definition accepts :: "FieldVersion \<Rightarrow> timestamp_ns option \<Rightarrow> bool" where
  "accepts version time =
     (\<not> fv_seen version
      \<or> (case (time, fv_timestamp_ns version) of (Some new_time, Some old_time) \<Rightarrow> old_time \<le> new_time | _ \<Rightarrow> True))"

definition answer :: "timestamp_ns option \<Rightarrow> field_value option option \<Rightarrow> cell \<Rightarrow> cell" where
  "answer time request cl =
     (case request of
        None \<Rightarrow> cl
      | Some content \<Rightarrow>
          if accepts (fst cl) time then (\<lparr>fv_seen = True, fv_timestamp_ns = time\<rparr>, content) else cl)"

lemma ShouldApply_accepts: "ShouldApply versions slot time \<longleftrightarrow> accepts (versions slot) time"
  by (simp add: ShouldApply_def accepts_def Let_def)

text \<open>The part of the state that the merge of a field leaves alone.\<close>

definition frame_of :: "GnssRuntimeState \<Rightarrow> timestamp_ns option \<times> flags \<times> flags \<times> flags \<times> u8" where
  "frame_of s =
     (rs_timestamp_ns s, rs_capability_flags s, rs_value_flags s, rs_clear_value_flags s, rs_clear_direct_value_flags s)"

definition merges_slot :: "FieldSlot \<Rightarrow> (GnssRuntimeState \<Rightarrow> merging \<Rightarrow> merging) \<Rightarrow> bool" where
  "merges_slot slot f \<longleftrightarrow>
     (\<forall>update m.
        (\<forall>sl. cell (fst (f update m)) sl =
              (if sl = slot then answer (rs_timestamp_ns update) (requested update slot) (cell (fst m) slot)
               else cell (fst m) sl))
        \<and> frame_of (ag_state (fst (f update m))) = frame_of (ag_state (fst m)))"

text \<open>A field of the state: reading and writing it is reading and writing its slot, and nothing else.\<close>

locale runtime_field =
  fixes slot :: FieldSlot
    and field :: "GnssRuntimeState \<Rightarrow> 'a option"
    and field_update :: "'a field_update"
    and inj :: "'a \<Rightarrow> field_value"
  assumes field_slot: "slot_value s slot = map_option inj (field s)"
    and update_slot: "field (field_update g s) = g (field s)"
    and update_other: "sl \<noteq> slot \<Longrightarrow> slot_value (field_update g s) sl = slot_value s sl"
    and update_frame: "frame_of (field_update g s) = frame_of s"
begin

lemma merge_capability_slot:
  assumes "kind_of_slot slot = SK_capability capability"
  shows "merges_slot slot (merge_capability capability slot field field_update)"
  by (auto simp: merges_slot_def merge_capability_def MergeCapabilityField_def cell_def answer_def requested_def ask_def
      assms MarkApplied_def ShouldApply_accepts field_slot update_slot update_other update_frame Let_def)

lemma merge_direct_slot:
  assumes "kind_of_slot slot = SK_direct direct"
  shows "merges_slot slot (merge_direct direct slot field field_update)"
  by (auto simp: merges_slot_def merge_direct_def MergeDirectField_def cell_def answer_def requested_def ask_def
      assms MarkApplied_def ShouldApply_accepts field_slot update_slot update_other update_frame Let_def)

end

lemmas slot_exhaust = FieldSlot.exhaust

interpretation latitude_deg: runtime_field FS_kLatitude rs_latitude_deg rs_latitude_deg_update FV_float
  by unfold_locales (simp_all add: frame_of_def, case_tac sl, simp_all)

interpretation longitude_deg: runtime_field FS_kLongitude rs_longitude_deg rs_longitude_deg_update FV_float
  by unfold_locales (simp_all add: frame_of_def, case_tac sl, simp_all)

interpretation altitude_m: runtime_field FS_kAltitude rs_altitude_m rs_altitude_m_update FV_float
  by unfold_locales (simp_all add: frame_of_def, case_tac sl, simp_all)

interpretation rtk_mode: runtime_field FS_kRtkMode rs_rtk_mode rs_rtk_mode_update FV_rtk_mode
  by unfold_locales (simp_all add: frame_of_def, case_tac sl, simp_all)

interpretation horizontal_accuracy_m: runtime_field FS_kHorizontalAccuracy rs_horizontal_accuracy_m rs_horizontal_accuracy_m_update FV_float
  by unfold_locales (simp_all add: frame_of_def, case_tac sl, simp_all)

interpretation vertical_accuracy_m: runtime_field FS_kVerticalAccuracy rs_vertical_accuracy_m rs_vertical_accuracy_m_update FV_float
  by unfold_locales (simp_all add: frame_of_def, case_tac sl, simp_all)

interpretation hdop: runtime_field FS_kHdop rs_hdop rs_hdop_update FV_float
  by unfold_locales (simp_all add: frame_of_def, case_tac sl, simp_all)

interpretation vdop: runtime_field FS_kVdop rs_vdop rs_vdop_update FV_float
  by unfold_locales (simp_all add: frame_of_def, case_tac sl, simp_all)

interpretation satellites_used: runtime_field FS_kSatellitesUsed rs_satellites_used rs_satellites_used_update FV_count
  by unfold_locales (simp_all add: frame_of_def, case_tac sl, simp_all)

interpretation satellites_visible: runtime_field FS_kSatellitesVisible rs_satellites_visible rs_satellites_visible_update FV_count
  by unfold_locales (simp_all add: frame_of_def, case_tac sl, simp_all)

interpretation satellites_tracked: runtime_field FS_kSatellitesTracked rs_satellites_tracked rs_satellites_tracked_update FV_count
  by unfold_locales (simp_all add: frame_of_def, case_tac sl, simp_all)

interpretation mean_cn0_db_hz: runtime_field FS_kMeanCn0 rs_mean_cn0_db_hz rs_mean_cn0_db_hz_update FV_float
  by unfold_locales (simp_all add: frame_of_def, case_tac sl, simp_all)

interpretation max_cn0_db_hz: runtime_field FS_kMaxCn0 rs_max_cn0_db_hz rs_max_cn0_db_hz_update FV_float
  by unfold_locales (simp_all add: frame_of_def, case_tac sl, simp_all)

interpretation correction_age_s: runtime_field FS_kCorrectionAge rs_correction_age_s rs_correction_age_s_update FV_float
  by unfold_locales (simp_all add: frame_of_def, case_tac sl, simp_all)

interpretation utc_date: runtime_field FS_kUtcDate rs_utc_date rs_utc_date_update FV_date
  by unfold_locales (simp_all add: frame_of_def, case_tac sl, simp_all)

interpretation utc_time: runtime_field FS_kUtcTime rs_utc_time rs_utc_time_update FV_time
  by unfold_locales (simp_all add: frame_of_def, case_tac sl, simp_all)

interpretation speed_over_ground_m_s: runtime_field FS_kSpeedOverGround rs_speed_over_ground_m_s rs_speed_over_ground_m_s_update FV_float
  by unfold_locales (simp_all add: frame_of_def, case_tac sl, simp_all)

interpretation course_over_ground_deg: runtime_field FS_kCourseOverGround rs_course_over_ground_deg rs_course_over_ground_deg_update FV_float
  by unfold_locales (simp_all add: frame_of_def, case_tac sl, simp_all)

interpretation heading_deg: runtime_field FS_kHeading rs_heading_deg rs_heading_deg_update FV_float
  by unfold_locales (simp_all add: frame_of_def, case_tac sl, simp_all)

interpretation heading_accuracy_deg: runtime_field FS_kHeadingAccuracy rs_heading_accuracy_deg rs_heading_accuracy_deg_update FV_float
  by unfold_locales (simp_all add: frame_of_def, case_tac sl, simp_all)

interpretation differential_corrections: runtime_field FS_kDifferentialCorrections rs_differential_corrections rs_differential_corrections_update FV_bool
  by unfold_locales (simp_all add: frame_of_def, case_tac sl, simp_all)

interpretation corrections_active: runtime_field FS_kCorrectionsActive rs_corrections_active rs_corrections_active_update FV_bool
  by unfold_locales (simp_all add: frame_of_def, case_tac sl, simp_all)

interpretation dual_antenna_heading: runtime_field FS_kDualAntennaHeading rs_dual_antenna_heading rs_dual_antenna_heading_update FV_bool
  by unfold_locales (simp_all add: frame_of_def, case_tac sl, simp_all)

interpretation dual_antenna_baseline: runtime_field FS_kDualAntennaBaseline rs_dual_antenna_baseline rs_dual_antenna_baseline_update FV_bool
  by unfold_locales (simp_all add: frame_of_def, case_tac sl, simp_all)

interpretation baseline_azimuth_deg: runtime_field FS_kBaselineAzimuth rs_baseline_azimuth_deg rs_baseline_azimuth_deg_update FV_float
  by unfold_locales (simp_all add: frame_of_def, case_tac sl, simp_all)

interpretation baseline_pitch_deg: runtime_field FS_kBaselinePitch rs_baseline_pitch_deg rs_baseline_pitch_deg_update FV_float
  by unfold_locales (simp_all add: frame_of_def, case_tac sl, simp_all)

interpretation baseline_length_m: runtime_field FS_kBaselineLength rs_baseline_length_m rs_baseline_length_m_update FV_float
  by unfold_locales (simp_all add: frame_of_def, case_tac sl, simp_all)

interpretation baseline_solution_status: runtime_field FS_kBaselineSolutionStatus rs_baseline_solution_status rs_baseline_solution_status_update FV_baseline
  by unfold_locales (simp_all add: frame_of_def, case_tac sl, simp_all)

interpretation interference_detected: runtime_field FS_kInterferenceState rs_interference_detected rs_interference_detected_update FV_bool
  by unfold_locales (simp_all add: frame_of_def, case_tac sl, simp_all)

interpretation jamming_detected: runtime_field FS_kJammingState rs_jamming_detected rs_jamming_detected_update FV_bool
  by unfold_locales (simp_all add: frame_of_def, case_tac sl, simp_all)

end
