(* ===== verification/Aggregator_Cells.thy ===== *)
theory Aggregator_Cells
  imports Runtime_Aggregator "HOL-Library.Multiset"
begin

text \<open>
  The runtime aggregator refines a table of cells: every field is answered on its own, by the time of the update.
\<close>

text \<open>Every call of \<open>Merge\<close> has the slot of its field.\<close>

lemma merge_fields_slots:
  "list_all2 merges_slot
     [FS_kLatitude,
      FS_kLongitude,
      FS_kAltitude,
      FS_kRtkMode,
      FS_kHorizontalAccuracy,
      FS_kVerticalAccuracy,
      FS_kHdop,
      FS_kVdop,
      FS_kSatellitesUsed,
      FS_kSatellitesVisible,
      FS_kSatellitesTracked,
      FS_kMeanCn0,
      FS_kMaxCn0,
      FS_kCorrectionAge,
      FS_kUtcDate,
      FS_kUtcTime,
      FS_kSpeedOverGround,
      FS_kCourseOverGround,
      FS_kHeading,
      FS_kHeadingAccuracy,
      FS_kDifferentialCorrections,
      FS_kCorrectionsActive,
      FS_kDualAntennaHeading,
      FS_kDualAntennaBaseline,
      FS_kBaselineAzimuth,
      FS_kBaselinePitch,
      FS_kBaselineLength,
      FS_kBaselineSolutionStatus,
      FS_kInterferenceState,
      FS_kJammingState]
     [merge_direct DV_kLatitude FS_kLatitude rs_latitude_deg rs_latitude_deg_update,
      merge_direct DV_kLongitude FS_kLongitude rs_longitude_deg rs_longitude_deg_update,
      merge_direct DV_kAltitude FS_kAltitude rs_altitude_m rs_altitude_m_update,
      merge_capability GC_kRtkMode FS_kRtkMode rs_rtk_mode rs_rtk_mode_update,
      merge_capability GC_kHorizontalAccuracy FS_kHorizontalAccuracy rs_horizontal_accuracy_m rs_horizontal_accuracy_m_update,
      merge_capability GC_kVerticalAccuracy FS_kVerticalAccuracy rs_vertical_accuracy_m rs_vertical_accuracy_m_update,
      merge_capability GC_kHdop FS_kHdop rs_hdop rs_hdop_update,
      merge_capability GC_kVdop FS_kVdop rs_vdop rs_vdop_update,
      merge_capability GC_kSatellitesUsed FS_kSatellitesUsed rs_satellites_used rs_satellites_used_update,
      merge_capability GC_kSatellitesVisible FS_kSatellitesVisible rs_satellites_visible rs_satellites_visible_update,
      merge_capability GC_kSatellitesTracked FS_kSatellitesTracked rs_satellites_tracked rs_satellites_tracked_update,
      merge_capability GC_kMeanCn0 FS_kMeanCn0 rs_mean_cn0_db_hz rs_mean_cn0_db_hz_update,
      merge_capability GC_kMaxCn0 FS_kMaxCn0 rs_max_cn0_db_hz rs_max_cn0_db_hz_update,
      merge_capability GC_kCorrectionAge FS_kCorrectionAge rs_correction_age_s rs_correction_age_s_update,
      merge_capability GC_kUtcDate FS_kUtcDate rs_utc_date rs_utc_date_update,
      merge_capability GC_kUtcTime FS_kUtcTime rs_utc_time rs_utc_time_update,
      merge_capability GC_kSpeedOverGround FS_kSpeedOverGround rs_speed_over_ground_m_s rs_speed_over_ground_m_s_update,
      merge_capability GC_kCourseOverGround FS_kCourseOverGround rs_course_over_ground_deg rs_course_over_ground_deg_update,
      merge_capability GC_kHeading FS_kHeading rs_heading_deg rs_heading_deg_update,
      merge_capability GC_kHeadingAccuracy FS_kHeadingAccuracy rs_heading_accuracy_deg rs_heading_accuracy_deg_update,
      merge_capability GC_kDifferentialCorrections FS_kDifferentialCorrections rs_differential_corrections rs_differential_corrections_update,
      merge_capability GC_kCorrectionsActive FS_kCorrectionsActive rs_corrections_active rs_corrections_active_update,
      merge_capability GC_kDualAntennaHeading FS_kDualAntennaHeading rs_dual_antenna_heading rs_dual_antenna_heading_update,
      merge_capability GC_kDualAntennaBaseline FS_kDualAntennaBaseline rs_dual_antenna_baseline rs_dual_antenna_baseline_update,
      merge_capability GC_kBaselineAzimuth FS_kBaselineAzimuth rs_baseline_azimuth_deg rs_baseline_azimuth_deg_update,
      merge_capability GC_kBaselinePitch FS_kBaselinePitch rs_baseline_pitch_deg rs_baseline_pitch_deg_update,
      merge_capability GC_kBaselineLength FS_kBaselineLength rs_baseline_length_m rs_baseline_length_m_update,
      merge_capability GC_kBaselineSolutionStatus FS_kBaselineSolutionStatus rs_baseline_solution_status rs_baseline_solution_status_update,
      merge_capability GC_kInterferenceState FS_kInterferenceState rs_interference_detected rs_interference_detected_update,
      merge_capability GC_kJammingState FS_kJammingState rs_jamming_detected rs_jamming_detected_update]"
  by (intro list_all2_Cons [THEN iffD2] conjI list.rel_intros;
      (rule latitude_deg.merge_direct_slot longitude_deg.merge_direct_slot altitude_m.merge_direct_slot
        rtk_mode.merge_capability_slot horizontal_accuracy_m.merge_capability_slot
        vertical_accuracy_m.merge_capability_slot hdop.merge_capability_slot vdop.merge_capability_slot
        satellites_used.merge_capability_slot satellites_visible.merge_capability_slot
        satellites_tracked.merge_capability_slot mean_cn0_db_hz.merge_capability_slot
        max_cn0_db_hz.merge_capability_slot correction_age_s.merge_capability_slot utc_date.merge_capability_slot
        utc_time.merge_capability_slot speed_over_ground_m_s.merge_capability_slot
        course_over_ground_deg.merge_capability_slot heading_deg.merge_capability_slot
        heading_accuracy_deg.merge_capability_slot differential_corrections.merge_capability_slot
        corrections_active.merge_capability_slot dual_antenna_heading.merge_capability_slot
        dual_antenna_baseline.merge_capability_slot baseline_azimuth_deg.merge_capability_slot
        baseline_pitch_deg.merge_capability_slot baseline_length_m.merge_capability_slot
        baseline_solution_status.merge_capability_slot interference_detected.merge_capability_slot
        jamming_detected.merge_capability_slot); simp)

section \<open>Merging is answering every request\<close>

lemma merges_slots_fold:
  "\<lbrakk>list_all2 merges_slot slots fs; distinct slots\<rbrakk> \<Longrightarrow>
     cell (fst (fold (\<lambda>f. f update) fs m)) sl =
       (if sl \<in> set slots then answer (rs_timestamp_ns update) (requested update sl) (cell (fst m) sl)
        else cell (fst m) sl)
     \<and> frame_of (ag_state (fst (fold (\<lambda>f. f update) fs m))) = frame_of (ag_state (fst m))"
proof (induction slots fs arbitrary: m rule: list_all2_induct)
  case Nil
  then show ?case by simp
next
  case (Cons slot slots f fs)
  from Cons.hyps(1) have step: "cell (fst (f update m)) sl =
      (if sl = slot then answer (rs_timestamp_ns update) (requested update slot) (cell (fst m) slot) else cell (fst m) sl)"
    "frame_of (ag_state (fst (f update m))) = frame_of (ag_state (fst m))" for sl
    unfolding merges_slot_def by blast+
  from Cons.prems Cons.IH [of "f update m"] show ?case by (auto simp: step)
qed

lemma merge_fields_cell:
  "cell (fst (merge_fields update m)) sl =
     (if sl = FS_kFix then cell (fst m) sl
      else answer (rs_timestamp_ns update) (requested update sl) (cell (fst m) sl))"
  "frame_of (ag_state (fst (merge_fields update m))) = frame_of (ag_state (fst m))"
proof -
  let ?slots =
    "[FS_kLatitude, FS_kLongitude, FS_kAltitude, FS_kRtkMode, FS_kHorizontalAccuracy, FS_kVerticalAccuracy, FS_kHdop,
    FS_kVdop, FS_kSatellitesUsed, FS_kSatellitesVisible, FS_kSatellitesTracked, FS_kMeanCn0, FS_kMaxCn0,
    FS_kCorrectionAge, FS_kUtcDate, FS_kUtcTime, FS_kSpeedOverGround, FS_kCourseOverGround, FS_kHeading,
    FS_kHeadingAccuracy, FS_kDifferentialCorrections, FS_kCorrectionsActive, FS_kDualAntennaHeading,
    FS_kDualAntennaBaseline, FS_kBaselineAzimuth, FS_kBaselinePitch, FS_kBaselineLength, FS_kBaselineSolutionStatus,
    FS_kInterferenceState, FS_kJammingState]"
  have slots: "sl \<in> set ?slots \<longleftrightarrow> sl \<noteq> FS_kFix" by (cases sl) simp_all
  have "distinct ?slots" by simp
  note fold = merges_slots_fold [OF _ this, where m = m and update = update and sl = sl, unfolded slots]
  show "cell (fst (merge_fields update m)) sl =
     (if sl = FS_kFix then cell (fst m) sl
      else answer (rs_timestamp_ns update) (requested update sl) (cell (fst m) sl))"
    unfolding merge_fields_def using fold [OF merge_fields_slots] by simp
  show "frame_of (ag_state (fst (merge_fields update m))) = frame_of (ag_state (fst m))"
    unfolding merge_fields_def using fold [OF merge_fields_slots] by simp
qed

lemma MergeFix_frame:
  "frame_of (ag_state (fst (MergeFix update a))) = frame_of (ag_state a)"
  "sl \<noteq> FS_kFix \<Longrightarrow> cell (fst (MergeFix update a)) sl = cell a sl"
  by (simp_all add: MergeFix_def Let_def frame_of_def) (cases sl; simp add: cell_def MarkApplied_def)

lemma merge_capabilities_cell:
  "cell (fst (merge_capabilities update a)) sl = cell a sl"
  "frame_of (ag_state (fst (merge_capabilities update a))) =
     frame_of ((ag_state a)\<lparr>rs_capability_flags := rs_capability_flags (ag_state a) OR rs_capability_flags update\<rparr>)"
  by (cases sl; simp add: merge_capabilities_def cell_def Let_def)
    (simp add: merge_capabilities_def frame_of_def Let_def)

lemma slot_value_frame:
  "slot_value (RefreshValueFlagsFromFields s) sl = slot_value s sl"
  "slot_value (s\<lparr>rs_timestamp_ns := t\<rparr>) sl = slot_value s sl"
  by (cases sl; simp add: RefreshValueFlagsFromFields_def Let_def)+


definition fix_of :: "GnssRuntimeState \<Rightarrow> bool \<times> GnssFixType" where
  "fix_of s = (rs_fix_valid s, rs_fix_type s)"


lemma Merge_unfold:
  "fst (Merge update a) =
     (let a3 = fst (merge_fields update (fst (MergeFix update (fst (merge_capabilities update a))),
                 snd (MergeFix update (fst (merge_capabilities update a))) \<or> snd (merge_capabilities update a)));
          t = rs_timestamp_ns (ag_state (fst (Merge update a))) in
      a3\<lparr>ag_state := RefreshValueFlagsFromFields ((ag_state a3)\<lparr>rs_timestamp_ns := t\<rparr>)\<rparr>)"
  by (auto simp: Merge_def RefreshValueFlagsFromFields_def Let_def split: prod.split)

lemma Merge_cell_fields:
  "cell (fst (Merge update a)) sl =
     cell (fst (merge_fields update (fst (MergeFix update (fst (merge_capabilities update a))),
       snd (MergeFix update (fst (merge_capabilities update a))) \<or> snd (merge_capabilities update a)))) sl"
  by (subst Merge_unfold) (simp add: Let_def cell_def slot_value_frame)

lemma Merge_cell:
  assumes "sl \<noteq> FS_kFix"
  shows "cell (fst (Merge update a)) sl = answer (rs_timestamp_ns update) (requested update sl) (cell a sl)"
  by (simp add: Merge_cell_fields merge_fields_cell(1) MergeFix_frame(2) merge_capabilities_cell(1) assms)

text \<open>The slot of a capability, and the flags computed from the fields.\<close>

fun cap_slot :: "GnssCapability \<Rightarrow> FieldSlot" where
  "cap_slot GC_kRtkMode = FS_kRtkMode"
| "cap_slot GC_kHorizontalAccuracy = FS_kHorizontalAccuracy"
| "cap_slot GC_kVerticalAccuracy = FS_kVerticalAccuracy"
| "cap_slot GC_kHdop = FS_kHdop"
| "cap_slot GC_kVdop = FS_kVdop"
| "cap_slot GC_kSatellitesUsed = FS_kSatellitesUsed"
| "cap_slot GC_kSatellitesVisible = FS_kSatellitesVisible"
| "cap_slot GC_kSatellitesTracked = FS_kSatellitesTracked"
| "cap_slot GC_kMeanCn0 = FS_kMeanCn0"
| "cap_slot GC_kMaxCn0 = FS_kMaxCn0"
| "cap_slot GC_kCorrectionAge = FS_kCorrectionAge"
| "cap_slot GC_kUtcDate = FS_kUtcDate"
| "cap_slot GC_kUtcTime = FS_kUtcTime"
| "cap_slot GC_kSpeedOverGround = FS_kSpeedOverGround"
| "cap_slot GC_kCourseOverGround = FS_kCourseOverGround"
| "cap_slot GC_kHeading = FS_kHeading"
| "cap_slot GC_kHeadingAccuracy = FS_kHeadingAccuracy"
| "cap_slot GC_kDifferentialCorrections = FS_kDifferentialCorrections"
| "cap_slot GC_kCorrectionsActive = FS_kCorrectionsActive"
| "cap_slot GC_kDualAntennaHeading = FS_kDualAntennaHeading"
| "cap_slot GC_kDualAntennaBaseline = FS_kDualAntennaBaseline"
| "cap_slot GC_kBaselineAzimuth = FS_kBaselineAzimuth"
| "cap_slot GC_kBaselinePitch = FS_kBaselinePitch"
| "cap_slot GC_kBaselineLength = FS_kBaselineLength"
| "cap_slot GC_kBaselineSolutionStatus = FS_kBaselineSolutionStatus"
| "cap_slot GC_kInterferenceState = FS_kInterferenceState"
| "cap_slot GC_kJammingState = FS_kJammingState"


lemma field_present_slot: "field_present s c \<longleftrightarrow> slot_value s (cap_slot c) \<noteq> None"
  by (cases c) simp_all

lemma cap_slot_field [simp]: "cap_slot c \<noteq> FS_kFix" "kind_of_slot (cap_slot c) = SK_capability c"
  by (cases c; simp)+

lemma bit_set_flags:
  "bit (foldl (\<lambda>flags c. if P c then SetCapabilityFlag flags c else flags) flags cs) n
     \<longleftrightarrow> bit flags n \<or> (\<exists>c \<in> set cs. P c \<and> n = cap_bit c)"
  by (induction cs arbitrary: flags) (auto simp: SetCapabilityFlag_def bit_simps bit_ToFlag_iff)

lemma field_order_all: "c \<in> set field_order"
  by (cases c) (simp_all add: field_order_def)

lemma bit_ComputeValueFlags:
  "bit (ComputeValueFlagsFromFields s) n \<longleftrightarrow> (\<exists>c. n = cap_bit c \<and> HasCapability s c \<and> slot_value s (cap_slot c) \<noteq> None)"
  by (auto simp: ComputeValueFlagsFromFields_def bit_set_flags field_order_all field_present_slot)

lemma ComputeValueFlags_cong:
  assumes "rs_capability_flags s = rs_capability_flags s1" and "\<And>sl. sl \<noteq> FS_kFix \<Longrightarrow> slot_value s sl = slot_value s1 sl"
  shows "ComputeValueFlagsFromFields s = ComputeValueFlagsFromFields s1"
  by (rule bit_word_eqI) (simp add: bit_ComputeValueFlags HasCapability_def assms)

lemma Merge_flags:
  "rs_capability_flags (ag_state (fst (Merge update a))) =
     rs_capability_flags (ag_state a) OR rs_capability_flags update"
  "rs_value_flags (ag_state (fst (Merge update a))) = ComputeValueFlagsFromFields (ag_state (fst (Merge update a)))"
  "rs_clear_value_flags (ag_state (fst (Merge update a))) =
     rs_clear_value_flags (ag_state a) AND NOT (rs_value_flags (ag_state (fst (Merge update a))))"
  "rs_clear_direct_value_flags (ag_state (fst (Merge update a))) = rs_clear_direct_value_flags (ag_state a)"
proof -
  define m where "m = (fst (MergeFix update (fst (merge_capabilities update a))),
    snd (MergeFix update (fst (merge_capabilities update a))) \<or> snd (merge_capabilities update a))"
  define s where "s = (ag_state (fst (merge_fields update m)))\<lparr>rs_timestamp_ns := rs_timestamp_ns (ag_state (fst (Merge update a)))\<rparr>"
  have merged: "ag_state (fst (Merge update a)) = RefreshValueFlagsFromFields s"
    by (subst Merge_unfold) (simp add: Let_def s_def m_def)
  have frame: "frame_of (ag_state (fst (merge_fields update m))) =
      frame_of ((ag_state a)\<lparr>rs_capability_flags := rs_capability_flags (ag_state a) OR rs_capability_flags update\<rparr>)"
    unfolding merge_fields_cell(2) m_def by (simp add: MergeFix_frame(1) merge_capabilities_cell(2))
  have s: "rs_capability_flags s = rs_capability_flags (ag_state a) OR rs_capability_flags update"
    "rs_clear_value_flags s = rs_clear_value_flags (ag_state a)"
    "rs_clear_direct_value_flags s = rs_clear_direct_value_flags (ag_state a)"
    using frame by (simp_all add: frame_of_def s_def)
  have "ComputeValueFlagsFromFields (RefreshValueFlagsFromFields s) = ComputeValueFlagsFromFields s"
    by (rule ComputeValueFlags_cong) (simp_all add: slot_value_frame, simp add: RefreshValueFlagsFromFields_def Let_def)
  then show "rs_capability_flags (ag_state (fst (Merge update a))) =
      rs_capability_flags (ag_state a) OR rs_capability_flags update"
    "rs_value_flags (ag_state (fst (Merge update a))) = ComputeValueFlagsFromFields (ag_state (fst (Merge update a)))"
    "rs_clear_value_flags (ag_state (fst (Merge update a))) =
      rs_clear_value_flags (ag_state a) AND NOT (rs_value_flags (ag_state (fst (Merge update a))))"
    "rs_clear_direct_value_flags (ag_state (fst (Merge update a))) = rs_clear_direct_value_flags (ag_state a)"
    by (simp_all add: merged) (simp_all add: RefreshValueFlagsFromFields_def Let_def s)
qed

lemma Merge_fix:
  "fix_of (ag_state (fst (Merge update a))) =
     (if rs_fix_type update = FT_kUnknown \<or> \<not> accepts (ag_versions a FS_kFix) (rs_timestamp_ns update)
         \<or> rs_fix_type update \<in> {FT_k2dFix, FT_k3dFix}
           \<and> rs_fix_type (ag_state a) \<in> {FT_kDgps, FT_kRtkFloat, FT_kRtkFixed}
           \<and> \<not> HasValueAvailable update GC_kRtkMode
      then fix_of (ag_state a) else fix_of update)"
proof -
  let ?m = "(fst (MergeFix update (fst (merge_capabilities update a))),
    snd (MergeFix update (fst (merge_capabilities update a))) \<or> snd (merge_capabilities update a))"
  have "cell (fst (Merge update a)) FS_kFix = cell (fst ?m) FS_kFix"
    by (simp add: Merge_cell_fields merge_fields_cell(1))
  then have "fix_of (ag_state (fst (Merge update a))) = fix_of (ag_state (fst ?m))"
    by (simp add: cell_def fix_of_def)
  moreover have "fix_of (ag_state (fst (merge_capabilities update a))) = fix_of (ag_state a)"
    "ag_versions (fst (merge_capabilities update a)) = ag_versions a"
    by (simp_all add: merge_capabilities_def fix_of_def Let_def)
  ultimately show ?thesis by (auto simp: MergeFix_def fix_of_def ShouldApply_accepts Let_def)
qed




section \<open>Order of arrival\<close>



definition merge_all :: "GnssRuntimeState list \<Rightarrow> GnssRuntimeAggregator \<Rightarrow> GnssRuntimeAggregator" where
  "merge_all updates a = fold (\<lambda>update a. fst (Merge update a)) updates a"

lemma merge_all_simps [simp]:
  "merge_all [] a = a" "merge_all (update # updates) a = merge_all updates (fst (Merge update a))"
  by (simp_all add: merge_all_def)




section \<open>Coherence\<close>

text \<open>What the aggregator shows: a value exactly for the capabilities its flags claim, and no pending clear.\<close>

definition coherent :: "GnssRuntimeState \<Rightarrow> bool" where
  "coherent s \<longleftrightarrow>
     (\<forall>c. HasValueAvailable s c \<longleftrightarrow> slot_value s (cap_slot c) \<noteq> None)
     \<and> (\<forall>c. HasValueAvailable s c \<longrightarrow> HasCapability s c)
     \<and> rs_value_flags s = ComputeValueFlagsFromFields s
     \<and> rs_clear_value_flags s = 0 \<and> rs_clear_direct_value_flags s = 0"

lemma HasCapability_Merge:
  "HasCapability (ag_state (fst (Merge update a))) c \<longleftrightarrow> HasCapability (ag_state a) c \<or> HasCapability update c"
  by (simp add: HasCapability_def Merge_flags)

lemma requested_capability:
  "requested update (cap_slot c) = Some content \<Longrightarrow> HasCapability update c"
  by (auto simp: requested_def ask_def HasCapability_def split: if_splits)

lemma Merge_coherent:
  assumes "coherent (ag_state a)"
  shows "coherent (ag_state (fst (Merge update a)))"
proof -
  let ?s = "ag_state (fst (Merge update a))"
  have present: "HasCapability ?s c" if "slot_value ?s (cap_slot c) \<noteq> None" for c
  proof (cases "requested update (cap_slot c)")
    case None
    with Merge_cell [of "cap_slot c" update a] have "slot_value ?s (cap_slot c) = slot_value (ag_state a) (cap_slot c)"
      by (simp add: cell_def answer_def)
    with assms that show ?thesis by (simp add: coherent_def HasCapability_Merge)
  next
    case (Some content)
    then show ?thesis by (simp add: HasCapability_Merge requested_capability)
  qed
  have "HasValueAvailable ?s c \<longleftrightarrow> HasCapability ?s c \<and> slot_value ?s (cap_slot c) \<noteq> None" for c
    unfolding HasValueAvailable_def HasCapabilityFlag_bit Merge_flags(2) bit_ComputeValueFlags by auto
  with present have "HasValueAvailable ?s c \<longleftrightarrow> slot_value ?s (cap_slot c) \<noteq> None"
    "HasValueAvailable ?s c \<longrightarrow> HasCapability ?s c" for c
    by blast+
  then show ?thesis using assms Merge_flags(3,4) [of update a] Merge_flags(2) [of update a]
    unfolding coherent_def by simp
qed

lemma coherent_invariant:
  assumes "coherent s"
  shows "HasValidCapabilityValueInvariant s"
proof -
  have "rs_value_flags s AND NOT (rs_capability_flags s) = 0"
  proof (rule bit_word_eqI)
    fix n
    show "bit (rs_value_flags s AND NOT (rs_capability_flags s)) n = bit (0 :: flags) n"
      using assms unfolding coherent_def
      by (auto simp: bit_simps bit_ComputeValueFlags HasCapability_def HasCapabilityFlag_bit)
  qed
  with assms show ?thesis by (simp add: HasValidCapabilityValueInvariant_def coherent_def)
qed

lemma coherent_new: "coherent (ag_state aggregator_new)"
proof -
  have "slot_value RuntimeState_default (cap_slot c) = None" for c
    by (cases c) (simp_all add: RuntimeState_default_def)
  moreover have "ComputeValueFlagsFromFields RuntimeState_default = 0"
    by (rule bit_word_eqI) (simp add: bit_ComputeValueFlags calculation)
  ultimately show ?thesis
    by (simp add: coherent_def aggregator_new_def HasValueAvailable_def) (simp add: RuntimeState_default_def)
qed

section \<open>Properties\<close>

text \<open>C2. The aggregator refines a table of independent cells.  One merge answers, for every field but the fix, the
  update's request of that field against that field's version alone: a value the update holds and declares, a clear it
  declares, or nothing; a request older than the version of the field is ignored.  The fix is replaced unless the
  update's is unknown, older, or a mere dimension against a correction class without the authority of an RTK mode.\<close>

theorem merge_refines_cells:
  "(sl \<noteq> FS_kFix \<longrightarrow>
      cell (fst (Merge update a)) sl = answer (rs_timestamp_ns update) (requested update sl) (cell a sl))
   \<and> fix_of (ag_state (fst (Merge update a))) =
      (if rs_fix_type update = FT_kUnknown \<or> \<not> accepts (ag_versions a FS_kFix) (rs_timestamp_ns update)
          \<or> rs_fix_type update \<in> {FT_k2dFix, FT_k3dFix}
            \<and> rs_fix_type (ag_state a) \<in> {FT_kDgps, FT_kRtkFloat, FT_kRtkFixed}
            \<and> \<not> HasValueAvailable update GC_kRtkMode
       then fix_of (ag_state a) else fix_of update)"
  using Merge_cell [of sl update a] Merge_fix [of update a] by blast

text \<open>A position at time 2 that an older one, from time 1, does not replace.\<close>

definition dated_position :: "timestamp_ns \<Rightarrow> rat \<Rightarrow> GnssRuntimeState" where
  "dated_position t degrees =
     RuntimeState_default\<lparr>rs_timestamp_ns := Some t, rs_latitude_deg := Some (Finite degrees)\<rparr>"

lemma requested_position:
  "requested (dated_position t degrees) FS_kLatitude = Some (Some (FV_float (Finite degrees)))"
  by (simp add: requested_def ask_def dated_position_def)

lemma default_cell: "cell aggregator_new FS_kLatitude = (FieldVersion_default, None)"
  by (simp add: cell_def aggregator_new_def RuntimeState_default_def)

theorem merge_refines_cells_witness:
  "rs_latitude_deg (ag_state (merge_all [dated_position 2 48, dated_position 1 47] aggregator_new)) = Some (Finite 48)"
proof -
  let ?a = "fst (Merge (dated_position 2 48) aggregator_new)"
  have "cell ?a FS_kLatitude = (\<lparr>fv_seen = True, fv_timestamp_ns = Some 2\<rparr>, Some (FV_float (Finite 48)))"
    using merge_refines_cells [of FS_kLatitude "dated_position 2 48" aggregator_new]
    by (simp add: requested_position default_cell answer_def accepts_def FieldVersion_default_def)
      (simp add: dated_position_def)
  then have "cell (fst (Merge (dated_position 1 47) ?a)) FS_kLatitude
      = (\<lparr>fv_seen = True, fv_timestamp_ns = Some 2\<rparr>, Some (FV_float (Finite 48)))"
    using merge_refines_cells [of FS_kLatitude "dated_position 1 47" ?a]
    by (simp add: requested_position answer_def accepts_def) (simp add: dated_position_def)
  then show ?thesis by (auto simp: cell_def)
qed



text \<open>C19. The published state is coherent after any history of updates, well formed or not: a capability's value flag is
  set exactly when its field holds a value, only for declared capabilities; no update-only clear flag is left; and the
  state's own invariant holds.\<close>

theorem aggregator_state_coherent:
  "coherent (ag_state (merge_all updates aggregator_new))
   \<and> HasValidCapabilityValueInvariant (ag_state (merge_all updates aggregator_new))"
proof -
  have "coherent (ag_state (merge_all updates a))" if "coherent (ag_state a)" for a
    using that by (induction updates arbitrary: a) (simp_all add: Merge_coherent)
  then show ?thesis using coherent_new coherent_invariant by blast
qed

end
