(* ===== verification/Runtime_Updates.thy ===== *)
theory Runtime_Updates
  imports Aggregator_Cells
begin

text \<open>
  The updates the message mappings build: starting from the default state, capabilities are declared and fields set or
  cleared through the templates of gnss_runtime_state.hpp.  Such an update is well formed, and what the aggregator
  takes from it can be read off its fields and flags.
\<close>

section \<open>Steps\<close>

definition perform :: "(GnssRuntimeState \<Rightarrow> GnssRuntimeState) list \<Rightarrow> GnssRuntimeState \<Rightarrow> GnssRuntimeState" where
  "perform steps s = fold (\<lambda>step. step) steps s"

lemma perform_simps [simp]: "perform [] s = s" "perform (step # steps) s = perform steps (step s)"
  by (simp_all add: perform_def)

definition set_fix :: "bool \<Rightarrow> GnssFixType \<Rightarrow> GnssRuntimeState \<Rightarrow> GnssRuntimeState" where
  "set_fix valid ty s = s\<lparr>rs_fix_valid := valid\<rparr>\<lparr>rs_fix_type := ty\<rparr>"

text \<open>A field that is set when the record has a value, and otherwise left alone or cleared.\<close>

definition set_if_present :: "GnssCapability \<Rightarrow> 'a field_update \<Rightarrow> 'a option \<Rightarrow> GnssRuntimeState \<Rightarrow> GnssRuntimeState" where
  "set_if_present capability field v = (case v of Some x \<Rightarrow> SetOptionalValue capability field x | None \<Rightarrow> id)"

definition set_or_clear :: "GnssCapability \<Rightarrow> 'a field_update \<Rightarrow> 'a option \<Rightarrow> GnssRuntimeState \<Rightarrow> GnssRuntimeState" where
  "set_or_clear capability field v =
     (case v of Some x \<Rightarrow> SetOptionalValue capability field x | None \<Rightarrow> ClearOptionalValue capability field)"

section \<open>Well-formed updates\<close>

definition update_ok :: "GnssRuntimeState \<Rightarrow> bool" where
  "update_ok s \<longleftrightarrow>
     (\<forall>c. HasValueAvailable s c \<longleftrightarrow> slot_value s (cap_slot c) \<noteq> None)
     \<and> (\<forall>n. bit (rs_value_flags s) n \<longrightarrow> bit (rs_capability_flags s) n \<and> \<not> bit (rs_clear_value_flags s) n)
     \<and> (\<forall>n. bit (rs_clear_value_flags s) n \<longrightarrow> bit (rs_capability_flags s) n)"

lemma update_ok_invariant: "update_ok s \<Longrightarrow> HasValidCapabilityValueInvariant s"
  unfolding update_ok_def HasValidCapabilityValueInvariant_def
  by (intro conjI bit_word_eqI) (auto simp: bit_simps)

lemma cap_slot_inj [simp]: "cap_slot c = cap_slot d \<longleftrightarrow> c = d"
  by (metis cap_slot_field(2) slot_kind.inject(2))

lemma update_ok_requested:
  assumes "update_ok s"
  shows "requested s (cap_slot c) =
    (if slot_value s (cap_slot c) \<noteq> None then Some (slot_value s (cap_slot c))
     else if HasCapabilityFlag (rs_clear_value_flags s) c then Some None else None)"
  using assms by (auto simp: requested_def ask_def update_ok_def HasValueAvailable_def HasCapabilityFlag_bit bit_simps)

lemma requested_direct:
  "kind_of_slot slot = SK_direct direct \<Longrightarrow>
     requested s slot =
       (if slot_value s slot \<noteq> None then Some (slot_value s slot)
        else if HasDirectValueFlag (rs_clear_direct_value_flags s) direct then Some None else None)"
  by (simp add: requested_def ask_def)

section \<open>What the operations do to fields and flags\<close>

text \<open>The flags of a state.\<close>

definition flags_of :: "GnssRuntimeState \<Rightarrow> flags \<times> flags \<times> flags" where
  "flags_of s = (rs_capability_flags s, rs_value_flags s, rs_clear_value_flags s)"

lemma slot_value_flags [simp]:
  "slot_value (s\<lparr>rs_capability_flags := f\<rparr>) sl = slot_value s sl"
  "slot_value (s\<lparr>rs_value_flags := f\<rparr>) sl = slot_value s sl"
  "slot_value (s\<lparr>rs_clear_value_flags := f\<rparr>) sl = slot_value s sl"
  "slot_value (s\<lparr>rs_clear_direct_value_flags := g\<rparr>) sl = slot_value s sl"
  "slot_value (s\<lparr>rs_timestamp_ns := t\<rparr>) sl = slot_value s sl"
  by (cases sl; simp)+

lemma update_ok_default: "update_ok RuntimeState_default"
proof -
  have "slot_value RuntimeState_default (cap_slot c) = None" for c
    by (cases c) (simp_all add: RuntimeState_default_def)
  then show ?thesis by (simp add: update_ok_def HasValueAvailable_def) (simp add: RuntimeState_default_def)
qed

lemma SetCapability_ok: "update_ok s \<Longrightarrow> update_ok (SetCapability c s)"
  by (auto simp: update_ok_def SetCapability_def HasValueAvailable_def SetCapabilityFlag_def bit_simps)

lemma SetCapability_effect [simp]:
  "slot_value (SetCapability c s) sl = slot_value s sl"
  "HasCapability (SetCapability c s) d \<longleftrightarrow> c = d \<or> HasCapability s d"
  "HasCapabilityFlag (rs_clear_value_flags (SetCapability c s)) d \<longleftrightarrow> HasCapabilityFlag (rs_clear_value_flags s) d"
  "rs_clear_direct_value_flags (SetCapability c s) = rs_clear_direct_value_flags s"
  "rs_timestamp_ns (SetCapability c s) = rs_timestamp_ns s"
  by (simp_all add: SetCapability_def HasCapability_def)

text \<open>A change of the time, the fix or a direct field keeps the flags and the fields of the capabilities.\<close>

lemma update_ok_frame:
  assumes "update_ok s" and "flags_of s1 = flags_of s" and "\<And>c. slot_value s1 (cap_slot c) = slot_value s (cap_slot c)"
  shows "update_ok s1"
  using assms by (auto simp: update_ok_def flags_of_def HasValueAvailable_def)

lemma cap_slot_other [simp]:
  "slot_value (s\<lparr>rs_fix_valid := b\<rparr>) (cap_slot c) = slot_value s (cap_slot c)"
  "slot_value (s\<lparr>rs_fix_type := t\<rparr>) (cap_slot c) = slot_value s (cap_slot c)"
  "slot_value (s\<lparr>rs_latitude_deg := d\<rparr>) (cap_slot c) = slot_value s (cap_slot c)"
  "slot_value (s\<lparr>rs_longitude_deg := d\<rparr>) (cap_slot c) = slot_value s (cap_slot c)"
  "slot_value (s\<lparr>rs_altitude_m := d\<rparr>) (cap_slot c) = slot_value s (cap_slot c)"
  by (cases c; simp)+

lemma direct_ok [intro]:
  "update_ok s \<Longrightarrow> update_ok (s\<lparr>rs_timestamp_ns := t\<rparr>)"
  "update_ok s \<Longrightarrow> update_ok (s\<lparr>rs_fix_valid := b\<rparr>)"
  "update_ok s \<Longrightarrow> update_ok (s\<lparr>rs_fix_type := ty\<rparr>)"
  "update_ok s \<Longrightarrow> update_ok (s\<lparr>rs_latitude_deg := d\<rparr>)"
  "update_ok s \<Longrightarrow> update_ok (s\<lparr>rs_longitude_deg := d\<rparr>)"
  "update_ok s \<Longrightarrow> update_ok (s\<lparr>rs_altitude_m := d\<rparr>)"
  "update_ok s \<Longrightarrow> update_ok (s\<lparr>rs_clear_direct_value_flags := f\<rparr>)"
  by (erule update_ok_frame; simp add: flags_of_def)+

lemma ClearPositionValues_ok: "update_ok s \<Longrightarrow> update_ok (ClearPositionValues s)"
  unfolding ClearPositionValues_def ClearDirectValue_def Let_def by (intro direct_ok) (erule update_ok_frame; simp add: flags_of_def)

lemma ClearPositionValues_effect [simp]:
  "slot_value (ClearPositionValues s) sl = (if sl \<in> {FS_kLatitude, FS_kLongitude, FS_kAltitude} then None else slot_value s sl)"
  "HasDirectValueFlag (rs_clear_direct_value_flags (ClearPositionValues s)) direct"
  "HasCapability (ClearPositionValues s) d \<longleftrightarrow> HasCapability s d"
  "rs_clear_value_flags (ClearPositionValues s) = rs_clear_value_flags s"
  "rs_timestamp_ns (ClearPositionValues s) = rs_timestamp_ns s"
  "rs_fix_valid (ClearPositionValues s) = rs_fix_valid s" "rs_fix_type (ClearPositionValues s) = rs_fix_type s"
proof -
  show "slot_value (ClearPositionValues s) sl = (if sl \<in> {FS_kLatitude, FS_kLongitude, FS_kAltitude} then None else slot_value s sl)"
    by (cases sl; simp add: ClearPositionValues_def ClearDirectValue_def Let_def)
  have "direct_flag direct AND direct_flag direct \<noteq> 0" by (cases direct) simp_all
  moreover have "(((x OR direct_flag DV_kLatitude) OR direct_flag DV_kLongitude) OR direct_flag DV_kAltitude) AND direct_flag direct
      = direct_flag direct" for x
  proof -
    have "(((x OR a) OR b) OR c) AND a = a" "(((x OR a) OR b) OR c) AND b = b" "(((x OR a) OR b) OR c) AND c = c" for a b c :: u8
      by (rule bit_word_eqI; auto simp: bit_simps)+
    then show ?thesis by (cases direct) (simp_all only:)
  qed
  ultimately show "HasDirectValueFlag (rs_clear_direct_value_flags (ClearPositionValues s)) direct"
    by (simp add: ClearPositionValues_def ClearDirectValue_def HasDirectValueFlag_def SetDirectValueFlag_def Let_def
        del: direct_flag.simps)
qed (simp_all add: ClearPositionValues_def ClearDirectValue_def HasCapability_def Let_def)

lemma set_fix_ok: "update_ok s \<Longrightarrow> update_ok (set_fix valid ty s)"
  unfolding set_fix_def by (intro direct_ok)

lemma set_fix_effect [simp]:
  "slot_value (set_fix valid ty s) sl = (if sl = FS_kFix then Some (FV_fix valid ty) else slot_value s sl)"
  "HasCapability (set_fix valid ty s) d \<longleftrightarrow> HasCapability s d"
  "rs_clear_value_flags (set_fix valid ty s) = rs_clear_value_flags s"
  "rs_clear_direct_value_flags (set_fix valid ty s) = rs_clear_direct_value_flags s"
  "rs_timestamp_ns (set_fix valid ty s) = rs_timestamp_ns s"
  by (cases sl; simp add: set_fix_def) (simp_all add: set_fix_def HasCapability_def)

context runtime_field begin

lemma field_flags [simp]:
  "rs_capability_flags (field_update g s) = rs_capability_flags s"
  "rs_value_flags (field_update g s) = rs_value_flags s"
  "rs_clear_value_flags (field_update g s) = rs_clear_value_flags s"
  "rs_clear_direct_value_flags (field_update g s) = rs_clear_direct_value_flags s"
  "rs_timestamp_ns (field_update g s) = rs_timestamp_ns s"
  using update_frame [of g s] by (simp_all add: frame_of_def)

lemma field_update_slot:
  "slot_value (field_update g s) sl = (if sl = slot then map_option inj (g (field s)) else slot_value s sl)"
  by (simp add: field_slot update_slot update_other)

lemma SetOptionalValue_ok:
  assumes "cap_slot c = slot" and "update_ok s"
  shows "update_ok (SetOptionalValue c field_update v s)"
proof (cases "HasCapability s c")
  case True
  have eq: "cap_slot d = slot \<longleftrightarrow> d = c" for d using assms(1) cap_slot_inj by metis
  from True assms(2) show ?thesis
    by (auto simp: update_ok_def SetOptionalValue_def SetValueAvailable_def HasCapability_def HasValueAvailable_def
        HasCapabilityFlag_bit SetCapabilityFlag_def ClearCapabilityFlag_def bit_simps bit_ToFlag_iff field_update_slot eq)
next
  case False
  with assms show ?thesis by (simp add: SetOptionalValue_def)
qed

lemma ClearOptionalValue_ok:
  assumes "cap_slot c = slot" and "update_ok s"
  shows "update_ok (ClearOptionalValue c field_update s)"
proof -
  have eq: "cap_slot d = slot \<longleftrightarrow> d = c" for d using assms(1) cap_slot_inj by metis
  from assms(2) show ?thesis
    by (auto simp: update_ok_def ClearOptionalValue_def ClearValueAvailable_def HasCapability_def HasValueAvailable_def Let_def
        HasCapabilityFlag_bit SetCapabilityFlag_def ClearCapabilityFlag_def bit_simps bit_ToFlag_iff field_update_slot eq)
qed

lemma SetOptionalValue_effect:
  "slot_value (SetOptionalValue c field_update v s) sl =
     (if HasCapability s c \<and> sl = slot then Some (inj v) else slot_value s sl)"
  "HasCapability (SetOptionalValue c field_update v s) d \<longleftrightarrow> HasCapability s d"
  "HasCapabilityFlag (rs_clear_value_flags (SetOptionalValue c field_update v s)) d \<longleftrightarrow>
     HasCapabilityFlag (rs_clear_value_flags s) d \<and> \<not> (HasCapability s c \<and> c = d)"
  "rs_clear_direct_value_flags (SetOptionalValue c field_update v s) = rs_clear_direct_value_flags s"
  "rs_timestamp_ns (SetOptionalValue c field_update v s) = rs_timestamp_ns s"
  by (auto simp: SetOptionalValue_def SetValueAvailable_def HasCapability_def field_update_slot)

lemma ClearOptionalValue_effect:
  "slot_value (ClearOptionalValue c field_update s) sl = (if sl = slot then None else slot_value s sl)"
  "HasCapability (ClearOptionalValue c field_update s) d \<longleftrightarrow> HasCapability s d"
  "HasCapabilityFlag (rs_clear_value_flags (ClearOptionalValue c field_update s)) d \<longleftrightarrow>
     HasCapabilityFlag (rs_clear_value_flags s) d \<or> (HasCapability s c \<and> c = d)"
  "rs_clear_direct_value_flags (ClearOptionalValue c field_update s) = rs_clear_direct_value_flags s"
  "rs_timestamp_ns (ClearOptionalValue c field_update s) = rs_timestamp_ns s"
  by (auto simp: ClearOptionalValue_def ClearValueAvailable_def HasCapability_def field_update_slot Let_def)

lemma set_if_present_ok: "\<lbrakk>cap_slot c = slot; update_ok s\<rbrakk> \<Longrightarrow> update_ok (set_if_present c field_update v s)"
  by (cases v) (simp_all add: set_if_present_def SetOptionalValue_ok)

lemma set_or_clear_ok: "\<lbrakk>cap_slot c = slot; update_ok s\<rbrakk> \<Longrightarrow> update_ok (set_or_clear c field_update v s)"
  by (cases v) (simp_all add: set_or_clear_def SetOptionalValue_ok ClearOptionalValue_ok)

end

lemmas set_effects =
  rtk_mode.SetOptionalValue_effect horizontal_accuracy_m.SetOptionalValue_effect
  vertical_accuracy_m.SetOptionalValue_effect hdop.SetOptionalValue_effect vdop.SetOptionalValue_effect
  satellites_used.SetOptionalValue_effect satellites_visible.SetOptionalValue_effect
  satellites_tracked.SetOptionalValue_effect mean_cn0_db_hz.SetOptionalValue_effect
  max_cn0_db_hz.SetOptionalValue_effect correction_age_s.SetOptionalValue_effect utc_date.SetOptionalValue_effect
  utc_time.SetOptionalValue_effect speed_over_ground_m_s.SetOptionalValue_effect
  course_over_ground_deg.SetOptionalValue_effect heading_deg.SetOptionalValue_effect
  heading_accuracy_deg.SetOptionalValue_effect differential_corrections.SetOptionalValue_effect
  corrections_active.SetOptionalValue_effect dual_antenna_heading.SetOptionalValue_effect
  dual_antenna_baseline.SetOptionalValue_effect baseline_azimuth_deg.SetOptionalValue_effect
  baseline_pitch_deg.SetOptionalValue_effect baseline_length_m.SetOptionalValue_effect
  baseline_solution_status.SetOptionalValue_effect interference_detected.SetOptionalValue_effect
  jamming_detected.SetOptionalValue_effect

lemmas clear_effects =
  rtk_mode.ClearOptionalValue_effect horizontal_accuracy_m.ClearOptionalValue_effect
  vertical_accuracy_m.ClearOptionalValue_effect hdop.ClearOptionalValue_effect vdop.ClearOptionalValue_effect
  satellites_used.ClearOptionalValue_effect satellites_visible.ClearOptionalValue_effect
  satellites_tracked.ClearOptionalValue_effect mean_cn0_db_hz.ClearOptionalValue_effect
  max_cn0_db_hz.ClearOptionalValue_effect correction_age_s.ClearOptionalValue_effect
  utc_date.ClearOptionalValue_effect utc_time.ClearOptionalValue_effect
  speed_over_ground_m_s.ClearOptionalValue_effect course_over_ground_deg.ClearOptionalValue_effect
  heading_deg.ClearOptionalValue_effect heading_accuracy_deg.ClearOptionalValue_effect
  differential_corrections.ClearOptionalValue_effect corrections_active.ClearOptionalValue_effect
  dual_antenna_heading.ClearOptionalValue_effect dual_antenna_baseline.ClearOptionalValue_effect
  baseline_azimuth_deg.ClearOptionalValue_effect baseline_pitch_deg.ClearOptionalValue_effect
  baseline_length_m.ClearOptionalValue_effect baseline_solution_status.ClearOptionalValue_effect
  interference_detected.ClearOptionalValue_effect jamming_detected.ClearOptionalValue_effect

lemmas set_ok =
  rtk_mode.SetOptionalValue_ok horizontal_accuracy_m.SetOptionalValue_ok vertical_accuracy_m.SetOptionalValue_ok
  hdop.SetOptionalValue_ok vdop.SetOptionalValue_ok satellites_used.SetOptionalValue_ok
  satellites_visible.SetOptionalValue_ok satellites_tracked.SetOptionalValue_ok mean_cn0_db_hz.SetOptionalValue_ok
  max_cn0_db_hz.SetOptionalValue_ok correction_age_s.SetOptionalValue_ok utc_date.SetOptionalValue_ok
  utc_time.SetOptionalValue_ok speed_over_ground_m_s.SetOptionalValue_ok course_over_ground_deg.SetOptionalValue_ok
  heading_deg.SetOptionalValue_ok heading_accuracy_deg.SetOptionalValue_ok
  differential_corrections.SetOptionalValue_ok corrections_active.SetOptionalValue_ok
  dual_antenna_heading.SetOptionalValue_ok dual_antenna_baseline.SetOptionalValue_ok
  baseline_azimuth_deg.SetOptionalValue_ok baseline_pitch_deg.SetOptionalValue_ok
  baseline_length_m.SetOptionalValue_ok baseline_solution_status.SetOptionalValue_ok
  interference_detected.SetOptionalValue_ok jamming_detected.SetOptionalValue_ok

lemmas clear_ok =
  rtk_mode.ClearOptionalValue_ok horizontal_accuracy_m.ClearOptionalValue_ok vertical_accuracy_m.ClearOptionalValue_ok
  hdop.ClearOptionalValue_ok vdop.ClearOptionalValue_ok satellites_used.ClearOptionalValue_ok
  satellites_visible.ClearOptionalValue_ok satellites_tracked.ClearOptionalValue_ok
  mean_cn0_db_hz.ClearOptionalValue_ok max_cn0_db_hz.ClearOptionalValue_ok correction_age_s.ClearOptionalValue_ok
  utc_date.ClearOptionalValue_ok utc_time.ClearOptionalValue_ok speed_over_ground_m_s.ClearOptionalValue_ok
  course_over_ground_deg.ClearOptionalValue_ok heading_deg.ClearOptionalValue_ok
  heading_accuracy_deg.ClearOptionalValue_ok differential_corrections.ClearOptionalValue_ok
  corrections_active.ClearOptionalValue_ok dual_antenna_heading.ClearOptionalValue_ok
  dual_antenna_baseline.ClearOptionalValue_ok baseline_azimuth_deg.ClearOptionalValue_ok
  baseline_pitch_deg.ClearOptionalValue_ok baseline_length_m.ClearOptionalValue_ok
  baseline_solution_status.ClearOptionalValue_ok interference_detected.ClearOptionalValue_ok
  jamming_detected.ClearOptionalValue_ok

lemmas present_ok =
  rtk_mode.set_if_present_ok horizontal_accuracy_m.set_if_present_ok vertical_accuracy_m.set_if_present_ok
  hdop.set_if_present_ok vdop.set_if_present_ok satellites_used.set_if_present_ok satellites_visible.set_if_present_ok
  satellites_tracked.set_if_present_ok mean_cn0_db_hz.set_if_present_ok max_cn0_db_hz.set_if_present_ok
  correction_age_s.set_if_present_ok utc_date.set_if_present_ok utc_time.set_if_present_ok
  speed_over_ground_m_s.set_if_present_ok course_over_ground_deg.set_if_present_ok heading_deg.set_if_present_ok
  heading_accuracy_deg.set_if_present_ok differential_corrections.set_if_present_ok
  corrections_active.set_if_present_ok dual_antenna_heading.set_if_present_ok dual_antenna_baseline.set_if_present_ok
  baseline_azimuth_deg.set_if_present_ok baseline_pitch_deg.set_if_present_ok baseline_length_m.set_if_present_ok
  baseline_solution_status.set_if_present_ok interference_detected.set_if_present_ok
  jamming_detected.set_if_present_ok

lemmas set_or_clear_oks =
  rtk_mode.set_or_clear_ok horizontal_accuracy_m.set_or_clear_ok vertical_accuracy_m.set_or_clear_ok
  hdop.set_or_clear_ok vdop.set_or_clear_ok satellites_used.set_or_clear_ok satellites_visible.set_or_clear_ok
  satellites_tracked.set_or_clear_ok mean_cn0_db_hz.set_or_clear_ok max_cn0_db_hz.set_or_clear_ok
  correction_age_s.set_or_clear_ok utc_date.set_or_clear_ok utc_time.set_or_clear_ok
  speed_over_ground_m_s.set_or_clear_ok course_over_ground_deg.set_or_clear_ok heading_deg.set_or_clear_ok
  heading_accuracy_deg.set_or_clear_ok differential_corrections.set_or_clear_ok corrections_active.set_or_clear_ok
  dual_antenna_heading.set_or_clear_ok dual_antenna_baseline.set_or_clear_ok baseline_azimuth_deg.set_or_clear_ok
  baseline_pitch_deg.set_or_clear_ok baseline_length_m.set_or_clear_ok baseline_solution_status.set_or_clear_ok
  interference_detected.set_or_clear_ok jamming_detected.set_or_clear_ok

lemmas update_ok_intros =
  SetCapability_ok ClearPositionValues_ok set_fix_ok direct_ok set_ok clear_ok present_ok set_or_clear_oks
  update_ok_default

end
