(* ===== verification/Runtime_Diagnostics.thy ===== *)
theory Runtime_Diagnostics
  imports Protocol_Records "HOL-Library.Multiset"
begin

text \<open>
  Diagnostic events and the health summary (gnss_core/include/universal_gnss/gnss_diagnostic.hpp, gnss_health.hpp).
\<close>

section \<open>Model\<close>

datatype GnssDiagnosticSeverity = DS_kOk | DS_kInfo | DS_kWarning | DS_kError | DS_kStale | DS_kUnknown

datatype GnssDiagnosticCategory =
    DC_kRuntime | DC_kParser | DC_kTransport | DC_kCorrection | DC_kReceiver | DC_kConfiguration | DC_kTiming

record GnssDiagnosticEvent =
  ev_severity :: GnssDiagnosticSeverity
  ev_category :: GnssDiagnosticCategory
  ev_code :: string
  ev_message :: string
  ev_timestamp_ns :: "timestamp_ns option"
  ev_source :: "string option"

fun DiagnosticSeverityRank :: "GnssDiagnosticSeverity \<Rightarrow> nat" where
  "DiagnosticSeverityRank DS_kOk = 0"
| "DiagnosticSeverityRank DS_kInfo = 1"
| "DiagnosticSeverityRank DS_kUnknown = 2"
| "DiagnosticSeverityRank DS_kWarning = 3"
| "DiagnosticSeverityRank DS_kStale = 4"
| "DiagnosticSeverityRank DS_kError = 5"

definition CombineDiagnosticSeverities ::
  "GnssDiagnosticSeverity \<Rightarrow> GnssDiagnosticSeverity \<Rightarrow> GnssDiagnosticSeverity" where
  "CombineDiagnosticSeverities lhs rhs = (if DiagnosticSeverityRank lhs \<ge> DiagnosticSeverityRank rhs then lhs else rhs)"

definition ComputeOverallDiagnosticSeverity ::
  "GnssDiagnosticEvent list \<Rightarrow> GnssDiagnosticSeverity \<Rightarrow> GnssDiagnosticSeverity" where
  "ComputeOverallDiagnosticSeverity events base_severity =
     foldl (\<lambda>overall event. CombineDiagnosticSeverities overall (ev_severity event)) base_severity events"

definition IsDiagnosticError :: "GnssDiagnosticSeverity \<Rightarrow> bool" where
  "IsDiagnosticError severity \<longleftrightarrow> severity = DS_kError"

fun IsDiagnosticWarningOrWorse :: "GnssDiagnosticSeverity \<Rightarrow> bool" where
  "IsDiagnosticWarningOrWorse DS_kWarning = True"
| "IsDiagnosticWarningOrWorse DS_kError = True"
| "IsDiagnosticWarningOrWorse DS_kStale = True"
| "IsDiagnosticWarningOrWorse DS_kUnknown = True"
| "IsDiagnosticWarningOrWorse DS_kOk = False"
| "IsDiagnosticWarningOrWorse DS_kInfo = False"

definition IsStaleDiagnosticSeverity :: "GnssDiagnosticSeverity \<Rightarrow> bool" where
  "IsStaleDiagnosticSeverity severity \<longleftrightarrow> severity = DS_kStale"

definition HasDiagnosticErrors :: "GnssDiagnosticEvent list \<Rightarrow> bool" where
  "HasDiagnosticErrors events = list_ex (\<lambda>e. IsDiagnosticError (ev_severity e)) events"

definition HasDiagnosticWarnings :: "GnssDiagnosticEvent list \<Rightarrow> bool" where
  "HasDiagnosticWarnings events = list_ex (\<lambda>e. IsDiagnosticWarningOrWorse (ev_severity e)) events"

definition HasStaleDiagnosticEvents :: "GnssDiagnosticEvent list \<Rightarrow> bool" where
  "HasStaleDiagnosticEvents events = list_ex (\<lambda>e. IsStaleDiagnosticSeverity (ev_severity e)) events"

record GnssHealthSummary =
  hs_overall_severity :: GnssDiagnosticSeverity
  hs_fix_valid :: bool
  hs_rtk_available :: bool
  hs_correction_available :: bool
  hs_receiver_healthy :: bool
  hs_transport_healthy :: bool
  hs_parser_healthy :: bool
  hs_stale_data :: bool
  hs_events :: "GnssDiagnosticEvent list"

definition GnssHealthSummary_default :: GnssHealthSummary where
  "GnssHealthSummary_default =
     \<lparr>hs_overall_severity = DS_kUnknown, hs_fix_valid = False, hs_rtk_available = False, hs_correction_available = False,
      hs_receiver_healthy = False, hs_transport_healthy = False, hs_parser_healthy = False, hs_stale_data = False,
      hs_events = []\<rparr>"

definition AddEvent :: "GnssDiagnosticEvent \<Rightarrow> GnssHealthSummary \<Rightarrow> GnssHealthSummary" where
  "AddEvent event h =
     (let events = hs_events h @ [event] in
      h\<lparr>hs_events := events, hs_overall_severity := ComputeOverallDiagnosticSeverity events DS_kOk,
        hs_stale_data := hs_stale_data h \<or> IsStaleDiagnosticSeverity (ev_severity event)\<rparr>)"

definition health_HasErrors :: "GnssHealthSummary \<Rightarrow> bool" where
  "health_HasErrors h = HasDiagnosticErrors (hs_events h)"

definition health_HasWarnings :: "GnssHealthSummary \<Rightarrow> bool" where
  "health_HasWarnings h = HasDiagnosticWarnings (hs_events h)"

definition health_Clear :: "GnssHealthSummary \<Rightarrow> GnssHealthSummary" where
  "health_Clear h = GnssHealthSummary_default"

section \<open>The overall severity is the worst one\<close>

text \<open>Severities in the order of their ranks.\<close>

instantiation GnssDiagnosticSeverity :: linorder
begin

definition less_eq_GnssDiagnosticSeverity :: "GnssDiagnosticSeverity \<Rightarrow> GnssDiagnosticSeverity \<Rightarrow> bool" where
  "x \<le> y \<longleftrightarrow> DiagnosticSeverityRank x \<le> DiagnosticSeverityRank y"

definition less_GnssDiagnosticSeverity :: "GnssDiagnosticSeverity \<Rightarrow> GnssDiagnosticSeverity \<Rightarrow> bool" where
  "x < y \<longleftrightarrow> DiagnosticSeverityRank x < DiagnosticSeverityRank y"

instance
proof
  fix x y :: GnssDiagnosticSeverity
  show "x \<le> y \<Longrightarrow> y \<le> x \<Longrightarrow> x = y"
    unfolding less_eq_GnssDiagnosticSeverity_def by (cases x; cases y; simp)
qed (auto simp: less_eq_GnssDiagnosticSeverity_def less_GnssDiagnosticSeverity_def)

end

lemma Combine_max: "CombineDiagnosticSeverities lhs rhs = max lhs rhs"
  by (auto simp: CombineDiagnosticSeverities_def max_def less_eq_GnssDiagnosticSeverity_def)
    (cases lhs; cases rhs; simp)+

lemma Overall_fold: "ComputeOverallDiagnosticSeverity events base = fold max (map ev_severity events) base"
  by (induction events arbitrary: base) (simp_all add: ComputeOverallDiagnosticSeverity_def Combine_max max.commute)

lemma Overall_Max: "ComputeOverallDiagnosticSeverity events base = Max (insert base (ev_severity ` set events))"
  using Max.set_eq_fold [of base "map ev_severity events"] by (simp add: Overall_fold)

lemma ok_least: "DS_kOk \<le> x"
  by (cases x) (simp_all add: less_eq_GnssDiagnosticSeverity_def)

definition health_of :: "GnssDiagnosticEvent list \<Rightarrow> GnssHealthSummary" where
  "health_of events = fold AddEvent events GnssHealthSummary_default"

lemma health_of_snoc: "health_of (events @ [e]) = AddEvent e (health_of events)"
  by (simp add: health_of_def)

text \<open>The health summary shows the worst event.  Whatever events are added, in whatever order: the events are kept
  in order, the overall severity is the greatest of them in the order ok, info, unknown, warning, stale, error (ok when
  they are all ok, unknown before the first), and the stale mark is set exactly when one of them is stale.\<close>

lemma health_shows_the_worst:
  "hs_events (health_of events) = events
   \<and> hs_overall_severity (health_of events) =
       (if events = [] then DS_kUnknown else Max (ev_severity ` set events))
   \<and> hs_stale_data (health_of events) = HasStaleDiagnosticEvents events
   \<and> (health_HasErrors (health_of events) \<longleftrightarrow> events \<noteq> [] \<and> hs_overall_severity (health_of events) = DS_kError)"
proof -
  have kept: "hs_events (health_of events) = events" for events
    by (induction events rule: rev_induct) (simp_all add: health_of_snoc AddEvent_def Let_def, simp add: health_of_def GnssHealthSummary_default_def)
  have worst: "hs_overall_severity (health_of events) = (if events = [] then DS_kUnknown else Max (ev_severity ` set events))" for events
  proof (cases events rule: rev_cases)
    case Nil
    then show ?thesis by (simp add: health_of_def GnssHealthSummary_default_def)
  next
    case (snoc es e)
    then have "hs_overall_severity (health_of events) = Max (insert DS_kOk (ev_severity ` set events))"
      by (simp add: health_of_snoc AddEvent_def Let_def kept Overall_Max)
    also have "\<dots> = max DS_kOk (Max (ev_severity ` set events))" using snoc by (subst Max_insert) auto
    finally show ?thesis using snoc ok_least by (simp add: max_def)
  qed
  have "hs_stale_data (health_of events) = HasStaleDiagnosticEvents events"
    by (induction events rule: rev_induct)
      (auto simp: health_of_snoc AddEvent_def Let_def HasStaleDiagnosticEvents_def, auto simp: health_of_def GnssHealthSummary_default_def)
  moreover have "HasDiagnosticErrors events \<longleftrightarrow> events \<noteq> [] \<and> Max (ev_severity ` set events) = DS_kError"
  proof -
    have top: "x \<le> DS_kError" for x by (cases x) (simp_all add: less_eq_GnssDiagnosticSeverity_def)
    show ?thesis
    proof (cases "events = []")
      case False
      then have "Max (ev_severity ` set events) = DS_kError \<longleftrightarrow> DS_kError \<in> ev_severity ` set events"
        using Max_in [of "ev_severity ` set events"] top by (metis List.finite_set Max_eqI finite_imageI image_is_empty set_empty)
      with False show ?thesis by (force simp: HasDiagnosticErrors_def list_ex_iff IsDiagnosticError_def)
    qed (simp add: HasDiagnosticErrors_def)
  qed
  ultimately show ?thesis using kept worst by (auto simp: health_HasErrors_def)
qed

end
