(* ===== verification/Ubx_Updates.thy ===== *)
theory Ubx_Updates
  imports Ubx_Parser Runtime_Updates Runtime_Diagnostics Cxx_Text
begin

text \<open>
  What the UBX messages mean (the second half of gnss_protocols/src/ubx_parser.cpp): the runtime update of every
  navigation and monitoring message, and the diagnostic events of RXM-RTCM and MON-HW.  An update is the default state
  after a list of steps in the order of the code.
\<close>

section \<open>Runtime updates\<close>

definition SetCorrectionState :: "bool \<Rightarrow> GnssRuntimeState \<Rightarrow> GnssRuntimeState" where
  "SetCorrectionState differential_solution =
     perform
       [SetCapability GC_kDifferentialCorrections,
        SetCapability GC_kCorrectionsActive,
        SetOptionalValue GC_kDifferentialCorrections rs_differential_corrections_update differential_solution,
        SetOptionalValue GC_kCorrectionsActive rs_corrections_active_update differential_solution]"

definition ClearPositionSolutionValues :: "GnssRuntimeState \<Rightarrow> GnssRuntimeState" where
  "ClearPositionSolutionValues =
     perform
       [ClearPositionValues,
        SetCapability GC_kHorizontalAccuracy,
        SetCapability GC_kVerticalAccuracy,
        SetCapability GC_kHeading,
        SetCapability GC_kHeadingAccuracy,
        ClearOptionalValue GC_kHorizontalAccuracy rs_horizontal_accuracy_m_update,
        ClearOptionalValue GC_kVerticalAccuracy rs_vertical_accuracy_m_update,
        ClearOptionalValue GC_kHeading rs_heading_deg_update,
        ClearOptionalValue GC_kHeadingAccuracy rs_heading_accuracy_deg_update]"

definition ubx_fix :: "UbxNavPvtFixType \<Rightarrow> bool \<Rightarrow> bool \<times> GnssFixType" where
  "ubx_fix fix ok =
     (case fix of
        UF_kNoFix \<Rightarrow> (False, FT_kNoFix)
      | UF_kDeadReckoningOnly \<Rightarrow> (False, FT_kDeadReckoning)
      | UF_k2D \<Rightarrow> (ok, if ok then FT_k2dFix else FT_kNoFix)
      | UF_k3D \<Rightarrow> (ok, if ok then FT_k3dFix else FT_kNoFix)
      | UF_kGnssDeadReckoningCombined \<Rightarrow> (ok, if ok then FT_kFix else FT_kDeadReckoning)
      | UF_kTimeOnly \<Rightarrow> (False, FT_kNoFix)
      | UF_other b \<Rightarrow> (False, FT_kUnknown))"

definition ubx_rtk_mode :: "UbxCarrierSolutionStatus \<Rightarrow> GnssRtkMode" where
  "ubx_rtk_mode carrier = (case carrier of UC_kFloat \<Rightarrow> RM_kFloat | UC_kFixed \<Rightarrow> RM_kFixed | UC_kNone \<Rightarrow> RM_kNone)"

definition UbxNavStatusToRuntimeState :: "UbxNavStatusRecord \<Rightarrow> GnssRuntimeState" where
  "UbxNavStatusToRuntimeState record =
     (let (valid, ty) = ubx_fix (ns_gps_fix record) (ns_gnss_fix_ok record) in
      perform
        [set_fix valid ty,
         SetCapability GC_kRtkMode,
         SetCorrectionState (ns_differential_solution record),
         (if ty \<noteq> FT_kUnknown \<and> \<not> valid then ClearPositionSolutionValues else id),
         (if \<not> ns_carrier_solution_valid record then id
          else SetOptionalValue GC_kRtkMode rs_rtk_mode_update (ubx_rtk_mode (ns_carrier_solution record)))]
        (RuntimeState_default\<lparr>rs_timestamp_ns := ns_timestamp_ns record\<rparr>))"

definition nav_pvt_position_valid :: "UbxNavPvtRecord \<Rightarrow> bool" where
  "nav_pvt_position_valid record \<longleftrightarrow>
     \<not> np_invalid_llh record
     \<and> (np_fix_type record = UF_k2D \<or> np_fix_type record = UF_k3D
        \<or> np_fix_type record = UF_kGnssDeadReckoningCombined)
     \<and> np_gnss_fix_ok record"

definition float_in_circle :: "float32 \<Rightarrow> bool" where
  "float_in_circle x \<longleftrightarrow> \<not> dbl_less x (Finite 0) \<and> x \<noteq> NaN \<and> dbl_less x (Finite 360)"

definition UbxNavPvtToRuntimeState :: "UbxNavPvtRecord \<Rightarrow> GnssRuntimeState" where
  "UbxNavPvtToRuntimeState record =
     (let position_valid = nav_pvt_position_valid record;
          (valid, ty) = ubx_fix (np_fix_type record) position_valid in
      perform
        [set_fix valid ty,
         SetCapability GC_kRtkMode, SetCapability GC_kHorizontalAccuracy, SetCapability GC_kVerticalAccuracy,
         SetCapability GC_kSatellitesUsed, SetCapability GC_kUtcDate, SetCapability GC_kUtcTime,
         SetCapability GC_kSpeedOverGround, SetCapability GC_kCourseOverGround, SetCapability GC_kHeading,
         SetCapability GC_kHeadingAccuracy,
         SetOptionalValue GC_kRtkMode rs_rtk_mode_update (ubx_rtk_mode (np_carrier_solution record)),
         SetOptionalValue GC_kSatellitesUsed rs_satellites_used_update (ucast (np_num_sv record)),
         SetCorrectionState (np_differential_solution record),
         (if np_valid_date record
          then SetOptionalValue GC_kUtcDate rs_utc_date_update
            \<lparr>ud_year = np_year record, ud_month = np_month record, ud_day = np_day record\<rparr>
          else ClearOptionalValue GC_kUtcDate rs_utc_date_update),
         (if np_valid_time record
          then SetOptionalValue GC_kUtcTime rs_utc_time_update
            \<lparr>ut_hour = np_hour record, ut_minute = np_minute record, ut_second = np_second record,
             ut_nanosecond = np_nano_ns record\<rparr>
          else ClearOptionalValue GC_kUtcTime rs_utc_time_update),
         (if position_valid then
            perform
              [rs_latitude_deg_update (\<lambda>_. Some (np_latitude_deg record)),
               rs_longitude_deg_update (\<lambda>_. Some (np_longitude_deg record)),
               rs_altitude_m_update (\<lambda>_. Some (np_height_msl_m record)),
               SetOptionalValue GC_kHorizontalAccuracy rs_horizontal_accuracy_m_update (np_horizontal_accuracy_m record),
               SetOptionalValue GC_kVerticalAccuracy rs_vertical_accuracy_m_update (np_vertical_accuracy_m record)]
          else ClearPositionSolutionValues),
         (if position_valid \<and> 0 \<le> sint (np_ground_speed_mm_s record)
          then SetOptionalValue GC_kSpeedOverGround rs_speed_over_ground_m_s_update
            (float_div (round_float (of_int (sint (np_ground_speed_mm_s record)))) 1000)
          else ClearOptionalValue GC_kSpeedOverGround rs_speed_over_ground_m_s_update),
         (if position_valid \<and> float_in_circle (np_course_over_ground_deg record)
          then SetOptionalValue GC_kCourseOverGround rs_course_over_ground_deg_update (np_course_over_ground_deg record)
          else ClearOptionalValue GC_kCourseOverGround rs_course_over_ground_deg_update),
         (if np_heading_vehicle_valid record \<and> position_valid then
            perform
              [SetOptionalValue GC_kHeading rs_heading_deg_update (np_heading_vehicle_deg record),
               SetOptionalValue GC_kHeadingAccuracy rs_heading_accuracy_deg_update (np_heading_accuracy_deg record)]
          else if position_valid then
            perform
              [ClearOptionalValue GC_kHeading rs_heading_deg_update,
               ClearOptionalValue GC_kHeadingAccuracy rs_heading_accuracy_deg_update]
          else id)]
        (RuntimeState_default\<lparr>rs_timestamp_ns := np_timestamp_ns record\<rparr>))"

definition UbxNavDopToRuntimeState :: "UbxNavDopRecord \<Rightarrow> GnssRuntimeState" where
  "UbxNavDopToRuntimeState record =
     perform
       [SetCapability GC_kHdop, SetCapability GC_kVdop,
        SetOptionalValue GC_kHdop rs_hdop_update (nd_h_dop record),
        SetOptionalValue GC_kVdop rs_vdop_update (nd_v_dop record)]
       (RuntimeState_default\<lparr>rs_timestamp_ns := nd_timestamp_ns record\<rparr>)"

definition cn0_step :: "u32 \<times> u32 \<times> u8 \<Rightarrow> UbxNavSatSatellite \<Rightarrow> u32 \<times> u32 \<times> u8" where
  "cn0_step acc satellite =
     (let (cn0_sum, cn0_count, max_cn0) = acc;
          cno = sat_cno_db_hz satellite in
      if cno = 0 then acc
      else (cn0_sum + ucast cno, cn0_count + 1, if cn0_count = 0 \<or> cno > max_cn0 then cno else max_cn0))"

definition UbxNavSatToRuntimeState :: "UbxNavSatRecord \<Rightarrow> GnssRuntimeState" where
  "UbxNavSatToRuntimeState record =
     (let (cn0_sum, cn0_count, max_cn0) = foldl cn0_step (0, 0, 0) (nsat_satellites record) in
      perform
        [SetCapability GC_kSatellitesVisible, SetCapability GC_kSatellitesUsed,
         SetCapability GC_kMeanCn0, SetCapability GC_kMaxCn0,
         SetOptionalValue GC_kSatellitesVisible rs_satellites_visible_update (ucast (nsat_num_svs record)),
         SetOptionalValue GC_kSatellitesUsed rs_satellites_used_update (ucast (nsat_used_satellite_count record)),
         (if cn0_count > 0 then
            perform
              [SetOptionalValue GC_kMeanCn0 rs_mean_cn0_db_hz_update
                 (float_quotient (round_float (of_int (uint cn0_sum))) (round_float (of_int (uint cn0_count)))),
               SetOptionalValue GC_kMaxCn0 rs_max_cn0_db_hz_update (round_float (of_int (uint max_cn0)))]
          else id)]
        (RuntimeState_default\<lparr>rs_timestamp_ns := nsat_timestamp_ns record\<rparr>))"

definition issue_steps :: "bool \<Rightarrow> GnssRuntimeState \<Rightarrow> GnssRuntimeState" where
  "issue_steps issue_detected =
     perform
       [SetOptionalValue GC_kInterferenceState rs_interference_detected_update issue_detected,
        SetOptionalValue GC_kJammingState rs_jamming_detected_update issue_detected]"

definition jamming_issue :: "UbxMonRfJammingState \<Rightarrow> bool" where
  "jamming_issue state \<longleftrightarrow> state = JS_kWarning \<or> state = JS_kCritical"

definition UbxMonHwToRuntimeState :: "UbxMonHwRecord \<Rightarrow> GnssRuntimeState" where
  "UbxMonHwToRuntimeState record =
     (let state = RuntimeState_default\<lparr>rs_timestamp_ns := hw_timestamp_ns record\<rparr> in
      if hw_layout record \<noteq> HL_kClassic then state
      else
        perform
          [SetCapability GC_kInterferenceState, SetCapability GC_kJammingState,
           (if hw_jamming_state record = JS_kUnknown then id else issue_steps (jamming_issue (hw_jamming_state record)))]
          state)"

text \<open>The loop over the blocks: whether a state is known, and whether one reports an issue, which ends it.\<close>

fun mon_rf_scan :: "UbxMonRfBlock list \<Rightarrow> bool \<Rightarrow> bool \<times> bool" where
  "mon_rf_scan [] known = (known, False)"
| "mon_rf_scan (block # blocks) known =
     (if rb_jamming_state block = JS_kUnknown then mon_rf_scan blocks known
      else if jamming_issue (rb_jamming_state block) then (True, True) else mon_rf_scan blocks True)"

definition UbxMonRfToRuntimeState :: "UbxMonRfRecord \<Rightarrow> GnssRuntimeState" where
  "UbxMonRfToRuntimeState record =
     (let state = RuntimeState_default\<lparr>rs_timestamp_ns := rf_timestamp_ns record\<rparr> in
      if rf_block_count record = 0 then state
      else
        let (known, issue_detected) = mon_rf_scan (rf_blocks record) False in
        perform
          [SetCapability GC_kInterferenceState, SetCapability GC_kJammingState,
           (if known then issue_steps issue_detected else id)]
          state)"

section \<open>Diagnostic events\<close>

definition BuildReceiverDiagnostic ::
  "GnssDiagnosticSeverity \<Rightarrow> string \<Rightarrow> string \<Rightarrow> timestamp_ns option \<Rightarrow> string \<Rightarrow> GnssDiagnosticEvent" where
  "BuildReceiverDiagnostic severity code message timestamp source =
     \<lparr>ev_severity = severity, ev_category = DC_kReceiver, ev_code = code, ev_message = message, ev_timestamp_ns = timestamp,
      ev_source = Some source\<rparr>"

definition FormatRtcmTypeMessage :: "u16 \<Rightarrow> string" where
  "FormatRtcmTypeMessage message_type = ''RTCM '' @ dec_nat (unat message_type)"

definition FormatRtcmTypeAndStationMessage :: "UbxRxmRtcmRecord \<Rightarrow> string" where
  "FormatRtcmTypeAndStationMessage record =
     FormatRtcmTypeMessage (rx_message_type record)
       @ (if rx_ref_station_id record \<noteq> 0xFFFF
          then '' from ref station '' @ dec_nat (unat (rx_ref_station_id record)) else [])"

definition UbxRxmRtcmToDiagnosticEvent :: "UbxRxmRtcmRecord \<Rightarrow> GnssDiagnosticEvent" where
  "UbxRxmRtcmToDiagnosticEvent record =
     (let event = (\<lambda>severity code message.
            \<lparr>ev_severity = severity, ev_category = DC_kCorrection, ev_code = code,
             ev_message = FormatRtcmTypeAndStationMessage record @ message, ev_timestamp_ns = rx_timestamp_ns record,
             ev_source = Some ''ubx.rxm_rtcm''\<rparr>) in
      if rx_crc_failed record
      then event DS_kWarning ''ubx_rxm_rtcm.crc_failed'' '' failed receiver-side CRC validation''
      else if rx_message_use record = UM_kUsed
      then event DS_kOk ''ubx_rxm_rtcm.accepted'' '' was accepted by the receiver''
      else if rx_message_use record = UM_kNotUsed
      then event DS_kWarning ''ubx_rxm_rtcm.not_used'' '' was received but not used by the receiver''
      else event DS_kInfo ''ubx_rxm_rtcm.usage_unknown'' '' was parsed by the receiver but usage is unknown'')"

definition antenna_events :: "UbxMonHwRecord \<Rightarrow> GnssDiagnosticEvent list" where
  "antenna_events record =
     (let build = (\<lambda>severity code message. [BuildReceiverDiagnostic severity code message (hw_timestamp_ns record) ''ubx.mon_hw'']) in
      case hw_antenna_status record of
        None \<Rightarrow> []
      | Some AS_kOk \<Rightarrow>
          if hw_antenna_power record = Some AP_kOn
          then build DS_kOk ''ubx_mon_hw.antenna_ok'' ''u-blox antenna supervisor reports antenna OK and powered''
          else build DS_kInfo ''ubx_mon_hw.antenna_ok_power_unknown''
            ''u-blox antenna supervisor reports antenna OK but antenna power is not confirmed on''
      | Some AS_kOpen \<Rightarrow>
          build DS_kWarning ''ubx_mon_hw.antenna_open'' ''u-blox antenna supervisor reports an open antenna condition''
      | Some AS_kShort \<Rightarrow>
          build DS_kError ''ubx_mon_hw.antenna_short'' ''u-blox antenna supervisor reports an antenna short condition''
      | Some _ \<Rightarrow>
          build DS_kUnknown ''ubx_mon_hw.antenna_unknown'' ''u-blox antenna supervisor state is not yet known'')"

definition antenna_power_events :: "UbxMonHwRecord \<Rightarrow> GnssDiagnosticEvent list" where
  "antenna_power_events record =
     (if hw_antenna_power record = Some AP_kOff
         \<and> (\<exists>status. hw_antenna_status record = Some status \<and> status \<noteq> AS_kInit \<and> status \<noteq> AS_kDontKnow)
      then [BuildReceiverDiagnostic DS_kWarning ''ubx_mon_hw.antenna_power_off''
              ''u-blox antenna supervisor reports antenna power off'' (hw_timestamp_ns record) ''ubx.mon_hw'']
      else [])"

definition jamming_events :: "UbxMonHwRecord \<Rightarrow> GnssDiagnosticEvent list" where
  "jamming_events record =
     (let build = (\<lambda>severity code message. [BuildReceiverDiagnostic severity code message (hw_timestamp_ns record) ''ubx.mon_hw'']) in
      case hw_jamming_state record of
        JS_kOk \<Rightarrow>
          build DS_kOk ''ubx_mon_hw.jamming_ok'' ''u-blox hardware monitor reports no significant jamming''
      | JS_kWarning \<Rightarrow>
          build DS_kWarning ''ubx_mon_hw.jamming_warning''
            ''u-blox hardware monitor reports visible interference but fix remains available''
      | JS_kCritical \<Rightarrow>
          build DS_kError ''ubx_mon_hw.jamming_critical''
            ''u-blox hardware monitor reports critical interference with no fix''
      | JS_kUnknown \<Rightarrow> [])"

definition UbxMonHwToDiagnosticEvents :: "UbxMonHwRecord \<Rightarrow> GnssDiagnosticEvent list" where
  "UbxMonHwToDiagnosticEvents record =
     (if hw_layout record \<noteq> HL_kClassic then []
      else antenna_events record @ antenna_power_events record @ jamming_events record)"

end
