(* ===== verification/Cxx_Number.thy ===== *)
theory Cxx_Number
  imports Cxx_Text Runtime_State
begin

text \<open>
  The C conversions the text parsers use, for the \<open>"C"\<close> locale and 64-bit \<open>long\<close> (\<open>std::strtod\<close>, \<open>strtoul\<close>, \<open>strtol\<close>
  of a \<open>std::string\<close>'s \<open>c_str()\<close>, hexadecimal floating constants included), and the helpers over them that
  nmea_parser.cpp and unicore_parser.cpp both have: \<open>TryParse...\<close> and the CSV tokenizer.

  \<open>strtod\<close> is correctly rounded; a conversion to an infinity or a NaN, which every caller refuses, is no conversion
  here; it reports a range error on overflow and for an inexact result below the normal numbers, as glibc does.
\<close>

section \<open>The C library\<close>

text \<open>The string \<open>c_str()\<close> points to ends at the first zero character.\<close>

definition c_str :: "string \<Rightarrow> string" where
  "c_str s = takeWhile (\<lambda>c. char_code c \<noteq> 0) s"

definition digit_value :: "char \<Rightarrow> nat" where
  "digit_value c =
     (if c_isdigit c then char_code c - 48
      else if c_isupper c then char_code c - 55 else char_code c - 87)"

definition digits_value :: "nat \<Rightarrow> string \<Rightarrow> nat" where
  "digits_value base ds = foldl (\<lambda>n c. base * n + digit_value c) 0 ds"

text \<open>The optional sign, and whether it is a minus.\<close>

definition c_sign :: "string \<Rightarrow> bool \<times> string" where
  "c_sign s =
     (case s of
        c # cs \<Rightarrow> if c = CHR ''-'' then (True, cs) else if c = CHR ''+'' then (False, cs) else (False, s)
      | [] \<Rightarrow> (False, s))"

text \<open>An integer constant of base 10: sign, digits and rest, if there is a digit.\<close>

definition c_integer :: "string \<Rightarrow> (bool \<times> nat \<times> string) option" where
  "c_integer s =
     (let (negative, s1) = c_sign (dropWhile c_isspace s);
          ds = takeWhile c_isdigit s1 in
      if ds = [] then None else Some (negative, digits_value 10 ds, dropWhile c_isdigit s1))"

text \<open>The fraction and the exponent of a floating constant; an exponent without digits is not part of it.\<close>

definition c_fraction :: "(char \<Rightarrow> bool) \<Rightarrow> string \<Rightarrow> string \<times> string" where
  "c_fraction is_digit s =
     (case s of
        c # cs \<Rightarrow> if c = CHR ''.'' then (takeWhile is_digit cs, dropWhile is_digit cs) else ([], s)
      | [] \<Rightarrow> ([], s))"

definition c_exponent :: "char \<Rightarrow> string \<Rightarrow> int \<times> string" where
  "c_exponent marker s =
     (case s of
        c # cs \<Rightarrow>
          (let (negative, s1) = c_sign cs;
               ds = takeWhile c_isdigit s1 in
           if c_tolower c = marker \<and> ds \<noteq> []
           then ((if negative then - int (digits_value 10 ds) else int (digits_value 10 ds)), dropWhile c_isdigit s1)
           else (0, s))
      | [] \<Rightarrow> (0, s))"

definition power_of :: "nat \<Rightarrow> int \<Rightarrow> rat" where
  "power_of b e = (if 0 \<le> e then of_nat b ^ nat e else 1 / of_nat b ^ nat (- e))"

text \<open>A floating constant of one base: its exact value and the rest, if there is a digit.\<close>

definition c_float_constant ::
  "nat \<Rightarrow> (char \<Rightarrow> bool) \<Rightarrow> char \<Rightarrow> nat \<Rightarrow> string \<Rightarrow> (rat \<times> string) option" where
  "c_float_constant base is_digit marker exponent_base s =
     (let ip = takeWhile is_digit s;
          (fp, s1) = c_fraction is_digit (dropWhile is_digit s);
          (e, s2) = c_exponent marker s1 in
      if ip = [] \<and> fp = [] then None
      else Some (of_nat (digits_value base (ip @ fp)) * power_of base (- int (length fp)) * power_of exponent_base e, s2))"

definition is_hex_prefix :: "string \<Rightarrow> bool" where
  "is_hex_prefix s \<longleftrightarrow> take 1 s = ''0'' \<and> map c_tolower (take 1 (drop 1 s)) = ''x''"

definition strtod_exact :: "string \<Rightarrow> (rat \<times> string) option" where
  "strtod_exact s =
     (let (negative, s1) = c_sign (dropWhile c_isspace s);
          signed = map_option (\<lambda>(v, rest). (if negative then - v else v, rest));
          hex = (if is_hex_prefix s1 then c_float_constant 16 c_isxdigit CHR ''p'' 2 (drop 2 s1) else None) in
      case hex of
        Some r \<Rightarrow> signed (Some r)
      | None \<Rightarrow> signed (c_float_constant 10 c_isdigit CHR ''e'' 10 s1))"

definition range_error :: "rat \<Rightarrow> bool" where
  "range_error x \<longleftrightarrow>
     \<not> dbl_isfinite (round_double x) \<or> \<bar>round_rat x\<bar> < pow2 (- 1022) \<and> round_rat x \<noteq> x"

section \<open>The helpers of the parsers\<close>

text \<open>The value, where the function returns true.  Without a conversion the end pointer is the start.\<close>

definition TryParseDouble :: "string \<Rightarrow> double option" where
  "TryParseDouble text_view =
     (if text_view = [] then None
      else
        let buffer = c_str text_view in
        case strtod_exact buffer of
          None \<Rightarrow> if buffer = [] then Some (Finite 0) else None
        | Some (x, rest) \<Rightarrow> if range_error x \<or> rest \<noteq> [] then None else Some (round_double x))"

definition TryParseUnsigned :: "string \<Rightarrow> nat option" where
  "TryParseUnsigned text_view =
     (if text_view = [] then None
      else
        let buffer = c_str text_view in
        case c_integer buffer of
          None \<Rightarrow> if buffer = [] then Some 0 else None
        | Some (negative, n, rest) \<Rightarrow>
            let parsed = (if negative then (2 ^ 64 - n) mod 2 ^ 64 else n) in
            if n \<ge> 2 ^ 64 \<or> rest \<noteq> [] \<or> parsed > 2 ^ 32 - 1 then None else Some parsed)"

definition TryParseSigned :: "string \<Rightarrow> int option" where
  "TryParseSigned text_view =
     (if text_view = [] then None
      else
        let buffer = c_str text_view in
        case c_integer buffer of
          None \<Rightarrow> if buffer = [] then Some 0 else None
        | Some (negative, n, rest) \<Rightarrow>
            let parsed = (if negative then - int n else int n) in
            if rest \<noteq> [] \<or> parsed < - (2 ^ 31) \<or> parsed > 2 ^ 31 - 1 then None else Some parsed)"

text \<open>\<open>TokenizeCsv\<close> with room for a number of fields: the fields, unless there are too many.\<close>

function tokenize_loop :: "nat \<Rightarrow> string \<Rightarrow> string list \<Rightarrow> string list option" where
  "tokenize_loop max_fields rest cols =
     (if length cols \<ge> max_fields then None
      else
        case find_char CHR '','' rest of
          None \<Rightarrow> Some (cols @ [rest])
        | Some comma \<Rightarrow>
            let cols1 = cols @ [take comma rest];
                rest1 = drop (comma + 1) rest in
            if rest1 = [] then
              if length cols1 \<ge> max_fields then None else Some (cols1 @ [[]])
            else tokenize_loop max_fields rest1 cols1)"
  by pat_completeness auto
termination
  by (relation "measure (\<lambda>(n, rest, cols). length rest)") (auto dest: find_char_less)

declare tokenize_loop.simps [simp del]

definition TokenizeCsv :: "nat \<Rightarrow> string \<Rightarrow> string list option" where
  "TokenizeCsv max_fields text_view = tokenize_loop max_fields text_view []"

section \<open>Tokenizing is splitting at every comma\<close>

fun split_csv :: "string \<Rightarrow> string list" where
  "split_csv [] = [[]]"
| "split_csv (c # cs) =
     (if c = CHR '','' then [] # split_csv cs
      else (case split_csv cs of f # fs \<Rightarrow> (c # f) # fs | [] \<Rightarrow> [[c]]))"

lemma split_csv_Cons: "\<exists>f fs. split_csv s = f # fs"
  by (induction s) (auto split: list.split)

lemma split_csv_find:
  "split_csv s =
     (case find_char CHR '','' s of None \<Rightarrow> [s] | Some k \<Rightarrow> take k s # split_csv (drop (k + 1) s))"
proof (induction s)
  case (Cons c cs)
  have "find_char CHR '','' (c # cs) =
      (if c = CHR '','' then Some 0 else map_option Suc (find_char CHR '','' cs))"
    by (auto simp: find_char_def)
  with Cons show ?case by (auto split: option.splits)
qed (simp add: find_char_def)

lemma tokenize_loop_split:
  "tokenize_loop n rest cols =
     (if length cols + length (split_csv rest) \<le> n then Some (cols @ split_csv rest) else None)"
proof (induction n rest cols rule: tokenize_loop.induct)
  case (1 n rest cols)
  obtain f fs where split: "split_csv rest = f # fs" using split_csv_Cons by blast
  show ?case
  proof (cases "find_char CHR '','' rest")
    case None
    then show ?thesis using split_csv_find [of rest] by (subst tokenize_loop.simps) auto
  next
    case (Some k)
    note rest = split_csv_find [of rest, unfolded Some, simplified]
    obtain g gs where "split_csv (drop (Suc k) rest) = g # gs" using split_csv_Cons by blast
    with Some 1 [OF _ Some refl refl] show ?thesis
      by (subst tokenize_loop.simps) (auto simp: rest Let_def not_le)
  qed
qed

lemma TokenizeCsv_split:
  "TokenizeCsv n s = (if length (split_csv s) \<le> n then Some (split_csv s) else None)"
  by (simp add: TokenizeCsv_def tokenize_loop_split)

lemma split_csv_no_comma: "f \<in> set (split_csv s) \<Longrightarrow> CHR '','' \<notin> set f"
proof (induction s arbitrary: f)
  case (Cons c cs)
  then show ?case by (auto split: if_splits list.splits)
qed simp

fun join_csv :: "string list \<Rightarrow> string" where
  "join_csv [] = []"
| "join_csv [f] = f"
| "join_csv (f # fs) = f @ CHR '','' # join_csv fs"

lemma join_csv_Cons: "join_csv (f # fs) = (if fs = [] then f else f @ CHR '','' # join_csv fs)"
  by (cases fs) simp_all

lemma join_split: "join_csv (split_csv s) = s"
proof (induction s)
  case (Cons c cs)
  obtain f fs where "split_csv cs = f # fs" using split_csv_Cons by blast
  with Cons show ?case by (auto simp: join_csv_Cons split: if_splits)
qed simp

end
