(* ===== verification/Nmea_Parser.thy ===== *)
theory Nmea_Parser
  imports Cxx_Number Protocol_Records
begin

text \<open>
  The NMEA 0183 sentence parsers (gnss_protocols/src/nmea_parser.cpp, nmea_records.hpp): GGA, RMC, GSA, GSV, GST, VTG
  and ZDA.  An output parameter of a helper is the second component of its result; the fixed-size arrays of the records
  are lists of the used entries, and a field past the tokenized ones is empty.
\<close>

section \<open>Records\<close>

record NmeaUtcTime =
  nt_hour :: u8
  nt_minute :: u8
  nt_second :: double

record NmeaDate =
  nda_day :: u8
  nda_month :: u8
  nda_year_two_digits :: u8

datatype NmeaGsaMode = GM_kUnknown | GM_kManual | GM_kAutomatic

datatype NmeaFixDimension = ND_kUnknown | ND_kNoFix | ND_k2D | ND_k3D

datatype NmeaGgaFixQuality =
    GQ_kInvalid | GQ_kGpsFix | GQ_kDifferentialFix | GQ_kPpsFix | GQ_kRtkFixed | GQ_kRtkFloat | GQ_kEstimated | GQ_kManual
  | GQ_kSimulation

record NmeaGgaRecord =
  gga_timestamp_ns :: "timestamp_ns option"
  gga_utc_time :: "NmeaUtcTime option"
  gga_latitude_deg :: "double option"
  gga_longitude_deg :: "double option"
  gga_altitude_m :: "double option"
  gga_fix_quality :: NmeaGgaFixQuality
  gga_fix_valid :: bool
  gga_satellites_used :: "u16 option"
  gga_hdop :: "float32 option"

record NmeaRmcRecord =
  rmc_timestamp_ns :: "timestamp_ns option"
  rmc_utc_time :: "NmeaUtcTime option"
  rmc_date :: "NmeaDate option"
  rmc_latitude_deg :: "double option"
  rmc_longitude_deg :: "double option"
  rmc_speed_over_ground_knots :: "float32 option"
  rmc_course_over_ground_deg :: "float32 option"
  rmc_fix_valid :: bool

record NmeaGsaRecord =
  gsa_timestamp_ns :: "timestamp_ns option"
  gsa_fix_mode :: NmeaGsaMode
  gsa_fix_dimension :: NmeaFixDimension
  gsa_pdop :: "float32 option"
  gsa_hdop :: "float32 option"
  gsa_vdop :: "float32 option"
  gsa_active_satellite_prns :: "u16 list"

record NmeaGsvSatellite =
  gsv_prn :: "u16 option"
  gsv_elevation_deg :: "u8 option"
  gsv_azimuth_deg :: "u16 option"
  gsv_cn0_db_hz :: "float32 option"

record NmeaGsvRecord =
  gsv_timestamp_ns :: "timestamp_ns option"
  gsv_total_messages :: u8
  gsv_message_index :: u8
  gsv_satellites_in_view :: u16
  gsv_satellites :: "NmeaGsvSatellite list"

record NmeaGstRecord =
  gst_timestamp_ns :: "timestamp_ns option"
  gst_utc_time :: "NmeaUtcTime option"
  gst_rms_range_residual_m :: "float32 option"
  gst_semi_major_std_dev_m :: "float32 option"
  gst_semi_minor_std_dev_m :: "float32 option"
  gst_orientation_deg :: "float32 option"
  gst_latitude_std_dev_m :: "float32 option"
  gst_longitude_std_dev_m :: "float32 option"
  gst_altitude_std_dev_m :: "float32 option"

record NmeaVtgRecord =
  vtg_timestamp_ns :: "timestamp_ns option"
  vtg_true_course_deg :: "float32 option"
  vtg_magnetic_course_deg :: "float32 option"
  vtg_speed_knots :: "float32 option"
  vtg_speed_kmh :: "float32 option"
  vtg_mode_indicator :: "char option"

record NmeaZdaRecord =
  zda_timestamp_ns :: "timestamp_ns option"
  zda_utc_time :: "NmeaUtcTime option"
  zda_day :: u8
  zda_month :: u8
  zda_year :: u16
  zda_local_zone_hours :: "int option"
  zda_local_zone_minutes :: "int option"

section \<open>Optional cols\<close>

text \<open>\<open>kMissing\<close>, \<open>kInvalid\<close>, and \<open>kValue\<close> with the value.\<close>

datatype 'a OptionalField = OF_kMissing | OF_kInvalid | OF_kValue 'a

fun field_option :: "'a OptionalField \<Rightarrow> 'a option" where
  "field_option (OF_kValue v) = Some v"
| "field_option OF_kMissing = None"
| "field_option OF_kInvalid = None"

definition optional_field :: "string \<Rightarrow> 'a option \<Rightarrow> 'a OptionalField" where
  "optional_field text_view parsed =
     (if text_view = [] then OF_kMissing else case parsed of None \<Rightarrow> OF_kInvalid | Some v \<Rightarrow> OF_kValue v)"

definition checked :: "('a \<Rightarrow> bool) \<Rightarrow> 'a option \<Rightarrow> 'a option" where
  "checked ok parsed = (case parsed of None \<Rightarrow> None | Some v \<Rightarrow> if ok v then Some v else None)"

definition ParseOptionalFloat :: "string \<Rightarrow> float32 OptionalField" where
  "ParseOptionalFloat text_view = optional_field text_view (map_option float_of (TryParseDouble text_view))"

definition ParseOptionalDouble :: "string \<Rightarrow> double OptionalField" where
  "ParseOptionalDouble text_view = optional_field text_view (TryParseDouble text_view)"

definition ParseOptionalUnsigned16 :: "string \<Rightarrow> u16 OptionalField" where
  "ParseOptionalUnsigned16 text_view =
     optional_field text_view (map_option word_of_nat (checked (\<lambda>n. n \<le> 0xFFFF) (TryParseUnsigned text_view)))"

definition ParseOptionalUnsigned8 :: "string \<Rightarrow> u8 OptionalField" where
  "ParseOptionalUnsigned8 text_view =
     optional_field text_view (map_option word_of_nat (checked (\<lambda>n. n \<le> 0xFF) (TryParseUnsigned text_view)))"

definition ParseOptionalSigned8 :: "string \<Rightarrow> int OptionalField" where
  "ParseOptionalSigned8 text_view =
     optional_field text_view (checked (\<lambda>n. - 128 \<le> n \<and> n \<le> 127) (TryParseSigned text_view))"

definition ParseOptionalPositiveFloat :: "string \<Rightarrow> float32 OptionalField" where
  "ParseOptionalPositiveFloat text_view =
     (case ParseOptionalFloat text_view of
        OF_kValue v \<Rightarrow> if dbl_less v (Finite 0) then OF_kInvalid else OF_kValue v
      | status \<Rightarrow> status)"

definition ParseOptionalUtcTime :: "string \<Rightarrow> NmeaUtcTime OptionalField" where
  "ParseOptionalUtcTime text_view =
     (if text_view = [] then OF_kMissing
      else if length text_view < 6 then OF_kInvalid
      else
        (case (TryParseUnsigned (take 2 text_view), TryParseUnsigned (take 2 (drop 2 text_view))) of
           (Some hour, Some minute) \<Rightarrow>
             (case TryParseDouble (drop 4 text_view) of
                None \<Rightarrow> OF_kInvalid
              | Some seconds \<Rightarrow>
                  if hour > 23 \<or> minute > 59 \<or> dbl_less seconds (Finite 0) \<or> \<not> dbl_less seconds (Finite 61) then OF_kInvalid
                  else OF_kValue \<lparr>nt_hour = word_of_nat hour, nt_minute = word_of_nat minute, nt_second = seconds\<rparr>)
         | _ \<Rightarrow> OF_kInvalid))"

definition ParseOptionalDate :: "string \<Rightarrow> NmeaDate OptionalField" where
  "ParseOptionalDate text_view =
     (if text_view = [] then OF_kMissing
      else if length text_view \<noteq> 6 then OF_kInvalid
      else
        (case (TryParseUnsigned (take 2 text_view), TryParseUnsigned (take 2 (drop 2 text_view)),
               TryParseUnsigned (take 2 (drop 4 text_view))) of
           (Some day, Some month, Some year) \<Rightarrow>
             if day = 0 \<or> day > 31 \<or> month = 0 \<or> month > 12 then OF_kInvalid
             else OF_kValue \<lparr>nda_day = word_of_nat day, nda_month = word_of_nat month, nda_year_two_digits = word_of_nat year\<rparr>
         | _ \<Rightarrow> OF_kInvalid))"

section \<open>Coordinates\<close>

definition ParseNmeaDegreesMinutes :: "string \<Rightarrow> nat \<Rightarrow> double option" where
  "ParseNmeaDegreesMinutes field degree_digits =
     (if field = [] then None
      else
        let digits_before_decimal = (case find_char CHR ''.'' field of None \<Rightarrow> length field | Some k \<Rightarrow> k) in
        if digits_before_decimal < degree_digits + 2 then None
        else
          case TryParseUnsigned (take degree_digits field) of
            None \<Rightarrow> None
          | Some degrees \<Rightarrow>
              (case TryParseDouble (drop degree_digits field) of
                 Some (Finite minutes) \<Rightarrow>
                   if minutes < 0 \<or> minutes \<ge> 60 then None
                   else
                     (case round_double (minutes / 60) of
                        Finite fraction \<Rightarrow> Some (round_double (of_nat degrees + fraction))
                      | _ \<Rightarrow> None)
               | _ \<Rightarrow> None))"

definition dbl_negate :: "double \<Rightarrow> double" where
  "dbl_negate x = (case x of Finite a \<Rightarrow> Finite (- a) | PosInf \<Rightarrow> NegInf | NegInf \<Rightarrow> PosInf | NaN \<Rightarrow> NaN)"

definition ParseOptionalCoordinate :: "string \<Rightarrow> string \<Rightarrow> nat \<Rightarrow> char \<Rightarrow> char \<Rightarrow> double OptionalField" where
  "ParseOptionalCoordinate value_field hemisphere_field degree_digits positive_hemisphere negative_hemisphere =
     (if value_field = [] \<and> hemisphere_field = [] then OF_kMissing
      else if value_field = [] \<or> length hemisphere_field \<noteq> 1 then OF_kInvalid
      else
        case ParseNmeaDegreesMinutes value_field degree_digits of
          None \<Rightarrow> OF_kInvalid
        | Some parsed \<Rightarrow>
            let hemisphere = hd hemisphere_field in
            if hemisphere = negative_hemisphere then OF_kValue (dbl_negate parsed)
            else if hemisphere = positive_hemisphere then OF_kValue parsed
            else OF_kInvalid)"

definition out_of_range :: "rat \<Rightarrow> double OptionalField \<Rightarrow> bool" where
  "out_of_range bound status =
     (case status of OF_kValue v \<Rightarrow> dbl_less v (Finite (- bound)) \<or> dbl_less (Finite bound) v | _ \<Rightarrow> False)"

definition ParseNmeaLatitude :: "string \<Rightarrow> string \<Rightarrow> double option" where
  "ParseNmeaLatitude field hemisphere =
     (let status = ParseOptionalCoordinate field hemisphere 2 CHR ''N'' CHR ''S'' in
      if out_of_range 90 status then None else field_option status)"

definition ParseNmeaLongitude :: "string \<Rightarrow> string \<Rightarrow> double option" where
  "ParseNmeaLongitude field hemisphere =
     (let status = ParseOptionalCoordinate field hemisphere 3 CHR ''E'' CHR ''W'' in
      if out_of_range 180 status then None else field_option status)"

section \<open>Sentences\<close>

definition IsNmeaSentenceType :: "NmeaSentence \<Rightarrow> string \<Rightarrow> bool" where
  "IsNmeaSentenceType sentence sentence_type \<longleftrightarrow> nmea_sentence_type sentence = sentence_type"

definition fld :: "string list \<Rightarrow> nat \<Rightarrow> string" where
  "fld cols i = (if i < length cols then cols ! i else [])"

text \<open>The guard every parser starts with: another sentence, a checksum that is not valid, or too many or too few
  cols.\<close>

definition with_fields ::
  "string \<Rightarrow> nat \<Rightarrow> nat \<Rightarrow> NmeaSentence \<Rightarrow> (string list \<Rightarrow> 'r ParserResult) \<Rightarrow> 'r ParserResult" where
  "with_fields sentence_type max_fields min_fields sentence parse =
     (if \<not> IsNmeaSentenceType sentence sentence_type then Skipped
      else if nmea_checksum_status sentence \<noteq> CS_kValid then InvalidData
      else
        case TokenizeCsv max_fields (nmea_payload_text sentence) of
          None \<Rightarrow> InvalidData
        | Some cols \<Rightarrow> if length cols < min_fields then InvalidData else parse cols)"

text \<open>A field that is read when there are more than a number of fields.\<close>

definition field_from :: "string list \<Rightarrow> nat \<Rightarrow> (string \<Rightarrow> 'a OptionalField) \<Rightarrow> 'a OptionalField" where
  "field_from cols i parse = (if length cols > i then parse (fld cols i) else OF_kMissing)"

definition ParseGgaFixQuality :: "string \<Rightarrow> NmeaGgaFixQuality option" where
  "ParseGgaFixQuality text_view =
     (case TryParseUnsigned text_view of
        None \<Rightarrow> None
      | Some n \<Rightarrow>
          if n > 8 then None
          else Some ([GQ_kInvalid, GQ_kGpsFix, GQ_kDifferentialFix, GQ_kPpsFix, GQ_kRtkFixed, GQ_kRtkFloat, GQ_kEstimated,
                      GQ_kManual, GQ_kSimulation] ! n))"

definition ParseNmeaGga :: "NmeaSentence \<Rightarrow> NmeaGgaRecord ParserResult" where
  "ParseNmeaGga sentence = with_fields ''GGA'' 16 7 sentence (\<lambda>cols.
     let utc = ParseOptionalUtcTime (fld cols 1);
         latitude = ParseOptionalCoordinate (fld cols 2) (fld cols 3) 2 CHR ''N'' CHR ''S'';
         longitude = ParseOptionalCoordinate (fld cols 4) (fld cols 5) 3 CHR ''E'' CHR ''W'';
         satellites = field_from cols 7 ParseOptionalUnsigned16;
         hdop = field_from cols 8 ParseOptionalFloat;
         altitude = field_from cols 9 ParseOptionalDouble in
     if utc = OF_kInvalid then InvalidData
     else if latitude = OF_kInvalid \<or> out_of_range 90 latitude then InvalidData
     else if longitude = OF_kInvalid \<or> out_of_range 180 longitude then InvalidData
     else
       case ParseGgaFixQuality (fld cols 6) of
         None \<Rightarrow> InvalidData
       | Some quality \<Rightarrow>
           if satellites = OF_kInvalid then InvalidData
           else if hdop = OF_kInvalid then InvalidData
           else if altitude = OF_kInvalid then InvalidData
           else if field_option altitude \<noteq> None \<and> length cols > 10 \<and> fld cols 10 \<noteq> [] \<and> fld cols 10 \<noteq> ''M''
           then InvalidData
           else RecordReady
             \<lparr>gga_timestamp_ns = nmea_timestamp_ns sentence, gga_utc_time = field_option utc,
              gga_latitude_deg = field_option latitude, gga_longitude_deg = field_option longitude,
              gga_altitude_m = field_option altitude, gga_fix_quality = quality,
              gga_fix_valid = (quality \<noteq> GQ_kInvalid), gga_satellites_used = field_option satellites,
              gga_hdop = field_option hdop\<rparr>)"

definition not_in_circle :: "float32 OptionalField \<Rightarrow> bool" where
  "not_in_circle status =
     (case status of OF_kValue v \<Rightarrow> dbl_less v (Finite 0) \<or> dbl_eq v (Finite 360) \<or> dbl_less (Finite 360) v | _ \<Rightarrow> False)"

definition ParseNmeaRmc :: "NmeaSentence \<Rightarrow> NmeaRmcRecord ParserResult" where
  "ParseNmeaRmc sentence = with_fields ''RMC'' 16 3 sentence (\<lambda>cols.
     let utc = ParseOptionalUtcTime (fld cols 1);
         count = length cols;
         latitude = (if count > 6 then ParseOptionalCoordinate (fld cols 3) (fld cols 4) 2 CHR ''N'' CHR ''S'' else OF_kMissing);
         longitude = (if count > 6 then ParseOptionalCoordinate (fld cols 5) (fld cols 6) 3 CHR ''E'' CHR ''W'' else OF_kMissing);
         speed = field_from cols 7 ParseOptionalFloat;
         course = field_from cols 8 ParseOptionalFloat;
         date = field_from cols 9 ParseOptionalDate in
     if utc = OF_kInvalid then InvalidData
     else if fld cols 2 \<noteq> ''A'' \<and> fld cols 2 \<noteq> ''V'' then InvalidData
     else if count > 3 \<and> count \<le> 6 then InvalidData
     else if latitude = OF_kInvalid \<or> longitude = OF_kInvalid then InvalidData
     else if out_of_range 90 latitude then InvalidData
     else if out_of_range 180 longitude then InvalidData
     else if speed = OF_kInvalid then InvalidData
     else if course = OF_kInvalid then InvalidData
     else if not_in_circle course then InvalidData
     else if date = OF_kInvalid then InvalidData
     else RecordReady
       \<lparr>rmc_timestamp_ns = nmea_timestamp_ns sentence, rmc_utc_time = field_option utc, rmc_date = field_option date,
        rmc_latitude_deg = field_option latitude, rmc_longitude_deg = field_option longitude,
        rmc_speed_over_ground_knots = field_option speed, rmc_course_over_ground_deg = field_option course,
        rmc_fix_valid = (fld cols 2 = ''A'')\<rparr>)"

definition ParseGsaMode :: "string \<Rightarrow> NmeaGsaMode option" where
  "ParseGsaMode text_view =
     (if text_view = ''M'' then Some GM_kManual else if text_view = ''A'' then Some GM_kAutomatic else None)"

definition ParseFixDimension :: "string \<Rightarrow> NmeaFixDimension option" where
  "ParseFixDimension text_view =
     (case TryParseUnsigned text_view of
        None \<Rightarrow> None
      | Some n \<Rightarrow> if n < 1 \<or> n > 3 then None else Some ([ND_kUnknown, ND_kNoFix, ND_k2D, ND_k3D] ! n))"

text \<open>The satellites of a GSA sentence: at most twelve fields, of which the empty ones do not count.\<close>

fun gsa_satellites :: "string list \<Rightarrow> u16 list \<Rightarrow> u16 list option" where
  "gsa_satellites [] prns = Some prns"
| "gsa_satellites (f # fs) prns =
     (if length prns \<ge> 12 then Some prns
      else
        case ParseOptionalUnsigned16 f of
          OF_kInvalid \<Rightarrow> None
        | OF_kMissing \<Rightarrow> gsa_satellites fs prns
        | OF_kValue prn \<Rightarrow> gsa_satellites fs (prns @ [prn]))"

definition ParseNmeaGsa :: "NmeaSentence \<Rightarrow> NmeaGsaRecord ParserResult" where
  "ParseNmeaGsa sentence = with_fields ''GSA'' 24 3 sentence (\<lambda>cols.
     case (ParseGsaMode (fld cols 1), ParseFixDimension (fld cols 2)) of
       (Some mode, Some dimension) \<Rightarrow>
         (case gsa_satellites (drop 3 (take 15 cols)) [] of
            None \<Rightarrow> InvalidData
          | Some prns \<Rightarrow>
              let pdop = field_from cols 15 ParseOptionalPositiveFloat;
                  hdop = field_from cols 16 ParseOptionalPositiveFloat;
                  vdop = field_from cols 17 ParseOptionalPositiveFloat in
              if pdop = OF_kInvalid \<or> hdop = OF_kInvalid \<or> vdop = OF_kInvalid then InvalidData
              else RecordReady
                \<lparr>gsa_timestamp_ns = nmea_timestamp_ns sentence, gsa_fix_mode = mode, gsa_fix_dimension = dimension,
                 gsa_pdop = field_option pdop, gsa_hdop = field_option hdop, gsa_vdop = field_option vdop,
                 gsa_active_satellite_prns = prns\<rparr>)
     | _ \<Rightarrow> InvalidData)"

definition HasAnySatelliteBlockValue :: "string list \<Rightarrow> bool" where
  "HasAnySatelliteBlockValue cols = list_ex (\<lambda>f. f \<noteq> []) cols"

definition gsv_satellite :: "string list \<Rightarrow> NmeaGsvSatellite option" where
  "gsv_satellite block =
     (let prn = ParseOptionalUnsigned16 (block ! 0);
          elevation = ParseOptionalUnsigned8 (block ! 1);
          azimuth = ParseOptionalUnsigned16 (block ! 2);
          cn0 = ParseOptionalPositiveFloat (block ! 3) in
      if prn = OF_kInvalid \<or> elevation = OF_kInvalid \<or> azimuth = OF_kInvalid \<or> cn0 = OF_kInvalid then None
      else if (case elevation of OF_kValue e \<Rightarrow> e > 90 | _ \<Rightarrow> False) then None
      else if (case azimuth of OF_kValue a \<Rightarrow> a \<ge> 360 | _ \<Rightarrow> False) then None
      else Some
        \<lparr>gsv_prn = field_option prn, gsv_elevation_deg = field_option elevation, gsv_azimuth_deg = field_option azimuth,
         gsv_cn0_db_hz = field_option cn0\<rparr>)"

text \<open>The blocks of four fields; an incomplete one ends the loop, as do four satellites.\<close>

fun gsv_blocks :: "string list \<Rightarrow> NmeaGsvSatellite list \<Rightarrow> NmeaGsvSatellite list option" where
  "gsv_blocks (a # b # c # d # rest) satellites =
     (if length satellites \<ge> 4 then Some satellites
      else if \<not> HasAnySatelliteBlockValue [a, b, c, d] then gsv_blocks rest satellites
      else
        case gsv_satellite [a, b, c, d] of
          None \<Rightarrow> None
        | Some satellite \<Rightarrow> gsv_blocks rest (satellites @ [satellite]))"
| "gsv_blocks _ satellites = Some satellites"

definition ParseNmeaGsv :: "NmeaSentence \<Rightarrow> NmeaGsvRecord ParserResult" where
  "ParseNmeaGsv sentence = with_fields ''GSV'' 24 4 sentence (\<lambda>cols.
     case (TryParseUnsigned (fld cols 1), TryParseUnsigned (fld cols 2), TryParseUnsigned (fld cols 3)) of
       (Some messages, Some index, Some in_view) \<Rightarrow>
         if messages = 0 \<or> index = 0 \<or> index > messages \<or> messages > 0xFF \<or> index > 0xFF \<or> in_view > 0xFFFF then InvalidData
         else
           (case gsv_blocks (drop 4 cols) [] of
              None \<Rightarrow> InvalidData
            | Some satellites \<Rightarrow>
                RecordReady
                  \<lparr>gsv_timestamp_ns = nmea_timestamp_ns sentence, gsv_total_messages = word_of_nat messages,
                   gsv_message_index = word_of_nat index, gsv_satellites_in_view = word_of_nat in_view,
                   gsv_satellites = satellites\<rparr>)
     | _ \<Rightarrow> InvalidData)"

definition ParseNmeaGst :: "NmeaSentence \<Rightarrow> NmeaGstRecord ParserResult" where
  "ParseNmeaGst sentence = with_fields ''GST'' 16 2 sentence (\<lambda>cols.
     let utc = ParseOptionalUtcTime (fld cols 1);
         rms = field_from cols 2 ParseOptionalPositiveFloat;
         semi_major = field_from cols 3 ParseOptionalPositiveFloat;
         semi_minor = field_from cols 4 ParseOptionalPositiveFloat;
         orientation = field_from cols 5 ParseOptionalFloat;
         latitude = field_from cols 6 ParseOptionalPositiveFloat;
         longitude = field_from cols 7 ParseOptionalPositiveFloat;
         altitude = field_from cols 8 ParseOptionalPositiveFloat in
     if utc = OF_kInvalid \<or> rms = OF_kInvalid \<or> semi_major = OF_kInvalid \<or> semi_minor = OF_kInvalid
        \<or> orientation = OF_kInvalid \<or> not_in_circle orientation \<or> latitude = OF_kInvalid \<or> longitude = OF_kInvalid
        \<or> altitude = OF_kInvalid then InvalidData
     else RecordReady
       \<lparr>gst_timestamp_ns = nmea_timestamp_ns sentence, gst_utc_time = field_option utc,
        gst_rms_range_residual_m = field_option rms, gst_semi_major_std_dev_m = field_option semi_major,
        gst_semi_minor_std_dev_m = field_option semi_minor, gst_orientation_deg = field_option orientation,
        gst_latitude_std_dev_m = field_option latitude, gst_longitude_std_dev_m = field_option longitude,
        gst_altitude_std_dev_m = field_option altitude\<rparr>)"

definition unit_field_bad :: "string list \<Rightarrow> nat \<Rightarrow> string \<Rightarrow> bool" where
  "unit_field_bad cols i expected \<longleftrightarrow> length cols > i \<and> fld cols i \<noteq> [] \<and> fld cols i \<noteq> expected"

definition ParseOptionalModeIndicator :: "string \<Rightarrow> char OptionalField" where
  "ParseOptionalModeIndicator text_view =
     (if text_view = [] then OF_kMissing
      else if length text_view \<noteq> 1 then OF_kInvalid
      else if hd text_view \<in> set ''ADEMNS'' then OF_kValue (hd text_view) else OF_kInvalid)"

definition ParseNmeaVtg :: "NmeaSentence \<Rightarrow> NmeaVtgRecord ParserResult" where
  "ParseNmeaVtg sentence = with_fields ''VTG'' 16 1 sentence (\<lambda>cols.
     let true_course = field_from cols 1 ParseOptionalFloat;
         magnetic_course = field_from cols 3 ParseOptionalFloat;
         knots = field_from cols 5 ParseOptionalPositiveFloat;
         kmh = field_from cols 7 ParseOptionalPositiveFloat;
         mode = field_from cols 9 ParseOptionalModeIndicator in
     if true_course = OF_kInvalid \<or> not_in_circle true_course \<or> unit_field_bad cols 2 ''T''
        \<or> magnetic_course = OF_kInvalid \<or> not_in_circle magnetic_course \<or> unit_field_bad cols 4 ''M''
        \<or> knots = OF_kInvalid \<or> unit_field_bad cols 6 ''N''
        \<or> kmh = OF_kInvalid \<or> unit_field_bad cols 8 ''K'' \<or> mode = OF_kInvalid then InvalidData
     else RecordReady
       \<lparr>vtg_timestamp_ns = nmea_timestamp_ns sentence, vtg_true_course_deg = field_option true_course,
        vtg_magnetic_course_deg = field_option magnetic_course, vtg_speed_knots = field_option knots,
        vtg_speed_kmh = field_option kmh, vtg_mode_indicator = field_option mode\<rparr>)"

definition ParseNmeaZda :: "NmeaSentence \<Rightarrow> NmeaZdaRecord ParserResult" where
  "ParseNmeaZda sentence = with_fields ''ZDA'' 12 5 sentence (\<lambda>cols.
     case (ParseOptionalUtcTime (fld cols 1), TryParseUnsigned (fld cols 2), TryParseUnsigned (fld cols 3),
           TryParseUnsigned (fld cols 4)) of
       (OF_kValue utc, Some day, Some month, Some year) \<Rightarrow>
         if day = 0 \<or> day > 31 \<or> month = 0 \<or> month > 12 \<or> year < 1000 \<or> year > 9999 then InvalidData
         else
           let hours = field_from cols 5 ParseOptionalSigned8;
               minutes = field_from cols 6 ParseOptionalSigned8 in
           if hours = OF_kInvalid \<or> minutes = OF_kInvalid then InvalidData
           else if (field_option hours = None) \<noteq> (field_option minutes = None) then InvalidData
           else if (case hours of OF_kValue h \<Rightarrow> h < - 13 \<or> h > 13 | _ \<Rightarrow> False) then InvalidData
           else if (case minutes of OF_kValue m \<Rightarrow> m < 0 \<or> m > 59 | _ \<Rightarrow> False) then InvalidData
           else RecordReady
             \<lparr>zda_timestamp_ns = nmea_timestamp_ns sentence, zda_utc_time = Some utc, zda_day = word_of_nat day,
              zda_month = word_of_nat month, zda_year = word_of_nat year, zda_local_zone_hours = field_option hours,
              zda_local_zone_minutes = field_option minutes\<rparr>
     | _ \<Rightarrow> InvalidData)"

end
