(* ===== verification/Unicore_Fields.thy ===== *)
theory Unicore_Fields
  imports Nmea_Parser "HOL-Library.Monad_Syntax"
begin

text \<open>
  The field helpers of the Unicore parsers (gnss_protocols/src/unicore_parser.cpp, unicore_records.hpp): trimming,
  numbers of any base, the enumerations, and the header of an ASCII log.  Behind the trimming, the numeric helpers are
  those of nmea_parser.cpp.
\<close>

section \<open>Enumerations\<close>

datatype UnicoreTimeReference = UTR_kUnknown | UTR_kGps | UTR_kBds

datatype UnicoreTimeStatus = UTS_kUnknown | UTS_kFine

datatype UnicorePositionType =
    UP_kUnknown | UP_kNone | UP_kFixedPos | UP_kFixedHeight | UP_kDopplerVelocity | UP_kSingle | UP_kPsrDiff | UP_kSbas
  | UP_kL1Float | UP_kIonoFreeFloat | UP_kNarrowFloat | UP_kL1Int | UP_kWideInt | UP_kNarrowInt | UP_kIns | UP_kInsPsrsp
  | UP_kInsPsrDiff | UP_kInsRtkFloat | UP_kInsRtkFixed | UP_kPppConverging | UP_kPpp

datatype UnicoreSolutionStatus =
    US_kUnknown | US_kSolComputed | US_kInsufficientObs | US_kNoConvergence | US_kCovTrace

datatype UnicoreDualAntennaStatus = UD_kUnknown | UD_kNotSolved | UD_kWithinLimit | UD_kOutOfLimit | UD_kNotConfigured

datatype UnicoreJammingState = UJ_kUnknown | UJ_kNone | UJ_kJamming | UJ_kStrongJamming

datatype UnicoreSatelliteConstellation =
    USC_kUnknown | USC_kGps | USC_kGlonass | USC_kGalileo | USC_kBeiDou | USC_kQzss

record UnicoreAsciiHeader =
  uh_timestamp_ns :: "timestamp_ns option"
  uh_cpu_idle_percent :: u8
  uh_time_reference :: UnicoreTimeReference
  uh_time_status :: UnicoreTimeStatus
  uh_gps_week :: u16
  uh_gps_millis_of_week :: u32
  uh_format_version :: u32
  uh_leap_seconds :: u8
  uh_output_delay_ms :: u16

section \<open>Fields\<close>

definition is_trimmed_char :: "char \<Rightarrow> bool" where
  "is_trimmed_char c \<longleftrightarrow> c = CHR '' '' \<or> c = CHR 0x09 \<or> c = CHR 0x22"

definition TrimField :: "string \<Rightarrow> string" where
  "TrimField s = rev (dropWhile is_trimmed_char (rev (dropWhile is_trimmed_char s)))"

definition uni_TryParseUnsigned :: "string \<Rightarrow> nat option" where
  "uni_TryParseUnsigned s = TryParseUnsigned (TrimField s)"

definition uni_TryParseSigned :: "string \<Rightarrow> int option" where
  "uni_TryParseSigned s = TryParseSigned (TrimField s)"

definition uni_TryParseDouble :: "string \<Rightarrow> double option" where
  "uni_TryParseDouble s = TryParseDouble (TrimField s)"

definition LooksUnsignedIntegerField :: "string \<Rightarrow> bool" where
  "LooksUnsignedIntegerField s =
     (let text_view = TrimField s in text_view \<noteq> [] \<and> \<not> list_ex (\<lambda>c. c \<in> set ''.eE'') text_view)"

text \<open>\<open>strtoul\<close> with a base of 16, or with base 0, which reads the base from the prefix as C17 has it: sign, value and
  rest.  A \<open>0x\<close> that no hexadecimal digit follows is the number 0.\<close>

definition has_hex_prefix :: "string \<Rightarrow> bool" where
  "has_hex_prefix s \<longleftrightarrow> is_hex_prefix s \<and> (case drop 2 s of c # _ \<Rightarrow> c_isxdigit c | [] \<Rightarrow> False)"

definition c_integer_base :: "nat \<Rightarrow> string \<Rightarrow> (bool \<times> nat \<times> string) option" where
  "c_integer_base base s =
     (let (negative, s1) = c_sign (dropWhile c_isspace s);
          hex = base \<in> {0, 16} \<and> has_hex_prefix s1;
          radix = (if hex then 16 else if base = 0 then if take 1 s1 = ''0'' then 8 else 10 else base);
          s2 = (if hex then drop 2 s1 else s1);
          is_digit = (\<lambda>c. c_isxdigit c \<and> digit_value c < radix);
          ds = takeWhile is_digit s2 in
      if ds = [] then None else Some (negative, digits_value radix ds, dropWhile is_digit s2))"

definition TryParseUnsignedBase :: "string \<Rightarrow> nat \<Rightarrow> nat option" where
  "TryParseUnsignedBase s base =
     (let text_view = TrimField s in
      if text_view = [] then None
      else
        let buffer = c_str text_view in
        case c_integer_base base buffer of
          None \<Rightarrow> if buffer = [] then Some 0 else None
        | Some (negative, n, rest) \<Rightarrow>
            let parsed = (if negative then (2 ^ 64 - n) mod 2 ^ 64 else n) in
            if n \<ge> 2 ^ 64 \<or> rest \<noteq> [] \<or> parsed > 2 ^ 32 - 1 then None else Some parsed)"

definition TryParseUnsignedAutoBase :: "string \<Rightarrow> nat option" where
  "TryParseUnsignedAutoBase s = TryParseUnsignedBase s 0"

definition uni_ParseOptionalFloat :: "string \<Rightarrow> float32 OptionalField" where
  "uni_ParseOptionalFloat s = optional_field (TrimField s) (map_option float_of (uni_TryParseDouble s))"

definition uni_ParseOptionalDouble :: "string \<Rightarrow> double OptionalField" where
  "uni_ParseOptionalDouble s = optional_field (TrimField s) (uni_TryParseDouble s)"

definition uni_ParseOptionalUnsigned16 :: "string \<Rightarrow> u16 OptionalField" where
  "uni_ParseOptionalUnsigned16 s =
     optional_field (TrimField s) (map_option word_of_nat (checked (\<lambda>n. n \<le> 0xFFFF) (uni_TryParseUnsigned s)))"

definition uni_ParseOptionalUnsigned8 :: "string \<Rightarrow> u8 OptionalField" where
  "uni_ParseOptionalUnsigned8 s =
     optional_field (TrimField s) (map_option word_of_nat (checked (\<lambda>n. n \<le> 0xFF) (uni_TryParseUnsigned s)))"

definition ParseOptionalUnsigned32 :: "string \<Rightarrow> u32 OptionalField" where
  "ParseOptionalUnsigned32 s = optional_field (TrimField s) (map_option word_of_nat (uni_TryParseUnsigned s))"

definition ParseOptionalBoolEquals :: "string \<Rightarrow> string \<Rightarrow> bool OptionalField" where
  "ParseOptionalBoolEquals s expected = optional_field (TrimField s) (Some (TrimField s = expected))"

definition ParseOptionalAgcRegister :: "string \<Rightarrow> int OptionalField" where
  "ParseOptionalAgcRegister s =
     (if TrimField s = [] then OF_kMissing
      else
        case uni_TryParseSigned s of
          None \<Rightarrow> OF_kInvalid
        | Some parsed \<Rightarrow>
            if parsed = - 1 then OF_kMissing
            else if parsed < 0 \<or> parsed > 255 then OF_kInvalid else OF_kValue parsed)"

section \<open>Names and numbers of the enumerations\<close>

definition named :: "'a \<Rightarrow> (string \<times> 'a) list \<Rightarrow> string \<Rightarrow> 'a" where
  "named unknown table s = (case map_of table (TrimField s) of Some v \<Rightarrow> v | None \<Rightarrow> unknown)"

definition numbered :: "'a \<Rightarrow> (nat \<times> 'a) list \<Rightarrow> nat \<Rightarrow> 'a" where
  "numbered unknown table n = (case map_of table n of Some v \<Rightarrow> v | None \<Rightarrow> unknown)"

definition ParseTimeReference :: "string \<Rightarrow> UnicoreTimeReference" where
  "ParseTimeReference =
     named UTR_kUnknown
       [(''GPS'', UTR_kGps), (''GPST'', UTR_kGps), (''BDS'', UTR_kBds), (''BDT'', UTR_kBds), (''BDST'', UTR_kBds)]"

definition ParseTimeStatus :: "string \<Rightarrow> UnicoreTimeStatus" where
  "ParseTimeStatus = named UTS_kUnknown [(''FINE'', UTS_kFine)]"

definition ParseSolutionStatus :: "string \<Rightarrow> UnicoreSolutionStatus" where
  "ParseSolutionStatus =
     named US_kUnknown
       [(''SOL_COMPUTED'', US_kSolComputed), (''INSUFFICIENT_OBS'', US_kInsufficientObs),
        (''NO_CONVERGENCE'', US_kNoConvergence), (''COV_TRACE'', US_kCovTrace)]"

definition ParsePositionType :: "string \<Rightarrow> UnicorePositionType" where
  "ParsePositionType =
     named UP_kUnknown
       [(''NONE'', UP_kNone), (''FIXEDPOS'', UP_kFixedPos), (''FIXEDHEIGHT'', UP_kFixedHeight),
        (''DOPPLER_VELOCITY'', UP_kDopplerVelocity), (''SINGLE'', UP_kSingle), (''PSRDIFF'', UP_kPsrDiff),
        (''SBAS'', UP_kSbas), (''L1_FLOAT'', UP_kL1Float), (''IONOFREE_FLOAT'', UP_kIonoFreeFloat),
        (''NARROW_FLOAT'', UP_kNarrowFloat), (''L1_INT'', UP_kL1Int), (''WIDE_INT'', UP_kWideInt),
        (''NARROW_INT'', UP_kNarrowInt), (''INS'', UP_kIns), (''INS_PSRSP'', UP_kInsPsrsp),
        (''INS_PSRDIFF'', UP_kInsPsrDiff), (''INS_RTKFLOAT'', UP_kInsRtkFloat), (''INS_RTKFIXED'', UP_kInsRtkFixed),
        (''PPP_CONVERGING'', UP_kPppConverging), (''PPP'', UP_kPpp)]"

definition ParseDualAntennaStatus :: "string \<Rightarrow> UnicoreDualAntennaStatus" where
  "ParseDualAntennaStatus s =
     (case uni_TryParseUnsigned s of
        None \<Rightarrow> UD_kUnknown
      | Some n \<Rightarrow>
          numbered UD_kUnknown [(0, UD_kNotSolved), (1, UD_kWithinLimit), (2, UD_kOutOfLimit), (255, UD_kNotConfigured)] n)"

definition ParseJammingState :: "nat \<Rightarrow> UnicoreJammingState" where
  "ParseJammingState = numbered UJ_kUnknown [(0, UJ_kNone), (1, UJ_kJamming), (2, UJ_kStrongJamming)]"

definition ParseBestSatConstellation :: "string \<Rightarrow> UnicoreSatelliteConstellation" where
  "ParseBestSatConstellation =
     named USC_kUnknown
       [(''GPS'', USC_kGps), (''GLONASS'', USC_kGlonass), (''GALILEO'', USC_kGalileo), (''BEIDOU'', USC_kBeiDou),
        (''BDS'', USC_kBeiDou), (''QZSS'', USC_kQzss)]"

fun BestSatUsedSignalMask :: "UnicoreSatelliteConstellation \<Rightarrow> u32" where
  "BestSatUsedSignalMask USC_kGps = 0x0F"
| "BestSatUsedSignalMask USC_kGalileo = 0x0F"
| "BestSatUsedSignalMask USC_kQzss = 0x0F"
| "BestSatUsedSignalMask USC_kGlonass = 0x07"
| "BestSatUsedSignalMask USC_kBeiDou = 0x07"
| "BestSatUsedSignalMask USC_kUnknown = 0x00"

definition ParseBinarySolutionStatus :: "u32 \<Rightarrow> UnicoreSolutionStatus" where
  "ParseBinarySolutionStatus raw_value =
     numbered US_kUnknown
       [(0, US_kSolComputed), (1, US_kInsufficientObs), (2, US_kNoConvergence), (4, US_kCovTrace)] (unat raw_value)"

definition ParseBinaryPositionType :: "u32 \<Rightarrow> UnicorePositionType" where
  "ParseBinaryPositionType raw_value =
     numbered UP_kUnknown
       [(0, UP_kNone), (1, UP_kFixedPos), (2, UP_kFixedHeight), (8, UP_kDopplerVelocity), (16, UP_kSingle),
        (17, UP_kPsrDiff), (18, UP_kSbas), (32, UP_kL1Float), (33, UP_kIonoFreeFloat), (34, UP_kNarrowFloat),
        (48, UP_kL1Int), (49, UP_kWideInt), (50, UP_kNarrowInt), (52, UP_kIns), (53, UP_kInsPsrsp),
        (54, UP_kInsPsrDiff), (55, UP_kInsRtkFloat), (56, UP_kInsRtkFixed), (68, UP_kPppConverging), (69, UP_kPpp)]
       (unat raw_value)"

text \<open>The satellite of a BESTSAT entry and its GLONASS frequency channel, where the text has a sign behind its first
  character.\<close>

definition find_sign_from_1 :: "string \<Rightarrow> nat option" where
  "find_sign_from_1 s =
     (let k = 1 + length (takeWhile (\<lambda>c. c \<notin> set ''+-'') (drop 1 s)) in if k < length s then Some k else None)"

definition ParseBestSatSatelliteId :: "string \<Rightarrow> (u16 \<times> int option) option" where
  "ParseBestSatSatelliteId s =
     (let text_view = TrimField s in
      if text_view = [] then None
      else
        let suffix_offset = find_sign_from_1 text_view;
            satellite_text = (case suffix_offset of None \<Rightarrow> text_view | Some k \<Rightarrow> take k text_view) in
        case checked (\<lambda>n. n \<le> 0xFFFF) (uni_TryParseUnsigned satellite_text) of
          None \<Rightarrow> None
        | Some satellite_id \<Rightarrow>
            (case suffix_offset of
               None \<Rightarrow> Some (word_of_nat satellite_id, None)
             | Some k \<Rightarrow>
                 if k + 1 \<ge> length text_view then None
                 else
                   case checked (\<lambda>n. n \<le> 0x7FFF) (uni_TryParseUnsigned (drop (k + 1) text_view)) of
                     None \<Rightarrow> None
                   | Some channel \<Rightarrow>
                       Some (word_of_nat satellite_id,
                             Some (if text_view ! k = CHR ''-'' then - int channel else int channel))))"

section \<open>The header of an ASCII log\<close>

text \<open>The header and the body behind it.\<close>

definition ParseAsciiHeader :: "UnicoreFrame \<Rightarrow> string \<Rightarrow> (UnicoreAsciiHeader \<times> string) option" where
  "ParseAsciiHeader frame expected_name =
     (if uni_protocol frame \<noteq> PT_kUnicore \<or> uni_sync_char frame \<noteq> CHR ''#'' then None
      else if uni_checksum_status frame \<noteq> CS_kValid then None
      else if uni_message_name frame \<noteq> expected_name then None
      else
        let payload_text = text_of (uni_payload frame) in
        case find_char CHR '';'' payload_text of
          None \<Rightarrow> None
        | Some semicolon \<Rightarrow>
            let header_text = take semicolon payload_text;
                behind = drop (semicolon + 1) payload_text;
                body_text = (case find_char CHR ''*'' behind of None \<Rightarrow> behind | Some star \<Rightarrow> take star behind) in
            do {
              cols \<leftarrow> TokenizeCsv 16 header_text;
              (if length cols \<noteq> 10 \<or> TrimField (cols ! 0) \<noteq> expected_name then None
               else do {
                 cpu_idle \<leftarrow> checked (\<lambda>n. n \<le> 0xFF) (uni_TryParseUnsigned (cols ! 1));
                 week \<leftarrow> checked (\<lambda>n. n \<le> 0xFFFF) (uni_TryParseUnsigned (cols ! 4));
                 tow_ms \<leftarrow> uni_TryParseUnsigned (cols ! 5);
                 format_version \<leftarrow> uni_TryParseUnsigned (cols ! 6);
                 leap_seconds \<leftarrow> checked (\<lambda>n. n \<le> 0xFF) (uni_TryParseUnsigned (cols ! 8));
                 output_delay \<leftarrow> checked (\<lambda>n. n \<le> 0xFFFF) (uni_TryParseUnsigned (cols ! 9));
                 Some
                   (\<lparr>uh_timestamp_ns = uni_timestamp_ns frame, uh_cpu_idle_percent = word_of_nat cpu_idle,
                     uh_time_reference = ParseTimeReference (cols ! 2), uh_time_status = ParseTimeStatus (cols ! 3),
                     uh_gps_week = word_of_nat week, uh_gps_millis_of_week = word_of_nat tow_ms,
                     uh_format_version = word_of_nat format_version, uh_leap_seconds = word_of_nat leap_seconds,
                     uh_output_delay_ms = word_of_nat output_delay\<rparr>,
                    body_text)
               })
            })"

text \<open>What the parsers of logs with a fixed list of fields start with.\<close>

definition with_body ::
  "string \<Rightarrow> nat \<Rightarrow> nat \<Rightarrow> UnicoreFrame \<Rightarrow> (UnicoreAsciiHeader \<Rightarrow> string list \<Rightarrow> 'r option) \<Rightarrow> 'r ParserResult" where
  "with_body name max_fields min_fields frame parse =
     (case ParseAsciiHeader frame name of
        None \<Rightarrow> InvalidData
      | Some (header, body) \<Rightarrow>
          (case TokenizeCsv max_fields body of
             None \<Rightarrow> InvalidData
           | Some cols \<Rightarrow>
               if length cols < min_fields then InvalidData
               else (case parse header cols of None \<Rightarrow> InvalidData | Some record \<Rightarrow> RecordReady record)))"

text \<open>A field of which only an invalid value stops the parser.\<close>

definition lenient :: "'a OptionalField \<Rightarrow> 'a option option" where
  "lenient status = (if status = OF_kInvalid then None else Some (field_option status))"

definition ConsumeCsvField :: "string \<Rightarrow> (string \<times> string) option" where
  "ConsumeCsvField s =
     (if s = [] then None
      else
        case find_char CHR '','' s of
          None \<Rightarrow> Some (s, [])
        | Some comma \<Rightarrow> Some (take comma s, drop (comma + 1) s))"

section \<open>Lemmas\<close>

lemma trimmed_front:
  "dropWhile p (rev (dropWhile p (rev (dropWhile p s)))) = rev (dropWhile p (rev (dropWhile p s)))"
proof (cases "dropWhile p s")
  case (Cons c cs)
  then have "\<not> p c" by (simp add: dropWhile_eq_Cons_conv)
  then have "dropWhile p (rev (c # cs)) = (if \<forall>x \<in> set cs. p x then [] else dropWhile p (rev cs)) @ [c]"
    by (simp add: dropWhile_append dropWhile_eq_Nil_conv)
  with Cons \<open>\<not> p c\<close> show ?thesis by simp
next
  case Nil
  show ?thesis unfolding Nil by simp
qed

lemma TrimField_TrimField [simp]: "TrimField (TrimField s) = TrimField s"
  by (simp add: TrimField_def trimmed_front)

text \<open>A consumed field is followed by a strictly shorter rest.\<close>

lemma ConsumeCsvField_less: "ConsumeCsvField s = Some (f, rest) \<Longrightarrow> length rest < length s"
  by (auto simp: ConsumeCsvField_def split: if_splits option.splits)

end
