(* ===== verification/Unicore_Parser.thy ===== *)
theory Unicore_Parser
  imports Unicore_Fields
begin

unbundle bit_operations_syntax

text \<open>
  The parsers of the ASCII logs (gnss_protocols/src/unicore_parser.cpp, unicore_records.hpp).  A record that the ASCII
  and the binary form of a log share takes the type of its header as a parameter.
\<close>

section \<open>Records\<close>

record 'h UnicorePvtslnRecord =
  upv_header :: 'h
  upv_best_position_type :: UnicorePositionType
  upv_best_altitude_m :: double
  upv_best_latitude_deg :: double
  upv_best_longitude_deg :: double
  upv_best_altitude_std_m :: "float32 option"
  upv_best_latitude_std_m :: "float32 option"
  upv_best_longitude_std_m :: "float32 option"
  upv_best_diff_age_s :: "float32 option"
  upv_psr_position_type :: UnicorePositionType
  upv_psr_altitude_m :: "double option"
  upv_psr_latitude_deg :: "double option"
  upv_psr_longitude_deg :: "double option"
  upv_best_tracked_satellites :: "u16 option"
  upv_best_used_satellites :: "u16 option"
  upv_psr_tracked_satellites :: "u16 option"
  upv_psr_used_satellites :: "u16 option"
  upv_baseline_solution_status :: UnicoreSolutionStatus
  upv_baseline_length_m :: "float32 option"
  upv_baseline_azimuth_deg :: "float32 option"
  upv_baseline_pitch_deg :: "float32 option"
  upv_baseline_tracked_satellites :: "u16 option"
  upv_baseline_used_satellites :: "u16 option"
  upv_gdop :: "float32 option"
  upv_pdop :: "float32 option"
  upv_hdop :: "float32 option"
  upv_htdop :: "float32 option"
  upv_tdop :: "float32 option"

record 'h UnicoreBestNavRecord =
  ubn_header :: 'h
  ubn_solution_status :: UnicoreSolutionStatus
  ubn_position_type :: UnicorePositionType
  ubn_latitude_deg :: double
  ubn_longitude_deg :: double
  ubn_altitude_m :: double
  ubn_undulation_m :: "float32 option"
  ubn_datum_is_wgs84 :: "bool option"
  ubn_latitude_std_m :: "float32 option"
  ubn_longitude_std_m :: "float32 option"
  ubn_altitude_std_m :: "float32 option"
  ubn_diff_age_s :: "float32 option"
  ubn_solution_age_s :: "float32 option"
  ubn_tracked_satellites :: "u16 option"
  ubn_used_satellites :: "u16 option"

record UnicoreBestSatSatellite =
  ubs_constellation :: UnicoreSatelliteConstellation
  ubs_satellite_id :: u16
  ubs_glonass_frequency_channel :: "int option"
  ubs_status_good :: bool
  ubs_signal_mask :: u32
  ubs_used_in_solution :: bool
  ubs_common_view :: bool

text \<open>The satellites parsed; their number is the length of the list.\<close>

record UnicoreBestSatRecord =
  ubt_header :: UnicoreAsciiHeader
  ubt_entry_count :: u16
  ubt_satellites :: "UnicoreBestSatSatellite list"

record UnicoreRtkStatusRecord =
  urk_header :: UnicoreAsciiHeader
  urk_position_type :: UnicorePositionType
  urk_calculation_status :: "u32 option"
  urk_ionosphere_effect :: "u8 option"
  urk_dual_antenna_status :: UnicoreDualAntennaStatus
  urk_adr_observation_count :: "u16 option"

record UnicoreRtcmStatusRecord =
  urc_header :: UnicoreAsciiHeader
  urc_message_type :: u32
  urc_message_count :: u32
  urc_base_station_id :: u32
  urc_satellites_in_message :: u32
  urc_l1_observables :: u8
  urc_l2_observables :: u8
  urc_l3_observables :: u8
  urc_l4_observables :: u8
  urc_l5_observables :: u8
  urc_l6_observables :: u8

record UnicoreSatsInfoSatellite =
  uss_satellite_id :: u16
  uss_azimuth_deg :: int
  uss_elevation_deg :: int
  uss_system_id :: u8
  uss_frequency_status :: u8
  uss_frequency_count :: u8
  uss_cn0_db_hz :: u8

record UnicoreSatsInfoRecord =
  usi_header :: UnicoreAsciiHeader
  usi_tracked_satellite_count :: u16
  usi_version :: u8
  usi_frequency_flag :: u8
  usi_satellites :: "UnicoreSatsInfoSatellite list"

record UnicoreJamStatusRecord =
  ujs_header :: UnicoreAsciiHeader
  ujs_position_type :: UnicorePositionType
  ujs_cw_ratio :: u8
  ujs_cw_state :: UnicoreJammingState

record UnicoreFreqJamBandStatus =
  ufb_cw_ratio :: u8
  ufb_cw_state :: UnicoreJammingState

record UnicoreFreqJamStatusRecord =
  ufj_header :: UnicoreAsciiHeader
  ufj_position_type :: UnicorePositionType
  ufj_l1 :: UnicoreFreqJamBandStatus
  ufj_l2 :: UnicoreFreqJamBandStatus
  ufj_l5 :: UnicoreFreqJamBandStatus

record UnicoreHwStatusRecord =
  uhw_header :: UnicoreAsciiHeader
  uhw_reserved_counter :: int
  uhw_dc09_v :: float32
  uhw_dc10_v :: float32
  uhw_dc18_v :: float32
  uhw_clock_drift_valid :: bool
  uhw_clock_drift_mps :: float32
  uhw_hw_flag :: u8
  uhw_pll_lock :: u16

record UnicoreAgcRecord =
  uag_header :: UnicoreAsciiHeader
  uag_ant1_l1 :: "int option"
  uag_ant1_l2 :: "int option"
  uag_ant1_l5 :: "int option"
  uag_ant2_l1 :: "int option"
  uag_ant2_l2 :: "int option"
  uag_ant2_l5 :: "int option"

section \<open>Positions\<close>

definition ParseUnicorePvtsln :: "UnicoreFrame \<Rightarrow> UnicoreAsciiHeader UnicorePvtslnRecord ParserResult" where
  "ParseUnicorePvtsln frame = with_body ''PVTSLNA'' 96 17 frame (\<lambda>header cols. do {
     best_altitude \<leftarrow> uni_TryParseDouble (fld cols 1);
     best_latitude \<leftarrow> uni_TryParseDouble (fld cols 2);
     best_longitude \<leftarrow> uni_TryParseDouble (fld cols 3);
     best_altitude_std \<leftarrow> lenient (uni_ParseOptionalFloat (fld cols 4));
     best_latitude_std \<leftarrow> lenient (uni_ParseOptionalFloat (fld cols 5));
     best_longitude_std \<leftarrow> lenient (uni_ParseOptionalFloat (fld cols 6));
     best_diff_age \<leftarrow> lenient (uni_ParseOptionalFloat (fld cols 7));
     psr_altitude \<leftarrow> lenient (uni_ParseOptionalDouble (fld cols 9));
     psr_latitude \<leftarrow> lenient (uni_ParseOptionalDouble (fld cols 10));
     psr_longitude \<leftarrow> lenient (uni_ParseOptionalDouble (fld cols 11));
     best_tracked \<leftarrow> lenient (uni_ParseOptionalUnsigned16 (fld cols 13));
     best_used \<leftarrow> lenient (uni_ParseOptionalUnsigned16 (fld cols 14));
     psr_tracked \<leftarrow> lenient (uni_ParseOptionalUnsigned16 (fld cols 15));
     psr_used \<leftarrow> lenient (uni_ParseOptionalUnsigned16 (fld cols 16));
     baseline_length \<leftarrow> lenient (field_from cols 21 uni_ParseOptionalFloat);
     baseline_azimuth \<leftarrow> lenient (field_from cols 22 uni_ParseOptionalFloat);
     baseline_pitch \<leftarrow> lenient (field_from cols 23 uni_ParseOptionalFloat);
     baseline_tracked \<leftarrow> lenient (field_from cols 24 uni_ParseOptionalUnsigned16);
     baseline_used \<leftarrow> lenient (field_from cols 25 uni_ParseOptionalUnsigned16);
     gdop \<leftarrow> lenient (field_from cols 28 uni_ParseOptionalFloat);
     pdop \<leftarrow> lenient (field_from cols 29 uni_ParseOptionalFloat);
     hdop \<leftarrow> lenient (field_from cols 30 uni_ParseOptionalFloat);
     htdop \<leftarrow> lenient (field_from cols 31 uni_ParseOptionalFloat);
     tdop \<leftarrow> lenient (field_from cols 32 uni_ParseOptionalFloat);
     Some
       \<lparr>upv_header = header, upv_best_position_type = ParsePositionType (fld cols 0),
        upv_best_altitude_m = best_altitude, upv_best_latitude_deg = best_latitude,
        upv_best_longitude_deg = best_longitude, upv_best_altitude_std_m = best_altitude_std,
        upv_best_latitude_std_m = best_latitude_std, upv_best_longitude_std_m = best_longitude_std,
        upv_best_diff_age_s = best_diff_age, upv_psr_position_type = ParsePositionType (fld cols 8),
        upv_psr_altitude_m = psr_altitude, upv_psr_latitude_deg = psr_latitude, upv_psr_longitude_deg = psr_longitude,
        upv_best_tracked_satellites = best_tracked, upv_best_used_satellites = best_used,
        upv_psr_tracked_satellites = psr_tracked, upv_psr_used_satellites = psr_used,
        upv_baseline_solution_status = (if length cols > 20 then ParseSolutionStatus (fld cols 20) else US_kUnknown),
        upv_baseline_length_m = baseline_length, upv_baseline_azimuth_deg = baseline_azimuth,
        upv_baseline_pitch_deg = baseline_pitch, upv_baseline_tracked_satellites = baseline_tracked,
        upv_baseline_used_satellites = baseline_used, upv_gdop = gdop, upv_pdop = pdop, upv_hdop = hdop,
        upv_htdop = htdop, upv_tdop = tdop\<rparr>
   })"

text \<open>The UM98x receivers leave out the age of the solution; their longer logs give it away.\<close>

definition has_shifted_um98x_satellite_tail :: "string list \<Rightarrow> bool" where
  "has_shifted_um98x_satellite_tail cols \<longleftrightarrow>
     length cols > 21 \<and> LooksUnsignedIntegerField (fld cols 12) \<and> LooksUnsignedIntegerField (fld cols 13)
     \<and> ParseSolutionStatus (fld cols 20) \<noteq> US_kUnknown \<and> ParsePositionType (fld cols 21) \<noteq> UP_kUnknown"

definition ParseUnicoreBestNav :: "UnicoreFrame \<Rightarrow> UnicoreAsciiHeader UnicoreBestNavRecord ParserResult" where
  "ParseUnicoreBestNav frame = with_body ''BESTNAVA'' 48 16 frame (\<lambda>header cols. do {
     latitude \<leftarrow> uni_TryParseDouble (fld cols 2);
     longitude \<leftarrow> uni_TryParseDouble (fld cols 3);
     altitude \<leftarrow> uni_TryParseDouble (fld cols 4);
     undulation \<leftarrow> lenient (uni_ParseOptionalFloat (fld cols 5));
     wgs84 \<leftarrow> lenient (ParseOptionalBoolEquals (fld cols 6) ''WGS84'');
     latitude_std \<leftarrow> lenient (uni_ParseOptionalFloat (fld cols 7));
     longitude_std \<leftarrow> lenient (uni_ParseOptionalFloat (fld cols 8));
     altitude_std \<leftarrow> lenient (uni_ParseOptionalFloat (fld cols 9));
     diff_age \<leftarrow> lenient (uni_ParseOptionalFloat (fld cols 11));
     (solution_age, tracked, used) \<leftarrow>
       (if has_shifted_um98x_satellite_tail cols then do {
          tracked \<leftarrow> lenient (uni_ParseOptionalUnsigned16 (fld cols 12));
          used \<leftarrow> lenient (uni_ParseOptionalUnsigned16 (fld cols 13));
          Some (None, tracked, used)
        } else do {
          solution_age \<leftarrow> lenient (uni_ParseOptionalFloat (fld cols 12));
          tracked \<leftarrow> lenient (uni_ParseOptionalUnsigned16 (fld cols 13));
          used \<leftarrow> lenient (uni_ParseOptionalUnsigned16 (fld cols 14));
          Some (solution_age, tracked, used)
        });
     Some
       \<lparr>ubn_header = header, ubn_solution_status = ParseSolutionStatus (fld cols 0),
        ubn_position_type = ParsePositionType (fld cols 1), ubn_latitude_deg = latitude, ubn_longitude_deg = longitude,
        ubn_altitude_m = altitude, ubn_undulation_m = undulation, ubn_datum_is_wgs84 = wgs84,
        ubn_latitude_std_m = latitude_std, ubn_longitude_std_m = longitude_std, ubn_altitude_std_m = altitude_std,
        ubn_diff_age_s = diff_age, ubn_solution_age_s = solution_age, ubn_tracked_satellites = tracked,
        ubn_used_satellites = used\<rparr>
   })"

section \<open>Status logs\<close>

definition ParseUnicoreRtkStatus :: "UnicoreFrame \<Rightarrow> UnicoreRtkStatusRecord ParserResult" where
  "ParseUnicoreRtkStatus frame = with_body ''RTKSTATUSA'' 24 17 frame (\<lambda>header cols. do {
     calculation_status \<leftarrow> lenient (ParseOptionalUnsigned32 (fld cols 12));
     ionosphere_effect \<leftarrow> lenient (uni_ParseOptionalUnsigned8 (fld cols 13));
     adr_observation_count \<leftarrow> lenient (uni_ParseOptionalUnsigned16 (fld cols 15));
     Some
       \<lparr>urk_header = header, urk_position_type = ParsePositionType (fld cols 11),
        urk_calculation_status = calculation_status, urk_ionosphere_effect = ionosphere_effect,
        urk_dual_antenna_status = ParseDualAntennaStatus (fld cols 14),
        urk_adr_observation_count = adr_observation_count\<rparr>
   })"

definition uni_byte :: "string \<Rightarrow> nat option" where
  "uni_byte s = checked (\<lambda>n. n \<le> 0xFF) (uni_TryParseUnsigned s)"

definition ParseUnicoreRtcmStatus :: "UnicoreFrame \<Rightarrow> UnicoreRtcmStatusRecord ParserResult" where
  "ParseUnicoreRtcmStatus frame = with_body ''RTCMSTATUSA'' 16 10 frame (\<lambda>header cols. do {
     message_type \<leftarrow> uni_TryParseUnsigned (fld cols 0);
     message_count \<leftarrow> uni_TryParseUnsigned (fld cols 1);
     base_station_id \<leftarrow> uni_TryParseUnsigned (fld cols 2);
     satellites_in_message \<leftarrow> uni_TryParseUnsigned (fld cols 3);
     l1 \<leftarrow> uni_byte (fld cols 4);
     l2 \<leftarrow> uni_byte (fld cols 5);
     l3 \<leftarrow> uni_byte (fld cols 6);
     l4 \<leftarrow> uni_byte (fld cols 7);
     l5 \<leftarrow> uni_byte (fld cols 8);
     l6 \<leftarrow> uni_byte (fld cols 9);
     Some
       \<lparr>urc_header = header, urc_message_type = word_of_nat message_type, urc_message_count = word_of_nat message_count,
        urc_base_station_id = word_of_nat base_station_id, urc_satellites_in_message = word_of_nat satellites_in_message,
        urc_l1_observables = word_of_nat l1, urc_l2_observables = word_of_nat l2, urc_l3_observables = word_of_nat l3,
        urc_l4_observables = word_of_nat l4, urc_l5_observables = word_of_nat l5, urc_l6_observables = word_of_nat l6\<rparr>
   })"

definition ParseUnicoreJamStatus :: "UnicoreFrame \<Rightarrow> UnicoreJamStatusRecord ParserResult" where
  "ParseUnicoreJamStatus frame = with_body ''JAMSTATUSA'' 8 5 frame (\<lambda>header cols. do {
     cw_ratio \<leftarrow> uni_byte (fld cols 1);
     cw_flag \<leftarrow> uni_TryParseUnsigned (fld cols 2);
     Some
       \<lparr>ujs_header = header, ujs_position_type = ParsePositionType (fld cols 0), ujs_cw_ratio = word_of_nat cw_ratio,
        ujs_cw_state = ParseJammingState cw_flag\<rparr>
   })"

definition ParseUnicoreFreqJamStatus :: "UnicoreFrame \<Rightarrow> UnicoreFreqJamStatusRecord ParserResult" where
  "ParseUnicoreFreqJamStatus frame = with_body ''FREQJAMSTATUSA'' 12 9 frame (\<lambda>header cols. do {
     l1_ratio \<leftarrow> uni_byte (fld cols 1);
     l1_flag \<leftarrow> uni_TryParseUnsigned (fld cols 2);
     l2_ratio \<leftarrow> uni_byte (fld cols 3);
     l2_flag \<leftarrow> uni_TryParseUnsigned (fld cols 4);
     l5_ratio \<leftarrow> uni_byte (fld cols 5);
     l5_flag \<leftarrow> uni_TryParseUnsigned (fld cols 6);
     Some
       \<lparr>ufj_header = header, ufj_position_type = ParsePositionType (fld cols 0),
        ufj_l1 = \<lparr>ufb_cw_ratio = word_of_nat l1_ratio, ufb_cw_state = ParseJammingState l1_flag\<rparr>,
        ufj_l2 = \<lparr>ufb_cw_ratio = word_of_nat l2_ratio, ufb_cw_state = ParseJammingState l2_flag\<rparr>,
        ufj_l5 = \<lparr>ufb_cw_ratio = word_of_nat l5_ratio, ufb_cw_state = ParseJammingState l5_flag\<rparr>\<rparr>
   })"

definition ParseUnicoreHwStatus :: "UnicoreFrame \<Rightarrow> UnicoreHwStatusRecord ParserResult" where
  "ParseUnicoreHwStatus frame = with_body ''HWSTATUSA'' 16 12 frame (\<lambda>header cols. do {
     reserved_counter \<leftarrow> uni_TryParseSigned (fld cols 0);
     dc09_v \<leftarrow> uni_TryParseDouble (fld cols 1);
     dc10_v \<leftarrow> uni_TryParseDouble (fld cols 2);
     dc18_v \<leftarrow> uni_TryParseDouble (fld cols 3);
     clock_flag \<leftarrow> checked (\<lambda>n. n \<le> 1) (uni_TryParseUnsigned (fld cols 4));
     clock_drift_mps \<leftarrow> uni_TryParseDouble (fld cols 5);
     hw_flag \<leftarrow> checked (\<lambda>n. n \<le> 0xFF) (TryParseUnsignedAutoBase (fld cols 7));
     pll_lock \<leftarrow> checked (\<lambda>n. n \<le> 0xFFFF) (TryParseUnsignedAutoBase (fld cols 9));
     Some
       \<lparr>uhw_header = header, uhw_reserved_counter = reserved_counter, uhw_dc09_v = float_of dc09_v,
        uhw_dc10_v = float_of dc10_v, uhw_dc18_v = float_of dc18_v, uhw_clock_drift_valid = (clock_flag = 1),
        uhw_clock_drift_mps = float_of clock_drift_mps, uhw_hw_flag = word_of_nat hw_flag,
        uhw_pll_lock = word_of_nat pll_lock\<rparr>
   })"

definition ParseUnicoreAgc :: "UnicoreFrame \<Rightarrow> UnicoreAgcRecord ParserResult" where
  "ParseUnicoreAgc frame = with_body ''AGCA'' 12 10 frame (\<lambda>header cols. do {
     ant1_l1 \<leftarrow> lenient (ParseOptionalAgcRegister (fld cols 0));
     ant1_l2 \<leftarrow> lenient (ParseOptionalAgcRegister (fld cols 1));
     ant1_l5 \<leftarrow> lenient (ParseOptionalAgcRegister (fld cols 2));
     ant2_l1 \<leftarrow> lenient (ParseOptionalAgcRegister (fld cols 5));
     ant2_l2 \<leftarrow> lenient (ParseOptionalAgcRegister (fld cols 6));
     ant2_l5 \<leftarrow> lenient (ParseOptionalAgcRegister (fld cols 7));
     Some
       \<lparr>uag_header = header, uag_ant1_l1 = ant1_l1, uag_ant1_l2 = ant1_l2, uag_ant1_l5 = ant1_l5,
        uag_ant2_l1 = ant2_l1, uag_ant2_l2 = ant2_l2, uag_ant2_l5 = ant2_l5\<rparr>
   })"

section \<open>Satellite logs\<close>

definition kMaxUnicoreBestSatEntries :: nat where
  "kMaxUnicoreBestSatEntries = 96"

definition bestsat_entry :: "string \<Rightarrow> (UnicoreBestSatSatellite \<times> string) option" where
  "bestsat_entry remaining = do {
     (constellation_field, remaining) \<leftarrow> ConsumeCsvField remaining;
     (id_field, remaining) \<leftarrow> ConsumeCsvField remaining;
     (satellite_id, channel) \<leftarrow> ParseBestSatSatelliteId id_field;
     (status_field, remaining) \<leftarrow> ConsumeCsvField remaining;
     (if TrimField status_field = [] then None
      else do {
        (mask_field, remaining) \<leftarrow> ConsumeCsvField remaining;
        mask \<leftarrow> TryParseUnsignedBase mask_field 16;
        let signal_mask = word_of_nat mask;
            constellation = ParseBestSatConstellation constellation_field in
        Some
          (\<lparr>ubs_constellation = constellation, ubs_satellite_id = satellite_id, ubs_glonass_frequency_channel = channel,
            ubs_status_good = (TrimField status_field = ''GOOD''), ubs_signal_mask = signal_mask,
            ubs_used_in_solution = (signal_mask AND BestSatUsedSignalMask constellation \<noteq> 0),
            ubs_common_view = (signal_mask AND 0x10 \<noteq> 0)\<rparr>,
           remaining)
      })
   }"

fun repeat_entries :: "nat \<Rightarrow> (string \<Rightarrow> ('a \<times> string) option) \<Rightarrow> string \<Rightarrow> ('a list \<times> string) option" where
  "repeat_entries 0 entry remaining = Some ([], remaining)"
| "repeat_entries (Suc n) entry remaining = do {
     (x, remaining1) \<leftarrow> entry remaining;
     (xs, remaining2) \<leftarrow> repeat_entries n entry remaining1;
     Some (x # xs, remaining2)
   }"

text \<open>A log whose body is consumed field by field, to its end.\<close>

definition with_remaining :: "string \<Rightarrow> UnicoreFrame \<Rightarrow> (UnicoreAsciiHeader \<Rightarrow> string \<Rightarrow> ('r \<times> string) option) \<Rightarrow> 'r ParserResult"
where
  "with_remaining name frame parse =
     (case ParseAsciiHeader frame name of
        None \<Rightarrow> InvalidData
      | Some (header, body) \<Rightarrow>
          (case parse header body of
             None \<Rightarrow> InvalidData
           | Some (record, remaining) \<Rightarrow> if remaining \<noteq> [] then InvalidData else RecordReady record))"

definition ParseUnicoreBestSat :: "UnicoreFrame \<Rightarrow> UnicoreBestSatRecord ParserResult" where
  "ParseUnicoreBestSat frame = with_remaining ''BESTSATA'' frame (\<lambda>header remaining. do {
     (field, remaining) \<leftarrow> ConsumeCsvField remaining;
     entry_count \<leftarrow> checked (\<lambda>n. n \<le> kMaxUnicoreBestSatEntries) (uni_TryParseUnsigned field);
     (satellites, remaining) \<leftarrow> repeat_entries entry_count bestsat_entry remaining;
     Some (\<lparr>ubt_header = header, ubt_entry_count = word_of_nat entry_count, ubt_satellites = satellites\<rparr>, remaining)
   })"

definition kMaxUnicoreSatsInfoSatellites :: nat where
  "kMaxUnicoreSatsInfoSatellites = 64"

definition next_unsigned :: "nat \<Rightarrow> string \<Rightarrow> (nat \<times> string) option" where
  "next_unsigned limit remaining = do {
     (field, remaining) \<leftarrow> ConsumeCsvField remaining;
     n \<leftarrow> checked (\<lambda>n. n \<le> limit) (uni_TryParseUnsigned field);
     Some (n, remaining)
   }"

definition next_signed16 :: "string \<Rightarrow> (int \<times> string) option" where
  "next_signed16 remaining = do {
     (field, remaining) \<leftarrow> ConsumeCsvField remaining;
     n \<leftarrow> checked (\<lambda>n. - 32768 \<le> n \<and> n \<le> 32767) (uni_TryParseSigned field);
     Some (n, remaining)
   }"

text \<open>A further frequency of a satellite: its signal strength.\<close>

definition satsinfo_frequency :: "string \<Rightarrow> (nat \<times> string) option" where
  "satsinfo_frequency remaining = do {
     (system_id, remaining) \<leftarrow> next_unsigned 0xFF remaining;
     (snr, remaining) \<leftarrow> next_unsigned 0xFF remaining;
     (frequency_status, remaining) \<leftarrow> next_unsigned 0xFF remaining;
     (frequency_count, remaining) \<leftarrow> next_unsigned 0xFF remaining;
     (if frequency_count = 0 then None else Some (snr, remaining))
   }"

definition satsinfo_satellite :: "string \<Rightarrow> (UnicoreSatsInfoSatellite \<times> string) option" where
  "satsinfo_satellite remaining = do {
     (satellite_id, remaining) \<leftarrow> next_unsigned 0xFFFF remaining;
     (azimuth, remaining) \<leftarrow> next_signed16 remaining;
     (elevation, remaining) \<leftarrow> next_signed16 remaining;
     (system_id, remaining) \<leftarrow> next_unsigned 0xFF remaining;
     (snr, remaining) \<leftarrow> next_unsigned 0xFF remaining;
     (frequency_status, remaining) \<leftarrow> next_unsigned 0xFF remaining;
     (frequency_count, remaining) \<leftarrow> next_unsigned 0xFF remaining;
     (if frequency_count = 0 then None
      else do {
        (strengths, remaining) \<leftarrow> repeat_entries (frequency_count - 1) satsinfo_frequency remaining;
        Some
          (\<lparr>uss_satellite_id = word_of_nat satellite_id, uss_azimuth_deg = azimuth, uss_elevation_deg = elevation,
            uss_system_id = word_of_nat system_id, uss_frequency_status = word_of_nat frequency_status,
            uss_frequency_count = word_of_nat frequency_count, uss_cn0_db_hz = word_of_nat (foldl max snr strengths)\<rparr>,
           remaining)
      })
   }"

definition ParseUnicoreSatsInfo :: "UnicoreFrame \<Rightarrow> UnicoreSatsInfoRecord ParserResult" where
  "ParseUnicoreSatsInfo frame = with_remaining ''SATSINFOA'' frame (\<lambda>header remaining. do {
     (tracked, remaining) \<leftarrow> next_unsigned kMaxUnicoreSatsInfoSatellites remaining;
     (version, remaining) \<leftarrow> next_unsigned 0xFF remaining;
     (reserve0, remaining) \<leftarrow> next_unsigned 0xFF remaining;
     (reserve1, remaining) \<leftarrow> next_unsigned 0xFF remaining;
     (reserve2, remaining) \<leftarrow> next_unsigned 0xFF remaining;
     (frequency_flag, remaining) \<leftarrow> next_unsigned 0xFF remaining;
     (satellites, remaining) \<leftarrow> repeat_entries tracked satsinfo_satellite remaining;
     Some
       (\<lparr>usi_header = header, usi_tracked_satellite_count = word_of_nat tracked, usi_version = word_of_nat version,
         usi_frequency_flag = word_of_nat frequency_flag, usi_satellites = satellites\<rparr>, remaining)
   })"

section \<open>Lemmas\<close>

lemma repeat_entries_length: "repeat_entries n entry s = Some (xs, rest) \<Longrightarrow> length xs = n"
  by (induction n arbitrary: s xs rest) (auto simp: bind_eq_Some_conv)

end
