(* ===== verification/Unicore_Binary_Parser.thy ===== *)
theory Unicore_Binary_Parser
  imports Unicore_Parser Unicore_Binary_Framer
begin

text \<open>
  The parsers of the binary logs BESTNAVB and PVTSLNB (gnss_protocols/src/unicore_parser.cpp,
  unicore_binary_records.hpp): values at fixed offsets of a payload of fixed length, floating-point numbers by their IEEE
  754 bits.
\<close>

section \<open>Numbers from bits\<close>

text \<open>The value of a binary format with \<open>e\<close> exponent bits and \<open>m\<close> significand bits.  A negative zero is 0.\<close>

definition ieee_value :: "nat \<Rightarrow> nat \<Rightarrow> nat \<Rightarrow> double" where
  "ieee_value e m bits =
     (let significand = bits mod 2 ^ m;
          exponent = (bits div 2 ^ m) mod 2 ^ e;
          negative = odd (bits div 2 ^ (m + e));
          bias = 2 ^ (e - 1) - (1 :: int);
          signed = (\<lambda>x :: rat. Finite (if negative then - x else x)) in
      if exponent = 2 ^ e - 1 then
        (if significand \<noteq> 0 then NaN else if negative then NegInf else PosInf)
      else if exponent = 0 then signed (of_nat significand * pow2 (1 - bias - int m))
      else signed (of_nat (2 ^ m + significand) * pow2 (int exponent - bias - int m)))"

definition ReadLittleEndianFloat32 :: "bytes \<Rightarrow> nat \<Rightarrow> float32" where
  "ReadLittleEndianFloat32 data off = ieee_value 8 23 (unat (ReadLittleEndian32 data off))"

definition ReadLittleEndianFloat64 :: "bytes \<Rightarrow> nat \<Rightarrow> double" where
  "ReadLittleEndianFloat64 data off =
     (let bits = foldr (\<lambda>b acc. unat b + 256 * acc) (take 8 (drop off data)) 0 in ieee_value 11 52 bits)"

section \<open>Records\<close>

record UnicoreBinaryHeader =
  ubh_timestamp_ns :: "timestamp_ns option"
  ubh_cpu_idle_percent :: u8
  ubh_message_id :: u16
  ubh_payload_length :: u16
  ubh_time_reference_raw :: u8
  ubh_time_status_raw :: u8
  ubh_gps_week :: u16
  ubh_gps_millis_of_week :: u32
  ubh_format_version :: u32
  ubh_reserved :: u8
  ubh_leap_seconds :: u8
  ubh_output_delay_ms :: u16

type_synonym UnicoreBestNavBRecord = "UnicoreBinaryHeader UnicoreBestNavRecord"

record UnicorePvtslnBRecord = "UnicoreBinaryHeader UnicorePvtslnRecord" +
  upb_undulation_m :: "float32 option"

section \<open>Parsers\<close>

definition binary_header :: "UnicoreBinaryFrame \<Rightarrow> UnicoreBinaryHeader" where
  "binary_header frame =
     \<lparr>ubh_timestamp_ns = unib_timestamp_ns frame, ubh_cpu_idle_percent = unib_cpu_idle frame,
      ubh_message_id = unib_message_id frame, ubh_payload_length = unib_payload_length frame,
      ubh_time_reference_raw = unib_time_ref frame, ubh_time_status_raw = unib_time_status frame,
      ubh_gps_week = unib_week_number frame, ubh_gps_millis_of_week = unib_milliseconds_of_week frame,
      ubh_format_version = unib_header_version frame, ubh_reserved = unib_reserved frame,
      ubh_leap_seconds = unib_leap_seconds frame, ubh_output_delay_ms = unib_delay_ms frame\<rparr>"

definition binary_log_ok :: "u16 \<Rightarrow> nat \<Rightarrow> UnicoreBinaryFrame \<Rightarrow> bool" where
  "binary_log_ok message_id payload_size frame \<longleftrightarrow>
     unib_protocol frame = PT_kUnicore \<and> unib_message_id frame = message_id
     \<and> unib_checksum_status frame = CS_kValid \<and> length (unib_payload frame) = payload_size"

definition ParseUnicoreBestNavB :: "UnicoreBinaryFrame \<Rightarrow> UnicoreBestNavBRecord ParserResult" where
  "ParseUnicoreBestNavB frame =
     (if \<not> binary_log_ok 2118 120 frame then InvalidData
      else
        let p = unib_payload frame in
        RecordReady
          \<lparr>ubn_header = binary_header frame,
           ubn_solution_status = ParseBinarySolutionStatus (ReadLittleEndian32 p 0),
           ubn_position_type = ParseBinaryPositionType (ReadLittleEndian32 p 4),
           ubn_latitude_deg = ReadLittleEndianFloat64 p 8, ubn_longitude_deg = ReadLittleEndianFloat64 p 16,
           ubn_altitude_m = ReadLittleEndianFloat64 p 24, ubn_undulation_m = Some (ReadLittleEndianFloat32 p 32),
           ubn_datum_is_wgs84 = Some (ReadLittleEndian32 p 36 = 61),
           ubn_latitude_std_m = Some (ReadLittleEndianFloat32 p 40),
           ubn_longitude_std_m = Some (ReadLittleEndianFloat32 p 44),
           ubn_altitude_std_m = Some (ReadLittleEndianFloat32 p 48),
           ubn_diff_age_s = Some (ReadLittleEndianFloat32 p 56), ubn_solution_age_s = Some (ReadLittleEndianFloat32 p 60),
           ubn_tracked_satellites = Some (ucast (p ! 64)), ubn_used_satellites = Some (ucast (p ! 65))\<rparr>)"

definition ParseUnicorePvtslnB :: "UnicoreBinaryFrame \<Rightarrow> UnicorePvtslnBRecord ParserResult" where
  "ParseUnicorePvtslnB frame =
     (if \<not> binary_log_ok 1021 224 frame then InvalidData
      else
        let p = unib_payload frame in
        RecordReady
          \<lparr>upv_header = binary_header frame,
           upv_best_position_type = ParseBinaryPositionType (ReadLittleEndian32 p 0),
           upv_best_altitude_m = ReadLittleEndianFloat32 p 4, upv_best_latitude_deg = ReadLittleEndianFloat64 p 8,
           upv_best_longitude_deg = ReadLittleEndianFloat64 p 16,
           upv_best_altitude_std_m = Some (ReadLittleEndianFloat32 p 24),
           upv_best_latitude_std_m = Some (ReadLittleEndianFloat32 p 28),
           upv_best_longitude_std_m = Some (ReadLittleEndianFloat32 p 32),
           upv_best_diff_age_s = Some (ReadLittleEndianFloat32 p 36),
           upv_psr_position_type = ParseBinaryPositionType (ReadLittleEndian32 p 40),
           upv_psr_altitude_m = Some (ReadLittleEndianFloat32 p 44),
           upv_psr_latitude_deg = Some (ReadLittleEndianFloat64 p 48),
           upv_psr_longitude_deg = Some (ReadLittleEndianFloat64 p 56),
           upv_best_tracked_satellites = Some (ucast (p ! 68)), upv_best_used_satellites = Some (ucast (p ! 69)),
           upv_psr_tracked_satellites = Some (ucast (p ! 70)), upv_psr_used_satellites = Some (ucast (p ! 71)),
           upv_baseline_solution_status = ParseBinarySolutionStatus (ReadLittleEndian32 p 96),
           upv_baseline_length_m = Some (ReadLittleEndianFloat32 p 100),
           upv_baseline_azimuth_deg = Some (ReadLittleEndianFloat32 p 104),
           upv_baseline_pitch_deg = Some (ReadLittleEndianFloat32 p 108),
           upv_baseline_tracked_satellites = Some (ucast (p ! 112)),
           upv_baseline_used_satellites = Some (ucast (p ! 113)),
           upv_gdop = Some (ReadLittleEndianFloat32 p 116), upv_pdop = Some (ReadLittleEndianFloat32 p 120),
           upv_hdop = Some (ReadLittleEndianFloat32 p 124), upv_htdop = Some (ReadLittleEndianFloat32 p 128),
           upv_tdop = Some (ReadLittleEndianFloat32 p 132), upb_undulation_m = Some (ReadLittleEndianFloat32 p 64)\<rparr>)"

end
