(* ===== verification/Nmea_Updates.thy ===== *)
theory Nmea_Updates
  imports Nmea_Parser Runtime_Updates
begin

text \<open>
  The runtime updates of the NMEA sentences (the second half of gnss_protocols/src/nmea_parser.cpp).
\<close>

section \<open>Mappings\<close>

definition MapGgaFixQualityToRtkMode :: "NmeaGgaFixQuality \<Rightarrow> GnssRtkMode" where
  "MapGgaFixQualityToRtkMode quality =
     (case quality of GQ_kRtkFixed \<Rightarrow> RM_kFixed | GQ_kRtkFloat \<Rightarrow> RM_kFloat | _ \<Rightarrow> RM_kNone)"

definition MapGgaFixQualityToFixType :: "NmeaGgaFixQuality \<Rightarrow> GnssFixType" where
  "MapGgaFixQualityToFixType quality =
     (case quality of
        GQ_kInvalid \<Rightarrow> FT_kNoFix
      | GQ_kDifferentialFix \<Rightarrow> FT_kDgps
      | GQ_kRtkFixed \<Rightarrow> FT_kRtkFixed
      | GQ_kRtkFloat \<Rightarrow> FT_kRtkFloat
      | _ \<Rightarrow> FT_kFix)"

definition NmeaGgaToRuntimeState :: "NmeaGgaRecord \<Rightarrow> GnssRuntimeState" where
  "NmeaGgaToRuntimeState record =
     perform
       [set_fix (gga_fix_valid record) (MapGgaFixQualityToFixType (gga_fix_quality record)),
        (if gga_fix_valid record then
           perform
             [rs_latitude_deg_update (\<lambda>_. gga_latitude_deg record),
              rs_longitude_deg_update (\<lambda>_. gga_longitude_deg record),
              rs_altitude_m_update (\<lambda>_. gga_altitude_m record)]
         else ClearPositionValues),
        SetCapability GC_kRtkMode, SetCapability GC_kHdop, SetCapability GC_kSatellitesUsed,
        SetOptionalValue GC_kRtkMode rs_rtk_mode_update (MapGgaFixQualityToRtkMode (gga_fix_quality record)),
        set_if_present GC_kHdop rs_hdop_update (gga_hdop record),
        set_if_present GC_kSatellitesUsed rs_satellites_used_update (gga_satellites_used record)]
       (RuntimeState_default\<lparr>rs_timestamp_ns := gga_timestamp_ns record\<rparr>)"

text \<open>Seconds as whole seconds and nanoseconds; the parser only accepts finite ones.\<close>

definition utc_of_nmea :: "NmeaUtcTime \<Rightarrow> GnssUtcTime" where
  "utc_of_nmea t =
     (let (whole, nanoseconds) =
        (case nt_second t of
           Finite x \<Rightarrow>
             (\<lfloor>x\<rfloor>,
              (case dbl_mult (round_double (x - of_int \<lfloor>x\<rfloor>)) (Finite 1000000000) of Finite y \<Rightarrow> llround_rat y | _ \<Rightarrow> 0))
         | _ \<Rightarrow> (0, 0)) in
      \<lparr>ut_hour = nt_hour t, ut_minute = nt_minute t, ut_second = word_of_int whole, ut_nanosecond = word_of_int nanoseconds\<rparr>)"

definition kKnotsToMetersPerSecond :: float32 where
  "kKnotsToMetersPerSecond = round_float (514444 / 1000000)"

definition NmeaRmcToRuntimeState :: "NmeaRmcRecord \<Rightarrow> GnssRuntimeState" where
  "NmeaRmcToRuntimeState record =
     perform
       [set_fix (rmc_fix_valid record) (if rmc_fix_valid record then FT_kFix else FT_kNoFix),
        (if rmc_fix_valid record then
           perform
             [rs_latitude_deg_update (\<lambda>_. rmc_latitude_deg record),
              rs_longitude_deg_update (\<lambda>_. rmc_longitude_deg record)]
         else ClearPositionValues),
        SetCapability GC_kUtcDate, SetCapability GC_kUtcTime,
        set_or_clear GC_kUtcDate rs_utc_date_update
          (map_option (\<lambda>d. \<lparr>ud_year = ucast (nda_year_two_digits d), ud_month = nda_month d, ud_day = nda_day d\<rparr>)
            (rmc_date record)),
        set_or_clear GC_kUtcTime rs_utc_time_update (map_option utc_of_nmea (rmc_utc_time record)),
        SetCapability GC_kSpeedOverGround, SetCapability GC_kCourseOverGround,
        set_or_clear GC_kSpeedOverGround rs_speed_over_ground_m_s_update
          (if rmc_fix_valid record
           then map_option (\<lambda>v. float_mult v kKnotsToMetersPerSecond) (rmc_speed_over_ground_knots record) else None),
        set_or_clear GC_kCourseOverGround rs_course_over_ground_deg_update
          (if rmc_fix_valid record then rmc_course_over_ground_deg record else None)]
       (RuntimeState_default\<lparr>rs_timestamp_ns := rmc_timestamp_ns record\<rparr>)"

text \<open>A ZDA record always has a time.\<close>

definition NmeaZdaToRuntimeState :: "NmeaZdaRecord \<Rightarrow> GnssRuntimeState" where
  "NmeaZdaToRuntimeState record =
     perform
       [SetCapability GC_kUtcDate, SetCapability GC_kUtcTime,
        SetOptionalValue GC_kUtcDate rs_utc_date_update
          \<lparr>ud_year = zda_year record, ud_month = zda_month record, ud_day = zda_day record\<rparr>,
        SetOptionalValue GC_kUtcTime rs_utc_time_update (utc_of_nmea (the (zda_utc_time record)))]
       (RuntimeState_default\<lparr>rs_timestamp_ns := zda_timestamp_ns record\<rparr>)"

definition vtg_speed :: "NmeaVtgRecord \<Rightarrow> float32 option" where
  "vtg_speed record =
     (case vtg_speed_knots record of
        Some v \<Rightarrow> Some (float_mult v kKnotsToMetersPerSecond)
      | None \<Rightarrow> map_option (\<lambda>v. float_quotient v (round_float (36 / 10))) (vtg_speed_kmh record))"

definition NmeaVtgToRuntimeState :: "NmeaVtgRecord \<Rightarrow> GnssRuntimeState" where
  "NmeaVtgToRuntimeState record =
     perform
       [SetCapability GC_kSpeedOverGround, SetCapability GC_kCourseOverGround,
        set_or_clear GC_kSpeedOverGround rs_speed_over_ground_m_s_update (vtg_speed record),
        set_or_clear GC_kCourseOverGround rs_course_over_ground_deg_update (vtg_true_course_deg record)]
       (RuntimeState_default\<lparr>rs_timestamp_ns := vtg_timestamp_ns record\<rparr>)"

definition note_timestamp :: "timestamp_ns option \<Rightarrow> GnssRuntimeState \<Rightarrow> GnssRuntimeState" where
  "note_timestamp t s = (if t \<noteq> None then s\<lparr>rs_timestamp_ns := t\<rparr> else s)"

definition UpdateFixDimensionInState :: "NmeaFixDimension \<Rightarrow> GnssRuntimeState \<Rightarrow> GnssRuntimeState" where
  "UpdateFixDimensionInState dimension =
     (case dimension of
        ND_kNoFix \<Rightarrow> perform [set_fix False FT_kNoFix, ClearPositionValues]
      | ND_k2D \<Rightarrow> set_fix True FT_k2dFix
      | ND_k3D \<Rightarrow> set_fix True FT_k3dFix
      | ND_kUnknown \<Rightarrow> id)"

definition MergeNmeaGsaIntoRuntimeState :: "NmeaGsaRecord \<Rightarrow> GnssRuntimeState \<Rightarrow> GnssRuntimeState" where
  "MergeNmeaGsaIntoRuntimeState record =
     perform
       [note_timestamp (gsa_timestamp_ns record),
        UpdateFixDimensionInState (gsa_fix_dimension record),
        SetCapability GC_kHdop, SetCapability GC_kVdop, SetCapability GC_kSatellitesUsed,
        set_or_clear GC_kHdop rs_hdop_update (gsa_hdop record),
        set_or_clear GC_kVdop rs_vdop_update (gsa_vdop record),
        set_or_clear GC_kSatellitesUsed rs_satellites_used_update
          (if gsa_active_satellite_prns record \<noteq> [] then Some (word_of_nat (length (gsa_active_satellite_prns record)))
           else None)]"

definition NmeaGsaToRuntimeState :: "NmeaGsaRecord \<Rightarrow> GnssRuntimeState" where
  "NmeaGsaToRuntimeState record = MergeNmeaGsaIntoRuntimeState record RuntimeState_default"

definition float_add :: "float32 \<Rightarrow> float32 \<Rightarrow> float32" where
  "float_add x y =
     (case (x, y) of
        (Finite a, Finite b) \<Rightarrow> round_float (a + b)
      | (NaN, _) \<Rightarrow> NaN
      | (_, NaN) \<Rightarrow> NaN
      | (Finite a, _) \<Rightarrow> y
      | (_, Finite b) \<Rightarrow> x
      | _ \<Rightarrow> if x = y then x else NaN)"

definition gsv_cn0_step :: "float32 \<times> float32 \<times> nat \<Rightarrow> NmeaGsvSatellite \<Rightarrow> float32 \<times> float32 \<times> nat" where
  "gsv_cn0_step acc satellite =
     (let (cn0_sum, cn0_max, cn0_count) = acc in
      case gsv_cn0_db_hz satellite of
        None \<Rightarrow> acc
      | Some cn0 \<Rightarrow>
          (float_add cn0_sum cn0, if cn0_count = 0 \<or> dbl_less cn0_max cn0 then cn0 else cn0_max, cn0_count + 1))"

definition MergeNmeaGsvIntoRuntimeState :: "NmeaGsvRecord \<Rightarrow> GnssRuntimeState \<Rightarrow> GnssRuntimeState" where
  "MergeNmeaGsvIntoRuntimeState record =
     (let (cn0_sum, cn0_max, cn0_count) = foldl gsv_cn0_step (Finite 0, Finite 0, 0) (gsv_satellites record) in
      perform
        [note_timestamp (gsv_timestamp_ns record),
         SetCapability GC_kSatellitesVisible, SetCapability GC_kMeanCn0, SetCapability GC_kMaxCn0,
         SetOptionalValue GC_kSatellitesVisible rs_satellites_visible_update (gsv_satellites_in_view record),
         set_or_clear GC_kMeanCn0 rs_mean_cn0_db_hz_update
           (if cn0_count > 0 then Some (float_quotient cn0_sum (Finite (of_nat cn0_count))) else None),
         set_or_clear GC_kMaxCn0 rs_max_cn0_db_hz_update (if cn0_count > 0 then Some cn0_max else None)])"

definition MergeNmeaGstIntoRuntimeState :: "NmeaGstRecord \<Rightarrow> GnssRuntimeState \<Rightarrow> GnssRuntimeState" where
  "MergeNmeaGstIntoRuntimeState record =
     perform
       [note_timestamp (gst_timestamp_ns record),
        SetCapability GC_kHorizontalAccuracy, SetCapability GC_kVerticalAccuracy,
        set_or_clear GC_kHorizontalAccuracy rs_horizontal_accuracy_m_update
          (case (gst_latitude_std_dev_m record, gst_longitude_std_dev_m record) of
             (Some a, Some b) \<Rightarrow> Some (if dbl_less a b then b else a)
           | _ \<Rightarrow> None),
        set_or_clear GC_kVerticalAccuracy rs_vertical_accuracy_m_update (gst_altitude_std_dev_m record)]"

definition NmeaGstToRuntimeState :: "NmeaGstRecord \<Rightarrow> GnssRuntimeState" where
  "NmeaGstToRuntimeState record = MergeNmeaGstIntoRuntimeState record RuntimeState_default"

end
