(* ===== verification/Unicore_Updates.thy ===== *)
theory Unicore_Updates
  imports Unicore_Binary_Parser Nmea_Updates Runtime_Diagnostics
begin

text \<open>
  The runtime updates and the diagnostic events of the Unicore logs (the second half of
  gnss_protocols/src/unicore_parser.cpp).
\<close>

section \<open>Steps\<close>

definition MapFixType :: "UnicorePositionType \<Rightarrow> GnssFixType" where
  "MapFixType ty =
     (if ty = UP_kNone then FT_kNoFix
      else if ty \<in> {UP_kL1Float, UP_kIonoFreeFloat, UP_kNarrowFloat, UP_kInsRtkFloat} then FT_kRtkFloat
      else if ty \<in> {UP_kL1Int, UP_kWideInt, UP_kNarrowInt, UP_kInsRtkFixed} then FT_kRtkFixed
      else if ty = UP_kIns then FT_kDeadReckoning
      else if ty \<in> {UP_kPsrDiff, UP_kInsPsrDiff} then FT_kDgps
      else if ty = UP_kUnknown then FT_kUnknown else FT_kFix)"

definition MapRtkMode :: "UnicorePositionType \<Rightarrow> GnssRtkMode option" where
  "MapRtkMode ty =
     (if ty \<in> {UP_kL1Float, UP_kIonoFreeFloat, UP_kNarrowFloat, UP_kInsRtkFloat} then Some RM_kFloat
      else if ty \<in> {UP_kL1Int, UP_kWideInt, UP_kNarrowInt, UP_kInsRtkFixed} then Some RM_kFixed
      else if ty = UP_kUnknown then None else Some RM_kNone)"

definition MapDifferentialCorrections :: "UnicorePositionType \<Rightarrow> bool option" where
  "MapDifferentialCorrections ty =
     (if ty \<in> {UP_kPsrDiff, UP_kSbas, UP_kL1Float, UP_kIonoFreeFloat, UP_kNarrowFloat, UP_kL1Int, UP_kWideInt,
               UP_kNarrowInt, UP_kInsPsrDiff, UP_kInsRtkFloat, UP_kInsRtkFixed} then Some True
      else if ty \<in> {UP_kPppConverging, UP_kPpp, UP_kUnknown} then None else Some False)"

definition MapCorrectionsActive :: "UnicorePositionType \<Rightarrow> bool option" where
  "MapCorrectionsActive = MapDifferentialCorrections"

definition uni_ClearPositionSolutionValues :: "GnssRuntimeState \<Rightarrow> GnssRuntimeState" where
  "uni_ClearPositionSolutionValues =
     perform
       [ClearPositionValues, SetCapability GC_kHorizontalAccuracy, SetCapability GC_kVerticalAccuracy,
        ClearOptionalValue GC_kHorizontalAccuracy rs_horizontal_accuracy_m_update,
        ClearOptionalValue GC_kVerticalAccuracy rs_vertical_accuracy_m_update]"

definition ApplyFixType :: "UnicorePositionType \<Rightarrow> GnssRuntimeState \<Rightarrow> GnssRuntimeState" where
  "ApplyFixType ty =
     (let fix_type = MapFixType ty in
      perform
        [set_fix (fix_type \<noteq> FT_kUnknown \<and> fix_type \<noteq> FT_kNoFix) fix_type,
         (if fix_type = FT_kNoFix then uni_ClearPositionSolutionValues else id)])"

definition ApplyRtkMode :: "UnicorePositionType \<Rightarrow> GnssRuntimeState \<Rightarrow> GnssRuntimeState" where
  "ApplyRtkMode ty =
     perform [SetCapability GC_kRtkMode, set_if_present GC_kRtkMode rs_rtk_mode_update (MapRtkMode ty)]"

definition ApplyCorrectionState :: "UnicorePositionType \<Rightarrow> GnssRuntimeState \<Rightarrow> GnssRuntimeState" where
  "ApplyCorrectionState ty =
     perform
       [SetCapability GC_kDifferentialCorrections, SetCapability GC_kCorrectionsActive,
        set_if_present GC_kDifferentialCorrections rs_differential_corrections_update (MapDifferentialCorrections ty),
        set_if_present GC_kCorrectionsActive rs_corrections_active_update (MapCorrectionsActive ty)]"

text \<open>\<open>std::max\<close>: the first one unless it is less than the second.\<close>

definition float_max :: "float32 \<Rightarrow> float32 \<Rightarrow> float32" where
  "float_max a b = (if dbl_less a b then b else a)"

definition SetHorizontalAccuracyFromSigmas ::
  "float32 option \<Rightarrow> float32 option \<Rightarrow> GnssRuntimeState \<Rightarrow> GnssRuntimeState" where
  "SetHorizontalAccuracyFromSigmas first_sigma second_sigma =
     perform
       [SetCapability GC_kHorizontalAccuracy,
        set_if_present GC_kHorizontalAccuracy rs_horizontal_accuracy_m_update
          (case (first_sigma, second_sigma) of (Some a, Some b) \<Rightarrow> Some (float_max a b) | _ \<Rightarrow> None)]"

definition SetVerticalAccuracy :: "float32 option \<Rightarrow> GnssRuntimeState \<Rightarrow> GnssRuntimeState" where
  "SetVerticalAccuracy sigma =
     perform
       [SetCapability GC_kVerticalAccuracy,
        set_if_present GC_kVerticalAccuracy rs_vertical_accuracy_m_update sigma]"

definition SetCorrectionAge :: "float32 option \<Rightarrow> GnssRuntimeState \<Rightarrow> GnssRuntimeState" where
  "SetCorrectionAge correction_age_s =
     perform
       [SetCapability GC_kCorrectionAge,
        set_if_present GC_kCorrectionAge rs_correction_age_s_update correction_age_s]"

definition SetTrackedAndUsedSatellites :: "u16 option \<Rightarrow> u16 option \<Rightarrow> GnssRuntimeState \<Rightarrow> GnssRuntimeState" where
  "SetTrackedAndUsedSatellites tracked used =
     perform
       [SetCapability GC_kSatellitesTracked, SetCapability GC_kSatellitesUsed,
        set_if_present GC_kSatellitesTracked rs_satellites_tracked_update tracked,
        set_if_present GC_kSatellitesUsed rs_satellites_used_update used]"

fun ToBaselineSolutionStatus :: "UnicoreSolutionStatus \<Rightarrow> GnssBaselineSolutionStatus option" where
  "ToBaselineSolutionStatus US_kSolComputed = Some BS_kComputed"
| "ToBaselineSolutionStatus US_kInsufficientObs = Some BS_kInsufficientObservations"
| "ToBaselineSolutionStatus US_kNoConvergence = Some BS_kNoConvergence"
| "ToBaselineSolutionStatus US_kCovTrace = Some BS_kCovarianceTraceExceeded"
| "ToBaselineSolutionStatus US_kUnknown = None"

fun dual_ToBaselineSolutionStatus :: "UnicoreDualAntennaStatus \<Rightarrow> GnssBaselineSolutionStatus option" where
  "dual_ToBaselineSolutionStatus UD_kWithinLimit = Some BS_kComputed"
| "dual_ToBaselineSolutionStatus UD_kNotSolved = Some BS_kNotSolved"
| "dual_ToBaselineSolutionStatus UD_kOutOfLimit = Some BS_kOutOfTolerance"
| "dual_ToBaselineSolutionStatus UD_kNotConfigured = Some BS_kNotConfigured"
| "dual_ToBaselineSolutionStatus UD_kUnknown = None"

definition BaselineStatusMeansSolved :: "GnssBaselineSolutionStatus \<Rightarrow> bool" where
  "BaselineStatusMeansSolved status \<longleftrightarrow> status = BS_kComputed"

definition BaselineStatusMeansKnownFalse :: "GnssBaselineSolutionStatus \<Rightarrow> bool" where
  "BaselineStatusMeansKnownFalse status \<longleftrightarrow>
     status \<in> {BS_kNotSolved, BS_kInsufficientObservations, BS_kNoConvergence, BS_kOutOfTolerance,
               BS_kCovarianceTraceExceeded, BS_kNotConfigured}"

definition set_baseline :: "bool \<Rightarrow> GnssRuntimeState \<Rightarrow> GnssRuntimeState" where
  "set_baseline solved =
     perform
       [SetOptionalValue GC_kDualAntennaBaseline rs_dual_antenna_baseline_update solved,
        SetOptionalValue GC_kDualAntennaHeading rs_dual_antenna_heading_update solved]"

definition SetCanonicalBaselineStatus :: "GnssBaselineSolutionStatus option \<Rightarrow> GnssRuntimeState \<Rightarrow> GnssRuntimeState" where
  "SetCanonicalBaselineStatus status =
     perform
       [SetCapability GC_kDualAntennaBaseline, SetCapability GC_kBaselineSolutionStatus, SetCapability GC_kDualAntennaHeading,
        (case status of
           None \<Rightarrow> id
         | Some st \<Rightarrow>
             perform
               [SetOptionalValue GC_kBaselineSolutionStatus rs_baseline_solution_status_update st,
                (if BaselineStatusMeansSolved st then set_baseline True
                 else if BaselineStatusMeansKnownFalse st then set_baseline False else id)])]"

definition SetBaselineGeometryAndCompatibilityHeading ::
  "UnicoreSolutionStatus \<Rightarrow> float32 option \<Rightarrow> float32 option \<Rightarrow> float32 option \<Rightarrow> GnssRuntimeState \<Rightarrow> GnssRuntimeState"
where
  "SetBaselineGeometryAndCompatibilityHeading status length_m azimuth_deg pitch_deg =
     perform
       [SetCapability GC_kHeading, SetCapability GC_kBaselineAzimuth, SetCapability GC_kBaselinePitch,
        SetCapability GC_kBaselineLength, SetCanonicalBaselineStatus (ToBaselineSolutionStatus status),
        (if status = US_kUnknown then id
         else if status \<noteq> US_kSolComputed then
           perform
             [ClearOptionalValue GC_kHeading rs_heading_deg_update,
              ClearOptionalValue GC_kBaselineAzimuth rs_baseline_azimuth_deg_update,
              ClearOptionalValue GC_kBaselinePitch rs_baseline_pitch_deg_update,
              ClearOptionalValue GC_kBaselineLength rs_baseline_length_m_update]
         else
           perform
             [set_if_present GC_kBaselineLength rs_baseline_length_m_update length_m,
              set_if_present GC_kBaselineAzimuth rs_baseline_azimuth_deg_update azimuth_deg,
              set_if_present GC_kHeading rs_heading_deg_update azimuth_deg,
              set_if_present GC_kBaselinePitch rs_baseline_pitch_deg_update pitch_deg])]"

definition ApplyJammingState :: "UnicoreJammingState \<Rightarrow> GnssRuntimeState \<Rightarrow> GnssRuntimeState" where
  "ApplyJammingState status =
     (let set = (\<lambda>detected. perform
         [SetOptionalValue GC_kInterferenceState rs_interference_detected_update detected,
          SetOptionalValue GC_kJammingState rs_jamming_detected_update detected]) in
      perform
        [SetCapability GC_kInterferenceState, SetCapability GC_kJammingState,
         (case status of
            UJ_kNone \<Rightarrow> set False
          | UJ_kJamming \<Rightarrow> set True
          | UJ_kStrongJamming \<Rightarrow> set True
          | UJ_kUnknown \<Rightarrow> id)])"

section \<open>Runtime updates\<close>

definition start_update :: "timestamp_ns option \<Rightarrow> GnssRuntimeState" where
  "start_update t = RuntimeState_default\<lparr>rs_timestamp_ns := t\<rparr>"

definition when_fix_valid :: "(GnssRuntimeState \<Rightarrow> GnssRuntimeState) \<Rightarrow> GnssRuntimeState \<Rightarrow> GnssRuntimeState" where
  "when_fix_valid step s = (if rs_fix_valid s then step s else s)"

definition set_position :: "double \<Rightarrow> double \<Rightarrow> double \<Rightarrow> GnssRuntimeState \<Rightarrow> GnssRuntimeState" where
  "set_position latitude longitude altitude =
     perform
       [rs_latitude_deg_update (\<lambda>_. Some latitude), rs_longitude_deg_update (\<lambda>_. Some longitude),
        rs_altitude_m_update (\<lambda>_. Some altitude)]"

definition pvtsln_update :: "timestamp_ns option \<Rightarrow> ('h, 'z) UnicorePvtslnRecord_scheme \<Rightarrow> GnssRuntimeState" where
  "pvtsln_update t record =
     perform
       [ApplyFixType (upv_best_position_type record),
        ApplyRtkMode (upv_best_position_type record),
        ApplyCorrectionState (upv_best_position_type record),
        when_fix_valid
          (set_position (upv_best_latitude_deg record) (upv_best_longitude_deg record) (upv_best_altitude_m record)),
        when_fix_valid
          (perform
            [SetHorizontalAccuracyFromSigmas (upv_best_latitude_std_m record) (upv_best_longitude_std_m record),
             SetVerticalAccuracy (upv_best_altitude_std_m record)]),
        SetTrackedAndUsedSatellites (upv_best_tracked_satellites record) (upv_best_used_satellites record),
        SetCorrectionAge (upv_best_diff_age_s record),
        SetCapability GC_kHdop,
        set_if_present GC_kHdop rs_hdop_update (upv_hdop record),
        SetBaselineGeometryAndCompatibilityHeading (upv_baseline_solution_status record) (upv_baseline_length_m record)
          (upv_baseline_azimuth_deg record) (upv_baseline_pitch_deg record),
        RefreshValueFlagsFromFields]
       (start_update t)"

definition UnicorePvtslnToRuntimeState :: "UnicoreAsciiHeader UnicorePvtslnRecord \<Rightarrow> GnssRuntimeState" where
  "UnicorePvtslnToRuntimeState record = pvtsln_update (uh_timestamp_ns (upv_header record)) record"

definition UnicorePvtslnBToRuntimeState :: "UnicorePvtslnBRecord \<Rightarrow> GnssRuntimeState" where
  "UnicorePvtslnBToRuntimeState record = pvtsln_update (ubh_timestamp_ns (upv_header record)) record"

definition bestnav_not_computed :: "GnssRuntimeState \<Rightarrow> GnssRuntimeState" where
  "bestnav_not_computed s =
     (let s1 = s\<lparr>rs_fix_valid := False\<rparr>;
          s2 = (if rs_fix_type s1 \<noteq> FT_kUnknown then s1\<lparr>rs_fix_type := FT_kNoFix\<rparr> else s1) in
      if rs_fix_type s2 = FT_kNoFix then uni_ClearPositionSolutionValues s2 else s2)"

definition bestnav_update :: "timestamp_ns option \<Rightarrow> 'h UnicoreBestNavRecord \<Rightarrow> GnssRuntimeState" where
  "bestnav_update t record =
     perform
       [ApplyFixType (ubn_position_type record),
        (if ubn_solution_status record \<noteq> US_kSolComputed then bestnav_not_computed else id),
        ApplyRtkMode (ubn_position_type record),
        ApplyCorrectionState (ubn_position_type record),
        when_fix_valid (set_position (ubn_latitude_deg record) (ubn_longitude_deg record) (ubn_altitude_m record)),
        when_fix_valid
          (perform
            [SetHorizontalAccuracyFromSigmas (ubn_latitude_std_m record) (ubn_longitude_std_m record),
             SetVerticalAccuracy (ubn_altitude_std_m record)]),
        SetTrackedAndUsedSatellites (ubn_tracked_satellites record) (ubn_used_satellites record),
        SetCorrectionAge (ubn_diff_age_s record),
        RefreshValueFlagsFromFields]
       (start_update t)"

definition UnicoreBestNavToRuntimeState :: "UnicoreAsciiHeader UnicoreBestNavRecord \<Rightarrow> GnssRuntimeState" where
  "UnicoreBestNavToRuntimeState record = bestnav_update (uh_timestamp_ns (ubn_header record)) record"

definition UnicoreBestNavBToRuntimeState :: "UnicoreBestNavBRecord \<Rightarrow> GnssRuntimeState" where
  "UnicoreBestNavBToRuntimeState record = bestnav_update (ubh_timestamp_ns (ubn_header record)) record"

definition UnicoreRtkStatusToRuntimeState :: "UnicoreRtkStatusRecord \<Rightarrow> GnssRuntimeState" where
  "UnicoreRtkStatusToRuntimeState record =
     perform
       [ApplyFixType (urk_position_type record), ApplyRtkMode (urk_position_type record),
        ApplyCorrectionState (urk_position_type record),
        SetCanonicalBaselineStatus (dual_ToBaselineSolutionStatus (urk_dual_antenna_status record)),
        RefreshValueFlagsFromFields]
       (start_update (uh_timestamp_ns (urk_header record)))"

definition UnicoreRtcmStatusToRuntimeState :: "UnicoreRtcmStatusRecord \<Rightarrow> GnssRuntimeState" where
  "UnicoreRtcmStatusToRuntimeState record = RefreshValueFlagsFromFields RuntimeState_default"

definition UnicoreBestSatToRuntimeState :: "UnicoreBestSatRecord \<Rightarrow> GnssRuntimeState" where
  "UnicoreBestSatToRuntimeState record =
     perform
       [SetTrackedAndUsedSatellites (Some (ubt_entry_count record))
          (Some (foldl (\<lambda>n satellite. if ubs_used_in_solution satellite then n + 1 else n) 0 (ubt_satellites record))),
        RefreshValueFlagsFromFields]
       (start_update (uh_timestamp_ns (ubt_header record)))"

definition satsinfo_cn0_step :: "float32 \<times> float32 \<times> nat \<Rightarrow> UnicoreSatsInfoSatellite \<Rightarrow> float32 \<times> float32 \<times> nat" where
  "satsinfo_cn0_step acc satellite =
     (let (cn0_sum, max_cn0, cn0_count) = acc;
          cn0 = Finite (of_nat (unat (uss_cn0_db_hz satellite))) in
      if \<not> dbl_less (Finite 0) cn0 then acc
      else (float_add cn0_sum cn0, float_max max_cn0 cn0, cn0_count + 1))"

definition UnicoreSatsInfoToRuntimeState :: "UnicoreSatsInfoRecord \<Rightarrow> GnssRuntimeState" where
  "UnicoreSatsInfoToRuntimeState record =
     (let (cn0_sum, max_cn0, cn0_count) = foldl satsinfo_cn0_step (Finite 0, Finite 0, 0) (usi_satellites record) in
      perform
        [SetCapability GC_kSatellitesTracked,
         SetOptionalValue GC_kSatellitesTracked rs_satellites_tracked_update (usi_tracked_satellite_count record),
         SetCapability GC_kMeanCn0, SetCapability GC_kMaxCn0,
         set_if_present GC_kMeanCn0 rs_mean_cn0_db_hz_update
           (if cn0_count > 0 then Some (float_quotient cn0_sum (Finite (of_nat cn0_count))) else None),
         set_if_present GC_kMaxCn0 rs_max_cn0_db_hz_update (if cn0_count > 0 then Some max_cn0 else None),
         RefreshValueFlagsFromFields]
        (start_update (uh_timestamp_ns (usi_header record))))"

definition UnicoreJamStatusToRuntimeState :: "UnicoreJamStatusRecord \<Rightarrow> GnssRuntimeState" where
  "UnicoreJamStatusToRuntimeState record =
     perform [ApplyJammingState (ujs_cw_state record), RefreshValueFlagsFromFields]
       (start_update (uh_timestamp_ns (ujs_header record)))"

text \<open>The loop over the bands, which ends at strong jamming.\<close>

fun aggregate_jamming :: "UnicoreJammingState \<Rightarrow> UnicoreJammingState list \<Rightarrow> UnicoreJammingState" where
  "aggregate_jamming aggregate [] = aggregate"
| "aggregate_jamming aggregate (state # states) =
     (if state = UJ_kStrongJamming then state
      else if state = UJ_kJamming then aggregate_jamming state states
      else if state = UJ_kNone \<and> aggregate = UJ_kUnknown then aggregate_jamming state states
      else aggregate_jamming aggregate states)"

definition UnicoreFreqJamStatusToRuntimeState :: "UnicoreFreqJamStatusRecord \<Rightarrow> GnssRuntimeState" where
  "UnicoreFreqJamStatusToRuntimeState record =
     perform
       [ApplyJammingState
          (aggregate_jamming UJ_kUnknown
            [ufb_cw_state (ufj_l1 record), ufb_cw_state (ufj_l2 record), ufb_cw_state (ufj_l5 record)]),
        RefreshValueFlagsFromFields]
       (start_update (uh_timestamp_ns (ufj_header record)))"

section \<open>Diagnostic events\<close>

definition uni_BuildReceiverDiagnostic ::
  "GnssDiagnosticSeverity \<Rightarrow> string \<Rightarrow> string \<Rightarrow> timestamp_ns option \<Rightarrow> string \<Rightarrow> GnssDiagnosticEvent" where
  "uni_BuildReceiverDiagnostic severity code message t source =
     \<lparr>ev_severity = severity, ev_category = DC_kReceiver, ev_code = code, ev_message = message, ev_timestamp_ns = t,
      ev_source = Some source\<rparr>"

definition UnicoreJamStatusToDiagnosticEvent :: "UnicoreJamStatusRecord \<Rightarrow> GnssDiagnosticEvent" where
  "UnicoreJamStatusToDiagnosticEvent record =
     (let (severity, code, message) =
        (case ujs_cw_state record of
           UJ_kNone \<Rightarrow> (DS_kOk, ''unicore_jam_status.clear'', ''Unicore receiver reports no jamming detected'')
         | UJ_kJamming \<Rightarrow> (DS_kWarning, ''unicore_jam_status.detected'', ''Unicore receiver reports jamming detected'')
         | UJ_kStrongJamming \<Rightarrow>
             (DS_kError, ''unicore_jam_status.strong'', ''Unicore receiver reports strong jamming detected'')
         | UJ_kUnknown \<Rightarrow>
             (DS_kUnknown, ''unicore_jam_status.unknown'', ''Unicore receiver reports an unknown jamming state'')) in
      uni_BuildReceiverDiagnostic severity code message (uh_timestamp_ns (ujs_header record)) ''unicore/JAMSTATUSA'')"

definition note_band :: "bool \<times> bool \<times> string \<Rightarrow> string \<times> UnicoreJammingState \<Rightarrow> bool \<times> bool \<times> string" where
  "note_band acc band =
     (let (any_known, any_strong, affected_bands) = acc in
      if snd band = UJ_kUnknown then acc
      else if snd band = UJ_kJamming \<or> snd band = UJ_kStrongJamming then
        (True, any_strong \<or> snd band = UJ_kStrongJamming,
         (if affected_bands \<noteq> [] then affected_bands @ '', '' else []) @ fst band)
      else (True, any_strong, affected_bands))"

text \<open>There is jamming when some band is named.\<close>

definition UnicoreFreqJamStatusToDiagnosticEvent :: "UnicoreFreqJamStatusRecord \<Rightarrow> GnssDiagnosticEvent" where
  "UnicoreFreqJamStatusToDiagnosticEvent record =
     (let (any_known, any_strong, affected_bands) =
            foldl note_band (False, False, [])
              [(''L1'', ufb_cw_state (ufj_l1 record)), (''L2'', ufb_cw_state (ufj_l2 record)),
               (''L5'', ufb_cw_state (ufj_l5 record))];
          (severity, code, message) =
            (if \<not> any_known then
               (DS_kUnknown, ''unicore_freq_jam_status.unknown'',
                ''Unicore receiver reports unknown per-frequency jamming state'')
             else if any_strong then
               (DS_kError, ''unicore_freq_jam_status.strong'',
                ''Unicore receiver reports strong jamming on '' @ affected_bands)
             else if affected_bands \<noteq> [] then
               (DS_kWarning, ''unicore_freq_jam_status.detected'',
                ''Unicore receiver reports jamming on '' @ affected_bands)
             else
               (DS_kOk, ''unicore_freq_jam_status.clear'',
                ''Unicore receiver reports no per-frequency jamming detected'')) in
      uni_BuildReceiverDiagnostic severity code message (uh_timestamp_ns (ufj_header record)) ''unicore/FREQJAMSTATUSA'')"

definition UnicoreHwStatusToDiagnosticEvent :: "UnicoreHwStatusRecord \<Rightarrow> GnssDiagnosticEvent" where
  "UnicoreHwStatusToDiagnosticEvent record =
     (let (severity, code, message) =
        (if \<not> uhw_clock_drift_valid record then
           (DS_kWarning, ''unicore_hw_status.clock_invalid'', ''Unicore hardware status reports invalid clock-drift data'')
         else (DS_kOk, ''unicore_hw_status.ok'', ''Unicore hardware status reports valid clock-drift data'')) in
      uni_BuildReceiverDiagnostic severity code message (uh_timestamp_ns (uhw_header record)) ''unicore/HWSTATUSA'')"

end
