(* ===== verification/Message_Updates.thy ===== *)
theory Message_Updates
  imports Ubx_Updates Unicore_Updates
begin

text \<open>
  What holds of the updates of all message mappings, and what the aggregator makes of a message without a fix.
\<close>

section \<open>The updates are well formed\<close>

lemma perform_ok:
  assumes "\<And>step s. \<lbrakk>step \<in> set steps; update_ok s\<rbrakk> \<Longrightarrow> update_ok (step s)" and "update_ok s"
  shows "update_ok (perform steps s)"
  using assms by (induction steps arbitrary: s) simp_all

lemmas step_intros = update_ok_intros cap_slot.simps

lemma SetCorrectionState_ok: "update_ok s \<Longrightarrow> update_ok (SetCorrectionState b s)"
  unfolding SetCorrectionState_def by (simp add: step_intros)

lemma ClearPositionSolutionValues_ok: "update_ok s \<Longrightarrow> update_ok (ClearPositionSolutionValues s)"
  unfolding ClearPositionSolutionValues_def by (simp add: step_intros)

lemmas ubx_intros = step_intros SetCorrectionState_ok ClearPositionSolutionValues_ok

lemma note_timestamp_ok: "update_ok s \<Longrightarrow> update_ok (note_timestamp t s)"
  by (simp add: note_timestamp_def step_intros)

lemma UpdateFixDimension_ok: "update_ok s \<Longrightarrow> update_ok (UpdateFixDimensionInState d s)"
  by (cases d) (simp_all add: UpdateFixDimensionInState_def step_intros)

lemma ubx_updates_ok:
  "update_ok (UbxNavPvtToRuntimeState pvt)" "update_ok (UbxNavStatusToRuntimeState status)"
  "update_ok (UbxNavDopToRuntimeState dop)" "update_ok (UbxNavSatToRuntimeState sat)"
  "update_ok (UbxMonHwToRuntimeState hw)" "update_ok (UbxMonRfToRuntimeState rf)"
  by (simp_all add: UbxNavPvtToRuntimeState_def UbxNavStatusToRuntimeState_def UbxNavDopToRuntimeState_def
      UbxNavSatToRuntimeState_def UbxMonHwToRuntimeState_def UbxMonRfToRuntimeState_def issue_steps_def Let_def ubx_intros
      split: prod.split)

lemma nmea_updates_ok:
  "update_ok (NmeaGgaToRuntimeState gga)" "update_ok (NmeaRmcToRuntimeState rmc)"
  "update_ok (NmeaZdaToRuntimeState zda)" "update_ok (NmeaVtgToRuntimeState vtg)"
  by (simp_all add: NmeaGgaToRuntimeState_def NmeaRmcToRuntimeState_def NmeaZdaToRuntimeState_def NmeaVtgToRuntimeState_def
      step_intros)

lemma nmea_merges_ok:
  "update_ok s \<Longrightarrow> update_ok (MergeNmeaGsaIntoRuntimeState gsa s)"
  "update_ok s \<Longrightarrow> update_ok (MergeNmeaGsvIntoRuntimeState gsv s)"
  "update_ok s \<Longrightarrow> update_ok (MergeNmeaGstIntoRuntimeState gst s)"
  by (simp_all add: MergeNmeaGsaIntoRuntimeState_def MergeNmeaGsvIntoRuntimeState_def MergeNmeaGstIntoRuntimeState_def
      Let_def note_timestamp_ok UpdateFixDimension_ok step_intros split: prod.split)

lemma Refresh_ok:
  assumes "update_ok s"
  shows "update_ok (RefreshValueFlagsFromFields s)"
proof -
  from assms have "slot_value s (cap_slot c) \<noteq> None \<Longrightarrow> HasCapability s c" for c
    by (auto simp: update_ok_def HasValueAvailable_def HasCapability_def HasCapabilityFlag_bit)
  with assms show ?thesis
    by (auto simp: update_ok_def RefreshValueFlagsFromFields_def Let_def HasValueAvailable_def HasCapability_def
        HasCapabilityFlag_bit bit_ComputeValueFlags bit_simps)
qed

lemma start_update_ok: "update_ok (start_update t)"
  by (simp add: start_update_def step_intros)

lemma uni_clear_ok: "update_ok s \<Longrightarrow> update_ok (uni_ClearPositionSolutionValues s)"
  by (simp add: uni_ClearPositionSolutionValues_def step_intros)

lemma unicore_steps_ok:
  "update_ok s \<Longrightarrow> update_ok (ApplyFixType ty s)"
  "update_ok s \<Longrightarrow> update_ok (ApplyRtkMode ty s)"
  "update_ok s \<Longrightarrow> update_ok (ApplyCorrectionState ty s)"
  "update_ok s \<Longrightarrow> update_ok (SetHorizontalAccuracyFromSigmas a b s)"
  "update_ok s \<Longrightarrow> update_ok (SetVerticalAccuracy a s)"
  "update_ok s \<Longrightarrow> update_ok (SetCorrectionAge a s)"
  "update_ok s \<Longrightarrow> update_ok (SetTrackedAndUsedSatellites m n s)"
  "update_ok s \<Longrightarrow> update_ok (set_baseline solved s)"
  "update_ok s \<Longrightarrow> update_ok (set_position lat lon alt s)"
  "update_ok s \<Longrightarrow> update_ok (bestnav_not_computed s)"
  by (simp_all add: ApplyFixType_def ApplyRtkMode_def ApplyCorrectionState_def SetHorizontalAccuracyFromSigmas_def
      SetVerticalAccuracy_def SetCorrectionAge_def SetTrackedAndUsedSatellites_def set_baseline_def set_position_def
      bestnav_not_computed_def Let_def step_intros uni_clear_ok)

lemma SetCanonicalBaselineStatus_ok: "update_ok s \<Longrightarrow> update_ok (SetCanonicalBaselineStatus status s)"
  by (cases status) (simp_all add: SetCanonicalBaselineStatus_def step_intros unicore_steps_ok)

lemma SetBaselineGeometry_ok:
  "update_ok s \<Longrightarrow> update_ok (SetBaselineGeometryAndCompatibilityHeading status l a p s)"
  by (simp add: SetBaselineGeometryAndCompatibilityHeading_def step_intros SetCanonicalBaselineStatus_ok)

lemma ApplyJammingState_ok: "update_ok s \<Longrightarrow> update_ok (ApplyJammingState status s)"
  by (cases status) (simp_all add: ApplyJammingState_def Let_def step_intros)

lemma when_fix_valid_ok: "\<lbrakk>update_ok (step s); update_ok s\<rbrakk> \<Longrightarrow> update_ok (when_fix_valid step s)"
  by (simp add: when_fix_valid_def)

lemmas unicore_intros =
  step_intros unicore_steps_ok SetCanonicalBaselineStatus_ok SetBaselineGeometry_ok ApplyJammingState_ok when_fix_valid_ok
  Refresh_ok start_update_ok

lemma pvtsln_update_ok: "update_ok (pvtsln_update t record)"
  by (simp add: pvtsln_update_def unicore_intros)

lemma bestnav_update_ok: "update_ok (bestnav_update t record)"
  by (simp add: bestnav_update_def unicore_intros)

lemma unicore_updates_ok:
  "update_ok (UnicorePvtslnToRuntimeState pvtsln)" "update_ok (UnicorePvtslnBToRuntimeState pvtslnb)"
  "update_ok (UnicoreBestNavToRuntimeState bestnav)" "update_ok (UnicoreBestNavBToRuntimeState bestnavb)"
  "update_ok (UnicoreRtkStatusToRuntimeState rtk)" "update_ok (UnicoreRtcmStatusToRuntimeState rtcm)"
  "update_ok (UnicoreBestSatToRuntimeState bestsat)" "update_ok (UnicoreSatsInfoToRuntimeState satsinfo)"
  "update_ok (UnicoreJamStatusToRuntimeState jam)" "update_ok (UnicoreFreqJamStatusToRuntimeState freqjam)"
  by (simp_all add: UnicorePvtslnToRuntimeState_def UnicorePvtslnBToRuntimeState_def UnicoreBestNavToRuntimeState_def
      UnicoreBestNavBToRuntimeState_def UnicoreRtkStatusToRuntimeState_def UnicoreRtcmStatusToRuntimeState_def
      UnicoreBestSatToRuntimeState_def UnicoreSatsInfoToRuntimeState_def UnicoreJamStatusToRuntimeState_def
      UnicoreFreqJamStatusToRuntimeState_def pvtsln_update_ok bestnav_update_ok unicore_intros split: prod.split)

section \<open>A message without a fix\<close>

context runtime_field begin

lemma set_if_present_other:
  "sl \<noteq> slot \<Longrightarrow> slot_value (set_if_present c field_update v s) sl = slot_value s sl"
  "rs_clear_direct_value_flags (set_if_present c field_update v s) = rs_clear_direct_value_flags s"
  "rs_timestamp_ns (set_if_present c field_update v s) = rs_timestamp_ns s"
  by (cases v; simp add: set_if_present_def SetOptionalValue_effect)+

lemma set_or_clear_other:
  "sl \<noteq> slot \<Longrightarrow> slot_value (set_or_clear c field_update v s) sl = slot_value s sl"
  "rs_clear_direct_value_flags (set_or_clear c field_update v s) = rs_clear_direct_value_flags s"
  "rs_timestamp_ns (set_or_clear c field_update v s) = rs_timestamp_ns s"
  by (cases v; simp add: set_or_clear_def SetOptionalValue_effect ClearOptionalValue_effect)+

end

lemmas other_effects =
  hdop.set_if_present_other satellites_used.set_if_present_other rtk_mode.set_if_present_other
  differential_corrections.set_if_present_other corrections_active.set_if_present_other
  horizontal_accuracy_m.set_if_present_other vertical_accuracy_m.set_if_present_other
  correction_age_s.set_if_present_other satellites_tracked.set_if_present_other heading_deg.set_if_present_other
  baseline_azimuth_deg.set_if_present_other baseline_pitch_deg.set_if_present_other baseline_length_m.set_if_present_other
  hdop.set_or_clear_other vdop.set_or_clear_other
  satellites_used.set_or_clear_other utc_date.set_or_clear_other utc_time.set_or_clear_other
  speed_over_ground_m_s.set_or_clear_other course_over_ground_deg.set_or_clear_other

text \<open>An update that asks to clear the position and reports its fix, at a given time.\<close>

definition clears_position :: "timestamp_ns option \<Rightarrow> GnssRuntimeState \<Rightarrow> bool" where
  "clears_position t u \<longleftrightarrow>
     rs_timestamp_ns u = t \<and> rs_fix_valid u = False \<and> rs_fix_type u \<notin> {FT_k2dFix, FT_k3dFix}
     \<and> (\<forall>sl \<in> {FS_kLatitude, FS_kLongitude, FS_kAltitude}. requested u sl = Some None)"

lemma clears_positionI:
  assumes "rs_timestamp_ns u = t" and "slot_value u FS_kFix = Some (FV_fix False ty)" and "ty \<notin> {FT_k2dFix, FT_k3dFix}"
    and "slot_value u FS_kLatitude = None" and "slot_value u FS_kLongitude = None" and "slot_value u FS_kAltitude = None"
    and "\<And>direct. HasDirectValueFlag (rs_clear_direct_value_flags u) direct"
  shows "clears_position t u"
proof -
  have "kind_of_slot FS_kLatitude = SK_direct DV_kLatitude" "kind_of_slot FS_kLongitude = SK_direct DV_kLongitude"
    "kind_of_slot FS_kAltitude = SK_direct DV_kAltitude" by simp_all
  note this [THEN requested_direct, of u]
  with assms show ?thesis by (simp add: clears_position_def del: slot_value.simps) simp
qed

text \<open>The messages that say that there is no fix.\<close>

definition bestnav_without_fix :: "'h UnicoreBestNavRecord \<Rightarrow> bool" where
  "bestnav_without_fix r \<longleftrightarrow>
     ubn_position_type r = UP_kNone \<or> ubn_solution_status r \<noteq> US_kSolComputed \<and> ubn_position_type r \<noteq> UP_kUnknown"

inductive no_fix_update :: "timestamp_ns option \<Rightarrow> GnssRuntimeState \<Rightarrow> bool" where
  nav_pvt: "\<not> nav_pvt_position_valid r \<Longrightarrow> no_fix_update (np_timestamp_ns r) (UbxNavPvtToRuntimeState r)"
| nav_status: "\<lbrakk>ubx_fix (ns_gps_fix r) (ns_gnss_fix_ok r) = (False, ty); ty \<noteq> FT_kUnknown\<rbrakk> \<Longrightarrow>
    no_fix_update (ns_timestamp_ns r) (UbxNavStatusToRuntimeState r)"
| gga: "\<not> gga_fix_valid r \<Longrightarrow> no_fix_update (gga_timestamp_ns r) (NmeaGgaToRuntimeState r)"
| rmc: "\<not> rmc_fix_valid r \<Longrightarrow> no_fix_update (rmc_timestamp_ns r) (NmeaRmcToRuntimeState r)"
| gsa: "gsa_fix_dimension r = ND_kNoFix \<Longrightarrow> no_fix_update (gsa_timestamp_ns r) (NmeaGsaToRuntimeState r)"
| pvtsln: "upv_best_position_type r = UP_kNone \<Longrightarrow>
    no_fix_update (uh_timestamp_ns (upv_header r)) (UnicorePvtslnToRuntimeState r)"
| pvtslnb: "upv_best_position_type r = UP_kNone \<Longrightarrow>
    no_fix_update (ubh_timestamp_ns (upv_header r)) (UnicorePvtslnBToRuntimeState r)"
| bestnav: "bestnav_without_fix r \<Longrightarrow> no_fix_update (uh_timestamp_ns (ubn_header r)) (UnicoreBestNavToRuntimeState r)"
| bestnavb: "bestnav_without_fix r \<Longrightarrow> no_fix_update (ubh_timestamp_ns (ubn_header r)) (UnicoreBestNavBToRuntimeState r)"
| rtkstatus: "urk_position_type r = UP_kNone \<Longrightarrow>
    no_fix_update (uh_timestamp_ns (urk_header r)) (UnicoreRtkStatusToRuntimeState r)"

lemma ubx_no_fix_type:
  "ubx_fix gps ok = (False, ty) \<Longrightarrow> ty \<notin> {FT_k2dFix, FT_k3dFix}"
  "\<not> ok \<Longrightarrow> ubx_fix gps ok = (False, snd (ubx_fix gps ok))"
  by (cases gps; auto simp: ubx_fix_def)+

lemma SetCorrectionState_effect:
  "sl \<notin> {FS_kDifferentialCorrections, FS_kCorrectionsActive} \<Longrightarrow> slot_value (SetCorrectionState b s) sl = slot_value s sl"
  "rs_clear_direct_value_flags (SetCorrectionState b s) = rs_clear_direct_value_flags s"
  "rs_timestamp_ns (SetCorrectionState b s) = rs_timestamp_ns s"
  by (simp_all add: SetCorrectionState_def set_effects del: slot_value.simps)

lemma ClearPositionSolutionValues_effect:
  "sl \<in> {FS_kLatitude, FS_kLongitude, FS_kAltitude} \<Longrightarrow> slot_value (ClearPositionSolutionValues s) sl = None"
  "slot_value (ClearPositionSolutionValues s) FS_kFix = slot_value s FS_kFix"
  "HasDirectValueFlag (rs_clear_direct_value_flags (ClearPositionSolutionValues s)) direct"
  "rs_timestamp_ns (ClearPositionSolutionValues s) = rs_timestamp_ns s"
  by (auto simp: ClearPositionSolutionValues_def clear_effects simp del: slot_value.simps)

lemmas message_effects =
  set_effects clear_effects other_effects SetCorrectionState_effect ClearPositionSolutionValues_effect

lemma nav_pvt_clears: "\<not> nav_pvt_position_valid r \<Longrightarrow> clears_position (np_timestamp_ns r) (UbxNavPvtToRuntimeState r)"
  using ubx_no_fix_type(2) [of False "np_fix_type r", simplified prod_eq_iff] ubx_no_fix_type(1) [of "np_fix_type r" False, simplified prod_eq_iff]
  by (intro clears_positionI [where ty = "snd (ubx_fix (np_fix_type r) False)"];
      simp add: UbxNavPvtToRuntimeState_def message_effects split_beta del: slot_value.simps)

lemma nav_status_clears:
  "\<lbrakk>ubx_fix (ns_gps_fix r) (ns_gnss_fix_ok r) = (False, ty); ty \<noteq> FT_kUnknown\<rbrakk> \<Longrightarrow>
    clears_position (ns_timestamp_ns r) (UbxNavStatusToRuntimeState r)"
  using ubx_no_fix_type(1) [of "ns_gps_fix r" "ns_gnss_fix_ok r" ty]
  by (intro clears_positionI [where ty = ty];
      simp add: UbxNavStatusToRuntimeState_def message_effects del: slot_value.simps)

lemma gga_type: "MapGgaFixQualityToFixType q \<notin> {FT_k2dFix, FT_k3dFix}"
  by (cases q) (simp_all add: MapGgaFixQualityToFixType_def)

lemma gga_clears: "\<not> gga_fix_valid r \<Longrightarrow> clears_position (gga_timestamp_ns r) (NmeaGgaToRuntimeState r)"
  using gga_type [of "gga_fix_quality r"]
  by (intro clears_positionI [where ty = "MapGgaFixQualityToFixType (gga_fix_quality r)"];
      simp add: NmeaGgaToRuntimeState_def message_effects del: slot_value.simps)

lemma rmc_clears: "\<not> rmc_fix_valid r \<Longrightarrow> clears_position (rmc_timestamp_ns r) (NmeaRmcToRuntimeState r)"
  by (intro clears_positionI [where ty = FT_kNoFix];
      simp add: NmeaRmcToRuntimeState_def message_effects del: slot_value.simps)

lemma note_timestamp_default: "rs_timestamp_ns (note_timestamp t RuntimeState_default) = t"
  by (simp add: note_timestamp_def RuntimeState_default_def)

lemma gsa_clears: "gsa_fix_dimension r = ND_kNoFix \<Longrightarrow> clears_position (gsa_timestamp_ns r) (NmeaGsaToRuntimeState r)"
  by (intro clears_positionI [where ty = FT_kNoFix];
      simp add: NmeaGsaToRuntimeState_def MergeNmeaGsaIntoRuntimeState_def UpdateFixDimensionInState_def message_effects
        note_timestamp_default del: slot_value.simps)

text \<open>The Unicore updates: what they do to the position behind the fix.\<close>

definition position_of :: "GnssRuntimeState \<Rightarrow> _" where
  "position_of s =
     (rs_timestamp_ns s, slot_value s FS_kFix, slot_value s FS_kLatitude, slot_value s FS_kLongitude,
      slot_value s FS_kAltitude, rs_clear_direct_value_flags s)"

lemma position_of_steps [simp]:
  "position_of (ApplyRtkMode ty s) = position_of s"
  "position_of (ApplyCorrectionState ty s) = position_of s"
  "position_of (SetHorizontalAccuracyFromSigmas a b s) = position_of s"
  "position_of (SetVerticalAccuracy a s) = position_of s"
  "position_of (SetCorrectionAge a s) = position_of s"
  "position_of (SetTrackedAndUsedSatellites m n s) = position_of s"
  "position_of (SetCapability c s) = position_of s"
  "position_of (set_if_present GC_kHdop rs_hdop_update h s) = position_of s"
  "position_of (RefreshValueFlagsFromFields s) = position_of s"
  by (simp_all add: position_of_def ApplyRtkMode_def ApplyCorrectionState_def SetHorizontalAccuracyFromSigmas_def
      SetVerticalAccuracy_def SetCorrectionAge_def SetTrackedAndUsedSatellites_def message_effects
      RefreshValueFlagsFromFields_def Let_def del: slot_value.simps)

lemma position_of_baseline [simp]:
  "position_of (SetCanonicalBaselineStatus status s) = position_of s"
  "position_of (SetBaselineGeometryAndCompatibilityHeading st l a p s) = position_of s"
proof -
  show base: "position_of (SetCanonicalBaselineStatus status s) = position_of s" for status s
    by (cases status) (simp_all add: position_of_def SetCanonicalBaselineStatus_def set_baseline_def message_effects
        del: slot_value.simps)
  have "position_of (ClearOptionalValue GC_kHeading rs_heading_deg_update s) = position_of s"
    "position_of (ClearOptionalValue GC_kBaselineAzimuth rs_baseline_azimuth_deg_update s) = position_of s"
    "position_of (ClearOptionalValue GC_kBaselinePitch rs_baseline_pitch_deg_update s) = position_of s"
    "position_of (ClearOptionalValue GC_kBaselineLength rs_baseline_length_m_update s) = position_of s"
    "position_of (set_if_present GC_kHeading rs_heading_deg_update v s) = position_of s"
    "position_of (set_if_present GC_kBaselineAzimuth rs_baseline_azimuth_deg_update v s) = position_of s"
    "position_of (set_if_present GC_kBaselinePitch rs_baseline_pitch_deg_update v s) = position_of s"
    "position_of (set_if_present GC_kBaselineLength rs_baseline_length_m_update v s) = position_of s" for s v
    by (simp_all add: position_of_def message_effects del: slot_value.simps)
  then show "position_of (SetBaselineGeometryAndCompatibilityHeading st l a p s) = position_of s"
    by (simp add: SetBaselineGeometryAndCompatibilityHeading_def base)
qed

lemma position_of_clears: "position_of u = position_of v \<Longrightarrow> clears_position t v \<Longrightarrow> clears_position t u"
proof -
  assume eq: "position_of u = position_of v" and v: "clears_position t v"
  have "requested u sl = requested v sl" if "sl \<in> {FS_kLatitude, FS_kLongitude, FS_kAltitude}" for sl
    using eq that requested_direct [of sl _ u] requested_direct [of sl _ v] by (auto simp: position_of_def)
  with eq v show ?thesis by (simp add: position_of_def clears_position_def)
qed

text \<open>Without a valid fix the position is not written.\<close>

definition lost :: "timestamp_ns option \<Rightarrow> GnssRuntimeState \<Rightarrow> bool" where
  "lost t s \<longleftrightarrow> clears_position t s \<and> \<not> rs_fix_valid s"

lemma lost_step: "position_of u = position_of s \<Longrightarrow> lost t s \<Longrightarrow> lost t u"
  using position_of_clears [of u s t] by (auto simp: lost_def clears_position_def)

lemma lost_steps:
  "lost t s \<Longrightarrow> lost t (ApplyRtkMode ty s)"
  "lost t s \<Longrightarrow> lost t (ApplyCorrectionState ty s)"
  "lost t s \<Longrightarrow> lost t (SetTrackedAndUsedSatellites m n s)"
  "lost t s \<Longrightarrow> lost t (SetCorrectionAge a s)"
  "lost t s \<Longrightarrow> lost t (SetCapability c s)"
  "lost t s \<Longrightarrow> lost t (set_if_present GC_kHdop rs_hdop_update h s)"
  "lost t s \<Longrightarrow> lost t (SetCanonicalBaselineStatus status s)"
  "lost t s \<Longrightarrow> lost t (SetBaselineGeometryAndCompatibilityHeading st l b p s)"
  "lost t s \<Longrightarrow> lost t (RefreshValueFlagsFromFields s)"
  "lost t s \<Longrightarrow> lost t (when_fix_valid step s)"
  by (erule lost_step [rotated], simp)+ (simp add: lost_def when_fix_valid_def)

lemma lost_clear:
  assumes "rs_timestamp_ns s = t" and "rs_fix_valid s = False" and "rs_fix_type s = FT_kNoFix"
  shows "lost t (uni_ClearPositionSolutionValues s)"
proof -
  have "clears_position t (uni_ClearPositionSolutionValues s)"
    using assms by (intro clears_positionI [where ty = FT_kNoFix])
      (simp_all add: uni_ClearPositionSolutionValues_def message_effects del: slot_value.simps, simp_all)
  then show ?thesis by (simp add: lost_def clears_position_def)
qed

lemma lost_fix: "lost t (ApplyFixType UP_kNone (start_update t))"
  by (simp add: ApplyFixType_def MapFixType_def Let_def start_update_def set_fix_def lost_clear)

lemma lost_not_computed:
  assumes "ty \<noteq> UP_kUnknown"
  shows "lost t (bestnav_not_computed (ApplyFixType ty (start_update t)))"
proof -
  have "MapFixType ty \<noteq> FT_kUnknown" using assms by (cases ty) (simp_all add: MapFixType_def)
  moreover have "slot_value (ApplyFixType ty (start_update t)) FS_kFix
      = Some (FV_fix (MapFixType ty \<noteq> FT_kUnknown \<and> MapFixType ty \<noteq> FT_kNoFix) (MapFixType ty))"
    and "rs_timestamp_ns (ApplyFixType ty (start_update t)) = t"
    by (simp_all add: ApplyFixType_def Let_def uni_ClearPositionSolutionValues_def start_update_def message_effects
        del: slot_value.simps)
  ultimately show ?thesis by (simp add: bestnav_not_computed_def Let_def lost_clear)
qed

lemma pvtsln_lost: "upv_best_position_type r = UP_kNone \<Longrightarrow> clears_position t (pvtsln_update t r)"
proof -
  assume "upv_best_position_type r = UP_kNone"
  then have "lost t (pvtsln_update t r)" by (simp add: pvtsln_update_def lost_steps lost_fix)
  then show ?thesis by (simp add: lost_def)
qed

lemma bestnav_lost:
  assumes "bestnav_without_fix r"
  shows "clears_position t (bestnav_update t r)"
proof -
  have "lost t ((if ubn_solution_status r \<noteq> US_kSolComputed then bestnav_not_computed else id)
      (ApplyFixType (ubn_position_type r) (start_update t)))"
    using assms lost_not_computed [of UP_kNone t] by (auto simp: bestnav_without_fix_def lost_fix lost_not_computed)
  then have "lost t (bestnav_update t r)" by (simp only: bestnav_update_def perform_simps lost_steps)
  then show ?thesis by (simp add: lost_def)
qed

lemma rtkstatus_lost:
  assumes "urk_position_type r = UP_kNone"
  shows "clears_position (uh_timestamp_ns (urk_header r)) (UnicoreRtkStatusToRuntimeState r)"
proof -
  from assms have "lost (uh_timestamp_ns (urk_header r)) (UnicoreRtkStatusToRuntimeState r)"
    by (simp add: UnicoreRtkStatusToRuntimeState_def lost_steps lost_fix)
  then show ?thesis by (simp add: lost_def)
qed

lemma unicore_lost:
  "upv_best_position_type r = UP_kNone \<Longrightarrow> clears_position (uh_timestamp_ns (upv_header r)) (UnicorePvtslnToRuntimeState r)"
  "upv_best_position_type rb = UP_kNone \<Longrightarrow> clears_position (ubh_timestamp_ns (upv_header rb)) (UnicorePvtslnBToRuntimeState rb)"
  "bestnav_without_fix n \<Longrightarrow> clears_position (uh_timestamp_ns (ubn_header n)) (UnicoreBestNavToRuntimeState n)"
  "bestnav_without_fix nb \<Longrightarrow> clears_position (ubh_timestamp_ns (ubn_header nb)) (UnicoreBestNavBToRuntimeState nb)"
  by (simp_all add: UnicorePvtslnToRuntimeState_def UnicorePvtslnBToRuntimeState_def UnicoreBestNavToRuntimeState_def
      UnicoreBestNavBToRuntimeState_def pvtsln_lost bestnav_lost)

lemma no_fix_clears: "no_fix_update t u \<Longrightarrow> clears_position t u"
  by (induction rule: no_fix_update.induct)
    (rule nav_pvt_clears nav_status_clears gga_clears rmc_clears gsa_clears unicore_lost rtkstatus_lost; assumption)+

lemma clears_position_merged:
  assumes "clears_position t u" and "accepts (ag_versions a sl) t" and "sl \<in> {FS_kLatitude, FS_kLongitude, FS_kAltitude}"
  shows "slot_value (ag_state (fst (Merge u a))) sl = None"
proof -
  from assms have "cell (fst (Merge u a)) sl = answer t (Some None) (cell a sl)"
    using Merge_cell [of sl u a] by (auto simp: clears_position_def)
  with assms(2) show ?thesis by (simp add: cell_def answer_def)
qed

section \<open>Properties\<close>

text \<open>C21. The update of every UBX, NMEA and Unicore message satisfies the invariant of the runtime state: every available value
  belongs to a declared capability, no field is both set and cleared, and no undeclared field is cleared.\<close>

theorem message_updates_valid:
  "list_all (\<lambda>u. HasValidCapabilityValueInvariant u \<and> (\<forall>c. HasValueAvailable u c \<longleftrightarrow> slot_value u (cap_slot c) \<noteq> None))
     [UbxNavPvtToRuntimeState pvt, UbxNavStatusToRuntimeState status, UbxNavDopToRuntimeState dop,
      UbxNavSatToRuntimeState sat, UbxMonHwToRuntimeState hw, UbxMonRfToRuntimeState rf, NmeaGgaToRuntimeState gga,
      NmeaRmcToRuntimeState rmc, NmeaZdaToRuntimeState zda, NmeaVtgToRuntimeState vtg, NmeaGsaToRuntimeState gsa,
      NmeaGstToRuntimeState gst, MergeNmeaGsvIntoRuntimeState gsv RuntimeState_default,
      UnicorePvtslnToRuntimeState pvtsln, UnicorePvtslnBToRuntimeState pvtslnb, UnicoreBestNavToRuntimeState bestnav,
      UnicoreBestNavBToRuntimeState bestnavb, UnicoreRtkStatusToRuntimeState rtk, UnicoreRtcmStatusToRuntimeState rtcm,
      UnicoreBestSatToRuntimeState bestsat, UnicoreSatsInfoToRuntimeState satsinfo, UnicoreJamStatusToRuntimeState jam,
      UnicoreFreqJamStatusToRuntimeState freqjam]"
proof -
  have valid: "HasValidCapabilityValueInvariant u \<and> (\<forall>c. HasValueAvailable u c \<longleftrightarrow> slot_value u (cap_slot c) \<noteq> None)"
    if "update_ok u" for u using that update_ok_invariant [OF that] unfolding update_ok_def by blast
  show ?thesis
    by (rule list.pred_mono_strong [where P = update_ok])
      (simp only: list.pred_inject ubx_updates_ok nmea_updates_ok nmea_merges_ok unicore_updates_ok update_ok_default
        NmeaGsaToRuntimeState_def NmeaGstToRuntimeState_def simp_thms, rule valid)
qed

text \<open>C4. No position is left standing without a fix.  A NAV-PVT, NAV-STATUS, GGA, RMC, GSA, PVTSLN, BESTNAV or RTKSTATUS
  message that reports no fix, not older than what the aggregator has of the position, leaves neither latitude, longitude nor altitude; and when
  it is not older than the fix and names its type, the fix is not valid afterwards.\<close>

theorem fix_loss_clears_position:
  assumes "no_fix_update t u" and "\<forall>sl \<in> {FS_kLatitude, FS_kLongitude, FS_kAltitude}. accepts (ag_versions a sl) t"
  shows "let s = ag_state (fst (Merge u a)) in
    rs_latitude_deg s = None \<and> rs_longitude_deg s = None \<and> rs_altitude_m s = None
    \<and> (rs_fix_type u = FT_kUnknown \<or> \<not> accepts (ag_versions a FS_kFix) t \<or> rs_fix_valid s = False)"
proof -
  note clears = no_fix_clears [OF assms(1)]
  let ?s = "ag_state (fst (Merge u a))"
  have "slot_value ?s FS_kLatitude = None" "slot_value ?s FS_kLongitude = None" "slot_value ?s FS_kAltitude = None"
    by (rule clears_position_merged [OF clears]; use assms(2) in simp)+
  moreover have "rs_fix_type u = FT_kUnknown \<or> \<not> accepts (ag_versions a FS_kFix) t \<or> rs_fix_valid ?s = False"
    using Merge_fix [of u a] clears by (auto simp: fix_of_def clears_position_def split: if_splits)
  ultimately show ?thesis by (simp add: Let_def)
qed

text \<open>A position of time 1, and a GSA sentence of time 2 that reports no fix.\<close>

theorem fix_loss_clears_position_witness:
  "let lost = NmeaGsaToRuntimeState
     \<lparr>gsa_timestamp_ns = Some 2, gsa_fix_mode = GM_kAutomatic, gsa_fix_dimension = ND_kNoFix, gsa_pdop = None,
      gsa_hdop = None, gsa_vdop = None, gsa_active_satellite_prns = []\<rparr> in
   rs_latitude_deg (ag_state (merge_all [dated_position 1 47, lost] aggregator_new)) = None"
proof -
  let ?r = "\<lparr>gsa_timestamp_ns = Some 2, gsa_fix_mode = GM_kAutomatic, gsa_fix_dimension = ND_kNoFix, gsa_pdop = None,
      gsa_hdop = None, gsa_vdop = None, gsa_active_satellite_prns = []\<rparr>"
  let ?a = "fst (Merge (dated_position 1 47) aggregator_new)"
  have lost: "no_fix_update (Some 2) (NmeaGsaToRuntimeState ?r)" using no_fix_update.gsa [of ?r] by simp
  have "ag_versions ?a sl = fst (answer (Some 1) (requested (dated_position 1 47) sl) (cell aggregator_new sl))"
    if "sl \<noteq> FS_kFix" for sl
    using Merge_cell [OF that, of "dated_position 1 47" aggregator_new, THEN arg_cong [of _ _ fst]]
    by (simp add: cell_def) (simp add: dated_position_def)
  then have "\<forall>sl \<in> {FS_kLatitude, FS_kLongitude, FS_kAltitude}. accepts (ag_versions ?a sl) (Some 2)"
    by (simp add: answer_def cell_def accepts_def aggregator_new_def FieldVersion_default_def split: option.split)
  from fix_loss_clears_position [OF lost this] show ?thesis by (simp add: Let_def)
qed

end
