(* ===== verification/Position_Freshness.thy ===== *)
theory Position_Freshness
  imports Runtime_State
begin

text \<open>
  \<open>PositionPayloadFreshnessTracker\<close> (gnss_driver/include/universal_gnss_driver/position_payload_freshness.hpp): whether
  a receiver that keeps sending positions still moves, and whether its epochs advance.
\<close>

section \<open>Epochs\<close>

datatype ReceiverEpochDomain =
    ED_kUnknown | ED_kUtcNanosecondsOfDay | ED_kGpsTowMilliseconds | ED_kGpsWeekTowMilliseconds
  | ED_kReceiverWeekTowMilliseconds

datatype ReceiverEpochRelation =
    ER_kUnavailable | ER_kFirst | ER_kAdvanced | ER_kIdentical | ER_kRegressed | ER_kDomainChanged

record ReceiverEpoch =
  ep_domain :: ReceiverEpochDomain
  ep_value :: u64
  ep_rollover_period :: "u64 option"

definition MakeUtcTimeOfDayEpoch :: "u8 \<Rightarrow> u8 \<Rightarrow> double \<Rightarrow> ReceiverEpoch option" where
  "MakeUtcTimeOfDayEpoch hour minute second =
     (if hour > 23 \<or> minute > 59 \<or> \<not> dbl_isfinite second \<or> dbl_less second (Finite 0) \<or> \<not> dbl_less second (Finite 61)
      then None
      else
        let second_ns = (case dbl_mult second (Finite 1000000000) of Finite x \<Rightarrow> word_of_int (llround_rat x) | _ \<Rightarrow> 0) in
        Some
          \<lparr>ep_domain = ED_kUtcNanosecondsOfDay,
           ep_value = (ucast hour * 3600 + ucast minute * 60) * 1000000000 + second_ns,
           ep_rollover_period = Some (86400 * 1000000000)\<rparr>)"

definition MakeGpsTowEpoch :: "u32 \<Rightarrow> ReceiverEpoch" where
  "MakeGpsTowEpoch tow_ms =
     \<lparr>ep_domain = ED_kGpsTowMilliseconds, ep_value = ucast tow_ms, ep_rollover_period = Some 604800000\<rparr>"

definition MakeGpsWeekTowEpoch :: "u16 \<Rightarrow> u32 \<Rightarrow> ReceiverEpoch" where
  "MakeGpsWeekTowEpoch week tow_ms =
     \<lparr>ep_domain = ED_kGpsWeekTowMilliseconds, ep_value = ucast week * 604800000 + ucast tow_ms, ep_rollover_period = None\<rparr>"

definition MakeReceiverWeekTowEpoch :: "u16 \<Rightarrow> u32 \<Rightarrow> ReceiverEpoch" where
  "MakeReceiverWeekTowEpoch week tow_ms =
     \<lparr>ep_domain = ED_kReceiverWeekTowMilliseconds, ep_value = ucast week * 604800000 + ucast tow_ms,
      ep_rollover_period = None\<rparr>"

section \<open>The tracker\<close>

record PositionPayloadFreshnessMetrics =
  pf_valid_position_payload_observations :: u64
  pf_invalid_position_observations :: u64
  pf_position_payload_changes :: u64
  pf_consecutive_identical_position_observations :: u64
  pf_last_position_observation_timestamp_ns :: "timestamp_ns option"
  pf_last_position_payload_change_timestamp_ns :: "timestamp_ns option"
  pf_unchanged_observation_span_ns :: "timestamp_ns option"
  pf_receiver_epoch_observations :: u64
  pf_receiver_epoch_advances :: u64
  pf_consecutive_identical_receiver_epochs :: u64
  pf_receiver_epoch_regressions :: u64
  pf_last_receiver_epoch_relation :: ReceiverEpochRelation
  pf_last_receiver_epoch :: "ReceiverEpoch option"

definition FreshnessMetrics_default :: PositionPayloadFreshnessMetrics where
  "FreshnessMetrics_default =
     \<lparr>pf_valid_position_payload_observations = 0, pf_invalid_position_observations = 0, pf_position_payload_changes = 0,
      pf_consecutive_identical_position_observations = 0, pf_last_position_observation_timestamp_ns = None,
      pf_last_position_payload_change_timestamp_ns = None, pf_unchanged_observation_span_ns = None,
      pf_receiver_epoch_observations = 0, pf_receiver_epoch_advances = 0, pf_consecutive_identical_receiver_epochs = 0,
      pf_receiver_epoch_regressions = 0, pf_last_receiver_epoch_relation = ER_kUnavailable, pf_last_receiver_epoch = None\<rparr>"

record FreshnessTracker =
  ft_metrics :: PositionPayloadFreshnessMetrics
  ft_comparable_position :: "(double \<times> double) option"

definition tracker_new :: FreshnessTracker where
  "tracker_new = \<lparr>ft_metrics = FreshnessMetrics_default, ft_comparable_position = None\<rparr>"

definition epoch_advanced :: "ReceiverEpoch \<Rightarrow> ReceiverEpoch \<Rightarrow> bool" where
  "epoch_advanced previous current \<longleftrightarrow>
     ep_value current > ep_value previous
     \<or> (case ep_rollover_period current of
          Some period \<Rightarrow>
            ep_rollover_period previous = Some period
            \<and> ep_value previous > (period * 3) div 4 \<and> ep_value current < period div 4
        | None \<Rightarrow> False)"

definition ObserveReceiverEpoch ::
  "ReceiverEpoch option \<Rightarrow> PositionPayloadFreshnessMetrics \<Rightarrow> PositionPayloadFreshnessMetrics" where
  "ObserveReceiverEpoch receiver_epoch m =
     (case receiver_epoch of
        None \<Rightarrow> m\<lparr>pf_last_receiver_epoch_relation := ER_kUnavailable\<rparr>
      | Some epoch \<Rightarrow>
          if ep_domain epoch = ED_kUnknown then m\<lparr>pf_last_receiver_epoch_relation := ER_kUnavailable\<rparr>
          else
            let m1 = m\<lparr>pf_receiver_epoch_observations := pf_receiver_epoch_observations m + 1\<rparr>;
                m2 = m1\<lparr>pf_last_receiver_epoch := receiver_epoch\<rparr> in
            case pf_last_receiver_epoch m1 of
              None \<Rightarrow>
                m2\<lparr>pf_last_receiver_epoch_relation := ER_kFirst, pf_consecutive_identical_receiver_epochs := 1\<rparr>
            | Some previous \<Rightarrow>
                if ep_domain previous \<noteq> ep_domain epoch then
                  m2\<lparr>pf_last_receiver_epoch_relation := ER_kDomainChanged, pf_consecutive_identical_receiver_epochs := 1\<rparr>
                else if ep_value epoch = ep_value previous then
                  m2\<lparr>pf_last_receiver_epoch_relation := ER_kIdentical,
                     pf_consecutive_identical_receiver_epochs := pf_consecutive_identical_receiver_epochs m2 + 1\<rparr>
                else
                  let m3 = m2\<lparr>pf_consecutive_identical_receiver_epochs := 1\<rparr> in
                  if epoch_advanced previous epoch then
                    m3\<lparr>pf_receiver_epoch_advances := pf_receiver_epoch_advances m3 + 1,
                       pf_last_receiver_epoch_relation := ER_kAdvanced\<rparr>
                  else
                    m3\<lparr>pf_receiver_epoch_regressions := pf_receiver_epoch_regressions m3 + 1,
                       pf_last_receiver_epoch_relation := ER_kRegressed\<rparr>)"

definition UpdateUnchangedObservationSpan ::
  "timestamp_ns option \<Rightarrow> PositionPayloadFreshnessMetrics \<Rightarrow> PositionPayloadFreshnessMetrics" where
  "UpdateUnchangedObservationSpan observation_timestamp m =
     (case (observation_timestamp, pf_last_position_payload_change_timestamp_ns m) of
        (Some now, Some changed) \<Rightarrow>
          m\<lparr>pf_unchanged_observation_span_ns := (if now < changed then None else Some (now - changed))\<rparr>
      | _ \<Rightarrow> m\<lparr>pf_unchanged_observation_span_ns := None\<rparr>)"

definition Observe :: "GnssRuntimeState \<Rightarrow> ReceiverEpoch option \<Rightarrow> FreshnessTracker \<Rightarrow> FreshnessTracker" where
  "Observe observation receiver_epoch t =
     (let m = ObserveReceiverEpoch receiver_epoch
                ((ft_metrics t)\<lparr>pf_last_position_observation_timestamp_ns := rs_timestamp_ns observation\<rparr>);
          invalid =
            \<lparr>ft_metrics = m\<lparr>pf_invalid_position_observations := pf_invalid_position_observations m + 1,
               pf_consecutive_identical_position_observations := 0, pf_unchanged_observation_span_ns := None\<rparr>,
             ft_comparable_position = None\<rparr> in
      case (rs_latitude_deg observation, rs_longitude_deg observation) of
        (Some latitude, Some longitude) \<Rightarrow>
          if \<not> rs_fix_valid observation \<or> \<not> dbl_isfinite latitude \<or> \<not> dbl_isfinite longitude then invalid
          else
            let m1 = m\<lparr>pf_valid_position_payload_observations := pf_valid_position_payload_observations m + 1\<rparr> in
            if (case ft_comparable_position t of
                  Some (old_latitude, old_longitude) \<Rightarrow> dbl_eq latitude old_latitude \<and> dbl_eq longitude old_longitude
                | None \<Rightarrow> False)
            then
              t\<lparr>ft_metrics :=
                 UpdateUnchangedObservationSpan (rs_timestamp_ns observation)
                   (m1\<lparr>pf_consecutive_identical_position_observations :=
                         pf_consecutive_identical_position_observations m1 + 1\<rparr>)\<rparr>
            else
              \<lparr>ft_metrics =
                 m1\<lparr>pf_position_payload_changes := pf_position_payload_changes m1 + 1,
                   pf_consecutive_identical_position_observations := 1,
                   pf_last_position_payload_change_timestamp_ns := rs_timestamp_ns observation,
                   pf_unchanged_observation_span_ns := map_option (\<lambda>_. 0) (rs_timestamp_ns observation)\<rparr>,
               ft_comparable_position = Some (latitude, longitude)\<rparr>
      | _ \<Rightarrow> invalid)"

section \<open>What the counters say\<close>

text \<open>Every observation is counted as valid or as invalid; a span is not negative and belongs to a position.\<close>

definition tracker_ok :: "nat \<Rightarrow> FreshnessTracker \<Rightarrow> bool" where
  "tracker_ok observations t \<longleftrightarrow>
     (let m = ft_metrics t in
      pf_valid_position_payload_observations m + pf_invalid_position_observations m = of_nat observations
      \<and> (\<forall>span. pf_unchanged_observation_span_ns m = Some span \<longrightarrow> 0 \<le> span \<and> ft_comparable_position t \<noteq> None))"

lemma ObserveReceiverEpoch_frame:
  "pf_valid_position_payload_observations (ObserveReceiverEpoch e m) = pf_valid_position_payload_observations m"
  "pf_invalid_position_observations (ObserveReceiverEpoch e m) = pf_invalid_position_observations m"
  "pf_position_payload_changes (ObserveReceiverEpoch e m) = pf_position_payload_changes m"
  "pf_consecutive_identical_position_observations (ObserveReceiverEpoch e m) =
     pf_consecutive_identical_position_observations m"
  "pf_unchanged_observation_span_ns (ObserveReceiverEpoch e m) = pf_unchanged_observation_span_ns m"
  "pf_last_position_payload_change_timestamp_ns (ObserveReceiverEpoch e m) =
     pf_last_position_payload_change_timestamp_ns m"
  by (simp_all add: ObserveReceiverEpoch_def Let_def split: option.split)

lemma tracker_ok_Observe: "tracker_ok n t \<Longrightarrow> tracker_ok (Suc n) (Observe observation e t)"
  by (auto simp: tracker_ok_def Observe_def UpdateUnchangedObservationSpan_def ObserveReceiverEpoch_frame Let_def
      algebra_simps split: option.split)

end
