(* ===== verification/Freshness_History.thy ===== *)
theory Freshness_History
  imports Position_Freshness
begin

text \<open>
  The freshness tracker against a reference on the whole history of observations, and its epochs over a rollover.
\<close>

section \<open>The history\<close>

text \<open>The position of an observation that counts; a history holds the newest observation first.\<close>

definition valid_position :: "GnssRuntimeState \<Rightarrow> (double \<times> double) option" where
  "valid_position o1 =
     (case (rs_latitude_deg o1, rs_longitude_deg o1) of
        (Some latitude, Some longitude) \<Rightarrow>
          if rs_fix_valid o1 \<and> dbl_isfinite latitude \<and> dbl_isfinite longitude then Some (latitude, longitude) else None
      | _ \<Rightarrow> None)"

text \<open>The newest observations that all have the position of the last one.\<close>

definition unchanged_run :: "GnssRuntimeState list \<Rightarrow> GnssRuntimeState list" where
  "unchanged_run history =
     (case history of
        [] \<Rightarrow> []
      | newest # _ \<Rightarrow>
          if valid_position newest = None then []
          else takeWhile (\<lambda>o1. valid_position o1 = valid_position newest) history)"

definition run_span :: "GnssRuntimeState list \<Rightarrow> timestamp_ns option" where
  "run_span run =
     (if run = [] then None
      else
        case (rs_timestamp_ns (hd run), rs_timestamp_ns (last run)) of
          (Some now, Some since) \<Rightarrow> if now < since then None else Some (now - since)
        | _ \<Rightarrow> None)"

definition observe_all :: "(GnssRuntimeState \<times> ReceiverEpoch option) list \<Rightarrow> FreshnessTracker" where
  "observe_all history = foldr (\<lambda>(o1, e). Observe o1 e) history tracker_new"

lemma unchanged_run_Nil [simp]: "unchanged_run [] = []"
  by (simp add: unchanged_run_def)

lemma unchanged_run_Cons:
  "unchanged_run (o1 # history) =
     (if valid_position o1 = None then []
      else o1 # (if unchanged_run history \<noteq> [] \<and> valid_position (hd history) = valid_position o1
                 then unchanged_run history else []))"
  by (cases history) (auto simp: unchanged_run_def)

lemma valid_position_finite:
  assumes "valid_position o1 = Some p"
  obtains x y where "p = (Finite x, Finite y)"
proof -
  obtain a b where p: "p = (a, b)" by fastforce
  with assms have "dbl_isfinite a" "dbl_isfinite b" by (auto simp: valid_position_def split: option.splits if_splits)
  with p that show thesis by (cases a; cases b) (auto simp: dbl_isfinite_def)
qed

lemma Observe_invalid:
  "valid_position o1 = None \<Longrightarrow>
     Observe o1 e t =
       (let m = ObserveReceiverEpoch e ((ft_metrics t)\<lparr>pf_last_position_observation_timestamp_ns := rs_timestamp_ns o1\<rparr>) in
        \<lparr>ft_metrics = m\<lparr>pf_invalid_position_observations := pf_invalid_position_observations m + 1,
            pf_consecutive_identical_position_observations := 0, pf_unchanged_observation_span_ns := None\<rparr>,
         ft_comparable_position = None\<rparr>)"
  by (auto simp: Observe_def valid_position_def Let_def split: option.splits)

text \<open>The tracker's state as a function of the history.\<close>

definition tracks :: "GnssRuntimeState list \<Rightarrow> FreshnessTracker \<Rightarrow> bool" where
  "tracks history t \<longleftrightarrow>
     (let m = ft_metrics t; run = unchanged_run history in
      ft_comparable_position t = (if run = [] then None else valid_position (hd run))
      \<and> pf_consecutive_identical_position_observations m = of_nat (length run)
      \<and> (run \<noteq> [] \<longrightarrow> pf_last_position_payload_change_timestamp_ns m = rs_timestamp_ns (last run))
      \<and> pf_unchanged_observation_span_ns m = run_span run
      \<and> pf_valid_position_payload_observations m = of_nat (length (filter (\<lambda>o1. valid_position o1 \<noteq> None) history)))"

lemma hd_unchanged_run: "unchanged_run history \<noteq> [] \<Longrightarrow> hd (unchanged_run history) = hd history \<and> valid_position (hd history) \<noteq> None"
  by (cases history) (auto simp: unchanged_run_Cons split: if_splits)

text \<open>The metrics after the epoch of an observation, and after its position counted as valid.\<close>

definition noted :: "GnssRuntimeState \<Rightarrow> ReceiverEpoch option \<Rightarrow> FreshnessTracker \<Rightarrow> PositionPayloadFreshnessMetrics" where
  "noted o1 e t = ObserveReceiverEpoch e ((ft_metrics t)\<lparr>pf_last_position_observation_timestamp_ns := rs_timestamp_ns o1\<rparr>)"

lemma noted_frame [simp]:
  "pf_valid_position_payload_observations (noted o1 e t) = pf_valid_position_payload_observations (ft_metrics t)"
  "pf_consecutive_identical_position_observations (noted o1 e t) = pf_consecutive_identical_position_observations (ft_metrics t)"
  "pf_last_position_payload_change_timestamp_ns (noted o1 e t) = pf_last_position_payload_change_timestamp_ns (ft_metrics t)"
  by (simp_all add: noted_def ObserveReceiverEpoch_frame)

lemma Observe_changed:
  assumes "valid_position o1 = Some (Finite x, Finite y)" and "ft_comparable_position t \<noteq> Some (Finite x, Finite y)"
    and "\<And>p. ft_comparable_position t = Some p \<Longrightarrow> \<exists>u v. p = (Finite u, Finite v)"
  shows "\<exists>m. Observe o1 e t = \<lparr>ft_metrics = m, ft_comparable_position = Some (Finite x, Finite y)\<rparr>
    \<and> pf_consecutive_identical_position_observations m = 1
    \<and> pf_last_position_payload_change_timestamp_ns m = rs_timestamp_ns o1
    \<and> pf_unchanged_observation_span_ns m = map_option (\<lambda>_. 0) (rs_timestamp_ns o1)
    \<and> pf_valid_position_payload_observations m = pf_valid_position_payload_observations (ft_metrics t) + 1"
proof -
  from assms(1) have o1: "rs_latitude_deg o1 = Some (Finite x)" "rs_longitude_deg o1 = Some (Finite y)" "rs_fix_valid o1"
    by (auto simp: valid_position_def split: option.splits if_splits)
  moreover have "\<not> (case ft_comparable_position t of
      Some (u, v) \<Rightarrow> dbl_eq (Finite x) u \<and> dbl_eq (Finite y) v | None \<Rightarrow> False)"
    using assms(2,3) by (auto split: option.split)
  ultimately show ?thesis
    by (simp add: Observe_def Let_def dbl_isfinite_def noted_def [symmetric])
qed

lemma Observe_same:
  assumes "valid_position o1 = Some (Finite x, Finite y)" and "ft_comparable_position t = Some (Finite x, Finite y)"
  shows "Observe o1 e t = t\<lparr>ft_metrics := UpdateUnchangedObservationSpan (rs_timestamp_ns o1)
      ((noted o1 e t)\<lparr>pf_valid_position_payload_observations := pf_valid_position_payload_observations (ft_metrics t) + 1,
         pf_consecutive_identical_position_observations :=
           pf_consecutive_identical_position_observations (ft_metrics t) + 1\<rparr>)\<rparr>"
proof -
  from assms(1) have "rs_latitude_deg o1 = Some (Finite x)" "rs_longitude_deg o1 = Some (Finite y)" "rs_fix_valid o1"
    by (auto simp: valid_position_def split: option.splits if_splits)
  with assms(2) show ?thesis
    by (simp add: Observe_def Let_def dbl_isfinite_def noted_def [symmetric])
qed

lemma tracks_Observe:
  assumes "tracks history t"
  shows "tracks (o1 # history) (Observe o1 e t)"
proof (cases "valid_position o1")
  case None
  with assms show ?thesis
    by (simp add: tracks_def Observe_invalid unchanged_run_Cons run_span_def ObserveReceiverEpoch_frame Let_def)
next
  case (Some p)
  then obtain x y where p: "valid_position o1 = Some (Finite x, Finite y)" by (metis valid_position_finite)
  let ?run = "unchanged_run history"
  from assms have cp: "ft_comparable_position t = (if ?run = [] then None else valid_position (hd history))"
    using hd_unchanged_run [of history] by (auto simp: tracks_def Let_def)
  show ?thesis
  proof (cases "ft_comparable_position t = Some (Finite x, Finite y)")
    case True
    with cp p have "?run \<noteq> []" "valid_position (hd history) = valid_position o1"
      by (simp_all split: if_splits)
    with p have run: "unchanged_run (o1 # history) = o1 # ?run" "?run \<noteq> []"
      by (simp_all add: unchanged_run_Cons)
    have some: "\<exists>a b. valid_position o1 = Some (a, b)" using p by simp
    with assms p True run show ?thesis
      by (auto simp del: not_None_eq split_paired_Ex simp: p tracks_def Observe_same [OF p True] UpdateUnchangedObservationSpan_def run_span_def Let_def
          split: option.split)
  next
    case False
    have fin: "\<exists>u v. q = (Finite u, Finite v)" if "ft_comparable_position t = Some q" for q
      using that cp by (metis option.distinct(1) valid_position_finite)
    from False cp p have run: "unchanged_run (o1 # history) = [o1]"
      by (auto simp: unchanged_run_Cons split: if_splits)
    from Observe_changed [OF p False fin, of e] assms p run show ?thesis
      by (auto simp: tracks_def run_span_def Let_def split: option.split)
  qed
qed

lemma tracks_all: "tracks (map fst history) (observe_all history)"
proof (induction history)
  case Nil
  show ?case by (simp add: observe_all_def tracks_def run_span_def tracker_new_def FreshnessMetrics_default_def)
next
  case (Cons x history)
  obtain o1 e where "x = (o1, e)" by fastforce
  with tracks_Observe [OF Cons.IH, of o1 e] show ?case by (simp add: observe_all_def)
qed

section \<open>Properties\<close>

text \<open>C20. The freshness metrics agree with a reference on the whole history of observations, whatever the epochs: the
  number of consecutive identical positions is the length of the newest run of valid observations with one position,
  the unchanged span is the time from the first to the last of that run (none when a time is missing or the clock went
  back), and the valid and the invalid observations are counted; the counters are 64-bit words, so all numbers are
  taken modulo \<open>2 ^ 64\<close>.\<close>

theorem freshness_agrees_with_history:
  "let m = ft_metrics (observe_all history); run = unchanged_run (map fst history) in
   pf_consecutive_identical_position_observations m = of_nat (length run)
   \<and> pf_unchanged_observation_span_ns m = run_span run
   \<and> pf_valid_position_payload_observations m =
       of_nat (length (filter (\<lambda>o1. valid_position o1 \<noteq> None) (map fst history)))
   \<and> pf_invalid_position_observations m =
       of_nat (length (filter (\<lambda>o1. valid_position o1 = None) (map fst history)))"
proof -
  have ok: "tracker_ok (length history) (observe_all history)"
  proof (induction history)
    case Nil
    show ?case by (simp add: observe_all_def tracker_ok_def tracker_new_def FreshnessMetrics_default_def)
  next
    case (Cons x history)
    then show ?case using tracker_ok_Observe by (auto simp: observe_all_def split: prod.split)
  qed
  let ?valid = "length (filter (\<lambda>o1. valid_position o1 \<noteq> None) (map fst history))"
    and ?invalid = "length (filter (\<lambda>o1. valid_position o1 = None) (map fst history))"
  have "?valid + ?invalid = length history"
    using sum_length_filter_compl [of "\<lambda>o1. valid_position o1 \<noteq> None" "map fst history"] by (simp only: not_not length_map)
  then have "(of_nat ?valid + of_nat ?invalid :: u64) = of_nat (length history)"
    by (simp only: of_nat_add [symmetric])
  with ok tracks_all [of history] show ?thesis
    unfolding tracks_def tracker_ok_def Let_def by (metis add_left_cancel)
qed

text \<open>A GPS time of week that advances by less than a quarter of a week is seen as an advance, also across the end of
  the week.\<close>

lemma epoch_rollover_advances:
  assumes "unat tow < 604800000" and "0 < d" and "d < 151200000" and "unat tow1 = (unat tow + d) mod 604800000"
  shows "epoch_advanced (MakeGpsTowEpoch tow) (MakeGpsTowEpoch tow1)"
proof -
  have c: "unat (ucast t :: u64) = unat t" for t :: u32
    using unsigned_less [of t, where ?'a = nat] by (simp add: unsigned_ucast_eq take_bit_nat_eq_self)
  show ?thesis
  proof (cases "unat tow + d < 604800000")
    case True
    with assms(2,4) have "unat tow < unat tow1" by simp
    then show ?thesis by (simp add: epoch_advanced_def MakeGpsTowEpoch_def word_less_nat_alt c)
  next
    case False
    with assms have "unat tow1 = unat tow + d - 604800000" by (simp add: mod_if)
    with False assms have "453600000 < unat tow" "unat tow1 < 151200000" by linarith+
    then show ?thesis by (simp add: epoch_advanced_def MakeGpsTowEpoch_def word_less_nat_alt c)
  qed
qed

theorem epoch_rollover_advances_witness:
  "epoch_advanced (MakeGpsTowEpoch 604799900) (MakeGpsTowEpoch 100)"
  using epoch_rollover_advances [of 604799900 200 100] by simp

end
