(* ===== verification/Ntrip_Sourcetable.thy ===== *)
theory Ntrip_Sourcetable
  imports Cxx_Number "HOL-Library.Multiset"
begin

text \<open>
  The NTRIP sourcetable (gnss_ntrip/src/ntrip_sourcetable.cpp): the lines a caster lists its streams, casters and networks
  in, parsed into records and issues, and the questions asked of a table.
\<close>

section \<open>Data\<close>

record NtripSourcetableStream =
  sts_line_number :: nat
  sts_mountpoint :: string
  sts_identifier :: "string option"
  sts_format :: "string option"
  sts_format_details :: "string option"
  sts_carrier :: "nat option"
  sts_nav_system :: "string option"
  sts_network :: "string option"
  sts_country :: "string option"
  sts_latitude_deg :: "double option"
  sts_longitude_deg :: "double option"
  sts_nmea_required :: "bool option"
  sts_solution :: "nat option"
  sts_generator :: "string option"
  sts_compression :: "string option"
  sts_authentication :: "string option"
  sts_fee :: "bool option"
  sts_bitrate :: "nat option"
  sts_fields :: "string list"

record NtripSourcetableCaster =
  stc_line_number :: nat
  stc_host :: "string option"
  stc_port :: "nat option"
  stc_identifier :: "string option"
  stc_fields :: "string list"

record NtripSourcetableNetwork =
  stn_line_number :: nat
  stn_identifier :: "string option"
  stn_fields :: "string list"

datatype NtripSourcetableIssueCode =
    SI_kUnknownRecord | SI_kMissingMountpoint | SI_kInvalidCarrier | SI_kInvalidLatitude | SI_kInvalidLongitude
  | SI_kInvalidNmeaFlag | SI_kInvalidSolution | SI_kInvalidFeeFlag | SI_kInvalidBitrate | SI_kInvalidCasterPort

record NtripSourcetableIssue =
  sti_line_number :: nat
  sti_code :: NtripSourcetableIssueCode
  sti_line :: string

record NtripSourcetable =
  st_streams :: "NtripSourcetableStream list"
  st_casters :: "NtripSourcetableCaster list"
  st_networks :: "NtripSourcetableNetwork list"
  st_issues :: "NtripSourcetableIssue list"
  st_has_end_marker :: bool

definition NtripSourcetable_default :: NtripSourcetable where
  "NtripSourcetable_default =
     \<lparr>st_streams = [], st_casters = [], st_networks = [], st_issues = [], st_has_end_marker = False\<rparr>"

section \<open>Fields\<close>

definition is_trimmed :: "char \<Rightarrow> bool" where
  "is_trimmed c \<longleftrightarrow> char_code c = 32 \<or> char_code c = 9 \<or> char_code c = 13 \<or> char_code c = 34"

definition st_TrimField :: "string \<Rightarrow> string" where
  "st_TrimField text_view = rev (dropWhile is_trimmed (rev (dropWhile is_trimmed text_view)))"

function SplitSemicolonFields :: "string \<Rightarrow> string list" where
  "SplitSemicolonFields text_view =
     (case dropWhile (\<lambda>c. c \<noteq> CHR '';'') text_view of
        [] \<Rightarrow> [st_TrimField text_view]
      | _ # rest \<Rightarrow>
          st_TrimField (takeWhile (\<lambda>c. c \<noteq> CHR '';'') text_view)
            # (if rest = [] then [[]] else SplitSemicolonFields rest))"
  by pat_completeness auto
termination
proof (relation "measure length")
  fix s c and rest :: string
  assume "dropWhile (\<lambda>c. c \<noteq> CHR '';'') s = c # rest"
  then have "length (c # rest) \<le> length s" using length_dropWhile_le [of "\<lambda>c. c \<noteq> CHR '';''" s] by simp
  then show "(rest, s) \<in> measure length" by simp
qed simp

declare SplitSemicolonFields.simps [simp del]

definition CopyFields :: "string list \<Rightarrow> nat \<Rightarrow> string list" where
  "CopyFields cols first_field_index = drop first_field_index cols"

definition GetField :: "string list \<Rightarrow> nat \<Rightarrow> string" where
  "GetField cols index = (if index \<ge> length cols then [] else cols ! index)"

definition st_TryParseUnsigned :: "string \<Rightarrow> nat option" where
  "st_TryParseUnsigned text_view = TryParseUnsigned (st_TrimField text_view)"

text \<open>\<open>strtod\<close> with its words for infinity and for no number, in any case of letters.\<close>

definition c_isword :: "char \<Rightarrow> bool" where
  "c_isword c \<longleftrightarrow> c_isdigit c \<or> c_isupper c \<or> c_islower c \<or> c = CHR ''_''"

definition strtod_special :: "string \<Rightarrow> (double \<times> string) option" where
  "strtod_special s =
     (let (negative, s1) = c_sign (dropWhile c_isspace s);
          lower = map c_tolower s1;
          infinity = (if negative then NegInf else PosInf) in
      if take 8 lower = ''infinity'' then Some (infinity, drop 8 s1)
      else if take 3 lower = ''inf'' then Some (infinity, drop 3 s1)
      else if take 3 lower = ''nan'' then
        (case drop 3 s1 of
           c # cs \<Rightarrow>
             if c = CHR ''('' \<and> take 1 (dropWhile c_isword cs) = '')'' then Some (NaN, drop 1 (dropWhile c_isword cs))
             else Some (NaN, c # cs)
         | [] \<Rightarrow> Some (NaN, []))
      else None)"

definition st_TryParseDouble :: "string \<Rightarrow> double option" where
  "st_TryParseDouble text_view =
     (let trimmed = st_TrimField text_view;
          buffer = c_str trimmed in
      if trimmed = [] then None
      else
        case strtod_special buffer of
          Some (x, rest) \<Rightarrow> if rest \<noteq> [] then None else Some x
        | None \<Rightarrow>
            (case strtod_exact buffer of
               None \<Rightarrow> if buffer = [] then Some (Finite 0) else None
             | Some (x, rest) \<Rightarrow> if range_error x \<or> rest \<noteq> [] then None else Some (round_double x)))"

definition TryParseBoolFlag :: "string \<Rightarrow> bool option" where
  "TryParseBoolFlag text_view =
     (let upper = map c_toupper (st_TrimField text_view) in
      if upper = [] then None
      else if upper = ''1'' \<or> upper = ''Y'' \<or> upper = ''YES'' \<or> upper = ''TRUE'' then Some True
      else if upper = ''0'' \<or> upper = ''N'' \<or> upper = ''NO'' \<or> upper = ''FALSE'' then Some False
      else None)"

definition ParseOptionalString :: "string \<Rightarrow> string option" where
  "ParseOptionalString text_view =
     (let trimmed = st_TrimField text_view in if trimmed = [] then None else Some trimmed)"

text \<open>The other optional fields: \<open>None\<close> where the function returns false.\<close>

definition st_optional :: "(string \<Rightarrow> 'a option) \<Rightarrow> string \<Rightarrow> 'a option option" where
  "st_optional parse text_view =
     (let trimmed = st_TrimField text_view in
      if trimmed = [] then Some None else map_option Some (parse trimmed))"

definition st_ParseOptionalUnsigned32 :: "string \<Rightarrow> nat option option" where
  "st_ParseOptionalUnsigned32 = st_optional st_TryParseUnsigned"

definition st_ParseOptionalUnsigned16 :: "string \<Rightarrow> nat option option" where
  "st_ParseOptionalUnsigned16 =
     st_optional (\<lambda>text_view. case st_TryParseUnsigned text_view of
       None \<Rightarrow> None | Some parsed \<Rightarrow> if parsed > 0xFFFF then None else Some parsed)"

definition st_ParseOptionalDouble :: "string \<Rightarrow> double option option" where
  "st_ParseOptionalDouble = st_optional st_TryParseDouble"

definition st_ParseOptionalBool :: "string \<Rightarrow> bool option option" where
  "st_ParseOptionalBool = st_optional TryParseBoolFlag"

definition NormalizeMountpointKey :: "string \<Rightarrow> string" where
  "NormalizeMountpointKey mountpoint = dropWhile (\<lambda>c. c = CHR ''/'') (st_TrimField mountpoint)"

section \<open>Searching the details\<close>

fun ContainsCaseInsensitive :: "string \<Rightarrow> string \<Rightarrow> bool" where
  "ContainsCaseInsensitive [] needle = (needle = [])"
| "ContainsCaseInsensitive (c # cs) needle =
     (needle = [] \<or> map c_toupper (take (length needle) (c # cs)) = map c_toupper needle
      \<or> ContainsCaseInsensitive cs needle)"

definition IsMsmMessageType :: "nat \<Rightarrow> bool" where
  "IsMsmMessageType message_type \<longleftrightarrow>
     1071 \<le> message_type \<and> message_type \<le> 1077 \<or> 1081 \<le> message_type \<and> message_type \<le> 1087
     \<or> 1091 \<le> message_type \<and> message_type \<le> 1097 \<or> 1101 \<le> message_type \<and> message_type \<le> 1107
     \<or> 1111 \<le> message_type \<and> message_type \<le> 1117 \<or> 1121 \<le> message_type \<and> message_type \<le> 1127"

function ContainsMsmMessageType :: "string \<Rightarrow> bool" where
  "ContainsMsmMessageType text_view =
     (case text_view of
        [] \<Rightarrow> False
      | c # cs \<Rightarrow>
          if \<not> c_isdigit c then ContainsMsmMessageType cs
          else
            case st_TryParseUnsigned (takeWhile c_isdigit text_view) of
              Some parsed \<Rightarrow>
                if IsMsmMessageType parsed then True else ContainsMsmMessageType (dropWhile c_isdigit cs)
            | None \<Rightarrow> ContainsMsmMessageType (dropWhile c_isdigit cs))"
  by pat_completeness auto
termination
  by (relation "measure length") (auto simp: less_Suc_eq_le length_dropWhile_le)

declare ContainsMsmMessageType.simps [simp del]

section \<open>Records\<close>

definition AddIssue :: "nat \<Rightarrow> NtripSourcetableIssueCode \<Rightarrow> string \<Rightarrow> NtripSourcetable \<Rightarrow> NtripSourcetable" where
  "AddIssue line_number code line table =
     table\<lparr>st_issues := st_issues table @ [\<lparr>sti_line_number = line_number, sti_code = code, sti_line = line\<rparr>]\<rparr>"

definition ParseStreamRecord :: "string list \<Rightarrow> nat \<Rightarrow> string \<Rightarrow> NtripSourcetable \<Rightarrow> NtripSourcetable" where
  "ParseStreamRecord cols line_number line table =
     (let issue = (\<lambda>code. AddIssue line_number code line table) in
      if GetField cols 1 = [] then issue SI_kMissingMountpoint
      else
        case st_ParseOptionalUnsigned32 (GetField cols 5) of None \<Rightarrow> issue SI_kInvalidCarrier | Some carrier \<Rightarrow>
        case st_ParseOptionalDouble (GetField cols 9) of None \<Rightarrow> issue SI_kInvalidLatitude | Some latitude \<Rightarrow>
        case st_ParseOptionalDouble (GetField cols 10) of None \<Rightarrow> issue SI_kInvalidLongitude | Some longitude \<Rightarrow>
        case st_ParseOptionalBool (GetField cols 11) of None \<Rightarrow> issue SI_kInvalidNmeaFlag | Some nmea_required \<Rightarrow>
        case st_ParseOptionalUnsigned32 (GetField cols 12) of None \<Rightarrow> issue SI_kInvalidSolution | Some solution \<Rightarrow>
        case st_ParseOptionalBool (GetField cols 16) of None \<Rightarrow> issue SI_kInvalidFeeFlag | Some fee \<Rightarrow>
        case st_ParseOptionalUnsigned32 (GetField cols 17) of None \<Rightarrow> issue SI_kInvalidBitrate | Some bitrate \<Rightarrow>
          table\<lparr>st_streams := st_streams table @
            [\<lparr>sts_line_number = line_number, sts_mountpoint = GetField cols 1,
              sts_identifier = ParseOptionalString (GetField cols 2), sts_format = ParseOptionalString (GetField cols 3),
              sts_format_details = ParseOptionalString (GetField cols 4), sts_carrier = carrier,
              sts_nav_system = ParseOptionalString (GetField cols 6), sts_network = ParseOptionalString (GetField cols 7),
              sts_country = ParseOptionalString (GetField cols 8), sts_latitude_deg = latitude,
              sts_longitude_deg = longitude, sts_nmea_required = nmea_required, sts_solution = solution,
              sts_generator = ParseOptionalString (GetField cols 13),
              sts_compression = ParseOptionalString (GetField cols 14),
              sts_authentication = ParseOptionalString (GetField cols 15), sts_fee = fee, sts_bitrate = bitrate,
              sts_fields = CopyFields cols 1\<rparr>]\<rparr>)"

definition ParseCasterRecord :: "string list \<Rightarrow> nat \<Rightarrow> string \<Rightarrow> NtripSourcetable \<Rightarrow> NtripSourcetable" where
  "ParseCasterRecord cols line_number line table =
     (case st_ParseOptionalUnsigned16 (GetField cols 2) of
        None \<Rightarrow> AddIssue line_number SI_kInvalidCasterPort line table
      | Some port \<Rightarrow>
          table\<lparr>st_casters := st_casters table @
            [\<lparr>stc_line_number = line_number, stc_host = ParseOptionalString (GetField cols 1), stc_port = port,
              stc_identifier = ParseOptionalString (GetField cols 3), stc_fields = CopyFields cols 1\<rparr>]\<rparr>)"

definition ParseNetworkRecord :: "string list \<Rightarrow> nat \<Rightarrow> NtripSourcetable \<Rightarrow> NtripSourcetable" where
  "ParseNetworkRecord cols line_number table =
     table\<lparr>st_networks := st_networks table @
       [\<lparr>stn_line_number = line_number, stn_identifier = ParseOptionalString (GetField cols 1),
         stn_fields = CopyFields cols 1\<rparr>]\<rparr>"

definition parse_table_line :: "string \<Rightarrow> nat \<Rightarrow> NtripSourcetable \<Rightarrow> NtripSourcetable" where
  "parse_table_line line line_number table =
     (let cols = SplitSemicolonFields line;
          record_type = GetField cols 0 in
      if record_type = ''STR'' then ParseStreamRecord cols line_number line table
      else if record_type = ''CAS'' then ParseCasterRecord cols line_number line table
      else if record_type = ''NET'' then ParseNetworkRecord cols line_number table
      else AddIssue line_number SI_kUnknownRecord line table)"

text \<open>The loop over the text from \<open>line_start\<close>; \<open>line_number\<close> is the number of the lines before.\<close>

function sourcetable_loop :: "string \<Rightarrow> nat \<Rightarrow> NtripSourcetable \<Rightarrow> NtripSourcetable" where
  "sourcetable_loop text_view line_number table =
     (let line = st_TrimField (takeWhile (\<lambda>c. char_code c \<noteq> 10) text_view) in
      if line = ''ENDSOURCETABLE'' then table\<lparr>st_has_end_marker := True\<rparr>
      else
        let table1 = (if line = [] then table else parse_table_line line (line_number + 1) table) in
        case dropWhile (\<lambda>c. char_code c \<noteq> 10) text_view of
          [] \<Rightarrow> table1
        | _ # rest \<Rightarrow> sourcetable_loop rest (line_number + 1) table1)"
  by pat_completeness auto
termination
proof (relation "measure (\<lambda>(s, n, t). length s)")
  fix s c and rest :: string and n m :: nat and t u :: NtripSourcetable
  assume "dropWhile (\<lambda>c. char_code c \<noteq> 10) s = c # rest"
  then have "length (c # rest) \<le> length s" using length_dropWhile_le [of "\<lambda>c. char_code c \<noteq> 10" s] by simp
  then show "((rest, m, u), (s, n, t)) \<in> measure (\<lambda>(s, n, t). length s)" by simp
qed simp

declare sourcetable_loop.simps [simp del]

definition ParseNtripSourcetable :: "string \<Rightarrow> NtripSourcetable" where
  "ParseNtripSourcetable text_view = sourcetable_loop text_view 0 NtripSourcetable_default"

section \<open>Questions\<close>

definition IsRtcmStream :: "NtripSourcetableStream \<Rightarrow> bool" where
  "IsRtcmStream stream = (case sts_format stream of None \<Rightarrow> False | Some format \<Rightarrow> ContainsCaseInsensitive format ''RTCM'')"

definition RequiresNmea :: "NtripSourcetableStream \<Rightarrow> bool" where
  "RequiresNmea stream = (case sts_nmea_required stream of None \<Rightarrow> False | Some required \<Rightarrow> required)"

definition SupportsMsm :: "NtripSourcetableStream \<Rightarrow> bool" where
  "SupportsMsm stream =
     (case sts_format_details stream of
        None \<Rightarrow> False
      | Some details \<Rightarrow>
          IsRtcmStream stream \<and> (ContainsCaseInsensitive details ''MSM'' \<or> ContainsMsmMessageType details))"

definition FindMountpoint :: "NtripSourcetable \<Rightarrow> string \<Rightarrow> NtripSourcetableStream option" where
  "FindMountpoint table mountpoint =
     find (\<lambda>stream. NormalizeMountpointKey (sts_mountpoint stream) = NormalizeMountpointKey mountpoint) (st_streams table)"

definition FilterRtcmStreams :: "NtripSourcetable \<Rightarrow> NtripSourcetableStream list" where
  "FilterRtcmStreams table = filter IsRtcmStream (st_streams table)"

section \<open>What a table holds\<close>

text \<open>The lines of a text, and those with content before the end marker, with their numbers.\<close>

fun split_lines :: "string \<Rightarrow> string list" where
  "split_lines [] = [[]]"
| "split_lines (c # cs) =
     (if char_code c = 10 then [] # split_lines cs
      else (case split_lines cs of l # ls \<Rightarrow> (c # l) # ls | [] \<Rightarrow> [[c]]))"

lemma split_lines_unfold:
  "split_lines s = takeWhile (\<lambda>c. char_code c \<noteq> 10) s
     # (case dropWhile (\<lambda>c. char_code c \<noteq> 10) s of [] \<Rightarrow> [] | _ # rest \<Rightarrow> split_lines rest)"
  by (induction s) (auto split: list.splits)

definition table_lines :: "nat \<Rightarrow> string list \<Rightarrow> (nat \<times> string) list" where
  "table_lines n ls = filter (\<lambda>(k, l). l \<noteq> []) (enumerate n (takeWhile (\<lambda>l. l \<noteq> ''ENDSOURCETABLE'') (map st_TrimField ls)))"

lemma table_lines_Cons:
  "table_lines n (l # ls) =
     (if st_TrimField l = ''ENDSOURCETABLE'' then []
      else (if st_TrimField l = [] then [] else [(n, st_TrimField l)]) @ table_lines (n + 1) ls)"
  by (simp add: table_lines_def)

lemma table_lines_Nil [simp]: "table_lines n [] = []"
  by (simp add: table_lines_def)

text \<open>The loop is a fold over these lines.\<close>

definition add_line :: "nat \<times> string \<Rightarrow> NtripSourcetable \<Rightarrow> NtripSourcetable" where
  "add_line l table = parse_table_line (snd l) (fst l) table"

definition with_end :: "bool \<Rightarrow> NtripSourcetable \<Rightarrow> NtripSourcetable" where
  "with_end b table = (if b then table\<lparr>st_has_end_marker := True\<rparr> else table)"

lemma sourcetable_loop_fold:
  "sourcetable_loop s n table =
     with_end (''ENDSOURCETABLE'' \<in> set (map st_TrimField (split_lines s)))
       (fold add_line (table_lines (n + 1) (split_lines s)) table)"
proof (induction s n table rule: sourcetable_loop.induct)
  case (1 s n table)
  let ?line = "st_TrimField (takeWhile (\<lambda>c. char_code c \<noteq> 10) s)"
  let ?table = "if ?line = [] then table else parse_table_line ?line (n + 1) table"
  show ?case
  proof (cases "?line = ''ENDSOURCETABLE''")
    case True
    then show ?thesis
      by (subst sourcetable_loop.simps, subst (1 2) split_lines_unfold) (simp add: with_end_def table_lines_Cons)
  next
    case False
    show ?thesis
    proof (cases "dropWhile (\<lambda>c. char_code c \<noteq> 10) s")
      case Nil
      have lines: "split_lines s = [takeWhile (\<lambda>c. char_code c \<noteq> 10) s]"
        by (subst split_lines_unfold) (simp only: Nil list.case)
      have "sourcetable_loop s n table = ?table"
        by (subst sourcetable_loop.simps) (simp only: Let_def False Nil list.case if_False)
      with False show ?thesis by (simp add: lines with_end_def table_lines_Cons add_line_def)
    next
      case (Cons c rest)
      have lines: "split_lines s = takeWhile (\<lambda>c. char_code c \<noteq> 10) s # split_lines rest"
        by (subst split_lines_unfold) (simp only: Cons list.case)
      have "sourcetable_loop s n table = sourcetable_loop rest (n + 1) ?table"
        by (subst sourcetable_loop.simps) (simp only: Let_def False Cons list.case if_False)
      with False "1" [OF refl False refl Cons] show ?thesis by (simp add: lines table_lines_Cons add_line_def)
    qed
  qed
qed

text \<open>Every line adds one entry, with its number, at the end of one of the four lists.\<close>

definition entry_lines :: "NtripSourcetable \<Rightarrow> nat multiset" where
  "entry_lines table =
     mset (map sts_line_number (st_streams table)) + mset (map stc_line_number (st_casters table))
     + mset (map stn_line_number (st_networks table)) + mset (map sti_line_number (st_issues table))"

definition lines_ascend :: "NtripSourcetable \<Rightarrow> bool" where
  "lines_ascend table \<longleftrightarrow>
     sorted_wrt (<) (map sts_line_number (st_streams table)) \<and> sorted_wrt (<) (map stc_line_number (st_casters table))
     \<and> sorted_wrt (<) (map stn_line_number (st_networks table)) \<and> sorted_wrt (<) (map sti_line_number (st_issues table))"

lemma add_line_entry: "entry_lines (add_line l table) = add_mset (fst l) (entry_lines table)"
  by (simp add: add_line_def parse_table_line_def ParseStreamRecord_def ParseCasterRecord_def ParseNetworkRecord_def
      AddIssue_def entry_lines_def Let_def split: option.split)

lemma add_line_ascends:
  assumes "lines_ascend table" and "\<And>k. k \<in># entry_lines table \<Longrightarrow> k < fst l"
  shows "lines_ascend (add_line l table)"
proof -
  from assms(2) have "\<forall>x \<in> set (st_streams table). sts_line_number x < fst l"
    "\<forall>x \<in> set (st_casters table). stc_line_number x < fst l" "\<forall>x \<in> set (st_networks table). stn_line_number x < fst l"
    "\<forall>x \<in> set (st_issues table). sti_line_number x < fst l"
    by (auto simp: entry_lines_def)
  with assms(1) show ?thesis
    by (simp add: add_line_def parse_table_line_def ParseStreamRecord_def ParseCasterRecord_def ParseNetworkRecord_def
        AddIssue_def lines_ascend_def sorted_wrt_append Let_def split: option.split)
qed

lemma fold_add_line:
  assumes "sorted_wrt (<) (map fst ls)" and "lines_ascend table"
    and "\<And>k l. \<lbrakk>k \<in># entry_lines table; l \<in> set ls\<rbrakk> \<Longrightarrow> k < fst l"
  shows "entry_lines (fold add_line ls table) = entry_lines table + mset (map fst ls) \<and> lines_ascend (fold add_line ls table)"
  using assms
proof (induction ls arbitrary: table)
  case (Cons l ls)
  then have "lines_ascend (add_line l table)" by (intro add_line_ascends) auto
  with Cons.IH [of "add_line l table"] Cons.prems show ?case by (auto simp: add_line_entry)
qed simp

lemma table_lines_sorted: "sorted_wrt (<) (map fst (table_lines n ls))"
proof -
  have "sorted_wrt (<) (map fst (filter P (enumerate n xs)))" for P :: "nat \<times> string \<Rightarrow> bool" and xs
  proof -
    have "sorted_wrt (\<lambda>x y. fst x < fst y) (enumerate n xs)"
      using sorted_wrt_less_idx by (induction xs arbitrary: n) (auto simp: in_set_enumerate_eq Suc_le_eq)
    then show ?thesis by (simp add: sorted_wrt_map sorted_wrt_filter)
  qed
  then show ?thesis by (simp add: table_lines_def)
qed

section \<open>Properties\<close>

text \<open>C31. Every line of a sourcetable is accounted for.  Each line with content before the end marker becomes exactly one
  stream, caster, network or issue, which carries the number of the line; each of the four lists is in the order of the
  lines; and the end marker is reported exactly when there is one.\<close>

theorem sourcetable_accounts_for_every_line:
  "let table = ParseNtripSourcetable s in
     entry_lines table = mset (map fst (table_lines 1 (split_lines s))) \<and> lines_ascend table
     \<and> st_has_end_marker table = (''ENDSOURCETABLE'' \<in> set (map st_TrimField (split_lines s)))"
proof -
  let ?ls = "table_lines 1 (split_lines s)"
  let ?table = "fold add_line ?ls NtripSourcetable_default"
  have parsed: "ParseNtripSourcetable s = with_end (''ENDSOURCETABLE'' \<in> set (map st_TrimField (split_lines s))) ?table"
    by (simp add: ParseNtripSourcetable_def sourcetable_loop_fold)
  have "entry_lines ?table = mset (map fst ?ls) \<and> lines_ascend ?table"
    using fold_add_line [OF table_lines_sorted, of NtripSourcetable_default 1 "split_lines s"]
    by (simp add: NtripSourcetable_default_def entry_lines_def lines_ascend_def)
  moreover have "st_has_end_marker (fold add_line ls table) = st_has_end_marker table" for ls table
    by (induction ls arbitrary: table)
      (simp_all add: add_line_def parse_table_line_def ParseStreamRecord_def ParseCasterRecord_def
        ParseNetworkRecord_def AddIssue_def Let_def split: option.split)
  ultimately show ?thesis
    by (simp add: parsed with_end_def entry_lines_def lines_ascend_def Let_def NtripSourcetable_default_def)
qed

end
