(* ===== verification/Decimal_Text.thy ===== *)
theory Decimal_Text
  imports Cxx_Number
begin

text \<open>
  Decimal texts: what \<open>dec_nat\<close> writes is what the conversions of the parsers read, and how far binary64 rounding
  takes a number from its value.
\<close>

section \<open>Digits\<close>

abbreviation digits :: "string \<Rightarrow> bool" where
  "digits s \<equiv> list_all c_isdigit s"

lemma dec_nat_digits: "digits (dec_nat n)"
proof (induction n rule: dec_nat.induct)
  case (1 n)
  have "c_isdigit (char_of (48 + k))" if "k < 10" for k :: nat using that by (simp add: c_isdigit_def)
  with 1 show ?case by (subst dec_nat.simps) simp
qed

lemma dec_nat_not_Nil [simp]: "dec_nat n \<noteq> []"
  by (subst dec_nat.simps) simp

lemma digits_value_Nil [simp]: "digits_value b [] = 0"
  by (simp add: digits_value_def)

lemma digits_value_snoc: "digits_value b (xs @ [c]) = b * digits_value b xs + digit_value c"
  by (simp add: digits_value_def)

lemma digits_value_append: "digits_value b (xs @ ys) = digits_value b xs * b ^ length ys + digits_value b ys"
proof (induction ys rule: rev_induct)
  case (snoc y ys)
  have "digits_value b (xs @ ys @ [y]) = digits_value b ((xs @ ys) @ [y])" by simp
  then show ?case by (simp only: digits_value_snoc snoc) (simp add: algebra_simps)
qed simp

lemma digits_value_dec_nat: "digits_value 10 (dec_nat n) = n"
proof (induction n rule: dec_nat.induct)
  case (1 n)
  have digit: "digit_value (char_of (48 + k)) = k" if "k < 10" for k :: nat
    using that by (simp add: digit_value_def c_isdigit_def)
  show ?case
  proof (cases "n < 10")
    case True
    then show ?thesis using digits_value_snoc [of 10 "[]"] by (subst dec_nat.simps) (simp add: digit)
  next
    case False
    have "dec_nat n = dec_nat (n div 10) @ [char_of (48 + n mod 10)]" using False by (subst dec_nat.simps) simp
    then show ?thesis using 1 [OF False] digit [of "n mod 10"] by (simp add: digits_value_snoc)
  qed
qed

lemma length_dec_nat: "\<lbrakk>n < 10 ^ k; 0 < k\<rbrakk> \<Longrightarrow> length (dec_nat n) \<le> k"
proof (induction n arbitrary: k rule: dec_nat.induct)
  case (1 n)
  show ?case
  proof (cases "n < 10")
    case False
    with "1.prems" obtain j where k: "k = Suc j" "0 < j" by (cases k; cases "k - 1") auto
    with "1.prems" have "n div 10 < 10 ^ j" by (simp add: less_mult_imp_div_less mult.commute)
    with "1.IH" [OF False _ k(2)] False show ?thesis by (subst dec_nat.simps) (simp add: k(1))
  qed (use 1 in \<open>subst dec_nat.simps, simp\<close>)
qed

text \<open>\<open>std::setw\<close> with the fill character \<open>'0'\<close>.\<close>

definition pad_zero :: "nat \<Rightarrow> string \<Rightarrow> string" where
  "pad_zero width s = replicate (width - length s) CHR ''0'' @ s"

text \<open>\<open>std::fixed\<close> with a precision, on a finite number.\<close>

definition fixed_digits :: "nat \<Rightarrow> nat \<Rightarrow> string" where
  "fixed_digits precision n =
     dec_nat (n div 10 ^ precision) @ CHR ''.'' # pad_zero precision (dec_nat (n mod 10 ^ precision))"

definition print_fixed :: "nat \<Rightarrow> rat \<Rightarrow> string" where
  "print_fixed precision x =
     (if x < 0 then ''-'' else []) @ fixed_digits precision (nat (round_half_even (\<bar>x\<bar> * 10 ^ precision)))"

lemma char_code_digits:
  "char_code (CHR ''0'') = 48" "char_code (CHR ''.'') = 46" "char_code (CHR ''-'') = 45" "char_code (CHR ''+'') = 43"
  by (simp_all add: char_code_def)

lemma digit_zero [simp]: "c_isdigit (CHR ''0'')" "\<not> c_isdigit (CHR ''.'')" "\<not> c_isdigit (CHR ''-'')"
  by (simp_all add: c_isdigit_def char_code_digits)

lemma pad_zero_digits: "digits s \<Longrightarrow> digits (pad_zero w s)"
  by (auto simp: pad_zero_def list_all_iff)

lemma length_pad_zero: "length (pad_zero w s) = max w (length s)"
  by (simp add: pad_zero_def)

lemma digits_value_zeros: "digits_value 10 (replicate k CHR ''0'') = 0"
proof (induction k)
  case (Suc k)
  have "replicate (Suc k) (CHR ''0'') = replicate k (CHR ''0'') @ [CHR ''0'']"
    by (simp add: replicate_append_same)
  with Suc show ?case by (simp only: digits_value_snoc) (simp add: digit_value_def char_code_digits c_isdigit_def)
qed simp

lemma digits_value_pad_zero: "digits_value 10 (pad_zero w s) = digits_value 10 s"
  by (simp add: pad_zero_def digits_value_append digits_value_zeros)

section \<open>The conversions on digits\<close>

lemma digits_no_space:
  assumes "digits s"
  shows "dropWhile c_isspace s = s" "c_str s = s" "takeWhile c_isdigit s = s" "dropWhile c_isdigit s = []"
proof -
  have no: "\<not> c_isspace c" "char_code c \<noteq> 0" if "c_isdigit c" for c
    using that by (auto simp: c_isspace_def c_isdigit_def)
  with assms show "dropWhile c_isspace s = s" by (cases s) auto
  from assms no show "c_str s = s" by (auto simp: c_str_def list_all_iff intro: takeWhile_eq_all_conv [THEN iffD2])
  from assms show "takeWhile c_isdigit s = s" "dropWhile c_isdigit s = []" by (auto simp: list_all_iff)
qed

lemma digits_no_sign: "digits s \<Longrightarrow> c_sign s = (False, s)"
  by (cases s) (auto simp: c_sign_def c_isdigit_def char_code_digits)

lemma TryParseUnsigned_digits:
  assumes "digits s" and "s \<noteq> []" and "digits_value 10 s < 2 ^ 32"
  shows "TryParseUnsigned s = Some (digits_value 10 s)"
proof -
  have "c_integer s = Some (False, digits_value 10 s, [])"
    using assms(1,2) by (simp add: c_integer_def digits_no_space digits_no_sign Let_def)
  with assms show ?thesis by (simp add: TryParseUnsigned_def digits_no_space)
qed

text \<open>A decimal text: digits, and a fraction after a point or no point at all.\<close>

definition decimal :: "string \<Rightarrow> string option \<Rightarrow> string" where
  "decimal ip fp = ip @ (case fp of None \<Rightarrow> [] | Some f \<Rightarrow> CHR ''.'' # f)"

definition decimal_value :: "string \<Rightarrow> string option \<Rightarrow> rat" where
  "decimal_value ip fp =
     (case fp of
        None \<Rightarrow> of_nat (digits_value 10 ip)
      | Some f \<Rightarrow> of_nat (digits_value 10 (ip @ f)) / 10 ^ length f)"

lemma takeWhile_digits: "digits ip \<Longrightarrow> takeWhile c_isdigit (ip @ CHR ''.'' # f) = ip \<and> dropWhile c_isdigit (ip @ CHR ''.'' # f) = CHR ''.'' # f"
  by (induction ip) simp_all

lemma power_of_10: "power_of 10 (- int n) = 1 / 10 ^ n" "power_of 10 0 = 1"
  by (simp_all add: power_of_def)

lemma c_float_decimal:
  assumes "digits ip" and "ip \<noteq> []" and "\<And>f. fp = Some f \<Longrightarrow> digits f"
  shows "c_float_constant 10 c_isdigit CHR ''e'' 10 (decimal ip fp) = Some (decimal_value ip fp, [])"
proof (cases fp)
  case None
  with assms show ?thesis
    by (simp add: power_of_10(2) decimal_def decimal_value_def c_float_constant_def c_fraction_def c_exponent_def digits_no_space Let_def)
next
  case (Some f)
  with assms(3) have f: "digits f" by simp
  show ?thesis
    using assms(1,2) f power_of_10(1) [of "length f"]
    by (simp add: power_of_10(2) Some decimal_def decimal_value_def c_float_constant_def c_fraction_def c_exponent_def takeWhile_digits
        digits_no_space Let_def)
qed

lemma decimal_plain:
  assumes "digits ip" and "ip \<noteq> []" and "\<And>f. fp = Some f \<Longrightarrow> digits f"
  shows "dropWhile c_isspace (decimal ip fp) = decimal ip fp" "c_sign (decimal ip fp) = (False, decimal ip fp)"
    "c_str (decimal ip fp) = decimal ip fp" "\<not> is_hex_prefix (decimal ip fp)"
proof -
  obtain c cs where ip: "ip = c # cs" using assms(2) by (cases ip) auto
  with assms(1) have c: "c_isdigit c" by simp
  then show "dropWhile c_isspace (decimal ip fp) = decimal ip fp" "c_sign (decimal ip fp) = (False, decimal ip fp)"
    by (auto simp: ip decimal_def c_sign_def c_isspace_def c_isdigit_def char_code_digits)
  have chars: "c_isdigit x \<or> x = CHR ''.''" if "x \<in> set (decimal ip fp)" for x
    using that assms(1,3) by (auto simp: decimal_def list_all_iff split: option.splits)
  have "char_code x \<noteq> 0" if "x \<in> set (decimal ip fp)" for x
    using chars [OF that] by (auto simp: c_isdigit_def char_code_digits)
  then show "c_str (decimal ip fp) = decimal ip fp" unfolding c_str_def by (rule takeWhile_eq_all_conv [THEN iffD2, rule_format])
  have "c_tolower x \<noteq> CHR ''x''" if "x \<in> set (decimal ip fp)" for x
    using chars [OF that] by (auto simp: c_isdigit_def c_tolower_def c_isupper_def char_code_def)
  note not_x = this
  have "c_tolower c' \<noteq> CHR ''x''" if "drop (Suc 0) (decimal ip fp) = c' # cs'" for c' cs'
    using not_x in_set_dropD [of c' "Suc 0" "decimal ip fp"] by (simp add: that)
  then show "\<not> is_hex_prefix (decimal ip fp)"
    by (cases "drop (Suc 0) (decimal ip fp)") (auto simp: is_hex_prefix_def)
qed

lemma strtod_decimal:
  assumes "digits ip" and "ip \<noteq> []" and "\<And>f. fp = Some f \<Longrightarrow> digits f"
  shows "strtod_exact (decimal ip fp) = Some (decimal_value ip fp, [])"
    and "strtod_exact (CHR ''-'' # decimal ip fp) = Some (- decimal_value ip fp, [])"
  using decimal_plain [OF assms] c_float_decimal [OF assms]
  by (simp_all add: strtod_exact_def c_sign_def c_isspace_def char_code_digits split: list.split)

lemma TryParseDouble_decimal:
  assumes "digits ip" and "ip \<noteq> []" and "\<And>f. fp = Some f \<Longrightarrow> digits f"
  shows "\<not> range_error (decimal_value ip fp)
    \<Longrightarrow> TryParseDouble (decimal ip fp) = Some (round_double (decimal_value ip fp))"
    and "\<not> range_error (- decimal_value ip fp)
    \<Longrightarrow> TryParseDouble (CHR ''-'' # decimal ip fp) = Some (round_double (- decimal_value ip fp))"
proof -
  have "decimal ip fp \<noteq> []" using assms(2) by (simp add: decimal_def)
  moreover have "c_str (CHR ''-'' # s) = CHR ''-'' # c_str s" for s by (simp add: c_str_def char_code_digits)
  ultimately show "\<not> range_error (decimal_value ip fp)
      \<Longrightarrow> TryParseDouble (decimal ip fp) = Some (round_double (decimal_value ip fp))"
    "\<not> range_error (- decimal_value ip fp)
      \<Longrightarrow> TryParseDouble (CHR ''-'' # decimal ip fp) = Some (round_double (- decimal_value ip fp))"
    using strtod_decimal [OF assms] decimal_plain(3) [OF assms] by (simp_all add: TryParseDouble_def)
qed

section \<open>How far rounding goes\<close>

lemma round_half_even_error: "\<bar>of_int (round_half_even y) - y\<bar> \<le> 1 / 2"
proof -
  have "of_int \<lfloor>y\<rfloor> \<le> y" "y < of_int \<lfloor>y\<rfloor> + 1" by linarith+
  then show ?thesis by (auto simp: round_half_even_def Let_def)
qed

lemma ulp_of_bound: "ulp_of x \<le> 2 * ((\<bar>x\<bar> + 1) / 2 ^ 53)"
proof (cases "x = 0 \<or> ilog2_rat \<bar>x\<bar> \<le> - 1022")
  case True
  have "\<not> (0 :: rat) < 0" by simp
  have "ilog2_rat 0 \<le> 0" by (simp add: ilog2_rat_def bitlen_alt_def pow2_def floorlog_def)
  with True have "max (ilog2_rat \<bar>x\<bar>) (- 1022) \<le> 0" by auto
  then have "ulp_of x \<le> pow2 (- 52)" unfolding ulp_of_def by (intro pow2_mono) simp
  also have "\<dots> = 2 * (1 / 2 ^ 53)" by (simp add: pow2_def)
  also have "\<dots> \<le> 2 * ((\<bar>x\<bar> + 1) / 2 ^ 53)" by (simp add: divide_right_mono)
  finally show ?thesis .
next
  case False
  then have "ulp_of x = pow2 (ilog2_rat \<bar>x\<bar>) * pow2 (- 52)"
    using pow2_add [of "ilog2_rat \<bar>x\<bar>" "- 52"] by (simp add: ulp_of_def max_def)
  also have "\<dots> \<le> \<bar>x\<bar> * pow2 (- 52)"
    using ilog2_rat_le [of "\<bar>x\<bar>"] False by (intro mult_right_mono) (simp_all add: less_imp_le)
  also have "\<dots> = 2 * (\<bar>x\<bar> / 2 ^ 53)" by (simp add: pow2_def)
  also have "\<dots> \<le> 2 * ((\<bar>x\<bar> + 1) / 2 ^ 53)" by (simp add: divide_right_mono)
  finally show ?thesis .
qed

lemma round_rat_error: "\<bar>round_rat x - x\<bar> \<le> (\<bar>x\<bar> + 1) / 2 ^ 53"
proof (cases "x = 0")
  case False
  have u: "0 < ulp_of x" by simp
  have "round_rat x - x = ulp_of x * (of_int (round_half_even (x / ulp_of x)) - x / ulp_of x)"
    using False less_imp_neq [OF u, symmetric] by (simp add: round_rat_def right_diff_distrib)
  then have "\<bar>round_rat x - x\<bar> = ulp_of x * \<bar>of_int (round_half_even (x / ulp_of x)) - x / ulp_of x\<bar>"
    using u by (simp add: abs_mult abs_of_pos)
  also have "\<dots> \<le> ulp_of x * (1 / 2)"
    by (intro mult_left_mono round_half_even_error) (simp add: less_imp_le)
  finally show ?thesis using ulp_of_bound [of x] by simp
qed (simp add: round_rat_def)

lemma decimal_in_range:
  assumes "x = 0 \<or> 1 / 10 ^ 6 \<le> \<bar>x\<bar>" and "\<bar>x\<bar> \<le> 2 ^ 100"
  shows "\<not> range_error x" "round_double x = Finite (round_rat x)"
proof -
  have near: "\<bar>round_rat x - x\<bar> \<le> (\<bar>x\<bar> + 1) / 2 ^ 53" by (rule round_rat_error)
  then have "\<bar>round_rat x - x\<bar> \<le> 2 ^ 100" using assms(2) by simp
  then have "\<bar>round_rat x\<bar> \<le> 2 * 2 ^ 100"
    using assms(2) abs_triangle_ineq [of "round_rat x - x" x] by simp
  also have "\<dots> < (2 :: rat) ^ 1024" by simp
  finally have r: "\<bar>round_rat x\<bar> < 2 ^ 1024" .
  then have "\<not> 2 ^ 1024 \<le> round_rat x" "\<not> round_rat x \<le> - (2 ^ 1024)" by linarith+
  then show finite: "round_double x = Finite (round_rat x)" by (simp only: round_double_def Let_def if_False)
  have "round_rat x = x \<or> pow2 (- 1022) \<le> \<bar>round_rat x\<bar>"
  proof (cases "x = 0")
    case False
    have "pow2 (- 1022) \<le> pow2 (- 30)" by (rule pow2_mono) simp
    moreover have "pow2 (- 30) \<le> 1 / 10 ^ 7" by (simp add: pow2_def)
    moreover have "1 / 10 ^ 7 \<le> \<bar>round_rat x\<bar>"
      using near False assms(1) abs_triangle_ineq [of "x - round_rat x" "round_rat x"] by (simp add: abs_minus_commute field_simps)
    ultimately show ?thesis by linarith
  qed (simp add: round_rat_def)
  then show "\<not> range_error x" by (auto simp: range_error_def finite dbl_isfinite_def)
qed

end
