(* ===== verification/Gga_Sentence.thy ===== *)
theory Gga_Sentence
  imports Decimal_Text Nmea_Parser Nmea_Framer
begin

text \<open>
  The GGA sentence a client sends to its caster (gnss_ntrip/src/gga_sentence_builder.cpp), built from the runtime state.
  The stream manipulators are modelled by what they write: \<open>std::fixed\<close> with a precision prints the exact value
  rounded to that many digits, halves to even; a negative zero is a zero here, though the stream writes its sign.
\<close>

section \<open>Numbers\<close>

text \<open>The text loses its trailing zeros and then a trailing point.  A precision of at least 1 always writes a point.\<close>

definition FormatFixedTrimmed :: "rat \<Rightarrow> nat \<Rightarrow> string" where
  "FormatFixedTrimmed x precision =
     (let s = print_fixed precision x in
      if CHR ''.'' \<notin> set s then s
      else
        let s1 = rev (dropWhile (\<lambda>c. c = CHR ''0'') (rev s));
            s2 = (if s1 \<noteq> [] \<and> last s1 = CHR ''.'' then butlast s1 else s1) in
        if s2 = [] then ''0'' else s2)"

text \<open>The products and quotients below stay far from overflow: the rounding of binary64 is \<open>round_rat\<close>.\<close>

definition minutes_of :: "rat \<Rightarrow> rat" where
  "minutes_of absolute_deg =
     (let minutes = round_rat (round_rat (absolute_deg - of_int \<lfloor>absolute_deg\<rfloor>) * 60) in
      round_rat (of_int (llround_rat (round_rat (minutes * 100000))) / 100000))"

definition FormatCoordinate :: "double \<Rightarrow> bool \<Rightarrow> (string \<times> char) option" where
  "FormatCoordinate coordinate_deg latitude =
     (case coordinate_deg of
        Finite x \<Rightarrow>
          (let max_abs = (if latitude then 90 else 180) :: nat in
           if x < - of_nat max_abs \<or> of_nat max_abs < x then None
           else
             let absolute_deg = \<bar>x\<bar>;
                 carry = (60 \<le> minutes_of absolute_deg);
                 minutes = (if carry then 0 else minutes_of absolute_deg);
                 degrees_component = nat \<lfloor>absolute_deg\<rfloor> + (if carry then 1 else 0) in
             if degrees_component > max_abs then None
             else if degrees_component = max_abs \<and> minutes > 0 then None
             else
               let width = (if latitude then 2 else 3);
                   s = pad_zero width (dec_nat degrees_component) @ print_fixed 5 minutes in
               Some (if minutes < 10 then take width s @ CHR ''0'' # drop width s else s,
                     if x < 0 then if latitude then CHR ''S'' else CHR ''W''
                     else if latitude then CHR ''N'' else CHR ''E''))
      | _ \<Rightarrow> None)"

definition FormatSatelliteCount :: "u16 option \<Rightarrow> string" where
  "FormatSatelliteCount satellites_used =
     pad_zero 2 (dec_nat (case satellites_used of None \<Rightarrow> 0 | Some n \<Rightarrow> unat n))"

definition FormatHdop :: "float32 option \<Rightarrow> string" where
  "FormatHdop hdop =
     (case hdop of Some (Finite x) \<Rightarrow> if x < 0 then [] else FormatFixedTrimmed x 2 | _ \<Rightarrow> [])"

definition FormatAltitude :: "double option \<Rightarrow> string" where
  "FormatAltitude altitude_m = (case altitude_m of Some (Finite x) \<Rightarrow> FormatFixedTrimmed x 3 | _ \<Rightarrow> [])"

definition FormatUtcTime :: "NmeaUtcTime option \<Rightarrow> string option" where
  "FormatUtcTime utc_time =
     (case utc_time of
        None \<Rightarrow> Some ''000000.00''
      | Some t \<Rightarrow>
          (case nt_second t of
             Finite second \<Rightarrow>
               if nt_hour t > 23 \<or> nt_minute t > 59 \<or> second < 0 \<or> 60 \<le> second then None
               else
                 let rounded = nat (llround_rat (round_rat (second * 100)));
                     carry = (rounded \<ge> 6000);
                     centiseconds = (if carry then 0 else rounded);
                     minute1 = unat (nt_minute t) + (if carry then 1 else 0);
                     next_hour = (carry \<and> minute1 \<ge> 60);
                     minute = (if next_hour then 0 else minute1);
                     hour = (if next_hour then (unat (nt_hour t) + 1) mod 24 else unat (nt_hour t)) in
                 Some (pad_zero 2 (dec_nat hour) @ pad_zero 2 (dec_nat minute)
                   @ pad_zero 2 (dec_nat (centiseconds div 100)) @ ''.'' @ pad_zero 2 (dec_nat (centiseconds mod 100)))
           | _ \<Rightarrow> None))"

section \<open>The sentence\<close>

datatype GgaSentenceTalker = GT_kGp | GT_kGn

fun SentenceIdForTalker :: "GgaSentenceTalker \<Rightarrow> string" where
  "SentenceIdForTalker GT_kGn = ''GNGGA''"
| "SentenceIdForTalker GT_kGp = ''GPGGA''"

datatype GgaSentenceBuildError =
    GE_kNone | GE_kMissingLatitude | GE_kMissingLongitude | GE_kInvalidLatitude | GE_kInvalidLongitude | GE_kInvalidUtcTime

record GgaSentenceBuilderOptions =
  go_talker :: GgaSentenceTalker
  go_utc_time :: "NmeaUtcTime option"

definition GgaSentenceBuilderOptions_default :: GgaSentenceBuilderOptions where
  "GgaSentenceBuilderOptions_default = \<lparr>go_talker = GT_kGp, go_utc_time = None\<rparr>"

record GgaSentenceBuildResult =
  gr_error :: GgaSentenceBuildError
  gr_fix_quality :: NmeaGgaFixQuality
  gr_sentence :: string

definition BuildSentenceFromPayload :: "string \<Rightarrow> string" where
  "BuildSentenceFromPayload payload =
     nmea_line (CHR ''$'') payload (ComputeNmeaChecksum payload) [CHR 0x0D, CHR 0x0A]"

definition MapRuntimeStateToGgaFixQuality :: "GnssRuntimeState \<Rightarrow> NmeaGgaFixQuality" where
  "MapRuntimeStateToGgaFixQuality st =
     (if \<not> rs_fix_valid st \<or> rs_fix_type st = FT_kNoFix then GQ_kInvalid
      else if rs_fix_type st = FT_kRtkFixed \<or> rs_rtk_mode st = Some RM_kFixed then GQ_kRtkFixed
      else if rs_fix_type st = FT_kRtkFloat \<or> rs_rtk_mode st = Some RM_kFloat then GQ_kRtkFloat
      else if rs_fix_type st = FT_kDeadReckoning then GQ_kEstimated
      else GQ_kGpsFix)"

text \<open>The number of a quality (\<open>static_cast\<close>).\<close>

fun quality_number :: "NmeaGgaFixQuality \<Rightarrow> nat" where
  "quality_number GQ_kInvalid = 0"
| "quality_number GQ_kGpsFix = 1"
| "quality_number GQ_kDifferentialFix = 2"
| "quality_number GQ_kPpsFix = 3"
| "quality_number GQ_kRtkFixed = 4"
| "quality_number GQ_kRtkFloat = 5"
| "quality_number GQ_kEstimated = 6"
| "quality_number GQ_kManual = 7"
| "quality_number GQ_kSimulation = 8"

definition gga_columns ::
  "GgaSentenceTalker \<Rightarrow> string \<Rightarrow> string \<times> char \<Rightarrow> string \<times> char \<Rightarrow> NmeaGgaFixQuality \<Rightarrow> GnssRuntimeState \<Rightarrow> string list" where
  "gga_columns talker utc latitude longitude quality st =
     [SentenceIdForTalker talker, utc, fst latitude, [snd latitude], fst longitude, [snd longitude],
      dec_nat (quality_number quality), FormatSatelliteCount (rs_satellites_used st), FormatHdop (rs_hdop st),
      FormatAltitude (rs_altitude_m st), ''M'', [], [], [], []]"

definition BuildNmeaGgaSentence :: "GnssRuntimeState \<Rightarrow> GgaSentenceBuilderOptions \<Rightarrow> GgaSentenceBuildResult" where
  "BuildNmeaGgaSentence st options =
     (let quality = MapRuntimeStateToGgaFixQuality st;
          failed = (\<lambda>error. \<lparr>gr_error = error, gr_fix_quality = quality, gr_sentence = []\<rparr>) in
      case (rs_latitude_deg st, rs_longitude_deg st) of
        (None, _) \<Rightarrow> failed GE_kMissingLatitude
      | (_, None) \<Rightarrow> failed GE_kMissingLongitude
      | (Some latitude_deg, Some longitude_deg) \<Rightarrow>
          case FormatCoordinate latitude_deg True of None \<Rightarrow> failed GE_kInvalidLatitude | Some latitude \<Rightarrow>
          case FormatCoordinate longitude_deg False of None \<Rightarrow> failed GE_kInvalidLongitude | Some longitude \<Rightarrow>
          case FormatUtcTime (go_utc_time options) of None \<Rightarrow> failed GE_kInvalidUtcTime | Some utc \<Rightarrow>
            \<lparr>gr_error = GE_kNone, gr_fix_quality = quality,
             gr_sentence = BuildSentenceFromPayload
               (join_csv (gga_columns (go_talker options) utc latitude longitude quality st))\<rparr>)"

end
