(* ===== verification/Gga_Roundtrip.thy ===== *)
theory Gga_Roundtrip
  imports Gga_Sentence
begin

text \<open>
  The GGA sentences of the builder are sentences the NMEA framer accepts, and the GGA parser reads them back: the same
  quality and number of satellites, and the position to a ten millionth of a degree.
\<close>

section \<open>Minutes in units of a hundred thousandth\<close>

abbreviation rounded_minutes :: "int \<Rightarrow> rat" where
  "rounded_minutes k \<equiv> round_rat (of_int k / 100000)"

lemma rounded_minutes_error:
  assumes "0 \<le> k" and "k \<le> 10 ^ 7"
  shows "\<bar>rounded_minutes k - of_int k / 100000\<bar> \<le> 1 / 10 ^ 12"
proof -
  have k: "(0 :: rat) \<le> of_int k" "(of_int k :: rat) \<le> 10 ^ 7"
    using assms by (simp, metis of_int_le_iff of_int_numeral of_int_power)
  then have "(\<bar>of_int k / 100000\<bar> + 1) / 2 ^ 53 \<le> 1 / (10 ^ 12 :: rat)" by (simp add: field_simps)
  with round_rat_error [of "of_int k / 100000"] show ?thesis by linarith
qed

lemma rounded_minutes_less:
  assumes "0 \<le> k" and "k \<le> 10 ^ 7" and "0 \<le> c" and "c \<le> 100"
  shows "rounded_minutes k < of_int c \<longleftrightarrow> k < 100000 * c"
proof
  assume less: "rounded_minutes k < of_int c"
  show "k < 100000 * c"
  proof (rule ccontr)
    assume "\<not> k < 100000 * c"
    then have "of_int c \<le> (of_int k / 100000 :: rat)" by (simp add: le_divide_eq)
    moreover have "0 < c" using less assms(1) round_rat_ge_int [of "of_int k / 100000" 0]
      by (cases "k = 0") (auto simp: round_rat_def)
    moreover have "0 < k" using \<open>0 < c\<close> \<open>\<not> k < 100000 * c\<close> by linarith
    ultimately have "of_int c \<le> rounded_minutes k" using assms(4) by (intro round_rat_ge_int) simp_all
    with less show False by simp
  qed
next
  assume "k < 100000 * c"
  then have "k \<le> 100000 * c - 1" by simp
  then have "(of_int k :: rat) \<le> of_int (100000 * c - 1)" by (simp only: of_int_le_iff)
  with rounded_minutes_error [OF assms(1,2)] show "rounded_minutes k < of_int c"
    by (simp only: abs_diff_le_iff) (simp add: field_simps)
qed

lemma rounded_minutes_pos:
  assumes "0 \<le> k" and "k \<le> 10 ^ 7"
  shows "0 < rounded_minutes k \<longleftrightarrow> 0 < k"
proof (cases "k = 0")
  case False
  with assms(1) have "1 \<le> k" by simp
  then have "(1 :: rat) \<le> of_int k" by simp
  with rounded_minutes_error [OF assms] have "0 < rounded_minutes k" by (simp only: abs_diff_le_iff) (simp add: field_simps)
  with \<open>1 \<le> k\<close> show ?thesis by simp
qed (simp add: round_rat_def)

lemma rounded_minutes_ge: "\<lbrakk>0 \<le> k; k \<le> 10 ^ 7\<rbrakk> \<Longrightarrow> 0 \<le> rounded_minutes k"
  using rounded_minutes_pos [of k] by (cases "k = 0") (auto simp: round_rat_def)

lemma round_half_even_near:
  assumes "\<bar>y - of_int k\<bar> < 1 / 2"
  shows "round_half_even y = k"
proof -
  have "\<bar>of_int (round_half_even y - k)\<bar> < (1 :: rat)"
    using assms round_half_even_error [of y] abs_triangle_ineq [of "of_int (round_half_even y) - y" "y - of_int k"] by simp
  then show ?thesis by linarith
qed

text \<open>The text of the minutes is exactly the number the program rounded to.\<close>

lemma print_minutes:
  assumes "0 \<le> k" and "k \<le> 10 ^ 7"
  shows "print_fixed 5 (rounded_minutes k) = fixed_digits 5 (nat k)"
proof -
  have "\<bar>rounded_minutes k * 10 ^ 5 - of_int k\<bar> < 1 / 2"
    using rounded_minutes_error [OF assms] by (simp add: abs_le_iff abs_less_iff field_simps)
  then have "round_half_even (rounded_minutes k * 10 ^ 5) = k" by (rule round_half_even_near)
  then show ?thesis using rounded_minutes_ge [OF assms] by (simp add: print_fixed_def abs_of_nonneg not_less)
qed

section \<open>How far the minutes are from the position\<close>

lemma llround_error: "\<bar>of_int (llround_rat a) - a\<bar> \<le> 1 / 2"
proof (cases "0 \<le> a")
  case True
  have "of_int \<lfloor>a + 1 / 2\<rfloor> \<le> a + 1 / 2" "a + 1 / 2 < of_int \<lfloor>a + 1 / 2\<rfloor> + 1" by linarith+
  with True show ?thesis by (simp only: llround_rat_def if_True abs_diff_le_iff) simp
next
  case False
  have "a - 1 / 2 \<le> of_int \<lceil>a - 1 / 2\<rceil>" "of_int \<lceil>a - 1 / 2\<rceil> < a - 1 / 2 + 1" by linarith+
  with False show ?thesis by (simp only: llround_rat_def if_False abs_diff_le_iff) simp
qed

lemma llround_nonneg: "0 \<le> a \<Longrightarrow> 0 \<le> llround_rat a"
  by (simp add: llround_rat_def)

definition scaled_minutes :: "rat \<Rightarrow> int" where
  "scaled_minutes absolute_deg =
     llround_rat (round_rat (round_rat (round_rat (absolute_deg - of_int \<lfloor>absolute_deg\<rfloor>) * 60) * 100000))"

lemma minutes_of_scaled: "minutes_of x = rounded_minutes (scaled_minutes x)"
  by (simp add: minutes_of_def scaled_minutes_def Let_def)

lemma round_rat_0 [simp]: "round_rat 0 = 0"
  by (simp add: round_rat_def)

lemma round_rat_nonneg: "0 \<le> x \<Longrightarrow> 0 \<le> round_rat x"
  using round_rat_ge_int [of x 0] by (cases "x = 0") simp_all

lemma scaled_minutes_near:
  "0 \<le> scaled_minutes x" "scaled_minutes x \<le> 10 ^ 7"
  "\<bar>of_int (scaled_minutes x) / 6000000 - (x - of_int \<lfloor>x\<rfloor>)\<bar> \<le> 84 / 10 ^ 9"
proof -
  define f where "f = x - of_int \<lfloor>x\<rfloor>"
  define a where "a = round_rat f"
  define b where "b = round_rat (a * 60)"
  define c where "c = round_rat (b * 100000)"
  have f: "0 \<le> f" "f \<le> 1" unfolding f_def by linarith+
  have pos: "0 \<le> a" "0 \<le> b" "0 \<le> c" using f by (simp_all add: a_def b_def c_def round_rat_nonneg)
  have k: "scaled_minutes x = llround_rat c" by (simp add: scaled_minutes_def a_def b_def c_def f_def)
  show "0 \<le> scaled_minutes x" unfolding k by (rule llround_nonneg [OF pos(3)])
  have a: "\<bar>a - f\<bar> \<le> 1 / 10 ^ 15" using round_rat_error [of f] f by (simp add: a_def abs_le_iff field_simps)
  then have a1: "a \<le> 2" using f by (simp only: abs_diff_le_iff) (simp add: field_simps)
  then have b: "\<bar>b - a * 60\<bar> \<le> 1 / 10 ^ 13"
    using round_rat_error [of "a * 60"] pos by (simp add: b_def abs_le_iff field_simps)
  then have b1: "b \<le> 200" using a1 by (simp only: abs_diff_le_iff) (simp add: field_simps)
  then have c: "\<bar>c - b * 100000\<bar> \<le> 1 / 10 ^ 8"
    using round_rat_error [of "b * 100000"] pos by (simp add: c_def abs_le_iff field_simps)
  have "\<bar>of_int (scaled_minutes x) - c\<bar> \<le> 1 / 2" unfolding k by (rule llround_error)
  then show near: "\<bar>of_int (scaled_minutes x) / 6000000 - (x - of_int \<lfloor>x\<rfloor>)\<bar> \<le> 84 / 10 ^ 9"
    unfolding f_def [symmetric] using a b c by (simp only: abs_diff_le_iff) (simp add: field_simps)
  have "of_int (scaled_minutes x) \<le> (of_int (10 ^ 7) :: rat)"
    using near f(2) unfolding f_def [symmetric] by (simp only: abs_diff_le_iff) (simp add: field_simps)
  then show "scaled_minutes x \<le> 10 ^ 7" by (simp only: of_int_le_iff)
qed

section \<open>The text of a coordinate\<close>

definition coordinate_text :: "nat \<Rightarrow> nat \<Rightarrow> nat \<Rightarrow> string" where
  "coordinate_text width d k =
     pad_zero width (dec_nat d) @ decimal (pad_zero 2 (dec_nat (k div 100000))) (Some (pad_zero 5 (dec_nat (k mod 100000))))"

lemma dec_nat_one: "n < 10 \<Longrightarrow> length (dec_nat n) = 1"
  by (subst dec_nat.simps) simp

lemma dec_nat_two: "\<lbrakk>10 \<le> n; n < 100\<rbrakk> \<Longrightarrow> length (dec_nat n) = 2"
  using dec_nat_one [of "n div 10"] by (subst dec_nat.simps) simp

lemma pad_zero_length: "\<lbrakk>n < 10 ^ w; 0 < w\<rbrakk> \<Longrightarrow> length (pad_zero w (dec_nat n)) = w"
  using length_dec_nat [of n w] by (simp add: length_pad_zero)

lemma coordinate_text_insert:
  assumes "d < 10 ^ w" and "0 < w" and "k < 6000000"
  shows "(let s = pad_zero w (dec_nat d) @ fixed_digits 5 k in if k < 1000000 then take w s @ CHR ''0'' # drop w s else s)
    = coordinate_text w d k"
proof -
  have "k div 100000 < 100" using assms(3) by simp
  then have "pad_zero 2 (dec_nat (k div 100000)) = (if k < 1000000 then [CHR ''0''] else []) @ dec_nat (k div 100000)"
    using dec_nat_one [of "k div 100000"] dec_nat_two [of "k div 100000"] by (auto simp: pad_zero_def)
  then show ?thesis
    using pad_zero_length [OF assms(1,2)] by (simp add: coordinate_text_def fixed_digits_def decimal_def Let_def)
qed

lemma FormatCoordinate_text:
  assumes "FormatCoordinate (Finite x) latitude = Some t"
  defines "m \<equiv> if latitude then 90 else 180 :: nat" and "w \<equiv> if latitude then 2 else 3 :: nat"
  obtains d k where "d \<le> m" and "d = m \<longrightarrow> k = 0" and "k < 6000000" and "fst t = coordinate_text w d k"
    and "snd t = (if x < 0 then if latitude then CHR ''S'' else CHR ''W'' else if latitude then CHR ''N'' else CHR ''E'')"
    and "\<bar>of_nat d + of_nat k / 6000000 - \<bar>x\<bar>\<bar> \<le> 84 / 10 ^ 9"
proof -
  define k0 where "k0 = scaled_minutes \<bar>x\<bar>"
  note near = scaled_minutes_near [of "\<bar>x\<bar>", folded k0_def]
  define carry where "carry \<longleftrightarrow> 60 \<le> minutes_of \<bar>x\<bar>"
  have carry: "carry \<longleftrightarrow> 6000000 \<le> k0"
    using rounded_minutes_less [OF near(1,2), of 60] by (simp add: carry_def minutes_of_scaled k0_def [symmetric] linorder_not_less [symmetric])
  define k where "k = (if carry then 0 else nat k0)"
  define d where "d = nat \<lfloor>\<bar>x\<bar>\<rfloor> + (if carry then 1 else 0)"
  have k: "k < 6000000" using carry near(1) by (auto simp: k_def)
  have minutes: "(if carry then 0 else minutes_of \<bar>x\<bar>) = rounded_minutes (int k)"
    using near(1) by (simp add: k_def minutes_of_scaled k0_def)
  have int_k: "0 \<le> int k" "int k \<le> 10 ^ 7" using k by simp_all
  have less10: "rounded_minutes (int k) < 10 \<longleftrightarrow> k < 1000000"
    using rounded_minutes_less [OF int_k, of 10] by simp
  have zero: "0 < rounded_minutes (int k) \<longleftrightarrow> 0 < k" using rounded_minutes_pos [OF int_k] by simp
  have printed: "print_fixed 5 (rounded_minutes (int k)) = fixed_digits 5 k" using print_minutes [OF int_k] by simp
  have FC: "FormatCoordinate (Finite x) latitude =
      (if x < - of_nat m \<or> of_nat m < x then None else if d > m then None
       else if d = m \<and> rounded_minutes (int k) > 0 then None
       else Some (if rounded_minutes (int k) < 10
                  then take w (pad_zero w (dec_nat d) @ print_fixed 5 (rounded_minutes (int k)))
                    @ CHR ''0'' # drop w (pad_zero w (dec_nat d) @ print_fixed 5 (rounded_minutes (int k)))
                  else pad_zero w (dec_nat d) @ print_fixed 5 (rounded_minutes (int k)),
             if x < 0 then if latitude then CHR ''S'' else CHR ''W'' else if latitude then CHR ''N'' else CHR ''E''))"
    unfolding minutes [symmetric] m_def w_def d_def carry_def
    by (simp only: FormatCoordinate_def double.case Let_def)
  from assms(1) have ok: "d \<le> m" "d = m \<longrightarrow> k = 0"
    unfolding FC zero by (metis option.distinct(1) not_le, metis option.distinct(1) gr0I)
  have "d < 10 ^ w" "0 < w" using ok(1) by (auto simp: m_def w_def)
  note inserted = coordinate_text_insert [OF this k, unfolded Let_def]
  have t: "fst t = coordinate_text w d k"
    "snd t = (if x < 0 then if latitude then CHR ''S'' else CHR ''W'' else if latitude then CHR ''N'' else CHR ''E'')"
    using assms(1) unfolding FC zero less10 printed inserted by (auto split: if_split_asm)
  have "of_nat (nat \<lfloor>\<bar>x\<bar>\<rfloor>) = (of_int \<lfloor>\<bar>x\<bar>\<rfloor> :: rat)" by simp
  moreover have "\<bar>x\<bar> < of_int \<lfloor>\<bar>x\<bar>\<rfloor> + 1" by linarith
  moreover have "carry \<Longrightarrow> (6000000 :: rat) \<le> of_int k0" using carry by (metis of_int_le_iff of_int_numeral)
  moreover have "(of_nat (nat k0) :: rat) = of_int k0" using near(1) by simp
  ultimately have "\<bar>of_nat d + of_nat k / 6000000 - \<bar>x\<bar>\<bar> \<le> 84 / 10 ^ 9"
    using near(3) unfolding d_def k_def by (cases carry) (simp_all only: abs_diff_le_iff if_True if_False of_nat_add, simp_all add: field_simps)
  from that [OF ok k t this] show thesis .
qed

section \<open>Reading a coordinate\<close>

lemma digits_append: "digits (s @ t) \<longleftrightarrow> digits s \<and> digits t"
  by simp

lemma digits_pad [simp]: "digits (pad_zero w (dec_nat n))"
  by (rule pad_zero_digits [OF dec_nat_digits])

lemma pad_not_Nil [simp]: "pad_zero w (dec_nat n) \<noteq> []"
  by (simp add: pad_zero_def)

lemma value_pad [simp]: "digits_value 10 (pad_zero w (dec_nat n)) = n"
  by (simp add: digits_value_pad_zero digits_value_dec_nat)

lemma TryParseUnsigned_pad: "n < 2 ^ 32 \<Longrightarrow> TryParseUnsigned (pad_zero w (dec_nat n)) = Some n"
  using TryParseUnsigned_digits [of "pad_zero w (dec_nat n)"] by simp

lemma find_point:
  assumes "digits s"
  shows "find_char CHR ''.'' (s @ CHR ''.'' # t) = Some (length s)"
proof -
  have "CHR ''.'' \<notin> set s" using assms by (auto simp: list_all_iff)
  then show ?thesis by (rule find_char_append)
qed

lemma minutes_text_value:
  assumes "k < 6000000"
  shows "decimal_value (pad_zero 2 (dec_nat (k div 100000))) (Some (pad_zero 5 (dec_nat (k mod 100000)))) = of_nat k / 100000"
proof -
  have "k mod 100000 < 10 ^ 5" by simp
  then have "length (pad_zero 5 (dec_nat (k mod 100000))) = 5" by (rule pad_zero_length) simp
  then show ?thesis by (simp add: decimal_value_def digits_value_append)
qed

lemma small_in_range:
  assumes "k < 10 ^ 9" and "0 < e" and "e \<le> 10 ^ 6"
  shows "\<not> range_error (of_nat k / of_nat e)" "round_double (of_nat k / of_nat e) = Finite (round_rat (of_nat k / of_nat e))"
proof -
  have e: "0 < (of_nat e :: rat)" "of_nat e \<le> (10 ^ 6 :: rat)"
    using assms(2,3) by (simp, metis of_nat_le_iff of_nat_numeral of_nat_power)
  have "of_nat k / of_nat e = (0 :: rat) \<or> 1 / 10 ^ 6 \<le> \<bar>of_nat k / of_nat e :: rat\<bar>"
  proof (cases "k = 0")
    case False
    then have "(1 :: rat) \<le> of_nat k" by simp
    then have "1 / 10 ^ 6 \<le> of_nat k / (of_nat e :: rat)" using e by (intro frac_le) simp_all
    then show ?thesis by simp
  qed simp
  moreover have "\<bar>of_nat k / of_nat e :: rat\<bar> \<le> 2 ^ 100"
  proof -
    have "(of_nat k :: rat) < 10 ^ 9" using assms(1) by (metis of_nat_less_iff of_nat_numeral of_nat_power)
    moreover have "of_nat k / of_nat e \<le> (of_nat k :: rat) / 1" using assms(2) by (intro divide_left_mono) simp_all
    ultimately show ?thesis by simp
  qed
  ultimately show "\<not> range_error (of_nat k / of_nat e)"
    "round_double (of_nat k / of_nat e) = Finite (round_rat (of_nat k / of_nat e))"
    by (rule decimal_in_range)+
qed

lemma round_rat_int_le: "\<lbrakk>0 \<le> x; x \<le> of_nat m; m \<le> 2 ^ 53\<rbrakk> \<Longrightarrow> round_rat x \<le> of_nat m"
  using round_rat_le_int [of x "int m"] by (cases "x = 0") simp_all

lemma ParseNmeaDegreesMinutes_text:
  assumes "d \<le> m" and "d = m \<Longrightarrow> k = 0" and "k < 6000000" and "m < 10 ^ w" and "0 < w" and "m \<le> 180"
  obtains y where "ParseNmeaDegreesMinutes (coordinate_text w d k) w = Some (Finite y)" and "0 \<le> y" and "y \<le> of_nat m"
    and "\<bar>y - (of_nat d + of_nat k / 6000000)\<bar> \<le> 1 / 10 ^ 9"
proof -
  let ?minutes = "pad_zero 2 (dec_nat (k div 100000))"
  let ?fraction = "pad_zero 5 (dec_nat (k mod 100000))"
  have "d < 10 ^ w" using assms(1,4) by simp
  from pad_zero_length [OF this assms(5)] have lw: "length (pad_zero w (dec_nat d)) = w" .
  have l2: "length ?minutes = 2" using assms(3) by (intro pad_zero_length) simp_all
  have take_drop: "take w (coordinate_text w d k) = pad_zero w (dec_nat d)"
    "drop w (coordinate_text w d k) = decimal ?minutes (Some ?fraction)"
    by (simp_all add: coordinate_text_def lw)
  have point: "find_char CHR ''.'' (coordinate_text w d k) = Some (w + 2)"
    using find_point [of "pad_zero w (dec_nat d) @ ?minutes" ?fraction]
    by (simp add: coordinate_text_def decimal_def lw l2)
  have degrees: "TryParseUnsigned (pad_zero w (dec_nat d)) = Some d"
    using assms(1,6) by (intro TryParseUnsigned_pad) simp
  define M where "M = round_rat (of_nat k / 100000)"
  have range: "\<not> range_error (of_nat k / 100000)" "round_double (of_nat k / 100000) = Finite M"
    using small_in_range [of k 100000] assms(3) by (simp_all add: M_def)
  have M_text: "TryParseDouble (decimal ?minutes (Some ?fraction)) = Some (Finite M)"
    using TryParseDouble_decimal(1) [of ?minutes "Some ?fraction"] range by (simp add: minutes_text_value [OF assms(3)])
  have int_k: "0 \<le> int k" "int k \<le> 10 ^ 7" using assms(3) by simp_all
  have M: "0 \<le> M" "M < 60" "\<bar>M - of_nat k / 100000\<bar> \<le> 1 / 10 ^ 12"
    using rounded_minutes_ge [OF int_k] rounded_minutes_less [OF int_k, of 60] rounded_minutes_error [OF int_k] assms(3)
    by (simp_all add: M_def)
  define F where "F = round_rat (M / 60)"
  have F: "0 \<le> F" "F \<le> 1" using M round_rat_int_le [of "M / 60" 1] by (simp_all add: F_def round_rat_nonneg)
  have F_err: "\<bar>F - M / 60\<bar> \<le> 1 / 10 ^ 12"
    using round_rat_error [of "M / 60"] M(1,2) by (simp only: abs_diff_le_iff F_def) (simp add: field_simps)
  define y where "y = round_rat (of_nat d + F)"
  have dm: "(of_nat d :: rat) \<le> 180" using assms(1,6) by (metis le_trans of_nat_le_iff of_nat_numeral)
  have sum: "0 \<le> of_nat d + F" "of_nat d + F \<le> of_nat m"
  proof -
    show "of_nat d + F \<le> of_nat m"
    proof (cases "d = m")
      case True
      with assms(2) show ?thesis by (simp add: F_def M_def)
    next
      case False
      with assms(1) have "(of_nat d :: rat) + 1 \<le> of_nat m" by (metis Suc_leI le_neq_implies_less of_nat_Suc of_nat_le_iff add.commute)
      with F(2) show ?thesis by linarith
    qed
  qed (use F(1) in simp)
  have y: "0 \<le> y" "y \<le> of_nat m"
    using sum assms(6) by (simp_all add: y_def round_rat_nonneg round_rat_int_le)
  have y_err: "\<bar>y - (of_nat d + F)\<bar> \<le> 1 / 10 ^ 10"
    using round_rat_error [of "of_nat d + F"] F dm by (simp only: abs_diff_le_iff y_def) (simp add: field_simps)
  have finite: "round_double (M / 60) = Finite F" "round_double (of_nat d + F) = Finite y"
  proof -
    have "F < 2 ^ 1024" "- (2 ^ 1024) < F" using F by simp_all
    then show "round_double (M / 60) = Finite F" by (simp add: round_double_def F_def)
    have "(of_nat m :: rat) \<le> 180" using assms(6) by (metis of_nat_le_iff of_nat_numeral)
    then have "y < 2 ^ 1024" "- (2 ^ 1024) < y" using y by simp_all
    then show "round_double (of_nat d + F) = Finite y" by (simp add: round_double_def y_def)
  qed
  show thesis
  proof (rule that [of y])
    have "coordinate_text w d k \<noteq> []" by (simp add: coordinate_text_def)
    then show "ParseNmeaDegreesMinutes (coordinate_text w d k) w = Some (Finite y)"
      using M by (simp add: ParseNmeaDegreesMinutes_def point take_drop degrees M_text finite)
    show "\<bar>y - (of_nat d + of_nat k / 6000000)\<bar> \<le> 1 / 10 ^ 9"
      using y_err F_err M(3) by (simp only: abs_diff_le_iff) (simp add: field_simps)
  qed (rule y)+
qed

section \<open>The other fields\<close>

lemma ParseOptionalUtcTime_text:
  assumes "h < 24" and "mi < 60" and "c < 6000"
  shows "ParseOptionalUtcTime (pad_zero 2 (dec_nat h) @ pad_zero 2 (dec_nat mi)
      @ decimal (pad_zero 2 (dec_nat (c div 100))) (Some (pad_zero 2 (dec_nat (c mod 100))))) \<noteq> OF_kInvalid"
proof -
  let ?s = "decimal (pad_zero 2 (dec_nat (c div 100))) (Some (pad_zero 2 (dec_nat (c mod 100))))"
  have two: "length (pad_zero 2 (dec_nat n)) = 2" if "n < 100" for n using that by (intro pad_zero_length) simp_all
  have lengths: "length (pad_zero 2 (dec_nat h)) = 2" "length (pad_zero 2 (dec_nat mi)) = 2"
    "length (pad_zero 2 (dec_nat (c div 100))) = 2" "length (pad_zero 2 (dec_nat (c mod 100))) = 2"
    using assms by (simp_all add: two)
  have seconds: "decimal_value (pad_zero 2 (dec_nat (c div 100))) (Some (pad_zero 2 (dec_nat (c mod 100)))) = of_nat c / 100"
    by (simp add: decimal_value_def digits_value_append lengths)
  have "\<not> range_error (of_nat c / 100)" "round_double (of_nat c / 100) = Finite (round_rat (of_nat c / 100))"
    using small_in_range [of c 100] assms(3) by simp_all
  then have "TryParseDouble ?s = Some (Finite (round_rat (of_nat c / 100)))"
    using TryParseDouble_decimal(1) [of "pad_zero 2 (dec_nat (c div 100))" "Some (pad_zero 2 (dec_nat (c mod 100)))"]
    by (simp add: seconds)
  moreover have "0 \<le> round_rat (of_nat c / 100)" "round_rat (of_nat c / 100) \<le> 60"
    using assms(3) round_rat_int_le [of "of_nat c / 100" 60] by (simp_all add: round_rat_nonneg)
  moreover have "TryParseUnsigned (pad_zero 2 (dec_nat h)) = Some h" "TryParseUnsigned (pad_zero 2 (dec_nat mi)) = Some mi"
    using assms by (auto intro!: TryParseUnsigned_pad)
  moreover have "length ?s = 5" by (simp add: decimal_def lengths)
  ultimately show ?thesis using assms by (simp add: ParseOptionalUtcTime_def lengths)
qed

lemma FormatUtcTime_text:
  assumes "FormatUtcTime t = Some utc"
  obtains h mi c where "h < 24" and "mi < 60" and "c < 6000"
    and "utc = pad_zero 2 (dec_nat h) @ pad_zero 2 (dec_nat mi)
      @ decimal (pad_zero 2 (dec_nat (c div 100))) (Some (pad_zero 2 (dec_nat (c mod 100))))"
proof (cases t)
  case None
  have "dec_nat 0 = ''0''" by (subst dec_nat.simps) (simp add: char_code_inject [symmetric] char_code_digits)
  with None assms show thesis
    by (intro that [of 0 0 0]) (simp_all add: FormatUtcTime_def decimal_def pad_zero_def)
next
  case (Some u)
  with assms obtain second where second: "nt_second u = Finite second"
    by (cases "nt_second u") (simp_all add: FormatUtcTime_def)
  let ?rounded = "nat (llround_rat (round_rat (second * 100)))"
  define carry where "carry \<longleftrightarrow> ?rounded \<ge> 6000"
  define c where "c = (if carry then 0 else ?rounded)"
  define minute1 where "minute1 = unat (nt_minute u) + (if carry then 1 else 0)"
  define next_hour where "next_hour \<longleftrightarrow> carry \<and> minute1 \<ge> 60"
  define mi where "mi = (if next_hour then 0 else minute1)"
  define h where "h = (if next_hour then (unat (nt_hour u) + 1) mod 24 else unat (nt_hour u))"
  have F: "FormatUtcTime t =
      (if nt_hour u > 23 \<or> nt_minute u > 59 \<or> second < 0 \<or> 60 \<le> second then None
       else Some (pad_zero 2 (dec_nat h) @ pad_zero 2 (dec_nat mi)
         @ pad_zero 2 (dec_nat (c div 100)) @ ''.'' @ pad_zero 2 (dec_nat (c mod 100))))"
    unfolding h_def mi_def next_hour_def minute1_def c_def carry_def
    by (simp only: FormatUtcTime_def Some option.case second double.case Let_def)
  with assms have ok: "nt_hour u \<le> 23" "nt_minute u \<le> 59" by (simp_all add: not_less split: if_splits)
  then have "unat (nt_hour u) \<le> 23" "unat (nt_minute u) \<le> 59" by (simp_all add: word_le_nat_alt)
  moreover have "c < 6000" by (simp add: c_def carry_def)
  ultimately show thesis
    using F assms by (intro that [of h mi c]) (auto simp: h_def mi_def next_hour_def minute1_def decimal_def split: if_splits)
qed

lemma digits_value_less: "digits s \<Longrightarrow> digits_value 10 s < 10 ^ length s"
proof (induction s rule: rev_induct)
  case (snoc c s)
  then have "digit_value c < 10" by (auto simp: digit_value_def c_isdigit_def)
  with snoc show ?case by (simp add: digits_value_snoc)
qed simp

lemma decimal_value_bounds:
  assumes "digits f" and "length f \<le> p"
  shows "decimal_value ip (Some f) = 0 \<or> 1 / 10 ^ p \<le> decimal_value ip (Some f)"
    and "decimal_value ip (Some f) \<le> of_nat (digits_value 10 ip) + 1"
proof -
  define n where "n = digits_value 10 (ip @ f)"
  have v: "decimal_value ip (Some f) = of_nat n / 10 ^ length f" by (simp add: decimal_value_def n_def)
  have "1 / 10 ^ p \<le> (of_nat n :: rat) / 10 ^ length f" if "n \<noteq> 0"
    using that assms(2) by (intro frac_le) (simp_all add: Suc_leI power_increasing)
  then show "decimal_value ip (Some f) = 0 \<or> 1 / 10 ^ p \<le> decimal_value ip (Some f)" by (auto simp: v)
  have "n \<le> (digits_value 10 ip + 1) * 10 ^ length f"
    using digits_value_less [OF assms(1)] by (simp add: n_def digits_value_append algebra_simps)
  then have "of_nat n \<le> (of_nat ((digits_value 10 ip + 1) * 10 ^ length f) :: rat)" by (simp only: of_nat_le_iff)
  then show "decimal_value ip (Some f) \<le> of_nat (digits_value 10 ip) + 1"
    by (simp add: v divide_le_eq algebra_simps)
qed

text \<open>The text without its trailing zeros is a decimal text again.\<close>

lemma FormatFixedTrimmed_decimal:
  assumes "0 < p"
  obtains ip fp where "digits ip" and "ip \<noteq> []" and "\<And>f. fp = Some f \<Longrightarrow> digits f"
    and "FormatFixedTrimmed x p = (if x < 0 then ''-'' else []) @ decimal ip fp"
    and "decimal_value ip fp = 0 \<or> 1 / 10 ^ p \<le> decimal_value ip fp" and "decimal_value ip fp \<le> \<bar>x\<bar> + 2"
proof -
  define N where "N = nat (round_half_even (\<bar>x\<bar> * 10 ^ p))"
  define ip where "ip = dec_nat (N div 10 ^ p)"
  define f where "f = pad_zero p (dec_nat (N mod 10 ^ p))"
  define f1 where "f1 = rev (dropWhile (\<lambda>c. c = CHR ''0'') (rev f))"
  let ?sign = "if x < 0 then ''-'' else []"
  have ip: "digits ip" "ip \<noteq> []" by (simp_all add: ip_def dec_nat_digits)
  have f: "digits f" by (simp add: f_def)
  have "set f1 \<subseteq> set f" using set_dropWhileD by (force simp: f1_def)
  with f have f1: "digits f1" by (auto simp: list_all_iff)
  have "length f = p" unfolding f_def using assms by (intro pad_zero_length) simp_all
  then have len: "length f1 \<le> p" using length_dropWhile_le [of "\<lambda>c. c = CHR ''0''" "rev f"] by (simp add: f1_def)
  have printed: "print_fixed p x = ?sign @ ip @ CHR ''.'' # f"
    by (simp add: print_fixed_def fixed_digits_def N_def ip_def f_def)
  have trimmed: "FormatFixedTrimmed x p = ?sign @ decimal ip (if f1 = [] then None else Some f1)"
  proof (cases "f1 = []")
    case True
    then have "set (rev f) \<subseteq> {CHR ''0''}" by (auto simp: f1_def dropWhile_eq_Nil_conv)
    then have "dropWhile (\<lambda>c. c = CHR ''0'') (rev (print_fixed p x)) = CHR ''.'' # rev ip @ rev ?sign"
      unfolding printed by (subst rev_append, subst rev_append, subst rev.simps, simp only: append_assoc)
        (subst dropWhile_append2, auto)
    then show ?thesis using True ip by (simp add: FormatFixedTrimmed_def printed decimal_def Let_def butlast_append)
  next
    case False
    then obtain y where y: "y \<in> set (rev f)" "y \<noteq> CHR ''0''" by (auto simp: f1_def dropWhile_eq_Nil_conv)
    have "dropWhile (\<lambda>c. c = CHR ''0'') (rev (print_fixed p x))
        = dropWhile (\<lambda>c. c = CHR ''0'') (rev f) @ CHR ''.'' # rev ip @ rev ?sign"
      unfolding printed using dropWhile_append1 [of y "rev f" "\<lambda>c. c = CHR ''0''", OF y] by simp
    then have "rev (dropWhile (\<lambda>c. c = CHR ''0'') (rev (print_fixed p x))) = ?sign @ ip @ CHR ''.'' # f1"
      by (simp only: f1_def rev_append rev.simps rev_rev_ident append_assoc append_Cons append_Nil)
    moreover have "last f1 \<noteq> CHR ''.''" using f1 False by (metis digit_zero(2) last_in_set list_all_iff)
    moreover have "CHR ''.'' \<in> set (print_fixed p x)" by (simp add: printed)
    ultimately show ?thesis using False by (simp add: FormatFixedTrimmed_def decimal_def Let_def)
  qed
  have "(of_nat N :: rat) \<le> \<bar>x\<bar> * 10 ^ p + 1"
    using round_half_even_error [of "\<bar>x\<bar> * 10 ^ p"] round_half_even_ge [of 0 "\<bar>x\<bar> * 10 ^ p"]
    by (simp only: abs_diff_le_iff N_def) simp
  moreover have "(of_nat (N div 10 ^ p) :: rat) * 10 ^ p \<le> of_nat N"
    by (metis div_times_less_eq_dividend of_nat_le_iff of_nat_mult of_nat_numeral of_nat_power)
  moreover have "(1 :: rat) \<le> 10 ^ p" by (rule one_le_power) simp
  ultimately have "(of_nat (N div 10 ^ p) :: rat) * 10 ^ p \<le> (\<bar>x\<bar> + 1) * 10 ^ p"
    by (simp only: distrib_right mult_1_left)
  then have "(of_nat (N div 10 ^ p) :: rat) \<le> \<bar>x\<bar> + 1" by (simp only: mult_le_cancel_right) simp
  then have small: "of_nat (digits_value 10 ip) \<le> \<bar>x\<bar> + 1" by (simp add: ip_def digits_value_dec_nat)
  show thesis
  proof (rule that [OF ip _ trimmed])
    let ?v = "decimal_value ip (if f1 = [] then None else Some f1)"
    have v: "?v = decimal_value ip (Some f1)" by (simp add: decimal_value_def)
    show "?v = 0 \<or> 1 / 10 ^ p \<le> ?v" unfolding v by (rule decimal_value_bounds(1) [OF f1 len])
    show "?v \<le> \<bar>x\<bar> + 2" unfolding v using decimal_value_bounds(2) [OF f1 len, of ip] small by simp
  qed (use f1 in \<open>simp split: if_splits\<close>)
qed

lemma FormatFixedTrimmed_parses:
  assumes "0 < p" and "p \<le> 6" and "\<bar>x\<bar> \<le> 2 ^ 90"
  obtains z where "TryParseDouble (FormatFixedTrimmed x p) = Some (Finite z)"
proof -
  from FormatFixedTrimmed_decimal [OF assms(1)] obtain ip fp where d:
    "digits ip" "ip \<noteq> []" "\<And>f. fp = Some f \<Longrightarrow> digits f"
    "FormatFixedTrimmed x p = (if x < 0 then ''-'' else []) @ decimal ip fp"
    "decimal_value ip fp = 0 \<or> 1 / 10 ^ p \<le> decimal_value ip fp" "decimal_value ip fp \<le> \<bar>x\<bar> + 2" by metis
  let ?v = "decimal_value ip fp"
  have "1 / 10 ^ 6 \<le> 1 / (10 ^ p :: rat)" using assms(2) by (intro frac_le power_increasing) simp_all
  with d(5) have v: "?v = 0 \<or> 1 / 10 ^ 6 \<le> ?v" by (blast intro: order_trans)
  moreover have pos: "0 \<le> ?v" by (simp add: decimal_value_def split: option.split)
  moreover have "?v \<le> 2 ^ 100" using d(6) assms(3) by simp
  ultimately have "\<not> range_error ?v \<and> round_double ?v = Finite (round_rat ?v)"
    "\<not> range_error (- ?v) \<and> round_double (- ?v) = Finite (round_rat (- ?v))"
    using decimal_in_range [of ?v] decimal_in_range [of "- ?v"] by (simp_all only: abs_minus_cancel abs_of_nonneg neg_equal_0_iff_equal simp_thms)
  then show thesis
    using TryParseDouble_decimal [OF d(1-3)] that by (cases "x < 0") (auto simp: d(4))
qed

section \<open>The fields of the sentence\<close>

lemma split_join:
  "\<lbrakk>list_all (\<lambda>f. CHR '','' \<notin> set f) fs; fs \<noteq> []\<rbrakk> \<Longrightarrow> split_csv (join_csv fs) = fs"
proof (induction fs)
  case (Cons f fs)
  have comma: "split_csv (f @ CHR '','' # t) = f # split_csv t" "split_csv f = [f]" for t
  proof -
    have "CHR '','' \<notin> set f" using Cons.prems by simp
    then show "split_csv (f @ CHR '','' # t) = f # split_csv t" "split_csv f = [f]" by (induction f) auto
  qed
  show ?case using Cons by (simp add: join_csv_Cons comma)
qed simp

definition gga_text :: "string \<Rightarrow> bool" where
  "gga_text s \<longleftrightarrow> list_all (\<lambda>c. c_isdigit c \<or> c_isupper c \<or> c = CHR ''.'' \<or> c = CHR ''-'') s"

lemma gga_text_simps [simp]:
  "gga_text []" "gga_text (c # s) \<longleftrightarrow> (c_isdigit c \<or> c_isupper c \<or> c = CHR ''.'' \<or> c = CHR ''-'') \<and> gga_text s"
  "gga_text (s @ t) \<longleftrightarrow> gga_text s \<and> gga_text t"
  by (auto simp: gga_text_def)

lemma gga_text_digits: "digits s \<Longrightarrow> gga_text s"
  by (auto simp: gga_text_def list_all_iff)

lemma gga_text_decimal: "\<lbrakk>digits ip; \<And>f. fp = Some f \<Longrightarrow> digits f\<rbrakk> \<Longrightarrow> gga_text (decimal ip fp)"
  by (auto simp: decimal_def gga_text_digits split: option.split)

lemma gga_text_trimmed: "0 < p \<Longrightarrow> gga_text (FormatFixedTrimmed x p)"
  by (rule FormatFixedTrimmed_decimal [of p x]) (simp_all add: gga_text_decimal)

lemma gga_text_coordinate: "gga_text (coordinate_text w d k)"
  by (auto simp: coordinate_text_def gga_text_digits intro!: gga_text_decimal)

lemma gga_char_plain:
  "c_isdigit c \<or> c_isupper c \<or> c = CHR ''.'' \<or> c = CHR ''-''
   \<Longrightarrow> c \<noteq> CHR '','' \<and> c \<noteq> CHR ''*'' \<and> c \<noteq> CHR ''$'' \<and> c \<noteq> CHR ''!'' \<and> c \<noteq> CHR 0x0A"
  by (auto simp: c_isdigit_def c_isupper_def char_code_def)

lemma nmea_text_join: "list_all gga_text fs \<Longrightarrow> nmea_text (join_csv fs)"
proof (induction fs)
  case (Cons f fs)
  then have "nmea_text f" using gga_char_plain by (auto simp: nmea_text_def gga_text_def list_all_iff)
  with Cons show ?case by (auto simp: join_csv_Cons nmea_text_def)
qed (simp add: nmea_text_def)

lemma sentence_type_of_payload:
  assumes "nmea_payload_text (nmea_BuildSentence bs t) = talker @ sentence_type @ CHR '','' # rest"
    and "length talker = 2" and "length sentence_type = 3" and "CHR '','' \<notin> set (talker @ sentence_type)"
  shows "nmea_sentence_type (nmea_BuildSentence bs t) = sentence_type"
proof -
  have "nmea_sentence_type (nmea_BuildSentence bs t) =
      (let payload = nmea_payload_text (nmea_BuildSentence bs t); header = nmea_header_of payload in
       if payload = [] then [] else if length header \<ge> 5 then drop 2 header else header)"
    by (simp add: nmea_BuildSentence_def Let_def split: prod.split)
  moreover have "nmea_header_of (talker @ sentence_type @ CHR '','' # rest) = talker @ sentence_type"
    using find_char_append [OF assms(4)] by (simp add: nmea_header_of_def bslice_def)
  ultimately show ?thesis using assms(1-3) by (simp add: Let_def)
qed

text \<open>What the parser makes of the two numbers that may be missing.\<close>

lemma optional_number:
  assumes "s = [] \<or> (\<exists>z. TryParseDouble s = Some z)"
  shows "ParseOptionalDouble s \<noteq> OF_kInvalid" "ParseOptionalFloat s \<noteq> OF_kInvalid"
  using assms by (auto simp: ParseOptionalDouble_def ParseOptionalFloat_def optional_field_def)

definition printable :: "double option \<Rightarrow> bool" where
  "printable v = (case v of Some (Finite x) \<Rightarrow> \<bar>x\<bar> \<le> 2 ^ 90 | _ \<Rightarrow> True)"

lemma optional_numbers:
  "printable h \<Longrightarrow> ParseOptionalFloat (FormatHdop h) \<noteq> OF_kInvalid"
  "printable a \<Longrightarrow> ParseOptionalDouble (FormatAltitude a) \<noteq> OF_kInvalid"
  "gga_text (FormatHdop h)" "gga_text (FormatAltitude a)"
proof -
  have "\<exists>z. TryParseDouble (FormatFixedTrimmed x p) = Some z" if "\<bar>x\<bar> \<le> 2 ^ 90" "0 < p" "p \<le> 6" for x p
    using FormatFixedTrimmed_parses [OF that(2,3,1)] by metis
  then show "printable h \<Longrightarrow> ParseOptionalFloat (FormatHdop h) \<noteq> OF_kInvalid"
    "printable a \<Longrightarrow> ParseOptionalDouble (FormatAltitude a) \<noteq> OF_kInvalid"
    by (auto intro!: optional_number simp: printable_def FormatHdop_def FormatAltitude_def split: option.splits double.splits)
  show "gga_text (FormatHdop h)" "gga_text (FormatAltitude a)"
    by (auto simp: FormatHdop_def FormatAltitude_def gga_text_trimmed split: option.split double.split)
qed

text \<open>A coordinate goes out and comes back.\<close>

lemma coordinate_roundtrip:
  assumes "FormatCoordinate v latitude = Some t"
  defines "m \<equiv> if latitude then 90 else 180 :: nat" and "w \<equiv> if latitude then 2 else 3 :: nat"
  shows "gga_text (fst t) \<and> gga_text [snd t]
    \<and> (\<exists>x z. v = Finite x \<and> \<bar>z - x\<bar> \<le> 1 / 10 ^ 7 \<and> \<not> out_of_range (of_nat m) (OF_kValue (Finite z))
         \<and> ParseOptionalCoordinate (fst t) [snd t] w (if latitude then CHR ''N'' else CHR ''E'') (if latitude then CHR ''S'' else CHR ''W'')
             = OF_kValue (Finite z))"
proof -
  obtain x where v: "v = Finite x" using assms(1) by (cases v) (simp_all add: FormatCoordinate_def)
  obtain d k where t:
    "d \<le> m" "d = m \<longrightarrow> k = 0" "k < 6000000" "fst t = coordinate_text w d k"
    "snd t = (if x < 0 then if latitude then CHR ''S'' else CHR ''W'' else if latitude then CHR ''N'' else CHR ''E'')"
    "\<bar>of_nat d + of_nat k / 6000000 - \<bar>x\<bar>\<bar> \<le> 84 / 10 ^ 9"
    by (rule FormatCoordinate_text [OF assms(1) [unfolded v], folded m_def w_def]) blast
  have "m < 10 ^ w" "0 < w" "m \<le> 180" by (simp_all add: m_def w_def)
  note bounds = this
  obtain y where y:
    "ParseNmeaDegreesMinutes (coordinate_text w d k) w = Some (Finite y)" "0 \<le> y" "y \<le> of_nat m"
    "\<bar>y - (of_nat d + of_nat k / 6000000)\<bar> \<le> 1 / 10 ^ 9"
    by (rule ParseNmeaDegreesMinutes_text [OF t(1) mp [OF t(2)] t(3) bounds]) blast
  let ?z = "if x < 0 then - y else y"
  have "\<bar>y - \<bar>x\<bar>\<bar> \<le> 1 / 10 ^ 7" using y(4) t(6) by (simp only: abs_diff_le_iff) simp
  then have near: "\<bar>?z - x\<bar> \<le> 1 / 10 ^ 7" by (cases "x < 0") (simp_all add: abs_minus_commute add.commute)
  moreover have "\<not> out_of_range (of_nat m) (OF_kValue (Finite ?z))" using y(2,3) by (simp add: out_of_range_def)
  moreover have "coordinate_text w d k \<noteq> []" by (simp add: coordinate_text_def)
  then have "ParseOptionalCoordinate (fst t) [snd t] w (if latitude then CHR ''N'' else CHR ''E'')
      (if latitude then CHR ''S'' else CHR ''W'') = OF_kValue (Finite ?z)"
    by (simp add: ParseOptionalCoordinate_def t(4,5) y(1) dbl_negate_def)
  moreover have "gga_text (fst t)" "gga_text [snd t]"
    by (simp_all add: t(4,5) gga_text_coordinate c_isupper_def char_code_def)
  ultimately show ?thesis using v by blast
qed

section \<open>The sentence\<close>

lemma BuildNmeaGgaSentence_ok:
  assumes "gr_error (BuildNmeaGgaSentence st options) = GE_kNone"
  obtains lat lon latitude longitude utc where "rs_latitude_deg st = Some lat" and "rs_longitude_deg st = Some lon"
    and "FormatCoordinate lat True = Some latitude" and "FormatCoordinate lon False = Some longitude"
    and "FormatUtcTime (go_utc_time options) = Some utc"
    and "gr_sentence (BuildNmeaGgaSentence st options) = BuildSentenceFromPayload
      (join_csv (gga_columns (go_talker options) utc latitude longitude (MapRuntimeStateToGgaFixQuality st) st))"
  using assms by (auto simp: BuildNmeaGgaSentence_def Let_def split: option.splits)

lemma quality_back: "ParseGgaFixQuality (dec_nat (quality_number q)) = Some q"
proof -
  have "quality_number q < 9" by (cases q) simp_all
  then have "TryParseUnsigned (dec_nat (quality_number q)) = Some (quality_number q)"
    using TryParseUnsigned_digits [OF dec_nat_digits] by (simp add: digits_value_dec_nat)
  then show ?thesis by (cases q) (simp_all add: ParseGgaFixQuality_def)
qed

lemma satellites_back:
  "ParseOptionalUnsigned16 (FormatSatelliteCount n) = OF_kValue (case n of None \<Rightarrow> 0 | Some k \<Rightarrow> k)"
proof -
  define k where "k = (case n of None \<Rightarrow> 0 | Some k \<Rightarrow> k)"
  have bound: "unat k < 65536" using unsigned_less [of k] by simp
  then have "TryParseUnsigned (pad_zero 2 (dec_nat (unat k))) = Some (unat k)" by (intro TryParseUnsigned_pad) simp
  moreover have "FormatSatelliteCount n = pad_zero 2 (dec_nat (unat k))"
    by (simp add: FormatSatelliteCount_def k_def split: option.split)
  ultimately show ?thesis using bound
    by (simp add: ParseOptionalUnsigned16_def optional_field_def checked_def k_def [symmetric])
qed

lemma FormatUtcTime_back:
  assumes "FormatUtcTime t = Some utc"
  shows "ParseOptionalUtcTime utc \<noteq> OF_kInvalid" "gga_text utc"
proof -
  obtain h mi c where "h < 24" "mi < 60" "c < 6000" and utc: "utc = pad_zero 2 (dec_nat h) @ pad_zero 2 (dec_nat mi)
      @ decimal (pad_zero 2 (dec_nat (c div 100))) (Some (pad_zero 2 (dec_nat (c mod 100))))"
    by (rule FormatUtcTime_text [OF assms]) blast
  then show "ParseOptionalUtcTime utc \<noteq> OF_kInvalid" by (simp only: ParseOptionalUtcTime_text not_False_eq_True)
  show "gga_text utc" unfolding utc by (auto simp: gga_text_digits intro!: gga_text_decimal)
qed

lemma gga_columns_text:
  assumes "gga_text utc" and "gga_text (fst latitude)" and "gga_text [snd latitude]"
    and "gga_text (fst longitude)" and "gga_text [snd longitude]"
  shows "list_all gga_text (gga_columns talker utc latitude longitude quality st)"
proof -
  have "gga_text (SentenceIdForTalker talker)" "gga_text ''M''"
    by (cases talker) (simp_all add: c_isupper_def char_code_def)
  moreover have "gga_text (FormatSatelliteCount n)" for n by (simp add: FormatSatelliteCount_def gga_text_digits)
  ultimately show ?thesis
    using assms optional_numbers(3,4) by (simp add: gga_columns_def gga_text_digits dec_nat_digits)
qed

lemma gga_columns_csv:
  assumes "list_all gga_text (gga_columns talker utc latitude longitude quality st)"
  defines "cs \<equiv> gga_columns talker utc latitude longitude quality st"
  shows "TokenizeCsv 16 (join_csv cs) = Some cs"
proof -
  have "list_all (\<lambda>f. CHR '','' \<notin> set f) cs" using assms(1) gga_char_plain
    unfolding cs_def gga_text_def list_all_iff by metis
  then have "split_csv (join_csv cs) = cs" by (rule split_join) (simp add: cs_def gga_columns_def)
  moreover have "length cs = 15" by (simp add: cs_def gga_columns_def)
  ultimately show ?thesis by (simp add: TokenizeCsv_split)
qed

lemma ParseNmeaGga_columns:
  assumes "nmea_sentence_type r = ''GGA''" and "nmea_checksum_status r = CS_kValid"
    and "TokenizeCsv 16 (nmea_payload_text r) = Some (gga_columns talker utc latitude longitude quality st)"
    and "ParseOptionalUtcTime utc \<noteq> OF_kInvalid" and "printable (rs_hdop st)" and "printable (rs_altitude_m st)"
    and "ParseOptionalCoordinate (fst latitude) [snd latitude] 2 CHR ''N'' CHR ''S'' = OF_kValue lat"
    and "\<not> out_of_range 90 (OF_kValue lat)"
    and "ParseOptionalCoordinate (fst longitude) [snd longitude] 3 CHR ''E'' CHR ''W'' = OF_kValue lon"
    and "\<not> out_of_range 180 (OF_kValue lon)"
  shows "\<exists>g. ParseNmeaGga r = RecordReady g \<and> gga_fix_quality g = quality
    \<and> gga_satellites_used g = Some (case rs_satellites_used st of None \<Rightarrow> 0 | Some k \<Rightarrow> k)
    \<and> gga_latitude_deg g = Some lat \<and> gga_longitude_deg g = Some lon"
  using assms(4,7-10) optional_numbers(1) [OF assms(5)] optional_numbers(2) [OF assms(6)]
  by (simp add: ParseNmeaGga_def with_fields_def IsNmeaSentenceType_def assms(1-3) gga_columns_def fld_def field_from_def
      quality_back satellites_back) (rule exI, rule conjI, rule refl, simp)

section \<open>Properties\<close>

text \<open>C30. Every GGA sentence the client builds for its caster is read back by the stack itself: fed to an empty NMEA
  framer with room for it, it comes out as one sentence with a valid checksum, and the GGA parser takes from it the
  quality and number of satellites it was built for, and the position to a ten millionth of a degree.  The dilution and the
  altitude, where the state has them, are at most 2 to the 90, so that their texts are in the range of a double.\<close>

theorem gga_sentence_roundtrip:
  assumes "gr_error (BuildNmeaGgaSentence st options) = GE_kNone"
    and "printable (rs_hdop st)" and "printable (rs_altitude_m st)" and "nmf_buffer s = []"
    and "map fst xs = bytes_of (gr_sentence (BuildNmeaGgaSentence st options))" and "length xs \<le> nmf_max_frame_length s"
  shows "\<exists>r g lat lat1 lon lon1. emitted (snd (feed nmea_PushByte s xs)) = [r] \<and> nmea_checksum_status r = CS_kValid
    \<and> ParseNmeaGga r = RecordReady g \<and> gga_fix_quality g = MapRuntimeStateToGgaFixQuality st
    \<and> gga_satellites_used g = Some (case rs_satellites_used st of None \<Rightarrow> 0 | Some k \<Rightarrow> k)
    \<and> rs_latitude_deg st = Some (Finite lat) \<and> gga_latitude_deg g = Some (Finite lat1) \<and> \<bar>lat1 - lat\<bar> \<le> 1 / 10 ^ 7
    \<and> rs_longitude_deg st = Some (Finite lon) \<and> gga_longitude_deg g = Some (Finite lon1) \<and> \<bar>lon1 - lon\<bar> \<le> 1 / 10 ^ 7"
proof -
  from assms(1) obtain lat lon latitude longitude utc where b:
    "rs_latitude_deg st = Some lat" "rs_longitude_deg st = Some lon"
    "FormatCoordinate lat True = Some latitude" "FormatCoordinate lon False = Some longitude"
    "FormatUtcTime (go_utc_time options) = Some utc"
    "gr_sentence (BuildNmeaGgaSentence st options) = BuildSentenceFromPayload
      (join_csv (gga_columns (go_talker options) utc latitude longitude (MapRuntimeStateToGgaFixQuality st) st))"
    by (rule BuildNmeaGgaSentence_ok) blast
  let ?cols = "gga_columns (go_talker options) utc latitude longitude (MapRuntimeStateToGgaFixQuality st) st"
  let ?payload = "join_csv ?cols"
  let ?k = "ComputeNmeaChecksum ?payload"
  let ?eol = "[CHR 0x0D, CHR 0x0A]"
  note lat = coordinate_roundtrip [OF b(3), simplified]
  note lon = coordinate_roundtrip [OF b(4), simplified]
  note utc = FormatUtcTime_back [OF b(5)]
  have cols: "list_all gga_text ?cols" using lat lon utc(2) by (intro gga_columns_text) simp_all
  have plain: "nmea_text ?payload" by (rule nmea_text_join [OF cols])
  have line: "map fst xs = bytes_of (nmea_line (CHR ''$'') ?payload ?k ?eol)"
    using assms(5) b(6) by (simp only: BuildSentenceFromPayload_def)
  let ?r = "nmea_BuildSentence (map fst xs) (snd (hd xs))"
  have "nmea_good (nmf_max_frame_length s) (map fst xs)"
    unfolding line using assms(6) arg_cong [OF line, of length] by (intro nmea_line_good plain) simp_all
  from nmea_rec.feed_frame [OF assms(4) this]
  have out: "emitted (snd (feed nmea_PushByte s xs)) = [?r]" by (simp add: emitted_Cons)
  have r: "nmea_payload_text ?r = ?payload" "nmea_checksum_status ?r = CS_kValid"
    unfolding line using nmea_BuildSentence_line [of "CHR ''$''" ?payload ?eol ?k "snd (hd xs)"] plain by simp_all
  obtain talker where talker: "SentenceIdForTalker (go_talker options) = talker @ ''GGA''" "length talker = 2" "CHR '','' \<notin> set talker"
    by (cases "go_talker options") (force intro: that [of "''GP''"] that [of "''GN''"])+
  have "nmea_payload_text ?r = talker @ ''GGA'' @ CHR '','' # join_csv (tl ?cols)"
    unfolding r(1) by (simp add: gga_columns_def talker(1))
  then have type: "nmea_sentence_type ?r = ''GGA''"
    by (rule sentence_type_of_payload) (use talker(2,3) in simp_all)
  from lat obtain x z where x: "lat = Finite x" "\<bar>z - x\<bar> \<le> 1 / 10 ^ 7" "\<not> out_of_range 90 (OF_kValue (Finite z))"
    "ParseOptionalCoordinate (fst latitude) [snd latitude] 2 CHR ''N'' CHR ''S'' = OF_kValue (Finite z)" by auto
  from lon obtain y w where y: "lon = Finite y" "\<bar>w - y\<bar> \<le> 1 / 10 ^ 7" "\<not> out_of_range 180 (OF_kValue (Finite w))"
    "ParseOptionalCoordinate (fst longitude) [snd longitude] 3 CHR ''E'' CHR ''W'' = OF_kValue (Finite w)" by auto
  have "TokenizeCsv 16 (nmea_payload_text ?r) = Some ?cols" unfolding r(1) by (rule gga_columns_csv [OF cols])
  from ParseNmeaGga_columns [OF type r(2) this utc(1) assms(2,3) x(4,3) y(4,3)]
  show ?thesis using out r(2) b(1,2) x(1,2) y(1,2) by blast
qed

text \<open>A position short of the bounds always has a text.\<close>

lemma FormatCoordinate_defined:
  assumes "\<bar>x\<bar> < (if latitude then 90 else 180)"
  shows "FormatCoordinate (Finite x) latitude \<noteq> None"
proof -
  have "\<lfloor>\<bar>x\<bar>\<rfloor> < (if latitude then 90 else 180)" using assms by (simp add: floor_less_iff split: if_splits)
  then have "nat \<lfloor>\<bar>x\<bar>\<rfloor> < (if latitude then 90 else 180)"
    by (auto simp: nat_less_iff split: if_splits)
  with assms show ?thesis by (auto simp: FormatCoordinate_def Let_def split: if_splits)
qed

definition demo_fix :: GnssRuntimeState where
  "demo_fix = RuntimeState_default
     \<lparr>rs_latitude_deg := Some (Finite (95 / 2)), rs_longitude_deg := Some (Finite (- 489 / 4)), rs_fix_valid := True,
      rs_fix_type := FT_kRtkFixed, rs_satellites_used := Some 12\<rparr>"

theorem gga_sentence_roundtrip_witness:
  "let sentence = gr_sentence (BuildNmeaGgaSentence demo_fix GgaSentenceBuilderOptions_default) in
   \<exists>r g lat. emitted (snd (feed nmea_PushByte (nmea_new (length sentence)) (map (\<lambda>b. (b, Some 7)) (bytes_of sentence)))) = [r]
     \<and> ParseNmeaGga r = RecordReady g \<and> gga_fix_quality g = GQ_kRtkFixed \<and> gga_satellites_used g = Some 12
     \<and> gga_latitude_deg g = Some (Finite lat) \<and> \<bar>lat - 95 / 2\<bar> \<le> 1 / 10 ^ 7"
proof -
  let ?b = "BuildNmeaGgaSentence demo_fix GgaSentenceBuilderOptions_default"
  let ?xs = "map (\<lambda>b. (b, Some 7)) (bytes_of (gr_sentence ?b))"
  have state: "rs_latitude_deg demo_fix = Some (Finite (95 / 2))" "rs_longitude_deg demo_fix = Some (Finite (- 489 / 4))"
    "rs_satellites_used demo_fix = Some 12" "rs_hdop demo_fix = None" "rs_altitude_m demo_fix = None"
    "MapRuntimeStateToGgaFixQuality demo_fix = GQ_kRtkFixed"
    by (simp_all add: demo_fix_def RuntimeState_default_def MapRuntimeStateToGgaFixQuality_def)
  have "FormatCoordinate (Finite (95 / 2)) True \<noteq> None" "FormatCoordinate (Finite (- 489 / 4)) False \<noteq> None"
    by (rule FormatCoordinate_defined; simp)+
  then have built: "gr_error ?b = GE_kNone"
    by (auto simp: BuildNmeaGgaSentence_def state GgaSentenceBuilderOptions_default_def FormatUtcTime_def)
  have print: "printable (rs_hdop demo_fix)" "printable (rs_altitude_m demo_fix)" by (simp_all add: state printable_def)
  have framer: "nmf_buffer (nmea_new n) = []" "map fst ?xs = bytes_of (gr_sentence ?b)"
    "length ?xs \<le> nmf_max_frame_length (nmea_new (length (gr_sentence ?b)))" for n
    by (simp_all add: nmea_new_def o_def)
  from gga_sentence_roundtrip [OF built print framer] obtain r g lat lat1 where
    "emitted (snd (feed nmea_PushByte (nmea_new (length (gr_sentence ?b))) ?xs)) = [r]" "ParseNmeaGga r = RecordReady g"
    "gga_fix_quality g = GQ_kRtkFixed" "gga_satellites_used g = Some 12" "Some (Finite (95 / 2)) = Some (Finite lat)"
    "gga_latitude_deg g = Some (Finite lat1)" "\<bar>lat1 - lat\<bar> \<le> 1 / 10 ^ 7"
    unfolding state option.case by blast
  moreover from this(5) have "lat = 95 / 2" by simp
  ultimately show ?thesis unfolding Let_def by blast
qed

end
