(* ===== verification/Gga_Injection.thy ===== *)
theory Gga_Injection
  imports Gga_Sentence Ntrip_Client
begin

text \<open>
  When a client sends the sentence (gnss_ntrip: gga_injection_policy.hpp, gga_injector.cpp, and the GGA operations of
  ntrip_client.cpp): the policy, the injector over any sink, and the client's two ways to use them.
\<close>

section \<open>The policy\<close>

datatype GgaSourcePositionRequirement = GP_kNone | GP_kRequirePositionFix

record GgaInjectionPolicy =
  gp_enabled :: bool
  gp_interval_s :: u32
  gp_source_position_requirement :: GgaSourcePositionRequirement
  gp_last_sent_timestamp_ns :: "timestamp_ns option"

definition BuildGgaInjectionPolicy :: "NtripConfig \<Rightarrow> GgaInjectionPolicy" where
  "BuildGgaInjectionPolicy config =
     \<lparr>gp_enabled = nc_send_gga config, gp_interval_s = nc_gga_interval_s config,
      gp_source_position_requirement = GP_kRequirePositionFix, gp_last_sent_timestamp_ns = None\<rparr>"

definition ShouldInjectGga :: "GgaInjectionPolicy \<Rightarrow> bool \<Rightarrow> timestamp_ns option \<Rightarrow> bool" where
  "ShouldInjectGga policy has_position_fix now_timestamp_ns =
     (if \<not> gp_enabled policy then False
      else if gp_source_position_requirement policy = GP_kRequirePositionFix \<and> \<not> has_position_fix then False
      else
        case (now_timestamp_ns, gp_last_sent_timestamp_ns policy) of
          (Some now, Some last_sent) \<Rightarrow> now - last_sent \<ge> uint (gp_interval_s policy) * 1000000000
        | _ \<Rightarrow> True)"

definition MarkGgaInjected :: "GgaInjectionPolicy \<Rightarrow> timestamp_ns \<Rightarrow> GgaInjectionPolicy" where
  "MarkGgaInjected policy timestamp_ns = policy\<lparr>gp_last_sent_timestamp_ns := Some timestamp_ns\<rparr>"

section \<open>The injector\<close>

record GgaInjectorConfig =
  gic_policy :: GgaInjectionPolicy
  gic_sentence_builder_options :: GgaSentenceBuilderOptions

record GgaInjectorMetrics =
  gim_attempts :: u64
  gim_sentences_built :: u64
  gim_sentences_sent :: u64
  gim_skipped_disabled :: u64
  gim_skipped_interval :: u64
  gim_skipped_missing_position :: u64
  gim_skipped_position_required :: u64
  gim_write_errors :: u64
  gim_last_build_error :: "GgaSentenceBuildError option"
  gim_last_write_error :: "TransportError option"

definition GgaInjectorMetrics_default :: GgaInjectorMetrics where
  "GgaInjectorMetrics_default =
     \<lparr>gim_attempts = 0, gim_sentences_built = 0, gim_sentences_sent = 0, gim_skipped_disabled = 0,
      gim_skipped_interval = 0, gim_skipped_missing_position = 0, gim_skipped_position_required = 0,
      gim_write_errors = 0, gim_last_build_error = None, gim_last_write_error = None\<rparr>"

datatype GgaInjectionStatus =
    GI_kSent | GI_kSkippedDisabled | GI_kSkippedInterval | GI_kSkippedMissingPosition | GI_kSkippedPositionRequired
  | GI_kBuildError | GI_kWriteError

record GgaInjectionResult =
  gi_status :: GgaInjectionStatus
  gi_build_error :: "GgaSentenceBuildError option"
  gi_write_error :: "TransportError option"

definition gi_skipped :: "GgaInjectionResult \<Rightarrow> bool" where
  "gi_skipped r \<longleftrightarrow>
     gi_status r \<in> {GI_kSkippedDisabled, GI_kSkippedInterval, GI_kSkippedMissingPosition, GI_kSkippedPositionRequired}"

record GgaInjector =
  gin_config :: GgaInjectorConfig
  gin_metrics :: GgaInjectorMetrics

definition injector_new :: "GgaInjectorConfig \<Rightarrow> GgaInjector" where
  "injector_new config = \<lparr>gin_config = config, gin_metrics = GgaInjectorMetrics_default\<rparr>"

definition injector_set_config :: "GgaInjector \<Rightarrow> GgaInjectorConfig \<Rightarrow> GgaInjector" where
  "injector_set_config s config = s\<lparr>gin_config := config\<rparr>"

definition injector_Reset :: "GgaInjector \<Rightarrow> GgaInjector" where
  "injector_Reset s =
     s\<lparr>gin_metrics := GgaInjectorMetrics_default,
       gin_config := (gin_config s)\<lparr>gic_policy := (gic_policy (gin_config s))\<lparr>gp_last_sent_timestamp_ns := None\<rparr>\<rparr>\<rparr>"

definition HasCoordinates :: "GnssRuntimeState \<Rightarrow> bool" where
  "HasCoordinates st \<longleftrightarrow> rs_latitude_deg st \<noteq> None \<and> rs_longitude_deg st \<noteq> None"

text \<open>The write loop on what is left of the sentence: the sink, and the error that ended it.\<close>

function write_sentence ::
  "('k \<Rightarrow> bytes \<Rightarrow> 'k \<times> WriteResult) \<Rightarrow> 'k \<Rightarrow> bytes \<Rightarrow> 'k \<times> TransportError option" where
  "write_sentence put k rest =
     (if rest = [] then (k, None)
      else
        let (k1, w) = put k rest in
        if wr_status w \<noteq> TS_kOk then (k1, Some (wr_error w))
        else if wr_bytes_written w = 0 then (k1, Some TE_kWriteFailure)
        else write_sentence put k1 (drop (wr_bytes_written w) rest))"
  by pat_completeness auto
termination by (relation "measure (\<lambda>(put, k, rest). length rest)") auto

declare write_sentence.simps [simp del]

definition BuildAndWriteSentence ::
  "('k \<Rightarrow> bytes \<Rightarrow> 'k \<times> WriteResult) \<Rightarrow> 'k \<Rightarrow> GgaInjector \<Rightarrow> GnssRuntimeState \<Rightarrow> timestamp_ns
     \<Rightarrow> 'k \<times> GgaInjector \<times> GgaInjectionResult" where
  "BuildAndWriteSentence put k s st now =
     (let built = BuildNmeaGgaSentence st (gic_sentence_builder_options (gin_config s)) in
      if gr_error built \<noteq> GE_kNone then
        (k, s\<lparr>gin_metrics := (gin_metrics s)\<lparr>gim_last_build_error := Some (gr_error built)\<rparr>\<rparr>,
         \<lparr>gi_status = GI_kBuildError, gi_build_error = Some (gr_error built), gi_write_error = None\<rparr>)
      else
        let m = (gin_metrics s)\<lparr>gim_sentences_built := gim_sentences_built (gin_metrics s) + 1\<rparr>;
            (k1, error) = write_sentence put k (bytes_of (gr_sentence built)) in
        case error of
          Some e \<Rightarrow>
            (k1, s\<lparr>gin_metrics := m\<lparr>gim_write_errors := gim_write_errors m + 1, gim_last_write_error := Some e\<rparr>\<rparr>,
             \<lparr>gi_status = GI_kWriteError, gi_build_error = None, gi_write_error = Some e\<rparr>)
        | None \<Rightarrow>
            (k1, s\<lparr>gin_metrics := m\<lparr>gim_sentences_sent := gim_sentences_sent m + 1\<rparr>,
                   gin_config := (gin_config s)\<lparr>gic_policy := MarkGgaInjected (gic_policy (gin_config s)) now\<rparr>\<rparr>,
             \<lparr>gi_status = GI_kSent, gi_build_error = None, gi_write_error = None\<rparr>))"

definition MaybeInject ::
  "('k \<Rightarrow> bytes \<Rightarrow> 'k \<times> WriteResult) \<Rightarrow> 'k \<Rightarrow> GgaInjector \<Rightarrow> GnssRuntimeState \<Rightarrow> timestamp_ns
     \<Rightarrow> 'k \<times> GgaInjector \<times> GgaInjectionResult" where
  "MaybeInject put k s st now =
     (let m = (gin_metrics s)\<lparr>gim_attempts := gim_attempts (gin_metrics s) + 1, gim_last_build_error := None,
                              gim_last_write_error := None\<rparr>;
          policy = gic_policy (gin_config s);
          skip = (\<lambda>status m1. (k, s\<lparr>gin_metrics := m1\<rparr>,
                    \<lparr>gi_status = status, gi_build_error = None, gi_write_error = None\<rparr>)) in
      if \<not> gp_enabled policy then
        skip GI_kSkippedDisabled (m\<lparr>gim_skipped_disabled := gim_skipped_disabled m + 1\<rparr>)
      else if \<not> HasCoordinates st then
        skip GI_kSkippedMissingPosition (m\<lparr>gim_skipped_missing_position := gim_skipped_missing_position m + 1\<rparr>)
      else if gp_source_position_requirement policy = GP_kRequirePositionFix \<and> \<not> rs_fix_valid st then
        skip GI_kSkippedPositionRequired (m\<lparr>gim_skipped_position_required := gim_skipped_position_required m + 1\<rparr>)
      else if \<not> ShouldInjectGga policy (rs_fix_valid st) (Some now) then
        skip GI_kSkippedInterval (m\<lparr>gim_skipped_interval := gim_skipped_interval m + 1\<rparr>)
      else BuildAndWriteSentence put k (s\<lparr>gin_metrics := m\<rparr>) st now)"

section \<open>The operations of the client\<close>

datatype NtripGgaSendStatus =
    NGS_kSent | NGS_kSkippedDisabled | NGS_kSkippedInterval | NGS_kSkippedPositionRequired
  | NGS_kSkippedMissingPosition | NGS_kSkippedNotStreaming | NGS_kError

record NtripGgaSendResult =
  ngr_status :: NtripGgaSendStatus
  ngr_client_error :: NtripClientError
  ngr_send_error :: "NtripGgaSendError option"
  ngr_generation_error :: "GgaSentenceBuildError option"

definition gga_send_status :: "NtripGgaSendStatus \<Rightarrow> NtripGgaSendResult" where
  "gga_send_status status =
     \<lparr>ngr_status = status, ngr_client_error = NE_kNone, ngr_send_error = None, ngr_generation_error = None\<rparr>"

definition MapClientErrorToGgaSendError :: "NtripClientError \<Rightarrow> NtripGgaSendError" where
  "MapClientErrorToGgaSendError error =
     (case error of NE_kTimeout \<Rightarrow> NG_kTimeout | NE_kDisconnected \<Rightarrow> NG_kDisconnected | _ \<Rightarrow> NG_kWriteFailure)"

definition MapTransportErrorToGgaSendError :: "TransportError \<Rightarrow> NtripGgaSendError" where
  "MapTransportErrorToGgaSendError error =
     (case error of
        TE_kTimeout \<Rightarrow> NG_kTimeout
      | TE_kClosed \<Rightarrow> NG_kDisconnected
      | TE_kConnectFailure \<Rightarrow> NG_kDisconnected
      | _ \<Rightarrow> NG_kWriteFailure)"

definition NoteGgaSent :: "NtripConnectionMetrics \<Rightarrow> timestamp_ns \<Rightarrow> NtripConnectionMetrics" where
  "NoteGgaSent m timestamp_ns =
     m\<lparr>nm_gga_sent_count := nm_gga_sent_count m + 1, nm_last_gga_sent_timestamp_ns := Some timestamp_ns,
       nm_last_gga_error := None\<rparr>"

definition NoteGgaSendError :: "NtripConnectionMetrics \<Rightarrow> NtripGgaSendError \<Rightarrow> NtripConnectionMetrics" where
  "NoteGgaSendError m error =
     m\<lparr>nm_gga_send_errors := nm_gga_send_errors m + 1, nm_last_gga_error := Some error\<rparr>"

text \<open>The client with its policy and its injector; no other operation but \<open>set_config\<close> touches these.\<close>

record 'k GgaClient =
  gc_client :: "'k NtripClient"
  gc_policy :: GgaInjectionPolicy
  gc_injector :: GgaInjector

definition gga_client_new :: "NtripConfig \<Rightarrow> TcpClientConfig \<Rightarrow> 'k \<Rightarrow> 'k GgaClient" where
  "gga_client_new config tcp_config transport =
     \<lparr>gc_client = NtripClient_new config tcp_config transport, gc_policy = BuildGgaInjectionPolicy config,
      gc_injector = injector_new \<lparr>gic_policy = BuildGgaInjectionPolicy config,
                                  gic_sentence_builder_options = GgaSentenceBuilderOptions_default\<rparr>\<rparr>"

definition with_policy :: "GgaInjector \<Rightarrow> GgaInjectionPolicy \<Rightarrow> GgaInjector" where
  "with_policy s policy =
     injector_set_config s \<lparr>gic_policy = policy, gic_sentence_builder_options = gic_sentence_builder_options (gin_config s)\<rparr>"

definition gga_client_set_config :: "'k tcp_ops \<Rightarrow> 'k GgaClient \<Rightarrow> NtripConfig \<Rightarrow> 'k GgaClient" where
  "gga_client_set_config ops g config =
     \<lparr>gc_client = client_set_config ops (gc_client g) config, gc_policy = BuildGgaInjectionPolicy config,
      gc_injector = with_policy (gc_injector g) (BuildGgaInjectionPolicy config)\<rparr>"

definition MakeGgaSendErrorResult ::
  "'k GgaClient \<Rightarrow> NtripGgaSendError \<Rightarrow> NtripClientError \<Rightarrow> GgaSentenceBuildError option \<Rightarrow> 'k GgaClient \<times> NtripGgaSendResult" where
  "MakeGgaSendErrorResult g error client_error generation_error =
     (g\<lparr>gc_client := (gc_client g)\<lparr>ntc_metrics := NoteGgaSendError (ntc_metrics (gc_client g)) error\<rparr>\<rparr>,
      \<lparr>ngr_status = NGS_kError, ngr_client_error = client_error, ngr_send_error = Some error,
       ngr_generation_error = generation_error\<rparr>)"

text \<open>\<open>FailWith\<close>, whose result \<open>None\<close> is the undefined conversion in the reconnect policy, and the error result.\<close>

definition fail_gga ::
  "'k tcp_ops \<Rightarrow> 'k GgaClient \<Rightarrow> NtripGgaSendError \<Rightarrow> NtripClientError \<Rightarrow> timestamp_ns
     \<Rightarrow> ('k GgaClient \<times> NtripGgaSendResult) option" where
  "fail_gga ops g error client_error now =
     map_option (\<lambda>c. MakeGgaSendErrorResult (g\<lparr>gc_client := c\<rparr>) error client_error None)
       (FailWith ops (gc_client g) client_error (Some now))"

text \<open>The write loop of \<open>SendGga\<close>, on what is left of the sentence.\<close>

function send_sentence ::
  "'k tcp_ops \<Rightarrow> 'k GgaClient \<Rightarrow> bytes \<Rightarrow> timestamp_ns \<Rightarrow> ('k GgaClient \<times> NtripGgaSendResult) option" where
  "send_sentence ops g rest now =
     (let c = gc_client g in
      if rest = [] then
        Some (g\<lparr>gc_client := c\<lparr>ntc_metrics := NoteGgaSent (ntc_metrics c) now\<rparr>,
                gc_policy := MarkGgaInjected (gc_policy g) now\<rparr>, gga_send_status NGS_kSent)
      else
        let (k, w) = tcp_write ops (ntc_transport c) rest; c1 = c\<lparr>ntc_transport := k\<rparr> in
        if wr_status w \<noteq> TS_kOk then
          fail_gga ops (g\<lparr>gc_client := c1\<rparr>) (MapTransportErrorToGgaSendError (wr_error w)) (MapTransportError (wr_error w)) now
        else if wr_bytes_written w = 0 then fail_gga ops (g\<lparr>gc_client := c1\<rparr>) NG_kTimeout NE_kTimeout now
        else
          send_sentence ops (g\<lparr>gc_client := c1\<lparr>ntc_metrics := NoteSentBytes (ntc_metrics c1) (wr_bytes_written w)\<rparr>\<rparr>)
            (drop (wr_bytes_written w) rest) now)"
  by pat_completeness auto
termination by (relation "measure (\<lambda>(ops, g, rest, now). length rest)") auto

declare send_sentence.simps [simp del]

definition SendGga ::
  "'k tcp_ops \<Rightarrow> 'k GgaClient \<Rightarrow> GnssRuntimeState \<Rightarrow> timestamp_ns \<Rightarrow> ('k GgaClient \<times> NtripGgaSendResult) option" where
  "SendGga ops g st now =
     (let c = gc_client g in
      if \<not> tcp_is_open ops (ntc_transport c) \<or> ntc_state c = NS_kDisconnected
      then fail_gga ops g NG_kDisconnected NE_kDisconnected now
      else if ntc_state c = NS_kFailed
      then Some (MakeGgaSendErrorResult g (MapClientErrorToGgaSendError (nm_last_error (ntc_metrics c)))
                   (nm_last_error (ntc_metrics c)) None)
      else
        let generated = BuildNmeaGgaSentence st GgaSentenceBuilderOptions_default in
        if gr_error generated \<noteq> GE_kNone
        then Some (MakeGgaSendErrorResult g NG_kGenerationFailed NE_kNone (Some (gr_error generated)))
        else send_sentence ops g (bytes_of (gr_sentence generated)) now)"

definition MaybeSendGga ::
  "'k tcp_ops \<Rightarrow> 'k GgaClient \<Rightarrow> GnssRuntimeState \<Rightarrow> timestamp_ns \<Rightarrow> ('k GgaClient \<times> NtripGgaSendResult) option" where
  "MaybeSendGga ops g st now =
     (let c = gc_client g; policy = gc_policy g in
      if \<not> gp_enabled policy then Some (g, gga_send_status NGS_kSkippedDisabled)
      else if \<not> tcp_is_open ops (ntc_transport c) \<or> ntc_state c = NS_kDisconnected
      then fail_gga ops g NG_kDisconnected NE_kDisconnected now
      else if ntc_state c = NS_kFailed
      then Some (MakeGgaSendErrorResult g (MapClientErrorToGgaSendError (nm_last_error (ntc_metrics c)))
                   (nm_last_error (ntc_metrics c)) None)
      else if gp_source_position_requirement policy = GP_kRequirePositionFix \<and> \<not> rs_fix_valid st
      then Some (g, gga_send_status NGS_kSkippedPositionRequired)
      else if \<not> ShouldInjectGga policy (rs_fix_valid st) (Some now)
      then Some (g, gga_send_status NGS_kSkippedInterval)
      else SendGga ops g st now)"

text \<open>\<open>RunGgaInjector\<close>; \<open>written\<close> reads the transport's count of written bytes.\<close>

definition RunGgaInjector ::
  "'k tcp_ops \<Rightarrow> ('k \<Rightarrow> u64) \<Rightarrow> 'k GgaClient \<Rightarrow> GnssRuntimeState \<Rightarrow> timestamp_ns
     \<Rightarrow> ('k GgaClient \<times> NtripGgaSendResult) option" where
  "RunGgaInjector ops written g st now =
     (let injector = with_policy (gc_injector g) (gc_policy g);
          c = gc_client g;
          (k, injector1, r) = MaybeInject (tcp_write ops) (ntc_transport c) injector st now;
          before = written (ntc_transport c);
          c1 = c\<lparr>ntc_transport := k\<rparr>;
          c2 = (if written k > before then c1\<lparr>ntc_metrics := NoteSentBytes (ntc_metrics c1) (unat (written k - before))\<rparr> else c1);
          g1 = g\<lparr>gc_client := c2, gc_policy := gic_policy (gin_config injector1), gc_injector := injector1\<rparr> in
      case gi_status r of
        GI_kSent \<Rightarrow>
          Some (g1\<lparr>gc_client := c2\<lparr>ntc_metrics := NoteGgaSent (ntc_metrics c2) now\<rparr>\<rparr>, gga_send_status NGS_kSent)
      | GI_kSkippedDisabled \<Rightarrow> Some (g1, gga_send_status NGS_kSkippedDisabled)
      | GI_kSkippedInterval \<Rightarrow> Some (g1, gga_send_status NGS_kSkippedInterval)
      | GI_kSkippedMissingPosition \<Rightarrow> Some (g1, gga_send_status NGS_kSkippedMissingPosition)
      | GI_kSkippedPositionRequired \<Rightarrow> Some (g1, gga_send_status NGS_kSkippedPositionRequired)
      | GI_kBuildError \<Rightarrow> Some (MakeGgaSendErrorResult g1 NG_kGenerationFailed NE_kNone (gi_build_error r))
      | GI_kWriteError \<Rightarrow>
          let write_error = (case gi_write_error r of Some e \<Rightarrow> e | None \<Rightarrow> TE_kWriteFailure) in
          fail_gga ops g1 (MapTransportErrorToGgaSendError write_error) (MapTransportError write_error) now)"

definition MaybeInjectGga ::
  "'k tcp_ops \<Rightarrow> ('k \<Rightarrow> u64) \<Rightarrow> 'k GgaClient \<Rightarrow> GnssRuntimeState \<Rightarrow> timestamp_ns
     \<Rightarrow> ('k GgaClient \<times> NtripGgaSendResult) option" where
  "MaybeInjectGga ops written g st now =
     (let c = gc_client g in
      if ntc_state c = NS_kFailed
      then Some (MakeGgaSendErrorResult g (MapClientErrorToGgaSendError (nm_last_error (ntc_metrics c)))
                   (nm_last_error (ntc_metrics c)) None)
      else if \<not> tcp_is_open ops (ntc_transport c) \<or> ntc_state c \<noteq> NS_kStreaming
      then Some (g, gga_send_status NGS_kSkippedNotStreaming)
      else RunGgaInjector ops written g st now)"

section \<open>What a caster receives\<close>

text \<open>A write loop sends a prefix, and the whole sentence if it reports no error.\<close>

context byte_sink begin

lemma write_sentence_sent:
  "\<exists>n. sent (fst (write_sentence put k rest)) = sent k @ take n rest
     \<and> (snd (write_sentence put k rest) = None \<longrightarrow> take n rest = rest)"
proof (induction "length rest" arbitrary: k rest rule: less_induct)
  case less
  let ?k1 = "fst (put k rest)"
  let ?n = "wr_bytes_written (snd (put k rest))"
  have step: "sent ?k1 = sent k @ take ?n rest" by (rule put_sent)
  show ?case
  proof (cases "rest \<noteq> [] \<and> wr_status (snd (put k rest)) = TS_kOk \<and> ?n \<noteq> 0")
    case True
    then have loop: "write_sentence put k rest = write_sentence put ?k1 (drop ?n rest)"
      by (simp add: write_sentence.simps [of put k rest] split_beta)
    have "length (drop ?n rest) < length rest" using True by auto
    from less.hyps [OF this, of ?k1] obtain n where n:
      "sent (fst (write_sentence put ?k1 (drop ?n rest))) = sent ?k1 @ take n (drop ?n rest)"
      "snd (write_sentence put ?k1 (drop ?n rest)) = None \<longrightarrow> take n (drop ?n rest) = drop ?n rest" by (elim exE conjE) (rule that)
    have "sent (fst (write_sentence put k rest)) = sent k @ take (?n + n) rest"
      by (simp only: loop n(1) step take_add append_assoc)
    moreover have "snd (write_sentence put k rest) = None \<longrightarrow> take (?n + n) rest = rest"
      unfolding loop using n(2) by (metis append_take_drop_id take_add)
    ultimately show ?thesis by (intro exI [of _ "?n + n"] conjI)
  next
    case False
    show ?thesis
    proof (cases "rest = []")
      case True
      then show ?thesis by (simp add: write_sentence.simps [of put k "[]"])
    next
      case nonempty: False
      with False have "fst (write_sentence put k rest) = ?k1" "snd (write_sentence put k rest) \<noteq> None"
        by (simp_all add: write_sentence.simps [of put k rest] split_beta)
      with step show ?thesis by (intro exI [of _ ?n]) auto
    qed
  qed
qed

end

text \<open>The attempts of an injector, each with a state and a time, and their results.\<close>

fun inject_all ::
  "('k \<Rightarrow> bytes \<Rightarrow> 'k \<times> WriteResult) \<Rightarrow> 'k \<Rightarrow> GgaInjector \<Rightarrow> (GnssRuntimeState \<times> timestamp_ns) list
     \<Rightarrow> 'k \<times> GgaInjector \<times> GgaInjectionResult list" where
  "inject_all put k s [] = (k, s, [])"
| "inject_all put k s ((st, now) # xs) =
     (let (k1, s1, r) = MaybeInject put k s st now; (k2, s2, rs) = inject_all put k1 s1 xs in (k2, s2, r # rs))"

text \<open>What an attempt puts on the wire, and the times of the sentences sent.\<close>

definition attempt_ok :: "GgaSentenceBuilderOptions \<Rightarrow> GnssRuntimeState \<Rightarrow> GgaInjectionStatus \<Rightarrow> bytes \<Rightarrow> bool" where
  "attempt_ok options st status chunk =
     (let sentence = bytes_of (gr_sentence (BuildNmeaGgaSentence st options)) in
      if status = GI_kSent then chunk = sentence
      else if status = GI_kWriteError then (\<exists>n. chunk = take n sentence) else chunk = [])"

definition sent_times :: "(GnssRuntimeState \<times> timestamp_ns) list \<Rightarrow> GgaInjectionResult list \<Rightarrow> timestamp_ns list" where
  "sent_times xs rs = map (snd \<circ> fst) (filter (\<lambda>(x, r). gi_status r = GI_kSent) (zip xs rs))"

fun spaced :: "int \<Rightarrow> timestamp_ns option \<Rightarrow> timestamp_ns list \<Rightarrow> bool" where
  "spaced gap last_sent [] = True"
| "spaced gap last_sent (t # ts) =
     ((case last_sent of None \<Rightarrow> True | Some t0 \<Rightarrow> t - t0 \<ge> gap) \<and> spaced gap (Some t) ts)"

abbreviation policy_gap :: "GgaInjector \<Rightarrow> int" where
  "policy_gap s \<equiv> uint (gp_interval_s (gic_policy (gin_config s))) * 1000000000"

abbreviation policy_last :: "GgaInjector \<Rightarrow> timestamp_ns option" where
  "policy_last s \<equiv> gp_last_sent_timestamp_ns (gic_policy (gin_config s))"

context byte_sink begin

lemma MaybeInject_step:
  fixes k s st now
  defines "out \<equiv> MaybeInject put k s st now"
  shows "\<exists>chunk. sent (fst out) = sent k @ chunk
      \<and> attempt_ok (gic_sentence_builder_options (gin_config s)) st (gi_status (snd (snd out))) chunk"
    and "gic_sentence_builder_options (gin_config (fst (snd out))) = gic_sentence_builder_options (gin_config s)"
    and "policy_gap (fst (snd out)) = policy_gap s"
    and "if gi_status (snd (snd out)) = GI_kSent
      then policy_last (fst (snd out)) = Some now \<and> spaced (policy_gap s) (policy_last s) [now]
      else policy_last (fst (snd out)) = policy_last s"
proof -
  let ?sentence = "bytes_of (gr_sentence (BuildNmeaGgaSentence st (gic_sentence_builder_options (gin_config s))))"
  obtain k1 e where loop: "write_sentence put k ?sentence = (k1, e)" by fastforce
  have chunk: "\<exists>n. sent k1 = sent k @ take n ?sentence" "e = None \<Longrightarrow> sent k1 = sent k @ ?sentence"
    using write_sentence_sent [of k ?sentence] by (auto simp: loop)
  note simps = out_def MaybeInject_def BuildAndWriteSentence_def Let_def loop attempt_ok_def MarkGgaInjected_def
  show "\<exists>chunk. sent (fst out) = sent k @ chunk
      \<and> attempt_ok (gic_sentence_builder_options (gin_config s)) st (gi_status (snd (snd out))) chunk"
    using chunk by (cases e) (auto simp: simps)
  show "gic_sentence_builder_options (gin_config (fst (snd out))) = gic_sentence_builder_options (gin_config s)"
    "policy_gap (fst (snd out)) = policy_gap s"
    by (cases e; simp add: simps)+
  show "if gi_status (snd (snd out)) = GI_kSent
      then policy_last (fst (snd out)) = Some now \<and> spaced (policy_gap s) (policy_last s) [now]
      else policy_last (fst (snd out)) = policy_last s"
    by (cases e) (simp_all add: simps ShouldInjectGga_def split: option.split)
qed

text \<open>However often a client is asked to send its position, what leaves is a sequence of whole sentences, each built
  from the state of its attempt, and the beginning of one where a write failed; and the times of two sentences are at least
  the interval apart.\<close>

lemma gga_injection_stream:
  "\<exists>chunks. sent (fst (inject_all put k s xs)) = sent k @ concat chunks
     \<and> list_all2 (\<lambda>(x, r). attempt_ok (gic_sentence_builder_options (gin_config s)) (fst x) (gi_status r))
         (zip xs (snd (snd (inject_all put k s xs)))) chunks
     \<and> length (snd (snd (inject_all put k s xs))) = length xs
     \<and> spaced (policy_gap s) (policy_last s) (sent_times xs (snd (snd (inject_all put k s xs))))"
proof (induction xs arbitrary: k s)
  case (Cons x xs)
  obtain st now where x: "x = (st, now)" by fastforce
  obtain k1 s1 r where out: "MaybeInject put k s st now = (k1, s1, r)" by (metis prod_cases3)
  obtain k2 s2 rs where rest: "inject_all put k1 s1 xs = (k2, s2, rs)" by (metis prod_cases3)
  from MaybeInject_step [of k s st now, unfolded out fst_conv snd_conv] obtain chunk where step:
    "sent k1 = sent k @ chunk" "attempt_ok (gic_sentence_builder_options (gin_config s)) st (gi_status r) chunk"
    "gic_sentence_builder_options (gin_config s1) = gic_sentence_builder_options (gin_config s)" "policy_gap s1 = policy_gap s"
    "if gi_status r = GI_kSent then policy_last s1 = Some now \<and> spaced (policy_gap s) (policy_last s) [now]
     else policy_last s1 = policy_last s" by blast
  from Cons.IH [of k1 s1, unfolded rest fst_conv snd_conv] obtain chunks where IH:
    "sent k2 = sent k1 @ concat chunks"
    "list_all2 (\<lambda>(x, r). attempt_ok (gic_sentence_builder_options (gin_config s1)) (fst x) (gi_status r)) (zip xs rs) chunks"
    "length rs = length xs" "spaced (policy_gap s1) (policy_last s1) (sent_times xs rs)" by blast
  have "sent_times (x # xs) (r # rs) = (if gi_status r = GI_kSent then [now] else []) @ sent_times xs rs"
    by (simp add: sent_times_def x)
  then have "spaced (policy_gap s) (policy_last s) (sent_times (x # xs) (r # rs))"
    using step(4,5) IH(4) by (cases "gi_status r = GI_kSent") simp_all
  then show ?case
    using step(1-3) IH(1-3) by (intro exI [of _ "chunk # chunks"]) (simp add: x out rest)
qed (simp add: sent_times_def)

end

end
