(* ===== verification/Buffered_Session.thy ===== *)
theory Buffered_Session
  imports Stream_Framer Position_Freshness
begin

text \<open>
  What the buffering sessions share (ublox_session.cpp and unicore_session.cpp have it twice): \<open>ProbeAtOffset\<close> runs a
  fresh framer over the buffer, and \<open>ProcessBufferedData\<close> consumes the buffer from its start, record by record, until
  it is at its end or a truncated record has to wait for more bytes.
\<close>

section \<open>The probe\<close>

record 'r ProbeResult =
  pb_status :: ParserStatus
  pb_record :: "'r option"
  pb_bytes_consumed :: nat

fun probe_loop ::
  "('s, 'r) push_byte \<Rightarrow> ('s \<Rightarrow> 's \<times> 'r ParserResult) \<Rightarrow> 's \<Rightarrow> stamped list \<Rightarrow> nat \<Rightarrow> 'r ProbeResult" where
  "probe_loop push finalize s [] n =
     (let r = snd (finalize s) in \<lparr>pb_status = pr_status r, pb_record = pr_record r, pb_bytes_consumed = n\<rparr>)"
| "probe_loop push finalize s ((b, t) # bytes) n =
     (let (s1, r) = push s b t in
      if pr_status r = PS_kNeedMoreData \<or> pr_status r = PS_kIdle then probe_loop push finalize s1 bytes (n + 1)
      else \<lparr>pb_status = pr_status r, pb_record = pr_record r, pb_bytes_consumed = n + 1\<rparr>)"

definition ProbeAtOffset ::
  "('s, 'r) push_byte \<Rightarrow> ('s \<Rightarrow> 's \<times> 'r ParserResult) \<Rightarrow> 's \<Rightarrow> stamped list \<Rightarrow> nat \<Rightarrow> 'r ProbeResult" where
  "ProbeAtOffset push finalize framer bytes start_offset =
     probe_loop push finalize framer (drop start_offset bytes) 0"

text \<open>A framer as the sessions use it: while it asks for more it holds bytes, and then \<open>Finalize\<close> reports a truncated
  record; a delivered record has between one and all of the bytes it was given.\<close>

locale probed_framer =
  fixes push :: "('s, 'r) push_byte"
    and finalize :: "'s \<Rightarrow> 's \<times> 'r ParserResult"
    and buf :: "'s \<Rightarrow> bytes"
    and raw :: "'r \<Rightarrow> bytes"
    and invar :: "'s \<Rightarrow> bool"
  assumes probed_invar: "invar s \<Longrightarrow> invar (fst (push s b t))"
    and waits: "\<lbrakk>invar s; pr_status (snd (push s b t)) = PS_kNeedMoreData \<or> pr_status (snd (push s b t)) = PS_kIdle\<rbrakk> \<Longrightarrow>
      buf (fst (push s b t)) \<noteq> [] \<and> length (buf (fst (push s b t))) \<le> Suc (length (buf s))"
    and truncates: "buf s \<noteq> [] \<Longrightarrow> pr_status (snd (finalize s)) = PS_kTruncated \<and> pr_record (snd (finalize s)) = None"
    and delivers: "\<lbrakk>invar s; pr_record (snd (push s b t)) = Some r\<rbrakk> \<Longrightarrow>
      pr_status (snd (push s b t)) = PS_kRecordReady \<and> raw r \<noteq> [] \<and> length (raw r) \<le> Suc (length (buf s))"
begin

lemma probe_loop_append:
  assumes "invar s" and "bytes \<noteq> [] \<or> buf s \<noteq> []" and "pb_status (probe_loop push finalize s bytes n) \<noteq> PS_kTruncated"
  shows "probe_loop push finalize s (bytes @ more_bytes) n = probe_loop push finalize s bytes n"
  using assms
proof (induction bytes arbitrary: s n)
  case Nil
  then show ?case using truncates by (simp add: Let_def)
next
  case (Cons x bytes)
  obtain b t where x: "x = (b, t)" by fastforce
  obtain s1 r where p: "push s b t = (s1, r)" by fastforce
  from Cons.prems Cons.IH [of s1 "n + 1"] show ?case
    using waits [OF Cons.prems(1), of b t] probed_invar [OF Cons.prems(1), of b t] by (auto simp: x p Let_def)
qed

lemma probe_loop_record:
  assumes "invar s" and "pb_record (probe_loop push finalize s bytes n) = Some r" and "bytes \<noteq> [] \<or> buf s \<noteq> []"
  shows "pb_status (probe_loop push finalize s bytes n) = PS_kRecordReady
    \<and> raw r \<noteq> [] \<and> length (raw r) \<le> length (buf s) + length bytes"
  using assms
proof (induction bytes arbitrary: s n)
  case Nil
  then show ?case using truncates by (simp add: Let_def)
next
  case (Cons x bytes)
  obtain b t where x: "x = (b, t)" by fastforce
  obtain s1 r1 where p: "push s b t = (s1, r1)" by fastforce
  show ?case
  proof (cases "pr_status r1 = PS_kNeedMoreData \<or> pr_status r1 = PS_kIdle")
    case True
    with Cons.prems Cons.IH [of s1 "n + 1"] waits [OF Cons.prems(1), of b t] probed_invar [OF Cons.prems(1), of b t]
    show ?thesis by (auto simp: x p Let_def)
  next
    case False
    with Cons.prems delivers [OF Cons.prems(1), of b t r] show ?thesis by (auto simp: x p Let_def)
  qed
qed

end

section \<open>The loop over the buffer\<close>

text \<open>The loop of \<open>ProcessBufferedData\<close> on the rest of the buffer from \<open>offset\<close>; consuming returns the new state, by how
  much the offset advances, and \<open>keep_tail\<close>.  It never advances by nothing without \<open>keep_tail\<close> (law \<open>progress\<close>
  below); stopping there makes the function total.\<close>

function process_buffer ::
  "('c \<Rightarrow> stamped list \<Rightarrow> 'c \<times> nat \<times> bool) \<Rightarrow> 'c \<Rightarrow> stamped list \<Rightarrow> 'c \<times> stamped list" where
  "process_buffer consume c bytes =
     (if bytes = [] then (c, [])
      else
        let (c1, advance, keep_tail) = consume c bytes in
        if keep_tail \<or> advance = 0 then (c1, drop advance bytes)
        else process_buffer consume c1 (drop advance bytes))"
  by pat_completeness auto
termination
  by (relation "measure (\<lambda>(f, c, bytes). length bytes)") auto

declare process_buffer.simps [simp del]

text \<open>What is consumed is decided by the bytes consumed, and a kept tail changes nothing: then the bytes may come in
  any portions.\<close>

locale chunk_consumer =
  fixes consume :: "'c \<Rightarrow> stamped list \<Rightarrow> 'c \<times> nat \<times> bool"
  assumes progress: "\<lbrakk>bytes \<noteq> []; consume c bytes = (c1, advance, False)\<rbrakk> \<Longrightarrow> 0 < advance \<and> advance \<le> length bytes"
    and stable: "\<lbrakk>bytes \<noteq> []; consume c bytes = (c1, advance, False)\<rbrakk> \<Longrightarrow>
      consume c (bytes @ more_bytes) = (c1, advance, False)"
    and keeps: "\<lbrakk>bytes \<noteq> []; consume c bytes = (c1, advance, True)\<rbrakk> \<Longrightarrow> c1 = c \<and> advance = 0"
begin

lemma process_buffer_append:
  "process_buffer consume c bytes = (c1, kept) \<Longrightarrow>
     process_buffer consume c (bytes @ more_bytes) = process_buffer consume c1 (kept @ more_bytes)"
proof (induction "length bytes" arbitrary: c bytes rule: less_induct)
  case less
  show ?case
  proof (cases "bytes = []")
    case True
    with less.prems show ?thesis by (simp add: process_buffer.simps [of consume c "[]"])
  next
    case False
    obtain c2 advance keep_tail where con: "consume c bytes = (c2, advance, keep_tail)" by (metis prod_cases3)
    show ?thesis
    proof (cases keep_tail)
      case True
      with con keeps [OF False, of c c2 advance] have "c2 = c \<and> advance = 0" by simp
      with con False True less.prems show ?thesis by (simp add: process_buffer.simps [of consume c bytes])
    next
      case keep: False
      with con progress [OF False, of c c2 advance] stable [OF False, of c c2 advance more_bytes]
      have adv: "0 < advance" "advance \<le> length bytes" "consume c (bytes @ more_bytes) = (c2, advance, False)" by simp_all
      with con False keep less.prems have "process_buffer consume c2 (drop advance bytes) = (c1, kept)"
        by (simp add: process_buffer.simps [of consume c bytes])
      from less.hyps [OF _ this] adv False show ?thesis
        by (simp add: process_buffer.simps [of consume c "bytes @ more_bytes"])
    qed
  qed
qed

end

text \<open>One probe consumed, as in \<open>ConsumeUbxAtOffset\<close> and its siblings: \<open>deliver\<close> takes a record, \<open>malformed\<close> counts a
  record that is none.\<close>

definition consume_probe ::
  "('r \<Rightarrow> 'c \<Rightarrow> 'c) \<Rightarrow> ('c \<Rightarrow> 'c) \<Rightarrow> ('r ProbeResult \<Rightarrow> 'r \<Rightarrow> nat) \<Rightarrow> bool \<Rightarrow> 'r ProbeResult \<Rightarrow> 'c \<Rightarrow> stamped list
     \<Rightarrow> 'c \<times> nat \<times> bool" where
  "consume_probe deliver malformed advance finalizing probe c bytes =
     (case (pb_status probe, pb_record probe) of
        (PS_kRecordReady, Some r) \<Rightarrow> (deliver r c, advance probe r, False)
      | (status, _) \<Rightarrow>
          if status = PS_kTruncated then
            if finalizing then (malformed c, length bytes, False) else (c, 0, True)
          else
            ((if status = PS_kInvalidData \<or> status = PS_kOverflow then malformed c else c), 1, False))"

context probed_framer begin

lemma consume_probe_laws:
  assumes "invar s" and "bytes \<noteq> []"
    and "consume_probe deliver malformed (\<lambda>probe r. length (raw r)) False (probe_loop push finalize s bytes 0) c bytes
      = (c1, advance, keep_tail)" and "buf s = []"
  shows "(\<not> keep_tail \<longrightarrow> 0 < advance \<and> advance \<le> length bytes
      \<and> consume_probe deliver malformed (\<lambda>probe r. length (raw r)) False
          (probe_loop push finalize s (bytes @ more_bytes) 0) c (bytes @ more_bytes) = (c1, advance, False))
    \<and> (keep_tail \<longrightarrow> c1 = c \<and> advance = 0)"
proof (cases "pb_status (probe_loop push finalize s bytes 0) = PS_kTruncated")
  case True
  with assms(3) show ?thesis by (auto simp: consume_probe_def split: option.splits)
next
  case False
  from probe_loop_append [OF assms(1) _ False] assms(2)
  have "probe_loop push finalize s (bytes @ more_bytes) 0 = probe_loop push finalize s bytes 0" by simp
  moreover have "0 < length bytes" using assms(2) by simp
  ultimately show ?thesis using False assms(3) probe_loop_record [OF assms(1), of bytes 0] assms(2,4)
    by (auto simp: consume_probe_def Suc_le_eq split: option.splits ParserStatus.splits)
qed

end

end
