(* ===== verification/Ublox_Session.thy ===== *)
theory Ublox_Session
  imports Buffered_Session Ubx_Updates Nmea_Updates Ubx_Framer Rtcm_Framer Nmea_Framer Rtcm_Parser
begin

text \<open>
  \<open>UbloxSession\<close> (gnss_driver/src/ublox_session.cpp): the bytes of a u-blox receiver, split into NMEA sentences, UBX
  frames and RTCM frames, parsed, and merged into the runtime state.
\<close>

section \<open>State\<close>

record UbloxSessionConfig =
  uc_max_nmea_sentence_length_bytes :: nat
  uc_max_ubx_frame_length_bytes :: nat
  uc_max_rtcm_frame_length_bytes :: nat
  uc_enable_nmea_runtime_updates :: bool

definition UbloxSessionConfig_default :: UbloxSessionConfig where
  "UbloxSessionConfig_default =
     \<lparr>uc_max_nmea_sentence_length_bytes = 512, uc_max_ubx_frame_length_bytes = 4096,
      uc_max_rtcm_frame_length_bytes = 1029, uc_enable_nmea_runtime_updates = True\<rparr>"

record UbloxSessionMetrics =
  um_bytes_seen :: u64
  um_ubx_frames_seen :: u64
  um_nmea_sentences_seen :: u64
  um_rtcm_frames_seen :: u64
  um_frames_parsed :: u64
  um_frames_rejected :: u64
  um_runtime_observations :: u64
  um_position_observations :: u64
  um_runtime_updates :: u64
  um_unknown_frames :: u64
  um_malformed_frames :: u64
  um_receiver_rtcm_messages_seen :: u64
  um_receiver_rtcm_messages_used :: u64
  um_receiver_rtcm_messages_not_used :: u64
  um_receiver_rtcm_crc_failed :: u64
  um_last_receiver_rtcm_message_type :: "u16 option"
  um_rtcm_message_type_counts :: "u16 \<rightharpoonup> u64"
  um_position_payload_freshness :: PositionPayloadFreshnessMetrics

definition UbloxSessionMetrics_default :: UbloxSessionMetrics where
  "UbloxSessionMetrics_default =
     \<lparr>um_bytes_seen = 0, um_ubx_frames_seen = 0, um_nmea_sentences_seen = 0, um_rtcm_frames_seen = 0,
      um_frames_parsed = 0, um_frames_rejected = 0, um_runtime_observations = 0, um_position_observations = 0,
      um_runtime_updates = 0, um_unknown_frames = 0, um_malformed_frames = 0, um_receiver_rtcm_messages_seen = 0,
      um_receiver_rtcm_messages_used = 0, um_receiver_rtcm_messages_not_used = 0, um_receiver_rtcm_crc_failed = 0,
      um_last_receiver_rtcm_message_type = None, um_rtcm_message_type_counts = Map.empty,
      um_position_payload_freshness = FreshnessMetrics_default\<rparr>"

record UbloxSession =
  us_config :: UbloxSessionConfig
  us_buffer :: "stamped list"
  us_aggregator :: GnssRuntimeAggregator
  us_tracker :: FreshnessTracker
  us_metrics :: UbloxSessionMetrics

definition ublox_new :: "UbloxSessionConfig \<Rightarrow> UbloxSession" where
  "ublox_new config =
     \<lparr>us_config = config, us_buffer = [], us_aggregator = aggregator_new, us_tracker = tracker_new,
      us_metrics = UbloxSessionMetrics_default\<rparr>"

definition ublox_Reset :: "UbloxSession \<Rightarrow> UbloxSession" where
  "ublox_Reset s =
     s\<lparr>us_buffer := [], us_aggregator := aggregator_Reset (us_aggregator s), us_tracker := tracker_new,
       us_metrics := UbloxSessionMetrics_default\<rparr>"

text \<open>Counting one in a counter of the metrics, given by its update function.\<close>

definition count_in :: "((u64 \<Rightarrow> u64) \<Rightarrow> UbloxSessionMetrics \<Rightarrow> UbloxSessionMetrics) \<Rightarrow> UbloxSession \<Rightarrow> UbloxSession" where
  "count_in counter s = s\<lparr>us_metrics := counter (\<lambda>n. n + 1) (us_metrics s)\<rparr>"

section \<open>Routing\<close>

definition ublox_merge :: "GnssRuntimeState \<Rightarrow> UbloxSession \<Rightarrow> UbloxSession" where
  "ublox_merge update s =
     (let (a, applied) = Merge update (us_aggregator s);
          s1 = s\<lparr>us_aggregator := a\<rparr> in
      if applied then count_in um_runtime_updates_update s1 else s1)"

definition ublox_observe :: "GnssRuntimeState \<Rightarrow> ReceiverEpoch option \<Rightarrow> UbloxSession \<Rightarrow> UbloxSession" where
  "ublox_observe update epoch s =
     (let t = Observe update epoch (us_tracker s) in
      s\<lparr>us_tracker := t, us_metrics := (us_metrics s)\<lparr>um_position_payload_freshness := ft_metrics t\<rparr>\<rparr>)"

definition accepted :: "'r ParserResult \<Rightarrow> 'r option" where
  "accepted parsed = (if pr_status parsed = PS_kRecordReady then pr_record parsed else None)"

definition ParseAndMergeFrame ::
  "('f \<Rightarrow> 'r ParserResult) \<Rightarrow> ('r \<Rightarrow> GnssRuntimeState) \<Rightarrow> ('r \<Rightarrow> ReceiverEpoch option) \<Rightarrow> 'f \<Rightarrow> bool \<Rightarrow> UbloxSession \<Rightarrow> UbloxSession" where
  "ParseAndMergeFrame parse_fn map_fn epoch_for frame is_position_observation s =
     (case accepted (parse_fn frame) of
        None \<Rightarrow> count_in um_frames_rejected_update s
      | Some record \<Rightarrow>
          let s1 = count_in um_runtime_observations_update (count_in um_frames_parsed_update s);
              s2 = (if is_position_observation then count_in um_position_observations_update s1 else s1);
              update = map_fn record;
              s3 = (if is_position_observation then ublox_observe update (epoch_for record) s2 else s2) in
          ublox_merge update s3)"

definition utc_epoch :: "NmeaUtcTime option \<Rightarrow> ReceiverEpoch option" where
  "utc_epoch utc = (case utc of None \<Rightarrow> None | Some t \<Rightarrow> MakeUtcTimeOfDayEpoch (nt_hour t) (nt_minute t) (nt_second t))"

text \<open>A sentence of one type: its updates are used when the configuration enables them; \<open>epoch_for\<close> is given for the
  sentences that are position observations.\<close>

definition route_sentence ::
  "(NmeaSentence \<Rightarrow> 'r ParserResult) \<Rightarrow> ('r \<Rightarrow> GnssRuntimeState) \<Rightarrow> ('r \<Rightarrow> ReceiverEpoch option) option \<Rightarrow> NmeaSentence
     \<Rightarrow> UbloxSession \<Rightarrow> UbloxSession" where
  "route_sentence parse_fn map_fn epoch_for sentence s =
     (case accepted (parse_fn sentence) of
        None \<Rightarrow> count_in um_frames_rejected_update s
      | Some record \<Rightarrow>
          let enabled = uc_enable_nmea_runtime_updates (us_config s);
              s1 = count_in um_runtime_observations_update (count_in um_frames_parsed_update s);
              s2 = (if enabled \<and> epoch_for \<noteq> None then count_in um_position_observations_update s1 else s1);
              update = map_fn record;
              s3 = (case epoch_for of
                      Some epoch \<Rightarrow> if enabled then ublox_observe update (epoch record) s2 else s2
                    | None \<Rightarrow> s2) in
          if enabled then ublox_merge update s3 else s3)"

definition RouteNmeaSentence :: "NmeaSentence \<Rightarrow> UbloxSession \<Rightarrow> UbloxSession" where
  "RouteNmeaSentence sentence s =
     (if IsNmeaSentenceType sentence ''GGA'' then
        route_sentence ParseNmeaGga NmeaGgaToRuntimeState (Some (\<lambda>r. utc_epoch (gga_utc_time r))) sentence s
      else if IsNmeaSentenceType sentence ''RMC'' then
        route_sentence ParseNmeaRmc NmeaRmcToRuntimeState (Some (\<lambda>r. utc_epoch (rmc_utc_time r))) sentence s
      else if IsNmeaSentenceType sentence ''GSA'' then
        route_sentence ParseNmeaGsa NmeaGsaToRuntimeState None sentence s
      else if IsNmeaSentenceType sentence ''GSV'' then
        route_sentence ParseNmeaGsv (\<lambda>r. MergeNmeaGsvIntoRuntimeState r RuntimeState_default) None sentence s
      else if IsNmeaSentenceType sentence ''GST'' then
        route_sentence ParseNmeaGst NmeaGstToRuntimeState None sentence s
      else count_in um_unknown_frames_update s)"

definition route_rxm_rtcm :: "UbxFrame \<Rightarrow> UbloxSession \<Rightarrow> UbloxSession" where
  "route_rxm_rtcm frame s =
     (case accepted (ParseUbxRxmRtcm frame) of
        None \<Rightarrow> count_in um_frames_rejected_update s
      | Some record \<Rightarrow>
          let s1 = count_in um_receiver_rtcm_messages_seen_update (count_in um_frames_parsed_update s);
              s2 = s1\<lparr>us_metrics := (us_metrics s1)\<lparr>um_last_receiver_rtcm_message_type := Some (rx_message_type record)\<rparr>\<rparr> in
          if rx_crc_failed record then count_in um_receiver_rtcm_crc_failed_update s2
          else
            (case rx_message_use record of
               UM_kUsed \<Rightarrow> count_in um_receiver_rtcm_messages_used_update s2
             | UM_kNotUsed \<Rightarrow> count_in um_receiver_rtcm_messages_not_used_update s2
             | UM_kUnknown \<Rightarrow> s2))"

definition RouteUbxFrame :: "UbxFrame \<Rightarrow> UbloxSession \<Rightarrow> UbloxSession" where
  "RouteUbxFrame frame s =
     (let is_message = (\<lambda>c m. ubx_class_id frame = c \<and> ubx_message_id frame = m) in
      if is_message 0x01 0x07 then
        ParseAndMergeFrame ParseUbxNavPvt UbxNavPvtToRuntimeState (\<lambda>r. Some (MakeGpsTowEpoch (np_i_tow_ms r))) frame True s
      else if is_message 0x01 0x35 then
        ParseAndMergeFrame ParseUbxNavSat UbxNavSatToRuntimeState (\<lambda>r. None) frame False s
      else if is_message 0x01 0x03 then
        ParseAndMergeFrame ParseUbxNavStatus UbxNavStatusToRuntimeState (\<lambda>r. None) frame False s
      else if is_message 0x01 0x04 then
        ParseAndMergeFrame ParseUbxNavDop UbxNavDopToRuntimeState (\<lambda>r. None) frame False s
      else if is_message 0x0A 0x09 then
        ParseAndMergeFrame ParseUbxMonHw UbxMonHwToRuntimeState (\<lambda>r. None) frame False s
      else if is_message 0x0A 0x0B then
        (case accepted (ParseUbxMonHw2 frame) of
           None \<Rightarrow> count_in um_frames_rejected_update s
         | Some record \<Rightarrow> count_in um_frames_parsed_update s)
      else if is_message 0x02 0x32 then route_rxm_rtcm frame s
      else if is_message 0x0A 0x38 then
        ParseAndMergeFrame ParseUbxMonRf UbxMonRfToRuntimeState (\<lambda>r. None) frame False s
      else count_in um_unknown_frames_update s)"

definition RouteRtcmFrame :: "RtcmFrame \<Rightarrow> UbloxSession \<Rightarrow> UbloxSession" where
  "RouteRtcmFrame frame s =
     (case accepted (ParseRtcmMessageInfo frame) of
        None \<Rightarrow> count_in um_frames_rejected_update s
      | Some info \<Rightarrow>
          let s1 = count_in um_frames_parsed_update s;
              counts = um_rtcm_message_type_counts (us_metrics s1);
              n = (case counts (mi_message_type info) of None \<Rightarrow> 0 | Some k \<Rightarrow> k) in
          s1\<lparr>us_metrics := (us_metrics s1)\<lparr>um_rtcm_message_type_counts := counts(mi_message_type info \<mapsto> n + 1)\<rparr>\<rparr>)"

section \<open>Consuming the buffer\<close>

definition deliver_checked ::
  "((u64 \<Rightarrow> u64) \<Rightarrow> UbloxSessionMetrics \<Rightarrow> UbloxSessionMetrics) \<Rightarrow> ('r \<Rightarrow> ChecksumStatus) \<Rightarrow> ('r \<Rightarrow> UbloxSession \<Rightarrow> UbloxSession)
     \<Rightarrow> 'r \<Rightarrow> UbloxSession \<Rightarrow> UbloxSession" where
  "deliver_checked seen checksum route r s =
     (let s1 = count_in seen s in
      if checksum r \<noteq> CS_kValid then count_in um_malformed_frames_update s1 else route r s1)"

definition ConsumeNmeaAtOffset :: "bool \<Rightarrow> UbloxSession \<Rightarrow> stamped list \<Rightarrow> UbloxSession \<times> nat \<times> bool" where
  "ConsumeNmeaAtOffset finalizing s bytes =
     consume_probe (deliver_checked um_nmea_sentences_seen_update nmea_checksum_status RouteNmeaSentence)
       (count_in um_malformed_frames_update) (\<lambda>probe r. length (nmea_raw_bytes r)) finalizing
       (ProbeAtOffset nmea_PushByte nmea_Finalize (nmea_new (uc_max_nmea_sentence_length_bytes (us_config s))) bytes 0)
       s bytes"

definition ConsumeUbxAtOffset :: "bool \<Rightarrow> UbloxSession \<Rightarrow> stamped list \<Rightarrow> UbloxSession \<times> nat \<times> bool" where
  "ConsumeUbxAtOffset finalizing s bytes =
     consume_probe (deliver_checked um_ubx_frames_seen_update ubx_checksum_status RouteUbxFrame)
       (count_in um_malformed_frames_update) (\<lambda>probe r. length (ubx_raw_bytes r)) finalizing
       (ProbeAtOffset ubx_PushByte ubx_Finalize (ubx_new (uc_max_ubx_frame_length_bytes (us_config s))) bytes 0)
       s bytes"

definition ConsumeRtcmAtOffset :: "bool \<Rightarrow> UbloxSession \<Rightarrow> stamped list \<Rightarrow> UbloxSession \<times> nat \<times> bool" where
  "ConsumeRtcmAtOffset finalizing s bytes =
     consume_probe (deliver_checked um_rtcm_frames_seen_update rtcm_checksum_status RouteRtcmFrame)
       (count_in um_malformed_frames_update) (\<lambda>probe r. length (rtcm_raw_bytes r)) finalizing
       (ProbeAtOffset rtcm_PushByte rtcm_Finalize (rtcm_new (uc_max_rtcm_frame_length_bytes (us_config s))) bytes 0)
       s bytes"

text \<open>One iteration of the loop of \<open>ProcessBufferedData\<close>: the first byte chooses the protocol; any other is noise.\<close>

definition ublox_consume :: "bool \<Rightarrow> UbloxSession \<Rightarrow> stamped list \<Rightarrow> UbloxSession \<times> nat \<times> bool" where
  "ublox_consume finalizing s bytes =
     (let byte = fst (hd bytes) in
      if byte = 0x24 \<or> byte = 0x21 then ConsumeNmeaAtOffset finalizing s bytes
      else if byte = 0xB5 then ConsumeUbxAtOffset finalizing s bytes
      else if byte = 0xD3 then ConsumeRtcmAtOffset finalizing s bytes
      else (s, 1, False))"

definition ProcessBufferedData :: "bool \<Rightarrow> UbloxSession \<Rightarrow> UbloxSession" where
  "ProcessBufferedData finalizing s =
     (let (s1, kept) = process_buffer (ublox_consume finalizing) s (us_buffer s) in s1\<lparr>us_buffer := kept\<rparr>)"

definition ublox_FeedBytes :: "bytes \<Rightarrow> timestamp_ns option \<Rightarrow> UbloxSession \<Rightarrow> UbloxSession" where
  "ublox_FeedBytes data timestamp s =
     (if data = [] then s
      else
        ProcessBufferedData False
          (s\<lparr>us_metrics := (us_metrics s)\<lparr>um_bytes_seen := um_bytes_seen (us_metrics s) + of_nat (length data)\<rparr>,
             us_buffer := us_buffer s @ map (\<lambda>b. (b, timestamp)) data\<rparr>))"

definition ublox_Finalize :: "UbloxSession \<Rightarrow> UbloxSession" where
  "ublox_Finalize s = ProcessBufferedData True s"

end
