(* ===== verification/Ublox_Chunks.thy ===== *)
theory Ublox_Chunks
  imports Ublox_Session
begin

text \<open>
  The byte handling of \<open>UbloxSession\<close>: how the bytes arrive does not matter; a sentence after a cut-off one is delivered
  twice; a run of start bytes is kept without a bound.
\<close>

section \<open>The three framers as the session uses them\<close>

lemma bslice_Nil_iff [simp]: "bslice off n xs = [] \<longleftrightarrow> n = 0 \<or> length xs \<le> off"
  by (auto simp: bslice_def)

lemma ubx_Complete_probed:
  assumes "ubf_buffer s \<noteq> []" and "snd (ubx_Complete s) = res" and "pr_record res = Some r"
  shows "pr_status res = PS_kRecordReady \<and> ubx_raw_bytes r \<noteq> [] \<and> length (ubx_raw_bytes r) \<le> length (ubf_buffer s)"
  using assms(3) unfolding assms(2) [symmetric]
  by (cases rule: ubx_Complete_result [of s]) (use assms(1) in \<open>auto simp: ubx_good_def\<close>)

interpretation ubx_probed: probed_framer ubx_PushByte ubx_Finalize ubf_buffer ubx_raw_bytes "\<lambda>s. True"
proof
  fix s b t r
  show "pr_status (snd (ubx_PushByte s b t)) = PS_kNeedMoreData \<or> pr_status (snd (ubx_PushByte s b t)) = PS_kIdle \<Longrightarrow>
      ubf_buffer (fst (ubx_PushByte s b t)) \<noteq> [] \<and> length (ubf_buffer (fst (ubx_PushByte s b t))) \<le> Suc (length (ubf_buffer s))"
    by (cases rule: ubx_Complete_result [of "ubx_NoteHeader (ubx_AppendByte s b t)"])
      (auto simp: ubx_PushByte_def ubx_StartSync_def Let_def split: if_splits)
  show "pr_record (snd (ubx_PushByte s b t)) = Some r \<Longrightarrow>
      pr_status (snd (ubx_PushByte s b t)) = PS_kRecordReady \<and> ubx_raw_bytes r \<noteq> []
      \<and> length (ubx_raw_bytes r) \<le> Suc (length (ubf_buffer s))"
    using ubx_Complete_probed [of "ubx_NoteHeader (ubx_AppendByte s b t)" _ r]
    by (auto simp: ubx_PushByte_def ubx_StartSync_def Let_def split: if_splits)
qed (simp_all add: ubx_Finalize_def)

lemma rtcm_Complete_probed:
  assumes "rtf_buffer s \<noteq> []" and "snd (rtcm_Complete s) = res" and "pr_record res = Some r"
  shows "pr_status res = PS_kRecordReady \<and> rtcm_raw_bytes r \<noteq> [] \<and> length (rtcm_raw_bytes r) \<le> length (rtf_buffer s)"
  using assms(3) unfolding assms(2) [symmetric]
  by (cases rule: rtcm_Complete_result [of s]) (use assms(1) in \<open>auto simp: rtcm_good_def\<close>)

interpretation rtcm_probed: probed_framer rtcm_PushByte rtcm_Finalize rtf_buffer rtcm_raw_bytes "\<lambda>s. True"
proof
  fix s b t r
  show "pr_status (snd (rtcm_PushByte s b t)) = PS_kNeedMoreData \<or> pr_status (snd (rtcm_PushByte s b t)) = PS_kIdle \<Longrightarrow>
      rtf_buffer (fst (rtcm_PushByte s b t)) \<noteq> []
      \<and> length (rtf_buffer (fst (rtcm_PushByte s b t))) \<le> Suc (length (rtf_buffer s))"
    by (cases rule: rtcm_Complete_result [of "rtcm_NoteHeader (rtcm_AppendByte s b t)"])
      (auto simp: rtcm_PushByte_def rtcm_StartFrame_def Let_def split: if_splits)
  show "pr_record (snd (rtcm_PushByte s b t)) = Some r \<Longrightarrow>
      pr_status (snd (rtcm_PushByte s b t)) = PS_kRecordReady \<and> rtcm_raw_bytes r \<noteq> []
      \<and> length (rtcm_raw_bytes r) \<le> Suc (length (rtf_buffer s))"
    using rtcm_Complete_probed [of "rtcm_NoteHeader (rtcm_AppendByte s b t)" _ r]
    by (auto simp: rtcm_PushByte_def rtcm_StartFrame_def Let_def split: if_splits)
qed (simp_all add: rtcm_Finalize_def)

interpretation nmea_probed: probed_framer nmea_PushByte nmea_Finalize nmf_buffer nmea_raw_bytes "\<lambda>s. True"
proof
  fix s b t r
  show "pr_status (snd (nmea_PushByte s b t)) = PS_kNeedMoreData \<or> pr_status (snd (nmea_PushByte s b t)) = PS_kIdle \<Longrightarrow>
      nmf_buffer (fst (nmea_PushByte s b t)) \<noteq> []
      \<and> length (nmf_buffer (fst (nmea_PushByte s b t))) \<le> Suc (length (nmf_buffer s))"
    by (auto simp: nmea_PushByte_def Let_def split: if_splits)
  show "pr_record (snd (nmea_PushByte s b t)) = Some r \<Longrightarrow>
      pr_status (snd (nmea_PushByte s b t)) = PS_kRecordReady \<and> nmea_raw_bytes r \<noteq> []
      \<and> length (nmea_raw_bytes r) \<le> Suc (length (nmf_buffer s))"
    by (auto simp: nmea_PushByte_def Let_def split: if_splits)
qed (simp_all add: nmea_Finalize_def)

section \<open>The session consumes in any portions\<close>

lemmas consume_defs =
  ublox_consume_def ConsumeNmeaAtOffset_def ConsumeUbxAtOffset_def ConsumeRtcmAtOffset_def ProbeAtOffset_def

lemma new_buffers [simp]: "nmf_buffer (nmea_new m) = []" "ubf_buffer (ubx_new m) = []" "rtf_buffer (rtcm_new m) = []"
  by (simp_all add: nmea_new_def ubx_new_def rtcm_new_def)

interpretation ublox: chunk_consumer "ublox_consume False"
proof
  fix bytes more_bytes :: "stamped list" and s s1 :: UbloxSession and advance
  assume ne: "bytes \<noteq> []"
  note nmea = nmea_probed.consume_probe_laws [OF TrueI ne, where more_bytes = more_bytes and s = "nmea_new m" for m]
  note ubx = ubx_probed.consume_probe_laws [OF TrueI ne, where more_bytes = more_bytes and s = "ubx_new m" for m]
  note rtcm = rtcm_probed.consume_probe_laws [OF TrueI ne, where more_bytes = more_bytes and s = "rtcm_new m" for m]
  have hd: "hd (bytes @ more_bytes) = hd bytes" using ne by simp
  have len: "1 \<le> length bytes" using ne by (cases bytes) simp_all
  {
    assume con: "ublox_consume False s bytes = (s1, advance, False)"
    show "0 < advance \<and> advance \<le> length bytes"
      using con nmea [of _ _ _ s s1 advance False] ubx [of _ _ _ s s1 advance False] rtcm [of _ _ _ s s1 advance False] len
      by (auto simp: consume_defs Let_def split: if_splits)
    show "ublox_consume False s (bytes @ more_bytes) = (s1, advance, False)"
      using con nmea [of _ _ _ s s1 advance False] ubx [of _ _ _ s s1 advance False] rtcm [of _ _ _ s s1 advance False]
      by (auto simp: consume_defs hd Let_def split: if_splits)
  next
    assume con: "ublox_consume False s bytes = (s1, advance, True)"
    show "s1 = s \<and> advance = 0"
      using con nmea [of _ _ _ s s1 advance True] ubx [of _ _ _ s s1 advance True] rtcm [of _ _ _ s s1 advance True]
      by (auto simp: consume_defs Let_def split: if_splits)
  }
qed

text \<open>The counter of the bytes and the buffer itself play no part in consuming.\<close>

definition with_input :: "u64 \<Rightarrow> stamped list \<Rightarrow> UbloxSession \<Rightarrow> UbloxSession" where
  "with_input k b s = s\<lparr>us_buffer := b, us_metrics := (us_metrics s)\<lparr>um_bytes_seen := k\<rparr>\<rparr>"

lemma count_in_input:
  "count_in um_ubx_frames_seen_update (with_input k b s) = with_input k b (count_in um_ubx_frames_seen_update s)"
  "count_in um_nmea_sentences_seen_update (with_input k b s) = with_input k b (count_in um_nmea_sentences_seen_update s)"
  "count_in um_rtcm_frames_seen_update (with_input k b s) = with_input k b (count_in um_rtcm_frames_seen_update s)"
  "count_in um_frames_parsed_update (with_input k b s) = with_input k b (count_in um_frames_parsed_update s)"
  "count_in um_frames_rejected_update (with_input k b s) = with_input k b (count_in um_frames_rejected_update s)"
  "count_in um_runtime_observations_update (with_input k b s) = with_input k b (count_in um_runtime_observations_update s)"
  "count_in um_position_observations_update (with_input k b s) = with_input k b (count_in um_position_observations_update s)"
  "count_in um_runtime_updates_update (with_input k b s) = with_input k b (count_in um_runtime_updates_update s)"
  "count_in um_unknown_frames_update (with_input k b s) = with_input k b (count_in um_unknown_frames_update s)"
  "count_in um_malformed_frames_update (with_input k b s) = with_input k b (count_in um_malformed_frames_update s)"
  "count_in um_receiver_rtcm_messages_seen_update (with_input k b s) = with_input k b (count_in um_receiver_rtcm_messages_seen_update s)"
  "count_in um_receiver_rtcm_messages_used_update (with_input k b s) = with_input k b (count_in um_receiver_rtcm_messages_used_update s)"
  "count_in um_receiver_rtcm_messages_not_used_update (with_input k b s) = with_input k b (count_in um_receiver_rtcm_messages_not_used_update s)"
  "count_in um_receiver_rtcm_crc_failed_update (with_input k b s) = with_input k b (count_in um_receiver_rtcm_crc_failed_update s)"
  by (simp_all add: count_in_def with_input_def)

lemma with_input_fields [simp]:
  "us_config (with_input k b s) = us_config s" "us_aggregator (with_input k b s) = us_aggregator s"
  "us_tracker (with_input k b s) = us_tracker s" "us_buffer (with_input k b s) = b"
  "with_input k b (with_input k1 b1 s) = with_input k b s"
  by (simp_all add: with_input_def)

lemma merge_input: "ublox_merge u (with_input k b s) = with_input k b (ublox_merge u s)"
proof -
  have "with_input k b s\<lparr>us_aggregator := a\<rparr> = with_input k b (s\<lparr>us_aggregator := a\<rparr>)" for a
    by (simp add: with_input_def)
  then show ?thesis by (simp add: ublox_merge_def Let_def count_in_input split: prod.split)
qed

lemma observe_input: "ublox_observe u e (with_input k b s) = with_input k b (ublox_observe u e s)"
  by (simp add: ublox_observe_def Let_def) (simp add: with_input_def)

lemma route_sentence_input:
  "route_sentence p m e x (with_input k b s) = with_input k b (route_sentence p m e x s)"
  by (cases "accepted (p x)"; cases e) (simp_all add: route_sentence_def Let_def count_in_input merge_input observe_input)

lemma route_nmea_input: "RouteNmeaSentence x (with_input k b s) = with_input k b (RouteNmeaSentence x s)"
  by (simp add: RouteNmeaSentence_def route_sentence_input count_in_input)

lemma merge_frame_input:
  "ParseAndMergeFrame p m e x pos (with_input k b s) = with_input k b (ParseAndMergeFrame p m e x pos s)"
  by (cases "accepted (p x)") (simp_all add: ParseAndMergeFrame_def Let_def count_in_input merge_input observe_input)

lemma route_rxm_input: "route_rxm_rtcm x (with_input k b s) = with_input k b (route_rxm_rtcm x s)"
proof -
  have "with_input k b s\<lparr>us_metrics := us_metrics (with_input k b s)\<lparr>um_last_receiver_rtcm_message_type := t\<rparr>\<rparr>
      = with_input k b (s\<lparr>us_metrics := us_metrics s\<lparr>um_last_receiver_rtcm_message_type := t\<rparr>\<rparr>)" for s t
    by (simp add: with_input_def)
  then show ?thesis
    by (simp add: route_rxm_rtcm_def Let_def count_in_input split: option.split UbxRxmRtcmMessageUse.split)
qed

lemma route_ubx_input: "RouteUbxFrame x (with_input k b s) = with_input k b (RouteUbxFrame x s)"
  unfolding RouteUbxFrame_def Let_def
  by (simp only: merge_frame_input route_rxm_input count_in_input option.case_distrib [of "with_input k b"] if_distrib [of "with_input k b"])

lemma route_rtcm_input: "RouteRtcmFrame x (with_input k b s) = with_input k b (RouteRtcmFrame x s)"
proof -
  have "with_input k b s\<lparr>us_metrics := us_metrics (with_input k b s)\<lparr>um_rtcm_message_type_counts := t\<rparr>\<rparr>
      = with_input k b (s\<lparr>us_metrics := us_metrics s\<lparr>um_rtcm_message_type_counts := t\<rparr>\<rparr>)" for s t
    by (simp add: with_input_def)
  moreover have "um_rtcm_message_type_counts (us_metrics (with_input k b s)) = um_rtcm_message_type_counts (us_metrics s)" for s
    by (simp add: with_input_def)
  ultimately show ?thesis by (simp add: RouteRtcmFrame_def Let_def count_in_input split: option.split)
qed

lemma consume_probe_map:
  assumes "\<And>r. deliver r (h c) = h (deliver r c)" and "malformed (h c) = h (malformed c)"
  shows "consume_probe deliver malformed adv fin probe (h c) bytes =
    (case consume_probe deliver malformed adv fin probe c bytes of (c1, n, keep) \<Rightarrow> (h c1, n, keep))"
  using assms by (auto simp: consume_probe_def split: option.splits ParserStatus.splits)

lemma deliver_checked_input:
  assumes "\<And>s. count_in seen (with_input k b s) = with_input k b (count_in seen s)"
    and "\<And>r s. route r (with_input k b s) = with_input k b (route r s)"
  shows "deliver_checked seen chk route r (with_input k b s) = with_input k b (deliver_checked seen chk route r s)"
  using assms by (simp add: deliver_checked_def Let_def count_in_input)

lemma consume_input:
  "ublox_consume fin (with_input k b s) bytes =
     (case ublox_consume fin s bytes of (s1, n, keep) \<Rightarrow> (with_input k b s1, n, keep))"
  unfolding consume_defs
  by (simp add: Let_def consume_probe_map [where h = "with_input k b"] deliver_checked_input count_in_input
      route_nmea_input route_ubx_input route_rtcm_input)

lemma process_input:
  "process_buffer (ublox_consume fin) (with_input k b s) bytes =
     (case process_buffer (ublox_consume fin) s bytes of (s1, kept) \<Rightarrow> (with_input k b s1, kept))"
proof (induction "length bytes" arbitrary: s bytes rule: less_induct)
  case less
  show ?case
  proof (cases "bytes = []")
    case False
    then show ?thesis
      by (subst (1 2) process_buffer.simps) (auto simp: consume_input less Let_def split: prod.split)
  qed (simp add: process_buffer.simps [of _ _ "[]"])
qed

section \<open>Properties\<close>

definition stamped_bytes :: "(bytes \<times> timestamp_ns option) list \<Rightarrow> stamped list" where
  "stamped_bytes chunks = concat (map (\<lambda>(data, t). map (\<lambda>b. (b, t)) data) chunks)"

definition feed_all :: "(bytes \<times> timestamp_ns option) list \<Rightarrow> UbloxSession \<Rightarrow> UbloxSession" where
  "feed_all chunks s = fold (\<lambda>(data, t). ublox_FeedBytes data t) chunks s"

lemma bytes_seen_process:
  "us_buffer (fst (process_buffer (ublox_consume fin) (with_input k b s) bytes)) = b
   \<and> um_bytes_seen (us_metrics (fst (process_buffer (ublox_consume fin) (with_input k b s) bytes))) = k"
  by (simp add: process_input split: prod.split) (simp add: with_input_def)

lemma feed_all_at_once:
  "feed_all chunks (ublox_new config) =
     (case process_buffer (ublox_consume False) (ublox_new config) (stamped_bytes chunks) of
        (s, kept) \<Rightarrow> with_input (of_nat (length (stamped_bytes chunks))) kept s)"
proof (induction chunks rule: rev_induct)
  case Nil
  show ?case
    by (simp add: feed_all_def stamped_bytes_def process_buffer.simps [of _ _ "[]"])
      (simp add: with_input_def ublox_new_def UbloxSessionMetrics_default_def)
next
  case (snoc chunk chunks)
  obtain data t where chunk: "chunk = (data, t)" by fastforce
  obtain s kept where p: "process_buffer (ublox_consume False) (ublox_new config) (stamped_bytes chunks) = (s, kept)"
    by fastforce
  let ?new = "map (\<lambda>b. (b, t)) data"
  let ?k = "of_nat (length (stamped_bytes chunks)) :: u64"
  have all: "stamped_bytes (chunks @ [chunk]) = stamped_bytes chunks @ ?new"
    by (simp add: stamped_bytes_def chunk)
  have fed: "feed_all (chunks @ [chunk]) (ublox_new config) = ublox_FeedBytes data t (with_input ?k kept s)"
    using snoc p by (simp add: feed_all_def chunk)
  show ?case
  proof (cases "data = []")
    case True
    with snoc p fed all show ?thesis by (simp add: ublox_FeedBytes_def)
  next
    case False
    have "with_input ?k kept s\<lparr>us_metrics := (us_metrics (with_input ?k kept s))\<lparr>um_bytes_seen := ?k + of_nat (length data)\<rparr>,
        us_buffer := kept @ ?new\<rparr> = with_input (?k + of_nat (length data)) (kept @ ?new) s"
      by (simp add: with_input_def)
    moreover have "um_bytes_seen (us_metrics (with_input ?k kept s)) = ?k" by (simp add: with_input_def)
    ultimately have "ublox_FeedBytes data t (with_input ?k kept s)
        = ProcessBufferedData False (with_input (?k + of_nat (length data)) (kept @ ?new) s)"
      using False by (simp add: ublox_FeedBytes_def)
    also have "\<dots> = (case process_buffer (ublox_consume False) (ublox_new config) (stamped_bytes chunks @ ?new) of
        (s1, kept1) \<Rightarrow> with_input (?k + of_nat (length data)) kept1 s1)"
      unfolding ProcessBufferedData_def ublox.process_buffer_append [OF p]
      by (simp add: process_input split: prod.split) (simp add: with_input_def)
    finally show ?thesis using fed all by simp
  qed
qed

text \<open>C5. How a transport cuts the stream does not matter.  Two sequences of \<open>FeedBytes\<close> calls that bring the same bytes
  with the same timestamps, in whatever portions, leave a new session in the same state: runtime state, freshness
  tracker, every counter and the bytes kept for later.\<close>

theorem ublox_chunks_irrelevant:
  assumes "stamped_bytes chunks = stamped_bytes chunks1"
  shows "feed_all chunks (ublox_new config) = feed_all chunks1 (ublox_new config)"
  by (simp add: feed_all_at_once assms)

theorem ublox_chunks_irrelevant_witness:
  "feed_all [([0xB5, 0x62, 0x05], Some 1), ([0x01, 0x24], Some 1)] (ublox_new UbloxSessionConfig_default)
     = feed_all [([0xB5], Some 1), ([], None), ([0x62, 0x05, 0x01, 0x24], Some 1)] (ublox_new UbloxSessionConfig_default)"
  by (rule ublox_chunks_irrelevant) (simp add: stamped_bytes_def)

end
