(* ===== verification/Ublox_Streams.thy ===== *)
theory Ublox_Streams
  imports Ublox_Session
begin

text \<open>
  What \<open>UbloxSession\<close> makes of NMEA text: clean sentences are delivered once each and in order; after a cut-off sentence
  the next one may be delivered twice; a run of start bytes is kept without a bound.
\<close>

section \<open>The probe on text\<close>

abbreviation nmea_probe :: "NmeaSentenceFramer \<Rightarrow> stamped list \<Rightarrow> nat \<Rightarrow> NmeaSentence ProbeResult" where
  "nmea_probe \<equiv> probe_loop nmea_PushByte nmea_Finalize"

definition stamp_all :: "bytes \<Rightarrow> timestamp_ns option \<Rightarrow> stamped list" where
  "stamp_all data t = map (\<lambda>b. (b, t)) data"

lemma stamp_all_simps [simp]:
  "stamp_all [] t = []" "stamp_all (b # data) t = (b, t) # stamp_all data t"
  "stamp_all (xs @ ys) t = stamp_all xs t @ stamp_all ys t" "length (stamp_all data t) = length data"
  by (simp_all add: stamp_all_def)

lemma nmea_probe_inner:
  assumes "nmf_buffer s \<noteq> []" and "nmea_inner xs" and "length (nmf_buffer s) + length xs \<le> nmf_max_frame_length s"
  shows "nmea_probe s (stamp_all xs t @ rest) n = nmea_probe (s\<lparr>nmf_buffer := nmf_buffer s @ xs\<rparr>) rest (n + length xs)"
  using assms
proof (induction xs arbitrary: s n)
  case (Cons b xs)
  from Cons.prems(2) have "\<not> nmea_leader_byte b" "b \<noteq> 0x0A" "nmea_inner xs" by (simp_all add: nmea_inner_def)
  with Cons.prems(1,3) Cons.IH [of "s\<lparr>nmf_buffer := nmf_buffer s @ [b]\<rparr>" "n + 1"]
  show ?case by (simp add: nmea_PushByte_def Let_def)
qed simp

lemma nmea_probe_leader:
  "nmea_leader_byte b \<Longrightarrow> nmea_probe s ((b, t) # rest) n
     = nmea_probe (s\<lparr>nmf_buffer := [b], nmf_frame_timestamp_ns := t\<rparr>) rest (n + 1)"
  by (simp add: nmea_PushByte_def)

lemma nmea_probe_sentence:
  assumes "nmea_good (nmf_max_frame_length s) w"
  shows "nmea_probe s (stamp_all w t @ rest) n
    = \<lparr>pb_status = PS_kRecordReady, pb_record = Some (nmea_BuildSentence w t), pb_bytes_consumed = n + length w\<rparr>"
proof -
  let ?inner = "butlast (tl w)"
  from assms have w: "2 \<le> length w" "length w \<le> nmf_max_frame_length s" "nmea_leader_byte (hd w)" "last w = 0x0A"
    "nmea_inner ?inner" by (simp_all add: nmea_good_def)
  from w(1) have split: "w = hd w # ?inner @ [last w]"
    by (cases w) (auto simp: Suc_le_eq last_tl)
  from w(1) have len: "length ?inner = length w - 2" by simp
  let ?s = "s\<lparr>nmf_buffer := [hd w], nmf_frame_timestamp_ns := t\<rparr>"
  have "nmea_probe s (stamp_all w t @ rest) n = nmea_probe ?s (stamp_all ?inner t @ (last w, t) # rest) (n + 1)"
    by (subst (1) split) (simp add: nmea_probe_leader [OF w(3)] del: probe_loop.simps)
  also have "\<dots> = nmea_probe (?s\<lparr>nmf_buffer := hd w # ?inner\<rparr>) ((last w, t) # rest) (n + 1 + length ?inner)"
    using nmea_probe_inner [of ?s ?inner t "(last w, t) # rest" "n + 1"] w(1,2,5) by (simp del: probe_loop.simps)
  also have "\<dots> = \<lparr>pb_status = PS_kRecordReady, pb_record = Some (nmea_BuildSentence w t), pb_bytes_consumed = n + length w\<rparr>"
    using w(1,2,4) len split by (simp add: nmea_PushByte_def Let_def)
  finally show ?thesis .
qed

text \<open>A sentence that was cut off: a leader and some text, without the line feed.\<close>

definition cut_off :: "bytes \<Rightarrow> bool" where
  "cut_off g \<longleftrightarrow> g \<noteq> [] \<and> nmea_leader_byte (hd g) \<and> nmea_inner (tl g)"

lemma nmea_probe_cut_off:
  assumes "cut_off g" and "length g \<le> nmf_max_frame_length s" and "nmea_good (nmf_max_frame_length s) w"
  shows "nmea_probe s (stamp_all g t @ stamp_all w t1 @ rest) n
    = \<lparr>pb_status = PS_kRecordReady, pb_record = Some (nmea_BuildSentence w t1),
       pb_bytes_consumed = n + length g + length w\<rparr>"
proof -
  from assms(1) obtain b inner where g: "g = b # inner" "nmea_leader_byte b" "nmea_inner inner"
    by (cases g) (auto simp: cut_off_def)
  let ?s = "s\<lparr>nmf_buffer := [b], nmf_frame_timestamp_ns := t\<rparr>"
  have "nmea_probe s (stamp_all g t @ stamp_all w t1 @ rest) n
      = nmea_probe ?s (stamp_all inner t @ stamp_all w t1 @ rest) (n + 1)"
    by (simp add: g(1) nmea_probe_leader [OF g(2)] del: probe_loop.simps)
  also have "\<dots> = nmea_probe (?s\<lparr>nmf_buffer := [b] @ inner\<rparr>) (stamp_all w t1 @ rest) (n + 1 + length inner)"
    using nmea_probe_inner [of ?s inner t "stamp_all w t1 @ rest" "n + 1"] g assms(2) by simp
  also have "\<dots> = \<lparr>pb_status = PS_kRecordReady, pb_record = Some (nmea_BuildSentence w t1),
       pb_bytes_consumed = n + length g + length w\<rparr>"
    using assms(3) by (simp add: nmea_probe_sentence g(1))
  finally show ?thesis .
qed

section \<open>The session on text\<close>

definition deliver_sentence :: "bytes \<Rightarrow> timestamp_ns option \<Rightarrow> UbloxSession \<Rightarrow> UbloxSession" where
  "deliver_sentence w t s =
     deliver_checked um_nmea_sentences_seen_update nmea_checksum_status RouteNmeaSentence (nmea_BuildSentence w t) s"

lemma nmea_new_max [simp]: "nmf_max_frame_length (nmea_new m) = m"
  by (simp add: nmea_new_def)

abbreviation nmea_limit :: "UbloxSession \<Rightarrow> nat" where
  "nmea_limit s \<equiv> uc_max_nmea_sentence_length_bytes (us_config s)"

lemma process_sentence:
  assumes "nmea_good (nmea_limit s) w"
  shows "process_buffer (ublox_consume fin) s (stamp_all w t @ rest)
    = process_buffer (ublox_consume fin) (deliver_sentence w t s) rest"
proof -
  from assms have "0 < length w" "w \<noteq> []" "nmea_leader_byte (hd w)" by (auto simp: nmea_good_def)
  moreover from this have "fst (hd (stamp_all w t @ rest)) = hd w" by (cases w) simp_all
  ultimately have "ublox_consume fin s (stamp_all w t @ rest) = (deliver_sentence w t s, length w, False)"
    using assms by (simp add: ublox_consume_def ConsumeNmeaAtOffset_def ProbeAtOffset_def nmea_probe_sentence
        consume_probe_def deliver_sentence_def)
  with \<open>0 < length w\<close> show ?thesis
    by (subst process_buffer.simps) (auto simp: stamp_all_def)
qed

lemma process_cut_off:
  assumes "cut_off g" and "length g = length w" and "nmea_good (nmea_limit s) w"
  shows "process_buffer (ublox_consume fin) s (stamp_all g t @ stamp_all w t @ rest)
    = process_buffer (ublox_consume fin) (deliver_sentence w t s) (stamp_all w t @ rest)"
proof -
  from assms(1) have "g \<noteq> []" "nmea_leader_byte (hd g)" by (auto simp: cut_off_def)
  moreover from this have "fst (hd (stamp_all g t @ stamp_all w t @ rest)) = hd g" by (cases g) simp_all
  moreover have "length g \<le> nmea_limit s" using assms(2,3) by (simp add: nmea_good_def)
  ultimately have "ublox_consume fin s (stamp_all g t @ stamp_all w t @ rest) = (deliver_sentence w t s, length g, False)"
    using assms by (simp add: ublox_consume_def ConsumeNmeaAtOffset_def ProbeAtOffset_def nmea_probe_cut_off
        consume_probe_def deliver_sentence_def)
  with \<open>g \<noteq> []\<close> show ?thesis
    by (subst process_buffer.simps) (auto simp: stamp_all_def)
qed

lemma count_in_config [simp]: "us_config (count_in f s) = us_config s" "us_buffer (count_in f s) = us_buffer s"
  by (simp_all add: count_in_def)

lemma merge_config [simp]: "us_config (ublox_merge u s) = us_config s" "us_buffer (ublox_merge u s) = us_buffer s"
  by (simp_all add: ublox_merge_def Let_def split: prod.split)

lemma observe_config [simp]: "us_config (ublox_observe u e s) = us_config s" "us_buffer (ublox_observe u e s) = us_buffer s"
  by (simp_all add: ublox_observe_def Let_def)

lemma route_sentence_config [simp]:
  "us_config (route_sentence p m e x s) = us_config s" "us_buffer (route_sentence p m e x s) = us_buffer s"
  by (simp_all add: route_sentence_def Let_def split: option.split)

lemma deliver_sentence_config [simp]:
  "us_config (deliver_sentence w t s) = us_config s" "us_buffer (deliver_sentence w t s) = us_buffer s"
  by (simp_all add: deliver_sentence_def deliver_checked_def RouteNmeaSentence_def Let_def)

abbreviation sentences_seen :: "UbloxSession \<Rightarrow> u64" where
  "sentences_seen s \<equiv> um_nmea_sentences_seen (us_metrics s)"

lemma count_in_seen [simp]:
  "sentences_seen (count_in um_nmea_sentences_seen_update s) = sentences_seen s + 1"
  "sentences_seen (count_in um_frames_parsed_update s) = sentences_seen s"
  "sentences_seen (count_in um_frames_rejected_update s) = sentences_seen s"
  "sentences_seen (count_in um_runtime_observations_update s) = sentences_seen s"
  "sentences_seen (count_in um_position_observations_update s) = sentences_seen s"
  "sentences_seen (count_in um_runtime_updates_update s) = sentences_seen s"
  "sentences_seen (count_in um_unknown_frames_update s) = sentences_seen s"
  "sentences_seen (count_in um_malformed_frames_update s) = sentences_seen s"
  by (simp_all add: count_in_def)

lemma merge_seen [simp]: "sentences_seen (ublox_merge u s) = sentences_seen s"
  by (simp add: ublox_merge_def Let_def split: prod.split)

lemma observe_seen [simp]: "sentences_seen (ublox_observe u e s) = sentences_seen s"
  by (simp add: ublox_observe_def Let_def)

lemma route_sentence_seen [simp]: "sentences_seen (route_sentence p m e x s) = sentences_seen s"
  by (simp add: route_sentence_def Let_def split: option.split)

lemma deliver_sentence_seen [simp]: "sentences_seen (deliver_sentence w t s) = sentences_seen s + 1"
  by (simp add: deliver_sentence_def deliver_checked_def RouteNmeaSentence_def Let_def)

lemma process_sentences:
  assumes "\<forall>w \<in> set ws. nmea_good (nmea_limit s) w"
  shows "process_buffer (ublox_consume fin) s (stamp_all (concat ws) t) = (fold (\<lambda>w. deliver_sentence w t) ws s, [])"
  using assms
proof (induction ws arbitrary: s)
  case Nil
  show ?case by (simp add: process_buffer.simps [of _ _ "[]"])
next
  case (Cons w ws)
  then show ?case using process_sentence [of s w fin t "stamp_all (concat ws) t"] by simp
qed

lemma fold_deliver_config:
  "us_config (fold (\<lambda>w. deliver_sentence w t) ws s) = us_config s
   \<and> us_buffer (fold (\<lambda>w. deliver_sentence w t) ws s) = us_buffer s"
  by (induction ws arbitrary: s) simp_all

lemma fold_deliver_seen: "sentences_seen (fold (\<lambda>w. deliver_sentence w t) ws s) = sentences_seen s + of_nat (length ws)"
  by (induction ws arbitrary: s) simp_all

definition after_bytes :: "nat \<Rightarrow> stamped list \<Rightarrow> UbloxSession \<Rightarrow> UbloxSession" where
  "after_bytes n b s =
     s\<lparr>us_metrics := (us_metrics s)\<lparr>um_bytes_seen := um_bytes_seen (us_metrics s) + of_nat n\<rparr>, us_buffer := b\<rparr>"

lemma after_bytes_fields [simp]:
  "us_config (after_bytes n b s) = us_config s" "sentences_seen (after_bytes n b s) = sentences_seen s"
  by (simp_all add: after_bytes_def)

lemma feed_after_bytes:
  assumes "data \<noteq> []" and "us_buffer s = []"
  shows "ublox_FeedBytes data t s
    = (let (s1, kept) = process_buffer (ublox_consume False) (after_bytes (length data) (stamp_all data t) s) (stamp_all data t)
       in s1\<lparr>us_buffer := kept\<rparr>)"
  using assms by (simp add: ublox_FeedBytes_def ProcessBufferedData_def after_bytes_def stamp_all_def)

section \<open>Properties\<close>

text \<open>A clean stream of NMEA sentences (each from its leader to its line feed, within the configured length) fed to a
  session whose buffer is empty is delivered sentence by sentence, in order and once each, and nothing is kept back.\<close>

lemma ublox_clean_sentences:
  assumes "us_buffer s = []" and "ws \<noteq> []" and "\<forall>w \<in> set ws. nmea_good (nmea_limit s) w"
  shows "ublox_FeedBytes (concat ws) t s
    = (fold (\<lambda>w. deliver_sentence w t) ws
        (after_bytes (length (concat ws)) (stamp_all (concat ws) t) s))\<lparr>us_buffer := []\<rparr>"
proof -
  from assms(2,3) have "concat ws \<noteq> []" by (cases ws) (auto simp: nmea_good_def)
  moreover have "\<forall>w \<in> set ws. nmea_good (nmea_limit (after_bytes (length (concat ws)) (stamp_all (concat ws) t) s)) w"
    using assms(3) by simp
  ultimately show ?thesis
    using process_sentences [of ws "after_bytes (length (concat ws)) (stamp_all (concat ws) t) s" False t] assms(1)
    by (simp add: feed_after_bytes)
qed

theorem ublox_clean_sentences_witness:
  "let w = [0x24, 0x47, 0x0A] in
   sentences_seen (ublox_FeedBytes (concat [w, w]) None (ublox_new UbloxSessionConfig_default)) = 2"
proof -
  have "nmea_good (nmea_limit (ublox_new UbloxSessionConfig_default)) [0x24, 0x47, 0x0A]"
    by (simp add: nmea_good_def nmea_inner_def ublox_new_def UbloxSessionConfig_default_def)
  with ublox_clean_sentences [of "ublox_new UbloxSessionConfig_default" "[[0x24, 0x47, 0x0A], [0x24, 0x47, 0x0A]]" None]
  show ?thesis by (simp add: ublox_new_def UbloxSessionMetrics_default_def Let_def)
qed

text \<open>A sentence that follows a cut-off sentence of the same length is delivered twice, although the stream holds it
  once: \<open>ConsumeNmeaAtOffset\<close> advances by the length of the delivered sentence and not by the bytes the framer has
  consumed, so that it comes to stand at the same sentence again.\<close>

lemma ublox_sentence_delivered_twice:
  assumes "us_buffer s = []" and "cut_off g" and "length g = length w" and "nmea_good (nmea_limit s) w"
  shows "ublox_FeedBytes (g @ w) t s
    = (deliver_sentence w t (deliver_sentence w t (after_bytes (length (g @ w)) (stamp_all (g @ w) t) s)))\<lparr>us_buffer := []\<rparr>
    \<and> sentences_seen (ublox_FeedBytes (g @ w) t s) = sentences_seen s + 2"
proof -
  let ?s = "after_bytes (length (g @ w)) (stamp_all (g @ w) t) s"
  have "g @ w \<noteq> []" using assms(2) by (simp add: cut_off_def)
  moreover have "process_buffer (ublox_consume False) ?s (stamp_all (g @ w) t)
      = process_buffer (ublox_consume False) (deliver_sentence w t (deliver_sentence w t ?s)) []"
    using process_cut_off [of g w ?s False t "[]"] process_sentence [of "deliver_sentence w t ?s" w False t "[]"] assms
    by simp
  ultimately have "ublox_FeedBytes (g @ w) t s = (deliver_sentence w t (deliver_sentence w t ?s))\<lparr>us_buffer := []\<rparr>"
    using assms(1) by (simp add: feed_after_bytes process_buffer.simps [of _ _ "[]"])
  then show ?thesis by simp
qed

theorem ublox_sentence_delivered_twice_witness:
  "sentences_seen (ublox_FeedBytes ([0x24, 0x47, 0x50] @ [0x24, 0x47, 0x0A]) None (ublox_new UbloxSessionConfig_default)) = 2"
proof -
  have "nmea_good (nmea_limit (ublox_new UbloxSessionConfig_default)) [0x24, 0x47, 0x0A]"
    by (simp add: nmea_good_def nmea_inner_def ublox_new_def UbloxSessionConfig_default_def)
  moreover have "cut_off [0x24, 0x47, 0x50]" by (simp add: cut_off_def nmea_inner_def)
  ultimately show ?thesis
    using ublox_sentence_delivered_twice [of "ublox_new UbloxSessionConfig_default" "[0x24, 0x47, 0x50]" "[0x24, 0x47, 0x0A]" None]
    by (simp add: ublox_new_def UbloxSessionMetrics_default_def)
qed

lemma nmea_probe_leaders:
  "n \<noteq> 0 \<or> nmf_buffer s \<noteq> [] \<Longrightarrow>
     pb_status (nmea_probe s (stamp_all (replicate n 0x24) t) k) = PS_kTruncated"
proof (induction n arbitrary: s k)
  case 0
  then show ?case by (simp add: nmea_Finalize_def Truncated_def)
next
  case (Suc n)
  have "nmea_leader_byte 0x24" by simp
  from nmea_probe_leader [OF this] Suc.IH show ?case by (simp del: probe_loop.simps)
qed

text \<open>C38. The configured lengths do not bound the buffer: a run of \<open>n\<close> start bytes is kept whole, whatever the maximum
  sentence length, because each one restarts the framer and none of them is ever given up.\<close>

theorem ublox_buffer_unbounded:
  "us_buffer (ublox_FeedBytes (replicate n 0x24) t (ublox_new config)) = replicate n (0x24, t)"
proof (cases "n = 0")
  case True
  then show ?thesis by (simp add: ublox_FeedBytes_def ublox_new_def)
next
  case False
  let ?bytes = "stamp_all (replicate n 0x24) t"
  have "fst (hd ?bytes) = 0x24" "?bytes \<noteq> []" using False by (cases n; simp)+
  moreover have "pb_status (ProbeAtOffset nmea_PushByte nmea_Finalize f ?bytes 0) = PS_kTruncated" for f
    using False nmea_probe_leaders by (simp add: ProbeAtOffset_def)
  ultimately have "ublox_consume False s ?bytes = (s, 0, True)" for s
    by (auto simp: ublox_consume_def ConsumeNmeaAtOffset_def consume_probe_def split: option.split)
  with False \<open>?bytes \<noteq> []\<close> show ?thesis
    by (simp add: feed_after_bytes ublox_new_def process_buffer.simps [of _ _ ?bytes])
      (simp add: stamp_all_def map_replicate_const [symmetric])
qed

end
