(* ===== verification/Nmea_Session.thy ===== *)
theory Nmea_Session
  imports Ublox_Streams
begin

text \<open>
  \<open>NmeaSession\<close> (gnss_driver/src/nmea_session.cpp): one framer fed byte by byte, the sentences parsed and merged into the
  runtime state.
\<close>

section \<open>State\<close>

record NmeaSessionConfig =
  nc_max_sentence_length_bytes :: nat
  nc_enable_runtime_updates :: bool

definition NmeaSessionConfig_default :: NmeaSessionConfig where
  "NmeaSessionConfig_default = \<lparr>nc_max_sentence_length_bytes = 512, nc_enable_runtime_updates = True\<rparr>"

record NmeaSessionMetrics =
  nsm_bytes_seen :: u64
  nsm_sentences_seen :: u64
  nsm_records_parsed :: u64
  nsm_records_rejected :: u64
  nsm_runtime_observations :: u64
  nsm_position_observations :: u64
  nsm_runtime_updates :: u64
  nsm_semantic_only_records :: u64
  nsm_unknown_sentences :: u64
  nsm_malformed_sentences :: u64
  nsm_position_payload_freshness :: PositionPayloadFreshnessMetrics

definition NmeaSessionMetrics_default :: NmeaSessionMetrics where
  "NmeaSessionMetrics_default =
     \<lparr>nsm_bytes_seen = 0, nsm_sentences_seen = 0, nsm_records_parsed = 0, nsm_records_rejected = 0,
      nsm_runtime_observations = 0, nsm_position_observations = 0, nsm_runtime_updates = 0, nsm_semantic_only_records = 0,
      nsm_unknown_sentences = 0, nsm_malformed_sentences = 0, nsm_position_payload_freshness = FreshnessMetrics_default\<rparr>"

record NmeaSession =
  nse_config :: NmeaSessionConfig
  nse_framer :: NmeaSentenceFramer
  nse_aggregator :: GnssRuntimeAggregator
  nse_tracker :: FreshnessTracker
  nse_metrics :: NmeaSessionMetrics

definition nmea_session_new :: "NmeaSessionConfig \<Rightarrow> NmeaSession" where
  "nmea_session_new config =
     \<lparr>nse_config = config, nse_framer = nmea_new (nc_max_sentence_length_bytes config), nse_aggregator = aggregator_new,
      nse_tracker = tracker_new, nse_metrics = NmeaSessionMetrics_default\<rparr>"

definition nmea_session_Reset :: "NmeaSession \<Rightarrow> NmeaSession" where
  "nmea_session_Reset s =
     s\<lparr>nse_framer := nmea_Reset (nse_framer s), nse_aggregator := aggregator_Reset (nse_aggregator s),
       nse_tracker := tracker_new, nse_metrics := NmeaSessionMetrics_default\<rparr>"

section \<open>Sentences\<close>

definition ncount :: "((u64 \<Rightarrow> u64) \<Rightarrow> NmeaSessionMetrics \<Rightarrow> NmeaSessionMetrics) \<Rightarrow> NmeaSession \<Rightarrow> NmeaSession" where
  "ncount counter s = s\<lparr>nse_metrics := counter (\<lambda>n. n + 1) (nse_metrics s)\<rparr>"

definition nmea_merge :: "GnssRuntimeState \<Rightarrow> NmeaSession \<Rightarrow> NmeaSession" where
  "nmea_merge update s =
     (let (a, applied) = Merge update (nse_aggregator s);
          s1 = s\<lparr>nse_aggregator := a\<rparr> in
      if applied then ncount nsm_runtime_updates_update s1 else s1)"

definition nmea_observe :: "GnssRuntimeState \<Rightarrow> ReceiverEpoch option \<Rightarrow> NmeaSession \<Rightarrow> NmeaSession" where
  "nmea_observe update epoch s =
     (let t = Observe update epoch (nse_tracker s) in
      s\<lparr>nse_tracker := t, nse_metrics := (nse_metrics s)\<lparr>nsm_position_payload_freshness := ft_metrics t\<rparr>\<rparr>)"

text \<open>\<open>epoch_for\<close> is given for the position observations.\<close>

definition ParseAndMergeSentence ::
  "(NmeaSentence \<Rightarrow> 'r ParserResult) \<Rightarrow> ('r \<Rightarrow> GnssRuntimeState) \<Rightarrow> ('r \<Rightarrow> ReceiverEpoch option) option \<Rightarrow> NmeaSentence
     \<Rightarrow> NmeaSession \<Rightarrow> NmeaSession" where
  "ParseAndMergeSentence parse_fn map_fn epoch_for sentence s =
     (case accepted (parse_fn sentence) of
        None \<Rightarrow> ncount nsm_records_rejected_update s
      | Some record \<Rightarrow>
          let enabled = nc_enable_runtime_updates (nse_config s);
              s1 = ncount nsm_runtime_observations_update (ncount nsm_records_parsed_update s);
              s2 = (if epoch_for \<noteq> None \<and> enabled then ncount nsm_position_observations_update s1 else s1) in
          if \<not> enabled then s2
          else
            let update = map_fn record;
                s3 = (case epoch_for of Some epoch \<Rightarrow> nmea_observe update (epoch record) s2 | None \<Rightarrow> s2) in
            nmea_merge update s3)"

definition HandleSentence :: "NmeaSentence \<Rightarrow> NmeaSession \<Rightarrow> NmeaSession" where
  "HandleSentence sentence s =
     (if IsNmeaSentenceType sentence ''GGA'' then
        ParseAndMergeSentence ParseNmeaGga NmeaGgaToRuntimeState (Some (\<lambda>r. utc_epoch (gga_utc_time r))) sentence s
      else if IsNmeaSentenceType sentence ''RMC'' then
        ParseAndMergeSentence ParseNmeaRmc NmeaRmcToRuntimeState (Some (\<lambda>r. utc_epoch (rmc_utc_time r))) sentence s
      else if IsNmeaSentenceType sentence ''GSA'' then
        ParseAndMergeSentence ParseNmeaGsa NmeaGsaToRuntimeState None sentence s
      else if IsNmeaSentenceType sentence ''GSV'' then
        ParseAndMergeSentence ParseNmeaGsv (\<lambda>r. MergeNmeaGsvIntoRuntimeState r RuntimeState_default) None sentence s
      else if IsNmeaSentenceType sentence ''GST'' then
        ParseAndMergeSentence ParseNmeaGst NmeaGstToRuntimeState None sentence s
      else if IsNmeaSentenceType sentence ''VTG'' then
        ParseAndMergeSentence ParseNmeaVtg NmeaVtgToRuntimeState None sentence s
      else if IsNmeaSentenceType sentence ''ZDA'' then
        ParseAndMergeSentence ParseNmeaZda NmeaZdaToRuntimeState None sentence s
      else ncount nsm_unknown_sentences_update s)"

definition HandleFramerResult :: "NmeaSentence ParserResult \<Rightarrow> NmeaSession \<Rightarrow> NmeaSession" where
  "HandleFramerResult result s =
     (case pr_status result of
        PS_kRecordReady \<Rightarrow>
          (let s1 = ncount nsm_sentences_seen_update s in
           case pr_record result of
             Some sentence \<Rightarrow>
               if nmea_checksum_status sentence \<noteq> CS_kValid then ncount nsm_malformed_sentences_update s1
               else HandleSentence sentence s1
           | None \<Rightarrow> ncount nsm_malformed_sentences_update s1)
      | PS_kOverflow \<Rightarrow> ncount nsm_malformed_sentences_update s
      | PS_kTruncated \<Rightarrow> ncount nsm_malformed_sentences_update s
      | PS_kInvalidData \<Rightarrow> ncount nsm_malformed_sentences_update s
      | _ \<Rightarrow> s)"

definition nmea_session_byte :: "timestamp_ns option \<Rightarrow> u8 \<Rightarrow> NmeaSession \<Rightarrow> NmeaSession" where
  "nmea_session_byte timestamp byte s =
     (let (f, result) = nmea_PushByte (nse_framer s) byte timestamp in HandleFramerResult result (s\<lparr>nse_framer := f\<rparr>))"

definition nmea_session_FeedBytes :: "bytes \<Rightarrow> timestamp_ns option \<Rightarrow> NmeaSession \<Rightarrow> NmeaSession" where
  "nmea_session_FeedBytes data timestamp s =
     fold (nmea_session_byte timestamp) data
       (s\<lparr>nse_metrics := (nse_metrics s)\<lparr>nsm_bytes_seen := nsm_bytes_seen (nse_metrics s) + of_nat (length data)\<rparr>\<rparr>)"

definition nmea_session_Finalize :: "NmeaSession \<Rightarrow> NmeaSession" where
  "nmea_session_Finalize s =
     (let (f, result) = nmea_Finalize (nse_framer s) in HandleFramerResult result (s\<lparr>nse_framer := f\<rparr>))"

section \<open>The session on clean sentences\<close>

text \<open>The framer between two sentences, and a session whose framer is there.\<close>

lemma nmea_session_inner:
  assumes "nmea_inner xs" and "nmf_buffer (nse_framer s) \<noteq> []"
    and "length (nmf_buffer (nse_framer s)) + length xs \<le> nmf_max_frame_length (nse_framer s)"
  shows "fold (nmea_session_byte t) xs s
    = s\<lparr>nse_framer := (nse_framer s)\<lparr>nmf_buffer := nmf_buffer (nse_framer s) @ xs\<rparr>\<rparr>"
  using assms
proof (induction xs arbitrary: s)
  case (Cons b xs)
  then have b: "\<not> nmea_leader_byte b" "b \<noteq> 0x0A" "nmea_inner xs" by (simp_all add: nmea_inner_def)
  let ?s = "s\<lparr>nse_framer := (nse_framer s)\<lparr>nmf_buffer := nmf_buffer (nse_framer s) @ [b]\<rparr>\<rparr>"
  have "nmea_session_byte t b s = ?s"
    using b Cons.prems by (simp add: nmea_session_byte_def nmea_PushByte_def HandleFramerResult_def NeedMoreData_def Let_def)
  with Cons.IH [of ?s] b(3) Cons.prems(2,3) show ?case by simp
qed simp

definition handle_sentence :: "bytes \<Rightarrow> timestamp_ns option \<Rightarrow> NmeaSession \<Rightarrow> NmeaSession" where
  "handle_sentence w t s =
     HandleFramerResult (RecordReady (nmea_BuildSentence w t)) (s\<lparr>nse_framer := nmea_Reset (nse_framer s)\<rparr>)"

lemma nmea_session_sentence:
  assumes "nmea_good (nmf_max_frame_length (nse_framer s)) w"
  shows "fold (nmea_session_byte t) w s = handle_sentence w t s"
proof -
  let ?inner = "butlast (tl w)"
  from assms have w: "2 \<le> length w" "length w \<le> nmf_max_frame_length (nse_framer s)" "nmea_leader_byte (hd w)"
    "last w = 0x0A" "nmea_inner ?inner" by (simp_all add: nmea_good_def)
  from w(1) have split: "w = hd w # ?inner @ [last w]" by (cases w) (auto simp: Suc_le_eq last_tl)
  let ?f = "(nse_framer s)\<lparr>nmf_buffer := [hd w], nmf_frame_timestamp_ns := t\<rparr>"
  have "nmea_session_byte t (hd w) s = s\<lparr>nse_framer := ?f\<rparr>"
    using w(3) by (simp add: nmea_session_byte_def nmea_PushByte_def HandleFramerResult_def NeedMoreData_def)
  then have "fold (nmea_session_byte t) w s = nmea_session_byte t (last w) (fold (nmea_session_byte t) ?inner (s\<lparr>nse_framer := ?f\<rparr>))"
    by (subst (1) split) simp
  also have "fold (nmea_session_byte t) ?inner (s\<lparr>nse_framer := ?f\<rparr>) = s\<lparr>nse_framer := ?f\<lparr>nmf_buffer := hd w # ?inner\<rparr>\<rparr>"
    using nmea_session_inner [of ?inner "s\<lparr>nse_framer := ?f\<rparr>" t] w(1,2,5) by simp
  also have "nmea_session_byte t (last w) \<dots> = handle_sentence w t s"
    using w(2,4) split by (simp add: nmea_session_byte_def nmea_PushByte_def handle_sentence_def nmea_Reset_def Let_def)
  finally show ?thesis .
qed

text \<open>The two sessions keep the same state.\<close>

definition sessions_agree :: "UbloxSession \<Rightarrow> NmeaSession \<Rightarrow> bool" where
  "sessions_agree u n \<longleftrightarrow>
     us_aggregator u = nse_aggregator n \<and> us_tracker u = nse_tracker n
     \<and> uc_enable_nmea_runtime_updates (us_config u) = nc_enable_runtime_updates (nse_config n)
     \<and> nmea_limit u = nmf_max_frame_length (nse_framer n)
     \<and> um_nmea_sentences_seen (us_metrics u) = nsm_sentences_seen (nse_metrics n)
     \<and> um_frames_parsed (us_metrics u) = nsm_records_parsed (nse_metrics n)
     \<and> um_frames_rejected (us_metrics u) = nsm_records_rejected (nse_metrics n)
     \<and> um_runtime_observations (us_metrics u) = nsm_runtime_observations (nse_metrics n)
     \<and> um_position_observations (us_metrics u) = nsm_position_observations (nse_metrics n)
     \<and> um_runtime_updates (us_metrics u) = nsm_runtime_updates (nse_metrics n)
     \<and> um_unknown_frames (us_metrics u) = nsm_unknown_sentences (nse_metrics n)
     \<and> um_malformed_frames (us_metrics u) = nsm_malformed_sentences (nse_metrics n)
     \<and> um_position_payload_freshness (us_metrics u) = nsm_position_payload_freshness (nse_metrics n)"

named_theorems agree

lemma agree_counts [agree]:
  assumes "sessions_agree u n"
  shows "sessions_agree (count_in um_nmea_sentences_seen_update u) (ncount nsm_sentences_seen_update n)"
    and "sessions_agree (count_in um_frames_parsed_update u) (ncount nsm_records_parsed_update n)"
    and "sessions_agree (count_in um_frames_rejected_update u) (ncount nsm_records_rejected_update n)"
    and "sessions_agree (count_in um_runtime_observations_update u) (ncount nsm_runtime_observations_update n)"
    and "sessions_agree (count_in um_position_observations_update u) (ncount nsm_position_observations_update n)"
    and "sessions_agree (count_in um_runtime_updates_update u) (ncount nsm_runtime_updates_update n)"
    and "sessions_agree (count_in um_unknown_frames_update u) (ncount nsm_unknown_sentences_update n)"
    and "sessions_agree (count_in um_malformed_frames_update u) (ncount nsm_malformed_sentences_update n)"
  using assms by (simp_all add: sessions_agree_def count_in_def ncount_def)

lemma agree_merge [agree]:
  assumes "sessions_agree u n"
  shows "sessions_agree (ublox_merge update u) (nmea_merge update n)"
proof -
  obtain a applied where m: "Merge update (nse_aggregator n) = (a, applied)" by fastforce
  from assms have "us_aggregator u = nse_aggregator n" by (simp add: sessions_agree_def)
  moreover from assms have "sessions_agree (u\<lparr>us_aggregator := a\<rparr>) (n\<lparr>nse_aggregator := a\<rparr>)"
    by (simp add: sessions_agree_def)
  ultimately show ?thesis by (simp add: ublox_merge_def nmea_merge_def m agree_counts Let_def)
qed

lemma agree_observe [agree]:
  "sessions_agree u n \<Longrightarrow> sessions_agree (ublox_observe update epoch u) (nmea_observe update epoch n)"
  by (simp add: sessions_agree_def ublox_observe_def nmea_observe_def Let_def)

lemma agree_sentence [agree]:
  assumes "sessions_agree u n"
  shows "sessions_agree (route_sentence p m e sentence u) (ParseAndMergeSentence p m e sentence n)"
proof -
  from assms have enabled: "uc_enable_nmea_runtime_updates (us_config u) = nc_enable_runtime_updates (nse_config n)"
    by (simp add: sessions_agree_def)
  show ?thesis
    by (cases "accepted (p sentence)"; cases e)
      (simp_all add: route_sentence_def ParseAndMergeSentence_def enabled Let_def agree assms)
qed

text \<open>The two sentence types only the NMEA session knows.\<close>

definition nmea_only :: "NmeaSentence \<Rightarrow> bool" where
  "nmea_only sentence \<longleftrightarrow> IsNmeaSentenceType sentence ''VTG'' \<or> IsNmeaSentenceType sentence ''ZDA''"

lemma agree_deliver:
  assumes "sessions_agree u n" and "\<not> nmea_only (nmea_BuildSentence w t)"
  shows "sessions_agree (deliver_sentence w t u) (handle_sentence w t n)"
proof -
  have framer: "sessions_agree u (n\<lparr>nse_framer := nmea_Reset (nse_framer n)\<rparr>)"
    using assms(1) by (simp add: sessions_agree_def)
  have route: "sessions_agree (RouteNmeaSentence x u1) (HandleSentence x n1)"
    if "sessions_agree u1 n1" and "\<not> nmea_only x" for x u1 n1
    using that by (simp add: RouteNmeaSentence_def HandleSentence_def nmea_only_def agree)
  show ?thesis
    using assms(2) by (simp add: deliver_sentence_def deliver_checked_def handle_sentence_def HandleFramerResult_def
        RecordReady_def Let_def agree_counts route framer)
qed

lemma agree_sentences:
  assumes "sessions_agree u n" and "\<forall>w \<in> set ws. nmea_good (nmea_limit u) w \<and> \<not> nmea_only (nmea_BuildSentence w t)"
  shows "sessions_agree (fold (\<lambda>w. deliver_sentence w t) ws u) (fold (nmea_session_byte t) (concat ws) n)"
  using assms
proof (induction ws arbitrary: u n)
  case (Cons w ws)
  then have agree: "sessions_agree (deliver_sentence w t u) (handle_sentence w t n)" by (simp add: agree_deliver)
  from Cons.prems have "fold (nmea_session_byte t) w n = handle_sentence w t n"
    by (intro nmea_session_sentence) (simp add: sessions_agree_def)
  with Cons.IH [OF agree] Cons.prems(2) show ?case by simp
qed simp

section \<open>Properties\<close>

text \<open>C35. A receiver that speaks NMEA is understood alike by both sessions.  On any clean stream of sentences other than
  VTG and ZDA, which the u-blox session does not know, the NMEA session and the u-blox session with the same limit and
  the same switch publish the same runtime state, the same freshness metrics and the same counts.\<close>

theorem nmea_and_ublox_sessions_agree:
  assumes "\<forall>w \<in> set ws. nmea_good (nc_max_sentence_length_bytes nc) w \<and> \<not> nmea_only (nmea_BuildSentence w t)"
    and "uc_max_nmea_sentence_length_bytes uc = nc_max_sentence_length_bytes nc"
    and "uc_enable_nmea_runtime_updates uc = nc_enable_runtime_updates nc"
  shows "sessions_agree (ublox_FeedBytes (concat ws) t (ublox_new uc))
    (nmea_session_FeedBytes (concat ws) t (nmea_session_new nc))"
proof (cases "ws = []")
  case True
  with assms show ?thesis
    by (simp add: ublox_FeedBytes_def nmea_session_FeedBytes_def sessions_agree_def ublox_new_def nmea_session_new_def
        UbloxSessionMetrics_default_def NmeaSessionMetrics_default_def nmea_new_def)
next
  case False
  let ?u = "after_bytes (length (concat ws)) (stamp_all (concat ws) t) (ublox_new uc)"
  let ?n = "nmea_session_new nc\<lparr>nse_metrics := (nse_metrics (nmea_session_new nc))
    \<lparr>nsm_bytes_seen := nsm_bytes_seen (nse_metrics (nmea_session_new nc)) + of_nat (length (concat ws))\<rparr>\<rparr>"
  have limit: "nmea_limit ?u = nc_max_sentence_length_bytes nc" using assms(2) by (simp add: ublox_new_def)
  have "sessions_agree ?u ?n"
    using assms by (simp add: sessions_agree_def after_bytes_def ublox_new_def nmea_session_new_def
        UbloxSessionMetrics_default_def NmeaSessionMetrics_default_def nmea_new_def)
  from agree_sentences [OF this, of ws t] assms(1)
  have "sessions_agree (fold (\<lambda>w. deliver_sentence w t) ws ?u) (fold (nmea_session_byte t) (concat ws) ?n)"
    by (simp only: limit)
  moreover have "ublox_FeedBytes (concat ws) t (ublox_new uc) = (fold (\<lambda>w. deliver_sentence w t) ws ?u)\<lparr>us_buffer := []\<rparr>"
  proof -
    from assms(1) False have "concat ws \<noteq> []" by (cases ws) (auto simp: nmea_good_def)
    moreover have "us_buffer (ublox_new uc) = []" by (simp add: ublox_new_def)
    moreover have "process_buffer (ublox_consume False) ?u (stamp_all (concat ws) t) = (fold (\<lambda>w. deliver_sentence w t) ws ?u, [])"
      by (rule process_sentences) (use assms(1) in \<open>simp only: limit, blast\<close>)
    ultimately show ?thesis using feed_after_bytes [of "concat ws" "ublox_new uc" t] by simp
  qed
  ultimately show ?thesis by (simp add: nmea_session_FeedBytes_def sessions_agree_def)
qed

lemma sentence_type_short: "length (nmea_sentence_type (nmea_BuildSentence w t)) \<le> length w - 1"
proof -
  have "length (nmea_payload_text_of (take n (text_of w))) \<le> length w - 1" for n
    by (auto simp: nmea_payload_text_of_def bslice_def Let_def split: option.splits)
  moreover have "length (nmea_header_of p) \<le> length p" for p
    by (simp add: nmea_header_of_def bslice_def split: option.splits)
  ultimately show ?thesis
    by (auto simp: nmea_BuildSentence_def Let_def split: prod.splits intro: le_trans diff_le_self)
      (meson le_trans diff_le_self)+
qed

theorem nmea_and_ublox_sessions_agree_witness:
  "sessions_agree (ublox_FeedBytes (concat [[0x24, 0x47, 0x0A], [0x24, 0x0A]]) None (ublox_new UbloxSessionConfig_default))
    (nmea_session_FeedBytes (concat [[0x24, 0x47, 0x0A], [0x24, 0x0A]]) None (nmea_session_new NmeaSessionConfig_default))"
proof (rule nmea_and_ublox_sessions_agree)
  have "\<not> nmea_only (nmea_BuildSentence w t)" if "length w < 4" for w t
    using sentence_type_short [of w t] that by (auto simp: nmea_only_def IsNmeaSentenceType_def)
  then show "\<forall>w \<in> set [[0x24, 0x47, 0x0A], [0x24, 0x0A]].
      nmea_good (nc_max_sentence_length_bytes NmeaSessionConfig_default) w \<and> \<not> nmea_only (nmea_BuildSentence w None)"
    by (simp add: nmea_good_def nmea_inner_def NmeaSessionConfig_default_def)
qed (simp_all add: UbloxSessionConfig_default_def NmeaSessionConfig_default_def)

end
