(* ===== verification/Unicore_Session.thy ===== *)
theory Unicore_Session
  imports Ublox_Session Message_Updates Unicore_Framer
begin

text \<open>
  \<open>UnicoreSession\<close> (gnss_driver/src/unicore_session.cpp, mixed_stream_resync.hpp): NMEA sentences, ASCII logs and binary
  logs in one stream.  The native position logs have priority over NMEA; the GSV sentences of all talkers are added up.
\<close>

section \<open>Resynchronisation inside a record\<close>

definition IsMixedTextSyncByte :: "u8 \<Rightarrow> bool" where
  "IsMixedTextSyncByte byte \<longleftrightarrow> byte = 0x24 \<or> byte = 0x21 \<or> byte = 0x23 \<or> byte = 0x25"

text \<open>The functions get the buffer from the offset they are asked about.\<close>

definition HasUnicoreBinarySyncAt :: "bytes \<Rightarrow> bool" where
  "HasUnicoreBinarySyncAt bs \<longleftrightarrow> take 3 bs = [0xAA, 0x44, 0xB5]"

fun plausible_name :: "bytes \<Rightarrow> bool" where
  "plausible_name [] = False"
| "plausible_name (c # cs) =
     (if c = 0x2C \<or> c = 0x3B \<or> c = 0x2A \<or> c = 0x20 then True
      else if (0x41 \<le> c \<and> c \<le> 0x5A) \<or> (0x30 \<le> c \<and> c \<le> 0x39) then plausible_name cs
      else False)"

definition IsPlausibleMixedTextRecordStart :: "bytes \<Rightarrow> bool" where
  "IsPlausibleMixedTextRecordStart bs \<longleftrightarrow>
     bs \<noteq> [] \<and> IsMixedTextSyncByte (hd bs) \<and> tl bs \<noteq> [] \<and> plausible_name (take 19 (tl bs))"

fun resync_scan :: "nat \<Rightarrow> bytes \<Rightarrow> nat option" where
  "resync_scan offset [] = None"
| "resync_scan offset (b # bs) =
     (if b = 0x0A then None
      else if HasUnicoreBinarySyncAt (b # bs) \<or> IsPlausibleMixedTextRecordStart (b # bs) then Some offset
      else resync_scan (offset + 1) bs)"

definition FindEmbeddedMixedRecordResyncOffset :: "bytes \<Rightarrow> nat option" where
  "FindEmbeddedMixedRecordResyncOffset bs = resync_scan 1 (drop 1 bs)"

section \<open>State\<close>

record UnicoreSessionConfig =
  unc_max_frame_length_bytes :: nat
  unc_max_binary_frame_length_bytes :: nat

definition UnicoreSessionConfig_default :: UnicoreSessionConfig where
  "UnicoreSessionConfig_default = \<lparr>unc_max_frame_length_bytes = 2048, unc_max_binary_frame_length_bytes = 65536\<rparr>"

record UnicoreSessionMetrics =
  unm_bytes_seen :: u64
  unm_lines_seen :: u64
  unm_ascii_records_seen :: u64
  unm_binary_frames_seen :: u64
  unm_records_parsed :: u64
  unm_records_rejected :: u64
  unm_runtime_observations :: u64
  unm_position_observations :: u64
  unm_runtime_updates :: u64
  unm_unknown_records :: u64
  unm_malformed_lines :: u64
  unm_malformed_frames :: u64
  unm_receiver_rtcm_status_messages_seen :: u64
  unm_receiver_rtcm_status_message_count :: u32
  unm_receiver_last_rtcm_message_type :: "u32 option"
  unm_receiver_last_rtcm_base_station_id :: "u32 option"
  unm_receiver_last_rtcm_satellites_in_message :: "u32 option"
  unm_position_payload_freshness :: PositionPayloadFreshnessMetrics

definition UnicoreSessionMetrics_default :: UnicoreSessionMetrics where
  "UnicoreSessionMetrics_default =
     \<lparr>unm_bytes_seen = 0, unm_lines_seen = 0, unm_ascii_records_seen = 0, unm_binary_frames_seen = 0,
      unm_records_parsed = 0, unm_records_rejected = 0, unm_runtime_observations = 0, unm_position_observations = 0,
      unm_runtime_updates = 0, unm_unknown_records = 0, unm_malformed_lines = 0, unm_malformed_frames = 0,
      unm_receiver_rtcm_status_messages_seen = 0, unm_receiver_rtcm_status_message_count = 0,
      unm_receiver_last_rtcm_message_type = None, unm_receiver_last_rtcm_base_station_id = None,
      unm_receiver_last_rtcm_satellites_in_message = None, unm_position_payload_freshness = FreshnessMetrics_default\<rparr>"

text \<open>\<open>seen_messages\<close> is the set of the message numbers seen, counted from 0.\<close>

record UnicoreNmeaGsvTalkerState =
  gt_talker :: string
  gt_last_timestamp_ns :: "timestamp_ns option"
  gt_total_messages :: u8
  gt_satellites_in_view :: u16
  gt_tracked_satellites :: u16
  gt_seen_messages :: "nat list"
  gt_cn0_sum :: float32
  gt_cn0_count :: nat
  gt_cn0_max :: float32

definition kMaxMessages :: nat where
  "kMaxMessages = 32"

definition talker_new :: "string \<Rightarrow> UnicoreNmeaGsvTalkerState" where
  "talker_new talker =
     \<lparr>gt_talker = talker, gt_last_timestamp_ns = None, gt_total_messages = 0, gt_satellites_in_view = 0,
      gt_tracked_satellites = 0, gt_seen_messages = [], gt_cn0_sum = Finite 0, gt_cn0_count = 0, gt_cn0_max = Finite 0\<rparr>"

record UnicoreSession =
  un_config :: UnicoreSessionConfig
  un_aggregator :: GnssRuntimeAggregator
  un_tracker :: FreshnessTracker
  un_metrics :: UnicoreSessionMetrics
  un_buffer :: "stamped list"
  un_ascii_seen_valid_record :: bool
  un_binary_seen_valid_frame :: bool
  un_ascii_startup_malformed_suppressed :: bool
  un_binary_startup_malformed_suppressed :: bool
  un_seen_valid_nmea_gga :: bool
  un_seen_valid_nmea_gsv :: bool
  un_last_nmea_gga_timestamp_ns :: "timestamp_ns option"
  un_last_native_position_timestamp_ns :: "timestamp_ns option"
  un_last_nmea_gsv_timestamp_ns :: "timestamp_ns option"
  un_gsv_talker_states :: "UnicoreNmeaGsvTalkerState list"

definition unicore_new :: "UnicoreSessionConfig \<Rightarrow> UnicoreSession" where
  "unicore_new config =
     \<lparr>un_config = config, un_aggregator = aggregator_new, un_tracker = tracker_new,
      un_metrics = UnicoreSessionMetrics_default, un_buffer = [], un_ascii_seen_valid_record = False,
      un_binary_seen_valid_frame = False, un_ascii_startup_malformed_suppressed = False,
      un_binary_startup_malformed_suppressed = False, un_seen_valid_nmea_gga = False, un_seen_valid_nmea_gsv = False,
      un_last_nmea_gga_timestamp_ns = None, un_last_native_position_timestamp_ns = None,
      un_last_nmea_gsv_timestamp_ns = None, un_gsv_talker_states = []\<rparr>"

definition unicore_Reset :: "UnicoreSession \<Rightarrow> UnicoreSession" where
  "unicore_Reset s = (unicore_new (un_config s))\<lparr>un_aggregator := aggregator_Reset (un_aggregator s)\<rparr>"

definition un_count :: "((u64 \<Rightarrow> u64) \<Rightarrow> UnicoreSessionMetrics \<Rightarrow> UnicoreSessionMetrics) \<Rightarrow> UnicoreSession \<Rightarrow> UnicoreSession" where
  "un_count counter s = s\<lparr>un_metrics := counter (\<lambda>n. n + 1) (un_metrics s)\<rparr>"

definition un_merge :: "GnssRuntimeState \<Rightarrow> UnicoreSession \<Rightarrow> UnicoreSession" where
  "un_merge update s =
     (let (a, applied) = Merge update (un_aggregator s);
          s1 = s\<lparr>un_aggregator := a\<rparr> in
      if applied then un_count unm_runtime_updates_update s1 else s1)"

definition un_observe :: "GnssRuntimeState \<Rightarrow> ReceiverEpoch option \<Rightarrow> UnicoreSession \<Rightarrow> UnicoreSession" where
  "un_observe update epoch s =
     (let t = Observe update epoch (un_tracker s) in
      s\<lparr>un_tracker := t, un_metrics := (un_metrics s)\<lparr>unm_position_payload_freshness := ft_metrics t\<rparr>\<rparr>)"

section \<open>Priorities between the sources\<close>

definition kGsvTalkerFreshnessWindowNs :: int where
  "kGsvTalkerFreshnessWindowNs = 5000000000"

definition kNativePositionFreshnessWindowNs :: int where
  "kNativePositionFreshnessWindowNs = 2500000000"

definition NativePositionIsFresh :: "timestamp_ns option \<Rightarrow> timestamp_ns option \<Rightarrow> bool" where
  "NativePositionIsFresh last_native now =
     (case last_native of
        None \<Rightarrow> False
      | Some latest \<Rightarrow>
          (case now of
             None \<Rightarrow> True
           | Some t \<Rightarrow> t \<ge> latest \<and> t - latest \<le> kNativePositionFreshnessWindowNs))"

definition reset_if :: "bool \<Rightarrow> 'a field_update \<Rightarrow> GnssRuntimeState \<Rightarrow> GnssRuntimeState" where
  "reset_if condition field update = (if condition then field (\<lambda>_. None) update else update)"

definition omit_if :: "bool \<Rightarrow> GnssCapability \<Rightarrow> 'a field_update \<Rightarrow> GnssRuntimeState \<Rightarrow> GnssRuntimeState" where
  "omit_if condition capability field update = (if condition then OmitOptionalValue capability field update else update)"

definition PruneNmeaGgaFallback :: "GnssRuntimeState \<Rightarrow> bool \<Rightarrow> GnssRuntimeState \<Rightarrow> GnssRuntimeState" where
  "PruneNmeaGgaFallback current_state preserve_satellites_used =
     perform
       [(if rs_fix_type current_state \<noteq> FT_kUnknown then set_fix False FT_kUnknown else id),
        reset_if (rs_latitude_deg current_state \<noteq> None) rs_latitude_deg_update,
        reset_if (rs_longitude_deg current_state \<noteq> None) rs_longitude_deg_update,
        reset_if (rs_altitude_m current_state \<noteq> None) rs_altitude_m_update,
        omit_if (rs_hdop current_state \<noteq> None) GC_kHdop rs_hdop_update,
        omit_if (\<not> preserve_satellites_used \<and> rs_satellites_used current_state \<noteq> None)
          GC_kSatellitesUsed rs_satellites_used_update]"

definition PruneNmeaGstFallback :: "GnssRuntimeState \<Rightarrow> GnssRuntimeState \<Rightarrow> GnssRuntimeState" where
  "PruneNmeaGstFallback current_state =
     perform
       [omit_if (rs_horizontal_accuracy_m current_state \<noteq> None) GC_kHorizontalAccuracy rs_horizontal_accuracy_m_update,
        omit_if (rs_vertical_accuracy_m current_state \<noteq> None) GC_kVerticalAccuracy rs_vertical_accuracy_m_update]"

definition HasFreshMixedNmeaSample :: "bool \<Rightarrow> timestamp_ns option \<Rightarrow> timestamp_ns option \<Rightarrow> bool" where
  "HasFreshMixedNmeaSample seen last_timestamp update_timestamp =
     (if \<not> seen then False
      else
        case (update_timestamp, last_timestamp) of
          (Some t, Some latest) \<Rightarrow> t \<ge> latest \<and> t - latest \<le> kGsvTalkerFreshnessWindowNs
        | _ \<Rightarrow> True)"

section \<open>ASCII logs\<close>

definition uni_ParseAndMergeRecord ::
  "(UnicoreFrame \<Rightarrow> 'r ParserResult) \<Rightarrow> ('r \<Rightarrow> GnssRuntimeState) \<Rightarrow> UnicoreFrame \<Rightarrow> UnicoreSession \<Rightarrow> UnicoreSession" where
  "uni_ParseAndMergeRecord parse_fn map_fn frame s =
     (case accepted (parse_fn frame) of
        None \<Rightarrow> un_count unm_records_rejected_update s
      | Some record \<Rightarrow>
          un_merge (map_fn record) (un_count unm_runtime_observations_update (un_count unm_records_parsed_update s)))"

definition ParseRecordOnly :: "(UnicoreFrame \<Rightarrow> 'r ParserResult) \<Rightarrow> UnicoreFrame \<Rightarrow> UnicoreSession \<Rightarrow> UnicoreSession" where
  "ParseRecordOnly parse_fn frame s =
     (case accepted (parse_fn frame) of
        None \<Rightarrow> un_count unm_records_rejected_update s
      | Some record \<Rightarrow> un_count unm_records_parsed_update s)"

definition ParseRtcmStatusRecord :: "UnicoreFrame \<Rightarrow> UnicoreSession \<Rightarrow> UnicoreSession" where
  "ParseRtcmStatusRecord frame s =
     (case accepted (ParseUnicoreRtcmStatus frame) of
        None \<Rightarrow> un_count unm_records_rejected_update s
      | Some record \<Rightarrow>
          let s1 = un_count unm_receiver_rtcm_status_messages_seen_update (un_count unm_records_parsed_update s) in
          s1\<lparr>un_metrics := (un_metrics s1)
            \<lparr>unm_receiver_rtcm_status_message_count := urc_message_count record,
             unm_receiver_last_rtcm_message_type := Some (urc_message_type record),
             unm_receiver_last_rtcm_base_station_id := Some (urc_base_station_id record),
             unm_receiver_last_rtcm_satellites_in_message := Some (urc_satellites_in_message record)\<rparr>\<rparr>)"

text \<open>PVTSLNA and BESTNAVA: the update without what recent GGA and GSV sentences know better.\<close>

definition merge_native_position :: "GnssRuntimeState \<Rightarrow> ReceiverEpoch \<Rightarrow> UnicoreSession \<Rightarrow> UnicoreSession" where
  "merge_native_position update epoch s =
     (let s1 = un_count unm_position_observations_update
                 (un_count unm_runtime_observations_update (un_count unm_records_parsed_update s));
          s2 = (un_observe update (Some epoch) s1)\<lparr>un_last_native_position_timestamp_ns := rs_timestamp_ns update\<rparr>;
          t = rs_timestamp_ns update;
          update1 = omit_if (HasFreshMixedNmeaSample (un_seen_valid_nmea_gga s2) (un_last_nmea_gga_timestamp_ns s2) t)
                      GC_kSatellitesUsed rs_satellites_used_update update;
          update2 = omit_if (HasFreshMixedNmeaSample (un_seen_valid_nmea_gsv s2) (un_last_nmea_gsv_timestamp_ns s2) t)
                      GC_kSatellitesTracked rs_satellites_tracked_update update1 in
      un_merge update2 s2)"

definition handle_native ::
  "(UnicoreFrame \<Rightarrow> 'r ParserResult) \<Rightarrow> ('r \<Rightarrow> GnssRuntimeState) \<Rightarrow> ('r \<Rightarrow> UnicoreAsciiHeader) \<Rightarrow> UnicoreFrame
     \<Rightarrow> UnicoreSession \<Rightarrow> UnicoreSession" where
  "handle_native parse_fn map_fn header frame s =
     (case accepted (parse_fn frame) of
        None \<Rightarrow> un_count unm_records_rejected_update s
      | Some record \<Rightarrow>
          merge_native_position (map_fn record)
            (MakeReceiverWeekTowEpoch (uh_gps_week (header record)) (uh_gps_millis_of_week (header record))) s)"

definition HandleFrame :: "UnicoreFrame \<Rightarrow> UnicoreSession \<Rightarrow> UnicoreSession" where
  "HandleFrame frame s =
     (let name = uni_message_name frame in
      if name = [] then un_count unm_malformed_lines_update s
      else if uni_checksum_status frame \<noteq> CS_kValid then un_count unm_malformed_lines_update s
      else if name = ''PVTSLNA'' then
        handle_native ParseUnicorePvtsln UnicorePvtslnToRuntimeState upv_header frame s
      else if name = ''BESTNAVA'' then
        handle_native ParseUnicoreBestNav UnicoreBestNavToRuntimeState ubn_header frame s
      else if name = ''RTKSTATUSA'' then
        uni_ParseAndMergeRecord ParseUnicoreRtkStatus UnicoreRtkStatusToRuntimeState frame s
      else if name = ''RTCMSTATUSA'' then ParseRtcmStatusRecord frame s
      else if name = ''SATSINFOA'' then
        uni_ParseAndMergeRecord ParseUnicoreSatsInfo UnicoreSatsInfoToRuntimeState frame s
      else if name = ''BESTSATA'' then
        uni_ParseAndMergeRecord ParseUnicoreBestSat UnicoreBestSatToRuntimeState frame s
      else if name = ''JAMSTATUSA'' then
        uni_ParseAndMergeRecord ParseUnicoreJamStatus UnicoreJamStatusToRuntimeState frame s
      else if name = ''FREQJAMSTATUSA'' then
        uni_ParseAndMergeRecord ParseUnicoreFreqJamStatus UnicoreFreqJamStatusToRuntimeState frame s
      else if name = ''HWSTATUSA'' then ParseRecordOnly ParseUnicoreHwStatus frame s
      else if name = ''AGCA'' then ParseRecordOnly ParseUnicoreAgc frame s
      else un_count unm_unknown_records_update s)"

section \<open>Binary logs\<close>

definition ParseAndMergeBinaryRecord ::
  "(UnicoreBinaryFrame \<Rightarrow> 'r ParserResult) \<Rightarrow> ('r \<Rightarrow> GnssRuntimeState) \<Rightarrow> ('r \<Rightarrow> UnicoreBinaryHeader) \<Rightarrow> bool
     \<Rightarrow> UnicoreBinaryFrame \<Rightarrow> UnicoreSession \<Rightarrow> UnicoreSession \<times> bool" where
  "ParseAndMergeBinaryRecord parse_fn map_fn header is_position_observation frame s =
     (case accepted (parse_fn frame) of
        None \<Rightarrow> (un_count unm_records_rejected_update s, False)
      | Some record \<Rightarrow>
          let s1 = un_count unm_runtime_observations_update (un_count unm_records_parsed_update s);
              update = map_fn record;
              s2 = (if is_position_observation then
                      un_observe update
                        (Some (MakeReceiverWeekTowEpoch (ubh_gps_week (header record)) (ubh_gps_millis_of_week (header record))))
                        (un_count unm_position_observations_update s1)
                    else s1) in
          (un_merge update s2, True))"

definition HandleBinaryFrame :: "UnicoreBinaryFrame \<Rightarrow> UnicoreSession \<Rightarrow> UnicoreSession" where
  "HandleBinaryFrame frame s =
     (if unib_message_id frame \<noteq> 2118 \<and> unib_message_id frame \<noteq> 1021 then un_count unm_unknown_records_update s
      else
        let (s1, accepted_record) =
              (if unib_message_id frame = 2118
               then ParseAndMergeBinaryRecord ParseUnicoreBestNavB UnicoreBestNavBToRuntimeState ubn_header True frame s
               else ParseAndMergeBinaryRecord ParseUnicorePvtslnB UnicorePvtslnBToRuntimeState upv_header True frame s) in
        if accepted_record then s1\<lparr>un_last_native_position_timestamp_ns := unib_timestamp_ns frame\<rparr> else s1)"

section \<open>NMEA sentences\<close>

definition HandleGga :: "NmeaSentence \<Rightarrow> UnicoreSession \<Rightarrow> UnicoreSession" where
  "HandleGga sentence s =
     (case accepted (ParseNmeaGga sentence) of
        None \<Rightarrow> un_count unm_records_rejected_update s
      | Some record \<Rightarrow>
          let t = nmea_timestamp_ns sentence;
              s1 = (un_count unm_position_observations_update
                     (un_count unm_runtime_observations_update (un_count unm_records_parsed_update s)))
                     \<lparr>un_seen_valid_nmea_gga := True, un_last_nmea_gga_timestamp_ns := t\<rparr>;
              update = NmeaGgaToRuntimeState record;
              s2 = un_observe update (utc_epoch (gga_utc_time record)) s1;
              update1 =
                (if NativePositionIsFresh (un_last_native_position_timestamp_ns s2) t
                 then PruneNmeaGgaFallback (ag_state (un_aggregator s2))
                   (HasFreshMixedNmeaSample (un_seen_valid_nmea_gga s2) (un_last_nmea_gga_timestamp_ns s2) t) update
                 else update) in
          un_merge update1 s2)"

definition HandleGst :: "NmeaSentence \<Rightarrow> UnicoreSession \<Rightarrow> UnicoreSession" where
  "HandleGst sentence s =
     (case accepted (ParseNmeaGst sentence) of
        None \<Rightarrow> un_count unm_records_rejected_update s
      | Some record \<Rightarrow>
          let s1 = un_count unm_runtime_observations_update (un_count unm_records_parsed_update s);
              update = NmeaGstToRuntimeState record;
              update1 =
                (if NativePositionIsFresh (un_last_native_position_timestamp_ns s1) (nmea_timestamp_ns sentence)
                 then PruneNmeaGstFallback (ag_state (un_aggregator s1)) update else update) in
          un_merge update1 s1)"

text \<open>The state of one talker after a GSV sentence of its own.\<close>

definition talker_restart :: "NmeaGsvRecord \<Rightarrow> timestamp_ns option \<Rightarrow> UnicoreNmeaGsvTalkerState \<Rightarrow> UnicoreNmeaGsvTalkerState" where
  "talker_restart record t it =
     (let stale_cycle = (case (t, gt_last_timestamp_ns it) of
                           (Some now, Some latest) \<Rightarrow> now - latest > kGsvTalkerFreshnessWindowNs
                         | _ \<Rightarrow> False);
          messages = gsv_total_messages record;
          invalid_message_count = (messages = 0 \<or> unat messages > kMaxMessages) in
      if gsv_message_index record \<le> 1 \<or> stale_cycle \<or> invalid_message_count \<or> gt_total_messages it \<noteq> messages
      then it\<lparr>gt_total_messages := (if invalid_message_count then 1 else messages),
              gt_satellites_in_view := gsv_satellites_in_view record, gt_tracked_satellites := 0,
              gt_last_timestamp_ns := t, gt_seen_messages := [], gt_cn0_sum := Finite 0, gt_cn0_count := 0,
              gt_cn0_max := Finite 0\<rparr>
      else it)"

text \<open>An addition of 16-bit numbers that stays at the greatest one.\<close>

definition saturating_add :: "u16 \<Rightarrow> nat \<Rightarrow> u16" where
  "saturating_add n k = word_of_nat (min (unat n + k) 0xFFFF)"

definition talker_add_satellite :: "NmeaGsvSatellite \<Rightarrow> UnicoreNmeaGsvTalkerState \<Rightarrow> UnicoreNmeaGsvTalkerState" where
  "talker_add_satellite satellite it =
     (case gsv_cn0_db_hz satellite of
        None \<Rightarrow> it
      | Some cn0 \<Rightarrow>
          it\<lparr>gt_cn0_sum := float_add (gt_cn0_sum it) cn0,
             gt_cn0_max := (if gt_cn0_count it = 0 \<or> dbl_less (gt_cn0_max it) cn0 then cn0 else gt_cn0_max it),
             gt_cn0_count := gt_cn0_count it + 1\<rparr>)"

definition talker_gsv :: "NmeaGsvRecord \<Rightarrow> timestamp_ns option \<Rightarrow> UnicoreNmeaGsvTalkerState \<Rightarrow> UnicoreNmeaGsvTalkerState" where
  "talker_gsv record t it =
     (let it1 = (talker_restart record t it)\<lparr>gt_satellites_in_view := gsv_satellites_in_view record, gt_last_timestamp_ns := t\<rparr>;
          index = unat (gsv_message_index record) in
      if 1 \<le> index \<and> index \<le> kMaxMessages \<and> index - 1 \<notin> set (gt_seen_messages it1) then
        fold talker_add_satellite (gsv_satellites record)
          (it1\<lparr>gt_seen_messages := (index - 1) # gt_seen_messages it1,
               gt_tracked_satellites := saturating_add (gt_tracked_satellites it1) (length (gsv_satellites record))\<rparr>)
      else it1)"

fun update_talker ::
  "string \<Rightarrow> (UnicoreNmeaGsvTalkerState \<Rightarrow> UnicoreNmeaGsvTalkerState) \<Rightarrow> UnicoreNmeaGsvTalkerState list
     \<Rightarrow> UnicoreNmeaGsvTalkerState list" where
  "update_talker talker f [] = [f (talker_new talker)]"
| "update_talker talker f (it # its) =
     (if gt_talker it = talker then f it # its else it # update_talker talker f its)"

definition talker_is_fresh :: "timestamp_ns option \<Rightarrow> UnicoreNmeaGsvTalkerState \<Rightarrow> bool" where
  "talker_is_fresh t it =
     (case (t, gt_last_timestamp_ns it) of
        (Some now, Some latest) \<Rightarrow> now - latest \<le> kGsvTalkerFreshnessWindowNs
      | _ \<Rightarrow> True)"

text \<open>The totals over the fresh talkers: tracked, visible, sum, number, maximum and whether there was a maximum.\<close>

definition add_talker ::
  "UnicoreNmeaGsvTalkerState \<Rightarrow> u16 \<times> u16 \<times> float32 \<times> nat \<times> float32 \<times> bool
     \<Rightarrow> u16 \<times> u16 \<times> float32 \<times> nat \<times> float32 \<times> bool" where
  "add_talker it totals =
     (let (tracked, visible, cn0_sum, cn0_count, cn0_max, cn0_seen) = totals in
      (saturating_add tracked (unat (gt_tracked_satellites it)), saturating_add visible (unat (gt_satellites_in_view it)),
       float_add cn0_sum (gt_cn0_sum it), cn0_count + gt_cn0_count it,
       (if gt_cn0_count it > 0 then if cn0_seen then float_max cn0_max (gt_cn0_max it) else gt_cn0_max it else cn0_max),
       cn0_seen \<or> gt_cn0_count it > 0))"

definition gsv_update :: "timestamp_ns option \<Rightarrow> u16 option \<Rightarrow> UnicoreNmeaGsvTalkerState list \<Rightarrow> GnssRuntimeState" where
  "gsv_update t satellites_used talkers =
     (let (tracked, visible, cn0_sum, cn0_count, cn0_max, cn0_seen) =
            fold add_talker (filter (talker_is_fresh t) talkers) (0, 0, Finite 0, 0, Finite 0, False);
          tracked1 = (case satellites_used of Some used \<Rightarrow> max tracked used | None \<Rightarrow> tracked);
          visible1 = (if satellites_used \<noteq> None then max visible tracked1 else visible) in
      perform
        [SetCapability GC_kSatellitesTracked, SetCapability GC_kSatellitesVisible, SetCapability GC_kMeanCn0,
         SetCapability GC_kMaxCn0,
         SetOptionalValue GC_kSatellitesTracked rs_satellites_tracked_update tracked1,
         SetOptionalValue GC_kSatellitesVisible rs_satellites_visible_update visible1,
         set_if_present GC_kMeanCn0 rs_mean_cn0_db_hz_update
           (if cn0_count > 0 then Some (float_quotient cn0_sum (round_float (of_nat cn0_count))) else None),
         set_if_present GC_kMaxCn0 rs_max_cn0_db_hz_update (if cn0_count > 0 then Some cn0_max else None)]
        (start_update t))"

definition HandleGsv :: "NmeaSentence \<Rightarrow> UnicoreSession \<Rightarrow> UnicoreSession" where
  "HandleGsv sentence s =
     (case accepted (ParseNmeaGsv sentence) of
        None \<Rightarrow> un_count unm_records_rejected_update s
      | Some record \<Rightarrow>
          let t = nmea_timestamp_ns sentence;
              s1 = (un_count unm_runtime_observations_update (un_count unm_records_parsed_update s))
                     \<lparr>un_seen_valid_nmea_gsv := True, un_last_nmea_gsv_timestamp_ns := t,
                      un_gsv_talker_states :=
                        update_talker (nmea_talker sentence) (talker_gsv record t) (un_gsv_talker_states s)\<rparr> in
          un_merge (gsv_update t (rs_satellites_used (ag_state (un_aggregator s1))) (un_gsv_talker_states s1)) s1)"

definition HandleNmeaSentence :: "NmeaSentence \<Rightarrow> UnicoreSession \<Rightarrow> UnicoreSession" where
  "HandleNmeaSentence sentence s =
     (if nmea_checksum_status sentence \<noteq> CS_kValid then un_count unm_records_rejected_update s
      else if IsNmeaSentenceType sentence ''GGA'' then HandleGga sentence s
      else if IsNmeaSentenceType sentence ''GST'' then HandleGst sentence s
      else if IsNmeaSentenceType sentence ''GSV'' then HandleGsv sentence s
      else un_count unm_unknown_records_update s)"

section \<open>Consuming the buffer\<close>

text \<open>The first malformed record before a valid one is not counted.\<close>

definition ascii_malformed :: "UnicoreSession \<Rightarrow> UnicoreSession" where
  "ascii_malformed s =
     (if un_ascii_seen_valid_record s \<or> un_ascii_startup_malformed_suppressed s
      then un_count unm_malformed_lines_update s
      else s\<lparr>un_ascii_startup_malformed_suppressed := True\<rparr>)"

definition binary_malformed :: "UnicoreSession \<Rightarrow> UnicoreSession" where
  "binary_malformed s =
     (if un_binary_seen_valid_frame s \<or> un_binary_startup_malformed_suppressed s
      then un_count unm_malformed_frames_update s
      else s\<lparr>un_binary_startup_malformed_suppressed := True\<rparr>)"

definition uni_consume_probe ::
  "('r \<Rightarrow> UnicoreSession \<Rightarrow> UnicoreSession) \<Rightarrow> (UnicoreSession \<Rightarrow> UnicoreSession) \<Rightarrow> (UnicoreSession \<Rightarrow> UnicoreSession) \<Rightarrow> bool
     \<Rightarrow> 'r ProbeResult \<Rightarrow> UnicoreSession \<Rightarrow> stamped list \<Rightarrow> UnicoreSession \<times> nat \<times> bool" where
  "uni_consume_probe deliver truncated malformed finalizing probe s bytes =
     (case (pb_status probe, pb_record probe) of
        (PS_kRecordReady, Some r) \<Rightarrow> (deliver r s, pb_bytes_consumed probe, False)
      | (status, _) \<Rightarrow>
          if status = PS_kTruncated then
            if finalizing then (truncated s, length bytes, False) else (s, 0, True)
          else
            ((if status = PS_kInvalidData \<or> status = PS_kOverflow then malformed s else s), 1, False))"

definition deliver_nmea :: "NmeaSentence \<Rightarrow> UnicoreSession \<Rightarrow> UnicoreSession" where
  "deliver_nmea sentence s =
     (let s1 = un_count unm_lines_seen_update s in
      if nmea_checksum_status sentence \<noteq> CS_kValid then un_count unm_records_rejected_update s1
      else HandleNmeaSentence sentence
        (un_count unm_ascii_records_seen_update (s1\<lparr>un_ascii_seen_valid_record := True\<rparr>)))"

definition deliver_ascii :: "UnicoreFrame \<Rightarrow> UnicoreSession \<Rightarrow> UnicoreSession" where
  "deliver_ascii frame s =
     (let s1 = (un_count unm_lines_seen_update s)\<lparr>un_ascii_seen_valid_record := True\<rparr>;
          s2 = (if uni_message_name frame \<noteq> [] then un_count unm_ascii_records_seen_update s1 else s1) in
      HandleFrame frame s2)"

definition deliver_binary :: "UnicoreBinaryFrame \<Rightarrow> UnicoreSession \<Rightarrow> UnicoreSession" where
  "deliver_binary frame s =
     HandleBinaryFrame frame ((un_count unm_binary_frames_seen_update s)\<lparr>un_binary_seen_valid_frame := True\<rparr>)"

definition uni_ConsumeNmeaAtOffset :: "bool \<Rightarrow> UnicoreSession \<Rightarrow> stamped list \<Rightarrow> UnicoreSession \<times> nat \<times> bool" where
  "uni_ConsumeNmeaAtOffset finalizing s bytes =
     (case FindEmbeddedMixedRecordResyncOffset (map fst bytes) of
        Some resync_offset \<Rightarrow> (ascii_malformed s, resync_offset, False)
      | None \<Rightarrow>
          uni_consume_probe deliver_nmea (un_count unm_malformed_lines_update) ascii_malformed finalizing
            (ProbeAtOffset nmea_PushByte nmea_Finalize (nmea_new (unc_max_frame_length_bytes (un_config s))) bytes 0)
            s bytes)"

definition uni_ConsumeAsciiAtOffset :: "bool \<Rightarrow> UnicoreSession \<Rightarrow> stamped list \<Rightarrow> UnicoreSession \<times> nat \<times> bool" where
  "uni_ConsumeAsciiAtOffset finalizing s bytes =
     (case FindEmbeddedMixedRecordResyncOffset (map fst bytes) of
        Some resync_offset \<Rightarrow> (ascii_malformed s, resync_offset, False)
      | None \<Rightarrow>
          uni_consume_probe deliver_ascii (un_count unm_malformed_lines_update) ascii_malformed finalizing
            (ProbeAtOffset uni_PushByte uni_Finalize (uni_new (unc_max_frame_length_bytes (un_config s))) bytes 0)
            s bytes)"

definition uni_ConsumeBinaryAtOffset :: "bool \<Rightarrow> UnicoreSession \<Rightarrow> stamped list \<Rightarrow> UnicoreSession \<times> nat \<times> bool" where
  "uni_ConsumeBinaryAtOffset finalizing s bytes =
     uni_consume_probe deliver_binary (un_count unm_malformed_frames_update) binary_malformed finalizing
       (ProbeAtOffset unib_PushByte unib_Finalize (unib_new (unc_max_binary_frame_length_bytes (un_config s))) bytes 0)
       s bytes"

definition unicore_consume :: "bool \<Rightarrow> UnicoreSession \<Rightarrow> stamped list \<Rightarrow> UnicoreSession \<times> nat \<times> bool" where
  "unicore_consume finalizing s bytes =
     (let byte = fst (hd bytes) in
      if byte = 0x24 \<or> byte = 0x21 then uni_ConsumeNmeaAtOffset finalizing s bytes
      else if byte = 0x23 \<or> byte = 0x25 then uni_ConsumeAsciiAtOffset finalizing s bytes
      else if byte = 0xAA then uni_ConsumeBinaryAtOffset finalizing s bytes
      else (s, 1, False))"

definition uni_ProcessBufferedData :: "bool \<Rightarrow> UnicoreSession \<Rightarrow> UnicoreSession" where
  "uni_ProcessBufferedData finalizing s =
     (let (s1, kept) = process_buffer (unicore_consume finalizing) s (un_buffer s) in s1\<lparr>un_buffer := kept\<rparr>)"

definition unicore_FeedBytes :: "bytes \<Rightarrow> timestamp_ns option \<Rightarrow> UnicoreSession \<Rightarrow> UnicoreSession" where
  "unicore_FeedBytes data timestamp s =
     (if data = [] then s
      else
        uni_ProcessBufferedData False
          (s\<lparr>un_metrics := (un_metrics s)\<lparr>unm_bytes_seen := unm_bytes_seen (un_metrics s) + of_nat (length data)\<rparr>,
             un_buffer := un_buffer s @ map (\<lambda>b. (b, timestamp)) data\<rparr>))"

definition unicore_Finalize :: "UnicoreSession \<Rightarrow> UnicoreSession" where
  "unicore_Finalize s = uni_ProcessBufferedData True s"

end
