(* ===== verification/Unicore_Fallback.thy ===== *)
theory Unicore_Fallback
  imports Unicore_Session
begin

text \<open>
  How \<open>UnicoreSession\<close> weighs the positions of GGA sentences against the native logs, and what the GSV sentences of
  several talkers add up to.
\<close>

section \<open>What pruning leaves\<close>

context runtime_field begin

lemma OmitOptionalValue_effect:
  "sl \<noteq> slot \<Longrightarrow> slot_value (OmitOptionalValue c field_update s) sl = slot_value s sl"
  "rs_clear_direct_value_flags (OmitOptionalValue c field_update s) = rs_clear_direct_value_flags s"
  "rs_timestamp_ns (OmitOptionalValue c field_update s) = rs_timestamp_ns s"
  by (simp_all add: OmitOptionalValue_def ClearValueAvailable_def field_update_slot Let_def)

lemma omit_if_effect:
  "sl \<noteq> slot \<Longrightarrow> slot_value (omit_if b c field_update s) sl = slot_value s sl"
  "rs_clear_direct_value_flags (omit_if b c field_update s) = rs_clear_direct_value_flags s"
  "rs_timestamp_ns (omit_if b c field_update s) = rs_timestamp_ns s"
  by (simp_all add: omit_if_def OmitOptionalValue_effect)

end

lemmas omit_effects =
  hdop.omit_if_effect satellites_used.omit_if_effect satellites_tracked.omit_if_effect
  horizontal_accuracy_m.omit_if_effect vertical_accuracy_m.omit_if_effect

text \<open>The position and the fix of a GGA update, pruned or not.\<close>

lemma gga_update_position:
  "slot_value (NmeaGgaToRuntimeState r) FS_kLatitude = (if gga_fix_valid r then map_option FV_float (gga_latitude_deg r) else None)"
  "slot_value (NmeaGgaToRuntimeState r) FS_kLongitude = (if gga_fix_valid r then map_option FV_float (gga_longitude_deg r) else None)"
  "slot_value (NmeaGgaToRuntimeState r) FS_kAltitude = (if gga_fix_valid r then map_option FV_float (gga_altitude_m r) else None)"
  "HasDirectValueFlag (rs_clear_direct_value_flags (NmeaGgaToRuntimeState r)) direct \<longleftrightarrow> \<not> gga_fix_valid r"
  "rs_timestamp_ns (NmeaGgaToRuntimeState r) = gga_timestamp_ns r"
  by (simp_all add: NmeaGgaToRuntimeState_def message_effects del: slot_value.simps)
    (simp_all add: RuntimeState_default_def HasDirectValueFlag_def)

definition holds_position :: "GnssRuntimeState \<Rightarrow> bool" where
  "holds_position st \<longleftrightarrow>
     rs_fix_type st \<noteq> FT_kUnknown \<and> rs_latitude_deg st \<noteq> None \<and> rs_longitude_deg st \<noteq> None \<and> rs_altitude_m st \<noteq> None"

definition position_slots :: "FieldSlot list" where
  "position_slots = [FS_kLatitude, FS_kLongitude, FS_kAltitude]"

lemma pruned_position:
  assumes "holds_position st"
  shows "sl \<in> set position_slots \<Longrightarrow> slot_value (PruneNmeaGgaFallback st p u) sl = None"
    and "rs_timestamp_ns (PruneNmeaGgaFallback st p u) = rs_timestamp_ns u"
    and "rs_fix_type (PruneNmeaGgaFallback st p u) = FT_kUnknown"
    and "rs_clear_direct_value_flags (PruneNmeaGgaFallback st p u) = rs_clear_direct_value_flags u"
proof -
  let ?p = "PruneNmeaGgaFallback st p u"
  note simps = assms [unfolded holds_position_def] PruneNmeaGgaFallback_def reset_if_def set_fix_def omit_effects
  have "slot_value ?p FS_kLatitude = None" "slot_value ?p FS_kLongitude = None" "slot_value ?p FS_kAltitude = None"
    "slot_value ?p FS_kFix = Some (FV_fix False FT_kUnknown)"
    by (simp_all add: simps del: slot_value.simps) simp_all
  then show "sl \<in> set position_slots \<Longrightarrow> slot_value ?p sl = None" and "rs_fix_type ?p = FT_kUnknown"
    by (auto simp: position_slots_def)
  show "rs_timestamp_ns ?p = rs_timestamp_ns u" "rs_clear_direct_value_flags ?p = rs_clear_direct_value_flags u"
    by (simp_all add: simps)
qed

lemma pruned_requests:
  assumes "holds_position st" and "sl \<in> set position_slots"
  shows "requested (PruneNmeaGgaFallback st p (NmeaGgaToRuntimeState r)) sl = (if gga_fix_valid r then None else Some None)"
proof -
  have "sl \<in> {FS_kLatitude, FS_kLongitude, FS_kAltitude}" using assms(2) by (simp add: position_slots_def)
  then have "kind_of_slot sl \<in> {SK_direct DV_kLatitude, SK_direct DV_kLongitude, SK_direct DV_kAltitude}" by auto
  then show ?thesis
    using pruned_position [OF assms(1)] assms(2) by (auto simp: requested_direct gga_update_position(4))
qed

lemma un_effects [simp]:
  "un_aggregator (un_count c s) = un_aggregator s"
  "un_aggregator (un_observe update epoch s) = un_aggregator s"
  "un_last_native_position_timestamp_ns (un_count c s) = un_last_native_position_timestamp_ns s"
  "un_last_native_position_timestamp_ns (un_observe update epoch s) = un_last_native_position_timestamp_ns s"
  "un_seen_valid_nmea_gga (un_observe update epoch s) = un_seen_valid_nmea_gga s"
  "un_last_nmea_gga_timestamp_ns (un_observe update epoch s) = un_last_nmea_gga_timestamp_ns s"
  "un_aggregator (un_merge update s) = fst (Merge update (un_aggregator s))"
  by (simp_all add: un_count_def un_observe_def un_merge_def Let_def split: prod.split)

definition un_state :: "UnicoreSession \<Rightarrow> GnssRuntimeState" where
  "un_state s = ag_state (un_aggregator s)"

definition native_is_fresh :: "NmeaSentence \<Rightarrow> UnicoreSession \<Rightarrow> bool" where
  "native_is_fresh sentence s = NativePositionIsFresh (un_last_native_position_timestamp_ns s) (nmea_timestamp_ns sentence)"

definition gga_preserves_used :: "NmeaSentence \<Rightarrow> bool" where
  "gga_preserves_used sentence = HasFreshMixedNmeaSample True (nmea_timestamp_ns sentence) (nmea_timestamp_ns sentence)"

lemma HandleGga_aggregator:
  assumes "accepted (ParseNmeaGga sentence) = Some r"
  shows "un_aggregator (HandleGga sentence s) =
     fst (Merge (if native_is_fresh sentence s
                 then PruneNmeaGgaFallback (un_state s) (gga_preserves_used sentence) (NmeaGgaToRuntimeState r)
                 else NmeaGgaToRuntimeState r) (un_aggregator s))"
  using assms by (simp add: HandleGga_def native_is_fresh_def un_state_def gga_preserves_used_def Let_def)

text \<open>The coordinates and the fix after a GGA sentence while the native position is fresh.\<close>

lemma fresh_native_gga:
  assumes "accepted (ParseNmeaGga sentence) = Some r" and "native_is_fresh sentence s" and "holds_position (un_state s)"
  shows "sl \<in> set position_slots \<Longrightarrow>
      slot_value (un_state (HandleGga sentence s)) sl =
        (if gga_fix_valid r \<or> \<not> accepts (ag_versions (un_aggregator s) sl) (gga_timestamp_ns r)
         then slot_value (un_state s) sl else None)"
    and "fix_of (un_state (HandleGga sentence s)) = fix_of (un_state s)"
proof -
  let ?u = "PruneNmeaGgaFallback (un_state s) (gga_preserves_used sentence) (NmeaGgaToRuntimeState r)"
  have agg: "un_aggregator (HandleGga sentence s) = fst (Merge ?u (un_aggregator s))"
    using HandleGga_aggregator [OF assms(1)] assms(2) by simp
  have t: "rs_timestamp_ns ?u = gga_timestamp_ns r" using pruned_position(2) [OF assms(3)] gga_update_position(5) by simp
  show "fix_of (un_state (HandleGga sentence s)) = fix_of (un_state s)"
    using Merge_fix [of ?u "un_aggregator s"] pruned_position(3) [OF assms(3)] by (simp add: un_state_def agg)
  assume sl: "sl \<in> set position_slots"
  then have "sl \<noteq> FS_kFix" by (auto simp: position_slots_def)
  from Merge_cell [OF this, of ?u "un_aggregator s", THEN arg_cong [of _ _ snd]] pruned_requests [OF assms(3) sl]
  show "slot_value (un_state (HandleGga sentence s)) sl =
        (if gga_fix_valid r \<or> \<not> accepts (ag_versions (un_aggregator s) sl) (gga_timestamp_ns r)
         then slot_value (un_state s) sl else None)"
    by (cases "gga_fix_valid r") (simp_all add: un_state_def agg t [unfolded un_state_def] cell_def answer_def del: slot_value.simps)
qed

lemma float_slots_eq: "map_option FV_float x = map_option FV_float y \<longleftrightarrow> x = y"
  by (cases x; cases y) simp_all

section \<open>An example\<close>

text \<open>A native position of time 1, and GGA sentences of time 2 with empty coordinates.\<close>

definition rtk_position :: GnssRuntimeState where
  "rtk_position = RuntimeState_default\<lparr>rs_timestamp_ns := Some 1, rs_fix_valid := True, rs_fix_type := FT_kRtkFixed,
     rs_latitude_deg := Some (Finite 48), rs_longitude_deg := Some (Finite 2), rs_altitude_m := Some (Finite 35)\<rparr>"

definition positioned_session :: UnicoreSession where
  "positioned_session = (unicore_new UnicoreSessionConfig_default)
     \<lparr>un_aggregator := fst (Merge rtk_position aggregator_new), un_last_native_position_timestamp_ns := Some 1\<rparr>"

definition gga_sentence :: "string \<Rightarrow> NmeaSentence" where
  "gga_sentence quality = NmeaSentence_default\<lparr>nmea_timestamp_ns := Some 2, nmea_talker := ''GP'',
     nmea_sentence_type := ''GGA'', nmea_payload_text := ''GPGGA,,,,,,'' @ quality, nmea_checksum_status := CS_kValid\<rparr>"

definition gga_record :: "NmeaGgaFixQuality \<Rightarrow> NmeaGgaRecord" where
  "gga_record quality = \<lparr>gga_timestamp_ns = Some 2, gga_utc_time = None, gga_latitude_deg = None, gga_longitude_deg = None,
     gga_altitude_m = None, gga_fix_quality = quality, gga_fix_valid = (quality \<noteq> GQ_kInvalid),
     gga_satellites_used = None, gga_hdop = None\<rparr>"

lemma gga_sentence_parses:
  "accepted (ParseNmeaGga (gga_sentence ''0'')) = Some (gga_record GQ_kInvalid)"
  "accepted (ParseNmeaGga (gga_sentence ''4'')) = Some (gga_record GQ_kRtkFixed)"
proof -
  have "TokenizeCsv 16 ''GPGGA,,,,,,0'' = Some [''GPGGA'', [], [], [], [], [], ''0'']"
    "TokenizeCsv 16 ''GPGGA,,,,,,4'' = Some [''GPGGA'', [], [], [], [], [], ''4'']"
    by code_simp+
  moreover have "ParseGgaFixQuality ''0'' = Some GQ_kInvalid" "ParseGgaFixQuality ''4'' = Some GQ_kRtkFixed"
    by (simp_all add: ParseGgaFixQuality_def TryParseUnsigned_def c_str_def c_integer_def c_sign_def digits_value_def
        digit_value_def char_code_def c_isdigit_def c_isspace_def c_isupper_def)
  ultimately show "accepted (ParseNmeaGga (gga_sentence ''0'')) = Some (gga_record GQ_kInvalid)"
    "accepted (ParseNmeaGga (gga_sentence ''4'')) = Some (gga_record GQ_kRtkFixed)"
    by (simp_all add: ParseNmeaGga_def with_fields_def IsNmeaSentenceType_def gga_sentence_def gga_record_def fld_def
        field_from_def ParseOptionalUtcTime_def ParseOptionalCoordinate_def out_of_range_def accepted_def RecordReady_def Let_def)
qed

lemma rtk_position_merged:
  "sl \<in> set position_slots \<Longrightarrow>
     cell (un_aggregator positioned_session) sl = (\<lparr>fv_seen = True, fv_timestamp_ns = Some 1\<rparr>, slot_value rtk_position sl)"
  "fix_of (un_state positioned_session) = (True, FT_kRtkFixed)"
proof -
  have "rs_fix_type rtk_position = FT_kRtkFixed" "fix_of rtk_position = (True, FT_kRtkFixed)"
    by (simp_all add: rtk_position_def fix_of_def)
  moreover have "accepts (ag_versions aggregator_new FS_kFix) t" for t
    by (simp add: aggregator_new_def FieldVersion_default_def accepts_def)
  ultimately show "fix_of (un_state positioned_session) = (True, FT_kRtkFixed)"
    using Merge_fix [of rtk_position aggregator_new] by (simp add: positioned_session_def un_state_def)
  assume "sl \<in> set position_slots"
  then have "sl \<in> {FS_kLatitude, FS_kLongitude, FS_kAltitude}" by (simp add: position_slots_def)
  then have "sl \<noteq> FS_kFix" "requested rtk_position sl = Some (slot_value rtk_position sl)"
    by (auto simp: requested_def ask_def rtk_position_def)
  moreover have "rs_timestamp_ns rtk_position = Some 1" by (simp add: rtk_position_def)
  moreover have "accepts (fst (cell aggregator_new sl)) (Some 1)"
    by (simp add: cell_def aggregator_new_def FieldVersion_default_def accepts_def)
  ultimately show "cell (un_aggregator positioned_session) sl = (\<lparr>fv_seen = True, fv_timestamp_ns = Some 1\<rparr>, slot_value rtk_position sl)"
    using Merge_cell [of sl rtk_position aggregator_new] by (simp add: positioned_session_def answer_def del: slot_value.simps)
qed

lemma positioned_session_facts:
  "holds_position (un_state positioned_session)"
  "native_is_fresh (gga_sentence quality) positioned_session"
  "sl \<in> set position_slots \<Longrightarrow> accepts (ag_versions (un_aggregator positioned_session) sl) (Some 2)"
proof -
  show "holds_position (un_state positioned_session)"
    using rtk_position_merged(1) [of FS_kLatitude] rtk_position_merged(1) [of FS_kLongitude]
      rtk_position_merged(1) [of FS_kAltitude] rtk_position_merged(2)
    by (auto simp: holds_position_def position_slots_def cell_def un_state_def fix_of_def rtk_position_def)
  show "native_is_fresh (gga_sentence quality) positioned_session"
    by (simp add: native_is_fresh_def NativePositionIsFresh_def positioned_session_def gga_sentence_def
        kNativePositionFreshnessWindowNs_def)
  show "accepts (ag_versions (un_aggregator positioned_session) sl) (Some 2)" if "sl \<in> set position_slots"
    using rtk_position_merged(1) [OF that] by (simp add: cell_def accepts_def)
qed

section \<open>Properties\<close>

text \<open>C22. A GGA sentence never overrides a native position.  When the last PVTSLN or BESTNAV position is fresh and the
  runtime state holds a position, a GGA sentence with a fix leaves latitude, longitude, altitude and fix as they are,
  whatever it says and whenever it was taken.\<close>

theorem native_position_has_priority:
  assumes "accepted (ParseNmeaGga sentence) = Some r" and "gga_fix_valid r"
    and "native_is_fresh sentence s" and "holds_position (un_state s)"
  shows "let st = un_state (HandleGga sentence s) in
     rs_latitude_deg st = rs_latitude_deg (un_state s) \<and> rs_longitude_deg st = rs_longitude_deg (un_state s)
     \<and> rs_altitude_m st = rs_altitude_m (un_state s) \<and> fix_of st = fix_of (un_state s)"
proof -
  note fresh = fresh_native_gga(1) [OF assms(1,3,4)]
  show ?thesis
    using fresh [of FS_kLatitude] fresh [of FS_kLongitude] fresh [of FS_kAltitude] fresh_native_gga(2) [OF assms(1,3,4)] assms(2)
    by (simp add: Let_def position_slots_def float_slots_eq)
qed

theorem native_position_has_priority_witness:
  "rs_latitude_deg (un_state (HandleGga (gga_sentence ''4'') positioned_session)) = rs_latitude_deg (un_state positioned_session)"
  using native_position_has_priority [OF gga_sentence_parses(2) _ positioned_session_facts(2,1)]
  by (simp add: gga_record_def Let_def)

text \<open>C40. A GGA sentence without a fix erases the native position.  In the same situation, a sentence that reports no fix
  and is not older than the coordinates removes latitude, longitude and altitude, although the native position is fresh
  and the fix stays valid: the pruning takes the values out of the update but leaves the request to clear them.\<close>

theorem lost_gga_erases_native_position:
  assumes "accepted (ParseNmeaGga sentence) = Some r" and "\<not> gga_fix_valid r"
    and "native_is_fresh sentence s" and "holds_position (un_state s)"
    and "list_all (\<lambda>sl. accepts (ag_versions (un_aggregator s) sl) (gga_timestamp_ns r)) position_slots"
  shows "let st = un_state (HandleGga sentence s) in
     rs_latitude_deg st = None \<and> rs_longitude_deg st = None \<and> rs_altitude_m st = None \<and> fix_of st = fix_of (un_state s)"
proof -
  note fresh = fresh_native_gga(1) [OF assms(1,3,4)]
  show ?thesis
    using fresh [of FS_kLatitude] fresh [of FS_kLongitude] fresh [of FS_kAltitude] fresh_native_gga(2) [OF assms(1,3,4)] assms(2,5)
    by (simp add: Let_def position_slots_def)
qed

theorem lost_gga_erases_native_position_witness:
  "let st = un_state (HandleGga (gga_sentence ''0'') positioned_session) in
     rs_latitude_deg st = None \<and> fix_of st = (True, FT_kRtkFixed)"
  using lost_gga_erases_native_position [OF gga_sentence_parses(1) _ positioned_session_facts(2,1)]
    positioned_session_facts(3) rtk_position_merged(2)
  by (simp add: gga_record_def Let_def list_all_iff)

end
