(* ===== verification/Receiver_Profiles.thy ===== *)
theory Receiver_Profiles
  imports Receiver_Command
begin

text \<open>
  What receivers can do and which configurations they are offered (gnss_driver: protocol_support.hpp,
  receiver_capabilities.hpp, receiver_profile.hpp, receiver_config_profile.hpp, unicore_model_profile.cpp,
  receiver_profiles.cpp).  Flag sets are 32-bit words; a pointer into a table is an option.
\<close>

section \<open>Protocols and features\<close>

datatype ReceiverProtocol = RP_kNmea | RP_kUbx | RP_kRtcm3 | RP_kUnicoreAscii | RP_kUnicoreBinary

fun protocol_flag :: "ReceiverProtocol \<Rightarrow> u32" where
  "protocol_flag RP_kNmea = 1"
| "protocol_flag RP_kUbx = 2"
| "protocol_flag RP_kRtcm3 = 4"
| "protocol_flag RP_kUnicoreAscii = 8"
| "protocol_flag RP_kUnicoreBinary = 16"

definition HasProtocolFlag :: "u32 \<Rightarrow> ReceiverProtocol \<Rightarrow> bool" where
  "HasProtocolFlag flags protocol \<longleftrightarrow> flags AND protocol_flag protocol \<noteq> 0"

definition SetProtocolFlag :: "u32 \<Rightarrow> ReceiverProtocol \<Rightarrow> u32" where
  "SetProtocolFlag flags protocol = flags OR protocol_flag protocol"

definition ClearProtocolFlag :: "u32 \<Rightarrow> ReceiverProtocol \<Rightarrow> u32" where
  "ClearProtocolFlag flags protocol = flags AND NOT (protocol_flag protocol)"

datatype ReceiverFeature =
    RF_kRtk | RF_kHeading | RF_kDualAntenna | RF_kRfMonitoring | RF_kPps | RF_kSurveyIn | RF_kBaseMode | RF_kRoverMode
  | RF_kConstellationConfig | RF_kCfgValset | RF_kSignalGroups | RF_kAsciiCommandConfig | RF_kDualAntennaBaseline

fun feature_flag :: "ReceiverFeature \<Rightarrow> u32" where
  "feature_flag RF_kRtk = 1"
| "feature_flag RF_kHeading = 2"
| "feature_flag RF_kDualAntenna = 4"
| "feature_flag RF_kRfMonitoring = 8"
| "feature_flag RF_kPps = 16"
| "feature_flag RF_kSurveyIn = 32"
| "feature_flag RF_kBaseMode = 64"
| "feature_flag RF_kRoverMode = 128"
| "feature_flag RF_kConstellationConfig = 256"
| "feature_flag RF_kCfgValset = 512"
| "feature_flag RF_kSignalGroups = 1024"
| "feature_flag RF_kAsciiCommandConfig = 2048"
| "feature_flag RF_kDualAntennaBaseline = 4096"

definition HasReceiverFeatureFlag :: "u32 \<Rightarrow> ReceiverFeature \<Rightarrow> bool" where
  "HasReceiverFeatureFlag flags feature \<longleftrightarrow> flags AND feature_flag feature \<noteq> 0"

definition SetReceiverFeatureFlag :: "u32 \<Rightarrow> ReceiverFeature \<Rightarrow> u32" where
  "SetReceiverFeatureFlag flags feature = flags OR feature_flag feature"

definition ClearReceiverFeatureFlag :: "u32 \<Rightarrow> ReceiverFeature \<Rightarrow> u32" where
  "ClearReceiverFeatureFlag flags feature = flags AND NOT (feature_flag feature)"

record ReceiverCapabilities =
  cap_supported_input_protocols :: u32
  cap_supported_output_protocols :: u32
  cap_features :: u32

definition ReceiverCapabilities_default :: ReceiverCapabilities where
  "ReceiverCapabilities_default =
     \<lparr>cap_supported_input_protocols = 0, cap_supported_output_protocols = 0, cap_features = 0\<rparr>"

definition SupportsInputProtocol :: "ReceiverCapabilities \<Rightarrow> ReceiverProtocol \<Rightarrow> bool" where
  "SupportsInputProtocol capabilities protocol \<longleftrightarrow> HasProtocolFlag (cap_supported_input_protocols capabilities) protocol"

definition SupportsOutputProtocol :: "ReceiverCapabilities \<Rightarrow> ReceiverProtocol \<Rightarrow> bool" where
  "SupportsOutputProtocol capabilities protocol \<longleftrightarrow> HasProtocolFlag (cap_supported_output_protocols capabilities) protocol"

definition HasReceiverFeature :: "ReceiverCapabilities \<Rightarrow> ReceiverFeature \<Rightarrow> bool" where
  "HasReceiverFeature capabilities feature \<longleftrightarrow> HasReceiverFeatureFlag (cap_features capabilities) feature"

definition AddSupportedInputProtocol :: "ReceiverProtocol \<Rightarrow> ReceiverCapabilities \<Rightarrow> ReceiverCapabilities" where
  "AddSupportedInputProtocol protocol c =
     c\<lparr>cap_supported_input_protocols := SetProtocolFlag (cap_supported_input_protocols c) protocol\<rparr>"

definition AddSupportedOutputProtocol :: "ReceiverProtocol \<Rightarrow> ReceiverCapabilities \<Rightarrow> ReceiverCapabilities" where
  "AddSupportedOutputProtocol protocol c =
     c\<lparr>cap_supported_output_protocols := SetProtocolFlag (cap_supported_output_protocols c) protocol\<rparr>"

definition AddReceiverFeature :: "ReceiverFeature \<Rightarrow> ReceiverCapabilities \<Rightarrow> ReceiverCapabilities" where
  "AddReceiverFeature feature c = c\<lparr>cap_features := SetReceiverFeatureFlag (cap_features c) feature\<rparr>"

section \<open>Configuration profiles\<close>

datatype ReceiverConfigProfileKind =
    PF_kRover | PF_kBase | PF_kSurveyIn | PF_kNmeaOutput | PF_kRtcmOutput | PF_kDiagnosticsOutput

record ReceiverConfigProfile =
  rcf_kind :: ReceiverConfigProfileKind
  rcf_profile_id :: string
  rcf_display_name :: string
  rcf_required_input_protocols :: u32
  rcf_required_output_protocols :: u32
  rcf_required_features :: u32
  rcf_default_safety_level :: ReceiverCommandSafetyLevel

fun GetReceiverConfigProfile :: "ReceiverConfigProfileKind \<Rightarrow> ReceiverConfigProfile" where
  "GetReceiverConfigProfile PF_kRover =
     \<lparr>rcf_kind = PF_kRover, rcf_profile_id = ''rover'', rcf_display_name = ''Rover Mode'', rcf_required_input_protocols = 0,
      rcf_required_output_protocols = 0, rcf_required_features = feature_flag RF_kRoverMode,
      rcf_default_safety_level = SL_kRuntime\<rparr>"
| "GetReceiverConfigProfile PF_kBase =
     \<lparr>rcf_kind = PF_kBase, rcf_profile_id = ''base'', rcf_display_name = ''Base Mode'', rcf_required_input_protocols = 0,
      rcf_required_output_protocols = 0, rcf_required_features = feature_flag RF_kBaseMode,
      rcf_default_safety_level = SL_kRuntime\<rparr>"
| "GetReceiverConfigProfile PF_kSurveyIn =
     \<lparr>rcf_kind = PF_kSurveyIn, rcf_profile_id = ''survey_in'', rcf_display_name = ''Survey-In'',
      rcf_required_input_protocols = 0, rcf_required_output_protocols = 0,
      rcf_required_features = feature_flag RF_kBaseMode OR feature_flag RF_kSurveyIn,
      rcf_default_safety_level = SL_kRuntime\<rparr>"
| "GetReceiverConfigProfile PF_kNmeaOutput =
     \<lparr>rcf_kind = PF_kNmeaOutput, rcf_profile_id = ''nmea_output'', rcf_display_name = ''NMEA Output'',
      rcf_required_input_protocols = 0, rcf_required_output_protocols = protocol_flag RP_kNmea, rcf_required_features = 0,
      rcf_default_safety_level = SL_kRuntime\<rparr>"
| "GetReceiverConfigProfile PF_kRtcmOutput =
     \<lparr>rcf_kind = PF_kRtcmOutput, rcf_profile_id = ''rtcm_output'', rcf_display_name = ''RTCM Output'',
      rcf_required_input_protocols = 0, rcf_required_output_protocols = protocol_flag RP_kRtcm3, rcf_required_features = 0,
      rcf_default_safety_level = SL_kRuntime\<rparr>"
| "GetReceiverConfigProfile PF_kDiagnosticsOutput =
     \<lparr>rcf_kind = PF_kDiagnosticsOutput, rcf_profile_id = ''diagnostics_output'', rcf_display_name = ''Diagnostics Output'',
      rcf_required_input_protocols = 0, rcf_required_output_protocols = 0, rcf_required_features = 0,
      rcf_default_safety_level = SL_kRuntime\<rparr>"

definition RequiresInputProtocol :: "ReceiverConfigProfile \<Rightarrow> ReceiverProtocol \<Rightarrow> bool" where
  "RequiresInputProtocol profile protocol \<longleftrightarrow> HasProtocolFlag (rcf_required_input_protocols profile) protocol"

definition RequiresOutputProtocol :: "ReceiverConfigProfile \<Rightarrow> ReceiverProtocol \<Rightarrow> bool" where
  "RequiresOutputProtocol profile protocol \<longleftrightarrow> HasProtocolFlag (rcf_required_output_protocols profile) protocol"

definition RequiresReceiverFeature :: "ReceiverConfigProfile \<Rightarrow> ReceiverFeature \<Rightarrow> bool" where
  "RequiresReceiverFeature profile feature \<longleftrightarrow> HasReceiverFeatureFlag (rcf_required_features profile) feature"

definition CanApplyConfigProfile :: "ReceiverCapabilities \<Rightarrow> ReceiverConfigProfile \<Rightarrow> bool" where
  "CanApplyConfigProfile capabilities profile \<longleftrightarrow>
     rcf_required_input_protocols profile AND NOT (cap_supported_input_protocols capabilities) = 0
     \<and> rcf_required_output_protocols profile AND NOT (cap_supported_output_protocols capabilities) = 0
     \<and> rcf_required_features profile AND NOT (cap_features capabilities) = 0"

text \<open>The number of an enumerator, which its flag is shifted by.\<close>

fun profile_kind_number :: "ReceiverConfigProfileKind \<Rightarrow> nat" where
  "profile_kind_number PF_kRover = 0"
| "profile_kind_number PF_kBase = 1"
| "profile_kind_number PF_kSurveyIn = 2"
| "profile_kind_number PF_kNmeaOutput = 3"
| "profile_kind_number PF_kRtcmOutput = 4"
| "profile_kind_number PF_kDiagnosticsOutput = 5"

definition ToConfigProfileFlag :: "ReceiverConfigProfileKind \<Rightarrow> u32" where
  "ToConfigProfileFlag kind = push_bit (profile_kind_number kind) 1"

record ReceiverProfile =
  rpf_profile_id :: string
  rpf_display_name :: string
  rpf_vendor :: ReceiverVendor
  rpf_family :: string
  rpf_model :: string
  rpf_placeholder :: bool
  rpf_capabilities :: ReceiverCapabilities
  rpf_supported_config_profiles :: u32

definition SupportsConfigProfile :: "ReceiverProfile \<Rightarrow> ReceiverConfigProfileKind \<Rightarrow> bool" where
  "SupportsConfigProfile profile kind \<longleftrightarrow> rpf_supported_config_profiles profile AND ToConfigProfileFlag kind \<noteq> 0"

section \<open>The models of Unicore\<close>

datatype UnicoreModel = UM_kUnknown | UM_kUm960 | UM_kUm980 | UM_kUm981 | UM_kUm982 | UM_kUb9a0

record UnicoreSignalGroupSelection =
  sgs_groups :: "u8 list"
  sgs_description :: string
  sgs_baseline_only :: bool
  sgs_base_mode_only :: bool
  sgs_low_power_mode :: bool
  sgs_portable_rover_default :: bool

record UnicoreModelProfile =
  ump_model_id :: UnicoreModel
  ump_family :: string
  ump_model :: string
  ump_profile_id :: string
  ump_placeholder :: bool
  ump_capabilities :: ReceiverCapabilities
  ump_supports_rover_survey_mow :: bool
  ump_rover_survey_mow_min_build :: string
  ump_signal_group_options :: "UnicoreSignalGroupSelection list"

definition MakeUnicoreCapabilities :: "bool \<Rightarrow> bool \<Rightarrow> ReceiverCapabilities" where
  "MakeUnicoreCapabilities baseline_capable signal_group_config_supported =
     (let c1 = fold AddSupportedInputProtocol [RP_kRtcm3, RP_kUnicoreAscii, RP_kUnicoreBinary] ReceiverCapabilities_default;
          c2 = fold AddSupportedOutputProtocol [RP_kNmea, RP_kRtcm3, RP_kUnicoreAscii, RP_kUnicoreBinary] c1;
          c3 = fold AddReceiverFeature
                 [RF_kRtk, RF_kPps, RF_kSurveyIn, RF_kBaseMode, RF_kRoverMode, RF_kAsciiCommandConfig] c2;
          c4 = (if signal_group_config_supported then AddReceiverFeature RF_kSignalGroups c3 else c3) in
      if baseline_capable then fold AddReceiverFeature [RF_kHeading, RF_kDualAntenna, RF_kDualAntennaBaseline] c4 else c4)"

definition GenericUnicoreProfile :: UnicoreModelProfile where
  "GenericUnicoreProfile =
     \<lparr>ump_model_id = UM_kUnknown, ump_family = ''UM98x'', ump_model = ''unknown'',
      ump_profile_id = ''unicore_um98x_placeholder'', ump_placeholder = True,
      ump_capabilities = MakeUnicoreCapabilities False False, ump_supports_rover_survey_mow = False,
      ump_rover_survey_mow_min_build = [], ump_signal_group_options = []\<rparr>"

definition Um960Profile :: UnicoreModelProfile where
  "Um960Profile =
     \<lparr>ump_model_id = UM_kUm960, ump_family = ''UM98x'', ump_model = ''UM960'', ump_profile_id = ''unicore_um960'',
      ump_placeholder = False, ump_capabilities = MakeUnicoreCapabilities False False, ump_supports_rover_survey_mow = True,
      ump_rover_survey_mow_min_build = [], ump_signal_group_options = []\<rparr>"

definition signal_group ::
  "u8 list \<Rightarrow> string \<Rightarrow> bool \<Rightarrow> bool \<Rightarrow> bool \<Rightarrow> bool \<Rightarrow> UnicoreSignalGroupSelection" where
  "signal_group groups description baseline_only base_mode_only low_power_mode portable_rover_default =
     \<lparr>sgs_groups = groups, sgs_description = description, sgs_baseline_only = baseline_only,
      sgs_base_mode_only = base_mode_only, sgs_low_power_mode = low_power_mode,
      sgs_portable_rover_default = portable_rover_default\<rparr>"

definition Um980Profile :: UnicoreModelProfile where
  "Um980Profile =
     \<lparr>ump_model_id = UM_kUm980, ump_family = ''UM98x'', ump_model = ''UM980'', ump_profile_id = ''unicore_um980'',
      ump_placeholder = False, ump_capabilities = MakeUnicoreCapabilities False True, ump_supports_rover_survey_mow = True,
      ump_rover_survey_mow_min_build = ''Build7923+'',
      ump_signal_group_options =
        [signal_group [1] ''documented default single-antenna signal group'' False False False False,
         signal_group [2] ''documented single-antenna all-frequency signal group'' False False False False,
         signal_group [8] ''documented single-antenna 50 Hz signal group'' False False False False]\<rparr>"

definition Um981Profile :: UnicoreModelProfile where
  "Um981Profile =
     \<lparr>ump_model_id = UM_kUm981, ump_family = ''UM98x'', ump_model = ''UM981'', ump_profile_id = ''unicore_um981'',
      ump_placeholder = False, ump_capabilities = MakeUnicoreCapabilities False False,
      ump_supports_rover_survey_mow = False, ump_rover_survey_mow_min_build = [], ump_signal_group_options = []\<rparr>"

definition Um982Profile :: UnicoreModelProfile where
  "Um982Profile =
     \<lparr>ump_model_id = UM_kUm982, ump_family = ''UM98x'', ump_model = ''UM982'', ump_profile_id = ''unicore_um982'',
      ump_placeholder = False, ump_capabilities = MakeUnicoreCapabilities True True, ump_supports_rover_survey_mow = True,
      ump_rover_survey_mow_min_build = ''Build7650+'',
      ump_signal_group_options =
        [signal_group [4, 5] ''documented default dual-antenna signal group'' True False False False,
         signal_group [3, 6] ''documented dual-antenna rover signal group'' True False False True,
         signal_group [5, 0] ''documented low-power signal group'' False False True False,
         signal_group [7, 0] ''documented base-mode-only signal group'' False True False False]\<rparr>"

definition Ub9a0Profile :: UnicoreModelProfile where
  "Ub9a0Profile =
     \<lparr>ump_model_id = UM_kUb9a0, ump_family = ''UM98x'', ump_model = ''UB9A0'', ump_profile_id = ''unicore_ub9a0'',
      ump_placeholder = False, ump_capabilities = MakeUnicoreCapabilities False True, ump_supports_rover_survey_mow = True,
      ump_rover_survey_mow_min_build = [],
      ump_signal_group_options =
        [signal_group [2] ''documented default single-antenna signal group'' False False False False,
         signal_group [9] ''documented single-antenna signal group'' False False False False]\<rparr>"

definition NormalizeUnicoreModelName :: "string \<Rightarrow> string" where
  "NormalizeUnicoreModelName model =
     map c_toupper (filter (\<lambda>c. c_isdigit c \<or> c_isupper c \<or> c_islower c) model)"

definition ParseUnicoreModel :: "string \<Rightarrow> UnicoreModel option" where
  "ParseUnicoreModel model =
     (let normalized = NormalizeUnicoreModelName model in
      if normalized = ''UM960'' then Some UM_kUm960
      else if normalized = ''UM980'' then Some UM_kUm980
      else if normalized = ''UM981'' then Some UM_kUm981
      else if normalized = ''UM982'' then Some UM_kUm982
      else if normalized = ''UB9A0'' then Some UM_kUb9a0 else None)"

fun UnicoreModel_ToString :: "UnicoreModel \<Rightarrow> string" where
  "UnicoreModel_ToString UM_kUm960 = ''UM960''"
| "UnicoreModel_ToString UM_kUm980 = ''UM980''"
| "UnicoreModel_ToString UM_kUm981 = ''UM981''"
| "UnicoreModel_ToString UM_kUm982 = ''UM982''"
| "UnicoreModel_ToString UM_kUb9a0 = ''UB9A0''"
| "UnicoreModel_ToString UM_kUnknown = ''unknown''"

definition ResolveUnicoreModelProfile :: "string option \<Rightarrow> UnicoreModelProfile" where
  "ResolveUnicoreModelProfile model =
     (case model of
        None \<Rightarrow> GenericUnicoreProfile
      | Some m \<Rightarrow>
          (case ParseUnicoreModel m of
             Some UM_kUm960 \<Rightarrow> Um960Profile
           | Some UM_kUm980 \<Rightarrow> Um980Profile
           | Some UM_kUm981 \<Rightarrow> Um981Profile
           | Some UM_kUm982 \<Rightarrow> Um982Profile
           | Some UM_kUb9a0 \<Rightarrow> Ub9a0Profile
           | _ \<Rightarrow> GenericUnicoreProfile))"

definition BuildUnicoreTargetSelector :: "UnicoreModelProfile \<Rightarrow> ReceiverTargetSelector" where
  "BuildUnicoreTargetSelector profile =
     \<lparr>rts_vendor = RV_kUnicore, rts_family = ump_family profile, rts_model = ump_model profile,
      rts_profile_id = ump_profile_id profile\<rparr>"

definition FindUnicoreSignalGroupSelection ::
  "UnicoreModelProfile \<Rightarrow> u8 list \<Rightarrow> UnicoreSignalGroupSelection option" where
  "FindUnicoreSignalGroupSelection profile groups = find (\<lambda>option. sgs_groups option = groups) (ump_signal_group_options profile)"

definition FindUnicorePortableRoverSignalGroupSelection :: "UnicoreModelProfile \<Rightarrow> UnicoreSignalGroupSelection option" where
  "FindUnicorePortableRoverSignalGroupSelection profile = find sgs_portable_rover_default (ump_signal_group_options profile)"

definition SupportsUnicorePortableRoverSurveyMow :: "UnicoreModelProfile \<Rightarrow> bool" where
  "SupportsUnicorePortableRoverSurveyMow profile = ump_supports_rover_survey_mow profile"

definition DescribeUnicorePortableRoverSurveyMowSupport :: "UnicoreModelProfile \<Rightarrow> string" where
  "DescribeUnicorePortableRoverSurveyMowSupport profile =
     (if \<not> ump_supports_rover_survey_mow profile then ''unsupported''
      else if ump_rover_survey_mow_min_build profile = [] then ''documented supported''
      else ''documented supported, '' @ ump_rover_survey_mow_min_build profile)"

definition FormatUnicoreSignalGroupSelection :: "u8 list \<Rightarrow> string" where
  "FormatUnicoreSignalGroupSelection groups =
     (case map (dec_nat \<circ> unat) groups of [] \<Rightarrow> ''none'' | g # gs \<Rightarrow> g @ concat (map (\<lambda>t. '' '' @ t) gs))"

definition describe_signal_group :: "UnicoreSignalGroupSelection \<Rightarrow> string" where
  "describe_signal_group selection =
     FormatUnicoreSignalGroupSelection (sgs_groups selection)
     @ (if sgs_base_mode_only selection then '' (base mode only)''
        else if sgs_low_power_mode selection then '' (low power)''
        else if sgs_portable_rover_default selection then '' (portable rover default)'' else [])"

definition DescribeUnicoreSupportedSignalGroups :: "UnicoreModelProfile \<Rightarrow> string" where
  "DescribeUnicoreSupportedSignalGroups profile =
     (case map describe_signal_group (ump_signal_group_options profile) of
        [] \<Rightarrow> ''none'' | g # gs \<Rightarrow> g @ concat (map (\<lambda>t. '', '' @ t) gs))"

section \<open>The built-in receivers\<close>

definition MakeCapabilities :: "u32 \<Rightarrow> u32 \<Rightarrow> u32 \<Rightarrow> ReceiverCapabilities" where
  "MakeCapabilities input_protocols output_protocols features =
     \<lparr>cap_supported_input_protocols = input_protocols, cap_supported_output_protocols = output_protocols,
      cap_features = features\<rparr>"

definition BuildUnicoreProfile :: "UnicoreModelProfile \<Rightarrow> string \<Rightarrow> ReceiverProfile" where
  "BuildUnicoreProfile model_profile display_name =
     \<lparr>rpf_profile_id = ump_profile_id model_profile, rpf_display_name = display_name, rpf_vendor = RV_kUnicore,
      rpf_family = ump_family model_profile, rpf_model = ump_model model_profile,
      rpf_placeholder = ump_placeholder model_profile, rpf_capabilities = ump_capabilities model_profile,
      rpf_supported_config_profiles = ToConfigProfileFlag PF_kRover OR ToConfigProfileFlag PF_kDiagnosticsOutput\<rparr>"

definition GetBuiltInReceiverProfiles :: "ReceiverProfile list" where
  "GetBuiltInReceiverProfiles =
     [\<lparr>rpf_profile_id = ''generic_nmea'', rpf_display_name = ''Generic NMEA Receiver'', rpf_vendor = RV_kGeneric,
       rpf_family = ''NMEA'', rpf_model = ''NMEA'', rpf_placeholder = False,
       rpf_capabilities = MakeCapabilities 0 (protocol_flag RP_kNmea) (feature_flag RF_kRtk OR feature_flag RF_kRoverMode),
       rpf_supported_config_profiles = 0\<rparr>,
      \<lparr>rpf_profile_id = ''ublox_f9_f10'', rpf_display_name = ''u-blox F9/F10 Family'', rpf_vendor = RV_kUblox,
       rpf_family = ''F9/F10'', rpf_model = ''family'', rpf_placeholder = False,
       rpf_capabilities = MakeCapabilities (protocol_flag RP_kUbx OR protocol_flag RP_kRtcm3)
         (protocol_flag RP_kNmea OR protocol_flag RP_kUbx)
         (feature_flag RF_kRfMonitoring OR feature_flag RF_kPps OR feature_flag RF_kRoverMode),
       rpf_supported_config_profiles =
         ToConfigProfileFlag PF_kRover OR ToConfigProfileFlag PF_kDiagnosticsOutput OR ToConfigProfileFlag PF_kBase\<rparr>,
      BuildUnicoreProfile (ResolveUnicoreModelProfile None) ''Unicore N4 Generic'',
      BuildUnicoreProfile (ResolveUnicoreModelProfile (Some ''UM960'')) ''Unicore UM960'',
      BuildUnicoreProfile (ResolveUnicoreModelProfile (Some ''UM980'')) ''Unicore UM980'',
      BuildUnicoreProfile (ResolveUnicoreModelProfile (Some ''UM981'')) ''Unicore UM981'',
      BuildUnicoreProfile (ResolveUnicoreModelProfile (Some ''UM982'')) ''Unicore UM982'',
      BuildUnicoreProfile (ResolveUnicoreModelProfile (Some ''UB9A0'')) ''Unicore UB9A0'',
      \<lparr>rpf_profile_id = ''quectel_placeholder'', rpf_display_name = ''Quectel Placeholder'', rpf_vendor = RV_kQuectel,
       rpf_family = ''Quectel'', rpf_model = ''placeholder'', rpf_placeholder = True,
       rpf_capabilities = MakeCapabilities (protocol_flag RP_kRtcm3) (protocol_flag RP_kNmea)
         (feature_flag RF_kRtk OR feature_flag RF_kPps OR feature_flag RF_kRoverMode),
       rpf_supported_config_profiles = 0\<rparr>]"

definition FindBuiltInReceiverProfile :: "string \<Rightarrow> ReceiverProfile option" where
  "FindBuiltInReceiverProfile profile_id = find (\<lambda>p. rpf_profile_id p = profile_id) GetBuiltInReceiverProfiles"

section \<open>Lemmas\<close>

text \<open>A model resolves to its own profile, by its name.\<close>

lemma resolved_models:
  "ResolveUnicoreModelProfile None = GenericUnicoreProfile"
  "ResolveUnicoreModelProfile (Some ''UM960'') = Um960Profile" "ResolveUnicoreModelProfile (Some ''UM980'') = Um980Profile"
  "ResolveUnicoreModelProfile (Some ''UM981'') = Um981Profile" "ResolveUnicoreModelProfile (Some ''UM982'') = Um982Profile"
  "ResolveUnicoreModelProfile (Some ''UB9A0'') = Ub9a0Profile"
  by (simp_all add: ResolveUnicoreModelProfile_def ParseUnicoreModel_def NormalizeUnicoreModelName_def
      c_isdigit_def c_isupper_def c_islower_def c_toupper_def char_code_def)

lemmas model_profiles =
  GenericUnicoreProfile_def Um960Profile_def Um980Profile_def Um981Profile_def Um982Profile_def Ub9a0Profile_def

text \<open>The profiles of the table have different names.\<close>

lemma built_in_profiles_distinct: "distinct (map rpf_profile_id GetBuiltInReceiverProfiles)"
  by (simp add: GetBuiltInReceiverProfiles_def BuildUnicoreProfile_def resolved_models model_profiles)

text \<open>Every configuration a built-in receiver is offered is one its capabilities allow, but for one: the u-blox family
  is offered the base configuration, and its capabilities lack the base mode.\<close>

definition offered :: "ReceiverProfile \<Rightarrow> ReceiverConfigProfileKind list" where
  "offered profile =
     filter (SupportsConfigProfile profile) [PF_kRover, PF_kBase, PF_kSurveyIn, PF_kNmeaOutput, PF_kRtcmOutput, PF_kDiagnosticsOutput]"

lemma offered_but_not_allowed:
  "concat (map (\<lambda>p. map (\<lambda>k. (rpf_profile_id p, k))
      (filter (\<lambda>k. \<not> CanApplyConfigProfile (rpf_capabilities p) (GetReceiverConfigProfile k)) (offered p)))
     GetBuiltInReceiverProfiles)
   = [(''ublox_f9_f10'', PF_kBase)]"
  by (simp add: GetBuiltInReceiverProfiles_def BuildUnicoreProfile_def resolved_models model_profiles offered_def
      SupportsConfigProfile_def ToConfigProfileFlag_def CanApplyConfigProfile_def MakeCapabilities_def
      MakeUnicoreCapabilities_def ReceiverCapabilities_default_def AddSupportedInputProtocol_def
      AddSupportedOutputProtocol_def AddReceiverFeature_def SetProtocolFlag_def SetReceiverFeatureFlag_def)

end
