(* ===== verification/Ublox_Profile.thy ===== *)
theory Ublox_Profile
  imports Receiver_Profiles Ubx_Cfg_Builder
begin

text \<open>
  \<open>UbloxConfigProfileBuilder\<close> (gnss_driver/src/ublox_config_profile_builder.cpp): the commands that bring a u-blox
  receiver into a configuration, one CFG-VALSET frame for every item.
\<close>

section \<open>Profiles\<close>

datatype UbloxConfigProfileBuildStatus = UP_kOk | UP_kInvalidArgument | UP_kBuilderError

record UbloxMessageRate =
  umr_message_rate_key :: u32
  umr_rate :: u8

record UbloxConstellationConfig =
  ucc_constellation :: UbxCfgConstellation
  ucc_enabled :: bool

datatype UbloxInterfacePort = UIP_kUart1 | UIP_kUart2 | UIP_kUsb

record UbloxPortConfig =
  upc_output_ports :: "UbloxInterfacePort list"
  upc_uart1_baudrate :: "u32 option"
  upc_uart2_baudrate :: "u32 option"

record UbloxConfigProfile =
  up_config_kind :: ReceiverConfigProfileKind
  up_safety_level :: ReceiverCommandSafetyLevel
  up_target_layers :: "UbxCfgLayer list"
  up_port :: UbloxPortConfig
  up_measurement_rate_hz :: "double option"
  up_enabled_messages :: "UbloxMessageRate list"
  up_disabled_messages :: "u32 list"
  up_constellations :: "UbloxConstellationConfig list"

definition UbloxConfigProfile_default :: UbloxConfigProfile where
  "UbloxConfigProfile_default =
     \<lparr>up_config_kind = PF_kRover, up_safety_level = SL_kRuntime, up_target_layers = [Layer_kRam],
      up_port = \<lparr>upc_output_ports = [UIP_kUart1, UIP_kUsb], upc_uart1_baudrate = None, upc_uart2_baudrate = None\<rparr>,
      up_measurement_rate_hz = None, up_enabled_messages = [], up_disabled_messages = [], up_constellations = []\<rparr>"

record UbloxConfigProfileBuildResult =
  upr_status :: UbloxConfigProfileBuildStatus
  upr_commands :: "ReceiverCommand list"
  upr_error_message :: string

definition UbloxConfigProfileBuildResult_default :: UbloxConfigProfileBuildResult where
  "UbloxConfigProfileBuildResult_default = \<lparr>upr_status = UP_kOk, upr_commands = [], upr_error_message = []\<rparr>"

definition kUbloxTarget :: ReceiverTargetSelector where
  "kUbloxTarget =
     \<lparr>rts_vendor = RV_kUblox, rts_family = ''F9/F10'', rts_model = ''family'', rts_profile_id = ''ublox_f9_f10''\<rparr>"

section \<open>The builder\<close>

definition ContainsPersistentLayer :: "UbxCfgLayer list \<Rightarrow> bool" where
  "ContainsPersistentLayer layers \<longleftrightarrow> list_ex (\<lambda>layer. layer = Layer_kBbr \<or> layer = Layer_kFlash) layers"

definition ResolveSafetyLevel :: "UbloxConfigProfile \<Rightarrow> ReceiverCommandSafetyLevel" where
  "ResolveSafetyLevel profile =
     (if up_safety_level profile = SL_kFactoryReset then SL_kFactoryReset
      else if up_safety_level profile = SL_kPersistent \<or> ContainsPersistentLayer (up_target_layers profile) then SL_kPersistent
      else SL_kRuntime)"

definition ResolveCommandKind :: "bool \<Rightarrow> ReceiverCommandKind" where
  "ResolveCommandKind protocol_output_change =
     (if protocol_output_change then CK_kSetProtocolOutputs else CK_kApplyConfigProfile)"

definition MakeUbloxCommand :: "ReceiverCommandKind \<Rightarrow> ReceiverCommandSafetyLevel \<Rightarrow> bytes \<Rightarrow> ReceiverCommand" where
  "MakeUbloxCommand kind safety_level frame =
     SetBinaryPayload
       (ReceiverCommand_default\<lparr>rc_kind := kind, rc_target := kUbloxTarget, rc_expected_response := RK_kAck,
                               rc_safety_level := safety_level\<rparr>) frame"

text \<open>The result, and whether building goes on.\<close>

definition AppendBuilderFrame ::
  "UbloxConfigProfileBuildResult \<Rightarrow> ReceiverCommandKind \<Rightarrow> ReceiverCommandSafetyLevel \<Rightarrow> UbxCfgBuilderResult
     \<Rightarrow> UbloxConfigProfileBuildResult \<times> bool" where
  "AppendBuilderFrame result kind safety_level builder_result =
     (if cb_status builder_result \<noteq> CB_kOk
      then (result\<lparr>upr_status := UP_kBuilderError, upr_error_message := cb_error_message builder_result\<rparr>, False)
      else (result\<lparr>upr_commands := upr_commands result @ [MakeUbloxCommand kind safety_level (cb_frame builder_result)]\<rparr>, True))"

text \<open>The error message of a profile that is refused.\<close>

definition up_ValidateProfile :: "UbloxConfigProfile \<Rightarrow> string option" where
  "up_ValidateProfile profile =
     (if up_target_layers profile = [] then Some ''u-blox config profile must target at least one CFG layer''
      else if up_safety_level profile = SL_kFactoryReset
      then Some ''u-blox config profile builder does not support factory-reset command generation''
      else if (case up_measurement_rate_hz profile of None \<Rightarrow> False | Some hz \<Rightarrow> dbl_less hz (Finite 0) \<or> dbl_eq hz (Finite 0))
      then Some ''measurement rate must be positive''
      else if list_ex (\<lambda>m. umr_message_rate_key m = 0) (up_enabled_messages profile)
      then Some ''enabled u-blox message rate key must be non-zero''
      else if list_ex (\<lambda>key. key = 0) (up_disabled_messages profile)
      then Some ''disabled u-blox message rate key must be non-zero''
      else if upc_uart1_baudrate (up_port profile) = Some 0 then Some ''u-blox UART1 baud rate must be non-zero''
      else if upc_uart2_baudrate (up_port profile) = Some 0 then Some ''u-blox UART2 baud rate must be non-zero''
      else None)"

text \<open>The frames in the order of the code, each with whether it changes the outputs; the loop over them stops at the
  first that cannot be built.\<close>

definition profile_frames :: "UbloxConfigProfile \<Rightarrow> (bool \<times> UbxCfgBuilderResult) list" where
  "profile_frames profile =
     (let layers = up_target_layers profile in
      (case upc_uart1_baudrate (up_port profile) of None \<Rightarrow> [] | Some b \<Rightarrow> [(False, BuildUart1BaudrateFrame b layers Txn_kNone)])
      @ (case upc_uart2_baudrate (up_port profile) of None \<Rightarrow> [] | Some b \<Rightarrow> [(False, BuildUart2BaudrateFrame b layers Txn_kNone)])
      @ (case up_measurement_rate_hz profile of None \<Rightarrow> [] | Some hz \<Rightarrow> [(False, BuildRateHzFrame hz layers Txn_kNone)])
      @ map (\<lambda>m. (True, BuildEnableMessageRateFrame (umr_message_rate_key m) (umr_rate m) layers Txn_kNone))
          (up_enabled_messages profile)
      @ map (\<lambda>key. (True, BuildDisableMessageFrame key layers Txn_kNone)) (up_disabled_messages profile)
      @ map (\<lambda>c. (False, BuildEnableConstellationFrame (ucc_constellation c) (ucc_enabled c) layers Txn_kNone))
          (up_constellations profile))"

fun append_frames ::
  "ReceiverCommandSafetyLevel \<Rightarrow> (bool \<times> UbxCfgBuilderResult) list \<Rightarrow> UbloxConfigProfileBuildResult
     \<Rightarrow> UbloxConfigProfileBuildResult" where
  "append_frames safety_level [] result = result"
| "append_frames safety_level ((output_change, frame) # rest) result =
     (let (result1, go_on) = AppendBuilderFrame result (ResolveCommandKind output_change) safety_level frame in
      if go_on then append_frames safety_level rest result1 else result1)"

definition ublox_Build :: "UbloxConfigProfile \<Rightarrow> UbloxConfigProfileBuildResult" where
  "ublox_Build profile =
     (case up_ValidateProfile profile of
        Some message \<Rightarrow>
          UbloxConfigProfileBuildResult_default\<lparr>upr_status := UP_kInvalidArgument, upr_error_message := message\<rparr>
      | None \<Rightarrow> append_frames (ResolveSafetyLevel profile) (profile_frames profile) UbloxConfigProfileBuildResult_default)"

section \<open>The profiles on offer\<close>

datatype UbloxOutputMessageKind =
    UO_kNavPvt | UO_kNavSat | UO_kNavStatus | UO_kNavDop | UO_kMonHw | UO_kMonHw2 | UO_kMonRf | UO_kRxmRtcm | UO_kNmeaGga

fun ResolveMessageRateKey :: "UbloxOutputMessageKind \<Rightarrow> UbloxInterfacePort \<Rightarrow> u32" where
  "ResolveMessageRateKey UO_kNavPvt UIP_kUart1 = 0x20910007"
| "ResolveMessageRateKey UO_kNavPvt UIP_kUart2 = 0x20910008"
| "ResolveMessageRateKey UO_kNavPvt UIP_kUsb = 0x20910009"
| "ResolveMessageRateKey UO_kNavSat UIP_kUart1 = 0x20910016"
| "ResolveMessageRateKey UO_kNavSat UIP_kUart2 = 0x20910017"
| "ResolveMessageRateKey UO_kNavSat UIP_kUsb = 0x20910018"
| "ResolveMessageRateKey UO_kNavStatus UIP_kUart1 = 0x2091001B"
| "ResolveMessageRateKey UO_kNavStatus UIP_kUart2 = 0x2091001C"
| "ResolveMessageRateKey UO_kNavStatus UIP_kUsb = 0x2091001D"
| "ResolveMessageRateKey UO_kNavDop UIP_kUart1 = 0x20910039"
| "ResolveMessageRateKey UO_kNavDop UIP_kUart2 = 0x2091003A"
| "ResolveMessageRateKey UO_kNavDop UIP_kUsb = 0x2091003B"
| "ResolveMessageRateKey UO_kMonHw UIP_kUart1 = 0x209101B5"
| "ResolveMessageRateKey UO_kMonHw UIP_kUart2 = 0x209101B6"
| "ResolveMessageRateKey UO_kMonHw UIP_kUsb = 0x209101B7"
| "ResolveMessageRateKey UO_kMonHw2 UIP_kUart1 = 0x209101BA"
| "ResolveMessageRateKey UO_kMonHw2 UIP_kUart2 = 0x209101BB"
| "ResolveMessageRateKey UO_kMonHw2 UIP_kUsb = 0x209101BC"
| "ResolveMessageRateKey UO_kMonRf UIP_kUart1 = 0x2091035A"
| "ResolveMessageRateKey UO_kMonRf UIP_kUart2 = 0x2091035B"
| "ResolveMessageRateKey UO_kMonRf UIP_kUsb = 0x2091035C"
| "ResolveMessageRateKey UO_kRxmRtcm UIP_kUart1 = 0x20910269"
| "ResolveMessageRateKey UO_kRxmRtcm UIP_kUart2 = 0x2091026A"
| "ResolveMessageRateKey UO_kRxmRtcm UIP_kUsb = 0x2091026B"
| "ResolveMessageRateKey UO_kNmeaGga UIP_kUart1 = 0x209100BB"
| "ResolveMessageRateKey UO_kNmeaGga UIP_kUart2 = 0x209100BC"
| "ResolveMessageRateKey UO_kNmeaGga UIP_kUsb = 0x209100BD"

definition MakeMessageRates :: "UbloxOutputMessageKind list \<Rightarrow> UbloxInterfacePort list \<Rightarrow> UbloxMessageRate list" where
  "MakeMessageRates messages output_ports =
     [\<lparr>umr_message_rate_key = ResolveMessageRateKey message port, umr_rate = 1\<rparr>.
        message \<leftarrow> messages, port \<leftarrow> output_ports, ResolveMessageRateKey message port \<noteq> 0]"

definition AppendStandardConstellations :: "UbloxConfigProfile \<Rightarrow> UbloxConfigProfile" where
  "AppendStandardConstellations profile =
     profile\<lparr>up_constellations :=
       map (\<lambda>c. \<lparr>ucc_constellation = c, ucc_enabled = True\<rparr>) [Con_kGps, Con_kGalileo, Con_kBeiDou, Con_kGlonass]\<rparr>"

text \<open>The three profiles differ in the kind, the rate and the messages.\<close>

definition offered_profile ::
  "ReceiverConfigProfileKind \<Rightarrow> rat \<Rightarrow> UbloxOutputMessageKind list \<Rightarrow> ReceiverCommandSafetyLevel \<Rightarrow> UbxCfgLayer list
     \<Rightarrow> UbloxInterfacePort list \<Rightarrow> UbloxConfigProfile" where
  "offered_profile kind rate_hz messages safety_level layers output_ports =
     AppendStandardConstellations
       (UbloxConfigProfile_default
          \<lparr>up_config_kind := kind, up_safety_level := safety_level, up_target_layers := layers,
           up_port := (up_port UbloxConfigProfile_default)\<lparr>upc_output_ports := output_ports\<rparr>,
           up_measurement_rate_hz := Some (Finite rate_hz),
           up_enabled_messages := MakeMessageRates messages output_ports\<rparr>)"

definition BuildUbloxRoverProfile ::
  "ReceiverCommandSafetyLevel \<Rightarrow> UbxCfgLayer list \<Rightarrow> UbloxInterfacePort list \<Rightarrow> UbloxConfigProfile" where
  "BuildUbloxRoverProfile = offered_profile PF_kRover 10 [UO_kNavPvt, UO_kNavSat, UO_kNavStatus, UO_kMonRf]"

definition BuildUbloxBaseProfile ::
  "ReceiverCommandSafetyLevel \<Rightarrow> UbxCfgLayer list \<Rightarrow> UbloxInterfacePort list \<Rightarrow> UbloxConfigProfile" where
  "BuildUbloxBaseProfile = offered_profile PF_kBase 1 [UO_kNavPvt, UO_kNavStatus, UO_kNmeaGga]"

definition BuildUbloxDiagnosticsProfile ::
  "ReceiverCommandSafetyLevel \<Rightarrow> UbxCfgLayer list \<Rightarrow> UbloxInterfacePort list \<Rightarrow> UbloxConfigProfile" where
  "BuildUbloxDiagnosticsProfile =
     offered_profile PF_kDiagnosticsOutput 5
       [UO_kNavPvt, UO_kNavSat, UO_kNavStatus, UO_kNavDop, UO_kMonHw, UO_kMonHw2, UO_kMonRf, UO_kRxmRtcm, UO_kNmeaGga]"

end
