(* ===== verification/Unicore_Profile.thy ===== *)
theory Unicore_Profile
  imports Receiver_Profiles Decimal_Text
begin

text \<open>
  \<open>UnicoreConfigProfileBuilder\<close> (gnss_driver/src/unicore_config_profile_builder.cpp): the text commands that bring a Unicore
  receiver into a configuration.
\<close>

section \<open>Profiles\<close>

datatype UnicoreConfigProfileBuildStatus = NP_kOk | NP_kInvalidArgument

datatype UnicoreMode = UMo_kUnspecified | UMo_kRover | UMo_kBase | UMo_kSurvey | UMo_kRoverSurveyMow | UMo_kRoverUav

datatype UnicoreNmeaVersion = UNV_kV410 | UNV_kV411

datatype UnicorePersistenceTarget = UPT_kRuntimeOnly | UPT_kSaveConfig

datatype UnicoreOutputMessageKind =
    NO_kGpgga | NO_kGpgsv | NO_kGpgst | NO_kPvtslna | NO_kBestnava | NO_kRtkstatusa | NO_kRtcmstatusa | NO_kSatsinfoa

text \<open>The two levels of \<open>UnicoreRtkReliability\<close> are signed.\<close>

record UnicoreRtkReliability =
  urr_primary :: "32 word"
  urr_secondary :: "32 word"

record UnicoreSignalConfig =
  usc_groups :: "u8 list"
  usc_failure_policy :: ReceiverCommandFailurePolicy

record UnicoreOutputMessageRate =
  uom_message :: UnicoreOutputMessageKind
  uom_period_s :: "double option"

record UnicoreConfigProfile =
  ucp_target :: ReceiverTargetSelector
  ucp_config_kind :: ReceiverConfigProfileKind
  ucp_factory_reset :: bool
  ucp_mode :: UnicoreMode
  ucp_com1_baud_rate :: "u32 option"
  ucp_nmea_version :: "UnicoreNmeaVersion option"
  ucp_rtk_timeout_s :: "u32 option"
  ucp_dgps_timeout_s :: "u32 option"
  ucp_rtk_reliability :: "UnicoreRtkReliability option"
  ucp_signal_config :: "UnicoreSignalConfig option"
  ucp_output_messages :: "UnicoreOutputMessageRate list"
  ucp_persistence :: UnicorePersistenceTarget

definition UnicoreConfigProfile_default :: UnicoreConfigProfile where
  "UnicoreConfigProfile_default =
     \<lparr>ucp_target = rc_target ReceiverCommand_default, ucp_config_kind = PF_kRover, ucp_factory_reset = False,
      ucp_mode = UMo_kUnspecified, ucp_com1_baud_rate = None, ucp_nmea_version = None, ucp_rtk_timeout_s = None,
      ucp_dgps_timeout_s = None, ucp_rtk_reliability = None, ucp_signal_config = None, ucp_output_messages = [],
      ucp_persistence = UPT_kRuntimeOnly\<rparr>"

record UnicoreConfigProfileBuildResult =
  ucr_status :: UnicoreConfigProfileBuildStatus
  ucr_commands :: "ReceiverCommand list"
  ucr_error_message :: string

section \<open>The texts\<close>

text \<open>The supported periods are the doubles next to their decimals.\<close>

definition kSupportedUnicoreOutputPeriodsS :: "rat list" where
  "kSupportedUnicoreOutputPeriodsS = map round_rat [1, 1 / 2, 1 / 5, 1 / 10, 1 / 20, 1 / 50]"

definition NearlyEqual :: "double \<Rightarrow> rat \<Rightarrow> bool" where
  "NearlyEqual lhs rhs = (case lhs of Finite x \<Rightarrow> \<bar>round_rat (x - rhs)\<bar> \<le> round_rat (1 / 1000000) | _ \<Rightarrow> False)"

definition FormatPeriodSeconds :: "rat \<Rightarrow> string" where
  "FormatPeriodSeconds period_s =
     (let s1 = rev (dropWhile (\<lambda>c. c = CHR ''0'') (rev (print_fixed 3 period_s)));
          s2 = (if s1 \<noteq> [] \<and> last s1 = CHR ''.'' then butlast s1 else s1) in
      if s2 = [] then ''0'' else s2)"

definition FormatTextCommand :: "string \<Rightarrow> string" where
  "FormatTextCommand command = command @ [CHR 0x0D, CHR 0x0A]"

definition BuildCom1Command :: "u32 \<Rightarrow> string" where
  "BuildCom1Command baud_rate = ''CONFIG COM1 '' @ dec_nat (unat baud_rate) @ '' 8 n 1''"

definition MakeTextCommand ::
  "ReceiverCommandKind \<Rightarrow> ReceiverTargetSelector \<Rightarrow> ReceiverCommandSafetyLevel \<Rightarrow> ReceiverCommandFailurePolicy
     \<Rightarrow> ReceiverResponseKind \<Rightarrow> string \<Rightarrow> ReceiverCommand" where
  "MakeTextCommand kind target safety_level failure_policy expected_response text_command =
     SetTextPayload
       (ReceiverCommand_default\<lparr>rc_kind := kind, rc_target := target, rc_expected_response := expected_response,
                               rc_safety_level := safety_level, rc_failure_policy := failure_policy\<rparr>)
       (FormatTextCommand text_command)"

fun ToNmeaVersionString :: "UnicoreNmeaVersion \<Rightarrow> string" where
  "ToNmeaVersionString UNV_kV410 = ''V410''"
| "ToNmeaVersionString UNV_kV411 = ''V411''"

definition SupportsRuntimeMode :: "UnicoreMode \<Rightarrow> bool" where
  "SupportsRuntimeMode mode \<longleftrightarrow> mode \<in> {UMo_kUnspecified, UMo_kRover, UMo_kRoverSurveyMow, UMo_kRoverUav}"

definition DefaultUnicoreRoverDynamicMode :: "UnicoreModelProfile \<Rightarrow> UnicoreMode" where
  "DefaultUnicoreRoverDynamicMode model_profile =
     (if ump_model_id model_profile = UM_kUm980 then UMo_kRoverUav
      else if SupportsUnicorePortableRoverSurveyMow model_profile then UMo_kRoverSurveyMow else UMo_kRover)"

fun BuildModeCommand :: "UnicoreMode \<Rightarrow> string" where
  "BuildModeCommand UMo_kUnspecified = []"
| "BuildModeCommand UMo_kRover = ''MODE ROVER''"
| "BuildModeCommand UMo_kBase = ''MODE BASE''"
| "BuildModeCommand UMo_kSurvey = ''MODE ROVER SURVEY''"
| "BuildModeCommand UMo_kRoverSurveyMow = ''MODE ROVER SURVEY MOW''"
| "BuildModeCommand UMo_kRoverUav = ''MODE ROVER UAV''"

fun ToOutputMessageName :: "UnicoreOutputMessageKind \<Rightarrow> string" where
  "ToOutputMessageName NO_kGpgga = ''GPGGA''"
| "ToOutputMessageName NO_kGpgsv = ''GPGSV''"
| "ToOutputMessageName NO_kGpgst = ''GPGST''"
| "ToOutputMessageName NO_kPvtslna = ''PVTSLNA''"
| "ToOutputMessageName NO_kBestnava = ''BESTNAVA''"
| "ToOutputMessageName NO_kRtkstatusa = ''RTKSTATUSA''"
| "ToOutputMessageName NO_kRtcmstatusa = ''RTCMSTATUSA''"
| "ToOutputMessageName NO_kSatsinfoa = ''SATSINFOA''"

definition UsesOnChangedSyntax :: "UnicoreOutputMessageKind \<Rightarrow> bool" where
  "UsesOnChangedSyntax message \<longleftrightarrow> message = NO_kRtcmstatusa"

text \<open>A period that is missing or not finite has been refused before.\<close>

definition BuildOutputCommand :: "UnicoreOutputMessageRate \<Rightarrow> string" where
  "BuildOutputCommand output =
     (let message = ToOutputMessageName (uom_message output) in
      if UsesOnChangedSyntax (uom_message output) then message @ '' ONCHANGED''
      else (case uom_period_s output of Some (Finite p) \<Rightarrow> message @ '' '' @ FormatPeriodSeconds p | _ \<Rightarrow> message @ '' ''))"

text \<open>\<open>std::to_string\<close> of a signed integer.\<close>

definition dec_int :: "int \<Rightarrow> string" where
  "dec_int i = (if i < 0 then CHR ''-'' # dec_nat (nat (- i)) else dec_nat (nat i))"

section \<open>The builder\<close>

text \<open>The error message of what is refused.\<close>

definition ValidateOutputRate :: "UnicoreOutputMessageRate \<Rightarrow> string option" where
  "ValidateOutputRate output =
     (if UsesOnChangedSyntax (uom_message output) then None
      else
        case uom_period_s output of
          None \<Rightarrow> Some ''unicore output messages using periodic syntax require a positive period''
        | Some period_s \<Rightarrow>
            if dbl_less period_s (Finite 0) \<or> dbl_eq period_s (Finite 0)
            then Some ''unicore output messages using periodic syntax require a positive period''
            else if \<not> list_ex (NearlyEqual period_s) kSupportedUnicoreOutputPeriodsS
            then Some ''unicore output messages must use a documented period of 1, 0.5, 0.2, 0.1, 0.05, or 0.02 seconds''
            else None)"

definition timeout_out_of_range :: "u32 option \<Rightarrow> bool" where
  "timeout_out_of_range timeout = (case timeout of None \<Rightarrow> False | Some t \<Rightarrow> t < 1 \<or> t > 1800)"

definition unp_ValidateProfile :: "UnicoreConfigProfile \<Rightarrow> string option" where
  "unp_ValidateProfile profile =
     (if ucp_factory_reset profile then
        if ucp_mode profile \<noteq> UMo_kUnspecified \<or> ucp_com1_baud_rate profile \<noteq> None \<or> ucp_nmea_version profile \<noteq> None
          \<or> ucp_rtk_timeout_s profile \<noteq> None \<or> ucp_dgps_timeout_s profile \<noteq> None \<or> ucp_rtk_reliability profile \<noteq> None
          \<or> ucp_signal_config profile \<noteq> None \<or> ucp_output_messages profile \<noteq> [] \<or> ucp_persistence profile \<noteq> UPT_kRuntimeOnly
        then Some ''unicore factory-reset profile cannot be combined with other portable config mutations''
        else None
      else if \<not> SupportsRuntimeMode (ucp_mode profile)
      then Some ''base and survey orchestration are deferred from the portable Unicore config builder''
      else if ucp_com1_baud_rate profile = Some 0 then Some ''unicore COM1 baud rate must be non-zero''
      else if timeout_out_of_range (ucp_rtk_timeout_s profile) then Some ''unicore RTK timeout must be within 1..1800 seconds''
      else if timeout_out_of_range (ucp_dgps_timeout_s profile) then Some ''unicore DGPS timeout must be within 1..1800 seconds''
      else if (case ucp_signal_config profile of None \<Rightarrow> False | Some c \<Rightarrow> usc_groups c = [])
      then Some ''unicore signal-group configuration requires at least one group id''
      else (case List.map_filter ValidateOutputRate (ucp_output_messages profile) of [] \<Rightarrow> None | message # _ \<Rightarrow> Some message))"

text \<open>The command of \<open>AppendCommand\<close>; an empty text gives none.\<close>

definition text_commands ::
  "ReceiverTargetSelector \<Rightarrow> ReceiverCommandKind \<Rightarrow> ReceiverCommandSafetyLevel \<Rightarrow> ReceiverResponseKind \<Rightarrow> string
     \<Rightarrow> ReceiverCommandFailurePolicy \<Rightarrow> ReceiverCommand list" where
  "text_commands target kind safety_level expected_response text_command failure_policy =
     (if text_command = [] then []
      else [MakeTextCommand kind target safety_level failure_policy expected_response text_command])"

definition runtime_command :: "ReceiverTargetSelector \<Rightarrow> string \<Rightarrow> ReceiverCommand list" where
  "runtime_command target text_command =
     text_commands target CK_kApplyConfigProfile SL_kRuntime RK_kTextPayload text_command FP_kAbortOnFailure"

definition profile_target :: "UnicoreConfigProfile \<Rightarrow> ReceiverTargetSelector" where
  "profile_target profile =
     (if rts_vendor (ucp_target profile) = RV_kUnicore then ucp_target profile
      else BuildUnicoreTargetSelector (ResolveUnicoreModelProfile None))"

definition profile_commands :: "UnicoreConfigProfile \<Rightarrow> ReceiverCommand list" where
  "profile_commands profile =
     (let target = profile_target profile in
      if ucp_factory_reset profile
      then text_commands target CK_kReset SL_kFactoryReset RK_kNone ''FRESET'' FP_kAbortOnFailure
      else
        (case ucp_com1_baud_rate profile of
           None \<Rightarrow> []
         | Some b \<Rightarrow> text_commands target CK_kApplyConfigProfile SL_kRuntime RK_kNone (BuildCom1Command b) FP_kAbortOnFailure)
        @ runtime_command target (BuildModeCommand (ucp_mode profile))
        @ (case ucp_nmea_version profile of
             None \<Rightarrow> [] | Some v \<Rightarrow> runtime_command target (''CONFIG NMEA0183 '' @ ToNmeaVersionString v))
        @ (case ucp_rtk_timeout_s profile of
             None \<Rightarrow> [] | Some t \<Rightarrow> runtime_command target (''CONFIG RTK TIMEOUT '' @ dec_nat (unat t)))
        @ (case ucp_rtk_reliability profile of
             None \<Rightarrow> []
           | Some r \<Rightarrow> runtime_command target
               (''CONFIG RTK RELIABILITY '' @ dec_int (sint (urr_primary r)) @ '' '' @ dec_int (sint (urr_secondary r))))
        @ (case ucp_dgps_timeout_s profile of
             None \<Rightarrow> [] | Some t \<Rightarrow> runtime_command target (''CONFIG DGPS TIMEOUT '' @ dec_nat (unat t)))
        @ (case ucp_signal_config profile of
             None \<Rightarrow> []
           | Some c \<Rightarrow> text_commands target CK_kApplyConfigProfile SL_kRuntime RK_kTextPayload
               (''CONFIG SIGNALGROUP'' @ concat (map (\<lambda>g. '' '' @ dec_nat (unat g)) (usc_groups c))) (usc_failure_policy c))
        @ concat (map (\<lambda>output. text_commands target CK_kSetProtocolOutputs SL_kRuntime RK_kTextPayload
                          (BuildOutputCommand output) FP_kContinueOnFailure) (ucp_output_messages profile))
        @ (if ucp_persistence profile = UPT_kSaveConfig
           then text_commands target CK_kApplyConfigProfile SL_kPersistent RK_kTextPayload ''SAVECONFIG'' FP_kAbortOnFailure
           else []))"

definition unicore_Build :: "UnicoreConfigProfile \<Rightarrow> UnicoreConfigProfileBuildResult" where
  "unicore_Build profile =
     (case unp_ValidateProfile profile of
        Some message \<Rightarrow> \<lparr>ucr_status = NP_kInvalidArgument, ucr_commands = [], ucr_error_message = message\<rparr>
      | None \<Rightarrow> \<lparr>ucr_status = NP_kOk, ucr_commands = profile_commands profile, ucr_error_message = []\<rparr>)"

section \<open>The profiles on offer\<close>

definition periodic :: "UnicoreOutputMessageKind \<Rightarrow> rat \<Rightarrow> UnicoreOutputMessageRate" where
  "periodic message period_s = \<lparr>uom_message = message, uom_period_s = Some (round_double period_s)\<rparr>"

definition BuildUnicoreRoverProfile :: "UnicoreModelProfile \<Rightarrow> UnicorePersistenceTarget \<Rightarrow> UnicoreConfigProfile" where
  "BuildUnicoreRoverProfile model_profile persistence =
     UnicoreConfigProfile_default
       \<lparr>ucp_target := BuildUnicoreTargetSelector model_profile, ucp_config_kind := PF_kRover,
        ucp_mode := DefaultUnicoreRoverDynamicMode model_profile, ucp_nmea_version := Some UNV_kV411,
        ucp_rtk_timeout_s := Some 120, ucp_rtk_reliability := Some \<lparr>urr_primary = 3, urr_secondary = 1\<rparr>,
        ucp_dgps_timeout_s := Some 300,
        ucp_signal_config :=
          map_option (\<lambda>selection. \<lparr>usc_groups = sgs_groups selection, usc_failure_policy = FP_kAbortOnFailure\<rparr>)
            (FindUnicorePortableRoverSignalGroupSelection model_profile),
        ucp_output_messages :=
          [periodic NO_kGpgga 1, periodic NO_kGpgsv 1, periodic NO_kGpgst 1, periodic NO_kPvtslna 1,
           periodic NO_kBestnava (1 / 5), periodic NO_kRtkstatusa 1,
           \<lparr>uom_message = NO_kRtcmstatusa, uom_period_s = None\<rparr>, periodic NO_kSatsinfoa 1],
        ucp_persistence := persistence\<rparr>"

text \<open>The first output of the kind gets the period.\<close>

fun SetOutputPeriod ::
  "UnicoreOutputMessageKind \<Rightarrow> double option \<Rightarrow> UnicoreOutputMessageRate list \<Rightarrow> UnicoreOutputMessageRate list" where
  "SetOutputPeriod message period_s [] = []"
| "SetOutputPeriod message period_s (output # outputs) =
     (if uom_message output = message then output\<lparr>uom_period_s := period_s\<rparr> # outputs
      else output # SetOutputPeriod message period_s outputs)"

definition BuildUnicoreDiagnosticsProfile :: "UnicoreModelProfile \<Rightarrow> UnicorePersistenceTarget \<Rightarrow> UnicoreConfigProfile" where
  "BuildUnicoreDiagnosticsProfile model_profile persistence =
     (let profile = BuildUnicoreRoverProfile model_profile persistence in
      profile\<lparr>ucp_config_kind := PF_kDiagnosticsOutput,
              ucp_output_messages := SetOutputPeriod NO_kPvtslna (Some (round_double (1 / 5))) (ucp_output_messages profile)\<rparr>)"

definition BuildUnicoreFactoryResetProfile :: UnicoreConfigProfile where
  "BuildUnicoreFactoryResetProfile =
     UnicoreConfigProfile_default
       \<lparr>ucp_target := BuildUnicoreTargetSelector (ResolveUnicoreModelProfile None), ucp_factory_reset := True\<rparr>"

end
