(* ===== verification/Stream_Detector.thy ===== *)
theory Stream_Detector
  imports Stream_Framer Nmea_Framer Ubx_Framer Rtcm_Framer Unicore_Framer Unicore_Binary_Framer Unicore_Parser
begin

text \<open>
  \<open>StreamDetector\<close> (gnss_driver/src/stream_detector.cpp, unicore_ascii_validation.hpp): which protocol has the record
  that ends first in some bytes.
\<close>

datatype DetectedStreamProtocol =
  DP_kUnknown | DP_kNmea | DP_kUbx | DP_kRtcm3 | DP_kUnicoreAscii | DP_kUnicoreBinary

record StreamDetectionResult =
  sd_protocol :: DetectedStreamProtocol
  sd_bytes_consumed :: nat
  sd_frame_length_bytes :: nat

definition StreamDetectionResult_default :: StreamDetectionResult where
  "StreamDetectionResult_default = \<lparr>sd_protocol = DP_kUnknown, sd_bytes_consumed = 0, sd_frame_length_bytes = 0\<rparr>"

section \<open>Verified Unicore logs\<close>

definition IsParsedUnicoreAsciiRecord :: "'r ParserResult \<Rightarrow> bool" where
  "IsParsedUnicoreAsciiRecord parsed \<longleftrightarrow> pr_status parsed = PS_kRecordReady \<and> pr_record parsed \<noteq> None"

definition IsVerifiedUnicoreAsciiRecord :: "UnicoreFrame \<Rightarrow> bool" where
  "IsVerifiedUnicoreAsciiRecord frame =
     (let name = uni_message_name frame in
      if uni_sync_char frame \<noteq> CHR ''#'' \<or> uni_checksum_status frame \<noteq> CS_kValid then False
      else if name = ''PVTSLNA'' then IsParsedUnicoreAsciiRecord (ParseUnicorePvtsln frame)
      else if name = ''BESTNAVA'' then IsParsedUnicoreAsciiRecord (ParseUnicoreBestNav frame)
      else if name = ''RTKSTATUSA'' then IsParsedUnicoreAsciiRecord (ParseUnicoreRtkStatus frame)
      else if name = ''RTCMSTATUSA'' then IsParsedUnicoreAsciiRecord (ParseUnicoreRtcmStatus frame)
      else if name = ''BESTSATA'' then IsParsedUnicoreAsciiRecord (ParseUnicoreBestSat frame)
      else if name = ''SATSINFOA'' then IsParsedUnicoreAsciiRecord (ParseUnicoreSatsInfo frame)
      else if name = ''JAMSTATUSA'' then IsParsedUnicoreAsciiRecord (ParseUnicoreJamStatus frame)
      else if name = ''FREQJAMSTATUSA'' then IsParsedUnicoreAsciiRecord (ParseUnicoreFreqJamStatus frame)
      else if name = ''HWSTATUSA'' then IsParsedUnicoreAsciiRecord (ParseUnicoreHwStatus frame)
      else if name = ''AGCA'' then IsParsedUnicoreAsciiRecord (ParseUnicoreAgc frame)
      else False)"

section \<open>Detection\<close>

text \<open>The loop of \<open>DetectWithFramer\<close>, and of \<open>DetectVendorCandidate\<close> of the receiver session: the framer goes over all
  bytes until a record is accepted; the result is the number of bytes consumed and the record.\<close>

fun detect_record :: "('s, 'r) push_byte \<Rightarrow> ('r \<Rightarrow> bool) \<Rightarrow> 's \<Rightarrow> nat \<Rightarrow> stamped list \<Rightarrow> (nat \<times> 'r) option" where
  "detect_record push accept s index [] = None"
| "detect_record push accept s index ((b, t) # bytes) =
     (let (s1, r) = push s b t in
      case pr_record r of
        Some record \<Rightarrow>
          if pr_status r = PS_kRecordReady \<and> accept record then Some (index + 1, record)
          else detect_record push accept s1 (index + 1) bytes
      | None \<Rightarrow> detect_record push accept s1 (index + 1) bytes)"

definition DetectWithFramer ::
  "('s, 'r) push_byte \<Rightarrow> ('r \<Rightarrow> bool) \<Rightarrow> ('r \<Rightarrow> bytes) \<Rightarrow> 's \<Rightarrow> DetectedStreamProtocol \<Rightarrow> bytes
     \<Rightarrow> StreamDetectionResult option" where
  "DetectWithFramer push accept raw framer protocol data =
     map_option
       (\<lambda>(consumed, record). \<lparr>sd_protocol = protocol, sd_bytes_consumed = consumed, sd_frame_length_bytes = length (raw record)\<rparr>)
       (detect_record push accept framer 0 (map (\<lambda>b. (b, None)) data))"

definition MaybeSelectEarlierCandidate :: "StreamDetectionResult option \<Rightarrow> StreamDetectionResult \<Rightarrow> StreamDetectionResult" where
  "MaybeSelectEarlierCandidate candidate best =
     (case candidate of
        None \<Rightarrow> best
      | Some c \<Rightarrow>
          if sd_protocol best = DP_kUnknown \<or> sd_bytes_consumed c < sd_bytes_consumed best then c else best)"

definition nmea_detectable :: "NmeaSentence \<Rightarrow> bool" where
  "nmea_detectable sentence \<longleftrightarrow> nmea_sentence_type sentence \<noteq> [] \<and> nmea_checksum_status sentence \<noteq> CS_kInvalid"

text \<open>The candidates of the five framers, with the lengths of their default constructors, in the order of \<open>Detect\<close>.\<close>

definition stream_candidates :: "bytes \<Rightarrow> StreamDetectionResult option list" where
  "stream_candidates data =
     [DetectWithFramer nmea_PushByte nmea_detectable nmea_raw_bytes (nmea_new 512) DP_kNmea data,
      DetectWithFramer ubx_PushByte (\<lambda>f. ubx_checksum_status f = CS_kValid) ubx_raw_bytes (ubx_new 4096) DP_kUbx data,
      DetectWithFramer rtcm_PushByte (\<lambda>f. rtcm_checksum_status f = CS_kValid) rtcm_raw_bytes (rtcm_new 1029) DP_kRtcm3 data,
      DetectWithFramer uni_PushByte IsVerifiedUnicoreAsciiRecord uni_raw_bytes (uni_new 2048) DP_kUnicoreAscii data,
      DetectWithFramer unib_PushByte (\<lambda>f. unib_checksum_status f = CS_kValid) unib_raw_bytes (unib_new 65536)
        DP_kUnicoreBinary data]"

definition Detect :: "bytes \<Rightarrow> StreamDetectionResult" where
  "Detect data =
     (if data = [] then StreamDetectionResult_default
      else fold MaybeSelectEarlierCandidate (stream_candidates data) StreamDetectionResult_default)"

fun DetectedStreamProtocol_ToString :: "DetectedStreamProtocol \<Rightarrow> string" where
  "DetectedStreamProtocol_ToString DP_kNmea = ''nmea''"
| "DetectedStreamProtocol_ToString DP_kUbx = ''ubx''"
| "DetectedStreamProtocol_ToString DP_kRtcm3 = ''rtcm3''"
| "DetectedStreamProtocol_ToString DP_kUnicoreAscii = ''unicore_ascii''"
| "DetectedStreamProtocol_ToString DP_kUnicoreBinary = ''unicore_binary''"
| "DetectedStreamProtocol_ToString DP_kUnknown = ''unknown''"

section \<open>Bytes that come later change nothing\<close>

lemma detect_record_bounds:
  "detect_record push accept s i bytes = Some (n, r) \<Longrightarrow> i < n \<and> n \<le> i + length bytes \<and> accept r"
proof (induction bytes arbitrary: s i)
  case (Cons x bytes)
  obtain b t where x: "x = (b, t)" by fastforce
  obtain s1 y where p: "push s b t = (s1, y)" by fastforce
  from Cons.prems Cons.IH [of s1 "i + 1"] show ?case by (auto simp: x p split: option.splits if_splits)
qed simp

lemma detect_record_append:
  "detect_record push accept s i (bytes @ later) =
     (case detect_record push accept s i bytes of
        Some hit \<Rightarrow> Some hit
      | None \<Rightarrow> detect_record push accept (fold (\<lambda>(b, t) f. fst (push f b t)) bytes s) (i + length bytes) later)"
proof (induction bytes arbitrary: s i)
  case (Cons x bytes)
  obtain b t where x: "x = (b, t)" by fastforce
  obtain s1 y where p: "push s b t = (s1, y)" by fastforce
  from Cons.IH [of s1 "i + 1"] show ?case by (auto simp: x p split: option.splits)
qed simp

text \<open>In noise there is nothing to detect; a good frame is detected at its end.\<close>

lemma detect_record_silent:
  "emitted (snd (feed push s xs)) = [] \<Longrightarrow> detect_record push accept s i xs = None"
proof (induction xs arbitrary: s i)
  case (Cons x xs)
  then show ?case by (cases x) (auto simp: emitted_Cons split_beta split: option.splits)
qed simp

lemma detect_record_ready:
  "\<lbrakk>snd (feed push s xs) = replicate k NeedMoreData @ [RecordReady r]; accept r\<rbrakk> \<Longrightarrow>
     detect_record push accept s i xs = Some (i + length xs, r)"
proof (induction xs arbitrary: s i k)
  case (Cons x xs)
  obtain b t where x: "x = (b, t)" by fastforce
  from Cons show ?case
    by (cases k; cases xs) (auto simp: x split_beta NeedMoreData_def RecordReady_def split: option.splits)
qed simp

context recognising_framer begin

lemma detect_noise: "\<lbrakk>idle s; list_all (\<lambda>x. \<not> starts (fst x)) xs\<rbrakk> \<Longrightarrow> detect_record push accept s i xs = None"
  by (rule detect_record_silent) (simp add: feed_noise)

lemma detect_frame:
  "\<lbrakk>idle s; good (cap s) (map fst xs); accept (rec (map fst xs) (snd (hd xs)))\<rbrakk> \<Longrightarrow>
     detect_record push accept s i xs = Some (i + length xs, rec (map fst xs) (snd (hd xs)))"
  by (rule detect_record_ready [where k = "length xs - 1"]) (simp_all add: feed_frame)

end

lemma DetectWithFramer_bounds:
  assumes "DetectWithFramer push accept raw f p data = Some c"
  shows "0 < sd_bytes_consumed c \<and> sd_bytes_consumed c \<le> length data \<and> sd_protocol c = p"
  using assms detect_record_bounds [of push accept f 0 "map (\<lambda>b. (b, None)) data"]
  by (auto simp: DetectWithFramer_def)

lemma DetectWithFramer_append:
  "DetectWithFramer push accept raw f p (data @ later) = (
     case DetectWithFramer push accept raw f p data of
       Some c \<Rightarrow> Some c
     | None \<Rightarrow> (case DetectWithFramer push accept raw f p (data @ later) of
         Some c \<Rightarrow> if length data < sd_bytes_consumed c then Some c else None | None \<Rightarrow> None))"
proof (cases "detect_record push accept f 0 (map (\<lambda>b. (b, None)) data)")
  case None
  then show ?thesis
    using detect_record_bounds [of push accept "fold (\<lambda>(b, t) f. fst (push f b t)) (map (\<lambda>b. (b, None)) data) f" "length data"]
    by (auto simp: DetectWithFramer_def detect_record_append split: option.splits)
next
  case (Some hit)
  then show ?thesis by (simp add: DetectWithFramer_def detect_record_append)
qed

text \<open>Candidates before and after some bytes more: what was found stays, and what is new ends later than \<open>n\<close>.\<close>

definition extends :: "nat \<Rightarrow> StreamDetectionResult option \<Rightarrow> StreamDetectionResult option \<Rightarrow> bool" where
  "extends n c c1 =
     (case c of
        Some x \<Rightarrow> c1 = Some x \<and> sd_protocol x \<noteq> DP_kUnknown \<and> sd_bytes_consumed x \<le> n
      | None \<Rightarrow> (case c1 of None \<Rightarrow> True | Some y \<Rightarrow> n < sd_bytes_consumed y))"

definition later_best :: "nat \<Rightarrow> StreamDetectionResult \<Rightarrow> StreamDetectionResult \<Rightarrow> bool" where
  "later_best n best best1 \<longleftrightarrow>
     (if sd_protocol best = DP_kUnknown then sd_protocol best1 = DP_kUnknown \<or> n < sd_bytes_consumed best1
      else best1 = best \<and> sd_bytes_consumed best \<le> n)"

lemma later_best_step:
  assumes "extends n c c1" and "later_best n best best1"
  shows "later_best n (MaybeSelectEarlierCandidate c best) (MaybeSelectEarlierCandidate c1 best1)"
  using assms by (auto simp: extends_def later_best_def MaybeSelectEarlierCandidate_def split: option.splits if_splits)

lemma later_best_fold:
  assumes "list_all2 (extends n) cs cs1" and "later_best n best best1"
  shows "later_best n (fold MaybeSelectEarlierCandidate cs best) (fold MaybeSelectEarlierCandidate cs1 best1)"
  using assms by (induction arbitrary: best best1 rule: list_all2_induct) (simp_all add: later_best_step)

lemma DetectWithFramer_extends:
  assumes "p \<noteq> DP_kUnknown"
  shows "extends (length data) (DetectWithFramer push accept raw f p data) (DetectWithFramer push accept raw f p (data @ later))"
proof (cases "DetectWithFramer push accept raw f p data")
  case None
  then show ?thesis
    using DetectWithFramer_append [of push accept raw f p data later]
    by (auto simp: extends_def split: option.splits if_splits)
next
  case (Some c)
  with DetectWithFramer_bounds [OF Some] assms show ?thesis
    using DetectWithFramer_append [of push accept raw f p data later] by (auto simp: extends_def)
qed

section \<open>Properties\<close>

text \<open>C17. More bytes never change a detection.  Once the detector names a protocol for the bytes received so far, it
  gives the same protocol, the same number of bytes and the same frame length for every continuation of the stream; so
  it does not matter when a caller asks.\<close>

theorem detection_is_final:
  assumes "sd_protocol (Detect data) \<noteq> DP_kUnknown"
  shows "Detect (data @ later) = Detect data"
proof -
  have "list_all2 (extends (length data)) (stream_candidates data) (stream_candidates (data @ later))"
    by (simp add: stream_candidates_def DetectWithFramer_extends)
  moreover have "later_best (length data) StreamDetectionResult_default StreamDetectionResult_default"
    by (simp add: later_best_def StreamDetectionResult_default_def)
  ultimately have "later_best (length data) (fold MaybeSelectEarlierCandidate (stream_candidates data) StreamDetectionResult_default)
      (fold MaybeSelectEarlierCandidate (stream_candidates (data @ later)) StreamDetectionResult_default)"
    by (rule later_best_fold)
  with assms show ?thesis
    by (auto simp: Detect_def later_best_def StreamDetectionResult_default_def split: if_splits)
qed

text \<open>A UBX frame, and what follows it.\<close>

definition ack_frame :: bytes where
  "ack_frame = [0xB5, 0x62, 0x05, 0x01, 0x02, 0x00, 0x06, 0x01, 0x0F, 0x38]"

lemma ack_frame_detected:
  "sd_protocol (Detect ack_frame) = DP_kUbx"
proof -
  let ?xs = "map (\<lambda>b. (b, None)) ack_frame :: stamped list"
  have "le16_size 2 0 = 2" "ValidateUbxChecksum (bslice 2 6 ack_frame) \<lparr>ck_a = 15, ck_b = 56\<rparr>" by code_simp+
  then have "ubx_good 4096 ack_frame" by (simp add: ubx_good_def ack_frame_def numeral_eq_Suc)
  then have "detect_record ubx_PushByte (\<lambda>f. ubx_checksum_status f = CS_kValid) (ubx_new 4096) 0 ?xs
      = Some (0 + length ?xs, ubx_record (map fst ?xs) (snd (hd ?xs)))"
    by (intro ubx_rec.detect_frame) (simp_all add: ubx_new_def o_def ubx_good_valid)
  moreover have "detect_record nmea_PushByte nmea_detectable (nmea_new 512) 0 ?xs = None"
    by (rule nmea_rec.detect_noise) (simp_all add: nmea_new_def ack_frame_def)
  moreover have "detect_record rtcm_PushByte (\<lambda>f. rtcm_checksum_status f = CS_kValid) (rtcm_new 1029) 0 ?xs = None"
    by (rule rtcm_rec.detect_noise) (simp_all add: rtcm_new_def ack_frame_def)
  moreover have "detect_record uni_PushByte IsVerifiedUnicoreAsciiRecord (uni_new 2048) 0 ?xs = None"
    by (rule uni_rec.detect_noise) (simp_all add: uni_new_def ack_frame_def IsSyncByte_def)
  moreover have "detect_record unib_PushByte (\<lambda>f. unib_checksum_status f = CS_kValid) (unib_new 65536) 0 ?xs = None"
    by (rule unib_rec.detect_noise) (simp_all add: unib_new_def ack_frame_def)
  ultimately show ?thesis
    by (simp add: Detect_def stream_candidates_def DetectWithFramer_def MaybeSelectEarlierCandidate_def
        StreamDetectionResult_default_def) (simp add: ack_frame_def)
qed

theorem detection_is_final_witness:
  "sd_protocol (Detect (ack_frame @ [0x24, 0x47])) = DP_kUbx"
  using ack_frame_detected by (subst detection_is_final) simp_all

end
