(* ===== verification/Receiver_Session.thy ===== *)
theory Receiver_Session
  imports Stream_Detector Unicore_Session Nmea_Session Ublox_Chunks
begin

text \<open>
  \<open>ReceiverSession\<close> (gnss_driver/src/receiver_session.cpp): the facade over the three sessions.  It keeps the bytes until
  it knows which receiver sends them, and hands everything to that session from then on.
\<close>

section \<open>State\<close>

datatype ReceiverSessionKind = RK_kAutoDetect | RK_kUblox | RK_kUnicore | RK_kNmea

fun ReceiverSessionKind_ToString :: "ReceiverSessionKind \<Rightarrow> string" where
  "ReceiverSessionKind_ToString RK_kAutoDetect = ''auto_detect''"
| "ReceiverSessionKind_ToString RK_kUblox = ''ublox''"
| "ReceiverSessionKind_ToString RK_kUnicore = ''unicore''"
| "ReceiverSessionKind_ToString RK_kNmea = ''nmea''"

record ReceiverSessionConfig =
  rc_kind :: ReceiverSessionKind
  rc_max_auto_detect_buffer_bytes :: nat
  rc_allow_generic_nmea_auto_detect :: bool
  rc_nmea :: NmeaSessionConfig
  rc_ublox :: UbloxSessionConfig
  rc_unicore :: UnicoreSessionConfig

definition ReceiverSessionConfig_default :: ReceiverSessionConfig where
  "ReceiverSessionConfig_default =
     \<lparr>rc_kind = RK_kAutoDetect, rc_max_auto_detect_buffer_bytes = 4096, rc_allow_generic_nmea_auto_detect = False,
      rc_nmea = NmeaSessionConfig_default, rc_ublox = UbloxSessionConfig_default, rc_unicore = UnicoreSessionConfig_default\<rparr>"

record ReceiverSessionMetrics =
  rsm_bytes_seen :: u64
  rsm_selected_session_kind :: "ReceiverSessionKind option"
  rsm_selection_locked :: bool
  rsm_sessions_switched :: u64
  rsm_runtime_observations :: u64
  rsm_position_observations :: u64
  rsm_runtime_updates :: u64
  rsm_malformed_records :: u64
  rsm_rejected_records :: u64
  rsm_parser_anomalies :: u64
  rsm_unknown_records :: u64
  rsm_position_payload_freshness :: PositionPayloadFreshnessMetrics

definition ReceiverSessionMetrics_default :: ReceiverSessionMetrics where
  "ReceiverSessionMetrics_default =
     \<lparr>rsm_bytes_seen = 0, rsm_selected_session_kind = None, rsm_selection_locked = False, rsm_sessions_switched = 0,
      rsm_runtime_observations = 0, rsm_position_observations = 0, rsm_runtime_updates = 0, rsm_malformed_records = 0,
      rsm_rejected_records = 0, rsm_parser_anomalies = 0, rsm_unknown_records = 0,
      rsm_position_payload_freshness = FreshnessMetrics_default\<rparr>"

record ReceiverSession =
  rcv_config :: ReceiverSessionConfig
  rcv_metrics :: ReceiverSessionMetrics
  rcv_nmea :: NmeaSession
  rcv_ublox :: UbloxSession
  rcv_unicore :: UnicoreSession
  rcv_pending :: "stamped list"

definition rcv_selected :: "ReceiverSession \<Rightarrow> ReceiverSessionKind option" where
  "rcv_selected s = rsm_selected_session_kind (rcv_metrics s)"

definition InitializeSelectionFromConfig :: "ReceiverSession \<Rightarrow> ReceiverSession" where
  "InitializeSelectionFromConfig s =
     (let kind = rc_kind (rcv_config s) in
      if kind = RK_kUblox \<or> kind = RK_kUnicore \<or> kind = RK_kNmea
      then s\<lparr>rcv_metrics := (rcv_metrics s)\<lparr>rsm_selected_session_kind := Some kind, rsm_selection_locked := True\<rparr>\<rparr>
      else s\<lparr>rcv_metrics := (rcv_metrics s)\<lparr>rsm_selected_session_kind := None, rsm_selection_locked := False\<rparr>\<rparr>)"

definition receiver_new :: "ReceiverSessionConfig \<Rightarrow> ReceiverSession" where
  "receiver_new config =
     InitializeSelectionFromConfig
       \<lparr>rcv_config = config, rcv_metrics = ReceiverSessionMetrics_default, rcv_nmea = nmea_session_new (rc_nmea config),
        rcv_ublox = ublox_new (rc_ublox config), rcv_unicore = unicore_new (rc_unicore config), rcv_pending = []\<rparr>"

definition receiver_Reset :: "ReceiverSession \<Rightarrow> ReceiverSession" where
  "receiver_Reset s =
     InitializeSelectionFromConfig
       (s\<lparr>rcv_nmea := nmea_session_Reset (rcv_nmea s), rcv_ublox := ublox_Reset (rcv_ublox s),
          rcv_unicore := unicore_Reset (rcv_unicore s), rcv_pending := [], rcv_metrics := ReceiverSessionMetrics_default\<rparr>)"

definition receiver_current_state :: "ReceiverSession \<Rightarrow> GnssRuntimeState" where
  "receiver_current_state s =
     (case rcv_selected s of
        Some RK_kUblox \<Rightarrow> ag_state (us_aggregator (rcv_ublox s))
      | Some RK_kUnicore \<Rightarrow> ag_state (un_aggregator (rcv_unicore s))
      | Some RK_kNmea \<Rightarrow> ag_state (nse_aggregator (rcv_nmea s))
      | _ \<Rightarrow> RuntimeState_default)"

section \<open>Routing\<close>

definition RouteToSelectedSession :: "bytes \<Rightarrow> timestamp_ns option \<Rightarrow> ReceiverSession \<Rightarrow> ReceiverSession" where
  "RouteToSelectedSession data timestamp s =
     (case rcv_selected s of
        Some RK_kUblox \<Rightarrow> s\<lparr>rcv_ublox := ublox_FeedBytes data timestamp (rcv_ublox s)\<rparr>
      | Some RK_kUnicore \<Rightarrow> s\<lparr>rcv_unicore := unicore_FeedBytes data timestamp (rcv_unicore s)\<rparr>
      | Some RK_kNmea \<Rightarrow> s\<lparr>rcv_nmea := nmea_session_FeedBytes data timestamp (rcv_nmea s)\<rparr>
      | _ \<Rightarrow> s)"

definition RouteBufferedBytesToSelectedSession :: "ReceiverSession \<Rightarrow> ReceiverSession" where
  "RouteBufferedBytesToSelectedSession s =
     (if rcv_selected s = None then s
      else (fold (\<lambda>(b, t). RouteToSelectedSession [b] t) (rcv_pending s) s)\<lparr>rcv_pending := []\<rparr>)"

definition AppendPendingBytes :: "bytes \<Rightarrow> timestamp_ns option \<Rightarrow> ReceiverSession \<Rightarrow> ReceiverSession" where
  "AppendPendingBytes data timestamp s = s\<lparr>rcv_pending := rcv_pending s @ map (\<lambda>b. (b, timestamp)) data\<rparr>"

definition TrimPendingBytesIfNeeded :: "ReceiverSession \<Rightarrow> ReceiverSession" where
  "TrimPendingBytesIfNeeded s =
     (let limit = rc_max_auto_detect_buffer_bytes (rcv_config s) in
      if length (rcv_pending s) \<le> limit then s
      else s\<lparr>rcv_pending := drop (length (rcv_pending s) - limit) (rcv_pending s)\<rparr>)"

definition SelectSession :: "ReceiverSessionKind \<Rightarrow> ReceiverSession \<Rightarrow> ReceiverSession" where
  "SelectSession kind s =
     (case rcv_selected s of
        Some selected \<Rightarrow>
          if selected \<noteq> kind
          then s\<lparr>rcv_metrics := (rcv_metrics s)\<lparr>rsm_sessions_switched := rsm_sessions_switched (rcv_metrics s) + 1\<rparr>\<rparr>
          else s
      | None \<Rightarrow> s\<lparr>rcv_metrics := (rcv_metrics s)\<lparr>rsm_selected_session_kind := Some kind, rsm_selection_locked := True\<rparr>\<rparr>)"

section \<open>Selection\<close>

definition IsSupportedUnicoreCandidate :: "UnicoreFrame \<Rightarrow> bool" where
  "IsSupportedUnicoreCandidate frame \<longleftrightarrow> uni_sync_char frame \<noteq> CHR ''$'' \<and> uni_message_name frame \<noteq> []"

definition IsSupportedUnicoreBinaryCandidate :: "UnicoreBinaryFrame \<Rightarrow> bool" where
  "IsSupportedUnicoreBinaryCandidate frame \<longleftrightarrow> unib_checksum_status frame = CS_kValid"

text \<open>Which vendors have an acceptable frame in the bytes (\<open>DetectVendorCandidate\<close>).\<close>

definition ublox_candidate :: "ReceiverSessionConfig \<Rightarrow> stamped list \<Rightarrow> bool" where
  "ublox_candidate config bytes \<longleftrightarrow>
     detect_record ubx_PushByte (\<lambda>f. ubx_checksum_status f = CS_kValid) (ubx_new (uc_max_ubx_frame_length_bytes (rc_ublox config)))
       0 bytes \<noteq> None"

definition unicore_candidate :: "ReceiverSessionConfig \<Rightarrow> stamped list \<Rightarrow> bool" where
  "unicore_candidate config bytes \<longleftrightarrow>
     detect_record uni_PushByte IsSupportedUnicoreCandidate (uni_new (unc_max_frame_length_bytes (rc_unicore config)))
       0 bytes \<noteq> None
     \<or> detect_record unib_PushByte IsSupportedUnicoreBinaryCandidate
         (unib_new (unc_max_binary_frame_length_bytes (rc_unicore config))) 0 bytes \<noteq> None"

definition session_for :: "ReceiverSessionConfig \<Rightarrow> stamped list \<Rightarrow> ReceiverSessionKind option" where
  "session_for config bytes =
     (let protocol = sd_protocol (Detect (map fst bytes));
          generic = rc_allow_generic_nmea_auto_detect config \<and> protocol = DP_kNmea;
          has_ublox = ublox_candidate config bytes;
          has_unicore = unicore_candidate config bytes in
      if protocol = DP_kUbx then Some RK_kUblox
      else if protocol = DP_kUnicoreAscii then Some RK_kUnicore
      else if protocol = DP_kUnicoreBinary then Some RK_kUnicore
      else if has_ublox = has_unicore then
        if generic \<and> \<not> has_ublox \<and> \<not> has_unicore then Some RK_kNmea else None
      else if has_ublox then Some RK_kUblox
      else if has_unicore then Some RK_kUnicore
      else if generic then Some RK_kNmea else None)"

definition TrySelectSessionFromPendingBytes :: "ReceiverSession \<Rightarrow> ReceiverSession" where
  "TrySelectSessionFromPendingBytes s =
     (if rcv_selected s \<noteq> None \<or> rcv_pending s = [] then s
      else
        case session_for (rcv_config s) (rcv_pending s) of
          Some kind \<Rightarrow> SelectSession kind s
        | None \<Rightarrow> s)"

section \<open>Metrics\<close>

definition RefreshMetricsFromSelectedSession :: "ReceiverSession \<Rightarrow> ReceiverSession" where
  "RefreshMetricsFromSelectedSession s =
     (let refresh = (\<lambda>observations positions updates malformed rejected unknown freshness.
            s\<lparr>rcv_metrics := (rcv_metrics s)
              \<lparr>rsm_runtime_observations := observations, rsm_position_observations := positions,
               rsm_runtime_updates := updates, rsm_malformed_records := malformed, rsm_rejected_records := rejected,
               rsm_parser_anomalies := malformed + rejected, rsm_unknown_records := unknown,
               rsm_position_payload_freshness := freshness\<rparr>\<rparr>) in
      case rcv_selected s of
        Some RK_kUblox \<Rightarrow>
          (let child = us_metrics (rcv_ublox s) in
           refresh (um_runtime_observations child) (um_position_observations child) (um_runtime_updates child)
             (um_malformed_frames child) (um_frames_rejected child) (um_unknown_frames child)
             (um_position_payload_freshness child))
      | Some RK_kUnicore \<Rightarrow>
          (let child = un_metrics (rcv_unicore s) in
           refresh (unm_runtime_observations child) (unm_position_observations child) (unm_runtime_updates child)
             (unm_malformed_lines child + unm_malformed_frames child) (unm_records_rejected child)
             (unm_unknown_records child) (unm_position_payload_freshness child))
      | Some RK_kNmea \<Rightarrow>
          (let child = nse_metrics (rcv_nmea s) in
           refresh (nsm_runtime_observations child) (nsm_position_observations child) (nsm_runtime_updates child)
             (nsm_malformed_sentences child) (nsm_records_rejected child) (nsm_unknown_sentences child)
             (nsm_position_payload_freshness child))
      | _ \<Rightarrow> refresh 0 0 0 0 0 0 FreshnessMetrics_default)"

section \<open>The operations\<close>

definition receiver_FeedBytes :: "bytes \<Rightarrow> timestamp_ns option \<Rightarrow> ReceiverSession \<Rightarrow> ReceiverSession" where
  "receiver_FeedBytes data timestamp s =
     (if data = [] then s
      else
        let s1 = s\<lparr>rcv_metrics := (rcv_metrics s)\<lparr>rsm_bytes_seen := rsm_bytes_seen (rcv_metrics s) + of_nat (length data)\<rparr>\<rparr> in
        if rcv_selected s1 \<noteq> None
        then RefreshMetricsFromSelectedSession (RouteToSelectedSession data timestamp s1)
        else
          let s2 = TrySelectSessionFromPendingBytes (AppendPendingBytes data timestamp s1) in
          RefreshMetricsFromSelectedSession
            (if rcv_selected s2 \<noteq> None then RouteBufferedBytesToSelectedSession s2 else TrimPendingBytesIfNeeded s2))"

definition receiver_Finalize :: "ReceiverSession \<Rightarrow> ReceiverSession" where
  "receiver_Finalize s =
     (let s1 = (if rcv_selected s = None then TrySelectSessionFromPendingBytes s else s);
          s2 = (if rcv_selected s = None \<and> rcv_selected s1 \<noteq> None then RouteBufferedBytesToSelectedSession s1 else s1) in
      RefreshMetricsFromSelectedSession
        (case rcv_selected s2 of
           Some RK_kUblox \<Rightarrow> s2\<lparr>rcv_ublox := ublox_Finalize (rcv_ublox s2)\<rparr>
         | Some RK_kUnicore \<Rightarrow> s2\<lparr>rcv_unicore := unicore_Finalize (rcv_unicore s2)\<rparr>
         | Some RK_kNmea \<Rightarrow> s2\<lparr>rcv_nmea := nmea_session_Finalize (rcv_nmea s2)\<rparr>
         | _ \<Rightarrow> s2\<lparr>rcv_pending := []\<rparr>))"

section \<open>What the operations keep\<close>

definition receiver_feed_all :: "(bytes \<times> timestamp_ns option) list \<Rightarrow> ReceiverSession \<Rightarrow> ReceiverSession" where
  "receiver_feed_all chunks s = fold (\<lambda>(data, t). receiver_FeedBytes data t) chunks s"

lemma refresh_effects [simp]:
  "rcv_selected (RefreshMetricsFromSelectedSession s) = rcv_selected s"
  "rcv_config (RefreshMetricsFromSelectedSession s) = rcv_config s"
  "rcv_pending (RefreshMetricsFromSelectedSession s) = rcv_pending s"
  "rcv_ublox (RefreshMetricsFromSelectedSession s) = rcv_ublox s"
  "rcv_unicore (RefreshMetricsFromSelectedSession s) = rcv_unicore s"
  "rcv_nmea (RefreshMetricsFromSelectedSession s) = rcv_nmea s"
  "rsm_sessions_switched (rcv_metrics (RefreshMetricsFromSelectedSession s)) = rsm_sessions_switched (rcv_metrics s)"
  by (simp_all add: RefreshMetricsFromSelectedSession_def rcv_selected_def Let_def
      split: option.splits ReceiverSessionKind.splits)

lemma route_effects [simp]:
  "rcv_selected (RouteToSelectedSession data t s) = rcv_selected s"
  "rcv_config (RouteToSelectedSession data t s) = rcv_config s"
  "rcv_pending (RouteToSelectedSession data t s) = rcv_pending s"
  "rcv_metrics (RouteToSelectedSession data t s) = rcv_metrics s"
  by (simp_all add: RouteToSelectedSession_def rcv_selected_def split: option.splits ReceiverSessionKind.splits)

lemma route_pending_effects:
  "rcv_selected (fold (\<lambda>(b, t). RouteToSelectedSession [b] t) xs s) = rcv_selected s"
  "rcv_config (fold (\<lambda>(b, t). RouteToSelectedSession [b] t) xs s) = rcv_config s"
  "rcv_metrics (fold (\<lambda>(b, t). RouteToSelectedSession [b] t) xs s) = rcv_metrics s"
  by (induction xs arbitrary: s) (simp_all split: prod.split)

lemma route_buffered_effects [simp]:
  "rcv_selected (RouteBufferedBytesToSelectedSession s) = rcv_selected s"
  "rcv_config (RouteBufferedBytesToSelectedSession s) = rcv_config s"
  "rcv_metrics (RouteBufferedBytesToSelectedSession s) = rcv_metrics s"
  "rcv_selected s \<noteq> None \<Longrightarrow> rcv_pending (RouteBufferedBytesToSelectedSession s) = []"
  using route_pending_effects [of "rcv_pending s" s]
  by (auto simp: RouteBufferedBytesToSelectedSession_def rcv_selected_def)

lemma pending_effects [simp]:
  "rcv_selected (AppendPendingBytes data t s) = rcv_selected s"
  "rcv_config (AppendPendingBytes data t s) = rcv_config s"
  "rcv_metrics (AppendPendingBytes data t s) = rcv_metrics s"
  "rcv_selected (TrimPendingBytesIfNeeded s) = rcv_selected s"
  "rcv_config (TrimPendingBytesIfNeeded s) = rcv_config s"
  "rcv_metrics (TrimPendingBytesIfNeeded s) = rcv_metrics s"
  "length (rcv_pending (TrimPendingBytesIfNeeded s)) \<le> rc_max_auto_detect_buffer_bytes (rcv_config s)"
  by (simp_all add: AppendPendingBytes_def TrimPendingBytesIfNeeded_def rcv_selected_def Let_def)

lemma try_select_effects [simp]:
  "rcv_config (TrySelectSessionFromPendingBytes s) = rcv_config s"
  "rcv_pending (TrySelectSessionFromPendingBytes s) = rcv_pending s"
  "rcv_ublox (TrySelectSessionFromPendingBytes s) = rcv_ublox s"
  "rcv_unicore (TrySelectSessionFromPendingBytes s) = rcv_unicore s"
  "rcv_nmea (TrySelectSessionFromPendingBytes s) = rcv_nmea s"
  "rcv_selected s = None \<Longrightarrow> rcv_selected (TrySelectSessionFromPendingBytes s) =
     (if rcv_pending s = [] then None else session_for (rcv_config s) (rcv_pending s))"
  "rsm_sessions_switched (rcv_metrics (TrySelectSessionFromPendingBytes s)) = rsm_sessions_switched (rcv_metrics s)"
  by (auto simp: TrySelectSessionFromPendingBytes_def SelectSession_def rcv_selected_def split: option.splits)

lemma session_for_kind: "session_for config bytes \<noteq> Some RK_kAutoDetect"
  by (simp add: session_for_def Let_def)

section \<open>Nothing of the stream is lost to the detection\<close>

text \<open>The pending bytes as the chunks they are handed on in.\<close>

lemma stamped_singletons: "stamped_bytes (map (\<lambda>(b, t). ([b], t)) xs) = xs"
  by (induction xs) (auto simp: stamped_bytes_def)

lemma stamped_append: "stamped_bytes (xs @ ys) = stamped_bytes xs @ stamped_bytes ys"
  by (simp add: stamped_bytes_def)

lemma route_pending_ublox:
  "rcv_selected s = Some RK_kUblox \<Longrightarrow>
     rcv_ublox (fold (\<lambda>(b, t). RouteToSelectedSession [b] t) xs s) = feed_all (map (\<lambda>(b, t). ([b], t)) xs) (rcv_ublox s)"
proof (induction xs arbitrary: s)
  case (Cons x xs)
  obtain b t where x: "x = (b, t)" by fastforce
  from Cons.IH [of "RouteToSelectedSession [b] t s"] Cons.prems show ?case
    by (simp add: x feed_all_def) (simp add: RouteToSelectedSession_def)
qed (simp add: feed_all_def)

text \<open>What a session that decides by itself has after some chunks: all bytes pending, or the u-blox session with all.\<close>

definition transparent :: "ReceiverSessionConfig \<Rightarrow> (bytes \<times> timestamp_ns option) list \<Rightarrow> ReceiverSession \<Rightarrow> bool" where
  "transparent config chunks s \<longleftrightarrow>
     rcv_config s = config
     \<and> (rcv_selected s = None \<longrightarrow> rcv_pending s = stamped_bytes chunks \<and> rcv_ublox s = ublox_new (rc_ublox config))
     \<and> (rcv_selected s = Some RK_kUblox \<longrightarrow> rcv_ublox s = feed_all chunks (ublox_new (rc_ublox config)))"

lemma feed_all_snoc: "feed_all (chunks @ [(data, t)]) u = ublox_FeedBytes data t (feed_all chunks u)"
  by (simp add: feed_all_def)

lemma route_buffered_ublox:
  assumes "rcv_selected s = Some RK_kUblox" and "rcv_ublox s = ublox_new config" and "rcv_pending s = stamped_bytes chunks"
  shows "rcv_ublox (RouteBufferedBytesToSelectedSession s) = feed_all chunks (ublox_new config)"
  using assms route_pending_ublox [of s "stamped_bytes chunks"]
  by (simp add: RouteBufferedBytesToSelectedSession_def feed_all_at_once stamped_singletons)

lemma transparent_step:
  assumes "transparent config chunks s"
    and "rcv_selected s = None \<longrightarrow> length (stamped_bytes chunks) + length data \<le> rc_max_auto_detect_buffer_bytes config"
  shows "transparent config (chunks @ [(data, t)]) (receiver_FeedBytes data t s)"
proof (cases "data = []")
  case True
  then have "stamped_bytes (chunks @ [(data, t)]) = stamped_bytes chunks"
    and "feed_all (chunks @ [(data, t)]) u = feed_all chunks u" for u
    by (simp_all add: stamped_bytes_def feed_all_def ublox_FeedBytes_def)
  with assms(1) True show ?thesis by (simp add: transparent_def receiver_FeedBytes_def)
next
  case False
  let ?s1 = "s\<lparr>rcv_metrics := (rcv_metrics s)\<lparr>rsm_bytes_seen := rsm_bytes_seen (rcv_metrics s) + of_nat (length data)\<rparr>\<rparr>"
  have s1: "rcv_selected ?s1 = rcv_selected s" by (simp add: rcv_selected_def)
  show ?thesis
  proof (cases "rcv_selected s")
    case None
    define s2 where "s2 = TrySelectSessionFromPendingBytes (AppendPendingBytes data t ?s1)"
    have s2: "rcv_pending s2 = stamped_bytes (chunks @ [(data, t)])" "rcv_config s2 = config"
      "rcv_ublox s2 = ublox_new (rc_ublox config)"
      using assms(1) None by (simp_all add: s2_def transparent_def) (simp_all add: AppendPendingBytes_def stamped_bytes_def)
    moreover have trim: "TrimPendingBytesIfNeeded s2 = s2"
      using assms(2) None s2 by (simp add: TrimPendingBytesIfNeeded_def stamped_bytes_def)
    moreover have "receiver_FeedBytes data t s = RefreshMetricsFromSelectedSession
        (if rcv_selected s2 \<noteq> None then RouteBufferedBytesToSelectedSession s2 else s2)"
      using False None s1 trim by (simp add: receiver_FeedBytes_def s2_def Let_def)
    ultimately show ?thesis
      using route_buffered_ublox [of s2 "rc_ublox config" "chunks @ [(data, t)]"] by (auto simp: transparent_def)
  next
    case (Some kind)
    with assms(1) False s1 show ?thesis
      by (simp add: receiver_FeedBytes_def transparent_def feed_all_snoc) (simp add: RouteToSelectedSession_def s1)
  qed
qed

lemma receiver_feed_all_snoc: "receiver_feed_all (chunks @ [(data, t)]) s = receiver_FeedBytes data t (receiver_feed_all chunks s)"
  by (simp add: receiver_feed_all_def)

lemma receiver_new_state:
  "rcv_config (receiver_new config) = config" "rcv_pending (receiver_new config) = []"
  "rcv_ublox (receiver_new config) = ublox_new (rc_ublox config)"
  by (simp_all add: receiver_new_def InitializeSelectionFromConfig_def Let_def)

lemma transparent_short:
  "length (stamped_bytes chunks) \<le> rc_max_auto_detect_buffer_bytes config \<Longrightarrow>
     transparent config chunks (receiver_feed_all chunks (receiver_new config))"
proof (induction chunks rule: rev_induct)
  case Nil
  show ?case by (simp add: receiver_feed_all_def transparent_def receiver_new_state stamped_bytes_def feed_all_def)
next
  case (snoc chunk chunks)
  obtain data t where chunk: "chunk = (data, t)" by fastforce
  from snoc.prems have "length (stamped_bytes chunks) + length data \<le> rc_max_auto_detect_buffer_bytes config"
    by (simp add: chunk stamped_bytes_def)
  with snoc.IH show ?case by (simp add: chunk receiver_feed_all_snoc transparent_step)
qed

lemma FeedBytes_selected:
  "rcv_selected s \<noteq> None \<Longrightarrow> rcv_selected (receiver_FeedBytes data t s) = rcv_selected s"
  by (auto simp: receiver_FeedBytes_def Let_def) (auto simp: rcv_selected_def)

lemma transparent_selected:
  "\<lbrakk>transparent config before s; rcv_selected s \<noteq> None\<rbrakk> \<Longrightarrow>
     transparent config (before @ after) (receiver_feed_all after s) \<and> rcv_selected (receiver_feed_all after s) = rcv_selected s"
proof (induction after arbitrary: before s)
  case (Cons chunk after)
  obtain data t where chunk: "chunk = (data, t)" by fastforce
  let ?s1 = "receiver_FeedBytes data t s"
  have "rcv_selected ?s1 = rcv_selected s" using Cons.prems(2) by (rule FeedBytes_selected)
  with Cons.IH [of "before @ [(data, t)]" ?s1] Cons.prems show ?case
    by (simp add: chunk receiver_feed_all_def transparent_step)
qed (simp add: receiver_feed_all_def)

lemma FeedBytes_selects:
  assumes "rcv_selected s = None" and "data \<noteq> []"
  shows "rcv_selected (receiver_FeedBytes data t s) = session_for (rcv_config s) (rcv_pending s @ map (\<lambda>b. (b, t)) data)"
proof -
  let ?s1 = "s\<lparr>rcv_metrics := (rcv_metrics s)\<lparr>rsm_bytes_seen := rsm_bytes_seen (rcv_metrics s) + of_nat (length data)\<rparr>\<rparr>"
  have s1: "rcv_selected ?s1 = None" using assms(1) by (simp add: rcv_selected_def)
  then have "rcv_selected (TrySelectSessionFromPendingBytes (AppendPendingBytes data t ?s1))
      = session_for (rcv_config s) (rcv_pending s @ map (\<lambda>b. (b, t)) data)"
    using assms(2) by simp (simp add: AppendPendingBytes_def)
  with assms s1 show ?thesis by (simp add: receiver_FeedBytes_def Let_def)
qed

section \<open>The selection\<close>

text \<open>The operations, and what holds after any sequence of them.\<close>

datatype receiver_op = RO_Feed bytes "timestamp_ns option" | RO_Finalize | RO_Reset

fun receiver_step :: "receiver_op \<Rightarrow> ReceiverSession \<Rightarrow> ReceiverSession" where
  "receiver_step (RO_Feed data t) s = receiver_FeedBytes data t s"
| "receiver_step RO_Finalize s = receiver_Finalize s"
| "receiver_step RO_Reset s = receiver_Reset s"

definition receiver_ok :: "ReceiverSession \<Rightarrow> bool" where
  "receiver_ok s \<longleftrightarrow>
     length (rcv_pending s) \<le> rc_max_auto_detect_buffer_bytes (rcv_config s)
     \<and> (if rcv_selected s = None then True else rcv_pending s = [])
     \<and> rcv_selected s \<noteq> Some RK_kAutoDetect
     \<and> rsm_sessions_switched (rcv_metrics s) = 0
     \<and> rsm_selection_locked (rcv_metrics s) = (rcv_selected s \<noteq> None)
     \<and> rsm_parser_anomalies (rcv_metrics s) = rsm_malformed_records (rcv_metrics s) + rsm_rejected_records (rcv_metrics s)"

lemma refresh_anomalies [simp]:
  "rsm_parser_anomalies (rcv_metrics (RefreshMetricsFromSelectedSession s))
     = rsm_malformed_records (rcv_metrics (RefreshMetricsFromSelectedSession s))
       + rsm_rejected_records (rcv_metrics (RefreshMetricsFromSelectedSession s))"
  "rsm_selection_locked (rcv_metrics (RefreshMetricsFromSelectedSession s)) = rsm_selection_locked (rcv_metrics s)"
  by (simp_all add: RefreshMetricsFromSelectedSession_def Let_def split: option.splits ReceiverSessionKind.splits)

text \<open>The part of \<open>receiver_ok\<close> that does not depend on the refreshed metrics.\<close>

definition selection_ok :: "ReceiverSession \<Rightarrow> bool" where
  "selection_ok s \<longleftrightarrow>
     rcv_selected s \<noteq> Some RK_kAutoDetect \<and> rsm_sessions_switched (rcv_metrics s) = 0
     \<and> rsm_selection_locked (rcv_metrics s) = (rcv_selected s \<noteq> None)"

lemma selection_ok_cong:
  "\<lbrakk>rcv_selected s = rcv_selected s1; rsm_sessions_switched (rcv_metrics s) = rsm_sessions_switched (rcv_metrics s1);
    rsm_selection_locked (rcv_metrics s) = rsm_selection_locked (rcv_metrics s1)\<rbrakk> \<Longrightarrow> selection_ok s = selection_ok s1"
  by (simp add: selection_ok_def)

lemma selection_ok_steps:
  "selection_ok (RefreshMetricsFromSelectedSession s) = selection_ok s"
  "selection_ok (RouteToSelectedSession data t s) = selection_ok s"
  "selection_ok (RouteBufferedBytesToSelectedSession s) = selection_ok s"
  "selection_ok (AppendPendingBytes data t s) = selection_ok s"
  "selection_ok (TrimPendingBytesIfNeeded s) = selection_ok s"
  "selection_ok s \<Longrightarrow> selection_ok (TrySelectSessionFromPendingBytes s)"
  by ((rule selection_ok_cong, simp_all)[1])+
    (auto simp: selection_ok_def TrySelectSessionFromPendingBytes_def SelectSession_def rcv_selected_def session_for_kind
      split: option.splits)

lemma receiver_ok_eq:
  "receiver_ok s \<longleftrightarrow> selection_ok s \<and> length (rcv_pending s) \<le> rc_max_auto_detect_buffer_bytes (rcv_config s)
     \<and> (if rcv_selected s = None then True else rcv_pending s = [])
     \<and> rsm_parser_anomalies (rcv_metrics s) = rsm_malformed_records (rcv_metrics s) + rsm_rejected_records (rcv_metrics s)"
  by (auto simp: receiver_ok_def selection_ok_def)

lemma receiver_initial_ok:
  "\<lbrakk>rcv_pending s = []; rcv_metrics s = ReceiverSessionMetrics_default\<rbrakk> \<Longrightarrow> receiver_ok (InitializeSelectionFromConfig s)"
  by (auto simp: InitializeSelectionFromConfig_def receiver_ok_def rcv_selected_def ReceiverSessionMetrics_default_def Let_def)

lemma receiver_ok_refresh:
  "\<lbrakk>selection_ok s; length (rcv_pending s) \<le> rc_max_auto_detect_buffer_bytes (rcv_config s);
    rcv_selected s \<noteq> None \<Longrightarrow> rcv_pending s = []\<rbrakk> \<Longrightarrow> receiver_ok (RefreshMetricsFromSelectedSession s)"
  by (auto simp: receiver_ok_eq selection_ok_steps)

lemma child_updates [simp]:
  "rcv_selected (s\<lparr>rcv_ublox := u\<rparr>) = rcv_selected s" "selection_ok (s\<lparr>rcv_ublox := u\<rparr>) = selection_ok s"
  "rcv_selected (s\<lparr>rcv_unicore := n\<rparr>) = rcv_selected s" "selection_ok (s\<lparr>rcv_unicore := n\<rparr>) = selection_ok s"
  "rcv_selected (s\<lparr>rcv_nmea := m\<rparr>) = rcv_selected s" "selection_ok (s\<lparr>rcv_nmea := m\<rparr>) = selection_ok s"
  "rcv_selected (s\<lparr>rcv_pending := p\<rparr>) = rcv_selected s" "selection_ok (s\<lparr>rcv_pending := p\<rparr>) = selection_ok s"
  by (simp_all add: rcv_selected_def selection_ok_def)

lemma receiver_FeedBytes_ok:
  assumes "receiver_ok s"
  shows "receiver_ok (receiver_FeedBytes data t s)"
proof (cases "data = []")
  case False
  define s1 where "s1 = s\<lparr>rcv_metrics := (rcv_metrics s)\<lparr>rsm_bytes_seen := rsm_bytes_seen (rcv_metrics s) + of_nat (length data)\<rparr>\<rparr>"
  have s1: "selection_ok s1" "rcv_selected s1 = rcv_selected s" "rcv_pending s1 = rcv_pending s" "rcv_config s1 = rcv_config s"
    using assms by (simp_all add: s1_def receiver_ok_eq selection_ok_def rcv_selected_def)
  define s2 where "s2 = TrySelectSessionFromPendingBytes (AppendPendingBytes data t s1)"
  have s2: "selection_ok s2" "rcv_config s2 = rcv_config s"
    using s1 by (simp_all add: s2_def selection_ok_steps)
  have fed: "receiver_FeedBytes data t s = RefreshMetricsFromSelectedSession
      (if rcv_selected s \<noteq> None then RouteToSelectedSession data t s1
       else if rcv_selected s2 \<noteq> None then RouteBufferedBytesToSelectedSession s2 else TrimPendingBytesIfNeeded s2)"
    using False s1(2) by (simp add: receiver_FeedBytes_def Let_def s1_def [symmetric] s2_def [symmetric])
  show ?thesis
    unfolding fed using assms s1 s2 pending_effects(7) [of s2]
    by (intro receiver_ok_refresh) (auto simp: selection_ok_steps receiver_ok_eq split: if_splits)
qed (use assms in \<open>simp add: receiver_FeedBytes_def\<close>)

lemma receiver_Finalize_ok:
  assumes "receiver_ok s"
  shows "receiver_ok (receiver_Finalize s)"
proof -
  define s1 where "s1 = (if rcv_selected s = None then TrySelectSessionFromPendingBytes s else s)"
  define s2 where "s2 = (if rcv_selected s = None \<and> rcv_selected s1 \<noteq> None then RouteBufferedBytesToSelectedSession s1 else s1)"
  have "selection_ok s2" using assms by (auto simp: s1_def s2_def receiver_ok_eq selection_ok_steps)
  moreover have "rcv_selected s2 \<noteq> None \<Longrightarrow> rcv_pending s2 = []"
    using assms by (auto simp: s1_def s2_def receiver_ok_eq split: if_splits)
  ultimately show ?thesis
    unfolding receiver_Finalize_def Let_def s1_def [symmetric] s2_def [symmetric]
    by (intro receiver_ok_refresh) (auto split: option.splits ReceiverSessionKind.splits)
qed

section \<open>Properties\<close>

text \<open>The selection is sound.  After any sequence of feeding, finalizing and resetting, the session keeps at most the
  configured number of undecided bytes and none once it has decided; what it selected is a concrete receiver and locked;
  it never switched; and the anomalies it reports are the malformed and the rejected records together.\<close>

lemma receiver_selection_sound: "receiver_ok (fold receiver_step ops (receiver_new config))"
proof -
  have "receiver_ok (receiver_step operation s)" if "receiver_ok s" for operation s
    using that by (cases operation) (simp_all add: receiver_FeedBytes_ok receiver_Finalize_ok receiver_Reset_def receiver_initial_ok)
  moreover have "receiver_ok (receiver_new config)" by (simp add: receiver_new_def receiver_initial_ok)
  ultimately show ?thesis by (induction ops rule: rev_induct) simp_all
qed

text \<open>C6. Automatic detection loses nothing of a u-blox stream.  When the chunks before the selection fit the detection
  buffer, the u-blox session is in exactly the state of one that had been fed the whole stream directly, from the first
  byte on, however long the stream goes on and however the bytes were grouped.\<close>

theorem auto_detection_is_transparent:
  assumes "length (stamped_bytes before) \<le> rc_max_auto_detect_buffer_bytes config"
    and "rcv_selected (receiver_feed_all before (receiver_new config)) = Some RK_kUblox"
  shows "rcv_ublox (receiver_feed_all (before @ after) (receiver_new config))
           = feed_all (before @ after) (ublox_new (rc_ublox config))
         \<and> rcv_selected (receiver_feed_all (before @ after) (receiver_new config)) = Some RK_kUblox"
proof -
  have "receiver_feed_all (before @ after) (receiver_new config)
      = receiver_feed_all after (receiver_feed_all before (receiver_new config))"
    by (simp add: receiver_feed_all_def)
  with transparent_selected [OF transparent_short [OF assms(1)]] assms(2)
  show ?thesis by (auto simp: transparent_def)
qed

text \<open>The acknowledgement frame in two chunks selects the u-blox session.\<close>

theorem auto_detection_is_transparent_witness:
  "rcv_ublox (receiver_feed_all [(ack_frame, Some 1), ([0x24], Some 2)] (receiver_new ReceiverSessionConfig_default))
     = feed_all [(ack_frame, Some 1), ([0x24], Some 2)] (ublox_new UbloxSessionConfig_default)"
proof -
  let ?c = ReceiverSessionConfig_default
  have "rcv_selected (receiver_feed_all [(ack_frame, Some 1)] (receiver_new ?c)) = Some RK_kUblox"
    using ack_frame_detected FeedBytes_selects [of "receiver_new ?c" ack_frame "Some 1"]
    by (simp add: receiver_feed_all_def receiver_new_state session_for_def o_def rcv_selected_def)
      (simp add: receiver_new_def InitializeSelectionFromConfig_def ReceiverSessionConfig_default_def
        ReceiverSessionMetrics_default_def ack_frame_def Let_def)
  moreover have "length (stamped_bytes [(ack_frame, Some 1)]) \<le> rc_max_auto_detect_buffer_bytes ?c"
    by (simp add: stamped_bytes_def ack_frame_def ReceiverSessionConfig_default_def)
  ultimately show ?thesis
    using auto_detection_is_transparent [of "[(ack_frame, Some 1)]" ?c "[([0x24], Some 2)]"]
    by (simp add: ReceiverSessionConfig_default_def)
qed

end
