(* ===== verification/Receiver_Drivers.thy ===== *)
theory Receiver_Drivers
  imports Ublox_Profile Unicore_Profile Receiver_Session Command_Dispatcher
begin

text \<open>
  The receiver drivers (gnss_driver: receiver_driver.hpp, nmea_driver.cpp, ublox_driver.cpp, unicore_driver.cpp): a session
  and the configurations a receiver is offered.  The class hierarchy is a sum.
\<close>

section \<open>Drivers\<close>

datatype ReceiverDriverProfileBuildStatus = DP_kOk | DP_kUnsupportedProfile | DP_kUnsupportedSafetyLevel | DP_kBuildError

record ReceiverDriverProfileBuildResult =
  dpr_status :: ReceiverDriverProfileBuildStatus
  dpr_profile_kind :: ReceiverConfigProfileKind
  dpr_commands :: "ReceiverCommand list"
  dpr_error_message :: string

datatype ReceiverDriver =
    NmeaDriver NmeaSession
  | UbloxDriver UbloxSession
  | UnicoreDriver UnicoreSession UnicoreModelProfile

text \<open>The constructors.  Without a model, \<open>UnicoreDriver\<close> has the generic profile.\<close>

definition NmeaDriver_new :: "NmeaSessionConfig \<Rightarrow> ReceiverDriver" where
  "NmeaDriver_new session_config = NmeaDriver (nmea_session_new session_config)"

definition UbloxDriver_new :: "UbloxSessionConfig \<Rightarrow> ReceiverDriver" where
  "UbloxDriver_new session_config = UbloxDriver (ublox_new session_config)"

definition UnicoreDriver_new :: "string option \<Rightarrow> UnicoreSessionConfig \<Rightarrow> ReceiverDriver" where
  "UnicoreDriver_new receiver_model session_config =
     UnicoreDriver (unicore_new session_config) (ResolveUnicoreModelProfile receiver_model)"

fun driver_vendor :: "ReceiverDriver \<Rightarrow> ReceiverVendor" where
  "driver_vendor (NmeaDriver _) = RV_kGeneric"
| "driver_vendor (UbloxDriver _) = RV_kUblox"
| "driver_vendor (UnicoreDriver _ _) = RV_kUnicore"

fun driver_family :: "ReceiverDriver \<Rightarrow> string" where
  "driver_family (NmeaDriver _) = ''NMEA''"
| "driver_family (UbloxDriver _) = ''F9/F10''"
| "driver_family (UnicoreDriver _ _) = ''UM98x''"

definition nmea_DriverCapabilities :: ReceiverCapabilities where
  "nmea_DriverCapabilities =
     fold AddReceiverFeature [RF_kRtk, RF_kRoverMode] (AddSupportedOutputProtocol RP_kNmea ReceiverCapabilities_default)"

definition ublox_DriverCapabilities :: ReceiverCapabilities where
  "ublox_DriverCapabilities =
     (let c1 = fold AddSupportedInputProtocol [RP_kUbx, RP_kRtcm3] ReceiverCapabilities_default;
          c2 = fold AddSupportedOutputProtocol [RP_kNmea, RP_kUbx] c1 in
      fold AddReceiverFeature
        [RF_kRtk, RF_kRfMonitoring, RF_kPps, RF_kBaseMode, RF_kRoverMode, RF_kConstellationConfig, RF_kCfgValset] c2)"

fun driver_capabilities :: "ReceiverDriver \<Rightarrow> ReceiverCapabilities" where
  "driver_capabilities (NmeaDriver _) = nmea_DriverCapabilities"
| "driver_capabilities (UbloxDriver _) = ublox_DriverCapabilities"
| "driver_capabilities (UnicoreDriver _ model_profile) = ump_capabilities model_profile"

fun supported_profiles :: "ReceiverDriver \<Rightarrow> ReceiverConfigProfileKind list" where
  "supported_profiles (NmeaDriver _) = []"
| "supported_profiles (UbloxDriver _) = [PF_kRover, PF_kDiagnosticsOutput, PF_kBase]"
| "supported_profiles (UnicoreDriver _ _) = [PF_kRover, PF_kDiagnosticsOutput]"

definition SupportsProfile :: "ReceiverDriver \<Rightarrow> ReceiverConfigProfileKind \<Rightarrow> bool" where
  "SupportsProfile driver kind \<longleftrightarrow> kind \<in> set (supported_profiles driver)"

fun driver_current_state :: "ReceiverDriver \<Rightarrow> GnssRuntimeState" where
  "driver_current_state (NmeaDriver s) = ag_state (nse_aggregator s)"
| "driver_current_state (UbloxDriver s) = ag_state (us_aggregator s)"
| "driver_current_state (UnicoreDriver s _) = ag_state (un_aggregator s)"

fun driver_FeedBytes :: "bytes \<Rightarrow> timestamp_ns option \<Rightarrow> ReceiverDriver \<Rightarrow> ReceiverDriver" where
  "driver_FeedBytes data timestamp_ns (NmeaDriver s) = NmeaDriver (nmea_session_FeedBytes data timestamp_ns s)"
| "driver_FeedBytes data timestamp_ns (UbloxDriver s) = UbloxDriver (ublox_FeedBytes data timestamp_ns s)"
| "driver_FeedBytes data timestamp_ns (UnicoreDriver s m) = UnicoreDriver (unicore_FeedBytes data timestamp_ns s) m"

fun driver_Finalize :: "ReceiverDriver \<Rightarrow> ReceiverDriver" where
  "driver_Finalize (NmeaDriver s) = NmeaDriver (nmea_session_Finalize s)"
| "driver_Finalize (UbloxDriver s) = UbloxDriver (ublox_Finalize s)"
| "driver_Finalize (UnicoreDriver s m) = UnicoreDriver (unicore_Finalize s) m"

fun driver_Reset :: "ReceiverDriver \<Rightarrow> ReceiverDriver" where
  "driver_Reset (NmeaDriver s) = NmeaDriver (nmea_session_Reset s)"
| "driver_Reset (UbloxDriver s) = UbloxDriver (ublox_Reset s)"
| "driver_Reset (UnicoreDriver s m) = UnicoreDriver (unicore_Reset s) m"

section \<open>Building a configuration\<close>

definition driver_error ::
  "ReceiverDriverProfileBuildStatus \<Rightarrow> ReceiverConfigProfileKind \<Rightarrow> string \<Rightarrow> ReceiverDriverProfileBuildResult" where
  "driver_error status profile_kind message =
     \<lparr>dpr_status = status, dpr_profile_kind = profile_kind, dpr_commands = [], dpr_error_message = message\<rparr>"

definition driver_commands :: "ReceiverConfigProfileKind \<Rightarrow> ReceiverCommand list \<Rightarrow> ReceiverDriverProfileBuildResult" where
  "driver_commands profile_kind commands =
     \<lparr>dpr_status = DP_kOk, dpr_profile_kind = profile_kind, dpr_commands = commands, dpr_error_message = []\<rparr>"

definition MakeUnsupportedProfileResult :: "ReceiverConfigProfileKind \<Rightarrow> ReceiverDriverProfileBuildResult" where
  "MakeUnsupportedProfileResult profile_kind =
     driver_error DP_kUnsupportedProfile profile_kind
       ''generic NMEA driver does not support configuration profile generation''"

definition ResolveLayers :: "ReceiverCommandSafetyLevel \<Rightarrow> UbxCfgLayer list" where
  "ResolveLayers safety_level = (if safety_level = SL_kPersistent then [Layer_kRam, Layer_kBbr] else [Layer_kRam])"

definition ublox_ConvertBuildResult ::
  "ReceiverConfigProfileKind \<Rightarrow> UbloxConfigProfileBuildResult \<Rightarrow> ReceiverDriverProfileBuildResult" where
  "ublox_ConvertBuildResult profile_kind r =
     (if upr_status r \<noteq> UP_kOk then driver_error DP_kBuildError profile_kind (upr_error_message r)
      else driver_commands profile_kind (upr_commands r))"

definition ublox_BuildProfile ::
  "ReceiverConfigProfileKind \<Rightarrow> ReceiverCommandSafetyLevel \<Rightarrow> ReceiverDriverProfileBuildResult" where
  "ublox_BuildProfile profile_kind safety_level =
     (if safety_level = SL_kFactoryReset
      then driver_error DP_kUnsupportedSafetyLevel profile_kind
             ''u-blox driver does not support factory-reset profile generation''
      else
        let layers = ResolveLayers safety_level; ports = [UIP_kUart1, UIP_kUsb] in
        (case profile_kind of
           PF_kRover \<Rightarrow> ublox_ConvertBuildResult profile_kind (ublox_Build (BuildUbloxRoverProfile safety_level layers ports))
         | PF_kDiagnosticsOutput \<Rightarrow>
             ublox_ConvertBuildResult profile_kind (ublox_Build (BuildUbloxDiagnosticsProfile safety_level layers ports))
         | PF_kBase \<Rightarrow> ublox_ConvertBuildResult profile_kind (ublox_Build (BuildUbloxBaseProfile safety_level layers ports))
         | _ \<Rightarrow> driver_error DP_kUnsupportedProfile profile_kind ''u-blox driver does not support the requested profile''))"

definition ResolvePersistence :: "ReceiverCommandSafetyLevel \<Rightarrow> UnicorePersistenceTarget" where
  "ResolvePersistence safety_level = (if safety_level = SL_kPersistent then UPT_kSaveConfig else UPT_kRuntimeOnly)"

definition unicore_ConvertBuildResult ::
  "ReceiverConfigProfileKind \<Rightarrow> UnicoreConfigProfileBuildResult \<Rightarrow> ReceiverDriverProfileBuildResult" where
  "unicore_ConvertBuildResult profile_kind r =
     (if ucr_status r \<noteq> NP_kOk then driver_error DP_kBuildError profile_kind (ucr_error_message r)
      else driver_commands profile_kind (ucr_commands r))"

definition unicore_BuildProfile ::
  "UnicoreModelProfile \<Rightarrow> ReceiverConfigProfileKind \<Rightarrow> ReceiverCommandSafetyLevel \<Rightarrow> ReceiverDriverProfileBuildResult" where
  "unicore_BuildProfile model_profile profile_kind safety_level =
     (if safety_level = SL_kFactoryReset
      then driver_error DP_kUnsupportedSafetyLevel profile_kind
             ''Unicore driver does not support factory-reset profile generation''
      else
        let persistence = ResolvePersistence safety_level in
        (case profile_kind of
           PF_kRover \<Rightarrow>
             unicore_ConvertBuildResult profile_kind (unicore_Build (BuildUnicoreRoverProfile model_profile persistence))
         | PF_kDiagnosticsOutput \<Rightarrow>
             unicore_ConvertBuildResult profile_kind (unicore_Build (BuildUnicoreDiagnosticsProfile model_profile persistence))
         | _ \<Rightarrow> driver_error DP_kUnsupportedProfile profile_kind ''Unicore driver does not support the requested profile''))"

fun BuildRoverProfile :: "ReceiverDriver \<Rightarrow> ReceiverCommandSafetyLevel \<Rightarrow> ReceiverDriverProfileBuildResult" where
  "BuildRoverProfile (NmeaDriver _) safety_level = MakeUnsupportedProfileResult PF_kRover"
| "BuildRoverProfile (UbloxDriver _) safety_level = ublox_BuildProfile PF_kRover safety_level"
| "BuildRoverProfile (UnicoreDriver _ m) safety_level = unicore_BuildProfile m PF_kRover safety_level"

fun BuildDiagnosticsProfile :: "ReceiverDriver \<Rightarrow> ReceiverCommandSafetyLevel \<Rightarrow> ReceiverDriverProfileBuildResult" where
  "BuildDiagnosticsProfile (NmeaDriver _) safety_level = MakeUnsupportedProfileResult PF_kDiagnosticsOutput"
| "BuildDiagnosticsProfile (UbloxDriver _) safety_level = ublox_BuildProfile PF_kDiagnosticsOutput safety_level"
| "BuildDiagnosticsProfile (UnicoreDriver _ m) safety_level = unicore_BuildProfile m PF_kDiagnosticsOutput safety_level"

text \<open>Only the u-blox driver overrides the one of the base class.\<close>

fun BuildBaseProfile :: "ReceiverDriver \<Rightarrow> ReceiverCommandSafetyLevel \<Rightarrow> ReceiverDriverProfileBuildResult" where
  "BuildBaseProfile (UbloxDriver _) safety_level = ublox_BuildProfile PF_kBase safety_level"
| "BuildBaseProfile _ safety_level =
     driver_error DP_kUnsupportedProfile PF_kBase ''base profile generation is not supported by this driver''"

section \<open>The commands of the builders\<close>

lemma append_frames_commands:
  "\<exists>n. upr_commands (append_frames level frames r) = upr_commands r
       @ map (\<lambda>(out, f). MakeUbloxCommand (ResolveCommandKind out) level (cb_frame f)) (take n frames)
     \<and> list_all (\<lambda>(out, f). cb_status f = CB_kOk) (take n frames)
     \<and> (if list_all (\<lambda>(out, f). cb_status f = CB_kOk) frames
        then take n frames = frames \<and> upr_status (append_frames level frames r) = upr_status r
        else upr_status (append_frames level frames r) = UP_kBuilderError)"
proof (induction level frames r rule: append_frames.induct)
  case (2 level out f rest r)
  let ?r1 = "fst (AppendBuilderFrame r (ResolveCommandKind out) level f)"
  show ?case
  proof (cases "cb_status f = CB_kOk")
    case False
    then show ?thesis by (intro exI [of _ 0]) (simp add: AppendBuilderFrame_def)
  next
    case True
    then have step: "append_frames level ((out, f) # rest) r = append_frames level rest ?r1"
      "upr_commands ?r1 = upr_commands r @ [MakeUbloxCommand (ResolveCommandKind out) level (cb_frame f)]"
      "upr_status ?r1 = upr_status r"
      by (simp_all add: AppendBuilderFrame_def)
    from True have "AppendBuilderFrame r (ResolveCommandKind out) level f = (?r1, True)"
      by (simp add: AppendBuilderFrame_def)
    from 2 [OF this [symmetric] refl] obtain n where
      "upr_commands (append_frames level rest ?r1) = upr_commands ?r1
         @ map (\<lambda>(out, f). MakeUbloxCommand (ResolveCommandKind out) level (cb_frame f)) (take n rest)"
      "list_all (\<lambda>(out, f). cb_status f = CB_kOk) (take n rest)"
      "if list_all (\<lambda>(out, f). cb_status f = CB_kOk) rest
        then take n rest = rest \<and> upr_status (append_frames level rest ?r1) = upr_status ?r1
        else upr_status (append_frames level rest ?r1) = UP_kBuilderError" by blast
    then show ?thesis using True step by (intro exI [of _ "Suc n"]) (simp split: if_splits)
  qed
qed simp

lemma profile_frames_valset:
  assumes "(out, f) \<in> set (profile_frames profile)" and "cb_status f = CB_kOk"
  shows "\<exists>kv. f = BuildUbxCfgValsetFrame (up_target_layers profile) [kv] Txn_kNone"
  using assms
  by (auto simp: profile_frames_def BuildUart1BaudrateFrame_def BuildUart2BaudrateFrame_def BuildRateHzFrame_def
      BuildDisableMessageFrame_def BuildEnableMessageRateFrame_def BuildEnableConstellationFrame_def
      BuildUbxCfgValsetFrame1_def MakeError_def Let_def split: option.splits if_splits double.splits)

text \<open>Without a persistent layer, an accepted frame is for the RAM alone.\<close>

lemma ram_mask:
  assumes "\<not> ContainsPersistentLayer layers" and "BuildValsetLayerMask layers \<noteq> 0"
  shows "BuildValsetLayerMask layers = 1"
proof -
  let ?step = "\<lambda>m layer. case layer of Layer_kRam \<Rightarrow> m OR push_bit 0 1 | Layer_kBbr \<Rightarrow> m OR push_bit 1 1
      | Layer_kFlash \<Rightarrow> m OR push_bit 2 1 | Layer_kDefault \<Rightarrow> m"
  have "\<not> ContainsPersistentLayer ls \<Longrightarrow> m0 \<in> {0, 1 :: u8} \<Longrightarrow> foldl ?step m0 ls \<in> {0, 1}" for m0 ls
  proof (induction ls arbitrary: m0)
    case (Cons layer ls)
    from Cons.prems have rest: "\<not> ContainsPersistentLayer ls" and layer: "layer = Layer_kRam \<or> layer = Layer_kDefault"
      by (simp add: ContainsPersistentLayer_def, cases layer) (simp_all add: ContainsPersistentLayer_def)
    from layer Cons.prems(2) have "?step m0 layer \<in> {0, 1}" by fastforce
    with rest show ?case unfolding foldl_Cons by (rule Cons.IH)
  qed simp
  from this [OF assms(1) insertI1]
  have "BuildValsetLayerMask layers \<in> {0, 1}" unfolding BuildValsetLayerMask_def .
  with assms(2) show ?thesis by simp
qed

lemma ublox_Build_command:
  assumes "c \<in> set (upr_commands (ublox_Build profile))"
  obtains kv where "rc_payload c = \<lparr>rcp_kind = PK_kBinary,
      rcp_binary = cb_frame (BuildUbxCfgValsetFrame (up_target_layers profile) [kv] Txn_kNone), rcp_text = []\<rparr>"
    and "cb_status (BuildUbxCfgValsetFrame (up_target_layers profile) [kv] Txn_kNone) = CB_kOk"
    and "rc_safety_level c = ResolveSafetyLevel profile" and "\<not> rc_explicit_safety_confirmation c"
proof -
  from assms have "up_ValidateProfile profile = None"
    by (auto simp: ublox_Build_def UbloxConfigProfileBuildResult_default_def split: option.splits)
  then have build: "ublox_Build profile
      = append_frames (ResolveSafetyLevel profile) (profile_frames profile) UbloxConfigProfileBuildResult_default"
    by (simp add: ublox_Build_def)
  from append_frames_commands [of "ResolveSafetyLevel profile" "profile_frames profile" UbloxConfigProfileBuildResult_default]
  obtain n where n: "upr_commands (ublox_Build profile)
      = map (\<lambda>(out, f). MakeUbloxCommand (ResolveCommandKind out) (ResolveSafetyLevel profile) (cb_frame f))
          (take n (profile_frames profile))"
    and ok: "list_all (\<lambda>(out, f). cb_status f = CB_kOk) (take n (profile_frames profile))"
    unfolding build by (auto simp: UbloxConfigProfileBuildResult_default_def)
  from assms obtain out f where f: "(out, f) \<in> set (take n (profile_frames profile))"
    and c: "c = MakeUbloxCommand (ResolveCommandKind out) (ResolveSafetyLevel profile) (cb_frame f)"
    unfolding n by auto
  from f ok have status: "cb_status f = CB_kOk" by (auto simp: list_all_iff)
  from f have "(out, f) \<in> set (profile_frames profile)" by (rule in_set_takeD)
  from profile_frames_valset [OF this status] obtain kv
    where kv: "f = BuildUbxCfgValsetFrame (up_target_layers profile) [kv] Txn_kNone" by blast
  show thesis
    by (rule that [of kv])
      (use status in \<open>simp_all add: c kv MakeUbloxCommand_def SetBinaryPayload_def ReceiverCommand_default_def\<close>)
qed

section \<open>Properties\<close>

text \<open>A command that writes nothing to the receiver's non-volatile memory: a CFG-VALSET frame for one item whose layer mask is
  that of the RAM, or a text that is neither of the two commands that save or reset the configuration.\<close>

definition volatile_valset :: "ReceiverCommand \<Rightarrow> bool" where
  "volatile_valset c \<longleftrightarrow>
     (\<exists>payload kv. GetPayloadView (rc_payload c) = BuildUbxFrame 0x06 0x8A payload
        \<and> take 4 payload = [0x01, 0x01, 0x00, 0x00] \<and> decode_items (drop 4 payload) = Some [item_of kv])"

definition volatile_text :: "ReceiverCommand \<Rightarrow> bool" where
  "volatile_text c \<longleftrightarrow>
     GetPayloadView (rc_payload c) \<noteq> bytes_of (FormatTextCommand ''SAVECONFIG'')
     \<and> GetPayloadView (rc_payload c) \<noteq> bytes_of (FormatTextCommand ''FRESET'')"

lemma ublox_command_volatile:
  assumes "c \<in> set (upr_commands (ublox_Build profile))" and "HasSafeDispatchApproval c"
  shows "volatile_valset c"
proof -
  from assms(1) obtain kv where c: "rc_payload c = \<lparr>rcp_kind = PK_kBinary,
      rcp_binary = cb_frame (BuildUbxCfgValsetFrame (up_target_layers profile) [kv] Txn_kNone), rcp_text = []\<rparr>"
    "cb_status (BuildUbxCfgValsetFrame (up_target_layers profile) [kv] Txn_kNone) = CB_kOk"
    "rc_safety_level c = ResolveSafetyLevel profile" "\<not> rc_explicit_safety_confirmation c"
    by (rule ublox_Build_command)
  let ?mask = "BuildValsetLayerMask (up_target_layers profile)"
  from c(3,4) assms(2) have "\<not> ContainsPersistentLayer (up_target_layers profile)"
    by (auto simp: HasSafeDispatchApproval_def RequiresExplicitSafetyConfirmation_def ResolveSafetyLevel_def split: if_splits)
  moreover from c(2) have "?mask \<noteq> 0"
    by (auto simp: BuildUbxCfgValsetFrame_def MakeError_def Let_def)
  ultimately have mask: "?mask = 1" by (rule ram_mask)
  from ValsetFrame_ok [OF c(2)] obtain payload
    where items: "append_items [0x01, ?mask, transaction_code Txn_kNone, 0x00] [kv] = Some payload"
      and frame: "BuildUbxCfgValsetFrame (up_target_layers profile) [kv] Txn_kNone = MakeFrameResult payload 0x8A" .
  from append_items_decode [OF items] obtain tail
    where "payload = [0x01, ?mask, transaction_code Txn_kNone, 0x00] @ tail" "decode_items tail = Some [item_of kv]" by auto
  then show ?thesis
    unfolding volatile_valset_def
    by (intro exI [of _ payload] exI [of _ kv])
      (simp add: c(1) frame MakeFrameResult_def GetPayloadView_def mask)
qed

text \<open>How the texts of the builder start that change the running configuration.\<close>

definition runtime_text :: "string \<Rightarrow> bool" where
  "runtime_text t \<longleftrightarrow> prefix ''CONFIG '' t \<or> prefix ''MODE '' t \<or> (\<exists>m. prefix (ToOutputMessageName m) t)"

lemma not_saving: "runtime_text t \<Longrightarrow> t @ e \<noteq> ''SAVECONFIG'' @ e \<and> t @ e \<noteq> ''FRESET'' @ e"
  unfolding runtime_text_def by (elim disjE exE, simp_all add: prefix_def, force, force, case_tac m, auto)

lemma unicore_texts:
  "c \<in> set (text_commands target kind level response t policy)
   \<Longrightarrow> rc_payload c = \<lparr>rcp_kind = PK_kText, rcp_binary = [], rcp_text = FormatTextCommand t\<rparr>
     \<and> rc_safety_level c = level \<and> \<not> rc_explicit_safety_confirmation c \<and> t \<noteq> []"
  by (auto simp: text_commands_def MakeTextCommand_def SetTextPayload_def ReceiverCommand_default_def split: if_splits)

lemma runtime_text_mode: "BuildModeCommand m \<noteq> [] \<Longrightarrow> runtime_text (BuildModeCommand m)"
  by (cases m) (simp_all add: runtime_text_def prefix_def)

lemma runtime_text_config: "runtime_text (''CONFIG '' @ t)"
  by (simp add: runtime_text_def prefix_def)

lemma runtime_text_output: "runtime_text (BuildOutputCommand output)"
proof -
  have "prefix (ToOutputMessageName (uom_message output)) (BuildOutputCommand output)"
    by (simp add: BuildOutputCommand_def Let_def split: option.split double.split)
  then show ?thesis unfolding runtime_text_def by blast
qed

lemma FormatTextCommand_inject: "FormatTextCommand s = FormatTextCommand t \<longleftrightarrow> s = t"
  by (simp add: FormatTextCommand_def)

lemma bytes_of_inject: "bytes_of s = bytes_of t \<longleftrightarrow> s = t"
  by (simp add: inj_map_eq_map inj_def)

lemma unicore_command_volatile:
  assumes "c \<in> set (ucr_commands (unicore_Build profile))" and "HasSafeDispatchApproval c"
  shows "volatile_text c"
proof -
  from assms(1) have c: "c \<in> set (profile_commands profile)" by (auto simp: unicore_Build_def split: option.splits)
  have runtime: "rc_safety_level c = SL_kRuntime"
    using assms(2) c by (auto dest!: unicore_texts simp: HasSafeDispatchApproval_def RequiresExplicitSafetyConfirmation_def
        profile_commands_def runtime_command_def Let_def split: if_splits option.splits)
  obtain t where t: "rc_payload c = \<lparr>rcp_kind = PK_kText, rcp_binary = [], rcp_text = FormatTextCommand t\<rparr>"
    "runtime_text t"
    using c runtime
    by (auto dest!: unicore_texts simp: profile_commands_def runtime_command_def BuildCom1Command_def FormatTextCommand_inject
        runtime_text_mode runtime_text_output runtime_text_config [simplified] Let_def split: if_splits option.splits)
  from not_saving [OF t(2), of "[]"] show ?thesis
    by (simp add: t(1) volatile_text_def bytes_of_inject FormatTextCommand_inject GetPayloadView_def)
qed

text \<open>C11. No command of a configuration profile reaches the non-volatile memory of a receiver unconfirmed.  Whatever profile
  the builders are given, a command of theirs that may be dispatched without a confirmation is, for a u-blox receiver, a
  CFG-VALSET frame for one item in the RAM layer alone and, for a Unicore receiver, neither the command that saves the
  configuration nor the one that resets it.\<close>

theorem unconfirmed_commands_do_not_persist:
  "list_all (\<lambda>c. volatile_valset c \<or> HasSafeDispatchApproval c = False) (upr_commands (ublox_Build ublox_profile))
   \<and> list_all (\<lambda>c. volatile_text c \<or> HasSafeDispatchApproval c = False) (ucr_commands (unicore_Build unicore_profile))"
  using ublox_command_volatile unicore_command_volatile by (auto simp: list_all_iff)

end
