(* ===== verification/Spec2Isabelle.thy ===== *)
theory Spec2Isabelle
  imports Ubx_Framer Rtcm_Framer Unicore_Binary_Framer Nmea_Framer Unicore_Framer Ubx_Cfg_Builder
    Transport Ring_Buffer Rtcm_Frame_Writer Receiver_Command Command_Dispatcher Transaction_Engine
    Config_Application Response_Routers Apply_Causality Apply_Loop Ntrip_Orchestrator
    Ntrip_Session Mavlink_Rtcm Local_Caster Rtcm_Parser Supervisor_Properties Message_Updates
    Freshness_History Ntrip_Sourcetable Gga_Roundtrip Gga_Injection Ublox_Chunks Ublox_Streams Nmea_Session Unicore_Fallback Receiver_Drivers
begin

text \<open>
  A verification development of the universal GNSS stack.
\<close>

end
